(* ===== verification/Miku_Base.thy ===== *)
theory Miku_Base
  imports Main "HOL-Library.Word"
begin

text \<open>
  Prelude of the development: faults as values, C++ \<open>int\<close> as a 32-bit two's complement
  number written over \<open>int\<close>, bytes and their copying, little-endian integers, and
  \<open>std::map\<close> as a strictly sorted association list. The lemmas the components share are
  declared here, either as simplification rules or in the collection \<open>res_simps\<close>.
\<close>

named_theorems res_simps
named_theorems inv_defs

section \<open>Faults and results\<close>

text \<open>
  A run of a C++ function either returns a value or goes wrong. What goes wrong is a value
  of type \<open>fault\<close>: an access outside an allocated object, a dereference of a null
  pointer, a lock that is already held (the call never returns), a use of an object through
  a pointer of another class, any other undefined behaviour, and a loop that never ends.
\<close>

datatype fault = Out_of_bounds | Null_deref | Blocked | Bad_cast | Undefined | Diverges

type_synonym 'a res = "fault + 'a"

fun res_bind :: "'a res \<Rightarrow> ('a \<Rightarrow> 'b res) \<Rightarrow> 'b res" where
  "res_bind (Inl e) f = Inl e"
| "res_bind (Inr x) f = f x"

fun is_ret :: "'a res \<Rightarrow> bool" where
  "is_ret (Inl _) = False"
| "is_ret (Inr _) = True"

lemma res_bind_cong [fundef_cong]:
  "m = n \<Longrightarrow> (\<And>x. n = Inr x \<Longrightarrow> f x = g x) \<Longrightarrow> res_bind m f = res_bind n g"
  by (cases m; cases n) auto

lemma res_bind_Inr_iff [res_simps]:
  "res_bind m f = Inr y \<longleftrightarrow> (\<exists>x. m = Inr x \<and> f x = Inr y)"
  by (cases m) auto

lemma res_bind_Inl_iff [res_simps]:
  "res_bind m f = Inl e \<longleftrightarrow> m = Inl e \<or> (\<exists>x. m = Inr x \<and> f x = Inl e)"
  by (cases m) auto

lemma res_bind_assoc: "res_bind (res_bind m f) g = res_bind m (\<lambda>x. res_bind (f x) g)"
  by (cases m) auto

text \<open>A pointer is null or an address; dereferencing null is a fault.\<close>

type_synonym ptr = "nat option"

fun deref :: "ptr \<Rightarrow> nat res" where
  "deref None = Inl Null_deref"
| "deref (Some a) = Inr a"

section \<open>C++ \<open>int\<close>\<close>

definition in_i32 :: "int \<Rightarrow> bool" where
  "in_i32 x \<longleftrightarrow> - 2147483648 \<le> x \<and> x < 2147483648"

definition wrap32 :: "int \<Rightarrow> int" where
  "wrap32 x = (x + 2147483648) mod 4294967296 - 2147483648"

lemma wrap32_id [simp]: "in_i32 x \<Longrightarrow> wrap32 x = x"
  by (simp add: wrap32_def in_i32_def)

lemma in_i32_wrap32 [simp]: "in_i32 (wrap32 x)"
proof -
  have "0 \<le> (x + 2147483648) mod 4294967296" by simp
  moreover have "(x + 2147483648) mod 4294967296 < 4294967296" by simp
  ultimately show ?thesis unfolding wrap32_def in_i32_def by linarith
qed

lemma wrap32_mod: "wrap32 (x mod 4294967296) = wrap32 x"
  by (simp add: wrap32_def mod_add_left_eq)

section \<open>Bytes\<close>

type_synonym byte = "8 word"

definition byte_of :: "int \<Rightarrow> byte" where
  "byte_of x = word_of_int x"

lemma uint_byte_of [simp]: "uint (byte_of x) = x mod 256"
  by (simp add: byte_of_def uint_word_of_int)

text \<open>\<open>memcpy(p, &x, 4)\<close> and \<open>*(int *)p\<close> on the little-endian machines the makefiles target.\<close>

definition le4 :: "int \<Rightarrow> byte list" where
  "le4 x = [byte_of x, byte_of (x div 256), byte_of (x div 65536), byte_of (x div 16777216)]"

fun of_le4 :: "byte list \<Rightarrow> int" where
  "of_le4 (a # b # c # d # _) =
     wrap32 (uint a + 256 * uint b + 65536 * uint c + 16777216 * uint d)"
| "of_le4 _ = 0"

lemma length_le4 [simp]: "length (le4 x) = 4"
  by (simp add: le4_def)

lemma horner4:
  "(X::int) = 256 * Y + a \<Longrightarrow> Y = 256 * Z + b \<Longrightarrow> Z = 256 * d + c \<Longrightarrow>
   a + 256 * b + 65536 * c + 16777216 * d = X"
  by simp

lemma digits4:
  "(x::int) mod 256 + 256 * (x div 256 mod 256) + 65536 * (x div 65536 mod 256)
     + 16777216 * (x div 16777216 mod 256) = x mod 4294967296"
proof -
  have "x mod 4294967296 = 256 * (x div 256 mod 16777216) + x mod 256"
    using zmod_zmult2_eq [of 16777216 x 256] by simp
  moreover have "x div 256 mod 16777216 = 256 * (x div 65536 mod 65536) + x div 256 mod 256"
    using zmod_zmult2_eq [of 65536 "x div 256" 256] by (simp add: zdiv_zmult2_eq [symmetric])
  moreover have "x div 65536 mod 65536 = 256 * (x div 16777216 mod 256) + x div 65536 mod 256"
    using zmod_zmult2_eq [of 256 "x div 65536" 256] by (simp add: zdiv_zmult2_eq [symmetric])
  ultimately show ?thesis by (rule horner4)
qed

lemma of_le4_le4 [simp]: "in_i32 x \<Longrightarrow> of_le4 (le4 x @ bs) = x"
  by (simp add: le4_def digits4 wrap32_mod)

lemma of_le4_le4_only [simp]: "in_i32 x \<Longrightarrow> of_le4 (le4 x) = x"
  using of_le4_le4 [of x "[]"] by simp

lemma in_i32_of_le4 [simp]: "in_i32 (of_le4 bs)"
proof (cases bs rule: of_le4.cases)
  case (1 a b c d xs)
  then show ?thesis by simp
qed (simp_all add: in_i32_def)

text \<open>Every four bytes are the bytes of the integer they encode.\<close>

lemma wrap32_eq: "\<exists>k. wrap32 v = v + 4294967296 * k"
proof -
  have "wrap32 v = v + 4294967296 * (- ((v + 2147483648) div 4294967296))"
    unfolding wrap32_def by (simp add: minus_div_mult_eq_mod [symmetric])
  then show ?thesis by blast
qed

lemma byte_of_cong: "x mod 256 = y mod 256 \<Longrightarrow> byte_of x = byte_of y"
  by (rule word_uint_eqI) simp

lemma div_mod_add_multiple:
  fixes v :: int
  assumes "n = m * (256 * k)" "0 < m"
  shows "(v + n) div m mod 256 = v div m mod 256"
proof -
  have "(v + n) div m = 256 * k + v div m"
    unfolding assms(1) by (rule div_mult_self2) (use assms(2) in simp)
  then show ?thesis by (simp only: mod_mult_self4)
qed

lemma le4_add_multiple: "le4 (v + 4294967296 * k) = le4 v"
proof -
  let ?n = "4294967296 * k"
  have "(v + ?n) div 1 mod 256 = v div 1 mod 256"
    by (rule div_mod_add_multiple [where k = "16777216 * k"]) simp_all
  then have a: "byte_of (v + ?n) = byte_of v"
    by (intro byte_of_cong) (simp only: div_by_1)
  have b: "byte_of ((v + ?n) div 256) = byte_of (v div 256)"
    by (intro byte_of_cong div_mod_add_multiple [where k = "65536 * k"]) simp_all
  have c: "byte_of ((v + ?n) div 65536) = byte_of (v div 65536)"
    by (intro byte_of_cong div_mod_add_multiple [where k = "256 * k"]) simp_all
  have d: "byte_of ((v + ?n) div 16777216) = byte_of (v div 16777216)"
    by (intro byte_of_cong div_mod_add_multiple [where k = k]) simp_all
  show ?thesis unfolding le4_def a b c d ..
qed

lemma byte_of_uint_add: "byte_of (uint a + 256 * y) = a"
  by (rule word_uint_eqI) (simp add: uint_lt2p [where x = a, simplified])

lemma digits_div:
  "0 \<le> a \<Longrightarrow> a < 256 \<Longrightarrow> (a + 256 * y) div 256 = (y::int)"
  by simp

lemma le4_horner:
  assumes "v = uint a + 256 * x" "x = uint b + 256 * y" "y = uint c + 256 * uint d"
  shows "le4 v = [a, b, c, d]"
proof -
  have d1: "v div 256 = x"
    unfolding assms(1) by (rule digits_div) (use uint_lt2p [of a] in simp_all)
  have d2: "x div 256 = y"
    unfolding assms(2) by (rule digits_div) (use uint_lt2p [of b] in simp_all)
  have d3: "y div 256 = uint d"
    unfolding assms(3) by (rule digits_div) (use uint_lt2p [of c] in simp_all)
  have d12: "v div 65536 = y"
    using zdiv_zmult2_eq [of 256 v 256] d1 d2 by simp
  have d123: "v div 16777216 = uint d"
    using zdiv_zmult2_eq [of 256 v 65536] d12 d3 by simp
  have "byte_of v = a" "byte_of x = b" "byte_of y = c"
    unfolding assms by (rule byte_of_uint_add)+
  moreover have "byte_of (uint d) = d"
    using byte_of_uint_add [of d 0] by simp
  ultimately show ?thesis by (simp add: le4_def d1 d12 d123)
qed

lemma le4_of_le4 [simp]: "length bs = 4 \<Longrightarrow> le4 (of_le4 bs) = bs"
proof -
  assume "length bs = 4"
  then obtain a b c d where bs: "bs = [a, b, c, d]"
    by (auto simp: length_Suc_conv eval_nat_numeral)
  let ?v = "uint a + 256 * (uint b + 256 * (uint c + 256 * uint d))"
  have "le4 ?v = [a, b, c, d]"
    by (rule le4_horner) (rule refl)+
  moreover have "of_le4 bs = wrap32 ?v" by (simp add: bs algebra_simps)
  moreover obtain k where "wrap32 ?v = ?v + 4294967296 * k" using wrap32_eq by blast
  ultimately show ?thesis using le4_add_multiple [of ?v k] bs by simp
qed

section \<open>Memory blocks\<close>

text \<open>
  A block of memory is the list of its bytes. Reading or writing \<open>n\<close> bytes at offset
  \<open>off\<close> is a fault when they do not lie in the block; a negative \<open>n\<close> is one too,
  since \<open>memcpy\<close> takes it as a huge \<open>size_t\<close>.
\<close>

definition mem_read :: "'a list \<Rightarrow> int \<Rightarrow> int \<Rightarrow> 'a list res" where
  "mem_read m off n =
     (if off < 0 \<or> n < 0 \<or> int (length m) < off + n then Inl Out_of_bounds
      else Inr (take (nat n) (drop (nat off) m)))"

definition mem_write :: "'a list \<Rightarrow> int \<Rightarrow> 'a list \<Rightarrow> 'a list res" where
  "mem_write m off xs =
     (if off < 0 \<or> int (length m) < off + int (length xs) then Inl Out_of_bounds
      else Inr (take (nat off) m @ xs @ drop (nat off + length xs) m))"

text \<open>\<open>memcpy(dst + doff, src + soff, n)\<close> between two blocks: the new destination.\<close>

definition memcpy :: "'a list \<Rightarrow> int \<Rightarrow> 'a list \<Rightarrow> int \<Rightarrow> int \<Rightarrow> 'a list res" where
  "memcpy dst doff src soff n = res_bind (mem_read src soff n) (\<lambda>xs. mem_write dst doff xs)"

lemma mem_read_ok [simp]:
  "0 \<le> off \<Longrightarrow> 0 \<le> n \<Longrightarrow> off + n \<le> int (length m) \<Longrightarrow>
   mem_read m off n = Inr (take (nat n) (drop (nat off) m))"
  by (simp add: mem_read_def)

lemma mem_read_nat [simp]:
  "a + n \<le> length m \<Longrightarrow> mem_read m (int a) (int n) = Inr (take n (drop a m))"
  by (simp add: mem_read_def)

lemma mem_read_0_nat [simp]: "n \<le> length m \<Longrightarrow> mem_read m 0 (int n) = Inr (take n m)"
  by (simp add: mem_read_def)

text \<open>Reading a block that is a concatenation of pieces: skip whole pieces, then read one.\<close>

lemma mem_read_skip:
  "int (length xs) \<le> off \<Longrightarrow> mem_read (xs @ ys) off n = mem_read ys (off - int (length xs)) n"
  by (auto simp: mem_read_def nat_diff_distrib)

lemma mem_read_piece: "n = int (length xs) \<Longrightarrow> mem_read (xs @ ys) 0 n = Inr xs"
  by (simp add: mem_read_def)

lemmas mem_read_pieces = mem_read_skip mem_read_piece

lemma mem_read_InrD: "mem_read m off n = Inr xs \<Longrightarrow>
  0 \<le> off \<and> 0 \<le> n \<and> off + n \<le> int (length m) \<and> xs = take (nat n) (drop (nat off) m)
  \<and> length xs = nat n"
  by (auto simp: mem_read_def split: if_splits)

lemma mem_write_nat [simp]:
  "a + length xs \<le> length m \<Longrightarrow>
   mem_write m (int a) xs = Inr (take a m @ xs @ drop (a + length xs) m)"
  by (simp add: mem_write_def)

lemma mem_write_0 [simp]:
  "length xs \<le> length m \<Longrightarrow> mem_write m 0 xs = Inr (xs @ drop (length xs) m)"
  by (simp add: mem_write_def)

lemma mem_write_length: "mem_write m off xs = Inr m' \<Longrightarrow> length m' = length m"
  by (auto simp: mem_write_def split: if_splits)

lemma memcpy_0_0 [simp]:
  "n \<le> length src \<Longrightarrow> n \<le> length dst \<Longrightarrow>
   memcpy dst 0 src 0 (int n) = Inr (take n src @ drop n dst)"
  by (simp add: memcpy_def)

lemma memcpy_neg: "n < 0 \<Longrightarrow> memcpy dst doff src soff n = Inl Out_of_bounds"
  by (simp add: memcpy_def mem_read_def)

lemma memcpy_length: "memcpy dst doff src soff n = Inr m \<Longrightarrow> length m = length dst"
  by (auto simp: memcpy_def res_simps mem_write_length)

text \<open>The C string stored in a character array: it must be terminated inside the array.\<close>

definition cstr :: "byte list \<Rightarrow> byte list res" where
  "cstr bs = (if 0 \<in> set bs then Inr (takeWhile (\<lambda>b. b \<noteq> 0) bs) else Inl Out_of_bounds)"

section \<open>\<open>std::map\<close>\<close>

text \<open>
  A \<open>std::map\<close> is the list of its entries in key order. \<open>map_put\<close> is insertion or
  assignment, \<open>map_erase\<close> removes a key, \<open>map_index\<close> is \<open>operator[]\<close>: it returns the
  entry's value and inserts the default when there is none. \<open>map_next\<close> is \<open>++it\<close> on an
  iterator that stands at key \<open>k\<close>.
\<close>

fun map_put :: "'k::linorder \<Rightarrow> 'v \<Rightarrow> ('k \<times> 'v) list \<Rightarrow> ('k \<times> 'v) list" where
  "map_put k v [] = [(k, v)]"
| "map_put k v (e # m) =
     (if fst e < k then e # map_put k v m
      else if fst e = k then (k, v) # m else (k, v) # e # m)"

definition map_erase :: "'k \<Rightarrow> ('k \<times> 'v) list \<Rightarrow> ('k \<times> 'v) list" where
  "map_erase k m = filter (\<lambda>e. fst e \<noteq> k) m"

definition map_index :: "'v \<Rightarrow> ('k::linorder \<times> 'v) list \<Rightarrow> 'k \<Rightarrow> 'v \<times> ('k \<times> 'v) list" where
  "map_index d m k =
     (case map_of m k of Some v \<Rightarrow> (v, m) | None \<Rightarrow> (d, map_put k d m))"

definition map_next :: "'k::linorder \<Rightarrow> ('k \<times> 'v) list \<Rightarrow> ('k \<times> 'v) option" where
  "map_next k m = find (\<lambda>e. k < fst e) m"

definition map_ordered :: "('k::linorder \<times> 'v) list \<Rightarrow> bool" where
  "map_ordered m \<longleftrightarrow> sorted_wrt (<) (map fst m)"

lemma map_of_put [simp]: "map_of (map_put k v m) = (map_of m)(k \<mapsto> v)"
  by (induction m) (auto simp: fun_eq_iff)

lemma map_of_erase [simp]: "map_of (map_erase k m) = (map_of m)(k := None)"
  unfolding map_erase_def by (induction m) (auto simp: fun_eq_iff)

lemma keys_put: "fst ` set (map_put k v m) = insert k (fst ` set m)"
  by (induction m) auto

lemma keys_erase: "fst ` set (map_erase k m) = fst ` set m - {k}"
  by (auto simp: map_erase_def)

lemma map_ordered_Nil [simp]: "map_ordered []"
  by (simp add: map_ordered_def)

lemma map_ordered_Cons:
  "map_ordered (e # m) \<longleftrightarrow> (\<forall>k \<in> fst ` set m. fst e < k) \<and> map_ordered m"
  by (simp add: map_ordered_def)

lemma map_ordered_put [simp]: "map_ordered m \<Longrightarrow> map_ordered (map_put k v m)"
  by (induction m) (auto simp: map_ordered_Cons keys_put simp del: set_map)

lemma map_ordered_erase [simp]: "map_ordered m \<Longrightarrow> map_ordered (map_erase k m)"
  by (induction m) (auto simp: map_ordered_Cons map_erase_def)

lemma map_ordered_distinct: "map_ordered m \<Longrightarrow> distinct (map fst m)"
  by (induction m) (auto simp: map_ordered_Cons)

lemma map_put_same [simp]:
  "map_ordered m \<Longrightarrow> map_of m k = Some v \<Longrightarrow> map_put k v m = m"
  by (induction m) (force simp: map_ordered_Cons dest: map_of_SomeD split: if_splits)+

lemma map_index_fst: "fst (map_index d m k) = (case map_of m k of Some v \<Rightarrow> v | None \<Rightarrow> d)"
  by (simp add: map_index_def split: option.splits)

lemma map_index_ordered [simp]: "map_ordered m \<Longrightarrow> map_ordered (snd (map_index d m k))"
  by (simp add: map_index_def split: option.splits)

lemma map_of_index:
  "map_of (snd (map_index d m k)) = (map_of m)(k \<mapsto> fst (map_index d m k))"
  by (auto simp: map_index_def fun_eq_iff split: option.splits)

lemma map_next_split:
  "map_ordered (xs @ (k, v) # ys) \<Longrightarrow>
   map_next k (xs @ (k, v) # ys) = (case ys of [] \<Rightarrow> None | e # _ \<Rightarrow> Some e)"
  unfolding map_next_def
  by (induction xs) (auto simp: map_ordered_Cons split: list.splits)

lemma map_put_head:
  "(\<forall>k' \<in> fst ` set m. k < k') \<Longrightarrow> map_put k v m = (k, v) # m"
  by (cases m) auto

end
