(* ===== verification/Packets.thy ===== *)
theory Packets
  imports Miku_Base
begin

text \<open>
  The two hand-written envelopes of \<open>packet/\<close>: \<open>StruCytPacket\<close> (client and server messages)
  and \<open>GateRoomServerPack\<close> (the wrapper between gate and room server). Both are three bytes
  of head, three 4-byte integers of which the last is the payload length, the payload and
  three bytes of tail. Lemmas: what parsing and serialising do on every branch, the round
  trip, when a parse stays inside its buffer and when it does not.
\<close>

section \<open>\<open>StruCytPacket\<close>\<close>

record StruCytPacket =
  cyt_str_head :: "byte list"
  cyt_room_id :: int
  cyt_msg_len :: int
  cyt_msg_type :: int
  cyt_msg_data :: "byte list"
  cyt_str_tail :: "byte list"

text \<open>
  The constructor leaves the three integers indeterminate; they are the argument \<open>j\<close>. Every
  use in the program sets or parses all three before it reads one.
\<close>

definition cyt_new :: "int \<Rightarrow> StruCytPacket" where
  "cyt_new j = \<lparr>cyt_str_head = [], cyt_room_id = j, cyt_msg_len = j, cyt_msg_type = j,
     cyt_msg_data = [], cyt_str_tail = []\<rparr>"

definition cyt_set_str_head :: "byte list option \<Rightarrow> StruCytPacket \<Rightarrow> StruCytPacket" where
  "cyt_set_str_head head p = (case head of None \<Rightarrow> p | Some h \<Rightarrow> p\<lparr>cyt_str_head := h\<rparr>)"

definition cyt_set_str_tail :: "byte list option \<Rightarrow> StruCytPacket \<Rightarrow> StruCytPacket" where
  "cyt_set_str_tail tail p = (case tail of None \<Rightarrow> p | Some t \<Rightarrow> p\<lparr>cyt_str_tail := t\<rparr>)"

definition cyt_set_msg_data :: "byte list option \<Rightarrow> int \<Rightarrow> StruCytPacket \<Rightarrow> StruCytPacket res" where
  "cyt_set_msg_data data data_len p =
     (case data of
        None \<Rightarrow> Inr p
      | Some d \<Rightarrow>
          if 0 < data_len then res_bind (mem_read d 0 data_len) (\<lambda>bs. Inr (p\<lparr>cyt_msg_data := bs\<rparr>))
          else Inr p)"

definition cyt_ByteSize :: "StruCytPacket \<Rightarrow> int" where
  "cyt_ByteSize p = wrap32 (3 + 4 + 4 + 4 + cyt_msg_len p + 3)"

definition cyt_ParseFromArray ::
  "StruCytPacket \<Rightarrow> byte list option \<Rightarrow> int \<Rightarrow> (bool \<times> StruCytPacket) res" where
  "cyt_ParseFromArray p data data_len =
     (case data of
        None \<Rightarrow> Inr (False, p)
      | Some d \<Rightarrow>
          if data_len < 18 then Inr (False, p)
          else
            res_bind (mem_read d 0 3) (\<lambda>head.
            res_bind (mem_read d 3 4) (\<lambda>room.
            res_bind (mem_read d 7 4) (\<lambda>len.
            res_bind (mem_read d 11 4) (\<lambda>type.
              let p1 = p\<lparr>cyt_str_head := head, cyt_room_id := of_le4 room,
                         cyt_msg_len := of_le4 len, cyt_msg_type := of_le4 type\<rparr>
              in if cyt_msg_len p1 < 0 \<or> data_len < cyt_ByteSize p1 then Inr (False, p1)
                 else
                   res_bind (mem_read d 15 (cyt_msg_len p1)) (\<lambda>body.
                   res_bind (mem_read d (15 + cyt_msg_len p1) 3) (\<lambda>tail.
                     Inr (True, p1\<lparr>cyt_msg_data := body, cyt_str_tail := tail\<rparr>))))))))"

definition cyt_SerializeToArray ::
  "StruCytPacket \<Rightarrow> byte list option \<Rightarrow> int \<Rightarrow> (bool \<times> byte list) res" where
  "cyt_SerializeToArray p data data_len =
     (case data of
        None \<Rightarrow> Inr (False, [])
      | Some d \<Rightarrow>
          if data_len < cyt_ByteSize p then Inr (False, d)
          else
            res_bind (mem_read (cyt_str_head p @ [0]) 0 3) (\<lambda>head.
            res_bind (mem_read (cyt_str_tail p @ [0]) 0 3) (\<lambda>tail.
            res_bind (mem_write d 0
                (head @ le4 (cyt_room_id p) @ le4 (cyt_msg_len p) @ le4 (cyt_msg_type p)
                 @ cyt_msg_data p @ tail)) (\<lambda>d'.
              Inr (True, d')))))"

section \<open>\<open>GateRoomServerPack\<close>\<close>

record GateRoomServerPack =
  gr_str_head :: "byte list"
  gr_user_hashkey :: int
  gr_gs_hashkey :: int
  gr_data_len :: int
  gr_data_msg :: "byte list"
  gr_str_tail :: "byte list"

definition gr_new :: "int \<Rightarrow> GateRoomServerPack" where
  "gr_new j = \<lparr>gr_str_head = [], gr_user_hashkey = j, gr_gs_hashkey = j, gr_data_len = j,
     gr_data_msg = [], gr_str_tail = []\<rparr>"

definition gr_set_str_head :: "byte list option \<Rightarrow> GateRoomServerPack \<Rightarrow> GateRoomServerPack" where
  "gr_set_str_head head p = (case head of None \<Rightarrow> p | Some h \<Rightarrow> p\<lparr>gr_str_head := h\<rparr>)"

definition gr_set_str_tail :: "byte list option \<Rightarrow> GateRoomServerPack \<Rightarrow> GateRoomServerPack" where
  "gr_set_str_tail tail p = (case tail of None \<Rightarrow> p | Some t \<Rightarrow> p\<lparr>gr_str_tail := t\<rparr>)"

definition gr_set_data_msg ::
  "byte list option \<Rightarrow> int \<Rightarrow> GateRoomServerPack \<Rightarrow> GateRoomServerPack res" where
  "gr_set_data_msg data data_len p =
     (case data of
        None \<Rightarrow> Inr p
      | Some d \<Rightarrow>
          if 0 < data_len then res_bind (mem_read d 0 data_len) (\<lambda>bs. Inr (p\<lparr>gr_data_msg := bs\<rparr>))
          else Inr p)"

definition gr_ByteSize :: "GateRoomServerPack \<Rightarrow> int" where
  "gr_ByteSize p = wrap32 (3 + 4 + 4 + 4 + gr_data_len p + 3)"

definition gr_ParseFromArray ::
  "GateRoomServerPack \<Rightarrow> byte list option \<Rightarrow> int \<Rightarrow> (bool \<times> GateRoomServerPack) res" where
  "gr_ParseFromArray p data data_len =
     (case data of
        None \<Rightarrow> Inr (False, p)
      | Some d \<Rightarrow>
          if data_len < 18 then Inr (False, p)
          else
            res_bind (mem_read d 0 3) (\<lambda>head.
            res_bind (mem_read d 3 4) (\<lambda>user.
            res_bind (mem_read d 7 4) (\<lambda>gs.
            res_bind (mem_read d 11 4) (\<lambda>len.
              let p1 = p\<lparr>gr_str_head := head, gr_user_hashkey := of_le4 user,
                         gr_gs_hashkey := of_le4 gs, gr_data_len := of_le4 len\<rparr>
              in if gr_data_len p1 < 0 \<or> data_len < gr_ByteSize p1 then Inr (False, p1)
                 else
                   res_bind (mem_read d 15 (gr_data_len p1)) (\<lambda>body.
                   res_bind (mem_read d (15 + gr_data_len p1) 3) (\<lambda>tail.
                     Inr (True, p1\<lparr>gr_data_msg := body, gr_str_tail := tail\<rparr>))))))))"

definition gr_SerializeToArray ::
  "GateRoomServerPack \<Rightarrow> byte list option \<Rightarrow> int \<Rightarrow> (bool \<times> byte list) res" where
  "gr_SerializeToArray p data data_len =
     (case data of
        None \<Rightarrow> Inr (False, [])
      | Some d \<Rightarrow>
          if data_len < gr_ByteSize p then Inr (False, d)
          else
            res_bind (mem_read (gr_str_head p @ [0]) 0 3) (\<lambda>head.
            res_bind (mem_read (gr_str_tail p @ [0]) 0 3) (\<lambda>tail.
            res_bind (mem_write d 0
                (head @ le4 (gr_user_hashkey p) @ le4 (gr_gs_hashkey p) @ le4 (gr_data_len p)
                 @ gr_data_msg p @ tail)) (\<lambda>d'.
              Inr (True, d')))))"

section \<open>Well-formed packets and their bytes\<close>

text \<open>
  A packet the program builds has a head and a tail of three characters, 32-bit fields and a
  length field that is the length of its payload. \<open>18 + length\<close> fits an \<open>int\<close>.
\<close>

definition cyt_wf :: "StruCytPacket \<Rightarrow> bool" where
  "cyt_wf p \<longleftrightarrow> length (cyt_str_head p) = 3 \<and> length (cyt_str_tail p) = 3
     \<and> in_i32 (cyt_room_id p) \<and> in_i32 (cyt_msg_type p)
     \<and> cyt_msg_len p = int (length (cyt_msg_data p)) \<and> in_i32 (cyt_msg_len p + 18)"

definition cyt_bytes :: "StruCytPacket \<Rightarrow> byte list" where
  "cyt_bytes p = cyt_str_head p @ le4 (cyt_room_id p) @ le4 (cyt_msg_len p)
     @ le4 (cyt_msg_type p) @ cyt_msg_data p @ cyt_str_tail p"

definition gr_wf :: "GateRoomServerPack \<Rightarrow> bool" where
  "gr_wf p \<longleftrightarrow> length (gr_str_head p) = 3 \<and> length (gr_str_tail p) = 3
     \<and> in_i32 (gr_user_hashkey p) \<and> in_i32 (gr_gs_hashkey p)
     \<and> gr_data_len p = int (length (gr_data_msg p)) \<and> in_i32 (gr_data_len p + 18)"

definition gr_bytes :: "GateRoomServerPack \<Rightarrow> byte list" where
  "gr_bytes p = gr_str_head p @ le4 (gr_user_hashkey p) @ le4 (gr_gs_hashkey p)
     @ le4 (gr_data_len p) @ gr_data_msg p @ gr_str_tail p"

lemma in_i32_less: "in_i32 (x + 18) \<Longrightarrow> 0 \<le> x \<Longrightarrow> in_i32 x"
  by (simp add: in_i32_def)

lemma cyt_wf_fields:
  assumes "cyt_wf p"
  shows "in_i32 (cyt_room_id p)" "in_i32 (cyt_msg_len p)" "in_i32 (cyt_msg_type p)"
    and "length (cyt_str_head p) = 3" "length (cyt_str_tail p) = 3"
    and "cyt_msg_len p = int (length (cyt_msg_data p))"
    and "cyt_ByteSize p = cyt_msg_len p + 18"
  using assms by (auto simp: cyt_wf_def cyt_ByteSize_def algebra_simps intro: in_i32_less)

lemma gr_wf_fields:
  assumes "gr_wf p"
  shows "in_i32 (gr_user_hashkey p)" "in_i32 (gr_gs_hashkey p)" "in_i32 (gr_data_len p)"
    and "length (gr_str_head p) = 3" "length (gr_str_tail p) = 3"
    and "gr_data_len p = int (length (gr_data_msg p))"
    and "gr_ByteSize p = gr_data_len p + 18"
  using assms by (auto simp: gr_wf_def gr_ByteSize_def algebra_simps intro: in_i32_less)

lemma length_cyt_bytes: "cyt_wf p \<Longrightarrow> length (cyt_bytes p) = length (cyt_msg_data p) + 18"
  by (simp add: cyt_bytes_def cyt_wf_def)

lemma length_gr_bytes: "gr_wf p \<Longrightarrow> length (gr_bytes p) = length (gr_data_msg p) + 18"
  by (simp add: gr_bytes_def gr_wf_def)

lemma cyt_ByteSize_bytes: "cyt_wf p \<Longrightarrow> cyt_ByteSize p = int (length (cyt_bytes p))"
  by (simp add: length_cyt_bytes cyt_wf_fields)

lemma gr_ByteSize_bytes: "gr_wf p \<Longrightarrow> gr_ByteSize p = int (length (gr_bytes p))"
  by (simp add: length_gr_bytes gr_wf_fields)

section \<open>What parsing and serialising do\<close>

text \<open>Parsing the bytes of a packet, whatever follows them in the buffer.\<close>

lemma cyt_parse_bytes:
  assumes "cyt_wf p" and "int (length (cyt_bytes p)) \<le> n"
  shows "cyt_ParseFromArray q (Some (cyt_bytes p @ rest)) n = Inr (True, p)"
proof -
  note wf = cyt_wf_fields [OF assms(1)]
  from assms have "18 \<le> n" "cyt_msg_len p + 18 \<le> n"
    by (simp_all add: length_cyt_bytes wf(6))
  then show ?thesis
    using wf
    by (simp add: cyt_ParseFromArray_def cyt_bytes_def mem_read_pieces Let_def cyt_ByteSize_def)
qed

lemma gr_parse_bytes:
  assumes "gr_wf p" and "int (length (gr_bytes p)) \<le> n"
  shows "gr_ParseFromArray q (Some (gr_bytes p @ rest)) n = Inr (True, p)"
proof -
  note wf = gr_wf_fields [OF assms(1)]
  from assms have "18 \<le> n" "gr_data_len p + 18 \<le> n"
    by (simp_all add: length_gr_bytes wf(6))
  then show ?thesis
    using wf
    by (simp add: gr_ParseFromArray_def gr_bytes_def mem_read_pieces Let_def gr_ByteSize_def)
qed

lemma cyt_serialize_bytes:
  assumes "cyt_wf p" and "length (cyt_bytes p) \<le> length d" and "cyt_ByteSize p \<le> n"
  shows "cyt_SerializeToArray p (Some d) n
           = Inr (True, cyt_bytes p @ drop (length (cyt_bytes p)) d)"
  using assms cyt_wf_fields [OF assms(1)]
  by (simp add: cyt_SerializeToArray_def cyt_bytes_def mem_read_piece)

lemma gr_serialize_bytes:
  assumes "gr_wf p" and "length (gr_bytes p) \<le> length d" and "gr_ByteSize p \<le> n"
  shows "gr_SerializeToArray p (Some d) n
           = Inr (True, gr_bytes p @ drop (length (gr_bytes p)) d)"
  using assms gr_wf_fields [OF assms(1)]
  by (simp add: gr_SerializeToArray_def gr_bytes_def mem_read_piece)


text \<open>
  Parsing when only the first \<open>n\<close> bytes of a packet have arrived: \<open>false\<close>, whatever the rest
  of the buffer holds.
\<close>

lemma cyt_parse_prefix:
  assumes "cyt_wf p" and "n < length (cyt_bytes p)" and "length (cyt_bytes p) \<le> length d"
    and "take n d = take n (cyt_bytes p)"
  shows "\<exists>q'. cyt_ParseFromArray q (Some d) (int n) = Inr (False, q')"
proof (cases "n < 18")
  case True
  then show ?thesis by (simp add: cyt_ParseFromArray_def)
next
  case False
  let ?hd = "cyt_str_head p @ le4 (cyt_room_id p) @ le4 (cyt_msg_len p) @ le4 (cyt_msg_type p)"
  note wf = cyt_wf_fields [OF assms(1)]
  have "take 15 d = take 15 (take n d)" using False by simp
  also have "\<dots> = ?hd" using False wf by (simp add: assms(4) cyt_bytes_def)
  finally obtain r where d: "d = ?hd @ r" by (metis append_take_drop_id)
  have "int n < cyt_msg_len p + 18" using assms(2) by (simp add: length_cyt_bytes [OF assms(1)] wf(6))
  then show ?thesis
    using wf False unfolding d
    by (simp add: cyt_ParseFromArray_def mem_read_pieces Let_def cyt_ByteSize_def)
qed

lemma gr_parse_prefix:
  assumes "gr_wf p" and "n < length (gr_bytes p)" and "length (gr_bytes p) \<le> length d"
    and "take n d = take n (gr_bytes p)"
  shows "\<exists>q'. gr_ParseFromArray q (Some d) (int n) = Inr (False, q')"
proof (cases "n < 18")
  case True
  then show ?thesis by (simp add: gr_ParseFromArray_def)
next
  case False
  let ?hd = "gr_str_head p @ le4 (gr_user_hashkey p) @ le4 (gr_gs_hashkey p) @ le4 (gr_data_len p)"
  note wf = gr_wf_fields [OF assms(1)]
  have "take 15 d = take 15 (take n d)" using False by simp
  also have "\<dots> = ?hd" using False wf by (simp add: assms(4) gr_bytes_def)
  finally obtain r where d: "d = ?hd @ r" by (metis append_take_drop_id)
  have "int n < gr_data_len p + 18" using assms(2) by (simp add: length_gr_bytes [OF assms(1)] wf(6))
  then show ?thesis
    using wf False unfolding d
    by (simp add: gr_ParseFromArray_def mem_read_pieces Let_def gr_ByteSize_def)
qed

text \<open>
  The length field of a header in a buffer. Up to \<open>2^31 - 19\<close> the size computed from it is
  exact and a parse stays inside the first \<open>n\<close> bytes; above, the sum overflows to a negative
  number, the check passes and the payload is read from outside the buffer.
\<close>

definition cyt_len_field :: "byte list \<Rightarrow> int" where
  "cyt_len_field d = of_le4 (take 4 (drop 7 d))"

definition gr_len_field :: "byte list \<Rightarrow> int" where
  "gr_len_field d = of_le4 (take 4 (drop 11 d))"

lemma wrap32_over:
  assumes "2147483630 \<le> x" and "x < 2147483648"
  shows "wrap32 (x + 18) = x + 18 - 4294967296"
proof -
  have "(x + 18 + 2147483648) mod 4294967296 = ((x - 2147483630) + 4294967296) mod 4294967296"
    by (rule arg_cong [where f = "\<lambda>y. y mod 4294967296"]) simp
  also have "\<dots> = x - 2147483630"
    using assms by (simp only: mod_add_self2 mod_pos_pos_trivial)
  finally show ?thesis by (simp add: wrap32_def)
qed

lemma cyt_parse_safe:
  assumes "n \<le> int (length d)" and "cyt_len_field d < 2147483630"
  shows "is_ret (cyt_ParseFromArray q (Some d) n)"
proof -
  have "\<not> cyt_len_field d < 0 \<Longrightarrow> wrap32 (cyt_len_field d + 18) = cyt_len_field d + 18"
    using assms(2) by (intro wrap32_id) (simp add: in_i32_def)
  with assms show ?thesis
    by (auto simp: cyt_ParseFromArray_def Let_def cyt_ByteSize_def cyt_len_field_def algebra_simps)
qed

lemma gr_parse_safe:
  assumes "n \<le> int (length d)" and "gr_len_field d < 2147483630"
  shows "is_ret (gr_ParseFromArray q (Some d) n)"
proof -
  have "\<not> gr_len_field d < 0 \<Longrightarrow> wrap32 (gr_len_field d + 18) = gr_len_field d + 18"
    using assms(2) by (intro wrap32_id) (simp add: in_i32_def)
  with assms show ?thesis
    by (auto simp: gr_ParseFromArray_def Let_def gr_ByteSize_def gr_len_field_def algebra_simps)
qed

lemma cyt_parse_overread:
  assumes "18 \<le> n" and "n \<le> int (length d)" and "int (length d) < 2147483630"
    and "2147483630 \<le> cyt_len_field d"
  shows "cyt_ParseFromArray q (Some d) n = Inl Out_of_bounds"
proof -
  have "cyt_len_field d < 2147483648"
    using in_i32_of_le4 unfolding cyt_len_field_def in_i32_def by blast
  then have "wrap32 (cyt_len_field d + 18) = cyt_len_field d + 18 - 4294967296"
    using assms(4) by (intro wrap32_over)
  moreover have "mem_read d 15 (cyt_len_field d) = Inl Out_of_bounds"
    using assms by (simp add: mem_read_def)
  ultimately show ?thesis
    using assms \<open>cyt_len_field d < 2147483648\<close>
    by (simp add: cyt_ParseFromArray_def Let_def cyt_ByteSize_def cyt_len_field_def algebra_simps)
qed

lemma gr_parse_overread:
  assumes "18 \<le> n" and "n \<le> int (length d)" and "int (length d) < 2147483630"
    and "2147483630 \<le> gr_len_field d"
  shows "gr_ParseFromArray q (Some d) n = Inl Out_of_bounds"
proof -
  have "gr_len_field d < 2147483648"
    using in_i32_of_le4 unfolding gr_len_field_def in_i32_def by blast
  then have "wrap32 (gr_len_field d + 18) = gr_len_field d + 18 - 4294967296"
    using assms(4) by (intro wrap32_over)
  moreover have "mem_read d 15 (gr_len_field d) = Inl Out_of_bounds"
    using assms by (simp add: mem_read_def)
  ultimately show ?thesis
    using assms \<open>gr_len_field d < 2147483648\<close>
    by (simp add: gr_ParseFromArray_def Let_def gr_ByteSize_def gr_len_field_def algebra_simps)
qed

text \<open>A successful parse inverts: the buffer starts with the bytes of a well-formed packet.\<close>

lemma mem_read_le4: "mem_read d off 4 = Inr bs \<Longrightarrow> le4 (of_le4 bs) = bs"
  by (rule le4_of_le4) (drule mem_read_InrD, elim conjE, simp only: nat_numeral)

lemma mem_read_append:
  "mem_read d a m = Inr xs \<Longrightarrow> mem_read d (a + m) n = Inr ys \<Longrightarrow>
   mem_read d a (m + n) = Inr (xs @ ys)"
  by (auto simp: mem_read_def nat_add_distrib take_add add.commute split: if_splits)

lemma cyt_parse_True:
  assumes "cyt_ParseFromArray q (Some d) n = Inr (True, p)" and "cyt_len_field d < 2147483630"
  shows "cyt_wf p \<and> cyt_ByteSize p \<le> n \<and> mem_read d 0 (cyt_ByteSize p) = Inr (cyt_bytes p)"
proof -
  from assms(1) have r:
    "18 \<le> n" "mem_read d 0 3 = Inr (cyt_str_head p)"
    "mem_read d 3 4 = Inr (le4 (cyt_room_id p))" "mem_read d 7 4 = Inr (le4 (cyt_msg_len p))"
    "mem_read d 11 4 = Inr (le4 (cyt_msg_type p))" "0 \<le> cyt_msg_len p" "cyt_ByteSize p \<le> n"
    "mem_read d 15 (cyt_msg_len p) = Inr (cyt_msg_data p)"
    "mem_read d (15 + cyt_msg_len p) 3 = Inr (cyt_str_tail p)"
    "in_i32 (cyt_room_id p)" "in_i32 (cyt_msg_type p)" "in_i32 (cyt_msg_len p)"
    by (auto simp: cyt_ParseFromArray_def Let_def res_simps cyt_ByteSize_def mem_read_le4
       split: if_splits)
  have len: "length (cyt_str_head p) = 3" "length (cyt_str_tail p) = 3"
    "cyt_msg_len p = int (length (cyt_msg_data p))"
    using mem_read_InrD [OF r(2)] mem_read_InrD [OF r(9)] mem_read_InrD [OF r(8)] r(6) by auto
  have "cyt_msg_len p = cyt_len_field d"
    using r(4,12) mem_read_InrD [OF r(4)] by (auto simp: cyt_len_field_def dest: arg_cong [where f = of_le4])
  with assms(2) r(6) have i: "in_i32 (cyt_msg_len p + 18)" by (simp add: in_i32_def)
  then have bs: "cyt_ByteSize p = cyt_msg_len p + 18" by (simp add: cyt_ByteSize_def algebra_simps)
  have "mem_read d 0 (3 + (4 + (4 + (4 + (cyt_msg_len p + 3))))) = Inr (cyt_bytes p)"
    unfolding cyt_bytes_def using r(2-5,8,9)
    by (intro mem_read_append) (simp_all add: algebra_simps)
  then have "mem_read d 0 (cyt_ByteSize p) = Inr (cyt_bytes p)" by (simp add: bs algebra_simps)
  with len r(7,10,11) i show ?thesis by (simp add: cyt_wf_def)
qed

lemma gr_parse_True:
  assumes "gr_ParseFromArray q (Some d) n = Inr (True, p)" and "gr_len_field d < 2147483630"
  shows "gr_wf p \<and> gr_ByteSize p \<le> n \<and> mem_read d 0 (gr_ByteSize p) = Inr (gr_bytes p)"
proof -
  from assms(1) have r:
    "18 \<le> n" "mem_read d 0 3 = Inr (gr_str_head p)"
    "mem_read d 3 4 = Inr (le4 (gr_user_hashkey p))" "mem_read d 7 4 = Inr (le4 (gr_gs_hashkey p))"
    "mem_read d 11 4 = Inr (le4 (gr_data_len p))" "0 \<le> gr_data_len p" "gr_ByteSize p \<le> n"
    "mem_read d 15 (gr_data_len p) = Inr (gr_data_msg p)"
    "mem_read d (15 + gr_data_len p) 3 = Inr (gr_str_tail p)"
    "in_i32 (gr_user_hashkey p)" "in_i32 (gr_gs_hashkey p)" "in_i32 (gr_data_len p)"
    by (auto simp: gr_ParseFromArray_def Let_def res_simps gr_ByteSize_def mem_read_le4
       split: if_splits)
  have len: "length (gr_str_head p) = 3" "length (gr_str_tail p) = 3"
    "gr_data_len p = int (length (gr_data_msg p))"
    using mem_read_InrD [OF r(2)] mem_read_InrD [OF r(9)] mem_read_InrD [OF r(8)] r(6) by auto
  have "gr_data_len p = gr_len_field d"
    using r(5,12) mem_read_InrD [OF r(5)] by (auto simp: gr_len_field_def dest: arg_cong [where f = of_le4])
  with assms(2) r(6) have i: "in_i32 (gr_data_len p + 18)" by (simp add: in_i32_def)
  then have bs: "gr_ByteSize p = gr_data_len p + 18" by (simp add: gr_ByteSize_def algebra_simps)
  have "mem_read d 0 (3 + (4 + (4 + (4 + (gr_data_len p + 3))))) = Inr (gr_bytes p)"
    unfolding gr_bytes_def using r(2-5,8,9)
    by (intro mem_read_append) (simp_all add: algebra_simps)
  then have "mem_read d 0 (gr_ByteSize p) = Inr (gr_bytes p)" by (simp add: bs algebra_simps)
  with len r(7,10,11) i show ?thesis by (simp add: gr_wf_def)
qed

text \<open>
  \<open>UnpackAndAnalysePackFromGSRS\<close> and \<open>UnpackAndAnalysePackOfOtherServer\<close>. The message class
  \<open>T\<close> is generated code: \<open>parse\<close> is its \<open>ParseFromArray\<close> as a function of the bytes it is
  given. The wrapped packet is read through \<open>c_str()\<close>, so a zero byte follows the data.
\<close>

definition parse_msg :: "(byte list \<Rightarrow> 'm option) \<Rightarrow> StruCytPacket \<Rightarrow> 'm option res" where
  "parse_msg parse s_pack =
     res_bind (mem_read (cyt_msg_data s_pack @ [0]) 0 (cyt_msg_len s_pack)) (\<lambda>bs. Inr (parse bs))"

definition UnpackAndAnalysePackFromGSRS ::
  "(byte list \<Rightarrow> 'm option) \<Rightarrow> byte list option \<Rightarrow> int \<Rightarrow> GateRoomServerPack \<Rightarrow> StruCytPacket
   \<Rightarrow> (bool \<times> GateRoomServerPack \<times> StruCytPacket \<times> 'm option) res" where
  "UnpackAndAnalysePackFromGSRS parse buff_in len_in g_pack s_pack =
     res_bind (gr_ParseFromArray g_pack buff_in len_in) (\<lambda>(ok, g).
     if \<not> ok then Inr (False, g, s_pack, None)
     else
       res_bind (cyt_ParseFromArray s_pack (Some (gr_data_msg g @ [0])) (gr_data_len g)) (\<lambda>(ok, s).
       if \<not> ok then Inr (False, g, s, None)
       else
         res_bind (parse_msg parse s) (\<lambda>m.
           case m of None \<Rightarrow> Inr (False, g, s, None) | Some x \<Rightarrow> Inr (True, g, s, Some x))))"

definition UnpackAndAnalysePackOfOtherServer ::
  "(byte list \<Rightarrow> 'm option) \<Rightarrow> byte list option \<Rightarrow> int \<Rightarrow> StruCytPacket
   \<Rightarrow> (bool \<times> StruCytPacket \<times> 'm option) res" where
  "UnpackAndAnalysePackOfOtherServer parse buff_in len_in s_pack =
     res_bind (cyt_ParseFromArray s_pack buff_in len_in) (\<lambda>(ok, s).
     if \<not> ok then Inr (False, s, None)
     else
       res_bind (parse_msg parse s) (\<lambda>m.
         case m of None \<Rightarrow> Inr (False, s, None) | Some x \<Rightarrow> Inr (True, s, Some x)))"

lemma parse_msg_wf: "cyt_wf s \<Longrightarrow> parse_msg parse s = Inr (parse (cyt_msg_data s))"
  by (simp add: parse_msg_def mem_read_piece cyt_wf_fields)

lemma unpack_other:
  assumes "cyt_wf s" and "int (length (cyt_bytes s)) \<le> n"
  shows "UnpackAndAnalysePackOfOtherServer parse (Some (cyt_bytes s @ rest)) n s0
    = Inr (parse (cyt_msg_data s) \<noteq> None, s, parse (cyt_msg_data s))"
  using assms
  by (simp add: UnpackAndAnalysePackOfOtherServer_def cyt_parse_bytes parse_msg_wf split: option.split)

lemma unpack_gsrs:
  assumes "gr_wf g" and "cyt_wf s" and "gr_data_msg g = cyt_bytes s @ extra"
    and "int (length (gr_bytes g)) \<le> n"
  shows "UnpackAndAnalysePackFromGSRS parse (Some (gr_bytes g @ rest)) n g0 s0
    = Inr (parse (cyt_msg_data s) \<noteq> None, g, s, parse (cyt_msg_data s))"
  using assms gr_wf_fields(6) [OF assms(1)]
  by (simp add: UnpackAndAnalysePackFromGSRS_def gr_parse_bytes cyt_parse_bytes parse_msg_wf
      split: option.split)

section \<open>Properties\<close>

text \<open>
  C33: Serialising a well-formed client packet into any block that is large enough succeeds,
  and parsing the block back, with any length from the packet's size on, gives the packet.
\<close>

theorem cyt_roundtrip:
  assumes "cyt_wf p" and "cyt_ByteSize p \<le> int (length d)" and "cyt_ByteSize p \<le> n"
  shows "\<exists>d'. cyt_SerializeToArray p (Some d) n = Inr (True, d') \<and> length d' = length d
    \<and> cyt_ParseFromArray q (Some d') n = Inr (True, p)"
proof -
  have l: "length (cyt_bytes p) \<le> length d" using assms(1,2) by (simp add: cyt_ByteSize_bytes)
  with assms(1,3) cyt_serialize_bytes [OF assms(1) l assms(3)]
  show ?thesis by (simp add: cyt_parse_bytes cyt_ByteSize_bytes)
qed

definition ex_cyt :: StruCytPacket where
  "ex_cyt = \<lparr>cyt_str_head = [67, 89, 84], cyt_room_id = 1000, cyt_msg_len = 2,
     cyt_msg_type = 6001, cyt_msg_data = [8, 241], cyt_str_tail = [67, 89, 84]\<rparr>"

lemma ex_cyt_simps [simp]:
  "cyt_wf ex_cyt" "cyt_ByteSize ex_cyt = 20" "cyt_msg_data ex_cyt = [8, 241]"
  "length (cyt_bytes ex_cyt) = 20" "cyt_len_field (cyt_bytes ex_cyt) = 2"
  by (simp_all add: ex_cyt_def cyt_wf_def in_i32_def cyt_ByteSize_def cyt_bytes_def cyt_len_field_def)

theorem cyt_roundtrip_witness:
  "\<exists>d'. cyt_SerializeToArray ex_cyt (Some (replicate 20 0)) 20 = Inr (True, d') \<and> length d' = 20
    \<and> cyt_ParseFromArray (cyt_new 0) (Some d') 20 = Inr (True, ex_cyt)"
  using cyt_roundtrip [of ex_cyt "replicate 20 0" 20 "cyt_new 0"] by simp

text \<open>
  What a gate wraps for the room server is unpacked there unchanged: when the payload of
  a \<open>GateRoomServerPack\<close> is a serialised client packet, unpacking its serialised bytes,
  whatever follows them in the buffer, returns the envelope, the packet and the message its
  payload parses to, and reports success exactly when that message parses.
\<close>

theorem gsrs_unpack_roundtrip:
  assumes "gr_wf g" and "cyt_wf s" and "gr_data_msg g = cyt_bytes s"
    and "gr_ByteSize g \<le> int (length d)" and "gr_ByteSize g \<le> n"
  shows "\<exists>d'. gr_SerializeToArray g (Some d) n = Inr (True, d')
    \<and> UnpackAndAnalysePackFromGSRS parse (Some d') n g0 s0
        = Inr (parse (cyt_msg_data s) \<noteq> None, g, s, parse (cyt_msg_data s))"
proof -
  have l: "length (gr_bytes g) \<le> length d" using assms(1,4) by (simp add: gr_ByteSize_bytes)
  with assms gr_serialize_bytes [OF assms(1) l assms(5)]
  show ?thesis by (simp add: unpack_gsrs [where extra = "[]"] gr_ByteSize_bytes)
qed

definition ex_gr :: GateRoomServerPack where
  "ex_gr = \<lparr>gr_str_head = [67, 89, 84], gr_user_hashkey = 7, gr_gs_hashkey = 0, gr_data_len = 20,
     gr_data_msg = cyt_bytes ex_cyt, gr_str_tail = [67, 89, 84]\<rparr>"

lemma ex_gr_simps [simp]:
  "gr_wf ex_gr" "gr_ByteSize ex_gr = 38" "gr_data_msg ex_gr = cyt_bytes ex_cyt"
  by (simp_all add: ex_gr_def gr_wf_def in_i32_def gr_ByteSize_def)

theorem gsrs_unpack_roundtrip_witness:
  "\<exists>d'. gr_SerializeToArray ex_gr (Some (replicate 64 0)) 64 = Inr (True, d')
    \<and> UnpackAndAnalysePackFromGSRS (\<lambda>bs. if length bs = 2 then Some bs else None)
         (Some d') 64 (gr_new 0) (cyt_new 0) = Inr (True, ex_gr, ex_cyt, Some [8, 241])"
  using gsrs_unpack_roundtrip [of ex_gr ex_cyt "replicate 64 0" 64
      "\<lambda>bs. if length bs = 2 then Some bs else None" "gr_new 0" "cyt_new 0"] by simp

text \<open>
  C35: Parsing accepts only serialised packets. When the length field of the header in the
  buffer is at most \<open>2^31 - 19\<close>, a parse of the first \<open>n\<close> bytes of a block that has them
  never reads outside the block, and when it succeeds the packet is well-formed, its size is
  at most \<open>n\<close> and the block starts with exactly the bytes serialising it gives.
\<close>

theorem cyt_parse_sound:
  assumes "n \<le> int (length d)" and "cyt_len_field d < 2147483630"
  shows "\<exists>ok p. cyt_ParseFromArray q (Some d) n = Inr (ok, p)
    \<and> (ok \<longrightarrow> cyt_wf p \<and> cyt_ByteSize p \<le> n \<and> take (nat (cyt_ByteSize p)) d = cyt_bytes p)"
proof -
  obtain ok p where e: "cyt_ParseFromArray q (Some d) n = Inr (ok, p)"
    using cyt_parse_safe [OF assms, of q] by (cases "cyt_ParseFromArray q (Some d) n") auto
  then show ?thesis using cyt_parse_True [of q d n p] assms by (auto dest!: mem_read_InrD)
qed

theorem cyt_parse_sound_witness:
  "\<exists>ok p. cyt_ParseFromArray (cyt_new 0) (Some (cyt_bytes ex_cyt)) 20 = Inr (ok, p)
    \<and> (ok \<longrightarrow> cyt_wf p \<and> cyt_ByteSize p \<le> 20
        \<and> take (nat (cyt_ByteSize p)) (cyt_bytes ex_cyt) = cyt_bytes p)"
  using cyt_parse_sound [of 20 "cyt_bytes ex_cyt" "cyt_new 0"]
  by simp

text \<open>
  C37: The length check of both parsers can be passed by overflow. A header of an envelope
  whose length field is \<open>2^31 - 18\<close> or more makes \<open>ByteSize\<close> negative, so the check
  \<open>data_len < ByteSize()\<close> does not reject it and the payload is read from outside any buffer
  that is smaller than two gigabytes.
\<close>

theorem gr_parse_overflow:
  assumes "18 \<le> n" and "n \<le> int (length d)" and "int (length d) < 2147483630"
    and "2147483630 \<le> gr_len_field d"
  shows "gr_ParseFromArray q (Some d) n = Inl Out_of_bounds"
  using assms by (rule gr_parse_overread)

definition ex_overflow :: "byte list" where
  "ex_overflow = [67, 89, 84, 7, 0, 0, 0, 0, 0, 0, 0, 238, 255, 255, 127, 67, 89, 84]"

theorem gr_parse_overflow_witness:
  "gr_ParseFromArray (gr_new 0) (Some ex_overflow) 18 = Inl Out_of_bounds"
  by (rule gr_parse_overflow) (simp_all add: ex_overflow_def gr_len_field_def wrap32_def)

end
