(* ===== verification/Message_Queue.thy ===== *)
theory Message_Queue
  imports Miku_Base
begin

text \<open>
  The contract between a message queue and the threads that use it. A producer calls \<open>add\<close>
  with a block and a length, a consumer calls \<open>get\<close> with an output block, its size and the
  previous value of the length variable. \<open>free\<close> is the number of units left. What clients
  need of a queue (a batch of messages is stored completely and in order, and is read back
  completely and in order) is proved here once.
\<close>

locale message_queue =
  fixes ok :: "'q \<Rightarrow> bool"
    and msgs :: "'q \<Rightarrow> byte list list"
    and free :: "'q \<Rightarrow> int"
    and add :: "byte list \<Rightarrow> int \<Rightarrow> 'q \<Rightarrow> (bool \<times> 'q) res"
    and get :: "byte list \<Rightarrow> int \<Rightarrow> int \<Rightarrow> 'q \<Rightarrow> (bool \<times> byte list \<times> int \<times> 'q) res"
  assumes add_ok: "ok q \<Longrightarrow> 0 \<le> len \<Longrightarrow> len \<le> 4096 \<Longrightarrow> len \<le> int (length buff) \<Longrightarrow> 0 < free q \<Longrightarrow>
      \<exists>q'. add buff len q = Inr (True, q') \<and> ok q' \<and> msgs q' = msgs q @ [take (nat len) buff]
        \<and> free q' = free q - 1"
    and add_full: "ok q \<Longrightarrow> len \<le> 4096 \<Longrightarrow> free q \<le> 0 \<Longrightarrow> add buff len q = Inr (False, q)"
    and get_empty: "ok q \<Longrightarrow> msgs q = [] \<Longrightarrow> get ob mx ol q = Inr (False, ob, ol, q)"
    and get_ok: "ok q \<Longrightarrow> msgs q = m # ms \<Longrightarrow> int (length m) < mx \<Longrightarrow> length m \<le> length ob \<Longrightarrow>
      \<exists>q'. get ob mx ol q = Inr (True, m @ drop (length m) ob, int (length m), q') \<and> ok q'
        \<and> msgs q' = ms \<and> free q < free q'"
    and get_big: "ok q \<Longrightarrow> msgs q = m # ms \<Longrightarrow> mx \<le> int (length m) \<Longrightarrow>
      get ob mx ol q = Inr (False, ob, ol, q)"

text \<open>Adding a batch, one message after the other, and reading until \<open>get\<close> says there is none.\<close>

fun add_batch :: "(byte list \<Rightarrow> int \<Rightarrow> 'q \<Rightarrow> (bool \<times> 'q) res) \<Rightarrow> byte list list \<Rightarrow> 'q \<Rightarrow> (bool list \<times> 'q) res"
  where
  "add_batch add [] q = Inr ([], q)"
| "add_batch add (m # ms) q =
     res_bind (add m (int (length m)) q) (\<lambda>(b, q1).
     res_bind (add_batch add ms q1) (\<lambda>(bs, q2). Inr (b # bs, q2)))"

fun read_all :: "(byte list \<Rightarrow> int \<Rightarrow> int \<Rightarrow> 'q \<Rightarrow> (bool \<times> byte list \<times> int \<times> 'q) res)
    \<Rightarrow> nat \<Rightarrow> int \<Rightarrow> byte list \<Rightarrow> 'q \<Rightarrow> (byte list list \<times> 'q) res" where
  "read_all get 0 mx ob q = Inl Diverges"
| "read_all get (Suc f) mx ob q =
     res_bind (get ob mx 0 q) (\<lambda>(b, ob', n, q1).
       if b then res_bind (read_all get f mx ob q1) (\<lambda>(ms, q2). Inr (take (nat n) ob' # ms, q2))
       else Inr ([], q1))"

context message_queue
begin

lemma add_batch_ok:
  "ok q \<Longrightarrow> \<forall>m \<in> set ms. length m \<le> 4096 \<Longrightarrow> int (length ms) \<le> free q \<Longrightarrow>
   \<exists>q'. add_batch add ms q = Inr (replicate (length ms) True, q') \<and> ok q'
     \<and> msgs q' = msgs q @ ms \<and> free q' = free q - int (length ms)"
proof (induction ms arbitrary: q)
  case (Cons m ms)
  obtain q1 where 1: "add m (int (length m)) q = Inr (True, q1)" "ok q1" "msgs q1 = msgs q @ [m]"
    "free q1 = free q - 1"
    using add_ok [of q "int (length m)" m] Cons.prems by auto
  obtain q2 where 2: "add_batch add ms q1 = Inr (replicate (length ms) True, q2)" "ok q2"
    "msgs q2 = msgs q1 @ ms" "free q2 = free q1 - int (length ms)"
    using Cons.IH [OF 1(2)] Cons.prems 1(4) by auto
  show ?case using 1 2 by auto
qed auto

lemma read_all_ok:
  "ok q \<Longrightarrow> \<forall>m \<in> set (msgs q). int (length m) < mx \<and> length m \<le> length ob \<Longrightarrow>
   length (msgs q) < f \<Longrightarrow> \<exists>q'. read_all get f mx ob q = Inr (msgs q, q') \<and> ok q' \<and> msgs q' = []"
proof (induction f arbitrary: q)
  case (Suc f)
  show ?case
  proof (cases "msgs q")
    case Nil
    then show ?thesis using Suc.prems get_empty by simp
  next
    case (Cons m ms)
    obtain q1 where 1: "get ob mx 0 q = Inr (True, m @ drop (length m) ob, int (length m), q1)"
      "ok q1" "msgs q1 = ms"
      using get_ok [OF Suc.prems(1) Cons, of mx ob 0] Suc.prems(2) Cons by auto
    obtain q2 where "read_all get f mx ob q1 = Inr (ms, q2)" "ok q2" "msgs q2 = []"
      using Suc.IH [OF 1(2)] Suc.prems 1(3) Cons by auto
    then show ?thesis using 1 Cons by simp
  qed
qed simp

lemma batch_fifo:
  assumes "ok q" "msgs q = []" "\<forall>m \<in> set ms. length m \<le> 4096 \<and> int (length m) < mx \<and> length m \<le> length ob"
    and "int (length ms) \<le> free q" "length ms < f"
  shows "\<exists>q1 q2. add_batch add ms q = Inr (replicate (length ms) True, q1)
    \<and> read_all get f mx ob q1 = Inr (ms, q2) \<and> ok q2 \<and> msgs q2 = []"
proof -
  obtain q1 where 1: "add_batch add ms q = Inr (replicate (length ms) True, q1)" "ok q1"
    "msgs q1 = ms" using add_batch_ok [of q ms] assms by auto
  then show ?thesis using read_all_ok [of q1 mx ob f] assms by auto
qed

lemma blocked_head:
  assumes "ok q" "msgs q = m # ms" "mx \<le> int (length m)" "0 < f"
  shows "read_all get f mx ob q = Inr ([], q)"
  using assms by (cases f) (auto simp: get_big)

end

end
