(* ===== verification/Circle_List.thy ===== *)
theory Circle_List
  imports Message_Queue
begin

text \<open>
  \<open>CircleList\<close> (\<open>common/circle_list.h\<close>, \<open>common/circle_list.cpp\<close>): the ring of fixed-size
  units that every processor and connector uses as its message queue. A message longer than
  one unit is stored in several, chained by \<open>has_child\<close>.
\<close>

section \<open>State\<close>

abbreviation MaxSizePerBuff :: int where "MaxSizePerBuff \<equiv> 4096"

record UnitStruct =
  u_buff :: "byte list"
  u_len :: int
  u_has_child :: bool

definition unit_new :: UnitStruct where
  "unit_new = \<lparr>u_buff = replicate 4096 0, u_len = 0, u_has_child = False\<rparr>"

text \<open>
  \<open>data_start_\<close>, \<open>data_end_\<close>, \<open>list_start_\<close> and \<open>list_end_\<close> are assigned and never read;
  they are left out. \<open>cl_data_ptr\<close> is the array \<open>data_ptr_\<close> points to, or null.
\<close>

record CircleList =
  cl_max_stru_size :: int
  cl_using_size :: int
  cl_data_ptr :: "UnitStruct list option"
  cl_start_pos_index :: int
  cl_end_pos_index :: int

definition cl_new :: "int \<Rightarrow> CircleList" where
  "cl_new stru_size = \<lparr>cl_max_stru_size = stru_size, cl_using_size = 0,
     cl_data_ptr = (if 0 < stru_size then Some (replicate (nat stru_size) unit_new) else None),
     cl_start_pos_index = 0, cl_end_pos_index = 0\<rparr>"

text \<open>\<open>new UnitStruct[n]\<close> with a negative \<open>n\<close> throws, and nothing catches it.\<close>

definition cl_InitBuffer :: "int \<Rightarrow> CircleList \<Rightarrow> CircleList res" where
  "cl_InitBuffer max_stru_size L =
     (if max_stru_size < 0 then Inl Undefined
      else Inr (L\<lparr>cl_max_stru_size := max_stru_size,
                  cl_data_ptr := Some (replicate (nat max_stru_size) unit_new),
                  cl_using_size := 0, cl_start_pos_index := 0, cl_end_pos_index := 0\<rparr>))"

section \<open>Operations\<close>

definition unit_at :: "UnitStruct list \<Rightarrow> int \<Rightarrow> UnitStruct res" where
  "unit_at us i = (if 0 \<le> i \<and> i < int (length us) then Inr (us ! nat i) else Inl Out_of_bounds)"

text \<open>Store the first \<open>n\<close> bytes of \<open>buff\<close> in the unit at the end index and advance it.\<close>

definition put_unit :: "byte list \<Rightarrow> int \<Rightarrow> bool \<Rightarrow> CircleList \<Rightarrow> CircleList res" where
  "put_unit buff n child L =
     (case cl_data_ptr L of
        None \<Rightarrow> Inl Null_deref
      | Some us \<Rightarrow>
          res_bind (unit_at us (cl_end_pos_index L)) (\<lambda>u.
          res_bind (memcpy (u_buff u) 0 buff 0 n) (\<lambda>b.
            let e = cl_end_pos_index L + 1
            in Inr (L\<lparr>cl_data_ptr := Some (us[nat (cl_end_pos_index L) :=
                           \<lparr>u_buff = b, u_len = n, u_has_child = child\<rparr>]),
                      cl_end_pos_index := (if cl_max_stru_size L \<le> e then 0 else e),
                      cl_using_size := cl_using_size L + 1\<rparr>))))"

text \<open>
  The loop over the units of a long message, with \<open>k\<close> units to go. Every pass copies from
  the start of \<open>buff\<close>: the code does not advance the source.
\<close>

fun put_units :: "nat \<Rightarrow> byte list \<Rightarrow> int \<Rightarrow> CircleList \<Rightarrow> CircleList res" where
  "put_units 0 buff little L = Inr L"
| "put_units (Suc k) buff little L =
     res_bind
       (if 0 < k then put_unit buff MaxSizePerBuff True L
        else if little = 0 then put_unit buff MaxSizePerBuff False L
        else put_unit buff little False L)
       (put_units k buff little)"

definition cl_AddBuffer :: "byte list \<Rightarrow> int \<Rightarrow> CircleList \<Rightarrow> (bool \<times> CircleList) res" where
  "cl_AddBuffer buff len L =
     (if cl_data_ptr L = None then Inr (False, L)
      else if MaxSizePerBuff < len then
        let little = len mod MaxSizePerBuff;
            count = len div MaxSizePerBuff + (if little \<noteq> 0 then 1 else 0)
        in if cl_max_stru_size L - cl_using_size L < count then Inr (False, L)
           else res_bind (put_units (nat count) buff little L) (\<lambda>L'. Inr (False, L'))
      else if cl_start_pos_index L \<noteq> cl_end_pos_index L \<or> cl_using_size L = 0 then
        res_bind (put_unit buff len False L) (\<lambda>L'. Inr (True, L'))
      else Inr (False, L))"

text \<open>
  The two loops of \<open>GetBuffer\<close>. The first adds up the lengths of the chained units, the
  second copies them out and clears them. \<open>st + ix\<close> is the index read; \<open>st\<close> is reset so that
  it wraps. When every unit of the ring has been passed the first loop reads the same units
  again, for ever.
\<close>

fun get_scan :: "nat \<Rightarrow> UnitStruct list \<Rightarrow> int \<Rightarrow> int \<Rightarrow> int \<Rightarrow> int \<Rightarrow> (int \<times> int) res" where
  "get_scan 0 us mx st ix out = Inl Diverges"
| "get_scan (Suc f) us mx st ix out =
     (let ix1 = ix + 1; st1 = (if st + ix1 = mx then 0 - ix1 else st)
      in res_bind (unit_at us (st1 + ix1)) (\<lambda>u.
           if u_len u \<le> 0 then Inr (ix1, out)
           else if u_has_child u then get_scan f us mx st1 ix1 (out + u_len u)
           else Inr (ix1, out + u_len u)))"

fun get_copy :: "nat \<Rightarrow> UnitStruct list \<Rightarrow> int \<Rightarrow> int \<Rightarrow> int \<Rightarrow> byte list \<Rightarrow> int
    \<Rightarrow> (int \<times> byte list \<times> UnitStruct list) res" where
  "get_copy 0 us mx st ix ob out = Inl Diverges"
| "get_copy (Suc f) us mx st ix ob out =
     (let ix1 = ix + 1; st1 = (if st + ix1 = mx then 0 - ix1 else st)
      in res_bind (unit_at us (st1 + ix1)) (\<lambda>u.
           if u_len u \<le> 0 then Inr (st1 + ix1, ob, us)
           else
             res_bind (memcpy ob out (u_buff u) 0 (u_len u)) (\<lambda>ob'.
               let us' = us[nat (st1 + ix1) := u\<lparr>u_buff := replicate 4096 0, u_len := 0\<rparr>]
               in if u_has_child u then get_copy f us' mx st1 ix1 ob' (out + u_len u)
                  else Inr (st1 + ix1, ob', us'))))"

definition cl_GetBuffer ::
  "byte list \<Rightarrow> int \<Rightarrow> int \<Rightarrow> CircleList \<Rightarrow> (bool \<times> byte list \<times> int \<times> CircleList) res" where
  "cl_GetBuffer out_buff max_buff_len out_len L =
     (case cl_data_ptr L of
        None \<Rightarrow> Inr (False, out_buff, out_len, L)
      | Some us \<Rightarrow>
          if cl_start_pos_index L = cl_end_pos_index L \<and> cl_using_size L = 0
          then Inr (False, out_buff, out_len, L)
          else
            res_bind (get_scan (Suc (length us)) us (cl_max_stru_size L) (cl_start_pos_index L) (-1) 0)
              (\<lambda>(ix, total).
            if max_buff_len \<le> total then Inr (False, out_buff, out_len, L)
            else
              res_bind (get_copy (Suc (length us)) us (cl_max_stru_size L) (cl_start_pos_index L)
                  (-1) out_buff 0) (\<lambda>(pos, ob, us').
                Inr (True, ob, total,
                  L\<lparr>cl_data_ptr := Some us',
                    cl_start_pos_index := (if pos + 1 = cl_max_stru_size L then 0 else pos + 1),
                    cl_using_size := cl_using_size L - (ix + 1)\<rparr>))))"

definition cl_ReleaseBuffer :: "CircleList \<Rightarrow> CircleList" where
  "cl_ReleaseBuffer L =
     L\<lparr>cl_using_size := 0, cl_start_pos_index := 0, cl_end_pos_index := 0\<rparr>"

section \<open>The messages a ring holds\<close>

definition u_data :: "UnitStruct \<Rightarrow> byte list" where
  "u_data u = take (nat (u_len u)) (u_buff u)"

text \<open>The units in use, from the start index on, and the messages they hold.\<close>

definition ring_units :: "int \<Rightarrow> nat \<Rightarrow> UnitStruct list \<Rightarrow> UnitStruct list" where
  "ring_units s k us = map (\<lambda>i. us ! ((nat s + i) mod length us)) [0..<k]"

fun cl_msgs :: "UnitStruct list \<Rightarrow> byte list list" where
  "cl_msgs [] = []"
| "cl_msgs (u # us) =
     (if u_has_child u then (u_data u @ hd (cl_msgs us)) # tl (cl_msgs us)
      else u_data u # cl_msgs us)"

text \<open>A unit that has a child is not empty, and neither is the unit that follows it.\<close>

fun chained :: "UnitStruct list \<Rightarrow> bool" where
  "chained [] = True"
| "chained (u # us) =
     (length (u_buff u) = 4096 \<and> 0 \<le> u_len u \<and> u_len u \<le> 4096
      \<and> (u_has_child u \<longrightarrow> 0 < u_len u \<and> us \<noteq> [] \<and> 0 < u_len (hd us)) \<and> chained us)"

definition cl_units :: "CircleList \<Rightarrow> UnitStruct list" where
  "cl_units L = ring_units (cl_start_pos_index L) (nat (cl_using_size L)) (the (cl_data_ptr L))"

definition cl_abs :: "CircleList \<Rightarrow> byte list list" where
  "cl_abs L = cl_msgs (cl_units L)"

definition cl_inv :: "CircleList \<Rightarrow> bool" where
  "cl_inv L \<longleftrightarrow> (case cl_data_ptr L of None \<Rightarrow> False | Some us \<Rightarrow>
     0 < cl_max_stru_size L \<and> cl_max_stru_size L = int (length us)
     \<and> (\<forall>u \<in> set us. length (u_buff u) = 4096)
     \<and> 0 \<le> cl_start_pos_index L \<and> cl_start_pos_index L < cl_max_stru_size L
     \<and> 0 \<le> cl_using_size L \<and> cl_using_size L \<le> cl_max_stru_size L
     \<and> cl_end_pos_index L = (cl_start_pos_index L + cl_using_size L) mod cl_max_stru_size L
     \<and> chained (cl_units L))"

lemma length_ring_units [simp]: "length (ring_units s k us) = k"
  by (simp add: ring_units_def)

lemma ring_units_0 [simp]: "ring_units s 0 us = []"
  by (simp add: ring_units_def)

lemma ring_units_Suc:
  "ring_units s (Suc k) us = ring_units s k us @ [us ! ((nat s + k) mod length us)]"
  by (simp add: ring_units_def)

text \<open>The index that follows \<open>i\<close> on the ring.\<close>

abbreviation ring_succ :: "int \<Rightarrow> 'a list \<Rightarrow> int" where
  "ring_succ i us \<equiv> (if i + 1 = int (length us) then 0 else i + 1)"

lemma ring_shift:
  assumes "0 \<le> s" "s < int (length us)"
  shows "(nat (ring_succ s us) + i) mod length us = (nat s + Suc i) mod length us"
proof (cases "s + 1 = int (length us)")
  case True
  then have "nat s + Suc i = length us + i" using assms by linarith
  then have "(nat s + Suc i) mod length us = i mod length us" by (simp only: mod_add_self1)
  then show ?thesis using True by simp
next
  case False
  then show ?thesis using assms by (simp add: nat_add_distrib)
qed

lemma ring_units_Cons:
  assumes "0 \<le> s" "s < int (length us)"
  shows "ring_units s (Suc k) us = us ! nat s # ring_units (ring_succ s us) k us"
proof -
  have "ring_units s (Suc k) us
      = us ! (nat s mod length us) # map (\<lambda>i. us ! ((nat s + Suc i) mod length us)) [0..<k]"
    unfolding ring_units_def by (simp only: upt_conv_Cons zero_less_Suc list.map map_Suc_upt [symmetric] map_map comp_def Nat.add_0_right)
  moreover have "nat s mod length us = nat s" using assms by simp
  ultimately show ?thesis
    unfolding ring_units_def by (simp only: ring_shift [OF assms])
qed

text \<open>Overwriting a unit that is not among the \<open>k\<close> read.\<close>

lemma ring_index_inj:
  assumes "i < n" "j < n" "(a + i) mod n = (a + j) mod (n::nat)"
  shows "i = j"
proof -
  have "i = j" if "i \<le> j" "j < n" "(a + i) mod n = (a + j) mod n" for i j
  proof -
    have "n dvd (a + j) - (a + i)" using that by (metis add_le_cancel_left mod_eq_dvd_iff_nat)
    then have "n dvd j - i" by simp
    moreover have "j - i < n" using that by simp
    ultimately show ?thesis using that(1) by (metis dvd_imp_le diff_is_0_eq le_antisym not_le zero_less_iff_neq_zero)
  qed
  then show ?thesis using assms by (metis nle_le)
qed

lemma ring_units_cong:
  assumes "length us' = length us"
    and "\<And>i. i < k \<Longrightarrow> us' ! ((nat s + i) mod length us) = us ! ((nat s + i) mod length us)"
  shows "ring_units s k us' = ring_units s k us"
  using assms by (simp add: ring_units_def)

lemma ring_units_update_past:
  assumes "k < length us"
  shows "ring_units s k (us[(nat s + k) mod length us := u]) = ring_units s k us"
proof (rule ring_units_cong)
  fix i assume "i < k"
  then have "(nat s + k) mod length us \<noteq> (nat s + i) mod length us"
    using assms ring_index_inj [of i "length us" k "nat s"] by auto
  then show "us[(nat s + k) mod length us := u] ! ((nat s + i) mod length us)
      = us ! ((nat s + i) mod length us)" by simp
qed simp

lemma ring_units_update_before:
  assumes "0 \<le> s" "s < int (length us)" "k < length us"
  shows "ring_units (ring_succ s us) k (us[nat s := u]) = ring_units (ring_succ s us) k us"
proof (rule ring_units_cong)
  fix i assume i: "i < k"
  have "(nat s + 0) mod length us \<noteq> (nat s + Suc i) mod length us"
  proof
    assume "(nat s + 0) mod length us = (nat s + Suc i) mod length us"
    moreover have "0 < length us" "Suc i < length us" using i assms(3) by linarith+
    ultimately show False using ring_index_inj [of 0 "length us" "Suc i" "nat s"] by blast
  qed
  then have "nat s \<noteq> (nat (ring_succ s us) + i) mod length us"
    using assms(1,2) by (simp only: ring_shift) simp
  then show "us[nat s := u] ! ((nat (ring_succ s us) + i) mod length us)
      = us ! ((nat (ring_succ s us) + i) mod length us)"
    by (simp only: nth_list_update_neq not_False_eq_True)
qed simp

section \<open>Units and messages\<close>

lemma chained_append:
  "chained us \<Longrightarrow> chained vs \<Longrightarrow> chained (us @ vs)"
  by (induction us) auto

lemma cl_msgs_append:
  "chained us \<Longrightarrow> cl_msgs (us @ vs) = cl_msgs us @ cl_msgs vs"
proof (induction us)
  case (Cons u us)
  moreover have "cl_msgs us \<noteq> []" if "us \<noteq> []" using that by (cases us) auto
  ultimately show ?case by auto
qed simp

text \<open>The number of units of the first message.\<close>

fun chain :: "UnitStruct list \<Rightarrow> nat" where
  "chain [] = 0"
| "chain (u # us) = (if u_has_child u then Suc (chain us) else 1)"

lemma chain_le: "chain us \<le> length us"
  by (induction us) auto

lemma cl_msgs_chain:
  "chained us \<Longrightarrow> us \<noteq> [] \<Longrightarrow>
   cl_msgs us = concat (map u_data (take (chain us) us)) # cl_msgs (drop (chain us) us)"
proof (induction us)
  case (Cons u us)
  then show ?case by (cases "us = []") auto
qed simp

lemma chained_drop: "chained us \<Longrightarrow> chained (drop n us)"
  by (induction us arbitrary: n) (auto simp: drop_Cons split: nat.splits)

lemma chained_parts:
  "chained us \<Longrightarrow> u \<in> set us \<Longrightarrow> length (u_buff u) = 4096 \<and> 0 \<le> u_len u \<and> u_len u \<le> 4096"
  by (induction us) auto

section \<open>What the operations do\<close>

definition ring_ok :: "CircleList \<Rightarrow> bool" where
  "ring_ok L \<longleftrightarrow> (case cl_data_ptr L of None \<Rightarrow> False | Some us \<Rightarrow>
     0 < cl_max_stru_size L \<and> cl_max_stru_size L = int (length us)
     \<and> (\<forall>u \<in> set us. length (u_buff u) = 4096)
     \<and> 0 \<le> cl_start_pos_index L \<and> cl_start_pos_index L < cl_max_stru_size L
     \<and> 0 \<le> cl_using_size L \<and> cl_using_size L \<le> cl_max_stru_size L
     \<and> cl_end_pos_index L = (cl_start_pos_index L + cl_using_size L) mod cl_max_stru_size L)"

lemma cl_inv_iff: "cl_inv L \<longleftrightarrow> ring_ok L \<and> chained (cl_units L)"
  by (auto simp: cl_inv_def ring_ok_def split: option.splits)

lemma mod_succ:
  assumes "0 < (m::int)"
  shows "(if m \<le> a mod m + 1 then 0 else a mod m + 1) = (a + 1) mod m"
proof -
  have "(a + 1) mod m = (a mod m + 1) mod m" by (simp add: mod_add_left_eq)
  moreover have "0 \<le> a mod m" "a mod m < m" using assms by simp_all
  ultimately show ?thesis by (cases "a mod m + 1 = m") (auto simp: mod_pos_pos_trivial)
qed

lemma memcpy_unit:
  "length d = 4096 \<Longrightarrow> 0 \<le> n \<Longrightarrow> n \<le> 4096 \<Longrightarrow> n \<le> int (length buff) \<Longrightarrow>
   memcpy d 0 buff 0 n = Inr (take (nat n) buff @ drop (nat n) d)"
  using memcpy_0_0 [of "nat n" buff d] by simp

lemma put_unit_ok:
  assumes "ring_ok L" "cl_using_size L < cl_max_stru_size L"
    and "0 \<le> n" "n \<le> 4096" "n \<le> int (length buff)"
  obtains L' u where "put_unit buff n c L = Inr L'" "ring_ok L'" "cl_units L' = cl_units L @ [u]"
    "u_len u = n" "u_has_child u = c" "u_data u = take (nat n) buff" "length (u_buff u) = 4096"
    "cl_max_stru_size L' = cl_max_stru_size L" "cl_using_size L' = cl_using_size L + 1"
proof -
  from assms(1) obtain us where us: "cl_data_ptr L = Some us" by (auto simp: ring_ok_def split: option.splits)
  let ?s = "cl_start_pos_index L" and ?k = "cl_using_size L" and ?e = "cl_end_pos_index L"
  let ?m = "cl_max_stru_size L"
  note ok = assms(1) [unfolded ring_ok_def us option.case]
  have e01: "0 \<le> ?e" "?e < int (length us)" using ok by auto
  then have e: "0 \<le> ?e" "?e < int (length us)" "nat ?e < length us" by linarith+
  have ne: "nat ?e = (nat ?s + nat ?k) mod length us"
    using ok by (simp add: nat_mod_distrib nat_add_distrib)
  let ?b = "take (nat n) buff @ drop (nat n) (u_buff (us ! nat ?e))"
  let ?u = "\<lparr>u_buff = ?b, u_len = n, u_has_child = c\<rparr>"
  let ?L = "L\<lparr>cl_data_ptr := Some (us[nat ?e := ?u]),
     cl_end_pos_index := (?s + (?k + 1)) mod ?m, cl_using_size := ?k + 1\<rparr>"
  have em: "(if ?m \<le> ?e + 1 then 0 else ?e + 1) = (?s + (?k + 1)) mod ?m"
  proof -
    have "0 < ?m" "?e = (?s + ?k) mod ?m" using ok by blast+
    then show ?thesis using mod_succ [of ?m "?s + ?k"] by (simp only: add.assoc)
  qed
  have len: "length (u_buff (us ! nat ?e)) = 4096" using ok e by (simp add: nth_mem)
  have put: "put_unit buff n c L = Inr ?L"
    using e len assms(3-5)
    by (simp add: put_unit_def us unit_at_def memcpy_unit Let_def em)
  have "ring_ok ?L"
    using ok len assms(2-5)
    by (auto simp: ring_ok_def dest!: set_update_subset_insert [THEN subsetD])
  moreover have "cl_units ?L = cl_units L @ [?u]"
  proof -
    have "nat ?k < length us" using ok assms(2) by (simp add: nat_less_iff)
    then have "ring_units ?s (Suc (nat ?k)) (us[nat ?e := ?u]) = ring_units ?s (nat ?k) us @ [?u]"
      using e(3) by (simp add: ring_units_Suc ne ring_units_update_past)
    moreover have "0 \<le> ?k" using ok by blast
    then have "nat (?k + 1) = Suc (nat ?k)" by (simp add: Suc_nat_eq_nat_zadd1 add.commute)
    ultimately show ?thesis by (simp add: cl_units_def us)
  qed
  moreover have "u_data ?u = take (nat n) buff" using assms(3,5) by (simp add: u_data_def)
  ultimately show ?thesis using put len assms(3-5) by (intro that [of ?L ?u]) simp_all
qed

text \<open>What \<open>AddBuffer\<close> stores for a message of \<open>len\<close> bytes.\<close>

definition stored_msg :: "byte list \<Rightarrow> int \<Rightarrow> byte list" where
  "stored_msg buff len =
     (if len \<le> 4096 then take (nat len) buff
      else if len mod 4096 = 0 then concat (replicate (nat (len div 4096)) (take 4096 buff))
      else concat (replicate (nat (len div 4096)) (take 4096 buff)) @ take (nat (len mod 4096)) buff)"

definition units_needed :: "int \<Rightarrow> int" where
  "units_needed len = (if len \<le> 4096 then 1 else len div 4096 + (if len mod 4096 \<noteq> 0 then 1 else 0))"

lemma put_units_ok:
  assumes "ring_ok L" "cl_using_size L + int (Suc k) \<le> cl_max_stru_size L"
    and "4096 \<le> length buff" "0 \<le> little" "little < 4096"
  shows "\<exists>L' vs. put_units (Suc k) buff little L = Inr L' \<and> ring_ok L'
    \<and> cl_units L' = cl_units L @ vs \<and> chained vs \<and> vs \<noteq> [] \<and> 0 < u_len (hd vs)
    \<and> cl_msgs vs = [concat (replicate k (take 4096 buff))
                      @ take (nat (if little = 0 then 4096 else little)) buff]
    \<and> cl_max_stru_size L' = cl_max_stru_size L \<and> cl_using_size L' = cl_using_size L + int (Suc k)"
  using assms(1,2)
proof (induction k arbitrary: L)
  case 0
  let ?n = "if little = 0 then 4096 else little"
  obtain L' u where "put_unit buff ?n False L = Inr L'" "ring_ok L'" "cl_units L' = cl_units L @ [u]"
    "u_len u = ?n" "u_has_child u = False" "u_data u = take (nat ?n) buff" "length (u_buff u) = 4096"
    "cl_max_stru_size L' = cl_max_stru_size L" "cl_using_size L' = cl_using_size L + 1"
    by (rule put_unit_ok [of L ?n buff False]) (use 0 assms(3-5) in auto)
  then show ?case using assms(4,5)
    by (intro exI [of _ L'] exI [of _ "[u]"]) (auto split: if_splits)
next
  case (Suc k)
  obtain L1 u where 1: "put_unit buff 4096 True L = Inr L1" "ring_ok L1" "cl_units L1 = cl_units L @ [u]"
    "u_len u = 4096" "u_has_child u = True" "u_data u = take (nat 4096) buff" "length (u_buff u) = 4096"
    "cl_max_stru_size L1 = cl_max_stru_size L" "cl_using_size L1 = cl_using_size L + 1"
    by (rule put_unit_ok [of L 4096 buff True]) (use Suc.prems assms(3-5) in auto)
  obtain L' vs where 2: "put_units (Suc k) buff little L1 = Inr L'" "ring_ok L'"
    "cl_units L' = cl_units L1 @ vs" "chained vs" "vs \<noteq> []" "0 < u_len (hd vs)"
    "cl_msgs vs = [concat (replicate k (take 4096 buff))
                      @ take (nat (if little = 0 then 4096 else little)) buff]"
    "cl_max_stru_size L' = cl_max_stru_size L1" "cl_using_size L' = cl_using_size L1 + int (Suc k)"
    using Suc.IH [of L1] Suc.prems 1 by auto
  have "put_units (Suc (Suc k)) buff little L = Inr L'"
    unfolding put_units.simps(2) [of "Suc k"] using 1(1) 2(1) by simp
  then show ?case using 1 2 by (intro exI [of _ L'] exI [of _ "u # vs"]) auto
qed

lemma nat_count_simps:
  "4096 < len \<Longrightarrow> \<exists>k. nat (len div 4096 + (if len mod 4096 \<noteq> 0 then 1 else 0)) = Suc k
     \<and> k = nat (len div 4096) - (if len mod 4096 = 0 then 1 else 0)
     \<and> len div 4096 + (if len mod 4096 \<noteq> 0 then 1 else 0) = int (Suc k)"
proof -
  assume "4096 < len"
  then have "1 \<le> len div 4096" by simp
  then show ?thesis
    by (intro exI [of _ "nat (len div 4096) - (if len mod 4096 = 0 then 1 else 0)"]) auto
qed

lemma concat_replicate_last:
  "0 < k \<Longrightarrow> concat (replicate (k - 1) x) @ x = concat (replicate k x)"
proof (cases k)
  case (Suc j)
  have "concat (replicate j x) @ x = x @ concat (replicate j x)" by (induction j) simp_all
  then show ?thesis by (simp add: Suc)
qed simp

lemma stored_long:
  assumes "4096 < len" and "k = nat (len div 4096) - (if len mod 4096 = 0 then 1 else 0)"
  shows "concat (replicate k (take 4096 buff))
      @ take (nat (if len mod 4096 = 0 then 4096 else len mod 4096)) buff = stored_msg buff len"
proof -
  have "0 < nat (len div 4096)" using assms(1) by simp
  then show ?thesis
    using assms concat_replicate_last [of "nat (len div 4096)" "take 4096 buff"]
    by (simp add: stored_msg_def)
qed

lemma cl_AddBuffer_ok:
  assumes "cl_inv L" and "0 \<le> len" "len \<le> int (length buff)"
    and "cl_using_size L + units_needed len \<le> cl_max_stru_size L"
  obtains L' where "cl_AddBuffer buff len L = Inr (len \<le> MaxSizePerBuff, L')" "cl_inv L'"
    "cl_abs L' = cl_abs L @ [stored_msg buff len]"
    "cl_max_stru_size L' = cl_max_stru_size L"
    "cl_using_size L' = cl_using_size L + units_needed len"
proof (cases "len \<le> 4096")
  case True
  from assms(1) have ok: "ring_ok L" and ch: "chained (cl_units L)" by (simp_all add: cl_inv_iff)
  obtain L' u where p: "put_unit buff len False L = Inr L'" "ring_ok L'" "cl_units L' = cl_units L @ [u]"
    "u_len u = len" "u_has_child u = False" "u_data u = take (nat len) buff" "length (u_buff u) = 4096"
    "cl_max_stru_size L' = cl_max_stru_size L" "cl_using_size L' = cl_using_size L + 1"
    by (rule put_unit_ok [of L len buff False]) (use ok assms True in \<open>auto simp: units_needed_def\<close>)
  have "cl_data_ptr L \<noteq> None" using ok by (auto simp: ring_ok_def split: option.splits)
  moreover have "cl_start_pos_index L \<noteq> cl_end_pos_index L \<or> cl_using_size L = 0"
  proof (rule ccontr)
    assume c: "\<not> (cl_start_pos_index L \<noteq> cl_end_pos_index L \<or> cl_using_size L = 0)"
    moreover have "0 \<le> cl_start_pos_index L" "cl_start_pos_index L < cl_max_stru_size L"
      "cl_end_pos_index L = (cl_start_pos_index L + cl_using_size L) mod cl_max_stru_size L"
      "0 \<le> cl_using_size L" "cl_using_size L < cl_max_stru_size L"
      using ok assms(4) True by (auto simp: ring_ok_def units_needed_def split: option.splits)
    ultimately have "cl_max_stru_size L dvd cl_using_size L"
      by (metis add_diff_cancel_left' mod_eq_dvd_iff mod_pos_pos_trivial)
    then show False
      using c \<open>0 \<le> cl_using_size L\<close> \<open>cl_using_size L < cl_max_stru_size L\<close>
      by (auto dest: zdvd_imp_le)
  qed
  ultimately have "cl_AddBuffer buff len L = Inr (True, L')"
    using True p(1) by (simp add: cl_AddBuffer_def)
  moreover have "cl_inv L'" using p ch assms(2) True by (simp add: cl_inv_iff chained_append)
  ultimately show ?thesis
    using p True ch
    by (intro that [of L']) (simp_all add: cl_abs_def cl_msgs_append stored_msg_def units_needed_def)
next
  case False
  from assms(1) have ok: "ring_ok L" and ch: "chained (cl_units L)" by (simp_all add: cl_inv_iff)
  let ?c = "len div 4096 + (if len mod 4096 \<noteq> 0 then 1 else 0)"
  have long: "4096 < len" using False by simp
  obtain k where k: "nat ?c = Suc k" "k = nat (len div 4096) - (if len mod 4096 = 0 then 1 else 0)"
    "?c = int (Suc k)" using nat_count_simps [OF long] by blast
  have un: "units_needed len = int (Suc k)" using False k(3) by (simp add: units_needed_def)
  have lb: "4096 \<le> length buff" using assms(3) False by simp
  obtain L' vs where p: "put_units (Suc k) buff (len mod 4096) L = Inr L'" "ring_ok L'"
    "cl_units L' = cl_units L @ vs" "chained vs"
    "cl_msgs vs = [concat (replicate k (take 4096 buff))
         @ take (nat (if len mod 4096 = 0 then 4096 else len mod 4096)) buff]"
    "cl_max_stru_size L' = cl_max_stru_size L" "cl_using_size L' = cl_using_size L + int (Suc k)"
    using put_units_ok [OF ok, of k buff "len mod 4096"] assms(4) lb un by auto
  have "cl_data_ptr L \<noteq> None" using ok by (auto simp: ring_ok_def split: option.splits)
  then have "cl_AddBuffer buff len L = Inr (False, L')"
    using long p(1) assms(4) un by (auto simp add: cl_AddBuffer_def Let_def k(3) nat_int simp del: put_units.simps of_nat_Suc)
  moreover have "cl_inv L'" using p ch by (simp add: cl_inv_iff chained_append)
  moreover have "cl_abs L' = cl_abs L @ [stored_msg buff len]"
    using stored_long [OF long k(2)] by (simp add: cl_abs_def p(3,5) cl_msgs_append ch)
  ultimately show ?thesis using p False un by (intro that [of L']) simp_all
qed

lemma cl_AddBuffer_full:
  assumes "cl_inv L" and "cl_max_stru_size L < cl_using_size L + units_needed len"
  shows "cl_AddBuffer buff len L = Inr (False, L)"
proof -
  from assms(1) have ok: "cl_data_ptr L \<noteq> None" "0 < cl_max_stru_size L" "0 \<le> cl_start_pos_index L"
      "cl_start_pos_index L < cl_max_stru_size L"
      "cl_end_pos_index L = (cl_start_pos_index L + cl_using_size L) mod cl_max_stru_size L"
      "cl_using_size L \<le> cl_max_stru_size L"
    by (auto simp: cl_inv_def split: option.splits)
  show ?thesis
  proof (cases "len \<le> 4096")
    case True
    then have "cl_using_size L = cl_max_stru_size L" using assms(2) ok(6) by (simp add: units_needed_def)
    then show ?thesis using ok True by (simp add: cl_AddBuffer_def)
  next
    case False
    then show ?thesis using assms(2) by (auto simp: cl_AddBuffer_def units_needed_def Let_def)
  qed
qed

section \<open>What \<open>GetBuffer\<close> does\<close>

text \<open>The loops stand before index \<open>p\<close> when the next one they read, after the wrap, is \<open>p\<close>.\<close>

definition at_pos :: "int \<Rightarrow> int \<Rightarrow> int \<Rightarrow> int \<Rightarrow> bool" where
  "at_pos mx st ix p \<longleftrightarrow> (if st + (ix + 1) = mx then 0 else st + (ix + 1)) = p"

lemma at_pos_read: "at_pos mx st ix p \<Longrightarrow>
   (if st + (ix + 1) = mx then 0 - (ix + 1) else st) + (ix + 1) = p"
  by (simp add: at_pos_def split: if_splits)

lemma at_pos_next:
  "at_pos (int (length us)) st ix p \<Longrightarrow>
   at_pos (int (length us)) (if st + (ix + 1) = int (length us) then 0 - (ix + 1) else st) (ix + 1)
     (ring_succ p us)"
  by (auto simp: at_pos_def split: if_splits)

definition msg_len :: "UnitStruct list \<Rightarrow> nat" where
  "msg_len ws = length (concat (map u_data (take (chain ws) ws)))"

lemma length_u_data:
  "length (u_buff u) = 4096 \<Longrightarrow> 0 \<le> u_len u \<Longrightarrow> u_len u \<le> 4096 \<Longrightarrow> int (length (u_data u)) = u_len u"
  by (simp add: u_data_def)

lemma ring_succ_range:
  "0 \<le> p \<Longrightarrow> p < int (length us) \<Longrightarrow> 0 \<le> ring_succ p us \<and> ring_succ p us < int (length us)"
  by auto

lemma get_scan_ok:
  assumes "chained (ring_units p k us)" "0 < k" "k \<le> f" "0 \<le> p" "p < int (length us)"
    and "at_pos (int (length us)) st ix p"
  shows "get_scan f us (int (length us)) st ix out
    = Inr (ix + int (chain (ring_units p k us)), out + int (msg_len (ring_units p k us)))"
  using assms
proof (induction k arbitrary: f p st ix out)
  case (Suc k)
  let ?st = "if st + (ix + 1) = int (length us) then 0 - (ix + 1) else st"
  let ?u = "us ! nat p" and ?ws = "ring_units (ring_succ p us) k us"
  have ws: "ring_units p (Suc k) us = ?u # ?ws" using Suc.prems by (simp add: ring_units_Cons)
  obtain g where f: "f = Suc g" using Suc.prems(3) by (cases f) auto
  have read: "?st + (ix + 1) = p" using Suc.prems(6) by (rule at_pos_read)
  have u: "unit_at us p = Inr ?u" using Suc.prems by (simp add: unit_at_def)
  have ch: "chained (?u # ?ws)" using Suc.prems(1) by (simp only: ws)
  then have lu: "int (length (u_data ?u)) = u_len ?u" by (intro length_u_data) simp_all
  show ?case
  proof (cases "u_has_child ?u")
    case True
    have kp: "0 < k" using ch True by (cases k) auto
    have rr: "0 \<le> ring_succ p us" "ring_succ p us < int (length us)"
      using ring_succ_range [OF Suc.prems(4,5)] by blast+
    have chw: "chained ?ws" using ch by simp
    have kg: "k \<le> g" using Suc.prems(3) f by simp
    note IH = Suc.IH [OF chw kp kg rr at_pos_next [OF Suc.prems(6)], of "out + u_len ?u"]
    show ?thesis
      unfolding f ws get_scan.simps Let_def read u res_bind.simps IH
      using ch True lu by (simp add: msg_len_def)
  next
    case False
    then show ?thesis
      unfolding f ws get_scan.simps Let_def read u res_bind.simps
      using ch lu by (auto simp: msg_len_def)
  qed
qed simp

text \<open>Copying a message into the output block, behind the bytes already copied.\<close>

definition paste :: "byte list \<Rightarrow> int \<Rightarrow> byte list \<Rightarrow> byte list" where
  "paste ob out m = take (nat out) ob @ m @ drop (nat out + length m) ob"

lemma memcpy_paste:
  "length b = 4096 \<Longrightarrow> 0 \<le> n \<Longrightarrow> n \<le> 4096 \<Longrightarrow> 0 \<le> out \<Longrightarrow> out + n \<le> int (length ob) \<Longrightarrow>
   memcpy ob out b 0 n = Inr (paste ob out (take (nat n) b))"
  by (simp add: memcpy_def mem_write_def paste_def)

lemma paste_paste:
  assumes "0 \<le> out" "out + int (length a) + int (length b) \<le> int (length ob)"
  shows "paste (paste ob out a) (out + int (length a)) b = paste ob out (a @ b)"
proof -
  have n: "nat (out + int (length a)) = nat out + length a" using assms(1) by simp
  have o: "nat out + length a + length b \<le> length ob" using assms by linarith
  show ?thesis using o by (simp add: paste_def n ac_simps)
qed

lemma length_paste:
  "0 \<le> out \<Longrightarrow> out + int (length a) \<le> int (length ob) \<Longrightarrow> length (paste ob out a) = length ob"
  by (simp add: paste_def)

lemma paste_0: "paste ob 0 m = m @ drop (length m) ob"
  by (simp add: paste_def)

lemma paste_Nil: "0 \<le> out \<Longrightarrow> paste ob out [] = ob"
  by (simp add: paste_def)

definition first_msg :: "UnitStruct list \<Rightarrow> byte list" where
  "first_msg ws = concat (map u_data (take (chain ws) ws))"

definition bufs_ok :: "UnitStruct list \<Rightarrow> bool" where
  "bufs_ok us \<longleftrightarrow> (\<forall>u \<in> set us. length (u_buff u) = 4096)"

lemma get_copy_ok:
  assumes "chained (ring_units p k us)" "0 < k" "k \<le> f" "k \<le> length us" "0 \<le> p" "p < int (length us)"
    and "at_pos (int (length us)) st ix p" and "0 \<le> out"
    and "out + int (length (first_msg (ring_units p k us))) \<le> int (length ob)"
  shows "\<exists>pos us'. get_copy f us (int (length us)) st ix ob out
      = Inr (pos, paste ob out (first_msg (ring_units p k us)), us')
    \<and> length us' = length us
    \<and> (bufs_ok us \<longrightarrow> bufs_ok us')
    \<and> 0 \<le> pos \<and> pos < int (length us)
    \<and> ring_succ pos us = (p + int (chain (ring_units p k us))) mod int (length us)
    \<and> ring_units (ring_succ pos us) (k - chain (ring_units p k us)) us'
        = drop (chain (ring_units p k us)) (ring_units p k us)"
  using assms
proof (induction k arbitrary: f p st ix out ob us)
  case (Suc k)
  let ?st = "if st + (ix + 1) = int (length us) then 0 - (ix + 1) else st"
  let ?u = "us ! nat p" and ?ws = "ring_units (ring_succ p us) k us"
  let ?us = "us[nat p := ?u\<lparr>u_buff := replicate 4096 0, u_len := 0\<rparr>]"
  have ws: "ring_units p (Suc k) us = ?u # ?ws" using Suc.prems by (simp add: ring_units_Cons)
  obtain g where f: "f = Suc g" using Suc.prems(3) by (cases f) auto
  have read: "?st + (ix + 1) = p" using Suc.prems(7) by (rule at_pos_read)
  have u: "unit_at us p = Inr ?u" using Suc.prems by (simp add: unit_at_def)
  have ch: "chained (?u # ?ws)" using Suc.prems(1) by (simp only: ws)
  then have lu: "int (length (u_data ?u)) = u_len ?u" by (intro length_u_data) simp_all
  have before: "ring_units (ring_succ p us) j ?us = ring_units (ring_succ p us) j us" if "j \<le> k" for j
    using Suc.prems(4-6) that by (intro ring_units_update_before) simp_all
  have succ: "ring_succ p us = (p + 1) mod int (length us)"
    using mod_succ [of "int (length us)" p] Suc.prems(5,6) by (auto simp: mod_pos_pos_trivial)
  have upd: "bufs_ok us \<longrightarrow> bufs_ok ?us"
    by (auto simp: bufs_ok_def dest!: set_update_subset_insert [THEN subsetD])
  show ?case
  proof (cases "u_len ?u \<le> 0")
    case True
    then have c: "\<not> u_has_child ?u" "u_len ?u = 0" using ch by auto
    then have "first_msg (?u # ?ws) = []" by (simp add: first_msg_def u_data_def)
    moreover have "get_copy f us (int (length us)) st ix ob out = Inr (p, ob, us)"
      unfolding f get_copy.simps Let_def read u res_bind.simps using c by simp
    ultimately show ?thesis
      unfolding ws using Suc.prems(5,6,8) c succ
      by (intro exI [of _ p] exI [of _ us]) (simp add: paste_Nil)
  next
    case False
    let ?ob = "paste ob out (u_data ?u)"
    have fm: "first_msg (?u # ?ws) = u_data ?u @ (if u_has_child ?u then first_msg ?ws else [])"
      by (simp add: first_msg_def)
    have room: "out + int (length (u_data ?u)) + int (length (if u_has_child ?u then first_msg ?ws else []))
        \<le> int (length ob)"
      using Suc.prems(9) unfolding ws fm by simp
    have cp: "memcpy ob out (u_buff ?u) 0 (u_len ?u) = Inr ?ob"
      unfolding u_data_def by (rule memcpy_paste) (use ch lu room Suc.prems(8) in auto)
    have lob: "length ?ob = length ob"
      using Suc.prems(8) room by (intro length_paste) simp_all
    have step: "get_copy f us (int (length us)) st ix ob out =
        (if u_has_child ?u then get_copy g ?us (int (length us)) ?st (ix + 1) ?ob (out + u_len ?u)
         else Inr (p, ?ob, ?us))"
      unfolding f get_copy.simps Let_def read u res_bind.simps cp using False by simp
    show ?thesis
    proof (cases "u_has_child ?u")
      case True
      have kp: "0 < k" using ch True by (cases k) auto
      have rr: "0 \<le> ring_succ p us" "ring_succ p us < int (length ?us)"
        using ring_succ_range [OF Suc.prems(5,6)] by simp_all
      have wsu: "ring_units (ring_succ p us) k ?us = ?ws" by (rule before) simp
      have chw: "chained (ring_units (ring_succ p us) k ?us)" using ch wsu by simp
      have kg: "k \<le> g" "k \<le> length ?us" using Suc.prems(3,4) f by simp_all
      have at: "at_pos (int (length ?us)) ?st (ix + 1) (ring_succ p us)"
        using at_pos_next [OF Suc.prems(7)] by simp
      have o: "0 \<le> out + u_len ?u" using Suc.prems(8) False by simp
      have rm: "out + u_len ?u + int (length (first_msg (ring_units (ring_succ p us) k ?us)))
          \<le> int (length ?ob)" using room True lob lu wsu by simp
      obtain pos us' where IH: "get_copy g ?us (int (length us)) ?st (ix + 1) ?ob (out + u_len ?u)
          = Inr (pos, paste ?ob (out + u_len ?u) (first_msg ?ws), us')" "length us' = length us"
        "bufs_ok ?us \<longrightarrow> bufs_ok us'"
        "0 \<le> pos" "pos < int (length us)"
        "ring_succ pos us = (ring_succ p us + int (chain ?ws)) mod int (length us)"
        "ring_units (ring_succ pos us) (k - chain ?ws) us' = drop (chain ?ws) ?ws"
        using Suc.IH [OF chw kp kg rr at o rm] unfolding wsu by auto
      have "paste ?ob (out + u_len ?u) (first_msg ?ws) = paste ob out (u_data ?u @ first_msg ?ws)"
        using paste_paste [of out "u_data ?u" "first_msg ?ws" ob] Suc.prems(8) room True lu by simp
      moreover have "(ring_succ p us + int (chain ?ws)) mod int (length us)
          = (p + int (Suc (chain ?ws))) mod int (length us)"
        unfolding succ by (simp add: mod_add_left_eq algebra_simps)
      ultimately show ?thesis
        unfolding step ws fm using IH upd True
        by (intro exI [of _ pos] exI [of _ us']) simp
    next
      case F: False
      then show ?thesis
        unfolding step ws fm using Suc.prems(5,6) upd before [of k] succ
        by (intro exI [of _ p] exI [of _ ?us]) simp
    qed
  qed
qed simp

lemma cl_unfold:
  assumes "cl_inv L"
  obtains us where "cl_data_ptr L = Some us" "cl_max_stru_size L = int (length us)" "us \<noteq> []"
    "bufs_ok us" "0 \<le> cl_start_pos_index L" "cl_start_pos_index L < int (length us)"
    "0 \<le> cl_using_size L" "cl_using_size L \<le> int (length us)"
    "cl_end_pos_index L = (cl_start_pos_index L + cl_using_size L) mod int (length us)"
    "cl_units L = ring_units (cl_start_pos_index L) (nat (cl_using_size L)) us" "chained (cl_units L)"
  using assms by (auto simp: cl_inv_def cl_units_def bufs_ok_def split: option.splits)

lemma cl_GetBuffer_empty:
  assumes "cl_inv L" and "cl_abs L = []"
  shows "cl_GetBuffer ob mx ol L = Inr (False, ob, ol, L)"
proof -
  from assms(1) obtain us where c: "cl_data_ptr L = Some us" "cl_max_stru_size L = int (length us)"
      "0 \<le> cl_start_pos_index L" "cl_start_pos_index L < int (length us)" "0 \<le> cl_using_size L"
      "cl_end_pos_index L = (cl_start_pos_index L + cl_using_size L) mod int (length us)"
      "cl_units L = ring_units (cl_start_pos_index L) (nat (cl_using_size L)) us"
    by (rule cl_unfold)
  have "cl_units L = []" using assms(2) by (cases "cl_units L") (auto simp: cl_abs_def split: if_splits)
  then have "cl_using_size L = 0" using c(5,7) by (cases "nat (cl_using_size L)") (auto simp: ring_units_Suc)
  then show ?thesis using c by (simp add: cl_GetBuffer_def)
qed

lemma cl_head:
  assumes "chained ws" "ws \<noteq> []"
  shows "cl_msgs ws = first_msg ws # cl_msgs (drop (chain ws) ws)"
  using cl_msgs_chain [OF assms] by (simp add: first_msg_def)

lemma cl_GetBuffer_scan:
  assumes "cl_inv L" and "cl_abs L = m # ms"
  shows "\<exists>us. cl_data_ptr L = Some us \<and> (cl_start_pos_index L = cl_end_pos_index L \<longrightarrow> cl_using_size L \<noteq> 0)
    \<and> get_scan (Suc (length us)) us (cl_max_stru_size L) (cl_start_pos_index L) (-1) 0
        = Inr (int (chain (cl_units L)) - 1, int (length m))
    \<and> cl_units L \<noteq> [] \<and> first_msg (cl_units L) = m \<and> cl_msgs (drop (chain (cl_units L)) (cl_units L)) = ms"
proof -
  from assms(1) obtain us where c: "cl_data_ptr L = Some us" "cl_max_stru_size L = int (length us)"
      "0 \<le> cl_start_pos_index L" "cl_start_pos_index L < int (length us)" "0 \<le> cl_using_size L"
      "cl_using_size L \<le> int (length us)"
      "cl_units L = ring_units (cl_start_pos_index L) (nat (cl_using_size L)) us" "chained (cl_units L)"
    by (rule cl_unfold)
  have ne: "cl_units L \<noteq> []" using assms(2) by (auto simp: cl_abs_def)
  then have k: "0 < nat (cl_using_size L)" using c(7) by (cases "nat (cl_using_size L)") auto
  have m: "first_msg (cl_units L) = m" "cl_msgs (drop (chain (cl_units L)) (cl_units L)) = ms"
    using cl_head [OF c(8) ne] assms(2) by (simp_all add: cl_abs_def)
  have "at_pos (int (length us)) (cl_start_pos_index L) (-1) (cl_start_pos_index L)"
    using c(4) by (simp add: at_pos_def)
  then have "get_scan (Suc (length us)) us (int (length us)) (cl_start_pos_index L) (-1) 0
      = Inr (-1 + int (chain (cl_units L)), 0 + int (msg_len (cl_units L)))"
    unfolding c(7) using c k by (intro get_scan_ok) auto
  moreover have "msg_len (cl_units L) = length m" using m(1) by (simp add: msg_len_def first_msg_def)
  ultimately show ?thesis using c ne m k by auto
qed

lemma cl_GetBuffer_big:
  assumes "cl_inv L" and "cl_abs L = m # ms" and "mx \<le> int (length m)"
  shows "cl_GetBuffer ob mx ol L = Inr (False, ob, ol, L)"
  using cl_GetBuffer_scan [OF assms(1,2)] assms(3) by (auto simp: cl_GetBuffer_def)

lemma cl_GetBuffer_ok:
  assumes "cl_inv L" and "cl_abs L = m # ms" and "int (length m) < mx" and "length m \<le> length ob"
  obtains L' where "cl_GetBuffer ob mx ol L
      = Inr (True, m @ drop (length m) ob, int (length m), L')"
    "cl_inv L'" "cl_abs L' = ms" "cl_max_stru_size L' = cl_max_stru_size L"
    "cl_using_size L' < cl_using_size L"
proof -
  from assms(1) obtain us where c: "cl_data_ptr L = Some us" "cl_max_stru_size L = int (length us)"
      "us \<noteq> []" "bufs_ok us"
      "0 \<le> cl_start_pos_index L" "cl_start_pos_index L < int (length us)" "0 \<le> cl_using_size L"
      "cl_using_size L \<le> int (length us)"
      "cl_end_pos_index L = (cl_start_pos_index L + cl_using_size L) mod int (length us)"
      "cl_units L = ring_units (cl_start_pos_index L) (nat (cl_using_size L)) us" "chained (cl_units L)"
    by (rule cl_unfold)
  have sc: "cl_start_pos_index L = cl_end_pos_index L \<longrightarrow> cl_using_size L \<noteq> 0"
      "get_scan (Suc (length us)) us (int (length us)) (cl_start_pos_index L) (-1) 0
        = Inr (int (chain (cl_units L)) - 1, int (length m))"
      "cl_units L \<noteq> []" "first_msg (cl_units L) = m"
      "cl_msgs (drop (chain (cl_units L)) (cl_units L)) = ms"
    using cl_GetBuffer_scan [OF assms(1,2)] c(1,2) by auto
  let ?s = "cl_start_pos_index L" and ?k = "nat (cl_using_size L)" and ?ws = "cl_units L"
  have kp: "0 < ?k" using sc(3) c(10) by (cases ?k) auto
  have at: "at_pos (int (length us)) ?s (-1) ?s" using c(6) by (simp add: at_pos_def)
  have le: "chain ?ws \<le> ?k" using chain_le [of ?ws] by (simp add: c(10))
  have pos: "0 < chain ?ws" using sc(3) by (cases ?ws) auto
  have "\<exists>pos us'. get_copy (Suc (length us)) us (int (length us)) ?s (-1) ob 0
      = Inr (pos, paste ob 0 (first_msg (ring_units ?s ?k us)), us')
    \<and> length us' = length us \<and> (bufs_ok us \<longrightarrow> bufs_ok us') \<and> 0 \<le> pos \<and> pos < int (length us)
    \<and> ring_succ pos us = (?s + int (chain (ring_units ?s ?k us))) mod int (length us)
    \<and> ring_units (ring_succ pos us) (?k - chain (ring_units ?s ?k us)) us'
        = drop (chain (ring_units ?s ?k us)) (ring_units ?s ?k us)"
    using c kp at sc(4) assms(4) by (intro get_copy_ok) auto
  then obtain pos us' where g: "get_copy (Suc (length us)) us (int (length us)) ?s (-1) ob 0
      = Inr (pos, m @ drop (length m) ob, us')"
    "length us' = length us" "bufs_ok us'" "0 \<le> pos" "pos < int (length us)"
    "ring_succ pos us = (?s + int (chain ?ws)) mod int (length us)"
    "ring_units (ring_succ pos us) (?k - chain ?ws) us' = drop (chain ?ws) ?ws"
    unfolding c(10) [symmetric] using c(4) sc(4) by (auto simp: paste_0)
  let ?L = "L\<lparr>cl_data_ptr := Some us', cl_start_pos_index := ring_succ pos us,
      cl_using_size := cl_using_size L - int (chain ?ws)\<rparr>"
  have get: "cl_GetBuffer ob mx ol L = Inr (True, m @ drop (length m) ob, int (length m), ?L)"
    using c(1,2) sc(1,2) g(1) assms(3) by (auto simp: cl_GetBuffer_def)
  have "nat (cl_using_size L - int (chain ?ws)) = ?k - chain ?ws" by (simp add: nat_diff_distrib')
  then have un: "cl_units ?L = drop (chain ?ws) ?ws" using g(7) by (simp add: cl_units_def)
  have rr: "0 \<le> ring_succ pos us \<and> ring_succ pos us < int (length us)"
    using ring_succ_range [OF g(4,5)] .
  have "(ring_succ pos us + (cl_using_size L - int (chain ?ws))) mod int (length us)
      = (?s + cl_using_size L) mod int (length us)"
    unfolding g(6) by (simp add: mod_add_left_eq)
  moreover have "int (chain ?ws) \<le> cl_using_size L" using le c(7) by linarith
  ultimately have "cl_inv ?L"
    using c(2,3,7-9) g(2,3) rr un chained_drop [OF c(11), of "chain ?ws"]
    by (simp add: cl_inv_def bufs_ok_def)
  moreover have "cl_abs ?L = ms" using un sc(5) by (simp add: cl_abs_def)
  ultimately show ?thesis using get pos by (intro that [of ?L]) simp_all
qed

lemma cl_InitBuffer_ok:
  assumes "0 < n"
  obtains L' where "cl_InitBuffer n L = Inr L'" "cl_inv L'" "cl_abs L' = []"
    "cl_max_stru_size L' = n" "cl_using_size L' = 0"
proof -
  let ?L = "L\<lparr>cl_max_stru_size := n, cl_data_ptr := Some (replicate (nat n) unit_new),
    cl_using_size := 0, cl_start_pos_index := 0, cl_end_pos_index := 0\<rparr>"
  have "cl_inv ?L" using assms by (simp add: cl_inv_def cl_units_def unit_new_def)
  then show ?thesis using assms
    by (intro that [of ?L]) (simp_all add: cl_InitBuffer_def cl_abs_def cl_units_def)
qed

section \<open>The ring is a message queue\<close>

definition cl_free :: "CircleList \<Rightarrow> int" where
  "cl_free L = cl_max_stru_size L - cl_using_size L"

interpretation clq: message_queue cl_inv cl_abs cl_free cl_AddBuffer cl_GetBuffer
proof (unfold_locales, goal_cases)
  case (1 L len buff)
  have "units_needed len = 1" using 1(3) by (simp add: units_needed_def)
  moreover obtain L' where "cl_AddBuffer buff len L = Inr (len \<le> MaxSizePerBuff, L')" "cl_inv L'"
    "cl_abs L' = cl_abs L @ [stored_msg buff len]" "cl_max_stru_size L' = cl_max_stru_size L"
    "cl_using_size L' = cl_using_size L + units_needed len"
    by (rule cl_AddBuffer_ok [of L len buff]) (use 1 in \<open>auto simp: cl_free_def units_needed_def\<close>)
  ultimately show ?case using 1(3) by (simp add: cl_free_def stored_msg_def)
next
  case (2 L len buff)
  then show ?case by (intro cl_AddBuffer_full) (simp_all add: cl_free_def units_needed_def)
next
  case (3 L ob mx ol)
  then show ?case by (rule cl_GetBuffer_empty)
next
  case (4 L m ms mx ob ol)
  obtain L' where "cl_GetBuffer ob mx ol L = Inr (True, m @ drop (length m) ob, int (length m), L')"
    "cl_inv L'" "cl_abs L' = ms" "cl_max_stru_size L' = cl_max_stru_size L"
    "cl_using_size L' < cl_using_size L"
    using cl_GetBuffer_ok [OF 4] .
  then show ?case by (auto simp: cl_free_def)
next
  case (5 L m ms mx ob ol)
  then show ?case by (rule cl_GetBuffer_big)
qed

lemma cl_add_refines:
  assumes "cl_inv L" "0 \<le> len" "len \<le> 4096" "len \<le> int (length buff)"
  shows "\<exists>L'. cl_AddBuffer buff len L = Inr (0 < cl_free L, L') \<and> cl_inv L'
      \<and> cl_abs L' = (if 0 < cl_free L then cl_abs L @ [take (nat len) buff] else cl_abs L)"
  using clq.add_ok [OF assms] clq.add_full [OF assms(1,3)] assms(1) by fastforce

lemma cl_get_refines:
  assumes "cl_inv L" "4096 < length ob"
  shows "\<exists>b ob' n L'. cl_GetBuffer ob (int (length ob)) 0 L = Inr (b, ob', n, L') \<and> cl_inv L'
      \<and> (case cl_abs L of
           [] \<Rightarrow> \<not> b \<and> L' = L
         | m # ms \<Rightarrow> length m \<le> 4096 \<longrightarrow>
             b \<and> n = int (length m) \<and> take (nat n) ob' = m \<and> cl_abs L' = ms)"
proof (cases "cl_abs L")
  case Nil
  then show ?thesis using clq.get_empty [OF assms(1)] assms(1) by auto
next
  case (Cons m ms)
  show ?thesis
  proof (cases "length m < length ob")
    case True
    then show ?thesis using clq.get_ok [OF assms(1) Cons, of "int (length ob)" ob 0] Cons by auto
  next
    case False
    then show ?thesis
      using clq.get_big [OF assms(1) Cons, of "int (length ob)" ob 0] Cons assms by auto
  qed
qed

lemma cl_add_whole:
  assumes "cl_inv L" "length m \<le> 4096" "0 < cl_free L"
  shows "\<exists>L'. cl_AddBuffer m (int (length m)) L = Inr (True, L') \<and> cl_inv L'
    \<and> cl_abs L' = cl_abs L @ [m] \<and> cl_free L' = cl_free L - 1"
  using clq.add_ok [OF assms(1) _ _ _ assms(3), of "int (length m)" m] assms(2) by simp

section \<open>Properties\<close>

text \<open>
  C9: The ring refines a FIFO queue of messages. On a ring that satisfies the invariant,
  \<open>AddBuffer\<close> of at most 4096 bytes either appends the message and reports success, or finds
  all units in use and changes nothing; \<open>GetBuffer\<close> with an output block of more than
  4096 bytes returns the oldest message of at most 4096 bytes and removes it. Each keeps the
  invariant.
\<close>

theorem circle_list_refines_queue:
  assumes "cl_inv L" and "0 \<le> len" "len \<le> 4096" "len \<le> int (length buff)"
    and "4096 < length ob"
  shows "(\<exists>L'. cl_AddBuffer buff len L = Inr (0 < cl_free L, L') \<and> cl_inv L'
      \<and> cl_abs L' = (if 0 < cl_free L then cl_abs L @ [take (nat len) buff] else cl_abs L))
    \<and> (\<exists>b ob' n L'. cl_GetBuffer ob (int (length ob)) 0 L = Inr (b, ob', n, L') \<and> cl_inv L'
      \<and> (case cl_abs L of
           [] \<Rightarrow> \<not> b \<and> L' = L
         | m # ms \<Rightarrow> length m \<le> 4096 \<longrightarrow>
             b \<and> n = int (length m) \<and> take (nat n) ob' = m \<and> cl_abs L' = ms))"
  using cl_add_refines [OF assms(1-4)] cl_get_refines [OF assms(1,5)] by blast

lemma cl_inv_new [simp]: "0 < n \<Longrightarrow> cl_inv (cl_new n)"
  by (simp add: cl_inv_def cl_units_def cl_new_def unit_new_def)

lemma cl_abs_new [simp]: "cl_abs (cl_new n) = []"
  by (simp add: cl_abs_def cl_units_def cl_new_def)

lemma cl_new_sizes [simp]: "cl_max_stru_size (cl_new n) = n" "cl_using_size (cl_new n) = 0"
  by (simp_all add: cl_new_def)

lemma cl_free_new [simp]: "cl_free (cl_new n) = n"
  by (simp add: cl_free_def cl_new_def)

theorem circle_list_refines_queue_witness:
  "(\<exists>L'. cl_AddBuffer [1, 2, 3] 3 (cl_new 2) = Inr (True, L') \<and> cl_inv L'
      \<and> cl_abs L' = [[1, 2, 3]])
    \<and> (\<exists>b ob' n L'. cl_GetBuffer (replicate 8192 0) 8192 0 (cl_new 2) = Inr (b, ob', n, L') \<and> cl_inv L'
      \<and> \<not> b \<and> L' = cl_new 2)"
  using circle_list_refines_queue [of "cl_new 2" 3 "[1, 2, 3]" "replicate 8192 0"] by simp

text \<open>
  A batch of messages of at most 4096 bytes that fits the free units of an empty ring is
  stored completely, and a consumer that reads with a block of 8192 bytes until \<open>GetBuffer\<close>
  returns \<open>false\<close> gets exactly the batch, in order, and leaves the ring empty.
\<close>

theorem circle_list_batch:
  assumes "cl_inv L" "cl_abs L = []" and "\<forall>m \<in> set ms. length m \<le> 4096"
    and "int (length ms) \<le> cl_free L" and "length ob = 8192"
  shows "\<exists>L1 L2. add_batch cl_AddBuffer ms L = Inr (replicate (length ms) True, L1)
    \<and> read_all cl_GetBuffer (Suc (length ms)) 8192 ob L1 = Inr (ms, L2)
    \<and> cl_inv L2 \<and> cl_abs L2 = []"
proof (rule clq.batch_fifo [OF assms(1,2) _ assms(4)])
  show "\<forall>m \<in> set ms. length m \<le> 4096 \<and> int (length m) < 8192 \<and> length m \<le> length ob"
    using assms(3,5) by auto
qed simp

theorem circle_list_batch_witness:
  "\<exists>L1 L2. add_batch cl_AddBuffer [[7], [], [8, 9]] (cl_new 3)
      = Inr (replicate (length [[7], [], [8, 9 :: byte]]) True, L1)
    \<and> read_all cl_GetBuffer (Suc (length [[7], [], [8, 9 :: byte]])) 8192 (replicate 8192 0) L1
      = Inr ([[7], [], [8, 9]], L2)
    \<and> cl_inv L2 \<and> cl_abs L2 = []"
  by (rule circle_list_batch) simp_all

text \<open>
  A message that is longer than one unit is not delivered intact. When enough units are
  free, \<open>AddBuffer\<close> stores it in several chained units but returns \<open>false\<close>, and every unit
  holds the start of the message: a message of two units comes out as its first 4096 bytes
  twice, or as its first 4096 bytes followed by its first \<open>len mod 4096\<close> bytes.
\<close>

theorem circle_list_long_message:
  assumes "cl_inv L" and "4096 < len" "len \<le> 8192" "len \<le> int (length buff)"
    and "2 \<le> cl_free L"
  shows "\<exists>L'. cl_AddBuffer buff len L = Inr (False, L') \<and> cl_inv L'
    \<and> cl_abs L' = cl_abs L @ [take 4096 buff @ take (nat (len - 4096)) buff]"
proof -
  have two: "len div 4096 = 1 \<and> len mod 4096 = len - 4096 \<and> len \<noteq> 8192 \<or> len = 8192"
  proof (cases "len = 8192")
    case False
    then have "len div 4096 = 1" using assms(2,3) by (intro int_div_pos_eq [of _ _ _ "len - 4096"]) auto
    moreover have "len mod 4096 = len - 4096"
      using assms(2,3) False by (intro int_mod_pos_eq [of _ _ 1]) auto
    ultimately show ?thesis using False by blast
  qed simp
  have s: "stored_msg buff len = take 4096 buff @ take (nat (len - 4096)) buff"
    using two assms(2) by (auto simp: stored_msg_def numeral_2_eq_2 split: if_splits)
  have "units_needed len = 2" using two assms(2) by (auto simp: units_needed_def)
  then obtain L' where "cl_AddBuffer buff len L = Inr (len \<le> MaxSizePerBuff, L')" "cl_inv L'"
    "cl_abs L' = cl_abs L @ [stored_msg buff len]"
    using cl_AddBuffer_ok [of L len buff] assms by (auto simp: cl_free_def)
  then show ?thesis using assms(2) s by auto
qed

theorem circle_list_long_message_witness:
  "\<exists>L'. cl_AddBuffer (replicate 5000 1) 5000 (cl_new 2) = Inr (False, L') \<and> cl_inv L'
    \<and> cl_abs L' = [take 4096 (replicate 5000 1) @ take 904 (replicate 5000 1)]"
  using circle_list_long_message [of "cl_new 2" 5000 "replicate 5000 1"]
  by (simp del: take_replicate replicate.simps)

text \<open>
  A message of 8192 bytes or more blocks its ring for ever: a consumer that reads with a
  block of 8192 bytes gets \<open>false\<close>, nothing is removed, and so nothing behind the message is
  ever delivered.
\<close>

theorem circle_list_blocked:
  assumes "cl_inv L" and "cl_abs L = m # ms" and "8192 \<le> length m" and "0 < f"
  shows "read_all cl_GetBuffer f 8192 ob L = Inr ([], L)"
  by (rule clq.blocked_head [OF assms(1,2) _ assms(4)]) (use assms(3) in simp)

theorem circle_list_blocked_witness:
  "\<exists>L. cl_AddBuffer (replicate 8192 7) 8192 (cl_new 2) = Inr (False, L)
    \<and> read_all cl_GetBuffer 10 8192 (replicate 8192 0) L = Inr ([], L)"
proof -
  obtain L' where L: "cl_AddBuffer (replicate 8192 7) 8192 (cl_new 2) = Inr (8192 \<le> MaxSizePerBuff, L')"
    "cl_inv L'" "cl_abs L' = cl_abs (cl_new 2) @ [stored_msg (replicate 8192 7) 8192]"
    by (rule cl_AddBuffer_ok [of "cl_new 2" 8192 "replicate 8192 7"])
      (simp_all add: units_needed_def)
  have "length (stored_msg (replicate 8192 7) 8192) = 8192"
    by (simp add: stored_msg_def numeral_2_eq_2)
  then have "read_all cl_GetBuffer 10 8192 (replicate 8192 0) L' = Inr ([], L')"
    by (intro circle_list_blocked [OF L(2), of "stored_msg (replicate 8192 7) 8192" "[]"])
      (simp_all add: L(3) del: replicate.simps)
  then show ?thesis using L(1) by (intro exI [of _ L']) simp
qed

end
