(* ===== verification/Command_Chain.thy ===== *)
theory Command_Chain
  imports Miku_Base
begin

text \<open>
  \<open>BaseCommand\<close> and \<open>CommandChain\<close> (\<open>common/base_command.h\<close>, \<open>common/command_chain.cpp\<close>):
  the table from message type to handler. A handler object is its class, a value of type
  \<open>'k\<close>, and the server pointer it was constructed with. The chain's lock is taken and released
  inside each operation.
\<close>

record 'k BaseCommand =
  cmd_class :: 'k
  cmd_server_ptr :: ptr

record 'k CommandChain =
  cc_chain :: "(int \<times> 'k BaseCommand option) list"
  cc_caller_ptr :: ptr

definition cc_new :: "'k CommandChain" where
  "cc_new = \<lparr>cc_chain = [], cc_caller_ptr = None\<rparr>"

definition cc_Init :: "ptr \<Rightarrow> 'k CommandChain \<Rightarrow> 'k CommandChain" where
  "cc_Init caller C = C\<lparr>cc_caller_ptr := caller\<rparr>"

text \<open>\<open>command_chain_[index]\<close>: the entry, and the chain with a null entry added if there was none.\<close>

definition cc_at :: "int \<Rightarrow> 'k CommandChain \<Rightarrow> 'k BaseCommand option \<times> 'k CommandChain" where
  "cc_at i C = (let (c, m) = map_index None (cc_chain C) i in (c, C\<lparr>cc_chain := m\<rparr>))"

definition cc_RegisterCommand ::
  "int \<Rightarrow> 'k BaseCommand option \<Rightarrow> 'k CommandChain \<Rightarrow> bool \<times> 'k CommandChain" where
  "cc_RegisterCommand i command C =
     (let (tmp, C1) = cc_at i C
      in if tmp \<noteq> None then (False, C1)
         else (True, C1\<lparr>cc_chain := map_put i command (cc_chain C1)\<rparr>))"

definition cc_GetCommand :: "int \<Rightarrow> 'k CommandChain \<Rightarrow> 'k BaseCommand option \<times> 'k CommandChain" where
  "cc_GetCommand i C = cc_at i C"

text \<open>\<open>delete p\<close>: the objects it frees.\<close>

fun delete_cmd :: "'k BaseCommand option \<Rightarrow> 'k BaseCommand list" where
  "delete_cmd None = []"
| "delete_cmd (Some c) = [c]"

text \<open>Both release functions return the objects they free and the new chain.\<close>

definition cc_ReleaseCommand :: "int \<Rightarrow> 'k CommandChain \<Rightarrow> 'k BaseCommand list \<times> 'k CommandChain" where
  "cc_ReleaseCommand i C =
     (let (tmp, C1) = cc_at i C
      in (if tmp = None then delete_cmd tmp else [], C1\<lparr>cc_chain := map_erase i (cc_chain C1)\<rparr>))"

definition cc_ReleaseAllCommand :: "'k CommandChain \<Rightarrow> 'k BaseCommand list \<times> 'k CommandChain" where
  "cc_ReleaseAllCommand C =
     (concat (map (\<lambda>e. if snd e = None then delete_cmd (snd e) else []) (cc_chain C)),
      C\<lparr>cc_chain := []\<rparr>)"

section \<open>Lookup\<close>

definition cc_lookup :: "'k CommandChain \<Rightarrow> int \<Rightarrow> 'k BaseCommand option" where
  "cc_lookup C i = (case map_of (cc_chain C) i of None \<Rightarrow> None | Some c \<Rightarrow> c)"

lemma cc_at_fst [simp]: "fst (cc_at i C) = cc_lookup C i"
  by (simp add: cc_at_def cc_lookup_def map_index_fst case_prod_beta)

lemma cc_at_lookup [simp]: "cc_lookup (snd (cc_at i C)) j = cc_lookup C j"
  by (simp add: cc_at_def cc_lookup_def map_of_index map_index_fst case_prod_beta split: option.split)

lemma cc_lookup_new [simp]: "cc_lookup cc_new i = None"
  by (simp add: cc_lookup_def cc_new_def)

lemma cc_register_fresh:
  "cc_lookup C i = None \<Longrightarrow>
   fst (cc_RegisterCommand i c C)
   \<and> cc_lookup (snd (cc_RegisterCommand i c C)) j = (if j = i then c else cc_lookup C j)"
  by (auto simp: cc_RegisterCommand_def cc_at_def map_index_def cc_lookup_def
      split: prod.split option.split)

lemma cc_register_taken:
  "cc_lookup C i = Some c0 \<Longrightarrow> cc_RegisterCommand i c C = (False, C)"
  by (auto simp: cc_RegisterCommand_def cc_at_def map_index_def cc_lookup_def split: option.splits)

lemma cc_get:
  "fst (cc_GetCommand i C) = cc_lookup C i" "cc_lookup (snd (cc_GetCommand i C)) j = cc_lookup C j"
  by (simp_all add: cc_GetCommand_def)

lemma cc_release_frees_nothing: "fst (cc_ReleaseAllCommand C) = []"
  by (auto simp: cc_ReleaseAllCommand_def)

lemma cc_release_lookup [simp]: "cc_lookup (snd (cc_ReleaseAllCommand C)) i = None"
  by (simp add: cc_ReleaseAllCommand_def cc_lookup_def)

text \<open>
  Registering a list of commands, stopping at the first failure: what the \<open>InitProcessor\<close> of
  every processor does.
\<close>

fun register_all :: "(int \<times> 'k BaseCommand) list \<Rightarrow> 'k CommandChain \<Rightarrow> bool \<times> 'k CommandChain" where
  "register_all [] C = (True, C)"
| "register_all ((i, c) # cs) C =
     (let (b, C1) = cc_RegisterCommand i (Some c) C
      in if b then register_all cs C1 else (False, C1))"

lemma register_all_ok:
  "distinct (map fst cs) \<Longrightarrow> \<forall>i \<in> set (map fst cs). cc_lookup C i = None \<Longrightarrow>
   fst (register_all cs C)
   \<and> cc_lookup (snd (register_all cs C)) j
      = (case map_of cs j of Some c \<Rightarrow> Some c | None \<Rightarrow> cc_lookup C j)"
proof (induction cs arbitrary: C)
  case (Cons e cs)
  obtain i c where e: "e = (i, c)" by (cases e)
  obtain b C1 where r: "cc_RegisterCommand i (Some c) C = (b, C1)"
    by (cases "cc_RegisterCommand i (Some c) C")
  have f: "b" "\<And>j. cc_lookup C1 j = (if j = i then Some c else cc_lookup C j)"
    using cc_register_fresh [of C i "Some c"] Cons.prems(2) e r by (auto simp: Ball_def)
  have i: "map_of cs i = None" using Cons.prems(1) e by (simp add: map_of_eq_None_iff)
  have "\<forall>k \<in> set (map fst cs). cc_lookup C1 k = None" using Cons.prems f(2) e by auto
  then have IH: "fst (register_all cs C1)" "cc_lookup (snd (register_all cs C1)) j
      = (case map_of cs j of Some c \<Rightarrow> Some c | None \<Rightarrow> cc_lookup C1 j)"
    using Cons.IH [of C1] Cons.prems(1) by simp_all
  show ?case using IH e r f i by (cases "j = i") (simp_all add: Let_def split: option.split)
qed simp

section \<open>Properties\<close>

text \<open>
  \<open>RegisterCommand\<close> installs a handler exactly when the index has none: it then returns
  \<open>true\<close> and later lookups of the index find the new handler, otherwise it returns \<open>false\<close> and
  every lookup is as before. A lookup never changes what later lookups find.
\<close>

theorem command_chain_lookup:
  "(fst (cc_RegisterCommand i (Some c) C) \<longleftrightarrow> cc_lookup C i = None)
   \<and> fst (cc_GetCommand j (snd (cc_RegisterCommand i (Some c) C)))
       = (if j = i \<and> cc_lookup C i = None then Some c else cc_lookup C j)
   \<and> fst (cc_GetCommand j (snd (cc_GetCommand k C))) = fst (cc_GetCommand j C)"
proof (cases "cc_lookup C i")
  case None
  then show ?thesis using cc_register_fresh [OF None, of "Some c"] by (simp add: cc_get)
next
  case (Some c0)
  then show ?thesis by (simp add: cc_register_taken [OF Some] cc_get)
qed

text \<open>
  \<open>ReleaseAllCommand\<close> empties the table without freeing a single handler: the null test
  before \<open>delete\<close> is inverted, so every registered object is leaked.
\<close>

theorem command_chain_leaks:
  "fst (cc_ReleaseAllCommand (snd (register_all cs C))) = []
   \<and> cc_lookup (snd (cc_ReleaseAllCommand (snd (register_all cs C)))) i = None"
  by (simp add: cc_release_frees_nothing)

end
