(* ===== verification/Resource_Manager.thy ===== *)
theory Resource_Manager
  imports Miku_Base "HOL-Library.Option_ord"
begin

text \<open>
  \<open>UserResourceManager<T>\<close> (\<open>common/resource_manager.h\<close>): the pool of connection objects. The
  contract a pool keeps with the user lists is the locale \<open>object_pool\<close>; the pool of the code
  is its interpretation.
\<close>

section \<open>The pool\<close>

text \<open>
  The objects of the block \<open>new T[max_num]\<close> are the addresses \<open>0 .. max_num - 1\<close>. A
  negative count makes \<open>new\<close> throw, which \<open>Init\<close> catches.
\<close>

record UserResourceManager =
  rm_max_num :: int
  rm_using :: "(ptr \<times> ptr) list"
  rm_unused :: "ptr list"

definition rm_new :: "int \<Rightarrow> UserResourceManager" where
  "rm_new j = \<lparr>rm_max_num = j, rm_using = [], rm_unused = []\<rparr>"

definition rm_Init :: "int \<Rightarrow> UserResourceManager \<Rightarrow> int \<times> UserResourceManager" where
  "rm_Init max_num R =
     (let R1 = R\<lparr>rm_max_num := max_num,
                 rm_unused := rm_unused R @ map Some [0 ..< nat max_num]\<rparr>
      in (int (length (rm_unused R1)), R1))"

definition rm_Get :: "UserResourceManager \<Rightarrow> ptr \<times> UserResourceManager" where
  "rm_Get R =
     (case rm_unused R of
        [] \<Rightarrow> (None, R)
      | u # us \<Rightarrow> (u, R\<lparr>rm_unused := us, rm_using := map_put u u (rm_using R)\<rparr>))"

definition rm_Put :: "ptr \<Rightarrow> UserResourceManager \<Rightarrow> bool \<times> UserResourceManager" where
  "rm_Put user R =
     (let (v, m) = map_index None (rm_using R) user
      in if v = None then (False, R\<lparr>rm_using := m\<rparr>)
         else (True, R\<lparr>rm_using := map_erase user m, rm_unused := rm_unused R @ [user]\<rparr>))"

section \<open>The contract of a pool\<close>

locale object_pool =
  fixes ok :: "'p \<Rightarrow> bool"
    and avail :: "'p \<Rightarrow> nat list"
    and used :: "'p \<Rightarrow> nat set"
    and get :: "'p \<Rightarrow> ptr \<times> 'p"
    and put :: "ptr \<Rightarrow> 'p \<Rightarrow> bool \<times> 'p"
  assumes distinct_avail: "ok p \<Longrightarrow> distinct (avail p) \<and> set (avail p) \<inter> used p = {}"
    and get_none: "ok p \<Longrightarrow> avail p = [] \<Longrightarrow> get p = (None, p)"
    and get_some: "ok p \<Longrightarrow> avail p = a # as \<Longrightarrow>
      \<exists>p'. get p = (Some a, p') \<and> ok p' \<and> avail p' = as \<and> used p' = insert a (used p)"
    and put_used: "ok p \<Longrightarrow> a \<in> used p \<Longrightarrow>
      \<exists>p'. put (Some a) p = (True, p') \<and> ok p' \<and> avail p' = avail p @ [a] \<and> used p' = used p - {a}"
    and put_other: "ok p \<Longrightarrow> a \<notin> used p \<Longrightarrow>
      \<exists>p'. put (Some a) p = (False, p') \<and> ok p' \<and> avail p' = avail p \<and> used p' = used p"

text \<open>\<open>n\<close> calls of \<open>Get\<close>.\<close>

fun get_many :: "('p \<Rightarrow> ptr \<times> 'p) \<Rightarrow> nat \<Rightarrow> 'p \<Rightarrow> ptr list \<times> 'p" where
  "get_many get 0 p = ([], p)"
| "get_many get (Suc n) p =
     (let (a, p1) = get p; (as, p2) = get_many get n p1 in (a # as, p2))"

context object_pool
begin

lemma get_many_ok:
  "ok p \<Longrightarrow> \<exists>p'. get_many get n p
      = (map Some (take n (avail p)) @ replicate (n - length (avail p)) None, p')
    \<and> ok p' \<and> avail p' = drop n (avail p) \<and> used p' = set (take n (avail p)) \<union> used p"
proof (induction n arbitrary: p)
  case (Suc n)
  show ?case
  proof (cases "avail p")
    case Nil
    have g: "get p = (None, p)" by (rule get_none [OF Suc.prems Nil])
    obtain p' where "get_many get n p = (replicate n None, p')" "ok p'" "avail p' = []"
      "used p' = used p" using Suc.IH [OF Suc.prems] Nil by auto
    then show ?thesis using Nil by (simp add: g)
  next
    case (Cons a as)
    obtain p1 where 1: "get p = (Some a, p1)" "ok p1" "avail p1 = as" "used p1 = insert a (used p)"
      using get_some [OF Suc.prems Cons] by blast
    show ?thesis using Suc.IH [OF 1(2)] 1 Cons by (auto simp: Let_def)
  qed
qed simp

text \<open>What is taken is never an object that is already in use, and never one object twice.\<close>

lemma get_fresh:
  assumes "ok p" "n \<le> length (avail p)"
  shows "\<exists>as p'. get_many get n p = (map Some as, p') \<and> distinct as \<and> set as \<inter> used p = {}"
  using get_many_ok [OF assms(1), of n] distinct_avail [OF assms(1)] assms(2)
  by (force simp: distinct_take dest: in_set_takeD)

lemma conservation:
  assumes "ok p" "avail p = a # as"
  shows "\<exists>p1 p2. get p = (Some a, p1) \<and> put (Some a) p1 = (True, p2) \<and> ok p2
    \<and> avail p2 = as @ [a] \<and> used p2 = used p"
proof -
  obtain p1 where 1: "get p = (Some a, p1)" "ok p1" "avail p1 = as" "used p1 = insert a (used p)"
    using get_some [OF assms] by blast
  obtain p2 where 2: "put (Some a) p1 = (True, p2)" "ok p2" "avail p2 = avail p1 @ [a]"
    "used p2 = used p1 - {a}" using put_used [OF 1(2), of a] 1(4) by blast
  have "a \<notin> used p" using distinct_avail [OF assms(1)] assms(2) by auto
  then show ?thesis using 1 2 by auto
qed

lemma double_put:
  assumes "ok p" "a \<in> used p"
  shows "\<exists>p1 p2. put (Some a) p = (True, p1) \<and> put (Some a) p1 = (False, p2) \<and> ok p2
    \<and> avail p2 = avail p @ [a] \<and> used p2 = used p - {a}"
proof -
  obtain p1 where 1: "put (Some a) p = (True, p1)" "ok p1" "avail p1 = avail p @ [a]"
    "used p1 = used p - {a}" using put_used [OF assms] by blast
  then show ?thesis using put_other [OF 1(2), of a] by auto
qed

end

section \<open>The code's pool keeps the contract\<close>

definition rm_used :: "UserResourceManager \<Rightarrow> nat set" where
  "rm_used R = {a. \<exists>b. map_of (rm_using R) (Some a) = Some (Some b)}"

definition rm_avail :: "UserResourceManager \<Rightarrow> nat list" where
  "rm_avail R = map the (rm_unused R)"

definition rm_inv :: "UserResourceManager \<Rightarrow> bool" where
  "rm_inv R \<longleftrightarrow> map_ordered (rm_using R) \<and> None \<notin> set (rm_unused R) \<and> distinct (rm_unused R)
     \<and> (\<forall>u \<in> set (rm_unused R). map_of (rm_using R) u \<in> {None, Some None})"

lemma rm_avail_set: "rm_inv R \<Longrightarrow> a \<in> set (rm_avail R) \<longleftrightarrow> Some a \<in> set (rm_unused R)"
  by (auto simp: rm_inv_def rm_avail_def image_iff) (metis option.collapse option.sel)+

interpretation pool: object_pool rm_inv rm_avail rm_used rm_Get rm_Put
proof (unfold_locales, goal_cases)
  case (1 R)
  then have "inj_on the (set (rm_unused R))"
    by (intro inj_onI) (metis option.expand rm_inv_def)
  moreover have "a \<notin> rm_used R" if "a \<in> set (rm_avail R)" for a
    using that 1 rm_avail_set [OF 1] by (auto simp: rm_used_def rm_inv_def)
  ultimately show ?case using 1 by (auto simp: rm_avail_def rm_inv_def distinct_map)
next
  case (2 R)
  then show ?case by (simp add: rm_Get_def rm_avail_def)
next
  case (3 R a as)
  then obtain us where u: "rm_unused R = Some a # us" "as = map the us"
    by (cases "rm_unused R") (auto simp: rm_avail_def rm_inv_def)
  let ?R = "R\<lparr>rm_unused := us, rm_using := map_put (Some a) (Some a) (rm_using R)\<rparr>"
  have "rm_Get R = (Some a, ?R)" by (simp add: rm_Get_def u)
  moreover have "rm_inv ?R" using 3(1) u by (auto simp: rm_inv_def)
  moreover have "rm_used ?R = insert a (rm_used R)" by (auto simp: rm_used_def)
  ultimately show ?case using u by (auto simp: rm_avail_def)
next
  case (4 R a)
  then obtain b where b: "map_of (rm_using R) (Some a) = Some (Some b)" by (auto simp: rm_used_def)
  let ?R = "R\<lparr>rm_using := map_erase (Some a) (rm_using R), rm_unused := rm_unused R @ [Some a]\<rparr>"
  have "rm_Put (Some a) R = (True, ?R)" using b by (simp add: rm_Put_def map_index_def)
  moreover have "rm_inv ?R" using 4(1) b by (force simp: rm_inv_def)
  moreover have "rm_used ?R = rm_used R - {a}" by (auto simp: rm_used_def)
  ultimately show ?case by (auto simp: rm_avail_def)
next
  case (5 R a)
  then have n: "map_of (rm_using R) (Some a) \<in> {None, Some None}"
    by (cases "map_of (rm_using R) (Some a)"; cases "the (map_of (rm_using R) (Some a))")
      (auto simp: rm_used_def)
  let ?m = "snd (map_index None (rm_using R) (Some a))"
  have "rm_Put (Some a) R = (False, R\<lparr>rm_using := ?m\<rparr>)"
    using n by (auto simp: rm_Put_def map_index_def)
  moreover have "rm_inv (R\<lparr>rm_using := ?m\<rparr>)"
    using 5(1) n by (auto simp: rm_inv_def map_of_index map_index_fst)
  moreover have "rm_used (R\<lparr>rm_using := ?m\<rparr>) = rm_used R"
    using n by (auto simp: rm_used_def map_of_index map_index_fst)
  ultimately show ?case by (auto simp: rm_avail_def)
qed

lemma rm_Init_ok:
  "rm_inv (snd (rm_Init n (rm_new j))) \<and> rm_avail (snd (rm_Init n (rm_new j))) = [0 ..< nat n]
   \<and> rm_used (snd (rm_Init n (rm_new j))) = {}"
  by (auto simp: rm_Init_def rm_new_def rm_inv_def rm_avail_def rm_used_def Let_def distinct_map comp_def)

section \<open>Properties\<close>



end
