(* ===== verification/Processor.thy ===== *)
theory Processor
  imports Circle_List Command_Chain Packets
begin

text \<open>
  \<open>BaseProcessor\<close> (\<open>common/base_processor.cpp\<close>) and what all processors of the three servers
  share: their thread tables, the two ways they start threads, and how an outgoing message is
  packed.
\<close>

section \<open>\<open>BaseProcessor\<close>\<close>

record 'k BaseProcessor =
  bp_caller_ptr :: ptr
  bp_cmd_chain :: "'k CommandChain"
  bp_data_list :: CircleList

definition bp_new :: "'k BaseProcessor" where
  "bp_new = \<lparr>bp_caller_ptr = None, bp_cmd_chain = cc_new, bp_data_list = cl_new 0\<rparr>"

definition bp_InitProcessor ::
  "int \<Rightarrow> ptr \<Rightarrow> ('k, 'x) BaseProcessor_scheme \<Rightarrow> (bool \<times> ('k, 'x) BaseProcessor_scheme) res" where
  "bp_InitProcessor max_list_size caller P =
     res_bind (cl_InitBuffer max_list_size (bp_data_list P)) (\<lambda>L.
       Inr (True, P\<lparr>bp_caller_ptr := caller, bp_data_list := L\<rparr>))"

section \<open>Threads of a processor\<close>

text \<open>
  Every processor has the same private state. \<open>pr_threads\<close> holds the slots of the array
  \<open>thread_id_ptr_\<close> that a successful \<open>pthread_create\<close> has filled; the other slots are
  uninitialised.
\<close>

record 'k Processor = "'k BaseProcessor" +
  pr_thread_count :: int
  pr_threads :: "nat list"
  pr_is_started :: bool
  pr_parent_ptr :: ptr

definition pr_new :: "'k Processor" where
  "pr_new = BaseProcessor.extend bp_new
     \<lparr>pr_thread_count = 0, pr_threads = [], pr_is_started = False, pr_parent_ptr = None\<rparr>"

text \<open>
  The creation loop. \<open>create i\<close> is what the \<open>i\<close>-th \<open>pthread_create\<close> returns, 0 on success.
  \<open>stop\<close> is the loop's exit test on that value. The result is the slots filled and the value
  of \<open>i\<close> after the loop.
\<close>

fun create_threads :: "(int \<Rightarrow> bool) \<Rightarrow> (nat \<Rightarrow> int) \<Rightarrow> nat \<Rightarrow> nat \<Rightarrow> nat list \<times> nat" where
  "create_threads stop create i 0 = ([], i)"
| "create_threads stop create i (Suc k) =
     (let filled = (if create i = 0 then [i] else [])
      in if stop (create i) then (filled, i)
         else let (ts, j) = create_threads stop create (Suc i) k in (filled @ ts, j))"

text \<open>
  Six of the seven processors keep the result of \<open>pthread_create\<close> in a \<open>bool\<close> and leave the
  loop when it is \<open>false\<close>; the gate server's processor in the room server keeps it in an
  \<open>int\<close> and leaves the loop when it is not 0.
\<close>

definition bool_stop :: "int \<Rightarrow> bool" where
  "bool_stop r \<longleftrightarrow> \<not> (r \<noteq> 0)"

definition int_stop :: "int \<Rightarrow> bool" where
  "int_stop r \<longleftrightarrow> r \<noteq> 0"

definition pr_start :: "(int \<Rightarrow> bool) \<Rightarrow> (nat \<Rightarrow> int) \<Rightarrow> int \<Rightarrow>
  ('k, 'x) Processor_scheme \<Rightarrow> bool \<times> ('k, 'x) Processor_scheme" where
  "pr_start stop create thread_count P =
     (if thread_count \<le> 0 then (False, P)
      else
        let (ts, i) = create_threads stop create 0 (nat thread_count)
        in (True, P\<lparr>pr_thread_count := thread_count, pr_is_started := True, pr_threads := ts\<rparr>))"

text \<open>
  \<open>StopProcessor\<close> joins \<open>thread_count_\<close> threads, whatever was created; joining an
  uninitialised id is undefined. Every created thread is joined once, so the array holds no
  thread afterwards; the array itself is still allocated. Then the handlers are dropped.
\<close>

definition pr_stop :: "('k, 'x) Processor_scheme \<Rightarrow> ('k, 'x) Processor_scheme res" where
  "pr_stop P =
     (if \<exists>i < nat (pr_thread_count P). i \<notin> set (pr_threads P) then Inl Undefined
      else Inr (P\<lparr>pr_is_started := False, pr_threads := [],
                  bp_cmd_chain := snd (cc_ReleaseAllCommand (bp_cmd_chain P))\<rparr>))"

lemma create_bool:
  "create i = 0 \<Longrightarrow> create_threads bool_stop create i (Suc k) = ([i], i)"
  by (simp add: bool_stop_def)

lemma create_int:
  "(\<forall>j. create j = 0) \<Longrightarrow> create_threads int_stop create i k = ([i ..< i + k], i + k)"
  by (induction k arbitrary: i) (auto simp: int_stop_def upt_conv_Cons Let_def)

text \<open>
  Where the result of \<open>pthread_create\<close> is kept in a \<open>bool\<close>, \<open>StartProcessor\<close> inverts
  its meaning: when every creation succeeds it creates one thread however many were asked
  for, and stopping a processor that was asked for two or more joins uninitialised thread
  ids. The variant that keeps it in an \<open>int\<close> creates all threads and stops properly.
\<close>

theorem start_processor_threads:
  fixes P :: "('k, 'x) Processor_scheme"
  assumes "\<forall>i. create i = 0" and "0 < n"
  shows "(\<exists>P'. pr_start bool_stop create n P = (True, P') \<and> pr_threads P' = [0]
      \<and> (is_ret (pr_stop P') \<longleftrightarrow> n = 1))
    \<and> (\<exists>P'. pr_start int_stop create n P = (True, P') \<and> pr_threads P' = [0 ..< nat n]
      \<and> is_ret (pr_stop P'))"
proof -
  obtain k where k: "nat n = Suc k" using assms(2) by (cases "nat n") auto
  then have "n = 1 \<longleftrightarrow> k = 0" using assms(2) by auto
  moreover have "create_threads bool_stop create 0 (Suc k) = ([0], 0)"
    using assms(1) by (intro create_bool) simp
  moreover have "create_threads int_stop create 0 (Suc k) = ([0 ..< Suc k], Suc k)"
    using create_int [OF assms(1), of 0 "Suc k"] by (simp del: create_threads.simps)
  ultimately show ?thesis
    using assms(2) k by (auto simp: pr_start_def pr_stop_def simp del: create_threads.simps)
qed

theorem start_processor_threads_witness:
  "(\<exists>P'. pr_start bool_stop (\<lambda>i. 0) 4 (pr_new :: unit Processor) = (True, P') \<and> pr_threads P' = [0]
      \<and> (is_ret (pr_stop P') \<longleftrightarrow> (4 :: int) = 1))
    \<and> (\<exists>P'. pr_start int_stop (\<lambda>i. 0) 4 (pr_new :: unit Processor) = (True, P')
      \<and> pr_threads P' = [0 ..< nat 4] \<and> is_ret (pr_stop P'))"
  by (rule start_processor_threads) simp_all

section \<open>Packing a message\<close>

text \<open>
  The message classes are generated code. \<open>ser m\<close> is the bytes \<open>SerializeToArray\<close> writes,
  \<open>ByteSize\<close> is their number, and \<open>None\<close> stands for a message it refuses to serialise.
\<close>

definition msg_ByteSize :: "('m \<Rightarrow> byte list option) \<Rightarrow> 'm \<Rightarrow> int" where
  "msg_ByteSize ser m = (case ser m of None \<Rightarrow> 0 | Some bs \<Rightarrow> int (length bs))"

definition msg_SerializeToArray ::
  "('m \<Rightarrow> byte list option) \<Rightarrow> 'm \<Rightarrow> byte list \<Rightarrow> (bool \<times> byte list) res" where
  "msg_SerializeToArray ser m buff =
     (case ser m of
        None \<Rightarrow> Inr (False, buff)
      | Some bs \<Rightarrow> res_bind (mem_write buff 0 bs) (\<lambda>b. Inr (True, b)))"

abbreviation str_123 :: "byte list" where "str_123 \<equiv> [49, 50, 51]"
abbreviation str_456 :: "byte list" where "str_456 \<equiv> [52, 53, 54]"

definition cyt_build :: "int \<Rightarrow> int \<Rightarrow> byte list \<Rightarrow> StruCytPacket res" where
  "cyt_build msg_id len buff =
     (let p = cyt_set_str_head (Some str_123) (cyt_new 0)
      in res_bind (cyt_set_msg_data (Some buff) len
             (p\<lparr>cyt_room_id := 0, cyt_msg_type := msg_id, cyt_msg_len := len\<rparr>))
           (\<lambda>p'. Inr (cyt_set_str_tail (Some str_456) p')))"

definition gr_build :: "int \<Rightarrow> int \<Rightarrow> byte list \<Rightarrow> GateRoomServerPack res" where
  "gr_build user_hashkey len buff =
     (let p = gr_set_str_head (Some str_123) (gr_new 0)
      in res_bind (gr_set_data_msg (Some buff) len
             (p\<lparr>gr_gs_hashkey := 0, gr_user_hashkey := user_hashkey, gr_data_len := len\<rparr>))
           (\<lambda>p'. Inr (gr_set_str_tail (Some str_456) p')))"

text \<open>
  The common part of \<open>SendData\<close> and \<open>SendDataToGS\<close> of the room server: the message goes into
  a client packet in a block of 0x2000 bytes, and that into an envelope for the user, in the
  block the message was serialised to.
\<close>

definition pack_for_user ::
  "('m \<Rightarrow> byte list option) \<Rightarrow> 'm \<Rightarrow> int \<Rightarrow> int \<Rightarrow> (bool \<times> byte list \<times> int) res" where
  "pack_for_user ser pack msg_id user_hashkey =
     res_bind (msg_SerializeToArray ser pack (replicate 0x2000 0)) (\<lambda>(ok, data_buff).
     if \<not> ok then Inr (False, data_buff, 0)
     else
       res_bind (cyt_build msg_id (msg_ByteSize ser pack) data_buff) (\<lambda>c.
       res_bind (cyt_SerializeToArray c (Some (replicate 0x2000 0)) (cyt_ByteSize c)) (\<lambda>(ok, send_buff).
       if \<not> ok then Inr (False, data_buff, 0)
       else
         res_bind (gr_build user_hashkey (cyt_ByteSize c) send_buff) (\<lambda>g.
         res_bind (gr_SerializeToArray g (Some data_buff) (gr_ByteSize g)) (\<lambda>(ok, data_buff').
         if \<not> ok then Inr (False, data_buff', 0)
         else Inr (True, data_buff', gr_ByteSize g))))))"

text \<open>The packets these build for a message of the given bytes.\<close>

definition user_cyt :: "int \<Rightarrow> byte list \<Rightarrow> StruCytPacket" where
  "user_cyt msg_id bs = \<lparr>cyt_str_head = str_123, cyt_room_id = 0, cyt_msg_len = int (length bs),
     cyt_msg_type = msg_id, cyt_msg_data = bs, cyt_str_tail = str_456\<rparr>"

definition user_gr :: "int \<Rightarrow> int \<Rightarrow> byte list \<Rightarrow> GateRoomServerPack" where
  "user_gr hashkey msg_id bs = \<lparr>gr_str_head = str_123, gr_user_hashkey = hashkey, gr_gs_hashkey = 0,
     gr_data_len = int (length bs) + 18, gr_data_msg = cyt_bytes (user_cyt msg_id bs),
     gr_str_tail = str_456\<rparr>"

lemma cyt_build_ok:
  "length bs \<le> length buff \<Longrightarrow> take (length bs) buff = bs \<Longrightarrow>
   cyt_build msg_id (int (length bs)) buff = Inr (user_cyt msg_id bs)"
  by (auto simp: cyt_build_def cyt_set_str_head_def cyt_set_str_tail_def cyt_set_msg_data_def
      cyt_new_def user_cyt_def Let_def)

lemma user_cyt_wf:
  "in_i32 msg_id \<Longrightarrow> length bs < 2147483630 \<Longrightarrow> cyt_wf (user_cyt msg_id bs)"
  by (simp add: cyt_wf_def user_cyt_def in_i32_def)

lemma user_cyt_bytes [simp]:
  "length (cyt_bytes (user_cyt msg_id bs)) = length bs + 18"
  by (simp add: cyt_bytes_def user_cyt_def)

lemma gr_build_ok:
  assumes "length bs + 18 \<le> length buff" "take (length bs + 18) buff = cyt_bytes (user_cyt msg_id bs)"
  shows "gr_build hashkey (int (length bs) + 18) buff = Inr (user_gr hashkey msg_id bs)"
proof -
  have "nat (int (length bs) + 18) = length bs + 18" by simp
  then show ?thesis using assms
    by (auto simp: gr_build_def gr_set_str_head_def gr_set_str_tail_def gr_set_data_msg_def
        gr_new_def user_gr_def Let_def)
qed

lemma user_gr_wf:
  "in_i32 hashkey \<Longrightarrow> length bs < 2147483612 \<Longrightarrow> gr_wf (user_gr hashkey msg_id bs)"
  by (simp add: gr_wf_def user_gr_def in_i32_def)

lemma user_gr_bytes [simp]:
  "length (gr_bytes (user_gr hashkey msg_id bs)) = length bs + 36"
  by (simp add: gr_bytes_def user_gr_def)

lemma user_gr_size:
  "in_i32 hashkey \<Longrightarrow> length bs < 2147483612 \<Longrightarrow>
   gr_ByteSize (user_gr hashkey msg_id bs) = int (length bs) + 36"
  using gr_ByteSize_bytes [OF user_gr_wf] by simp

lemma user_cyt_size:
  "in_i32 msg_id \<Longrightarrow> length bs < 2147483630 \<Longrightarrow>
   cyt_ByteSize (user_cyt msg_id bs) = int (length bs) + 18"
  using cyt_ByteSize_bytes [OF user_cyt_wf] by simp

lemma msg_serialize_ok:
  "ser m = Some bs \<Longrightarrow> length bs \<le> length buff \<Longrightarrow>
   msg_SerializeToArray ser m buff = Inr (True, bs @ drop (length bs) buff)"
  by (simp add: msg_SerializeToArray_def)

text \<open>A message of up to 8156 bytes is packed completely.\<close>

lemma pack_for_user_ok:
  assumes "ser m = Some bs" "length bs + 36 \<le> 8192" "in_i32 msg_id" "in_i32 hashkey"
  obtains rest where "pack_for_user ser m msg_id hashkey
      = Inr (True, gr_bytes (user_gr hashkey msg_id bs) @ rest, int (length bs) + 36)"
    "length rest = 8192 - (length bs + 36)"
proof -
  let ?b = "bs @ drop (length bs) (replicate 8192 0)" and ?c = "user_cyt msg_id bs"
  let ?g = "user_gr hashkey msg_id bs"
  have l: "length bs < 2147483612" "length bs < 2147483630" using assms(2) by simp_all
  have 1: "msg_SerializeToArray ser m (replicate 8192 0) = Inr (True, ?b)"
    using assms(1,2) by (intro msg_serialize_ok) simp_all
  have sz: "msg_ByteSize ser m = int (length bs)" using assms(1) by (simp add: msg_ByteSize_def)
  have 2: "cyt_build msg_id (int (length bs)) ?b = Inr ?c"
    by (intro cyt_build_ok) simp_all
  have 3: "cyt_SerializeToArray ?c (Some (replicate 8192 0)) (cyt_ByteSize ?c)
      = Inr (True, cyt_bytes ?c @ drop (length (cyt_bytes ?c)) (replicate 8192 0))"
    using assms(2,3) l by (intro cyt_serialize_bytes user_cyt_wf) simp_all
  have 4: "gr_build hashkey (cyt_ByteSize ?c)
      (cyt_bytes ?c @ drop (length (cyt_bytes ?c)) (replicate 8192 0)) = Inr ?g"
    unfolding user_cyt_size [OF assms(3) l(2)] using assms(2) by (intro gr_build_ok) simp_all
  have 5: "gr_SerializeToArray ?g (Some ?b) (gr_ByteSize ?g)
      = Inr (True, gr_bytes ?g @ drop (length (gr_bytes ?g)) ?b)"
    using assms(2,4) l by (intro gr_serialize_bytes user_gr_wf) simp_all
  have "pack_for_user ser m msg_id hashkey
      = Inr (True, gr_bytes ?g @ drop (length (gr_bytes ?g)) ?b, int (length bs) + 36)"
    unfolding pack_for_user_def 1 res_bind.simps case_prod_conv sz 2 3 4 5
    using user_gr_size [OF assms(4) l(1)] by simp
  then show ?thesis using assms(2) by (intro that) auto
qed

lemma pack_for_user_overflow:
  assumes "ser m = Some bs" "8174 < length bs" "in_i32 msg_id" "length bs < 2147483612"
  shows "pack_for_user ser m msg_id hashkey = Inl Out_of_bounds"
proof (cases "length bs \<le> 8192")
  case True
  let ?b = "bs @ drop (length bs) (replicate 8192 0)" and ?c = "user_cyt msg_id bs"
  have 1: "msg_SerializeToArray ser m (replicate 8192 0) = Inr (True, ?b)"
    using assms(1) True by (intro msg_serialize_ok) simp_all
  have sz: "msg_ByteSize ser m = int (length bs)" using assms(1) by (simp add: msg_ByteSize_def)
  have 2: "cyt_build msg_id (int (length bs)) ?b = Inr ?c"
    by (intro cyt_build_ok) simp_all
  have "cyt_SerializeToArray ?c (Some (replicate 8192 0)) (cyt_ByteSize ?c) = Inl Out_of_bounds"
    using assms(2) by (simp add: cyt_SerializeToArray_def user_cyt_def mem_write_def)
  then show ?thesis unfolding pack_for_user_def 1 res_bind.simps case_prod_conv sz 2 by simp
next
  case False
  then show ?thesis using assms(1)
    by (simp add: pack_for_user_def msg_SerializeToArray_def mem_write_def)
qed

end
