(* ===== verification/Room_Users.thy ===== *)
theory Room_Users
  imports Miku_Base "HOL-Library.Multiset"
begin

text \<open>
  \<open>UserInfo\<close> and \<open>UserInfoList\<close> of the room server (\<open>room_server/user_info_list.cpp\<close>): the
  users of a room by id, the pool of unused user objects, and the locked iteration
  \<open>GetFirstUser\<close> / \<open>GetNextUser\<close>.
\<close>

section \<open>User objects\<close>

abbreviation MaxNickNameLen :: nat where "MaxNickNameLen \<equiv> 32"

record UserInfo =
  gs_hashkey_user_on :: int
  user_id :: int
  user_hash_key :: int
  user_nickname :: "byte list"
  user_red_d :: int
  user_blue_d :: int
  user_level :: int
  buyer_riches :: int
  buyer_grow_up :: int
  buyer_honour :: int
  buyer_estimate :: int
  seller_income :: int
  seller_exp :: int
  seller_pop :: int
  seller_estimate :: int

text \<open>The constructor leaves \<open>user_level\<close> indeterminate; it is the argument \<open>j\<close>.\<close>

definition UserInfo_new :: "int \<Rightarrow> UserInfo" where
  "UserInfo_new j = \<lparr>gs_hashkey_user_on = 0, user_id = 0, user_hash_key = 0,
     user_nickname = replicate MaxNickNameLen 0, user_red_d = 0, user_blue_d = 0, user_level = j,
     buyer_riches = 0, buyer_grow_up = 0, buyer_honour = 0, buyer_estimate = 0,
     seller_income = 0, seller_exp = 0, seller_pop = 0, seller_estimate = 0\<rparr>"

definition UserInfo_Clear :: "UserInfo \<Rightarrow> UserInfo" where
  "UserInfo_Clear u = u\<lparr>gs_hashkey_user_on := 0, user_id := 0, user_hash_key := 0,
     user_nickname := replicate MaxNickNameLen 0, user_red_d := 0, user_blue_d := 0,
     user_level := 0, buyer_estimate := 0, buyer_honour := 0, buyer_grow_up := 0,
     buyer_riches := 0, seller_estimate := 0, seller_exp := 0, seller_pop := 0,
     seller_income := 0\<rparr>"

text \<open>The store of user objects: its contents, and the number of objects allocated so far.\<close>

record user_store =
  us_mem :: "nat \<Rightarrow> UserInfo"
  us_next :: nat

definition us_alloc :: "user_store \<Rightarrow> nat \<times> user_store" where
  "us_alloc s = (us_next s, \<lparr>us_mem = (us_mem s)(us_next s := UserInfo_new 0),
                            us_next = Suc (us_next s)\<rparr>)"

definition us_update :: "nat \<Rightarrow> (UserInfo \<Rightarrow> UserInfo) \<Rightarrow> user_store \<Rightarrow> user_store" where
  "us_update a f s = s\<lparr>us_mem := (us_mem s)(a := f (us_mem s a))\<rparr>"

section \<open>\<open>UserInfoList\<close>\<close>

text \<open>
  \<open>ul_locked\<close> says that \<open>list_lock_\<close> is held although no operation is running: the iteration
  keeps it between its calls. The mutex is not recursive, so an operation that takes it then
  never returns. \<open>ul_iter\<close> is the key the iterator stands at, \<open>None\<close> when it is at the end.
\<close>

record UserInfoList =
  ul_locked :: bool
  ul_max_user_count :: int
  ul_unused :: "ptr list"
  ul_users :: "(int \<times> ptr) list"
  ul_iter :: "int option"

definition ul_new :: UserInfoList where
  "ul_new = \<lparr>ul_locked = False, ul_max_user_count = 0, ul_unused = [], ul_users = [], ul_iter = None\<rparr>"

definition ul_lock :: "UserInfoList \<Rightarrow> unit res" where
  "ul_lock L = (if ul_locked L then Inl Blocked else Inr ())"

fun alloc_users :: "nat \<Rightarrow> user_store \<Rightarrow> ptr list \<times> user_store" where
  "alloc_users 0 s = ([], s)"
| "alloc_users (Suc n) s =
     (let (a, s1) = us_alloc s; (as, s2) = alloc_users n s1 in (Some a # as, s2))"

definition ul_InitUserList ::
  "int \<Rightarrow> UserInfoList \<Rightarrow> user_store \<Rightarrow> (bool \<times> UserInfoList \<times> user_store) res" where
  "ul_InitUserList max_user_count L s =
     res_bind (ul_lock L) (\<lambda>_.
       let (as, s1) = alloc_users (nat max_user_count) s
       in Inr (True, L\<lparr>ul_max_user_count := max_user_count, ul_unused := ul_unused L @ as,
                       ul_users := []\<rparr>, s1))"

text \<open>
  \<open>GetUnusedUser\<close>: the return code and the reference parameter. \<open>front()\<close> of an empty list
  is undefined behaviour, so the branch that would allocate a new object is never reached.
\<close>

definition ul_GetUnusedUser ::
  "ptr \<Rightarrow> UserInfoList \<Rightarrow> user_store \<Rightarrow> (int \<times> ptr \<times> UserInfoList \<times> user_store) res" where
  "ul_GetUnusedUser user_info L s =
     res_bind (ul_lock L) (\<lambda>_.
       case ul_unused L of
         [] \<Rightarrow> Inl Undefined
       | Some a # us \<Rightarrow> Inr (1, Some a, L\<lparr>ul_unused := us\<rparr>, us_update a UserInfo_Clear s)
       | None # us \<Rightarrow>
           if length (ul_unused L) \<le> 0
           then let (a, s1) = us_alloc s in Inr (0, Some a, L, s1)
           else Inr (-1, user_info, L, s))"

definition ul_PushUserInUnusedList :: "ptr \<Rightarrow> UserInfoList \<Rightarrow> (bool \<times> UserInfoList) res" where
  "ul_PushUserInUnusedList user_info L =
     res_bind (ul_lock L) (\<lambda>_. Inr (True, L\<lparr>ul_unused := ul_unused L @ [user_info]\<rparr>))"

definition ul_AddUserInfo :: "int \<Rightarrow> ptr \<Rightarrow> UserInfoList \<Rightarrow> (bool \<times> UserInfoList) res" where
  "ul_AddUserInfo uid user_info L =
     res_bind (ul_lock L) (\<lambda>_.
       let (v, m) = map_index None (ul_users L) uid
       in if v \<noteq> None then Inr (False, L\<lparr>ul_users := m\<rparr>)
          else Inr (True, L\<lparr>ul_users := map_put uid user_info m\<rparr>))"

definition ul_RemoveUser :: "int \<Rightarrow> UserInfoList \<Rightarrow> UserInfoList res" where
  "ul_RemoveUser uid L =
     res_bind (ul_lock L) (\<lambda>_. Inr (L\<lparr>ul_users := map_erase uid (ul_users L)\<rparr>))"

definition ul_GetUserInfo :: "int \<Rightarrow> UserInfoList \<Rightarrow> (ptr \<times> UserInfoList) res" where
  "ul_GetUserInfo uid L =
     res_bind (ul_lock L) (\<lambda>_.
       let (v, m) = map_index None (ul_users L) uid in Inr (v, L\<lparr>ul_users := m\<rparr>))"

text \<open>
  The iteration. \<open>GetFirstUser\<close> returns with the lock held unless the map is empty;
  \<open>GetNextUser\<close> releases it when it reaches the end. Both return the value of the entry, which
  is null for an entry that a lookup has inserted.
\<close>

definition ul_GetFirstUser :: "UserInfoList \<Rightarrow> (ptr \<times> UserInfoList) res" where
  "ul_GetFirstUser L =
     res_bind (ul_lock L) (\<lambda>_.
       case ul_users L of
         [] \<Rightarrow> Inr (None, L)
       | e # _ \<Rightarrow> Inr (snd e, L\<lparr>ul_locked := True, ul_iter := Some (fst e)\<rparr>))"

definition ul_GetNextUser :: "UserInfoList \<Rightarrow> (ptr \<times> UserInfoList) res" where
  "ul_GetNextUser L =
     (case ul_iter L of
        None \<Rightarrow> Inl Undefined
      | Some k \<Rightarrow>
          (case map_next k (ul_users L) of
             None \<Rightarrow> Inr (None, L\<lparr>ul_locked := False, ul_iter := None\<rparr>)
           | Some e \<Rightarrow> Inr (snd e, L\<lparr>ul_iter := Some (fst e)\<rparr>)))"

text \<open>
  \<open>ClearAllUserInfo\<close> holds the lock while it calls \<open>PushUserInUnusedList\<close>, which takes it.
\<close>

fun push_all :: "ptr list \<Rightarrow> UserInfoList \<Rightarrow> UserInfoList res" where
  "push_all [] L = Inr L"
| "push_all (u # us) L = res_bind (ul_PushUserInUnusedList u L) (\<lambda>(_, L1). push_all us L1)"

definition ul_ClearAllUserInfo :: "UserInfoList \<Rightarrow> UserInfoList res" where
  "ul_ClearAllUserInfo L =
     res_bind (ul_lock L) (\<lambda>_.
     res_bind (push_all (map snd (ul_users L)) (L\<lparr>ul_locked := True\<rparr>)) (\<lambda>L1.
       Inr (L1\<lparr>ul_locked := False, ul_users := []\<rparr>)))"

text \<open>
  The loop every caller of the iteration runs: \<open>do \<dots> while\<close> with the object \<open>u\<close> as the current
  one. The body works on the rest of the program's state. The fuel bounds the number of
  rounds by the number of entries, see below.
\<close>

fun ul_loop :: "nat \<Rightarrow> (nat \<Rightarrow> 's \<Rightarrow> 's res) \<Rightarrow> nat \<Rightarrow> UserInfoList \<Rightarrow> 's \<Rightarrow> (UserInfoList \<times> 's) res" where
  "ul_loop 0 body u L s = Inl Diverges"
| "ul_loop (Suc f) body u L s =
     res_bind (body u s) (\<lambda>s1.
     res_bind (ul_GetNextUser L) (\<lambda>(p, L1).
       case p of None \<Rightarrow> Inr (L1, s1) | Some u1 \<Rightarrow> ul_loop f body u1 L1 s1))"

definition ul_foreach ::
  "(nat \<Rightarrow> 's \<Rightarrow> 's res) \<Rightarrow> UserInfoList \<Rightarrow> 's \<Rightarrow> (bool \<times> UserInfoList \<times> 's) res" where
  "ul_foreach body L s =
     res_bind (ul_GetFirstUser L) (\<lambda>(p, L1).
       case p of
         None \<Rightarrow> Inr (False, L1, s)
       | Some u \<Rightarrow> res_bind (ul_loop (length (ul_users L)) body u L1 s) (\<lambda>(L2, s2). Inr (True, L2, s2)))"

section \<open>Iterating over the users\<close>

fun res_fold :: "('a \<Rightarrow> 's \<Rightarrow> 's res) \<Rightarrow> 'a list \<Rightarrow> 's \<Rightarrow> 's res" where
  "res_fold f [] s = Inr s"
| "res_fold f (x # xs) s = res_bind (f x s) (res_fold f xs)"

text \<open>The users before the first null entry, and whether there is one.\<close>

fun live_users :: "(int \<times> ptr) list \<Rightarrow> nat list" where
  "live_users [] = []"
| "live_users ((k, None) # m) = []"
| "live_users ((k, Some a) # m) = a # live_users m"

fun first_null :: "(int \<times> ptr) list \<Rightarrow> int option" where
  "first_null [] = None"
| "first_null ((k, None) # m) = Some k"
| "first_null ((k, Some a) # m) = first_null m"

lemma first_null_None: "first_null m = None \<longleftrightarrow> None \<notin> snd ` set m"
  by (induction m rule: first_null.induct) auto

lemma live_users_all: "first_null m = None \<Longrightarrow> map Some (live_users m) = map snd m"
  by (induction m rule: first_null.induct) auto

text \<open>The iterator as the loop leaves it: the lock is held exactly when a null entry stopped it.\<close>

definition stopped_at :: "(int \<times> ptr) list \<Rightarrow> UserInfoList \<Rightarrow> UserInfoList" where
  "stopped_at m L = L\<lparr>ul_locked := first_null m \<noteq> None, ul_iter := first_null m\<rparr>"

lemma ul_loop_run:
  assumes "map_ordered (xs @ (k, Some u) # ys)" "ul_users L = xs @ (k, Some u) # ys"
    and "length ys < f" "ul_iter L = Some k" "ul_locked L"
  shows "ul_loop f body u L s
    = res_bind (res_fold body (u # live_users ys) s) (\<lambda>s'. Inr (stopped_at ys L, s'))"
  using assms
proof (induction f arbitrary: xs k u ys L s)
  case (Suc f)
  have nx: "map_next k (ul_users L) = (case ys of [] \<Rightarrow> None | e # _ \<Rightarrow> Some e)"
    unfolding Suc.prems(2) by (rule map_next_split [OF Suc.prems(1)])
  show ?case
  proof (cases ys)
    case Nil
    then show ?thesis using nx Suc.prems(4)
      by (cases "body u s") (simp_all add: ul_GetNextUser_def stopped_at_def)
  next
    case (Cons e zs)
    obtain k' v where e: "e = (k', v)" by (cases e)
    let ?L = "L\<lparr>ul_iter := Some k'\<rparr>"
    have step: "ul_GetNextUser L = Inr (v, ?L)"
      using nx Cons e Suc.prems(4) by (simp add: ul_GetNextUser_def)
    show ?thesis
    proof (cases v)
      case None
      then show ?thesis using step Cons e Suc.prems(5)
        by (cases "body u s") (simp_all add: stopped_at_def)
    next
      case (Some w)
      have "ul_loop f body w ?L s1
          = res_bind (res_fold body (w # live_users zs) s1) (\<lambda>s'. Inr (stopped_at zs ?L, s'))" for s1
        using Suc.prems Cons e Some by (intro Suc.IH [where xs = "xs @ [(k, Some u)]"]) simp_all
      moreover have "stopped_at zs ?L = stopped_at ys L"
        using Cons e Some by (simp add: stopped_at_def)
      ultimately show ?thesis using step Cons e Some
        by (cases "body u s") (simp_all add: res_bind_assoc)
    qed
  qed
qed simp

lemma ul_foreach_run:
  assumes "map_ordered (ul_users L)" "\<not> ul_locked L" "ul_users L \<noteq> []"
  shows "ul_foreach body L s
    = res_bind (res_fold body (live_users (ul_users L)) s)
        (\<lambda>s'. Inr (live_users (ul_users L) \<noteq> [], stopped_at (ul_users L) L, s'))"
proof -
  obtain k v m where m: "ul_users L = (k, v) # m" using assms(3) by (cases "ul_users L") auto
  let ?L = "L\<lparr>ul_locked := True, ul_iter := Some k\<rparr>"
  have first: "ul_GetFirstUser L = Inr (v, ?L)"
    using assms(2) m by (simp add: ul_GetFirstUser_def ul_lock_def)
  show ?thesis
  proof (cases v)
    case None
    then show ?thesis using first m by (simp add: ul_foreach_def stopped_at_def)
  next
    case (Some u)
    have "ul_loop (length (ul_users L)) body u ?L s
        = res_bind (res_fold body (u # live_users m) s) (\<lambda>s'. Inr (stopped_at m ?L, s'))"
      using assms m Some by (intro ul_loop_run [where xs = "[]" and k = k]) simp_all
    moreover have "stopped_at m ?L = stopped_at (ul_users L) L"
      using m Some by (simp add: stopped_at_def)
    ultimately show ?thesis using first m Some
      by (simp add: ul_foreach_def res_bind_assoc del: ul_loop.simps res_fold.simps)
  qed
qed

lemma ul_foreach_empty:
  "\<not> ul_locked L \<Longrightarrow> ul_users L = [] \<Longrightarrow> ul_foreach body L s = Inr (False, L, s)"
  by (simp add: ul_foreach_def ul_GetFirstUser_def ul_lock_def)

lemma stopped_at_simps [simp]:
  "ul_users (stopped_at m L) = ul_users L" "ul_unused (stopped_at m L) = ul_unused L"
  "ul_max_user_count (stopped_at m L) = ul_max_user_count L"
  "ul_locked (stopped_at m L) \<longleftrightarrow> first_null m \<noteq> None"
  by (simp_all add: stopped_at_def)

lemma blocked_ops:
  assumes "ul_locked L"
  shows "ul_GetUserInfo i L = Inl Blocked" "ul_AddUserInfo i p L = Inl Blocked"
    "ul_RemoveUser i L = Inl Blocked" "ul_GetFirstUser L = Inl Blocked"
    "ul_PushUserInUnusedList p L = Inl Blocked" "ul_GetUnusedUser p L st = Inl Blocked"
    "ul_foreach body L s = Inl Blocked" "ul_ClearAllUserInfo L = Inl Blocked"
  using assms
  by (simp_all add: ul_GetUserInfo_def ul_AddUserInfo_def ul_RemoveUser_def ul_GetFirstUser_def
      ul_PushUserInUnusedList_def ul_GetUnusedUser_def ul_foreach_def ul_ClearAllUserInfo_def
      ul_lock_def)

end
