(* ===== verification/Chat_Room.thy ===== *)
theory Chat_Room
  imports Room_Users
begin

text \<open>
  \<open>ChatRoom\<close> of the room server (\<open>room_server/chat_room.cpp\<close>): the users of a room, those
  whose login is not confirmed yet (\<open>pre\<close>), and the video channels of the users on the
  microphone. User objects live in the store; the room holds their addresses.
\<close>

record ChatRoom =
  room_id :: int
  sock :: int
  start_channel_id :: int
  video_channel_list :: "(int \<times> byte list) list"
  user_list :: UserInfoList
  pre_user_list :: UserInfoList

text \<open>The constructor allocates 100000 user objects and 1000 more for pending logins.\<close>

definition cr_new :: "user_store \<Rightarrow> (ChatRoom \<times> user_store) res" where
  "cr_new s =
     res_bind (ul_InitUserList 100000 ul_new s) (\<lambda>(_, L, s1).
     res_bind (ul_InitUserList 1000 ul_new s1) (\<lambda>(_, P, s2).
       Inr (\<lparr>room_id = 0, sock = -1, start_channel_id = 1000, video_channel_list = [],
             user_list = L, pre_user_list = P\<rparr>, s2)))"

definition cr_SetRoom :: "int \<Rightarrow> int \<Rightarrow> ChatRoom \<Rightarrow> bool \<times> ChatRoom" where
  "cr_SetRoom rid fd R = (True, R\<lparr>room_id := rid, sock := fd\<rparr>)"

definition cr_ResetRoom :: "int \<Rightarrow> int \<Rightarrow> ChatRoom \<Rightarrow> ChatRoom res" where
  "cr_ResetRoom rid fd R =
     res_bind (ul_ClearAllUserInfo (user_list R)) (\<lambda>L.
     res_bind (ul_ClearAllUserInfo (pre_user_list R)) (\<lambda>P.
       Inr (R\<lparr>room_id := rid, sock := fd, user_list := L, pre_user_list := P\<rparr>)))"

definition cr_NewUserInfo :: "ChatRoom \<Rightarrow> user_store \<Rightarrow> (ptr \<times> ChatRoom \<times> user_store) res" where
  "cr_NewUserInfo R s =
     res_bind (ul_GetUnusedUser None (user_list R) s) (\<lambda>(n, u, L, s1).
       Inr (if n < 0 then None else u, R\<lparr>user_list := L\<rparr>, s1))"

text \<open>\<open>NewPreUserInfo\<close> takes from \<open>user_list_\<close> too.\<close>

definition cr_NewPreUserInfo :: "ChatRoom \<Rightarrow> user_store \<Rightarrow> (ptr \<times> ChatRoom \<times> user_store) res" where
  "cr_NewPreUserInfo R s =
     res_bind (ul_GetUnusedUser None (user_list R) s) (\<lambda>(n, u, L, s1).
       Inr (if n < 0 then None else u, R\<lparr>user_list := L\<rparr>, s1))"

definition cr_AddUser :: "int \<Rightarrow> ptr \<Rightarrow> ChatRoom \<Rightarrow> (bool \<times> ChatRoom) res" where
  "cr_AddUser uid user R =
     res_bind (ul_AddUserInfo uid user (user_list R)) (\<lambda>(b, L). Inr (b, R\<lparr>user_list := L\<rparr>))"

definition cr_AddPreUser :: "int \<Rightarrow> ptr \<Rightarrow> ChatRoom \<Rightarrow> (bool \<times> ChatRoom) res" where
  "cr_AddPreUser uid user R =
     res_bind (ul_AddUserInfo uid user (pre_user_list R)) (\<lambda>(b, L). Inr (b, R\<lparr>pre_user_list := L\<rparr>))"

definition cr_GetUserInfo :: "int \<Rightarrow> ChatRoom \<Rightarrow> (ptr \<times> ChatRoom) res" where
  "cr_GetUserInfo uid R =
     res_bind (ul_GetUserInfo uid (user_list R)) (\<lambda>(u, L). Inr (u, R\<lparr>user_list := L\<rparr>))"

definition cr_GetPreUserInfo :: "int \<Rightarrow> ChatRoom \<Rightarrow> (ptr \<times> ChatRoom) res" where
  "cr_GetPreUserInfo uid R =
     res_bind (ul_GetUserInfo uid (pre_user_list R)) (\<lambda>(u, L). Inr (u, R\<lparr>pre_user_list := L\<rparr>))"

definition cr_RemoveUser :: "int \<Rightarrow> ChatRoom \<Rightarrow> ChatRoom res" where
  "cr_RemoveUser uid R =
     res_bind (ul_GetUserInfo uid (user_list R)) (\<lambda>(u, L).
       case u of
         None \<Rightarrow> Inr (R\<lparr>user_list := L\<rparr>)
       | Some a \<Rightarrow>
           res_bind (ul_RemoveUser uid L) (\<lambda>L1.
           res_bind (ul_PushUserInUnusedList u L1) (\<lambda>(_, L2). Inr (R\<lparr>user_list := L2\<rparr>))))"

definition cr_RemovePreUser :: "int \<Rightarrow> ChatRoom \<Rightarrow> ChatRoom res" where
  "cr_RemovePreUser uid R =
     res_bind (ul_GetUserInfo uid (pre_user_list R)) (\<lambda>(u, L).
       case u of
         None \<Rightarrow> Inr (R\<lparr>pre_user_list := L\<rparr>)
       | Some a \<Rightarrow>
           res_bind (ul_RemoveUser uid L) (\<lambda>L1.
           res_bind (ul_PushUserInUnusedList u L1) (\<lambda>(_, L2). Inr (R\<lparr>pre_user_list := L2\<rparr>))))"

text \<open>
  \<open>operator>>\<close> on a string stream: an extraction from an empty stream fails and leaves the
  variable as it is; it never adds to the buffer \<open>str()\<close> returns. \<open>ss_extract\<close> is that
  operation on the stream's remaining text and the variable.
\<close>

definition ss_extract :: "byte list \<Rightarrow> int \<Rightarrow> int res" where
  "ss_extract text v = (if text = [] then Inr v else Inl Undefined)"

definition cr_UserApplyOneNewVideo :: "int \<Rightarrow> ChatRoom \<Rightarrow> (byte list \<times> ChatRoom) res" where
  "cr_UserApplyOneNewVideo uid R =
     (let (ch, m) = map_index [] (video_channel_list R) uid
      in if ch \<noteq> [] then Inr ([], R\<lparr>video_channel_list := m\<rparr>)
         else
           let tmp_ss = []
           in res_bind (ss_extract tmp_ss (room_id R)) (\<lambda>r.
              res_bind (ss_extract tmp_ss (start_channel_id R + 1)) (\<lambda>c.
                Inr (tmp_ss, R\<lparr>room_id := r, start_channel_id := c,
                               video_channel_list := map_put uid tmp_ss m\<rparr>))))"

definition cr_UserGetOffVideo :: "int \<Rightarrow> ChatRoom \<Rightarrow> ChatRoom" where
  "cr_UserGetOffVideo uid R = R\<lparr>video_channel_list := map_erase uid (video_channel_list R)\<rparr>"

definition cr_GetMicUserList :: "(int \<times> byte list) list \<Rightarrow> ChatRoom \<Rightarrow> (int \<times> byte list) list" where
  "cr_GetMicUserList mic_list R =
     foldl (\<lambda>m e. map_put (fst e) (snd e) m) mic_list (video_channel_list R)"

section \<open>Well-formed rooms\<close>

text \<open>
  No lock is held, the maps are ordered, no null object is in a pool, and no user object is in
  two places or twice in one.
\<close>

definition ul_wf :: "UserInfoList \<Rightarrow> bool" where
  "ul_wf L \<longleftrightarrow> \<not> ul_locked L \<and> map_ordered (ul_users L) \<and> None \<notin> set (ul_unused L)"

definition ul_lookup :: "UserInfoList \<Rightarrow> int \<Rightarrow> ptr" where
  "ul_lookup L i = (case map_of (ul_users L) i of None \<Rightarrow> None | Some p \<Rightarrow> p)"

fun the_ptrs :: "ptr list \<Rightarrow> nat list" where
  "the_ptrs [] = []"
| "the_ptrs (None # ps) = the_ptrs ps"
| "the_ptrs (Some a # ps) = a # the_ptrs ps"

lemma the_ptrs_Cons: "the_ptrs (p # ps) = the_ptrs [p] @ the_ptrs ps"
  by (cases p) auto

lemma the_ptrs_append [simp]: "the_ptrs (ps @ qs) = the_ptrs ps @ the_ptrs qs"
  by (induction ps rule: the_ptrs.induct) auto

definition ul_objects :: "UserInfoList \<Rightarrow> nat multiset" where
  "ul_objects L = mset (the_ptrs (ul_unused L)) + mset (the_ptrs (map snd (ul_users L)))"

lemma objects_put:
  "map_ordered m \<Longrightarrow> mset (the_ptrs (map snd (map_put i p m)))
     + mset (the_ptrs [case map_of m i of None \<Rightarrow> None | Some q \<Rightarrow> q])
   = mset (the_ptrs (map snd m)) + mset (the_ptrs [p])"
proof (induction m)
  case (Cons e m)
  obtain k v where e: "e = (k, v)" by (cases e)
  have no: "k = i \<or> i < k \<Longrightarrow> map_of m i = None"
    using Cons.prems e by (force simp: map_ordered_Cons map_of_eq_None_iff)
  show ?case
    using Cons.IH Cons.prems e no
    by (cases "k < i"; cases "k = i")
      (auto simp: map_ordered_Cons the_ptrs_Cons [of _ "map snd _"]
        the_ptrs_Cons [of _ "_ # map snd _"] union_ac)
qed simp

lemma objects_erase:
  "map_ordered m \<Longrightarrow> mset (the_ptrs (map snd (map_erase i m)))
     + mset (the_ptrs [case map_of m i of None \<Rightarrow> None | Some q \<Rightarrow> q])
   = mset (the_ptrs (map snd m))"
proof (induction m)
  case (Cons e m)
  obtain k v where e: "e = (k, v)" by (cases e)
  have IH: "mset (the_ptrs (map snd (map_erase i m)))
      + mset (the_ptrs [case map_of m i of None \<Rightarrow> None | Some q \<Rightarrow> q])
      = mset (the_ptrs (map snd m))" using Cons by (simp add: map_ordered_Cons)
  have no: "k = i \<Longrightarrow> map_of m i = None"
    using Cons.prems e by (force simp: map_ordered_Cons map_of_eq_None_iff)
  show ?case
    using IH e no
    by (cases "k = i") (auto simp: map_erase_def the_ptrs_Cons [of _ "map snd _"] union_ac)
qed (simp add: map_erase_def)

lemma ul_GetUserInfo_run:
  assumes "ul_wf L"
  obtains L1 where "ul_GetUserInfo i L = Inr (ul_lookup L i, L1)" "ul_wf L1"
    "\<And>j. ul_lookup L1 j = ul_lookup L j" "ul_unused L1 = ul_unused L" "ul_objects L1 = ul_objects L"
    "map_of (ul_users L1) = (map_of (ul_users L))(i \<mapsto> ul_lookup L i)"
proof -
  let ?m = "snd (map_index None (ul_users L) i)"
  have ord: "map_ordered (ul_users L)" using assms by (simp add: ul_wf_def)
  have "mset (the_ptrs (map snd ?m)) = mset (the_ptrs (map snd (ul_users L)))"
    using objects_put [OF ord, of i None] by (auto simp: map_index_def split: option.split)
  then have "ul_objects (L\<lparr>ul_users := ?m\<rparr>) = ul_objects L" by (simp add: ul_objects_def)
  moreover have "ul_wf (L\<lparr>ul_users := ?m\<rparr>)" using assms by (simp add: ul_wf_def)
  moreover have "ul_GetUserInfo i L = Inr (ul_lookup L i, L\<lparr>ul_users := ?m\<rparr>)"
    using assms by (simp add: ul_GetUserInfo_def ul_lock_def ul_wf_def ul_lookup_def
        map_index_fst case_prod_beta)
  moreover have "ul_lookup (L\<lparr>ul_users := ?m\<rparr>) j = ul_lookup L j" for j
    by (simp add: ul_lookup_def map_of_index map_index_fst split: option.split)
  moreover have "map_of ?m = (map_of (ul_users L))(i \<mapsto> ul_lookup L i)"
    by (simp add: map_of_index map_index_fst ul_lookup_def)
  ultimately show ?thesis by (intro that [of "L\<lparr>ul_users := ?m\<rparr>"]) simp_all
qed

lemma ul_AddUserInfo_run:
  assumes "ul_wf L"
  obtains L1 where "ul_AddUserInfo i (Some a) L = Inr (ul_lookup L i = None, L1)" "ul_wf L1"
    "\<And>j. ul_lookup L1 j = (if j = i \<and> ul_lookup L i = None then Some a else ul_lookup L j)"
    "ul_unused L1 = ul_unused L"
    "ul_objects L1 = ul_objects L + (if ul_lookup L i = None then {#a#} else {#})"
proof (cases "ul_lookup L i")
  case None
  let ?m = "map_put i (Some a) (snd (map_index None (ul_users L) i))"
  have ord: "map_ordered (ul_users L)" using assms by (simp add: ul_wf_def)
  let ?q = "snd (map_index None (ul_users L) i)"
  have q: "mset (the_ptrs (map snd ?q)) = mset (the_ptrs (map snd (ul_users L)))"
    using objects_put [OF ord, of i None] by (auto simp: map_index_def split: option.split)
  have "map_of ?q i = Some None" using None by (simp add: map_of_index map_index_fst ul_lookup_def)
  then have "mset (the_ptrs (map snd ?m)) = mset (the_ptrs (map snd (ul_users L))) + {#a#}"
    using objects_put [of ?q i "Some a"] ord q by simp
  then have "ul_objects (L\<lparr>ul_users := ?m\<rparr>) = ul_objects L + {#a#}" by (simp add: ul_objects_def)
  moreover have "ul_wf (L\<lparr>ul_users := ?m\<rparr>)" using assms by (simp add: ul_wf_def)
  moreover have "ul_AddUserInfo i (Some a) L = Inr (True, L\<lparr>ul_users := ?m\<rparr>)"
    using assms None by (simp add: ul_AddUserInfo_def ul_lock_def ul_wf_def ul_lookup_def
        map_index_fst case_prod_beta)
  moreover have "ul_lookup (L\<lparr>ul_users := ?m\<rparr>) j = (if j = i then Some a else ul_lookup L j)" for j
    by (simp add: ul_lookup_def map_of_index map_index_fst split: option.split)
  ultimately show ?thesis using None by (intro that [of "L\<lparr>ul_users := ?m\<rparr>"]) simp_all
next
  case (Some b)
  then have "map_of (ul_users L) i = Some (Some b)" by (auto simp: ul_lookup_def split: option.splits)
  then have "ul_AddUserInfo i (Some a) L = Inr (False, L)"
    using assms by (simp add: ul_AddUserInfo_def ul_lock_def ul_wf_def map_index_def)
  then show ?thesis using Some assms by (intro that [of L]) simp_all
qed

text \<open>What \<open>RemoveUser\<close> and \<open>RemovePreUser\<close> of a room do to the list they work on.\<close>

definition ul_give_back :: "int \<Rightarrow> UserInfoList \<Rightarrow> UserInfoList res" where
  "ul_give_back uid L0 =
     res_bind (ul_GetUserInfo uid L0) (\<lambda>(u, L).
       case u of
         None \<Rightarrow> Inr L
       | Some a \<Rightarrow>
           res_bind (ul_RemoveUser uid L) (\<lambda>L1.
           res_bind (ul_PushUserInUnusedList u L1) (\<lambda>(_, L2). Inr L2)))"

lemma cr_Remove_alt:
  "cr_RemoveUser uid R = res_bind (ul_give_back uid (user_list R)) (\<lambda>L. Inr (R\<lparr>user_list := L\<rparr>))"
  "cr_RemovePreUser uid R
     = res_bind (ul_give_back uid (pre_user_list R)) (\<lambda>L. Inr (R\<lparr>pre_user_list := L\<rparr>))"
  by (auto simp: cr_RemoveUser_def cr_RemovePreUser_def ul_give_back_def res_bind_assoc
      intro!: res_bind_cong split: option.split)

lemma ul_give_back_run:
  assumes "ul_wf L"
  obtains L1 where "ul_give_back i L = Inr L1" "ul_wf L1"
    "\<And>j. ul_lookup L1 j = (if j = i then None else ul_lookup L j)"
    "ul_unused L1 = ul_unused L @ (case ul_lookup L i of None \<Rightarrow> [] | Some a \<Rightarrow> [Some a])"
    "ul_objects L1 = ul_objects L"
proof -
  obtain L1 where 1: "ul_GetUserInfo i L = Inr (ul_lookup L i, L1)" "ul_wf L1"
    "\<And>j. ul_lookup L1 j = ul_lookup L j" "ul_unused L1 = ul_unused L" "ul_objects L1 = ul_objects L"
    using ul_GetUserInfo_run [OF assms] by blast
  show ?thesis
  proof (cases "ul_lookup L i")
    case None
    then show ?thesis using 1 by (intro that [of L1]) (simp_all add: ul_give_back_def)
  next
    case (Some a)
    let ?L = "L1\<lparr>ul_users := map_erase i (ul_users L1), ul_unused := ul_unused L1 @ [Some a]\<rparr>"
    have n: "\<not> ul_locked L1" "map_ordered (ul_users L1)" using 1(2) by (simp_all add: ul_wf_def)
    have "ul_give_back i L = Inr ?L" using 1(1) Some n
      by (simp add: ul_give_back_def ul_RemoveUser_def ul_PushUserInUnusedList_def ul_lock_def)
    moreover have "ul_wf ?L" using 1(2) by (simp add: ul_wf_def)
    moreover have "ul_lookup ?L j = (if j = i then None else ul_lookup L j)" for j
      using 1(3) [of j] by (simp add: ul_lookup_def)
    moreover have "map_of (ul_users L1) i = Some (Some a)"
      using 1(3) [of i] Some by (auto simp: ul_lookup_def split: option.splits)
    then have "ul_objects ?L = ul_objects L1"
      using objects_erase [OF n(2), of i] by (simp add: ul_objects_def)
    ultimately show ?thesis using 1(4,5) Some by (intro that [of ?L]) simp_all
  qed
qed

lemma ul_GetUnusedUser_run:
  assumes "ul_wf L" "ul_unused L = Some a # us"
  shows "ul_GetUnusedUser p L s = Inr (1, Some a, L\<lparr>ul_unused := us\<rparr>, us_update a UserInfo_Clear s)
    \<and> ul_wf (L\<lparr>ul_unused := us\<rparr>) \<and> ul_objects L = ul_objects (L\<lparr>ul_unused := us\<rparr>) + {#a#}"
  using assms by (simp add: ul_GetUnusedUser_def ul_lock_def ul_wf_def ul_objects_def)

section \<open>Properties\<close>

text \<open>
  C21: Iterating over the users of a list without null entries runs the body on every user
  exactly once, in order of the user ids, and returns with the lock released and the list
  unchanged; if the body goes wrong the iteration goes wrong in the same way.
\<close>

theorem user_iteration_complete:
  assumes "ul_wf L" and "None \<notin> snd ` set (ul_users L)"
  shows "ul_foreach body L s
    = res_bind (res_fold body (map the (map snd (ul_users L))) s)
        (\<lambda>s'. Inr (ul_users L \<noteq> [], L\<lparr>ul_iter := (if ul_users L = [] then ul_iter L else None)\<rparr>, s'))"
proof (cases "ul_users L = []")
  case True
  then show ?thesis using assms(1) by (simp add: ul_foreach_empty ul_wf_def)
next
  case False
  have f: "first_null (ul_users L) = None" using assms(2) by (simp add: first_null_None)
  have "map the (map Some (live_users (ul_users L))) = map the (map snd (ul_users L))"
    by (simp only: live_users_all [OF f])
  then have l: "live_users (ul_users L) = map the (map snd (ul_users L))" by (simp add: comp_def)
  have "\<not> ul_locked L" "map_ordered (ul_users L)" using assms(1) by (simp_all add: ul_wf_def)
  moreover from this(1) have e: "L\<lparr>ul_locked := False, ul_iter := None\<rparr> = L\<lparr>ul_iter := None\<rparr>"
    by (cases L) simp
  ultimately show ?thesis
    using False f l by (simp add: ul_foreach_run stopped_at_def e)
qed

definition ex_users :: UserInfoList where
  "ex_users = \<lparr>ul_locked = False, ul_max_user_count = 4, ul_unused = [Some 2, Some 3, Some 4],
     ul_users = [(5, Some 0), (9, Some 1)], ul_iter = None\<rparr>"

lemma ex_users_wf [simp]: "ul_wf ex_users"
  by (simp add: ex_users_def ul_wf_def map_ordered_def)

theorem user_iteration_complete_witness:
  "ul_foreach (\<lambda>u s. Inr (s @ [u])) ex_users [] = Inr (True, ex_users, [0, 1])"
  using user_iteration_complete [OF ex_users_wf, of "\<lambda>u s. Inr (s @ [u])" "[]"]
  by (simp add: ex_users_def)

text \<open>
  C25: Looking up one unknown user id poisons a list for good. The lookup inserts a null entry;
  the next iteration takes it for the end of the list, skips every user behind it and returns
  with the lock held; then no operation on the list ever returns.
\<close>

theorem user_lookup_poisons:
  assumes "ul_wf L" and "ul_lookup L i = None" and "\<forall>u s. is_ret (body u s)"
  shows "\<exists>L1 b L2 s'. ul_GetUserInfo i L = Inr (None, L1) \<and> ul_foreach body L1 s = Inr (b, L2, s')
    \<and> ul_GetUserInfo j L2 = Inl Blocked \<and> ul_AddUserInfo j p L2 = Inl Blocked
    \<and> ul_RemoveUser j L2 = Inl Blocked \<and> ul_GetFirstUser L2 = Inl Blocked
    \<and> ul_GetUnusedUser q L2 st = Inl Blocked"
proof -
  obtain L1 where 1: "ul_GetUserInfo i L = Inr (ul_lookup L i, L1)" "ul_wf L1"
    "map_of (ul_users L1) = (map_of (ul_users L))(i \<mapsto> ul_lookup L i)"
    using ul_GetUserInfo_run [OF assms(1)] by blast
  have "(i, None) \<in> set (ul_users L1)" using 1(3) assms(2) by (intro map_of_SomeD) simp
  then have n: "first_null (ul_users L1) \<noteq> None" by (auto simp: first_null_None intro: rev_image_eqI)
  then have ne: "ul_users L1 \<noteq> []" by auto
  have "is_ret (res_fold body us s)" for us s
    by (induction us arbitrary: s)
      (use assms(3) in \<open>auto elim: is_ret.elims simp: res_simps, metis is_ret.elims(2) res_bind.simps(2)\<close>)
  then obtain s' where "res_fold body (live_users (ul_users L1)) s = Inr s'"
    by (meson is_ret.elims(2))
  then have "ul_foreach body L1 s = Inr (live_users (ul_users L1) \<noteq> [], stopped_at (ul_users L1) L1, s')"
    using ne 1(2) by (simp add: ul_foreach_run ul_wf_def)
  moreover have "ul_locked (stopped_at (ul_users L1) L1)" using n by simp
  ultimately show ?thesis using 1(1) assms(2) blocked_ops by metis
qed

theorem user_lookup_poisons_witness:
  "\<exists>L1 b L2 s'. ul_GetUserInfo 7 ex_users = Inr (None, L1)
    \<and> ul_foreach (\<lambda>u s. Inr (s @ [u])) L1 [] = Inr (b, L2, s')
    \<and> ul_GetUserInfo 5 L2 = Inl Blocked \<and> ul_AddUserInfo 5 None L2 = Inl Blocked
    \<and> ul_RemoveUser 5 L2 = Inl Blocked \<and> ul_GetFirstUser L2 = Inl Blocked
    \<and> ul_GetUnusedUser None L2 \<lparr>us_mem = (\<lambda>_. UserInfo_new 0), us_next = 5\<rparr> = Inl Blocked"
  by (rule user_lookup_poisons) (simp_all add: ul_lookup_def ex_users_def ul_wf_def map_ordered_def)

text \<open>
  Removing a user from a room gives the object back to the room's pool: no user object is
  lost or duplicated, the id is free afterwards and every other id is as before.
\<close>

theorem remove_user_conserves:
  assumes "ul_wf (user_list R)"
  shows "\<exists>R'. cr_RemoveUser i R = Inr R' \<and> ul_wf (user_list R')
    \<and> ul_objects (user_list R') = ul_objects (user_list R)
    \<and> (\<forall>j. ul_lookup (user_list R') j = (if j = i then None else ul_lookup (user_list R) j))
    \<and> (ul_lookup (user_list R) i \<noteq> None \<longrightarrow>
         length (ul_unused (user_list R')) = Suc (length (ul_unused (user_list R))))"
proof -
  obtain L1 where "ul_give_back i (user_list R) = Inr L1" "ul_wf L1"
    "\<And>j. ul_lookup L1 j = (if j = i then None else ul_lookup (user_list R) j)"
    "ul_unused L1 = ul_unused (user_list R)
        @ (case ul_lookup (user_list R) i of None \<Rightarrow> [] | Some a \<Rightarrow> [Some a])"
    "ul_objects L1 = ul_objects (user_list R)"
    using ul_give_back_run [OF assms, of i] by blast
  then show ?thesis by (auto simp: cr_Remove_alt)
qed

definition ex_room :: ChatRoom where
  "ex_room = \<lparr>room_id = 1000, sock = -1, start_channel_id = 1000, video_channel_list = [],
     user_list = ex_users,
     pre_user_list = \<lparr>ul_locked = False, ul_max_user_count = 1, ul_unused = [Some 5],
        ul_users = [], ul_iter = None\<rparr>\<rparr>"

theorem remove_user_conserves_witness:
  "\<exists>R'. cr_RemoveUser 5 ex_room = Inr R' \<and> ul_wf (user_list R')
    \<and> ul_objects (user_list R') = ul_objects (user_list ex_room)
    \<and> (\<forall>j. ul_lookup (user_list R') j = (if j = 5 then None else ul_lookup (user_list ex_room) j))
    \<and> (ul_lookup (user_list ex_room) 5 \<noteq> None \<longrightarrow>
         length (ul_unused (user_list R')) = Suc (length (ul_unused (user_list ex_room))))"
  by (rule remove_user_conserves) (simp add: ex_room_def)

text \<open>
  The room operations of one visit: the pending login takes a user object, the confirmed login
  takes another and drops the pending one, and leaving the room drops that.
\<close>

definition room_visit :: "int \<Rightarrow> ChatRoom \<Rightarrow> user_store \<Rightarrow> (ChatRoom \<times> user_store) res" where
  "room_visit uid R s =
     res_bind (cr_NewUserInfo R s) (\<lambda>(u, R1, s1).
     res_bind (cr_AddPreUser uid u R1) (\<lambda>(_, R2).
     res_bind (cr_NewUserInfo R2 s1) (\<lambda>(v, R3, s2).
     res_bind (cr_AddUser uid v R3) (\<lambda>(_, R4).
     res_bind (cr_RemovePreUser uid R4) (\<lambda>R5.
     res_bind (cr_RemoveUser uid R5) (\<lambda>R6. Inr (R6, s2)))))))"

lemma room_visit_run:
  assumes "ul_wf (user_list R)" "ul_wf (pre_user_list R)"
    and "ul_lookup (user_list R) i = None" "ul_lookup (pre_user_list R) i = None"
    and "ul_unused (user_list R) = Some a # Some b # us"
  shows "\<exists>R' s'. room_visit i R s = Inr (R', s') \<and> ul_wf (user_list R') \<and> ul_wf (pre_user_list R')
    \<and> ul_unused (user_list R') = us @ [Some b]
    \<and> ul_unused (pre_user_list R') = ul_unused (pre_user_list R) @ [Some a]
    \<and> (\<forall>j. ul_lookup (user_list R') j = ul_lookup (user_list R) j)"
proof -
  let ?U = "user_list R" and ?P = "pre_user_list R"
  let ?U1 = "?U\<lparr>ul_unused := Some b # us\<rparr>" and ?U2 = "?U\<lparr>ul_unused := us\<rparr>"
  let ?s1 = "us_update a UserInfo_Clear s"
  have g1: "ul_GetUnusedUser None ?U s = Inr (1, Some a, ?U1, ?s1)" "ul_wf ?U1"
    using ul_GetUnusedUser_run [OF assms(1,5)] by simp_all
  have g2: "ul_GetUnusedUser None ?U1 ?s1 = Inr (1, Some b, ?U2, us_update b UserInfo_Clear ?s1)"
    "ul_wf ?U2" using ul_GetUnusedUser_run [OF g1(2), of b us None ?s1] by simp_all
  obtain P1 where P1: "ul_AddUserInfo i (Some a) ?P = Inr (ul_lookup ?P i = None, P1)" "ul_wf P1"
    "\<And>j. ul_lookup P1 j = (if j = i \<and> ul_lookup ?P i = None then Some a else ul_lookup ?P j)"
    "ul_unused P1 = ul_unused ?P"
    using ul_AddUserInfo_run [OF assms(2), of i a] by blast
  then have p1: "ul_AddUserInfo i (Some a) ?P = Inr (True, P1)" "ul_lookup P1 i = Some a"
    using assms(4) by simp_all
  have nU2: "ul_lookup ?U2 j = ul_lookup ?U j" for j by (simp add: ul_lookup_def)
  obtain U3 where U3: "ul_AddUserInfo i (Some b) ?U2 = Inr (ul_lookup ?U2 i = None, U3)" "ul_wf U3"
    "\<And>j. ul_lookup U3 j = (if j = i \<and> ul_lookup ?U2 i = None then Some b else ul_lookup ?U2 j)"
    "ul_unused U3 = ul_unused ?U2"
    using ul_AddUserInfo_run [OF g2(2), of i b] by blast
  then have u3: "ul_AddUserInfo i (Some b) ?U2 = Inr (True, U3)" "ul_unused U3 = us"
    "\<And>j. ul_lookup U3 j = (if j = i then Some b else ul_lookup ?U j)"
    using assms(3) nU2 by simp_all
  obtain P2 where P2: "ul_give_back i P1 = Inr P2" "ul_wf P2"
    "ul_unused P2 = ul_unused P1 @ (case ul_lookup P1 i of None \<Rightarrow> [] | Some a \<Rightarrow> [Some a])"
    using ul_give_back_run [OF P1(2), of i] by blast
  obtain U4 where U4: "ul_give_back i U3 = Inr U4" "ul_wf U4"
    "\<And>j. ul_lookup U4 j = (if j = i then None else ul_lookup U3 j)"
    "ul_unused U4 = ul_unused U3 @ (case ul_lookup U3 i of None \<Rightarrow> [] | Some a \<Rightarrow> [Some a])"
    using ul_give_back_run [OF U3(2), of i] by blast
  have "ul_lookup U4 j = ul_lookup ?U j" for j using U4(3) u3(3) assms(3) by simp
  then show ?thesis
    using g1 g2 p1 P1(4) u3 P2 U4
    by (simp add: room_visit_def cr_NewUserInfo_def cr_AddPreUser_def cr_AddUser_def cr_Remove_alt)
qed

text \<open>
  Every visit costs the room one user object. A user who logs in and leaves is gone from
  both lists, but the pool of the room has one object less and the pool for pending logins one
  more: the object of the pending login is taken from the first and given back to the second.
\<close>

theorem room_visit_drains_pool:
  assumes "ul_wf (user_list R)" "ul_wf (pre_user_list R)"
    and "ul_lookup (user_list R) i = None" "ul_lookup (pre_user_list R) i = None"
    and "2 \<le> length (ul_unused (user_list R))"
  shows "\<exists>R' s'. room_visit i R s = Inr (R', s')
    \<and> Suc (length (ul_unused (user_list R'))) = length (ul_unused (user_list R))
    \<and> length (ul_unused (pre_user_list R')) = Suc (length (ul_unused (pre_user_list R)))
    \<and> (\<forall>j. ul_lookup (user_list R') j = ul_lookup (user_list R) j)"
proof -
  obtain p q us where "ul_unused (user_list R) = p # q # us"
    using assms(5) by (cases "ul_unused (user_list R)"; cases "tl (ul_unused (user_list R))") auto
  moreover from this obtain a b where "p = Some a" "q = Some b"
    using assms(1) by (cases p; cases q) (auto simp: ul_wf_def)
  ultimately show ?thesis using room_visit_run [OF assms(1-4)] by fastforce
qed

theorem room_visit_drains_pool_witness:
  "\<exists>R' s'. room_visit 77 ex_room \<lparr>us_mem = (\<lambda>_. UserInfo_new 0), us_next = 6\<rparr> = Inr (R', s')
    \<and> Suc (length (ul_unused (user_list R'))) = length (ul_unused (user_list ex_room))
    \<and> length (ul_unused (pre_user_list R')) = Suc (length (ul_unused (pre_user_list ex_room)))
    \<and> (\<forall>j. ul_lookup (user_list R') j = ul_lookup (user_list ex_room) j)"
  by (rule room_visit_drains_pool) (simp_all add: ex_room_def ex_users_def ul_wf_def ul_lookup_def map_ordered_def)

lemma push_all_blocked: "ul_locked L \<Longrightarrow> ps \<noteq> [] \<Longrightarrow> push_all ps L = Inl Blocked"
  by (cases ps) (simp_all add: blocked_ops)

text \<open>
  Resetting a room that has any user entry never returns: \<open>ClearAllUserInfo\<close> takes the
  list's lock and then calls \<open>PushUserInUnusedList\<close>, which takes it again. Only a room whose
  user maps are empty can be reset.
\<close>

theorem reset_room_deadlocks:
  assumes "ul_wf (user_list R)" "ul_wf (pre_user_list R)"
  shows "cr_ResetRoom rid fd R
    = (if ul_users (user_list R) \<noteq> [] \<or> ul_users (pre_user_list R) \<noteq> [] then Inl Blocked
       else Inr (R\<lparr>room_id := rid, sock := fd\<rparr>))"
proof -
  have "ul_ClearAllUserInfo L = (if ul_users L \<noteq> [] then Inl Blocked else Inr L)" if "ul_wf L" for L
    using that by (cases L) (auto simp: ul_ClearAllUserInfo_def ul_lock_def ul_wf_def push_all_blocked)
  then show ?thesis using assms by (auto simp: cr_ResetRoom_def)
qed

theorem reset_room_deadlocks_witness:
  "cr_ResetRoom 0 (-1) ex_room = Inl Blocked"
  by (subst reset_room_deadlocks) (simp_all add: ex_room_def ex_users_def ul_wf_def map_ordered_def)

text \<open>
  No user ever gets a video channel. The channel name is built with \<open>>>\<close> from an empty
  stream instead of \<open><<\<close> into it, so it is the empty string, which is also the answer that
  means failure; the user is put on the microphone list with that name all the same.
\<close>

theorem video_channel_always_empty:
  "\<exists>R'. cr_UserApplyOneNewVideo i R = Inr ([], R') \<and> room_id R' = room_id R
    \<and> user_list R' = user_list R \<and> i \<in> fst ` set (video_channel_list R')"
proof (cases "fst (map_index [] (video_channel_list R) i) = []")
  case True
  then show ?thesis
    by (cases "map_index [] (video_channel_list R) i")
      (simp add: cr_UserApplyOneNewVideo_def ss_extract_def keys_put)
next
  case False
  then have "map_of (video_channel_list R) i \<noteq> None"
    by (auto simp: map_index_fst split: option.splits)
  then have "i \<in> fst ` set (video_channel_list R)" by (simp add: map_of_eq_None_iff)
  then show ?thesis
    using False by (auto simp: cr_UserApplyOneNewVideo_def map_index_def map_index_fst split: option.splits)
qed

end
