(* ===== verification/Room_Manager.thy ===== *)
theory Room_Manager
  imports Chat_Room
begin

text \<open>
  \<open>RoomManager\<close> of the room server (\<open>room_server/room_manager.cpp\<close>): the rooms by id and the
  list of unused rooms. Room objects live in a store like user objects. Memory is unlimited:
  \<open>new\<close> does not fail. The manager's lock is taken and released inside each operation.
\<close>

record room_store =
  rs_mem :: "nat \<Rightarrow> ChatRoom"
  rs_next :: nat

definition rs_update :: "nat \<Rightarrow> ChatRoom \<Rightarrow> room_store \<Rightarrow> room_store" where
  "rs_update a R s = s\<lparr>rs_mem := (rs_mem s)(a := R)\<rparr>"

record RoomManager =
  unused_room_list :: "ptr list"
  room_list :: "(int \<times> ptr) list"

definition rmg_new :: RoomManager where
  "rmg_new = \<lparr>unused_room_list = [], room_list = []\<rparr>"

definition rmg_GetNewRoom ::
  "RoomManager \<Rightarrow> room_store \<Rightarrow> user_store \<Rightarrow> (ptr \<times> RoomManager \<times> room_store \<times> user_store) res" where
  "rmg_GetNewRoom M rs us =
     (case unused_room_list M of
        [] \<Rightarrow>
          res_bind (cr_new us) (\<lambda>(R, us1).
            Inr (Some (rs_next rs), M,
                 \<lparr>rs_mem = (rs_mem rs)(rs_next rs := R), rs_next = Suc (rs_next rs)\<rparr>, us1))
      | p # ps \<Rightarrow>
          res_bind (deref p) (\<lambda>a.
          res_bind (cr_ResetRoom 0 (-1) (rs_mem rs a)) (\<lambda>R.
            Inr (p, M\<lparr>unused_room_list := ps\<rparr>, rs_update a R rs, us))))"

text \<open>
  \<open>AddRoom\<close> has no \<open>return\<close> on the path that adds the room: its result is then \<open>None\<close>, no
  value at all. No caller reads it.
\<close>

definition rmg_AddRoom :: "int \<Rightarrow> ptr \<Rightarrow> RoomManager \<Rightarrow> bool option \<times> RoomManager" where
  "rmg_AddRoom rid chat_room M =
     (if chat_room = None then (Some False, M)
      else
        let (v, m) = map_index None (room_list M) rid
        in if v \<noteq> None then (Some True, M\<lparr>room_list := m\<rparr>)
           else (None, M\<lparr>room_list := map_put rid chat_room m\<rparr>))"

definition rmg_DelRoom :: "int \<Rightarrow> RoomManager \<Rightarrow> bool \<times> RoomManager" where
  "rmg_DelRoom rid M =
     (case map_of (room_list M) rid of
        None \<Rightarrow> (False, M)
      | Some tmp_room \<Rightarrow>
          (True, M\<lparr>unused_room_list := (if tmp_room = None then unused_room_list M @ [tmp_room]
                                        else unused_room_list M),
                   room_list := map_erase rid (room_list M)\<rparr>))"

definition rmg_GetRoom :: "int \<Rightarrow> RoomManager \<Rightarrow> ptr \<times> RoomManager" where
  "rmg_GetRoom rid M =
     (let (v, m) = map_index None (room_list M) rid in (v, M\<lparr>room_list := m\<rparr>))"

section \<open>Lookup\<close>

definition rmg_lookup :: "RoomManager \<Rightarrow> int \<Rightarrow> ptr" where
  "rmg_lookup M i = (case map_of (room_list M) i of None \<Rightarrow> None | Some p \<Rightarrow> p)"

lemma rmg_GetRoom_run:
  "fst (rmg_GetRoom i M) = rmg_lookup M i"
  "rmg_lookup (snd (rmg_GetRoom i M)) j = rmg_lookup M j"
  "unused_room_list (snd (rmg_GetRoom i M)) = unused_room_list M"
  by (simp_all add: rmg_GetRoom_def rmg_lookup_def map_of_index map_index_fst case_prod_beta
      split: option.split)

lemma rmg_AddRoom_run:
  "rmg_lookup (snd (rmg_AddRoom i (Some a) M)) j
    = (if j = i \<and> rmg_lookup M i = None then Some a else rmg_lookup M j)"
  "unused_room_list (snd (rmg_AddRoom i p M)) = unused_room_list M"
  by (auto simp: rmg_AddRoom_def rmg_lookup_def map_of_index map_index_def split: option.splits)

section \<open>Properties\<close>

text \<open>
  The rooms form a map from ids to room objects: \<open>AddRoom\<close> installs a room under an id
  that has none and otherwise keeps the room that is there, \<open>DelRoom\<close> removes exactly the room
  of its id, and a lookup returns what the last of these left and changes no later lookup.
\<close>

theorem room_manager_map:
  "fst (rmg_GetRoom j (snd (rmg_AddRoom i (Some a) M)))
      = (if j = i \<and> rmg_lookup M i = None then Some a else rmg_lookup M j)
   \<and> fst (rmg_GetRoom j (snd (rmg_DelRoom i M))) = (if j = i then None else rmg_lookup M j)
   \<and> fst (rmg_GetRoom j (snd (rmg_GetRoom i M))) = rmg_lookup M j"
  by (auto simp: rmg_GetRoom_run rmg_AddRoom_run)
    (auto simp: rmg_DelRoom_def rmg_lookup_def split: option.split)

text \<open>
  \<open>DelRoom\<close> keeps the wrong rooms: the null test before the room is put in the unused list
  is inverted. Deleting a room that exists never makes it available again, while deleting the
  null entry that a lookup of an unknown id leaves puts a null pointer in the list, and if the
  list was empty the next request for a new room dereferences it.
\<close>

theorem del_room_keeps_null:
  assumes "rmg_lookup M i = Some a" and "rmg_lookup M k = None" and "unused_room_list M = []"
  shows "unused_room_list (snd (rmg_DelRoom i M)) = []
    \<and> rmg_GetNewRoom (snd (rmg_DelRoom k (snd (rmg_GetRoom k M)))) rs us = Inl Null_deref"
proof -
  have "map_of (room_list (snd (rmg_GetRoom k M))) k = Some None"
    using assms(2) by (simp add: rmg_GetRoom_def rmg_lookup_def map_of_index map_index_fst
        case_prod_beta)
  then have "unused_room_list (snd (rmg_DelRoom k (snd (rmg_GetRoom k M)))) = [None]"
    using assms(3) by (simp add: rmg_DelRoom_def rmg_GetRoom_run)
  moreover have "unused_room_list (snd (rmg_DelRoom i M)) = []"
    using assms(1,3) by (auto simp: rmg_DelRoom_def rmg_lookup_def split: option.splits)
  ultimately show ?thesis by (simp add: rmg_GetNewRoom_def)
qed

theorem del_room_keeps_null_witness:
  "unused_room_list (snd (rmg_DelRoom 1 \<lparr>unused_room_list = [], room_list = [(1, Some 0)]\<rparr>)) = []
    \<and> rmg_GetNewRoom (snd (rmg_DelRoom 2 (snd (rmg_GetRoom 2
          \<lparr>unused_room_list = [], room_list = [(1, Some 0)]\<rparr>))))
        \<lparr>rs_mem = (\<lambda>_. ex_room), rs_next = 1\<rparr> \<lparr>us_mem = (\<lambda>_. UserInfo_new 0), us_next = 6\<rparr>
      = Inl Null_deref"
  by (rule del_room_keeps_null) (simp_all add: rmg_lookup_def)

end
