(* ===== verification/Framing.thy ===== *)
theory Framing
  imports Packets "HOL-Library.Sublist"
begin

text \<open>
  Cutting a byte stream into packets. All three servers append what they read to a block of
  0x4000 bytes and then run a loop that parses a packet at the start of the block, handles it
  and moves the rest to the front. The loop is \<open>frame_loop\<close>; what it needs of a packet format
  is the locale \<open>frame_codec\<close>, interpreted for both formats; what it needs of the handling is
  \<open>handles\<close>.
\<close>

abbreviation MaxRecvBuffLen :: nat where "MaxRecvBuffLen \<equiv> 16384"

text \<open>
  Appending a chunk of \<open>len\<close> bytes to the received bytes, as the three \<open>DealWithData\<close> do it:
  when it does not fit, what was received before is overwritten.
\<close>

definition recv_append :: "byte list \<Rightarrow> int \<Rightarrow> byte list \<Rightarrow> int \<Rightarrow> (byte list \<times> int) res" where
  "recv_append buf valid chunk len =
     (if valid + len < int MaxRecvBuffLen
      then res_bind (memcpy buf valid chunk 0 len) (\<lambda>b. Inr (b, valid + len))
      else res_bind (memcpy buf 0 chunk 0 len) (\<lambda>b. Inr (b, len)))"

text \<open>
  The loop. \<open>act\<close> is the body for a parsed packet: it gets the block, the number of valid bytes
  and the rest of the state, and returns them. A failed parse ends the loop.
\<close>

fun frame_loop :: "nat \<Rightarrow> (byte list \<Rightarrow> int \<Rightarrow> (bool \<times> 'p) res)
    \<Rightarrow> ('p \<Rightarrow> byte list \<Rightarrow> int \<Rightarrow> 's \<Rightarrow> (byte list \<times> int \<times> 's) res)
    \<Rightarrow> byte list \<Rightarrow> int \<Rightarrow> 's \<Rightarrow> (byte list \<times> int \<times> 's) res" where
  "frame_loop 0 parse act buf valid s = Inl Diverges"
| "frame_loop (Suc f) parse act buf valid s =
     (if valid \<le> 18 then Inr (buf, valid, s)
      else
        res_bind (parse buf valid) (\<lambda>(ok, p).
          if ok then res_bind (act p buf valid s) (\<lambda>(buf', valid', s'). frame_loop f parse act buf' valid' s')
          else Inr (buf, valid, s)))"

text \<open>The packets handled one after the other.\<close>

inductive handled :: "('p \<Rightarrow> 's \<Rightarrow> 's \<Rightarrow> bool) \<Rightarrow> 'p list \<Rightarrow> 's \<Rightarrow> 's \<Rightarrow> bool" for R where
  handled_Nil: "handled R [] s s"
| handled_Cons: "R p s s1 \<Longrightarrow> handled R ps s1 s2 \<Longrightarrow> handled R (p # ps) s s2"

inductive_simps handled_simps [simp]: "handled R [] s s'" "handled R (p # ps) s s'"

lemma handled_append: "handled R ps s s1 \<Longrightarrow> handled R qs s1 s2 \<Longrightarrow> handled R (ps @ qs) s s2"
  by (induction rule: handled.induct) auto

text \<open>
  A body handles packets of a set \<open>P\<close> of packets as \<open>R\<close> says as long as at most \<open>cap\<close> bytes are
  valid: it takes the packet's bytes from the front and leaves the rest.
\<close>

definition handles :: "('p \<Rightarrow> byte list \<Rightarrow> int \<Rightarrow> 's \<Rightarrow> (byte list \<times> int \<times> 's) res)
    \<Rightarrow> ('p \<Rightarrow> bool) \<Rightarrow> ('p \<Rightarrow> byte list) \<Rightarrow> nat \<Rightarrow> ('s \<Rightarrow> bool) \<Rightarrow> ('p \<Rightarrow> 's \<Rightarrow> 's \<Rightarrow> bool) \<Rightarrow> bool" where
  "handles act P bytes cap I R \<longleftrightarrow>
     (\<forall>p buf n s. P p \<and> length buf = MaxRecvBuffLen \<and> n \<le> cap \<and> cap \<le> MaxRecvBuffLen \<and> length (bytes p) \<le> n
        \<and> take (length (bytes p)) buf = bytes p \<and> I s \<longrightarrow>
        (\<exists>buf' s'. act p buf (int n) s = Inr (buf', int (n - length (bytes p)), s')
           \<and> length buf' = MaxRecvBuffLen
           \<and> take (n - length (bytes p)) buf' = take (n - length (bytes p)) (drop (length (bytes p)) buf)
           \<and> R p s s' \<and> I s'))"

lemma prefix_same_length: "prefix a c \<Longrightarrow> prefix b c \<Longrightarrow> length a = length b \<Longrightarrow> a = b"
  by (auto simp: prefix_def append_eq_append_conv)

locale frame_codec =
  fixes wf :: "'p \<Rightarrow> bool"
    and bytes :: "'p \<Rightarrow> byte list"
    and size :: "'p \<Rightarrow> int"
    and parse :: "byte list \<Rightarrow> int \<Rightarrow> (bool \<times> 'p) res"
  assumes size_bytes: "wf p \<Longrightarrow> size p = int (length (bytes p)) \<and> 18 \<le> length (bytes p)"
    and parse_bytes: "wf p \<Longrightarrow> int (length (bytes p)) \<le> n \<Longrightarrow> parse (bytes p @ rest) n = Inr (True, p)"
    and parse_prefix: "wf p \<Longrightarrow> k < length (bytes p) \<Longrightarrow> length (bytes p) \<le> length d \<Longrightarrow>
      take k d = take k (bytes p) \<Longrightarrow> \<exists>q. parse d (int k) = Inr (False, q)"
    and parse_size: "parse d n = Inr (True, p) \<Longrightarrow> n \<le> int (length d) \<Longrightarrow> length d \<le> MaxRecvBuffLen \<Longrightarrow>
      18 \<le> size p \<and> size p \<le> n"

context frame_codec
begin

lemma parse_at:
  assumes "wf p" "take (length (bytes p)) buf = bytes p" "length (bytes p) \<le> n"
  shows "parse buf (int n) = Inr (True, p)"
  using parse_bytes [OF assms(1), of "int n" "drop (length (bytes p)) buf"] assms(2,3)
  by (metis append_take_drop_id of_nat_le_iff)

lemma drain:
  assumes "\<forall>p \<in> set ps. P p \<and> wf p \<and> 18 < length (bytes p) \<and> length (bytes p) \<le> MaxRecvBuffLen"
    and "handles act P bytes cap I R" "cap \<le> MaxRecvBuffLen" "n \<le> cap"
    and "length buf = MaxRecvBuffLen" "prefix (take n buf) (concat (map bytes ps))" "I s" "n < f"
  shows "\<exists>ds rs buf' s'. frame_loop f parse act buf (int n) s
      = Inr (buf', int (n - length (concat (map bytes ds))), s')
    \<and> ps = ds @ rs \<and> length (concat (map bytes ds)) \<le> n \<and> length buf' = MaxRecvBuffLen
    \<and> take (n - length (concat (map bytes ds))) buf' = take (n - length (concat (map bytes ds))) (drop (length (concat (map bytes ds))) buf)
    \<and> prefix (take (n - length (concat (map bytes ds))) buf') (concat (map bytes rs))
    \<and> (rs = [] \<or> n - length (concat (map bytes ds)) < length (bytes (hd rs)))
    \<and> handled R ds s s' \<and> I s'"
  using assms
proof (induction ps arbitrary: n buf s f)
  case Nil
  then have "n = 0" by auto
  moreover obtain g where "f = Suc g" using Nil by (cases f) auto
  ultimately show ?case using Nil.prems by (intro exI [of _ "[]"] exI [of _ buf] exI [of _ s]) simp
next
  case (Cons p ps)
  have p: "P p" "wf p" "18 < length (bytes p)" "length (bytes p) \<le> MaxRecvBuffLen" using Cons.prems(1) by auto
  obtain g where f: "f = Suc g" using Cons.prems(8) by (cases f) auto
  show ?case
  proof (cases "length (bytes p) \<le> n")
    case True
    let ?k = "length (bytes p)"
    have tk: "take ?k buf = bytes p"
    proof -
      have "prefix (bytes p) (concat (map bytes (p # ps)))" by simp
      moreover have "prefix (take ?k (take n buf)) (concat (map bytes (p # ps)))"
        using Cons.prems(6) take_is_prefix prefix_order.trans by blast
      moreover have "length (take ?k (take n buf)) = ?k" using True Cons.prems(3-5) by simp
      ultimately have "take ?k (take n buf) = bytes p" by (metis prefix_same_length)
      then show ?thesis using True by (simp add: min_def)
    qed
    have ps: "parse buf (int n) = Inr (True, p)" by (rule parse_at [OF p(2) tk True])
    obtain buf1 s1 where a: "act p buf (int n) s = Inr (buf1, int (n - ?k), s1)"
      "length buf1 = MaxRecvBuffLen" "take (n - ?k) buf1 = take (n - ?k) (drop ?k buf)" "R p s s1" "I s1"
      using Cons.prems(2-5,7) True tk p(1) unfolding handles_def by meson
    have step: "frame_loop f parse act buf (int n) s = frame_loop g parse act buf1 (int (n - ?k)) s1"
      unfolding f using True p(3) by (simp add: ps a(1))
    have split: "take n buf = bytes p @ take (n - ?k) (drop ?k buf)"
      using tk True by (metis append_take_drop_id le_add_diff_inverse take_add)
    then have pre: "prefix (take (n - ?k) buf1) (concat (map bytes ps))"
      using Cons.prems(6) a(3) by simp
    have *: "\<forall>p \<in> set ps. P p \<and> wf p \<and> 18 < length (bytes p) \<and> length (bytes p) \<le> MaxRecvBuffLen"
      "n - ?k \<le> cap" "n - ?k < g"
      using Cons.prems(1,4,8) f True p(3) by auto
    obtain ds rs buf' s' where IH: "frame_loop g parse act buf1 (int (n - ?k)) s1
        = Inr (buf', int (n - ?k - length (concat (map bytes ds))), s')"
      "ps = ds @ rs" "length (concat (map bytes ds)) \<le> n - ?k" "length buf' = MaxRecvBuffLen"
      "take (n - ?k - length (concat (map bytes ds))) buf'
        = take (n - ?k - length (concat (map bytes ds))) (drop (length (concat (map bytes ds))) buf1)"
      "prefix (take (n - ?k - length (concat (map bytes ds))) buf') (concat (map bytes rs))"
      "rs = [] \<or> n - ?k - length (concat (map bytes ds)) < length (bytes (hd rs))"
      "handled R ds s1 s'" "I s'"
      using Cons.IH [OF *(1) Cons.prems(2,3) *(2) a(2) pre a(5) *(3)] by blast
    let ?l = "length (concat (map bytes ds))"
    have "take (n - ?k - ?l) (drop ?l buf1) = take (n - ?k - ?l) (drop (?k + ?l) buf)"
    proof -
      have "take (n - ?k - ?l) (drop ?l buf1) = drop ?l (take (n - ?k) buf1)"
        using IH(3) by (simp add: drop_take)
      also have "\<dots> = take (n - ?k - ?l) (drop ?l (drop ?k buf))"
        using IH(3) a(3) by (simp add: drop_take)
      finally show ?thesis by (simp add: add.commute)
    qed
    then show ?thesis
      using IH a(4) True step
      by - (rule exI [of _ "p # ds"], rule exI [of _ rs], rule exI [of _ buf'], rule exI [of _ s'], auto simp: diff_diff_add le_diff_conv2 add.commute)
  next
    case False
    have tk: "take n buf = take n (bytes p)"
    proof -
      have "length (take n buf) = n" using Cons.prems(3-5) by simp
      then have "take n buf = take n (concat (map bytes (p # ps)))"
        using Cons.prems(6) by (metis append_eq_conv_conj prefix_def)
      then show ?thesis using False by simp
    qed
    have "n < length (bytes p)" "length (bytes p) \<le> length buf" using False p(4) Cons.prems(5) by simp_all
    then obtain q where "parse buf (int n) = Inr (False, q)"
      using parse_prefix [OF p(2) _ _ tk] by blast
    then have "frame_loop f parse act buf (int n) s = Inr (buf, int n, s)" unfolding f by simp
    then show ?thesis using Cons.prems(5,6,7) False
      by - (rule exI [of _ "[]"], rule exI [of _ "p # ps"], rule exI [of _ buf], rule exI [of _ s], simp)
  qed
qed

text \<open>The loop ends: a packet that is taken makes the valid bytes fewer by at least 18.\<close>

lemma loop_ends:
  assumes "\<And>p buf valid s r. act p buf valid s = Inr r \<Longrightarrow>
      length (fst r) = length buf \<and> fst (snd r) = valid - size p"
    and "\<And>p buf valid s. act p buf valid s \<noteq> Inl Diverges"
    and "\<And>buf valid. parse buf valid \<noteq> Inl Diverges"
    and "valid \<le> int (length buf)" "length buf \<le> MaxRecvBuffLen" "nat valid < f"
  shows "frame_loop f parse act buf valid s \<noteq> Inl Diverges"
  using assms(4-6)
proof (induction f arbitrary: buf valid s)
  case (Suc f)
  show ?case
  proof (cases "valid \<le> 18")
    case False
    show ?thesis
    proof (cases "parse buf valid")
      case (Inl e)
      then show ?thesis using assms(3) [of buf valid] False by simp
    next
      case (Inr r)
      obtain ok p where r: "r = (ok, p)" by (cases r)
      show ?thesis
      proof (cases ok)
        case True
        show ?thesis
        proof (cases "act p buf valid s")
          case (Inl e)
          then show ?thesis using assms(2) [of p buf valid s] False Inr r True by simp
        next
          case a: (Inr q)
          obtain buf' valid' s' where q: "q = (buf', valid', s')" by (cases q)
          have "18 \<le> size p" "size p \<le> valid"
            using parse_size [of buf valid p] Inr r True Suc.prems by auto
          then have "valid' \<le> int (length buf')" "length buf' \<le> MaxRecvBuffLen" "nat valid' < f"
            using assms(1) [OF a] q Suc.prems False by auto
          then show ?thesis using Suc.IH False Inr r True a q by simp
        qed
      qed (simp add: Inr r)
    qed
  qed simp
qed simp

end

section \<open>Both packet formats\<close>

interpretation cyt: frame_codec cyt_wf cyt_bytes cyt_ByteSize "\<lambda>d n. cyt_ParseFromArray q (Some d) n" for q
proof (unfold_locales, goal_cases)
  case (1 p)
  then show ?case by (simp add: cyt_ByteSize_bytes length_cyt_bytes)
next
  case (2 p n rest)
  then show ?case by (rule cyt_parse_bytes)
next
  case (3 p n d)
  then show ?case by (rule cyt_parse_prefix)
next
  case (4 d n p)
  have "18 \<le> n" using 4(1) by (auto simp: cyt_ParseFromArray_def split: if_splits)
  then have f: "cyt_len_field d < 2147483630"
    using cyt_parse_overread [of n d q] 4 by (cases "cyt_len_field d < 2147483630") auto
  have "cyt_wf p" "cyt_ByteSize p \<le> n" using cyt_parse_True [OF 4(1) f] by blast+
  then show ?case by (simp add: cyt_ByteSize_bytes length_cyt_bytes)
qed

interpretation gr: frame_codec gr_wf gr_bytes gr_ByteSize "\<lambda>d n. gr_ParseFromArray q (Some d) n" for q
proof (unfold_locales, goal_cases)
  case (1 p)
  then show ?case by (simp add: gr_ByteSize_bytes length_gr_bytes)
next
  case (2 p n rest)
  then show ?case by (rule gr_parse_bytes)
next
  case (3 p n d)
  then show ?case by (rule gr_parse_prefix)
next
  case (4 d n p)
  have "18 \<le> n" using 4(1) by (auto simp: gr_ParseFromArray_def split: if_splits)
  then have f: "gr_len_field d < 2147483630"
    using gr_parse_overread [of n d q] 4 by (cases "gr_len_field d < 2147483630") auto
  have "gr_wf p" "gr_ByteSize p \<le> n" using gr_parse_True [OF 4(1) f] by blast+
  then show ?case by (simp add: gr_ByteSize_bytes length_gr_bytes)
qed

section \<open>Streams in chunks\<close>

text \<open>
  One call of a \<open>DealWithData\<close>: the chunk that was read is appended and the loop runs. The body
  may depend on the chunk, which is still in the read buffer. The fuel exceeds the number of
  valid bytes, of which every round takes at least 18.
\<close>

definition deal_chunk :: "(byte list \<Rightarrow> int \<Rightarrow> (bool \<times> 'p) res)
    \<Rightarrow> (byte list \<Rightarrow> 'p \<Rightarrow> byte list \<Rightarrow> int \<Rightarrow> 's \<Rightarrow> (byte list \<times> int \<times> 's) res)
    \<Rightarrow> byte list \<Rightarrow> byte list \<times> int \<times> 's \<Rightarrow> (byte list \<times> int \<times> 's) res" where
  "deal_chunk parse act chunk = (\<lambda>(buf, valid, s).
     res_bind (recv_append buf valid chunk (int (length chunk))) (\<lambda>(buf1, valid1).
       frame_loop (Suc (nat valid1)) parse (act chunk) buf1 valid1 s))"

fun deal_all :: "(byte list \<Rightarrow> 'a \<Rightarrow> 'a res) \<Rightarrow> byte list list \<Rightarrow> 'a \<Rightarrow> 'a res" where
  "deal_all deal [] s = Inr s"
| "deal_all deal (c # cs) s = res_bind (deal c s) (deal_all deal cs)"

lemma recv_append_ok:
  assumes "length buf = MaxRecvBuffLen" "n + length c < MaxRecvBuffLen"
  shows "\<exists>buf1. recv_append buf (int n) c (int (length c)) = Inr (buf1, int (n + length c))
    \<and> length buf1 = MaxRecvBuffLen \<and> take (n + length c) buf1 = take n buf @ c"
  using assms by (simp add: recv_append_def memcpy_def mem_read_0_nat)

context frame_codec
begin

text \<open>What is left in the block is the start of the packets still to come.\<close>

definition pending :: "'p list \<Rightarrow> byte list \<Rightarrow> nat \<Rightarrow> bool" where
  "pending rs buf n \<longleftrightarrow> length buf = MaxRecvBuffLen
     \<and> prefix (take n buf) (concat (map bytes rs)) \<and> (rs = [] \<and> n = 0 \<or> rs \<noteq> [] \<and> n < length (bytes (hd rs)))"

lemma deal_chunk_ok:
  assumes "\<forall>p \<in> set rs. P p \<and> wf p \<and> 18 < length (bytes p) \<and> length (bytes p) \<le> MaxRecvBuffLen"
    and "handles (act c) P bytes cap I R" "n + length c \<le> cap" "cap < MaxRecvBuffLen"
    and "pending rs buf n" "prefix (take n buf @ c) (concat (map bytes rs))" "I s"
  shows "\<exists>ds rs' buf' n' s'. deal_chunk parse act c (buf, int n, s) = Inr (buf', int n', s')
    \<and> rs = ds @ rs' \<and> pending rs' buf' n' \<and> take n buf @ c = concat (map bytes ds) @ take n' buf'
    \<and> handled R ds s s' \<and> I s'"
proof -
  have lb: "length buf = MaxRecvBuffLen" using assms(5) by (simp add: pending_def)
  obtain b where b: "recv_append buf (int n) c (int (length c)) = Inr (b, int (n + length c))"
    "length b = MaxRecvBuffLen" "take (n + length c) b = take n buf @ c"
    using recv_append_ok [OF lb, of n c] assms(3,4) by auto
  let ?n = "n + length c"
  have pre: "prefix (take ?n b) (concat (map bytes rs))" using assms(6) b(3) by simp
  obtain ds rs' buf' s' where d: "frame_loop (Suc ?n) parse (act c) b (int ?n) s
      = Inr (buf', int (?n - length (concat (map bytes ds))), s')"
    "rs = ds @ rs'" "length (concat (map bytes ds)) \<le> ?n" "length buf' = MaxRecvBuffLen"
    "take (?n - length (concat (map bytes ds))) buf'
       = take (?n - length (concat (map bytes ds))) (drop (length (concat (map bytes ds))) b)"
    "prefix (take (?n - length (concat (map bytes ds))) buf') (concat (map bytes rs'))"
    "rs' = [] \<or> ?n - length (concat (map bytes ds)) < length (bytes (hd rs'))"
    "handled R ds s s'" "I s'"
    using drain [OF assms(1,2) less_imp_le [OF assms(4)] assms(3) b(2) pre assms(7) lessI] by blast
  let ?l = "length (concat (map bytes ds))"
  have ln: "length (take (?n - ?l) buf') = ?n - ?l" using d(4) assms(3,4) by simp
  have "prefix (concat (map bytes ds)) (concat (map bytes rs))" using d(2) by simp
  moreover have "prefix (take ?l (take ?n b)) (concat (map bytes rs))"
    using pre take_is_prefix prefix_order.trans by blast
  moreover have "length (take ?l (take ?n b)) = ?l" using d(3) b(2) assms(3,4) by simp
  ultimately have "take ?l (take ?n b) = concat (map bytes ds)" by (metis prefix_same_length)
  then have split: "take ?n b = concat (map bytes ds) @ take (?n - ?l) buf'"
    unfolding d(5) by (metis append_take_drop_id drop_take)
  have "pending rs' buf' (?n - ?l)"
    using d(4,6,7) ln by (cases rs') (auto simp: pending_def)
  moreover have "deal_chunk parse act c (buf, int n, s) = Inr (buf', int (?n - ?l), s')"
    using b(1) d(1) by (simp add: deal_chunk_def del: frame_loop.simps of_nat_add)
  ultimately show ?thesis using d(2,8,9) split b(3) by metis
qed

text \<open>
  What one chunk does, for a receiver \<open>deal\<close> that is the loop in some form: the packets that are
  complete are handled, the start of the next one stays.
\<close>

definition delivers :: "('p \<Rightarrow> bool) \<Rightarrow> nat \<Rightarrow> ('s \<Rightarrow> bool) \<Rightarrow> ('p \<Rightarrow> 's \<Rightarrow> 's \<Rightarrow> bool)
    \<Rightarrow> (byte list \<Rightarrow> byte list \<times> int \<times> 's \<Rightarrow> (byte list \<times> int \<times> 's) res) \<Rightarrow> byte list \<Rightarrow> bool" where
  "delivers P cap I R deal c \<longleftrightarrow>
     (\<forall>rs buf n s. (\<forall>p \<in> set rs. P p \<and> wf p \<and> 18 < length (bytes p) \<and> length (bytes p) \<le> MaxRecvBuffLen)
        \<and> n + length c \<le> cap \<and> pending rs buf n \<and> prefix (take n buf @ c) (concat (map bytes rs)) \<and> I s \<longrightarrow>
        (\<exists>ds rs' buf' n' s'. deal c (buf, int n, s) = Inr (buf', int n', s')
           \<and> rs = ds @ rs' \<and> pending rs' buf' n' \<and> take n buf @ c = concat (map bytes ds) @ take n' buf'
           \<and> handled R ds s s' \<and> I s'))"

lemma deal_chunk_delivers:
  assumes "handles (act c) P bytes cap I R" "cap < MaxRecvBuffLen"
  shows "delivers P cap I R (deal_chunk parse act) c"
  unfolding delivers_def using deal_chunk_ok [where act = act and c = c, OF _ assms(1) _ assms(2)] by blast

text \<open>However a stream of packets is cut into chunks, exactly its packets are handled, in order.\<close>

lemma deal_stream:
  assumes "\<forall>p \<in> set rs. P p \<and> wf p \<and> 18 < length (bytes p) \<and> length (bytes p) \<le> lim"
    and "\<forall>c \<in> set cs. length c \<le> clim" "lim + clim \<le> cap" "cap < MaxRecvBuffLen"
    and "\<forall>c \<in> set cs. delivers P cap I R deal c"
    and "pending rs buf n" "take n buf @ concat cs = concat (map bytes rs)" "I s"
  shows "\<exists>buf' s'. deal_all deal cs (buf, int n, s) = Inr (buf', 0, s')
    \<and> length buf' = MaxRecvBuffLen \<and> handled R rs s s' \<and> I s'"
  using assms
proof (induction cs arbitrary: rs buf n s)
  case Nil
  show ?case
  proof (cases "rs = []")
    case True
    then show ?thesis using Nil.prems(6,8) by (simp add: pending_def)
  next
    case False
    then have "n < length (bytes (hd rs))" "length buf = MaxRecvBuffLen"
      using Nil.prems(6) by (auto simp: pending_def)
    moreover have "length (bytes (hd rs)) \<le> length (concat (map bytes rs))" using False by (cases rs) auto
    moreover have "length (take n buf) \<le> n" by simp
    ultimately show ?thesis using Nil.prems(7) by (metis append_Nil2 concat.simps(1) leD le_trans)
  qed
next
  case (Cons c cs)
  have all: "\<forall>p \<in> set rs. P p \<and> wf p \<and> 18 < length (bytes p) \<and> length (bytes p) \<le> MaxRecvBuffLen"
    using Cons.prems(1,3,4) by auto
  have n: "n + length c \<le> cap"
  proof (cases "rs = []")
    case True
    then show ?thesis using Cons.prems(2,3,6) by (auto simp: pending_def)
  next
    case False
    then have "n < length (bytes (hd rs))" "length (bytes (hd rs)) \<le> lim"
      using Cons.prems(1,6) by (auto simp: pending_def)
    then show ?thesis using Cons.prems(2,3) by (auto simp: le_trans [OF add_mono])
  qed
  have pre: "prefix (take n buf @ c) (concat (map bytes rs))"
    using Cons.prems(7) by (simp add: prefix_def) (metis append.assoc)
  have h: "delivers P cap I R deal c" using Cons.prems(5) by simp
  obtain ds rs' buf1 n1 s1 where 1: "deal c (buf, int n, s) = Inr (buf1, int n1, s1)"
    "rs = ds @ rs'" "pending rs' buf1 n1" "take n buf @ c = concat (map bytes ds) @ take n1 buf1"
    "handled R ds s s1" "I s1"
    using h all n Cons.prems(6) pre Cons.prems(8) unfolding delivers_def by blast
  have "take n1 buf1 @ concat cs = concat (map bytes rs')"
  proof -
    have "(take n buf @ c) @ concat cs = concat (map bytes ds) @ concat (map bytes rs')"
      using Cons.prems(7) 1(2) by simp
    then show ?thesis unfolding 1(4) by simp
  qed
  then obtain buf' s' where "deal_all deal cs (buf1, int n1, s1) = Inr (buf', 0, s')"
    "length buf' = MaxRecvBuffLen" "handled R rs' s1 s'" "I s'"
    using Cons.IH [OF _ _ Cons.prems(3,4) _ 1(3) _ 1(6)] Cons.prems(1,2,5) 1(2) by auto
  then show ?case using 1 handled_append by fastforce
qed

end

end
