(* ===== verification/Room_Clients.thy ===== *)
theory Room_Clients
  imports Processor Resource_Manager Framing
begin

text \<open>
  The gate servers as the room server sees them (\<open>room_server/client_info_list.cpp\<close>,
  \<open>room_server/gs_processor.cpp\<close>): the connection object with its receive block and its
  processor, the processor's start, stop and send operations, and the list of connections by
  hash key.
\<close>

section \<open>\<open>BaseUserInfo\<close>\<close>

text \<open>The libevent buffer of a connection is left out: it only carries the bytes read and written.\<close>

record BaseUserInfo =
  user_sock :: int
  hash_key :: int
  user_uip :: int
  user_uport :: int
  server_ptr :: ptr

definition BaseUserInfo_new :: BaseUserInfo where
  "BaseUserInfo_new = \<lparr>user_sock = -1, hash_key = 0, user_uip = 0, user_uport = 0, server_ptr = None\<rparr>"

definition BaseUserInfo_Clear :: "'x BaseUserInfo_scheme \<Rightarrow> 'x BaseUserInfo_scheme" where
  "BaseUserInfo_Clear u =
     u\<lparr>user_sock := 0, hash_key := 0, user_uip := 0, user_uport := 0, server_ptr := None\<rparr>"

section \<open>\<open>GateServerProcessor\<close>\<close>

datatype gs_cmd =
  ClientLoginRQ | CancleUserMicRQ | PutUserOnMicRQ | UserApplyMicRQ
  | UserExitRoomID | UserGiveGiftRQ | UserOffMicRQ | UserSendMsgRQ

text \<open>Message ids, from \<open>EnumMsgID\<close> of \<open>packet/package_define.proto\<close>.\<close>

abbreviation E_USER_LOGIN_RQ :: int where "E_USER_LOGIN_RQ \<equiv> 6001"
abbreviation E_USER_LOGIN_RS :: int where "E_USER_LOGIN_RS \<equiv> 6002"
abbreviation E_ROOM_MIC_INFO_ID :: int where "E_ROOM_MIC_INFO_ID \<equiv> 6006"
abbreviation E_MIC_INFO :: int where "E_MIC_INFO \<equiv> 6005"
abbreviation E_USER_INFO :: int where "E_USER_INFO \<equiv> 6007"
abbreviation E_USER_INFO_LIST_ID :: int where "E_USER_INFO_LIST_ID \<equiv> 6008"
abbreviation E_USER_MSG_RQ :: int where "E_USER_MSG_RQ \<equiv> 6009"
abbreviation E_USER_MSG_RS :: int where "E_USER_MSG_RS \<equiv> 6010"
abbreviation E_USER_MSG_TEXT_ID :: int where "E_USER_MSG_TEXT_ID \<equiv> 6011"
abbreviation E_USER_GIVE_GIFT_RQ :: int where "E_USER_GIVE_GIFT_RQ \<equiv> 6012"
abbreviation E_USER_GIVE_GIFT_RS :: int where "E_USER_GIVE_GIFT_RS \<equiv> 6013"
abbreviation E_USER_APPLY_MIC_RQ :: int where "E_USER_APPLY_MIC_RQ \<equiv> 6014"
abbreviation E_USER_APPLY_MIC_RS :: int where "E_USER_APPLY_MIC_RS \<equiv> 6015"
abbreviation E_USER_OFF_MIC_RQ :: int where "E_USER_OFF_MIC_RQ \<equiv> 6017"
abbreviation E_USER_OFF_MIC_RS :: int where "E_USER_OFF_MIC_RS \<equiv> 6018"
abbreviation E_PUT_USER_ON_MIC_RQ :: int where "E_PUT_USER_ON_MIC_RQ \<equiv> 6020"
abbreviation E_CANCLE_USER_MIC_RQ :: int where "E_CANCLE_USER_MIC_RQ \<equiv> 6022"
abbreviation E_USER_EXIT_ROOM_ID :: int where "E_USER_EXIT_ROOM_ID \<equiv> 6024"

record GateServerProcessor = "gs_cmd Processor" +
  gsp_send_list :: CircleList
  gsp_send_thread :: bool

text \<open>The constructor of \<open>send_list_\<close> is \<open>CircleList(DefaltMaxSize)\<close> with size 0.\<close>

definition gsp_new :: GateServerProcessor where
  "gsp_new = Processor.extend pr_new \<lparr>gsp_send_list = cl_new 0, gsp_send_thread = False\<rparr>"

definition gs_commands :: "ptr \<Rightarrow> (int \<times> gs_cmd BaseCommand) list" where
  "gs_commands server = map (\<lambda>(i, c). (i, \<lparr>cmd_class = c, cmd_server_ptr = server\<rparr>))
     [(E_USER_LOGIN_RQ, ClientLoginRQ), (E_CANCLE_USER_MIC_RQ, CancleUserMicRQ),
      (E_PUT_USER_ON_MIC_RQ, PutUserOnMicRQ), (E_USER_APPLY_MIC_RQ, UserApplyMicRQ),
      (E_USER_EXIT_ROOM_ID, UserExitRoomID), (E_USER_GIVE_GIFT_RQ, UserGiveGiftRQ),
      (E_USER_OFF_MIC_RQ, UserOffMicRQ), (E_USER_MSG_RQ, UserSendMsgRQ)]"

definition gsp_InitProcessor ::
  "int \<Rightarrow> ptr \<Rightarrow> ptr \<Rightarrow> GateServerProcessor \<Rightarrow> (bool \<times> GateServerProcessor) res" where
  "gsp_InitProcessor max_list_size caller server P =
     res_bind (bp_InitProcessor max_list_size server P) (\<lambda>(_, P1).
       let (ok, C) = register_all (gs_commands server) (bp_cmd_chain P1)
       in Inr (ok, P1\<lparr>pr_parent_ptr := caller, bp_cmd_chain := C\<rparr>))"

text \<open>\<open>create i\<close> is the result of the \<open>i\<close>-th \<open>pthread_create\<close> of the call.\<close>

definition gsp_StartProcessor ::
  "(nat \<Rightarrow> int) \<Rightarrow> int \<Rightarrow> GateServerProcessor \<Rightarrow> bool \<times> GateServerProcessor" where
  "gsp_StartProcessor create thread_count P =
     (if thread_count \<le> 0 then (False, P)
      else
        let (_, P1) = pr_start int_stop create thread_count P
        in (True, P1\<lparr>gsp_send_thread := create (nat thread_count) = 0\<rparr>))"

definition gsp_StopProcessor :: "GateServerProcessor \<Rightarrow> GateServerProcessor res" where
  "gsp_StopProcessor P = pr_stop P"

definition gsp_SendData ::
  "('m \<Rightarrow> byte list option) \<Rightarrow> 'm \<Rightarrow> int \<Rightarrow> int \<Rightarrow> GateServerProcessor
   \<Rightarrow> (bool \<times> GateServerProcessor) res" where
  "gsp_SendData ser pack msg_id user_hashkey P =
     res_bind (pack_for_user ser pack msg_id user_hashkey) (\<lambda>(ok, buff, len).
       if \<not> ok then Inr (False, P)
       else
         res_bind (cl_AddBuffer buff len (gsp_send_list P)) (\<lambda>(r, L).
           Inr (r, P\<lparr>gsp_send_list := L\<rparr>)))"

text \<open>One round of \<open>SendDataThread\<close> while the processor is started: what it writes to the gate.\<close>

definition gsp_send_round :: "GateServerProcessor \<Rightarrow> (byte list option \<times> GateServerProcessor) res" where
  "gsp_send_round P =
     res_bind (cl_GetBuffer (replicate 0x2000 0) 0x2000 0 (gsp_send_list P)) (\<lambda>(ok, buff, len, L).
       if \<not> ok then Inr (None, P\<lparr>gsp_send_list := L\<rparr>)
       else res_bind (mem_read buff 0 len) (\<lambda>bs. Inr (Some bs, P\<lparr>gsp_send_list := L\<rparr>)))"

section \<open>\<open>ClientInfoEx\<close>\<close>

record ClientInfoEx = BaseUserInfo +
  rc_valid_buff_len :: int
  rc_recved_buff :: "byte list"
  rc_room_server :: ptr
  rc_gs_processor :: GateServerProcessor

definition rc_new :: ClientInfoEx where
  "rc_new = BaseUserInfo.extend BaseUserInfo_new
     \<lparr>rc_valid_buff_len = 0, rc_recved_buff = replicate MaxRecvBuffLen 0, rc_room_server = None,
      rc_gs_processor = gsp_new\<rparr>"

definition rc_Clear :: "ClientInfoEx \<Rightarrow> ClientInfoEx" where
  "rc_Clear c = c\<lparr>user_sock := 0, hash_key := 0, user_uip := 0, user_uport := 0, server_ptr := None,
     rc_valid_buff_len := 0\<rparr>"

text \<open>
  \<open>DealWithData\<close>. \<open>chunk\<close> is what \<open>bufferevent_read\<close> delivers, at most 0x1000 bytes. The
  body of the loop moves the rest to the front, puts the connection's hash key into the
  envelope, serialises it into the read buffer of 0x1000 bytes and queues it.
\<close>

definition rc_frame ::
  "int \<Rightarrow> GateRoomServerPack \<Rightarrow> byte list \<Rightarrow> int \<Rightarrow> byte list \<times> CircleList
   \<Rightarrow> (byte list \<times> int \<times> byte list \<times> CircleList) res" where
  "rc_frame key package buf valid = (\<lambda>(read_buff, L).
     let valid1 = valid - gr_ByteSize package
     in res_bind (memcpy buf 0 buf (gr_ByteSize package) valid1) (\<lambda>buf1.
        let p1 = package\<lparr>gr_gs_hashkey := key\<rparr>; len = gr_ByteSize p1
        in res_bind (gr_SerializeToArray p1 (Some read_buff) len) (\<lambda>(ok, read_buff1).
           if \<not> ok then Inr (buf1, valid1, read_buff1, L)
           else res_bind (cl_AddBuffer read_buff1 len L) (\<lambda>(_, L1).
                  Inr (buf1, valid1, read_buff1, L1)))))"

definition rc_parse :: "byte list \<Rightarrow> int \<Rightarrow> (bool \<times> GateRoomServerPack) res" where
  "rc_parse d n = gr_ParseFromArray (gr_new 0) (Some d) n"

definition rc_DealWithData :: "byte list \<Rightarrow> ClientInfoEx \<Rightarrow> ClientInfoEx res" where
  "rc_DealWithData chunk C =
     (let P = rc_gs_processor C; read_buff = chunk @ replicate (0x1000 - length chunk) 0
      in res_bind (deal_chunk rc_parse (\<lambda>_. rc_frame (hash_key C)) chunk
              (rc_recved_buff C, rc_valid_buff_len C, read_buff, bp_data_list P))
           (\<lambda>(buf, valid, _, L).
             Inr (C\<lparr>rc_recved_buff := buf, rc_valid_buff_len := valid,
                    rc_gs_processor := P\<lparr>bp_data_list := L\<rparr>\<rparr>)))"

section \<open>\<open>ClientInfoList\<close>\<close>

text \<open>
  The connection objects are the blocks of the pool, at the addresses the pool hands out. The
  list's lock is taken and released inside each operation.
\<close>

type_synonym 'c client_store = "nat \<Rightarrow> 'c"

record ClientInfoList =
  rcl_unused :: UserResourceManager
  rcl_users :: "(int \<times> ptr) list"
  rcl_room_server :: ptr

definition rcl_new :: ClientInfoList where
  "rcl_new = \<lparr>rcl_unused = rm_new 0, rcl_users = [], rcl_room_server = None\<rparr>"

definition rcl_GetUserInfo :: "ClientInfoList \<Rightarrow> ptr \<times> ClientInfoList" where
  "rcl_GetUserInfo L = (let (u, R) = rm_Get (rcl_unused L) in (u, L\<lparr>rcl_unused := R\<rparr>))"

definition rcl_ReleaseUserInfo :: "ptr \<Rightarrow> ClientInfoList \<times> ClientInfoEx client_store
    \<Rightarrow> (ClientInfoList \<times> ClientInfoEx client_store) res" where
  "rcl_ReleaseUserInfo user = (\<lambda>(L, h).
     res_bind (deref user) (\<lambda>a.
       let (v, m) = map_index None (rcl_users L) (hash_key (h a));
           m1 = (if v \<noteq> None then map_erase (hash_key (h a)) m else m)
       in res_bind (gsp_StopProcessor (rc_gs_processor (h a))) (\<lambda>P.
            let c = rc_Clear ((h a)\<lparr>rc_gs_processor := P\<rparr>);
                (_, R) = rm_Put user (rcl_unused L)
            in Inr (L\<lparr>rcl_users := m1, rcl_unused := R\<rparr>, h(a := c)))))"

definition rcl_GetUserByHashkey :: "int \<Rightarrow> ClientInfoList \<Rightarrow> ptr \<times> ClientInfoList" where
  "rcl_GetUserByHashkey key L =
     (let (v, m) = map_index None (rcl_users L) key in (v, L\<lparr>rcl_users := m\<rparr>))"

definition rcl_Init :: "int \<Rightarrow> ptr \<Rightarrow> ClientInfoList \<Rightarrow> int \<times> ClientInfoList" where
  "rcl_Init max_user server L =
     (let (n, R) = rm_Init max_user (rcl_unused L)
      in (n, L\<lparr>rcl_room_server := server, rcl_unused := R\<rparr>))"

definition rcl_AddUserInfo :: "(nat \<Rightarrow> int) \<Rightarrow> int \<Rightarrow> ptr \<Rightarrow> ClientInfoList \<times> ClientInfoEx client_store
    \<Rightarrow> (bool \<times> ClientInfoList \<times> ClientInfoEx client_store) res" where
  "rcl_AddUserInfo create key user = (\<lambda>(L, h).
     let (v, m) = map_index None (rcl_users L) key
     in if v \<noteq> None then Inr (False, L\<lparr>rcl_users := m\<rparr>, h)
        else
          res_bind (deref user) (\<lambda>a.
          res_bind (gsp_InitProcessor 1000 user (rcl_room_server L) (rc_gs_processor (h a))) (\<lambda>(_, P).
            let (_, P1) = gsp_StartProcessor create 1 P;
                c = (h a)\<lparr>hash_key := key, rc_room_server := rcl_room_server L, rc_gs_processor := P1\<rparr>
            in Inr (True, L\<lparr>rcl_users := map_put key user m\<rparr>, h(a := c)))))"

section \<open>Receiving\<close>

text \<open>Moving the rest of a block to its front.\<close>

lemma move_front:
  assumes "length buf = MaxRecvBuffLen" "k \<le> n" "n \<le> MaxRecvBuffLen"
  shows "\<exists>buf1. memcpy buf 0 buf (int k) (int n - int k) = Inr buf1 \<and> length buf1 = MaxRecvBuffLen
    \<and> take (n - k) buf1 = take (n - k) (drop k buf)"
proof -
  have e: "int n - int k = int (n - k)" using assms(2) by simp
  show ?thesis unfolding e using assms by (simp add: memcpy_def mem_read_nat)
qed

text \<open>Queueing: the ring gets the bytes if a unit is free.\<close>

definition queued :: "byte list \<Rightarrow> CircleList \<Rightarrow> CircleList \<Rightarrow> bool" where
  "queued bs L L' \<longleftrightarrow> (0 < cl_free L \<longrightarrow> cl_abs L' = cl_abs L @ [bs] \<and> cl_free L' = cl_free L - 1)"

lemma add_queued:
  assumes "cl_inv L" "length bs \<le> 4096" "bs = take (length bs) buff"
  shows "\<exists>b L'. cl_AddBuffer buff (int (length bs)) L = Inr (b, L') \<and> cl_inv L' \<and> queued bs L L'"
proof -
  have l: "int (length bs) \<le> int (length buff)" using assms(3) by (metis length_take min.cobounded1 of_nat_mono)
  have m: "int (length bs) \<le> 4096" using assms(2) by simp
  show ?thesis
  proof (cases "0 < cl_free L")
    case True
    then show ?thesis using clq.add_ok [OF assms(1) _ m l] assms(3) by (auto simp: queued_def)
  next
    case False
    then show ?thesis using clq.add_full [OF assms(1) m] assms(1) by (auto simp: queued_def)
  qed
qed

definition rc_stamp :: "int \<Rightarrow> GateRoomServerPack \<Rightarrow> byte list" where
  "rc_stamp key p = gr_bytes (p\<lparr>gr_gs_hashkey := key\<rparr>)"

lemma rc_stamp_facts:
  "gr_wf p \<Longrightarrow> in_i32 key \<Longrightarrow> gr_wf (p\<lparr>gr_gs_hashkey := key\<rparr>)
     \<and> length (rc_stamp key p) = length (gr_bytes p)
     \<and> gr_ByteSize (p\<lparr>gr_gs_hashkey := key\<rparr>) = int (length (gr_bytes p))"
  using gr_ByteSize_bytes [of p] by (auto simp: gr_wf_def rc_stamp_def gr_bytes_def gr_ByteSize_def)

lemma rc_handles:
  assumes "in_i32 key"
  shows "handles (rc_frame key) (\<lambda>p. gr_wf p \<and> length (gr_bytes p) \<le> 4096) gr_bytes cap
    (\<lambda>(rb, L). length rb = 4096 \<and> cl_inv L)
    (\<lambda>p (rb, L) (rb', L'). queued (rc_stamp key p) L L')"
  unfolding handles_def
proof (intro allI impI, elim conjE, goal_cases)
  case (1 p buf n s)
  obtain rb L where s: "s = (rb, L)" by (cases s)
  let ?k = "length (gr_bytes p)" and ?p = "p\<lparr>gr_gs_hashkey := key\<rparr>"
  have sz: "gr_ByteSize p = int ?k" using 1 by (simp add: gr_ByteSize_bytes)
  note st = rc_stamp_facts [OF 1(1) assms]
  obtain buf1 where b: "memcpy buf 0 buf (int ?k) (int n - int ?k) = Inr buf1"
    "length buf1 = MaxRecvBuffLen" "take (n - ?k) buf1 = take (n - ?k) (drop ?k buf)"
    using move_front [of buf ?k n] 1 by auto
  let ?rb = "rc_stamp key p @ drop ?k rb"
  have "gr_SerializeToArray ?p (Some rb) (int ?k) = Inr (True, gr_bytes ?p @ drop (length (gr_bytes ?p)) rb)"
    using st 1 s by (intro gr_serialize_bytes) (auto simp: rc_stamp_def)
  then have ser: "gr_SerializeToArray ?p (Some rb) (int ?k) = Inr (True, ?rb)"
    using st by (simp add: rc_stamp_def)
  obtain r L1 where q: "cl_AddBuffer ?rb (int ?k) L = Inr (r, L1)" "cl_inv L1"
    "queued (rc_stamp key p) L L1"
    using add_queued [of L "rc_stamp key p" ?rb] 1 s st by auto
  have v: "int n - int ?k = int (n - ?k)" using 1 by simp
  show ?case
    using 1 s b st q ser
    by (intro exI [of _ buf1] exI [of _ "(?rb, L1)"]) (auto simp: rc_frame_def Let_def sz simp flip: v)
qed

lemma queued_all:
  assumes "handled (\<lambda>p. queued (g p)) ps L L'" and "int (length ps) \<le> cl_free L"
  shows "cl_abs L' = cl_abs L @ map g ps \<and> cl_free L' = cl_free L - int (length ps)"
  using assms
proof (induction ps arbitrary: L)
  case (Cons p ps)
  obtain L1 where 1: "queued (g p) L L1" "handled (\<lambda>p. queued (g p)) ps L1 L'"
    using Cons.prems(1) by auto
  then have "cl_abs L1 = cl_abs L @ [g p]" "cl_free L1 = cl_free L - 1"
    using Cons.prems(2) by (auto simp: queued_def)
  then show ?case using Cons.IH [OF 1(2)] Cons.prems(2) by auto
qed auto

lemma handled_snd:
  "handled (\<lambda>p (rb, L) (rb', L'). R p L L') ps x y \<Longrightarrow> handled R ps (snd x) (snd y)"
  by (induction rule: handled.induct) (auto simp: split_beta)

text \<open>\<open>DealWithData\<close> on the receive block, the number of valid bytes and the queue.\<close>

definition rc_deal :: "int \<Rightarrow> byte list \<Rightarrow> byte list \<times> int \<times> CircleList
    \<Rightarrow> (byte list \<times> int \<times> CircleList) res" where
  "rc_deal key c = (\<lambda>(buf, valid, L).
     res_bind (deal_chunk rc_parse (\<lambda>_. rc_frame key) c
         (buf, valid, c @ replicate (4096 - length c) 0, L)) (\<lambda>(b, v, _, L'). Inr (b, v, L')))"

lemma rc_DealWithData_alt:
  "rc_DealWithData c C =
     res_bind (rc_deal (hash_key C) c (rc_recved_buff C, rc_valid_buff_len C, bp_data_list (rc_gs_processor C)))
       (\<lambda>(b, v, L). Inr (C\<lparr>rc_recved_buff := b, rc_valid_buff_len := v,
          rc_gs_processor := (rc_gs_processor C)\<lparr>bp_data_list := L\<rparr>\<rparr>))"
  by (simp add: rc_DealWithData_def rc_deal_def Let_def res_bind_assoc split_def)

definition rc_state :: "ClientInfoEx \<Rightarrow> byte list \<times> int \<times> CircleList" where
  "rc_state C = (rc_recved_buff C, rc_valid_buff_len C, bp_data_list (rc_gs_processor C))"

lemma rc_receive_run:
  "deal_all (rc_deal (hash_key C)) cs (rc_state C) = Inr (b, v, L) \<Longrightarrow>
   \<exists>C'. deal_all rc_DealWithData cs C = Inr C' \<and> rc_state C' = (b, v, L) \<and> hash_key C' = hash_key C"
proof (induction cs arbitrary: C)
  case (Cons c cs)
  obtain st where st: "rc_deal (hash_key C) c (rc_state C) = Inr st"
    "deal_all (rc_deal (hash_key C)) cs st = Inr (b, v, L)" using Cons.prems by (auto simp: res_simps)
  obtain b1 v1 L1 where e: "st = (b1, v1, L1)" by (cases st)
  let ?C = "C\<lparr>rc_recved_buff := b1, rc_valid_buff_len := v1,
      rc_gs_processor := (rc_gs_processor C)\<lparr>bp_data_list := L1\<rparr>\<rparr>"
  have "rc_DealWithData c C = Inr ?C" using st(1) e by (simp add: rc_DealWithData_alt rc_state_def)
  moreover have "rc_state ?C = st" "hash_key ?C = hash_key C" by (simp_all add: rc_state_def e)
  ultimately show ?case using Cons.IH [of ?C] st(2) by auto
qed (auto)

lemma rc_delivers:
  assumes "in_i32 key" "length c \<le> 4096" "cap < MaxRecvBuffLen"
  shows "gr.delivers (\<lambda>p. gr_wf p \<and> length (gr_bytes p) \<le> 4096) cap cl_inv
    (\<lambda>p. queued (rc_stamp key p)) (rc_deal key) c"
proof -
  let ?P = "\<lambda>p. gr_wf p \<and> length (gr_bytes p) \<le> 4096"
  have "gr.delivers ?P cap (\<lambda>(rb, L). length rb = 4096 \<and> cl_inv L)
    (\<lambda>p (rb, L) (rb', L'). queued (rc_stamp key p) L L')
    (deal_chunk (\<lambda>d n. gr_ParseFromArray (gr_new 0) (Some d) n) (\<lambda>_. rc_frame key)) c"
    by (rule gr.deal_chunk_delivers [OF rc_handles [OF assms(1)] assms(3)])
  then have D: "gr.delivers ?P cap (\<lambda>(rb, L). length rb = 4096 \<and> cl_inv L)
    (\<lambda>p (rb, L) (rb', L'). queued (rc_stamp key p) L L') (deal_chunk rc_parse (\<lambda>_. rc_frame key)) c"
    unfolding rc_parse_def .
  show ?thesis unfolding gr.delivers_def
  proof (intro allI impI, elim conjE, goal_cases)
    case (1 rs buf n L)
    let ?s = "(c @ replicate (4096 - length c) 0, L)"
    have "length (fst ?s) = 4096" using assms(2) by simp
    then obtain ds rs' buf' n' s' where
      d: "deal_chunk rc_parse (\<lambda>_. rc_frame key) c (buf, int n, ?s) = Inr (buf', int n', s')"
      "rs = ds @ rs'" "gr.pending rs' buf' n'" "take n buf @ c = concat (map gr_bytes ds) @ take n' buf'"
      "handled (\<lambda>p (rb, L) (rb', L'). queued (rc_stamp key p) L L') ds ?s s'"
      "(\<lambda>(rb, L). length rb = 4096 \<and> cl_inv L) s'"
      using D [unfolded gr.delivers_def, rule_format, of rs n buf ?s] 1 by auto
    have "handled (\<lambda>p. queued (rc_stamp key p)) ds L (snd s')" using handled_snd [OF d(5)] by simp
    moreover have "rc_deal key c (buf, int n, L) = Inr (buf', int n', snd s')"
      by (simp add: rc_deal_def d(1) split_def)
    ultimately show ?case using d(2,3,4,6) by (auto simp: split_def)
  qed
qed

section \<open>Properties\<close>

lemma room_stream:
  assumes "rc_valid_buff_len C = 0" "length (rc_recved_buff C) = MaxRecvBuffLen"
    and "in_i32 (hash_key C)" "cl_inv (bp_data_list (rc_gs_processor C))"
    and "\<forall>p \<in> set ps. gr_wf p \<and> gr_data_msg p \<noteq> [] \<and> length (gr_bytes p) \<le> 4096"
    and "concat cs = concat (map gr_bytes ps)" "\<forall>c \<in> set cs. length c \<le> 4096"
    and "int (length ps) \<le> cl_free (bp_data_list (rc_gs_processor C))"
  shows "\<exists>C'. deal_all rc_DealWithData cs C = Inr C' \<and> rc_valid_buff_len C' = 0
    \<and> cl_inv (bp_data_list (rc_gs_processor C'))
    \<and> cl_abs (bp_data_list (rc_gs_processor C'))
        = cl_abs (bp_data_list (rc_gs_processor C)) @ map (rc_stamp (hash_key C)) ps"
proof -
  let ?L = "bp_data_list (rc_gs_processor C)" and ?P = "\<lambda>p. gr_wf p \<and> length (gr_bytes p) \<le> 4096"
  have 1: "\<forall>p \<in> set ps. ?P p \<and> gr_wf p \<and> 18 < length (gr_bytes p) \<and> length (gr_bytes p) \<le> 4096"
    using assms(5) by (auto simp: length_gr_bytes)
  have 2: "\<forall>c \<in> set cs. gr.delivers ?P 8192 cl_inv (\<lambda>p. queued (rc_stamp (hash_key C) p))
      (rc_deal (hash_key C)) c"
    using assms(3,7) by (intro ballI rc_delivers) auto
  have 3: "gr.pending ps (rc_recved_buff C) 0"
    using assms(2) 1 by (cases ps) (auto simp: gr.pending_def)
  have 4: "take 0 (rc_recved_buff C) @ concat cs = concat (map gr_bytes ps)" using assms(6) by simp
  obtain buf' L' where r: "deal_all (rc_deal (hash_key C)) cs (rc_recved_buff C, int 0, ?L) = Inr (buf', 0, L')"
    "handled (\<lambda>p. queued (rc_stamp (hash_key C) p)) ps ?L L'" "cl_inv L'"
    using gr.deal_stream [OF 1 assms(7) _ _ 2 3 4 assms(4)] by auto
  obtain C' where "deal_all rc_DealWithData cs C = Inr C'" "rc_state C' = (buf', 0, L')"
    using rc_receive_run [of C cs buf' 0 L'] r(1) assms(1) by (auto simp: rc_state_def)
  then show ?thesis using queued_all [OF r(2) assms(8)] r(3) by (auto simp: rc_state_def)
qed

text \<open>
  C15: The room server cuts the stream from a gate correctly. However the serialised envelopes
  of a list of packets are cut into reads of at most 4096 bytes, a connection whose receive
  block is empty ends up with it empty again, and its processor's queue holds exactly these
  envelopes, each with the connection's hash key filled in, in order behind what it held
  before. The envelopes must have a payload and be at most 4096 bytes long, and the queue must
  have a unit for each.
\<close>

theorem room_receives_stream:
  assumes "rc_valid_buff_len C = 0" "length (rc_recved_buff C) = MaxRecvBuffLen"
    and "in_i32 (hash_key C)" "cl_inv (bp_data_list (rc_gs_processor C))"
    and "\<forall>p \<in> set ps. gr_wf p \<and> gr_data_msg p \<noteq> [] \<and> length (gr_bytes p) \<le> 4096"
    and "concat cs = concat (map gr_bytes ps)" "\<forall>c \<in> set cs. length c \<le> 4096"
    and "int (length ps) \<le> cl_free (bp_data_list (rc_gs_processor C))"
  shows "\<exists>C'. deal_all rc_DealWithData cs C = Inr C' \<and> rc_valid_buff_len C' = 0
    \<and> cl_inv (bp_data_list (rc_gs_processor C'))
    \<and> cl_abs (bp_data_list (rc_gs_processor C'))
        = cl_abs (bp_data_list (rc_gs_processor C)) @ map (rc_stamp (hash_key C)) ps"
  by (rule room_stream [OF assms])

definition ex_client :: ClientInfoEx where
  "ex_client = rc_new\<lparr>hash_key := 3, rc_gs_processor := gsp_new\<lparr>bp_data_list := cl_new 2\<rparr>\<rparr>"

lemma ex_client_simps [simp]:
  "rc_valid_buff_len ex_client = 0" "length (rc_recved_buff ex_client) = MaxRecvBuffLen"
  "hash_key ex_client = 3" "bp_data_list (rc_gs_processor ex_client) = cl_new 2"
  by (simp_all add: ex_client_def rc_new_def BaseUserInfo.defs BaseUserInfo_new_def)

theorem room_receives_stream_witness:
  "\<exists>C'. deal_all rc_DealWithData [take 5 (gr_bytes ex_gr), drop 5 (gr_bytes ex_gr)] ex_client = Inr C'
    \<and> rc_valid_buff_len C' = 0 \<and> cl_inv (bp_data_list (rc_gs_processor C'))
    \<and> cl_abs (bp_data_list (rc_gs_processor C')) = [rc_stamp 3 ex_gr]"
proof -
  have "gr_data_msg ex_gr \<noteq> []" by (simp add: cyt_bytes_def ex_cyt_def)
  moreover have "length (gr_bytes ex_gr) = 38" using ex_gr_simps(1) by (simp add: length_gr_bytes)
  ultimately show ?thesis
    using room_receives_stream [of ex_client "[ex_gr]"
        "[take 5 (gr_bytes ex_gr), drop 5 (gr_bytes ex_gr)]"]
    by (simp add: in_i32_def)
qed

text \<open>
  An envelope without payload is not delivered when it arrives: the loop ends while at most
  18 bytes are valid, and 18 is the size of such an envelope. It stays in the receive block,
  and the queue does not change, until more bytes come.
\<close>

theorem room_holds_back_empty_envelope:
  assumes "rc_valid_buff_len C = 0" "length (rc_recved_buff C) = MaxRecvBuffLen"
    and "gr_wf p" "gr_data_msg p = []"
  shows "\<exists>C'. rc_DealWithData (gr_bytes p) C = Inr C' \<and> rc_valid_buff_len C' = 18
    \<and> take 18 (rc_recved_buff C') = gr_bytes p
    \<and> bp_data_list (rc_gs_processor C') = bp_data_list (rc_gs_processor C)"
proof -
  have l: "length (gr_bytes p) = 18" using assms(3,4) by (simp add: length_gr_bytes)
  obtain buf1 where b: "recv_append (rc_recved_buff C) (int 0) (gr_bytes p) (int (length (gr_bytes p)))
      = Inr (buf1, int (0 + length (gr_bytes p)))" "take (0 + length (gr_bytes p)) buf1
      = take 0 (rc_recved_buff C) @ gr_bytes p"
    using recv_append_ok [OF assms(2), of 0 "gr_bytes p"] l by auto
  then show ?thesis using assms(1) l
    by (simp add: rc_DealWithData_def deal_chunk_def Let_def)
qed

theorem room_holds_back_empty_envelope_witness:
  "\<exists>C'. rc_DealWithData (gr_bytes (ex_gr\<lparr>gr_data_len := 0, gr_data_msg := []\<rparr>)) ex_client = Inr C'
    \<and> rc_valid_buff_len C' = 18
    \<and> take 18 (rc_recved_buff C') = gr_bytes (ex_gr\<lparr>gr_data_len := 0, gr_data_msg := []\<rparr>)
    \<and> bp_data_list (rc_gs_processor C') = bp_data_list (rc_gs_processor ex_client)"
  by (rule room_holds_back_empty_envelope) (simp_all add: ex_gr_def gr_wf_def in_i32_def)

section \<open>Termination\<close>

lemma mem_no_diverge [simp]:
  "mem_read m off n \<noteq> Inl Diverges" "mem_write m off bs \<noteq> Inl Diverges"
  "memcpy d x m off n \<noteq> Inl Diverges"
  by (auto simp: mem_read_def mem_write_def memcpy_def res_simps)

lemma parse_no_diverge [simp]:
  "gr_ParseFromArray q d n \<noteq> Inl Diverges" "cyt_ParseFromArray q' d n \<noteq> Inl Diverges"
  by (auto simp: gr_ParseFromArray_def cyt_ParseFromArray_def res_simps Let_def
      split: option.split if_splits)

lemma serialize_no_diverge [simp]:
  "gr_SerializeToArray p d n \<noteq> Inl Diverges" "cyt_SerializeToArray p' d n \<noteq> Inl Diverges"
  by (auto simp: gr_SerializeToArray_def cyt_SerializeToArray_def res_simps split: option.split)

lemma put_unit_no_diverge [simp]: "put_unit b n c L \<noteq> Inl Diverges"
  by (auto simp: put_unit_def unit_at_def res_simps Let_def split: option.split)

lemma put_units_no_diverge [simp]: "put_units k b little L \<noteq> Inl Diverges"
  by (induction k b little L rule: put_units.induct) (auto simp: res_simps split: if_splits)

lemma add_no_diverge [simp]: "cl_AddBuffer b n L \<noteq> Inl Diverges"
  by (auto simp: cl_AddBuffer_def res_simps Let_def)

lemma recv_append_no_diverge [simp]: "recv_append buf v c n \<noteq> Inl Diverges"
  by (auto simp: recv_append_def res_simps)

lemma memcpy_fits: "memcpy d off m 0 (int k) = Inr b \<Longrightarrow> off + int k \<le> int (length d)"
  by (auto simp: memcpy_def res_simps mem_read_def mem_write_def split: if_splits)

lemma recv_append_bounds:
  assumes "recv_append buf v c (int (length c)) = Inr (b, w)" "length buf = MaxRecvBuffLen"
  shows "length b = MaxRecvBuffLen \<and> w \<le> int MaxRecvBuffLen"
proof (cases "v + int (length c) < int MaxRecvBuffLen")
  case True
  then have "memcpy buf v c 0 (int (length c)) = Inr b" "w = v + int (length c)"
    using assms(1) by (auto simp: recv_append_def res_simps)
  then show ?thesis using True assms(2) memcpy_length by force
next
  case False
  then have m: "memcpy buf 0 c 0 (int (length c)) = Inr b" "w = int (length c)"
    using assms(1) by (auto simp: recv_append_def res_simps)
  then show ?thesis using memcpy_fits [OF m(1)] memcpy_length [OF m(1)] assms(2) by simp
qed

lemma rc_frame_result:
  "rc_frame key p buf valid s = Inr r \<Longrightarrow>
   length (fst r) = length buf \<and> fst (snd r) = valid - gr_ByteSize p"
  by (auto simp: rc_frame_def res_simps Let_def memcpy_length split: prod.splits if_splits)

lemma rc_frame_no_diverge: "rc_frame key p buf valid s \<noteq> Inl Diverges"
  by (auto simp: rc_frame_def res_simps Let_def split: prod.splits if_splits)

text \<open>
  C27: \<open>DealWithData\<close> of the room server ends on every input, well-formed or not: whatever
  bytes arrive, the loop either returns or stops at a memory fault. It never runs for ever, and
  the fuel of the model, one more than the number of received bytes, is always enough.
\<close>

theorem room_deal_terminates:
  assumes "length (rc_recved_buff C) = MaxRecvBuffLen"
  shows "rc_DealWithData chunk C \<noteq> Inl Diverges"
proof -
  have "deal_chunk (\<lambda>d n. gr_ParseFromArray (gr_new 0) (Some d) n) (\<lambda>_. rc_frame (hash_key C)) chunk
      (rc_recved_buff C, rc_valid_buff_len C, s) \<noteq> Inl Diverges" for s
  proof (cases "recv_append (rc_recved_buff C) (rc_valid_buff_len C) chunk (int (length chunk))")
    case (Inl e)
    moreover have "e \<noteq> Diverges" using recv_append_no_diverge Inl by metis
    ultimately show ?thesis by (simp add: deal_chunk_def)
  next
    case (Inr r)
    obtain b w where r: "r = (b, w)" by (cases r)
    note bw = recv_append_bounds [OF Inr [unfolded r] assms]
    have "frame_loop (Suc (nat w)) (\<lambda>d n. gr_ParseFromArray (gr_new 0) (Some d) n)
        (rc_frame (hash_key C)) b w s \<noteq> Inl Diverges"
      using bw by (intro gr.loop_ends rc_frame_result rc_frame_no_diverge parse_no_diverge) auto
    then show ?thesis by (simp add: deal_chunk_def Inr r del: frame_loop.simps)
  qed
  then show ?thesis by (auto simp: rc_DealWithData_def rc_parse_def [abs_def] Let_def res_simps)
qed

theorem room_deal_terminates_witness:
  "rc_DealWithData ex_overflow ex_client \<noteq> Inl Diverges"
  by (rule room_deal_terminates) simp

section \<open>The life of a gate server processor\<close>

text \<open>
  Everything the room server does to the processor of a connection. A message enters
  \<open>SendData\<close> only through its serialised bytes, so one message type stands for all.
\<close>

inductive gsp_step :: "GateServerProcessor \<Rightarrow> GateServerProcessor \<Rightarrow> bool" where
  gsp_init: "gsp_InitProcessor n caller server P = Inr (b, P') \<Longrightarrow> gsp_step P P'"
| gsp_start: "gsp_step P (snd (gsp_StartProcessor create n P))"
| gsp_stop: "gsp_StopProcessor P = Inr P' \<Longrightarrow> gsp_step P P'"
| gsp_queue: "cl_AddBuffer buff len (bp_data_list P) = Inr (b, L) \<Longrightarrow> gsp_step P (P\<lparr>bp_data_list := L\<rparr>)"
| gsp_dequeue: "cl_GetBuffer ob mx ol (bp_data_list P) = Inr (b, ob', n, L) \<Longrightarrow>
    gsp_step P (P\<lparr>bp_data_list := L\<rparr>)"
| gsp_command: "gsp_step P (P\<lparr>bp_cmd_chain := snd (cc_GetCommand i (bp_cmd_chain P))\<rparr>)"
| gsp_send: "gsp_SendData (\<lambda>_ :: unit. bytes) () msg_id key P = Inr (b, P') \<Longrightarrow> gsp_step P P'"
| gsp_write: "gsp_send_round P = Inr (out, P') \<Longrightarrow> gsp_step P P'"

inductive gsp_reachable :: "GateServerProcessor \<Rightarrow> bool" where
  gsp_made: "gsp_reachable gsp_new"
| gsp_next: "gsp_reachable P \<Longrightarrow> gsp_step P P' \<Longrightarrow> gsp_reachable P'"

inductive_cases gsp_stepE: "gsp_step P P'"

lemma cl_null_add: "cl_data_ptr L = None \<Longrightarrow> cl_AddBuffer buff len L = Inr (False, L)"
  by (simp add: cl_AddBuffer_def)

lemma cl_null_get: "cl_data_ptr L = None \<Longrightarrow> cl_GetBuffer ob mx ol L = Inr (False, ob, ol, L)"
  by (simp add: cl_GetBuffer_def)

lemma gsp_send_null:
  assumes "cl_data_ptr (gsp_send_list P) = None"
  shows "gsp_SendData ser m msg_id key P = Inr (b, P') \<Longrightarrow> \<not> b \<and> P' = P"
    and "gsp_send_round P = Inr (None, P)"
  using assms
  by (auto simp: gsp_SendData_def gsp_send_round_def cl_null_add cl_null_get res_simps
      split: if_splits prod.splits)

lemma gsp_step_null:
  "gsp_step P P' \<Longrightarrow> cl_data_ptr (gsp_send_list P) = None \<Longrightarrow> cl_data_ptr (gsp_send_list P') = None"
  by (erule gsp_stepE)
    (auto simp: gsp_InitProcessor_def bp_InitProcessor_def gsp_StartProcessor_def pr_start_def
      gsp_StopProcessor_def pr_stop_def res_simps Let_def gsp_send_null split_def dest: gsp_send_null(1)
      split: if_splits)

lemma gsp_reachable_null: "gsp_reachable P \<Longrightarrow> cl_data_ptr (gsp_send_list P) = None"
  by (induction rule: gsp_reachable.induct)
    (auto simp: gsp_new_def Processor.defs cl_new_def dest: gsp_step_null)

text \<open>
  No message is ever sent to a gate through its processor. Whatever has happened to a
  processor since it was constructed, \<open>SendData\<close> drops the message and returns \<open>false\<close>, and
  the send thread has nothing to write: the send queue is never initialised.
\<close>

theorem gate_processor_never_sends:
  assumes "gsp_reachable P" and "ser m = Some bs" "length bs + 36 \<le> 8192"
    and "in_i32 msg_id" "in_i32 key"
  shows "gsp_SendData ser m msg_id key P = Inr (False, P) \<and> gsp_send_round P = Inr (None, P)"
proof -
  note null = gsp_reachable_null [OF assms(1)]
  obtain rest where "pack_for_user ser m msg_id key
      = Inr (True, gr_bytes (user_gr key msg_id bs) @ rest, int (length bs) + 36)"
    using pack_for_user_ok [where ser = ser and m = m, OF assms(2-5)] by blast
  then have "gsp_SendData ser m msg_id key P = Inr (False, P)"
    by (simp add: gsp_SendData_def cl_null_add [OF null])
  then show ?thesis using gsp_send_null(2) [OF null] by simp
qed

theorem gate_processor_never_sends_witness:
  "gsp_SendData Some [8, 1] 6010 7 gsp_new = Inr (False, gsp_new)
    \<and> gsp_send_round gsp_new = Inr (None, gsp_new)"
  by (rule gate_processor_never_sends [where bs = "[8, 1]"]) (simp_all add: gsp_made in_i32_def)

text \<open>
  A processor that \<open>InitProcessor\<close> has set up answers lookups with the handler of each of
  the eight message types the room server serves and with null for every other type. It can be
  set up again after it was stopped, but not before: a second \<open>InitProcessor\<close> of a processor
  in use fails.
\<close>

theorem gate_processor_commands:
  assumes "0 < n" and "\<forall>i. cc_lookup (bp_cmd_chain P) i = None"
  shows "\<exists>P1. gsp_InitProcessor n caller server P = Inr (True, P1) \<and> cl_inv (bp_data_list P1)
    \<and> cl_abs (bp_data_list P1) = []
    \<and> (\<forall>i. fst (cc_GetCommand i (bp_cmd_chain P1)) = map_of (gs_commands server) i)
    \<and> (\<exists>P2. gsp_InitProcessor n caller server P1 = Inr (False, P2))"
proof -
  obtain L where L: "cl_InitBuffer n (bp_data_list P) = Inr L" "cl_inv L" "cl_abs L = []"
    using cl_InitBuffer_ok [OF assms(1)] by blast
  obtain L' where L': "cl_InitBuffer n L = Inr L'" using cl_InitBuffer_ok [OF assms(1)] by blast
  have d: "distinct (map fst (gs_commands server))" by (simp add: gs_commands_def)
  have f: "fst (register_all (gs_commands server) (bp_cmd_chain P))"
    "cc_lookup (snd (register_all (gs_commands server) (bp_cmd_chain P))) i
      = (case map_of (gs_commands server) i of Some c \<Rightarrow> Some c | None \<Rightarrow> None)" for i
    using register_all_ok [OF d, of "bp_cmd_chain P"] assms(2) by (simp_all split: option.split)
  obtain C where C: "register_all (gs_commands server) (bp_cmd_chain P) = (True, C)"
    using f(1) by (cases "register_all (gs_commands server) (bp_cmd_chain P)") simp
  have l: "cc_lookup C i = map_of (gs_commands server) i" for i
    using f(2) [of i] C by (simp split: option.splits)
  have "cc_lookup C 6001 = Some \<lparr>cmd_class = ClientLoginRQ, cmd_server_ptr = server\<rparr>"
    unfolding l by (simp add: gs_commands_def)
  then have "register_all (gs_commands server) C = (False, C)"
    by (simp add: gs_commands_def cc_register_taken)
  then show ?thesis using L L' C
    by (simp add: gsp_InitProcessor_def bp_InitProcessor_def cc_get l)
qed

theorem gate_processor_commands_witness:
  "\<exists>P1. gsp_InitProcessor 1000 (Some 1) (Some 2) gsp_new = Inr (True, P1) \<and> cl_inv (bp_data_list P1)
    \<and> cl_abs (bp_data_list P1) = []
    \<and> (\<forall>i. fst (cc_GetCommand i (bp_cmd_chain P1)) = map_of (gs_commands (Some 2)) i)
    \<and> (\<exists>P2. gsp_InitProcessor 1000 (Some 1) (Some 2) P1 = Inr (False, P2))"
  by (rule gate_processor_commands) (simp_all add: gsp_new_def pr_new_def bp_new_def Processor.defs BaseProcessor.defs)

end
