(* ===== verification/Connector.thy ===== *)
theory Connector
  imports Processor
begin

text \<open>
  \<open>Connector\<close> (\<open>common/connector.cpp\<close>): an outgoing connection with its send queue and its
  three threads, one round of each as a function; and the round in which a processor takes a
  packet from its queue and finds the handler.
\<close>

section \<open>State\<close>

text \<open>\<open>server_port_\<close> is a \<open>short\<close>: an \<open>int\<close> argument is reduced to 16 bits, with sign.\<close>

definition wrap16 :: "int \<Rightarrow> int" where
  "wrap16 x = (x + 32768) mod 65536 - 32768"

record Connector =
  con_server_ip :: "byte list"
  con_server_port :: int
  con_client_fd :: int
  con_is_started :: bool
  con_send_list :: CircleList

definition con_new :: Connector where
  "con_new = \<lparr>con_server_ip = [], con_server_port = 0, con_client_fd = -1, con_is_started = False,
     con_send_list = cl_new 0\<rparr>"

definition con_InitConnectionInfo ::
  "byte list \<Rightarrow> int \<Rightarrow> 'x Connector_scheme \<Rightarrow> 'x Connector_scheme res" where
  "con_InitConnectionInfo ip port C =
     res_bind (cl_InitBuffer 1000 (con_send_list C)) (\<lambda>L.
       Inr (C\<lparr>con_server_ip := ip, con_server_port := wrap16 port, con_send_list := L\<rparr>))"

section \<open>Connecting\<close>

text \<open>
  \<open>fd\<close> is what \<open>socket\<close> returns and \<open>conn i\<close> what the \<open>i\<close>-th \<open>connect\<close> returns. The loop tries
  again until \<open>connect\<close> succeeds, so it may run for ever; the fuel bounds the number of tries.
\<close>

fun connect_loop :: "nat \<Rightarrow> (nat \<Rightarrow> int) \<Rightarrow> nat \<Rightarrow> unit res" where
  "connect_loop 0 conn i = Inl Diverges"
| "connect_loop (Suc f) conn i = (if conn i = -1 then connect_loop f conn (Suc i) else Inr ())"

definition con_ConnectServer ::
  "nat \<Rightarrow> int \<Rightarrow> (nat \<Rightarrow> int) \<Rightarrow> 'x Connector_scheme \<Rightarrow> (bool \<times> 'x Connector_scheme) res" where
  "con_ConnectServer fuel fd conn C =
     (if con_server_port C \<le> 0 then Inr (False, C)
      else if fd = -1 then Inr (False, C\<lparr>con_client_fd := fd\<rparr>)
      else res_bind (connect_loop fuel conn 0) (\<lambda>_. Inr (True, C\<lparr>con_client_fd := fd\<rparr>)))"

text \<open>\<open>create i\<close> is the result of the \<open>i\<close>-th of the three \<open>pthread_create\<close> calls.\<close>

definition con_StartConnect ::
  "nat \<Rightarrow> int \<Rightarrow> (nat \<Rightarrow> int) \<Rightarrow> (nat \<Rightarrow> int) \<Rightarrow> 'x Connector_scheme
   \<Rightarrow> (bool \<times> 'x Connector_scheme) res" where
  "con_StartConnect fuel fd conn create C =
     res_bind (con_ConnectServer fuel fd conn (C\<lparr>con_is_started := True\<rparr>)) (\<lambda>(ok, C1).
       if \<not> ok then Inr (False, C1\<lparr>con_is_started := False\<rparr>)
       else if create 0 \<noteq> 0 then Inr (False, C1\<lparr>con_is_started := False\<rparr>)
       else if create 1 \<noteq> 0 then Inr (False, C1\<lparr>con_is_started := False\<rparr>)
       else if create 2 \<noteq> 0 then Inr (False, C1\<lparr>con_is_started := False\<rparr>)
       else Inr (True, C1))"

definition con_Disconnect :: "'x Connector_scheme \<Rightarrow> 'x Connector_scheme" where
  "con_Disconnect C = C\<lparr>con_is_started := False, con_client_fd := -1\<rparr>"

definition con_SendData ::
  "byte list \<Rightarrow> int \<Rightarrow> 'x Connector_scheme \<Rightarrow> (bool \<times> 'x Connector_scheme) res" where
  "con_SendData buff len C =
     res_bind (cl_AddBuffer buff len (con_send_list C)) (\<lambda>(b, L). Inr (b, C\<lparr>con_send_list := L\<rparr>))"

section \<open>The threads\<close>

text \<open>
  One round of \<open>SendDataThread\<close>: \<open>wr bs\<close> is what \<open>write\<close> returns. The result is what was
  written, if anything.
\<close>

definition con_send_round ::
  "(byte list \<Rightarrow> int) \<Rightarrow> 'x Connector_scheme \<Rightarrow> (byte list option \<times> 'x Connector_scheme) res" where
  "con_send_round wr C =
     (if con_client_fd C = -1 then Inr (None, C)
      else
        res_bind (cl_GetBuffer (replicate 0x2000 0) 0x2000 0 (con_send_list C)) (\<lambda>(ok, buff, len, L).
          if \<not> ok then Inr (None, C\<lparr>con_send_list := L\<rparr>)
          else res_bind (mem_read buff 0 len) (\<lambda>bs.
            Inr (Some bs, C\<lparr>con_send_list := L,
                            con_client_fd := (if wr bs < 0 then -1 else con_client_fd C)\<rparr>))))"

text \<open>
  One round of \<open>RecvDataThread\<close>: \<open>input\<close> is what \<open>read\<close> delivers, empty for an error and for
  the end of the stream, and the result is the argument of \<open>DealWithData\<close> if it is called.
\<close>

definition con_recv_round :: "byte list \<Rightarrow> 'x Connector_scheme \<Rightarrow> byte list option" where
  "con_recv_round input C =
     (if con_client_fd C = -1 then None else if input \<noteq> [] then Some input else None)"

definition con_reconnect_round ::
  "nat \<Rightarrow> int \<Rightarrow> (nat \<Rightarrow> int) \<Rightarrow> 'x Connector_scheme \<Rightarrow> 'x Connector_scheme res" where
  "con_reconnect_round fuel fd conn C =
     (if con_client_fd C \<noteq> -1 then Inr C
      else res_bind (con_ConnectServer fuel fd conn C) (\<lambda>(_, C1). Inr C1))"

section \<open>The dispatch round of a processor\<close>

text \<open>
  One round of \<open>DealWithDataThread\<close>, up to the call of the handler: nothing in the queue, a
  packet that does not parse, a message type without handler, or the call \<open>Execute(buff, len)\<close>
  of a handler. All processors but the gate server's share this code: they parse a client
  packet and pass its payload.
\<close>

datatype 'k dispatch = Idle | Bad_packet | No_command | Execute "'k BaseCommand" "byte list" int

definition cyt_dispatch_round ::
  "('k, 'x) BaseProcessor_scheme \<Rightarrow> ('k dispatch \<times> ('k, 'x) BaseProcessor_scheme) res" where
  "cyt_dispatch_round P =
     res_bind (cl_GetBuffer (replicate 0x2000 0) 0x2000 0 (bp_data_list P)) (\<lambda>(ok, buff, len, L).
       let P1 = P\<lparr>bp_data_list := L\<rparr>
       in if \<not> ok then Inr (Idle, P1)
          else
            res_bind (cyt_ParseFromArray (cyt_new 0) (Some buff) len) (\<lambda>(ok, p).
              if \<not> ok then Inr (Bad_packet, P1)
              else
                let (c, C) = cc_GetCommand (cyt_msg_type p) (bp_cmd_chain P1);
                    P2 = P1\<lparr>bp_cmd_chain := C\<rparr>
                in case c of
                     None \<Rightarrow> Inr (No_command, P2)
                   | Some cmd \<Rightarrow> Inr (Execute cmd (cyt_msg_data p @ [0]) (cyt_msg_len p), P2)))"

lemma cyt_dispatch_head:
  assumes "cl_inv (bp_data_list P)" "cl_abs (bp_data_list P) = m # ms" "length m < 8192"
    and "m = cyt_bytes p @ rest" "cyt_wf p"
  shows "\<exists>P'. cyt_dispatch_round P = Inr
      (case cc_lookup (bp_cmd_chain P) (cyt_msg_type p) of
         None \<Rightarrow> No_command | Some c \<Rightarrow> Execute c (cyt_msg_data p @ [0]) (cyt_msg_len p), P')
    \<and> cl_inv (bp_data_list P') \<and> cl_abs (bp_data_list P') = ms
    \<and> (\<forall>i. cc_lookup (bp_cmd_chain P') i = cc_lookup (bp_cmd_chain P) i)"
proof -
  obtain L where L: "cl_GetBuffer (replicate 0x2000 0) 0x2000 0 (bp_data_list P)
      = Inr (True, m @ drop (length m) (replicate 0x2000 0), int (length m), L)"
    "cl_inv L" "cl_abs L = ms"
    using cl_GetBuffer_ok [OF assms(1,2), of 8192 "replicate 8192 0" 0] assms(3) by auto
  have "cyt_ParseFromArray (cyt_new 0) (Some (m @ drop (length m) (replicate 0x2000 0))) (int (length m))
      = Inr (True, p)"
    unfolding assms(4) append_assoc using assms(5) by (intro cyt_parse_bytes) simp_all
  then show ?thesis
    using L by (auto simp: cyt_dispatch_round_def Let_def split_def cc_get split: option.split)
qed

section \<open>Properties\<close>

text \<open>
  The packets of one read are not told apart by a connector. \<open>DealWithData\<close> of the
  connectors queues what \<open>read\<close> delivered as one message, and a processor takes one packet from
  a message: of a read that holds two packets the first is dispatched to its handler and the
  second is dropped with the message.
\<close>

theorem connector_drops_second_packet:
  assumes "cl_inv (bp_data_list P)" "cl_abs (bp_data_list P) = []" "0 < cl_free (bp_data_list P)"
    and "cyt_wf p" "cyt_wf q" "length (cyt_bytes p @ cyt_bytes q) \<le> 4096"
    and "cc_lookup (bp_cmd_chain P) (cyt_msg_type p) = Some c"
  shows "\<exists>L P'. cl_AddBuffer (cyt_bytes p @ cyt_bytes q) (int (length (cyt_bytes p @ cyt_bytes q)))
        (bp_data_list P) = Inr (True, L)
    \<and> cyt_dispatch_round (P\<lparr>bp_data_list := L\<rparr>)
        = Inr (Execute c (cyt_msg_data p @ [0]) (cyt_msg_len p), P')
    \<and> cl_abs (bp_data_list P') = []"
proof -
  let ?m = "cyt_bytes p @ cyt_bytes q"
  obtain L where L: "cl_AddBuffer ?m (int (length ?m)) (bp_data_list P) = Inr (True, L)" "cl_inv L"
    "cl_abs L = [?m]"
    using cl_add_whole [OF assms(1,6,3)] assms(2) by auto
  then show ?thesis
    using cyt_dispatch_head [of "P\<lparr>bp_data_list := L\<rparr>" ?m "[]" p "cyt_bytes q"] assms(4,6,7)
    by auto
qed

definition ex_chain :: "unit CommandChain" where
  "ex_chain = snd (cc_RegisterCommand 6001 (Some \<lparr>cmd_class = (), cmd_server_ptr = Some 1\<rparr>) cc_new)"

theorem connector_drops_second_packet_witness:
  "\<exists>L P'. cl_AddBuffer (cyt_bytes ex_cyt @ cyt_bytes ex_cyt)
        (int (length (cyt_bytes ex_cyt @ cyt_bytes ex_cyt)))
        (bp_data_list (\<lparr>bp_caller_ptr = None, bp_cmd_chain = ex_chain, bp_data_list = cl_new 3\<rparr>))
      = Inr (True, L)
    \<and> cyt_dispatch_round (\<lparr>bp_caller_ptr = None, bp_cmd_chain = ex_chain, bp_data_list = cl_new 3\<rparr>
          \<lparr>bp_data_list := L\<rparr>)
        = Inr (Execute \<lparr>cmd_class = (), cmd_server_ptr = Some 1\<rparr> (cyt_msg_data ex_cyt @ [0])
            (cyt_msg_len ex_cyt), P')
    \<and> cl_abs (bp_data_list P') = []"
  by (rule connector_drops_second_packet)
    (simp_all add: ex_chain_def cc_register_fresh, simp add: ex_cyt_def cc_register_fresh)

text \<open>
  A connection to a port above 32767 is never made. The port is stored in a \<open>short\<close>, where
  such a value is negative, and \<open>ConnectServer\<close> gives up on it, while for every port from 1 to
  32767 \<open>StartConnect\<close> succeeds as soon as one \<open>connect\<close> does.
\<close>

theorem connector_ports:
  assumes "0 < port" "port < 65536" and "fd \<noteq> -1" "conn k \<noteq> -1" and "\<forall>i. create i = 0"
    and "k < fuel"
  shows "\<exists>C1 C2. con_InitConnectionInfo ip port C = Inr C1
    \<and> con_StartConnect fuel fd conn create C1 = Inr (port \<le> 32767, C2)
    \<and> con_is_started C2 = (port \<le> 32767)"
proof -
  have loop: "connect_loop f conn i = Inr ()" if "i \<le> k" "k < i + f" for f i
    using that
  proof (induction f arbitrary: i)
    case (Suc f)
    then show ?case using assms(4) by (cases "i = k") auto
  qed simp
  have "(0 :: int) < 1000" by simp
  then obtain L where L: "cl_InitBuffer 1000 (con_send_list C) = Inr L"
    using cl_InitBuffer_ok by blast
  let ?C1 = "C\<lparr>con_server_ip := ip, con_server_port := wrap16 port, con_send_list := L\<rparr>"
  have i: "con_InitConnectionInfo ip port C = Inr ?C1" by (simp add: con_InitConnectionInfo_def L)
  show ?thesis
  proof (cases "port \<le> 32767")
    case True
    have "(port + 32768) mod 65536 = port + 32768"
      using True assms(1) by (intro mod_pos_pos_trivial) auto
    then have "wrap16 port = port" by (simp add: wrap16_def)
    moreover have "connect_loop fuel conn 0 = Inr ()" using loop assms(6) by simp
    ultimately show ?thesis using i True assms(1,3,5)
      by (simp add: con_StartConnect_def con_ConnectServer_def)
  next
    case False
    have "(port + 32768) mod 65536 = port - 32768"
      using False assms(2) by (intro int_mod_pos_eq [of _ _ 1]) auto
    then have "wrap16 port = port - 65536" by (simp add: wrap16_def)
    then show ?thesis using i False assms(2)
      by (simp add: con_StartConnect_def con_ConnectServer_def)
  qed
qed

theorem connector_ports_witness:
  "\<exists>C1 C2. con_InitConnectionInfo [] 40000 con_new = Inr C1
    \<and> con_StartConnect 10 5 (\<lambda>i. if i < 3 then -1 else 0) (\<lambda>_. 0) C1 = Inr ((40000 :: int) \<le> 32767, C2)
    \<and> con_is_started C2 = ((40000 :: int) \<le> 32767)"
  by (rule connector_ports [where k = 3]) simp_all

text \<open>
  A message is taken from the send queue before it is written: when the write fails the
  connection is given up and the message is lost, and it is not sent again after reconnecting.
\<close>

theorem connector_write_loses_message:
  assumes "con_client_fd C \<noteq> -1" "cl_inv (con_send_list C)" "cl_abs (con_send_list C) = m # ms"
    and "length m < 8192" "wr m < 0"
  shows "\<exists>C'. con_send_round wr C = Inr (Some m, C') \<and> con_client_fd C' = -1
    \<and> cl_inv (con_send_list C') \<and> cl_abs (con_send_list C') = ms"
proof -
  obtain L where "cl_GetBuffer (replicate 0x2000 0) 0x2000 0 (con_send_list C)
      = Inr (True, m @ drop (length m) (replicate 0x2000 0), int (length m), L)" "cl_inv L" "cl_abs L = ms"
    using cl_GetBuffer_ok [OF assms(2,3), of 8192 "replicate 8192 0" 0] assms(4) by auto
  then show ?thesis using assms(1,5) by (simp add: con_send_round_def mem_read_piece)
qed

theorem connector_write_loses_message_witness:
  "\<exists>L C'. cl_AddBuffer [1, 2] 2 (cl_new 4) = Inr (True, L)
    \<and> con_send_round (\<lambda>_. -1) (con_new\<lparr>con_client_fd := 5, con_send_list := L\<rparr>) = Inr (Some [1, 2], C')
    \<and> con_client_fd C' = -1 \<and> cl_inv (con_send_list C') \<and> cl_abs (con_send_list C') = []"
proof -
  obtain L where L: "cl_AddBuffer [1, 2] (int (length [1, 2 :: byte])) (cl_new 4) = Inr (True, L)"
    "cl_inv L" "cl_abs L = [[1, 2]]" using cl_add_whole [of "cl_new 4" "[1, 2]"] by auto
  show ?thesis
    using connector_write_loses_message [of "con_new\<lparr>con_client_fd := 5, con_send_list := L\<rparr>" "[1, 2]" "[]" "\<lambda>_. -1"]
      L by (intro exI [of _ L]) auto
qed

end
