(* ===== verification/Messages.thy ===== *)
theory Messages
  imports Miku_Base
begin

text \<open>
  The messages of \<open>packet/package_define.proto\<close> and \<open>packet/ds_server.pb.h\<close> the servers
  exchange, with the fields the servers use. Parsing and serialising are functions of the record
  \<open>protobuf\<close>, an argument of every definition that uses them; \<open>Pb_Servers\<close> builds this record from
  the classes that protoc generated. A parser is what
  \<open>ParseFromArray\<close> makes of the bytes it is given, \<open>None\<close> when it returns \<open>false\<close>; \<open>pb_ser\<close> is
  what \<open>SerializeToArray\<close> writes, \<open>None\<close> when it refuses.
\<close>

record StruUserLoginRQ =
  lrq_user_id :: int
  lrq_room_id :: int
  lrq_user_psw :: "byte list"
  lrq_user_account_name :: "byte list"

record StruUserLoginRS =
  lrs_msg_id :: int
  lrs_user_id :: int
  lrs_room_id :: int
  lrs_result :: int
  lrs_user_red_d :: int
  lrs_user_blue_d :: int
  lrs_user_level :: int
  lrs_buyer_riches :: int
  lrs_buyer_grow_up :: int
  lrs_buyer_honour :: int
  lrs_buyer_estimate :: int
  lrs_seller_income :: int
  lrs_seller_exp :: int
  lrs_seller_pop :: int
  lrs_seller_estimate :: int

record StruUserInfo =
  ui_msg_id :: int
  ui_user_id :: int
  ui_user_account_name :: "byte list"
  ui_user_role_uid :: "byte list"
  ui_user_level :: int
  ui_buyer_riches :: int
  ui_buyer_grow_up :: int
  ui_buyer_honour :: int
  ui_buyer_estimate :: int
  ui_seller_income :: int
  ui_seller_exp :: int
  ui_seller_pop :: int
  ui_seller_estimate :: int

record StruUserInfoListID =
  uil_msg_id :: int
  uil_user_id :: int
  uil_room_id :: int
  uil_user_info_list :: "StruUserInfo list"

record StruMicInfo =
  mi_msg_id :: int
  mi_user_id :: int
  mi_user_account_name :: "byte list"
  mi_mic_channel_str :: "byte list"

record StruRoomMicInfoID =
  rmi_msg_id :: int
  rmi_user_id :: int
  rmi_room_id :: int
  rmi_mic_list :: "StruMicInfo list"

record StruUserMsgRQ =
  mrq_user_id :: int
  mrq_room_id :: int
  mrq_msg_text :: "byte list"
  mrq_is_private :: bool
  mrq_dst_user_id :: int

record StruUserMsgRS =
  mrs_msg_id :: int
  mrs_user_id :: int
  mrs_room_id :: int
  mrs_result :: int

record StruUserMsgTextID =
  mt_msg_id :: int
  mt_user_id :: int
  mt_room_id :: int
  mt_msg_text :: "byte list"
  mt_is_private :: bool
  mt_dst_user_id :: int

record StruUserGiveGiftRQ =
  grq_user_id :: int
  grq_room_id :: int
  grq_gift_code :: "byte list"
  grq_dst_user_id :: int
  grq_count_gift :: int

record StruUserGiveGiftRS =
  grs_msg_id :: int
  grs_user_id :: int
  grs_room_id :: int
  grs_result :: int
  grs_gift_code :: "byte list"
  grs_dst_user_id :: int
  grs_sender_red_d :: int

text \<open>
  The requests of which only the message id, the user and the room are used:
  \<open>StruCancleUserMicRQ\<close>, \<open>StruPutUserOnMicRQ\<close>, \<open>StruUserApplyMicRQ\<close>, \<open>StruUserOffMicRQ\<close> and
  \<open>StruUserExitRoomID\<close>, of which the last is also sent on and has no other field.
  Their parsers differ; the argument of \<open>pb_RoomUser\<close> below says which one is meant.
\<close>

record StruRoomUser =
  ru_msg_id :: int
  ru_user_id :: int
  ru_room_id :: int

record StruUserApplyMicRS =
  ars_msg_id :: int
  ars_user_id :: int
  ars_room_id :: int
  ars_result :: int
  ars_mic_channel_str :: "byte list"

record StruUserOffMicRS =
  ors_msg_id :: int
  ors_user_id :: int
  ors_room_id :: int
  ors_result :: int

text \<open>Messages of the director server.\<close>

record StruDsServerConnectRq =
  dcq_server_id :: int
  dcq_server_ip :: "byte list"
  dcq_server_port :: int
  dcq_server_type :: int
  dcq_connect_type :: int
  dcq_server_detect_port :: int

record StruDsServerConnectRs =
  dcs_result :: int

record StruDsGSGetRoomInfoRs =
  dri_room_id :: int
  dri_rs_server_id :: int
  dri_server_ip :: "byte list"
  dri_server_port :: int

record StruDsGetCsInfoRs =
  dci_server_ip :: "byte list"
  dci_server_port :: int

datatype pmsg =
  P_UserLoginRQ StruUserLoginRQ | P_UserLoginRS StruUserLoginRS
  | P_UserInfo StruUserInfo | P_UserInfoListID StruUserInfoListID
  | P_RoomMicInfoID StruRoomMicInfoID | P_UserMsgRS StruUserMsgRS | P_UserMsgTextID StruUserMsgTextID
  | P_UserGiveGiftRQ StruUserGiveGiftRQ | P_UserGiveGiftRS StruUserGiveGiftRS
  | P_UserApplyMicRS StruUserApplyMicRS | P_UserOffMicRS StruUserOffMicRS
  | P_UserExitRoomID StruRoomUser
  | P_DsServerConnectRq StruDsServerConnectRq
  | P_DsGetCsInfoRq int
  | P_DsGSGetRoomInfoRq int int

record protobuf =
  pb_ser :: "pmsg \<Rightarrow> byte list option"
  pb_UserLoginRQ :: "byte list \<Rightarrow> StruUserLoginRQ option"
  pb_UserLoginRS :: "byte list \<Rightarrow> StruUserLoginRS option"
  pb_UserMsgRQ :: "byte list \<Rightarrow> StruUserMsgRQ option"
  pb_UserGiveGiftRQ :: "byte list \<Rightarrow> StruUserGiveGiftRQ option"
  pb_UserGiveGiftRS :: "byte list \<Rightarrow> StruUserGiveGiftRS option"
  pb_RoomUser :: "int \<Rightarrow> byte list \<Rightarrow> StruRoomUser option"
  pb_DsServerConnectRs :: "byte list \<Rightarrow> StruDsServerConnectRs option"
  pb_DsGSGetRoomInfoRs :: "byte list \<Rightarrow> StruDsGSGetRoomInfoRs option"
  pb_DsGetCsInfoRs :: "byte list \<Rightarrow> StruDsGetCsInfoRs option"

text \<open>\<open>ParseFromArray(buff, len)\<close> of a message class.\<close>

definition parse_from :: "(byte list \<Rightarrow> 'm option) \<Rightarrow> byte list \<Rightarrow> int \<Rightarrow> 'm option res" where
  "parse_from parse buff len = res_bind (mem_read buff 0 len) (\<lambda>bs. Inr (parse bs))"

lemma parse_from_whole: "parse_from parse (bs @ rest) (int (length bs)) = Inr (parse bs)"
  by (simp add: parse_from_def mem_read_piece)

end
