(* ===== verification/Room_Server.thy ===== *)
theory Room_Server
  imports Room_Clients Room_Manager Connector Messages
begin

text \<open>
  The room server as a whole (\<open>room_server/room_server.h\<close>): its state, its connections to the
  center server and to the director server with their processors
  (\<open>cs_connector.cpp\<close>, \<open>cs_processor.cpp\<close>, \<open>ds_connector.cpp\<close>, \<open>ds_processor.cpp\<close>), and
  how it sends messages: to one user, to a gate's socket, and to all users of a room.
\<close>

section \<open>Connection to the center server\<close>

datatype cs_cmd = ClientLoginRS | UserGiveGiftRS

definition cs_commands :: "ptr \<Rightarrow> (int \<times> cs_cmd BaseCommand) list" where
  "cs_commands server = map (\<lambda>(i, c). (i, \<lparr>cmd_class = c, cmd_server_ptr = server\<rparr>))
     [(E_USER_LOGIN_RS, ClientLoginRS), (E_USER_GIVE_GIFT_RS, UserGiveGiftRS)]"

definition cs_InitProcessor ::
  "int \<Rightarrow> ptr \<Rightarrow> ptr \<Rightarrow> cs_cmd Processor \<Rightarrow> (bool \<times> cs_cmd Processor) res" where
  "cs_InitProcessor max_list_size caller server P =
     res_bind (bp_InitProcessor max_list_size server P) (\<lambda>(_, P1).
       let (ok, C) = register_all (cs_commands server) (bp_cmd_chain P1)
       in Inr (ok, P1\<lparr>pr_parent_ptr := caller, bp_cmd_chain := C\<rparr>))"

definition cs_StartProcessor ::
  "(nat \<Rightarrow> int) \<Rightarrow> int \<Rightarrow> cs_cmd Processor \<Rightarrow> bool \<times> cs_cmd Processor" where
  "cs_StartProcessor create thread_count P = pr_start bool_stop create thread_count P"

definition cs_StopProcessor :: "cs_cmd Processor \<Rightarrow> cs_cmd Processor res" where
  "cs_StopProcessor P = pr_stop P"

record CenterServerConnector = Connector +
  csc_server_ptr :: ptr
  csc_processor :: "cs_cmd Processor"

definition csc_new :: CenterServerConnector where
  "csc_new = Connector.extend con_new \<lparr>csc_server_ptr = None, csc_processor = pr_new\<rparr>"

text \<open>\<open>self\<close> is the address of the connector.\<close>

definition csc_StartCSProcessor :: "ptr \<Rightarrow> (nat \<Rightarrow> int) \<Rightarrow> int \<Rightarrow> int \<Rightarrow> ptr
    \<Rightarrow> CenterServerConnector \<Rightarrow> (bool \<times> CenterServerConnector) res" where
  "csc_StartCSProcessor self create list_size thread_count server C =
     res_bind (cs_InitProcessor list_size self server (csc_processor C)) (\<lambda>(ok, P).
       let C1 = C\<lparr>csc_server_ptr := server, csc_processor := P\<rparr>
       in if \<not> ok then Inr (False, C1)
          else
            let (ok, P1) = cs_StartProcessor create thread_count P;
                C2 = C1\<lparr>csc_processor := P1\<rparr>
            in if \<not> ok then Inr (False, C2) else Inr (True, C2))"

definition csc_DealWithData ::
  "byte list \<Rightarrow> int \<Rightarrow> CenterServerConnector \<Rightarrow> CenterServerConnector res" where
  "csc_DealWithData buff len C =
     (if pr_is_started (csc_processor C)
      then res_bind (cl_AddBuffer buff len (bp_data_list (csc_processor C))) (\<lambda>(_, L).
             Inr (C\<lparr>csc_processor := (csc_processor C)\<lparr>bp_data_list := L\<rparr>\<rparr>))
      else Inr C)"

text \<open>
  What the calls into the operating system return to \<open>StartConnect\<close>, and in \<open>se_create_proc\<close> the
  creation of the threads of a processor started after it. An address is passed as a C string.
\<close>

record sock_env =
  se_fuel :: nat
  se_fd :: int
  se_conn :: "nat \<Rightarrow> int"
  se_create :: "nat \<Rightarrow> int"
  se_create_proc :: "nat \<Rightarrow> int"

definition c_str :: "byte list \<Rightarrow> byte list" where
  "c_str bs = takeWhile (\<lambda>b. b \<noteq> 0) bs"

section \<open>Connection to the director server\<close>

abbreviation DEF_DS_SERVER_CONNECT_RQ :: int where "DEF_DS_SERVER_CONNECT_RQ \<equiv> 1001"
abbreviation DEF_DS_SERVER_CONNECT_RS :: int where "DEF_DS_SERVER_CONNECT_RS \<equiv> 1002"
abbreviation DEF_DS_GS_GET_ROOMINFO_RQ :: int where "DEF_DS_GS_GET_ROOMINFO_RQ \<equiv> 1005"
abbreviation DEF_DS_GS_GET_ROOMINFO_RS :: int where "DEF_DS_GS_GET_ROOMINFO_RS \<equiv> 1006"
abbreviation DEF_DS_RS_GET_CS_RQ :: int where "DEF_DS_RS_GET_CS_RQ \<equiv> 10011"
abbreviation DEF_DS_RS_GET_CS_RS :: int where "DEF_DS_RS_GET_CS_RS \<equiv> 10012"

datatype ds_cmd = ConnectDirectorServerRS | QueryChatRoomRS | GetCenterServerAddrRS

definition ds_commands :: "ptr \<Rightarrow> (int \<times> ds_cmd BaseCommand) list" where
  "ds_commands server = map (\<lambda>(i, c). (i, \<lparr>cmd_class = c, cmd_server_ptr = server\<rparr>))
     [(DEF_DS_SERVER_CONNECT_RS, ConnectDirectorServerRS),
      (DEF_DS_GS_GET_ROOMINFO_RS, QueryChatRoomRS),
      (DEF_DS_RS_GET_CS_RS, GetCenterServerAddrRS)]"

definition ds_InitProcessor ::
  "int \<Rightarrow> ptr \<Rightarrow> ptr \<Rightarrow> ds_cmd Processor \<Rightarrow> (bool \<times> ds_cmd Processor) res" where
  "ds_InitProcessor max_list_size caller server P =
     res_bind (bp_InitProcessor max_list_size server P) (\<lambda>(_, P1).
       let (ok, C) = register_all (ds_commands server) (bp_cmd_chain P1)
       in Inr (ok, P1\<lparr>pr_parent_ptr := caller, bp_cmd_chain := C\<rparr>))"

definition ds_StopProcessor :: "ds_cmd Processor \<Rightarrow> ds_cmd Processor res" where
  "ds_StopProcessor P = pr_stop P"

record DirectorServerConnector = Connector +
  dsc_server_ptr :: ptr
  dsc_recv_list :: CircleList
  dsc_processor :: "ds_cmd Processor"

text \<open>The constructor initialises \<open>recv_list_\<close>, which nothing uses.\<close>

definition dsc_new :: "DirectorServerConnector res" where
  "dsc_new = res_bind (cl_InitBuffer 1000 (cl_new 0)) (\<lambda>L.
     Inr (Connector.extend con_new \<lparr>dsc_server_ptr = None, dsc_recv_list = L, dsc_processor = pr_new\<rparr>))"

definition dsc_DealWithData ::
  "byte list \<Rightarrow> int \<Rightarrow> DirectorServerConnector \<Rightarrow> DirectorServerConnector res" where
  "dsc_DealWithData buff len C =
     (if pr_is_started (dsc_processor C)
      then res_bind (cl_AddBuffer buff len (bp_data_list (dsc_processor C))) (\<lambda>(_, L).
             Inr (C\<lparr>dsc_processor := (dsc_processor C)\<lparr>bp_data_list := L\<rparr>\<rparr>))
      else Inr C)"

text \<open>
  Packing for the director server, the same in \<open>SendPackage\<close> and \<open>SendConnectDsRQ\<close>: the message
  is serialised into a block of 0x1000 bytes and the client packet around it into the same block.
\<close>

definition pack_for_ds ::
  "('m \<Rightarrow> byte list option) \<Rightarrow> 'm \<Rightarrow> int \<Rightarrow> (bool \<times> byte list \<times> int) res" where
  "pack_for_ds ser pack msg_id =
     res_bind (msg_SerializeToArray ser pack (replicate 0x1000 0)) (\<lambda>(ok, buff).
     if \<not> ok then Inr (False, buff, 0)
     else
       res_bind (cyt_build msg_id (msg_ByteSize ser pack) buff) (\<lambda>c.
       res_bind (cyt_SerializeToArray c (Some buff) (cyt_ByteSize c)) (\<lambda>(ok, buff1).
       if \<not> ok then Inr (False, buff1, 0) else Inr (True, buff1, cyt_ByteSize c))))"

text \<open>
  \<open>SendPackage\<close>: without a socket the packet is queued, with one it is written; \<open>wr\<close> is what
  \<open>write\<close> returns.
\<close>

definition dsc_SendPackage ::
  "('m \<Rightarrow> byte list option) \<Rightarrow> (int \<Rightarrow> byte list \<Rightarrow> int) \<Rightarrow> 'm \<Rightarrow> int \<Rightarrow> int
   \<Rightarrow> DirectorServerConnector \<times> (int \<times> byte list) list
   \<Rightarrow> (bool \<times> DirectorServerConnector \<times> (int \<times> byte list) list) res" where
  "dsc_SendPackage ser wr pack msg_id optional_fd = (\<lambda>(C, out).
     res_bind (pack_for_ds ser pack msg_id) (\<lambda>(ok, buff, len).
     if \<not> ok then Inr (False, C, out)
     else if optional_fd = 0 then
       res_bind (con_SendData buff len C) (\<lambda>(b, C1). Inr (b, C1, out))
     else
       res_bind (mem_read buff 0 len) (\<lambda>bs.
         Inr (wr optional_fd bs = len, C, out @ [(optional_fd, bs)]))))"

text \<open>
  \<open>SendConnectDsRQ\<close> of the processor: the caller is the server and the parent the connector, and
  it does nothing when one is null. \<open>rq\<close> is the request it fills in.
\<close>

definition ds_SendConnectDsRQ ::
  "(pmsg \<Rightarrow> byte list option) \<Rightarrow> StruDsServerConnectRq \<Rightarrow> DirectorServerConnector
   \<Rightarrow> DirectorServerConnector res" where
  "ds_SendConnectDsRQ ser rq C =
     (if bp_caller_ptr (dsc_processor C) = None then Inr C
      else
        res_bind (pack_for_ds ser (P_DsServerConnectRq rq) DEF_DS_SERVER_CONNECT_RQ) (\<lambda>(ok, buff, len).
        if \<not> ok then Inr C
        else if pr_parent_ptr (dsc_processor C) = None then Inr C
        else res_bind (con_SendData buff len C) (\<lambda>(_, C1). Inr C1)))"

definition ds_StartProcessor ::
  "(pmsg \<Rightarrow> byte list option) \<Rightarrow> StruDsServerConnectRq \<Rightarrow> (nat \<Rightarrow> int) \<Rightarrow> int
   \<Rightarrow> DirectorServerConnector \<Rightarrow> (bool \<times> DirectorServerConnector) res" where
  "ds_StartProcessor ser rq create thread_count C =
     (if thread_count \<le> 0 then Inr (False, C)
      else
        let (_, P) = pr_start bool_stop create thread_count (dsc_processor C)
        in res_bind (ds_SendConnectDsRQ ser rq (C\<lparr>dsc_processor := P\<rparr>)) (\<lambda>C1. Inr (True, C1)))"

definition dsc_StartDSProcessor :: "ptr \<Rightarrow> (pmsg \<Rightarrow> byte list option) \<Rightarrow> StruDsServerConnectRq
    \<Rightarrow> (nat \<Rightarrow> int) \<Rightarrow> int \<Rightarrow> int \<Rightarrow> ptr
    \<Rightarrow> DirectorServerConnector \<Rightarrow> (bool \<times> DirectorServerConnector) res" where
  "dsc_StartDSProcessor self ser rq create list_size thread_count server C =
     res_bind (ds_InitProcessor list_size self server (dsc_processor C)) (\<lambda>(ok, P).
       let C1 = C\<lparr>dsc_server_ptr := server, dsc_processor := P\<rparr>
       in if \<not> ok then Inr (False, C1)
          else res_bind (ds_StartProcessor ser rq create thread_count C1) (\<lambda>(ok, C2).
                 if \<not> ok then Inr (False, C2) else Inr (True, C2)))"

section \<open>The server\<close>

text \<open>
  The state of the server: its configuration, its components, the stores of its objects, and
  the list of what it has written to sockets itself. \<open>cs_conn_list_\<close> is never used and left out.
\<close>

record RoomServer =
  rsv_server_id :: int
  rsv_server_ip :: "byte list"
  rsv_server_port :: int
  rsv_client_list :: ClientInfoList
  rsv_clients :: "ClientInfoEx client_store"
  rsv_room_manager :: RoomManager
  rsv_rooms :: room_store
  rsv_users :: user_store
  rsv_cs_connector :: CenterServerConnector
  rsv_ds_connector :: DirectorServerConnector
  rsv_out :: "(int \<times> byte list) list"

definition rsv_GetRoom :: "int \<Rightarrow> RoomServer \<Rightarrow> ptr \<times> RoomServer" where
  "rsv_GetRoom rid S =
     (let (p, M) = rmg_GetRoom rid (rsv_room_manager S) in (p, S\<lparr>rsv_room_manager := M\<rparr>))"

definition rsv_room :: "nat \<Rightarrow> RoomServer \<Rightarrow> ChatRoom" where
  "rsv_room a S = rs_mem (rsv_rooms S) a"

definition rsv_set_room :: "nat \<Rightarrow> ChatRoom \<Rightarrow> RoomServer \<Rightarrow> RoomServer" where
  "rsv_set_room a R S = S\<lparr>rsv_rooms := rs_update a R (rsv_rooms S)\<rparr>"

definition rsv_user :: "nat \<Rightarrow> RoomServer \<Rightarrow> UserInfo" where
  "rsv_user a S = us_mem (rsv_users S) a"

definition rsv_GetUserInfo :: "nat \<Rightarrow> int \<Rightarrow> RoomServer \<Rightarrow> (ptr \<times> RoomServer) res" where
  "rsv_GetUserInfo a uid S =
     res_bind (cr_GetUserInfo uid (rsv_room a S)) (\<lambda>(u, R). Inr (u, rsv_set_room a R S))"

text \<open>\<open>client_list_.GetUserByHashkey\<close>.\<close>

definition rsv_GetGate :: "int \<Rightarrow> RoomServer \<Rightarrow> ptr \<times> RoomServer" where
  "rsv_GetGate key S =
     (let (p, L) = rcl_GetUserByHashkey key (rsv_client_list S) in (p, S\<lparr>rsv_client_list := L\<rparr>))"

text \<open>\<open>SendData\<close> of the processor of the gate at an address.\<close>

definition rsv_gate_SendData ::
  "(pmsg \<Rightarrow> byte list option) \<Rightarrow> pmsg \<Rightarrow> int \<Rightarrow> int \<Rightarrow> nat \<Rightarrow> RoomServer \<Rightarrow> RoomServer res" where
  "rsv_gate_SendData ser pack msg_id user_hashkey a S =
     res_bind (gsp_SendData ser pack msg_id user_hashkey (rc_gs_processor (rsv_clients S a))) (\<lambda>(_, P).
       Inr (S\<lparr>rsv_clients := (rsv_clients S)(a := (rsv_clients S a)\<lparr>rc_gs_processor := P\<rparr>)\<rparr>))"

text \<open>\<open>GetCSConnector()->SendData\<close>.\<close>

definition rsv_cs_SendData :: "byte list \<Rightarrow> int \<Rightarrow> RoomServer \<Rightarrow> (bool \<times> RoomServer) res" where
  "rsv_cs_SendData buff len S =
     res_bind (con_SendData buff len (rsv_cs_connector S)) (\<lambda>(b, C).
       Inr (b, S\<lparr>rsv_cs_connector := C\<rparr>))"

definition cs_SendDataToGS :: "(pmsg \<Rightarrow> byte list option) \<Rightarrow> (int \<Rightarrow> byte list \<Rightarrow> int)
    \<Rightarrow> pmsg \<Rightarrow> int \<Rightarrow> int \<Rightarrow> int \<Rightarrow> RoomServer \<Rightarrow> (bool \<times> RoomServer) res" where
  "cs_SendDataToGS ser wr pack msg_id fd user_hashkey S =
     res_bind (pack_for_user ser pack msg_id user_hashkey) (\<lambda>(ok, buff, len).
     if \<not> ok then Inr (False, S)
     else
       res_bind (mem_read buff 0 len) (\<lambda>bs.
         let S1 = S\<lparr>rsv_out := rsv_out S @ [(fd, bs)]\<rparr>
         in if wr fd bs \<le> 0 then Inr (False, S1) else Inr (True, S1)))"

text \<open>
  \<open>SendDataToRoomAllUser\<close>. The body of the loop works on the list and the store of gates; it
  does not touch the room, whose user list the loop walks over.
\<close>

definition broadcast_one :: "(pmsg \<Rightarrow> byte list option) \<Rightarrow> pmsg \<Rightarrow> int \<Rightarrow> nat \<Rightarrow> RoomServer \<Rightarrow> RoomServer res"
  where
  "broadcast_one ser pack msg_id u S =
     (let (gs, S1) = rsv_GetGate (gs_hashkey_user_on (rsv_user u S)) S
      in case gs of
           None \<Rightarrow> Inr S1
         | Some a \<Rightarrow> rsv_gate_SendData ser pack msg_id (user_hash_key (rsv_user u S)) a S1)"

definition rsv_SendDataToRoomAllUser ::
  "(pmsg \<Rightarrow> byte list option) \<Rightarrow> pmsg \<Rightarrow> int \<Rightarrow> int \<Rightarrow> RoomServer \<Rightarrow> (bool \<times> RoomServer) res" where
  "rsv_SendDataToRoomAllUser ser pack msg_id rid S =
     (if rid = 0 then Inr (True, S)
      else
        let (p, S1) = rsv_GetRoom rid S
        in case p of
             None \<Rightarrow> Inr (False, S1)
           | Some a \<Rightarrow>
               res_bind (ul_foreach (broadcast_one ser pack msg_id) (user_list (rsv_room a S1)) S1)
                 (\<lambda>(b, L, S2). Inr (b, rsv_set_room a ((rsv_room a S2)\<lparr>user_list := L\<rparr>) S2)))"

end
