(* ===== verification/Room_Commands.thy ===== *)
theory Room_Commands
  imports Room_Server
begin

text \<open>
  The handlers of the messages that gate servers forward to the room server
  (\<open>room_server/cl_command\<close>), and the round of the thread that calls them
  (\<open>GateServerProcessor::DealWithDataThread\<close>). A handler works on the whole server; its log
  lines are left out.
\<close>

section \<open>What handlers share\<close>

text \<open>
  The object a handler's \<open>caller_ptr\<close> points to: the processor of the gate connection at an
  address, that connection itself, or the processor of the center server's connection. A
  handler that treats it as a connection and calls \<open>GetGSProcessor()\<close> works on the bytes
  behind some other object.
\<close>

datatype caller = Gate_processor nat | Gate_connection nat | Center_processor | Director_processor

fun as_connection :: "caller \<Rightarrow> nat res" where
  "as_connection (Gate_connection a) = Inr a"
| "as_connection _ = Inl Bad_cast"

definition with_request :: "(byte list \<Rightarrow> 'm option) \<Rightarrow> byte list \<Rightarrow> int \<Rightarrow> RoomServer
    \<Rightarrow> (GateRoomServerPack \<Rightarrow> 'm \<Rightarrow> RoomServer res) \<Rightarrow> RoomServer res" where
  "with_request parse buff len S k =
     res_bind (UnpackAndAnalysePackFromGSRS parse (Some buff) len (gr_new 0) (cyt_new 0)) (\<lambda>(ok, g, c, m).
       if \<not> ok then Inr S else case m of None \<Rightarrow> Inr S | Some rq \<Rightarrow> k g rq)"

definition with_room :: "int \<Rightarrow> RoomServer \<Rightarrow> (nat \<Rightarrow> RoomServer \<Rightarrow> RoomServer res) \<Rightarrow> RoomServer res" where
  "with_room rid S k =
     (let (p, S1) = rsv_GetRoom rid S in case p of None \<Rightarrow> Inr S1 | Some a \<Rightarrow> k a S1)"

definition with_user ::
  "nat \<Rightarrow> int \<Rightarrow> RoomServer \<Rightarrow> (nat \<Rightarrow> RoomServer \<Rightarrow> RoomServer res) \<Rightarrow> RoomServer res" where
  "with_user a uid S k =
     res_bind (rsv_GetUserInfo a uid S) (\<lambda>(u, S1). case u of None \<Rightarrow> Inr S1 | Some b \<Rightarrow> k b S1)"

definition rsv_NewUserInfo :: "nat \<Rightarrow> RoomServer \<Rightarrow> (ptr \<times> RoomServer) res" where
  "rsv_NewUserInfo a S =
     res_bind (cr_NewUserInfo (rsv_room a S) (rsv_users S)) (\<lambda>(u, R, s).
       Inr (u, rsv_set_room a R (S\<lparr>rsv_users := s\<rparr>)))"

section \<open>The handlers\<close>

definition CancleUserMicRQ_Execute ::
  "protobuf \<Rightarrow> ptr \<Rightarrow> caller option \<Rightarrow> byte list \<Rightarrow> int \<Rightarrow> RoomServer \<Rightarrow> RoomServer res" where
  "CancleUserMicRQ_Execute pb server caller buff len S =
     (if server = None \<or> caller = None then Inr S
      else with_request (pb_RoomUser pb E_CANCLE_USER_MIC_RQ) buff len S (\<lambda>g rq.
           with_room (ru_room_id rq) S (\<lambda>a S1.
           with_user a (ru_user_id rq) S1 (\<lambda>u S2. Inr S2))))"

definition PutUserOnMicRQ_Execute ::
  "protobuf \<Rightarrow> ptr \<Rightarrow> caller option \<Rightarrow> byte list \<Rightarrow> int \<Rightarrow> RoomServer \<Rightarrow> RoomServer res" where
  "PutUserOnMicRQ_Execute pb server caller buff len S =
     (if server = None \<or> caller = None then Inr S
      else with_request (pb_RoomUser pb E_PUT_USER_ON_MIC_RQ) buff len S (\<lambda>g rq.
           with_room (ru_room_id rq) S (\<lambda>a S1.
           with_user a (ru_user_id rq) S1 (\<lambda>u S2. Inr S2))))"

text \<open>
  \<open>ClientLoginRQ\<close>: the room is made when there is none, the user object comes from the room's
  main pool, its name is copied into an array of 32 bytes, the result of \<open>AddPreUser\<close> is
  ignored, and the payload goes to the center server.
\<close>

definition login_room :: "int \<Rightarrow> RoomServer \<Rightarrow> (nat \<times> RoomServer) res" where
  "login_room rid S =
     (let (p, S1) = rsv_GetRoom rid S
      in case p of
           Some a \<Rightarrow> Inr (a, S1)
         | None \<Rightarrow>
             res_bind (rmg_GetNewRoom (rsv_room_manager S1) (rsv_rooms S1) (rsv_users S1)) (\<lambda>(q, M, rs, us).
             res_bind (deref q) (\<lambda>a.
               let S2 = S1\<lparr>rsv_rooms := rs, rsv_users := us\<rparr>;
                   (_, R) = cr_SetRoom rid (-1) (rsv_room a S2);
                   (_, M1) = rmg_AddRoom rid q M
               in Inr (a, (rsv_set_room a R S2)\<lparr>rsv_room_manager := M1\<rparr>))))"

definition ClientLoginRQ_Execute ::
  "protobuf \<Rightarrow> ptr \<Rightarrow> caller option \<Rightarrow> byte list \<Rightarrow> int \<Rightarrow> RoomServer \<Rightarrow> RoomServer res" where
  "ClientLoginRQ_Execute pb server caller buff len S =
     (if server = None \<or> caller = None then Inr S
      else with_request (pb_UserLoginRQ pb) buff len S (\<lambda>g rq.
        res_bind (login_room (lrq_room_id rq) S) (\<lambda>(a, S1).
        res_bind (rsv_NewUserInfo a S1) (\<lambda>(u, S2).
          case u of
            None \<Rightarrow> Inr S2
          | Some b \<Rightarrow>
              res_bind (mem_write (user_nickname (rsv_user b S2)) 0 (lrq_user_account_name rq)) (\<lambda>nick.
                let S3 = S2\<lparr>rsv_users := us_update b (\<lambda>x. x\<lparr>gs_hashkey_user_on := gr_gs_hashkey g,
                           user_hash_key := gr_user_hashkey g, user_id := lrq_user_id rq,
                           user_nickname := nick\<rparr>) (rsv_users S2)\<rparr>
                in res_bind (cr_AddPreUser (lrq_user_id rq) u (rsv_room a S3)) (\<lambda>(_, R).
                   res_bind (rsv_cs_SendData (gr_data_msg g @ [0]) (gr_data_len g) (rsv_set_room a R S3))
                     (\<lambda>(_, S4). Inr S4)))))))"

definition UserApplyMicRQ_Execute ::
  "protobuf \<Rightarrow> ptr \<Rightarrow> caller option \<Rightarrow> byte list \<Rightarrow> int \<Rightarrow> RoomServer \<Rightarrow> RoomServer res" where
  "UserApplyMicRQ_Execute pb server caller buff len S =
     (case caller of
        None \<Rightarrow> Inr S
      | Some cl \<Rightarrow>
         if server = None then Inr S
         else with_request (pb_RoomUser pb E_USER_APPLY_MIC_RQ) buff len S (\<lambda>g rq.
           with_room (ru_room_id rq) S (\<lambda>a S1.
           with_user a (ru_user_id rq) S1 (\<lambda>u S2.
             let rs = \<lparr>ars_msg_id = E_USER_APPLY_MIC_RS, ars_user_id = ru_user_id rq,
                       ars_room_id = room_id (rsv_room a S2), ars_result = 0,
                       ars_mic_channel_str = []\<rparr>
             in res_bind (cr_UserApplyOneNewVideo (ru_user_id rq) (rsv_room a S2)) (\<lambda>(channel, R).
                  let S3 = rsv_set_room a R S2
                  in if channel = [] then
                       res_bind (as_connection cl) (\<lambda>gs.
                         rsv_gate_SendData (pb_ser pb) (P_UserApplyMicRS (rs\<lparr>ars_result := 0\<rparr>))
                           E_USER_APPLY_MIC_RS (user_hash_key (rsv_user u S3)) gs S3)
                     else
                       res_bind (rsv_SendDataToRoomAllUser (pb_ser pb)
                           (P_UserApplyMicRS (rs\<lparr>ars_result := 1, ars_mic_channel_str := channel\<rparr>))
                           E_USER_APPLY_MIC_RS (room_id (rsv_room a S3)) S3) (\<lambda>(_, S4). Inr S4))))))"

definition UserExitRoomID_Execute ::
  "protobuf \<Rightarrow> ptr \<Rightarrow> caller option \<Rightarrow> byte list \<Rightarrow> int \<Rightarrow> RoomServer \<Rightarrow> RoomServer res" where
  "UserExitRoomID_Execute pb server caller buff len S =
     (if server = None \<or> caller = None then Inr S
      else with_request (pb_RoomUser pb E_USER_EXIT_ROOM_ID) buff len S (\<lambda>g rq.
           with_room (ru_room_id rq) S (\<lambda>a S1.
           with_user a (ru_user_id rq) S1 (\<lambda>u S2.
             res_bind (cr_RemoveUser (ru_user_id rq) (rsv_room a S2)) (\<lambda>R.
               let S3 = rsv_set_room a R S2
               in res_bind (rsv_SendDataToRoomAllUser (pb_ser pb) (P_UserExitRoomID rq)
                      E_USER_EXIT_ROOM_ID (room_id (rsv_room a S3)) S3) (\<lambda>(_, S4). Inr S4))))))"

definition UserGiveGiftRQ_Execute ::
  "protobuf \<Rightarrow> ptr \<Rightarrow> caller option \<Rightarrow> byte list \<Rightarrow> int \<Rightarrow> RoomServer \<Rightarrow> RoomServer res" where
  "UserGiveGiftRQ_Execute pb server caller buff len S =
     (if server = None \<or> caller = None then Inr S
      else with_request (pb_UserGiveGiftRQ pb) buff len S (\<lambda>g rq.
           with_room (grq_room_id rq) S (\<lambda>a S1.
           with_user a (grq_user_id rq) S1 (\<lambda>u S2.
           with_user a (grq_dst_user_id rq) S2 (\<lambda>d S3.
             res_bind (rsv_cs_SendData (gr_data_msg g @ [0]) (gr_data_len g) S3) (\<lambda>(_, S4). Inr S4))))))"

definition UserOffMicRQ_Execute ::
  "protobuf \<Rightarrow> ptr \<Rightarrow> caller option \<Rightarrow> byte list \<Rightarrow> int \<Rightarrow> RoomServer \<Rightarrow> RoomServer res" where
  "UserOffMicRQ_Execute pb server caller buff len S =
     (if server = None \<or> caller = None then Inr S
      else with_request (pb_RoomUser pb E_USER_OFF_MIC_RQ) buff len S (\<lambda>g rq.
           with_room (ru_room_id rq) S (\<lambda>a S1.
           with_user a (ru_user_id rq) S1 (\<lambda>u S2.
             let S3 = rsv_set_room a (cr_UserGetOffVideo (ru_user_id rq) (rsv_room a S2)) S2;
                 rs = \<lparr>ors_msg_id = E_USER_OFF_MIC_RS, ors_user_id = ru_user_id rq,
                       ors_room_id = ru_room_id rq, ors_result = 1\<rparr>
             in res_bind (rsv_SendDataToRoomAllUser (pb_ser pb) (P_UserOffMicRS rs)
                    E_USER_OFF_MIC_RS (room_id (rsv_room a S3)) S3) (\<lambda>(_, S4). Inr S4)))))"

definition UserSendMsgRQ_Execute ::
  "protobuf \<Rightarrow> ptr \<Rightarrow> caller option \<Rightarrow> byte list \<Rightarrow> int \<Rightarrow> RoomServer \<Rightarrow> RoomServer res" where
  "UserSendMsgRQ_Execute pb server caller buff len S =
     (case caller of
        None \<Rightarrow> Inr S
      | Some cl \<Rightarrow>
         if server = None then Inr S
         else with_request (pb_UserMsgRQ pb) buff len S (\<lambda>g rq.
           with_room (mrq_room_id rq) S (\<lambda>a S1.
           with_user a (mrq_user_id rq) S1 (\<lambda>u S2.
             let rs = \<lparr>mrs_msg_id = E_USER_MSG_RS, mrs_user_id = mrq_user_id rq,
                       mrs_room_id = mrq_room_id rq, mrs_result = 1\<rparr>;
                 txt = \<lparr>mt_msg_id = E_USER_MSG_TEXT_ID, mt_user_id = mrq_user_id rq,
                        mt_room_id = mrq_room_id rq, mt_msg_text = mrq_msg_text rq,
                        mt_is_private = mrq_is_private rq, mt_dst_user_id = mrq_dst_user_id rq\<rparr>;
                 key = user_hash_key (rsv_user u S2)
             in if mrq_is_private rq then
                  res_bind (rsv_GetUserInfo a (mrq_dst_user_id rq) S2) (\<lambda>(d, S3).
                  res_bind
                    (case d of
                       None \<Rightarrow> Inr (rs\<lparr>mrs_result := 0\<rparr>, S3)
                     | Some dst \<Rightarrow>
                         let (gs, S4) = rsv_GetGate (gs_hashkey_user_on (rsv_user dst S3)) S3
                         in case gs of
                              None \<Rightarrow> Inr (rs, S4)
                            | Some q \<Rightarrow>
                                res_bind (rsv_gate_SendData (pb_ser pb) (P_UserMsgTextID txt)
                                    E_USER_MSG_TEXT_ID (user_hash_key (rsv_user dst S4)) q S4)
                                  (\<lambda>S5. Inr (rs, S5)))
                    (\<lambda>(rs, S5).
                       res_bind (as_connection cl) (\<lambda>gs.
                         rsv_gate_SendData (pb_ser pb) (P_UserMsgRS rs) E_USER_MSG_RS key gs S5)))
                else
                  res_bind (as_connection cl) (\<lambda>gs.
                  res_bind (rsv_gate_SendData (pb_ser pb) (P_UserMsgRS rs) E_USER_MSG_RS key gs S2) (\<lambda>S3.
                  res_bind (rsv_SendDataToRoomAllUser (pb_ser pb) (P_UserMsgTextID txt)
                      E_USER_MSG_TEXT_ID (mrq_room_id rq) S3) (\<lambda>(_, S4). Inr S4)))))))"

section \<open>The thread that calls them\<close>

text \<open>
  A processor passes itself to the handler. The command is that of the registered handler's
  class.
\<close>

fun gs_Execute :: "protobuf \<Rightarrow> gs_cmd BaseCommand \<Rightarrow> caller option \<Rightarrow> byte list \<Rightarrow> int
    \<Rightarrow> RoomServer \<Rightarrow> RoomServer res" where
  "gs_Execute pb c =
     (case cmd_class c of
        ClientLoginRQ \<Rightarrow> ClientLoginRQ_Execute pb (cmd_server_ptr c)
      | CancleUserMicRQ \<Rightarrow> CancleUserMicRQ_Execute pb (cmd_server_ptr c)
      | PutUserOnMicRQ \<Rightarrow> PutUserOnMicRQ_Execute pb (cmd_server_ptr c)
      | UserApplyMicRQ \<Rightarrow> UserApplyMicRQ_Execute pb (cmd_server_ptr c)
      | UserExitRoomID \<Rightarrow> UserExitRoomID_Execute pb (cmd_server_ptr c)
      | UserGiveGiftRQ \<Rightarrow> UserGiveGiftRQ_Execute pb (cmd_server_ptr c)
      | UserOffMicRQ \<Rightarrow> UserOffMicRQ_Execute pb (cmd_server_ptr c)
      | UserSendMsgRQ \<Rightarrow> UserSendMsgRQ_Execute pb (cmd_server_ptr c))"

text \<open>
  One round of \<open>DealWithDataThread\<close> of the processor of the connection at address \<open>i\<close>: the
  handler is chosen by the type of the packet inside the envelope and gets the envelope.
\<close>

definition gs_dispatch_round :: "GateServerProcessor \<Rightarrow> (gs_cmd dispatch \<times> GateServerProcessor) res" where
  "gs_dispatch_round P =
     res_bind (cl_GetBuffer (replicate 0x2000 0) 0x2000 0 (bp_data_list P)) (\<lambda>(ok, buff, len, L).
       let P1 = P\<lparr>bp_data_list := L\<rparr>
       in if \<not> ok then Inr (Idle, P1)
          else
            res_bind (gr_ParseFromArray (gr_new 0) (Some buff) len) (\<lambda>(ok, g).
            if \<not> ok then Inr (Bad_packet, P1)
            else
              res_bind (cyt_ParseFromArray (cyt_new 0) (Some (gr_data_msg g @ [0])) (gr_data_len g))
                (\<lambda>(ok, p).
                if \<not> ok then Inr (Bad_packet, P1)
                else
                  let (c, C) = cc_GetCommand (cyt_msg_type p) (bp_cmd_chain P1);
                      P2 = P1\<lparr>bp_cmd_chain := C\<rparr>
                  in case c of
                       None \<Rightarrow> Inr (No_command, P2)
                     | Some cmd \<Rightarrow> Inr (Execute cmd buff len, P2))))"

definition gs_deal_round :: "protobuf \<Rightarrow> nat \<Rightarrow> RoomServer \<Rightarrow> RoomServer res" where
  "gs_deal_round pb i S =
     res_bind (gs_dispatch_round (rc_gs_processor (rsv_clients S i))) (\<lambda>(d, P).
       let S1 = S\<lparr>rsv_clients := (rsv_clients S)(i := (rsv_clients S i)\<lparr>rc_gs_processor := P\<rparr>)\<rparr>
       in case d of
            Execute cmd buff len \<Rightarrow> gs_Execute pb cmd (Some (Gate_processor i)) buff len S1
          | _ \<Rightarrow> Inr S1)"

section \<open>Running a handler\<close>

text \<open>A block holds an envelope around a client packet with a request.\<close>

definition gs_request ::
  "(byte list \<Rightarrow> 'm option) \<Rightarrow> byte list \<Rightarrow> int \<Rightarrow> GateRoomServerPack \<Rightarrow> 'm \<Rightarrow> bool" where
  "gs_request parse buff len g rq \<longleftrightarrow>
     (\<exists>c rest extra. gr_wf g \<and> cyt_wf c \<and> gr_data_msg g = cyt_bytes c @ extra
        \<and> buff = gr_bytes g @ rest \<and> int (length (gr_bytes g)) \<le> len
        \<and> parse (cyt_msg_data c) = Some rq)"

lemma with_request_run:
  "gs_request parse buff len g rq \<Longrightarrow> with_request parse buff len S k = k g rq"
  by (auto simp: gs_request_def with_request_def unpack_gsrs)

definition rsv_lookup_room :: "RoomServer \<Rightarrow> int \<Rightarrow> ptr" where
  "rsv_lookup_room S rid = rmg_lookup (rsv_room_manager S) rid"

abbreviation room_users :: "nat \<Rightarrow> RoomServer \<Rightarrow> UserInfoList" where
  "room_users a S \<equiv> user_list (rsv_room a S)"

abbreviation room_pre :: "nat \<Rightarrow> RoomServer \<Rightarrow> UserInfoList" where
  "room_pre a S \<equiv> pre_user_list (rsv_room a S)"

lemma rsv_room_set [simp]:
  "rsv_room b (rsv_set_room a R S) = (if b = a then R else rsv_room b S)"
  "rsv_user u (rsv_set_room a R S) = rsv_user u S"
  "rsv_set_room a (rsv_room a S) S = S"
  "rsv_set_room a R' (rsv_set_room a R S) = rsv_set_room a R' S"
  "rsv_lookup_room (rsv_set_room a R S) = rsv_lookup_room S"
  "rsv_clients (rsv_set_room a R S) = rsv_clients S"
  "rsv_users (rsv_set_room a R S) = rsv_users S"
  "rsv_cs_connector (rsv_set_room a R S) = rsv_cs_connector S"
  "rsv_client_list (rsv_set_room a R S) = rsv_client_list S"
  "rsv_room_manager (rsv_set_room a R S) = rsv_room_manager S"
  "rsv_out (rsv_set_room a R S) = rsv_out S"
  by (simp_all add: rsv_room_def rsv_set_room_def rs_update_def rsv_user_def rsv_lookup_room_def
      fun_eq_iff)

lemma rsv_GetRoom_run: "rsv_lookup_room S rid = Some a \<Longrightarrow> rsv_GetRoom rid S = (Some a, S)"
  by (auto simp: rsv_lookup_room_def rmg_lookup_def rsv_GetRoom_def rmg_GetRoom_def map_index_def
      split: option.splits)

lemma with_room_run: "rsv_lookup_room S rid = Some a \<Longrightarrow> with_room rid S k = k a S"
  by (simp add: with_room_def rsv_GetRoom_run)

lemma rsv_GetUserInfo_run:
  "\<not> ul_locked (room_users a S) \<Longrightarrow> ul_lookup (room_users a S) uid = Some u \<Longrightarrow>
   rsv_GetUserInfo a uid S = Inr (Some u, S)"
  by (auto simp: ul_lookup_def rsv_GetUserInfo_def cr_GetUserInfo_def ul_GetUserInfo_def ul_lock_def
      map_index_def split: option.splits)

lemma with_user_run:
  "\<not> ul_locked (room_users a S) \<Longrightarrow> ul_lookup (room_users a S) uid = Some u \<Longrightarrow>
   with_user a uid S k = k u S"
  by (simp add: with_user_def rsv_GetUserInfo_run)

lemma with_user_locked: "ul_locked (room_users a S) \<Longrightarrow> with_user a uid S k = Inl Blocked"
  by (simp add: with_user_def rsv_GetUserInfo_def cr_GetUserInfo_def blocked_ops)

lemma with_user_absent:
  assumes "\<not> ul_locked (room_users a S)" "map_of (ul_users (room_users a S)) uid = None"
  shows "with_user a uid S k = Inr (rsv_set_room a ((rsv_room a S)\<lparr>user_list := (room_users a S)
    \<lparr>ul_users := map_put uid None (ul_users (room_users a S))\<rparr>\<rparr>) S)"
  using assms
  by (simp add: with_user_def rsv_GetUserInfo_def cr_GetUserInfo_def ul_GetUserInfo_def ul_lock_def
      map_index_def)

text \<open>
  Gates do not get messages through their processors, so a broadcast changes only the list of
  gates, where its lookups insert null entries.
\<close>

definition silent_gates :: "RoomServer \<Rightarrow> bool" where
  "silent_gates S \<longleftrightarrow> (\<forall>a. cl_data_ptr (gsp_send_list (rc_gs_processor (rsv_clients S a))) = None)"

definition sendable :: "(pmsg \<Rightarrow> byte list option) \<Rightarrow> pmsg \<Rightarrow> bool" where
  "sendable ser m \<longleftrightarrow> (\<exists>bs. ser m = Some bs \<and> length bs + 36 \<le> 8192)"

definition keys_ok :: "RoomServer \<Rightarrow> bool" where
  "keys_ok S \<longleftrightarrow> (\<forall>u. in_i32 (user_hash_key (rsv_user u S)))"

definition rcl_lookup :: "ClientInfoList \<Rightarrow> int \<Rightarrow> ptr" where
  "rcl_lookup L i = (case map_of (rcl_users L) i of None \<Rightarrow> None | Some p \<Rightarrow> p)"

definition looks_up :: "RoomServer \<Rightarrow> RoomServer \<Rightarrow> bool" where
  "looks_up S S' \<longleftrightarrow> (\<exists>L. S' = S\<lparr>rsv_client_list := L\<rparr> \<and> rcl_lookup L = rcl_lookup (rsv_client_list S))"

lemma looks_up_refl [simp]: "looks_up S S"
  unfolding looks_up_def by (rule exI [of _ "rsv_client_list S"]) simp

lemma looks_up_trans: "looks_up S T \<Longrightarrow> looks_up T U \<Longrightarrow> looks_up S U"
  by (auto simp: looks_up_def)

lemma looks_upD:
  assumes "looks_up S S'"
  shows "rsv_room a S' = rsv_room a S" "rsv_user u S' = rsv_user u S"
    "rsv_clients S' = rsv_clients S" "rsv_lookup_room S' = rsv_lookup_room S"
    "rsv_users S' = rsv_users S" "rsv_cs_connector S' = rsv_cs_connector S"
    "rsv_out S' = rsv_out S" "rsv_room_manager S' = rsv_room_manager S"
    "silent_gates S' = silent_gates S" "keys_ok S' = keys_ok S"
    "rcl_lookup (rsv_client_list S') = rcl_lookup (rsv_client_list S)"
  using assms
  by (auto simp: looks_up_def rsv_room_def rsv_user_def rsv_lookup_room_def silent_gates_def keys_ok_def)

lemma rsv_GetGate_run:
  "\<exists>S'. rsv_GetGate key S = (rcl_lookup (rsv_client_list S) key, S') \<and> looks_up S S'"
proof -
  let ?L = "rsv_client_list S"
  let ?m = "snd (map_index None (rcl_users ?L) key)"
  have "rsv_GetGate key S = (rcl_lookup ?L key, S\<lparr>rsv_client_list := ?L\<lparr>rcl_users := ?m\<rparr>\<rparr>)"
    by (simp add: rsv_GetGate_def rcl_GetUserByHashkey_def rcl_lookup_def split_def map_index_fst)
  moreover have "rcl_lookup (?L\<lparr>rcl_users := ?m\<rparr>) = rcl_lookup ?L"
    by (simp add: rcl_lookup_def map_of_index map_index_fst fun_eq_iff split: option.split)
  ultimately show ?thesis unfolding looks_up_def by blast
qed

lemma rsv_gate_SendData_run:
  assumes "silent_gates S" "sendable ser m" "in_i32 msg_id" "in_i32 key"
  shows "rsv_gate_SendData ser m msg_id key a S = Inr S"
proof -
  let ?P = "rc_gs_processor (rsv_clients S a)"
  have null: "cl_data_ptr (gsp_send_list ?P) = None" using assms(1) by (simp add: silent_gates_def)
  obtain bs where bs: "ser m = Some bs" "length bs + 36 \<le> 8192" using assms(2) by (auto simp: sendable_def)
  obtain rest where "pack_for_user ser m msg_id key
      = Inr (True, gr_bytes (user_gr key msg_id bs) @ rest, int (length bs) + 36)"
    using pack_for_user_ok [where ser = ser and m = m, OF bs assms(3,4)] by blast
  then have "gsp_SendData ser m msg_id key ?P = Inr (False, ?P)"
    by (simp add: gsp_SendData_def cl_null_add [OF null])
  then show ?thesis by (simp add: rsv_gate_SendData_def)
qed

lemma broadcast_one_run:
  assumes "silent_gates S" "sendable ser m" "in_i32 msg_id" "keys_ok S"
  shows "\<exists>S'. broadcast_one ser m msg_id u S = Inr S' \<and> looks_up S S'"
proof -
  obtain S1 where 1: "rsv_GetGate (gs_hashkey_user_on (rsv_user u S)) S
      = (rcl_lookup (rsv_client_list S) (gs_hashkey_user_on (rsv_user u S)), S1)" "looks_up S S1"
    using rsv_GetGate_run by blast
  have "in_i32 (user_hash_key (rsv_user u S))" using assms(4) by (simp add: keys_ok_def)
  moreover have "silent_gates S1" using looks_upD(9) [OF 1(2)] assms(1) by simp
  ultimately have "rsv_gate_SendData ser m msg_id (user_hash_key (rsv_user u S)) a S1 = Inr S1" for a
    using assms(2,3) by (intro rsv_gate_SendData_run)
  then show ?thesis using 1 by (auto simp: broadcast_one_def split: option.split)
qed

lemma broadcast_fold:
  assumes "sendable ser m" "in_i32 msg_id"
  shows "silent_gates S \<Longrightarrow> keys_ok S \<Longrightarrow>
    \<exists>S'. res_fold (broadcast_one ser m msg_id) us S = Inr S' \<and> looks_up S S'"
proof (induction us arbitrary: S)
  case (Cons u us)
  obtain S1 where 1: "broadcast_one ser m msg_id u S = Inr S1" "looks_up S S1"
    using broadcast_one_run Cons.prems assms by blast
  have "silent_gates S1" "keys_ok S1" using looks_upD [OF 1(2)] Cons.prems by simp_all
  then show ?case using Cons.IH 1 looks_up_trans [OF 1(2)] by fastforce
qed simp

text \<open>
  A broadcast reaches the end of the user list if there is no null entry; otherwise it stops
  there and leaves the list locked.
\<close>

lemma broadcast_run:
  assumes "silent_gates S" "sendable ser m" "in_i32 msg_id" "keys_ok S"
    and "rsv_lookup_room S rid = Some a" "rid \<noteq> 0" "ul_wf (room_users a S)"
  shows "\<exists>b S1 L. rsv_SendDataToRoomAllUser ser m msg_id rid S
      = Inr (b, rsv_set_room a ((rsv_room a S)\<lparr>user_list := L\<rparr>) S1) \<and> looks_up S S1
    \<and> ul_users L = ul_users (room_users a S) \<and> ul_unused L = ul_unused (room_users a S)
    \<and> (ul_locked L \<longleftrightarrow> first_null (ul_users (room_users a S)) \<noteq> None)"
proof -
  let ?L = "room_users a S"
  have wf: "map_ordered (ul_users ?L)" "\<not> ul_locked ?L" using assms(7) by (simp_all add: ul_wf_def)
  obtain S1 where 1: "res_fold (broadcast_one ser m msg_id) (live_users (ul_users ?L)) S = Inr S1"
    "looks_up S S1" using broadcast_fold [OF assms(2,3,1,4)] by blast
  show ?thesis
  proof (cases "ul_users ?L = []")
    case True
    then show ?thesis using assms(5,6) wf
      by (intro exI [of _ False] exI [of _ S] exI [of _ ?L])
        (simp add: rsv_SendDataToRoomAllUser_def rsv_GetRoom_run ul_foreach_empty)
  next
    case False
    then show ?thesis using assms(5,6) wf 1 looks_upD(1) [OF 1(2)]
      by (intro exI [of _ "live_users (ul_users ?L) \<noteq> []"] exI [of _ S1]
          exI [of _ "stopped_at (ul_users ?L) ?L"])
        (simp add: rsv_SendDataToRoomAllUser_def rsv_GetRoom_run ul_foreach_run)
  qed
qed

section \<open>Properties\<close>

text \<open>A concrete server with one room, number 9, for the witnesses.\<close>

definition ex_server :: "(int \<times> ptr) list \<Rightarrow> ptr list \<Rightarrow> RoomServer" where
  "ex_server users unused = \<lparr>rsv_server_id = 1, rsv_server_ip = [], rsv_server_port = 0,
     rsv_client_list = rcl_new, rsv_clients = (\<lambda>_. rc_new),
     rsv_room_manager = \<lparr>unused_room_list = [], room_list = [(9, Some 0)]\<rparr>,
     rsv_rooms = \<lparr>rs_mem = (\<lambda>_. \<lparr>room_id = 9, sock = -1, start_channel_id = 1000,
        video_channel_list = [], user_list = ul_new\<lparr>ul_users := users, ul_unused := unused\<rparr>,
        pre_user_list = ul_new\<rparr>), rs_next = 1\<rparr>,
     rsv_users = \<lparr>us_mem = (\<lambda>_. UserInfo_new 0), us_next = 6\<rparr>,
     rsv_cs_connector = csc_new\<lparr>con_send_list := cl_new 4\<rparr>,
     rsv_ds_connector = Connector.extend con_new \<lparr>dsc_server_ptr = None, dsc_recv_list = cl_new 0,
        dsc_processor = pr_new\<rparr>, rsv_out = []\<rparr>"

lemma ex_server_simps [simp]:
  "rsv_lookup_room (ex_server us un) 9 = Some 0"
  "room_users a (ex_server us un) = ul_new\<lparr>ul_users := us, ul_unused := un\<rparr>"
  "room_id (rsv_room a (ex_server us un)) = 9"
  "room_pre a (ex_server us un) = ul_new"
  "silent_gates (ex_server us un)" "keys_ok (ex_server us un)"
  "con_send_list (rsv_cs_connector (ex_server us un)) = cl_new 4"
  by (simp_all add: ex_server_def rsv_lookup_room_def rmg_lookup_def rsv_room_def silent_gates_def
      keys_ok_def rsv_user_def UserInfo_new_def in_i32_def rc_new_def gsp_new_def BaseUserInfo.defs
      Processor.defs cl_new_def csc_new_def Connector.defs)

text \<open>The example packet of \<open>Packets\<close> as a request that every parser accepts.\<close>

definition ex_pb :: "protobuf" where
  "ex_pb = \<lparr>pb_ser = (\<lambda>_. Some [8, 1]),
     pb_UserLoginRQ = (\<lambda>_. Some \<lparr>lrq_user_id = 1, lrq_room_id = 9, lrq_user_psw = [],
        lrq_user_account_name = [97, 98]\<rparr>),
     pb_UserLoginRS = (\<lambda>_. None),
     pb_UserMsgRQ = (\<lambda>_. Some \<lparr>mrq_user_id = 1, mrq_room_id = 9, mrq_msg_text = [104],
        mrq_is_private = False, mrq_dst_user_id = 0\<rparr>),
     pb_UserGiveGiftRQ = (\<lambda>_. Some \<lparr>grq_user_id = 1, grq_room_id = 9, grq_gift_code = [],
        grq_dst_user_id = 5, grq_count_gift = 1\<rparr>),
     pb_UserGiveGiftRS = (\<lambda>_. None),
     pb_RoomUser = (\<lambda>i _. Some \<lparr>ru_msg_id = i, ru_user_id = 1, ru_room_id = 9\<rparr>),
     pb_DsServerConnectRs = (\<lambda>_. None), pb_DsGSGetRoomInfoRs = (\<lambda>_. None),
     pb_DsGetCsInfoRs = (\<lambda>_. None)\<rparr>"

lemma ex_request:
  assumes "parse [8, 241] = Some rq"
  shows "gs_request parse (gr_bytes ex_gr) 38 ex_gr rq"
proof -
  have "length (gr_bytes ex_gr) = 38" using gr_ByteSize_bytes [of ex_gr] by simp
  then show ?thesis unfolding gs_request_def using assms
    by (intro exI [of _ ex_cyt] exI [of _ "[]"]) simp
qed

lemma ex_requests:
  "gs_request (pb_UserMsgRQ ex_pb) (gr_bytes ex_gr) 38 ex_gr \<lparr>mrq_user_id = 1,
     mrq_room_id = 9, mrq_msg_text = [104], mrq_is_private = False, mrq_dst_user_id = 0\<rparr>"
  "gs_request (pb_RoomUser ex_pb i) (gr_bytes ex_gr) 38 ex_gr
     \<lparr>ru_msg_id = i, ru_user_id = 1, ru_room_id = 9\<rparr>"
  "gs_request (pb_UserGiveGiftRQ ex_pb) (gr_bytes ex_gr) 38 ex_gr \<lparr>grq_user_id = 1,
     grq_room_id = 9, grq_gift_code = [], grq_dst_user_id = 5, grq_count_gift = 1\<rparr>"
  "gs_request (pb_UserLoginRQ ex_pb) (gr_bytes ex_gr) 38 ex_gr \<lparr>lrq_user_id = 1,
     lrq_room_id = 9, lrq_user_psw = [], lrq_user_account_name = [97, 98]\<rparr>"
  by (rule ex_request, simp add: ex_pb_def)+

lemma ex_pb_sendable [simp]: "sendable (pb_ser ex_pb) m"
  by (simp add: ex_pb_def sendable_def)

text \<open>
  C38: A user who speaks or applies for the microphone brings the room server to undefined
  behaviour. The thread of a gate's processor passes the processor to the handlers, and these
  treat it as the gate's connection to answer the user: a public message of a user of the room,
  a private one to a user who is not there, and every application for the microphone end in
  this use of a pointer of another class.
\<close>

theorem answering_uses_wrong_class:
  assumes "rsv_lookup_room S rid = Some a" "\<not> ul_locked (room_users a S)"
    and "ul_lookup (room_users a S) uid = Some u"
    and "gs_request (pb_UserMsgRQ pb) buff len g rq" "mrq_room_id rq = rid" "mrq_user_id rq = uid"
    and "mrq_is_private rq \<longrightarrow> ul_lookup (room_users a S) (mrq_dst_user_id rq) = None"
    and "gs_request (pb_RoomUser pb E_USER_APPLY_MIC_RQ) buff' len' g' rq'" "ru_room_id rq' = rid"
      "ru_user_id rq' = uid"
  shows "UserSendMsgRQ_Execute pb (Some s) (Some (Gate_processor i)) buff len S = Inl Bad_cast
    \<and> UserApplyMicRQ_Execute pb (Some s) (Some (Gate_processor i)) buff' len' S = Inl Bad_cast"
proof
  have "\<exists>S'. rsv_GetUserInfo a (mrq_dst_user_id rq) S = Inr (None, S')" if "mrq_is_private rq"
    using assms(2,7) that
    by (auto simp: rsv_GetUserInfo_def cr_GetUserInfo_def ul_GetUserInfo_def ul_lock_def
        ul_lookup_def map_index_def split: option.splits)
  then show "UserSendMsgRQ_Execute pb (Some s) (Some (Gate_processor i)) buff len S = Inl Bad_cast"
    using assms
    by (cases "mrq_is_private rq")
      (auto simp: UserSendMsgRQ_Execute_def with_request_run with_room_run with_user_run)
  show "UserApplyMicRQ_Execute pb (Some s) (Some (Gate_processor i)) buff' len' S = Inl Bad_cast"
    using assms
    by (auto simp: UserApplyMicRQ_Execute_def with_request_run with_room_run with_user_run Let_def
        cr_UserApplyOneNewVideo_def ss_extract_def split: prod.split)
qed

theorem answering_uses_wrong_class_witness:
  "UserSendMsgRQ_Execute ex_pb (Some 1) (Some (Gate_processor 2)) (gr_bytes ex_gr) 38
      (ex_server [(1, Some 4)] []) = Inl Bad_cast
   \<and> UserApplyMicRQ_Execute ex_pb (Some 1) (Some (Gate_processor 2)) (gr_bytes ex_gr) 38
      (ex_server [(1, Some 4)] []) = Inl Bad_cast"
  by (rule answering_uses_wrong_class [where rid = 9 and a = 0 and uid = 1, OF _ _ _ ex_requests(1) _ _ _ ex_requests(2)])
    (simp_all add: ul_new_def ul_lookup_def)

lemma set_room_gates [simp]:
  "silent_gates (rsv_set_room a R S) = silent_gates S" "keys_ok (rsv_set_room a R S) = keys_ok S"
  by (simp_all add: silent_gates_def keys_ok_def)

lemma give_back_present:
  assumes "\<not> ul_locked L" "ul_lookup L i = Some u"
  shows "ul_give_back i L
    = Inr (L\<lparr>ul_users := map_erase i (ul_users L), ul_unused := ul_unused L @ [Some u]\<rparr>)"
  using assms
  by (auto simp: ul_lookup_def ul_give_back_def ul_GetUserInfo_def ul_lock_def map_index_def
      ul_RemoveUser_def ul_PushUserInUnusedList_def split: option.splits)

lemma null_entry: "map_of m k = Some None \<Longrightarrow> first_null m \<noteq> None"
  unfolding first_null_None using map_of_SomeD [of m k None] by force

lemma no_null_iff:
  "map_ordered m \<Longrightarrow> first_null m = None \<longleftrightarrow> (\<forall>k. map_of m k \<noteq> Some None)"
  using map_of_eq_Some_iff [OF map_ordered_distinct [of m]] by (force simp: first_null_None image_iff)

lemma null_after_erase:
  assumes "map_ordered m" "map_of m i = Some (Some u)"
  shows "first_null (map_erase i m) = None \<longleftrightarrow> first_null m = None"
proof -
  have "(k, None) \<in> set m \<Longrightarrow> k \<noteq> i" for k
    using assms map_of_is_SomeI [OF map_ordered_distinct, of m k None] by auto
  then show ?thesis by (force simp: first_null_None map_erase_def image_iff)
qed

text \<open>
  C39: Leaving a room. The handler of \<open>StruUserExitRoomID\<close> takes the user out of the room, puts
  the user object behind the room's pool, and leaves everyone else as they are. The room's
  user list is locked afterwards exactly if it held a null entry before: then the broadcast
  that tells the others never gives the lock back.
\<close>

theorem user_exits_room:
  assumes "gs_request (pb_RoomUser pb E_USER_EXIT_ROOM_ID) buff len g rq" "ru_room_id rq = rid"
    and "rsv_lookup_room S rid = Some a" "room_id (rsv_room a S) = rid" "rid \<noteq> 0"
    and "ul_wf (room_users a S)" "ul_lookup (room_users a S) (ru_user_id rq) = Some u"
    and "silent_gates S" "keys_ok S" "sendable (pb_ser pb) (P_UserExitRoomID rq)"
  shows "\<exists>S'. UserExitRoomID_Execute pb (Some s) (Some caller) buff len S = Inr S'
    \<and> ul_lookup (room_users a S') = (ul_lookup (room_users a S))(ru_user_id rq := None)
    \<and> ul_unused (room_users a S') = ul_unused (room_users a S) @ [Some u]
    \<and> (ul_locked (room_users a S') \<longleftrightarrow> (\<exists>k. map_of (ul_users (room_users a S)) k = Some None))"
proof -
  let ?L = "room_users a S"
  let ?L1 = "?L\<lparr>ul_users := map_erase (ru_user_id rq) (ul_users ?L), ul_unused := ul_unused ?L @ [Some u]\<rparr>"
  let ?S = "rsv_set_room a ((rsv_room a S)\<lparr>user_list := ?L1\<rparr>) S"
  have wf: "\<not> ul_locked ?L" "map_ordered (ul_users ?L)" using assms(6) by (simp_all add: ul_wf_def)
  have rm: "cr_RemoveUser (ru_user_id rq) (rsv_room a S) = Inr ((rsv_room a S)\<lparr>user_list := ?L1\<rparr>)"
    using give_back_present [OF wf(1) assms(7)] by (simp add: cr_Remove_alt)
  have "ul_wf (room_users a ?S)" using assms(6) by (simp add: ul_wf_def)
  then obtain b S1 L where B: "rsv_SendDataToRoomAllUser (pb_ser pb) (P_UserExitRoomID rq)
      E_USER_EXIT_ROOM_ID rid ?S = Inr (b, rsv_set_room a ((rsv_room a ?S)\<lparr>user_list := L\<rparr>) S1)"
    "ul_users L = ul_users ?L1" "ul_unused L = ul_unused ?L1"
    "ul_locked L \<longleftrightarrow> first_null (ul_users ?L1) \<noteq> None"
    using broadcast_run [of ?S "pb_ser pb" "P_UserExitRoomID rq" E_USER_EXIT_ROOM_ID rid a] assms
    by (auto simp: in_i32_def)
  have u: "map_of (ul_users ?L) (ru_user_id rq) = Some (Some u)"
    using assms(7) by (auto simp: ul_lookup_def split: option.splits)
  have "ul_locked L \<longleftrightarrow> (\<exists>k. map_of (ul_users ?L) k = Some None)"
    using B(4) null_after_erase [OF wf(2) u] by (simp add: no_null_iff [OF wf(2)])
  moreover have "ul_lookup L = (ul_lookup ?L)(ru_user_id rq := None)"
    using B(2) by (auto simp: ul_lookup_def fun_eq_iff)
  ultimately show ?thesis
    using assms(1-5,7) wf rm B(1,3)
    by (simp add: UserExitRoomID_Execute_def with_request_run with_room_run with_user_run Let_def)
qed

theorem user_exits_room_witness:
  "\<exists>S'. UserExitRoomID_Execute ex_pb (Some 1) (Some (Gate_processor 2)) (gr_bytes ex_gr) 38
        (ex_server [(1, Some 4), (3, Some 5)] []) = Inr S'
    \<and> ul_lookup (room_users 0 S')
        = (ul_lookup (room_users 0 (ex_server [(1, Some 4), (3, Some 5)] [])))(1 := None)
    \<and> ul_unused (room_users 0 S') = [Some 4]
    \<and> (ul_locked (room_users 0 S')
        \<longleftrightarrow> (\<exists>k. map_of (ul_users (room_users 0 (ex_server [(1, Some 4), (3, Some 5)] []))) k = Some None))"
  using user_exits_room [where a = 0 and S = "ex_server [(1, Some 4), (3, Some 5)] []" and u = 4,
      OF ex_requests(2) _ _ _ _ _ _ _ _ ex_pb_sendable]
  by (simp add: ul_new_def ul_lookup_def ul_wf_def map_ordered_def)

text \<open>
  C40: One gift to someone who is not in the room freezes it. The lookup of the absent user
  leaves a null entry; the next broadcast in the room, here for a user leaving the microphone,
  stops at that entry and keeps the list's lock; from then on every login to the room, every
  message in it and every attempt to leave it waits for the lock for ever.
\<close>

theorem gift_to_absent_user_freezes_room:
  assumes "gs_request (pb_UserGiveGiftRQ pb) buff len g gift" "grq_room_id gift = rid"
    "grq_user_id gift = uid" "map_of (ul_users (room_users a S)) (grq_dst_user_id gift) = None"
    and "gs_request (pb_RoomUser pb E_USER_OFF_MIC_RQ) buff' len' g' off" "ru_room_id off = rid"
    "ru_user_id off = uid"
    and "rsv_lookup_room S rid = Some a" "room_id (rsv_room a S) = rid" "rid \<noteq> 0"
    and "ul_wf (room_users a S)" "ul_lookup (room_users a S) uid = Some u"
    and "silent_gates S" "keys_ok S"
    and "sendable (pb_ser pb) (P_UserOffMicRS \<lparr>ors_msg_id = E_USER_OFF_MIC_RS, ors_user_id = uid,
      ors_room_id = rid, ors_result = 1\<rparr>)"
  shows "\<exists>S1 S2. UserGiveGiftRQ_Execute pb (Some s) (Some cl) buff len S = Inr S1
    \<and> UserOffMicRQ_Execute pb (Some s) (Some cl) buff' len' S1 = Inr S2
    \<and> (\<forall>bf n h rq. gs_request (pb_UserLoginRQ pb) bf n h rq \<and> lrq_room_id rq = rid
         \<longrightarrow> ClientLoginRQ_Execute pb (Some s) (Some cl) bf n S2 = Inl Blocked)
    \<and> (\<forall>bf n h rq. gs_request (pb_UserMsgRQ pb) bf n h rq \<and> mrq_room_id rq = rid
         \<longrightarrow> UserSendMsgRQ_Execute pb (Some s) (Some cl) bf n S2 = Inl Blocked)
    \<and> (\<forall>bf n h rq. gs_request (pb_RoomUser pb E_USER_EXIT_ROOM_ID) bf n h rq \<and> ru_room_id rq = rid
         \<longrightarrow> UserExitRoomID_Execute pb (Some s) (Some cl) bf n S2 = Inl Blocked)"
proof -
  let ?L = "room_users a S" and ?d = "grq_dst_user_id gift"
  let ?L1 = "?L\<lparr>ul_users := map_put ?d None (ul_users ?L)\<rparr>"
  let ?S1 = "rsv_set_room a ((rsv_room a S)\<lparr>user_list := ?L1\<rparr>) S"
  let ?S1' = "rsv_set_room a (cr_UserGetOffVideo uid (rsv_room a ?S1)) ?S1"
  have wf: "\<not> ul_locked ?L" "map_ordered (ul_users ?L)" using assms(11) by (simp_all add: ul_wf_def)
  have 1: "UserGiveGiftRQ_Execute pb (Some s) (Some cl) buff len S = Inr ?S1"
    using assms(1-4,8,12) wf(1) with_user_absent [OF wf(1) assms(4)]
    by (simp add: UserGiveGiftRQ_Execute_def with_request_run with_room_run with_user_run)
  have u: "ul_lookup ?L1 uid = Some u"
    using assms(4,12) by (auto simp: ul_lookup_def split: option.splits)
  have n: "first_null (ul_users ?L1) \<noteq> None"
    by (rule null_entry [of _ ?d]) simp
  let ?rs = "P_UserOffMicRS \<lparr>ors_msg_id = E_USER_OFF_MIC_RS, ors_user_id = uid, ors_room_id = rid,
      ors_result = 1\<rparr>"
  have "ul_wf (room_users a ?S1')" using assms(11) by (simp add: ul_wf_def cr_UserGetOffVideo_def)
  then obtain b T L where B: "rsv_SendDataToRoomAllUser (pb_ser pb) ?rs E_USER_OFF_MIC_RS rid ?S1'
      = Inr (b, rsv_set_room a ((rsv_room a ?S1')\<lparr>user_list := L\<rparr>) T)" "looks_up ?S1' T"
    "ul_locked L"
    using broadcast_run [of ?S1' "pb_ser pb" ?rs E_USER_OFF_MIC_RS rid a] assms(8,10,13-15) n
    by (auto simp: in_i32_def cr_UserGetOffVideo_def)
  let ?S2 = "rsv_set_room a ((rsv_room a ?S1')\<lparr>user_list := L\<rparr>) T"
  have 2: "UserOffMicRQ_Execute pb (Some s) (Some cl) buff' len' ?S1 = Inr ?S2"
    using assms(5-9) wf(1) u B(1)
    by (simp add: UserOffMicRQ_Execute_def with_request_run with_room_run with_user_run Let_def
        cr_UserGetOffVideo_def)
  have l: "ul_locked (room_users a ?S2)" "rsv_lookup_room ?S2 rid = Some a"
    using B(3) looks_upD(4) [OF B(2)] assms(8) by simp_all
  show ?thesis
    using l assms(8)
    by (intro exI [of _ ?S1] exI [of _ ?S2] conjI 1 2 allI impI)
      (auto simp: ClientLoginRQ_Execute_def UserSendMsgRQ_Execute_def UserExitRoomID_Execute_def
        with_request_run with_room_run with_user_locked login_room_def rsv_GetRoom_run
        rsv_NewUserInfo_def cr_NewUserInfo_def blocked_ops simp del: rsv_room_set(1))
qed

theorem gift_to_absent_user_freezes_room_witness:
  "\<exists>S1 S2. UserGiveGiftRQ_Execute ex_pb (Some 1) (Some (Gate_processor 2)) (gr_bytes ex_gr) 38
        (ex_server [(1, Some 4)] []) = Inr S1
    \<and> UserOffMicRQ_Execute ex_pb (Some 1) (Some (Gate_processor 2)) (gr_bytes ex_gr) 38 S1 = Inr S2
    \<and> (\<forall>bf n h rq. gs_request (pb_UserLoginRQ ex_pb) bf n h rq \<and> lrq_room_id rq = 9
         \<longrightarrow> ClientLoginRQ_Execute ex_pb (Some 1) (Some (Gate_processor 2)) bf n S2 = Inl Blocked)
    \<and> (\<forall>bf n h rq. gs_request (pb_UserMsgRQ ex_pb) bf n h rq \<and> mrq_room_id rq = 9
         \<longrightarrow> UserSendMsgRQ_Execute ex_pb (Some 1) (Some (Gate_processor 2)) bf n S2 = Inl Blocked)
    \<and> (\<forall>bf n h rq. gs_request (pb_RoomUser ex_pb E_USER_EXIT_ROOM_ID) bf n h rq \<and> ru_room_id rq = 9
         \<longrightarrow> UserExitRoomID_Execute ex_pb (Some 1) (Some (Gate_processor 2)) bf n S2 = Inl Blocked)"
  by (rule gift_to_absent_user_freezes_room [where a = 0 and uid = 1, OF ex_requests(3) _ _ _ ex_requests(2)])
    (simp_all add: ul_new_def ul_lookup_def ul_wf_def map_ordered_def)

lemma rsv_cs_SendData_run:
  assumes "cl_inv (con_send_list (rsv_cs_connector S))" "0 < cl_free (con_send_list (rsv_cs_connector S))"
    and "length bs \<le> 4096"
  shows "\<exists>S'. rsv_cs_SendData (bs @ rest) (int (length bs)) S = Inr (True, S')
    \<and> cl_inv (con_send_list (rsv_cs_connector S'))
    \<and> cl_abs (con_send_list (rsv_cs_connector S')) = cl_abs (con_send_list (rsv_cs_connector S)) @ [bs]
    \<and> (\<exists>C. S' = S\<lparr>rsv_cs_connector := C\<rparr>)"
proof -
  let ?L = "con_send_list (rsv_cs_connector S)"
  obtain L where "cl_AddBuffer (bs @ rest) (int (length bs)) ?L = Inr (True, L)" "cl_inv L"
    "cl_abs L = cl_abs ?L @ [bs]"
    using clq.add_ok [OF assms(1) _ _ _ assms(2), of "int (length bs)" "bs @ rest"] assms(3) by auto
  then show ?thesis by (auto simp: rsv_cs_SendData_def con_SendData_def)
qed

lemma rsv_cs_only:
  "rsv_room a (S\<lparr>rsv_cs_connector := C\<rparr>) = rsv_room a S" "rsv_user u (S\<lparr>rsv_cs_connector := C\<rparr>) = rsv_user u S"
  by (simp_all add: rsv_room_def rsv_user_def)

text \<open>
  C20: A login request. For a room that exists and has an unused user object, the handler
  takes the first object of the room's main pool, clears it and fills in the gate, the user's
  key and id and the account name, files it among the users whose login is pending, and
  queues the client's packet, unchanged, for the center server. The users of the room stay as
  they are. An account name of more than 32 bytes is written past the end of the object's
  array instead.
\<close>

theorem login_request:
  assumes "gs_request (pb_UserLoginRQ pb) buff len g rq" "rsv_lookup_room S (lrq_room_id rq) = Some a"
    and "ul_wf (room_users a S)" "ul_unused (room_users a S) = Some b # us"
    and "ul_wf (room_pre a S)" "ul_lookup (room_pre a S) (lrq_user_id rq) = None"
    and "cl_inv (con_send_list (rsv_cs_connector S))" "0 < cl_free (con_send_list (rsv_cs_connector S))"
    and "length (gr_data_msg g) \<le> 4096"
  defines "name \<equiv> lrq_user_account_name rq"
  shows "(length name \<le> 32 \<longrightarrow> (\<exists>S'. ClientLoginRQ_Execute pb (Some s) (Some cl) buff len S = Inr S'
      \<and> room_users a S' = (room_users a S)\<lparr>ul_unused := us\<rparr>
      \<and> ul_lookup (room_pre a S') = (ul_lookup (room_pre a S))(lrq_user_id rq := Some b)
      \<and> rsv_user b S' = (UserInfo_Clear (rsv_user b S))\<lparr>gs_hashkey_user_on := gr_gs_hashkey g,
            user_hash_key := gr_user_hashkey g, user_id := lrq_user_id rq,
            user_nickname := name @ replicate (32 - length name) 0\<rparr>
      \<and> cl_abs (con_send_list (rsv_cs_connector S'))
          = cl_abs (con_send_list (rsv_cs_connector S)) @ [gr_data_msg g]))
    \<and> (32 < length name \<longrightarrow> ClientLoginRQ_Execute pb (Some s) (Some cl) buff len S = Inl Out_of_bounds)"
proof -
  let ?uid = "lrq_user_id rq"
  let ?S1 = "rsv_set_room a ((rsv_room a S)\<lparr>user_list := (room_users a S)\<lparr>ul_unused := us\<rparr>\<rparr>)
      (S\<lparr>rsv_users := us_update b UserInfo_Clear (rsv_users S)\<rparr>)"
  have new: "rsv_NewUserInfo a S = Inr (Some b, ?S1)"
    using assms(3,4)
    by (simp add: rsv_NewUserInfo_def cr_NewUserInfo_def ul_GetUnusedUser_def ul_lock_def ul_wf_def)
  have room: "login_room (lrq_room_id rq) S = Inr (a, S)"
    using assms(2) by (simp add: login_room_def rsv_GetRoom_run)
  have b: "rsv_user b ?S1 = UserInfo_Clear (rsv_user b S)" by (simp add: rsv_user_def us_update_def)
  have nk: "user_nickname (rsv_user b ?S1) = replicate 32 0"
    unfolding b by (simp add: UserInfo_Clear_def)
  have gl: "gr_data_len g = int (length (gr_data_msg g))"
    using assms(1) by (auto simp: gs_request_def gr_wf_def)
  show ?thesis
  proof (cases "length name \<le> 32")
    case True
    let ?nick = "name @ replicate (32 - length name) 0"
    have w: "mem_write (user_nickname (rsv_user b ?S1)) 0 name = Inr ?nick"
      unfolding nk using True by (simp add: mem_write_def)
    let ?S2 = "?S1\<lparr>rsv_users := us_update b (\<lambda>x. x\<lparr>gs_hashkey_user_on := gr_gs_hashkey g,
        user_hash_key := gr_user_hashkey g, user_id := ?uid, user_nickname := ?nick\<rparr>) (rsv_users ?S1)\<rparr>"
    have pre: "room_pre a ?S2 = room_pre a S" "room_users a ?S2 = (room_users a S)\<lparr>ul_unused := us\<rparr>"
      by (simp_all add: rsv_room_def rsv_set_room_def rs_update_def)
    obtain P where P: "ul_AddUserInfo ?uid (Some b) (room_pre a ?S2) = Inr (True, P)"
      "\<And>j. ul_lookup P j = (if j = ?uid then Some b else ul_lookup (room_pre a S) j)"
      using ul_AddUserInfo_run [OF assms(5), of ?uid b] assms(6) unfolding pre by auto
    let ?S3 = "rsv_set_room a ((rsv_room a ?S2)\<lparr>pre_user_list := P\<rparr>) ?S2"
    obtain C where C: "rsv_cs_SendData (gr_data_msg g @ [0]) (gr_data_len g) ?S3
        = Inr (True, ?S3\<lparr>rsv_cs_connector := C\<rparr>)"
      "cl_abs (con_send_list C) = cl_abs (con_send_list (rsv_cs_connector S)) @ [gr_data_msg g]"
      using rsv_cs_SendData_run [of ?S3 "gr_data_msg g" "[0]"] assms(7-9) unfolding gl by auto
    have ex: "ClientLoginRQ_Execute pb (Some s) (Some cl) buff len S = Inr (?S3\<lparr>rsv_cs_connector := C\<rparr>)"
      using w P(1) C(1)
      by (simp add: ClientLoginRQ_Execute_def with_request_run [OF assms(1)] room new Let_def
          cr_AddPreUser_def name_def del: rsv_room_set)
    have us: "rsv_user b ?S2 = (UserInfo_Clear (rsv_user b S))\<lparr>gs_hashkey_user_on := gr_gs_hashkey g,
        user_hash_key := gr_user_hashkey g, user_id := ?uid, user_nickname := ?nick\<rparr>"
      by (simp add: rsv_user_def us_update_def)
    have "rsv_user b ?S3 = rsv_user b ?S2" "room_users a ?S3 = room_users a ?S2" "room_pre a ?S3 = P"
      by simp_all
    then have "rsv_user b (?S3\<lparr>rsv_cs_connector := C\<rparr>) = rsv_user b ?S2"
      "room_users a (?S3\<lparr>rsv_cs_connector := C\<rparr>) = (room_users a S)\<lparr>ul_unused := us\<rparr>"
      "ul_lookup (room_pre a (?S3\<lparr>rsv_cs_connector := C\<rparr>)) = (ul_lookup (room_pre a S))(?uid := Some b)"
      using pre(2) P(2) unfolding rsv_cs_only by (simp_all add: fun_eq_iff)
    then show ?thesis
      unfolding us using True C(2) by (intro conjI impI exI [of _ "?S3\<lparr>rsv_cs_connector := C\<rparr>"] ex) simp_all
  next
    case False
    then show ?thesis using nk
      by (simp add: ClientLoginRQ_Execute_def with_request_run [OF assms(1)] room new Let_def
          mem_write_def name_def del: rsv_room_set)
  qed
qed

theorem login_request_witness:
  "\<exists>S'. ClientLoginRQ_Execute ex_pb (Some 1) (Some (Gate_processor 2)) (gr_bytes ex_gr) 38
        (ex_server [] [Some 4, Some 5]) = Inr S'
      \<and> ul_unused (room_users 0 S') = [Some 5] \<and> ul_lookup (room_pre 0 S') 1 = Some 4
      \<and> user_id (rsv_user 4 S') = 1 \<and> user_nickname (rsv_user 4 S') = [97, 98] @ replicate 30 0
      \<and> cl_abs (con_send_list (rsv_cs_connector S')) = [cyt_bytes ex_cyt]"
proof -
  let ?S = "ex_server [] [Some 4, Some 5]"
  have "length (gr_data_msg ex_gr) \<le> 4096" "ul_wf ul_new" "ul_lookup ul_new 1 = None"
    "ul_wf (ul_new\<lparr>ul_users := [], ul_unused := [Some 4, Some 5]\<rparr>)"
    by (simp_all add: ul_wf_def ul_new_def ul_lookup_def)
  then have "\<exists>S'. ClientLoginRQ_Execute ex_pb (Some 1) (Some (Gate_processor 2)) (gr_bytes ex_gr) 38 ?S = Inr S'
      \<and> room_users 0 S' = (room_users 0 ?S)\<lparr>ul_unused := [Some 5]\<rparr>
      \<and> ul_lookup (room_pre 0 S') = (ul_lookup (room_pre 0 ?S))(1 := Some 4)
      \<and> rsv_user 4 S' = (UserInfo_Clear (rsv_user 4 ?S))\<lparr>gs_hashkey_user_on := gr_gs_hashkey ex_gr,
            user_hash_key := gr_user_hashkey ex_gr, user_id := 1,
            user_nickname := [97, 98] @ replicate (32 - length [97, 98 :: byte]) 0\<rparr>
      \<and> cl_abs (con_send_list (rsv_cs_connector S'))
          = cl_abs (con_send_list (rsv_cs_connector ?S)) @ [gr_data_msg ex_gr]"
    using login_request [OF ex_requests(4), of ?S 0 4 "[Some 5]" 1 "Gate_processor 2"] by simp
  then show ?thesis by force
qed

end
