(* ===== verification/Room_Replies.thy ===== *)
theory Room_Replies
  imports Room_Commands
begin

text \<open>
  The handlers of the answers the room server gets from the center server
  (\<open>room_server/cs_command\<close>) and from the director server (\<open>room_server/ds_command\<close>), and the
  rounds of the threads that call them. \<open>wr fd bs\<close> is what \<open>write\<close> returns.
\<close>

section \<open>Answers of the center server\<close>

definition with_answer :: "(byte list \<Rightarrow> 'm option) \<Rightarrow> byte list \<Rightarrow> int \<Rightarrow> RoomServer
    \<Rightarrow> ('m \<Rightarrow> RoomServer res) \<Rightarrow> RoomServer res" where
  "with_answer parse buff len S k =
     res_bind (parse_from parse buff len) (\<lambda>m. case m of None \<Rightarrow> Inr S | Some rs \<Rightarrow> k rs)"

definition with_pre_user ::
  "nat \<Rightarrow> int \<Rightarrow> RoomServer \<Rightarrow> (nat \<Rightarrow> RoomServer \<Rightarrow> RoomServer res) \<Rightarrow> RoomServer res" where
  "with_pre_user a uid S k =
     res_bind (cr_GetPreUserInfo uid (rsv_room a S)) (\<lambda>(u, R).
       let S1 = rsv_set_room a R S in case u of None \<Rightarrow> Inr S1 | Some b \<Rightarrow> k b S1)"

text \<open>\<open>SendDataToGS\<close> to the socket of a gate; its result is ignored by all callers.\<close>

definition send_to_gate :: "protobuf \<Rightarrow> (int \<Rightarrow> byte list \<Rightarrow> int) \<Rightarrow> pmsg \<Rightarrow> int \<Rightarrow> ptr \<Rightarrow> int
    \<Rightarrow> RoomServer \<Rightarrow> RoomServer res" where
  "send_to_gate pb wr m msg_id gs key S =
     res_bind (deref gs) (\<lambda>q.
     res_bind (cs_SendDataToGS (pb_ser pb) wr m msg_id (user_sock (rsv_clients S q)) key S) (\<lambda>(_, S1).
       Inr S1))"

text \<open>
  \<open>ClientLoginRS\<close>, first part: a confirmed user gets an object of the main pool, a copy of the
  pending one with the values of the answer.
\<close>

definition login_values :: "StruUserLoginRS \<Rightarrow> UserInfo \<Rightarrow> UserInfo" where
  "login_values rs u = u\<lparr>user_red_d := lrs_user_red_d rs, user_blue_d := lrs_user_blue_d rs,
     user_level := lrs_user_level rs, buyer_riches := lrs_buyer_riches rs,
     buyer_honour := lrs_buyer_honour rs, buyer_grow_up := lrs_buyer_grow_up rs,
     buyer_estimate := lrs_buyer_estimate rs, seller_income := lrs_seller_income rs,
     seller_exp := lrs_seller_exp rs, seller_pop := lrs_seller_pop rs,
     seller_estimate := lrs_seller_estimate rs\<rparr>"

definition login_confirm ::
  "nat \<Rightarrow> nat \<Rightarrow> StruUserLoginRS \<Rightarrow> RoomServer \<Rightarrow> (ptr \<times> RoomServer) res" where
  "login_confirm a u rs S =
     (if lrs_result rs \<noteq> 1 then Inr (None, S)
      else
        res_bind (rsv_NewUserInfo a S) (\<lambda>(c, S1).
          case c of
            None \<Rightarrow> Inr (None, S1)
          | Some b \<Rightarrow>
              let S2 = S1\<lparr>rsv_users := us_update b (\<lambda>_. login_values rs (rsv_user u S1)) (rsv_users S1)\<rparr>
              in res_bind (cr_AddUser (lrs_user_id rs) c (rsv_room a S2)) (\<lambda>(_, R).
                   Inr (c, rsv_set_room a R S2))))"

text \<open>The public data of a user; the name is read as a C string.\<close>

definition user_info :: "UserInfo \<Rightarrow> StruUserInfo res" where
  "user_info u =
     res_bind (cstr (user_nickname u)) (\<lambda>name.
       Inr \<lparr>ui_msg_id = E_USER_INFO, ui_user_id = user_id u, ui_user_account_name = name,
            ui_user_role_uid = [], ui_user_level = user_level u, ui_buyer_riches = buyer_riches u,
            ui_buyer_grow_up = buyer_grow_up u, ui_buyer_honour = buyer_honour u,
            ui_buyer_estimate = buyer_estimate u, ui_seller_income = seller_income u,
            ui_seller_exp = seller_exp u, ui_seller_pop = seller_pop u,
            ui_seller_estimate = seller_estimate u\<rparr>)"

definition user_list_msg :: "StruUserLoginRS \<Rightarrow> StruUserInfo list \<Rightarrow> pmsg" where
  "user_list_msg rs us = P_UserInfoListID \<lparr>uil_msg_id = E_USER_INFO_LIST_ID,
     uil_user_id = lrs_user_id rs, uil_room_id = lrs_room_id rs, uil_user_info_list = us\<rparr>"

text \<open>One round of the loop over the room: the list is sent whenever it has 15 users.\<close>

definition list_one :: "protobuf \<Rightarrow> (int \<Rightarrow> byte list \<Rightarrow> int) \<Rightarrow> StruUserLoginRS \<Rightarrow> ptr \<Rightarrow> nat \<Rightarrow> nat
    \<Rightarrow> StruUserInfo list \<times> int \<times> RoomServer \<Rightarrow> (StruUserInfo list \<times> int \<times> RoomServer) res" where
  "list_one pb wr rs gs c u = (\<lambda>(us, n, S).
     res_bind (user_info (rsv_user u S)) (\<lambda>i.
       let us1 = us @ [i]; n1 = n + 1
       in if 15 \<le> n1 then
            res_bind (send_to_gate pb wr (user_list_msg rs us1) E_USER_INFO_LIST_ID gs
                (user_hash_key (rsv_user c S)) S) (\<lambda>S1. Inr ([], 0, S1))
          else Inr (us1, n1, S)))"

text \<open>Second part: tell the room about the user, and the user about the room.\<close>

definition login_announce :: "protobuf \<Rightarrow> (int \<Rightarrow> byte list \<Rightarrow> int) \<Rightarrow> nat \<Rightarrow> StruUserLoginRS \<Rightarrow> ptr
    \<Rightarrow> nat \<Rightarrow> RoomServer \<Rightarrow> RoomServer res" where
  "login_announce pb wr a rs gs c S =
     res_bind (user_info (rsv_user c S)) (\<lambda>i.
     res_bind (rsv_SendDataToRoomAllUser (pb_ser pb) (P_UserInfo i) E_USER_INFO (lrs_room_id rs) S) (\<lambda>(_, S1).
     res_bind (ul_foreach (list_one pb wr rs gs c) (user_list (rsv_room a S1)) ([], 0, S1))
       (\<lambda>(b, L, us, n, S2).
         let S3 = rsv_set_room a ((rsv_room a S2)\<lparr>user_list := L\<rparr>) S2
         in if b \<and> 0 < n then
              send_to_gate pb wr (user_list_msg rs us) E_USER_INFO_LIST_ID gs
                (user_hash_key (rsv_user c S3)) S3
            else Inr S3)))"

text \<open>Third part: the list of the users on the microphone, if there are any.\<close>

fun mic_infos :: "nat \<Rightarrow> (int \<times> byte list) list \<Rightarrow> RoomServer \<Rightarrow> (StruMicInfo list \<times> RoomServer) res" where
  "mic_infos a [] S = Inr ([], S)"
| "mic_infos a (e # es) S =
     res_bind (rsv_GetUserInfo a (fst e) S) (\<lambda>(u, S1).
     res_bind
       (case u of
          None \<Rightarrow> Inr []
        | Some b \<Rightarrow>
            res_bind (cstr (user_nickname (rsv_user b S1))) (\<lambda>name.
              Inr [\<lparr>mi_msg_id = E_MIC_INFO, mi_user_id = user_id (rsv_user b S1),
                    mi_user_account_name = name, mi_mic_channel_str = snd e\<rparr>]))
       (\<lambda>i. res_bind (mic_infos a es S1) (\<lambda>(is, S2). Inr (i @ is, S2))))"

definition login_mic_list :: "protobuf \<Rightarrow> (int \<Rightarrow> byte list \<Rightarrow> int) \<Rightarrow> nat \<Rightarrow> ptr \<Rightarrow> ptr
    \<Rightarrow> RoomServer \<Rightarrow> RoomServer res" where
  "login_mic_list pb wr a gs c S =
     (let mics = cr_GetMicUserList [] (rsv_room a S)
      in if mics = [] then Inr S
         else
           res_bind (deref c) (\<lambda>b.
           res_bind (mic_infos a mics S) (\<lambda>(is, S1).
             send_to_gate pb wr (P_RoomMicInfoID \<lparr>rmi_msg_id = E_ROOM_MIC_INFO_ID,
                 rmi_user_id = user_id (rsv_user b S), rmi_room_id = room_id (rsv_room a S),
                 rmi_mic_list = is\<rparr>)
               E_ROOM_MIC_INFO_ID gs (user_hash_key (rsv_user b S1)) S1)))"

definition ClientLoginRS_Execute :: "protobuf \<Rightarrow> (int \<Rightarrow> byte list \<Rightarrow> int) \<Rightarrow> ptr \<Rightarrow> caller option
    \<Rightarrow> byte list \<Rightarrow> int \<Rightarrow> RoomServer \<Rightarrow> RoomServer res" where
  "ClientLoginRS_Execute pb wr server caller buff len S =
     (if server = None \<or> caller = None then Inr S
      else
        with_answer (pb_UserLoginRS pb) buff len S (\<lambda>rs.
        with_room (lrs_room_id rs) S (\<lambda>a S1.
        with_pre_user a (lrs_user_id rs) S1 (\<lambda>u S2.
          res_bind (login_confirm a u rs S2) (\<lambda>(c, S3).
            let (gs, S4) = rsv_GetGate (gs_hashkey_user_on (rsv_user u S3)) S3
            in res_bind
                 (if gs = None then Inr S4
                  else send_to_gate pb wr (P_UserLoginRS rs) (lrs_msg_id rs) gs
                         (user_hash_key (rsv_user u S4)) S4)
                 (\<lambda>S5.
               res_bind
                 (case c of
                    None \<Rightarrow> Inr S5
                  | Some b \<Rightarrow>
                      if lrs_result rs = 1 then login_announce pb wr a rs gs b S5 else Inr S5)
                 (\<lambda>S6.
               res_bind (cr_RemovePreUser (lrs_user_id rs) (rsv_room a S6)) (\<lambda>R.
                 login_mic_list pb wr a gs c (rsv_set_room a R S6)))))))))"

definition UserGiveGiftRS_Execute :: "protobuf \<Rightarrow> (int \<Rightarrow> byte list \<Rightarrow> int) \<Rightarrow> ptr \<Rightarrow> caller option
    \<Rightarrow> byte list \<Rightarrow> int \<Rightarrow> RoomServer \<Rightarrow> RoomServer res" where
  "UserGiveGiftRS_Execute pb wr server caller buff len S =
     (if server = None \<or> caller = None then Inr S
      else
        with_answer (pb_UserGiveGiftRS pb) buff len S (\<lambda>rs.
        with_room (grs_room_id rs) S (\<lambda>a S1.
        with_user a (grs_user_id rs) S1 (\<lambda>u S2.
        with_user a (grs_dst_user_id rs) S2 (\<lambda>d S3.
          let (gs, S4) = rsv_GetGate (gs_hashkey_user_on (rsv_user u S3)) S3
          in if grs_result rs = 0 then
               send_to_gate pb wr (P_UserGiveGiftRS rs) (grs_msg_id rs) gs
                 (user_hash_key (rsv_user u S4)) S4
             else
               let S5 = S4\<lparr>rsv_users := us_update u (\<lambda>x. x\<lparr>user_red_d := grs_sender_red_d rs\<rparr>)
                            (rsv_users S4)\<rparr>
               in res_bind (rsv_SendDataToRoomAllUser (pb_ser pb) (P_UserGiveGiftRS rs) (grs_msg_id rs)
                      (grs_room_id rs) S5) (\<lambda>(_, S6). Inr S6))))))"

section \<open>Answers of the director server\<close>

definition ConnectDirectorServerRS_Execute :: "protobuf \<Rightarrow> (int \<Rightarrow> byte list \<Rightarrow> int) \<Rightarrow> ptr
    \<Rightarrow> caller option \<Rightarrow> byte list \<Rightarrow> int \<Rightarrow> RoomServer \<Rightarrow> RoomServer res" where
  "ConnectDirectorServerRS_Execute pb wr server caller buff len S =
     (if server = None \<or> caller = None then Inr S
      else
        with_answer (pb_DsServerConnectRs pb) buff len S (\<lambda>rs.
          if dcs_result rs = 1 then
            res_bind (dsc_SendPackage (pb_ser pb) wr (P_DsGetCsInfoRq (rsv_server_id S))
                DEF_DS_RS_GET_CS_RQ 0 (rsv_ds_connector S, rsv_out S)) (\<lambda>(_, C, out).
              Inr (S\<lparr>rsv_ds_connector := C, rsv_out := out\<rparr>))
          else Inr S))"

text \<open>\<open>GetCenterServerAddrRS\<close> connects to the center server at the address of the answer.\<close>

definition GetCenterServerAddrRS_Execute :: "protobuf \<Rightarrow> sock_env \<Rightarrow> ptr \<Rightarrow> ptr
    \<Rightarrow> caller option \<Rightarrow> byte list \<Rightarrow> int \<Rightarrow> RoomServer \<Rightarrow> RoomServer res" where
  "GetCenterServerAddrRS_Execute pb E self server caller buff len S =
     (if server = None \<or> caller = None then Inr S
      else
        with_answer (pb_DsGetCsInfoRs pb) buff len S (\<lambda>rs.
          if dci_server_ip rs = [] \<or> dci_server_port rs = 0 then Inr S
          else
            res_bind (con_InitConnectionInfo (c_str (dci_server_ip rs)) (dci_server_port rs)
                (rsv_cs_connector S)) (\<lambda>C.
            res_bind (con_StartConnect (se_fuel E) (se_fd E) (se_conn E) (se_create E) C) (\<lambda>(ok, C1).
              if \<not> ok then Inr (S\<lparr>rsv_cs_connector := C1\<rparr>)
              else
                res_bind (csc_StartCSProcessor self (se_create_proc E) 1000 1 server C1) (\<lambda>(ok, C2).
                  Inr (S\<lparr>rsv_cs_connector := (if ok then C2 else con_Disconnect C2)\<rparr>))))))"

definition QueryChatRoomRS_Execute ::
  "protobuf \<Rightarrow> ptr \<Rightarrow> caller option \<Rightarrow> byte list \<Rightarrow> int \<Rightarrow> RoomServer \<Rightarrow> RoomServer res" where
  "QueryChatRoomRS_Execute pb server caller buff len S =
     (if server = None \<or> caller = None then Inr S
      else with_answer (pb_DsGSGetRoomInfoRs pb) buff len S (\<lambda>rs. Inr S))"

section \<open>The threads that call them\<close>

definition cs_deal_round ::
  "protobuf \<Rightarrow> (int \<Rightarrow> byte list \<Rightarrow> int) \<Rightarrow> RoomServer \<Rightarrow> RoomServer res" where
  "cs_deal_round pb wr S =
     res_bind (cyt_dispatch_round (csc_processor (rsv_cs_connector S))) (\<lambda>(d, P).
       let S1 = S\<lparr>rsv_cs_connector := (rsv_cs_connector S)\<lparr>csc_processor := P\<rparr>\<rparr>
       in case d of
            Execute cmd buff len \<Rightarrow>
              (case cmd_class cmd of
                 ClientLoginRS \<Rightarrow>
                   ClientLoginRS_Execute pb wr (cmd_server_ptr cmd) (Some Center_processor) buff len S1
               | UserGiveGiftRS \<Rightarrow>
                   UserGiveGiftRS_Execute pb wr (cmd_server_ptr cmd) (Some Center_processor) buff len S1)
          | _ \<Rightarrow> Inr S1)"

definition ds_deal_round :: "protobuf \<Rightarrow> (int \<Rightarrow> byte list \<Rightarrow> int) \<Rightarrow> sock_env \<Rightarrow> ptr
    \<Rightarrow> RoomServer \<Rightarrow> RoomServer res" where
  "ds_deal_round pb wr E self S =
     res_bind (cyt_dispatch_round (dsc_processor (rsv_ds_connector S))) (\<lambda>(d, P).
       let S1 = S\<lparr>rsv_ds_connector := (rsv_ds_connector S)\<lparr>dsc_processor := P\<rparr>\<rparr>
       in case d of
            Execute cmd buff len \<Rightarrow>
              (let server = cmd_server_ptr cmd; caller = Some Director_processor
               in case cmd_class cmd of
                    ConnectDirectorServerRS \<Rightarrow>
                      ConnectDirectorServerRS_Execute pb wr server caller buff len S1
                  | QueryChatRoomRS \<Rightarrow> QueryChatRoomRS_Execute pb server caller buff len S1
                  | GetCenterServerAddrRS \<Rightarrow>
                      GetCenterServerAddrRS_Execute pb E self server caller buff len S1)
          | _ \<Rightarrow> Inr S1)"

section \<open>Running the login handler\<close>

definition gate_packet :: "protobuf \<Rightarrow> pmsg \<Rightarrow> int \<Rightarrow> int \<Rightarrow> byte list" where
  "gate_packet pb m msg_id key = gr_bytes (user_gr key msg_id (the (pb_ser pb m)))"

abbreviation with_out :: "(int \<times> byte list) list \<Rightarrow> RoomServer \<Rightarrow> RoomServer" where
  "with_out out S \<equiv> S\<lparr>rsv_out := rsv_out S @ out\<rparr>"

lemma rsv_out_only [simp]:
  "rsv_room a (S\<lparr>rsv_out := x\<rparr>) = rsv_room a S" "rsv_user u (S\<lparr>rsv_out := x\<rparr>) = rsv_user u S"
  by (simp_all add: rsv_room_def rsv_user_def)

lemma send_to_gate_run:
  assumes "sendable (pb_ser pb) m" "in_i32 msg_id" "in_i32 key"
  shows "send_to_gate pb wr m msg_id (Some q) key S
    = Inr (with_out [(user_sock (rsv_clients S q), gate_packet pb m msg_id key)] S)"
proof -
  obtain bs where bs: "pb_ser pb m = Some bs" "length bs + 36 \<le> 8192"
    using assms(1) by (auto simp: sendable_def)
  obtain rest where "pack_for_user (pb_ser pb) m msg_id key
      = Inr (True, gr_bytes (user_gr key msg_id bs) @ rest, int (length bs) + 36)"
    using pack_for_user_ok [where ser = "pb_ser pb" and m = m, OF bs assms(2,3)] by blast
  moreover have "mem_read (gr_bytes (user_gr key msg_id bs) @ rest) 0 (int (length bs) + 36)
      = Inr (gr_bytes (user_gr key msg_id bs))"
    by (rule mem_read_piece) simp
  ultimately show ?thesis
    by (simp add: send_to_gate_def cs_SendDataToGS_def gate_packet_def bs(1) Let_def)
qed

definition info_ok :: "StruUserInfo \<Rightarrow> bool" where
  "info_ok i \<longleftrightarrow> length (ui_user_account_name i) < 32 \<and> ui_user_role_uid i = []"

definition named :: "UserInfo \<Rightarrow> bool" where
  "named u \<longleftrightarrow> length (user_nickname u) = 32 \<and> 0 \<in> set (user_nickname u)"

definition the_info :: "UserInfo \<Rightarrow> StruUserInfo" where
  "the_info u = (case user_info u of Inr i \<Rightarrow> i | Inl _ \<Rightarrow> undefined)"

lemma user_info_run: "named u \<Longrightarrow> user_info u = Inr (the_info u) \<and> info_ok (the_info u)"
proof -
  assume n: "named u"
  then have "takeWhile (\<lambda>b. b \<noteq> 0) (user_nickname u) \<noteq> user_nickname u"
    by (auto simp: named_def takeWhile_eq_all_conv)
  then have "length (takeWhile (\<lambda>b. b \<noteq> 0) (user_nickname u)) < length (user_nickname u)"
    by (metis length_takeWhile_le le_neq_implies_less takeWhile_eq_take take_all_iff order_refl)
  then show ?thesis using n by (simp add: user_info_def the_info_def cstr_def named_def info_ok_def)
qed

text \<open>The loop that lists the users: full batches of 15 are sent, the rest is kept.\<close>

lemma list_users:
  assumes "\<And>us. length us \<le> 15 \<Longrightarrow> \<forall>i \<in> set us. info_ok i \<Longrightarrow> sendable (pb_ser pb) (user_list_msg rs us)"
    and "in_i32 (user_hash_key (rsv_user c S))"
  shows "\<lbrakk>\<forall>v \<in> set vs. named (rsv_user v S); length us < 15; \<forall>i \<in> set us. info_ok i\<rbrakk> \<Longrightarrow>
    \<exists>bss us'. res_fold (list_one pb wr rs (Some q) c) vs (us, int (length us), with_out out S)
        = Inr (us', int (length us'), with_out (out @ map (\<lambda>b. (user_sock (rsv_clients S q),
            gate_packet pb (user_list_msg rs b) E_USER_INFO_LIST_ID (user_hash_key (rsv_user c S)))) bss) S)
      \<and> concat bss @ us' = us @ map (\<lambda>v. the_info (rsv_user v S)) vs
      \<and> (\<forall>b \<in> set bss. length b = 15) \<and> length us' < 15 \<and> (\<forall>i \<in> set us'. info_ok i)"
proof (induction vs arbitrary: us out)
  case Nil
  then show ?case by (intro exI [of _ "[]"] exI [of _ us]) simp
next
  case (Cons v vs)
  let ?i = "the_info (rsv_user v S)"
  let ?p = "\<lambda>b. (user_sock (rsv_clients S q),
    gate_packet pb (user_list_msg rs b) E_USER_INFO_LIST_ID (user_hash_key (rsv_user c S)))"
  have i: "user_info (rsv_user v S) = Inr ?i" "info_ok ?i" using user_info_run Cons.prems by auto
  have ok: "\<forall>j \<in> set (us @ [?i]). info_ok j" using i Cons.prems by auto
  show ?case
  proof (cases "length us = 14")
    case True
    then have s: "sendable (pb_ser pb) (user_list_msg rs (us @ [?i]))" using assms(1) ok by simp
    have "list_one pb wr rs (Some q) c v (us, int (length us), with_out out S)
        = Inr ([], 0, with_out (out @ [?p (us @ [?i])]) S)"
      using True i send_to_gate_run [OF s _ assms(2), of E_USER_INFO_LIST_ID wr q "with_out out S"]
      by (simp add: list_one_def in_i32_def)
    moreover obtain bss us' where "res_fold (list_one pb wr rs (Some q) c) vs
        ([], int (length []), with_out (out @ [?p (us @ [?i])]) S)
        = Inr (us', int (length us'), with_out ((out @ [?p (us @ [?i])]) @ map ?p bss) S)"
      "concat bss @ us' = [] @ map (\<lambda>v. the_info (rsv_user v S)) vs"
      "\<forall>b \<in> set bss. length b = 15" "length us' < 15" "\<forall>i \<in> set us'. info_ok i"
      using Cons.IH [of "[]" "out @ [?p (us @ [?i])]"] Cons.prems by auto
    ultimately show ?thesis using True
      by (intro exI [of _ "(us @ [?i]) # bss"] exI [of _ us']) simp
  next
    case False
    then have "list_one pb wr rs (Some q) c v (us, int (length us), with_out out S)
        = Inr (us @ [?i], int (length (us @ [?i])), with_out out S)"
      using i Cons.prems by (simp add: list_one_def)
    moreover obtain bss us' where "res_fold (list_one pb wr rs (Some q) c) vs
        (us @ [?i], int (length (us @ [?i])), with_out out S)
        = Inr (us', int (length us'), with_out (out @ map ?p bss) S)"
      "concat bss @ us' = (us @ [?i]) @ map (\<lambda>v. the_info (rsv_user v S)) vs"
      "\<forall>b \<in> set bss. length b = 15" "length us' < 15" "\<forall>i \<in> set us'. info_ok i"
      using Cons.IH [of "us @ [?i]" out] Cons.prems False ok by auto
    ultimately show ?thesis
      by (intro exI [of _ bss] exI [of _ us']) simp
  qed
qed

lemma rsv_users_only [simp]:
  "rsv_room a (S\<lparr>rsv_users := x\<rparr>) = rsv_room a S" "rsv_lookup_room (S\<lparr>rsv_users := x\<rparr>) = rsv_lookup_room S"
  "rsv_user v (S\<lparr>rsv_users := x\<rparr>) = us_mem x v"
  by (simp_all add: rsv_room_def rsv_user_def rsv_lookup_room_def fun_eq_iff)

lemma with_out_Nil: "with_out [] S = S"
  by simp

text \<open>The server with a confirmed user: the room's list and the user's object are new.\<close>

definition confirmed :: "nat \<Rightarrow> nat \<Rightarrow> int \<Rightarrow> UserInfo \<Rightarrow> ptr list \<Rightarrow> RoomServer \<Rightarrow> RoomServer" where
  "confirmed a c uid x us S =
     rsv_set_room a ((rsv_room a S)\<lparr>user_list := (room_users a S)\<lparr>ul_unused := us,
         ul_users := map_put uid (Some c) (map_put uid None (ul_users (room_users a S)))\<rparr>\<rparr>)
       (S\<lparr>rsv_users := us_update c (\<lambda>_. x) (us_update c UserInfo_Clear (rsv_users S))\<rparr>)"

lemma login_confirm_run:
  assumes "lrs_result rs = 1" "ul_wf (room_users a S)" "ul_unused (room_users a S) = Some c # us"
    and "map_of (ul_users (room_users a S)) (lrs_user_id rs) = None" "u \<noteq> c"
  shows "login_confirm a u rs S
    = Inr (Some c, confirmed a c (lrs_user_id rs) (login_values rs (rsv_user u S)) us S)"
proof -
  let ?S1 = "rsv_set_room a ((rsv_room a S)\<lparr>user_list := (room_users a S)\<lparr>ul_unused := us\<rparr>\<rparr>)
      (S\<lparr>rsv_users := us_update c UserInfo_Clear (rsv_users S)\<rparr>)"
  have "rsv_NewUserInfo a S = Inr (Some c, ?S1)"
    using assms(2,3)
    by (simp add: rsv_NewUserInfo_def cr_NewUserInfo_def ul_GetUnusedUser_def ul_lock_def ul_wf_def)
  moreover have "rsv_user u ?S1 = rsv_user u S" using assms(5) by (simp add: rsv_user_def us_update_def)
  ultimately show ?thesis
    using assms(1,2,4)
    by (simp add: login_confirm_def cr_AddUser_def ul_AddUserInfo_def ul_lock_def ul_wf_def
        map_index_def confirmed_def rsv_set_room_def rsv_room_def rs_update_def)
qed

lemma confirmed_simps:
  assumes "ul_wf (room_users a S)" "map_of (ul_users (room_users a S)) uid = None"
  shows "rsv_user c (confirmed a c uid x us S) = x"
    "v \<noteq> c \<Longrightarrow> rsv_user v (confirmed a c uid x us S) = rsv_user v S"
    "ul_wf (room_users a (confirmed a c uid x us S)) \<longleftrightarrow> None \<notin> set us"
    "map_of (ul_users (room_users a (confirmed a c uid x us S))) = (map_of (ul_users (room_users a S)))(uid \<mapsto> Some c)"
    "ul_unused (room_users a (confirmed a c uid x us S)) = us"
    "room_pre a (confirmed a c uid x us S) = room_pre a S"
    "video_channel_list (rsv_room a (confirmed a c uid x us S)) = video_channel_list (rsv_room a S)"
    "rsv_lookup_room (confirmed a c uid x us S) = rsv_lookup_room S"
    "rsv_client_list (confirmed a c uid x us S) = rsv_client_list S"
    "rsv_clients (confirmed a c uid x us S) = rsv_clients S"
    "rsv_out (confirmed a c uid x us S) = rsv_out S"
    "silent_gates (confirmed a c uid x us S) = silent_gates S"
  using assms by (simp_all add: confirmed_def rsv_user_def us_update_def ul_wf_def silent_gates_def)

text \<open>Telling the room and the user: the batches of the user list go to the user's gate.\<close>

lemma login_announce_run:
  assumes "\<And>us. length us \<le> 15 \<Longrightarrow> \<forall>i \<in> set us. info_ok i \<Longrightarrow> sendable (pb_ser pb) (user_list_msg rs us)"
    and "\<And>i. info_ok i \<Longrightarrow> sendable (pb_ser pb) (P_UserInfo i)"
    and "silent_gates S" "keys_ok S" "rsv_lookup_room S (lrs_room_id rs) = Some a" "lrs_room_id rs \<noteq> 0"
    and "ul_wf (room_users a S)" "first_null (ul_users (room_users a S)) = None"
    and "ul_users (room_users a S) \<noteq> []" "named (rsv_user c S)"
    and "\<forall>v \<in> set (live_users (ul_users (room_users a S))). named (rsv_user v S)"
  shows "\<exists>S1 L bss. login_announce pb wr a rs (Some q) c S
      = Inr (rsv_set_room a ((rsv_room a S)\<lparr>user_list := L\<rparr>)
          (with_out (map (\<lambda>b. (user_sock (rsv_clients S q),
            gate_packet pb (user_list_msg rs b) E_USER_INFO_LIST_ID (user_hash_key (rsv_user c S)))) bss) S1))
    \<and> looks_up S S1 \<and> ul_users L = ul_users (room_users a S) \<and> ul_unused L = ul_unused (room_users a S)
    \<and> \<not> ul_locked L \<and> (\<forall>b \<in> set bss. b \<noteq> [] \<and> length b \<le> 15)
    \<and> concat bss = map (\<lambda>v. the_info (rsv_user v S)) (live_users (ul_users (room_users a S)))"
proof -
  let ?m = "ul_users (room_users a S)" and ?i = "the_info (rsv_user c S)"
  let ?p = "\<lambda>b. (user_sock (rsv_clients S q),
      gate_packet pb (user_list_msg rs b) E_USER_INFO_LIST_ID (user_hash_key (rsv_user c S)))"
  have i: "user_info (rsv_user c S) = Inr ?i" "info_ok ?i" using user_info_run assms(10) by auto
  have k: "in_i32 (user_hash_key (rsv_user c S))" using assms(4) by (simp add: keys_ok_def)
  obtain b S1 L where B: "rsv_SendDataToRoomAllUser (pb_ser pb) (P_UserInfo ?i) E_USER_INFO (lrs_room_id rs) S
      = Inr (b, rsv_set_room a ((rsv_room a S)\<lparr>user_list := L\<rparr>) S1)" "looks_up S S1"
    "ul_users L = ?m" "ul_unused L = ul_unused (room_users a S)" "\<not> ul_locked L"
    using broadcast_run [of S "pb_ser pb" "P_UserInfo ?i" E_USER_INFO "lrs_room_id rs" a] assms i(2)
    by (auto simp: in_i32_def)
  let ?T = "rsv_set_room a ((rsv_room a S)\<lparr>user_list := L\<rparr>) S1"
  have T: "rsv_user v ?T = rsv_user v S" "rsv_clients ?T = rsv_clients S" "room_users a ?T = L" for v
    using looks_upD(2,3) [OF B(2)] by simp_all
  obtain bss us' where F: "res_fold (list_one pb wr rs (Some q) c) (live_users ?m) ([], int 0, with_out [] ?T)
        = Inr (us', int (length us'), with_out ([] @ map ?p bss) ?T)"
    "concat bss @ us' = map (\<lambda>v. the_info (rsv_user v S)) (live_users ?m)"
    "\<forall>b \<in> set bss. length b = 15" "length us' < 15" "\<forall>i \<in> set us'. info_ok i"
    using list_users [of pb rs c ?T "live_users ?m" "[]" wr q "[]"] assms(1,11) k unfolding T by auto
  have ne: "live_users ?m \<noteq> []" using live_users_all [OF assms(8)] assms(9) by auto
  have m: "map_ordered (ul_users L)" "ul_users L \<noteq> []" using assms(7,9) B(3) by (simp_all add: ul_wf_def)
  have st: "first_null (ul_users L) = None" using assms(8) B(3) by simp
  let ?U = "rsv_set_room a ((rsv_room a S)\<lparr>user_list := stopped_at ?m L\<rparr>) (with_out (map ?p bss) S1)"
  have o: "ul_foreach (list_one pb wr rs (Some q) c) L ([], 0, ?T)
      = Inr (True, stopped_at ?m L, us', int (length us'), with_out (map ?p bss) ?T)"
    using ul_foreach_run [OF m(1) B(5) m(2), of "list_one pb wr rs (Some q) c" "([], 0, ?T)"]
      F(1) [unfolded with_out_Nil append_Nil of_nat_0] ne
    by (simp add: B(3) del: rsv_room_set)
  have U: "rsv_set_room a ((rsv_room a (with_out (map ?p bss) ?T))\<lparr>user_list := stopped_at ?m L\<rparr>)
      (with_out (map ?p bss) ?T) = ?U"
    by (simp add: rsv_set_room_def rsv_room_def rs_update_def)
  have UU: "rsv_user c ?U = rsv_user c S" "rsv_clients ?U = rsv_clients S"
    using looks_upD(2,3) [OF B(2)] by simp_all
  have run: "login_announce pb wr a rs (Some q) c S
      = (if us' = [] then Inr ?U else send_to_gate pb wr (user_list_msg rs us') E_USER_INFO_LIST_ID (Some q)
          (user_hash_key (rsv_user c S)) ?U)"
    using i(1) B(1) o U UU by (simp add: login_announce_def T(3) del: rsv_room_set)
  show ?thesis
  proof (cases "us' = []")
    case True
    then show ?thesis using run F(2,3) B st
      by (intro exI [of _ S1] exI [of _ "stopped_at ?m L"] exI [of _ bss]) auto
  next
    case False
    have s: "sendable (pb_ser pb) (user_list_msg rs us')" using assms(1) F(4,5) by simp
    have "send_to_gate pb wr (user_list_msg rs us') E_USER_INFO_LIST_ID (Some q)
        (user_hash_key (rsv_user c S)) ?U = Inr (with_out [?p us'] ?U)"
      using send_to_gate_run [OF s _ k, of E_USER_INFO_LIST_ID wr q ?U] UU by (simp add: in_i32_def)
    moreover have "with_out [?p us'] ?U = rsv_set_room a ((rsv_room a S)\<lparr>user_list := stopped_at ?m L\<rparr>)
        (with_out (map ?p (bss @ [us'])) S1)"
      by (simp add: rsv_set_room_def)
    ultimately show ?thesis using run False F(2-4) B st
      by (intro exI [of _ S1] exI [of _ "stopped_at ?m L"] exI [of _ "bss @ [us']"]) auto
  qed
qed

lemma with_answer_run:
  "parse bs = Some rs \<Longrightarrow> with_answer parse (bs @ rest) (int (length bs)) S k = k rs"
  by (simp add: with_answer_def parse_from_whole)

lemma with_pre_user_run:
  "\<not> ul_locked (room_pre a S) \<Longrightarrow> ul_lookup (room_pre a S) uid = Some u \<Longrightarrow> with_pre_user a uid S k = k u S"
  by (auto simp: ul_lookup_def with_pre_user_def cr_GetPreUserInfo_def ul_GetUserInfo_def ul_lock_def
      map_index_def split: option.splits)

lemma login_values_simps [simp]:
  "user_hash_key (login_values rs u) = user_hash_key u" "named (login_values rs u) = named u"
  by (simp_all add: login_values_def named_def)

definition room_ready :: "nat \<Rightarrow> RoomServer \<Rightarrow> bool" where
  "room_ready a S \<longleftrightarrow> ul_wf (room_users a S) \<and> ul_wf (room_pre a S)
     \<and> video_channel_list (rsv_room a S) = []
     \<and> (\<forall>k v. map_of (ul_users (room_users a S)) k = Some v
           \<longrightarrow> (\<exists>b. v = Some b \<and> named (rsv_user b S)))"

definition login_sendable :: "protobuf \<Rightarrow> StruUserLoginRS \<Rightarrow> bool" where
  "login_sendable pb rs \<longleftrightarrow> in_i32 (lrs_msg_id rs) \<and> sendable (pb_ser pb) (P_UserLoginRS rs)
     \<and> (\<forall>i. info_ok i \<longrightarrow> sendable (pb_ser pb) (P_UserInfo i))
     \<and> (\<forall>us. length us \<le> 15 \<and> (\<forall>i \<in> set us. info_ok i) \<longrightarrow> sendable (pb_ser pb) (user_list_msg rs us))"

lemma confirmed_ready:
  assumes "room_ready a S" "map_of (ul_users (room_users a S)) uid = None" "named x" "None \<notin> set us"
  shows "ul_wf (room_users a (confirmed a c uid x us S))"
    "first_null (ul_users (room_users a (confirmed a c uid x us S))) = None"
    "ul_users (room_users a (confirmed a c uid x us S)) \<noteq> []"
    "\<forall>v \<in> set (live_users (ul_users (room_users a (confirmed a c uid x us S)))).
      named (rsv_user v (confirmed a c uid x us S))"
proof -
  let ?S = "confirmed a c uid x us S"
  let ?m = "ul_users (room_users a ?S)"
  have wf: "ul_wf (room_users a S)" using assms(1) by (simp add: room_ready_def)
  note c = confirmed_simps [OF wf assms(2)]
  show w: "ul_wf (room_users a ?S)" using c(3) assms(4) by simp
  then have o: "map_ordered ?m" by (simp add: ul_wf_def)
  show n: "first_null ?m = None"
    unfolding no_null_iff [OF o] c(4) using assms(1) by (auto simp: room_ready_def)
  have "map_of ?m uid \<noteq> None" unfolding c(4) by simp
  then show "?m \<noteq> []" by force
  show "\<forall>v \<in> set (live_users ?m). named (rsv_user v ?S)"
  proof
    fix v
    assume "v \<in> set (live_users ?m)"
    then have "Some v \<in> set (map snd ?m)" using live_users_all [OF n] by (metis image_eqI list.set_map)
    then obtain k where "map_of ?m k = Some (Some v)"
      using map_of_eq_Some_iff [OF map_ordered_distinct [OF o]] by force
    then show "named (rsv_user v ?S)"
      using assms(1,3) unfolding c(4) by (cases "v = c") (auto simp: c(1,2) room_ready_def split: if_splits)
  qed
qed

lemma confirmed_keys:
  "keys_ok S \<Longrightarrow> in_i32 (user_hash_key x) \<Longrightarrow> keys_ok (confirmed a c uid x us S)"
  by (auto simp: keys_ok_def confirmed_def rsv_user_def us_update_def)

section \<open>Properties\<close>

text \<open>
  A confirmed login. When the center server accepts a pending user and the user's gate is
  connected, the user is in the room afterwards, under an object of the room's pool that has
  the data of the pending object and the values of the answer; the pending object goes to the
  other pool. The gate gets the answer and then the room's user list, the user included, in
  batches of at most 15, and nothing else; no lock is held.
\<close>

lemma login_confirmed:
  assumes "pb_UserLoginRS pb bs = Some rs" "lrs_result rs = 1" "lrs_room_id rs \<noteq> 0"
    and "login_sendable pb rs" "rsv_lookup_room S (lrs_room_id rs) = Some a" "room_ready a S"
    and "ul_lookup (room_pre a S) (lrs_user_id rs) = Some u" "named (rsv_user u S)"
    and "map_of (ul_users (room_users a S)) (lrs_user_id rs) = None"
    and "ul_unused (room_users a S) = Some c # us" "u \<noteq> c"
    and "silent_gates S" "keys_ok S"
    and "rcl_lookup (rsv_client_list S) (gs_hashkey_user_on (rsv_user u S)) = Some q"
  defines "gate \<equiv> (\<lambda>m i. (user_sock (rsv_clients S q), gate_packet pb m i (user_hash_key (rsv_user u S))))"
  shows "\<exists>S' batches. ClientLoginRS_Execute pb wr (Some s) (Some cl) (bs @ rest) (int (length bs)) S = Inr S'
    \<and> \<not> ul_locked (room_users a S') \<and> ul_unused (room_users a S') = us
    \<and> ul_lookup (room_users a S') = (ul_lookup (room_users a S))(lrs_user_id rs := Some c)
    \<and> rsv_user c S' = login_values rs (rsv_user u S)
    \<and> ul_lookup (room_pre a S') (lrs_user_id rs) = None
    \<and> ul_unused (room_pre a S') = ul_unused (room_pre a S) @ [Some u]
    \<and> rsv_out S' = rsv_out S @ gate (P_UserLoginRS rs) (lrs_msg_id rs)
        # map (\<lambda>b. gate (user_list_msg rs b) E_USER_INFO_LIST_ID) batches
    \<and> (\<forall>b \<in> set batches. b \<noteq> [] \<and> length b \<le> 15)
    \<and> map Inr (concat batches)
        = map (\<lambda>v. user_info (rsv_user v S')) (live_users (ul_users (room_users a S')))"
proof -
  let ?uid = "lrs_user_id rs" and ?x = "login_values rs (rsv_user u S)"
  let ?S3 = "confirmed a c ?uid ?x us S"
  have wf: "ul_wf (room_users a S)" "ul_wf (room_pre a S)" "video_channel_list (rsv_room a S) = []"
    using assms(6) by (simp_all add: room_ready_def)
  note cs = confirmed_simps [OF wf(1) assms(9), where c = c and x = ?x and us = us]
  have un: "None \<notin> set us" using wf(1) assms(10) by (simp add: ul_wf_def)
  note cr = confirmed_ready [OF assms(6,9) _ un, of ?x c, simplified, OF assms(8)]
  have conf: "login_confirm a u rs S = Inr (Some c, ?S3)"
    by (rule login_confirm_run [OF assms(2) wf(1) assms(10,9,11)])
  obtain S4 where g: "rsv_GetGate (gs_hashkey_user_on (rsv_user u S)) ?S3 = (Some q, S4)" "looks_up ?S3 S4"
    using rsv_GetGate_run [of _ ?S3] assms(14) cs(9) by metis
  note l4 = looks_upD [OF g(2)]
  have key: "in_i32 (user_hash_key (rsv_user u S))" using assms(13) by (simp add: keys_ok_def)
  have uu: "rsv_user u S4 = rsv_user u S" using l4(2) cs(2) [of u] assms(11) by simp
  let ?S5 = "with_out [gate (P_UserLoginRS rs) (lrs_msg_id rs)] S4"
  have send: "send_to_gate pb wr (P_UserLoginRS rs) (lrs_msg_id rs) (Some q) (user_hash_key (rsv_user u S)) S4
      = Inr ?S5"
    using send_to_gate_run [of pb "P_UserLoginRS rs" "lrs_msg_id rs" "user_hash_key (rsv_user u S)" wr q S4]
      assms(4) key l4(3) cs(10) by (simp add: login_sendable_def gate_def)
  have r5: "rsv_room a ?S5 = rsv_room a ?S3" "\<And>v. rsv_user v ?S5 = rsv_user v ?S3"
    "rsv_lookup_room ?S5 = rsv_lookup_room S" "silent_gates ?S5" "keys_ok ?S5"
    "rsv_clients ?S5 = rsv_clients S" "rsv_out ?S5 = rsv_out S @ [gate (P_UserLoginRS rs) (lrs_msg_id rs)]"
    using l4 cs(8,10-12) assms(12) confirmed_keys [OF assms(13), of ?x] key
    by (simp_all add: silent_gates_def keys_ok_def rsv_lookup_room_def fun_eq_iff)
  have A: "\<exists>S1 L bss. login_announce pb wr a rs (Some q) c ?S5
      = Inr (rsv_set_room a ((rsv_room a ?S5)\<lparr>user_list := L\<rparr>) (with_out (map (\<lambda>b. (user_sock (rsv_clients ?S5 q),
            gate_packet pb (user_list_msg rs b) E_USER_INFO_LIST_ID (user_hash_key (rsv_user c ?S5)))) bss) S1))
    \<and> looks_up ?S5 S1 \<and> ul_users L = ul_users (room_users a ?S5) \<and> ul_unused L = ul_unused (room_users a ?S5)
    \<and> \<not> ul_locked L \<and> (\<forall>b \<in> set bss. b \<noteq> [] \<and> length b \<le> 15)
    \<and> concat bss = map (\<lambda>v. the_info (rsv_user v ?S5)) (live_users (ul_users (room_users a ?S5)))"
    using assms(3,4,5,8) r5 cr cs(1) by (intro login_announce_run) (auto simp: login_sendable_def)
  obtain T L bss where ann: "login_announce pb wr a rs (Some q) c ?S5
      = Inr (rsv_set_room a ((rsv_room a ?S3)\<lparr>user_list := L\<rparr>)
          (with_out (map (\<lambda>b. gate (user_list_msg rs b) E_USER_INFO_LIST_ID) bss) T))"
    "looks_up ?S5 T" "ul_users L = ul_users (room_users a ?S3)" "ul_unused L = us" "\<not> ul_locked L"
    "\<forall>b \<in> set bss. b \<noteq> [] \<and> length b \<le> 15"
    "concat bss = map (\<lambda>v. the_info (rsv_user v ?S3)) (live_users (ul_users (room_users a ?S3)))"
    using A [unfolded r5 cs(1,5) login_values_simps] unfolding gate_def by blast
  let ?S6 = "rsv_set_room a ((rsv_room a ?S3)\<lparr>user_list := L\<rparr>)
      (with_out (map (\<lambda>b. gate (user_list_msg rs b) E_USER_INFO_LIST_ID) bss) T)"
  let ?P = "(room_pre a S)\<lparr>ul_users := map_erase ?uid (ul_users (room_pre a S)),
      ul_unused := ul_unused (room_pre a S) @ [Some u]\<rparr>"
  have "\<not> ul_locked (room_pre a S)" using wf(2) by (simp add: ul_wf_def)
  then have rm: "cr_RemovePreUser ?uid (rsv_room a ?S6) = Inr ((rsv_room a ?S6)\<lparr>pre_user_list := ?P\<rparr>)"
    using give_back_present [of "room_pre a S" ?uid u] assms(7) cs(6) by (simp add: cr_Remove_alt)
  let ?S7 = "rsv_set_room a ((rsv_room a ?S6)\<lparr>pre_user_list := ?P\<rparr>) ?S6"
  have mic: "login_mic_list pb wr a (Some q) (Some c) ?S7 = Inr ?S7"
    using wf(3) cs(7) by (simp add: login_mic_list_def cr_GetMicUserList_def)
  have run: "ClientLoginRS_Execute pb wr (Some s) (Some cl) (bs @ rest) (int (length bs)) S = Inr ?S7"
    using assms(2,5,7,11) wf(2) conf g(1) uu send ann(1) rm mic cs(2) [of u]
    by (simp add: ClientLoginRS_Execute_def with_answer_run [where parse = "pb_UserLoginRS pb" and bs = bs and rs = rs, OF assms(1)] with_room_run
        with_pre_user_run ul_wf_def del: rsv_room_set)
  have e7: "room_users a ?S7 = L" "room_pre a ?S7 = ?P" "\<And>v. rsv_user v ?S7 = rsv_user v ?S3"
    "rsv_out ?S7 = rsv_out T @ map (\<lambda>b. gate (user_list_msg rs b) E_USER_INFO_LIST_ID) bss"
    using looks_upD(2) [OF ann(2)] r5(2) by simp_all
  have ut: "\<And>v. rsv_user v T = rsv_user v ?S3" using looks_upD(2) [OF ann(2)] r5(2) by simp
  have lk: "ul_lookup L = (ul_lookup (room_users a S))(?uid := Some c)"
    using cs(4) by (simp add: ul_lookup_def ann(3) fun_eq_iff)
  have inf: "map Inr (concat bss) = map (\<lambda>v. user_info (rsv_user v ?S3)) (live_users (ul_users L))"
    unfolding ann(3,7) using cr(4) user_info_run by auto
  show ?thesis
    using lk inf ann(4-6) cs(1) looks_upD(7) [OF ann(2)] r5(7) unfolding ann(3)
    by (intro exI [of _ ?S7] exI [of _ bss] conjI run)
      (simp_all only: e7 UserInfoList.simps, simp_all add: ul_lookup_def ann(3) ut)
qed

definition ex_login_rs :: StruUserLoginRS where
  "ex_login_rs = \<lparr>lrs_msg_id = E_USER_LOGIN_RS, lrs_user_id = 1, lrs_room_id = 9, lrs_result = 1,
     lrs_user_red_d = 100, lrs_user_blue_d = 0, lrs_user_level = 3, lrs_buyer_riches = 0,
     lrs_buyer_grow_up = 0, lrs_buyer_honour = 0, lrs_buyer_estimate = 0, lrs_seller_income = 0,
     lrs_seller_exp = 0, lrs_seller_pop = 0, lrs_seller_estimate = 0\<rparr>"

definition ex_login_pb :: protobuf where
  "ex_login_pb = ex_pb\<lparr>pb_UserLoginRS := (\<lambda>_. Some ex_login_rs)\<rparr>"

definition ex_pending :: RoomServer where
  "ex_pending = (let S = ex_server [(3, Some 5)] [Some 4, Some 6]
     in (rsv_set_room 0 ((rsv_room 0 S)\<lparr>pre_user_list := ul_new\<lparr>ul_users := [(1, Some 7)]\<rparr>\<rparr>) S)
          \<lparr>rsv_client_list := rcl_new\<lparr>rcl_users := [(0, Some 2)]\<rparr>\<rparr>)"

lemma ex_pending_simps [simp]:
  "room_users 0 ex_pending = ul_new\<lparr>ul_users := [(3, Some 5)], ul_unused := [Some 4, Some 6]\<rparr>"
  "room_pre 0 ex_pending = ul_new\<lparr>ul_users := [(1, Some 7)]\<rparr>"
  "rsv_lookup_room ex_pending 9 = Some 0" "rsv_user v ex_pending = UserInfo_new 0"
  "silent_gates ex_pending" "keys_ok ex_pending" "rsv_out ex_pending = []"
  "video_channel_list (rsv_room 0 ex_pending) = []"
  "rcl_lookup (rsv_client_list ex_pending) 0 = Some 2"
  by (simp_all add: ex_pending_def Let_def rsv_room_def rsv_set_room_def rs_update_def ex_server_def
      rsv_lookup_room_def rmg_lookup_def rsv_user_def silent_gates_def keys_ok_def UserInfo_new_def
      in_i32_def rc_new_def gsp_new_def BaseUserInfo.defs Processor.defs cl_new_def rcl_lookup_def)

lemma ex_new_user [simp]: "named (UserInfo_new 0)" "gs_hashkey_user_on (UserInfo_new 0) = 0"
  "user_hash_key (UserInfo_new 0) = 0"
  by (simp_all add: named_def UserInfo_new_def)

lemma ex_login_rs_simps [simp]:
  "lrs_result ex_login_rs = 1" "lrs_room_id ex_login_rs = 9" "lrs_user_id ex_login_rs = 1"
  "lrs_msg_id ex_login_rs = E_USER_LOGIN_RS" "pb_UserLoginRS ex_login_pb bs = Some ex_login_rs"
  "sendable (pb_ser ex_login_pb) m"
  by (simp_all add: ex_login_rs_def ex_login_pb_def ex_pb_def sendable_def)

lemma list_users_no_gate:
  "\<lbrakk>\<forall>v \<in> set vs. named (rsv_user v S); length us < 15\<rbrakk> \<Longrightarrow>
    res_fold (list_one pb wr rs None c) vs (us, int (length us), S) = Inl Null_deref
    \<or> (\<exists>us'. res_fold (list_one pb wr rs None c) vs (us, int (length us), S) = Inr (us', int (length us'), S)
        \<and> length us' = length us + length vs)"
proof (induction vs arbitrary: us)
  case (Cons v vs)
  let ?i = "the_info (rsv_user v S)"
  have i: "user_info (rsv_user v S) = Inr ?i" using user_info_run Cons.prems by auto
  show ?case
  proof (cases "length us = 14")
    case True
    then show ?thesis using i by (simp add: list_one_def send_to_gate_def)
  next
    case False
    then have "list_one pb wr rs None c v (us, int (length us), S)
        = Inr (us @ [?i], int (length (us @ [?i])), S)"
      using i Cons.prems by (simp add: list_one_def)
    then show ?thesis using Cons.IH [of "us @ [?i]"] Cons.prems False by auto
  qed
qed simp

lemma login_announce_no_gate:
  assumes "\<And>i. info_ok i \<Longrightarrow> sendable (pb_ser pb) (P_UserInfo i)"
    and "silent_gates S" "keys_ok S" "rsv_lookup_room S (lrs_room_id rs) = Some a" "lrs_room_id rs \<noteq> 0"
    and "ul_wf (room_users a S)" "first_null (ul_users (room_users a S)) = None"
    and "ul_users (room_users a S) \<noteq> []" "named (rsv_user c S)"
    and "\<forall>v \<in> set (live_users (ul_users (room_users a S))). named (rsv_user v S)"
  shows "login_announce pb wr a rs None c S = Inl Null_deref"
proof -
  let ?m = "ul_users (room_users a S)" and ?i = "the_info (rsv_user c S)"
  have i: "user_info (rsv_user c S) = Inr ?i" "info_ok ?i" using user_info_run assms(9) by auto
  obtain b S1 L where B: "rsv_SendDataToRoomAllUser (pb_ser pb) (P_UserInfo ?i) E_USER_INFO (lrs_room_id rs) S
      = Inr (b, rsv_set_room a ((rsv_room a S)\<lparr>user_list := L\<rparr>) S1)" "looks_up S S1"
    "ul_users L = ?m" "\<not> ul_locked L"
    using broadcast_run [of S "pb_ser pb" "P_UserInfo ?i" E_USER_INFO "lrs_room_id rs" a] assms i(2)
    by (auto simp: in_i32_def)
  let ?T = "rsv_set_room a ((rsv_room a S)\<lparr>user_list := L\<rparr>) S1"
  have T: "rsv_user v ?T = rsv_user v S" "room_users a ?T = L" for v
    using looks_upD(2) [OF B(2)] by simp_all
  have ne: "live_users ?m \<noteq> []" using live_users_all [OF assms(7)] assms(8) by auto
  have m: "map_ordered (ul_users L)" "ul_users L \<noteq> []" using assms(6,8) B(3) by (simp_all add: ul_wf_def)
  have F: "res_fold (list_one pb wr rs None c) (live_users ?m) ([], 0, ?T) = Inl Null_deref
    \<or> (\<exists>us'. res_fold (list_one pb wr rs None c) (live_users ?m) ([], 0, ?T) = Inr (us', int (length us'), ?T)
        \<and> us' \<noteq> [])"
    using list_users_no_gate [of "live_users ?m" ?T "[]" pb wr rs c] assms(10) ne unfolding T
    by (fastforce simp del: rsv_room_set)
  have o: "ul_foreach (list_one pb wr rs None c) L ([], 0, ?T)
      = res_bind (res_fold (list_one pb wr rs None c) (live_users ?m) ([], 0, ?T))
          (\<lambda>s. Inr (True, stopped_at ?m L, s))"
    using ul_foreach_run [OF m(1) B(4) m(2), of "list_one pb wr rs None c" "([], 0, ?T)"] ne
    by (simp add: B(3) del: rsv_room_set)
  show ?thesis
    using F i(1) B(1) o by (auto simp: login_announce_def T(2) send_to_gate_def simp del: rsv_room_set)
qed

text \<open>
  A login answer for a user whose gate is gone brings the room server down. If the gate of a
  pending user is not connected any more when the center server accepts the user, the handler
  does not send the answer, but goes on to send the room's user list to the gate and reads
  the socket through the null pointer the lookup returned.
\<close>

theorem login_without_gate:
  assumes "pb_UserLoginRS pb bs = Some rs" "lrs_result rs = 1" "lrs_room_id rs \<noteq> 0"
    and "login_sendable pb rs" "rsv_lookup_room S (lrs_room_id rs) = Some a" "room_ready a S"
    and "ul_lookup (room_pre a S) (lrs_user_id rs) = Some u" "named (rsv_user u S)"
    and "map_of (ul_users (room_users a S)) (lrs_user_id rs) = None"
    and "ul_unused (room_users a S) = Some c # us" "u \<noteq> c"
    and "silent_gates S" "keys_ok S"
    and "rcl_lookup (rsv_client_list S) (gs_hashkey_user_on (rsv_user u S)) = None"
  shows "ClientLoginRS_Execute pb wr (Some s) (Some cl) (bs @ rest) (int (length bs)) S = Inl Null_deref"
proof -
  let ?x = "login_values rs (rsv_user u S)"
  let ?S3 = "confirmed a c (lrs_user_id rs) ?x us S"
  have wf: "ul_wf (room_users a S)" "ul_wf (room_pre a S)" using assms(6) by (simp_all add: room_ready_def)
  note cs = confirmed_simps [OF wf(1) assms(9), where c = c and x = ?x and us = us]
  have un: "None \<notin> set us" using wf(1) assms(10) by (simp add: ul_wf_def)
  note cr = confirmed_ready [OF assms(6,9) _ un, of ?x c, simplified, OF assms(8)]
  have conf: "login_confirm a u rs S = Inr (Some c, ?S3)"
    by (rule login_confirm_run [OF assms(2) wf(1) assms(10,9,11)])
  obtain S4 where g: "rsv_GetGate (gs_hashkey_user_on (rsv_user u S)) ?S3 = (None, S4)" "looks_up ?S3 S4"
    using rsv_GetGate_run [of _ ?S3] assms(14) cs(9) by metis
  have key: "in_i32 (user_hash_key (rsv_user u S))" using assms(13) by (simp add: keys_ok_def)
  have "login_announce pb wr a rs None c S4 = Inl Null_deref"
    using looks_upD [OF g(2)] cs(1,8,12) cr assms(3-5,8,12) confirmed_keys [OF assms(13), of ?x] key
    by (intro login_announce_no_gate) (auto simp: login_sendable_def)
  then show ?thesis
    using assms(2,5,7,11) wf(2) conf g(1) cs(2) [of u]
    by (simp add: ClientLoginRS_Execute_def with_room_run with_pre_user_run ul_wf_def
        with_answer_run [where parse = "pb_UserLoginRS pb" and bs = bs and rs = rs, OF assms(1)])
qed

theorem login_without_gate_witness:
  "ClientLoginRS_Execute ex_login_pb (\<lambda>_ _. 1) (Some 1) (Some Center_processor) ([8, 1] @ [])
      (int (length [8, 1 :: byte])) (ex_pending\<lparr>rsv_client_list := rcl_new\<rparr>) = Inl Null_deref"
proof (rule login_without_gate [where rs = ex_login_rs and a = 0 and u = 7 and c = 4 and us = "[Some 6]"])
  let ?S = "ex_pending\<lparr>rsv_client_list := rcl_new\<rparr>"
  have s: "rsv_room 0 ?S = rsv_room 0 ex_pending" "rsv_user v ?S = rsv_user v ex_pending"
    "silent_gates ?S = silent_gates ex_pending" "keys_ok ?S = keys_ok ex_pending"
    "rsv_lookup_room ?S = rsv_lookup_room ex_pending" for v
    by (simp_all add: rsv_room_def rsv_user_def silent_gates_def keys_ok_def rsv_lookup_room_def fun_eq_iff)
  show "login_sendable ex_login_pb ex_login_rs" by (simp add: login_sendable_def in_i32_def)
  show "room_ready 0 ?S" by (simp add: room_ready_def ul_wf_def ul_new_def map_ordered_def s)
  show "silent_gates ?S" "keys_ok ?S" "rsv_lookup_room ?S (lrs_room_id ex_login_rs) = Some 0"
    "named (rsv_user 7 ?S)" "ul_lookup (room_pre 0 ?S) (lrs_user_id ex_login_rs) = Some 7"
    "map_of (ul_users (room_users 0 ?S)) (lrs_user_id ex_login_rs) = None"
    "ul_unused (room_users 0 ?S) = Some 4 # [Some 6]"
    by (simp_all add: s ul_lookup_def)
  show "rcl_lookup (rsv_client_list ?S) (gs_hashkey_user_on (rsv_user 7 ?S)) = None"
    by (simp add: rcl_lookup_def rcl_new_def)
qed simp_all

end
