(* ===== verification/Center_Clients.thy ===== *)
theory Center_Clients
  imports Room_Clients Connector Messages
begin

text \<open>
  The room servers as the center server sees them (\<open>center_server/client_info_list.cpp\<close>,
  \<open>center_server/rs_processor.cpp\<close>): the connection object with its receive block and its
  processor, and the list of connections by hash key. \<open>BaseUserInfo\<close> and the object pool are
  shared with the room server.
\<close>

section \<open>\<open>RoomServerProcessor\<close>\<close>

datatype rs_cmd = CS_ClientLoginRQ | CS_UserGiveGiftRQ

definition rs_commands :: "ptr \<Rightarrow> (int \<times> rs_cmd BaseCommand) list" where
  "rs_commands server = map (\<lambda>(i, c). (i, \<lparr>cmd_class = c, cmd_server_ptr = server\<rparr>))
     [(E_USER_LOGIN_RQ, CS_ClientLoginRQ), (E_USER_GIVE_GIFT_RQ, CS_UserGiveGiftRQ)]"

definition rsp_InitProcessor ::
  "int \<Rightarrow> ptr \<Rightarrow> ptr \<Rightarrow> rs_cmd Processor \<Rightarrow> (bool \<times> rs_cmd Processor) res" where
  "rsp_InitProcessor max_list_size caller server P =
     res_bind (bp_InitProcessor max_list_size server P) (\<lambda>(_, P1).
       let P2 = P1\<lparr>pr_parent_ptr := caller\<rparr>;
           (ok, C) = register_all (rs_commands server) (bp_cmd_chain P2)
       in Inr (ok, P2\<lparr>bp_cmd_chain := C\<rparr>))"

definition rsp_StartProcessor ::
  "(nat \<Rightarrow> int) \<Rightarrow> int \<Rightarrow> rs_cmd Processor \<Rightarrow> bool \<times> rs_cmd Processor" where
  "rsp_StartProcessor create thread_count P = pr_start bool_stop create thread_count P"

definition rsp_StopProcessor :: "rs_cmd Processor \<Rightarrow> rs_cmd Processor res" where
  "rsp_StopProcessor P = pr_stop P"

section \<open>\<open>ClientInfoEx\<close>\<close>

record CenterClient = BaseUserInfo +
  ct_valid_buff_len :: int
  ct_recved_buff :: "byte list"
  ct_center_server :: ptr
  ct_rs_processor :: "rs_cmd Processor"

definition ct_new :: CenterClient where
  "ct_new = BaseUserInfo.extend BaseUserInfo_new
     \<lparr>ct_valid_buff_len = 0, ct_recved_buff = replicate MaxRecvBuffLen 0, ct_center_server = None,
      ct_rs_processor = pr_new\<rparr>"

definition ct_Clear :: "CenterClient \<Rightarrow> CenterClient" where
  "ct_Clear c = c\<lparr>user_sock := 0, hash_key := 0, user_uip := 0, user_uport := 0, server_ptr := None,
     ct_valid_buff_len := 0\<rparr>"

text \<open>
  The body of the loop of \<open>DealWithData\<close>: it queues bytes of the block the chunk was read to,
  not of the block the packet was found in, and moves the rest to the front.
\<close>

definition ct_frame :: "byte list \<Rightarrow> StruCytPacket \<Rightarrow> byte list \<Rightarrow> int \<Rightarrow> CircleList
    \<Rightarrow> (byte list \<times> int \<times> CircleList) res" where
  "ct_frame read_buff package buf valid L =
     (let len = cyt_ByteSize package; valid1 = valid - len
      in res_bind (cl_AddBuffer read_buff len L) (\<lambda>(_, L1).
         res_bind (memcpy buf 0 buf len valid1) (\<lambda>buf1. Inr (buf1, valid1, L1))))"

text \<open>\<open>tmp_package\<close> is made once and overwritten by every parse; no field survives a successful one.\<close>

definition ct_parse :: "byte list \<Rightarrow> int \<Rightarrow> (bool \<times> StruCytPacket) res" where
  "ct_parse d n = cyt_ParseFromArray (cyt_new 0) (Some d) n"

abbreviation read_block :: "byte list \<Rightarrow> byte list" where
  "read_block chunk \<equiv> chunk @ replicate (0x1000 - length chunk) 0"

definition ct_DealWithData :: "byte list \<Rightarrow> CenterClient \<Rightarrow> CenterClient res" where
  "ct_DealWithData chunk C =
     res_bind (deal_chunk ct_parse (\<lambda>c. ct_frame (read_block c)) chunk
         (ct_recved_buff C, ct_valid_buff_len C, bp_data_list (ct_rs_processor C))) (\<lambda>(buf, valid, L).
       Inr (C\<lparr>ct_recved_buff := buf, ct_valid_buff_len := valid,
              ct_rs_processor := (ct_rs_processor C)\<lparr>bp_data_list := L\<rparr>\<rparr>))"

section \<open>\<open>ClientInfoList\<close>\<close>

record CenterClientList =
  ccl_unused :: UserResourceManager
  ccl_users :: "(int \<times> ptr) list"
  ccl_center_server :: ptr

definition ccl_new :: CenterClientList where
  "ccl_new = \<lparr>ccl_unused = rm_new 0, ccl_users = [], ccl_center_server = None\<rparr>"

definition ccl_GetUserInfo :: "CenterClientList \<Rightarrow> ptr \<times> CenterClientList" where
  "ccl_GetUserInfo L = (let (u, R) = rm_Get (ccl_unused L) in (u, L\<lparr>ccl_unused := R\<rparr>))"

definition ccl_ReleaseUserInfo :: "ptr \<Rightarrow> CenterClientList \<times> CenterClient client_store
    \<Rightarrow> (CenterClientList \<times> CenterClient client_store) res" where
  "ccl_ReleaseUserInfo user = (\<lambda>(L, h).
     res_bind (deref user) (\<lambda>a.
       let (v, m) = map_index None (ccl_users L) (hash_key (h a));
           m1 = (if v \<noteq> None then map_erase (hash_key (h a)) m else m)
       in res_bind (rsp_StopProcessor (ct_rs_processor (h a))) (\<lambda>P.
            let c = ct_Clear ((h a)\<lparr>ct_rs_processor := P\<rparr>);
                (_, R) = rm_Put user (ccl_unused L)
            in Inr (L\<lparr>ccl_users := m1, ccl_unused := R\<rparr>, h(a := c)))))"

definition ccl_GetUserByHashkey :: "int \<Rightarrow> CenterClientList \<Rightarrow> ptr \<times> CenterClientList" where
  "ccl_GetUserByHashkey key L =
     (let (v, m) = map_index None (ccl_users L) key in (v, L\<lparr>ccl_users := m\<rparr>))"

definition ccl_Init :: "int \<Rightarrow> ptr \<Rightarrow> CenterClientList \<Rightarrow> int \<times> CenterClientList" where
  "ccl_Init max_user server L =
     (let (n, R) = rm_Init max_user (ccl_unused L)
      in (n, L\<lparr>ccl_center_server := server, ccl_unused := R\<rparr>))"

definition ccl_AddUserInfo :: "(nat \<Rightarrow> int) \<Rightarrow> int \<Rightarrow> ptr \<Rightarrow> CenterClientList \<times> CenterClient client_store
    \<Rightarrow> (bool \<times> CenterClientList \<times> CenterClient client_store) res" where
  "ccl_AddUserInfo create key user = (\<lambda>(L, h).
     let (v, m) = map_index None (ccl_users L) key
     in if v \<noteq> None then Inr (False, L\<lparr>ccl_users := m\<rparr>, h)
        else
          res_bind (deref user) (\<lambda>a.
          res_bind (rsp_InitProcessor 1000 user (ccl_center_server L) (ct_rs_processor (h a))) (\<lambda>(_, P).
            let (_, P1) = rsp_StartProcessor create 1 P;
                c = (h a)\<lparr>hash_key := key, ct_center_server := ccl_center_server L, ct_rs_processor := P1\<rparr>
            in Inr (True, L\<lparr>ccl_users := map_put key user m\<rparr>, h(a := c)))))"

section \<open>Receiving\<close>

text \<open>What a packet puts into the queue: the start of the last chunk, as many bytes as it has.\<close>

definition ct_queued :: "byte list \<Rightarrow> StruCytPacket \<Rightarrow> CircleList \<Rightarrow> CircleList \<Rightarrow> bool" where
  "ct_queued c p = queued (take (length (cyt_bytes p)) (read_block c))"

lemma ct_handles:
  assumes "length c \<le> 4096"
  shows "handles (ct_frame (read_block c)) (\<lambda>p. cyt_wf p \<and> length (cyt_bytes p) \<le> 4096) cyt_bytes cap
    cl_inv (ct_queued c)"
  unfolding handles_def
proof (intro allI impI, elim conjE, goal_cases)
  case (1 p buf n L)
  let ?k = "length (cyt_bytes p)"
  let ?m = "take ?k (read_block c)"
  have sz: "cyt_ByteSize p = int ?k" using 1 by (simp add: cyt_ByteSize_bytes)
  have lm: "length ?m = ?k" using 1 assms by simp
  obtain buf1 where b: "memcpy buf 0 buf (int ?k) (int n - int ?k) = Inr buf1"
    "length buf1 = MaxRecvBuffLen" "take (n - ?k) buf1 = take (n - ?k) (drop ?k buf)"
    using move_front [of buf ?k n] 1 by auto
  have "length ?m \<le> 4096" "?m = take (length ?m) (read_block c)" using 1 lm by simp_all
  from add_queued [OF \<open>cl_inv L\<close> this, unfolded lm]
  obtain r L1 where q: "cl_AddBuffer (read_block c) (int ?k) L = Inr (r, L1)" "cl_inv L1"
    "ct_queued c p L L1"
    unfolding ct_queued_def by blast
  have v: "int n - int ?k = int (n - ?k)" using 1 by simp
  show ?case
    using 1 b q by (intro exI [of _ buf1] exI [of _ L1]) (auto simp: ct_frame_def Let_def sz simp flip: v)
qed

definition ct_deal :: "byte list \<Rightarrow> byte list \<times> int \<times> CircleList \<Rightarrow> (byte list \<times> int \<times> CircleList) res" where
  "ct_deal = deal_chunk ct_parse (\<lambda>c. ct_frame (read_block c))"

lemma ct_delivers:
  assumes "length c \<le> 4096" "cap < MaxRecvBuffLen"
  shows "cyt.delivers (\<lambda>p. cyt_wf p \<and> length (cyt_bytes p) \<le> 4096) cap cl_inv (ct_queued c) ct_deal c"
proof -
  have "cyt.delivers (\<lambda>p. cyt_wf p \<and> length (cyt_bytes p) \<le> 4096) cap cl_inv (ct_queued c)
    (deal_chunk (\<lambda>d n. cyt_ParseFromArray (cyt_new 0) (Some d) n) (\<lambda>c. ct_frame (read_block c))) c"
    by (rule cyt.deal_chunk_delivers [where act = "\<lambda>c. ct_frame (read_block c)" and c = c,
          OF ct_handles [OF assms(1)] assms(2)])
  then show ?thesis unfolding ct_deal_def ct_parse_def .
qed

definition ct_state :: "CenterClient \<Rightarrow> byte list \<times> int \<times> CircleList" where
  "ct_state C = (ct_recved_buff C, ct_valid_buff_len C, bp_data_list (ct_rs_processor C))"

lemma ct_receive_run:
  "deal_all ct_deal cs (ct_state C) = Inr (b, v, L) \<Longrightarrow>
   \<exists>C'. deal_all ct_DealWithData cs C = Inr C' \<and> ct_state C' = (b, v, L)"
proof (induction cs arbitrary: C)
  case (Cons c cs)
  obtain b1 v1 L1 where st: "ct_deal c (ct_state C) = Inr (b1, v1, L1)"
    "deal_all ct_deal cs (b1, v1, L1) = Inr (b, v, L)" using Cons.prems by (auto simp: res_simps)
  let ?C = "C\<lparr>ct_recved_buff := b1, ct_valid_buff_len := v1,
      ct_rs_processor := (ct_rs_processor C)\<lparr>bp_data_list := L1\<rparr>\<rparr>"
  have "ct_DealWithData c C = Inr ?C" using st(1) by (simp add: ct_DealWithData_def ct_deal_def ct_state_def)
  moreover have "ct_state ?C = (b1, v1, L1)" by (simp add: ct_state_def)
  ultimately show ?case using Cons.IH [of ?C] st(2) by auto
qed (auto simp: ct_state_def)

text \<open>A read that consists of whole packets: each is found, and nothing is left over.\<close>

abbreviation ct_packet :: "StruCytPacket \<Rightarrow> bool" where
  "ct_packet p \<equiv> cyt_wf p \<and> cyt_msg_data p \<noteq> [] \<and> length (cyt_bytes p) \<le> 4096"

lemma ct_whole:
  assumes "\<forall>p \<in> set ps. ct_packet p" "c = concat (map cyt_bytes ps)" "length c \<le> 4096"
    and "length buf = MaxRecvBuffLen" "cl_inv L"
  shows "\<exists>buf' L'. ct_deal c (buf, 0, L) = Inr (buf', 0, L') \<and> length buf' = MaxRecvBuffLen
    \<and> handled (ct_queued c) ps L L' \<and> cl_inv L'"
proof -
  let ?P = "\<lambda>p. cyt_wf p \<and> length (cyt_bytes p) \<le> 4096"
  have 1: "\<forall>p \<in> set ps. ?P p \<and> cyt_wf p \<and> 18 < length (cyt_bytes p) \<and> length (cyt_bytes p) \<le> MaxRecvBuffLen"
    using assms(1) by (auto simp: length_cyt_bytes)
  have 2: "cyt.pending ps buf 0" using assms(4) 1 by (cases ps) (auto simp: cyt.pending_def)
  have 3: "prefix (take 0 buf @ c) (concat (map cyt_bytes ps))" using assms(2) by simp
  have D: "cyt.delivers ?P 8192 cl_inv (ct_queued c) ct_deal c" by (rule ct_delivers [OF assms(3)]) simp
  obtain ds rs buf' n' L' where d: "ct_deal c (buf, int 0, L) = Inr (buf', int n', L')" "ps = ds @ rs"
    "cyt.pending rs buf' n'" "take 0 buf @ c = concat (map cyt_bytes ds) @ take n' buf'"
    "handled (ct_queued c) ds L L'" "cl_inv L'"
    using D [unfolded cyt.delivers_def, rule_format, of ps 0 buf L] 1 2 3 assms(3,5) by auto
  have "concat (map cyt_bytes rs) = take n' buf'" using d(2,4) assms(2) by simp
  moreover have "length (take n' buf') \<le> n'" by simp
  moreover have "rs \<noteq> [] \<Longrightarrow> length (cyt_bytes (hd rs)) \<le> length (concat (map cyt_bytes rs))" by (cases rs) auto
  ultimately have "rs = []" using d(3) unfolding cyt.pending_def by (metis leD le_trans)
  then have "n' = 0" "length buf' = MaxRecvBuffLen" using d(3) by (auto simp: cyt.pending_def)
  then show ?thesis using d(1,2,5,6) \<open>rs = []\<close> by auto
qed

lemma ct_queued_all:
  "handled (ct_queued c) ps L L' \<Longrightarrow> int (length ps) \<le> cl_free L \<Longrightarrow>
   cl_abs L' = cl_abs L @ map (\<lambda>p. take (length (cyt_bytes p)) (read_block c)) ps
     \<and> cl_free L' = cl_free L - int (length ps)"
  unfolding ct_queued_def [abs_def] by (rule queued_all)

section \<open>Properties\<close>

text \<open>
  C34: When every read delivers exactly one packet, the center server receives correctly: a
  connection whose receive block is empty ends up with it empty again and its processor's
  queue holds exactly the packets, in order, behind what it held before.
\<close>

theorem center_receives_single_packets:
  assumes "ct_valid_buff_len C = 0" "length (ct_recved_buff C) = MaxRecvBuffLen"
    and "cl_inv (bp_data_list (ct_rs_processor C))" "\<forall>p \<in> set ps. ct_packet p"
    and "int (length ps) \<le> cl_free (bp_data_list (ct_rs_processor C))"
  shows "\<exists>C'. deal_all ct_DealWithData (map cyt_bytes ps) C = Inr C' \<and> ct_valid_buff_len C' = 0
    \<and> cl_inv (bp_data_list (ct_rs_processor C'))
    \<and> cl_abs (bp_data_list (ct_rs_processor C')) = cl_abs (bp_data_list (ct_rs_processor C)) @ map cyt_bytes ps"
proof -
  have "\<exists>buf' L'. deal_all ct_deal (map cyt_bytes ps) (buf, 0, L) = Inr (buf', 0, L') \<and> cl_inv L'
      \<and> cl_abs L' = cl_abs L @ map cyt_bytes ps"
    if "length buf = MaxRecvBuffLen" "cl_inv L" "int (length ps) \<le> cl_free L" for buf L
    using assms(4) that
  proof (induction ps arbitrary: buf L)
    case (Cons p ps)
    have p: "\<forall>p \<in> set [p]. ct_packet p" "cyt_bytes p = concat (map cyt_bytes [p])"
      "length (cyt_bytes p) \<le> 4096" using Cons.prems(1) by simp_all
    obtain buf1 L1 where 1: "ct_deal (cyt_bytes p) (buf, 0, L) = Inr (buf1, 0, L1)"
      "length buf1 = MaxRecvBuffLen" "handled (ct_queued (cyt_bytes p)) [p] L L1" "cl_inv L1"
      using ct_whole [OF p Cons.prems(2,3)] by blast
    have q: "cl_abs L1 = cl_abs L @ [cyt_bytes p]" "cl_free L1 = cl_free L - 1"
      using ct_queued_all [OF 1(3)] Cons.prems(4) by simp_all
    have "int (length ps) \<le> cl_free L1" using q(2) Cons.prems(4) by simp
    then obtain buf' L' where "deal_all ct_deal (map cyt_bytes ps) (buf1, 0, L1) = Inr (buf', 0, L')"
      "cl_inv L'" "cl_abs L' = cl_abs L1 @ map cyt_bytes ps"
      using Cons.IH [OF _ 1(2,4)] Cons.prems(1) q(1) by auto
    then show ?case using 1(1) q(1) by simp
  qed auto
  from this [OF assms(2,3,5)] assms(1) ct_receive_run [of "map cyt_bytes ps" C]
  show ?thesis by (fastforce simp: ct_state_def)
qed

definition ex_center_client :: CenterClient where
  "ex_center_client = ct_new\<lparr>ct_rs_processor := pr_new\<lparr>bp_data_list := cl_new 3\<rparr>\<rparr>"

lemma ex_center_client_simps [simp]:
  "ct_valid_buff_len ex_center_client = 0" "length (ct_recved_buff ex_center_client) = MaxRecvBuffLen"
  "bp_data_list (ct_rs_processor ex_center_client) = cl_new 3"
  by (simp_all add: ex_center_client_def ct_new_def BaseUserInfo.defs)

theorem center_receives_single_packets_witness:
  "\<exists>C'. deal_all ct_DealWithData (map cyt_bytes [ex_cyt, ex_cyt]) ex_center_client = Inr C'
    \<and> ct_valid_buff_len C' = 0 \<and> cl_inv (bp_data_list (ct_rs_processor C'))
    \<and> cl_abs (bp_data_list (ct_rs_processor C')) = map cyt_bytes [ex_cyt, ex_cyt]"
  using center_receives_single_packets [of ex_center_client "[ex_cyt, ex_cyt]"] by simp

text \<open>
  When a read delivers several packets, the center server queues the start of the read for
  each of them instead of the packet: of two packets of the same length that arrive in one
  read, the first is processed twice and the second never.
\<close>

theorem center_repeats_first_packet:
  assumes "ct_valid_buff_len C = 0" "length (ct_recved_buff C) = MaxRecvBuffLen"
    and "cl_inv (bp_data_list (ct_rs_processor C))" "\<forall>p \<in> set ps. ct_packet p"
    and "int (length ps) \<le> cl_free (bp_data_list (ct_rs_processor C))"
    and "c = concat (map cyt_bytes ps)" "length c \<le> 4096"
  shows "\<exists>C'. ct_DealWithData c C = Inr C' \<and> ct_valid_buff_len C' = 0
    \<and> cl_abs (bp_data_list (ct_rs_processor C'))
        = cl_abs (bp_data_list (ct_rs_processor C)) @ map (\<lambda>p. take (length (cyt_bytes p)) c) ps"
proof -
  let ?L = "bp_data_list (ct_rs_processor C)"
  obtain buf' L' where d: "ct_deal c (ct_recved_buff C, 0, ?L) = Inr (buf', 0, L')"
    "handled (ct_queued c) ps ?L L'"
    using ct_whole [OF assms(4,6,7,2,3)] by blast
  have "length (cyt_bytes p) \<le> length c" if "p \<in> set ps" for p
    using that unfolding assms(6) by (induction ps) auto
  then have "map (\<lambda>p. take (length (cyt_bytes p)) (read_block c)) ps = map (\<lambda>p. take (length (cyt_bytes p)) c) ps"
    by auto
  then show ?thesis
    using d(1) ct_queued_all [OF d(2) assms(5)] assms(1) by (simp add: ct_DealWithData_def ct_deal_def)
qed

definition ex_cyt2 :: StruCytPacket where
  "ex_cyt2 = ex_cyt\<lparr>cyt_msg_data := [8, 7]\<rparr>"

theorem center_repeats_first_packet_witness:
  "\<exists>C'. ct_DealWithData (cyt_bytes ex_cyt @ cyt_bytes ex_cyt2) ex_center_client = Inr C'
    \<and> ct_valid_buff_len C' = 0
    \<and> cl_abs (bp_data_list (ct_rs_processor C')) = [cyt_bytes ex_cyt, cyt_bytes ex_cyt]"
proof -
  have "cyt_wf ex_cyt2" "cyt_msg_data ex_cyt2 \<noteq> []" "length (cyt_bytes ex_cyt2) = 20"
    by (simp_all add: ex_cyt2_def ex_cyt_def cyt_wf_def in_i32_def cyt_bytes_def)
  then show ?thesis
    using center_repeats_first_packet [of ex_center_client "[ex_cyt, ex_cyt2]"] by simp
qed

end
