(* ===== verification/Mysql_Pool.thy ===== *)
theory Mysql_Pool
  imports Miku_Base
begin

text \<open>
  \<open>MysqlConnPool\<close> (\<open>common/mysql_conn_pool.cpp\<close>): the pool of database connections of the
  center server. The driver is not part of the repository: a connection is the number of the
  attempt that made it, \<open>can i\<close> says whether attempt \<open>i\<close> succeeds, \<open>closed c\<close> is what
  \<open>isClosed\<close> returns. The pool's lock is taken and released in each operation.
\<close>

section \<open>The pool\<close>

record MysqlConnPool =
  my_cur_size :: int
  my_max_size :: int
  my_list :: "nat list"
  my_made :: nat

definition my_new :: MysqlConnPool where
  "my_new = \<lparr>my_cur_size = 0, my_max_size = 0, my_list = [], my_made = 0\<rparr>"

definition my_CreateConnection :: "(nat \<Rightarrow> bool) \<Rightarrow> MysqlConnPool \<Rightarrow> ptr \<times> MysqlConnPool" where
  "my_CreateConnection can P =
     (if can (my_made P) then Some (my_made P) else None, P\<lparr>my_made := Suc (my_made P)\<rparr>)"

fun my_InitConnection :: "(nat \<Rightarrow> bool) \<Rightarrow> nat \<Rightarrow> MysqlConnPool \<Rightarrow> MysqlConnPool" where
  "my_InitConnection can 0 P = P"
| "my_InitConnection can (Suc n) P =
     (let (c, P1) = my_CreateConnection can P
      in my_InitConnection can n
           (case c of
              None \<Rightarrow> P1
            | Some i \<Rightarrow> P1\<lparr>my_list := my_list P1 @ [i], my_cur_size := my_cur_size P1 + 1\<rparr>))"

definition my_DestoryConnPool :: "MysqlConnPool \<Rightarrow> MysqlConnPool" where
  "my_DestoryConnPool P = P\<lparr>my_cur_size := 0, my_list := []\<rparr>"

definition my_Init :: "(nat \<Rightarrow> bool) \<Rightarrow> int \<Rightarrow> MysqlConnPool \<Rightarrow> MysqlConnPool" where
  "my_Init can max_conn_size P =
     my_InitConnection can (nat (max_conn_size div 2)) (P\<lparr>my_max_size := max_conn_size\<rparr>)"

definition my_GetConnection ::
  "(nat \<Rightarrow> bool) \<Rightarrow> (nat \<Rightarrow> bool) \<Rightarrow> MysqlConnPool \<Rightarrow> ptr \<times> MysqlConnPool" where
  "my_GetConnection can closed P =
     (case my_list P of
        c # cs \<Rightarrow>
          let P1 = P\<lparr>my_list := cs\<rparr>;
              (r, P2) = (if closed c then my_CreateConnection can P1 else (Some c, P1))
          in (r, if r = None then P2\<lparr>my_cur_size := my_cur_size P2 - 1\<rparr> else P2)
      | [] \<Rightarrow>
          if my_cur_size P < my_max_size P
          then let (r, P1) = my_CreateConnection can P
               in (r, if r \<noteq> None then P1\<lparr>my_cur_size := my_cur_size P1 + 1\<rparr> else P1)
          else (None, P))"

definition my_ReleaseConnection :: "ptr \<Rightarrow> MysqlConnPool \<Rightarrow> bool \<times> MysqlConnPool" where
  "my_ReleaseConnection c P =
     (True, case c of None \<Rightarrow> P | Some i \<Rightarrow> P\<lparr>my_list := my_list P @ [i]\<rparr>)"

section \<open>Its life\<close>

text \<open>
  The states of a pool and the connections its clients hold: \<open>Init\<close>, then any sequence of
  \<open>GetConnection\<close> by a client and \<open>ReleaseConnection\<close> of a connection a client holds.
\<close>

inductive my_reachable :: "int \<Rightarrow> MysqlConnPool \<Rightarrow> nat list \<Rightarrow> bool" for n where
  my_init: "my_reachable n (my_Init can n my_new) []"
| my_get: "my_reachable n P out \<Longrightarrow> my_GetConnection can closed P = (Some c, P') \<Longrightarrow>
    my_reachable n P' (c # out)"
| my_get_none: "my_reachable n P out \<Longrightarrow> my_GetConnection can closed P = (None, P') \<Longrightarrow>
    my_reachable n P' out"
| my_release: "my_reachable n P (xs @ c # ys) \<Longrightarrow> my_ReleaseConnection (Some c) P = (b, P') \<Longrightarrow>
    my_reachable n P' (xs @ ys)"

definition my_inv :: "int \<Rightarrow> MysqlConnPool \<Rightarrow> nat list \<Rightarrow> bool" where
  "my_inv n P out \<longleftrightarrow> my_max_size P = n \<and> my_cur_size P = int (length (my_list P) + length out)
     \<and> my_cur_size P \<le> max 0 n \<and> distinct (my_list P @ out)
     \<and> (\<forall>c \<in> set (my_list P @ out). c < my_made P)"

lemma my_InitConnection_inv:
  "my_inv n P [] \<Longrightarrow> my_cur_size P + int k \<le> max 0 n \<Longrightarrow> my_inv n (my_InitConnection can k P) []"
proof (induction k arbitrary: P)
  case (Suc k)
  let ?P1 = "P\<lparr>my_made := Suc (my_made P)\<rparr>"
  let ?P2 = "?P1\<lparr>my_list := my_list P @ [my_made P], my_cur_size := my_cur_size P + 1\<rparr>"
  have "my_inv n ?P1 []" "my_inv n ?P2 []" using Suc.prems by (auto simp: my_inv_def)
  then show ?case
    using Suc.IH [of ?P1] Suc.IH [of ?P2] Suc.prems(2) by (simp add: my_CreateConnection_def Let_def)
qed simp

lemma my_GetConnection_inv:
  assumes "my_inv n P out" "my_GetConnection can closed P = (r, P')"
  shows "my_inv n P' (case r of None \<Rightarrow> out | Some c \<Rightarrow> c # out)"
  using assms
  by (auto simp: my_inv_def my_GetConnection_def my_CreateConnection_def Let_def
      split: list.splits if_splits) (meson UnI1 UnI2 less_SucI)+

lemma my_reachable_inv: "my_reachable n P out \<Longrightarrow> my_inv n P out"
proof (induction rule: my_reachable.induct)
  case (my_init can)
  have "my_inv n (my_new\<lparr>my_max_size := n\<rparr>) []" by (simp add: my_inv_def my_new_def)
  moreover have "int (nat (n div 2)) \<le> max 0 n" by linarith
  ultimately show ?case unfolding my_Init_def by (intro my_InitConnection_inv) (simp_all add: my_new_def)
next
  case (my_get P out can closed c P')
  then show ?case using my_GetConnection_inv [of n P out can closed "Some c" P'] by simp
next
  case (my_get_none P out can closed P')
  then show ?case using my_GetConnection_inv [of n P out can closed None P'] by simp
next
  case (my_release P xs c ys b P')
  then show ?case by (auto simp: my_inv_def my_ReleaseConnection_def)
qed

text \<open>
  C36: The database pool never has more than its maximum of connections, counting those in use,
  and never gives a connection to two clients, whatever sequence of \<open>GetConnection\<close> and
  \<open>ReleaseConnection\<close> its clients call and whichever connections the server has closed; its
  counter is the number of connections that exist.
\<close>

theorem db_pool_bounded:
  assumes "my_reachable n P out" "0 \<le> n"
  shows "int (length (my_list P) + length out) \<le> n \<and> distinct (my_list P @ out)
    \<and> my_cur_size P = int (length (my_list P) + length out)"
  using my_reachable_inv [OF assms(1)] assms(2) by (auto simp: my_inv_def)

theorem db_pool_bounded_witness:
  "int (length (my_list (snd (my_GetConnection (\<lambda>_. True) (\<lambda>_. False) (my_Init (\<lambda>_. True) 4 my_new)))) + length [0 :: nat]) \<le> 4
    \<and> distinct (my_list (snd (my_GetConnection (\<lambda>_. True) (\<lambda>_. False) (my_Init (\<lambda>_. True) 4 my_new))) @ [0])
    \<and> my_cur_size (snd (my_GetConnection (\<lambda>_. True) (\<lambda>_. False) (my_Init (\<lambda>_. True) 4 my_new)))
        = int (length (my_list (snd (my_GetConnection (\<lambda>_. True) (\<lambda>_. False) (my_Init (\<lambda>_. True) 4 my_new)))) + length [0 :: nat])"
proof (rule db_pool_bounded)
  let ?I = "my_Init (\<lambda>_. True) 4 my_new"
  have "fst (my_GetConnection (\<lambda>_. True) (\<lambda>_. False) ?I) = Some 0"
    by (simp add: my_Init_def my_new_def my_CreateConnection_def my_GetConnection_def eval_nat_numeral)
  then show "my_reachable 4 (snd (my_GetConnection (\<lambda>_. True) (\<lambda>_. False) ?I)) [0]"
    by (metis my_init my_get prod.collapse)
qed simp

end
