(* ===== verification/Listenner.thy ===== *)
theory Listenner
  imports Room_Clients Center_Clients
begin

text \<open>
  \<open>ServerListenner\<close> (\<open>common/server_listenner.cpp\<close>): accepting connections, handing them to the
  worker threads and giving them up. It works on a list of connection objects through the
  virtual operations of \<open>BaseUserInfoResource\<close>; what it relies on is the locale
  \<open>user_resource\<close>, and the lists of the room server and of the center server are its
  interpretations. What the operating system and libevent return are arguments.
\<close>

section \<open>State\<close>

text \<open>
  \<open>wk_pipe\<close> holds the keys in the worker's pipe; the worker runs its event loop until
  \<open>event_base_loopexit\<close>.
\<close>

record WorkerInfo =
  wk_pipe_read_fd :: int
  wk_pipe_write_fd :: int
  wk_server_ptr :: ptr
  wk_pipe :: "int list"
  wk_running :: bool
  wk_exit :: bool

text \<open>What the listener sets of a connection's \<open>bufferevent\<close>: descriptor, worker, enabled.\<close>

record buffer_event =
  be_fd :: int
  be_worker :: nat
  be_enabled :: bool

text \<open>
  \<open>sl_base\<close> is \<open>base_\<close>: \<open>None\<close> before \<open>StartServer\<close> has set it, then whether its loop was told to
  exit. \<open>sl_closed\<close> lists the calls of \<open>close\<close> on descriptors.
\<close>

record ServerListenner =
  sl_server_ip :: "byte list"
  sl_server_port :: int
  sl_count_worker :: int
  sl_count_user_per_worker :: int
  sl_read_timeout :: int
  sl_write_timeout :: int
  sl_listen_sock :: int
  sl_base :: "bool option"
  sl_workers :: "WorkerInfo list"
  sl_base_hash_key :: int
  sl_resource :: bool
  sl_using :: "(int \<times> ptr) list"
  sl_buffevs :: "nat \<Rightarrow> buffer_event"
  sl_closed :: "int list"

definition sl_new :: ServerListenner where
  "sl_new = \<lparr>sl_server_ip = [], sl_server_port = 0, sl_count_worker = 0, sl_count_user_per_worker = 0,
     sl_read_timeout = 0, sl_write_timeout = 0, sl_listen_sock = -1, sl_base = None, sl_workers = [],
     sl_base_hash_key = 0, sl_resource = False, sl_using = [],
     sl_buffevs = (\<lambda>_. \<lparr>be_fd = -1, be_worker = 0, be_enabled = False\<rparr>), sl_closed = []\<rparr>"

text \<open>The operations of the list of connections and of the connections themselves.\<close>

record 's resource_ops =
  ur_GetUserInfo :: "'s \<Rightarrow> ptr \<times> 's"
  ur_ReleaseUserInfo :: "ptr \<Rightarrow> 's \<Rightarrow> 's res"
  ur_GetUserByHashkey :: "int \<Rightarrow> 's \<Rightarrow> ptr \<times> 's"
  ur_AddUserInfo :: "int \<Rightarrow> ptr \<Rightarrow> 's \<Rightarrow> (bool \<times> 's) res"
  ur_DealWithData :: "byte list \<Rightarrow> nat \<Rightarrow> 's \<Rightarrow> 's res"
  ur_fields :: "'s \<Rightarrow> nat \<Rightarrow> BaseUserInfo"
  ur_set_fields :: "nat \<Rightarrow> BaseUserInfo \<Rightarrow> 's \<Rightarrow> 's"

section \<open>Starting\<close>

definition sl_InitServer :: "byte list \<Rightarrow> int \<Rightarrow> int \<Rightarrow> int \<Rightarrow> int \<Rightarrow> int \<Rightarrow> ServerListenner
    \<Rightarrow> bool \<times> ServerListenner" where
  "sl_InitServer ip port workers users rtimeout wtimeout T =
     (True, T\<lparr>sl_server_ip := ip, sl_server_port := port, sl_count_worker := workers,
        sl_count_user_per_worker := users, sl_read_timeout := rtimeout, sl_write_timeout := wtimeout\<rparr>)"

text \<open>
  The results of the calls \<open>StartServer\<close> makes: \<open>pipe\<close> and \<open>event_add\<close> of each worker, the
  creation of the worker threads, and those for the listening socket.
\<close>

record listen_env =
  le_pipe :: "nat \<Rightarrow> (int \<times> int) option"
  le_worker_event_add :: "nat \<Rightarrow> int"
  le_create :: "nat \<Rightarrow> int"
  le_socket :: int
  le_ioctl :: int
  le_bind :: int
  le_listen :: int
  le_event_add :: int

text \<open>The loop over the workers; the entries it has not reached are not initialised.\<close>

fun init_workers :: "listen_env \<Rightarrow> nat \<Rightarrow> nat \<Rightarrow> nat \<Rightarrow> bool \<times> WorkerInfo list" where
  "init_workers E self i 0 = (True, [])"
| "init_workers E self i (Suc k) =
     (case le_pipe E i of
        None \<Rightarrow> (False, [])
      | Some (r, w) \<Rightarrow>
          let W = \<lparr>wk_pipe_read_fd = r, wk_pipe_write_fd = w, wk_server_ptr = Some self, wk_pipe = [],
                   wk_running = False, wk_exit = False\<rparr>
          in if le_worker_event_add E i < 0 then (False, [W])
             else let (ok, Ws) = init_workers E self (Suc i) k in (ok, W # Ws))"

definition sl_InitWorker :: "listen_env \<Rightarrow> nat \<Rightarrow> ServerListenner \<Rightarrow> bool \<times> ServerListenner" where
  "sl_InitWorker E self T =
     (if sl_count_worker T \<le> 0 then (False, T)
      else let (ok, Ws) = init_workers E self 0 (nat (sl_count_worker T))
           in (ok, T\<lparr>sl_workers := Ws\<rparr>))"

fun start_workers :: "listen_env \<Rightarrow> nat \<Rightarrow> WorkerInfo list \<Rightarrow> bool \<times> WorkerInfo list" where
  "start_workers E i [] = (True, [])"
| "start_workers E i (W # Ws) =
     (if le_create E i \<noteq> 0 then (False, W # Ws)
      else let (ok, Ws1) = start_workers E (Suc i) Ws in (ok, W\<lparr>wk_running := True\<rparr> # Ws1))"

definition sl_StartWorker :: "listen_env \<Rightarrow> ServerListenner \<Rightarrow> bool \<times> ServerListenner" where
  "sl_StartWorker E T =
     (let (ok, Ws) = start_workers E 0 (sl_workers T) in (ok, T\<lparr>sl_workers := Ws\<rparr>))"

definition sl_OpenServerSocket :: "listen_env \<Rightarrow> ServerListenner \<Rightarrow> bool \<times> ServerListenner" where
  "sl_OpenServerSocket E T =
     (let T1 = T\<lparr>sl_listen_sock := le_socket E\<rparr>
      in if le_socket E = -1 then (False, T1)
         else
           let T2 = T1\<lparr>sl_server_ip := []\<rparr>
           in if le_ioctl E \<noteq> 0 then (False, T2)
              else if le_bind E = -1 then (False, T2)
              else if le_listen E = -1 then (False, T2)
              else (True, T2))"

text \<open>
  \<open>StartServer\<close> up to its event loop, in which the actions below run. It returns \<open>true\<close> when
  the loop is left.
\<close>

definition sl_StartServer :: "listen_env \<Rightarrow> nat \<Rightarrow> ServerListenner \<Rightarrow> bool \<times> ServerListenner" where
  "sl_StartServer E self T =
     (let (ok, T1) = sl_InitWorker E self (T\<lparr>sl_resource := True\<rparr>)
      in if \<not> ok then (False, T1)
         else let (ok, T2) = sl_StartWorker E T1
      in if \<not> ok then (False, T2)
         else let (ok, T3) = sl_OpenServerSocket E T2
      in if \<not> ok then (False, T3)
         else let T4 = T3\<lparr>sl_base := Some False\<rparr>
      in if le_event_add E < 0 then (False, T4) else (True, T4))"

text \<open>
  \<open>StopServer\<close> tells every event loop to exit. Without workers it goes through a null pointer,
  before \<open>base_\<close> is set it passes an uninitialised one.
\<close>

definition sl_StopServer :: "ServerListenner \<Rightarrow> ServerListenner res" where
  "sl_StopServer T =
     (if int (length (sl_workers T)) < sl_count_worker T then
        Inl (if sl_workers T = [] then Null_deref else Undefined)
      else if sl_base T = None then Inl Undefined
      else Inr (T\<lparr>sl_workers := map (\<lambda>W. W\<lparr>wk_exit := True\<rparr>) (sl_workers T), sl_base := Some True\<rparr>))"

section \<open>Connections\<close>

text \<open>
  \<open>SafeCloseSocket\<close>: \<open>cl i\<close> is the result of the \<open>i\<close>-th \<open>close\<close> and whether \<open>errno\<close> is then
  \<open>EINTR\<close>. The loop tries again while it is interrupted; the fuel bounds the tries.
\<close>

fun close_loop :: "nat \<Rightarrow> (nat \<Rightarrow> int \<times> bool) \<Rightarrow> nat \<Rightarrow> nat res" where
  "close_loop 0 cl i = Inl Diverges"
| "close_loop (Suc f) cl i =
     (if fst (cl i) \<noteq> 0 \<and> snd (cl i) then close_loop f cl (Suc i) else Inr (Suc i))"

definition sl_SafeCloseSocket :: "nat \<Rightarrow> (nat \<Rightarrow> int \<times> bool) \<Rightarrow> int \<Rightarrow> ServerListenner
    \<Rightarrow> ServerListenner res" where
  "sl_SafeCloseSocket fuel cl sock T =
     (if sock = -1 then Inr T
      else res_bind (close_loop fuel cl 0) (\<lambda>n.
             Inr (T\<lparr>sl_closed := sl_closed T @ replicate n sock\<rparr>)))"

record accept_env =
  ac_fd :: int
  ac_ip :: int
  ac_port :: int
  ac_ioctl :: int
  ac_fuel :: nat
  ac_close :: "nat \<Rightarrow> int \<times> bool"

text \<open>
  \<open>AcceptAction\<close>. A failed \<open>accept\<close> is only reported, and \<open>ioctl\<close> is called on its result. The
  key goes to the worker through its pipe; the result of \<open>write\<close> is ignored, a full pipe is not
  modelled. A hash key beyond 32 bits overflows. Without a worker the remainder is a division
  by zero or the table a null pointer.
\<close>

definition sl_AcceptAction :: "'s resource_ops \<Rightarrow> nat \<Rightarrow> accept_env \<Rightarrow> ServerListenner \<times> 's
    \<Rightarrow> (ServerListenner \<times> 's) res" where
  "sl_AcceptAction ops self E = (\<lambda>(T, s).
     res_bind
       (if ac_ioctl E < 0 then
          res_bind (sl_SafeCloseSocket (ac_fuel E) (ac_close E) (ac_fd E) T) (\<lambda>T1. Inr (T1, -1))
        else Inr (T, ac_fd E))
       (\<lambda>(T1, fd).
     if fd \<le> 0 then Inr (T1, s)
     else
       let key = sl_base_hash_key T1 + 1
       in if \<not> in_i32 key then Inl Undefined
          else
            let T2 = T1\<lparr>sl_base_hash_key := key\<rparr>
            in if \<not> sl_resource T2 then Inl Null_deref
               else
                 let (u, s1) = ur_GetUserInfo ops s
                 in case u of
                      None \<Rightarrow> Inr (T2, s1)
                    | Some a \<Rightarrow>
                        if sl_count_worker T2 \<le> 0 \<or> \<not> in_i32 (key + sl_count_worker T2) then Inl Undefined
                        else
                          let i = nat ((key + sl_count_worker T2 - 1) mod sl_count_worker T2)
                          in if length (sl_workers T2) \<le> i then Inl Undefined
                             else
                               let s2 = ur_set_fields ops a \<lparr>user_sock = fd, hash_key = key,
                                      user_uip = ac_ip E, user_uport = ac_port E, server_ptr = Some self\<rparr> s1;
                                   W = sl_workers T2 ! i;
                                   T3 = T2\<lparr>sl_buffevs := (sl_buffevs T2)
                                          (a := \<lparr>be_fd = fd, be_worker = i, be_enabled = True\<rparr>),
                                        sl_using := map_put key (Some a) (sl_using T2),
                                        sl_workers := (sl_workers T2)
                                          [i := W\<lparr>wk_pipe := wk_pipe W @ [key]\<rparr>]\<rparr>
                               in res_bind (ur_AddUserInfo ops key (Some a) s2) (\<lambda>(_, s3).
                                    Inr (T3, s3))))"

text \<open>
  \<open>ReadAction\<close> of worker \<open>i\<close>. For a user it finds it sets the callbacks the connection has
  already.
\<close>

definition sl_ReadAction :: "'s resource_ops \<Rightarrow> nat \<Rightarrow> ServerListenner \<times> 's \<Rightarrow> ServerListenner \<times> 's" where
  "sl_ReadAction ops i = (\<lambda>(T, s).
     case wk_pipe (sl_workers T ! i) of
       [] \<Rightarrow> (T, s)
     | key # ks \<Rightarrow>
         let T1 = T\<lparr>sl_workers := (sl_workers T)[i := (sl_workers T ! i)\<lparr>wk_pipe := ks\<rparr>]\<rparr>
         in if \<not> sl_resource T1 then (T1, s)
            else let (u, s1) = ur_GetUserByHashkey ops key s in (T1, s1))"

definition sl_DealWithReadData :: "'s resource_ops \<Rightarrow> nat \<Rightarrow> byte list \<Rightarrow> ServerListenner \<times> 's
    \<Rightarrow> (ServerListenner \<times> 's) res" where
  "sl_DealWithReadData ops a chunk = (\<lambda>(T, s).
     res_bind (ur_DealWithData ops chunk a s) (\<lambda>s1. Inr (T, s1)))"

definition sl_ReleaseUserInfo :: "'s resource_ops \<Rightarrow> int \<Rightarrow> nat \<Rightarrow> ServerListenner \<times> 's
    \<Rightarrow> (ServerListenner \<times> 's) res" where
  "sl_ReleaseUserInfo ops key a = (\<lambda>(T, s).
     let T1 = T\<lparr>sl_using := map_erase key (sl_using T),
                sl_closed := sl_closed T @ [user_sock (ur_fields ops s a)]\<rparr>
     in if \<not> sl_resource T1 then Inl Null_deref
        else res_bind (ur_ReleaseUserInfo ops (Some a) s) (\<lambda>s1. Inr (T1, s1)))"

definition sl_ErrorRead :: "'s resource_ops \<Rightarrow> nat \<Rightarrow> ServerListenner \<times> 's \<Rightarrow> (ServerListenner \<times> 's) res" where
  "sl_ErrorRead ops a = (\<lambda>(T, s).
     let T1 = T\<lparr>sl_buffevs := (sl_buffevs T)(a := (sl_buffevs T a)\<lparr>be_enabled := False\<rparr>)\<rparr>;
         u = ur_fields ops s a
     in if server_ptr u = None then Inr (T1, s)
        else sl_ReleaseUserInfo ops (hash_key u) a (T1, s))"

text \<open>What can happen while the server runs, in any order.\<close>

datatype listen_event = Accepted accept_env | Woken nat | Readable nat "byte list" | Gone nat

definition sl_step :: "'s resource_ops \<Rightarrow> nat \<Rightarrow> listen_event \<Rightarrow> ServerListenner \<times> 's
    \<Rightarrow> (ServerListenner \<times> 's) res" where
  "sl_step ops self e S =
     (case e of
        Accepted E \<Rightarrow> sl_AcceptAction ops self E S
      | Woken i \<Rightarrow> Inr (sl_ReadAction ops i S)
      | Readable a chunk \<Rightarrow> sl_DealWithReadData ops a chunk S
      | Gone a \<Rightarrow> sl_ErrorRead ops a S)"

fun sl_run :: "'s resource_ops \<Rightarrow> nat \<Rightarrow> listen_event list \<Rightarrow> ServerListenner \<times> 's
    \<Rightarrow> (ServerListenner \<times> 's) res" where
  "sl_run ops self [] S = Inr S"
| "sl_run ops self (e # es) S = res_bind (sl_step ops self e S) (sl_run ops self es)"

section \<open>The contract of a list of connections\<close>

text \<open>
  \<open>users\<close> are the connections by key, \<open>taken\<close> the objects handed out and \<open>free\<close> the others, in
  the order in which they will be handed out.
\<close>

abbreviation cleared :: BaseUserInfo where
  "cleared \<equiv> \<lparr>user_sock = 0, hash_key = 0, user_uip = 0, user_uport = 0, server_ptr = None\<rparr>"

locale user_resource =
  fixes ops :: "'s resource_ops"
    and ok :: "'s \<Rightarrow> bool"
    and users :: "'s \<Rightarrow> int \<Rightarrow> nat option"
    and free :: "'s \<Rightarrow> nat list"
    and taken :: "'s \<Rightarrow> nat set"
  assumes distinct_free: "ok s \<Longrightarrow> distinct (free s) \<and> set (free s) \<inter> taken s = {}"
    and get_none: "ok s \<Longrightarrow> free s = [] \<Longrightarrow> ur_GetUserInfo ops s = (None, s)"
    and get_some: "ok s \<Longrightarrow> free s = a # as \<Longrightarrow>
      \<exists>s'. ur_GetUserInfo ops s = (Some a, s') \<and> ok s' \<and> users s' = users s \<and> free s' = as
        \<and> taken s' = insert a (taken s) \<and> ur_fields ops s' = ur_fields ops s"
    and set_fields: "ok s \<Longrightarrow> ok (ur_set_fields ops a u s) \<and> users (ur_set_fields ops a u s) = users s
      \<and> free (ur_set_fields ops a u s) = free s \<and> taken (ur_set_fields ops a u s) = taken s
      \<and> ur_fields ops (ur_set_fields ops a u s) = (ur_fields ops s)(a := u)"
    and add: "ok s \<Longrightarrow> a \<in> taken s \<Longrightarrow> users s k = None \<Longrightarrow> hash_key (ur_fields ops s a) = k \<Longrightarrow>
      \<exists>s'. ur_AddUserInfo ops k (Some a) s = Inr (True, s') \<and> ok s' \<and> users s' = (users s)(k \<mapsto> a)
        \<and> free s' = free s \<and> taken s' = taken s \<and> ur_fields ops s' = ur_fields ops s"
    and by_key: "ok s \<Longrightarrow>
      \<exists>s'. ur_GetUserByHashkey ops k s = (users s k, s') \<and> ok s' \<and> users s' = users s
        \<and> free s' = free s \<and> taken s' = taken s \<and> ur_fields ops s' = ur_fields ops s"
    and release: "ok s \<Longrightarrow> users s k = Some a \<Longrightarrow> a \<in> taken s \<Longrightarrow> hash_key (ur_fields ops s a) = k \<Longrightarrow>
      inj_on (users s) (dom (users s)) \<Longrightarrow>
      \<exists>s'. ur_ReleaseUserInfo ops (Some a) s = Inr s' \<and> ok s' \<and> users s' = (users s)(k := None)
        \<and> free s' = free s @ [a] \<and> taken s' = taken s - {a}
        \<and> ur_fields ops s' = (ur_fields ops s)(a := cleared)"
    and deal: "ok s \<Longrightarrow> ur_DealWithData ops chunk a s = Inr s' \<Longrightarrow>
      ok s' \<and> users s' = users s \<and> free s' = free s \<and> taken s' = taken s
        \<and> ur_fields ops s' = ur_fields ops s"

definition linked :: "nat \<Rightarrow> (int \<Rightarrow> nat option) \<Rightarrow> (nat \<Rightarrow> BaseUserInfo) \<Rightarrow> ServerListenner \<Rightarrow> bool" where
  "linked self us u T \<longleftrightarrow>
     (\<forall>k a. us k = Some a \<longrightarrow> 0 < k \<and> k \<le> sl_base_hash_key T \<and> hash_key (u a) = k
        \<and> server_ptr (u a) = Some self \<and> map_of (sl_using T) k = Some (Some a)
        \<and> be_fd (sl_buffevs T a) = user_sock (u a) \<and> 0 < user_sock (u a))"

lemma linkedD:
  "linked self us u T \<Longrightarrow> us k = Some a \<Longrightarrow> 0 < k \<and> k \<le> sl_base_hash_key T \<and> hash_key (u a) = k
   \<and> server_ptr (u a) = Some self \<and> map_of (sl_using T) k = Some (Some a)
   \<and> be_fd (sl_buffevs T a) = user_sock (u a) \<and> 0 < user_sock (u a)"
  by (simp add: linked_def)

definition sl_ready :: "ServerListenner \<Rightarrow> bool" where
  "sl_ready T \<longleftrightarrow> 0 < sl_count_worker T \<and> int (length (sl_workers T)) = sl_count_worker T
     \<and> sl_resource T \<and> 0 \<le> sl_base_hash_key T"

text \<open>
  Sequences of events without data: an accepted socket is one \<open>accept\<close> and \<open>ioctl\<close> succeeded on.
\<close>

definition calm :: "nat \<Rightarrow> int \<Rightarrow> listen_event \<Rightarrow> bool" where
  "calm n c e = (case e of Accepted E \<Rightarrow> 0 < ac_fd E \<and> 0 \<le> ac_ioctl E | Woken i \<Rightarrow> int i < c
     | Readable a chunk \<Rightarrow> False | Gone a \<Rightarrow> a < n)"

context user_resource
begin

text \<open>
  The invariant of the listener and the list of \<open>n\<close> objects it works on: the connections have
  different objects, each knows its key and socket, all other objects are free and cleared.
\<close>

definition inv :: "nat \<Rightarrow> nat \<Rightarrow> ServerListenner \<times> 's \<Rightarrow> bool" where
  "inv self n = (\<lambda>(T, s). ok s \<and> sl_ready T \<and> linked self (users s) (ur_fields ops s) T
     \<and> taken s = ran (users s) \<and> set (free s) \<union> taken s = {..<n}
     \<and> (\<forall>a < n. a \<notin> taken s \<longrightarrow> server_ptr (ur_fields ops s a) = None))"

lemma invD:
  assumes "inv self n (T, s)"
  shows "ok s" "sl_ready T" "linked self (users s) (ur_fields ops s) T" "taken s = ran (users s)"
    "set (free s) \<union> taken s = {..<n}" "\<forall>a < n. a \<notin> taken s \<longrightarrow> server_ptr (ur_fields ops s a) = None"
  using assms unfolding inv_def split_conv by blast+

lemma linked_inj: "linked self us u T \<Longrightarrow> inj_on us (dom us)"
  by (rule inj_onI) (metis domD linked_def)

lemma fresh_key: "linked self us u T \<Longrightarrow> sl_base_hash_key T < k \<Longrightarrow> us k = None"
  by (cases "us k") (auto simp: linked_def dest!: spec [of _ k])

lemma accept_room:
  assumes "inv self n (T, s)" "free s = a # as" "0 \<le> ac_ioctl E" "0 < ac_fd E"
    and "sl_base_hash_key T + 1 + sl_count_worker T < 2147483648"
  defines "k \<equiv> sl_base_hash_key T + 1"
  shows "\<exists>T' s'. sl_AcceptAction ops self E (T, s) = Inr (T', s') \<and> inv self n (T', s')
    \<and> users s' = (users s)(k \<mapsto> a) \<and> free s' = as \<and> sl_base_hash_key T' = k
    \<and> sl_count_worker T' = sl_count_worker T \<and> sl_closed T' = sl_closed T
    \<and> ur_fields ops s' a = \<lparr>user_sock = ac_fd E, hash_key = k, user_uip = ac_ip E,
        user_uport = ac_port E, server_ptr = Some self\<rparr>
    \<and> (\<forall>b. b \<noteq> a \<longrightarrow> ur_fields ops s' b = ur_fields ops s b)"
proof -
  let ?u = "\<lparr>user_sock = ac_fd E, hash_key = k, user_uip = ac_ip E, user_uport = ac_port E,
    server_ptr = Some self\<rparr>"
  let ?i = "nat ((k + sl_count_worker T - 1) mod sl_count_worker T)"
  note I = invD [OF assms(1)]
  have c: "0 < sl_count_worker T" "int (length (sl_workers T)) = sl_count_worker T" "sl_resource T"
    "0 \<le> sl_base_hash_key T" using I(2) by (simp_all add: sl_ready_def)
  have k: "in_i32 k" "in_i32 (k + sl_count_worker T)" using assms(5) c by (auto simp: in_i32_def k_def)
  have "(k + sl_count_worker T - 1) mod sl_count_worker T < sl_count_worker T" using c(1) by simp
  then have i: "?i < length (sl_workers T)" using c(1,2) by linarith
  obtain s1 where g: "ur_GetUserInfo ops s = (Some a, s1)" "ok s1" "users s1 = users s" "free s1 = as"
    "taken s1 = insert a (taken s)" "ur_fields ops s1 = ur_fields ops s" using get_some [OF I(1) assms(2)] by blast
  let ?s2 = "ur_set_fields ops a ?u s1"
  note f = set_fields [OF g(2), of a ?u]
  have "a \<in> taken ?s2" "users ?s2 k = None" "hash_key (ur_fields ops ?s2 a) = k"
    using f g fresh_key [OF I(3)] by (simp_all add: k_def)
  from add [OF conjunct1 [OF f] this]
  obtain s3 where ad: "ur_AddUserInfo ops k (Some a) ?s2 = Inr (True, s3)" "ok s3"
    "users s3 = (users s)(k \<mapsto> a)" "free s3 = as" "taken s3 = insert a (taken s)"
    "ur_fields ops s3 = (ur_fields ops s)(a := ?u)" using f g by auto
  let ?T = "T\<lparr>sl_base_hash_key := k, sl_buffevs := (sl_buffevs T)(a := \<lparr>be_fd = ac_fd E, be_worker = ?i,
      be_enabled = True\<rparr>), sl_using := map_put k (Some a) (sl_using T),
    sl_workers := (sl_workers T)[?i := (sl_workers T ! ?i)\<lparr>wk_pipe := wk_pipe (sl_workers T ! ?i) @ [k]\<rparr>]\<rparr>"
  have run: "sl_AcceptAction ops self E (T, s) = Inr (?T, s3)"
    using assms(3,4) c k i g(1) ad(1) by (simp add: sl_AcceptAction_def Let_def k_def)
  have nota: "a \<notin> taken s" using distinct_free [OF I(1)] assms(2) by auto
  have lk: "linked self (users s3) (ur_fields ops s3) ?T"
    unfolding linked_def
  proof (intro allI impI, goal_cases)
    case (1 k' b)
    show ?case
    proof (cases "k' = k")
      case True
      then show ?thesis using 1 ad(3,6) c(4) assms(4) by (simp add: k_def)
    next
      case False
      then have "users s k' = Some b" using 1 ad(3) by simp
      moreover from this have "b \<noteq> a" using nota I(4) by (auto simp: ran_def)
      ultimately show ?thesis using linkedD [OF I(3), of k' b] False ad(6) by (simp add: k_def)
    qed
  qed
  have "ran (users s3) = insert a (ran (users s))" using ad(3) fresh_key [OF I(3)] by (simp add: k_def)
  moreover have "sl_ready ?T" using c by (simp add: sl_ready_def k_def)
  moreover have "set (free s3) \<union> taken s3 = {..<n}" using I(5) assms(2) ad(4,5) by auto
  moreover have "\<forall>b < n. b \<notin> taken s3 \<longrightarrow> server_ptr (ur_fields ops s3 b) = None"
    using I(6) ad(5,6) by auto
  ultimately have "inv self n (?T, s3)" using ad(2,5) I(4) lk by (simp add: inv_def)
  then show ?thesis using run ad by (intro exI [of _ ?T] exI [of _ s3]) simp
qed

lemma accept_full:
  assumes "inv self n (T, s)" "free s = []" "0 \<le> ac_ioctl E" "0 < ac_fd E"
    and "sl_base_hash_key T + 1 < 2147483648"
  shows "sl_AcceptAction ops self E (T, s) = Inr (T\<lparr>sl_base_hash_key := sl_base_hash_key T + 1\<rparr>, s)"
  using assms get_none by (simp add: sl_AcceptAction_def inv_def sl_ready_def in_i32_def)

lemma linked_later:
  "linked self us u T \<Longrightarrow> sl_base_hash_key T \<le> sl_base_hash_key T' \<Longrightarrow> sl_using T' = sl_using T \<Longrightarrow>
   (\<And>a. be_fd (sl_buffevs T' a) = be_fd (sl_buffevs T a)) \<Longrightarrow> linked self us u T'"
  by (force simp: linked_def)

lemma gone_ok:
  assumes "inv self n (T, s)" "users s k = Some a"
  shows "\<exists>T' s'. sl_ErrorRead ops a (T, s) = Inr (T', s') \<and> inv self n (T', s')
    \<and> users s' = (users s)(k := None) \<and> free s' = free s @ [a]
    \<and> sl_closed T' = sl_closed T @ [user_sock (ur_fields ops s a)]
    \<and> sl_base_hash_key T' = sl_base_hash_key T \<and> sl_count_worker T' = sl_count_worker T
    \<and> map_of (sl_using T') = (map_of (sl_using T))(k := None)
    \<and> ur_fields ops s' = (ur_fields ops s)(a := cleared)"
proof -
  note I = invD [OF assms(1)]
  have l: "hash_key (ur_fields ops s a) = k" "server_ptr (ur_fields ops s a) = Some self"
    using I(3) assms(2) by (simp_all add: linked_def)
  have tk: "a \<in> taken s" using I(4) assms(2) by (auto simp: ran_def)
  note inj = linked_inj [OF I(3)]
  obtain s' where r: "ur_ReleaseUserInfo ops (Some a) s = Inr s'" "ok s'" "users s' = (users s)(k := None)"
    "free s' = free s @ [a]" "taken s' = taken s - {a}" "ur_fields ops s' = (ur_fields ops s)(a := cleared)"
    using release [OF I(1) assms(2) tk l(1) inj] by blast
  let ?T = "T\<lparr>sl_buffevs := (sl_buffevs T)(a := (sl_buffevs T a)\<lparr>be_enabled := False\<rparr>),
    sl_using := map_erase k (sl_using T), sl_closed := sl_closed T @ [user_sock (ur_fields ops s a)]\<rparr>"
  have res: "sl_resource T" using I(2) by (simp add: sl_ready_def)
  have run: "sl_ErrorRead ops a (T, s) = Inr (?T, s')"
    using l r(1) res by (simp add: sl_ErrorRead_def sl_ReleaseUserInfo_def Let_def)
  have other: "b \<noteq> a" if "users s k' = Some b" "k' \<noteq> k" for k' b
    using inj_onD [OF inj, of k' k] that assms(2) by (auto simp: dom_def)
  have "linked self (users s') (ur_fields ops s') ?T"
    unfolding linked_def
  proof (intro allI impI, goal_cases)
    case (1 k' b)
    then have "users s k' = Some b" "k' \<noteq> k" using r(3) by (auto split: if_splits)
    then show ?case using I(3) other [of k' b] r(6) by (simp add: linked_def)
  qed
  moreover have "ran (users s') = ran (users s) - {a}"
    using r(3) assms(2) other by (auto simp: ran_def) (metis option.inject)
  moreover have "sl_ready ?T" using I(2) by (simp add: sl_ready_def)
  moreover have "set (free s') \<union> taken s' = {..<n}" using I(5) r(4,5) tk by auto
  ultimately have "inv self n (?T, s')" using r I(4,6) by (simp add: inv_def)
  then show ?thesis using run r by (intro exI [of _ ?T] exI [of _ s']) simp
qed

lemma gone_twice:
  assumes "inv self n (T, s)" "a < n" "a \<notin> taken s"
  shows "\<exists>T'. sl_ErrorRead ops a (T, s) = Inr (T', s) \<and> inv self n (T', s)
    \<and> sl_closed T' = sl_closed T \<and> sl_base_hash_key T' = sl_base_hash_key T
    \<and> sl_count_worker T' = sl_count_worker T"
proof -
  let ?T = "T\<lparr>sl_buffevs := (sl_buffevs T)(a := (sl_buffevs T a)\<lparr>be_enabled := False\<rparr>)\<rparr>"
  note I = invD [OF assms(1)]
  have "linked self (users s) (ur_fields ops s) ?T" by (rule linked_later [OF I(3)]) auto
  moreover have "sl_ready ?T" using I(2) by (simp add: sl_ready_def)
  ultimately have "inv self n (?T, s)" using I unfolding inv_def split_conv by blast
  moreover have "server_ptr (ur_fields ops s a) = None" using I(6) assms(2,3) by blast
  ultimately show ?thesis by (intro exI [of _ ?T]) (simp add: sl_ErrorRead_def Let_def)
qed

lemma woken_ok:
  assumes "inv self n (T, s)" "int i < sl_count_worker T"
  shows "\<exists>T' s'. sl_ReadAction ops i (T, s) = (T', s') \<and> inv self n (T', s')
    \<and> users s' = users s \<and> free s' = free s \<and> sl_closed T' = sl_closed T
    \<and> sl_base_hash_key T' = sl_base_hash_key T \<and> sl_count_worker T' = sl_count_worker T"
proof (cases "wk_pipe (sl_workers T ! i)")
  case Nil
  then show ?thesis using assms(1) by (simp add: sl_ReadAction_def)
next
  case (Cons k ks)
  note I = invD [OF assms(1)]
  let ?T = "T\<lparr>sl_workers := (sl_workers T)[i := (sl_workers T ! i)\<lparr>wk_pipe := ks\<rparr>]\<rparr>"
  obtain s' where s': "ur_GetUserByHashkey ops k s = (users s k, s')" "ok s'" "users s' = users s"
    "free s' = free s" "taken s' = taken s" "ur_fields ops s' = ur_fields ops s" using by_key [OF I(1)] by blast
  have "linked self (users s') (ur_fields ops s') ?T"
    unfolding s'(3,6) by (rule linked_later [OF I(3)]) auto
  moreover have "sl_ready ?T" using I(2) by (simp add: sl_ready_def)
  moreover have "taken s' = ran (users s')" "set (free s') \<union> taken s' = {..<n}"
    "\<forall>a < n. a \<notin> taken s' \<longrightarrow> server_ptr (ur_fields ops s' a) = None" using I s' by simp_all
  ultimately have "inv self n (?T, s')" using s'(2) unfolding inv_def split_conv by blast
  moreover have "sl_ReadAction ops i (T, s) = (?T, s')"
    using I(2) Cons s'(1) by (simp add: sl_ReadAction_def sl_ready_def Let_def)
  ultimately show ?thesis using s' by (intro exI [of _ ?T] exI [of _ s']) simp
qed

lemma readable_ok:
  assumes "inv self n (T, s)" "sl_DealWithReadData ops a chunk (T, s) = Inr (T', s')"
  shows "inv self n (T', s') \<and> users s' = users s \<and> T' = T"
proof -
  have d: "ur_DealWithData ops chunk a s = Inr s'" "T' = T"
    using assms(2) by (auto simp: sl_DealWithReadData_def res_simps)
  note I = invD [OF assms(1)] and s' = deal [OF invD(1) [OF assms(1)] d(1)]
  then have "inv self n (T, s')" unfolding inv_def split_conv by metis
  then show ?thesis using s' d(2) by blast
qed

lemma step_ok:
  assumes "inv self n (T, s)" "calm n (sl_count_worker T) e"
    and "sl_base_hash_key T + 1 + sl_count_worker T < 2147483648"
  shows "\<exists>T' s'. sl_step ops self e (T, s) = Inr (T', s') \<and> inv self n (T', s')
    \<and> sl_base_hash_key T' \<le> sl_base_hash_key T + 1 \<and> sl_count_worker T' = sl_count_worker T"
proof (cases e)
  case (Accepted E)
  then have E: "0 < ac_fd E" "0 \<le> ac_ioctl E" using assms(2) by (simp_all add: calm_def)
  note I = invD [OF assms(1)]
  show ?thesis
  proof (cases "free s")
    case Nil
    let ?T = "T\<lparr>sl_base_hash_key := sl_base_hash_key T + 1\<rparr>"
    have "linked self (users s) (ur_fields ops s) ?T" by (rule linked_later [OF I(3)]) auto
    moreover have "sl_ready ?T" using I(2) by (simp add: sl_ready_def)
    ultimately have "inv self n (?T, s)" using I unfolding inv_def split_conv by blast
    moreover have "sl_base_hash_key T + 1 < 2147483648" using assms(3) I(2) by (simp add: sl_ready_def)
    ultimately show ?thesis using accept_full [OF assms(1) Nil E(2,1)] Accepted
      by (intro exI [of _ ?T] exI [of _ s]) (simp add: sl_step_def)
  next
    case (Cons a as)
    from accept_room [OF assms(1) this E(2,1) assms(3)] obtain T' s' where
      "sl_AcceptAction ops self E (T, s) = Inr (T', s')" "inv self n (T', s')"
      "sl_base_hash_key T' = sl_base_hash_key T + 1" "sl_count_worker T' = sl_count_worker T" by blast
    then show ?thesis using Accepted by (intro exI [of _ T'] exI [of _ s']) (simp add: sl_step_def)
  qed
next
  case (Woken i)
  then show ?thesis using woken_ok [OF assms(1), of i] assms(2) by (fastforce simp: sl_step_def calm_def)
next
  case (Readable a chunk)
  then show ?thesis using assms(2) by (simp add: calm_def)
next
  case (Gone a)
  then have a: "a < n" using assms(2) by (simp add: calm_def)
  note I = invD [OF assms(1)]
  show ?thesis
  proof (cases "a \<in> taken s")
    case True
    then obtain k where "users s k = Some a" using I(4) by (auto simp: ran_def)
    from gone_ok [OF assms(1) this] obtain T' s' where
      "sl_ErrorRead ops a (T, s) = Inr (T', s')" "inv self n (T', s')"
      "sl_base_hash_key T' = sl_base_hash_key T" "sl_count_worker T' = sl_count_worker T" by blast
    then show ?thesis using Gone by (intro exI [of _ T'] exI [of _ s']) (simp add: sl_step_def)
  next
    case False
    from gone_twice [OF assms(1) a this] obtain T' where
      "sl_ErrorRead ops a (T, s) = Inr (T', s)" "inv self n (T', s)"
      "sl_base_hash_key T' = sl_base_hash_key T" "sl_count_worker T' = sl_count_worker T" by blast
    then show ?thesis using Gone by (intro exI [of _ T'] exI [of _ s]) (simp add: sl_step_def)
  qed
qed

lemma run_ok:
  "\<lbrakk>inv self n (T, s); \<forall>e \<in> set es. calm n (sl_count_worker T) e;
    sl_base_hash_key T + int (length es) + sl_count_worker T < 2147483648\<rbrakk> \<Longrightarrow>
   \<exists>T' s'. sl_run ops self es (T, s) = Inr (T', s') \<and> inv self n (T', s')
    \<and> sl_base_hash_key T' \<le> sl_base_hash_key T + int (length es) \<and> sl_count_worker T' = sl_count_worker T"
proof (induction es arbitrary: T s)
  case (Cons e es)
  have "sl_base_hash_key T + 1 + sl_count_worker T < 2147483648" using Cons.prems(3) by simp
  then obtain T1 s1 where 1: "sl_step ops self e (T, s) = Inr (T1, s1)" "inv self n (T1, s1)"
    "sl_base_hash_key T1 \<le> sl_base_hash_key T + 1" "sl_count_worker T1 = sl_count_worker T"
    using step_ok [OF Cons.prems(1), of e] Cons.prems(2) by auto
  obtain T' s' where 2: "sl_run ops self es (T1, s1) = Inr (T', s')" "inv self n (T', s')"
    "sl_base_hash_key T' \<le> sl_base_hash_key T1 + int (length es)" "sl_count_worker T' = sl_count_worker T1"
    using Cons.IH [OF 1(2)] 1(3,4) Cons.prems(2,3) by auto
  have "sl_base_hash_key T' \<le> sl_base_hash_key T + int (length (e # es))" using 1(3) 2(3) by simp
  then show ?case using 1(1,4) 2 by simp
qed simp

end

section \<open>The lists of the servers keep the contract\<close>

text \<open>The entries of a map of pointers that are not null.\<close>

definition live :: "('k \<times> ptr) list \<Rightarrow> 'k \<Rightarrow> nat option" where
  "live m k = (case map_of m k of Some (Some a) \<Rightarrow> Some a | _ \<Rightarrow> None)"

lemma live_index [simp]: "fst (map_index None m k) = live m k" "live (snd (map_index None m k)) = live m"
  by (auto simp: live_def map_index_fst map_of_index fun_eq_iff split: option.splits)

lemma live_put [simp]: "live (map_put k (Some a) m) = (live m)(k \<mapsto> a)"
  by (auto simp: live_def)

lemma live_erase [simp]: "live (map_erase k m) = (live m)(k := None)"
  by (auto simp: live_def)

lemma live_Nil [simp]: "live [] = (\<lambda>_. None)"
  by (simp add: live_def fun_eq_iff)

definition pr_running :: "('k, 'x) Processor_scheme \<Rightarrow> bool" where
  "pr_running P \<longleftrightarrow> pr_thread_count P = 1 \<and> 0 \<in> set (pr_threads P)"

lemma pr_stop_running: "pr_running P \<Longrightarrow> \<exists>P'. pr_stop P = Inr P'"
  by (simp add: pr_running_def pr_stop_def)

lemma pr_running_queue [simp]: "pr_running (P\<lparr>bp_data_list := L\<rparr>) = pr_running P"
  by (simp add: pr_running_def)

lemma bp_Init_ok: "0 < n \<Longrightarrow> \<exists>P'. bp_InitProcessor n c P = Inr (True, P')"
  by (metis bp_InitProcessor_def cl_InitBuffer_ok res_bind.simps(2))

lemma gsp_up:
  "\<exists>b P1. gsp_InitProcessor 1000 user server P = Inr (b, P1)
     \<and> pr_running (snd (gsp_StartProcessor (\<lambda>_. 0) 1 P1))"
  using bp_Init_ok [of 1000 server P]
  by (auto simp: gsp_InitProcessor_def gsp_StartProcessor_def pr_start_def pr_running_def int_stop_def
      Let_def split_def)

lemma rsp_up:
  "\<exists>b P1. rsp_InitProcessor 1000 user server P = Inr (b, P1)
     \<and> pr_running (snd (rsp_StartProcessor (\<lambda>_. 0) 1 P1))"
  using bp_Init_ok [of 1000 server P]
  by (auto simp: rsp_InitProcessor_def rsp_StartProcessor_def pr_start_def pr_running_def bool_stop_def
      Let_def split_def)

text \<open>
  What the lists share: the pool and the map of connections, with a property \<open>up\<close> of the
  connected objects.
\<close>

definition list_ok :: "('c \<Rightarrow> bool) \<Rightarrow> UserResourceManager \<Rightarrow> (int \<times> ptr) list \<Rightarrow> (nat \<Rightarrow> 'c) \<Rightarrow> bool" where
  "list_ok up R m h \<longleftrightarrow> rm_inv R \<and> (\<forall>k a. live m k = Some a \<longrightarrow> up (h a))"

lemma list_ok_put:
  "list_ok up R m h \<Longrightarrow> up c \<Longrightarrow> list_ok up R (map_put k (Some a) m) (h(a := c))"
  by (auto simp: list_ok_def)

lemma list_ok_erase:
  assumes "list_ok up R m h" "live m k = Some a" "inj_on (live m) (dom (live m))" "a \<in> rm_used R"
  shows "\<exists>R'. rm_Put (Some a) R = (True, R') \<and> list_ok up R' (map_erase k m) (h(a := c))
    \<and> rm_avail R' = rm_avail R @ [a] \<and> rm_used R' = rm_used R - {a}"
proof -
  have R: "rm_inv R" using assms(1) by (simp add: list_ok_def)
  obtain R' where R': "rm_Put (Some a) R = (True, R')" "rm_inv R'" "rm_avail R' = rm_avail R @ [a]"
    "rm_used R' = rm_used R - {a}" using pool.put_used [OF R assms(4)] by blast
  have "b \<noteq> a" if "live m k' = Some b" "k' \<noteq> k" for k' b
    using inj_onD [OF assms(3), of k' k] assms(2) that by (auto simp: dom_def)
  then have "list_ok up R' (map_erase k m) (h(a := c))"
    using assms(1) R'(2) by (auto simp: list_ok_def)
  then show ?thesis using R' by blast
qed

lemma list_ok_get:
  assumes "list_ok up R m h" "rm_avail R = a # as"
  shows "\<exists>R'. rm_Get R = (Some a, R') \<and> list_ok up R' m h \<and> rm_avail R' = as
    \<and> rm_used R' = insert a (rm_used R)"
  using pool.get_some [OF _ assms(2)] assms(1) by (auto simp: list_ok_def)

lemma list_ok_index: "list_ok up R m h \<Longrightarrow> list_ok up R (snd (map_index None m k)) h"
  by (simp add: list_ok_def)

lemma list_ok_change: "list_ok up R m h \<Longrightarrow> (up (h a) \<Longrightarrow> up c) \<Longrightarrow> list_ok up R m (h(a := c))"
  by (auto simp: list_ok_def)

lemma list_ok_distinct: "list_ok up R m h \<Longrightarrow> distinct (rm_avail R) \<and> set (rm_avail R) \<inter> rm_used R = {}"
  using pool.distinct_avail by (auto simp: list_ok_def)

lemma list_ok_empty: "list_ok up R m h \<Longrightarrow> rm_avail R = [] \<Longrightarrow> rm_Get R = (None, R)"
  using pool.get_none by (auto simp: list_ok_def)

text \<open>The first fields of an object, those of \<open>BaseUserInfo\<close>.\<close>

definition base_of :: "'x BaseUserInfo_scheme \<Rightarrow> BaseUserInfo" where
  "base_of c = \<lparr>user_sock = user_sock c, hash_key = hash_key c, user_uip = user_uip c,
     user_uport = user_uport c, server_ptr = server_ptr c\<rparr>"

definition set_base :: "BaseUserInfo \<Rightarrow> 'x BaseUserInfo_scheme \<Rightarrow> 'x BaseUserInfo_scheme" where
  "set_base u c = c\<lparr>user_sock := user_sock u, hash_key := hash_key u, user_uip := user_uip u,
     user_uport := user_uport u, server_ptr := server_ptr u\<rparr>"

lemma base_of_set [simp]: "base_of (set_base u c) = u"
  by (simp add: base_of_def set_base_def)

section \<open>The room server's list\<close>

definition rcl_ops :: "(nat \<Rightarrow> int) \<Rightarrow> (ClientInfoList \<times> ClientInfoEx client_store) resource_ops" where
  "rcl_ops create = \<lparr>
     ur_GetUserInfo = (\<lambda>(L, h). let (u, L1) = rcl_GetUserInfo L in (u, L1, h)),
     ur_ReleaseUserInfo = rcl_ReleaseUserInfo,
     ur_GetUserByHashkey = (\<lambda>k (L, h). let (u, L1) = rcl_GetUserByHashkey k L in (u, L1, h)),
     ur_AddUserInfo = rcl_AddUserInfo create,
     ur_DealWithData = (\<lambda>chunk a (L, h). res_bind (rc_DealWithData chunk (h a)) (\<lambda>c. Inr (L, h(a := c)))),
     ur_fields = (\<lambda>(L, h) a. base_of (h a)),
     ur_set_fields = (\<lambda>a u (L, h). (L, h(a := set_base u (h a))))\<rparr>"

definition rcl_ok :: "ClientInfoList \<times> ClientInfoEx client_store \<Rightarrow> bool" where
  "rcl_ok = (\<lambda>(L, h). list_ok (\<lambda>c. pr_running (rc_gs_processor c)) (rcl_unused L) (rcl_users L) h)"

definition rcl_conns :: "ClientInfoList \<times> ClientInfoEx client_store \<Rightarrow> int \<Rightarrow> nat option" where
  "rcl_conns = (\<lambda>(L, h). live (rcl_users L))"

definition rcl_free :: "ClientInfoList \<times> ClientInfoEx client_store \<Rightarrow> nat list" where
  "rcl_free = (\<lambda>(L, h). rm_avail (rcl_unused L))"

definition rcl_taken :: "ClientInfoList \<times> ClientInfoEx client_store \<Rightarrow> nat set" where
  "rcl_taken = (\<lambda>(L, h). rm_used (rcl_unused L))"

lemmas rcl_defs = rcl_ops_def rcl_ok_def rcl_conns_def rcl_free_def rcl_taken_def

interpretation room_list: user_resource "rcl_ops (\<lambda>_. 0)" rcl_ok rcl_conns rcl_free rcl_taken
proof (unfold_locales, goal_cases)
  case (1 s)
  then show ?case by (cases s) (simp add: rcl_defs, erule list_ok_distinct)
next
  case (2 s)
  then show ?case by (cases s) (auto simp: rcl_defs rcl_GetUserInfo_def dest: list_ok_empty)
next
  case (3 s a as)
  obtain L h where s: "s = (L, h)" by (cases s)
  show ?case using list_ok_get [of "\<lambda>c. pr_running (rc_gs_processor c)" "rcl_unused L" "rcl_users L" h a as] 3
    by (auto simp: s rcl_defs rcl_GetUserInfo_def)
next
  case (4 s a u)
  then show ?case by (cases s) (auto simp: rcl_defs set_base_def fun_eq_iff base_of_def intro!: list_ok_change)
next
  case (5 s a k)
  obtain L h where s: "s = (L, h)" by (cases s)
  obtain b P1 where P: "gsp_InitProcessor 1000 (Some a) (rcl_room_server L) (rc_gs_processor (h a)) = Inr (b, P1)"
    "pr_running (snd (gsp_StartProcessor (\<lambda>_. 0) 1 P1))" using gsp_up by blast
  have n: "live (rcl_users L) k = None" "hash_key (h a) = k" using 5 s by (simp_all add: rcl_defs base_of_def)
  show ?case using 5 s P n
    by (auto simp: rcl_defs rcl_AddUserInfo_def split_def Let_def base_of_def fun_eq_iff
        intro!: list_ok_put list_ok_index)
next
  case (6 s k)
  then show ?case
    by (cases s) (auto simp: rcl_defs rcl_GetUserByHashkey_def split_def Let_def intro: list_ok_index)
next
  case (7 s k a)
  obtain L h where s: "s = (L, h)" by (cases s)
  have l: "live (rcl_users L) k = Some a" "hash_key (h a) = k" "a \<in> rm_used (rcl_unused L)"
    "inj_on (live (rcl_users L)) (dom (live (rcl_users L)))"
    "list_ok (\<lambda>c. pr_running (rc_gs_processor c)) (rcl_unused L) (rcl_users L) h"
    using 7 s by (simp_all add: rcl_defs base_of_def)
  then obtain P where P: "gsp_StopProcessor (rc_gs_processor (h a)) = Inr P"
    using pr_stop_running [of "rc_gs_processor (h a)"] by (auto simp: list_ok_def gsp_StopProcessor_def)
  let ?m = "snd (map_index None (rcl_users L) k)"
  have "list_ok (\<lambda>c. pr_running (rc_gs_processor c)) (rcl_unused L) ?m h" using l(5) by (rule list_ok_index)
  from list_ok_erase [OF this, of k a "rc_Clear ((h a)\<lparr>rc_gs_processor := P\<rparr>)"]
  obtain R' where "rm_Put (Some a) (rcl_unused L) = (True, R')"
    "list_ok (\<lambda>c. pr_running (rc_gs_processor c)) R' (map_erase k ?m) (h(a := rc_Clear ((h a)\<lparr>rc_gs_processor := P\<rparr>)))"
    "rm_avail R' = rm_avail (rcl_unused L) @ [a]" "rm_used R' = rm_used (rcl_unused L) - {a}"
    using l by auto
  then show ?case using s l P
    by (simp add: rcl_defs rcl_ReleaseUserInfo_def split_def Let_def base_of_def fun_eq_iff rc_Clear_def)
next
  case (8 s chunk a s')
  then show ?case
    by (cases s) (auto simp: rcl_defs rc_DealWithData_def Let_def res_simps base_of_def fun_eq_iff intro!: list_ok_change)
qed

section \<open>The center server's list\<close>

definition ccl_ops :: "(nat \<Rightarrow> int) \<Rightarrow> (CenterClientList \<times> CenterClient client_store) resource_ops" where
  "ccl_ops create = \<lparr>
     ur_GetUserInfo = (\<lambda>(L, h). let (u, L1) = ccl_GetUserInfo L in (u, L1, h)),
     ur_ReleaseUserInfo = ccl_ReleaseUserInfo,
     ur_GetUserByHashkey = (\<lambda>k (L, h). let (u, L1) = ccl_GetUserByHashkey k L in (u, L1, h)),
     ur_AddUserInfo = ccl_AddUserInfo create,
     ur_DealWithData = (\<lambda>chunk a (L, h). res_bind (ct_DealWithData chunk (h a)) (\<lambda>c. Inr (L, h(a := c)))),
     ur_fields = (\<lambda>(L, h) a. base_of (h a)),
     ur_set_fields = (\<lambda>a u (L, h). (L, h(a := set_base u (h a))))\<rparr>"

definition ccl_ok :: "CenterClientList \<times> CenterClient client_store \<Rightarrow> bool" where
  "ccl_ok = (\<lambda>(L, h). list_ok (\<lambda>c. pr_running (ct_rs_processor c)) (ccl_unused L) (ccl_users L) h)"

definition ccl_conns :: "CenterClientList \<times> CenterClient client_store \<Rightarrow> int \<Rightarrow> nat option" where
  "ccl_conns = (\<lambda>(L, h). live (ccl_users L))"

definition ccl_free :: "CenterClientList \<times> CenterClient client_store \<Rightarrow> nat list" where
  "ccl_free = (\<lambda>(L, h). rm_avail (ccl_unused L))"

definition ccl_taken :: "CenterClientList \<times> CenterClient client_store \<Rightarrow> nat set" where
  "ccl_taken = (\<lambda>(L, h). rm_used (ccl_unused L))"

lemmas ccl_defs = ccl_ops_def ccl_ok_def ccl_conns_def ccl_free_def ccl_taken_def

interpretation center_list: user_resource "ccl_ops (\<lambda>_. 0)" ccl_ok ccl_conns ccl_free ccl_taken
proof (unfold_locales, goal_cases)
  case (1 s)
  then show ?case by (cases s) (simp add: ccl_defs, erule list_ok_distinct)
next
  case (2 s)
  then show ?case by (cases s) (auto simp: ccl_defs ccl_GetUserInfo_def dest: list_ok_empty)
next
  case (3 s a as)
  obtain L h where s: "s = (L, h)" by (cases s)
  show ?case using list_ok_get [of "\<lambda>c. pr_running (ct_rs_processor c)" "ccl_unused L" "ccl_users L" h a as] 3
    by (auto simp: s ccl_defs ccl_GetUserInfo_def)
next
  case (4 s a u)
  then show ?case by (cases s) (auto simp: ccl_defs set_base_def fun_eq_iff base_of_def intro!: list_ok_change)
next
  case (5 s a k)
  obtain L h where s: "s = (L, h)" by (cases s)
  obtain b P1 where P: "rsp_InitProcessor 1000 (Some a) (ccl_center_server L) (ct_rs_processor (h a)) = Inr (b, P1)"
    "pr_running (snd (rsp_StartProcessor (\<lambda>_. 0) 1 P1))" using rsp_up by blast
  have n: "live (ccl_users L) k = None" "hash_key (h a) = k" using 5 s by (simp_all add: ccl_defs base_of_def)
  show ?case using 5 s P n
    by (auto simp: ccl_defs ccl_AddUserInfo_def split_def Let_def base_of_def fun_eq_iff
        intro!: list_ok_put list_ok_index)
next
  case (6 s k)
  then show ?case
    by (cases s) (auto simp: ccl_defs ccl_GetUserByHashkey_def split_def Let_def intro: list_ok_index)
next
  case (7 s k a)
  obtain L h where s: "s = (L, h)" by (cases s)
  have l: "live (ccl_users L) k = Some a" "hash_key (h a) = k" "a \<in> rm_used (ccl_unused L)"
    "inj_on (live (ccl_users L)) (dom (live (ccl_users L)))"
    "list_ok (\<lambda>c. pr_running (ct_rs_processor c)) (ccl_unused L) (ccl_users L) h"
    using 7 s by (simp_all add: ccl_defs base_of_def)
  then obtain P where P: "rsp_StopProcessor (ct_rs_processor (h a)) = Inr P"
    using pr_stop_running [of "ct_rs_processor (h a)"] by (auto simp: list_ok_def rsp_StopProcessor_def)
  let ?m = "snd (map_index None (ccl_users L) k)"
  have "list_ok (\<lambda>c. pr_running (ct_rs_processor c)) (ccl_unused L) ?m h" using l(5) by (rule list_ok_index)
  from list_ok_erase [OF this, of k a "ct_Clear ((h a)\<lparr>ct_rs_processor := P\<rparr>)"]
  obtain R' where "rm_Put (Some a) (ccl_unused L) = (True, R')"
    "list_ok (\<lambda>c. pr_running (ct_rs_processor c)) R' (map_erase k ?m) (h(a := ct_Clear ((h a)\<lparr>ct_rs_processor := P\<rparr>)))"
    "rm_avail R' = rm_avail (ccl_unused L) @ [a]" "rm_used R' = rm_used (ccl_unused L) - {a}"
    using l by auto
  then show ?case using s l P
    by (simp add: ccl_defs ccl_ReleaseUserInfo_def split_def Let_def base_of_def fun_eq_iff ct_Clear_def)
next
  case (8 s chunk a s')
  then show ?case
    by (cases s) (auto simp: ccl_defs ct_DealWithData_def Let_def res_simps base_of_def fun_eq_iff intro!: list_ok_change)
qed

section \<open>A started server\<close>

lemma init_workers_length: "init_workers E self i k = (True, Ws) \<Longrightarrow> length Ws = k"
  by (induction k arbitrary: i Ws) (auto simp: Let_def split: option.splits prod.splits if_splits)

lemma start_workers_length: "start_workers E i Ws = (b, Ws') \<Longrightarrow> length Ws' = length Ws"
  by (induction Ws arbitrary: i b Ws') (auto simp: Let_def split: prod.splits if_splits)

text \<open>The listener as \<open>StartServer\<close> leaves it when all of its calls succeed.\<close>

lemma sl_start_ready:
  assumes "sl_StartServer E self (snd (sl_InitServer ip port w u rt wt sl_new)) = (True, T)"
  shows "sl_ready T \<and> sl_count_worker T = w \<and> sl_base_hash_key T = 0 \<and> sl_base T = Some False
    \<and> sl_closed T = []"
  using assms
  by (auto simp: sl_StartServer_def sl_InitServer_def sl_new_def sl_InitWorker_def sl_StartWorker_def
      sl_OpenServerSocket_def sl_ready_def Let_def split: prod.splits if_splits
      dest!: init_workers_length start_workers_length)

definition room_start :: "nat \<Rightarrow> ptr \<Rightarrow> ClientInfoList \<times> ClientInfoEx client_store" where
  "room_start n srv = (snd (rcl_Init (int n) srv rcl_new), \<lambda>_. rc_new)"

lemma room_start_inv:
  assumes "sl_StartServer E self (snd (sl_InitServer ip port w u rt wt sl_new)) = (True, T)"
  shows "room_list.inv self n (T, room_start n srv)"
  using sl_start_ready [OF assms] rm_Init_ok [of "int n" 0]
  unfolding room_list.inv_def split_conv
  by (auto simp: room_start_def rcl_defs rcl_Init_def rcl_new_def Let_def split_def list_ok_def live_def
      linked_def base_of_def rc_new_def BaseUserInfo_new_def BaseUserInfo.defs)

definition center_start :: "nat \<Rightarrow> ptr \<Rightarrow> CenterClientList \<times> CenterClient client_store" where
  "center_start n srv = (snd (ccl_Init (int n) srv ccl_new), \<lambda>_. ct_new)"

lemma center_start_inv:
  assumes "sl_StartServer E self (snd (sl_InitServer ip port w u rt wt sl_new)) = (True, T)"
  shows "center_list.inv self n (T, center_start n srv)"
  using sl_start_ready [OF assms] rm_Init_ok [of "int n" 0]
  unfolding center_list.inv_def split_conv
  by (auto simp: center_start_def ccl_defs ccl_Init_def ccl_new_def Let_def split_def list_ok_def live_def
      linked_def base_of_def ct_new_def BaseUserInfo_new_def BaseUserInfo.defs)

section \<open>Properties\<close>


definition ex_listen :: listen_env where
  "ex_listen = \<lparr>le_pipe = (\<lambda>i. Some (10 + int i, 20 + int i)), le_worker_event_add = (\<lambda>_. 0),
     le_create = (\<lambda>_. 0), le_socket = 3, le_ioctl = 0, le_bind = 0, le_listen = 0, le_event_add = 0\<rparr>"

definition ex_listener :: ServerListenner where
  "ex_listener = snd (sl_StartServer ex_listen 7 (snd (sl_InitServer [] 9000 1 10 0 0 sl_new)))"

definition ex_accept :: "int \<Rightarrow> accept_env" where
  "ex_accept fd = \<lparr>ac_fd = fd, ac_ip = 1, ac_port = 2, ac_ioctl = 0, ac_fuel = 1, ac_close = (\<lambda>_. (0, False))\<rparr>"

lemma ex_started:
  "sl_StartServer ex_listen 7 (snd (sl_InitServer [] 9000 1 10 0 0 sl_new)) = (True, ex_listener)"
  by (simp add: ex_listener_def ex_listen_def sl_StartServer_def sl_InitServer_def sl_InitWorker_def
      sl_StartWorker_def sl_OpenServerSocket_def sl_new_def)


lemma center_live_start:
  assumes "sl_StartServer E self (snd (sl_InitServer ip port w u rt wt sl_new)) = (True, T0)"
    and "\<forall>e \<in> set es. calm n w e" "int (length es) + 1 + w < 2147483648"
    and "sl_run (ccl_ops (\<lambda>_. 0)) self es (T0, center_start n srv) = Inr (T, L, h)"
  shows "center_list.inv self n (T, L, h)" "sl_base_hash_key T + 1 + sl_count_worker T < 2147483648"
proof -
  note st = sl_start_ready [OF assms(1)]
  obtain T' s' where r: "sl_run (ccl_ops (\<lambda>_. 0)) self es (T0, center_start n srv) = Inr (T', s')"
    "center_list.inv self n (T', s')" "sl_base_hash_key T' \<le> int (length es)" "sl_count_worker T' = w"
    using center_list.run_ok [OF center_start_inv [where n = n and srv = srv, OF assms(1)], of es]
      assms(2,3) st by auto
  then show "center_list.inv self n (T, L, h)" "sl_base_hash_key T + 1 + sl_count_worker T < 2147483648"
    using assms(3,4) by auto
qed



text \<open>
  When all connection objects of the center server are in use, a further connection is
  accepted and forgotten: its socket is not closed and is attached to nothing, and only the
  next hash key changes.
\<close>

theorem full_server_leaks_socket:
  assumes "sl_StartServer E self (snd (sl_InitServer ip port w u rt wt sl_new)) = (True, T0)"
    and "\<forall>e \<in> set es. calm n w e" "int (length es) + 1 + w < 2147483648"
    and "sl_run (ccl_ops (\<lambda>_. 0)) self es (T0, center_start n srv) = Inr (T, L, h)"
    and "rm_avail (ccl_unused L) = []" "0 < ac_fd A" "0 \<le> ac_ioctl A"
  shows "sl_AcceptAction (ccl_ops (\<lambda>_. 0)) self A (T, L, h)
    = Inr (T\<lparr>sl_base_hash_key := sl_base_hash_key T + 1\<rparr>, L, h)"
proof -
  note I = center_live_start [OF assms(1-4)]
  have "0 < sl_count_worker T" using center_list.invD(2) [OF I(1)] by (simp add: sl_ready_def)
  then show ?thesis using center_list.accept_full [OF I(1) _ assms(7,6)] assms(5) I(2)
    by (simp add: ccl_free_def)
qed

theorem full_server_leaks_socket_witness:
  "sl_AcceptAction (ccl_ops (\<lambda>_. 0)) 7 (ex_accept 5) (ex_listener, fst (center_start 0 None), snd (center_start 0 None))
    = Inr (ex_listener\<lparr>sl_base_hash_key := sl_base_hash_key ex_listener + 1\<rparr>,
        fst (center_start 0 None), snd (center_start 0 None))"
  by (rule full_server_leaks_socket [OF ex_started, where es = "[]" and n = 0 and srv = None])
    (simp_all add: ex_accept_def center_start_def ccl_Init_def ccl_new_def rm_Init_def rm_new_def rm_avail_def)

end
