(* ===== verification/Config.thy ===== *)
theory Config
  imports Miku_Base
begin

text \<open>
  Configuration files as the \<open>GetConfig\<close> of the three servers read them: \<open>std::getline\<close>, and
  \<open>operator>>\<close> of a \<open>std::stringstream\<close> into a \<open>std::string\<close> and into an \<open>int\<close>.
\<close>

section \<open>Lines and words\<close>

text \<open>
  The lines the loop works on. It stops when \<open>getline\<close> reaches the end of the file, so a last
  line without newline is not among them.
\<close>

fun conf_lines :: "byte list \<Rightarrow> byte list list" where
  "conf_lines [] = []"
| "conf_lines (b # bs) =
     (if b = 10 then [] # conf_lines bs
      else case conf_lines bs of [] \<Rightarrow> [] | l # ls \<Rightarrow> (b # l) # ls)"

definition is_space :: "byte \<Rightarrow> bool" where
  "is_space b \<longleftrightarrow> b = 32 \<or> b = 9 \<or> b = 10 \<or> b = 11 \<or> b = 12 \<or> b = 13"

definition is_digit :: "byte \<Rightarrow> bool" where
  "is_digit b \<longleftrightarrow> 48 \<le> uint b \<and> uint b \<le> 57"

text \<open>\<open>find_first_not_of(" #") == npos\<close>.\<close>

definition conf_skipped :: "byte list \<Rightarrow> bool" where
  "conf_skipped l = list_all (\<lambda>b. b = 32 \<or> b = 35) l"

text \<open>
  Extracting a word: \<open>None\<close> when only white space is left, and then the variable keeps its value
  and every later extraction fails.
\<close>

definition next_word :: "byte list \<Rightarrow> byte list option \<times> byte list" where
  "next_word bs =
     (let r = dropWhile is_space bs
      in if r = [] then (None, [])
         else (Some (takeWhile (\<lambda>b. \<not> is_space b) r), dropWhile (\<lambda>b. \<not> is_space b) r))"

text \<open>
  Extracting an \<open>int\<close> into a variable that holds \<open>u\<close>: without a word the variable is unchanged,
  a word that is no number stores 0, a number too big the nearest \<open>int\<close>; what follows the
  digits is left in the stream.
\<close>

definition dec_value :: "byte list \<Rightarrow> int" where
  "dec_value ds = foldl (\<lambda>n d. 10 * n + (uint d - 48)) 0 ds"

definition clamp32 :: "int \<Rightarrow> int" where
  "clamp32 n = max (- 2147483648) (min 2147483647 n)"

definition read_int :: "int \<Rightarrow> byte list \<Rightarrow> int" where
  "read_int u bs =
     (case dropWhile is_space bs of
        [] \<Rightarrow> u
      | b # r \<Rightarrow>
          if b = 45 then clamp32 (- dec_value (takeWhile is_digit r))
          else if b = 43 then clamp32 (dec_value (takeWhile is_digit r))
          else clamp32 (dec_value (takeWhile is_digit (b # r))))"

definition read_word :: "(byte list \<Rightarrow> 's \<Rightarrow> 's) \<Rightarrow> byte list \<Rightarrow> 's \<Rightarrow> 's" where
  "read_word upd bs S = (case fst (next_word bs) of None \<Rightarrow> S | Some w \<Rightarrow> upd w S)"

definition str :: "string \<Rightarrow> byte list" where
  "str s = map (\<lambda>c. byte_of (of_char c)) s"

lemma byte_of_char_inj: "inj (\<lambda>c. byte_of (of_char c))"
proof (rule injI)
  fix c d :: char
  assume "byte_of (of_char c) = byte_of (of_char d)"
  then have "(of_char c :: int) mod 256 = of_char d mod 256" by (metis uint_byte_of)
  then show "c = d" by (simp add: of_char_mod_256)
qed

lemma str_eq [simp]: "str s = str t \<longleftrightarrow> s = t"
  unfolding str_def by (rule inj_map_eq_map [OF byte_of_char_inj])

section \<open>Reading back what was written\<close>

lemma conf_lines_line: "10 \<notin> set l \<Longrightarrow> conf_lines (l @ 10 # bs) = l # conf_lines bs"
  by (induction l) auto

lemma conf_lines_rest [simp]: "10 \<notin> set l \<Longrightarrow> conf_lines l = []"
  by (induction l) auto

definition word_ok :: "byte list \<Rightarrow> bool" where
  "word_ok w \<longleftrightarrow> w \<noteq> [] \<and> (\<forall>b \<in> set w. \<not> is_space b)"

lemma next_word_word:
  assumes "word_ok w" "\<forall>b \<in> set sp. is_space b" "r = [] \<or> is_space (hd r)"
  shows "next_word (sp @ w @ r) = (Some w, r)"
proof -
  have d: "dropWhile is_space (sp @ w @ r) = w @ r"
    using assms(1,2) by (cases w) (simp_all add: dropWhile_append word_ok_def)
  have w: "\<forall>b \<in> set w. \<not> is_space b" using assms(1) by (simp add: word_ok_def)
  have "takeWhile (\<lambda>b. \<not> is_space b) r = []" "dropWhile (\<lambda>b. \<not> is_space b) r = r"
    using assms(3) by (cases r; simp)+
  then show ?thesis unfolding next_word_def d Let_def
    using w assms(1) by (simp add: takeWhile_append dropWhile_append word_ok_def)
qed

definition digit_byte :: "nat \<Rightarrow> byte" where
  "digit_byte d = byte_of (48 + int d)"

lemma uint_digit_byte [simp]: "d < 10 \<Longrightarrow> uint (digit_byte d) = 48 + int d"
  by (simp add: digit_byte_def)

fun show_dec :: "nat \<Rightarrow> byte list" where
  "show_dec n = (if n < 10 then [digit_byte n] else show_dec (n div 10) @ [digit_byte (n mod 10)])"

declare show_dec.simps [simp del]

lemma show_dec_digits: "\<forall>b \<in> set (show_dec n). is_digit b"
  by (induction n rule: show_dec.induct) (subst show_dec.simps, auto simp: is_digit_def)

lemma dec_value_show: "dec_value (show_dec n) = int n"
proof (induction n rule: show_dec.induct)
  case (1 n)
  show ?case
  proof (cases "n < 10")
    case True
    then show ?thesis by (subst show_dec.simps) (simp add: dec_value_def)
  next
    case False
    then have "dec_value (show_dec n) = 10 * dec_value (show_dec (n div 10)) + int (n mod 10)"
      by (subst show_dec.simps) (simp add: dec_value_def)
    also have "\<dots> = int (10 * (n div 10) + n mod 10)"
      unfolding 1 [OF False] by (simp only: of_nat_add of_nat_mult of_nat_numeral)
    also have "\<dots> = int n" by (simp only: mult_div_mod_eq)
    finally show ?thesis .
  qed
qed

lemma digit_no_space: "is_digit b \<Longrightarrow> \<not> is_space b \<and> b \<noteq> 45 \<and> b \<noteq> 43 \<and> b \<noteq> 10"
  by (auto simp: is_digit_def is_space_def)

lemma show_dec_word: "word_ok (show_dec n)"
proof -
  have "show_dec n \<noteq> []" by (subst show_dec.simps) simp
  then show ?thesis using show_dec_digits [of n] digit_no_space by (auto simp: word_ok_def)
qed

lemma read_int_show:
  assumes "n < 2147483648" "\<forall>b \<in> set sp. is_space b"
  shows "read_int u (sp @ show_dec n) = int n"
proof -
  have w: "show_dec n \<noteq> []" "\<forall>b \<in> set (show_dec n). \<not> is_space b"
    using show_dec_word [of n] by (simp_all add: word_ok_def)
  then obtain b r where br: "show_dec n = b # r" by (cases "show_dec n") auto
  have d: "dropWhile is_space (sp @ show_dec n) = b # r"
    using assms(2) w br by (simp add: dropWhile_append)
  have "b \<noteq> 45" "b \<noteq> 43" using show_dec_digits [of n] br digit_no_space by auto
  moreover have "takeWhile is_digit (b # r) = show_dec n"
    using show_dec_digits [of n] unfolding br by (simp add: takeWhile_eq_all_conv)
  moreover have "clamp32 (int n) = int n" using assms(1) by (simp add: clamp32_def)
  ultimately show ?thesis unfolding read_int_def d by (simp add: dec_value_show)
qed

lemma read_word_word:
  "word_ok w \<Longrightarrow> \<forall>b \<in> set sp. is_space b \<Longrightarrow> read_word upd (sp @ w) S = upd w S"
  using next_word_word [of w sp "[]"] by (simp add: read_word_def)

text \<open>One entry: a name, a tab and the value.\<close>

definition conf_entry :: "string \<Rightarrow> byte list \<Rightarrow> byte list" where
  "conf_entry name v = str name @ [9] @ v @ [10]"

lemma conf_entry_lines:
  assumes "word_ok (str name)" "word_ok v"
  shows "conf_lines (conf_entry name v @ bs) = (str name @ [9] @ v) # conf_lines bs"
    and "next_word (str name @ [9] @ v) = (Some (str name), [9] @ v)"
    and "\<not> conf_skipped (str name @ [9] @ v)"
proof -
  have "10 \<notin> set (str name @ [9] @ v)" using assms by (auto simp: word_ok_def is_space_def)
  then show "conf_lines (conf_entry name v @ bs) = (str name @ [9] @ v) # conf_lines bs"
    using conf_lines_line [of "str name @ [9] @ v" bs] by (simp add: conf_entry_def)
  show "next_word (str name @ [9] @ v) = (Some (str name), [9] @ v)"
    using next_word_word [OF assms(1), of "[]" "[9] @ v"] by (simp add: is_space_def)
  show "\<not> conf_skipped (str name @ [9] @ v)" by (simp add: conf_skipped_def)
qed

end
