(* ===== verification/Center_Server.thy ===== *)
theory Center_Server
  imports Listenner Mysql_Pool Room_Server Config
begin

text \<open>
  The center server (\<open>center_server\<close>): its database access, the answers it sends to room servers,
  its handlers, its connection to the director server, and its configuration, start and stop.
  The database driver and what its queries return are arguments, see \<open>Mysql_Pool\<close>.
\<close>

section \<open>The database\<close>

text \<open>
  The outcome of a call and its \<open>select\<close>: an \<open>SQLException\<close>, a null result set, an empty one, or
  a first row.
\<close>

datatype 'r sql = Sql_error | No_result | No_row | Row 'r

record login_row =
  lr_user_psw :: "byte list"
  lr_user_red_d :: int
  lr_user_blue_d :: int
  lr_user_level :: int
  lr_buyer_riches :: int
  lr_buyer_grow_up :: int
  lr_buyer_honour :: int
  lr_buyer_estimate :: int
  lr_seller_income :: int
  lr_seller_exp :: int
  lr_seller_pop :: int
  lr_seller_estimate :: int

record database =
  db_can_connect :: "nat \<Rightarrow> bool"
  db_closed :: "nat \<Rightarrow> bool"
  db_user_login :: "int \<Rightarrow> login_row sql"
  db_give_gift :: "int \<Rightarrow> int \<Rightarrow> int \<Rightarrow> byte list \<Rightarrow> (int \<times> int) sql"

definition tolower :: "byte \<Rightarrow> byte" where
  "tolower b = (if 65 \<le> uint b \<and> uint b \<le> 90 then b + 32 else b)"

text \<open>
  A statement on a connection of the pool: the return value, 0 without a connection, on an
  exception and without a row, and the row.
\<close>

definition with_connection ::
  "database \<Rightarrow> 'r sql \<Rightarrow> MysqlConnPool \<Rightarrow> (int \<times> 'r option) \<times> MysqlConnPool" where
  "with_connection D q P =
     (let (c, P1) = my_GetConnection (db_can_connect D) (db_closed D) P
      in if c = None then ((0, None), P1)
         else
           let r = (case q of Row x \<Rightarrow> (1, Some x) | _ \<Rightarrow> (0, None));
               (_, P2) = my_ReleaseConnection c P1
           in (r, P2))"

text \<open>
  \<open>UserLogin\<close>: the return value, the result of the comparison of the passwords, and the row whose
  other columns are stored through the reference parameters.
\<close>

definition db_UserLogin :: "database \<Rightarrow> int \<Rightarrow> byte list \<Rightarrow> MysqlConnPool
    \<Rightarrow> (int \<times> int \<times> login_row option) \<times> MysqlConnPool" where
  "db_UserLogin D uid psw P =
     (let ((ret, row), P1) = with_connection D (db_user_login D uid) P;
          result = (case row of
                      None \<Rightarrow> 0
                    | Some r \<Rightarrow> if map tolower (lr_user_psw r) = map tolower psw then 1 else 0)
      in ((ret, result, row), P1))"

text \<open>
  \<open>UserGiveGift\<close>: the return value and the values of its reference parameters \<open>result\<close> and
  \<open>sender_red_d\<close>, in this order, which are 0 before the call. The row has the balance first.
\<close>

definition db_UserGiveGift :: "database \<Rightarrow> int \<Rightarrow> int \<Rightarrow> int \<Rightarrow> byte list \<Rightarrow> MysqlConnPool
    \<Rightarrow> (int \<times> int \<times> int) \<times> MysqlConnPool" where
  "db_UserGiveGift D sender recver n gift P =
     (let ((ret, row), P1) = with_connection D (db_give_gift D sender recver n gift) P;
          (result, red) = (case row of None \<Rightarrow> (0, 0) | Some (red, res) \<Rightarrow> (res, red))
      in ((ret, result, red), P1))"

section \<open>State\<close>

record CenterServer =
  cns_server_id :: int
  cns_server_ip :: "byte list"
  cns_server_port :: int
  cns_count_worker :: int
  cns_count_user_per_worker :: int
  cns_read_timeout :: int
  cns_write_timeout :: int
  cns_ds_ip :: "byte list"
  cns_ds_port :: int
  cns_db_addr :: "byte list"
  cns_db_user :: "byte list"
  cns_db_psw :: "byte list"
  cns_db_name :: "byte list"
  cns_max_conn_size :: int
  cns_client_list :: CenterClientList
  cns_clients :: "CenterClient client_store"
  cns_listenner :: ServerListenner
  cns_miku_db :: MysqlConnPool
  cns_ds_connector :: DirectorServerConnector
  cns_out :: "(int \<times> byte list) list"

section \<open>Answers to a room server\<close>

text \<open>The packing of \<open>SendDataToRS\<close>, two blocks of 0x2000 bytes.\<close>

definition pack_for_rs ::
  "('m \<Rightarrow> byte list option) \<Rightarrow> 'm \<Rightarrow> int \<Rightarrow> (bool \<times> byte list \<times> int) res" where
  "pack_for_rs ser pack msg_id =
     res_bind (msg_SerializeToArray ser pack (replicate 0x2000 0)) (\<lambda>(ok, data_buff).
     if \<not> ok then Inr (False, data_buff, 0)
     else
       res_bind (cyt_build msg_id (msg_ByteSize ser pack) data_buff) (\<lambda>c.
       res_bind (cyt_SerializeToArray c (Some (replicate 0x2000 0)) (cyt_ByteSize c)) (\<lambda>(ok, send_buff).
       if \<not> ok then Inr (False, send_buff, 0) else Inr (True, send_buff, cyt_ByteSize c))))"

definition cns_SendDataToRS :: "(pmsg \<Rightarrow> byte list option) \<Rightarrow> (int \<Rightarrow> byte list \<Rightarrow> int)
    \<Rightarrow> pmsg \<Rightarrow> int \<Rightarrow> int \<Rightarrow> CenterServer \<Rightarrow> (bool \<times> CenterServer) res" where
  "cns_SendDataToRS ser wr pack msg_id fd S =
     res_bind (pack_for_rs ser pack msg_id) (\<lambda>(ok, buff, len).
     if \<not> ok then Inr (False, S)
     else
       res_bind (mem_read buff 0 len) (\<lambda>bs.
         let S1 = S\<lparr>cns_out := cns_out S @ [(fd, bs)]\<rparr>
         in if wr fd bs \<le> 0 then Inr (False, S1) else Inr (True, S1)))"

section \<open>Requests of a room server\<close>

text \<open>
  \<open>caller\<close> is the address of the connection whose processor calls the handler. The handlers work
  on the parent of that processor.
\<close>

definition with_parent ::
  "ptr \<Rightarrow> CenterServer \<Rightarrow> (nat \<Rightarrow> CenterServer res) \<Rightarrow> CenterServer res" where
  "with_parent caller S k =
     (case caller of
        None \<Rightarrow> Inr S
      | Some a \<Rightarrow>
          (case pr_parent_ptr (ct_rs_processor (cns_clients S a)) of None \<Rightarrow> Inr S | Some u \<Rightarrow> k u))"

definition login_answer :: "StruUserLoginRQ \<Rightarrow> int \<Rightarrow> login_row \<Rightarrow> StruUserLoginRS" where
  "login_answer rq result r = \<lparr>lrs_msg_id = E_USER_LOGIN_RS, lrs_user_id = lrq_user_id rq,
     lrs_room_id = lrq_room_id rq, lrs_result = result, lrs_user_red_d = lr_user_red_d r,
     lrs_user_blue_d = lr_user_blue_d r, lrs_user_level = lr_user_level r,
     lrs_buyer_riches = lr_buyer_riches r, lrs_buyer_grow_up = lr_buyer_grow_up r,
     lrs_buyer_honour = lr_buyer_honour r, lrs_buyer_estimate = lr_buyer_estimate r,
     lrs_seller_income = lr_seller_income r, lrs_seller_exp = lr_seller_exp r,
     lrs_seller_pop = lr_seller_pop r, lrs_seller_estimate = lr_seller_estimate r\<rparr>"

definition CS_ClientLoginRQ_Execute :: "protobuf \<Rightarrow> database \<Rightarrow> (int \<Rightarrow> byte list \<Rightarrow> int) \<Rightarrow> ptr \<Rightarrow> ptr
    \<Rightarrow> byte list \<Rightarrow> int \<Rightarrow> CenterServer \<Rightarrow> CenterServer res" where
  "CS_ClientLoginRQ_Execute pb D wr server caller buff len S =
     (if server = None then Inr S
      else
        with_parent caller S (\<lambda>u.
        res_bind (parse_from (pb_UserLoginRQ pb) buff len) (\<lambda>m.
          case m of
            None \<Rightarrow> Inr S
          | Some rq \<Rightarrow>
              let ((ret, result, row), P) = db_UserLogin D (lrq_user_id rq) (lrq_user_psw rq) (cns_miku_db S);
                  S1 = S\<lparr>cns_miku_db := P\<rparr>
              in (case row of
                    Some r \<Rightarrow>
                      if ret \<le> 0 then Inr S1
                      else
                        res_bind (cns_SendDataToRS (pb_ser pb) wr (P_UserLoginRS (login_answer rq result r))
                            E_USER_LOGIN_RS (user_sock (cns_clients S1 u)) S1) (\<lambda>(_, S2). Inr S2)
                  | None \<Rightarrow> Inr S1))))"

text \<open>
  \<open>UserGiveGiftRQ\<close> passes its variables \<open>tmp_sender_red_d\<close> and \<open>tmp_result\<close> for the parameters
  \<open>result\<close> and \<open>sender_red_d\<close> of \<open>UserGiveGift\<close>.
\<close>

definition CS_UserGiveGiftRQ_Execute :: "protobuf \<Rightarrow> database \<Rightarrow> (int \<Rightarrow> byte list \<Rightarrow> int) \<Rightarrow> ptr \<Rightarrow> ptr
    \<Rightarrow> byte list \<Rightarrow> int \<Rightarrow> CenterServer \<Rightarrow> CenterServer res" where
  "CS_UserGiveGiftRQ_Execute pb D wr server caller buff len S =
     (if server = None then Inr S
      else
        with_parent caller S (\<lambda>u.
        res_bind (parse_from (pb_UserGiveGiftRQ pb) buff len) (\<lambda>m.
          case m of
            None \<Rightarrow> Inr S
          | Some rq \<Rightarrow>
              let ((ret, result_param, sender_red_d_param), P) = db_UserGiveGift D (grq_user_id rq)
                    (grq_dst_user_id rq) (grq_count_gift rq) (grq_gift_code rq) (cns_miku_db S);
                  S1 = S\<lparr>cns_miku_db := P\<rparr>;
                  tmp_sender_red_d = result_param; tmp_result = sender_red_d_param;
                  rs = \<lparr>grs_msg_id = E_USER_GIVE_GIFT_RS, grs_user_id = grq_user_id rq,
                        grs_room_id = grq_room_id rq, grs_result = tmp_result,
                        grs_gift_code = grq_gift_code rq, grs_dst_user_id = grq_dst_user_id rq,
                        grs_sender_red_d = tmp_sender_red_d\<rparr>
              in if ret \<le> 0 then Inr S1
                 else
                   res_bind (cns_SendDataToRS (pb_ser pb) wr (P_UserGiveGiftRS rs) E_USER_GIVE_GIFT_RS
                       (user_sock (cns_clients S1 u)) S1) (\<lambda>(_, S2). Inr S2))))"

text \<open>One round of the thread of the processor of the connection at address \<open>a\<close>.\<close>

definition rs_deal_round :: "protobuf \<Rightarrow> database \<Rightarrow> (int \<Rightarrow> byte list \<Rightarrow> int) \<Rightarrow> nat
    \<Rightarrow> CenterServer \<Rightarrow> CenterServer res" where
  "rs_deal_round pb D wr a S =
     res_bind (cyt_dispatch_round (ct_rs_processor (cns_clients S a))) (\<lambda>(d, P).
       let S1 = S\<lparr>cns_clients := (cns_clients S)(a := (cns_clients S a)\<lparr>ct_rs_processor := P\<rparr>)\<rparr>
       in case d of
            Execute cmd buff len \<Rightarrow>
              (case cmd_class cmd of
                 CS_ClientLoginRQ \<Rightarrow>
                   CS_ClientLoginRQ_Execute pb D wr (cmd_server_ptr cmd) (Some a) buff len S1
               | CS_UserGiveGiftRQ \<Rightarrow>
                   CS_UserGiveGiftRQ_Execute pb D wr (cmd_server_ptr cmd) (Some a) buff len S1)
          | _ \<Rightarrow> Inr S1)"

section \<open>Connection to the director server\<close>

text \<open>
  The center server's \<open>DirectorServerConnector\<close> and \<open>DirectorServerProcessor\<close> are copies of the room
  server's, see \<open>Room_Server\<close>; they differ in the server type of the request and in the handlers.
\<close>

abbreviation (input) SERVER_TYPE_GS :: int where "SERVER_TYPE_GS \<equiv> 1"
abbreviation (input) SERVER_TYPE_RS :: int where "SERVER_TYPE_RS \<equiv> 2"
abbreviation (input) SERVER_TYPE_CS :: int where "SERVER_TYPE_CS \<equiv> 3"

definition connect_rq :: "int \<Rightarrow> int \<Rightarrow> byte list \<Rightarrow> int \<Rightarrow> StruDsServerConnectRq" where
  "connect_rq server_type i ip port = \<lparr>dcq_server_id = i, dcq_server_ip = ip, dcq_server_port = port,
     dcq_server_type = server_type, dcq_connect_type = 0, dcq_server_detect_port = 0\<rparr>"

definition cds_InitProcessor ::
  "int \<Rightarrow> ptr \<Rightarrow> ptr \<Rightarrow> ds_cmd Processor \<Rightarrow> (bool \<times> ds_cmd Processor) res" where
  "cds_InitProcessor max_list_size caller server P =
     res_bind (bp_InitProcessor max_list_size server P) (\<lambda>(_, P1).
       let (ok, C) = register_all (ds_commands server) (bp_cmd_chain P1)
       in Inr (ok, P1\<lparr>pr_parent_ptr := caller, bp_cmd_chain := C\<rparr>))"

definition cds_SendConnectDsRQ ::
  "(pmsg \<Rightarrow> byte list option) \<Rightarrow> CenterServer \<Rightarrow> DirectorServerConnector \<Rightarrow> DirectorServerConnector res"
  where
  "cds_SendConnectDsRQ ser S =
     ds_SendConnectDsRQ ser (connect_rq SERVER_TYPE_CS (cns_server_id S) (cns_server_ip S) (cns_server_port S))"

definition cds_StartProcessor ::
  "(pmsg \<Rightarrow> byte list option) \<Rightarrow> (nat \<Rightarrow> int) \<Rightarrow> int \<Rightarrow> CenterServer \<Rightarrow> DirectorServerConnector
   \<Rightarrow> (bool \<times> DirectorServerConnector) res" where
  "cds_StartProcessor ser create thread_count S C =
     (if thread_count \<le> 0 then Inr (False, C)
      else
        let (_, P) = pr_start bool_stop create thread_count (dsc_processor C)
        in res_bind (cds_SendConnectDsRQ ser S (C\<lparr>dsc_processor := P\<rparr>)) (\<lambda>C1. Inr (True, C1)))"

definition cds_StopProcessor :: "ds_cmd Processor \<Rightarrow> ds_cmd Processor res" where
  "cds_StopProcessor P = pr_stop P"

definition cdc_StartDSProcessor :: "ptr \<Rightarrow> (pmsg \<Rightarrow> byte list option) \<Rightarrow> (nat \<Rightarrow> int) \<Rightarrow> int \<Rightarrow> int \<Rightarrow> ptr
    \<Rightarrow> CenterServer \<Rightarrow> DirectorServerConnector \<Rightarrow> (bool \<times> DirectorServerConnector) res" where
  "cdc_StartDSProcessor self ser create list_size thread_count server S C =
     res_bind (cds_InitProcessor list_size self server (dsc_processor C)) (\<lambda>(ok, P).
       let C1 = C\<lparr>dsc_server_ptr := server, dsc_processor := P\<rparr>
       in if \<not> ok then Inr (False, C1)
          else res_bind (cds_StartProcessor ser create thread_count S C1) (\<lambda>(ok, C2).
                 if \<not> ok then Inr (False, C2) else Inr (True, C2)))"

definition cdc_DealWithData ::
  "byte list \<Rightarrow> int \<Rightarrow> DirectorServerConnector \<Rightarrow> DirectorServerConnector res" where
  "cdc_DealWithData buff len C =
     (if pr_is_started (dsc_processor C)
      then res_bind (cl_AddBuffer buff len (bp_data_list (dsc_processor C))) (\<lambda>(_, L).
             Inr (C\<lparr>dsc_processor := (dsc_processor C)\<lparr>bp_data_list := L\<rparr>\<rparr>))
      else Inr C)"

definition cns_StopServer :: "CenterServer \<Rightarrow> CenterServer res" where
  "cns_StopServer S =
     (let S1 = S\<lparr>cns_ds_connector := con_Disconnect (cns_ds_connector S)\<rparr>
      in res_bind (sl_StopServer (cns_listenner S1)) (\<lambda>T. Inr (S1\<lparr>cns_listenner := T\<rparr>)))"

text \<open>The director server refuses the center server with result 0, and the server stops.\<close>

definition CS_ConnectDirectorServerRS_Execute ::
  "protobuf \<Rightarrow> ptr \<Rightarrow> bool \<Rightarrow> byte list \<Rightarrow> int \<Rightarrow> CenterServer \<Rightarrow> CenterServer res" where
  "CS_ConnectDirectorServerRS_Execute pb server caller buff len S =
     (if server = None \<or> \<not> caller then Inr S
      else
        res_bind (parse_from (pb_DsServerConnectRs pb) buff len) (\<lambda>m.
          case m of
            None \<Rightarrow> Inr S
          | Some rs \<Rightarrow> if dcs_result rs = 0 then cns_StopServer S else Inr S))"

definition CS_QueryChatRoomRS_Execute ::
  "protobuf \<Rightarrow> ptr \<Rightarrow> bool \<Rightarrow> byte list \<Rightarrow> int \<Rightarrow> CenterServer \<Rightarrow> CenterServer res" where
  "CS_QueryChatRoomRS_Execute pb server caller buff len S =
     (if server = None \<or> \<not> caller then Inr S
      else res_bind (parse_from (pb_DsGSGetRoomInfoRs pb) buff len) (\<lambda>m. Inr S))"

definition CS_GetCenterServerAddrRS_Execute ::
  "protobuf \<Rightarrow> ptr \<Rightarrow> bool \<Rightarrow> byte list \<Rightarrow> int \<Rightarrow> CenterServer \<Rightarrow> CenterServer res" where
  "CS_GetCenterServerAddrRS_Execute pb server caller buff len S =
     (if server = None \<or> \<not> caller then Inr S
      else res_bind (parse_from (pb_DsGetCsInfoRs pb) buff len) (\<lambda>m. Inr S))"

definition cds_deal_round :: "protobuf \<Rightarrow> CenterServer \<Rightarrow> CenterServer res" where
  "cds_deal_round pb S =
     res_bind (cyt_dispatch_round (dsc_processor (cns_ds_connector S))) (\<lambda>(d, P).
       let S1 = S\<lparr>cns_ds_connector := (cns_ds_connector S)\<lparr>dsc_processor := P\<rparr>\<rparr>
       in case d of
            Execute cmd buff len \<Rightarrow>
              (let server = cmd_server_ptr cmd
               in case cmd_class cmd of
                    ConnectDirectorServerRS \<Rightarrow> CS_ConnectDirectorServerRS_Execute pb server True buff len S1
                  | QueryChatRoomRS \<Rightarrow> CS_QueryChatRoomRS_Execute pb server True buff len S1
                  | GetCenterServerAddrRS \<Rightarrow> CS_GetCenterServerAddrRS_Execute pb server True buff len S1)
          | _ \<Rightarrow> Inr S1)"

section \<open>Configuration, start and stop\<close>

text \<open>
  \<open>GetConfig\<close>: \<open>u\<close> is the value of the uninitialised variable \<open>tmp_value\<close>. A line without a word has
  an empty name, which no comparison accepts.
\<close>

definition center_conf_line :: "int \<Rightarrow> byte list \<Rightarrow> CenterServer \<Rightarrow> CenterServer" where
  "center_conf_line u line S =
     (if conf_skipped line then S
      else
        case next_word line of
          (None, _) \<Rightarrow> S
        | (Some name, r) \<Rightarrow>
            if name = str ''ip'' then read_word (\<lambda>w S. S\<lparr>cns_server_ip := w\<rparr>) r S
            else if name = str ''ds_ip'' then read_word (\<lambda>w S. S\<lparr>cns_ds_ip := w\<rparr>) r S
            else if name = str ''db_addr'' then read_word (\<lambda>w S. S\<lparr>cns_db_addr := w\<rparr>) r S
            else if name = str ''db_user'' then read_word (\<lambda>w S. S\<lparr>cns_db_user := w\<rparr>) r S
            else if name = str ''db_psw'' then read_word (\<lambda>w S. S\<lparr>cns_db_psw := w\<rparr>) r S
            else if name = str ''db_name'' then read_word (\<lambda>w S. S\<lparr>cns_db_name := w\<rparr>) r S
            else
              let v = read_int u r
              in if name = str ''port'' then S\<lparr>cns_server_port := v\<rparr>
                 else if name = str ''count_worker'' then S\<lparr>cns_count_worker := v\<rparr>
                 else if name = str ''user_per_worker'' then S\<lparr>cns_count_user_per_worker := v\<rparr>
                 else if name = str ''read_timeout'' then S\<lparr>cns_read_timeout := v\<rparr>
                 else if name = str ''write_timeout'' then S\<lparr>cns_write_timeout := v\<rparr>
                 else if name = str ''ds_port'' then S\<lparr>cns_ds_port := v\<rparr>
                 else if name = str ''server_id'' then S\<lparr>cns_server_id := v\<rparr>
                 else if name = str ''db_max_conn'' then S\<lparr>cns_max_conn_size := v\<rparr>
                 else S)"

definition cns_GetConfig :: "int \<Rightarrow> byte list \<Rightarrow> CenterServer \<Rightarrow> bool \<times> CenterServer" where
  "cns_GetConfig u file S =
     (let S1 = fold (center_conf_line u) (conf_lines file) S in (cns_server_port S1 \<noteq> 0, S1))"

text \<open>
  \<open>self\<close> and \<open>lself\<close> are the addresses of the server and of its listener, \<open>file\<close> is what is read
  of the configuration file.
\<close>

definition cns_InitServer :: "int \<Rightarrow> database \<Rightarrow> nat \<Rightarrow> byte list \<Rightarrow> CenterServer
    \<Rightarrow> (bool \<times> CenterServer) res" where
  "cns_InitServer u D self file S =
     (let (ok, S1) = cns_GetConfig u file S
      in if \<not> ok then Inr (False, S1)
         else
           let (_, L) = ccl_Init 50 (Some self) (cns_client_list S1);
               (ok, T) = sl_InitServer (cns_server_ip S1) (cns_server_port S1) (cns_count_worker S1)
                  (cns_count_user_per_worker S1) (cns_read_timeout S1) (cns_write_timeout S1) (cns_listenner S1);
               S2 = S1\<lparr>cns_client_list := L, cns_listenner := T\<rparr>
           in if \<not> ok then Inr (False, S2)
              else
                let S3 = S2\<lparr>cns_miku_db := my_Init (db_can_connect D) (cns_max_conn_size S2) (cns_miku_db S2)\<rparr>
                in res_bind (con_InitConnectionInfo (c_str (cns_ds_ip S3)) (cns_ds_port S3)
                       (cns_ds_connector S3)) (\<lambda>C. Inr (True, S3\<lparr>cns_ds_connector := C\<rparr>)))"

definition cns_StartServer :: "protobuf \<Rightarrow> sock_env \<Rightarrow> listen_env \<Rightarrow> nat \<Rightarrow> nat \<Rightarrow> CenterServer
    \<Rightarrow> (bool \<times> CenterServer) res" where
  "cns_StartServer pb E LE self lself S =
     res_bind (con_StartConnect (se_fuel E) (se_fd E) (se_conn E) (se_create E) (cns_ds_connector S)) (\<lambda>(ok, C).
       let S1 = S\<lparr>cns_ds_connector := C\<rparr>
       in if \<not> ok then Inr (False, S1)
          else
            res_bind (cdc_StartDSProcessor (Some self) (pb_ser pb) (se_create_proc E) 100 1 (Some self) S1 C)
              (\<lambda>(ok, C1).
              if \<not> ok then Inr (False, S1\<lparr>cns_ds_connector := con_Disconnect C1\<rparr>)
              else
                let S2 = S1\<lparr>cns_ds_connector := C1\<rparr>;
                    (ok, T) = sl_StartServer LE lself (cns_listenner S2)
                in Inr (ok, S2\<lparr>cns_listenner := T\<rparr>)))"

section \<open>Packing and querying\<close>

lemma pack_for_rs_ok:
  assumes "ser m = Some bs" "length bs + 18 \<le> 8192" "in_i32 msg_id"
  obtains rest where "pack_for_rs ser m msg_id
      = Inr (True, cyt_bytes (user_cyt msg_id bs) @ rest, int (length bs) + 18)"
proof -
  let ?b = "bs @ drop (length bs) (replicate 8192 0)" and ?c = "user_cyt msg_id bs"
  have l: "length bs < 2147483630" using assms(2) by simp
  have 1: "msg_SerializeToArray ser m (replicate 8192 0) = Inr (True, ?b)"
    using assms(1,2) by (intro msg_serialize_ok) simp_all
  have sz: "msg_ByteSize ser m = int (length bs)" using assms(1) by (simp add: msg_ByteSize_def)
  have 2: "cyt_build msg_id (int (length bs)) ?b = Inr ?c" by (intro cyt_build_ok) simp_all
  have 3: "cyt_SerializeToArray ?c (Some (replicate 8192 0)) (cyt_ByteSize ?c)
      = Inr (True, cyt_bytes ?c @ drop (length (cyt_bytes ?c)) (replicate 8192 0))"
    using assms(2,3) l by (intro cyt_serialize_bytes user_cyt_wf) simp_all
  have "pack_for_rs ser m msg_id = Inr (True,
      cyt_bytes ?c @ drop (length (cyt_bytes ?c)) (replicate 8192 0), int (length bs) + 18)"
    unfolding pack_for_rs_def 1 res_bind.simps case_prod_conv sz 2 3
    using user_cyt_size [OF assms(3) l] by simp
  then show ?thesis by (rule that)
qed

lemma cns_send_run:
  assumes "ser m = Some bs" "length bs + 18 \<le> 8192" "in_i32 msg_id"
  shows "\<exists>b. cns_SendDataToRS ser wr m msg_id fd S
    = Inr (b, S\<lparr>cns_out := cns_out S @ [(fd, cyt_bytes (user_cyt msg_id bs))]\<rparr>)"
proof -
  obtain rest where p: "pack_for_rs ser m msg_id
      = Inr (True, cyt_bytes (user_cyt msg_id bs) @ rest, int (length bs) + 18)"
    using pack_for_rs_ok [of ser m bs msg_id, OF assms] by blast
  have "mem_read (cyt_bytes (user_cyt msg_id bs) @ rest) 0 (int (length bs) + 18)
      = Inr (cyt_bytes (user_cyt msg_id bs))"
    by (rule mem_read_piece) simp
  then show ?thesis by (auto simp: cns_SendDataToRS_def p Let_def)
qed

lemma with_connection_inv:
  assumes "my_inv n P out"
  shows "my_inv n (snd (with_connection D q P)) out"
proof -
  obtain c P1 where g: "my_GetConnection (db_can_connect D) (db_closed D) P = (c, P1)" by fastforce
  note inv = my_GetConnection_inv [OF assms g]
  show ?thesis
  proof (cases c)
    case None
    then show ?thesis using g inv by (simp add: with_connection_def)
  next
    case (Some i)
    then show ?thesis using g inv
      by (auto simp: with_connection_def my_ReleaseConnection_def my_inv_def Let_def)
  qed
qed

lemma db_inv:
  assumes "my_inv n P out"
  shows "my_inv n (snd (db_UserLogin D uid psw P)) out" "my_inv n (snd (db_UserGiveGift D a b k g P)) out"
  using with_connection_inv [OF assms]
  by (simp_all add: db_UserLogin_def db_UserGiveGift_def Let_def split_def)

text \<open>A query over an open connection of the pool: the connection goes to the end of the list.\<close>

lemma with_connection_row:
  "my_list P = c # cs \<Longrightarrow> \<not> db_closed D c \<Longrightarrow>
   with_connection D q P = ((case q of Row x \<Rightarrow> (1, Some x) | _ \<Rightarrow> (0, None)), P\<lparr>my_list := cs @ [c]\<rparr>)"
  by (simp add: with_connection_def my_GetConnection_def my_ReleaseConnection_def Let_def)

text \<open>
  The answer to a gift has the two values of the database exchanged: its result is the new balance
  of the sender, and its balance is the result code.
\<close>

lemma gift_answer_run:
  assumes "pr_parent_ptr (ct_rs_processor (cns_clients S a)) = Some u" "pb_UserGiveGiftRQ pb bs = Some rq"
    and "my_list (cns_miku_db S) = c # cs" "\<not> db_closed D c"
    and "db_give_gift D (grq_user_id rq) (grq_dst_user_id rq) (grq_count_gift rq) (grq_gift_code rq)
      = Row (balance, code)"
    and "rs = \<lparr>grs_msg_id = E_USER_GIVE_GIFT_RS, grs_user_id = grq_user_id rq, grs_room_id = grq_room_id rq,
      grs_result = balance, grs_gift_code = grq_gift_code rq, grs_dst_user_id = grq_dst_user_id rq,
      grs_sender_red_d = code\<rparr>"
    and "pb_ser pb (P_UserGiveGiftRS rs) = Some m" "length m + 18 \<le> 8192"
  shows "CS_UserGiveGiftRQ_Execute pb D wr (Some s) (Some a) (bs @ rest) (int (length bs)) S
    = Inr (S\<lparr>cns_miku_db := (cns_miku_db S)\<lparr>my_list := cs @ [c]\<rparr>,
        cns_out := cns_out S @ [(user_sock (cns_clients S u), cyt_bytes (user_cyt E_USER_GIVE_GIFT_RS m))]\<rparr>)"
proof -
  let ?P = "(cns_miku_db S)\<lparr>my_list := cs @ [c]\<rparr>" and ?S = "\<lambda>P. S\<lparr>cns_miku_db := P\<rparr>"
  have d: "db_UserGiveGift D (grq_user_id rq) (grq_dst_user_id rq) (grq_count_gift rq) (grq_gift_code rq)
      (cns_miku_db S) = ((1, code, balance), ?P)"
    using assms(5) by (simp add: db_UserGiveGift_def with_connection_row [OF assms(3,4)])
  have "in_i32 E_USER_GIVE_GIFT_RS" by (simp add: in_i32_def)
  then obtain b where snd: "cns_SendDataToRS (pb_ser pb) wr (P_UserGiveGiftRS rs) E_USER_GIVE_GIFT_RS
      (user_sock (cns_clients S u)) (?S ?P)
    = Inr (b, (?S ?P)\<lparr>cns_out := cns_out S @ [(user_sock (cns_clients S u), cyt_bytes (user_cyt E_USER_GIVE_GIFT_RS m))]\<rparr>)"
    using cns_send_run [where S = "?S ?P" and ser = "pb_ser pb", OF assms(7,8)] by fastforce
  show ?thesis
    using assms(1,2) d snd assms(6)
    by (simp add: CS_UserGiveGiftRQ_Execute_def with_parent_def parse_from_whole Let_def)
qed

text \<open>A login request that the database knows the user of: one packet to the room server, with the answer.\<close>

lemma login_answer_run:
  assumes "pr_parent_ptr (ct_rs_processor (cns_clients S a)) = Some u" "pb_UserLoginRQ pb bs = Some rq"
    and "my_list (cns_miku_db S) = c # cs" "\<not> db_closed D c" "db_user_login D (lrq_user_id rq) = Row r"
    and "rs = login_answer rq (if map tolower (lr_user_psw r) = map tolower (lrq_user_psw rq) then 1 else 0) r"
    and "pb_ser pb (P_UserLoginRS rs) = Some m" "length m + 18 \<le> 8192"
  shows "CS_ClientLoginRQ_Execute pb D wr (Some s) (Some a) (bs @ rest) (int (length bs)) S
    = Inr (S\<lparr>cns_miku_db := (cns_miku_db S)\<lparr>my_list := cs @ [c]\<rparr>,
        cns_out := cns_out S @ [(user_sock (cns_clients S u), cyt_bytes (user_cyt E_USER_LOGIN_RS m))]\<rparr>)"
proof -
  let ?P = "(cns_miku_db S)\<lparr>my_list := cs @ [c]\<rparr>" and ?S = "\<lambda>P. S\<lparr>cns_miku_db := P\<rparr>"
  have d: "db_UserLogin D (lrq_user_id rq) (lrq_user_psw rq) (cns_miku_db S)
      = ((1, if map tolower (lr_user_psw r) = map tolower (lrq_user_psw rq) then 1 else 0, Some r), ?P)"
    using assms(5) by (simp add: db_UserLogin_def with_connection_row [OF assms(3,4)])
  have "in_i32 E_USER_LOGIN_RS" by (simp add: in_i32_def)
  then obtain b where snd: "cns_SendDataToRS (pb_ser pb) wr (P_UserLoginRS rs) E_USER_LOGIN_RS
      (user_sock (cns_clients S u)) (?S ?P)
    = Inr (b, (?S ?P)\<lparr>cns_out := cns_out S @ [(user_sock (cns_clients S u), cyt_bytes (user_cyt E_USER_LOGIN_RS m))]\<rparr>)"
    using cns_send_run [where S = "?S ?P" and ser = "pb_ser pb", OF assms(7,8)] by fastforce
  show ?thesis
    using assms(1,2,6) d snd by (simp add: CS_ClientLoginRQ_Execute_def with_parent_def parse_from_whole)
qed

section \<open>Properties\<close>

text \<open>
  C13: A login request at the center server is answered with one packet to the room server that
  sent it: it carries the data of the user's row and says 1 exactly when the password is the
  stored one up to case. The database connection that was used is back in the pool.
\<close>

theorem center_login:
  assumes "pr_parent_ptr (ct_rs_processor (cns_clients S a)) = Some u" "pb_UserLoginRQ pb bs = Some rq"
    and "my_list (cns_miku_db S) = c # cs" "\<not> db_closed D c" "db_user_login D (lrq_user_id rq) = Row r"
    and "rs = login_answer rq (if map tolower (lr_user_psw r) = map tolower (lrq_user_psw rq) then 1 else 0) r"
    and "pb_ser pb (P_UserLoginRS rs) = Some m" "length m + 18 \<le> 8192"
  shows "CS_ClientLoginRQ_Execute pb D wr (Some s) (Some a) (bs @ rest) (int (length bs)) S
    = Inr (S\<lparr>cns_miku_db := (cns_miku_db S)\<lparr>my_list := cs @ [c]\<rparr>,
        cns_out := cns_out S @ [(user_sock (cns_clients S u), cyt_bytes (user_cyt E_USER_LOGIN_RS m))]\<rparr>)"
  by (rule login_answer_run [OF assms])

definition ex_row :: login_row where
  "ex_row = \<lparr>lr_user_psw = [65, 98], lr_user_red_d = 7, lr_user_blue_d = 8, lr_user_level = 1,
     lr_buyer_riches = 0, lr_buyer_grow_up = 0, lr_buyer_honour = 0, lr_buyer_estimate = 0,
     lr_seller_income = 0, lr_seller_exp = 0, lr_seller_pop = 0, lr_seller_estimate = 0\<rparr>"

definition ex_db :: database where
  "ex_db = \<lparr>db_can_connect = (\<lambda>_. True), db_closed = (\<lambda>_. False), db_user_login = (\<lambda>_. Row ex_row),
     db_give_gift = (\<lambda>_ _ _ _. Row (50, 1))\<rparr>"

definition ex_center_pb :: protobuf where
  "ex_center_pb = \<lparr>pb_ser = (\<lambda>_. Some [1, 2]),
     pb_UserLoginRQ = (\<lambda>_. Some \<lparr>lrq_user_id = 4, lrq_room_id = 16000, lrq_user_psw = [97, 66],
       lrq_user_account_name = [75]\<rparr>),
     pb_UserLoginRS = (\<lambda>_. None), pb_UserMsgRQ = (\<lambda>_. None),
     pb_UserGiveGiftRQ = (\<lambda>_. Some \<lparr>grq_user_id = 4, grq_room_id = 16000, grq_gift_code = [1],
       grq_dst_user_id = 5, grq_count_gift = 1\<rparr>),
     pb_UserGiveGiftRS = (\<lambda>_. None), pb_RoomUser = (\<lambda>_ _. None),
     pb_DsServerConnectRs = (\<lambda>_. Some \<lparr>dcs_result = 0\<rparr>), pb_DsGSGetRoomInfoRs = (\<lambda>_. None),
     pb_DsGetCsInfoRs = (\<lambda>_. None)\<rparr>"

definition ex_dsc :: DirectorServerConnector where
  "ex_dsc = Connector.extend con_new \<lparr>dsc_server_ptr = None, dsc_recv_list = cl_new 1000, dsc_processor = pr_new\<rparr>"

definition ex_cns :: CenterServer where
  "ex_cns = \<lparr>cns_server_id = 0, cns_server_ip = [], cns_server_port = 0, cns_count_worker = 0,
     cns_count_user_per_worker = 0, cns_read_timeout = 0, cns_write_timeout = 0, cns_ds_ip = [],
     cns_ds_port = 0, cns_db_addr = [], cns_db_user = [], cns_db_psw = [], cns_db_name = [],
     cns_max_conn_size = 0, cns_client_list = ccl_new,
     cns_clients = (\<lambda>_. ct_new\<lparr>user_sock := 9, ct_rs_processor := pr_new\<lparr>pr_parent_ptr := Some 0\<rparr>\<rparr>),
     cns_listenner = sl_new, cns_miku_db = \<lparr>my_cur_size = 1, my_max_size = 2, my_list = [0], my_made = 1\<rparr>,
     cns_ds_connector = ex_dsc, cns_out = []\<rparr>"

theorem center_login_witness:
  "CS_ClientLoginRQ_Execute ex_center_pb ex_db (\<lambda>_ _. 1) (Some 1) (Some 0) ([1, 2] @ [0]) (int (length [1, 2 :: byte])) ex_cns
    = Inr (ex_cns\<lparr>cns_miku_db := (cns_miku_db ex_cns)\<lparr>my_list := [] @ [0]\<rparr>,
        cns_out := cns_out ex_cns @ [(user_sock (cns_clients ex_cns 0), cyt_bytes (user_cyt E_USER_LOGIN_RS [1, 2]))]\<rparr>)"
  by (rule center_login [where r = ex_row and rq = "the (pb_UserLoginRQ ex_center_pb [1, 2])", OF _ _ _ _ _ refl])
    (simp_all add: ex_cns_def ex_center_pb_def ex_db_def)

text \<open>
  C29: When the database refuses a request - an exception, no result, no row - the center server
  answers nothing, to a login as to a gift, and the connection goes back to the pool. The room
  server never learns of it.
\<close>

theorem center_silent_on_db_error:
  assumes "pr_parent_ptr (ct_rs_processor (cns_clients S a)) = Some u" "my_list (cns_miku_db S) = c # cs"
    and "\<not> db_closed D c"
    and "pb_UserLoginRQ pb bs = Some rq" "\<nexists>r. db_user_login D (lrq_user_id rq) = Row r"
    and "pb_UserGiveGiftRQ pb gs = Some g"
    and "\<nexists>r. db_give_gift D (grq_user_id g) (grq_dst_user_id g) (grq_count_gift g) (grq_gift_code g) = Row r"
  shows "CS_ClientLoginRQ_Execute pb D wr (Some s) (Some a) (bs @ rest) (int (length bs)) S
      = Inr (S\<lparr>cns_miku_db := (cns_miku_db S)\<lparr>my_list := cs @ [c]\<rparr>\<rparr>)
    \<and> CS_UserGiveGiftRQ_Execute pb D wr (Some s) (Some a) (gs @ rest) (int (length gs)) S
      = Inr (S\<lparr>cns_miku_db := (cns_miku_db S)\<lparr>my_list := cs @ [c]\<rparr>\<rparr>)"
proof -
  have q: "with_connection D q (cns_miku_db S) = ((0, None), (cns_miku_db S)\<lparr>my_list := cs @ [c]\<rparr>)"
    if "\<nexists>r. q = Row r" for q :: "'r sql"
    using that with_connection_row [OF assms(2,3), of q] by (cases q) auto
  show ?thesis
    using assms(1,4,6) by (simp add: CS_ClientLoginRQ_Execute_def CS_UserGiveGiftRQ_Execute_def with_parent_def
        parse_from_whole db_UserLogin_def db_UserGiveGift_def q [OF assms(5)] q [OF assms(7)])
qed

definition ex_bad_db :: database where
  "ex_bad_db = ex_db\<lparr>db_user_login := (\<lambda>_. Sql_error), db_give_gift := (\<lambda>_ _ _ _. No_row)\<rparr>"

theorem center_silent_on_db_error_witness:
  "CS_ClientLoginRQ_Execute ex_center_pb ex_bad_db (\<lambda>_ _. 1) (Some 1) (Some 0) ([1] @ [0]) (int (length [1 :: byte])) ex_cns
      = Inr (ex_cns\<lparr>cns_miku_db := (cns_miku_db ex_cns)\<lparr>my_list := [] @ [0]\<rparr>\<rparr>)
    \<and> CS_UserGiveGiftRQ_Execute ex_center_pb ex_bad_db (\<lambda>_ _. 1) (Some 1) (Some 0) ([2] @ [0]) (int (length [2 :: byte])) ex_cns
      = Inr (ex_cns\<lparr>cns_miku_db := (cns_miku_db ex_cns)\<lparr>my_list := [] @ [0]\<rparr>\<rparr>)"
  by (rule center_silent_on_db_error [where rq = "the (pb_UserLoginRQ ex_center_pb [1])"
        and g = "the (pb_UserGiveGiftRQ ex_center_pb [2])"])
    (simp_all add: ex_cns_def ex_bad_db_def ex_db_def ex_center_pb_def)

text \<open>
  When the director server refuses the center server, the server stops: the connection to the
  director server is given up and every event loop is told to exit. If the refusal is handled
  before the listener has been started, which \<open>StartServer\<close> does after it has started the
  thread that handles it, the server goes through a null pointer instead.
\<close>

theorem center_refused:
  assumes "pb_DsServerConnectRs pb bs = Some rs" "dcs_result rs = 0" "0 < w"
    and "sl_StartServer E self (snd (sl_InitServer ip port w u rt wt sl_new)) = (True, T)"
  shows "(\<exists>S'. CS_ConnectDirectorServerRS_Execute pb (Some s) True (bs @ rest) (int (length bs))
        (S\<lparr>cns_listenner := T\<rparr>) = Inr S'
      \<and> \<not> con_is_started (cns_ds_connector S') \<and> con_client_fd (cns_ds_connector S') = -1
      \<and> length (sl_workers (cns_listenner S')) = nat w
      \<and> (\<forall>W \<in> set (sl_workers (cns_listenner S')). wk_exit W) \<and> sl_base (cns_listenner S') = Some True)
    \<and> CS_ConnectDirectorServerRS_Execute pb (Some s) True (bs @ rest) (int (length bs))
        (S\<lparr>cns_listenner := snd (sl_InitServer ip port w u rt wt sl_new)\<rparr>) = Inl Null_deref"
proof -
  have e: "CS_ConnectDirectorServerRS_Execute pb (Some s) True (bs @ rest) (int (length bs)) S1 = cns_StopServer S1" for S1
    using assms(1,2) by (simp add: CS_ConnectDirectorServerRS_Execute_def parse_from_whole)
  show ?thesis
  proof (unfold e, intro conjI, goal_cases)
    case 1
    show ?case using sl_start_ready [OF assms(4)]
      by (auto simp: cns_StopServer_def sl_StopServer_def sl_ready_def con_Disconnect_def Let_def)
  next
    case 2
    show ?case using assms(3) by (simp add: cns_StopServer_def sl_StopServer_def sl_InitServer_def sl_new_def)
  qed
qed

theorem center_refused_witness:
  "(\<exists>S'. CS_ConnectDirectorServerRS_Execute ex_center_pb (Some 1) True ([1] @ [0]) (int (length [1 :: byte]))
        (ex_cns\<lparr>cns_listenner := ex_listener\<rparr>) = Inr S'
      \<and> \<not> con_is_started (cns_ds_connector S') \<and> con_client_fd (cns_ds_connector S') = -1
      \<and> length (sl_workers (cns_listenner S')) = nat 1
      \<and> (\<forall>W \<in> set (sl_workers (cns_listenner S')). wk_exit W) \<and> sl_base (cns_listenner S') = Some True)
    \<and> CS_ConnectDirectorServerRS_Execute ex_center_pb (Some 1) True ([1] @ [0]) (int (length [1 :: byte]))
        (ex_cns\<lparr>cns_listenner := snd (sl_InitServer [] 9000 1 10 0 0 sl_new)\<rparr>) = Inl Null_deref"
  by (rule center_refused [where rs = "\<lparr>dcs_result = 0\<rparr>", OF _ _ _ ex_started]) (simp_all add: ex_center_pb_def)

section \<open>Reading the configuration\<close>

text \<open>A configuration file with all entries of a server's configuration.\<close>

definition center_conf :: "CenterServer \<Rightarrow> (string \<times> byte list) list" where
  "center_conf C =
     [(''server_id'', show_dec (nat (cns_server_id C))), (''ip'', cns_server_ip C),
      (''port'', show_dec (nat (cns_server_port C))), (''count_worker'', show_dec (nat (cns_count_worker C))),
      (''user_per_worker'', show_dec (nat (cns_count_user_per_worker C))),
      (''read_timeout'', show_dec (nat (cns_read_timeout C))),
      (''write_timeout'', show_dec (nat (cns_write_timeout C))),
      (''ds_ip'', cns_ds_ip C), (''ds_port'', show_dec (nat (cns_ds_port C))),
      (''db_addr'', cns_db_addr C), (''db_user'', cns_db_user C), (''db_psw'', cns_db_psw C),
      (''db_name'', cns_db_name C), (''db_max_conn'', show_dec (nat (cns_max_conn_size C)))]"

definition conf_file :: "(string \<times> byte list) list \<Rightarrow> byte list" where
  "conf_file es = concat (map (\<lambda>(name, v). conf_entry name v) es)"

definition center_conf_ok :: "CenterServer \<Rightarrow> bool" where
  "center_conf_ok C \<longleftrightarrow> list_all word_ok [cns_server_ip C, cns_ds_ip C, cns_db_addr C, cns_db_user C,
       cns_db_psw C, cns_db_name C]
     \<and> list_all (\<lambda>n. 0 \<le> n \<and> n < 2147483648) [cns_server_id C, cns_server_port C, cns_count_worker C,
       cns_count_user_per_worker C, cns_read_timeout C, cns_write_timeout C, cns_ds_port C, cns_max_conn_size C]"

lemma fold_conf_file:
  assumes "\<forall>(name, v) \<in> set es. word_ok (str name) \<and> word_ok v" "10 \<notin> set rest"
  shows "conf_lines (conf_file es @ rest) = map (\<lambda>(name, v). str name @ 9 # v) es"
  using assms by (induction es) (auto simp: conf_file_def conf_entry_lines(1))

lemma tab_word: "word_ok w \<Longrightarrow> read_word upd (9 # w) S = upd w S"
  using read_word_word [of w "[9]" upd S] by (simp add: is_space_def)

lemma tab_int: "0 \<le> n \<Longrightarrow> n < 2147483648 \<Longrightarrow> read_int u (9 # show_dec (nat n)) = n"
  using read_int_show [of "nat n" "[9]" u] by (simp add: is_space_def)

lemma center_entry:
  assumes "word_ok (str name)" "word_ok v"
  shows "center_conf_line u (str name @ 9 # v) S =
     (if name = ''ip'' then S\<lparr>cns_server_ip := v\<rparr>
      else if name = ''ds_ip'' then S\<lparr>cns_ds_ip := v\<rparr>
      else if name = ''db_addr'' then S\<lparr>cns_db_addr := v\<rparr>
      else if name = ''db_user'' then S\<lparr>cns_db_user := v\<rparr>
      else if name = ''db_psw'' then S\<lparr>cns_db_psw := v\<rparr>
      else if name = ''db_name'' then S\<lparr>cns_db_name := v\<rparr>
      else
        let n = read_int u (9 # v)
        in if name = ''port'' then S\<lparr>cns_server_port := n\<rparr>
           else if name = ''count_worker'' then S\<lparr>cns_count_worker := n\<rparr>
           else if name = ''user_per_worker'' then S\<lparr>cns_count_user_per_worker := n\<rparr>
           else if name = ''read_timeout'' then S\<lparr>cns_read_timeout := n\<rparr>
           else if name = ''write_timeout'' then S\<lparr>cns_write_timeout := n\<rparr>
           else if name = ''ds_port'' then S\<lparr>cns_ds_port := n\<rparr>
           else if name = ''server_id'' then S\<lparr>cns_server_id := n\<rparr>
           else if name = ''db_max_conn'' then S\<lparr>cns_max_conn_size := n\<rparr>
           else S)"
proof -
  have k: "conf_skipped (str name @ 9 # v) = False" using conf_entry_lines(3) [OF assms] by simp
  show ?thesis unfolding center_conf_line_def
    by (simp only: conf_entry_lines(2) [OF assms, simplified] k str_eq if_False option.case prod.case Let_def
        tab_word [OF assms(2)])
qed

lemma conf_names:
  "list_all (\<lambda>n. word_ok (str n)) [''ip'', ''ds_ip'', ''db_addr'', ''db_user'', ''db_psw'', ''db_name'', ''port'',
     ''count_worker'', ''user_per_worker'', ''read_timeout'', ''write_timeout'', ''ds_port'', ''server_id'',
     ''db_max_conn'']"
  by (simp add: word_ok_def str_def is_space_def byte_of_def)

text \<open>
  C26: Configuration round trip of the center server: from a file with an entry for each of its
  fields \<open>GetConfig\<close> reads exactly these fields, whatever they were before, and succeeds unless
  the port is 0. What follows the last newline is ignored, even when it is an entry.
\<close>

theorem center_config_roundtrip:
  assumes "center_conf_ok C" "10 \<notin> set rest"
  shows "cns_GetConfig u (conf_file (center_conf C) @ rest) S = (cns_server_port C \<noteq> 0,
      S\<lparr>cns_server_id := cns_server_id C, cns_server_ip := cns_server_ip C, cns_server_port :=
      cns_server_port C, cns_count_worker := cns_count_worker C, cns_count_user_per_worker :=
      cns_count_user_per_worker C, cns_read_timeout := cns_read_timeout C, cns_write_timeout :=
      cns_write_timeout C, cns_ds_ip := cns_ds_ip C, cns_ds_port := cns_ds_port C, cns_db_addr :=
      cns_db_addr C, cns_db_user := cns_db_user C, cns_db_psw := cns_db_psw C, cns_db_name :=
      cns_db_name C, cns_max_conn_size := cns_max_conn_size C\<rparr>)"
proof -
  have w: "\<forall>(name, v) \<in> set (center_conf C). word_ok (str name) \<and> word_ok v"
    using assms(1) conf_names by (simp add: center_conf_def center_conf_ok_def show_dec_word)
  have l: "conf_lines (conf_file (center_conf C) @ rest) = map (\<lambda>(name, v). str name @ 9 # v) (center_conf C)"
    by (rule fold_conf_file [OF w assms(2)])
  show ?thesis
    unfolding cns_GetConfig_def l using assms(1) conf_names
    by (simp add: center_conf_def center_conf_ok_def center_entry show_dec_word tab_int Let_def)
qed

definition ex_conf :: CenterServer where
  "ex_conf = ex_cns\<lparr>cns_server_id := 3, cns_server_ip := str ''10.0.0.1'', cns_server_port := 5560,
     cns_count_worker := 2, cns_count_user_per_worker := 100, cns_read_timeout := 10, cns_write_timeout := 10,
     cns_ds_ip := str ''10.0.0.2'', cns_ds_port := 9000, cns_db_addr := str ''db'', cns_db_user := str ''miku'',
     cns_db_psw := str ''miku123456'', cns_db_name := str ''mmikuapp'', cns_max_conn_size := 32\<rparr>"

theorem center_config_roundtrip_witness:
  "cns_GetConfig 7 (conf_file (center_conf ex_conf) @ str ''port 1'') ex_cns = (cns_server_port ex_conf \<noteq> 0,
      ex_cns\<lparr>cns_server_id := cns_server_id ex_conf, cns_server_ip := cns_server_ip ex_conf,
      cns_server_port := cns_server_port ex_conf, cns_count_worker := cns_count_worker ex_conf,
      cns_count_user_per_worker := cns_count_user_per_worker ex_conf, cns_read_timeout :=
      cns_read_timeout ex_conf, cns_write_timeout := cns_write_timeout ex_conf, cns_ds_ip :=
      cns_ds_ip ex_conf, cns_ds_port := cns_ds_port ex_conf, cns_db_addr := cns_db_addr ex_conf,
      cns_db_user := cns_db_user ex_conf, cns_db_psw := cns_db_psw ex_conf, cns_db_name :=
      cns_db_name ex_conf, cns_max_conn_size := cns_max_conn_size ex_conf\<rparr>)"
  by (rule center_config_roundtrip)
    (simp_all add: center_conf_ok_def ex_conf_def word_ok_def str_def is_space_def byte_of_def)

end
