(* ===== verification/Gate_Parts.thy ===== *)
theory Gate_Parts
  imports Listenner Room_Server
begin

text \<open>
  The parts of the gate server (\<open>gate_server\<close>): the table of rooms with the sockets of their room
  servers (\<open>chat_room.cpp\<close>, \<open>room_manager.cpp\<close>), the connections of clients and their list
  (\<open>user_info_list.cpp\<close>), the processor that holds the packets of clients back until their room is
  known (\<open>cl_processor.cpp\<close>), and the connection to a room server with its processor
  (\<open>rs_connector.cpp\<close>, \<open>rs_processor.cpp\<close>).
\<close>

section \<open>Rooms\<close>

record GateRoom =
  gr_room_id :: int
  gr_server_fd :: int

definition grm_new :: GateRoom where
  "grm_new = \<lparr>gr_room_id = 0, gr_server_fd = -1\<rparr>"

definition grm_SetRoom :: "int \<Rightarrow> int \<Rightarrow> GateRoom \<Rightarrow> bool \<times> GateRoom" where
  "grm_SetRoom rid fd R = (True, R\<lparr>gr_room_id := rid, gr_server_fd := fd\<rparr>)"

text \<open>The manager with the room objects it allocates; \<open>gmg_next\<close> is the next fresh address.\<close>

record GateRoomManager =
  gmg_list :: "(int \<times> ptr) list"
  gmg_rooms :: "nat \<Rightarrow> GateRoom"
  gmg_next :: nat

definition gmg_new :: GateRoomManager where
  "gmg_new = \<lparr>gmg_list = [], gmg_rooms = (\<lambda>_. grm_new), gmg_next = 0\<rparr>"

definition gmg_AddRoom :: "int \<Rightarrow> int \<Rightarrow> GateRoomManager \<Rightarrow> bool \<times> GateRoomManager" where
  "gmg_AddRoom rid fd M =
     (let (v, m) = map_index None (gmg_list M) rid
      in if v \<noteq> None then (True, M\<lparr>gmg_list := m\<rparr>)
         else
           let a = gmg_next M; (_, R) = grm_SetRoom rid fd grm_new
           in (True, M\<lparr>gmg_list := map_put rid (Some a) m, gmg_rooms := (gmg_rooms M)(a := R),
                 gmg_next := Suc a\<rparr>))"

definition gmg_GetChatRoom :: "int \<Rightarrow> GateRoomManager \<Rightarrow> ptr \<times> GateRoomManager" where
  "gmg_GetChatRoom rid M =
     (let (v, m) = map_index None (gmg_list M) rid in (v, M\<lparr>gmg_list := m\<rparr>))"

definition gmg_DelRoom :: "int \<Rightarrow> GateRoomManager \<Rightarrow> bool \<times> GateRoomManager" where
  "gmg_DelRoom rid M =
     (case map_of (gmg_list M) rid of
        None \<Rightarrow> (False, M)
      | Some _ \<Rightarrow> (True, M\<lparr>gmg_list := map_erase rid (gmg_list M)\<rparr>))"

text \<open>The socket of a room, if the gate knows the room.\<close>

definition gmg_socket :: "GateRoomManager \<Rightarrow> int \<Rightarrow> int option" where
  "gmg_socket M rid = map_option (\<lambda>a. gr_server_fd (gmg_rooms M a)) (live (gmg_list M) rid)"

definition gmg_wf :: "GateRoomManager \<Rightarrow> bool" where
  "gmg_wf M \<longleftrightarrow> (\<forall>rid a. live (gmg_list M) rid = Some a \<longrightarrow> a < gmg_next M)"

lemma gmg_get:
  "fst (gmg_GetChatRoom rid M) = live (gmg_list M) rid"
  "gmg_socket (snd (gmg_GetChatRoom rid M)) = gmg_socket M"
  "gmg_wf (snd (gmg_GetChatRoom rid M)) = gmg_wf M"
  "gmg_rooms (snd (gmg_GetChatRoom rid M)) = gmg_rooms M"
  "live (gmg_list (snd (gmg_GetChatRoom rid M))) = live (gmg_list M)"
  by (simp_all add: gmg_GetChatRoom_def split_def gmg_socket_def gmg_wf_def fun_eq_iff)

lemma gmg_add:
  assumes "gmg_wf M"
  shows "gmg_wf (snd (gmg_AddRoom rid fd M)) \<and> fst (gmg_AddRoom rid fd M)
    \<and> gmg_socket (snd (gmg_AddRoom rid fd M)) =
        (if gmg_socket M rid = None then (gmg_socket M)(rid \<mapsto> fd) else gmg_socket M)"
proof (cases "live (gmg_list M) rid")
  case None
  have "live (gmg_list M) r \<noteq> Some (gmg_next M)" for r using assms by (auto simp: gmg_wf_def)
  then show ?thesis using None assms
    by (auto simp: gmg_AddRoom_def split_def Let_def gmg_socket_def gmg_wf_def grm_SetRoom_def fun_eq_iff
        less_SucI intro!: option.map_cong0 split: option.split)
next
  case (Some a)
  then show ?thesis using assms
    by (auto simp: gmg_AddRoom_def split_def Let_def gmg_socket_def gmg_wf_def fun_eq_iff)
qed

lemma gmg_del:
  "gmg_wf M \<Longrightarrow> gmg_wf (snd (gmg_DelRoom rid M))
     \<and> gmg_socket (snd (gmg_DelRoom rid M)) = (gmg_socket M)(rid := None)"
  by (auto simp: gmg_DelRoom_def gmg_wf_def gmg_socket_def live_def fun_eq_iff split: option.splits)

section \<open>Clients\<close>

record GateUser = BaseUserInfo +
  gu_valid_buff_len :: int
  gu_recved_buff :: "byte list"
  gu_gate_server :: ptr

definition gu_new :: GateUser where
  "gu_new = BaseUserInfo.extend BaseUserInfo_new
     \<lparr>gu_valid_buff_len = 0, gu_recved_buff = replicate MaxRecvBuffLen 0, gu_gate_server = None\<rparr>"

definition gu_Clear :: "GateUser \<Rightarrow> GateUser" where
  "gu_Clear u = u\<lparr>user_sock := 0, hash_key := 0, user_uip := 0, user_uport := 0, server_ptr := None,
     gu_valid_buff_len := 0\<rparr>"

record GateUserList =
  gul_unused :: UserResourceManager
  gul_users :: "(int \<times> ptr) list"
  gul_gate_server :: ptr

definition gul_new :: GateUserList where
  "gul_new = \<lparr>gul_unused = rm_new 0, gul_users = [], gul_gate_server = None\<rparr>"

definition gul_GetUserInfo :: "GateUserList \<Rightarrow> ptr \<times> GateUserList" where
  "gul_GetUserInfo L = (let (u, R) = rm_Get (gul_unused L) in (u, L\<lparr>gul_unused := R\<rparr>))"

definition gul_ReleaseUserInfo :: "ptr \<Rightarrow> GateUserList \<times> GateUser client_store
    \<Rightarrow> (GateUserList \<times> GateUser client_store) res" where
  "gul_ReleaseUserInfo user = (\<lambda>(L, h).
     res_bind (deref user) (\<lambda>a.
       let (v, m) = map_index None (gul_users L) (hash_key (h a));
           m1 = (if v \<noteq> None then map_erase (hash_key (h a)) m else m);
           (_, R) = rm_Put user (gul_unused L)
       in Inr (L\<lparr>gul_users := m1, gul_unused := R\<rparr>, h(a := gu_Clear (h a)))))"

definition gul_GetUserByHashkey :: "int \<Rightarrow> GateUserList \<Rightarrow> ptr \<times> GateUserList" where
  "gul_GetUserByHashkey key L =
     (let (v, m) = map_index None (gul_users L) key in (v, L\<lparr>gul_users := m\<rparr>))"

definition gul_Init :: "int \<Rightarrow> ptr \<Rightarrow> GateUserList \<Rightarrow> int \<times> GateUserList" where
  "gul_Init max_user server L =
     (let (n, R) = rm_Init max_user (gul_unused L)
      in (n, L\<lparr>gul_gate_server := server, gul_unused := R\<rparr>))"

definition gul_AddUserInfo :: "int \<Rightarrow> ptr \<Rightarrow> GateUserList \<times> GateUser client_store
    \<Rightarrow> (bool \<times> GateUserList \<times> GateUser client_store) res" where
  "gul_AddUserInfo key user = (\<lambda>(L, h).
     let (v, m) = map_index None (gul_users L) key
     in if v \<noteq> None then Inr (False, L\<lparr>gul_users := m\<rparr>, h)
        else
          res_bind (deref user) (\<lambda>a.
            Inr (True, L\<lparr>gul_users := map_put key user m\<rparr>,
              h(a := (h a)\<lparr>hash_key := key, gu_gate_server := gul_gate_server L\<rparr>))))"

section \<open>\<open>ClientProcessor\<close>\<close>

text \<open>
  \<open>clp_thread\<close> says whether the thread was created; \<open>clp_out_buff\<close> and \<open>clp_out_len\<close> are the
  thread's variables, which keep their values between rounds.
\<close>

record ClientProcessor = "unit BaseProcessor" +
  clp_gate_server :: ptr
  clp_thread :: bool
  clp_is_started :: bool
  clp_room_list :: "(int \<times> int) list"
  clp_out_buff :: "byte list"
  clp_out_len :: int

definition clp_new :: ClientProcessor where
  "clp_new = BaseProcessor.extend bp_new \<lparr>clp_gate_server = None, clp_thread = False,
     clp_is_started = False, clp_room_list = [], clp_out_buff = replicate 0x2000 0, clp_out_len = 0\<rparr>"

definition clp_InitProcessor :: "int \<Rightarrow> ptr \<Rightarrow> ptr \<Rightarrow> ClientProcessor \<Rightarrow> (bool \<times> ClientProcessor) res" where
  "clp_InitProcessor max_list_size caller server P =
     res_bind (bp_InitProcessor max_list_size server P) (\<lambda>(_, P1).
       Inr (True, P1\<lparr>clp_gate_server := caller\<rparr>))"

definition clp_StartProcessor :: "int \<Rightarrow> ClientProcessor \<Rightarrow> bool \<times> ClientProcessor" where
  "clp_StartProcessor create P =
     (if create \<noteq> 0 then (False, P\<lparr>clp_is_started := False\<rparr>)
      else (True, P\<lparr>clp_is_started := True, clp_thread := True\<rparr>))"

text \<open>\<open>StopProcessor\<close> joins the thread; without one it joins an id that is 0.\<close>

definition clp_StopProcessor :: "ClientProcessor \<Rightarrow> ClientProcessor res" where
  "clp_StopProcessor P =
     (if \<not> clp_thread P then Inl Undefined
      else Inr (P\<lparr>clp_is_started := False, clp_thread := False\<rparr>))"

definition clp_AddOneUndealPack :: "byte list \<Rightarrow> int \<Rightarrow> int \<Rightarrow> int \<Rightarrow> ClientProcessor
    \<Rightarrow> (bool \<times> ClientProcessor) res" where
  "clp_AddOneUndealPack buff len rid key P =
     (let (v, m) = map_index 0 (clp_room_list P) rid;
          P1 = P\<lparr>clp_room_list := (if v = 0 then map_put rid rid m else m)\<rparr>
      in if len < 0x2000 - 4 then
           res_bind (memcpy (replicate 0x2000 0) 0 buff 0 len) (\<lambda>b.
           res_bind (memcpy b len (le4 key) 0 4) (\<lambda>b1.
           res_bind (cl_AddBuffer b1 (len + 4) (bp_data_list P1)) (\<lambda>(_, L).
             Inr (True, P1\<lparr>bp_data_list := L\<rparr>))))
         else Inr (True, P1))"

definition clp_DeleteRoom :: "int \<Rightarrow> ClientProcessor \<Rightarrow> ClientProcessor" where
  "clp_DeleteRoom rid P = P\<lparr>clp_room_list := map_erase rid (clp_room_list P)\<rparr>"

section \<open>Connection to a room server\<close>

abbreviation MaxDealBuffLen :: nat where "MaxDealBuffLen \<equiv> 16384"

record GateRSProcessor = "unit Processor" +
  grp_deal_buff :: "byte list"
  grp_valid_buff_len :: int

definition grp_new :: GateRSProcessor where
  "grp_new = Processor.extend pr_new \<lparr>grp_deal_buff = replicate MaxDealBuffLen 0, grp_valid_buff_len = 0\<rparr>"

definition grp_InitProcessor :: "int \<Rightarrow> ptr \<Rightarrow> ptr \<Rightarrow> GateRSProcessor \<Rightarrow> (bool \<times> GateRSProcessor) res" where
  "grp_InitProcessor max_list_size caller server P =
     res_bind (bp_InitProcessor max_list_size server P) (\<lambda>(_, P1).
       Inr (True, P1\<lparr>pr_parent_ptr := caller\<rparr>))"

definition grp_StartProcessor ::
  "(nat \<Rightarrow> int) \<Rightarrow> int \<Rightarrow> GateRSProcessor \<Rightarrow> bool \<times> GateRSProcessor" where
  "grp_StartProcessor create thread_count P = pr_start bool_stop create thread_count P"

definition grp_StopProcessor :: "GateRSProcessor \<Rightarrow> GateRSProcessor res" where
  "grp_StopProcessor P = pr_stop P"

record RoomServerConnector = Connector +
  rsc_server_ptr :: ptr
  rsc_recv_list :: CircleList
  rsc_processor :: GateRSProcessor

definition rsc_new :: "RoomServerConnector res" where
  "rsc_new = res_bind (cl_InitBuffer 1000 (cl_new 0)) (\<lambda>L.
     Inr (Connector.extend con_new \<lparr>rsc_server_ptr = None, rsc_recv_list = L, rsc_processor = grp_new\<rparr>))"

definition rsc_StartRSProcessor :: "ptr \<Rightarrow> (nat \<Rightarrow> int) \<Rightarrow> int \<Rightarrow> int \<Rightarrow> ptr
    \<Rightarrow> RoomServerConnector \<Rightarrow> (bool \<times> RoomServerConnector) res" where
  "rsc_StartRSProcessor self create list_size thread_count server C =
     res_bind (grp_InitProcessor list_size self server (rsc_processor C)) (\<lambda>(ok, P).
       let C1 = C\<lparr>rsc_server_ptr := server, rsc_processor := P\<rparr>
       in if \<not> ok then Inr (False, C1)
          else
            let (ok, P1) = grp_StartProcessor create thread_count P;
                C2 = C1\<lparr>rsc_processor := P1\<rparr>
            in if \<not> ok then Inr (False, C2) else Inr (True, C2))"

definition rsc_DealWithData ::
  "byte list \<Rightarrow> int \<Rightarrow> RoomServerConnector \<Rightarrow> RoomServerConnector res" where
  "rsc_DealWithData buff len C =
     (if pr_is_started (rsc_processor C)
      then res_bind (cl_AddBuffer buff len (bp_data_list (rsc_processor C))) (\<lambda>(_, L).
             Inr (C\<lparr>rsc_processor := (rsc_processor C)\<lparr>bp_data_list := L\<rparr>\<rparr>))
      else Inr C)"

end
