(* ===== verification/Gate_Server.thy ===== *)
theory Gate_Server
  imports Gate_Parts Center_Server
begin

text \<open>
  The gate server (\<open>gate_server\<close>): how the packets of clients reach a room server and those of room
  servers their clients, how it asks the director server for a room it does not know, and its
  configuration, start and stop.
\<close>

section \<open>State\<close>

text \<open>
  \<open>gw_rs_conns\<close> holds the connectors to room servers that were allocated, \<open>gw_rs_next\<close> is the next
  fresh address; \<open>gw_out\<close> lists what the server has written to sockets itself. \<open>rs_connector_\<close> is
  never used and left out.
\<close>

record GateServer =
  gw_server_id :: int
  gw_server_ip :: "byte list"
  gw_server_port :: int
  gw_count_worker :: int
  gw_count_user_per_worker :: int
  gw_read_timeout :: int
  gw_write_timeout :: int
  gw_ds_ip :: "byte list"
  gw_ds_port :: int
  gw_user_list :: GateUserList
  gw_users :: "GateUser client_store"
  gw_listenner :: ServerListenner
  gw_room_manager :: GateRoomManager
  gw_ds_connector :: DirectorServerConnector
  gw_rs_conn_list :: "(int \<times> ptr) list"
  gw_rs_conns :: "nat \<Rightarrow> RoomServerConnector"
  gw_rs_next :: nat
  gw_cl_processor :: ClientProcessor
  gw_out :: "(int \<times> byte list) list"

definition gw_GetChatRoom :: "int \<Rightarrow> GateServer \<Rightarrow> ptr \<times> GateServer" where
  "gw_GetChatRoom rid S =
     (let (p, M) = gmg_GetChatRoom rid (gw_room_manager S) in (p, S\<lparr>gw_room_manager := M\<rparr>))"

definition gw_room_fd :: "nat \<Rightarrow> GateServer \<Rightarrow> int" where
  "gw_room_fd a S = gr_server_fd (gmg_rooms (gw_room_manager S) a)"

section \<open>Asking the director server\<close>

text \<open>
  \<open>SendConnectDsRQ\<close> and \<open>SendQueryRoom\<close> pack the request as the other servers do, see
  \<open>pack_for_ds\<close>, and hand it to the connector, the parent of the processor.
\<close>

definition gds_SendConnectDsRQ ::
  "(pmsg \<Rightarrow> byte list option) \<Rightarrow> GateServer \<Rightarrow> DirectorServerConnector \<Rightarrow> DirectorServerConnector res"
  where
  "gds_SendConnectDsRQ ser S =
     ds_SendConnectDsRQ ser (connect_rq SERVER_TYPE_GS (gw_server_id S) (gw_server_ip S) (gw_server_port S))"

definition gds_SendQueryRoom ::
  "(pmsg \<Rightarrow> byte list option) \<Rightarrow> int \<Rightarrow> GateServer \<Rightarrow> GateServer res" where
  "gds_SendQueryRoom ser rid S =
     (let C = gw_ds_connector S
      in if bp_caller_ptr (dsc_processor C) = None then Inr S
         else
           res_bind (pack_for_ds ser (P_DsGSGetRoomInfoRq (gw_server_id S) rid) DEF_DS_GS_GET_ROOMINFO_RQ)
             (\<lambda>(ok, buff, len).
             if \<not> ok then Inr S
             else if pr_parent_ptr (dsc_processor C) = None then Inr S
             else res_bind (con_SendData buff len C) (\<lambda>(_, C1). Inr (S\<lparr>gw_ds_connector := C1\<rparr>))))"

section \<open>From clients to room servers\<close>

text \<open>
  The envelope around a packet of a client. It is built in the same way for a packet that just
  came and for one that was held back.
\<close>

definition gw_forward :: "int \<Rightarrow> byte list \<Rightarrow> int \<Rightarrow> nat \<Rightarrow> byte list \<Rightarrow> GateServer
    \<Rightarrow> (byte list \<times> GateServer) res" where
  "gw_forward key data len room send_buff S =
     res_bind (gr_build key len data) (\<lambda>g.
     res_bind (gr_SerializeToArray g (Some send_buff) (gr_ByteSize g)) (\<lambda>(ok, send_buff1).
       if \<not> ok then Inr (send_buff1, S)
       else
         res_bind (mem_read send_buff1 0 (gr_ByteSize g)) (\<lambda>bs.
           Inr (send_buff1, S\<lparr>gw_out := gw_out S @ [(gw_room_fd room S, bs)]\<rparr>))))"

text \<open>
  The body of the loop of \<open>UserInfoEx::DealWithData\<close> for a packet at the front of the block: its
  bytes are copied to \<open>tmp_pack_data\<close> of 0x1000 bytes, and the front of the block is overwritten
  with the 0x1000 - \<open>len\<close> bytes that follow, whatever the number of valid bytes. A packet for a room that is
  not known is dropped, unless it is a login: then the director server is asked for the room
  and the packet is held back. \<open>srv\<close> is the pointer to the gate server, \<open>key\<close> the hash key.
\<close>

definition gu_frame :: "protobuf \<Rightarrow> ptr \<Rightarrow> int \<Rightarrow> StruCytPacket \<Rightarrow> byte list \<Rightarrow> int
    \<Rightarrow> byte list \<times> byte list \<times> GateServer
    \<Rightarrow> (byte list \<times> int \<times> byte list \<times> byte list \<times> GateServer) res" where
  "gu_frame pb srv key package buf valid = (\<lambda>(pack_data, send_buff, S).
     let len = cyt_ByteSize package
     in res_bind (memcpy pack_data 0 buf 0 len) (\<lambda>pack_data1.
        let valid1 = valid - len
        in res_bind (memcpy buf 0 buf len (0x1000 - len)) (\<lambda>buf1.
        res_bind (deref srv) (\<lambda>_.
        let (room, S1) = gw_GetChatRoom (cyt_room_id package) S
        in case room of
             None \<Rightarrow>
               if cyt_msg_type package = E_USER_LOGIN_RQ then
                 res_bind (gds_SendQueryRoom (pb_ser pb) (cyt_room_id package) S1) (\<lambda>S2.
                 res_bind (clp_AddOneUndealPack pack_data1 len (cyt_room_id package) key (gw_cl_processor S2))
                   (\<lambda>(_, P). Inr (buf1, valid1, pack_data1, send_buff, S2\<lparr>gw_cl_processor := P\<rparr>)))
               else Inr (buf1, valid1, pack_data1, send_buff, S1)
           | Some a \<Rightarrow>
               res_bind (gw_forward key pack_data1 len a send_buff S1) (\<lambda>(send_buff1, S2).
                 Inr (buf1, valid1, pack_data1, send_buff1, S2))))))"

definition gu_parse :: "byte list \<Rightarrow> int \<Rightarrow> (bool \<times> StruCytPacket) res" where
  "gu_parse d n = cyt_ParseFromArray (cyt_new 0) (Some d) n"

definition gu_DealWithData :: "protobuf \<Rightarrow> byte list \<Rightarrow> nat \<Rightarrow> GateServer \<Rightarrow> GateServer res" where
  "gu_DealWithData pb chunk a S =
     (let u = gw_users S a
      in res_bind (deal_chunk gu_parse (\<lambda>_. gu_frame pb (gu_gate_server u) (hash_key u)) chunk
             (gu_recved_buff u, gu_valid_buff_len u, replicate 0x1000 0, replicate 0x2000 0, S))
           (\<lambda>(buf, valid, _, _, S1).
             Inr (S1\<lparr>gw_users := (gw_users S1)
               (a := (gw_users S1 a)\<lparr>gu_recved_buff := buf, gu_valid_buff_len := valid\<rparr>)\<rparr>)))"

text \<open>
  One round of the thread of \<open>ClientProcessor\<close>: a packet whose room is still asked for goes back
  into the queue, one whose room is known by then is forwarded, any other is dropped.
\<close>

definition clp_deal_round :: "GateServer \<Rightarrow> GateServer res" where
  "clp_deal_round S =
     (let P = gw_cl_processor S
      in res_bind (cl_GetBuffer (clp_out_buff P) 0x2000 (clp_out_len P) (bp_data_list P)) (\<lambda>(ok, buff, len, L).
         let P1 = P\<lparr>bp_data_list := L, clp_out_buff := buff, clp_out_len := len\<rparr>;
             S1 = S\<lparr>gw_cl_processor := P1\<rparr>
         in if \<not> ok then Inr S1
            else
              res_bind (mem_read buff (len - 4) 4) (\<lambda>kb.
              res_bind (cyt_ParseFromArray (cyt_new 0) (Some buff) (len - 4)) (\<lambda>(ok, p).
              if \<not> ok then Inr S1
              else
                let (v, m) = map_index 0 (clp_room_list P1) (cyt_room_id p);
                    P2 = P1\<lparr>clp_room_list := m\<rparr>; S2 = S1\<lparr>gw_cl_processor := P2\<rparr>
                in if v \<noteq> 0 then
                     res_bind (cl_AddBuffer buff len (bp_data_list P2)) (\<lambda>(_, L2).
                       Inr (S2\<lparr>gw_cl_processor := P2\<lparr>bp_data_list := L2\<rparr>\<rparr>))
                   else
                     let (room, S3) = gw_GetChatRoom (cyt_room_id p) S2
                     in case room of
                          None \<Rightarrow> Inr S3
                        | Some a \<Rightarrow>
                            res_bind (gw_forward (of_le4 kb) buff (len - 4) a (replicate 0x2000 0) S3)
                              (\<lambda>(_, S4). Inr S4)))))"

section \<open>From room servers to clients\<close>

definition gw_GetUserByHashkey :: "int \<Rightarrow> GateServer \<Rightarrow> ptr \<times> GateServer" where
  "gw_GetUserByHashkey key S =
     (let (p, L) = gul_GetUserByHashkey key (gw_user_list S) in (p, S\<lparr>gw_user_list := L\<rparr>))"

text \<open>
  The body of the inner loop of the thread of a room server connector: the payload is written to
  the socket of the client, as many bytes as the envelope says; the string it is read from ends
  with a NUL.
\<close>

definition grp_frame :: "GateRoomServerPack \<Rightarrow> byte list \<Rightarrow> int \<Rightarrow> GateServer
    \<Rightarrow> (byte list \<times> int \<times> GateServer) res" where
  "grp_frame package buf valid S =
     (let valid1 = valid - gr_ByteSize package
      in res_bind (memcpy buf 0 buf (gr_ByteSize package) valid1) (\<lambda>buf1.
         let (user, S1) = gw_GetUserByHashkey (gr_user_hashkey package) S
         in case user of
              None \<Rightarrow> Inr (buf1, valid1, S1)
            | Some a \<Rightarrow>
                res_bind (mem_read (gr_data_msg package @ [0]) 0 (gr_data_len package)) (\<lambda>bs.
                  Inr (buf1, valid1, S1\<lparr>gw_out := gw_out S1 @ [(user_sock (gw_users S1 a), bs)]\<rparr>))))"

text \<open>
  One round of that thread for the connector at address \<open>c\<close>: \<open>GetBuffer\<close> writes behind the valid
  bytes of the block.
\<close>

definition grp_deal_round :: "nat \<Rightarrow> GateServer \<Rightarrow> GateServer res" where
  "grp_deal_round c S =
     (let C = gw_rs_conns S c; P = rsc_processor C; n = nat (grp_valid_buff_len P)
      in res_bind (cl_GetBuffer (drop n (grp_deal_buff P)) (int MaxDealBuffLen - grp_valid_buff_len P) 0
             (bp_data_list P)) (\<lambda>(ok, rest, len, L).
         let buf = take n (grp_deal_buff P) @ rest; valid = grp_valid_buff_len P + len
         in if \<not> ok then Inr S
            else
              res_bind (frame_loop (Suc (nat valid)) rc_parse grp_frame buf valid S) (\<lambda>(buf1, valid1, S1).
                Inr (S1\<lparr>gw_rs_conns := (gw_rs_conns S1)(c := C\<lparr>rsc_processor :=
                  P\<lparr>bp_data_list := L, grp_deal_buff := buf1, grp_valid_buff_len := valid1\<rparr>\<rparr>)\<rparr>))))"

section \<open>Answers of the director server\<close>

definition gds_InitProcessor ::
  "int \<Rightarrow> ptr \<Rightarrow> ptr \<Rightarrow> ds_cmd Processor \<Rightarrow> (bool \<times> ds_cmd Processor) res" where
  "gds_InitProcessor max_list_size caller server P =
     res_bind (bp_InitProcessor max_list_size server P) (\<lambda>(_, P1).
       let (ok, C) = register_all (ds_commands server) (bp_cmd_chain P1)
       in Inr (ok, P1\<lparr>pr_parent_ptr := caller, bp_cmd_chain := C\<rparr>))"

definition gds_StartProcessor ::
  "(pmsg \<Rightarrow> byte list option) \<Rightarrow> (nat \<Rightarrow> int) \<Rightarrow> int \<Rightarrow> GateServer \<Rightarrow> DirectorServerConnector
   \<Rightarrow> (bool \<times> DirectorServerConnector) res" where
  "gds_StartProcessor ser create thread_count S C =
     (if thread_count \<le> 0 then Inr (False, C)
      else
        let (_, P) = pr_start bool_stop create thread_count (dsc_processor C)
        in res_bind (gds_SendConnectDsRQ ser S (C\<lparr>dsc_processor := P\<rparr>)) (\<lambda>C1. Inr (True, C1)))"

definition gds_StopProcessor :: "ds_cmd Processor \<Rightarrow> ds_cmd Processor res" where
  "gds_StopProcessor P = pr_stop P"

definition gdc_StartDSProcessor :: "ptr \<Rightarrow> (pmsg \<Rightarrow> byte list option) \<Rightarrow> (nat \<Rightarrow> int) \<Rightarrow> int \<Rightarrow> int \<Rightarrow> ptr
    \<Rightarrow> GateServer \<Rightarrow> DirectorServerConnector \<Rightarrow> (bool \<times> DirectorServerConnector) res" where
  "gdc_StartDSProcessor self ser create list_size thread_count server S C =
     res_bind (gds_InitProcessor list_size self server (dsc_processor C)) (\<lambda>(ok, P).
       let C1 = C\<lparr>dsc_server_ptr := server, dsc_processor := P\<rparr>
       in if \<not> ok then Inr (False, C1)
          else res_bind (gds_StartProcessor ser create thread_count S C1) (\<lambda>(ok, C2).
                 if \<not> ok then Inr (False, C2) else Inr (True, C2)))"

definition gdc_DealWithData ::
  "byte list \<Rightarrow> int \<Rightarrow> DirectorServerConnector \<Rightarrow> DirectorServerConnector res" where
  "gdc_DealWithData buff len C =
     (if pr_is_started (dsc_processor C)
      then res_bind (cl_AddBuffer buff len (bp_data_list (dsc_processor C))) (\<lambda>(_, L).
             Inr (C\<lparr>dsc_processor := (dsc_processor C)\<lparr>bp_data_list := L\<rparr>\<rparr>))
      else Inr C)"

definition gw_StopServer :: "GateServer \<Rightarrow> GateServer res" where
  "gw_StopServer S =
     (let S1 = S\<lparr>gw_ds_connector := con_Disconnect (gw_ds_connector S)\<rparr>
      in res_bind (sl_StopServer (gw_listenner S1)) (\<lambda>T. Inr (S1\<lparr>gw_listenner := T\<rparr>)))"

definition GW_ConnectDirectorServerRS_Execute ::
  "protobuf \<Rightarrow> ptr \<Rightarrow> bool \<Rightarrow> byte list \<Rightarrow> int \<Rightarrow> GateServer \<Rightarrow> GateServer res" where
  "GW_ConnectDirectorServerRS_Execute pb server caller buff len S =
     (if server = None \<or> \<not> caller then Inr S
      else
        res_bind (parse_from (pb_DsServerConnectRs pb) buff len) (\<lambda>m.
          case m of
            None \<Rightarrow> Inr S
          | Some rs \<Rightarrow> if dcs_result rs = 0 then gw_StopServer S else Inr S))"

definition GW_GetCenterServerAddrRS_Execute ::
  "protobuf \<Rightarrow> ptr \<Rightarrow> bool \<Rightarrow> byte list \<Rightarrow> int \<Rightarrow> GateServer \<Rightarrow> GateServer res" where
  "GW_GetCenterServerAddrRS_Execute pb server caller buff len S =
     (if server = None \<or> \<not> caller then Inr S
      else res_bind (parse_from (pb_DsGetCsInfoRs pb) buff len) (\<lambda>m. Inr S))"

text \<open>
  \<open>QueryChatRoomRS\<close>: the answer with the address of the room server. A connector that cannot be
  started is deleted again. The list of connectors is only searched, nothing puts the new one in.
\<close>

definition gw_new_connector :: "sock_env \<Rightarrow> ptr \<Rightarrow> StruDsGSGetRoomInfoRs \<Rightarrow> GateServer
    \<Rightarrow> (ptr \<times> GateServer) res" where
  "gw_new_connector E server rs S =
     res_bind rsc_new (\<lambda>C.
     res_bind (con_InitConnectionInfo (c_str (dri_server_ip rs)) (dri_server_port rs) C) (\<lambda>C1.
     res_bind (con_StartConnect (se_fuel E) (se_fd E) (se_conn E) (se_create E) C1) (\<lambda>(ok, C2).
     if \<not> ok then Inr (None, S)
     else
       let a = gw_rs_next S
       in res_bind (rsc_StartRSProcessor (Some a) (se_create_proc E) 1000 1 server C2) (\<lambda>(ok, C3).
          if \<not> ok then Inr (None, S)
          else Inr (Some a, S\<lparr>gw_rs_conns := (gw_rs_conns S)(a := C3), gw_rs_next := Suc a\<rparr>)))))"

definition GW_QueryChatRoomRS_Execute ::
  "protobuf \<Rightarrow> sock_env \<Rightarrow> ptr \<Rightarrow> bool \<Rightarrow> byte list \<Rightarrow> int \<Rightarrow> GateServer \<Rightarrow> GateServer res" where
  "GW_QueryChatRoomRS_Execute pb E server caller buff len S =
     (if server = None \<or> \<not> caller then Inr S
      else
        res_bind (parse_from (pb_DsGSGetRoomInfoRs pb) buff len) (\<lambda>m.
        case m of
          None \<Rightarrow> Inr S
        | Some rs \<Rightarrow>
            let (room, S1) = gw_GetChatRoom (dri_room_id rs) S
            in if room \<noteq> None then Inr S1
               else
                 res_bind
                   (case map_of (gw_rs_conn_list S1) (dri_rs_server_id rs) of
                      Some p \<Rightarrow> res_bind (deref p) (\<lambda>a. Inr (Some a, S1))
                    | None \<Rightarrow> gw_new_connector E server rs S1)
                   (\<lambda>(conn, S2).
                 case conn of
                   None \<Rightarrow> Inr S2
                 | Some a \<Rightarrow>
                     let (_, M) = gmg_AddRoom (dri_room_id rs) (con_client_fd (gw_rs_conns S2 a)) (gw_room_manager S2)
                     in Inr (S2\<lparr>gw_room_manager := M,
                          gw_cl_processor := clp_DeleteRoom (dri_room_id rs) (gw_cl_processor S2)\<rparr>))))"

definition gds_deal_round :: "protobuf \<Rightarrow> sock_env \<Rightarrow> GateServer \<Rightarrow> GateServer res" where
  "gds_deal_round pb E S =
     res_bind (cyt_dispatch_round (dsc_processor (gw_ds_connector S))) (\<lambda>(d, P).
       let S1 = S\<lparr>gw_ds_connector := (gw_ds_connector S)\<lparr>dsc_processor := P\<rparr>\<rparr>
       in case d of
            Execute cmd buff len \<Rightarrow>
              (let server = cmd_server_ptr cmd
               in case cmd_class cmd of
                    ConnectDirectorServerRS \<Rightarrow> GW_ConnectDirectorServerRS_Execute pb server True buff len S1
                  | QueryChatRoomRS \<Rightarrow> GW_QueryChatRoomRS_Execute pb E server True buff len S1
                  | GetCenterServerAddrRS \<Rightarrow> GW_GetCenterServerAddrRS_Execute pb server True buff len S1)
          | _ \<Rightarrow> Inr S1)"

section \<open>Configuration, start and stop\<close>

definition gate_conf_line :: "int \<Rightarrow> byte list \<Rightarrow> GateServer \<Rightarrow> GateServer" where
  "gate_conf_line u line S =
     (if conf_skipped line then S
      else
        case next_word line of
          (None, _) \<Rightarrow> S
        | (Some name, r) \<Rightarrow>
            if name = str ''ip'' then read_word (\<lambda>w S. S\<lparr>gw_server_ip := w\<rparr>) r S
            else if name = str ''ds_ip'' then read_word (\<lambda>w S. S\<lparr>gw_ds_ip := w\<rparr>) r S
            else
              let v = read_int u r
              in if name = str ''port'' then S\<lparr>gw_server_port := v\<rparr>
                 else if name = str ''count_worker'' then S\<lparr>gw_count_worker := v\<rparr>
                 else if name = str ''user_per_worker'' then S\<lparr>gw_count_user_per_worker := v\<rparr>
                 else if name = str ''read_timeout'' then S\<lparr>gw_read_timeout := v\<rparr>
                 else if name = str ''write_timeout'' then S\<lparr>gw_write_timeout := v\<rparr>
                 else if name = str ''ds_port'' then S\<lparr>gw_ds_port := v\<rparr>
                 else if name = str ''server_id'' then S\<lparr>gw_server_id := v\<rparr>
                 else S)"

definition gw_GetConfig :: "int \<Rightarrow> byte list \<Rightarrow> GateServer \<Rightarrow> bool \<times> GateServer" where
  "gw_GetConfig u file S =
     (let S1 = fold (gate_conf_line u) (conf_lines file) S in (gw_server_port S1 \<noteq> 0, S1))"

definition gw_InitServer :: "int \<Rightarrow> nat \<Rightarrow> byte list \<Rightarrow> GateServer \<Rightarrow> (bool \<times> GateServer) res" where
  "gw_InitServer u self file S =
     (let (ok, S1) = gw_GetConfig u file S
      in if \<not> ok then Inr (False, S1)
         else
           let (_, L) = gul_Init 10000 (Some self) (gw_user_list S1);
               (ok, T) = sl_InitServer (gw_server_ip S1) (gw_server_port S1) (gw_count_worker S1)
                  (gw_count_user_per_worker S1) (gw_read_timeout S1) (gw_write_timeout S1) (gw_listenner S1);
               S2 = S1\<lparr>gw_user_list := L, gw_listenner := T\<rparr>
           in if \<not> ok then Inr (False, S2)
              else
                res_bind (clp_InitProcessor 1000 (Some self) (Some self) (gw_cl_processor S2)) (\<lambda>(_, P).
                res_bind (con_InitConnectionInfo (c_str (gw_ds_ip S2)) (gw_ds_port S2) (gw_ds_connector S2)) (\<lambda>C.
                  Inr (True, S2\<lparr>gw_cl_processor := P, gw_ds_connector := C\<rparr>))))"

text \<open>\<open>create\<close> is the result of creating the thread of \<open>ClientProcessor\<close>, which is ignored.\<close>

definition gw_StartServer :: "protobuf \<Rightarrow> int \<Rightarrow> sock_env \<Rightarrow> listen_env \<Rightarrow> nat \<Rightarrow> nat \<Rightarrow> GateServer
    \<Rightarrow> (bool \<times> GateServer) res" where
  "gw_StartServer pb create E LE self lself S =
     (let (_, P) = clp_StartProcessor create (gw_cl_processor S); S0 = S\<lparr>gw_cl_processor := P\<rparr>
      in res_bind (con_StartConnect (se_fuel E) (se_fd E) (se_conn E) (se_create E) (gw_ds_connector S0)) (\<lambda>(ok, C).
       let S1 = S0\<lparr>gw_ds_connector := C\<rparr>
       in if \<not> ok then Inr (False, S1)
          else
            res_bind (gdc_StartDSProcessor (Some self) (pb_ser pb) (se_create_proc E) 1000 1 (Some self) S1 C)
              (\<lambda>(ok, C1).
              if \<not> ok then Inr (False, S1\<lparr>gw_ds_connector := con_Disconnect C1\<rparr>)
              else
                let S2 = S1\<lparr>gw_ds_connector := C1\<rparr>;
                    (ok, T) = sl_StartServer LE lself (gw_listenner S2)
                in Inr (ok, S2\<lparr>gw_listenner := T\<rparr>))))"

end
