(* ===== verification/Steps.thy ===== *)
theory Steps
  imports Listenner Center_Server
begin

text \<open>
  What the steps of the threads keep, whatever bytes they are given: the loops over packets, the
  queues, the receive blocks, the connectors and the rounds of the processors. The systems of
  \<open>Gate_System\<close> and \<open>Center_System\<close> share these lemmas.
\<close>

section \<open>What the loops over packets keep\<close>

lemma frame_loop_keeps:
  assumes "\<And>p b v s b' v' s'. 18 < v \<Longrightarrow> parse b v = Inr (True, p) \<Longrightarrow> act p b v s = Inr (b', v', s') \<Longrightarrow> J b v s
      \<Longrightarrow> J b' v' s'"
  shows "frame_loop f parse act b v s = Inr (b', v', s') \<Longrightarrow> J b v s \<Longrightarrow> J b' v' s'"
proof (induction f arbitrary: b v s)
  case (Suc f)
  show ?case
  proof (cases "v \<le> 18")
    case False
    obtain ok p where p: "parse b v = Inr (ok, p)" using Suc.prems(1) False by (auto simp: res_simps)
    show ?thesis
    proof (cases ok)
      case True
      then obtain b1 v1 s1 where "act p b v s = Inr (b1, v1, s1)" "frame_loop f parse act b1 v1 s1 = Inr (b', v', s')"
        using Suc.prems(1) False p by (auto simp: res_simps)
      then show ?thesis using Suc.IH [of b1 v1 s1] assms [of v b p s b1 v1 s1] Suc.prems(2) p True False by simp
    qed (use Suc.prems False p in simp)
  qed (use Suc.prems in simp)
qed simp

section \<open>Queues\<close>

lemma cl_add_keeps:
  assumes "cl_AddBuffer buff len L = Inr (b, L')" "cl_inv L" "0 \<le> len" "len \<le> int (length buff)"
  shows "cl_inv L'"
proof (cases "cl_using_size L + units_needed len \<le> cl_max_stru_size L")
  case True
  then obtain L1 where "cl_AddBuffer buff len L = Inr (len \<le> MaxSizePerBuff, L1)" "cl_inv L1"
    using cl_AddBuffer_ok [OF assms(2-4)] by blast
  then show ?thesis using assms(1) by simp
next
  case False
  then show ?thesis using cl_AddBuffer_full [OF assms(2), of len buff] assms(1,2) by simp
qed

lemma cl_get_keeps:
  assumes "cl_GetBuffer ob mx ol L = Inr (b, ob', n, L')" "cl_inv L" "mx \<le> int (length ob)"
  shows "cl_inv L' \<and> length ob' = length ob \<and> (if b then 0 \<le> n \<and> n < mx else n = ol)"
proof (cases "cl_abs L")
  case Nil
  then show ?thesis using cl_GetBuffer_empty [OF assms(2), of ob mx ol] assms(1,2) by simp
next
  case (Cons m ms)
  show ?thesis
  proof (cases "int (length m) < mx")
    case True
    obtain L1 where "cl_GetBuffer ob mx ol L = Inr (True, m @ drop (length m) ob, int (length m), L1)" "cl_inv L1"
      using cl_GetBuffer_ok [OF assms(2) Cons True, of ob ol] True assms(3) by auto
    then show ?thesis using assms(1,3) True by auto
  next
    case False
    then show ?thesis using cl_GetBuffer_big [OF assms(2) Cons, of mx ob ol] assms(1,2) by simp
  qed
qed

text \<open>Only the first 4096 bytes of a block are ever queued.\<close>

lemma put_unit_more: "n \<le> int (length buff) \<Longrightarrow> put_unit (buff @ xs) n c L = put_unit buff n c L"
  by (simp add: put_unit_def memcpy_def mem_read_def cong: option.case_cong)

lemma put_units_more:
  "4096 \<le> length buff \<Longrightarrow> little \<le> 4096 \<Longrightarrow> put_units k (buff @ xs) little L = put_units k buff little L"
  by (induction k buff little L rule: put_units.induct) (simp_all add: put_unit_more cong: res_bind_cong)

lemma cl_add_more:
  assumes "4096 \<le> length buff"
  shows "cl_AddBuffer (buff @ xs) len L = cl_AddBuffer buff len L"
proof -
  have "len mod 4096 \<le> 4096" by (simp add: less_imp_le)
  then show ?thesis using assms by (simp add: cl_AddBuffer_def put_unit_more put_units_more Let_def)
qed

lemma cl_add_keeps_block:
  assumes "cl_AddBuffer buff len L = Inr (b, L')" "cl_inv L" "0 \<le> len" "4096 \<le> length buff"
  shows "cl_inv L'"
proof -
  have "cl_AddBuffer (buff @ replicate (nat len) 0) len L = Inr (b, L')" using assms(1,4) by (simp add: cl_add_more)
  then show ?thesis by (rule cl_add_keeps [OF _ assms(2,3)]) simp
qed

text \<open>A receive block: its bytes and how many are valid.\<close>

definition block_ok :: "byte list \<Rightarrow> int \<Rightarrow> bool" where
  "block_ok buf v \<longleftrightarrow> length buf = 16384 \<and> 0 \<le> v \<and> v \<le> 16384"

lemma recv_append_block:
  assumes "recv_append buf v chunk (int (length chunk)) = Inr (b, v')" "block_ok buf v"
  shows "block_ok b v'"
proof -
  have "int (length chunk) \<le> 16384 \<and> length b = length buf"
    using assms memcpy_length [of buf v chunk 0 "int (length chunk)" b] memcpy_length [of buf 0 chunk 0 "int (length chunk)" b]
    by (auto simp: recv_append_def res_simps block_ok_def memcpy_def mem_write_def mem_read_def split: if_splits)
  then show ?thesis using assms by (auto simp: recv_append_def res_simps block_ok_def split: if_splits)
qed

section \<open>Connectors and processors\<close>

lemma con_Init_more: "con_InitConnectionInfo ip port C = Inr C' \<Longrightarrow> Connector.more C' = Connector.more C"
  by (auto simp: con_InitConnectionInfo_def res_simps)

lemma con_Connect_more: "con_ConnectServer f fd conn C = Inr (ok, C') \<Longrightarrow> Connector.more C' = Connector.more C"
  by (auto simp: con_ConnectServer_def res_simps split: if_splits)

lemma con_Start_more:
  assumes "con_StartConnect f fd conn create C = Inr (ok, C')"
  shows "Connector.more C' = Connector.more C"
proof -
  obtain b C1 where c: "con_ConnectServer f fd conn (C\<lparr>con_is_started := True\<rparr>) = Inr (b, C1)"
    using assms by (auto simp: con_StartConnect_def res_simps)
  have "C' = C1 \<or> C' = C1\<lparr>con_is_started := False\<rparr>"
    using assms by (simp add: con_StartConnect_def c split: if_splits)
  then show ?thesis using con_Connect_more [OF c] by auto
qed

lemma con_reconnect_more:
  assumes "con_reconnect_round f fd conn C = Inr C'"
  shows "Connector.more C' = Connector.more C"
proof (cases "con_client_fd C = -1")
  case True
  obtain b C1 where c: "con_ConnectServer f fd conn C = Inr (b, C1)"
    using assms True by (cases "con_ConnectServer f fd conn C") (auto simp: con_reconnect_round_def)
  then show ?thesis using assms True con_Connect_more [OF c] by (simp add: con_reconnect_round_def)
qed (use assms in \<open>simp add: con_reconnect_round_def\<close>)

lemma con_send_more:
  assumes "con_send_round wr C = Inr (w, C')"
  shows "Connector.more C' = Connector.more C"
proof (cases "con_client_fd C = -1")
  case False
  define ob :: "byte list" where "ob = replicate 0x2000 0"
  have r: "res_bind (cl_GetBuffer ob 0x2000 0 (con_send_list C)) (\<lambda>(ok, buff, len, L).
      if \<not> ok then Inr (None, C\<lparr>con_send_list := L\<rparr>)
      else res_bind (mem_read buff 0 len) (\<lambda>bs. Inr (Some bs, C\<lparr>con_send_list := L,
             con_client_fd := (if wr bs < 0 then -1 else con_client_fd C)\<rparr>))) = Inr (w, C')"
    using assms unfolding con_send_round_def ob_def if_not_P [OF False] .
  then obtain b buff n L where g: "cl_GetBuffer ob 0x2000 0 (con_send_list C) = Inr (b, buff, n, L)"
    by (cases "cl_GetBuffer ob 0x2000 0 (con_send_list C)") (simp, metis prod_cases4)
  show ?thesis
  proof (cases b)
    case True
    then obtain bs where "mem_read buff 0 n = Inr bs" using r unfolding g by (cases "mem_read buff 0 n") simp_all
    then have "C' = C\<lparr>con_send_list := L, con_client_fd := (if wr bs < 0 then -1 else con_client_fd C)\<rparr>"
      using r True unfolding g by (simp only: res_bind.simps case_prod_conv if_False not_True_eq_False sum.inject prod.inject)
    then show ?thesis by simp
  next
    case False
    then have "C' = C\<lparr>con_send_list := L\<rparr>"
      using r unfolding g by (simp only: res_bind.simps case_prod_conv if_True not_False_eq_True sum.inject prod.inject)
    then show ?thesis by simp
  qed
qed (use assms in \<open>simp add: con_send_round_def\<close>)

lemma bp_Init_inv:
  assumes "bp_InitProcessor n caller P = Inr (b, P')" "0 < n"
  shows "cl_inv (bp_data_list P')"
proof -
  obtain L where "cl_InitBuffer n (bp_data_list P) = Inr L" "cl_inv L" using cl_InitBuffer_ok [OF assms(2)] by blast
  then show ?thesis using assms(1) by (auto simp: bp_InitProcessor_def)
qed

lemma dispatch_keeps:
  assumes "cyt_dispatch_round P = Inr (d, P')" "cl_inv (bp_data_list P)"
  shows "cl_inv (bp_data_list P')"
proof -
  define ob :: "byte list" where "ob = replicate 0x2000 0"
  have lob: "length ob = 0x2000" by (simp add: ob_def)
  obtain b buff n L where g: "cl_GetBuffer ob 0x2000 0 (bp_data_list P) = Inr (b, buff, n, L)"
    using assms(1) unfolding cyt_dispatch_round_def ob_def [symmetric]
    by (cases "cl_GetBuffer ob 0x2000 0 (bp_data_list P)") (simp, metis prod_cases4)
  have "cl_inv L" using cl_get_keeps [OF g assms(2)] lob by simp
  moreover have "bp_data_list P' = L"
    using assms(1) unfolding cyt_dispatch_round_def ob_def [symmetric] g
    by (auto simp: res_simps Let_def split: if_splits prod.splits option.splits)
  ultimately show ?thesis by simp
qed

lemma dsc_of_more: "Connector.more C' = Connector.more C \<Longrightarrow> dsc_processor C' = dsc_processor C"
  by (cases C; cases C') simp

lemma cl_Init_inv: "cl_InitBuffer n L = Inr L' \<Longrightarrow> 0 < n \<Longrightarrow> cl_inv L'"
  by (metis cl_InitBuffer_ok sum.inject(2))

lemma ds_send_processor:
  "ds_SendConnectDsRQ ser rq C = Inr C' \<Longrightarrow> dsc_processor C' = dsc_processor C"
  by (auto simp: ds_SendConnectDsRQ_def con_SendData_def res_simps split: if_splits)

lemma ds_commands_registered: "fst (register_all (ds_commands srv) (bp_cmd_chain (pr_new :: ds_cmd Processor)))"
proof -
  have "cc_lookup (bp_cmd_chain (pr_new :: ds_cmd Processor)) i = None" for i
    by (simp add: pr_new_def Processor.defs bp_new_def BaseProcessor.defs)
  then show ?thesis using register_all_ok [of "ds_commands srv" "bp_cmd_chain (pr_new :: ds_cmd Processor)"]
    by (simp add: ds_commands_def)
qed

lemma dispatch_fields:
  assumes "cyt_dispatch_round P = Inr (d, P')"
  shows "\<exists>L C. P' = P\<lparr>bp_data_list := L, bp_cmd_chain := C\<rparr>"
proof -
  define ob :: "byte list" where "ob = replicate 0x2000 0"
  obtain b buff n L where g: "cl_GetBuffer ob 0x2000 0 (bp_data_list P) = Inr (b, buff, n, L)"
    using assms(1) unfolding cyt_dispatch_round_def ob_def [symmetric]
    by (cases "cl_GetBuffer ob 0x2000 0 (bp_data_list P)") (simp, metis prod_cases4)
  have "P' = P\<lparr>bp_data_list := L\<rparr> \<or> (\<exists>C. P' = P\<lparr>bp_data_list := L, bp_cmd_chain := C\<rparr>)"
    using assms unfolding cyt_dispatch_round_def ob_def [symmetric] g
    by (auto simp: res_simps Let_def split: if_splits prod.splits option.splits)
  then show ?thesis by (metis BaseProcessor.surjective BaseProcessor.update_convs(2))
qed

definition connects :: "sock_env \<Rightarrow> bool" where
  "connects E \<longleftrightarrow> 0 < se_fuel E \<and> se_fd E \<noteq> -1 \<and> se_conn E 0 \<noteq> -1 \<and> (\<forall>i < 3. se_create E i = 0)"

lemma con_StartConnect_ok:
  assumes "connects E" "0 < con_server_port C"
  shows "con_StartConnect (se_fuel E) (se_fd E) (se_conn E) (se_create E) C
    = Inr (True, C\<lparr>con_is_started := True, con_client_fd := se_fd E\<rparr>)"
proof -
  obtain f where f: "se_fuel E = Suc f" using assms(1) by (auto simp: connects_def gr0_conv_Suc)
  have "se_create E 0 = 0" "se_create E 1 = 0" "se_create E 2 = 0" "se_fd E \<noteq> -1" "se_conn E 0 \<noteq> -1"
    using assms(1) by (auto simp: connects_def)
  then show ?thesis using assms(2) by (simp add: con_StartConnect_def con_ConnectServer_def f)
qed

lemma init_1000: "\<exists>L. cl_InitBuffer 1000 L0 = Inr L"
  by (simp add: cl_InitBuffer_def)

section \<open>The listener\<close>

text \<open>What all operations of a list but \<open>DealWithData\<close> keep is kept while the listener works.\<close>

lemma sl_step_keeps:
  assumes "\<And>s u s'. J s \<Longrightarrow> ur_GetUserInfo ops s = (u, s') \<Longrightarrow> J s'"
    and "\<And>s a u. J s \<Longrightarrow> J (ur_set_fields ops a u s)"
    and "\<And>s k p b s'. J s \<Longrightarrow> ur_AddUserInfo ops k p s = Inr (b, s') \<Longrightarrow> J s'"
    and "\<And>s k u s'. J s \<Longrightarrow> ur_GetUserByHashkey ops k s = (u, s') \<Longrightarrow> J s'"
    and "\<And>s p s'. J s \<Longrightarrow> ur_ReleaseUserInfo ops p s = Inr s' \<Longrightarrow> J s'"
    and step: "sl_step ops self e (T, s) = Inr (T', s')" "\<forall>a chunk. e \<noteq> Readable a chunk" "J s"
  shows "J s'"
proof (cases e)
  case (Accepted A)
  then have "sl_AcceptAction ops self A (T, s) = Inr (T', s')" using step(1) by (simp add: sl_step_def)
  then show ?thesis using step(3) unfolding sl_AcceptAction_def
    by (auto simp: Let_def res_simps split: if_splits prod.splits option.splits intro: assms(1-3))
next
  case (Woken i)
  then show ?thesis using step(1,3) assms(4)
    by (auto simp: sl_step_def sl_ReadAction_def Let_def split: list.splits if_splits prod.splits)
next
  case (Gone a)
  then show ?thesis using step(1,3) assms(5)
    by (auto simp: sl_step_def sl_ErrorRead_def sl_ReleaseUserInfo_def Let_def res_simps split: if_splits)
qed (use step(2) in simp)

context user_resource
begin

lemma inv_stop:
  assumes "inv self n (T, s)" "sl_StopServer T = Inr T'"
  shows "inv self n (T', s)"
proof -
  note I = invD [OF assms(1)]
  have T: "sl_using T' = sl_using T" "sl_buffevs T' = sl_buffevs T" "sl_base_hash_key T' = sl_base_hash_key T"
    "sl_ready T' = sl_ready T"
    using assms(2) by (auto simp: sl_StopServer_def sl_ready_def split: if_splits)
  have "linked self (users s) (ur_fields ops s) T'"
    by (rule linked_later [OF I(3)]) (simp_all add: T)
  then show ?thesis using I T(4) by (simp add: inv_def)
qed

end

section \<open>An instance\<close>

text \<open>A configuration file with ports and one worker; a director server that can be reached; no messages.\<close>

definition ex_start_conf :: "byte list" where
  "ex_start_conf = concat (map (\<lambda>l. str l @ [10]) [''port 5000'', ''count_worker 1'', ''ds_port 6000''])"

definition ex_connects :: sock_env where
  "ex_connects = \<lparr>se_fuel = 1, se_fd = 9, se_conn = (\<lambda>_. 0), se_create = (\<lambda>_. 0), se_create_proc = (\<lambda>_. 0)\<rparr>"

definition ex_mute_pb :: protobuf where
  "ex_mute_pb = ex_center_pb\<lparr>pb_ser := (\<lambda>_. None)\<rparr>"

lemma ex_connects_ok: "connects ex_connects"
  by (simp add: connects_def ex_connects_def)

end
