(* ===== verification/Gate_Flow.thy ===== *)
theory Gate_Flow
  imports Gate_Server Steps
begin

text \<open>
  What the gate server does with the packets of its clients and of the room servers: the lemmas
  run the handlers of \<open>Gate_Server\<close>, the properties are about streams of packets and about the
  first login to a room.
\<close>

section \<open>Forwarding\<close>

text \<open>The envelope the gate puts around a packet of the client with a hash key.\<close>

definition client_gr :: "int \<Rightarrow> byte list \<Rightarrow> GateRoomServerPack" where
  "client_gr key bs = \<lparr>gr_str_head = str_123, gr_user_hashkey = key, gr_gs_hashkey = 0,
     gr_data_len = int (length bs), gr_data_msg = bs, gr_str_tail = str_456\<rparr>"

lemma client_gr_wf: "in_i32 key \<Longrightarrow> length bs < 2147483612 \<Longrightarrow> gr_wf (client_gr key bs)"
  by (simp add: gr_wf_def client_gr_def in_i32_def)

lemma client_gr_length [simp]: "length (gr_bytes (client_gr key bs)) = length bs + 18"
  by (simp add: gr_bytes_def client_gr_def)

lemma gw_forward_run:
  assumes "take n data = bs" "length bs = n" "n + 18 \<le> 8192" "length sb = 8192" "in_i32 key"
  shows "\<exists>sb'. gw_forward key data (int n) a sb S
      = Inr (sb', S\<lparr>gw_out := gw_out S @ [(gw_room_fd a S, gr_bytes (client_gr key bs))]\<rparr>)
    \<and> length sb' = 8192"
proof -
  let ?g = "client_gr key bs"
  have b: "gr_build key (int n) data = Inr ?g"
    using assms(1,2) by (auto simp: gr_build_def gr_set_str_head_def gr_set_str_tail_def
        gr_set_data_msg_def gr_new_def client_gr_def Let_def)
  have w: "gr_wf ?g" using assms(2,3,5) by (intro client_gr_wf) simp_all
  have sz: "gr_ByteSize ?g = int (n + 18)" using gr_ByteSize_bytes [OF w] assms(2) by simp
  have s: "gr_SerializeToArray ?g (Some sb) (gr_ByteSize ?g) = Inr (True, gr_bytes ?g @ drop (n + 18) sb)"
    using gr_serialize_bytes [OF w, of sb "gr_ByteSize ?g"] assms(2-4) by simp
  have "mem_read (gr_bytes ?g @ drop (n + 18) sb) 0 (gr_ByteSize ?g) = Inr (gr_bytes ?g)"
    by (rule mem_read_piece) (simp add: sz assms(2))
  then show ?thesis using assms(2-4) by (simp add: gw_forward_def b s)
qed

text \<open>Looking a room up changes the table only by null entries.\<close>

definition rooms_as :: "GateServer \<Rightarrow> GateServer \<Rightarrow> bool" where
  "rooms_as S S' \<longleftrightarrow> (\<exists>M. S' = S\<lparr>gw_room_manager := M\<rparr> \<and> live (gmg_list M) = live (gmg_list (gw_room_manager S))
     \<and> gmg_rooms M = gmg_rooms (gw_room_manager S) \<and> gmg_next M = gmg_next (gw_room_manager S))"

lemma rooms_asD:
  assumes "rooms_as S S'"
  shows "gw_out S' = gw_out S" "gw_users S' = gw_users S" "gw_user_list S' = gw_user_list S"
    "gw_ds_connector S' = gw_ds_connector S" "gw_cl_processor S' = gw_cl_processor S"
    "gw_server_id S' = gw_server_id S" "gw_rs_conn_list S' = gw_rs_conn_list S"
    "gw_rs_conns S' = gw_rs_conns S" "gw_rs_next S' = gw_rs_next S"
    "live (gmg_list (gw_room_manager S')) = live (gmg_list (gw_room_manager S))"
    "gw_room_fd a S' = gw_room_fd a S" "gmg_socket (gw_room_manager S') = gmg_socket (gw_room_manager S)"
    "gmg_wf (gw_room_manager S') = gmg_wf (gw_room_manager S)"
  using assms by (auto simp: rooms_as_def gw_room_fd_def gmg_socket_def gmg_wf_def fun_eq_iff)

lemma gw_get_room: "\<exists>S'. gw_GetChatRoom rid S = (live (gmg_list (gw_room_manager S)) rid, S') \<and> rooms_as S S'"
  by (auto simp: gw_GetChatRoom_def gmg_GetChatRoom_def split_def rooms_as_def)

lemma socket_some: "gmg_socket (gw_room_manager S) rid = Some fd \<longleftrightarrow>
  (\<exists>a. live (gmg_list (gw_room_manager S)) rid = Some a \<and> gw_room_fd a S = fd)"
  by (auto simp: gmg_socket_def gw_room_fd_def)

text \<open>A packet for a known room leaves as one envelope, and nothing else changes.\<close>

definition sent_on :: "int \<Rightarrow> (int \<Rightarrow> int option) \<Rightarrow> StruCytPacket \<Rightarrow> GateServer \<Rightarrow> GateServer \<Rightarrow> bool" where
  "sent_on key socks p S S' \<longleftrightarrow> gw_users S' = gw_users S \<and> gw_user_list S' = gw_user_list S
     \<and> gw_cl_processor S' = gw_cl_processor S \<and> gw_ds_connector S' = gw_ds_connector S
     \<and> gw_out S' = gw_out S @ [(the (socks (cyt_room_id p)), gr_bytes (client_gr key (cyt_bytes p)))]"

abbreviation known :: "(int \<Rightarrow> int option) \<Rightarrow> StruCytPacket \<Rightarrow> bool" where
  "known socks p \<equiv> cyt_wf p \<and> length (cyt_bytes p) \<le> 4096 \<and> socks (cyt_room_id p) \<noteq> None"

text \<open>Copying a packet of at most 0x1000 bytes, and moving what follows to the front.\<close>

lemma gu_move:
  assumes "length buf = MaxRecvBuffLen" "k \<le> n" "n \<le> 4096" "length pd = 4096" "take k buf = bs"
  shows "\<exists>pd1 buf1. memcpy pd 0 buf 0 (int k) = Inr pd1 \<and> length pd1 = 4096 \<and> take k pd1 = bs
    \<and> memcpy buf 0 buf (int k) (4096 - int k) = Inr buf1 \<and> length buf1 = MaxRecvBuffLen
    \<and> take (n - k) buf1 = take (n - k) (drop k buf)"
proof -
  have e: "4096 - int k = int (4096 - k)" using assms(2,3) by simp
  have l: "length bs = k" using assms by auto
  have "memcpy pd 0 buf 0 (int k) = Inr (take k buf @ drop k pd)" using assms by simp
  moreover have "memcpy buf 0 buf (int k) (int (4096 - k))
      = Inr (take (4096 - k) (drop k buf) @ drop (4096 - k) buf)"
    using assms by (simp add: memcpy_def del: of_nat_diff)
  ultimately show ?thesis unfolding e using assms l by (simp del: of_nat_diff)
qed

lemma gu_handles:
  assumes "in_i32 key" "cap \<le> 4096"
  shows "handles (gu_frame pb (Some srv) key) (known socks) cyt_bytes cap
    (\<lambda>(pd, sb, S). length pd = 4096 \<and> length sb = 8192 \<and> gmg_socket (gw_room_manager S) = socks)
    (\<lambda>p (pd, sb, S) (pd', sb', S'). sent_on key socks p S S')"
  unfolding handles_def
proof (intro allI impI, elim conjE, goal_cases)
  case (1 p buf n s)
  obtain pd sb S where s: "s = (pd, sb, S)" by (cases s)
  let ?k = "length (cyt_bytes p)"
  have sz: "cyt_ByteSize p = int ?k" using 1 by (simp add: cyt_ByteSize_bytes)
  have S: "length pd = 4096" "length sb = 8192" "gmg_socket (gw_room_manager S) = socks"
    using 1(9) s by auto
  obtain pd1 buf1 where m: "memcpy pd 0 buf 0 (int ?k) = Inr pd1" "length pd1 = 4096"
    "take ?k pd1 = cyt_bytes p" "memcpy buf 0 buf (int ?k) (4096 - int ?k) = Inr buf1"
    "length buf1 = MaxRecvBuffLen" "take (n - ?k) buf1 = take (n - ?k) (drop ?k buf)"
    using gu_move [of buf ?k n pd "cyt_bytes p"] 1 S(1) assms(2) by auto
  obtain S1 where g: "gw_GetChatRoom (cyt_room_id p) S = (live (gmg_list (gw_room_manager S)) (cyt_room_id p), S1)"
    "rooms_as S S1" using gw_get_room by blast
  obtain a where a: "live (gmg_list (gw_room_manager S)) (cyt_room_id p) = Some a"
    "gw_room_fd a S = the (socks (cyt_room_id p))"
    using 1 S(3) socket_some [of S "cyt_room_id p"] by fastforce
  obtain sb1 where f: "gw_forward key pd1 (int ?k) a sb S1
      = Inr (sb1, S1\<lparr>gw_out := gw_out S1 @ [(gw_room_fd a S1, gr_bytes (client_gr key (cyt_bytes p)))]\<rparr>)"
    "length sb1 = 8192"
    using gw_forward_run [of ?k pd1 "cyt_bytes p" sb key a S1] m(3) 1 S(2) assms by auto
  let ?S2 = "S1\<lparr>gw_out := gw_out S1 @ [(gw_room_fd a S1, gr_bytes (client_gr key (cyt_bytes p)))]\<rparr>"
  have v: "int n - int ?k = int (n - ?k)" using 1 by simp
  have run: "gu_frame pb (Some srv) key p buf (int n) s = Inr (buf1, int (n - ?k), pd1, sb1, ?S2)"
    by (simp add: gu_frame_def s sz m(1,4) g(1) a(1) f(1) v Let_def)
  have "sent_on key socks p S ?S2"
    using a(2) by (simp add: sent_on_def rooms_asD [OF g(2)])
  moreover have "gmg_socket (gw_room_manager ?S2) = socks" using S(3) by (simp add: rooms_asD [OF g(2)])
  ultimately show ?case using run m(2,5,6) f(2) s by auto
qed

text \<open>\<open>DealWithData\<close> on the block of a connection and the rest of the server.\<close>

definition gu_deal :: "protobuf \<Rightarrow> nat \<Rightarrow> int \<Rightarrow> byte list \<Rightarrow> byte list \<times> int \<times> GateServer
    \<Rightarrow> (byte list \<times> int \<times> GateServer) res" where
  "gu_deal pb srv key c = (\<lambda>(buf, valid, S).
     res_bind (deal_chunk gu_parse (\<lambda>_. gu_frame pb (Some srv) key) c
         (buf, valid, replicate 0x1000 0, replicate 0x2000 0, S)) (\<lambda>(buf1, valid1, _, _, S1).
       Inr (buf1, valid1, S1)))"

lemma handled_proj:
  "handled (\<lambda>p (x, y, s) (x', y', s'). R p s s') ps t t' \<Longrightarrow> handled R ps (snd (snd t)) (snd (snd t'))"
  by (induction rule: handled.induct) auto

lemma gu_delivers:
  assumes "in_i32 key" "cap \<le> 4096"
  shows "cyt.delivers (known socks) cap (\<lambda>S. gmg_socket (gw_room_manager S) = socks) (sent_on key socks)
    (gu_deal pb srv key) c"
proof -
  let ?I = "\<lambda>(pd, sb, S). length pd = 4096 \<and> length sb = 8192 \<and> gmg_socket (gw_room_manager S) = socks"
    and ?R = "\<lambda>p (pd, sb, S) (pd', sb', S'). sent_on key socks p S S'"
  have h: "handles (gu_frame pb (Some srv) key) (known socks) cyt_bytes cap ?I ?R"
    by (rule gu_handles [OF assms])
  have D: "cyt.delivers (known socks) cap ?I ?R (deal_chunk gu_parse (\<lambda>_. gu_frame pb (Some srv) key)) c"
    using cyt.deal_chunk_delivers [where act = "\<lambda>_. gu_frame pb (Some srv) key" and c = c and q = "cyt_new 0", OF h]
      assms(2) by (simp add: gu_parse_def [abs_def])
  show ?thesis unfolding cyt.delivers_def
  proof (intro allI impI, elim conjE, goal_cases)
    case (1 rs buf n S)
    let ?s = "(replicate 4096 0, replicate 8192 0, S) :: byte list \<times> byte list \<times> GateServer"
    have "?I ?s" using 1 by simp
    then obtain ds rs' buf' n' s' where
      d: "deal_chunk gu_parse (\<lambda>_. gu_frame pb (Some srv) key) c (buf, int n, ?s) = Inr (buf', int n', s')"
      "rs = ds @ rs'" "cyt.pending rs' buf' n'" "take n buf @ c = concat (map cyt_bytes ds) @ take n' buf'"
      "handled ?R ds ?s s'" "?I s'"
      using D [unfolded cyt.delivers_def] 1 by blast
    obtain pd sb S' where s': "s' = (pd, sb, S')" by (cases s')
    then show ?case using d handled_proj [OF d(5)]
      by (intro exI [of _ ds] exI [of _ rs'] exI [of _ buf'] exI [of _ n'] exI [of _ S'])
        (simp add: gu_deal_def)
  qed
qed

text \<open>
  \<open>DealWithData\<close> in terms of that: the block of the client is taken out of the server's state and put
  back.
\<close>

definition gu_fill :: "nat \<Rightarrow> GateServer \<Rightarrow> byte list \<Rightarrow> int \<Rightarrow> GateServer" where
  "gu_fill a S buf valid = S\<lparr>gw_users := (gw_users S)
     (a := (gw_users S a)\<lparr>gu_recved_buff := buf, gu_valid_buff_len := valid\<rparr>)\<rparr>"

definition gu_step :: "protobuf \<Rightarrow> nat \<Rightarrow> byte list \<Rightarrow> byte list \<times> int \<times> GateServer
    \<Rightarrow> (byte list \<times> int \<times> GateServer) res" where
  "gu_step pb a c = (\<lambda>(buf, valid, S). res_bind (gu_DealWithData pb c a (gu_fill a S buf valid)) (\<lambda>T.
     Inr (gu_recved_buff (gw_users T a), gu_valid_buff_len (gw_users T a), gu_fill a T [] 0)))"

lemma gu_fill_fill [simp]: "gu_fill a (gu_fill a S b n) b' n' = gu_fill a S b' n'"
  by (simp add: gu_fill_def)

lemma gu_fill_own: "gu_fill a T (gu_recved_buff (gw_users T a)) (gu_valid_buff_len (gw_users T a)) = T"
  by (simp add: gu_fill_def)

lemma gu_fill_simps [simp]:
  "gu_recved_buff (gw_users (gu_fill a S b n) a) = b" "gu_valid_buff_len (gw_users (gu_fill a S b n) a) = n"
  "hash_key (gw_users (gu_fill a S b n) a) = hash_key (gw_users S a)"
  "gu_gate_server (gw_users (gu_fill a S b n) a) = gu_gate_server (gw_users S a)"
  "gw_room_manager (gu_fill a S b n) = gw_room_manager S" "gw_out (gu_fill a S b n) = gw_out S"
  "gw_user_list (gu_fill a S b n) = gw_user_list S" "gw_cl_processor (gu_fill a S b n) = gw_cl_processor S"
  "gw_ds_connector (gu_fill a S b n) = gw_ds_connector S"
  by (simp_all add: gu_fill_def)

lemma gu_run:
  "deal_all (gu_step pb a) cs (buf, n, S) = Inr (buf', n', S')
   \<Longrightarrow> deal_all (\<lambda>c. gu_DealWithData pb c a) cs (gu_fill a S buf n) = Inr (gu_fill a S' buf' n')"
proof (induction cs arbitrary: buf n S)
  case (Cons c cs)
  obtain st where st: "gu_step pb a c (buf, n, S) = Inr st" "deal_all (gu_step pb a) cs st = Inr (buf', n', S')"
    using Cons.prems by (auto simp: res_simps)
  obtain T where "gu_DealWithData pb c a (gu_fill a S buf n) = Inr T"
    "st = (gu_recved_buff (gw_users T a), gu_valid_buff_len (gw_users T a), gu_fill a T [] 0)"
    using st(1) by (auto simp: gu_step_def res_simps)
  with st(2) have T: "gu_DealWithData pb c a (gu_fill a S buf n) = Inr T"
    "deal_all (gu_step pb a) cs (gu_recved_buff (gw_users T a), gu_valid_buff_len (gw_users T a), gu_fill a T [] 0)
      = Inr (buf', n', S')" by simp_all
  show ?case using Cons.IH [OF T(2)] T(1) by (simp add: gu_fill_own)
qed simp

lemma handled_map:
  "handled R ps s s' \<Longrightarrow> (\<And>p s s'. R p s s' \<Longrightarrow> Q p (f s) (f s')) \<Longrightarrow> handled Q ps (f s) (f s')"
  by (induction rule: handled.induct) (auto intro: handled.intros)

lemma sent_on_fill: "sent_on key socks p S S' \<Longrightarrow> sent_on key socks p (gu_fill a S b n) (gu_fill a S' b n)"
  by (simp add: sent_on_def) (simp add: gu_fill_def)

abbreviation gu_client :: "(int \<Rightarrow> int option) \<Rightarrow> nat \<Rightarrow> int \<Rightarrow> nat \<Rightarrow> GateServer \<Rightarrow> bool" where
  "gu_client socks srv key a S \<equiv> gmg_socket (gw_room_manager S) = socks
     \<and> gu_gate_server (gw_users S a) = Some srv \<and> hash_key (gw_users S a) = key"

lemma sent_on_all:
  "handled (sent_on key socks) ps S S' \<Longrightarrow> gw_users S' = gw_users S \<and> gw_user_list S' = gw_user_list S
     \<and> gw_cl_processor S' = gw_cl_processor S \<and> gw_ds_connector S' = gw_ds_connector S
     \<and> gw_out S' = gw_out S @ map (\<lambda>p. (the (socks (cyt_room_id p)), gr_bytes (client_gr key (cyt_bytes p)))) ps"
  by (induction rule: handled.induct) (auto simp: sent_on_def)

lemma gu_step_delivers:
  assumes "in_i32 key" "cap \<le> 4096"
  shows "cyt.delivers (known socks) cap (\<lambda>S. gu_client socks srv key a S \<and> gu_fill a S [] 0 = S)
    (sent_on key socks) (gu_step pb a) c"
  unfolding cyt.delivers_def
proof (intro allI impI, elim conjE, goal_cases)
  case (1 rs buf n S)
  let ?S = "gu_fill a S buf (int n)"
  obtain ds rs' buf' n' S' where d: "gu_deal pb srv key c (buf, int n, ?S) = Inr (buf', int n', S')"
    "rs = ds @ rs'" "cyt.pending rs' buf' n'" "take n buf @ c = concat (map cyt_bytes ds) @ take n' buf'"
    "handled (sent_on key socks) ds ?S S'" "gmg_socket (gw_room_manager S') = socks"
    using gu_delivers [OF assms, of socks pb srv c, unfolded cyt.delivers_def, rule_format, of rs n buf ?S] 1 by auto
  have "gu_DealWithData pb c a ?S = Inr (gu_fill a S' buf' (int n'))"
    using d(1) 1 by (auto simp: gu_DealWithData_def gu_deal_def gu_fill_def res_simps split_def)
  moreover have "handled (sent_on key socks) ds (gu_fill a ?S [] 0) (gu_fill a S' [] 0)"
    using d(5) by (rule handled_map [where f = "\<lambda>S. gu_fill a S [] 0"]) (rule sent_on_fill)
  moreover have "gw_users S' = gw_users ?S" using sent_on_all [OF d(5)] by simp
  ultimately show ?case using d 1
    by (intro exI [of _ ds] exI [of _ rs'] exI [of _ buf'] exI [of _ n'] exI [of _ "gu_fill a S' [] 0"])
      (auto simp: gu_step_def)
qed

lemma gate_stream:
  assumes "gu_client socks srv key a S" "in_i32 key"
    and "gu_valid_buff_len (gw_users S a) = 0" "length (gu_recved_buff (gw_users S a)) = MaxRecvBuffLen"
    and "\<forall>p \<in> set ps. cyt_wf p \<and> cyt_msg_data p \<noteq> [] \<and> length (cyt_bytes p) \<le> lim \<and> socks (cyt_room_id p) \<noteq> None"
    and "concat cs = concat (map cyt_bytes ps)" "\<forall>c \<in> set cs. length c \<le> clim" "lim + clim \<le> 4096"
  shows "\<exists>S'. deal_all (\<lambda>c. gu_DealWithData pb c a) cs S = Inr S' \<and> gu_valid_buff_len (gw_users S' a) = 0
    \<and> gw_out S' = gw_out S @ map (\<lambda>p. (the (socks (cyt_room_id p)), gr_bytes (client_gr key (cyt_bytes p)))) ps
    \<and> gw_cl_processor S' = gw_cl_processor S \<and> gw_ds_connector S' = gw_ds_connector S"
proof -
  let ?S = "gu_fill a S [] 0" and ?buf = "gu_recved_buff (gw_users S a)"
  let ?I = "\<lambda>S. gu_client socks srv key a S \<and> gu_fill a S [] 0 = S"
  have 1: "\<forall>p \<in> set ps. known socks p \<and> cyt_wf p \<and> 18 < length (cyt_bytes p) \<and> length (cyt_bytes p) \<le> lim"
    using assms(5,8) by (auto simp: length_cyt_bytes)
  have 2: "\<forall>c \<in> set cs. cyt.delivers (known socks) 4096 ?I (sent_on key socks) (gu_step pb a) c"
    using gu_step_delivers [OF assms(2)] by blast
  have 3: "cyt.pending ps ?buf 0" using assms(4) 1 by (cases ps) (auto simp: cyt.pending_def)
  have 4: "take 0 ?buf @ concat cs = concat (map cyt_bytes ps)" using assms(6) by simp
  have 5: "?I ?S" using assms(1) by simp
  obtain buf' S' where r: "deal_all (gu_step pb a) cs (?buf, int 0, ?S) = Inr (buf', 0, S')"
    "handled (sent_on key socks) ps ?S S'"
    using cyt.deal_stream [OF 1 assms(7,8) _ 2 3 4 5] by auto
  have "gu_fill a ?S ?buf 0 = S" using gu_fill_own [of a S] assms(3) by simp
  then show ?thesis using gu_run [OF r(1)] sent_on_all [OF r(2)] by simp
qed

text \<open>
  C11: The gate forwards the stream of a client correctly. However the packets of a client to
  rooms the gate knows are cut into reads, each packet leaves as one envelope with the hash
  key of the connection and the unchanged bytes of the packet, on the socket of its room's server, in order, and the receive
  block is empty afterwards, provided no packet and read together exceed 0x1000 bytes.
\<close>

theorem gate_forwards_stream:
  assumes "gu_client socks srv key a S" "in_i32 key"
    and "gu_valid_buff_len (gw_users S a) = 0" "length (gu_recved_buff (gw_users S a)) = MaxRecvBuffLen"
    and "\<forall>p \<in> set ps. cyt_wf p \<and> cyt_msg_data p \<noteq> [] \<and> length (cyt_bytes p) \<le> lim \<and> socks (cyt_room_id p) \<noteq> None"
    and "concat cs = concat (map cyt_bytes ps)" "\<forall>c \<in> set cs. length c \<le> clim" "lim + clim \<le> 4096"
  shows "\<exists>S'. deal_all (\<lambda>c. gu_DealWithData pb c a) cs S = Inr S' \<and> gu_valid_buff_len (gw_users S' a) = 0
    \<and> gw_out S' = gw_out S @ map (\<lambda>p. (the (socks (cyt_room_id p)), gr_bytes (client_gr key (cyt_bytes p)))) ps
    \<and> gw_cl_processor S' = gw_cl_processor S \<and> gw_ds_connector S' = gw_ds_connector S"
  by (rule gate_stream [OF assms])

section \<open>The first login to a room\<close>

text \<open>The request for a room, as it is queued for the director server.\<close>

abbreviation room_query :: "int \<Rightarrow> int \<Rightarrow> pmsg" where
  "room_query sid rid \<equiv> P_DsGSGetRoomInfoRq sid rid"

lemma pack_for_ds_ok:
  assumes "ser m = Some bs" "length bs + 18 \<le> 4096" "in_i32 msg_id"
  obtains rest where "pack_for_ds ser m msg_id
      = Inr (True, cyt_bytes (user_cyt msg_id bs) @ rest, int (length bs + 18))"
proof -
  let ?b = "bs @ drop (length bs) (replicate 4096 0)" and ?c = "user_cyt msg_id bs"
  have l: "length bs < 2147483630" using assms(2) by simp
  have 1: "msg_SerializeToArray ser m (replicate 4096 0) = Inr (True, ?b)"
    using assms(1,2) by (intro msg_serialize_ok) simp_all
  have sz: "msg_ByteSize ser m = int (length bs)" using assms(1) by (simp add: msg_ByteSize_def)
  have 2: "cyt_build msg_id (int (length bs)) ?b = Inr ?c" by (intro cyt_build_ok) simp_all
  have 3: "cyt_SerializeToArray ?c (Some ?b) (cyt_ByteSize ?c)
      = Inr (True, cyt_bytes ?c @ drop (length (cyt_bytes ?c)) ?b)"
    using assms(2,3) l by (intro cyt_serialize_bytes user_cyt_wf) simp_all
  have "pack_for_ds ser m msg_id
      = Inr (True, cyt_bytes ?c @ drop (length (cyt_bytes ?c)) ?b, int (length bs + 18))"
    unfolding pack_for_ds_def 1 res_bind.simps case_prod_conv sz 2 3
    using user_cyt_size [OF assms(3) l] by simp
  then show ?thesis by (rule that)
qed

lemma con_send_whole:
  assumes "cl_inv (con_send_list C)" "0 < cl_free (con_send_list C)" "length bs \<le> 4096"
  obtains L where "con_SendData (bs @ rest) (int (length bs)) C = Inr (True, C\<lparr>con_send_list := L\<rparr>)"
    "cl_inv L" "cl_abs L = cl_abs (con_send_list C) @ [bs]"
  using clq.add_ok [OF assms(1) _ _ _ assms(2), of "int (length bs)" "bs @ rest"] assms(3)
  by (auto simp: con_SendData_def)

lemma gate_query_run:
  assumes "pr_parent_ptr (dsc_processor (gw_ds_connector S)) \<noteq> None"
    and "bp_caller_ptr (dsc_processor (gw_ds_connector S)) \<noteq> None"
    and "cl_inv (con_send_list (gw_ds_connector S))" "0 < cl_free (con_send_list (gw_ds_connector S))"
    and "ser (room_query (gw_server_id S) rid) = Some m" "length m + 18 \<le> 4096"
  obtains L where "gds_SendQueryRoom ser rid S
      = Inr (S\<lparr>gw_ds_connector := (gw_ds_connector S)\<lparr>con_send_list := L\<rparr>\<rparr>)"
    "cl_inv L" "cl_abs L = cl_abs (con_send_list (gw_ds_connector S))
       @ [cyt_bytes (user_cyt DEF_DS_GS_GET_ROOMINFO_RQ m)]"
proof -
  have i: "in_i32 DEF_DS_GS_GET_ROOMINFO_RQ" by (simp add: in_i32_def)
  have le: "length (cyt_bytes (user_cyt DEF_DS_GS_GET_ROOMINFO_RQ m)) \<le> 4096"
    unfolding user_cyt_bytes by (rule assms(6))
  obtain rest where p: "pack_for_ds ser (room_query (gw_server_id S) rid) DEF_DS_GS_GET_ROOMINFO_RQ
      = Inr (True, cyt_bytes (user_cyt DEF_DS_GS_GET_ROOMINFO_RQ m) @ rest, int (length m + 18))"
    using pack_for_ds_ok [where ser = ser and m = "room_query (gw_server_id S) rid", OF assms(5,6) i] .
  obtain L where L: "con_SendData (cyt_bytes (user_cyt DEF_DS_GS_GET_ROOMINFO_RQ m) @ rest)
        (int (length (cyt_bytes (user_cyt DEF_DS_GS_GET_ROOMINFO_RQ m)))) (gw_ds_connector S)
      = Inr (True, (gw_ds_connector S)\<lparr>con_send_list := L\<rparr>)"
    "cl_inv L" "cl_abs L = cl_abs (con_send_list (gw_ds_connector S))
       @ [cyt_bytes (user_cyt DEF_DS_GS_GET_ROOMINFO_RQ m)]"
    by (rule con_send_whole [OF assms(3,4) le])
  have "gds_SendQueryRoom ser rid S = Inr (S\<lparr>gw_ds_connector := (gw_ds_connector S)\<lparr>con_send_list := L\<rparr>\<rparr>)"
    by (simp only: gds_SendQueryRoom_def Let_def p assms(1,2) L(1) [unfolded user_cyt_bytes] if_False if_True
        res_bind.simps case_prod_conv not_True_eq_False)
  then show ?thesis using L(2,3) by (rule that)
qed

text \<open>Holding a packet back, together with the key of its user.\<close>

definition awaited :: "int \<Rightarrow> (int \<times> int) list \<Rightarrow> (int \<times> int) list" where
  "awaited rid m = (let (v, m1) = map_index 0 m rid in if v = 0 then map_put rid rid m1 else m1)"

lemma map_of_awaited: "map_of (awaited rid m) = (map_of m)(rid \<mapsto>
    (case map_of m rid of Some v \<Rightarrow> if v = 0 then rid else v | None \<Rightarrow> rid))"
  by (auto simp: awaited_def map_index_def fun_eq_iff split: option.splits)

lemma hold_back_run:
  assumes "length bs = n" "n + 4 \<le> 4096" "cl_inv (bp_data_list P)" "0 < cl_free (bp_data_list P)"
  obtains L where "\<And>buff. take n buff = bs \<Longrightarrow> clp_AddOneUndealPack buff (int n) rid key P
      = Inr (True, P\<lparr>clp_room_list := awaited rid (clp_room_list P), bp_data_list := L\<rparr>)"
    "cl_inv L" "cl_abs L = cl_abs (bp_data_list P) @ [bs @ le4 key]"
proof -
  let ?z = "replicate (8188 - n) 0"
  have 1: "memcpy (replicate 8192 0) 0 buff 0 (int n) = Inr (bs @ replicate (8192 - n) 0)"
    if "take n buff = bs" for buff
  proof -
    have "n \<le> length buff" using arg_cong [OF that, of length] assms(1) by simp
    then show ?thesis using assms(1,2) that by simp
  qed
  have 2: "memcpy (bs @ replicate (8192 - n) 0) (int n) (le4 key) 0 4 = Inr ((bs @ le4 key) @ ?z)"
    using assms(1,2) by (simp add: memcpy_def mem_write_def)
  obtain L where L: "cl_AddBuffer ((bs @ le4 key) @ ?z) (int n + 4) (bp_data_list P) = Inr (True, L)"
    "cl_inv L" "cl_abs L = cl_abs (bp_data_list P) @ [bs @ le4 key]"
    using clq.add_ok [OF assms(3) _ _ _ assms(4), of "int n + 4" "(bs @ le4 key) @ ?z"] assms(1,2)
    by (auto simp: nat_add_distrib)
  have "clp_AddOneUndealPack buff (int n) rid key P
      = Inr (True, P\<lparr>clp_room_list := awaited rid (clp_room_list P), bp_data_list := L\<rparr>)"
    if "take n buff = bs" for buff
    using assms(2) L(1) by (simp add: 1 [OF that] 2 clp_AddOneUndealPack_def awaited_def Let_def split_def)
  then show ?thesis using L(2,3) by (rule that)
qed

text \<open>A round of the thread with a packet that was held back at the head of the queue.\<close>

abbreviation held :: "int \<Rightarrow> StruCytPacket \<Rightarrow> byte list" where
  "held key p \<equiv> cyt_bytes p @ le4 key"

lemma held_run:
  assumes "cl_inv (bp_data_list P)" "cl_abs (bp_data_list P) = held key p # ms"
    and "cyt_wf p" "length (cyt_bytes p) + 4 \<le> 4096" "in_i32 key" "length (clp_out_buff P) = 8192"
  obtains buff L where "cl_GetBuffer (clp_out_buff P) 8192 (clp_out_len P) (bp_data_list P)
      = Inr (True, buff, int (length (cyt_bytes p)) + 4, L)" "length buff = 8192"
    "take (length (cyt_bytes p) + 4) buff = held key p"
    "cl_inv L" "cl_abs L = ms" "0 < cl_free L"
    "mem_read buff (int (length (cyt_bytes p))) 4 = Inr (le4 key)"
    "cyt_ParseFromArray (cyt_new 0) (Some buff) (int (length (cyt_bytes p))) = Inr (True, p)"
proof -
  let ?b = "held key p @ drop (length (held key p)) (clp_out_buff P)"
  obtain L where L: "cl_GetBuffer (clp_out_buff P) 8192 (clp_out_len P) (bp_data_list P)
      = Inr (True, ?b, int (length (held key p)), L)" "cl_inv L" "cl_abs L = ms"
    "cl_free (bp_data_list P) < cl_free L"
    using clq.get_ok [OF assms(1,2), of 8192 "clp_out_buff P" "clp_out_len P"] assms(4,6) by auto
  have "0 \<le> cl_free (bp_data_list P)" using assms(1) by (auto simp: cl_inv_def cl_free_def split: option.splits)
  moreover have "mem_read ?b (int (length (cyt_bytes p))) 4 = Inr (le4 key)"
    using mem_read_nat [of "length (cyt_bytes p)" 4 ?b] assms(4,6) by simp
  moreover have "cyt_ParseFromArray (cyt_new 0) (Some ?b) (int (length (cyt_bytes p))) = Inr (True, p)"
    using cyt_parse_bytes [OF assms(3), of "int (length (cyt_bytes p))"] by simp
  ultimately show ?thesis using L assms(4,6) by (intro that [of ?b L]) simp_all
qed

lemma cl_add_taken:
  assumes "cl_inv L" "0 < cl_free L" "take n b = m" "length m = n" "n \<le> 4096" "n \<le> length b"
  obtains L' where "cl_AddBuffer b (int n) L = Inr (True, L')" "cl_inv L'" "cl_abs L' = cl_abs L @ [m]"
  using clq.add_ok [OF assms(1) _ _ _ assms(2), of "int n" b] assms(3-6) by auto

lemma clp_round_waits:
  assumes "cl_inv (bp_data_list (gw_cl_processor S))" "cl_abs (bp_data_list (gw_cl_processor S)) = held key p # ms"
    and "cyt_wf p" "length (cyt_bytes p) + 4 \<le> 4096" "in_i32 key" "length (clp_out_buff (gw_cl_processor S)) = 8192"
    and "map_of (clp_room_list (gw_cl_processor S)) (cyt_room_id p) = Some v" "v \<noteq> 0"
  shows "\<exists>buff L. clp_deal_round S = Inr (S\<lparr>gw_cl_processor := (gw_cl_processor S)\<lparr>bp_data_list := L,
        clp_out_buff := buff, clp_out_len := int (length (cyt_bytes p)) + 4\<rparr>\<rparr>)
    \<and> cl_inv L \<and> cl_abs L = ms @ [held key p] \<and> length buff = 8192"
proof -
  let ?n = "length (cyt_bytes p)" and ?P = "gw_cl_processor S"
  obtain buff L where g: "cl_GetBuffer (clp_out_buff ?P) 8192 (clp_out_len ?P) (bp_data_list ?P)
      = Inr (True, buff, int ?n + 4, L)" "length buff = 8192" "take (?n + 4) buff = held key p"
    "cl_inv L" "cl_abs L = ms" "0 < cl_free L" "mem_read buff (int ?n) 4 = Inr (le4 key)"
    "cyt_ParseFromArray (cyt_new 0) (Some buff) (int ?n) = Inr (True, p)"
    using held_run [OF assms(1-6)] .
  obtain L' where a: "cl_AddBuffer buff (int (?n + 4)) L = Inr (True, L')" "cl_inv L'" "cl_abs L' = ms @ [held key p]"
    by (rule cl_add_taken [OF g(4,6,3)]) (use assms(4) g(2,5) in simp_all)
  have m: "map_index 0 (clp_room_list ?P) (cyt_room_id p) = (v, clp_room_list ?P)"
    using assms(7) by (simp add: map_index_def)
  show ?thesis using a assms(8)
    by (intro exI [of _ buff] exI [of _ L']) (simp add: clp_deal_round_def g m Let_def)
qed

lemma clp_round_forwards:
  assumes "cl_inv (bp_data_list (gw_cl_processor S))" "cl_abs (bp_data_list (gw_cl_processor S)) = held key p # ms"
    and "cyt_wf p" "length (cyt_bytes p) + 4 \<le> 4096" "in_i32 key" "length (clp_out_buff (gw_cl_processor S)) = 8192"
    and "map_of (clp_room_list (gw_cl_processor S)) (cyt_room_id p) = None"
    and "gmg_socket (gw_room_manager S) (cyt_room_id p) = Some fd"
  shows "\<exists>S'. clp_deal_round S = Inr S'
    \<and> gw_out S' = gw_out S @ [(fd, gr_bytes (client_gr key (cyt_bytes p)))]
    \<and> cl_abs (bp_data_list (gw_cl_processor S')) = ms"
proof -
  let ?n = "length (cyt_bytes p)" and ?P = "gw_cl_processor S"
  obtain buff L where g: "cl_GetBuffer (clp_out_buff ?P) 8192 (clp_out_len ?P) (bp_data_list ?P)
      = Inr (True, buff, int ?n + 4, L)" "length buff = 8192" "take (?n + 4) buff = held key p"
    "cl_inv L" "cl_abs L = ms" "0 < cl_free L" "mem_read buff (int ?n) 4 = Inr (le4 key)"
    "cyt_ParseFromArray (cyt_new 0) (Some buff) (int ?n) = Inr (True, p)"
    using held_run [OF assms(1-6)] .
  have m: "map_index 0 (clp_room_list ?P) (cyt_room_id p)
      = (0, map_put (cyt_room_id p) 0 (clp_room_list ?P))"
    using assms(7) by (simp add: map_index_def)
  let ?S = "S\<lparr>gw_cl_processor := ?P\<lparr>bp_data_list := L, clp_out_buff := buff, clp_out_len := int ?n + 4,
      clp_room_list := map_put (cyt_room_id p) 0 (clp_room_list ?P)\<rparr>\<rparr>"
  obtain S3 where r: "gw_GetChatRoom (cyt_room_id p) ?S
      = (live (gmg_list (gw_room_manager ?S)) (cyt_room_id p), S3)" "rooms_as ?S S3"
    using gw_get_room by blast
  obtain a where a: "live (gmg_list (gw_room_manager S)) (cyt_room_id p) = Some a" "gw_room_fd a S = fd"
    using assms(8) socket_some by blast
  have "gw_room_fd a S3 = fd" using rooms_asD(11) [OF r(2), of a] a(2) by (simp add: gw_room_fd_def)
  have "take ?n buff = cyt_bytes p" using arg_cong [OF g(3), of "take ?n"] by simp
  then obtain sb where f: "gw_forward key buff (int ?n) a (replicate 8192 0) S3
      = Inr (sb, S3\<lparr>gw_out := gw_out S3 @ [(gw_room_fd a S3, gr_bytes (client_gr key (cyt_bytes p)))]\<rparr>)"
    using gw_forward_run [of ?n buff "cyt_bytes p" "replicate 8192 0" key a S3] assms(4,5) by auto
  have fw: "gw_forward (of_le4 (le4 key)) buff (int ?n) a (replicate 8192 0) S3
      = Inr (sb, S3\<lparr>gw_out := gw_out S @ [(fd, gr_bytes (client_gr key (cyt_bytes p)))]\<rparr>)"
    using f \<open>gw_room_fd a S3 = fd\<close> assms(5) by (simp add: rooms_asD(1) [OF r(2)])
  have "clp_deal_round S = Inr (S3\<lparr>gw_out := gw_out S @ [(fd, gr_bytes (client_gr key (cyt_bytes p)))]\<rparr>)"
    unfolding clp_deal_round_def Let_def g(1) res_bind.simps case_prod_conv
    using r(1) a(1) by (simp add: m g(7,8) fw)
  moreover have "cl_abs (bp_data_list (gw_cl_processor S3)) = ms" using g(5) by (simp add: rooms_asD [OF r(2)])
  ultimately show ?thesis by simp
qed

text \<open>The answer: a connection to the room server is opened and becomes the room's.\<close>

lemma rsc_StartRSProcessor_ok:
  "\<exists>P. rsc_StartRSProcessor self create 1000 1 server C
     = Inr (True, C\<lparr>rsc_server_ptr := server, rsc_processor := P\<rparr>)"
proof -
  obtain L where "cl_InitBuffer 1000 (bp_data_list (rsc_processor C)) = Inr L"
    using init_1000 by blast
  then show ?thesis
    by (cases "create 0 = 0") (simp add: rsc_StartRSProcessor_def grp_InitProcessor_def bp_InitProcessor_def
        grp_StartProcessor_def pr_start_def split_def Let_def, rule exI, rule refl)+
qed

lemma gw_new_connector_run:
  assumes "connects E" "0 < wrap16 (dri_server_port rs)"
  shows "\<exists>C. gw_new_connector E server rs S = Inr (Some (gw_rs_next S),
      S\<lparr>gw_rs_conns := (gw_rs_conns S)(gw_rs_next S := C), gw_rs_next := Suc (gw_rs_next S)\<rparr>)
    \<and> con_client_fd C = se_fd E"
proof -
  obtain C0 where C0: "rsc_new = Inr C0" using init_1000 [of "cl_new 0"] by (auto simp: rsc_new_def)
  obtain C1 where C1: "con_InitConnectionInfo (c_str (dri_server_ip rs)) (dri_server_port rs) C0 = Inr C1"
    "con_server_port C1 = wrap16 (dri_server_port rs)"
    using init_1000 [of "con_send_list C0"] by (auto simp: con_InitConnectionInfo_def)
  let ?C2 = "C1\<lparr>con_is_started := True, con_client_fd := se_fd E\<rparr>"
  have C2: "con_StartConnect (se_fuel E) (se_fd E) (se_conn E) (se_create E) C1 = Inr (True, ?C2)"
    by (simp add: con_StartConnect_ok [OF assms(1)] C1(2) assms(2))
  obtain P where C3: "rsc_StartRSProcessor (Some (gw_rs_next S)) (se_create_proc E) 1000 1 server ?C2
      = Inr (True, ?C2\<lparr>rsc_server_ptr := server, rsc_processor := P\<rparr>)"
    using rsc_StartRSProcessor_ok by blast
  show ?thesis
    by (intro exI [of _ "?C2\<lparr>rsc_server_ptr := server, rsc_processor := P\<rparr>"])
      (simp add: gw_new_connector_def C0 C1(1) C2 C3 Let_def)
qed

lemma gw_answer_run:
  assumes "pb_DsGSGetRoomInfoRs pb bs = Some rs" "connects E" "0 < wrap16 (dri_server_port rs)"
    and "gmg_wf (gw_room_manager S)" "gmg_socket (gw_room_manager S) (dri_room_id rs) = None"
    and "gw_rs_conn_list S = []"
  shows "\<exists>S'. GW_QueryChatRoomRS_Execute pb E (Some srv) True (bs @ rest) (int (length bs)) S = Inr S'
    \<and> gmg_socket (gw_room_manager S') = (gmg_socket (gw_room_manager S))(dri_room_id rs \<mapsto> se_fd E)
    \<and> gw_cl_processor S' = clp_DeleteRoom (dri_room_id rs) (gw_cl_processor S) \<and> gw_out S' = gw_out S"
proof -
  obtain S1 where g: "gw_GetChatRoom (dri_room_id rs) S
      = (live (gmg_list (gw_room_manager S)) (dri_room_id rs), S1)" "rooms_as S S1"
    using gw_get_room by blast
  have n: "live (gmg_list (gw_room_manager S)) (dri_room_id rs) = None"
    using assms(5) by (simp add: gmg_socket_def)
  obtain C where C: "gw_new_connector E (Some srv) rs S1 = Inr (Some (gw_rs_next S1),
      S1\<lparr>gw_rs_conns := (gw_rs_conns S1)(gw_rs_next S1 := C), gw_rs_next := Suc (gw_rs_next S1)\<rparr>)"
    "con_client_fd C = se_fd E"
    using gw_new_connector_run [OF assms(2,3)] by blast
  note r = rooms_asD [OF g(2)]
  have a: "gmg_socket (snd (gmg_AddRoom (dri_room_id rs) (se_fd E) (gw_room_manager S1)))
      = (gmg_socket (gw_room_manager S))(dri_room_id rs \<mapsto> se_fd E)"
    using gmg_add [of "gw_room_manager S1" "dri_room_id rs" "se_fd E"] assms(4,5) by (simp add: r)
  have "map_of (gw_rs_conn_list S1) (dri_rs_server_id rs) = None" using assms(6) by (simp add: r)
  then show ?thesis using assms(1) g(1) n C a
    by (simp add: GW_QueryChatRoomRS_Execute_def parse_from_whole split_def r Let_def)
qed

text \<open>A single packet in an empty block.\<close>

lemma gu_single:
  assumes "length buf = MaxRecvBuffLen" "cyt_wf p" "cyt_msg_data p \<noteq> []" "length (cyt_bytes p) < MaxRecvBuffLen"
    and "\<And>b. length b = MaxRecvBuffLen \<Longrightarrow> take (length (cyt_bytes p)) b = cyt_bytes p \<Longrightarrow>
      \<exists>b' pd' sb'. gu_frame pb (Some srv) key p b (int (length (cyt_bytes p))) (pd, sb, S) = Inr (b', 0, pd', sb', S')"
  shows "\<exists>b' pd' sb'. deal_chunk gu_parse (\<lambda>_. gu_frame pb (Some srv) key) (cyt_bytes p) (buf, 0, pd, sb, S)
    = Inr (b', 0, pd', sb', S')"
proof -
  let ?k = "length (cyt_bytes p)"
  obtain b where b: "recv_append buf 0 (cyt_bytes p) (int ?k) = Inr (b, int ?k)"
    "length b = MaxRecvBuffLen" "take ?k b = cyt_bytes p"
    using recv_append_ok [OF assms(1), of 0 "cyt_bytes p"] assms(4) by auto
  have e: "b = cyt_bytes p @ drop ?k b" using append_take_drop_id [of ?k b] b(3) by simp
  have "gu_parse b (int ?k) = Inr (True, p)"
    unfolding gu_parse_def by (subst e) (rule cyt_parse_bytes [OF assms(2)], simp)
  moreover have "18 < int ?k" using assms(2,3) by (simp add: length_cyt_bytes)
  moreover obtain b' pd' sb' where "gu_frame pb (Some srv) key p b (int ?k) (pd, sb, S) = Inr (b', 0, pd', sb', S')"
    using assms(5) [OF b(2,3)] by blast
  moreover have "frame_loop ?k gu_parse (gu_frame pb (Some srv) key) b' 0 s = Inr (b', 0, s)" for b' s
    using \<open>18 < int ?k\<close> by (cases ?k) simp_all
  ultimately show ?thesis by (simp add: deal_chunk_def b(1))
qed

definition gate_ready :: "GateServer \<Rightarrow> bool" where
  "gate_ready S \<longleftrightarrow> gmg_wf (gw_room_manager S) \<and> gw_rs_conn_list S = []
     \<and> pr_parent_ptr (dsc_processor (gw_ds_connector S)) \<noteq> None
     \<and> bp_caller_ptr (dsc_processor (gw_ds_connector S)) \<noteq> None
     \<and> cl_inv (con_send_list (gw_ds_connector S)) \<and> 0 < cl_free (con_send_list (gw_ds_connector S))
     \<and> cl_inv (bp_data_list (gw_cl_processor S)) \<and> 0 < cl_free (bp_data_list (gw_cl_processor S))
     \<and> length (clp_out_buff (gw_cl_processor S)) = 8192"

lemma gu_frame_login:
  assumes "gate_ready S" "gmg_socket (gw_room_manager S) (cyt_room_id p) = None"
    and "cyt_wf p" "cyt_msg_type p = E_USER_LOGIN_RQ" "length (cyt_bytes p) + 4 \<le> 4096"
    and "pb_ser pb (room_query (gw_server_id S) (cyt_room_id p)) = Some m" "length m + 18 \<le> 4096"
  obtains S1 where "gw_out S1 = gw_out S" "gw_users S1 = gw_users S" "gw_rs_conn_list S1 = []"
    "gmg_socket (gw_room_manager S1) = gmg_socket (gw_room_manager S)" "gmg_wf (gw_room_manager S1)"
    "cl_abs (con_send_list (gw_ds_connector S1)) = cl_abs (con_send_list (gw_ds_connector S))
       @ [cyt_bytes (user_cyt DEF_DS_GS_GET_ROOMINFO_RQ m)]"
    "clp_room_list (gw_cl_processor S1) = awaited (cyt_room_id p) (clp_room_list (gw_cl_processor S))"
    "cl_inv (bp_data_list (gw_cl_processor S1))" "clp_out_buff (gw_cl_processor S1) = clp_out_buff (gw_cl_processor S)"
    "cl_abs (bp_data_list (gw_cl_processor S1)) = cl_abs (bp_data_list (gw_cl_processor S)) @ [held key p]"
    "\<forall>b. length b = MaxRecvBuffLen \<and> take (length (cyt_bytes p)) b = cyt_bytes p \<longrightarrow>
      (\<exists>b' pd'. gu_frame pb (Some srv) key p b (int (length (cyt_bytes p))) (replicate 4096 0, sb, S)
        = Inr (b', 0, pd', sb, S1))"
proof -
  let ?k = "length (cyt_bytes p)" and ?rid = "cyt_room_id p"
  have sz: "cyt_ByteSize p = int ?k" by (rule cyt_ByteSize_bytes [OF assms(3)])
  obtain S0 where g: "gw_GetChatRoom ?rid S = (live (gmg_list (gw_room_manager S)) ?rid, S0)" "rooms_as S S0"
    using gw_get_room by blast
  note r = rooms_asD [OF g(2)]
  have n: "live (gmg_list (gw_room_manager S)) ?rid = None" using assms(2) by (simp add: gmg_socket_def)
  obtain Lq where q: "gds_SendQueryRoom (pb_ser pb) ?rid S0
      = Inr (S0\<lparr>gw_ds_connector := (gw_ds_connector S0)\<lparr>con_send_list := Lq\<rparr>\<rparr>)"
    "cl_abs Lq = cl_abs (con_send_list (gw_ds_connector S0)) @ [cyt_bytes (user_cyt DEF_DS_GS_GET_ROOMINFO_RQ m)]"
    by (rule gate_query_run [of S0 "pb_ser pb" ?rid m]) (use assms(1,6,7) in \<open>simp_all add: gate_ready_def r\<close>)
  have P: "cl_inv (bp_data_list (gw_cl_processor S))" "0 < cl_free (bp_data_list (gw_cl_processor S))"
    using assms(1) by (simp_all add: gate_ready_def)
  obtain L where L: "\<And>pd. take ?k pd = cyt_bytes p \<Longrightarrow> clp_AddOneUndealPack pd (int ?k) ?rid key (gw_cl_processor S)
      = Inr (True, (gw_cl_processor S)\<lparr>clp_room_list := awaited ?rid (clp_room_list (gw_cl_processor S)),
          bp_data_list := L\<rparr>)"
    "cl_inv L" "cl_abs L = cl_abs (bp_data_list (gw_cl_processor S)) @ [held key p]"
    using hold_back_run [OF refl assms(5) P, where key = key and rid = ?rid] by blast
  let ?S1 = "S0\<lparr>gw_ds_connector := (gw_ds_connector S0)\<lparr>con_send_list := Lq\<rparr>, gw_cl_processor :=
      (gw_cl_processor S)\<lparr>clp_room_list := awaited ?rid (clp_room_list (gw_cl_processor S)), bp_data_list := L\<rparr>\<rparr>"
  have run: "\<exists>b' pd'. gu_frame pb (Some srv) key p b (int ?k) (replicate 4096 0, sb, S) = Inr (b', 0, pd', sb, ?S1)"
    if "length b = MaxRecvBuffLen" "take ?k b = cyt_bytes p" for b
  proof -
    have "?k \<le> 4096" "length (replicate 4096 (0::byte)) = 4096" using assms(5) by simp_all
    from gu_move [OF that(1) le_refl this that(2)] obtain pd1 buf1 where
      "memcpy (replicate 4096 0) 0 b 0 (int ?k) = Inr pd1" "take ?k pd1 = cyt_bytes p"
      "memcpy b 0 b (int ?k) (4096 - int ?k) = Inr buf1" by blast
    then show ?thesis using g(1) n q(1) L(1) [of pd1] assms(4)
      by (simp add: gu_frame_def sz Let_def r)
  qed
  have "gmg_wf (gw_room_manager S)" "gw_rs_conn_list S = []" using assms(1) by (simp_all add: gate_ready_def)
  then show ?thesis using run L(2,3) q(2) by (intro that [of ?S1]) (simp_all add: r)
qed

text \<open>
  C31: A packet of more than 0x1000 bytes makes the gate write beyond its copy of the packet, whatever
  the packet is, as soon as its last byte has arrived.
\<close>

theorem gate_long_packet:
  assumes "gu_valid_buff_len (gw_users S a) = int n" "length (gu_recved_buff (gw_users S a)) = MaxRecvBuffLen"
    and "take n (gu_recved_buff (gw_users S a)) @ c = cyt_bytes p @ rest" "n + length c < MaxRecvBuffLen"
    and "cyt_wf p" "4096 < length (cyt_bytes p)"
  shows "gu_DealWithData pb c a S = Inl Out_of_bounds"
proof -
  let ?buf = "gu_recved_buff (gw_users S a)" and ?n = "n + length c"
  obtain b where b: "recv_append ?buf (int n) c (int (length c)) = Inr (b, int ?n)"
    "take ?n b = take n ?buf @ c"
    using recv_append_ok [OF assms(2,4)] by blast
  have e: "b = cyt_bytes p @ (rest @ drop ?n b)"
    using append_take_drop_id [of ?n b] b(2) assms(3) by simp
  have k: "length (cyt_bytes p) \<le> ?n"
    using arg_cong [OF assms(3), of length] by simp
  have "gu_parse b (int ?n) = Inr (True, p)"
    unfolding gu_parse_def by (subst e) (rule cyt_parse_bytes [OF assms(5)], use k in simp)
  moreover have "18 < int ?n" using k assms(6) by simp
  moreover have "cyt_ByteSize p = int (length (cyt_bytes p))" by (rule cyt_ByteSize_bytes [OF assms(5)])
  moreover have "memcpy (replicate 4096 0) 0 b 0 (int (length (cyt_bytes p))) = Inl Out_of_bounds"
    using assms(6) by (subst e) (simp add: memcpy_def mem_write_def)
  ultimately show ?thesis using assms(1) b(1)
    by (simp add: gu_DealWithData_def deal_chunk_def gu_frame_def Let_def)
qed

text \<open>
  C14: The first login to a room the gate does not know reaches the room server. Nothing is sent when
  the packet arrives: a request for the room is queued for the director server and the
  packet is held back. When the answer comes and the connection to the room server can be
  opened, the next round of the client thread sends the packet there, in an envelope with the
  key of the user, and the queue is empty again.
\<close>

theorem gate_first_login:
  assumes "gu_client socks srv key a S" "in_i32 key" "gate_ready S"
    and "gu_valid_buff_len (gw_users S a) = 0" "length (gu_recved_buff (gw_users S a)) = MaxRecvBuffLen"
    and "cyt_wf p" "cyt_msg_type p = E_USER_LOGIN_RQ" "cyt_msg_data p \<noteq> []" "length (cyt_bytes p) + 4 \<le> 4096"
    and "socks (cyt_room_id p) = None" "cl_abs (bp_data_list (gw_cl_processor S)) = []"
    and "pb_ser pb (room_query (gw_server_id S) (cyt_room_id p)) = Some m" "length m + 18 \<le> 4096"
    and "pb_DsGSGetRoomInfoRs pb bs = Some rs" "dri_room_id rs = cyt_room_id p"
    and "connects E" "0 < wrap16 (dri_server_port rs)"
  shows "\<exists>S1 S2 S3. gu_DealWithData pb (cyt_bytes p) a S = Inr S1 \<and> gw_out S1 = gw_out S
    \<and> cl_abs (con_send_list (gw_ds_connector S1)) = cl_abs (con_send_list (gw_ds_connector S))
        @ [cyt_bytes (user_cyt DEF_DS_GS_GET_ROOMINFO_RQ m)]
    \<and> GW_QueryChatRoomRS_Execute pb E (Some srv) True (bs @ rest) (int (length bs)) S1 = Inr S2
    \<and> gw_out S2 = gw_out S \<and> clp_deal_round S2 = Inr S3
    \<and> gw_out S3 = gw_out S @ [(se_fd E, gr_bytes (client_gr key (cyt_bytes p)))]
    \<and> cl_abs (bp_data_list (gw_cl_processor S3)) = []"
proof -
  have N: "gmg_socket (gw_room_manager S) (cyt_room_id p) = None" using assms(1,10) by simp
  obtain T where T: "gw_out T = gw_out S" "gw_users T = gw_users S" "gw_rs_conn_list T = []"
    "gmg_socket (gw_room_manager T) = gmg_socket (gw_room_manager S)" "gmg_wf (gw_room_manager T)"
    "cl_abs (con_send_list (gw_ds_connector T)) = cl_abs (con_send_list (gw_ds_connector S))
       @ [cyt_bytes (user_cyt DEF_DS_GS_GET_ROOMINFO_RQ m)]"
    "clp_room_list (gw_cl_processor T) = awaited (cyt_room_id p) (clp_room_list (gw_cl_processor S))"
    "cl_inv (bp_data_list (gw_cl_processor T))" "clp_out_buff (gw_cl_processor T) = clp_out_buff (gw_cl_processor S)"
    "cl_abs (bp_data_list (gw_cl_processor T)) = cl_abs (bp_data_list (gw_cl_processor S)) @ [held key p]"
    "\<forall>b. length b = MaxRecvBuffLen \<and> take (length (cyt_bytes p)) b = cyt_bytes p \<longrightarrow>
      (\<exists>b' pd'. gu_frame pb (Some srv) key p b (int (length (cyt_bytes p)))
          (replicate 4096 0, replicate 8192 0, S) = Inr (b', 0, pd', replicate 8192 0, T))"
    using gu_frame_login [OF assms(3) N assms(6,7,9,12,13), of key srv "replicate 8192 0"] .
  have l: "length (cyt_bytes p) < MaxRecvBuffLen" using assms(9) by simp
  have f: "\<exists>b' pd' sb'. gu_frame pb (Some srv) key p b (int (length (cyt_bytes p)))
      (replicate 4096 0, replicate 8192 0, S) = Inr (b', 0, pd', sb', T)"
    if "length b = MaxRecvBuffLen" "take (length (cyt_bytes p)) b = cyt_bytes p" for b
    using T(11) that by blast
  obtain b' pd' sb' where "deal_chunk gu_parse (\<lambda>_. gu_frame pb (Some srv) key) (cyt_bytes p)
      (gu_recved_buff (gw_users S a), 0, replicate 4096 0, replicate 8192 0, S) = Inr (b', 0, pd', sb', T)"
    using gu_single [OF assms(5,6,8) l f] by blast
  then have S1: "gu_DealWithData pb (cyt_bytes p) a S = Inr (gu_fill a T b' 0)"
    using assms(1,4) by (simp add: gu_DealWithData_def gu_fill_def)
  let ?S1 = "gu_fill a T b' 0"
  obtain S2 where S2: "GW_QueryChatRoomRS_Execute pb E (Some srv) True (bs @ rest) (int (length bs)) ?S1 = Inr S2"
    "gmg_socket (gw_room_manager S2) = (gmg_socket (gw_room_manager ?S1))(dri_room_id rs \<mapsto> se_fd E)"
    "gw_cl_processor S2 = clp_DeleteRoom (dri_room_id rs) (gw_cl_processor ?S1)" "gw_out S2 = gw_out ?S1"
    using gw_answer_run [OF assms(14,16,17), of ?S1 srv rest] T(3,4,5) N assms(15)
    by (auto simp: gu_fill_def)
  have q: "cl_inv (bp_data_list (gw_cl_processor S2))" "cl_abs (bp_data_list (gw_cl_processor S2)) = held key p # []"
    "length (clp_out_buff (gw_cl_processor S2)) = 8192"
    "map_of (clp_room_list (gw_cl_processor S2)) (cyt_room_id p) = None"
    "gmg_socket (gw_room_manager S2) (cyt_room_id p) = Some (se_fd E)"
    using T(8-10) S2(2,3) assms(3,11,15) by (simp_all add: clp_DeleteRoom_def gate_ready_def)
  obtain S3 where "clp_deal_round S2 = Inr S3"
    "gw_out S3 = gw_out S2 @ [(se_fd E, gr_bytes (client_gr key (cyt_bytes p)))]"
    "cl_abs (bp_data_list (gw_cl_processor S3)) = []"
    using clp_round_forwards [OF q(1,2) assms(6,9,2) q(3-5)] by blast
  then show ?thesis using S1 S2(1,4) T(1,6) by (intro exI [of _ ?S1] exI [of _ S2] exI [of _ S3]) simp
qed

section \<open>From room servers to clients\<close>

lemma frame_loop_map:
  assumes "\<And>p b v s. act p b v (f s) = res_bind (act p b v s) (\<lambda>(b', v', s'). Inr (b', v', f s'))"
  shows "frame_loop n parse act b v (f s) = res_bind (frame_loop n parse act b v s) (\<lambda>(b', v', s'). Inr (b', v', f s'))"
proof (induction n arbitrary: b v s)
  case (Suc n)
  show ?case
    by (cases "parse b v") (auto simp: assms res_bind_assoc Suc split_def intro!: res_bind_cong)
qed simp

text \<open>The socket of the client with a hash key, and the connector with another processor.\<close>

definition gw_client_sock :: "GateServer \<Rightarrow> int \<Rightarrow> int option" where
  "gw_client_sock S key = map_option (\<lambda>a. user_sock (gw_users S a)) (live (gul_users (gw_user_list S)) key)"

definition grp_fill :: "nat \<Rightarrow> GateRSProcessor \<Rightarrow> GateServer \<Rightarrow> GateServer" where
  "grp_fill c P S = S\<lparr>gw_rs_conns := (gw_rs_conns S)(c := (gw_rs_conns S c)\<lparr>rsc_processor := P\<rparr>)\<rparr>"

lemma grp_frame_fill:
  "grp_frame p b v (grp_fill c P S) = res_bind (grp_frame p b v S) (\<lambda>(b', v', S'). Inr (b', v', grp_fill c P S'))"
  by (cases "memcpy b 0 b (gr_ByteSize p) (v - gr_ByteSize p)")
    (auto simp: grp_frame_def Let_def gw_GetUserByHashkey_def grp_fill_def split_def res_bind_assoc
      split: option.splits intro!: res_bind_cong)

lemma grp_frame_conns:
  "grp_frame p b v S = Inr (b', v', S') \<Longrightarrow> gw_rs_conns S' = gw_rs_conns S"
  by (auto simp: grp_frame_def Let_def gw_GetUserByHashkey_def split_def res_simps split: option.splits)

lemma grp_loop_conns:
  "frame_loop n rc_parse grp_frame b v S = Inr (b', v', S') \<Longrightarrow> gw_rs_conns S' = gw_rs_conns S"
proof (induction n arbitrary: b v S)
  case (Suc n)
  then show ?case by (auto simp: res_simps split: if_splits dest: grp_frame_conns)
qed simp

definition to_client :: "(int \<Rightarrow> int option) \<Rightarrow> GateRoomServerPack \<Rightarrow> (int \<times> byte list) list" where
  "to_client socks p = (case socks (gr_user_hashkey p) of Some fd \<Rightarrow> [(fd, gr_data_msg p)] | None \<Rightarrow> [])"

lemma grp_handles:
  "handles grp_frame (\<lambda>p. gr_wf p) gr_bytes cap (\<lambda>S. gw_client_sock S = socks)
    (\<lambda>p S S'. gw_out S' = gw_out S @ to_client socks p)"
  unfolding handles_def
proof (intro allI impI, elim conjE, goal_cases)
  case (1 p buf n S)
  let ?k = "length (gr_bytes p)" and ?key = "gr_user_hashkey p"
  have sz: "gr_ByteSize p = int ?k" using 1 by (simp add: gr_ByteSize_bytes)
  have l: "gr_data_len p = int (length (gr_data_msg p))" using 1(1) by (simp add: gr_wf_def)
  obtain buf1 where b: "memcpy buf 0 buf (int ?k) (int n - int ?k) = Inr buf1"
    "length buf1 = MaxRecvBuffLen" "take (n - ?k) buf1 = take (n - ?k) (drop ?k buf)"
    using move_front [of buf ?k n] 1 by auto
  have v: "int n - int ?k = int (n - ?k)" using 1 by simp
  have I: "gw_client_sock S = socks" using 1 by blast
  let ?S1 = "snd (gw_GetUserByHashkey ?key S)"
  have u: "fst (gw_GetUserByHashkey ?key S) = live (gul_users (gw_user_list S)) ?key"
    "gw_client_sock ?S1 = gw_client_sock S" "gw_out ?S1 = gw_out S" "gw_users ?S1 = gw_users S"
    by (simp_all add: gw_GetUserByHashkey_def gul_GetUserByHashkey_def split_def gw_client_sock_def fun_eq_iff)
  have r: "mem_read (gr_data_msg p @ [0]) 0 (gr_data_len p) = Inr (gr_data_msg p)" by (rule mem_read_piece) (rule l)
  let ?S2 = "?S1\<lparr>gw_out := gw_out S @ to_client socks p\<rparr>"
  have "grp_frame p buf (int n) S = Inr (buf1, int (n - ?k), ?S2)"
  proof (cases "live (gul_users (gw_user_list S)) ?key")
    case None
    then have "to_client socks p = []" unfolding I [symmetric] by (simp add: to_client_def gw_client_sock_def)
    then have "?S2 = ?S1" using u(3) by simp
    then show ?thesis using b(1) u(1) None by (simp add: grp_frame_def sz Let_def split_def flip: v)
  next
    case (Some a)
    then have "to_client socks p = [(user_sock (gw_users S a), gr_data_msg p)]"
      unfolding I [symmetric] by (simp add: to_client_def gw_client_sock_def)
    then show ?thesis using Some b(1) u by (simp add: grp_frame_def sz Let_def split_def r flip: v)
  qed
  moreover have "gw_client_sock ?S2 = gw_client_sock ?S1" by (simp add: gw_client_sock_def fun_eq_iff)
  ultimately show ?case using b(2,3) I u(2) by (intro exI [of _ buf1] exI [of _ ?S2]) simp
qed

lemma to_client_all:
  "handled (\<lambda>p S S'. gw_out S' = gw_out S @ to_client socks p) ps S S'
   \<Longrightarrow> gw_out S' = gw_out S @ concat (map (to_client socks) ps)"
  by (induction rule: handled.induct) auto

text \<open>
  A chunk that a round takes from the queue; a round reads it behind the valid bytes, which is
  what \<open>deal_chunk\<close> does when it fits.
\<close>

definition grp_chunk :: "byte list \<Rightarrow> byte list \<times> int \<times> GateServer \<Rightarrow> (byte list \<times> int \<times> GateServer) res" where
  "grp_chunk m = (\<lambda>(buf, v, S).
     if 0 \<le> v \<and> v + int (length m) < int MaxDealBuffLen \<and> length buf = MaxDealBuffLen
     then deal_chunk rc_parse (\<lambda>_. grp_frame) m (buf, v, S) else Inl Undefined)"

lemma grp_chunk_delivers:
  assumes "cap < MaxRecvBuffLen"
  shows "gr.delivers (\<lambda>p. gr_wf p) cap (\<lambda>S. gw_client_sock S = socks)
    (\<lambda>p S S'. gw_out S' = gw_out S @ to_client socks p) grp_chunk m"
proof -
  let ?I = "\<lambda>S. gw_client_sock S = socks" and ?R = "\<lambda>p S S'. gw_out S' = gw_out S @ to_client socks p"
  have "gr.delivers (\<lambda>p. gr_wf p) cap ?I ?R
      (deal_chunk (\<lambda>d n. gr_ParseFromArray (gr_new 0) (Some d) n) (\<lambda>_. grp_frame)) m"
    by (rule gr.deal_chunk_delivers [OF grp_handles assms])
  then have D: "gr.delivers (\<lambda>p. gr_wf p) cap ?I ?R (deal_chunk rc_parse (\<lambda>_. grp_frame)) m"
    unfolding rc_parse_def .
  show ?thesis unfolding gr.delivers_def
  proof (intro allI impI, elim conjE, goal_cases)
    case (1 rs buf n S)
    then have "grp_chunk m (buf, int n, S) = deal_chunk rc_parse (\<lambda>_. grp_frame) m (buf, int n, S)"
      using assms by (simp add: grp_chunk_def gr.pending_def)
    then show ?case using D [unfolded gr.delivers_def, rule_format, of rs n buf S] 1 by simp
  qed
qed

fun grp_rounds :: "nat \<Rightarrow> nat \<Rightarrow> GateServer \<Rightarrow> GateServer res" where
  "grp_rounds 0 c S = Inr S"
| "grp_rounds (Suc n) c S = res_bind (grp_deal_round c S) (grp_rounds n c)"

lemma grp_chunk_fill:
  "grp_chunk m (buf, v, grp_fill c P S) = res_bind (grp_chunk m (buf, v, S)) (\<lambda>(b, v', S'). Inr (b, v', grp_fill c P S'))"
  by (cases "recv_append buf v m (int (length m))")
    (auto simp: grp_chunk_def deal_chunk_def split_def
      frame_loop_map [where act = grp_frame and f = "grp_fill c P", OF grp_frame_fill] simp del: frame_loop.simps)

lemma grp_chunks_fill:
  "deal_all grp_chunk ms (buf, v, grp_fill c P S)
   = res_bind (deal_all grp_chunk ms (buf, v, S)) (\<lambda>(b, v', S'). Inr (b, v', grp_fill c P S'))"
proof (induction ms arbitrary: buf v S)
  case (Cons m ms)
  show ?case
    by (cases "grp_chunk m (buf, v, S)") (auto simp: grp_chunk_fill Cons split_def)
qed simp

text \<open>A round with a chunk in the queue.\<close>

lemma grp_round_run:
  assumes "cl_inv (bp_data_list P)" "cl_abs (bp_data_list P) = m # ms"
    and "rsc_processor (gw_rs_conns S c) = P"
    and "grp_chunk m (grp_deal_buff P, grp_valid_buff_len P, S) = Inr (b, v, S')"
  obtains L where "grp_deal_round c S = Inr (grp_fill c (P\<lparr>bp_data_list := L, grp_deal_buff := b,
      grp_valid_buff_len := v\<rparr>) S')" "cl_inv L" "cl_abs L = ms"
proof -
  let ?buf = "grp_deal_buff P" and ?v = "grp_valid_buff_len P" and ?n = "nat (grp_valid_buff_len P)"
  have c: "0 \<le> ?v" "?v + int (length m) < 16384" "length ?buf = 16384"
    "deal_chunk rc_parse (\<lambda>_. grp_frame) m (?buf, ?v, S) = Inr (b, v, S')"
    using assms(4) by (auto simp: grp_chunk_def split: if_splits)
  obtain k where k: "?v = int k" using c(1) nonneg_int_cases by blast
  have l: "int (length m) < 16384 - ?v" "length m \<le> length (drop k ?buf)" using c(2,3) k by simp_all
  obtain L where L: "cl_GetBuffer (drop k ?buf) (16384 - ?v) 0 (bp_data_list P)
      = Inr (True, m @ drop (length m) (drop k ?buf), int (length m), L)" "cl_inv L" "cl_abs L = ms"
    using clq.get_ok [OF assms(1,2) l, of 0] by blast
  let ?b = "take k ?buf @ m @ drop (length m) (drop k ?buf)"
  have "recv_append ?buf ?v m (int (length m)) = Inr (?b, ?v + int (length m))"
    using c(2,3) k by (simp add: recv_append_def memcpy_def mem_write_def mem_read_0_nat add.commute)
  then have f: "frame_loop (Suc (nat (?v + int (length m)))) rc_parse grp_frame ?b (?v + int (length m)) S
      = Inr (b, v, S')" using c(4) by (simp add: deal_chunk_def del: frame_loop.simps)
  have "grp_deal_round c S = Inr (grp_fill c (P\<lparr>bp_data_list := L, grp_deal_buff := b, grp_valid_buff_len := v\<rparr>) S')"
    unfolding grp_deal_round_def Let_def assms(3)
    using L(1) f k grp_loop_conns [OF f] assms(3) by (simp add: grp_fill_def del: frame_loop.simps)
  then show ?thesis using L(2,3) by (rule that)
qed

lemma grp_fill_simps [simp]:
  "grp_fill c Q (grp_fill c P S) = grp_fill c Q S" "rsc_processor (gw_rs_conns (grp_fill c P S) c) = P"
  "gw_client_sock (grp_fill c P S) = gw_client_sock S" "gw_out (grp_fill c P S) = gw_out S"
  by (simp_all add: grp_fill_def gw_client_sock_def fun_eq_iff)

lemma grp_rounds_run:
  assumes "cl_inv (bp_data_list P)" "cl_abs (bp_data_list P) = ms" "rsc_processor (gw_rs_conns S c) = P"
    and "deal_all grp_chunk ms (grp_deal_buff P, grp_valid_buff_len P, S) = Inr (b, v, S')"
  shows "\<exists>Q. grp_rounds (length ms) c S = Inr (grp_fill c Q S') \<and> grp_valid_buff_len Q = v
    \<and> cl_abs (bp_data_list Q) = []"
  using assms
proof (induction ms arbitrary: P S S')
  case Nil
  have "grp_fill c P S = S" using Nil(3) by (auto simp: grp_fill_def)
  then show ?case using Nil by (intro exI [of _ P]) simp
next
  case (Cons m ms)
  obtain b1 v1 S1 where 1: "grp_chunk m (grp_deal_buff P, grp_valid_buff_len P, S) = Inr (b1, v1, S1)"
    "deal_all grp_chunk ms (b1, v1, S1) = Inr (b, v, S')"
    using Cons.prems(4) by (auto simp: res_simps)
  obtain L where L: "grp_deal_round c S = Inr (grp_fill c (P\<lparr>bp_data_list := L, grp_deal_buff := b1,
      grp_valid_buff_len := v1\<rparr>) S1)" "cl_inv L" "cl_abs L = ms"
    using grp_round_run [OF Cons.prems(1-3) 1(1)] .
  let ?P = "P\<lparr>bp_data_list := L, grp_deal_buff := b1, grp_valid_buff_len := v1\<rparr>"
  have "deal_all grp_chunk ms (b1, v1, grp_fill c ?P S1) = Inr (b, v, grp_fill c ?P S')"
    using 1(2) by (simp add: grp_chunks_fill)
  then have "\<exists>Q. grp_rounds (length ms) c (grp_fill c ?P S1) = Inr (grp_fill c Q (grp_fill c ?P S'))
      \<and> grp_valid_buff_len Q = v \<and> cl_abs (bp_data_list Q) = []"
    using Cons.IH [of ?P "grp_fill c ?P S1" "grp_fill c ?P S'"] L(2,3) by simp
  then show ?case using L(1) by simp
qed

lemma gate_delivers:
  assumes "rsc_processor (gw_rs_conns S c) = P" "cl_inv (bp_data_list P)"
    and "grp_valid_buff_len P = 0" "length (grp_deal_buff P) = MaxDealBuffLen"
    and "\<forall>p \<in> set ps. gr_wf p \<and> gr_data_msg p \<noteq> [] \<and> length (gr_bytes p) \<le> 12287"
    and "concat (cl_abs (bp_data_list P)) = concat (map gr_bytes ps)"
    and "\<forall>m \<in> set (cl_abs (bp_data_list P)). length m \<le> 4096"
  shows "\<exists>S'. grp_rounds (length (cl_abs (bp_data_list P))) c S = Inr S'
    \<and> gw_out S' = gw_out S @ concat (map (to_client (gw_client_sock S)) ps)
    \<and> grp_valid_buff_len (rsc_processor (gw_rs_conns S' c)) = 0
    \<and> cl_abs (bp_data_list (rsc_processor (gw_rs_conns S' c))) = []"
proof -
  let ?ms = "cl_abs (bp_data_list P)" and ?I = "\<lambda>T. gw_client_sock T = gw_client_sock S"
  let ?R = "\<lambda>p T T'. gw_out T' = gw_out T @ to_client (gw_client_sock S) p"
  have 1: "\<forall>p \<in> set ps. gr_wf p \<and> gr_wf p \<and> 18 < length (gr_bytes p) \<and> length (gr_bytes p) \<le> 12287"
    using assms(5) by (auto simp: length_gr_bytes)
  have 2: "\<forall>m \<in> set ?ms. gr.delivers (\<lambda>p. gr_wf p) 16383 ?I ?R grp_chunk m"
    using grp_chunk_delivers [of 16383] by simp
  have 3: "gr.pending ps (grp_deal_buff P) 0" using assms(4) 1 by (cases ps) (auto simp: gr.pending_def)
  have 4: "take 0 (grp_deal_buff P) @ concat ?ms = concat (map gr_bytes ps)" using assms(6) by simp
  obtain b T where r: "deal_all grp_chunk ?ms (grp_deal_buff P, int 0, S) = Inr (b, 0, T)" "handled ?R ps S T"
    using gr.deal_stream [OF 1 assms(7) _ _ 2 3 4 refl] by auto
  obtain Q where "grp_rounds (length ?ms) c S = Inr (grp_fill c Q T)" "grp_valid_buff_len Q = 0"
    "cl_abs (bp_data_list Q) = []"
    using grp_rounds_run [OF assms(2) refl assms(1)] r(1) assms(3) by auto
  then show ?thesis using to_client_all [OF r(2)] by simp
qed

text \<open>
  C12: The gate delivers the stream of a room server. When the queue of a connector holds the
  serialised envelopes of a list of packets, cut in any way into chunks of at most 4096 bytes,
  and its block is empty, then after one round for each chunk the payload of every envelope whose key belongs to a
  connected client has been written to the socket of that client, in order, nothing else has
  been written, and the block is empty again. Envelopes may be up to 12287 bytes long.
\<close>

theorem gate_delivers_stream:
  assumes "rsc_processor (gw_rs_conns S c) = P" "cl_inv (bp_data_list P)"
    and "grp_valid_buff_len P = 0" "length (grp_deal_buff P) = MaxDealBuffLen"
    and "\<forall>p \<in> set ps. gr_wf p \<and> gr_data_msg p \<noteq> [] \<and> length (gr_bytes p) \<le> 12287"
    and "concat (cl_abs (bp_data_list P)) = concat (map gr_bytes ps)"
    and "\<forall>m \<in> set (cl_abs (bp_data_list P)). length m \<le> 4096"
  shows "\<exists>S'. grp_rounds (length (cl_abs (bp_data_list P))) c S = Inr S'
    \<and> gw_out S' = gw_out S @ concat (map (to_client (gw_client_sock S)) ps)
    \<and> grp_valid_buff_len (rsc_processor (gw_rs_conns S' c)) = 0
    \<and> cl_abs (bp_data_list (rsc_processor (gw_rs_conns S' c))) = []"
  by (rule gate_delivers [OF assms])

text \<open>Any number of rounds of the client thread.\<close>

fun clp_rounds :: "nat \<Rightarrow> GateServer \<Rightarrow> GateServer res" where
  "clp_rounds 0 S = Inr S"
| "clp_rounds (Suc n) S = res_bind (clp_deal_round S) (clp_rounds n)"

lemma clp_rounds_wait:
  assumes "cl_inv (bp_data_list (gw_cl_processor S))" "cl_abs (bp_data_list (gw_cl_processor S)) = [held key p]"
    and "cyt_wf p" "length (cyt_bytes p) + 4 \<le> 4096" "in_i32 key" "length (clp_out_buff (gw_cl_processor S)) = 8192"
    and "map_of (clp_room_list (gw_cl_processor S)) (cyt_room_id p) = Some v" "v \<noteq> 0"
  shows "\<exists>S'. clp_rounds n S = Inr S' \<and> gw_out S' = gw_out S \<and> gw_room_manager S' = gw_room_manager S
    \<and> cl_abs (bp_data_list (gw_cl_processor S')) = [held key p]"
  using assms
proof (induction n arbitrary: S)
  case (Suc n)
  obtain buff L where r: "clp_deal_round S = Inr (S\<lparr>gw_cl_processor := (gw_cl_processor S)\<lparr>bp_data_list := L,
        clp_out_buff := buff, clp_out_len := int (length (cyt_bytes p)) + 4\<rparr>\<rparr>)"
    "cl_inv L" "cl_abs L = [held key p]" "length buff = 8192"
    using clp_round_waits [OF Suc.prems] unfolding append_Nil by blast
  then show ?case using Suc.IH [of "S\<lparr>gw_cl_processor := (gw_cl_processor S)\<lparr>bp_data_list := L,
        clp_out_buff := buff, clp_out_len := int (length (cyt_bytes p)) + 4\<rparr>\<rparr>"] Suc.prems by auto
qed simp

text \<open>
  C30: A race in the gate loses a login for good. The request for a room is queued before the
  packet is registered as held back; when the answer is handled in between, so that the room
  is known and no longer registered, the packet registers the room again, which nothing undoes: however many
  rounds the client thread makes, the packet stays in the queue and is never sent, although
  the room is known.
\<close>

theorem gate_race_strands_login:
  assumes "gmg_socket (gw_room_manager S) (cyt_room_id p) = Some fd" "cyt_room_id p \<noteq> 0"
    and "cl_inv (bp_data_list (gw_cl_processor S))" "cl_abs (bp_data_list (gw_cl_processor S)) = []"
    and "0 < cl_free (bp_data_list (gw_cl_processor S))" "length (clp_out_buff (gw_cl_processor S)) = 8192"
    and "cyt_wf p" "length (cyt_bytes p) + 4 \<le> 4096" "in_i32 key"
  shows "\<exists>P. clp_AddOneUndealPack (cyt_bytes p) (int (length (cyt_bytes p))) (cyt_room_id p) key (gw_cl_processor S)
      = Inr (True, P)
    \<and> (\<exists>S'. clp_rounds n (S\<lparr>gw_cl_processor := P\<rparr>) = Inr S' \<and> gw_out S' = gw_out S
        \<and> gmg_socket (gw_room_manager S') (cyt_room_id p) = Some fd
        \<and> cl_abs (bp_data_list (gw_cl_processor S')) = [held key p])"
proof -
  let ?k = "length (cyt_bytes p)" and ?P = "gw_cl_processor S"
  obtain L where L: "\<And>buff. take ?k buff = cyt_bytes p \<Longrightarrow> clp_AddOneUndealPack buff (int ?k) (cyt_room_id p) key ?P
      = Inr (True, ?P\<lparr>clp_room_list := awaited (cyt_room_id p) (clp_room_list ?P), bp_data_list := L\<rparr>)"
    "cl_inv L" "cl_abs L = [held key p]"
    using hold_back_run [OF refl assms(8,3,5), of "cyt_room_id p" key] assms(4) by auto
  let ?Q = "?P\<lparr>clp_room_list := awaited (cyt_room_id p) (clp_room_list ?P), bp_data_list := L\<rparr>"
  have "map_of (clp_room_list ?Q) (cyt_room_id p) \<noteq> None" "map_of (clp_room_list ?Q) (cyt_room_id p) \<noteq> Some 0"
    using assms(2) by (auto simp: map_of_awaited split: option.splits)
  then obtain v where v: "map_of (clp_room_list ?Q) (cyt_room_id p) = Some v" "v \<noteq> 0" by blast
  have "\<exists>S'. clp_rounds n (S\<lparr>gw_cl_processor := ?Q\<rparr>) = Inr S' \<and> gw_out S' = gw_out (S\<lparr>gw_cl_processor := ?Q\<rparr>)
      \<and> gw_room_manager S' = gw_room_manager (S\<lparr>gw_cl_processor := ?Q\<rparr>)
      \<and> cl_abs (bp_data_list (gw_cl_processor S')) = [held key p]"
    by (rule clp_rounds_wait) (use L(2,3) v assms(6-9) in simp_all)
  then show ?thesis using L(1) assms(1) by auto
qed

section \<open>An instance\<close>

definition gw_new :: "int \<Rightarrow> DirectorServerConnector \<Rightarrow> GateServer" where
  "gw_new u C = \<lparr>gw_server_id = u, gw_server_ip = [], gw_server_port = u, gw_count_worker = u,
     gw_count_user_per_worker = u, gw_read_timeout = u, gw_write_timeout = u, gw_ds_ip = [], gw_ds_port = u,
     gw_user_list = gul_new, gw_users = (\<lambda>_. gu_new), gw_listenner = sl_new, gw_room_manager = gmg_new,
     gw_ds_connector = C, gw_rs_conn_list = [], gw_rs_conns = (\<lambda>_. Connector.extend con_new
       \<lparr>rsc_server_ptr = None, rsc_recv_list = cl_new 1000, rsc_processor = grp_new\<rparr>), gw_rs_next = 0,
     gw_cl_processor = clp_new, gw_out = []\<rparr>"

text \<open>A gate with a client, key 3, on socket 5, and room 1000 on socket 7 if \<open>known\<close>.\<close>

definition ex_gate :: "bool \<Rightarrow> GateServer" where
  "ex_gate k = (gw_new 0 (ex_dsc\<lparr>con_send_list := cl_new 2,
       dsc_processor := pr_new\<lparr>bp_caller_ptr := Some 0, pr_parent_ptr := Some 0\<rparr>\<rparr>))
     \<lparr>gw_users := (\<lambda>_. gu_new\<lparr>hash_key := 3, user_sock := 5, gu_gate_server := Some 0\<rparr>),
      gw_user_list := gul_new\<lparr>gul_users := [(gr_user_hashkey ex_gr, Some 0)]\<rparr>,
      gw_room_manager := (if k then snd (gmg_AddRoom 1000 7 gmg_new) else gmg_new),
      gw_cl_processor := clp_new\<lparr>bp_data_list := cl_new 2\<rparr>\<rparr>"

definition ex_login :: StruCytPacket where
  "ex_login = ex_cyt\<lparr>cyt_msg_type := E_USER_LOGIN_RQ\<rparr>"

lemma ex_login_simps [simp]:
  "cyt_wf ex_login" "cyt_msg_type ex_login = E_USER_LOGIN_RQ" "cyt_msg_data ex_login \<noteq> []"
  "length (cyt_bytes ex_login) = 20" "cyt_room_id ex_login = 1000"
  by (simp_all add: ex_login_def ex_cyt_def cyt_wf_def in_i32_def cyt_bytes_def)

lemma ex_gate_client [simp]:
  "hash_key (gw_users (ex_gate k) a) = 3" "gu_gate_server (gw_users (ex_gate k) a) = Some 0"
  "gu_valid_buff_len (gw_users (ex_gate k) a) = 0"
  "length (gu_recved_buff (gw_users (ex_gate k) a)) = MaxRecvBuffLen" "gw_out (ex_gate k) = []"
  by (simp_all add: ex_gate_def gw_new_def gu_new_def BaseUserInfo.defs)

lemma ex_gate_room [simp]: "gmg_socket (gw_room_manager (ex_gate k)) 1000 = (if k then Some 7 else None)"
  by (simp add: ex_gate_def gw_new_def gmg_new_def gmg_AddRoom_def gmg_socket_def grm_SetRoom_def live_def
      map_index_def Let_def grm_new_def)

lemma ex_gate_queue [simp]:
  "bp_data_list (gw_cl_processor (ex_gate k)) = cl_new 2"
  "length (clp_out_buff (gw_cl_processor (ex_gate k))) = 8192"
  by (simp_all add: ex_gate_def gw_new_def clp_new_def BaseProcessor.defs)

theorem gate_forwards_stream_witness:
  "\<exists>S'. deal_all (\<lambda>c. gu_DealWithData ex_center_pb c 0) [take 5 (cyt_bytes ex_login), drop 5 (cyt_bytes ex_login)]
       (ex_gate True) = Inr S' \<and> gu_valid_buff_len (gw_users S' 0) = 0
     \<and> gw_out S' = [(7, gr_bytes (client_gr 3 (cyt_bytes ex_login)))]"
  using gate_forwards_stream [where S = "ex_gate True" and a = 0 and ps = "[ex_login]" and lim = 20 and clim = 20
      and cs = "[take 5 (cyt_bytes ex_login), drop 5 (cyt_bytes ex_login)]" and pb = ex_center_pb]
  by (auto simp: in_i32_def)

theorem gate_first_login_witness:
  "\<exists>S1 S2 S3. gu_DealWithData (ex_center_pb\<lparr>pb_DsGSGetRoomInfoRs := (\<lambda>_. Some \<lparr>dri_room_id = 1000, dri_rs_server_id = 2,
        dri_server_ip = [49], dri_server_port = 5556\<rparr>)\<rparr>) (cyt_bytes ex_login) 0 (ex_gate False) = Inr S1
    \<and> gw_out S1 = []
    \<and> GW_QueryChatRoomRS_Execute (ex_center_pb\<lparr>pb_DsGSGetRoomInfoRs := (\<lambda>_. Some \<lparr>dri_room_id = 1000, dri_rs_server_id = 2,
        dri_server_ip = [49], dri_server_port = 5556\<rparr>)\<rparr>) \<lparr>se_fuel = 1, se_fd = 9, se_conn = (\<lambda>_. 0),
        se_create = (\<lambda>_. 0), se_create_proc = (\<lambda>_. 0)\<rparr> (Some 0) True ([] @ []) (int (length ([] :: byte list))) S1 = Inr S2
    \<and> clp_deal_round S2 = Inr S3 \<and> gw_out S3 = [(9, gr_bytes (client_gr 3 (cyt_bytes ex_login)))]"
proof -
  let ?rs = "\<lparr>dri_room_id = 1000, dri_rs_server_id = 2, dri_server_ip = [49], dri_server_port = 5556\<rparr>"
    and ?E = "\<lparr>se_fuel = 1, se_fd = 9, se_conn = (\<lambda>_. 0), se_create = (\<lambda>_. 0), se_create_proc = (\<lambda>_. 0)\<rparr> :: sock_env"
  have "gate_ready (ex_gate False)"
    by (simp add: gate_ready_def)
      (simp add: ex_gate_def gw_new_def gmg_new_def gmg_wf_def live_def)
  then show ?thesis
    using gate_first_login [where S = "ex_gate False" and a = 0 and p = ex_login and bs = "[]" and rest = "[]"
        and pb = "ex_center_pb\<lparr>pb_DsGSGetRoomInfoRs := (\<lambda>_. Some ?rs)\<rparr>" and m = "[1, 2]" and rs = ?rs and E = ?E]
    by (auto simp: in_i32_def connects_def wrap16_def ex_center_pb_def)
qed

theorem gate_long_packet_witness:
  "gu_DealWithData ex_center_pb (cyt_bytes (user_cyt 1 (replicate 4079 0))) 0 (ex_gate True) = Inl Out_of_bounds"
  by (rule gate_long_packet [where n = 0 and p = "user_cyt 1 (replicate 4079 0)" and rest = "[]"])
    (simp_all add: user_cyt_wf in_i32_def)

theorem gate_race_strands_login_witness:
  "\<exists>P. clp_AddOneUndealPack (cyt_bytes ex_login) 20 1000 3 (gw_cl_processor (ex_gate True)) = Inr (True, P)
    \<and> (\<exists>S'. clp_rounds 4 ((ex_gate True)\<lparr>gw_cl_processor := P\<rparr>) = Inr S' \<and> gw_out S' = []
        \<and> cl_abs (bp_data_list (gw_cl_processor S')) = [held 3 ex_login])"
  using gate_race_strands_login [of "ex_gate True" ex_login 7 3 4] by (auto simp: in_i32_def)

definition ex_gate_rs :: GateServer where
  "ex_gate_rs = (ex_gate True)\<lparr>gw_rs_conns := (\<lambda>_. Connector.extend con_new \<lparr>rsc_server_ptr = None,
     rsc_recv_list = cl_new 1000, rsc_processor = grp_new\<lparr>bp_data_list := the (map_option snd
       (case cl_AddBuffer (gr_bytes ex_gr) 38 (cl_new 2) of Inr x \<Rightarrow> Some x | Inl _ \<Rightarrow> None))\<rparr>\<rparr>)\<rparr>"

theorem gate_delivers_stream_witness:
  "\<exists>S'. grp_rounds 1 0 ex_gate_rs = Inr S' \<and> gw_out S' = [(5, gr_data_msg ex_gr)]"
proof -
  have l: "length (gr_bytes ex_gr) = 38" using ex_gr_simps(1) by (simp add: length_gr_bytes)
  obtain L where L: "cl_AddBuffer (gr_bytes ex_gr) 38 (cl_new 2) = Inr (True, L)" "cl_inv L"
    "cl_abs L = [gr_bytes ex_gr]"
    using cl_add_whole [of "cl_new 2" "gr_bytes ex_gr"] l by auto
  let ?P = "grp_new\<lparr>bp_data_list := L\<rparr>"
  have P: "rsc_processor (gw_rs_conns ex_gate_rs 0) = ?P"
    by (simp add: ex_gate_rs_def L(1) Connector.defs)
  have "grp_valid_buff_len ?P = 0" "length (grp_deal_buff ?P) = MaxDealBuffLen"
    by (simp_all add: grp_new_def Processor.defs)
  moreover have "gr_wf ex_gr" "gr_data_msg ex_gr \<noteq> []" by (simp_all add: cyt_bytes_def ex_cyt_def)
  moreover have "gw_client_sock ex_gate_rs (gr_user_hashkey ex_gr) = Some 5" "gw_out ex_gate_rs = []"
    by (simp_all add: ex_gate_rs_def gw_client_sock_def ex_gr_def ex_gate_def gw_new_def live_def)
  ultimately show ?thesis
    using gate_delivers_stream [OF P, of "[ex_gr]"] L(2,3) l by (auto simp: to_client_def)
qed

end
