(* ===== verification/Gate_List.thy ===== *)
theory Gate_List
  imports Gate_Server Steps
begin

text \<open>
  The clients of the gate as the listener sees them: what the packets of a client can change,
  whatever bytes it sends, and the list of clients as an interpretation of the locale
  \<open>user_resource\<close>.
\<close>

section \<open>Forwarding\<close>

text \<open>What a packet does to the gate besides its bytes.\<close>

lemma gr_build_fields:
  assumes "gr_build key len data = Inr g" "0 \<le> len"
  shows "gr_str_head g = str_123 \<and> gr_str_tail g = str_456 \<and> gr_user_hashkey g = key \<and> gr_gs_hashkey g = 0
    \<and> gr_data_len g = len \<and> length (gr_data_msg g) = nat len"
  using assms by (auto simp: gr_build_def gr_set_str_head_def gr_set_str_tail_def gr_set_data_msg_def gr_new_def
      Let_def res_simps mem_read_def split: if_splits)

lemma gw_forward_cases:
  assumes "gw_forward key data len a sb S = Inr (sb', S')" "length sb \<le> 16384" "0 \<le> len"
  obtains bs where "S' = S\<lparr>gw_out := gw_out S @ [(gw_room_fd a S, bs)]\<rparr>" "18 \<le> length bs"
    "take 4 (drop 3 bs) = le4 key" "length sb' = length sb"
proof -
  obtain g where g: "gr_build key len data = Inr g"
    "res_bind (gr_SerializeToArray g (Some sb) (gr_ByteSize g)) (\<lambda>(ok, sb1).
       if \<not> ok then Inr (sb1, S)
       else res_bind (mem_read sb1 0 (gr_ByteSize g)) (\<lambda>bs.
           Inr (sb1, S\<lparr>gw_out := gw_out S @ [(gw_room_fd a S, bs)]\<rparr>))) = Inr (sb', S')"
    using assms(1) unfolding gw_forward_def res_bind_Inr_iff [where m = "gr_build key len data"] by blast
  note f = gr_build_fields [OF g(1) assms(3)]
  let ?w = "str_123 @ le4 key @ le4 0 @ le4 len @ gr_data_msg g @ str_456"
  have ser: "gr_SerializeToArray g (Some sb) (gr_ByteSize g) = res_bind (mem_write sb 0 ?w) (\<lambda>d. Inr (True, d))"
    using f by (simp add: gr_SerializeToArray_def mem_read_def)
  obtain sb1 where w: "mem_write sb 0 ?w = Inr sb1"
    using g(2) unfolding ser by (cases "mem_write sb 0 ?w") auto
  have l: "nat len + 18 \<le> length sb" "sb1 = ?w @ drop (length ?w) sb"
    using w f by (auto simp: mem_write_def split: if_splits)
  have sz: "gr_ByteSize g = len + 18"
    using l(1) f assms(2,3) by (simp add: gr_ByteSize_def in_i32_def add.commute)
  have rd: "mem_read (w @ x) 0 (int (length w)) = Inr w" for w x :: "byte list"
    by (simp add: mem_read_def)
  have "gr_ByteSize g = int (length ?w)" unfolding sz using f assms(3) by simp
  then have m: "mem_read sb1 0 (gr_ByteSize g) = Inr ?w" unfolding l(2) by (simp only: rd)
  have "sb' = sb1" "S' = S\<lparr>gw_out := gw_out S @ [(gw_room_fd a S, ?w)]\<rparr>"
    using g(2) unfolding ser w res_bind.simps case_prod_conv m by auto
  then show ?thesis using l f by (intro that [of ?w]) simp_all
qed

text \<open>The queue of held-back packets and the block its thread reads into.\<close>

definition clp_ok :: "ClientProcessor \<Rightarrow> bool" where
  "clp_ok P \<longleftrightarrow> cl_inv (bp_data_list P) \<and> length (clp_out_buff P) = 0x2000"

lemma clp_add_keeps:
  assumes "clp_AddOneUndealPack buff len rid key P = Inr (b, P')" "clp_ok P"
  shows "clp_ok P'"
proof (cases "len < 0x2000 - 4")
  case True
  obtain m b0 b1 c L where q: "memcpy (replicate 0x2000 0) 0 buff 0 len = Inr b0" "memcpy b0 len (le4 key) 0 4 = Inr b1"
    "cl_AddBuffer b1 (len + 4) (bp_data_list P) = Inr (c, L)" "P' = P\<lparr>clp_room_list := m, bp_data_list := L\<rparr>"
    using assms(1) True by (auto simp: clp_AddOneUndealPack_def Let_def res_simps split: prod.splits)
  have l: "0 \<le> len" using q(1) by (auto simp: memcpy_def res_simps mem_read_def split: if_splits)
  have "length b1 = 0x2000" using memcpy_length [OF q(1)] memcpy_length [OF q(2)] by simp
  then show ?thesis using cl_add_keeps [OF q(3)] l True assms(2) q(4) by (simp add: clp_ok_def)
next
  case False
  then show ?thesis using assms by (auto simp: clp_AddOneUndealPack_def clp_ok_def Let_def split: prod.splits)
qed

lemma clp_delete_keeps [simp]: "clp_ok (clp_DeleteRoom rid P) = clp_ok P"
  by (simp add: clp_ok_def clp_DeleteRoom_def)

section \<open>A packet of a client\<close>

definition room_sockets :: "GateServer \<Rightarrow> int set" where
  "room_sockets S = ran (gmg_socket (gw_room_manager S))"

text \<open>
  \<open>S'\<close> differs from \<open>S\<close> in the queues and connections to other servers and in what was written:
  envelopes with a key to sockets of rooms the gate knew and knows.
\<close>

definition forwards :: "int \<Rightarrow> GateServer \<Rightarrow> GateServer \<Rightarrow> bool" where
  "forwards key S S' \<longleftrightarrow> gw_user_list S' = gw_user_list S \<and> gw_users S' = gw_users S \<and> gw_listenner S' = gw_listenner S
     \<and> gw_rs_conns S' = gw_rs_conns S \<and> gw_rs_next S' = gw_rs_next S
     \<and> gmg_socket (gw_room_manager S') = gmg_socket (gw_room_manager S)
     \<and> gmg_wf (gw_room_manager S') = gmg_wf (gw_room_manager S)
     \<and> (clp_ok (gw_cl_processor S) \<longrightarrow> clp_ok (gw_cl_processor S'))
     \<and> dsc_processor (gw_ds_connector S') = dsc_processor (gw_ds_connector S)
     \<and> (\<exists>ws. gw_out S' = gw_out S @ ws
          \<and> (\<forall>(fd, bs) \<in> set ws. fd \<in> room_sockets S \<and> 18 \<le> length bs \<and> take 4 (drop 3 bs) = le4 key))"

lemma forwards_refl: "forwards key S S"
  by (auto simp: forwards_def)

lemma forwards_trans:
  assumes "forwards key S T" "forwards key T U"
  shows "forwards key S U"
proof -
  obtain ws vs where "gw_out T = gw_out S @ ws" "gw_out U = gw_out T @ vs"
    "\<forall>(fd, bs) \<in> set ws. fd \<in> room_sockets S \<and> 18 \<le> length bs \<and> take 4 (drop 3 bs) = le4 key"
    "\<forall>(fd, bs) \<in> set vs. fd \<in> room_sockets S \<and> 18 \<le> length bs \<and> take 4 (drop 3 bs) = le4 key"
    using assms by (auto simp: forwards_def room_sockets_def)
  then have "\<exists>xs. gw_out U = gw_out S @ xs
      \<and> (\<forall>(fd, bs) \<in> set xs. fd \<in> room_sockets S \<and> 18 \<le> length bs \<and> take 4 (drop 3 bs) = le4 key)"
    by (intro exI [of _ "ws @ vs"]) auto
  then show ?thesis using assms by (simp add: forwards_def)
qed

lemma gw_GetChatRoom_cases:
  assumes "gw_GetChatRoom rid S = (p, S1)"
  shows "forwards key S S1 \<and> (\<forall>a. p = Some a \<longrightarrow> gw_room_fd a S1 \<in> room_sockets S1)"
proof -
  let ?G = "gmg_GetChatRoom rid (gw_room_manager S)"
  have e: "p = fst ?G" "S1 = S\<lparr>gw_room_manager := snd ?G\<rparr>"
    using assms by (auto simp: gw_GetChatRoom_def split: prod.splits)
  have "gw_room_fd a S1 \<in> room_sockets S1" if "p = Some a" for a
    using that e gmg_get(1,4,5) [of rid "gw_room_manager S"]
    by (auto simp: room_sockets_def gw_room_fd_def gmg_socket_def ran_def intro!: exI [of _ rid])
  then show ?thesis using gmg_get [of rid "gw_room_manager S"] by (auto simp: forwards_def e(2))
qed

lemma forwards_write:
  assumes "forwards key S S1" "gw_room_fd a S1 \<in> room_sockets S1" "18 \<le> length bs" "take 4 (drop 3 bs) = le4 key"
  shows "forwards key S (S1\<lparr>gw_out := gw_out S1 @ [(gw_room_fd a S1, bs)]\<rparr>)"
  using assms by (intro forwards_trans [OF assms(1)]) (auto simp: forwards_def)

lemma gds_query_keeps:
  assumes "gds_SendQueryRoom ser rid S = Inr S'"
  shows "forwards key S S' \<and> gw_cl_processor S' = gw_cl_processor S"
  using assms unfolding gds_SendQueryRoom_def
  by (auto simp: Let_def res_simps con_SendData_def forwards_def split: if_splits)

lemma gu_frame_forwards:
  assumes "gu_frame pb srv key p b v (d, sb, S) = Inr (b', v', d', sb', S')"
    and "0 \<le> cyt_ByteSize p" "length sb \<le> 16384"
  shows "forwards key S S' \<and> length b' = length b \<and> v' = v - cyt_ByteSize p \<and> length sb' = length sb"
proof -
  let ?len = "cyt_ByteSize p"
  obtain room S1 where g: "gw_GetChatRoom (cyt_room_id p) S = (room, S1)" by fastforce
  note c = gw_GetChatRoom_cases [OF g, of key]
  obtain d1 b1 q where m: "memcpy d 0 b 0 ?len = Inr d1" "memcpy b 0 b ?len (0x1000 - ?len) = Inr b1" "deref srv = Inr q"
    using assms(1) unfolding gu_frame_def by (force simp: Let_def res_bind_Inr_iff)
  note lb = memcpy_length [OF m(2)]
  have r: "(case room of
        None \<Rightarrow> if cyt_msg_type p = E_USER_LOGIN_RQ then
                  res_bind (gds_SendQueryRoom (pb_ser pb) (cyt_room_id p) S1) (\<lambda>S2.
                  res_bind (clp_AddOneUndealPack d1 ?len (cyt_room_id p) key (gw_cl_processor S2))
                    (\<lambda>(_, P). Inr (b1, v - ?len, d1, sb, S2\<lparr>gw_cl_processor := P\<rparr>)))
                else Inr (b1, v - ?len, d1, sb, S1)
      | Some a \<Rightarrow> res_bind (gw_forward key d1 ?len a sb S1) (\<lambda>(sb1, S2). Inr (b1, v - ?len, d1, sb1, S2)))
      = Inr (b', v', d', sb', S')"
    using assms(1) unfolding gu_frame_def by (simp add: Let_def m g)
  show ?thesis
  proof (cases room)
    case None
    show ?thesis
    proof (cases "cyt_msg_type p = E_USER_LOGIN_RQ")
      case True
      obtain S2 x P where 2: "gds_SendQueryRoom (pb_ser pb) (cyt_room_id p) S1 = Inr S2"
        "clp_AddOneUndealPack d1 ?len (cyt_room_id p) key (gw_cl_processor S2) = Inr (x, P)"
        "b' = b1" "v' = v - ?len" "sb' = sb" "S' = S2\<lparr>gw_cl_processor := P\<rparr>"
        using r None True by (auto simp: res_simps)
      have "forwards key S S2" using forwards_trans c gds_query_keeps [OF 2(1)] by blast
      moreover have "forwards key S2 S'" using clp_add_keeps [OF 2(2)] 2(6) by (auto simp: forwards_def)
      ultimately show ?thesis using 2(3-5) lb forwards_trans by blast
    next
      case False
      then show ?thesis using r None c lb by simp
    qed
  next
    case (Some a)
    then obtain sb1 S2 where 2: "gw_forward key d1 ?len a sb S1 = Inr (sb1, S2)" "b' = b1" "v' = v - ?len" "sb' = sb1"
      "S' = S2" using r by (auto simp: res_simps)
    obtain bs where "S2 = S1\<lparr>gw_out := gw_out S1 @ [(gw_room_fd a S1, bs)]\<rparr>" "18 \<le> length bs"
      "take 4 (drop 3 bs) = le4 key" "length sb1 = length sb"
      using gw_forward_cases [OF 2(1) assms(3,2)] by blast
    then show ?thesis using forwards_write [of key S S1 a bs] c Some 2(2-5) lb by simp
  qed
qed

lemma gu_deal_forwards:
  assumes "gu_DealWithData pb chunk a S = Inr S'"
    and "block_ok (gu_recved_buff (gw_users S a)) (gu_valid_buff_len (gw_users S a))"
  shows "\<exists>S1 b v. forwards (hash_key (gw_users S a)) S S1 \<and> block_ok b v
    \<and> S' = S1\<lparr>gw_users := (gw_users S)(a := (gw_users S a)\<lparr>gu_recved_buff := b, gu_valid_buff_len := v\<rparr>)\<rparr>"
proof -
  let ?u = "gw_users S a"
  let ?act = "gu_frame pb (gu_gate_server ?u) (hash_key ?u)"
  let ?J = "\<lambda>b v (d, sb, T). block_ok b v \<and> length sb = 8192 \<and> forwards (hash_key ?u) S T"
  obtain b1 v1 where r: "recv_append (gu_recved_buff ?u) (gu_valid_buff_len ?u) chunk (int (length chunk)) = Inr (b1, v1)"
    and l: "res_bind (frame_loop (Suc (nat v1)) gu_parse ?act b1 v1 (replicate 0x1000 0, replicate 0x2000 0, S))
      (\<lambda>(buf, valid, _, _, S1). Inr (S1\<lparr>gw_users := (gw_users S1)
         (a := (gw_users S1 a)\<lparr>gu_recved_buff := buf, gu_valid_buff_len := valid\<rparr>)\<rparr>)) = Inr S'"
    using assms(1) unfolding gu_DealWithData_def deal_chunk_def
    by (force simp: Let_def res_bind_assoc res_bind_Inr_iff [where m = "recv_append _ _ _ _"] simp del: frame_loop.simps)
  obtain b v d sb S1 where f: "frame_loop (Suc (nat v1)) gu_parse ?act b1 v1 (replicate 0x1000 0, replicate 0x2000 0, S)
      = Inr (b, v, d, sb, S1)"
    and S': "S' = S1\<lparr>gw_users := (gw_users S1)(a := (gw_users S1 a)\<lparr>gu_recved_buff := b, gu_valid_buff_len := v\<rparr>)\<rparr>"
    using l by (auto simp: res_simps simp del: frame_loop.simps)
  have "?J b v (d, sb, S1)"
  proof (rule frame_loop_keeps [OF _ f, where J = ?J])
    fix p b v s b' v' s'
    assume 1: "gu_parse b v = Inr (True, p)" "?act p b v s = Inr (b', v', s')" "?J b v s"
    obtain d sb T where s: "s = (d, sb, T)" by (cases s)
    obtain d' sb' T' where s': "s' = (d', sb', T')" by (cases s')
    have sz: "18 \<le> cyt_ByteSize p" "cyt_ByteSize p \<le> v"
      using cyt.parse_size [of "cyt_new 0" b v p] 1(1,3) s by (auto simp: gu_parse_def block_ok_def)
    have fr: "forwards (hash_key ?u) T T'" "length b' = length b" "v' = v - cyt_ByteSize p" "length sb' = length sb"
      using gu_frame_forwards [OF 1(2) [unfolded s s']] sz 1(3) s by auto
    then show "?J b' v' s'" using 1(3) s s' sz forwards_trans by (auto simp: block_ok_def)
  next
    show "?J b1 v1 (replicate 0x1000 0, replicate 0x2000 0, S)"
      using recv_append_block [OF r assms(2)] forwards_refl by simp
  qed
  then show ?thesis using S' by (intro exI [of _ S1] exI [of _ b] exI [of _ v]) (simp add: forwards_def)
qed

section \<open>The clients as a list of connections\<close>

definition gul_ops :: "protobuf \<Rightarrow> GateServer resource_ops" where
  "gul_ops pb = \<lparr>
     ur_GetUserInfo = (\<lambda>S. let (u, L) = gul_GetUserInfo (gw_user_list S) in (u, S\<lparr>gw_user_list := L\<rparr>)),
     ur_ReleaseUserInfo = (\<lambda>u S. res_bind (gul_ReleaseUserInfo u (gw_user_list S, gw_users S)) (\<lambda>(L, h).
        Inr (S\<lparr>gw_user_list := L, gw_users := h\<rparr>))),
     ur_GetUserByHashkey = (\<lambda>k S. gw_GetUserByHashkey k S),
     ur_AddUserInfo = (\<lambda>k u S. res_bind (gul_AddUserInfo k u (gw_user_list S, gw_users S)) (\<lambda>(b, L, h).
        Inr (b, S\<lparr>gw_user_list := L, gw_users := h\<rparr>))),
     ur_DealWithData = (\<lambda>chunk a S. gu_DealWithData pb chunk a S),
     ur_fields = (\<lambda>S a. base_of (gw_users S a)),
     ur_set_fields = (\<lambda>a u S. S\<lparr>gw_users := (gw_users S)(a := set_base u (gw_users S a))\<rparr>)\<rparr>"

definition gul_ok :: "GateServer \<Rightarrow> bool" where
  "gul_ok S \<longleftrightarrow> list_ok (\<lambda>_. True) (gul_unused (gw_user_list S)) (gul_users (gw_user_list S)) (gw_users S)
     \<and> (\<forall>a. block_ok (gu_recved_buff (gw_users S a)) (gu_valid_buff_len (gw_users S a)))"

definition gul_conns :: "GateServer \<Rightarrow> int \<Rightarrow> nat option" where
  "gul_conns S = live (gul_users (gw_user_list S))"

definition gul_free :: "GateServer \<Rightarrow> nat list" where
  "gul_free S = rm_avail (gul_unused (gw_user_list S))"

definition gul_taken :: "GateServer \<Rightarrow> nat set" where
  "gul_taken S = rm_used (gul_unused (gw_user_list S))"

lemmas gul_defs = gul_ops_def gul_ok_def gul_conns_def gul_free_def gul_taken_def


interpretation gate_list: user_resource "gul_ops pb" gul_ok gul_conns gul_free gul_taken for pb
proof (unfold_locales, goal_cases)
  case (1 s)
  then show ?case unfolding gul_defs by (blast dest: list_ok_distinct)
next
  case (2 s)
  then show ?case by (auto simp: gul_defs gul_GetUserInfo_def dest: list_ok_empty)
next
  case (3 s a as)
  show ?case
    using list_ok_get [of "\<lambda>_. True" "gul_unused (gw_user_list s)" "gul_users (gw_user_list s)" "gw_users s" a as] 3
    by (auto simp: gul_defs gul_GetUserInfo_def)
next
  case (4 s a u)
  then show ?case by (auto simp: gul_defs set_base_def fun_eq_iff base_of_def intro!: list_ok_change)
next
  case (5 s a k)
  then show ?case
    by (auto simp: gul_defs gul_AddUserInfo_def split_def Let_def base_of_def fun_eq_iff
        intro!: list_ok_put list_ok_index)
next
  case (6 s k)
  then show ?case
    by (auto simp: gul_defs gw_GetUserByHashkey_def gul_GetUserByHashkey_def split_def Let_def intro: list_ok_index)
next
  case (7 s k a)
  let ?L = "gw_user_list s" and ?h = "gw_users s"
  have l: "live (gul_users ?L) k = Some a" "hash_key (?h a) = k" "a \<in> rm_used (gul_unused ?L)"
    "inj_on (live (gul_users ?L)) (dom (live (gul_users ?L)))" "list_ok (\<lambda>_. True) (gul_unused ?L) (gul_users ?L) ?h"
    "\<forall>b. block_ok (gu_recved_buff (?h b)) (gu_valid_buff_len (?h b))"
    using 7 by (simp_all add: gul_defs base_of_def)
  let ?m = "snd (map_index None (gul_users ?L) k)"
  have "list_ok (\<lambda>_. True) (gul_unused ?L) ?m ?h" using l(5) by (rule list_ok_index)
  from list_ok_erase [OF this, of k a "gu_Clear (?h a)"]
  obtain R' where "rm_Put (Some a) (gul_unused ?L) = (True, R')"
    "list_ok (\<lambda>_. True) R' (map_erase k ?m) (?h(a := gu_Clear (?h a)))"
    "rm_avail R' = rm_avail (gul_unused ?L) @ [a]" "rm_used R' = rm_used (gul_unused ?L) - {a}"
    using l by auto
  then show ?case using l
    by (simp add: gul_defs gul_ReleaseUserInfo_def split_def Let_def base_of_def fun_eq_iff gu_Clear_def block_ok_def)
next
  case (8 s chunk a s')
  then have "gu_DealWithData pb chunk a s = Inr s'" "block_ok (gu_recved_buff (gw_users s a)) (gu_valid_buff_len (gw_users s a))"
    by (simp_all add: gul_defs)
  then obtain S1 b v where "forwards (hash_key (gw_users s a)) s S1" "block_ok b v"
    "s' = S1\<lparr>gw_users := (gw_users s)(a := (gw_users s a)\<lparr>gu_recved_buff := b, gu_valid_buff_len := v\<rparr>)\<rparr>"
    using gu_deal_forwards by blast
  then show ?case using 8
    by (auto simp: gul_defs forwards_def base_of_def fun_eq_iff intro!: list_ok_change)
qed

end
