(* ===== verification/Gift_Flow.thy ===== *)
theory Gift_Flow
  imports Room_Replies Center_Server
begin

text \<open>
  A gift from the request at the center server to the handling of its answer in the room server.
\<close>

text \<open>
  The handler of the room server for an answer whose result is not 0, in a room where sender and
  receiver are present.
\<close>

lemma gift_rs_run:
  assumes "pb_UserGiveGiftRS pb m = Some rs" "grs_result rs \<noteq> 0" "in_i32 (grs_msg_id rs)"
    and "rsv_lookup_room T (grs_room_id rs) = Some a" "grs_room_id rs \<noteq> 0" "ul_wf (room_users a T)"
    and "ul_lookup (room_users a T) (grs_user_id rs) = Some u" "ul_lookup (room_users a T) (grs_dst_user_id rs) = Some d"
    and "silent_gates T" "keys_ok T" "sendable (pb_ser pb) (P_UserGiveGiftRS rs)"
  shows "\<exists>T'. UserGiveGiftRS_Execute pb wr (Some s) (Some cl) (m @ rest) (int (length m)) T = Inr T'
    \<and> rsv_user u T' = (rsv_user u T)\<lparr>user_red_d := grs_sender_red_d rs\<rparr> \<and> rsv_out T' = rsv_out T
    \<and> rsv_clients T' = rsv_clients T"
proof -
  have unl: "\<not> ul_locked (room_users a T)" using assms(6) by (simp add: ul_wf_def)
  obtain T1 where g: "rsv_GetGate (gs_hashkey_user_on (rsv_user u T)) T
      = (rcl_lookup (rsv_client_list T) (gs_hashkey_user_on (rsv_user u T)), T1)" "looks_up T T1"
    using rsv_GetGate_run by blast
  note l1 = looks_upD [OF g(2)]
  let ?T2 = "T1\<lparr>rsv_users := us_update u (\<lambda>x. x\<lparr>user_red_d := grs_sender_red_d rs\<rparr>) (rsv_users T1)\<rparr>"
  have "keys_ok ?T2" using assms(10) l1(10) by (auto simp: keys_ok_def rsv_user_def us_update_def)
  moreover have "silent_gates ?T2" using assms(9) l1(9) by (simp add: silent_gates_def)
  moreover have "rsv_lookup_room ?T2 (grs_room_id rs) = Some a" "ul_wf (room_users a ?T2)"
    using assms(4,6) l1(1,4) by (simp_all add: rsv_lookup_room_def rsv_room_def)
  ultimately obtain b T3 L where b: "rsv_SendDataToRoomAllUser (pb_ser pb) (P_UserGiveGiftRS rs) (grs_msg_id rs)
      (grs_room_id rs) ?T2 = Inr (b, rsv_set_room a ((rsv_room a ?T2)\<lparr>user_list := L\<rparr>) T3)" "looks_up ?T2 T3"
    using broadcast_run [of ?T2 "pb_ser pb" "P_UserGiveGiftRS rs" "grs_msg_id rs" "grs_room_id rs" a]
      assms(3,5,11) by blast
  note l3 = looks_upD [OF b(2)]
  let ?T' = "rsv_set_room a ((rsv_room a ?T2)\<lparr>user_list := L\<rparr>) T3"
  have "UserGiveGiftRS_Execute pb wr (Some s) (Some cl) (m @ rest) (int (length m)) T = Inr ?T'"
    using assms(2,4,7,8) unl g(1) b(1)
    by (simp add: UserGiveGiftRS_Execute_def with_room_run with_user_run Let_def
        with_answer_run [where parse = "pb_UserGiveGiftRS pb" and bs = m and rs = rs, OF assms(1)])
  moreover have "rsv_user u ?T' = (rsv_user u T)\<lparr>user_red_d := grs_sender_red_d rs\<rparr>"
    using l3(2) [of u] l1(2) [of u] by (simp add: rsv_set_room_def rsv_user_def us_update_def)
  moreover have "rsv_out ?T' = rsv_out T" "rsv_clients ?T' = rsv_clients T"
    using l3(3,7) l1(3,7) by (simp_all add: rsv_set_room_def)
  ultimately show ?thesis by blast
qed

text \<open>
  The database answers with the new balance and a result code; the center server exchanges the two in
  its answer, and the room server that handles the answer, in whose protobuf library the message
  parses to what it was made from, takes the code for the balance.
\<close>

lemma gift_sets_balance:
  assumes "pr_parent_ptr (ct_rs_processor (cns_clients S i)) = Some g" "pb_UserGiveGiftRQ pb bs = Some rq"
    and "my_list (cns_miku_db S) = c # cs" "\<not> db_closed D c"
    and "db_give_gift D (grq_user_id rq) (grq_dst_user_id rq) (grq_count_gift rq) (grq_gift_code rq)
      = Row (balance, code)" "balance \<noteq> 0"
    and "rs = \<lparr>grs_msg_id = E_USER_GIVE_GIFT_RS, grs_user_id = grq_user_id rq, grs_room_id = grq_room_id rq,
      grs_result = balance, grs_gift_code = grq_gift_code rq, grs_dst_user_id = grq_dst_user_id rq,
      grs_sender_red_d = code\<rparr>"
    and "pb_ser pb (P_UserGiveGiftRS rs) = Some m" "length m + 36 \<le> 8192" "pb_UserGiveGiftRS pb m = Some rs"
    and "rsv_lookup_room T (grq_room_id rq) = Some a" "grq_room_id rq \<noteq> 0" "ul_wf (room_users a T)"
    and "ul_lookup (room_users a T) (grq_user_id rq) = Some u" "ul_lookup (room_users a T) (grq_dst_user_id rq) = Some d"
    and "silent_gates T" "keys_ok T"
  shows "\<exists>S' T'. CS_UserGiveGiftRQ_Execute pb D wr (Some s) (Some i) (bs @ rest) (int (length bs)) S = Inr S'
    \<and> cns_out S' = cns_out S @ [(user_sock (cns_clients S g), cyt_bytes (user_cyt E_USER_GIVE_GIFT_RS m))]
    \<and> UserGiveGiftRS_Execute pb wr' (Some s') (Some cl) (m @ rest') (int (length m)) T = Inr T'
    \<and> user_red_d (rsv_user u T') = code \<and> rsv_out T' = rsv_out T"
proof -
  have "in_i32 E_USER_GIVE_GIFT_RS" by (simp add: in_i32_def)
  moreover have "sendable (pb_ser pb) (P_UserGiveGiftRS rs)" using assms(8,9) by (simp add: sendable_def)
  ultimately obtain T' where T': "UserGiveGiftRS_Execute pb wr' (Some s') (Some cl) (m @ rest') (int (length m)) T = Inr T'"
    "rsv_user u T' = (rsv_user u T)\<lparr>user_red_d := grs_sender_red_d rs\<rparr>" "rsv_out T' = rsv_out T"
    using gift_rs_run [OF assms(10), of T a u d wr' s' cl rest'] assms(6,7,11-17) by auto
  have "length m + 18 \<le> 8192" using assms(9) by simp
  from gift_answer_run [OF assms(1-5,7,8) this] show ?thesis using T' assms(7) by simp
qed

end
