(* ===== verification/Room_Start.thy ===== *)
theory Room_Start
  imports Room_Replies Listenner Config
begin

text \<open>
  Configuration, start and stop of the room server (\<open>room_server/room_server.cpp\<close>): the part of
  its state that its handlers do not use.
\<close>

record RoomServerProcess = RoomServer +
  rsv_count_worker :: int
  rsv_count_user_per_worker :: int
  rsv_read_timeout :: int
  rsv_write_timeout :: int
  rsv_ds_ip :: "byte list"
  rsv_ds_port :: int
  rsv_listenner :: ServerListenner

definition room_conf_line :: "int \<Rightarrow> byte list \<Rightarrow> RoomServerProcess \<Rightarrow> RoomServerProcess" where
  "room_conf_line u line S =
     (if conf_skipped line then S
      else
        case next_word line of
          (None, _) \<Rightarrow> S
        | (Some name, r) \<Rightarrow>
            if name = str ''ip'' then read_word (\<lambda>w S. S\<lparr>rsv_server_ip := w\<rparr>) r S
            else if name = str ''ds_ip'' then read_word (\<lambda>w S. S\<lparr>rsv_ds_ip := w\<rparr>) r S
            else
              let v = read_int u r
              in if name = str ''port'' then S\<lparr>rsv_server_port := v\<rparr>
                 else if name = str ''count_worker'' then S\<lparr>rsv_count_worker := v\<rparr>
                 else if name = str ''user_per_worker'' then S\<lparr>rsv_count_user_per_worker := v\<rparr>
                 else if name = str ''read_timeout'' then S\<lparr>rsv_read_timeout := v\<rparr>
                 else if name = str ''write_timeout'' then S\<lparr>rsv_write_timeout := v\<rparr>
                 else if name = str ''ds_port'' then S\<lparr>rsv_ds_port := v\<rparr>
                 else if name = str ''server_id'' then S\<lparr>rsv_server_id := v\<rparr>
                 else S)"

definition rsv_GetConfig :: "int \<Rightarrow> byte list \<Rightarrow> RoomServerProcess \<Rightarrow> bool \<times> RoomServerProcess" where
  "rsv_GetConfig u file S =
     (let S1 = fold (room_conf_line u) (conf_lines file) S in (rsv_server_port S1 \<noteq> 0, S1))"

definition rsv_InitServer :: "int \<Rightarrow> nat \<Rightarrow> byte list \<Rightarrow> RoomServerProcess
    \<Rightarrow> (bool \<times> RoomServerProcess) res" where
  "rsv_InitServer u self file S =
     (let (ok, S1) = rsv_GetConfig u file S
      in if \<not> ok then Inr (False, S1)
         else
           let (_, L) = rcl_Init 50 (Some self) (rsv_client_list S1);
               (ok, T) = sl_InitServer (rsv_server_ip S1) (rsv_server_port S1) (rsv_count_worker S1)
                  (rsv_count_user_per_worker S1) (rsv_read_timeout S1) (rsv_write_timeout S1) (rsv_listenner S1);
               S2 = S1\<lparr>rsv_client_list := L, rsv_listenner := T\<rparr>
           in if \<not> ok then Inr (False, S2)
              else
                res_bind (con_InitConnectionInfo (c_str (rsv_ds_ip S2)) (rsv_ds_port S2) (rsv_ds_connector S2))
                  (\<lambda>C. Inr (True, S2\<lparr>rsv_ds_connector := C\<rparr>)))"

text \<open>The request \<open>SendConnectDsRQ\<close> fills in: server type 2, connect type 0.\<close>

definition rsv_connect_rq :: "'x RoomServer_scheme \<Rightarrow> StruDsServerConnectRq" where
  "rsv_connect_rq S = \<lparr>dcq_server_id = rsv_server_id S, dcq_server_ip = rsv_server_ip S,
     dcq_server_port = rsv_server_port S, dcq_server_type = 2, dcq_connect_type = 0,
     dcq_server_detect_port = 0\<rparr>"

definition rsv_StartServer :: "protobuf \<Rightarrow> sock_env \<Rightarrow> listen_env \<Rightarrow> nat \<Rightarrow> nat \<Rightarrow> RoomServerProcess
    \<Rightarrow> (bool \<times> RoomServerProcess) res" where
  "rsv_StartServer pb E LE self lself S =
     res_bind (con_StartConnect (se_fuel E) (se_fd E) (se_conn E) (se_create E) (rsv_ds_connector S)) (\<lambda>(ok, C).
       let S1 = S\<lparr>rsv_ds_connector := C\<rparr>
       in if \<not> ok then Inr (False, S1)
          else
            res_bind (dsc_StartDSProcessor (Some self) (pb_ser pb) (rsv_connect_rq S1) (se_create_proc E)
                100 1 (Some self) C) (\<lambda>(ok, C1).
              if \<not> ok then Inr (False, S1\<lparr>rsv_ds_connector := con_Disconnect C1\<rparr>)
              else
                let S2 = S1\<lparr>rsv_ds_connector := C1\<rparr>;
                    (ok, T) = sl_StartServer LE lself (rsv_listenner S2)
                in Inr (ok, S2\<lparr>rsv_listenner := T\<rparr>)))"

definition rsv_StopServer :: "RoomServerProcess \<Rightarrow> RoomServerProcess res" where
  "rsv_StopServer S =
     (let S1 = S\<lparr>rsv_ds_connector := con_Disconnect (rsv_ds_connector S)\<rparr>
      in res_bind (sl_StopServer (rsv_listenner S1)) (\<lambda>T. Inr (S1\<lparr>rsv_listenner := T\<rparr>)))"

end
