(* ===== verification/End_To_End.thy ===== *)
theory End_To_End
  imports Gate_Flow Room_Replies
begin

text \<open>
  The way of packets through two servers: from a client through the gate into the queue of the room
  server, and from a handler of the room server through the gate to the client. Between the
  servers is a socket, which delivers what was written in pieces of any size.
\<close>

section \<open>From the client to the room server\<close>

text \<open>The envelope of the gate as the room server has it in its queue.\<close>

definition at_room :: "int \<Rightarrow> int \<Rightarrow> StruCytPacket \<Rightarrow> GateRoomServerPack" where
  "at_room gate_key key p = (client_gr key (cyt_bytes p))\<lparr>gr_gs_hashkey := gate_key\<rparr>"

lemma at_room_wf: "in_i32 gate_key \<Longrightarrow> in_i32 key \<Longrightarrow> length (cyt_bytes p) \<le> 4096 \<Longrightarrow> gr_wf (at_room gate_key key p)"
  using rc_stamp_facts [OF client_gr_wf [of key "cyt_bytes p"]] by (simp add: at_room_def)

lemma at_room_unpack:
  assumes "in_i32 gate_key" "in_i32 key" "length (cyt_bytes p) \<le> 4096" "cyt_wf p"
  shows "UnpackAndAnalysePackFromGSRS parse (Some (gr_bytes (at_room gate_key key p) @ rest))
      (int (length (gr_bytes (at_room gate_key key p)))) g0 s0
    = Inr (parse (cyt_msg_data p) \<noteq> None, at_room gate_key key p, p, parse (cyt_msg_data p))"
  by (rule unpack_gsrs [OF at_room_wf [OF assms(1-3)] assms(4), where extra = "[]"])
    (simp_all add: at_room_def client_gr_def)

text \<open>
  C1: What a client sends arrives in the room server. When all packets of a client are for rooms
  on one server, the gate writes one stream to it, and however this stream is cut into reads
  again, the room server queues exactly one message for each packet, in order; the unpacking
  that each of its handlers starts with returns for the message the packet of the client,
  in an envelope with the keys of the client and of the gate.
\<close>

theorem client_packets_reach_room:
  assumes "gu_client socks srv key a S" "in_i32 key"
    and "gu_valid_buff_len (gw_users S a) = 0" "length (gu_recved_buff (gw_users S a)) = MaxRecvBuffLen"
    and "\<forall>p \<in> set ps. cyt_wf p \<and> cyt_msg_data p \<noteq> [] \<and> length (cyt_bytes p) \<le> lim \<and> socks (cyt_room_id p) = Some fd"
    and "concat cs = concat (map cyt_bytes ps)" "\<forall>c \<in> set cs. length c \<le> clim" "lim + clim \<le> 4096"
    and "lim + 18 \<le> 4096" "rc_valid_buff_len C = 0" "length (rc_recved_buff C) = MaxRecvBuffLen"
    and "in_i32 (hash_key C)" "cl_inv (bp_data_list (rc_gs_processor C))"
    and "int (length ps) \<le> cl_free (bp_data_list (rc_gs_processor C))"
  shows "\<exists>S' sent. deal_all (\<lambda>c. gu_DealWithData pb c a) cs S = Inr S' \<and> gw_out S' = gw_out S @ map (Pair fd) sent
    \<and> (\<forall>rs. concat rs = concat sent \<and> (\<forall>r \<in> set rs. length r \<le> 4096) \<longrightarrow>
        (\<exists>C' ms. deal_all rc_DealWithData rs C = Inr C'
          \<and> cl_abs (bp_data_list (rc_gs_processor C')) = cl_abs (bp_data_list (rc_gs_processor C)) @ ms
          \<and> list_all2 (\<lambda>p m. \<forall>parse rest. UnpackAndAnalysePackFromGSRS parse (Some (m @ rest)) (int (length m)) g0 s0
                = Inr (parse (cyt_msg_data p) \<noteq> None, at_room (hash_key C) key p, p, parse (cyt_msg_data p))) ps ms))"
proof -
  let ?env = "\<lambda>p. client_gr key (cyt_bytes p)"
  have ps: "\<forall>p \<in> set ps. cyt_wf p \<and> cyt_msg_data p \<noteq> [] \<and> length (cyt_bytes p) \<le> lim \<and> socks (cyt_room_id p) \<noteq> None"
    using assms(5) by auto
  obtain S' where S': "deal_all (\<lambda>c. gu_DealWithData pb c a) cs S = Inr S'"
    "gw_out S' = gw_out S @ map (\<lambda>p. (the (socks (cyt_room_id p)), gr_bytes (?env p))) ps"
    using gate_stream [OF assms(1-4) ps assms(6-8)] by blast
  have out: "map (\<lambda>p. (the (socks (cyt_room_id p)), gr_bytes (?env p))) ps = map (Pair fd) (map (\<lambda>p. gr_bytes (?env p)) ps)"
    using assms(5) by simp
  have env: "\<forall>g \<in> set (map ?env ps). gr_wf g \<and> gr_data_msg g \<noteq> [] \<and> length (gr_bytes g) \<le> 4096"
  proof
    fix g assume "g \<in> set (map ?env ps)"
    then obtain p where p: "p \<in> set ps" "g = ?env p" by auto
    then have l: "length (cyt_bytes p) \<le> lim" "cyt_wf p" using assms(5) by auto
    then have "cyt_bytes p \<noteq> []" by (auto simp: length_cyt_bytes dest!: arg_cong [where f = length])
    moreover have "gr_data_msg (?env p) = cyt_bytes p" by (simp add: client_gr_def)
    ultimately show "gr_wf g \<and> gr_data_msg g \<noteq> [] \<and> length (gr_bytes g) \<le> 4096"
      using p(2) l assms(2,9) client_gr_wf [of key "cyt_bytes p"] by simp
  qed
  have room: "\<exists>C' ms. deal_all rc_DealWithData rs C = Inr C'
      \<and> cl_abs (bp_data_list (rc_gs_processor C')) = cl_abs (bp_data_list (rc_gs_processor C)) @ ms
      \<and> list_all2 (\<lambda>p m. \<forall>parse rest. UnpackAndAnalysePackFromGSRS parse (Some (m @ rest)) (int (length m)) g0 s0
            = Inr (parse (cyt_msg_data p) \<noteq> None, at_room (hash_key C) key p, p, parse (cyt_msg_data p))) ps ms"
    if rs: "concat rs = concat (map (\<lambda>p. gr_bytes (?env p)) ps)" "\<forall>r \<in> set rs. length r \<le> 4096" for rs
  proof -
    have "concat rs = concat (map gr_bytes (map ?env ps))" using rs(1) by (simp add: comp_def)
    moreover have "int (length (map ?env ps)) \<le> cl_free (bp_data_list (rc_gs_processor C))" using assms(14) by simp
    ultimately obtain C' where C': "deal_all rc_DealWithData rs C = Inr C'"
      "cl_abs (bp_data_list (rc_gs_processor C'))
        = cl_abs (bp_data_list (rc_gs_processor C)) @ map (rc_stamp (hash_key C)) (map ?env ps)"
      using room_stream [OF assms(10-13) env _ rs(2)] by blast
    have a: "map (rc_stamp (hash_key C)) (map ?env ps) = map (\<lambda>p. gr_bytes (at_room (hash_key C) key p)) ps"
      by (simp add: rc_stamp_def at_room_def)
    have "list_all2 (\<lambda>p m. \<forall>parse rest. UnpackAndAnalysePackFromGSRS parse (Some (m @ rest)) (int (length m)) g0 s0
            = Inr (parse (cyt_msg_data p) \<noteq> None, at_room (hash_key C) key p, p, parse (cyt_msg_data p)))
        ps (map (\<lambda>p. gr_bytes (at_room (hash_key C) key p)) ps)"
      unfolding list_all2_map2 list_all2_same
      by (intro ballI allI at_room_unpack) (use assms(2,5,9,12) in auto)
    then show ?thesis using C'(1) C'(2) [unfolded a] by blast
  qed
  show ?thesis using S' room by (intro exI [of _ S'] exI [of _ "map (\<lambda>p. gr_bytes (?env p)) ps"]) (auto simp: out)
qed

theorem client_packets_reach_room_witness:
  "\<exists>S' sent. deal_all (\<lambda>c. gu_DealWithData ex_center_pb c 0) [take 5 (cyt_bytes ex_login), drop 5 (cyt_bytes ex_login)]
        (ex_gate True) = Inr S' \<and> gw_out S' = gw_out (ex_gate True) @ map (Pair 7) sent
    \<and> (\<forall>rs. concat rs = concat sent \<and> (\<forall>r \<in> set rs. length r \<le> 4096) \<longrightarrow>
        (\<exists>C' ms. deal_all rc_DealWithData rs ex_client = Inr C'
          \<and> cl_abs (bp_data_list (rc_gs_processor C')) = cl_abs (bp_data_list (rc_gs_processor ex_client)) @ ms
          \<and> list_all2 (\<lambda>p m. \<forall>parse rest. UnpackAndAnalysePackFromGSRS (parse :: byte list \<Rightarrow> pmsg option) (Some (m @ rest))
                (int (length m)) (gr_new 0) (cyt_new 0)
                = Inr (parse (cyt_msg_data p) \<noteq> None, at_room (hash_key ex_client) 3 p, p, parse (cyt_msg_data p)))
              [ex_login] ms))"
  by (rule client_packets_reach_room [where srv = 0 and lim = 20 and clim = 20
        and socks = "gmg_socket (gw_room_manager (ex_gate True))"]) (simp_all add: in_i32_def)

section \<open>From the room server to the client\<close>

text \<open>
  A list of messages that handlers of the room server send to users of one gate, each with its id
  and the key of the user, and the reads of the gate's connector, which put each chunk into the
  queue of its processor.
\<close>

fun send_all :: "protobuf \<Rightarrow> (int \<Rightarrow> byte list \<Rightarrow> int) \<Rightarrow> nat \<Rightarrow> (pmsg \<times> int \<times> int) list
    \<Rightarrow> RoomServer \<Rightarrow> RoomServer res" where
  "send_all pb wr q [] T = Inr T"
| "send_all pb wr q ((m, msg_id, key) # ms) T =
     res_bind (send_to_gate pb wr m msg_id (Some q) key T) (send_all pb wr q ms)"

definition gw_connector_reads :: "nat \<Rightarrow> byte list \<Rightarrow> GateServer \<Rightarrow> GateServer res" where
  "gw_connector_reads c chunk S =
     res_bind (rsc_DealWithData chunk (int (length chunk)) (gw_rs_conns S c)) (\<lambda>C.
       Inr (S\<lparr>gw_rs_conns := (gw_rs_conns S)(c := C)\<rparr>))"

abbreviation ok_message :: "protobuf \<Rightarrow> pmsg \<times> int \<times> int \<Rightarrow> bool" where
  "ok_message pb x \<equiv> (case x of (m, msg_id, key) \<Rightarrow> sendable (pb_ser pb) m \<and> in_i32 msg_id \<and> in_i32 key)"

definition envelope :: "protobuf \<Rightarrow> pmsg \<times> int \<times> int \<Rightarrow> GateRoomServerPack" where
  "envelope pb x = (case x of (m, msg_id, key) \<Rightarrow> user_gr key msg_id (the (pb_ser pb m)))"

lemma send_all_run:
  "\<forall>x \<in> set ms. ok_message pb x \<Longrightarrow>
   send_all pb wr q ms T = Inr (with_out (map (\<lambda>x. (user_sock (rsv_clients T q), gr_bytes (envelope pb x))) ms) T)"
proof (induction ms arbitrary: T)
  case (Cons x ms)
  obtain m msg_id key where x: "x = (m, msg_id, key)" by (cases x)
  have "send_to_gate pb wr m msg_id (Some q) key T
      = Inr (with_out [(user_sock (rsv_clients T q), gr_bytes (envelope pb x))] T)"
    using send_to_gate_run [of pb m msg_id key wr q T] Cons.prems by (simp add: x gate_packet_def envelope_def)
  then show ?case using Cons by (simp add: x)
qed simp

lemma envelope_ok:
  assumes "ok_message pb x"
  shows "gr_wf (envelope pb x) \<and> gr_data_msg (envelope pb x) \<noteq> [] \<and> length (gr_bytes (envelope pb x)) \<le> 12287"
proof -
  obtain m msg_id key bs where x: "x = (m, msg_id, key)" "pb_ser pb m = Some bs" "length bs + 36 \<le> 8192" "in_i32 key"
    using assms by (cases x) (auto simp: sendable_def)
  have "gr_wf (user_gr key msg_id bs)" using x(3,4) by (intro user_gr_wf) simp_all
  moreover have "cyt_bytes (user_cyt msg_id bs) \<noteq> []" unfolding length_0_conv [symmetric] user_cyt_bytes by simp
  ultimately show ?thesis using x(1-3) by (simp add: envelope_def) (simp add: user_gr_def)
qed

lemma gw_reads_run:
  assumes "pr_is_started (rsc_processor (gw_rs_conns S c))" "cl_inv (bp_data_list (rsc_processor (gw_rs_conns S c)))"
    and "\<forall>r \<in> set rs. length r \<le> 4096" "int (length rs) \<le> cl_free (bp_data_list (rsc_processor (gw_rs_conns S c)))"
  shows "\<exists>L. deal_all (gw_connector_reads c) rs S
      = Inr (grp_fill c ((rsc_processor (gw_rs_conns S c))\<lparr>bp_data_list := L\<rparr>) S)
    \<and> cl_inv L \<and> cl_abs L = cl_abs (bp_data_list (rsc_processor (gw_rs_conns S c))) @ rs"
  using assms
proof (induction rs arbitrary: S)
  case Nil
  then show ?case by (intro exI [of _ "bp_data_list (rsc_processor (gw_rs_conns S c))"]) (simp add: grp_fill_def)
next
  case (Cons r rs)
  let ?P = "rsc_processor (gw_rs_conns S c)"
  obtain L where L: "cl_AddBuffer r (int (length r)) (bp_data_list ?P) = Inr (True, L)" "cl_inv L"
    "cl_abs L = cl_abs (bp_data_list ?P) @ [r]" "cl_free L = cl_free (bp_data_list ?P) - 1"
    using cl_add_whole [of "bp_data_list ?P" r] Cons.prems by auto
  let ?S = "grp_fill c (?P\<lparr>bp_data_list := L\<rparr>) S"
  have step: "gw_connector_reads c r S = Inr ?S"
    using Cons.prems(1) L(1) by (simp add: gw_connector_reads_def rsc_DealWithData_def grp_fill_def)
  obtain L' where "deal_all (gw_connector_reads c) rs ?S
      = Inr (grp_fill c ((rsc_processor (gw_rs_conns ?S c))\<lparr>bp_data_list := L'\<rparr>) ?S)" "cl_inv L'"
    "cl_abs L' = cl_abs (bp_data_list (rsc_processor (gw_rs_conns ?S c))) @ rs"
    using Cons.IH [of ?S] Cons.prems L(2,4) by auto
  then show ?case using step L(3) by (intro exI [of _ L']) simp
qed


definition ex_gate_idle :: GateServer where
  "ex_gate_idle = (ex_gate True)\<lparr>gw_rs_conns := (\<lambda>_. Connector.extend con_new \<lparr>rsc_server_ptr = None,
     rsc_recv_list = cl_new 1000, rsc_processor = grp_new\<lparr>bp_data_list := cl_new 2, pr_is_started := True\<rparr>\<rparr>)\<rparr>"


end
