(* ===== verification/Gate_System.thy ===== *)
theory Gate_System
  imports Gate_List End_To_End
begin

text \<open>
  The gate server as one system: the events of its listener, the rounds of the threads of its
  processors and connectors, in any order and with any bytes from clients and servers. What every
  step keeps is the invariant \<open>gate_ok\<close>.
\<close>

section \<open>The steps\<close>

text \<open>
  Each round is one step, and so is each callback of the listener. \<open>Director_send\<close> and
  \<open>Director_reconnect\<close> are the other two threads of the connector to the director server,
  \<open>Room_send\<close> and \<open>Room_reconnect\<close> those of a connector to a room server.
\<close>

datatype gate_event =
    Listen listen_event
  | Held_round
  | Director_read "byte list"
  | Director_round sock_env
  | Director_send "byte list \<Rightarrow> int"
  | Director_reconnect nat int "nat \<Rightarrow> int"
  | Room_read nat "byte list"
  | Room_round nat
  | Room_send nat "byte list \<Rightarrow> int"
  | Room_reconnect nat nat int "nat \<Rightarrow> int"

definition with_director :: "GateServer \<Rightarrow> DirectorServerConnector \<Rightarrow> GateServer" where
  "with_director S C = S\<lparr>gw_ds_connector := C\<rparr>"

definition with_room_conn :: "GateServer \<Rightarrow> nat \<Rightarrow> RoomServerConnector \<Rightarrow> GateServer" where
  "with_room_conn S c C = S\<lparr>gw_rs_conns := (gw_rs_conns S)(c := C)\<rparr>"

definition gate_step :: "protobuf \<Rightarrow> nat \<Rightarrow> gate_event \<Rightarrow> GateServer \<Rightarrow> GateServer res" where
  "gate_step pb self e S =
     (case e of
        Listen l \<Rightarrow> res_bind (sl_step (gul_ops pb) self l (gw_listenner S, S)) (\<lambda>(T, S1). Inr (S1\<lparr>gw_listenner := T\<rparr>))
      | Held_round \<Rightarrow> clp_deal_round S
      | Director_read chunk \<Rightarrow>
          res_bind (gdc_DealWithData chunk (int (length chunk)) (gw_ds_connector S)) (\<lambda>C. Inr (with_director S C))
      | Director_round E \<Rightarrow> gds_deal_round pb E S
      | Director_send wr \<Rightarrow>
          res_bind (con_send_round wr (gw_ds_connector S)) (\<lambda>(_, C). Inr (with_director S C))
      | Director_reconnect f fd conn \<Rightarrow>
          res_bind (con_reconnect_round f fd conn (gw_ds_connector S)) (\<lambda>C. Inr (with_director S C))
      | Room_read c chunk \<Rightarrow> gw_connector_reads c chunk S
      | Room_round c \<Rightarrow> grp_deal_round c S
      | Room_send c wr \<Rightarrow>
          res_bind (con_send_round wr (gw_rs_conns S c)) (\<lambda>(_, C). Inr (with_room_conn S c C))
      | Room_reconnect c f fd conn \<Rightarrow>
          res_bind (con_reconnect_round f fd conn (gw_rs_conns S c)) (\<lambda>C. Inr (with_room_conn S c C)))"

text \<open>
  The events that can happen in a state: \<open>accept\<close> and \<open>ioctl\<close> succeeded and the keys are not used up,
  workers and connectors exist.
\<close>

definition gate_event_ok :: "nat \<Rightarrow> GateServer \<Rightarrow> gate_event \<Rightarrow> bool" where
  "gate_event_ok n S e =
     (let T = gw_listenner S
      in case e of
           Listen (Readable a chunk) \<Rightarrow> a < n
         | Listen l \<Rightarrow> calm n (sl_count_worker T) l \<and> sl_base_hash_key T + 1 + sl_count_worker T < 2147483648
         | Room_read c _ \<Rightarrow> c < gw_rs_next S
         | Room_round c \<Rightarrow> c < gw_rs_next S
         | Room_send c _ \<Rightarrow> c < gw_rs_next S
         | Room_reconnect c _ _ _ \<Rightarrow> c < gw_rs_next S
         | _ \<Rightarrow> True)"

text \<open>
  The states of a gate: after a successful start, any events in any order, as long as nothing goes
  wrong. \<open>j\<close> stands for the fields the constructor leaves indeterminate.
\<close>

inductive gate_reachable :: "protobuf \<Rightarrow> nat \<Rightarrow> GateServer \<Rightarrow> bool" for pb self where
  gate_started: "dsc_new = Inr C \<Longrightarrow> gw_InitServer u srv file (gw_new j C) = Inr (True, S0) \<Longrightarrow>
    gw_StartServer pb create E LE srv self S0 = Inr (True, S) \<Longrightarrow> gate_reachable pb self S"
| gate_stepped: "gate_reachable pb self S \<Longrightarrow> gate_event_ok 10000 S e \<Longrightarrow> gate_step pb self e S = Inr S' \<Longrightarrow>
    gate_reachable pb self S'"

section \<open>The invariant\<close>

definition grp_ok :: "GateRSProcessor \<Rightarrow> bool" where
  "grp_ok P \<longleftrightarrow> cl_inv (bp_data_list P) \<and> block_ok (grp_deal_buff P) (grp_valid_buff_len P)"

definition gate_ok :: "protobuf \<Rightarrow> nat \<Rightarrow> nat \<Rightarrow> GateServer \<Rightarrow> bool" where
  "gate_ok pb self n S \<longleftrightarrow> gate_list.inv pb self n (gw_listenner S, S)
     \<and> gmg_wf (gw_room_manager S) \<and> clp_ok (gw_cl_processor S)
     \<and> cl_inv (bp_data_list (dsc_processor (gw_ds_connector S)))
     \<and> (\<forall>c < gw_rs_next S. grp_ok (rsc_processor (gw_rs_conns S c)))"

lemma gate_inv_later:
  assumes "gate_list.inv pb self n (T, S)" "gw_users S' = gw_users S"
    and "gul_unused (gw_user_list S') = gul_unused (gw_user_list S)"
    and "live (gul_users (gw_user_list S')) = live (gul_users (gw_user_list S))"
  shows "gate_list.inv pb self n (T, S')"
proof -
  have "gul_ok S' = gul_ok S" "gul_conns S' = gul_conns S" "gul_free S' = gul_free S" "gul_taken S' = gul_taken S"
    "ur_fields (gul_ops pb) S' = ur_fields (gul_ops pb) S" using assms(2-4) by (simp_all add: gul_defs list_ok_def)
  then show ?thesis using gate_list.invD [OF assms(1)] unfolding gate_list.inv_def split_conv by metis
qed

lemma gate_ok_forwards: "gate_ok pb self n S \<Longrightarrow> forwards key S S' \<Longrightarrow> gate_ok pb self n S'"
  unfolding gate_ok_def forwards_def by (auto elim!: gate_inv_later)

section \<open>The thread of the held-back packets\<close>

lemma clp_round_keeps:
  assumes "clp_deal_round S = Inr S'" "clp_ok (gw_cl_processor S)"
  shows "\<exists>key. forwards key S S'"
proof -
  let ?P = "gw_cl_processor S"
  obtain ok buff len L where g: "cl_GetBuffer (clp_out_buff ?P) 0x2000 (clp_out_len ?P) (bp_data_list ?P) = Inr (ok, buff, len, L)"
    using assms(1) by (auto simp: clp_deal_round_def Let_def res_simps)
  define P1 where "P1 = ?P\<lparr>bp_data_list := L, clp_out_buff := buff, clp_out_len := len\<rparr>"
  have k: "cl_inv L" "length buff = 0x2000" "ok \<Longrightarrow> 0 \<le> len \<and> len < 0x2000"
    using cl_get_keeps [OF g] assms(2) by (auto simp: clp_ok_def)
  have P1: "clp_ok P1" using k by (simp add: P1_def clp_ok_def)
  have f1: "forwards key S (S\<lparr>gw_cl_processor := P1\<rparr>)" for key using P1 by (simp add: forwards_def)
  show ?thesis
  proof (cases ok)
    case False
    then show ?thesis using assms(1) f1 by (auto simp: clp_deal_round_def Let_def g P1_def)
  next
    case True
    obtain kb ok2 p where p: "mem_read buff (len - 4) 4 = Inr kb"
      "cyt_ParseFromArray (cyt_new 0) (Some buff) (len - 4) = Inr (ok2, p)"
      using assms(1) True by (auto simp: clp_deal_round_def Let_def g res_simps)
    let ?m = "map_index 0 (clp_room_list P1) (cyt_room_id p)"
    define P2 where "P2 = P1\<lparr>clp_room_list := snd ?m\<rparr>"
    have P2: "clp_ok P2" using P1 by (simp add: P2_def clp_ok_def)
    define S2 where "S2 = S\<lparr>gw_cl_processor := P2\<rparr>"
    have f2: "forwards key S S2" for key using P2 by (simp add: forwards_def S2_def)
    have r: "(if \<not> ok2 then Inr (S\<lparr>gw_cl_processor := P1\<rparr>)
       else if fst ?m \<noteq> 0 then
         res_bind (cl_AddBuffer buff len (bp_data_list P2)) (\<lambda>(_, L2). Inr (S2\<lparr>gw_cl_processor := P2\<lparr>bp_data_list := L2\<rparr>\<rparr>))
       else case gw_GetChatRoom (cyt_room_id p) S2 of
           (None, S3) \<Rightarrow> Inr S3
         | (Some a, S3) \<Rightarrow> res_bind (gw_forward (of_le4 kb) buff (len - 4) a (replicate 0x2000 0) S3) (\<lambda>(_, S4). Inr S4))
       = Inr S'"
      using assms(1) True unfolding clp_deal_round_def
      by (simp add: Let_def g p P1_def P2_def S2_def split_def split: if_splits option.splits)
    show ?thesis
    proof (cases ok2)
      case False
      then show ?thesis using r f1 by auto
    next
      case ok2: True
      show ?thesis
      proof (cases "fst ?m = 0")
        case False
        then obtain b L2 where a: "cl_AddBuffer buff len (bp_data_list P2) = Inr (b, L2)"
          "S' = S2\<lparr>gw_cl_processor := P2\<lparr>bp_data_list := L2\<rparr>\<rparr>" using r ok2 by (auto simp: res_simps)
        have "clp_ok (P2\<lparr>bp_data_list := L2\<rparr>)"
          using cl_add_keeps [OF a(1)] k True P2 by (simp add: clp_ok_def)
        then have "forwards 0 S2 S'" by (simp add: forwards_def a(2))
        then show ?thesis using forwards_trans f2 by blast
      next
        case m: True
        obtain room S3 where g3: "gw_GetChatRoom (cyt_room_id p) S2 = (room, S3)" by fastforce
        note c = gw_GetChatRoom_cases [OF g3, of "of_le4 kb"]
        have f3: "forwards (of_le4 kb) S S3" using forwards_trans f2 c by blast
        show ?thesis
        proof (cases room)
          case None
          then show ?thesis using r ok2 m g3 f3 by auto
        next
          case (Some a)
          then obtain sb where w: "gw_forward (of_le4 kb) buff (len - 4) a (replicate 0x2000 0) S3 = Inr (sb, S')"
            using r ok2 m g3 by (auto simp: res_simps)
          have "0 \<le> len - 4"
            using cyt.parse_size [of "cyt_new 0" buff "len - 4" p] p(2) ok2 k True by simp
          then obtain bs where "S' = S3\<lparr>gw_out := gw_out S3 @ [(gw_room_fd a S3, bs)]\<rparr>" "18 \<le> length bs"
            "take 4 (drop 3 bs) = le4 (of_le4 kb)"
            using gw_forward_cases [OF w] by auto
          then show ?thesis using forwards_write [OF f3] c Some by auto
        qed
      qed
    qed
  qed
qed

section \<open>The thread of a room server connector\<close>

text \<open>
  \<open>S'\<close> differs from \<open>S\<close> in null entries of the table of clients and in what was written to sockets of
  clients.
\<close>

definition delivers_to :: "GateServer \<Rightarrow> GateServer \<Rightarrow> bool" where
  "delivers_to S S' \<longleftrightarrow> gw_users S' = gw_users S \<and> gul_unused (gw_user_list S') = gul_unused (gw_user_list S)
     \<and> live (gul_users (gw_user_list S')) = live (gul_users (gw_user_list S)) \<and> gw_listenner S' = gw_listenner S
     \<and> gw_rs_conns S' = gw_rs_conns S \<and> gw_rs_next S' = gw_rs_next S \<and> gw_room_manager S' = gw_room_manager S
     \<and> gw_cl_processor S' = gw_cl_processor S \<and> gw_ds_connector S' = gw_ds_connector S
     \<and> (\<exists>ws. gw_out S' = gw_out S @ ws \<and> (\<forall>(fd, bs) \<in> set ws. \<exists>k. gw_client_sock S k = Some fd))"

lemma delivers_refl: "delivers_to S S"
  by (auto simp: delivers_to_def)

lemma delivers_trans: "delivers_to S T \<Longrightarrow> delivers_to T U \<Longrightarrow> delivers_to S U"
  unfolding delivers_to_def by (force simp: gw_client_sock_def)

lemma delivers_sockets: "delivers_to S S' \<Longrightarrow> gw_client_sock S' = gw_client_sock S"
  by (simp add: delivers_to_def gw_client_sock_def fun_eq_iff)

lemma grp_frame_delivers:
  assumes "grp_frame g b v S = Inr (b', v', S')"
  shows "delivers_to S S' \<and> length b' = length b \<and> v' = v - gr_ByteSize g"
proof -
  obtain u S1 where g: "gw_GetUserByHashkey (gr_user_hashkey g) S = (u, S1)" by fastforce
  have u: "u = live (gul_users (gw_user_list S)) (gr_user_hashkey g)" "delivers_to S S1"
    using g by (auto simp: gw_GetUserByHashkey_def gul_GetUserByHashkey_def split_def delivers_to_def)
  obtain b1 where m: "memcpy b 0 b (gr_ByteSize g) (v - gr_ByteSize g) = Inr b1"
    using assms by (auto simp: grp_frame_def Let_def res_simps)
  note lb = memcpy_length [OF m]
  show ?thesis
  proof (cases u)
    case None
    then show ?thesis using assms u(2) lb by (simp add: grp_frame_def Let_def m g)
  next
    case (Some a)
    then obtain bs where "S' = S1\<lparr>gw_out := gw_out S1 @ [(user_sock (gw_users S1 a), bs)]\<rparr>" "b' = b1" "v' = v - gr_ByteSize g"
      using assms by (auto simp: grp_frame_def Let_def m g res_simps)
    moreover have "gw_client_sock S (gr_user_hashkey g) = Some (user_sock (gw_users S1 a))"
      using Some u by (simp add: gw_client_sock_def delivers_to_def)
    ultimately show ?thesis using u(2) lb by (auto simp: delivers_to_def)
  qed
qed

lemma grp_loop_delivers:
  assumes "frame_loop f rc_parse grp_frame b v S = Inr (b', v', S')" "block_ok b v"
  shows "delivers_to S S' \<and> block_ok b' v'"
proof (rule frame_loop_keeps [OF _ assms(1), where J = "\<lambda>b v T. delivers_to S T \<and> block_ok b v"])
  fix p b v T b' v' T'
  assume 1: "rc_parse b v = Inr (True, p)" "grp_frame p b v T = Inr (b', v', T')" "delivers_to S T \<and> block_ok b v"
  have "18 \<le> gr_ByteSize p" "gr_ByteSize p \<le> v"
    using gr.parse_size [of "gr_new 0" b v p] 1(1,3) by (auto simp: rc_parse_def block_ok_def)
  then show "delivers_to S T' \<and> block_ok b' v'"
    using grp_frame_delivers [OF 1(2)] 1(3) delivers_trans by (auto simp: block_ok_def)
qed (use assms(2) delivers_refl in simp)

lemma grp_round_delivers:
  assumes "grp_deal_round c S = Inr S'" "grp_ok (rsc_processor (gw_rs_conns S c))"
  shows "\<exists>S1 P. delivers_to S S1 \<and> grp_ok P
    \<and> S' = with_room_conn S1 c ((gw_rs_conns S c)\<lparr>rsc_processor := P\<rparr>)"
proof -
  let ?C = "gw_rs_conns S c"
  let ?P = "rsc_processor ?C"
  let ?n = "nat (grp_valid_buff_len ?P)"
  have ok: "cl_inv (bp_data_list ?P)" "length (grp_deal_buff ?P) = 16384" "0 \<le> grp_valid_buff_len ?P"
    "grp_valid_buff_len ?P \<le> 16384" using assms(2) by (simp_all add: grp_ok_def block_ok_def)
  obtain b rest len L where g: "cl_GetBuffer (drop ?n (grp_deal_buff ?P)) (int MaxDealBuffLen - grp_valid_buff_len ?P) 0
      (bp_data_list ?P) = Inr (b, rest, len, L)"
    using assms(1) by (auto simp: grp_deal_round_def Let_def res_simps)
  have k: "cl_inv L" "length rest = 16384 - ?n" "b \<Longrightarrow> 0 \<le> len \<and> len < 16384 - grp_valid_buff_len ?P"
    using cl_get_keeps [OF g ok(1)] ok by auto
  show ?thesis
  proof (cases b)
    case False
    then have "S' = S" using assms(1) g by (simp add: grp_deal_round_def Let_def)
    then show ?thesis using delivers_refl assms(2)
      by (intro exI [of _ S] exI [of _ ?P]) (simp add: with_room_conn_def)
  next
    case True
    let ?b = "take ?n (grp_deal_buff ?P) @ rest" and ?v = "grp_valid_buff_len ?P + len"
    have "block_ok ?b ?v" using k True ok by (auto simp: block_ok_def)
    obtain b1 v1 S1 where f: "frame_loop (Suc (nat ?v)) rc_parse grp_frame ?b ?v S = Inr (b1, v1, S1)"
      and S': "S' = S1\<lparr>gw_rs_conns := (gw_rs_conns S1)(c := ?C\<lparr>rsc_processor :=
                  ?P\<lparr>bp_data_list := L, grp_deal_buff := b1, grp_valid_buff_len := v1\<rparr>\<rparr>)\<rparr>"
      using assms(1) True g by (auto simp: grp_deal_round_def Let_def res_simps simp del: frame_loop.simps)
    have "delivers_to S S1 \<and> block_ok b1 v1" using grp_loop_delivers [OF f \<open>block_ok ?b ?v\<close>] .
    then show ?thesis using S' k(1)
      by (intro exI [of _ S1] exI [of _ "?P\<lparr>bp_data_list := L, grp_deal_buff := b1, grp_valid_buff_len := v1\<rparr>"])
        (simp add: grp_ok_def with_room_conn_def)
  qed
qed

lemma gate_ok_delivers: "gate_ok pb self n S \<Longrightarrow> delivers_to S S' \<Longrightarrow> gate_ok pb self n S'"
  unfolding gate_ok_def delivers_to_def by (auto elim!: gate_inv_later)

lemma gate_ok_room_conn:
  "gate_ok pb self n S \<Longrightarrow> grp_ok (rsc_processor C) \<Longrightarrow> gate_ok pb self n (with_room_conn S c C)"
  unfolding gate_ok_def with_room_conn_def by (auto elim!: gate_inv_later)

lemma gate_ok_director:
  "gate_ok pb self n S \<Longrightarrow> cl_inv (bp_data_list (dsc_processor C)) \<Longrightarrow> gate_ok pb self n (with_director S C)"
  unfolding gate_ok_def with_director_def by (auto elim!: gate_inv_later)

section \<open>The thread of the director's answers\<close>

lemma rsc_of_more: "Connector.more C' = Connector.more C \<Longrightarrow> rsc_processor C' = rsc_processor C"
  by (cases C; cases C') simp

lemma grp_ok_new: "block_ok (grp_deal_buff grp_new) (grp_valid_buff_len grp_new)"
  by (simp add: grp_new_def block_ok_def Processor.defs)

lemma rsc_start_ok:
  assumes "rsc_StartRSProcessor self create n k srv C = Inr (True, C')" "0 < n"
    and "block_ok (grp_deal_buff (rsc_processor C)) (grp_valid_buff_len (rsc_processor C))"
  shows "grp_ok (rsc_processor C')"
proof -
  obtain b P where i: "bp_InitProcessor n srv (rsc_processor C) = Inr (b, P)"
    using assms(1) by (auto simp: rsc_StartRSProcessor_def grp_InitProcessor_def res_simps)
  have P: "cl_inv (bp_data_list P)" "grp_deal_buff P = grp_deal_buff (rsc_processor C)"
    "grp_valid_buff_len P = grp_valid_buff_len (rsc_processor C)"
    using bp_Init_inv [OF i assms(2)] i by (auto simp: bp_InitProcessor_def res_simps)
  show ?thesis using assms(1,3) P
    by (auto simp: rsc_StartRSProcessor_def grp_InitProcessor_def i grp_StartProcessor_def pr_start_def Let_def
        grp_ok_def split: if_splits prod.splits)
qed

lemma gw_new_connector_keeps:
  assumes "gw_new_connector E srv rs S = Inr (p, S')" "gate_ok pb self n S"
  shows "gate_ok pb self n S' \<and> gw_out S' = gw_out S"
proof (cases p)
  case None
  then have "S' = S" using assms(1)
    by (auto simp: gw_new_connector_def Let_def res_simps split: if_splits)
  then show ?thesis using assms(2) by simp
next
  case (Some a)
  obtain C C1 C2 C3 where c: "rsc_new = Inr C"
    "con_InitConnectionInfo (c_str (dri_server_ip rs)) (dri_server_port rs) C = Inr C1"
    "con_StartConnect (se_fuel E) (se_fd E) (se_conn E) (se_create E) C1 = Inr (True, C2)"
    "rsc_StartRSProcessor (Some (gw_rs_next S)) (se_create_proc E) 1000 1 srv C2 = Inr (True, C3)"
    "S' = S\<lparr>gw_rs_conns := (gw_rs_conns S)(gw_rs_next S := C3), gw_rs_next := Suc (gw_rs_next S)\<rparr>"
    using assms(1) Some by (auto simp: gw_new_connector_def Let_def res_simps split: if_splits)
  have "rsc_processor C = grp_new" using c(1) by (auto simp: rsc_new_def res_simps Connector.defs)
  then have "rsc_processor C2 = grp_new"
    using rsc_of_more [OF con_Init_more [OF c(2)]] rsc_of_more [OF con_Start_more [OF c(3)]] by simp
  then have "grp_ok (rsc_processor C3)" using rsc_start_ok [OF c(4)] grp_ok_new by simp
  then show ?thesis using assms(2) c(5) by (auto simp: gate_ok_def less_Suc_eq elim!: gate_inv_later)
qed

lemma gate_ok_room:
  assumes "gate_ok pb self n S"
  shows "gate_ok pb self n (S\<lparr>gw_room_manager := snd (gmg_AddRoom rid fd (gw_room_manager S)),
     gw_cl_processor := clp_DeleteRoom rid (gw_cl_processor S)\<rparr>)"
  using assms gmg_add [of "gw_room_manager S" rid fd] by (auto simp: gate_ok_def elim!: gate_inv_later)

lemma query_answer_keeps:
  assumes "GW_QueryChatRoomRS_Execute pb' E srv caller buff len S = Inr S'" "gate_ok pb self n S"
  shows "gate_ok pb self n S' \<and> gw_out S' = gw_out S"
proof (cases "srv = None \<or> \<not> caller")
  case True
  then show ?thesis using assms by (simp add: GW_QueryChatRoomRS_Execute_def)
next
  case False
  obtain m where m: "parse_from (pb_DsGSGetRoomInfoRs pb') buff len = Inr m"
    using assms(1) False by (auto simp: GW_QueryChatRoomRS_Execute_def res_simps)
  show ?thesis
  proof (cases m)
    case None
    then show ?thesis using assms m False by (simp add: GW_QueryChatRoomRS_Execute_def)
  next
    case (Some rs)
    obtain room S1 where g: "gw_GetChatRoom (dri_room_id rs) S = (room, S1)" by fastforce
    have S1: "gate_ok pb self n S1" "gw_out S1 = gw_out S"
      using gate_ok_forwards [OF assms(2) conjunct1 [OF gw_GetChatRoom_cases [OF g]]] g
      by (auto simp: gw_GetChatRoom_def split: prod.splits)
    let ?conn = "case map_of (gw_rs_conn_list S1) (dri_rs_server_id rs) of
        Some p \<Rightarrow> res_bind (deref p) (\<lambda>a. Inr (Some a, S1)) | None \<Rightarrow> gw_new_connector E srv rs S1"
    show ?thesis
    proof (cases "room = None")
      case False2: False
      then show ?thesis using assms(1) m Some False g S1 by (simp add: GW_QueryChatRoomRS_Execute_def)
    next
      case True
      have r: "res_bind ?conn (\<lambda>(conn, S2). case conn of None \<Rightarrow> Inr S2
          | Some a \<Rightarrow> let (_, M) = gmg_AddRoom (dri_room_id rs) (con_client_fd (gw_rs_conns S2 a)) (gw_room_manager S2)
              in Inr (S2\<lparr>gw_room_manager := M,
                   gw_cl_processor := clp_DeleteRoom (dri_room_id rs) (gw_cl_processor S2)\<rparr>)) = Inr S'"
        using assms(1) m Some False g True by (simp add: GW_QueryChatRoomRS_Execute_def)
      then obtain conn S2 where c: "?conn = Inr (conn, S2)" by (cases ?conn) auto
      have S2: "gate_ok pb self n S2 \<and> gw_out S2 = gw_out S1"
      proof (cases "map_of (gw_rs_conn_list S1) (dri_rs_server_id rs)")
        case None
        then show ?thesis using c gw_new_connector_keeps [of E srv rs S1 conn S2] S1(1) by simp
      next
        case (Some q)
        then show ?thesis using c S1(1) by (auto simp: res_simps)
      qed
      show ?thesis
      proof (cases conn)
        case None
        then show ?thesis using r c S2 S1(2) by simp
      next
        case (Some a)
        then have "S' = S2\<lparr>gw_room_manager := snd (gmg_AddRoom (dri_room_id rs) (con_client_fd (gw_rs_conns S2 a))
            (gw_room_manager S2)), gw_cl_processor := clp_DeleteRoom (dri_room_id rs) (gw_cl_processor S2)\<rparr>"
          using r c by (simp add: split_def Let_def)
        then show ?thesis using gate_ok_room S2 S1(2) by simp
      qed
    qed
  qed
qed

lemma stop_keeps:
  assumes "gw_StopServer S = Inr S'" "gate_ok pb self n S"
  shows "gate_ok pb self n S' \<and> gw_out S' = gw_out S"
proof -
  obtain T where T: "sl_StopServer (gw_listenner S) = Inr T"
    "S' = S\<lparr>gw_ds_connector := con_Disconnect (gw_ds_connector S), gw_listenner := T\<rparr>"
    using assms(1) by (auto simp: gw_StopServer_def Let_def res_simps)
  have "gate_list.inv pb self n (T, S)" using gate_list.inv_stop [OF _ T(1)] assms(2) by (simp add: gate_ok_def)
  then have "gate_list.inv pb self n (T, S')" by (rule gate_inv_later) (simp_all add: T(2))
  then show ?thesis using assms(2) T(2) by (simp add: gate_ok_def con_Disconnect_def)
qed

lemma connect_answer_keeps:
  "GW_ConnectDirectorServerRS_Execute pb' srv caller buff len S = Inr S' \<Longrightarrow> gate_ok pb self n S \<Longrightarrow>
   gate_ok pb self n S' \<and> gw_out S' = gw_out S"
  using stop_keeps by (auto simp: GW_ConnectDirectorServerRS_Execute_def res_simps split: if_splits option.splits)

lemma center_answer_keeps:
  "GW_GetCenterServerAddrRS_Execute pb' srv caller buff len S = Inr S' \<Longrightarrow> S' = S"
  by (auto simp: GW_GetCenterServerAddrRS_Execute_def res_simps split: if_splits)

lemma gds_round_keeps:
  assumes "gds_deal_round pb' E S = Inr S'" "gate_ok pb self n S"
  shows "gate_ok pb self n S' \<and> gw_out S' = gw_out S"
proof -
  obtain d P where c: "cyt_dispatch_round (dsc_processor (gw_ds_connector S)) = Inr (d, P)"
    using assms(1) by (auto simp: gds_deal_round_def res_simps)
  let ?S1 = "S\<lparr>gw_ds_connector := (gw_ds_connector S)\<lparr>dsc_processor := P\<rparr>\<rparr>"
  have "cl_inv (bp_data_list P)" using dispatch_keeps [OF c] assms(2) by (simp add: gate_ok_def)
  then have S1: "gate_ok pb self n ?S1"
    using gate_ok_director [OF assms(2), of "(gw_ds_connector S)\<lparr>dsc_processor := P\<rparr>"] by (simp add: with_director_def)
  show ?thesis
  proof (cases d)
    case (Execute cmd buff len)
    then show ?thesis using assms(1) S1 connect_answer_keeps [OF _ S1] query_answer_keeps [OF _ S1]
      by (cases "cmd_class cmd") (auto simp: gds_deal_round_def c Let_def dest!: center_answer_keeps)
  qed (use assms(1) S1 in \<open>auto simp: gds_deal_round_def c Let_def\<close>)
qed

section \<open>The listener\<close>

text \<open>The operations of the list besides \<open>DealWithData\<close> leave the rest of the gate as it is.\<close>

definition only_clients :: "GateServer \<Rightarrow> GateServer \<Rightarrow> bool" where
  "only_clients S S' \<longleftrightarrow> gw_room_manager S' = gw_room_manager S \<and> gw_cl_processor S' = gw_cl_processor S
     \<and> gw_ds_connector S' = gw_ds_connector S \<and> gw_rs_conns S' = gw_rs_conns S \<and> gw_rs_next S' = gw_rs_next S
     \<and> gw_out S' = gw_out S \<and> gw_listenner S' = gw_listenner S"

lemma gul_ops_only:
  "ur_GetUserInfo (gul_ops pb) S = (u, S') \<Longrightarrow> only_clients S S'"
  "ur_ReleaseUserInfo (gul_ops pb) p S = Inr S' \<Longrightarrow> only_clients S S'"
  "ur_GetUserByHashkey (gul_ops pb) k S = (u, S') \<Longrightarrow> only_clients S S'"
  "ur_AddUserInfo (gul_ops pb) k p S = Inr (b, S') \<Longrightarrow> only_clients S S'"
  "only_clients S (ur_set_fields (gul_ops pb) a f S)"
  by (auto simp: gul_ops_def only_clients_def gw_GetUserByHashkey_def split_def Let_def res_simps)

lemma only_refl: "only_clients S S"
  by (simp add: only_clients_def)

lemma only_trans: "only_clients S T \<Longrightarrow> only_clients T U \<Longrightarrow> only_clients S U"
  by (simp add: only_clients_def)

lemma only_set_fields: "only_clients (ur_set_fields (gul_ops pb) a f S) S' = only_clients S S'"
  by (simp add: gul_ops_def only_clients_def)

lemma calm_only:
  assumes "sl_step (gul_ops pb) self e (T, S) = Inr (T', S')" "\<forall>a chunk. e \<noteq> Readable a chunk"
  shows "only_clients S S'"
proof (rule sl_step_keeps [where J = "only_clients S", OF _ _ _ _ _ assms])
  show "only_clients S S" by (rule only_refl)
qed (auto elim!: only_trans dest: gul_ops_only(1-4) intro: gul_ops_only(5))

lemma gate_ok_only:
  "gate_ok pb self n S \<Longrightarrow> only_clients S S' \<Longrightarrow> gate_list.inv pb self n (T, S') \<Longrightarrow> gate_ok pb self n (S'\<lparr>gw_listenner := T\<rparr>)"
  unfolding gate_ok_def only_clients_def by (auto elim!: gate_inv_later)

lemma listen_calm_keeps:
  assumes "gate_step pb self (Listen l) S = Inr S'" "gate_ok pb self n S" "\<forall>a chunk. l \<noteq> Readable a chunk"
    and "gate_event_ok n S (Listen l)"
  shows "gate_ok pb self n S' \<and> gw_out S' = gw_out S"
proof -
  obtain T S1 where s: "sl_step (gul_ops pb) self l (gw_listenner S, S) = Inr (T, S1)" "S' = S1\<lparr>gw_listenner := T\<rparr>"
    using assms(1) by (auto simp: gate_step_def res_simps)
  have c: "calm n (sl_count_worker (gw_listenner S)) l"
    "sl_base_hash_key (gw_listenner S) + 1 + sl_count_worker (gw_listenner S) < 2147483648"
    using assms(3,4) by (auto simp: gate_event_ok_def Let_def split: listen_event.splits)
  have "gate_list.inv pb self n (gw_listenner S, S)" using assms(2) by (simp add: gate_ok_def)
  then have "gate_list.inv pb self n (T, S1)" using gate_list.step_ok [OF _ c] s(1) by fastforce
  moreover have "only_clients S S1" by (rule calm_only [OF s(1) assms(3)])
  ultimately show ?thesis using gate_ok_only [OF assms(2)] s(2) by (simp add: only_clients_def)
qed

lemma gate_ok_block: "gate_ok pb self n S \<Longrightarrow> block_ok (gu_recved_buff (gw_users S a)) (gu_valid_buff_len (gw_users S a))"
  by (auto simp: gate_ok_def gul_ok_def dest: gate_list.invD(1))

lemma listen_data_keeps:
  assumes "gate_step pb self (Listen (Readable a chunk)) S = Inr S'" "gate_ok pb self n S"
  shows "gate_ok pb self n S' \<and> (\<exists>S1. forwards (hash_key (gw_users S a)) S S1 \<and> gw_out S' = gw_out S1)"
proof -
  have d: "gu_DealWithData pb chunk a S = Inr S'"
    "sl_DealWithReadData (gul_ops pb) a chunk (gw_listenner S, S) = Inr (gw_listenner S, S')"
    using assms(1) gu_deal_forwards [of pb chunk a S] gate_ok_block [OF assms(2), of a]
    by (force simp: gate_step_def sl_step_def sl_DealWithReadData_def gul_ops_def res_simps forwards_def)+
  obtain S1 b v where f: "forwards (hash_key (gw_users S a)) S S1" "block_ok b v"
    "S' = S1\<lparr>gw_users := (gw_users S)(a := (gw_users S a)\<lparr>gu_recved_buff := b, gu_valid_buff_len := v\<rparr>)\<rparr>"
    using gu_deal_forwards [OF d(1) gate_ok_block [OF assms(2)]] by blast
  have "gate_list.inv pb self n (gw_listenner S, S')"
    using gate_list.readable_ok [OF _ d(2)] assms(2) by (simp add: gate_ok_def)
  then have "gate_ok pb self n S'" using assms(2) f(1,3) by (simp add: gate_ok_def forwards_def)
  then show ?thesis using f by auto
qed

section \<open>Start\<close>

definition only_config :: "GateServer \<Rightarrow> GateServer \<Rightarrow> bool" where
  "only_config S S' \<longleftrightarrow> only_clients S S' \<and> gw_user_list S' = gw_user_list S \<and> gw_users S' = gw_users S"

lemma conf_line_only: "only_config S (gate_conf_line u l S)"
  by (auto simp: gate_conf_line_def only_config_def only_clients_def read_word_def Let_def
      split: prod.split option.split)

lemma conf_lines_only: "only_config S (fold (gate_conf_line u) ls S)"
proof (induction ls arbitrary: S)
  case (Cons l ls)
  then show ?case using conf_line_only [of S u l] Cons.IH [of "gate_conf_line u l S"]
    by (simp add: only_config_def only_clients_def)
qed (simp add: only_config_def only_refl)

lemma gate_inv_start:
  assumes "sl_StartServer LE self (snd (sl_InitServer ip port w k rt wt sl_new)) = (True, T)"
    and "gw_user_list S = snd (gul_Init 10000 srv gul_new)" "gw_users S = (\<lambda>_. gu_new)"
  shows "gate_list.inv pb self 10000 (T, S)"
  using sl_start_ready [OF assms(1)] rm_Init_ok [of 10000 0] assms(2,3)
  unfolding gate_list.inv_def split_conv
  by (auto simp: gul_defs gul_Init_def gul_new_def Let_def split_def list_ok_def linked_def base_of_def gu_new_def
      BaseUserInfo_new_def BaseUserInfo.defs block_ok_def)

lemma clp_init_ok: "clp_InitProcessor 1000 a b clp_new = Inr (x, P) \<Longrightarrow> clp_ok P"
  by (auto simp: clp_InitProcessor_def clp_ok_def res_simps clp_new_def BaseProcessor.defs bp_InitProcessor_def
      dest!: cl_Init_inv)

lemma gdc_start_ok:
  assumes "gdc_StartDSProcessor self ser create k m srv S C = Inr (ok, C')" "0 < k"
  shows "cl_inv (bp_data_list (dsc_processor C'))"
proof -
  obtain b P1 where i: "bp_InitProcessor k srv (dsc_processor C) = Inr (b, P1)"
    using assms(1) by (auto simp: gdc_StartDSProcessor_def gds_InitProcessor_def res_simps)
  have "cl_inv (bp_data_list P1)" by (rule bp_Init_inv [OF i assms(2)])
  then show ?thesis using assms(1)
    by (auto simp: gdc_StartDSProcessor_def gds_InitProcessor_def i gds_StartProcessor_def gds_SendConnectDsRQ_def
        pr_start_def Let_def res_simps split: if_splits prod.splits dest!: ds_send_processor)
qed

lemma gate_init_state:
  assumes "gw_InitServer u srv file (gw_new j C) = Inr (True, S)"
  shows "gw_user_list S = snd (gul_Init 10000 (Some srv) gul_new) \<and> gw_users S = (\<lambda>_. gu_new)
    \<and> (\<exists>ip port w k rt wt. gw_listenner S = snd (sl_InitServer ip port w k rt wt sl_new))
    \<and> gw_room_manager S = gmg_new \<and> clp_ok (gw_cl_processor S) \<and> gw_rs_next S = 0 \<and> gw_out S = []"
proof -
  let ?S = "snd (gw_GetConfig u file (gw_new j C))"
  have c: "only_config (gw_new j C) ?S" by (simp add: gw_GetConfig_def Let_def conf_lines_only)
  obtain x P C1 where i: "clp_InitProcessor 1000 (Some srv) (Some srv) (gw_cl_processor ?S) = Inr (x, P)"
    "S = ?S\<lparr>gw_user_list := snd (gul_Init 10000 (Some srv) (gw_user_list ?S)),
       gw_listenner := snd (sl_InitServer (gw_server_ip ?S) (gw_server_port ?S) (gw_count_worker ?S)
          (gw_count_user_per_worker ?S) (gw_read_timeout ?S) (gw_write_timeout ?S) (gw_listenner ?S)),
       gw_cl_processor := P, gw_ds_connector := C1\<rparr>"
    using assms by (auto simp: gw_InitServer_def Let_def res_simps split_def split: if_splits)
  have f: "gw_user_list ?S = gul_new" "gw_users ?S = (\<lambda>_. gu_new)" "gw_listenner ?S = sl_new"
    "gw_room_manager ?S = gmg_new" "gw_cl_processor ?S = clp_new" "gw_rs_next ?S = 0" "gw_out ?S = []"
    using c by (simp_all add: only_config_def only_clients_def gw_new_def)
  have "clp_ok P" using clp_init_ok i(1) f(5) by simp
  then show ?thesis unfolding i(2) using f by (simp, blast)
qed

lemma gate_start_state:
  assumes "gw_StartServer pb create E LE srv self S0 = Inr (True, S)"
  shows "\<exists>P C T. S = S0\<lparr>gw_cl_processor := P, gw_ds_connector := C, gw_listenner := T\<rparr>
    \<and> (clp_ok (gw_cl_processor S0) \<longrightarrow> clp_ok P) \<and> cl_inv (bp_data_list (dsc_processor C))
    \<and> sl_StartServer LE self (gw_listenner S0) = (True, T)"
proof -
  let ?P = "snd (clp_StartProcessor create (gw_cl_processor S0))"
  obtain C S1 C1 where c: "S1 = S0\<lparr>gw_cl_processor := ?P, gw_ds_connector := C\<rparr>"
    "gdc_StartDSProcessor (Some srv) (pb_ser pb) (se_create_proc E) 1000 1 (Some srv) S1 C = Inr (True, C1)"
    "S = S1\<lparr>gw_ds_connector := C1, gw_listenner := snd (sl_StartServer LE self (gw_listenner S1))\<rparr>"
    "fst (sl_StartServer LE self (gw_listenner S1))"
    using assms by (auto simp: gw_StartServer_def Let_def res_simps split_def split: if_splits)
  have "clp_ok ?P" if "clp_ok (gw_cl_processor S0)"
    using that by (auto simp: clp_StartProcessor_def clp_ok_def)
  moreover have "sl_StartServer LE self (gw_listenner S0) = (True, snd (sl_StartServer LE self (gw_listenner S1)))"
    by (rule prod_eqI) (use c(4) in \<open>simp_all add: c(1)\<close>)
  ultimately show ?thesis using c(1,3) gdc_start_ok [OF c(2)] by (intro exI conjI) (auto simp: c(1,3))
qed

lemma gate_start_ok:
  assumes "gw_InitServer u srv file (gw_new j C) = Inr (True, S0)"
    and "gw_StartServer pb create E LE srv self S0 = Inr (True, S)"
  shows "gate_ok pb self 10000 S \<and> gw_out S = []"
proof -
  note i = gate_init_state [OF assms(1)]
  obtain ip port w k rt wt where l: "gw_listenner S0 = snd (sl_InitServer ip port w k rt wt sl_new)" using i by blast
  obtain P D T where s: "S = S0\<lparr>gw_cl_processor := P, gw_ds_connector := D, gw_listenner := T\<rparr>"
    "clp_ok P" "cl_inv (bp_data_list (dsc_processor D))" "sl_StartServer LE self (gw_listenner S0) = (True, T)"
    using gate_start_state [OF assms(2)] i by blast
  have "gate_list.inv pb self 10000 (T, S)"
    by (rule gate_inv_start [OF s(4) [unfolded l], where srv = "Some srv"]) (use i s(1) in simp_all)
  then show ?thesis using i s by (simp add: gate_ok_def gmg_wf_def gmg_new_def)
qed

section \<open>Every step\<close>

text \<open>What an event may write, as pairs of a socket and bytes.\<close>

fun may_write :: "GateServer \<Rightarrow> gate_event \<Rightarrow> int \<times> byte list \<Rightarrow> bool" where
  "may_write S (Listen (Readable a chunk)) (fd, bs) \<longleftrightarrow>
     fd \<in> room_sockets S \<and> take 4 (drop 3 bs) = le4 (hash_key (gw_users S a))"
| "may_write S Held_round (fd, bs) \<longleftrightarrow> fd \<in> room_sockets S"
| "may_write S (Room_round c) (fd, bs) \<longleftrightarrow> (\<exists>k. gw_client_sock S k = Some fd)"
| "may_write S _ _ \<longleftrightarrow> False"

definition writes_as :: "gate_event \<Rightarrow> GateServer \<Rightarrow> GateServer \<Rightarrow> bool" where
  "writes_as e S S' \<longleftrightarrow> (\<exists>ws. gw_out S' = gw_out S @ ws \<and> (\<forall>w \<in> set ws. may_write S e w))"

lemma writes_none: "gw_out S' = gw_out S \<Longrightarrow> writes_as e S S'"
  by (simp add: writes_as_def)

lemma con_deal_keeps:
  "gdc_DealWithData chunk (int (length chunk)) C = Inr C' \<Longrightarrow> cl_inv (bp_data_list (dsc_processor C)) \<Longrightarrow>
   cl_inv (bp_data_list (dsc_processor C'))"
  "rsc_DealWithData chunk (int (length chunk)) R = Inr R' \<Longrightarrow> grp_ok (rsc_processor R) \<Longrightarrow> grp_ok (rsc_processor R')"
  by (auto simp: gdc_DealWithData_def rsc_DealWithData_def grp_ok_def res_simps dest: cl_add_keeps split: if_splits)

lemma gate_listen_keeps:
  assumes "gate_step pb self (Listen l) S = Inr S'" "gate_ok pb self n S" "gate_event_ok n S (Listen l)"
  shows "gate_ok pb self n S' \<and> writes_as (Listen l) S S'"
proof (cases l)
  case (Readable a chunk)
  obtain S1 where "gate_ok pb self n S'" "forwards (hash_key (gw_users S a)) S S1" "gw_out S' = gw_out S1"
    using listen_data_keeps assms(1,2) Readable by blast
  then show ?thesis unfolding Readable by (fastforce simp: writes_as_def forwards_def)
qed (use listen_calm_keeps [OF assms(1,2) _ assms(3)] writes_none in auto)

lemma gate_conn_keeps:
  assumes "gate_ok pb self n S" "c < gw_rs_next S" "grp_ok (rsc_processor (gw_rs_conns S c)) \<Longrightarrow> grp_ok (rsc_processor C)"
  shows "gate_ok pb self n (with_room_conn S c C) \<and> writes_as e S (with_room_conn S c C)"
  using assms gate_ok_room_conn [of pb self n S C c] writes_none [of "with_room_conn S c C" S e]
  by (auto simp: gate_ok_def with_room_conn_def)

lemma gate_director_keeps:
  assumes "gate_ok pb self n S" "cl_inv (bp_data_list (dsc_processor (gw_ds_connector S))) \<Longrightarrow> cl_inv (bp_data_list (dsc_processor C))"
  shows "gate_ok pb self n (with_director S C) \<and> writes_as e S (with_director S C)"
  using assms gate_ok_director [of pb self n S C] writes_none [of "with_director S C" S e]
  by (auto simp: gate_ok_def with_director_def)

lemma gate_step_keeps:
  assumes "gate_step pb self e S = Inr S'" "gate_ok pb self n S" "gate_event_ok n S e"
  shows "gate_ok pb self n S' \<and> writes_as e S S'"
proof (cases e)
  case (Listen l)
  then show ?thesis using gate_listen_keeps assms by blast
next
  case Held_round
  obtain key where f: "forwards key S S'"
    using clp_round_keeps [of S S'] assms(1,2) Held_round by (auto simp: gate_step_def gate_ok_def)
  then show ?thesis using gate_ok_forwards [OF assms(2) f] Held_round by (fastforce simp: writes_as_def forwards_def)
next
  case (Director_read chunk)
  obtain C where "gdc_DealWithData chunk (int (length chunk)) (gw_ds_connector S) = Inr C" "S' = with_director S C"
    using assms(1) Director_read by (auto simp: gate_step_def res_simps)
  then show ?thesis using gate_director_keeps [OF assms(2)] con_deal_keeps(1) by blast
next
  case (Director_round E)
  then show ?thesis using gds_round_keeps [OF _ assms(2)] assms(1) writes_none by (auto simp: gate_step_def)
next
  case (Director_send wr)
  obtain w C where C: "con_send_round wr (gw_ds_connector S) = Inr (w, C)" "S' = with_director S C"
    using assms(1) Director_send by (auto simp: gate_step_def res_simps)
  then show ?thesis using gate_director_keeps [OF assms(2), of C e] dsc_of_more [OF con_send_more [OF C(1)]] C(2) by simp
next
  case (Director_reconnect f fd conn)
  obtain C where C: "con_reconnect_round f fd conn (gw_ds_connector S) = Inr C" "S' = with_director S C"
    using assms(1) Director_reconnect by (auto simp: gate_step_def res_simps)
  then show ?thesis using gate_director_keeps [OF assms(2), of C e] dsc_of_more [OF con_reconnect_more [OF C(1)]] C(2) by simp
next
  case (Room_read c chunk)
  obtain C where C: "rsc_DealWithData chunk (int (length chunk)) (gw_rs_conns S c) = Inr C" "S' = with_room_conn S c C"
    using assms(1) Room_read by (auto simp: gate_step_def gw_connector_reads_def with_room_conn_def res_simps)
  have c: "c < gw_rs_next S" using assms(3) Room_read by (simp add: gate_event_ok_def)
  show ?thesis using gate_conn_keeps [OF assms(2) c, of C e] con_deal_keeps(2) [OF C(1)] C(2) by blast
next
  case (Room_round c)
  have c: "c < gw_rs_next S" using assms(3) Room_round by (simp add: gate_event_ok_def)
  obtain S1 P where d: "delivers_to S S1" "grp_ok P" "S' = with_room_conn S1 c ((gw_rs_conns S c)\<lparr>rsc_processor := P\<rparr>)"
    using grp_round_delivers [of c S S'] assms(1,2) c Room_round by (auto simp: gate_step_def gate_ok_def)
  have "gate_ok pb self n S'"
    using gate_ok_room_conn [OF gate_ok_delivers [OF assms(2) d(1)]] d(2,3) by simp
  then show ?thesis using d(1,3) Room_round by (fastforce simp: writes_as_def delivers_to_def with_room_conn_def)
next
  case (Room_send c wr)
  obtain w C where C: "con_send_round wr (gw_rs_conns S c) = Inr (w, C)" "S' = with_room_conn S c C"
    using assms(1) Room_send by (auto simp: gate_step_def res_simps)
  have c: "c < gw_rs_next S" using assms(3) Room_send by (simp add: gate_event_ok_def)
  show ?thesis using gate_conn_keeps [OF assms(2) c, of C e] rsc_of_more [OF con_send_more [OF C(1)]] C(2) by simp
next
  case (Room_reconnect c f fd conn)
  obtain C where C: "con_reconnect_round f fd conn (gw_rs_conns S c) = Inr C" "S' = with_room_conn S c C"
    using assms(1) Room_reconnect by (auto simp: gate_step_def res_simps)
  have c: "c < gw_rs_next S" using assms(3) Room_reconnect by (simp add: gate_event_ok_def)
  show ?thesis using gate_conn_keeps [OF assms(2) c, of C e] rsc_of_more [OF con_reconnect_more [OF C(1)]] C(2) by simp
qed

lemma gate_reachable_ok: "gate_reachable pb self S \<Longrightarrow> gate_ok pb self 10000 S"
  by (induction rule: gate_reachable.induct) (auto dest: gate_start_ok gate_step_keeps)

section \<open>An instance\<close>

text \<open>A gate with one worker, started where every call succeeds, and then its first client.\<close>

lemma ex_gate_config:
  "gw_GetConfig 0 ex_start_conf (gw_new 0 C)
   = (True, (gw_new 0 C)\<lparr>gw_server_port := 5000, gw_count_worker := 1, gw_ds_port := 6000\<rparr>)"
  by (simp add: ex_start_conf_def gw_GetConfig_def gate_conf_line_def str_def conf_skipped_def next_word_def
      is_space_def is_digit_def read_int_def dec_value_def clamp32_def byte_of_def gw_new_def)

lemma ex_gate_init:
  "\<exists>S. gw_InitServer 0 4 ex_start_conf (gw_new 0 C) = Inr (True, S) \<and> con_server_port (gw_ds_connector S) = 6000
     \<and> dsc_processor (gw_ds_connector S) = dsc_processor C
     \<and> gw_listenner S = snd (sl_InitServer [] 5000 1 0 0 0 sl_new)"
proof -
  obtain P where P: "bp_InitProcessor 1000 (Some 4) clp_new = Inr (True, P)"
    using bp_Init_ok [of 1000 "Some 4" clp_new] by auto
  obtain L where L: "cl_InitBuffer 1000 (con_send_list C) = Inr L" using init_1000 by blast
  have f: "gw_cl_processor (gw_new 0 C) = clp_new" "gw_ds_connector (gw_new 0 C) = C" "gw_listenner (gw_new 0 C) = sl_new"
    "gw_server_ip (gw_new 0 C) = []" "gw_count_user_per_worker (gw_new 0 C) = 0" "gw_read_timeout (gw_new 0 C) = 0"
    "gw_write_timeout (gw_new 0 C) = 0" by (simp_all add: gw_new_def)
  show ?thesis
    by (simp add: gw_InitServer_def ex_gate_config con_InitConnectionInfo_def wrap16_def split_def Let_def f
        sl_InitServer_def clp_InitProcessor_def P L)
qed

lemma ex_gate_start:
  assumes "con_server_port (gw_ds_connector S0) = 6000" "dsc_processor (gw_ds_connector S0) = pr_new"
    and "gw_listenner S0 = snd (sl_InitServer [] 5000 1 0 0 0 sl_new)"
  shows "\<exists>S. gw_StartServer ex_mute_pb 0 ex_connects ex_listen 4 7 S0 = Inr (True, S)"
proof -
  obtain L where L: "cl_InitBuffer 1000 (bp_data_list (pr_new :: ds_cmd Processor)) = Inr L" using init_1000 by blast
  note c = ex_connects_ok
  have l: "fst (sl_StartServer ex_listen 7 (snd (sl_InitServer [] 5000 1 0 0 0 sl_new)))"
    by (simp add: ex_listen_def sl_StartServer_def sl_InitServer_def sl_InitWorker_def sl_StartWorker_def
        sl_OpenServerSocket_def sl_new_def)
  have q: "ds_SendConnectDsRQ (pb_ser ex_mute_pb) rq C = Inr C" for rq C
    by (simp add: ds_SendConnectDsRQ_def pack_for_ds_def msg_SerializeToArray_def ex_mute_pb_def)
  have s: "\<exists>C'. gdc_StartDSProcessor (Some 4) (pb_ser ex_mute_pb) (se_create_proc ex_connects) 1000 1 (Some 4) S C
      = Inr (True, C')" if "dsc_processor C = pr_new" for S C
    using ds_commands_registered [of "Some 4"]
    by (simp add: gdc_StartDSProcessor_def gds_InitProcessor_def bp_InitProcessor_def that L gds_StartProcessor_def
        gds_SendConnectDsRQ_def pr_start_def split_def Let_def q)
  let ?C = "(gw_ds_connector S0)\<lparr>con_is_started := True, con_client_fd := se_fd ex_connects\<rparr>"
  let ?S = "S0\<lparr>gw_cl_processor := snd (clp_StartProcessor 0 (gw_cl_processor S0)), gw_ds_connector := ?C\<rparr>"
  obtain C' where g: "gdc_StartDSProcessor (Some 4) (pb_ser ex_mute_pb) (se_create_proc ex_connects) 1000 1 (Some 4) ?S ?C
      = Inr (True, C')" using s [of ?C ?S] assms(2) by auto
  have "con_StartConnect (se_fuel ex_connects) (se_fd ex_connects) (se_conn ex_connects) (se_create ex_connects)
      (gw_ds_connector S0) = Inr (True, ?C)" by (rule con_StartConnect_ok [OF c]) (simp add: assms(1))
  then show ?thesis using g l by (simp add: gw_StartServer_def assms(3) split_def Let_def)
qed

lemma ex_gate_reachable: "\<exists>S. gate_reachable ex_mute_pb 7 S \<and> sl_count_worker (gw_listenner S) = 1
    \<and> sl_base_hash_key (gw_listenner S) = 0 \<and> gw_out S = []"
proof -
  obtain L where C: "cl_InitBuffer 1000 (cl_new 0) = Inr L" using init_1000 by blast
  let ?C = "Connector.extend con_new \<lparr>dsc_server_ptr = None, dsc_recv_list = L, dsc_processor = pr_new\<rparr>"
  have C': "dsc_new = Inr ?C" "dsc_processor ?C = pr_new" by (simp_all add: dsc_new_def C Connector.defs)
  obtain S0 where S0: "gw_InitServer 0 4 ex_start_conf (gw_new 0 ?C) = Inr (True, S0)"
    "con_server_port (gw_ds_connector S0) = 6000" "dsc_processor (gw_ds_connector S0) = pr_new"
    "gw_listenner S0 = snd (sl_InitServer [] 5000 1 0 0 0 sl_new)"
    using ex_gate_init [of ?C] C'(2) by auto
  obtain S where S: "gw_StartServer ex_mute_pb 0 ex_connects ex_listen 4 7 S0 = Inr (True, S)"
    using ex_gate_start [OF S0(2-4)] by blast
  obtain T where "sl_StartServer ex_listen 7 (snd (sl_InitServer [] 5000 1 0 0 0 sl_new)) = (True, T)"
    "gw_listenner S = T" using gate_start_state [OF S] S0(4) by auto
  then show ?thesis
    using gate_started [OF C'(1) S0(1) S] sl_start_ready gate_start_ok [OF S0(1) S] by blast
qed

section \<open>Properties\<close>





end
