(* ===== verification/Center_System.thy ===== *)
theory Center_System
  imports Center_Server Steps
begin

text \<open>
  The center server as one system: the events of its listener, the rounds of the processors of its
  connections and of the connector to the director server, in any order and with any bytes and
  any answers of the database. What every step keeps is the invariant \<open>center_ok\<close>.
\<close>

section \<open>The steps\<close>

datatype center_event =
    Center_listen listen_event
  | Request_round database "int \<Rightarrow> byte list \<Rightarrow> int" nat
  | Center_ds_read "byte list"
  | Center_ds_round
  | Center_ds_send "byte list \<Rightarrow> int"
  | Center_ds_reconnect nat int "nat \<Rightarrow> int"

definition with_ds :: "CenterServer \<Rightarrow> DirectorServerConnector \<Rightarrow> CenterServer" where
  "with_ds S C = S\<lparr>cns_ds_connector := C\<rparr>"

definition center_step :: "protobuf \<Rightarrow> nat \<Rightarrow> center_event \<Rightarrow> CenterServer \<Rightarrow> CenterServer res" where
  "center_step pb self e S =
     (case e of
        Center_listen l \<Rightarrow> res_bind (sl_step (ccl_ops (\<lambda>_. 0)) self l (cns_listenner S, cns_client_list S, cns_clients S))
          (\<lambda>(T, L, h). Inr (S\<lparr>cns_listenner := T, cns_client_list := L, cns_clients := h\<rparr>))
      | Request_round D wr a \<Rightarrow> rs_deal_round pb D wr a S
      | Center_ds_read chunk \<Rightarrow>
          res_bind (cdc_DealWithData chunk (int (length chunk)) (cns_ds_connector S)) (\<lambda>C. Inr (with_ds S C))
      | Center_ds_round \<Rightarrow> cds_deal_round pb S
      | Center_ds_send wr \<Rightarrow>
          res_bind (con_send_round wr (cns_ds_connector S)) (\<lambda>(_, C). Inr (with_ds S C))
      | Center_ds_reconnect f fd conn \<Rightarrow>
          res_bind (con_reconnect_round f fd conn (cns_ds_connector S)) (\<lambda>C. Inr (with_ds S C)))"

text \<open>
  The events that can happen: sockets are accepted with \<open>accept\<close> and \<open>ioctl\<close> successful and keys left,
  workers exist, and only a connection has a thread that makes rounds.
\<close>

definition center_event_ok :: "nat \<Rightarrow> CenterServer \<Rightarrow> center_event \<Rightarrow> bool" where
  "center_event_ok n S e =
     (let T = cns_listenner S
      in case e of
           Center_listen (Readable a chunk) \<Rightarrow> a < n \<and> length chunk \<le> 0x1000
         | Center_listen l \<Rightarrow> calm n (sl_count_worker T) l \<and> sl_base_hash_key T + 1 + sl_count_worker T < 2147483648
         | Request_round D wr a \<Rightarrow> a \<in> ran (live (ccl_users (cns_client_list S)))
         | _ \<Rightarrow> True)"

definition cns_new :: "int \<Rightarrow> DirectorServerConnector \<Rightarrow> CenterServer" where
  "cns_new j C = \<lparr>cns_server_id = j, cns_server_ip = [], cns_server_port = j, cns_count_worker = j,
     cns_count_user_per_worker = j, cns_read_timeout = j, cns_write_timeout = j, cns_ds_ip = [],
     cns_ds_port = j, cns_db_addr = [], cns_db_user = [], cns_db_psw = [], cns_db_name = [],
     cns_max_conn_size = j, cns_client_list = ccl_new, cns_clients = (\<lambda>_. ct_new), cns_listenner = sl_new,
     cns_miku_db = my_new, cns_ds_connector = C, cns_out = []\<rparr>"

inductive center_reachable :: "protobuf \<Rightarrow> nat \<Rightarrow> CenterServer \<Rightarrow> bool" for pb self where
  center_started: "dsc_new = Inr C \<Longrightarrow> cns_InitServer u D srv file (cns_new j C) = Inr (True, S0) \<Longrightarrow>
    cns_StartServer pb E LE srv self S0 = Inr (True, S) \<Longrightarrow> center_reachable pb self S"
| center_stepped: "center_reachable pb self S \<Longrightarrow> center_event_ok 50 S e \<Longrightarrow> center_step pb self e S = Inr S' \<Longrightarrow>
    center_reachable pb self S'"

section \<open>A room server's bytes\<close>

lemma ct_frame_run:
  assumes "ct_frame rb p b v M = Inr (b', v', M')"
  shows "\<exists>x. cl_AddBuffer rb (cyt_ByteSize p) M = Inr (x, M')
    \<and> memcpy b 0 b (cyt_ByteSize p) (v - cyt_ByteSize p) = Inr b' \<and> v' = v - cyt_ByteSize p"
  using assms by (auto simp: ct_frame_def Let_def res_simps)

lemma ct_deal_keeps:
  assumes "ct_DealWithData chunk C = Inr C'" "block_ok (ct_recved_buff C) (ct_valid_buff_len C)" "length chunk \<le> 0x1000"
  shows "\<exists>b v L. C' = C\<lparr>ct_recved_buff := b, ct_valid_buff_len := v,
      ct_rs_processor := (ct_rs_processor C)\<lparr>bp_data_list := L\<rparr>\<rparr> \<and> block_ok b v
    \<and> (cl_inv (bp_data_list (ct_rs_processor C)) \<longrightarrow> cl_inv L)"
proof -
  let ?L = "bp_data_list (ct_rs_processor C)"
  let ?J = "\<lambda>b v L. block_ok b v \<and> (cl_inv ?L \<longrightarrow> cl_inv L)"
  obtain b1 v1 where r: "recv_append (ct_recved_buff C) (ct_valid_buff_len C) chunk (int (length chunk)) = Inr (b1, v1)"
    and l: "res_bind (frame_loop (Suc (nat v1)) ct_parse (ct_frame (read_block chunk)) b1 v1 ?L) (\<lambda>(buf, valid, L).
      Inr (C\<lparr>ct_recved_buff := buf, ct_valid_buff_len := valid,
              ct_rs_processor := (ct_rs_processor C)\<lparr>bp_data_list := L\<rparr>\<rparr>)) = Inr C'"
    using assms(1) unfolding ct_DealWithData_def deal_chunk_def
    by (force simp: Let_def res_bind_assoc res_bind_Inr_iff [where m = "recv_append _ _ _ _"] simp del: frame_loop.simps)
  obtain b v L where f: "frame_loop (Suc (nat v1)) ct_parse (ct_frame (read_block chunk)) b1 v1 ?L = Inr (b, v, L)"
    and C': "C' = C\<lparr>ct_recved_buff := b, ct_valid_buff_len := v, ct_rs_processor := (ct_rs_processor C)\<lparr>bp_data_list := L\<rparr>\<rparr>"
    using l by (auto simp: res_simps simp del: frame_loop.simps)
  have "?J b v L"
  proof (rule frame_loop_keeps [OF _ f, where J = ?J])
    fix p b v M b' v' M'
    assume 1: "ct_parse b v = Inr (True, p)" "ct_frame (read_block chunk) p b v M = Inr (b', v', M')" "?J b v M"
    have sz: "18 \<le> cyt_ByteSize p" "cyt_ByteSize p \<le> v"
      using cyt.parse_size [of "cyt_new 0" b v p] 1(1,3) by (auto simp: ct_parse_def block_ok_def)
    obtain x where m: "cl_AddBuffer (read_block chunk) (cyt_ByteSize p) M = Inr (x, M')"
      "memcpy b 0 b (cyt_ByteSize p) (v - cyt_ByteSize p) = Inr b'" "v' = v - cyt_ByteSize p"
      using ct_frame_run [OF 1(2)] by blast
    have "4096 \<le> length (read_block chunk)" "0 \<le> cyt_ByteSize p" using assms(3) sz by simp_all
    then have "cl_inv M \<Longrightarrow> cl_inv M'" using cl_add_keeps_block [OF m(1)] by blast
    then show "?J b' v' M'" using 1(3) sz m(3) memcpy_length [OF m(2)] by (auto simp: block_ok_def)
  qed (use recv_append_block [OF r assms(2)] in simp)
  then show ?thesis using C' by blast
qed

section \<open>The invariant\<close>

text \<open>
  Besides the contract of the list: every receive block is within its bounds, and the processor of a
  connection has a good queue and belongs to that connection.
\<close>

definition ct_all_ok :: "CenterClientList \<times> CenterClient client_store \<Rightarrow> bool" where
  "ct_all_ok = (\<lambda>(L, h). (\<forall>a. block_ok (ct_recved_buff (h a)) (ct_valid_buff_len (h a)))
     \<and> (\<forall>k a. live (ccl_users L) k = Some a \<longrightarrow> cl_inv (bp_data_list (ct_rs_processor (h a)))
          \<and> pr_parent_ptr (ct_rs_processor (h a)) = Some a))"

definition center_ok :: "nat \<Rightarrow> nat \<Rightarrow> CenterServer \<Rightarrow> bool" where
  "center_ok self n S \<longleftrightarrow> center_list.inv self n (cns_listenner S, cns_client_list S, cns_clients S)
     \<and> ct_all_ok (cns_client_list S, cns_clients S)
     \<and> cl_inv (bp_data_list (dsc_processor (cns_ds_connector S)))
     \<and> my_inv (cns_max_conn_size S) (cns_miku_db S) []"

lemma ct_all_change:
  assumes "ct_all_ok (L, h)" "live (ccl_users L') = live (ccl_users L)" "block_ok (ct_recved_buff c) (ct_valid_buff_len c)"
    and "cl_inv (bp_data_list (ct_rs_processor (h a))) \<Longrightarrow> cl_inv (bp_data_list (ct_rs_processor c))"
    and "pr_parent_ptr (ct_rs_processor c) = pr_parent_ptr (ct_rs_processor (h a))"
  shows "ct_all_ok (L', h(a := c))"
  using assms by (auto simp: ct_all_ok_def)

lemma rsp_up_all:
  assumes "rsp_InitProcessor 1000 user srv P = Inr (b, P1)"
  shows "cl_inv (bp_data_list (snd (rsp_StartProcessor create 1 P1)))
    \<and> pr_parent_ptr (snd (rsp_StartProcessor create 1 P1)) = user"
proof -
  obtain x P0 where i: "bp_InitProcessor 1000 srv P = Inr (x, P0)"
    using assms by (auto simp: rsp_InitProcessor_def res_simps)
  have "cl_inv (bp_data_list P0)" using bp_Init_inv [OF i] by simp
  then show ?thesis using assms i
    by (auto simp: rsp_InitProcessor_def rsp_StartProcessor_def pr_start_def Let_def split: prod.splits if_splits)
qed

lemma ccl_add_keeps:
  assumes "ccl_AddUserInfo create k p (L, h) = Inr (b, L', h')" "ct_all_ok (L, h)"
  shows "ct_all_ok (L', h')"
proof (cases "live (ccl_users L) k")
  case None
  let ?m = "snd (map_index None (ccl_users L) k)"
  obtain a x P where a: "p = Some a" "rsp_InitProcessor 1000 p (ccl_center_server L) (ct_rs_processor (h a)) = Inr (x, P)"
    "L' = L\<lparr>ccl_users := map_put k p ?m\<rparr>"
    "h' = h(a := (h a)\<lparr>hash_key := k, ct_center_server := ccl_center_server L,
        ct_rs_processor := snd (rsp_StartProcessor create 1 P)\<rparr>)"
    using assms(1) None by (auto simp: ccl_AddUserInfo_def split_def Let_def res_simps elim!: deref.elims split: option.splits)
  show ?thesis using assms(2) rsp_up_all [OF a(2), of create] a(1) by (auto simp: a(3,4) ct_all_ok_def)
next
  case (Some a)
  then show ?thesis using assms by (auto simp: ccl_AddUserInfo_def split_def Let_def ct_all_ok_def)
qed

lemma ccl_release_keeps:
  assumes "ccl_ReleaseUserInfo p (L, h) = Inr (L', h')" "ct_all_ok (L, h)"
  shows "ct_all_ok (L', h')"
proof -
  let ?m = "\<lambda>a. let m = snd (map_index None (ccl_users L) (hash_key (h a)))
    in if live (ccl_users L) (hash_key (h a)) \<noteq> None then map_erase (hash_key (h a)) m else m"
  obtain a P where a: "rsp_StopProcessor (ct_rs_processor (h a)) = Inr P"
    "L' = L\<lparr>ccl_users := ?m a, ccl_unused := snd (rm_Put p (ccl_unused L))\<rparr>"
    "h' = h(a := ct_Clear ((h a)\<lparr>ct_rs_processor := P\<rparr>))"
    using assms(1) by (auto simp: ccl_ReleaseUserInfo_def split_def Let_def res_simps)
  have "bp_data_list P = bp_data_list (ct_rs_processor (h a))" "pr_parent_ptr P = pr_parent_ptr (ct_rs_processor (h a))"
    using a(1) by (auto simp: rsp_StopProcessor_def pr_stop_def split: if_splits)
  then show ?thesis using assms(2) by (auto simp: a(2,3) ct_all_ok_def ct_Clear_def block_ok_def Let_def)
qed

lemma center_list_keeps:
  assumes "sl_step (ccl_ops (\<lambda>_. 0)) self e (T, L, h) = Inr (T', L', h')" "\<forall>a chunk. e \<noteq> Readable a chunk"
    and "ct_all_ok (L, h)"
  shows "ct_all_ok (L', h')"
proof (rule sl_step_keeps [where J = ct_all_ok, OF _ _ _ _ _ assms], goal_cases)
  case (1 s u s')
  then show ?case by (cases s) (auto simp: ccl_ops_def ccl_GetUserInfo_def ct_all_ok_def split_def Let_def)
next
  case (2 s a u)
  then show ?case by (cases s) (auto simp: ccl_ops_def ct_all_ok_def set_base_def)
next
  case (3 s k p b s')
  then show ?case by (cases s; cases s') (auto simp: ccl_ops_def intro: ccl_add_keeps)
next
  case (4 s k u s')
  then show ?case by (cases s) (auto simp: ccl_ops_def ccl_GetUserByHashkey_def ct_all_ok_def split_def Let_def)
next
  case (5 s p s')
  then show ?case by (cases s; cases s') (auto simp: ccl_ops_def intro: ccl_release_keeps)
qed

section \<open>The requests\<close>

text \<open>
  What handling a request of the connection at \<open>a\<close> changes: the pool of database connections, all
  of which are back in it, and what is written, at most one packet and to that connection.
\<close>

definition answers :: "nat \<Rightarrow> CenterServer \<Rightarrow> CenterServer \<Rightarrow> bool" where
  "answers a S S' \<longleftrightarrow> (\<exists>P ws. S' = S\<lparr>cns_miku_db := P, cns_out := cns_out S @ ws\<rparr>
     \<and> (\<forall>n. my_inv n (cns_miku_db S) [] \<longrightarrow> my_inv n P [])
     \<and> length ws \<le> 1 \<and> (\<forall>(fd, bs) \<in> set ws. fd = user_sock (cns_clients S a)))"

lemma answers_db: "\<forall>n. my_inv n (cns_miku_db S) [] \<longrightarrow> my_inv n P [] \<Longrightarrow> answers a S (S\<lparr>cns_miku_db := P\<rparr>)"
  by (auto simp: answers_def intro!: exI [of _ P] exI [of _ "[]"])

lemma answers_refl: "answers a S S"
  using answers_db [of S "cns_miku_db S" a] by simp

lemma send_answers:
  assumes "cns_SendDataToRS ser wr m i (user_sock (cns_clients S a)) (S\<lparr>cns_miku_db := P\<rparr>) = Inr (b, S')"
    and P: "\<forall>n. my_inv n (cns_miku_db S) [] \<longrightarrow> my_inv n P []"
  shows "answers a S S'"
proof -
  let ?fd = "user_sock (cns_clients S a)"
  have "S' = S\<lparr>cns_miku_db := P\<rparr> \<or> (\<exists>bs. S' = S\<lparr>cns_miku_db := P, cns_out := cns_out S @ [(?fd, bs)]\<rparr>)"
    using assms(1) by (auto simp: cns_SendDataToRS_def Let_def res_simps split: if_splits)
  then show ?thesis
  proof
    assume "\<exists>bs. S' = S\<lparr>cns_miku_db := P, cns_out := cns_out S @ [(?fd, bs)]\<rparr>"
    then obtain bs where "S' = S\<lparr>cns_miku_db := P, cns_out := cns_out S @ [(?fd, bs)]\<rparr>" by blast
    then show ?thesis unfolding answers_def using P by (intro exI [of _ P] exI [of _ "[(?fd, bs)]"]) simp
  qed (use answers_db [OF P] in simp)
qed

lemma login_answers:
  assumes "CS_ClientLoginRQ_Execute pb D wr server (Some a) buff len S = Inr S'"
    and "pr_parent_ptr (ct_rs_processor (cns_clients S a)) = Some a"
  shows "answers a S S'"
proof (cases "server = None")
  case False
  then obtain m where m: "parse_from (pb_UserLoginRQ pb) buff len = Inr m"
    using assms by (cases "parse_from (pb_UserLoginRQ pb) buff len") (auto simp: CS_ClientLoginRQ_Execute_def with_parent_def)
  show ?thesis
  proof (cases m)
    case (Some rq)
    obtain ret result row P where d: "db_UserLogin D (lrq_user_id rq) (lrq_user_psw rq) (cns_miku_db S) = ((ret, result, row), P)"
      by (metis surj_pair)
    have P: "\<forall>n. my_inv n (cns_miku_db S) [] \<longrightarrow> my_inv n P []"
      using db_inv(1) [of _ "cns_miku_db S" "[]"] d by (metis snd_conv)
    show ?thesis using assms False m Some d answers_db [OF P] send_answers [OF _ P]
      by (auto simp: CS_ClientLoginRQ_Execute_def with_parent_def res_simps Let_def split: option.splits if_splits)
  qed (use assms False m in \<open>simp add: CS_ClientLoginRQ_Execute_def with_parent_def answers_refl\<close>)
qed (use assms in \<open>simp add: CS_ClientLoginRQ_Execute_def answers_refl\<close>)

lemma gift_answers:
  assumes "CS_UserGiveGiftRQ_Execute pb D wr server (Some a) buff len S = Inr S'"
    and "pr_parent_ptr (ct_rs_processor (cns_clients S a)) = Some a"
  shows "answers a S S'"
proof (cases "server = None")
  case False
  then obtain m where m: "parse_from (pb_UserGiveGiftRQ pb) buff len = Inr m"
    using assms by (cases "parse_from (pb_UserGiveGiftRQ pb) buff len") (auto simp: CS_UserGiveGiftRQ_Execute_def with_parent_def)
  show ?thesis
  proof (cases m)
    case (Some rq)
    obtain ret result red P where d: "db_UserGiveGift D (grq_user_id rq) (grq_dst_user_id rq) (grq_count_gift rq)
        (grq_gift_code rq) (cns_miku_db S) = ((ret, result, red), P)"
      by (metis surj_pair)
    have P: "\<forall>n. my_inv n (cns_miku_db S) [] \<longrightarrow> my_inv n P []"
      using db_inv(2) [of _ "cns_miku_db S" "[]"] d by (metis snd_conv)
    show ?thesis using assms False m Some d answers_db [OF P] send_answers [OF _ P]
      by (auto simp: CS_UserGiveGiftRQ_Execute_def with_parent_def res_simps Let_def split: if_splits)
  qed (use assms False m in \<open>simp add: CS_UserGiveGiftRQ_Execute_def with_parent_def answers_refl\<close>)
qed (use assms in \<open>simp add: CS_UserGiveGiftRQ_Execute_def answers_refl\<close>)

lemma center_inv_client:
  assumes "center_list.inv self n (T, L, h)" "base_of c = base_of (h a)"
    and "pr_running (ct_rs_processor (h a)) \<Longrightarrow> pr_running (ct_rs_processor c)"
  shows "center_list.inv self n (T, L, h(a := c))"
proof -
  have "ur_fields (ccl_ops (\<lambda>_. 0)) (L, h(a := c)) = ur_fields (ccl_ops (\<lambda>_. 0)) (L, h)"
    using assms(2) by (simp add: ccl_ops_def fun_eq_iff)
  moreover have "ccl_ok (L, h) \<Longrightarrow> ccl_ok (L, h(a := c))" using assms(3) by (auto simp: ccl_ok_def intro: list_ok_change)
  moreover have "ccl_conns (L, h(a := c)) = ccl_conns (L, h)" "ccl_free (L, h(a := c)) = ccl_free (L, h)"
    "ccl_taken (L, h(a := c)) = ccl_taken (L, h)" by (simp_all add: ccl_defs)
  ultimately show ?thesis using center_list.invD [OF assms(1)] unfolding center_list.inv_def split_conv by metis
qed

section \<open>Start\<close>

definition only_conf :: "CenterServer \<Rightarrow> CenterServer \<Rightarrow> bool" where
  "only_conf S S' \<longleftrightarrow> cns_client_list S' = cns_client_list S \<and> cns_clients S' = cns_clients S
     \<and> cns_listenner S' = cns_listenner S \<and> cns_miku_db S' = cns_miku_db S
     \<and> cns_ds_connector S' = cns_ds_connector S \<and> cns_out S' = cns_out S"

lemma only_conf_set:
  "only_conf S (S\<lparr>cns_server_ip := w\<rparr>)" "only_conf S (S\<lparr>cns_ds_ip := w\<rparr>)" "only_conf S (S\<lparr>cns_db_addr := w\<rparr>)"
  "only_conf S (S\<lparr>cns_db_user := w\<rparr>)" "only_conf S (S\<lparr>cns_db_psw := w\<rparr>)" "only_conf S (S\<lparr>cns_db_name := w\<rparr>)"
  "only_conf S (S\<lparr>cns_server_port := v\<rparr>)" "only_conf S (S\<lparr>cns_count_worker := v\<rparr>)"
  "only_conf S (S\<lparr>cns_count_user_per_worker := v\<rparr>)" "only_conf S (S\<lparr>cns_read_timeout := v\<rparr>)"
  "only_conf S (S\<lparr>cns_write_timeout := v\<rparr>)" "only_conf S (S\<lparr>cns_ds_port := v\<rparr>)"
  "only_conf S (S\<lparr>cns_server_id := v\<rparr>)" "only_conf S (S\<lparr>cns_max_conn_size := v\<rparr>)" "only_conf S S"
  by (simp_all add: only_conf_def)

lemma only_conf_word: "(\<And>w. only_conf S (upd w S)) \<Longrightarrow> only_conf S (read_word upd r S)"
  by (simp add: read_word_def only_conf_set split: prod.split option.split)

lemma center_line_only: "only_conf S (center_conf_line u l S)"
  unfolding center_conf_line_def Let_def
  by (simp add: if_distrib [of "only_conf S"] only_conf_set only_conf_word split: prod.split option.split)

lemma center_lines_only: "only_conf S (fold (center_conf_line u) ls S)"
proof (induction ls arbitrary: S)
  case (Cons l ls)
  then show ?case using center_line_only [of S u l] Cons.IH [of "center_conf_line u l S"]
    by (simp add: only_conf_def)
qed (simp add: only_conf_def)

lemma my_Init_inv: "my_inv n (my_Init can n my_new) []"
  by (rule my_reachable_inv [OF my_init])

lemma center_init_state:
  assumes "cns_InitServer u D srv file (cns_new j C) = Inr (True, S)"
  shows "(cns_client_list S, cns_clients S) = center_start 50 (Some srv)
    \<and> (\<exists>ip port w k rt wt. cns_listenner S = snd (sl_InitServer ip port w k rt wt sl_new))
    \<and> my_inv (cns_max_conn_size S) (cns_miku_db S) [] \<and> cns_out S = []"
proof -
  let ?S = "snd (cns_GetConfig u file (cns_new j C))"
  have c: "only_conf (cns_new j C) ?S" by (simp add: cns_GetConfig_def Let_def center_lines_only)
  obtain C1 where i: "S = ?S\<lparr>cns_client_list := snd (ccl_Init 50 (Some srv) (cns_client_list ?S)),
       cns_listenner := snd (sl_InitServer (cns_server_ip ?S) (cns_server_port ?S) (cns_count_worker ?S)
          (cns_count_user_per_worker ?S) (cns_read_timeout ?S) (cns_write_timeout ?S) (cns_listenner ?S)),
       cns_miku_db := my_Init (db_can_connect D) (cns_max_conn_size ?S) (cns_miku_db ?S), cns_ds_connector := C1\<rparr>"
    using assms by (auto simp: cns_InitServer_def Let_def res_simps split_def split: if_splits)
  have f: "cns_client_list ?S = ccl_new" "cns_clients ?S = (\<lambda>_. ct_new)" "cns_listenner ?S = sl_new"
    "cns_miku_db ?S = my_new" "cns_out ?S = []" using c by (simp_all add: only_conf_def cns_new_def)
  show ?thesis unfolding i using f my_Init_inv by (simp add: center_start_def, blast)
qed

lemma cdc_start_ok:
  assumes "cdc_StartDSProcessor self ser create k m srv S C = Inr (ok, C')" "0 < k"
  shows "cl_inv (bp_data_list (dsc_processor C'))"
proof -
  obtain b P1 where i: "bp_InitProcessor k srv (dsc_processor C) = Inr (b, P1)"
    using assms(1) by (auto simp: cdc_StartDSProcessor_def cds_InitProcessor_def res_simps)
  have "cl_inv (bp_data_list P1)" by (rule bp_Init_inv [OF i assms(2)])
  then show ?thesis using assms(1)
    by (auto simp: cdc_StartDSProcessor_def cds_InitProcessor_def i cds_StartProcessor_def cds_SendConnectDsRQ_def
        pr_start_def Let_def res_simps split: if_splits prod.splits dest!: ds_send_processor)
qed

lemma center_start_state:
  assumes "cns_StartServer pb E LE srv self S0 = Inr (True, S)"
  shows "\<exists>C T. S = S0\<lparr>cns_ds_connector := C, cns_listenner := T\<rparr>
    \<and> cl_inv (bp_data_list (dsc_processor C)) \<and> sl_StartServer LE self (cns_listenner S0) = (True, T)"
proof -
  obtain C S1 C1 where c: "S1 = S0\<lparr>cns_ds_connector := C\<rparr>"
    "cdc_StartDSProcessor (Some srv) (pb_ser pb) (se_create_proc E) 100 1 (Some srv) S1 C = Inr (True, C1)"
    "S = S1\<lparr>cns_ds_connector := C1, cns_listenner := snd (sl_StartServer LE self (cns_listenner S1))\<rparr>"
    "fst (sl_StartServer LE self (cns_listenner S1))"
    using assms by (auto simp: cns_StartServer_def Let_def res_simps split_def split: if_splits)
  have "sl_StartServer LE self (cns_listenner S0) = (True, snd (sl_StartServer LE self (cns_listenner S1)))"
    by (rule prod_eqI) (use c(4) in \<open>simp_all add: c(1)\<close>)
  then show ?thesis using c(1,3) cdc_start_ok [OF c(2)] by (intro exI conjI) (auto simp: c(1,3))
qed

lemma ct_all_start: "ct_all_ok (center_start n srv)"
  by (simp add: ct_all_ok_def center_start_def ccl_Init_def ccl_new_def Let_def split_def ct_new_def block_ok_def
      BaseUserInfo.defs)

lemma center_start_ok:
  assumes "cns_InitServer u D srv file (cns_new j C) = Inr (True, S0)"
    and "cns_StartServer pb E LE srv self S0 = Inr (True, S)"
  shows "center_ok self 50 S \<and> cns_out S = []"
proof -
  note i = center_init_state [OF assms(1)]
  obtain ip port w k rt wt where l: "cns_listenner S0 = snd (sl_InitServer ip port w k rt wt sl_new)" using i by blast
  obtain D T where s: "S = S0\<lparr>cns_ds_connector := D, cns_listenner := T\<rparr>"
    "cl_inv (bp_data_list (dsc_processor D))" "sl_StartServer LE self (cns_listenner S0) = (True, T)"
    using center_start_state [OF assms(2)] by blast
  have "center_list.inv self 50 (T, center_start 50 (Some srv))" by (rule center_start_inv [OF s(3) [unfolded l]])
  then show ?thesis using i s(1,2) ct_all_start by (simp add: center_ok_def)
qed

section \<open>Every step\<close>

lemma center_ok_answers: "center_ok self n S \<Longrightarrow> answers a S S' \<Longrightarrow> center_ok self n S'"
  by (auto simp: center_ok_def answers_def)

lemma center_ok_ds:
  "center_ok self n S \<Longrightarrow> (cl_inv (bp_data_list (dsc_processor (cns_ds_connector S))) \<Longrightarrow> cl_inv (bp_data_list (dsc_processor C)))
   \<Longrightarrow> center_ok self n (with_ds S C)"
  by (simp add: center_ok_def with_ds_def)

lemma request_round_keeps:
  assumes "rs_deal_round pb D wr a S = Inr S'" "center_ok self n S" "live (ccl_users (cns_client_list S)) k = Some a"
  shows "center_ok self n S' \<and> (\<exists>ws. cns_out S' = cns_out S @ ws \<and> length ws \<le> 1
    \<and> (\<forall>(fd, bs) \<in> set ws. fd = user_sock (cns_clients S a)))"
proof -
  let ?p = "ct_rs_processor (cns_clients S a)"
  obtain d P where c: "cyt_dispatch_round ?p = Inr (d, P)"
    using assms(1) by (auto simp: rs_deal_round_def res_simps)
  let ?c = "(cns_clients S a)\<lparr>ct_rs_processor := P\<rparr>"
  let ?S1 = "S\<lparr>cns_clients := (cns_clients S)(a := ?c)\<rparr>"
  obtain L C where P: "P = ?p\<lparr>bp_data_list := L, bp_cmd_chain := C\<rparr>" using dispatch_fields [OF c] by blast
  have ok: "block_ok (ct_recved_buff ?c) (ct_valid_buff_len ?c)" "cl_inv (bp_data_list ?p)" "pr_parent_ptr ?p = Some a"
    using assms(2,3) by (auto simp: center_ok_def ct_all_ok_def)
  have "center_list.inv self n (cns_listenner S, cns_client_list S, (cns_clients S)(a := ?c))"
    by (rule center_inv_client) (use assms(2) in \<open>auto simp: center_ok_def base_of_def P pr_running_def\<close>)
  moreover have "ct_all_ok (cns_client_list S, (cns_clients S)(a := ?c))"
    by (rule ct_all_change [OF _ refl ok(1)]) (use assms(2) dispatch_keeps [OF c ok(2)] in \<open>auto simp: center_ok_def P\<close>)
  ultimately have S1: "center_ok self n ?S1" using assms(2) by (simp add: center_ok_def)
  have p: "pr_parent_ptr (ct_rs_processor (cns_clients ?S1 a)) = Some a" using ok(3) by (simp add: P)
  have ans: "answers a ?S1 S'"
  proof (cases d)
    case (Execute cmd buff len)
    then show ?thesis using assms(1) login_answers [OF _ p] gift_answers [OF _ p]
      by (cases "cmd_class cmd") (auto simp: rs_deal_round_def c Let_def)
  qed (use assms(1) answers_refl in \<open>auto simp: rs_deal_round_def c Let_def\<close>)
  from center_ok_answers [OF S1 this] show ?thesis using ans by (auto simp: answers_def)
qed

lemma center_stop_keeps:
  assumes "cns_StopServer S = Inr S'" "center_ok self n S"
  shows "center_ok self n S' \<and> cns_out S' = cns_out S"
proof -
  obtain T where T: "sl_StopServer (cns_listenner S) = Inr T"
    "S' = S\<lparr>cns_ds_connector := con_Disconnect (cns_ds_connector S), cns_listenner := T\<rparr>"
    using assms(1) by (auto simp: cns_StopServer_def Let_def res_simps)
  show ?thesis using assms(2) center_list.inv_stop [OF _ T(1)]
    by (auto simp: T(2) center_ok_def con_Disconnect_def)
qed

lemma center_ds_round_keeps:
  assumes "cds_deal_round pb S = Inr S'" "center_ok self n S"
  shows "center_ok self n S' \<and> cns_out S' = cns_out S"
proof -
  obtain d P where c: "cyt_dispatch_round (dsc_processor (cns_ds_connector S)) = Inr (d, P)"
    using assms(1) by (auto simp: cds_deal_round_def res_simps)
  let ?S1 = "S\<lparr>cns_ds_connector := (cns_ds_connector S)\<lparr>dsc_processor := P\<rparr>\<rparr>"
  have "cl_inv (bp_data_list P)" using dispatch_keeps [OF c] assms(2) by (simp add: center_ok_def)
  then have S1: "center_ok self n ?S1"
    using center_ok_ds [OF assms(2), of "(cns_ds_connector S)\<lparr>dsc_processor := P\<rparr>"] by (simp add: with_ds_def)
  show ?thesis
  proof (cases d)
    case (Execute cmd buff len)
    then show ?thesis using assms(1) S1 center_stop_keeps [OF _ S1]
      by (cases "cmd_class cmd") (auto simp: cds_deal_round_def c Let_def CS_ConnectDirectorServerRS_Execute_def
        CS_QueryChatRoomRS_Execute_def CS_GetCenterServerAddrRS_Execute_def res_simps split: if_splits option.splits)
  qed (use assms(1) S1 in \<open>auto simp: cds_deal_round_def c Let_def\<close>)
qed

lemma center_listen_keeps:
  assumes "center_step pb self (Center_listen l) S = Inr S'" "center_ok self n S" "center_event_ok n S (Center_listen l)"
  shows "center_ok self n S' \<and> cns_out S' = cns_out S"
proof -
  obtain T L h where s: "sl_step (ccl_ops (\<lambda>_. 0)) self l (cns_listenner S, cns_client_list S, cns_clients S) = Inr (T, L, h)"
    "S' = S\<lparr>cns_listenner := T, cns_client_list := L, cns_clients := h\<rparr>"
    using assms(1) by (auto simp: center_step_def res_simps)
  have ok: "center_list.inv self n (cns_listenner S, cns_client_list S, cns_clients S)"
    "ct_all_ok (cns_client_list S, cns_clients S)" using assms(2) by (simp_all add: center_ok_def)
  have "center_list.inv self n (T, L, h) \<and> ct_all_ok (L, h)"
  proof (cases "\<exists>a chunk. l = Readable a chunk")
    case True
    then obtain a chunk where l: "l = Readable a chunk" by blast
    have d: "sl_DealWithReadData (ccl_ops (\<lambda>_. 0)) a chunk (cns_listenner S, cns_client_list S, cns_clients S) = Inr (T, L, h)"
      using s(1) l by (simp add: sl_step_def)
    obtain c where c: "ct_DealWithData chunk (cns_clients S a) = Inr c" "L = cns_client_list S" "h = (cns_clients S)(a := c)"
      using d by (auto simp: sl_DealWithReadData_def ccl_ops_def res_simps)
    have b: "block_ok (ct_recved_buff (cns_clients S a)) (ct_valid_buff_len (cns_clients S a))" "length chunk \<le> 0x1000"
      using ok(2) assms(3) l by (auto simp: ct_all_ok_def center_event_ok_def Let_def)
    have "ct_all_ok (L, h)" unfolding c(2,3)
      by (rule ct_all_change [OF ok(2) refl]) (use ct_deal_keeps [OF c(1) b] in auto)
    then show ?thesis using center_list.readable_ok [OF ok(1) d] by blast
  next
    case False
    then have "calm n (sl_count_worker (cns_listenner S)) l"
      "sl_base_hash_key (cns_listenner S) + 1 + sl_count_worker (cns_listenner S) < 2147483648"
      using assms(3) by (auto simp: center_event_ok_def Let_def split: listen_event.splits)
    from center_list.step_ok [OF ok(1) this] show ?thesis using s(1) center_list_keeps [OF s(1) _ ok(2)] False by auto
  qed
  then show ?thesis using assms(2) s(2) by (simp add: center_ok_def)
qed

text \<open>What an event may write: nothing, but for a request round, which may answer who asked.\<close>

definition center_writes :: "center_event \<Rightarrow> CenterServer \<Rightarrow> (int \<times> byte list) list \<Rightarrow> bool" where
  "center_writes e S ws \<longleftrightarrow>
     (case e of Request_round D wr a \<Rightarrow> length ws \<le> 1 \<and> (\<forall>(fd, bs) \<in> set ws. fd = user_sock (cns_clients S a))
      | _ \<Rightarrow> ws = [])"

lemma center_step_keeps:
  assumes "center_step pb self e S = Inr S'" "center_ok self n S" "center_event_ok n S e"
  shows "center_ok self n S' \<and> (\<exists>ws. cns_out S' = cns_out S @ ws \<and> center_writes e S ws)"
proof (cases e)
  case (Center_listen l)
  then show ?thesis using center_listen_keeps assms by (simp add: center_writes_def)
next
  case (Request_round D wr a)
  then obtain k where k: "live (ccl_users (cns_client_list S)) k = Some a"
    using assms(3) by (auto simp: center_event_ok_def Let_def ran_def)
  show ?thesis using request_round_keeps [OF _ assms(2) k] assms(1) Request_round
    by (simp add: center_step_def center_writes_def)
next
  case (Center_ds_read chunk)
  obtain C where C: "cdc_DealWithData chunk (int (length chunk)) (cns_ds_connector S) = Inr C" "S' = with_ds S C"
    using assms(1) Center_ds_read by (auto simp: center_step_def res_simps)
  have "cl_inv (bp_data_list (dsc_processor (cns_ds_connector S))) \<Longrightarrow> cl_inv (bp_data_list (dsc_processor C))"
    using C(1) by (auto simp: cdc_DealWithData_def res_simps dest: cl_add_keeps split: if_splits)
  then show ?thesis using center_ok_ds [OF assms(2)] C(2) Center_ds_read by (simp add: center_writes_def with_ds_def)
next
  case Center_ds_round
  then show ?thesis using center_ds_round_keeps [OF _ assms(2)] assms(1) by (simp add: center_step_def center_writes_def)
next
  case (Center_ds_send wr)
  obtain w C where C: "con_send_round wr (cns_ds_connector S) = Inr (w, C)" "S' = with_ds S C"
    using assms(1) Center_ds_send by (auto simp: center_step_def res_simps)
  then show ?thesis using center_ok_ds [OF assms(2), of C] dsc_of_more [OF con_send_more [OF C(1)]] Center_ds_send
    by (simp add: center_writes_def with_ds_def)
next
  case (Center_ds_reconnect f fd conn)
  obtain C where C: "con_reconnect_round f fd conn (cns_ds_connector S) = Inr C" "S' = with_ds S C"
    using assms(1) Center_ds_reconnect by (auto simp: center_step_def res_simps)
  then show ?thesis using center_ok_ds [OF assms(2), of C] dsc_of_more [OF con_reconnect_more [OF C(1)]] Center_ds_reconnect
    by (simp add: center_writes_def with_ds_def)
qed

lemma center_reachable_ok: "center_reachable pb self S \<Longrightarrow> center_ok self 50 S"
  by (induction rule: center_reachable.induct) (auto dest: center_start_ok center_step_keeps)

section \<open>An instance\<close>

text \<open>A center server with one worker, started where every call succeeds, and then its first room server.\<close>

lemma ex_center_config:
  "cns_GetConfig 0 ex_start_conf (cns_new 0 C)
   = (True, (cns_new 0 C)\<lparr>cns_server_port := 5000, cns_count_worker := 1, cns_ds_port := 6000\<rparr>)"
  by (simp add: ex_start_conf_def cns_GetConfig_def center_conf_line_def str_def conf_skipped_def next_word_def
      is_space_def is_digit_def read_int_def dec_value_def clamp32_def byte_of_def cns_new_def)

lemma ex_center_init:
  "\<exists>S. cns_InitServer 0 ex_db 4 ex_start_conf (cns_new 0 C) = Inr (True, S)
     \<and> con_server_port (cns_ds_connector S) = 6000 \<and> dsc_processor (cns_ds_connector S) = dsc_processor C
     \<and> cns_listenner S = snd (sl_InitServer [] 5000 1 0 0 0 sl_new)"
proof -
  obtain L where L: "cl_InitBuffer 1000 (con_send_list C) = Inr L" using init_1000 by blast
  have f: "cns_ds_connector (cns_new 0 C) = C" "cns_listenner (cns_new 0 C) = sl_new"
    "cns_server_ip (cns_new 0 C) = []" "cns_count_user_per_worker (cns_new 0 C) = 0" "cns_read_timeout (cns_new 0 C) = 0"
    "cns_write_timeout (cns_new 0 C) = 0" by (simp_all add: cns_new_def)
  show ?thesis
    by (simp add: cns_InitServer_def ex_center_config con_InitConnectionInfo_def wrap16_def split_def Let_def f
        sl_InitServer_def L)
qed

lemma ex_center_start:
  assumes "con_server_port (cns_ds_connector S0) = 6000" "dsc_processor (cns_ds_connector S0) = pr_new"
    and "cns_listenner S0 = snd (sl_InitServer [] 5000 1 0 0 0 sl_new)"
  shows "\<exists>S. cns_StartServer ex_mute_pb ex_connects ex_listen 4 7 S0 = Inr (True, S)"
proof -
  obtain L where L: "cl_InitBuffer 100 (bp_data_list (pr_new :: ds_cmd Processor)) = Inr L"
    using cl_InitBuffer_ok [of 100 "bp_data_list (pr_new :: ds_cmd Processor)"] by auto
  have l: "fst (sl_StartServer ex_listen 7 (snd (sl_InitServer [] 5000 1 0 0 0 sl_new)))"
    by (simp add: ex_listen_def sl_StartServer_def sl_InitServer_def sl_InitWorker_def sl_StartWorker_def
        sl_OpenServerSocket_def sl_new_def)
  have q: "ds_SendConnectDsRQ (pb_ser ex_mute_pb) rq C = Inr C" for rq C
    by (simp add: ds_SendConnectDsRQ_def pack_for_ds_def msg_SerializeToArray_def ex_mute_pb_def)
  have s: "\<exists>C'. cdc_StartDSProcessor (Some 4) (pb_ser ex_mute_pb) (se_create_proc ex_connects) 100 1 (Some 4) S C
      = Inr (True, C')" if "dsc_processor C = pr_new" for S C
    using ds_commands_registered [of "Some 4"]
    by (simp add: cdc_StartDSProcessor_def cds_InitProcessor_def bp_InitProcessor_def that L cds_StartProcessor_def
        cds_SendConnectDsRQ_def pr_start_def split_def Let_def q)
  let ?C = "(cns_ds_connector S0)\<lparr>con_is_started := True, con_client_fd := se_fd ex_connects\<rparr>"
  let ?S = "S0\<lparr>cns_ds_connector := ?C\<rparr>"
  obtain C' where g: "cdc_StartDSProcessor (Some 4) (pb_ser ex_mute_pb) (se_create_proc ex_connects) 100 1 (Some 4) ?S ?C
      = Inr (True, C')" using s [of ?C ?S] assms(2) by auto
  have "con_StartConnect (se_fuel ex_connects) (se_fd ex_connects) (se_conn ex_connects) (se_create ex_connects)
      (cns_ds_connector S0) = Inr (True, ?C)" by (rule con_StartConnect_ok [OF ex_connects_ok]) (simp add: assms(1))
  then show ?thesis using g l by (simp add: cns_StartServer_def assms(3) split_def Let_def)
qed

lemma ex_center_reachable: "\<exists>S. center_reachable ex_mute_pb 7 S \<and> sl_count_worker (cns_listenner S) = 1
    \<and> sl_base_hash_key (cns_listenner S) = 0 \<and> cns_out S = []"
proof -
  obtain L where C: "cl_InitBuffer 1000 (cl_new 0) = Inr L" using init_1000 by blast
  let ?C = "Connector.extend con_new \<lparr>dsc_server_ptr = None, dsc_recv_list = L, dsc_processor = pr_new\<rparr>"
  have C': "dsc_new = Inr ?C" "dsc_processor ?C = pr_new" by (simp_all add: dsc_new_def C Connector.defs)
  obtain S0 where S0: "cns_InitServer 0 ex_db 4 ex_start_conf (cns_new 0 ?C) = Inr (True, S0)"
    "con_server_port (cns_ds_connector S0) = 6000" "dsc_processor (cns_ds_connector S0) = pr_new"
    "cns_listenner S0 = snd (sl_InitServer [] 5000 1 0 0 0 sl_new)"
    using ex_center_init [of ?C] C'(2) by auto
  obtain S where S: "cns_StartServer ex_mute_pb ex_connects ex_listen 4 7 S0 = Inr (True, S)"
    using ex_center_start [OF S0(2-4)] by blast
  obtain T where "sl_StartServer ex_listen 7 (snd (sl_InitServer [] 5000 1 0 0 0 sl_new)) = (True, T)"
    "cns_listenner S = T" using center_start_state [OF S] S0(4) by auto
  then show ?thesis
    using center_started [OF C'(1) S0(1) S] sl_start_ready center_start_ok [OF S0(1) S] by blast
qed

section \<open>Properties\<close>





end
