(* ===== verification/Room_Keeps.thy ===== *)
theory Room_Keeps
  imports Room_Start Steps
begin

text \<open>
  What the handlers of the room server keep: the gates and their queues, the tables and pools of user
  objects, and the sockets that may be written to. \<open>good W S0 N X S\<close> holds in the middle of a handler;
  every operation of \<open>Room_Commands\<close> and \<open>Room_Replies\<close> has a lemma that it keeps it.
\<close>

section \<open>User objects\<close>

text \<open>
  No user object is in two places: the objects of all rooms, in their tables and in their pools,
  and the objects \<open>X\<close> that a handler holds are different objects that have been allocated.
\<close>

definition room_objects :: "ChatRoom \<Rightarrow> nat multiset" where
  "room_objects R = ul_objects (user_list R) + ul_objects (pre_user_list R)"

definition room_ordered :: "ChatRoom \<Rightarrow> bool" where
  "room_ordered R \<longleftrightarrow> map_ordered (ul_users (user_list R)) \<and> map_ordered (ul_users (pre_user_list R))"

definition tables :: "nat multiset \<Rightarrow> RoomServer \<Rightarrow> bool" where
  "tables X S \<longleftrightarrow> unused_room_list (rsv_room_manager S) = []
     \<and> (\<forall>k a. rsv_lookup_room S k = Some a \<longrightarrow> a < rs_next (rsv_rooms S))
     \<and> (\<forall>a. room_ordered (rsv_room a S))
     \<and> (\<Sum>a < rs_next (rsv_rooms S). room_objects (rsv_room a S)) + X \<subseteq># mset [0..<us_next (rsv_users S)]"

lemma tables_less: "tables Y S \<Longrightarrow> X \<subseteq># Y \<Longrightarrow> tables X S"
  unfolding tables_def by (blast intro: subset_mset.order_trans subset_mset.add_left_mono)

lemma objects_index:
  assumes "map_ordered m"
  shows "mset (the_ptrs (map snd (snd (map_index None m i)))) = mset (the_ptrs (map snd m))"
  using objects_put [OF assms, of i None] by (auto simp: map_index_def split: option.split)

lemma get_user_keeps:
  assumes "ul_GetUserInfo i L = Inr (u, L')" "map_ordered (ul_users L)"
  shows "map_ordered (ul_users L') \<and> ul_objects L' = ul_objects L \<and> map_of (ul_users L') i = Some u"
  using assms objects_index [OF assms(2), of i]
  by (auto simp: ul_GetUserInfo_def ul_objects_def res_simps split_def Let_def map_of_index)

lemma get_unused_keeps:
  assumes "ul_GetUnusedUser None L s = Inr (n, u, L', s')"
  shows "ul_users L' = ul_users L \<and> us_next s' = us_next s
    \<and> ul_objects L = ul_objects L' + mset (the_ptrs [u])"
  using assms
  by (auto simp: ul_GetUnusedUser_def ul_objects_def res_simps us_update_def split: list.splits option.splits)

lemma add_user_keeps:
  assumes "ul_AddUserInfo i p L = Inr (b, L')" "map_ordered (ul_users L)"
  shows "map_ordered (ul_users L') \<and> ul_objects L' \<subseteq># ul_objects L + mset (the_ptrs [p])"
proof -
  let ?m = "snd (map_index None (ul_users L) i)"
  have o: "map_ordered ?m" using assms(2) by simp
  have m: "mset (the_ptrs (map snd ?m)) = mset (the_ptrs (map snd (ul_users L)))" by (rule objects_index [OF assms(2)])
  have "mset (the_ptrs (map snd (map_put i p ?m))) \<subseteq># mset (the_ptrs (map snd ?m)) + mset (the_ptrs [p])"
    using objects_put [OF o, of i p] by (metis mset_subset_eq_add_left)
  then show ?thesis using assms o m
    by (auto simp: ul_AddUserInfo_def ul_objects_def res_simps split_def Let_def union_assoc
        subset_mset.add_left_mono split: if_splits)
qed

lemma give_back_keeps:
  assumes "ul_give_back i L = Inr L'" "map_ordered (ul_users L)"
  shows "map_ordered (ul_users L') \<and> ul_objects L' = ul_objects L"
proof -
  obtain u L1 where 1: "ul_GetUserInfo i L = Inr (u, L1)" using assms(1) by (auto simp: ul_give_back_def res_simps)
  note k = get_user_keeps [OF 1 assms(2)]
  show ?thesis
  proof (cases u)
    case None
    then show ?thesis using assms(1) 1 k by (simp add: ul_give_back_def)
  next
    case (Some a)
    then have "L' = L1\<lparr>ul_users := map_erase i (ul_users L1), ul_unused := ul_unused L1 @ [Some a]\<rparr>"
      using assms(1) 1 by (auto simp: ul_give_back_def ul_RemoveUser_def ul_PushUserInUnusedList_def res_simps)
    moreover have "mset (the_ptrs (map snd (ul_users L1))) = add_mset a (mset (the_ptrs (map snd (map_erase i (ul_users L1)))))"
      using k objects_erase [of "ul_users L1" i] Some by simp
    then have "ul_objects (L1\<lparr>ul_users := map_erase i (ul_users L1), ul_unused := ul_unused L1 @ [Some a]\<rparr>) = ul_objects L1"
      by (simp add: ul_objects_def)
    ultimately show ?thesis using k by simp
  qed
qed

lemma foreach_list:
  assumes "ul_foreach body L s = Inr (b, L', s')"
  shows "ul_users L' = ul_users L \<and> ul_unused L' = ul_unused L"
proof -
  have loop: "ul_loop f body u M t = Inr (M', t') \<Longrightarrow> ul_users M' = ul_users M \<and> ul_unused M' = ul_unused M"
    for f u M t M' t'
  proof (induction f arbitrary: u M t)
    case (Suc f)
    obtain t1 p M1 where 1: "body u t = Inr t1" "ul_GetNextUser M = Inr (p, M1)"
      "(case p of None \<Rightarrow> Inr (M1, t1) | Some v \<Rightarrow> ul_loop f body v M1 t1) = Inr (M', t')"
      using Suc.prems by (auto simp: res_simps)
    have "ul_users M1 = ul_users M \<and> ul_unused M1 = ul_unused M"
      using 1(2) by (auto simp: ul_GetNextUser_def split: option.splits)
    then show ?case using 1(3) Suc.IH by (auto split: option.splits)
  qed simp
  obtain p L1 where 1: "ul_GetFirstUser L = Inr (p, L1)" using assms by (auto simp: ul_foreach_def res_simps)
  then have "ul_users L1 = ul_users L \<and> ul_unused L1 = ul_unused L"
    by (auto simp: ul_GetFirstUser_def res_simps split: list.splits)
  then show ?thesis using assms 1 loop by (cases p) (auto simp: ul_foreach_def res_simps dest: loop)
qed

lemma foreach_keeps:
  assumes "ul_foreach body L s = Inr (b, L', s')" "J s" "\<And>u t t'. body u t = Inr t' \<Longrightarrow> J t \<Longrightarrow> J t'"
  shows "J s'"
proof -
  have loop: "ul_loop f body u M t = Inr (M', t') \<Longrightarrow> J t \<Longrightarrow> J t'" for f u M t M' t'
  proof (induction f arbitrary: u M t)
    case (Suc f)
    obtain t1 p M1 where 1: "body u t = Inr t1" "ul_GetNextUser M = Inr (p, M1)"
      "(case p of None \<Rightarrow> Inr (M1, t1) | Some v \<Rightarrow> ul_loop f body v M1 t1) = Inr (M', t')"
      using Suc.prems(1) by (auto simp: res_simps)
    have "J t1" by (rule assms(3) [OF 1(1) Suc.prems(2)])
    then show ?case using 1(3) Suc.IH by (auto split: option.splits)
  qed simp
  obtain p L1 where 1: "ul_GetFirstUser L = Inr (p, L1)" using assms(1) by (auto simp: ul_foreach_def res_simps)
  then show ?thesis using assms(1,2) by (cases p) (auto simp: ul_foreach_def res_simps dest: loop)
qed

lemma tables_set_room:
  assumes "tables X S" "a < rs_next (rsv_rooms S)" "room_ordered R"
    and "room_objects R + Y \<subseteq># room_objects (rsv_room a S) + X"
  shows "tables Y (rsv_set_room a R S)"
proof -
  let ?N = "rs_next (rsv_rooms S)" and ?f = "\<lambda>b. room_objects (rsv_room b S)"
  let ?rest = "\<Sum>b \<in> {..<?N} - {a}. ?f b"
  have "(\<Sum>b < ?N. ?f b) = ?f a + ?rest" using assms(2) by (simp add: sum.remove)
  moreover have "(\<Sum>b < ?N. room_objects (rsv_room b (rsv_set_room a R S))) = room_objects R + ?rest"
    using assms(2) by (subst sum.remove [of _ a]) (auto intro: sum.cong)
  moreover have "room_objects R + ?rest + Y \<subseteq># ?f a + ?rest + X"
    using subset_mset.add_right_mono [OF assms(4), of ?rest] by (simp add: union_ac)
  ultimately have "(\<Sum>b < ?N. room_objects (rsv_room b (rsv_set_room a R S))) + Y \<subseteq># (\<Sum>b < ?N. ?f b) + X"
    by simp
  moreover have "rs_next (rsv_rooms (rsv_set_room a R S)) = ?N" by (simp add: rsv_set_room_def rs_update_def)
  ultimately show ?thesis using assms(1,3) unfolding tables_def
    by (auto intro: subset_mset.order_trans simp del: union_mset_add_mset_right)
qed

section \<open>What a handler keeps\<close>

text \<open>
  The state \<open>S\<close> of a handler that began in \<open>S0\<close> of a server with \<open>N\<close> rooms: the gates are the same,
  only sockets in \<open>W\<close> have been written to, and the tables are in order.
\<close>

definition gates_as :: "int set \<Rightarrow> RoomServer \<Rightarrow> RoomServer \<Rightarrow> bool" where
  "gates_as W S0 S \<longleftrightarrow> silent_gates S \<and> rsv_clients S = rsv_clients S0
     \<and> rcl_unused (rsv_client_list S) = rcl_unused (rsv_client_list S0)
     \<and> live (rcl_users (rsv_client_list S)) = live (rcl_users (rsv_client_list S0))
     \<and> rcl_room_server (rsv_client_list S) = rcl_room_server (rsv_client_list S0)
     \<and> csc_processor (rsv_cs_connector S) = csc_processor (rsv_cs_connector S0)
     \<and> dsc_processor (rsv_ds_connector S) = dsc_processor (rsv_ds_connector S0)
     \<and> (\<exists>ws. rsv_out S = rsv_out S0 @ ws \<and> fst ` set ws \<subseteq> W)"

definition good :: "int set \<Rightarrow> RoomServer \<Rightarrow> nat \<Rightarrow> nat multiset \<Rightarrow> RoomServer \<Rightarrow> bool" where
  "good W S0 N X S \<longleftrightarrow> gates_as W S0 S \<and> rs_next (rsv_rooms S) = N \<and> tables X S"

lemma gates_as_simps [simp]:
  "gates_as W S0 (S\<lparr>rsv_rooms := x\<rparr>) = gates_as W S0 S"
  "gates_as W S0 (S\<lparr>rsv_users := s\<rparr>) = gates_as W S0 S"
  "gates_as W S0 (S\<lparr>rsv_room_manager := M\<rparr>) = gates_as W S0 S"
  "gates_as W S0 (rsv_set_room a R S) = gates_as W S0 S"
  by (simp_all add: gates_as_def silent_gates_def rsv_set_room_def)

lemma tables_cong:
  "tables X S \<Longrightarrow> unused_room_list (rsv_room_manager S') = unused_room_list (rsv_room_manager S) \<Longrightarrow>
   rsv_lookup_room S' = rsv_lookup_room S \<Longrightarrow> (\<And>a. rsv_room a S' = rsv_room a S) \<Longrightarrow>
   rs_next (rsv_rooms S') = rs_next (rsv_rooms S) \<Longrightarrow> us_next (rsv_users S') = us_next (rsv_users S) \<Longrightarrow> tables X S'"
  by (simp add: tables_def)

lemma tables_simps [simp]:
  "tables X (S\<lparr>rsv_client_list := L\<rparr>) = tables X S" "tables X (S\<lparr>rsv_clients := h\<rparr>) = tables X S"
  "tables X (S\<lparr>rsv_cs_connector := C\<rparr>) = tables X S" "tables X (S\<lparr>rsv_ds_connector := D\<rparr>) = tables X S"
  "tables X (S\<lparr>rsv_out := ws\<rparr>) = tables X S"
  by (simp_all add: tables_def rsv_lookup_room_def rsv_room_def)

lemma good_start: "silent_gates S \<Longrightarrow> tables X S \<Longrightarrow> good W S (rs_next (rsv_rooms S)) X S"
  by (simp add: good_def gates_as_def)

lemma good_less: "good W S0 N Y S \<Longrightarrow> X \<subseteq># Y \<Longrightarrow> good W S0 N X S"
  by (auto simp: good_def intro: tables_less)

lemma good_room: "good W S0 N X S \<Longrightarrow> room_ordered (rsv_room a S)"
  by (simp add: good_def tables_def)

lemma good_rs: "good W S0 N X S \<Longrightarrow> rs_next (rsv_rooms S) = N"
  by (simp add: good_def)

lemma good_set_room:
  assumes "good W S0 N X S" "a < N" "room_ordered R"
    and "room_objects R + Y \<subseteq># room_objects (rsv_room a S) + X"
  shows "good W S0 N Y (rsv_set_room a R S)"
proof -
  have "tables Y (rsv_set_room a R S)"
    by (rule tables_set_room [of X]) (use assms in \<open>simp_all add: good_def\<close>)
  moreover have "rs_next (rsv_rooms (rsv_set_room a R S)) = N"
    using assms(1) by (simp add: good_def rsv_set_room_def rs_update_def)
  ultimately show ?thesis using assms(1) by (simp add: good_def)
qed

lemma good_users: "good W S0 N X S \<Longrightarrow> us_next s = us_next (rsv_users S) \<Longrightarrow> good W S0 N X (S\<lparr>rsv_users := s\<rparr>)"
  by (auto simp: good_def intro: tables_cong)

lemma GetRoom_good:
  assumes "rsv_GetRoom rid S = (p, S1)" "good W S0 N X S"
  shows "good W S0 N X S1 \<and> p = rsv_lookup_room S rid \<and> (\<forall>a. p = Some a \<longrightarrow> a < N)
    \<and> rsv_lookup_room S1 = rsv_lookup_room S \<and> rsv_room b S1 = rsv_room b S"
proof -
  let ?M = "snd (rmg_GetRoom rid (rsv_room_manager S))"
  have S1: "S1 = S\<lparr>rsv_room_manager := ?M\<rparr>" and p: "p = rsv_lookup_room S rid"
    using assms(1) rmg_GetRoom_run(1) [of rid "rsv_room_manager S"]
    by (auto simp: rsv_GetRoom_def rsv_lookup_room_def split_def)
  have l: "rsv_lookup_room S1 = rsv_lookup_room S" unfolding S1
    by (simp add: rsv_lookup_room_def rmg_GetRoom_run(2) fun_eq_iff)
  have r: "rsv_room c S1 = rsv_room c S" for c by (simp add: S1 rsv_room_def)
  have "tables X S1" by (rule tables_cong [OF _ _ l r]) (use assms(2) in \<open>simp_all add: good_def S1 rmg_GetRoom_run(3)\<close>)
  then have "good W S0 N X S1" using assms(2) by (simp add: good_def S1)
  moreover have "\<forall>a. p = Some a \<longrightarrow> a < N" using assms(2) p by (auto simp: good_def tables_def)
  ultimately show ?thesis using l r p by simp
qed

lemma with_room_good:
  assumes "with_room rid S k = Inr S'" "good W S0 N X S"
    and "\<And>a S1. a < N \<Longrightarrow> good W S0 N X S1 \<Longrightarrow> k a S1 = Inr S' \<Longrightarrow> good W S0 N X S'"
  shows "good W S0 N X S'"
proof -
  obtain p S1 where g: "rsv_GetRoom rid S = (p, S1)" by fastforce
  then show ?thesis using assms GetRoom_good [OF g assms(2)] by (auto simp: with_room_def split: option.splits)
qed

lemma GetUser_good:
  assumes "rsv_GetUserInfo a uid S = Inr (u, S1)" "good W S0 N X S" "a < N"
  shows "good W S0 N X S1"
proof -
  obtain L where L: "ul_GetUserInfo uid (room_users a S) = Inr (u, L)"
    "S1 = rsv_set_room a ((rsv_room a S)\<lparr>user_list := L\<rparr>) S"
    using assms(1) by (auto simp: rsv_GetUserInfo_def cr_GetUserInfo_def res_simps)
  note k = get_user_keeps [OF L(1)]
  show ?thesis unfolding L(2)
    by (rule good_set_room [OF assms(2,3)]) (use good_room [OF assms(2), of a] k in \<open>auto simp: room_ordered_def room_objects_def\<close>)
qed

lemma with_user_good:
  assumes "with_user a uid S k = Inr S'" "good W S0 N X S" "a < N"
    and "\<And>u S1. good W S0 N X S1 \<Longrightarrow> k u S1 = Inr S' \<Longrightarrow> good W S0 N X S'"
  shows "good W S0 N X S'"
proof -
  obtain u S1 where g: "rsv_GetUserInfo a uid S = Inr (u, S1)" using assms(1) by (auto simp: with_user_def res_simps)
  show ?thesis using assms(1,4) g GetUser_good [OF g assms(2,3)] by (cases u) (auto simp: with_user_def)
qed

lemma with_request_cases:
  "with_request parse buff len S k = Inr S' \<Longrightarrow> S' = S \<or> (\<exists>g rq. k g rq = Inr S')"
  by (auto simp: with_request_def res_simps split: if_splits option.splits)

lemma user_request_good:
  assumes "with_request parse buff len S (\<lambda>g rq. with_room (r rq) S (\<lambda>a S1. with_user a (i rq) S1 (\<lambda>u S2. k g rq a u S2)))
      = Inr S'" "good W S0 N X S"
    and "\<And>g rq a u S2. a < N \<Longrightarrow> good W S0 N X S2 \<Longrightarrow> k g rq a u S2 = Inr S' \<Longrightarrow> good W S0 N X S'"
  shows "\<exists>M. good W S0 M X S'"
proof (cases "S' = S")
  case False
  then obtain g rq where "with_room (r rq) S (\<lambda>a S1. with_user a (i rq) S1 (\<lambda>u S2. k g rq a u S2)) = Inr S'"
    using with_request_cases [OF assms(1)] by blast
  then have "good W S0 N X S'"
    by (rule with_room_good [OF _ assms(2)]) (blast intro: with_user_good assms(3))
  then show ?thesis by blast
qed (use assms(2) in blast)

lemma NewUser_good:
  assumes "rsv_NewUserInfo a S = Inr (u, S1)" "good W S0 N X S" "a < N"
  shows "good W S0 N (X + mset (the_ptrs [u])) S1"
proof -
  obtain n v L s where g: "ul_GetUnusedUser None (room_users a S) (rsv_users S) = Inr (n, v, L, s)"
    "u = (if n < 0 then None else v)"
    "S1 = rsv_set_room a ((rsv_room a S)\<lparr>user_list := L\<rparr>) (S\<lparr>rsv_users := s\<rparr>)"
    using assms(1) by (auto simp: rsv_NewUserInfo_def cr_NewUserInfo_def res_simps)
  note k = get_unused_keeps [OF g(1)]
  have "mset (the_ptrs [u]) \<subseteq># mset (the_ptrs [v])" using g(2) by simp
  then have "ul_objects L + mset (the_ptrs [u]) \<subseteq># ul_objects (room_users a S)"
    using k by simp
  then have "room_objects ((rsv_room a S)\<lparr>user_list := L\<rparr>) + (X + mset (the_ptrs [u]))
      \<subseteq># room_objects (rsv_room a (S\<lparr>rsv_users := s\<rparr>)) + X"
    by (auto simp: room_objects_def union_ac subset_mset.add_left_mono)
  then show ?thesis unfolding g(3)
    by (intro good_set_room [OF good_users [OF assms(2)] assms(3)])
      (use good_room [OF assms(2), of a] k in \<open>auto simp: room_ordered_def\<close>)
qed

text \<open>The rooms' lists.\<close>

lemma room_list_good:
  assumes "good W S0 N X S" "a < N" "R = rsv_room a S"
    and "map_ordered (ul_users L)" "ul_objects L + Y \<subseteq># ul_objects (user_list R) + X"
  shows "good W S0 N Y (rsv_set_room a (R\<lparr>user_list := L\<rparr>) S)"
proof (rule good_set_room [OF assms(1,2)])
  show "room_ordered (R\<lparr>user_list := L\<rparr>)" using good_room [OF assms(1), of a] assms(3,4) by (simp add: room_ordered_def)
  show "room_objects (R\<lparr>user_list := L\<rparr>) + Y \<subseteq># room_objects (rsv_room a S) + X"
    using subset_mset.add_right_mono [OF assms(5), of "ul_objects (pre_user_list R)"] assms(3)
    by (simp add: room_objects_def union_ac)
qed

lemma pre_list_good:
  assumes "good W S0 N X S" "a < N" "R = rsv_room a S"
    and "map_ordered (ul_users L)" "ul_objects L + Y \<subseteq># ul_objects (pre_user_list R) + X"
  shows "good W S0 N Y (rsv_set_room a (R\<lparr>pre_user_list := L\<rparr>) S)"
proof (rule good_set_room [OF assms(1,2)])
  show "room_ordered (R\<lparr>pre_user_list := L\<rparr>)" using good_room [OF assms(1), of a] assms(3,4) by (simp add: room_ordered_def)
  show "room_objects (R\<lparr>pre_user_list := L\<rparr>) + Y \<subseteq># room_objects (rsv_room a S) + X"
    using subset_mset.add_right_mono [OF assms(5), of "ul_objects (user_list R)"] assms(3)
    by (simp add: room_objects_def union_ac)
qed

lemma good_ordered:
  "good W S0 N X S \<Longrightarrow> map_ordered (ul_users (room_users a S)) \<and> map_ordered (ul_users (room_pre a S))"
  using good_room [of W S0 N X S a] by (simp add: room_ordered_def)

lemma AddPre_good:
  assumes "cr_AddPreUser uid p (rsv_room a S) = Inr (b, R)" "good W S0 N (mset (the_ptrs [p])) S" "a < N"
  shows "good W S0 N {#} (rsv_set_room a R S)"
proof -
  obtain L where L: "ul_AddUserInfo uid p (room_pre a S) = Inr (b, L)" "R = (rsv_room a S)\<lparr>pre_user_list := L\<rparr>"
    using assms(1) by (auto simp: cr_AddPreUser_def res_simps)
  show ?thesis unfolding L(2)
    by (rule pre_list_good [OF assms(2,3) refl]) (use add_user_keeps [OF L(1)] good_ordered [OF assms(2), of a] in simp_all)
qed

lemma AddUser_good:
  assumes "cr_AddUser uid p (rsv_room a S) = Inr (b, R)" "good W S0 N (mset (the_ptrs [p])) S" "a < N"
  shows "good W S0 N {#} (rsv_set_room a R S)"
proof -
  obtain L where L: "ul_AddUserInfo uid p (room_users a S) = Inr (b, L)" "R = (rsv_room a S)\<lparr>user_list := L\<rparr>"
    using assms(1) by (auto simp: cr_AddUser_def res_simps)
  show ?thesis unfolding L(2)
    by (rule room_list_good [OF assms(2,3) refl]) (use add_user_keeps [OF L(1)] good_ordered [OF assms(2), of a] in simp_all)
qed

lemma RemoveUser_good:
  assumes "cr_RemoveUser uid (rsv_room a S) = Inr R" "good W S0 N X S" "a < N"
  shows "good W S0 N X (rsv_set_room a R S)"
proof -
  obtain L where L: "ul_give_back uid (room_users a S) = Inr L" "R = (rsv_room a S)\<lparr>user_list := L\<rparr>"
    using assms(1) by (auto simp: cr_Remove_alt res_simps)
  show ?thesis unfolding L(2)
    by (rule room_list_good [OF assms(2,3) refl]) (use give_back_keeps [OF L(1)] good_ordered [OF assms(2), of a] in simp_all)
qed

lemma RemovePre_good:
  assumes "cr_RemovePreUser uid (rsv_room a S) = Inr R" "good W S0 N X S" "a < N"
  shows "good W S0 N X (rsv_set_room a R S)"
proof -
  obtain L where L: "ul_give_back uid (room_pre a S) = Inr L" "R = (rsv_room a S)\<lparr>pre_user_list := L\<rparr>"
    using assms(1) by (auto simp: cr_Remove_alt res_simps)
  show ?thesis unfolding L(2)
    by (rule pre_list_good [OF assms(2,3) refl]) (use give_back_keeps [OF L(1)] good_ordered [OF assms(2), of a] in simp_all)
qed

lemma with_pre_user_good:
  assumes "with_pre_user a uid S k = Inr S'" "good W S0 N X S" "a < N"
    and "\<And>u S1. good W S0 N X S1 \<Longrightarrow> k u S1 = Inr S' \<Longrightarrow> good W S0 N X S'"
  shows "good W S0 N X S'"
proof -
  obtain u L where L: "ul_GetUserInfo uid (room_pre a S) = Inr (u, L)"
    using assms(1) by (auto simp: with_pre_user_def cr_GetPreUserInfo_def res_simps)
  let ?S = "rsv_set_room a ((rsv_room a S)\<lparr>pre_user_list := L\<rparr>) S"
  have "good W S0 N X ?S"
    by (rule pre_list_good [OF assms(2,3) refl]) (use get_user_keeps [OF L] good_ordered [OF assms(2), of a] in simp_all)
  then show ?thesis using assms(1,4) L
    by (cases u) (auto simp: with_pre_user_def cr_GetPreUserInfo_def Let_def)
qed

text \<open>Video channels are not objects.\<close>

lemma channels_good:
  assumes "good W S0 N X S" "a < N" "user_list R = room_users a S" "pre_user_list R = room_pre a S"
  shows "good W S0 N X (rsv_set_room a R S)"
  by (rule good_set_room [OF assms(1,2)])
    (use assms(3,4) good_room [OF assms(1), of a] in \<open>simp_all add: room_ordered_def room_objects_def\<close>)

lemma apply_video_lists:
  "cr_UserApplyOneNewVideo uid R = Inr (ch, R') \<Longrightarrow> user_list R' = user_list R \<and> pre_user_list R' = pre_user_list R"
  by (auto simp: cr_UserApplyOneNewVideo_def ss_extract_def Let_def split_def split: if_splits)

lemma off_video_lists:
  "user_list (cr_UserGetOffVideo uid R) = user_list R \<and> pre_user_list (cr_UserGetOffVideo uid R) = pre_user_list R"
  by (simp add: cr_UserGetOffVideo_def)

text \<open>Sending.\<close>

lemma GetGate_good:
  assumes "rsv_GetGate key S = (p, S1)" "good W S0 N X S"
  shows "good W S0 N X S1 \<and> p = live (rcl_users (rsv_client_list S0)) key
    \<and> (\<forall>a. rsv_room a S1 = rsv_room a S)"
proof -
  obtain L where L: "rcl_GetUserByHashkey key (rsv_client_list S) = (p, L)" "S1 = S\<lparr>rsv_client_list := L\<rparr>"
    using assms(1) by (auto simp: rsv_GetGate_def split: prod.splits)
  have l: "rcl_unused L = rcl_unused (rsv_client_list S)" "live (rcl_users L) = live (rcl_users (rsv_client_list S))"
    "rcl_room_server L = rcl_room_server (rsv_client_list S)" "p = live (rcl_users (rsv_client_list S)) key"
    using L(1) by (auto simp: rcl_GetUserByHashkey_def split_def)
  then show ?thesis using assms(2) l
    by (auto simp: good_def gates_as_def L(2) silent_gates_def rsv_room_def)
qed

lemma gate_Send_good:
  assumes "rsv_gate_SendData ser m i key a S = Inr S'" "good W S0 N X S"
  shows "S' = S"
proof -
  have null: "cl_data_ptr (gsp_send_list (rc_gs_processor (rsv_clients S a))) = None"
    using assms(2) unfolding good_def gates_as_def silent_gates_def by blast
  obtain b P where "gsp_SendData ser m i key (rc_gs_processor (rsv_clients S a)) = Inr (b, P)"
    "S' = S\<lparr>rsv_clients := (rsv_clients S)(a := (rsv_clients S a)\<lparr>rc_gs_processor := P\<rparr>)\<rparr>"
    using assms(1) by (auto simp: rsv_gate_SendData_def res_simps)
  then show ?thesis using gsp_send_null(1) [OF null] by force
qed

lemma broadcast_one_good:
  assumes "broadcast_one ser m i u S = Inr S'" "good W S0 N X S"
  shows "good W S0 N X S' \<and> (\<forall>a. rsv_room a S' = rsv_room a S)"
proof -
  obtain p S1 where g: "rsv_GetGate (gs_hashkey_user_on (rsv_user u S)) S = (p, S1)" by fastforce
  have G: "good W S0 N X S1" "\<forall>a. rsv_room a S1 = rsv_room a S" using GetGate_good [OF g assms(2)] by blast+
  show ?thesis
  proof (cases p)
    case (Some a)
    then have "S' = S1" using assms(1) g by (intro gate_Send_good [OF _ G(1)]) (simp add: broadcast_one_def)
    then show ?thesis using G by simp
  qed (use assms(1) g G in \<open>simp add: broadcast_one_def\<close>)
qed

lemma send_room_good:
  assumes "rsv_SendDataToRoomAllUser ser m i rid S = Inr (b, S')" "good W S0 N X S"
  shows "good W S0 N X S'"
proof (cases "rid = 0")
  case False
  obtain p S1 where g: "rsv_GetRoom rid S = (p, S1)" by fastforce
  note G = GetRoom_good [OF g assms(2)]
  show ?thesis
  proof (cases p)
    case (Some a)
    obtain L S2 where f: "ul_foreach (broadcast_one ser m i) (room_users a S1) S1 = Inr (b, L, S2)"
      "S' = rsv_set_room a ((rsv_room a S2)\<lparr>user_list := L\<rparr>) S2"
      using assms(1) False g Some by (auto simp: rsv_SendDataToRoomAllUser_def res_simps)
    have S2: "good W S0 N X S2 \<and> rsv_room a S2 = rsv_room a S1"
      by (rule foreach_keeps [OF f(1), where J = "\<lambda>T. good W S0 N X T \<and> rsv_room a T = rsv_room a S1"])
        (use G broadcast_one_good in auto)
    have L: "ul_users L = ul_users (room_users a S2)" "ul_unused L = ul_unused (room_users a S2)"
      using foreach_list [OF f(1)] S2 by auto
    have "a < N" using G Some by simp
    then show ?thesis unfolding f(2)
      by (intro room_list_good [of _ _ _ X]) (use S2 L good_ordered [of W S0 N X S2 a] in \<open>auto simp: ul_objects_def\<close>)
  qed (use assms(1) False g G in \<open>simp add: rsv_SendDataToRoomAllUser_def\<close>)
qed (use assms in \<open>simp add: rsv_SendDataToRoomAllUser_def\<close>)

lemma cs_Send_good:
  assumes "rsv_cs_SendData buff len S = Inr (b, S')" "good W S0 N X S"
  shows "good W S0 N X S'"
proof -
  obtain C where C: "con_SendData buff len (rsv_cs_connector S) = Inr (b, C)" "S' = S\<lparr>rsv_cs_connector := C\<rparr>"
    using assms(1) by (auto simp: rsv_cs_SendData_def res_simps)
  have "csc_processor C = csc_processor (rsv_cs_connector S)"
    using C(1) by (auto simp: con_SendData_def res_simps split: if_splits)
  moreover have "silent_gates (S\<lparr>rsv_cs_connector := C\<rparr>) = silent_gates S" by (simp add: silent_gates_def)
  ultimately show ?thesis using assms(2) by (simp add: good_def gates_as_def C(2))
qed

text \<open>A new room: its objects are the next ones.\<close>

lemma alloc_range:
  "alloc_users n s = (as, s') \<Longrightarrow> us_next s' = us_next s + n \<and> the_ptrs as = [us_next s..<us_next s']"
proof (induction n arbitrary: s as)
  case (Suc n)
  obtain s1 as1 where 1: "us_alloc s = (us_next s, s1)" "us_next s1 = Suc (us_next s)"
    "alloc_users n s1 = (as1, s')" "as = Some (us_next s) # as1"
    using Suc.prems by (auto simp: us_alloc_def Let_def split: prod.splits)
  show ?case using Suc.IH [OF 1(3)] 1 by (simp add: upt_conv_Cons)
qed simp

lemma init_range:
  assumes "ul_InitUserList k ul_new s = Inr (b, L, s')"
  shows "ul_users L = [] \<and> ul_objects L = mset [us_next s..<us_next s'] \<and> us_next s \<le> us_next s'"
proof -
  obtain as where as: "alloc_users (nat k) s = (as, s')" "ul_unused L = as" "ul_users L = []"
    using assms by (auto simp: ul_InitUserList_def ul_lock_def ul_new_def Let_def split: prod.splits)
  show ?thesis using alloc_range [OF as(1)] as(2,3) by (simp add: ul_objects_def)
qed

lemma cr_new_range:
  assumes "cr_new s = Inr (R, s')"
  shows "room_ordered R \<and> room_objects R = mset [us_next s..<us_next s'] \<and> us_next s \<le> us_next s'"
proof -
  obtain b L s1 c P where i: "ul_InitUserList 100000 ul_new s = Inr (b, L, s1)"
    "ul_InitUserList 1000 ul_new s1 = Inr (c, P, s')" "user_list R = L" "pre_user_list R = P"
    using assms unfolding cr_new_def by (auto simp: res_simps)
  note k = init_range [OF i(1)] init_range [OF i(2)]
  have "[us_next s..<us_next s'] = [us_next s..<us_next s1] @ [us_next s1..<us_next s']"
    using k by (metis le_Suc_ex upt_add_eq_append)
  then show ?thesis using k i(3,4) by (simp add: room_ordered_def room_objects_def)
qed

lemma tables_new_room:
  assumes "tables X S" "cr_new (rsv_users S) = Inr (R, us)"
    and "S' = S\<lparr>rsv_rooms := \<lparr>rs_mem = (rs_mem (rsv_rooms S))(rs_next (rsv_rooms S) := R),
      rs_next = Suc (rs_next (rsv_rooms S))\<rparr>, rsv_users := us\<rparr>"
  shows "tables X S'"
proof -
  let ?N = "rs_next (rsv_rooms S)" and ?u = "us_next (rsv_users S)"
  note k = cr_new_range [OF assms(2)]
  have r: "rsv_room a S' = (if a = ?N then R else rsv_room a S)" for a by (simp add: assms(3) rsv_room_def)
  have "(\<Sum>a < Suc ?N. room_objects (rsv_room a S')) = (\<Sum>a < ?N. room_objects (rsv_room a S)) + room_objects R"
    by (simp add: r)
  moreover have "mset [0..<us_next us] = mset [0..<?u] + room_objects R"
    using k by (metis add_0 bot_nat_0.extremum le_Suc_ex mset_append upt_add_eq_append)
  ultimately show ?thesis using assms(1) k r
    by (auto simp: tables_def assms(3) rsv_lookup_room_def less_Suc_eq union_ac subset_mset.add_left_mono
        simp del: union_mset_add_mset_right)
qed

lemma login_room_good:
  assumes "login_room rid S = Inr (a, S')" "good W S0 N X S"
  shows "\<exists>M. good W S0 M X S' \<and> a < M"
proof -
  obtain p S1 where g: "rsv_GetRoom rid S = (p, S1)" by fastforce
  note G = GetRoom_good [OF g assms(2)]
  show ?thesis
  proof (cases p)
    case (Some b)
    then show ?thesis using assms(1) g G by (auto simp: login_room_def)
  next
    case None
    have u: "unused_room_list (rsv_room_manager S1) = []" using G by (simp add: good_def tables_def)
    have n: "rs_next (rsv_rooms S1) = N" using G by (simp add: good_def)
    obtain R us where R: "cr_new (rsv_users S1) = Inr (R, us)"
      using assms(1) g None u by (auto simp: login_room_def rmg_GetNewRoom_def res_simps simp del: One_nat_def)
    let ?S = "S1\<lparr>rsv_rooms := \<lparr>rs_mem = (rs_mem (rsv_rooms S1))(N := R), rs_next = Suc N\<rparr>, rsv_users := us\<rparr>"
    let ?R = "(rsv_room N ?S)\<lparr>room_id := rid, sock := -1\<rparr>"
    let ?M = "snd (rmg_AddRoom rid (Some N) (rsv_room_manager S1))"
    have S': "S' = (rsv_set_room N ?R ?S)\<lparr>rsv_room_manager := ?M\<rparr>" "a = N"
      using assms(1) g None u R n
      by (auto simp: login_room_def rmg_GetNewRoom_def cr_SetRoom_def Let_def split_def)
    have "tables X ?S" by (rule tables_new_room [OF _ R]) (use G n in \<open>simp_all add: good_def\<close>)
    then have "good W S0 (Suc N) X ?S" using G by (simp add: good_def)
    then have g2: "good W S0 (Suc N) X (rsv_set_room N ?R ?S)"
      by (rule channels_good) simp_all
    have "tables X S'" using g2 n rmg_AddRoom_run [of rid] unfolding S'
      by (auto simp: good_def tables_def rsv_lookup_room_def rsv_room_def split: if_splits)
    then show ?thesis using g2 S' by (auto simp: good_def)
  qed
qed

section \<open>Requests of the gates\<close>

text \<open>They write nothing, whatever they contain.\<close>

lemma us_update_next [simp]: "us_next (us_update b f s) = us_next s"
  by (simp add: us_update_def)

lemma login_request_good:
  assumes "ClientLoginRQ_Execute pb server caller buff len S = Inr S'" "good W S0 N {#} S"
  shows "\<exists>M. good W S0 M {#} S'"
proof (cases "S' = S")
  case False
  define k where "k g rq a u S2 = (case u of None \<Rightarrow> Inr S2
    | Some b \<Rightarrow>
        res_bind (mem_write (user_nickname (rsv_user b S2)) 0 (lrq_user_account_name rq)) (\<lambda>nick.
          let S3 = S2\<lparr>rsv_users := us_update b (\<lambda>x. x\<lparr>gs_hashkey_user_on := gr_gs_hashkey g,
                     user_hash_key := gr_user_hashkey g, user_id := lrq_user_id rq,
                     user_nickname := nick\<rparr>) (rsv_users S2)\<rparr>
          in res_bind (cr_AddPreUser (lrq_user_id rq) u (rsv_room a S3)) (\<lambda>(_, R).
             res_bind (rsv_cs_SendData (gr_data_msg g @ [0]) (gr_data_len g) (rsv_set_room a R S3))
               (\<lambda>(_, S4). Inr S4))))" for g :: GateRoomServerPack and rq :: StruUserLoginRQ and a u S2
  have "\<not> (server = None \<or> caller = None)"
    using False assms(1) by (metis ClientLoginRQ_Execute_def sum.inject(2))
  then have "with_request (pb_UserLoginRQ pb) buff len S (\<lambda>g rq. res_bind (login_room (lrq_room_id rq) S) (\<lambda>(a, S1).
      res_bind (rsv_NewUserInfo a S1) (\<lambda>(u, S2). k g rq a u S2))) = Inr S'"
    using assms(1) unfolding ClientLoginRQ_Execute_def k_def by (simp only: if_False)
  then obtain g rq where "res_bind (login_room (lrq_room_id rq) S) (\<lambda>(a, S1).
      res_bind (rsv_NewUserInfo a S1) (\<lambda>(u, S2). k g rq a u S2)) = Inr S'"
    using False with_request_cases by blast
  then obtain a S1 u S2 where l: "login_room (lrq_room_id rq) S = Inr (a, S1)"
    "rsv_NewUserInfo a S1 = Inr (u, S2)" "k g rq a u S2 = Inr S'"
    by (auto simp: res_simps)
  obtain M where M: "good W S0 M {#} S1" "a < M" using login_room_good [OF l(1) assms(2)] by blast
  note g2 = NewUser_good [OF l(2) M]
  show ?thesis
  proof (cases u)
    case (Some b)
    then obtain nick where n: "(let S3 = S2\<lparr>rsv_users := us_update b (\<lambda>x. x\<lparr>gs_hashkey_user_on := gr_gs_hashkey g,
                     user_hash_key := gr_user_hashkey g, user_id := lrq_user_id rq,
                     user_nickname := nick\<rparr>) (rsv_users S2)\<rparr>
          in res_bind (cr_AddPreUser (lrq_user_id rq) u (rsv_room a S3)) (\<lambda>(_, R).
             res_bind (rsv_cs_SendData (gr_data_msg g @ [0]) (gr_data_len g) (rsv_set_room a R S3))
               (\<lambda>(_, S4). Inr S4))) = Inr S'" using l(3) unfolding k_def by (auto simp only: option.case res_bind_Inr_iff)
    define s where "s = us_update b (\<lambda>x. x\<lparr>gs_hashkey_user_on := gr_gs_hashkey g,
                     user_hash_key := gr_user_hashkey g, user_id := lrq_user_id rq,
                     user_nickname := nick\<rparr>) (rsv_users S2)"
    have s: "us_next s = us_next (rsv_users S2)" by (simp add: s_def)
    obtain R c d where c: "cr_AddPreUser (lrq_user_id rq) u (rsv_room a (S2\<lparr>rsv_users := s\<rparr>)) = Inr (c, R)"
        "rsv_cs_SendData (gr_data_msg g @ [0]) (gr_data_len g) (rsv_set_room a R (S2\<lparr>rsv_users := s\<rparr>)) = Inr (d, S')"
      using n unfolding s_def [symmetric] Let_def by (auto simp only: res_bind_Inr_iff split_paired_Ex prod.case sum.inject)
    have "good W S0 M (mset (the_ptrs [u])) (S2\<lparr>rsv_users := s\<rparr>)" using good_users [OF g2] s by simp
    then have "good W S0 M {#} (rsv_set_room a R (S2\<lparr>rsv_users := s\<rparr>))" using AddPre_good [OF c(1)] M(2) by blast
    then show ?thesis using c(2) cs_Send_good by blast
  qed (use l(3) g2 in \<open>auto simp: k_def\<close>)
qed (use assms in auto)

lemma mic_requests_good:
  assumes "good W S0 N X S"
  shows "CancleUserMicRQ_Execute pb server caller buff len S = Inr S' \<Longrightarrow> \<exists>M. good W S0 M X S'"
    and "PutUserOnMicRQ_Execute pb server caller buff len S = Inr S' \<Longrightarrow> \<exists>M. good W S0 M X S'"
  unfolding CancleUserMicRQ_Execute_def PutUserOnMicRQ_Execute_def using assms
  by (auto elim!: user_request_good [OF _ assms] split: if_splits)

lemma gift_request_good:
  assumes "UserGiveGiftRQ_Execute pb server caller buff len S = Inr S'" "good W S0 N X S"
  shows "\<exists>M. good W S0 M X S'"
proof (cases "server = None \<or> caller = None")
  case False
  show ?thesis
    by (rule user_request_good [OF _ assms(2)], use assms(1) False in \<open>simp add: UserGiveGiftRQ_Execute_def\<close>)
      (auto elim!: with_user_good simp: res_simps dest: cs_Send_good)
qed (use assms in \<open>auto simp: UserGiveGiftRQ_Execute_def\<close>)

lemma exit_request_good:
  assumes "UserExitRoomID_Execute pb server caller buff len S = Inr S'" "good W S0 N X S"
  shows "\<exists>M. good W S0 M X S'"
proof (cases "server = None \<or> caller = None")
  case False
  show ?thesis
    by (rule user_request_good [OF _ assms(2)], use assms(1) False in \<open>simp add: UserExitRoomID_Execute_def\<close>)
      (auto simp: res_simps Let_def dest: send_room_good [OF _ RemoveUser_good])
qed (use assms in \<open>auto simp: UserExitRoomID_Execute_def\<close>)

lemma off_request_good:
  assumes "UserOffMicRQ_Execute pb server caller buff len S = Inr S'" "good W S0 N X S"
  shows "\<exists>M. good W S0 M X S'"
proof (cases "server = None \<or> caller = None")
  case False
  show ?thesis
    by (rule user_request_good [OF _ assms(2)], use assms(1) False in \<open>simp add: UserOffMicRQ_Execute_def\<close>)
      (auto simp: res_simps Let_def off_video_lists dest!: send_room_good [OF _ channels_good])
qed (use assms in \<open>auto simp: UserOffMicRQ_Execute_def\<close>)

text \<open>
  With a processor as their caller, the two handlers below never finish a reply to it: what they
  leave when they return is what a broadcast leaves.
\<close>

lemma apply_request_good:
  assumes "UserApplyMicRQ_Execute pb server (Some (Gate_processor j)) buff len S = Inr S'" "good W S0 N X S"
  shows "\<exists>M. good W S0 M X S'"
proof (cases "server = None")
  case False
  show ?thesis
    by (rule user_request_good [OF _ assms(2)], use assms(1) False in \<open>simp add: UserApplyMicRQ_Execute_def\<close>)
      (auto simp: res_simps Let_def split: if_splits dest!: apply_video_lists send_room_good [OF _ channels_good])
qed (use assms in \<open>auto simp: UserApplyMicRQ_Execute_def\<close>)

lemma msg_request_good:
  assumes "UserSendMsgRQ_Execute pb server (Some (Gate_processor j)) buff len S = Inr S'" "good W S0 N X S"
  shows "\<exists>M. good W S0 M X S'"
proof (cases "server = None")
  case False
  show ?thesis
    by (rule user_request_good [OF _ assms(2)], use assms(1) False in \<open>simp add: UserSendMsgRQ_Execute_def\<close>)
      (auto simp: res_simps Let_def split: if_splits option.splits)
qed (use assms in \<open>auto simp: UserSendMsgRQ_Execute_def\<close>)

section \<open>Answers of the center server\<close>

text \<open>They write to gates that are connected.\<close>

definition gate_fds :: "'x RoomServer_scheme \<Rightarrow> int set" where
  "gate_fds S = (\<lambda>q. user_sock (rsv_clients S q)) ` ran (live (rcl_users (rsv_client_list S)))"

lemma send_to_gate_good:
  assumes "send_to_gate pb wr m i gs key S = Inr S'" "good W S0 N X S" "\<forall>q. gs = Some q \<longrightarrow> user_sock (rsv_clients S0 q) \<in> W"
  shows "good W S0 N X S' \<and> (\<forall>a. rsv_room a S' = rsv_room a S)"
proof -
  obtain q where q: "gs = Some q" "\<exists>b. cs_SendDataToGS (pb_ser pb) wr m i (user_sock (rsv_clients S q)) key S = Inr (b, S')"
    using assms(1) by (auto simp: send_to_gate_def res_simps elim!: deref.elims)
  have W: "user_sock (rsv_clients S q) \<in> W" using assms(2,3) q(1) by (simp add: good_def gates_as_def)
  have "S' = S \<or> (\<exists>bs. S' = S\<lparr>rsv_out := rsv_out S @ [(user_sock (rsv_clients S q), bs)]\<rparr>)"
    using q(2) by (auto simp: cs_SendDataToGS_def Let_def res_simps split: if_splits)
  then show ?thesis
  proof
    assume "\<exists>bs. S' = S\<lparr>rsv_out := rsv_out S @ [(user_sock (rsv_clients S q), bs)]\<rparr>"
    then obtain bs where S': "S' = S\<lparr>rsv_out := rsv_out S @ [(user_sock (rsv_clients S q), bs)]\<rparr>" by blast
    have "silent_gates S' = silent_gates S" by (simp add: S' silent_gates_def)
    then show ?thesis using assms(2) W by (auto simp: good_def gates_as_def S' rsv_room_def)
  qed (use assms(2) in simp)
qed

lemma login_confirm_good:
  assumes "login_confirm a u rs S = Inr (c, S')" "good W S0 N {#} S" "a < N"
  shows "good W S0 N {#} S'"
proof (cases "lrs_result rs = 1")
  case True
  then obtain p S1 where n: "rsv_NewUserInfo a S = Inr (p, S1)"
    using assms(1) by (auto simp: login_confirm_def res_simps)
  note g = NewUser_good [OF n assms(2,3)]
  show ?thesis
  proof (cases p)
    case (Some b)
    define s where "s = us_update b (\<lambda>_. login_values rs (rsv_user u S1)) (rsv_users S1)"
    obtain d R where c: "cr_AddUser (lrs_user_id rs) p (rsv_room a (S1\<lparr>rsv_users := s\<rparr>)) = Inr (d, R)"
      "S' = rsv_set_room a R (S1\<lparr>rsv_users := s\<rparr>)"
      using assms(1) True n Some by (auto simp: login_confirm_def res_simps Let_def s_def)
    have "good W S0 N (mset (the_ptrs [p])) (S1\<lparr>rsv_users := s\<rparr>)" using good_users [OF g, of s] by (simp add: s_def)
    then show ?thesis using AddUser_good [OF c(1) _ assms(3)] c(2) by blast
  qed (use assms(1) True n g in \<open>simp add: login_confirm_def\<close>)
qed (use assms in \<open>simp add: login_confirm_def\<close>)

lemma list_one_good:
  assumes "list_one pb wr rs gs c u t = Inr t'" "good W S0 N X (snd (snd t))" "\<forall>q. gs = Some q \<longrightarrow> user_sock (rsv_clients S0 q) \<in> W"
  shows "good W S0 N X (snd (snd t')) \<and> (\<forall>a. rsv_room a (snd (snd t')) = rsv_room a (snd (snd t)))"
  using assms(1,2) send_to_gate_good [OF _ _ assms(3)]
  by (cases t) (fastforce simp: list_one_def res_simps Let_def split: if_splits)

lemma announce_good:
  assumes "login_announce pb wr a rs gs c S = Inr S'" "good W S0 N X S" "a < N"
    and "\<forall>q. gs = Some q \<longrightarrow> user_sock (rsv_clients S0 q) \<in> W"
  shows "good W S0 N X S'"
proof -
  obtain i b1 S1 b L us n S2 where 1:
    "rsv_SendDataToRoomAllUser (pb_ser pb) (P_UserInfo i) E_USER_INFO (lrs_room_id rs) S = Inr (b1, S1)"
    "ul_foreach (list_one pb wr rs gs c) (room_users a S1) ([], 0, S1) = Inr (b, L, us, n, S2)"
    "(let S3 = rsv_set_room a ((rsv_room a S2)\<lparr>user_list := L\<rparr>) S2
         in if b \<and> 0 < n then
              send_to_gate pb wr (user_list_msg rs us) E_USER_INFO_LIST_ID gs
                (user_hash_key (rsv_user c S3)) S3
            else Inr S3) = Inr S'"
    using assms(1) unfolding login_announce_def by (auto simp only: res_bind_Inr_iff split_paired_Ex prod.case)
  have S1: "good W S0 N X S1" by (rule send_room_good [OF 1(1) assms(2)])
  have S2: "good W S0 N X S2 \<and> rsv_room a S2 = rsv_room a S1"
    using foreach_keeps [OF 1(2), where J = "\<lambda>t. good W S0 N X (snd (snd t)) \<and> rsv_room a (snd (snd t)) = rsv_room a S1"]
      list_one_good [OF _ _ assms(4)] S1 by (metis snd_conv)
  have L: "ul_users L = ul_users (room_users a S2)" "ul_unused L = ul_unused (room_users a S2)"
    using foreach_list [OF 1(2)] S2 by auto
  have "good W S0 N X (rsv_set_room a ((rsv_room a S2)\<lparr>user_list := L\<rparr>) S2)"
    by (rule room_list_good [of _ _ _ X]) (use S2 L good_ordered [of W S0 N X S2 a] assms(3) in \<open>auto simp: ul_objects_def\<close>)
  then show ?thesis using 1(3) send_to_gate_good [OF _ _ assms(4)] by (auto simp: Let_def split: if_splits)
qed

lemma mic_infos_good:
  "mic_infos a es S = Inr (is, S') \<Longrightarrow> good W S0 N X S \<Longrightarrow> a < N \<Longrightarrow> good W S0 N X S'"
proof (induction es arbitrary: S "is")
  case (Cons e es)
  obtain u S1 js where "rsv_GetUserInfo a (fst e) S = Inr (u, S1)" "mic_infos a es S1 = Inr (js, S')"
    using Cons.prems(1) by (auto simp: res_simps)
  then show ?case using GetUser_good Cons by blast
qed simp

lemma mic_list_good:
  assumes "login_mic_list pb wr a gs c S = Inr S'" "good W S0 N X S" "a < N"
    and "\<forall>q. gs = Some q \<longrightarrow> user_sock (rsv_clients S0 q) \<in> W"
  shows "good W S0 N X S'"
  using assms(1-3) send_to_gate_good [OF _ _ assms(4)] mic_infos_good
  by (fastforce simp: login_mic_list_def res_simps Let_def split: if_splits)

lemma with_answer_cases:
  "with_answer parse buff len S k = Inr S' \<Longrightarrow> S' = S \<or> (\<exists>m. k m = Inr S')"
  by (auto simp: with_answer_def res_simps split: option.splits)

lemma good_gate:
  "rsv_GetGate key S = (p, S1) \<Longrightarrow> good (gate_fds S0) S0 N X S \<Longrightarrow>
   good (gate_fds S0) S0 N X S1 \<and> (\<forall>q. p = Some q \<longrightarrow> user_sock (rsv_clients S0 q) \<in> gate_fds S0)"
  using GetGate_good by (fastforce simp: gate_fds_def intro: ranI)

lemma login_answer_good:
  assumes "ClientLoginRS_Execute pb wr server caller buff len S = Inr S'" "good (gate_fds S0) S0 N {#} S"
  shows "\<exists>M. good (gate_fds S0) S0 M {#} S'"
proof (cases "S' = S")
  case False
  let ?good = "good (gate_fds S0) S0 N {#}"
  define k where "k rs a u S2 =
       res_bind (login_confirm a u rs S2) (\<lambda>(c, S3).
            let (gs, S4) = rsv_GetGate (gs_hashkey_user_on (rsv_user u S3)) S3
            in res_bind
                 (if gs = None then Inr S4
                  else send_to_gate pb wr (P_UserLoginRS rs) (lrs_msg_id rs) gs
                         (user_hash_key (rsv_user u S4)) S4)
                 (\<lambda>S5.
               res_bind
                 (case c of
                    None \<Rightarrow> Inr S5
                  | Some b \<Rightarrow>
                      if lrs_result rs = 1 then login_announce pb wr a rs gs b S5 else Inr S5)
                 (\<lambda>S6.
               res_bind (cr_RemovePreUser (lrs_user_id rs) (rsv_room a S6)) (\<lambda>R.
                 login_mic_list pb wr a gs c (rsv_set_room a R S6)))))"
    for rs :: StruUserLoginRS and a u S2
  have k: "?good S'" if pre: "a < N" "?good S2" "k rs a u S2 = Inr S'" for rs a u S2
  proof -
    obtain c S3 where 1: "login_confirm a u rs S2 = Inr (c, S3)"
      using pre(3) by (cases "login_confirm a u rs S2") (auto simp: k_def)
    obtain gs S4 where 2: "rsv_GetGate (gs_hashkey_user_on (rsv_user u S3)) S3 = (gs, S4)" by fastforce
    obtain S5 S6 R where 3: "(if gs = None then Inr S4
        else send_to_gate pb wr (P_UserLoginRS rs) (lrs_msg_id rs) gs (user_hash_key (rsv_user u S4)) S4) = Inr S5"
      "(case c of None \<Rightarrow> Inr S5
        | Some b \<Rightarrow> if lrs_result rs = 1 then login_announce pb wr a rs gs b S5 else Inr S5) = Inr S6"
      "cr_RemovePreUser (lrs_user_id rs) (rsv_room a S6) = Inr R"
      "login_mic_list pb wr a gs c (rsv_set_room a R S6) = Inr S'"
      using pre(3) by (simp only: k_def 1 2 res_bind.simps Let_def prod.case res_bind_Inr_iff) blast
    note S3 = login_confirm_good [OF 1 pre(2,1)]
    note g = good_gate [OF 2 S3]
    note W = conjunct2 [OF g]
    have S5: "?good S5" using 3(1) g send_to_gate_good [OF _ _ W] by (auto split: if_splits)
    have S6: "?good S6" using 3(2) S5 announce_good [OF _ _ pre(1) W] by (auto split: option.splits if_splits)
    show ?thesis by (rule mic_list_good [OF 3(4) RemovePre_good [OF 3(3) S6 pre(1)] pre(1) W])
  qed
  have "\<not> (server = None \<or> caller = None)"
    using False assms(1) by (metis ClientLoginRS_Execute_def sum.inject(2))
  then have "with_answer (pb_UserLoginRS pb) buff len S (\<lambda>rs. with_room (lrs_room_id rs) S (\<lambda>a S1.
      with_pre_user a (lrs_user_id rs) S1 (\<lambda>u S2. k rs a u S2))) = Inr S'"
    using assms(1) unfolding ClientLoginRS_Execute_def k_def by (simp only: if_False)
  then obtain rs where "with_room (lrs_room_id rs) S (\<lambda>a S1. with_pre_user a (lrs_user_id rs) S1 (\<lambda>u S2. k rs a u S2)) = Inr S'"
    using False with_answer_cases by blast
  then have "?good S'" by (rule with_room_good [OF _ assms(2)]) (blast intro: with_pre_user_good k)
  then show ?thesis by blast
qed (use assms in auto)

lemma gift_answer_good:
  assumes "UserGiveGiftRS_Execute pb wr server caller buff len S = Inr S'" "good (gate_fds S0) S0 N X S"
  shows "\<exists>M. good (gate_fds S0) S0 M X S'"
proof (cases "S' = S")
  case False
  let ?good = "good (gate_fds S0) S0 N X"
  define k where "k rs a u S3 =
      (let (gs, S4) = rsv_GetGate (gs_hashkey_user_on (rsv_user u S3)) S3
          in if grs_result rs = 0 then
               send_to_gate pb wr (P_UserGiveGiftRS rs) (grs_msg_id rs) gs
                 (user_hash_key (rsv_user u S4)) S4
             else
               let S5 = S4\<lparr>rsv_users := us_update u (\<lambda>x. x\<lparr>user_red_d := grs_sender_red_d rs\<rparr>)
                            (rsv_users S4)\<rparr>
               in res_bind (rsv_SendDataToRoomAllUser (pb_ser pb) (P_UserGiveGiftRS rs) (grs_msg_id rs)
                      (grs_room_id rs) S5) (\<lambda>(_, S6). Inr S6))"
    for rs :: StruUserGiveGiftRS and a :: nat and u S3
  have k: "?good S'" if "?good S3" "k rs a u S3 = Inr S'" for rs a u S3
  proof -
    obtain gs S4 where g: "rsv_GetGate (gs_hashkey_user_on (rsv_user u S3)) S3 = (gs, S4)" by fastforce
    note G = good_gate [OF g that(1)]
    show ?thesis using that(2) G send_to_gate_good [OF _ _ conjunct2 [OF G]] send_room_good [OF _ good_users]
      by (auto simp: k_def g Let_def res_simps split: if_splits)
  qed
  have "\<not> (server = None \<or> caller = None)"
    using False assms(1) by (metis UserGiveGiftRS_Execute_def sum.inject(2))
  then have "with_answer (pb_UserGiveGiftRS pb) buff len S (\<lambda>rs. with_room (grs_room_id rs) S (\<lambda>a S1.
      with_user a (grs_user_id rs) S1 (\<lambda>u S2. with_user a (grs_dst_user_id rs) S2 (\<lambda>d S3. k rs a u S3)))) = Inr S'"
    using assms(1) unfolding UserGiveGiftRS_Execute_def k_def by (simp only: if_False)
  then obtain rs where "with_room (grs_room_id rs) S (\<lambda>a S1.
      with_user a (grs_user_id rs) S1 (\<lambda>u S2. with_user a (grs_dst_user_id rs) S2 (\<lambda>d S3. k rs a u S3))) = Inr S'"
    using False with_answer_cases by blast
  then have "?good S'" by (rule with_room_good [OF _ assms(2)]) (blast intro: with_user_good k)
  then show ?thesis by blast
qed (use assms in auto)

section \<open>Answers of the director server\<close>

text \<open>They write nothing and change only the two connectors.\<close>

definition cs_ok :: "CenterServerConnector \<Rightarrow> bool" where
  "cs_ok C \<longleftrightarrow> (pr_is_started (csc_processor C) \<longrightarrow> cl_inv (bp_data_list (csc_processor C)))"

definition reconnects :: "RoomServer \<Rightarrow> RoomServer \<Rightarrow> bool" where
  "reconnects S S' \<longleftrightarrow> (\<exists>C D. S' = S\<lparr>rsv_cs_connector := C, rsv_ds_connector := D\<rparr>
     \<and> dsc_processor D = dsc_processor (rsv_ds_connector S) \<and> (cs_ok (rsv_cs_connector S) \<longrightarrow> cs_ok C))"

lemma reconnects_refl: "reconnects S S"
  unfolding reconnects_def by (rule exI [of _ "rsv_cs_connector S"], rule exI [of _ "rsv_ds_connector S"]) simp

lemma reconnects_cs: "(cs_ok (rsv_cs_connector S) \<Longrightarrow> cs_ok C) \<Longrightarrow> reconnects S (S\<lparr>rsv_cs_connector := C\<rparr>)"
  unfolding reconnects_def by (rule exI [of _ C], rule exI [of _ "rsv_ds_connector S"]) simp

lemma csc_of_more: "Connector.more C' = Connector.more C \<Longrightarrow> csc_processor C' = csc_processor C"
  by (cases C; cases C') simp

lemma cs_start_ok:
  assumes "csc_StartCSProcessor self create k m server C = Inr (ok, C')" "0 < k"
  shows "cs_ok C'"
proof -
  obtain b P1 where i: "bp_InitProcessor k server (csc_processor C) = Inr (b, P1)"
    using assms(1) by (auto simp: csc_StartCSProcessor_def cs_InitProcessor_def res_simps)
  have "cl_inv (bp_data_list P1)" by (rule bp_Init_inv [OF i assms(2)])
  then show ?thesis using assms(1)
    by (auto simp: csc_StartCSProcessor_def cs_InitProcessor_def i cs_StartProcessor_def pr_start_def Let_def cs_ok_def
        split: if_splits prod.splits)
qed

lemma connect_answer:
  assumes "ConnectDirectorServerRS_Execute pb wr server caller buff len S = Inr S'"
  shows "reconnects S S'"
proof (cases "S' = S")
  case False
  then obtain b C out where s: "dsc_SendPackage (pb_ser pb) wr (P_DsGetCsInfoRq (rsv_server_id S))
      DEF_DS_RS_GET_CS_RQ 0 (rsv_ds_connector S, rsv_out S) = Inr (b, C, out)"
    "S' = S\<lparr>rsv_ds_connector := C, rsv_out := out\<rparr>"
    using assms by (auto simp: ConnectDirectorServerRS_Execute_def res_simps split: if_splits dest!: with_answer_cases)
  have "out = rsv_out S \<and> dsc_processor C = dsc_processor (rsv_ds_connector S)"
    using s(1) by (auto simp: dsc_SendPackage_def con_SendData_def res_simps split: if_splits)
  then show ?thesis unfolding reconnects_def s(2)
    by (intro exI [of _ "rsv_cs_connector S"] exI [of _ C]) simp
qed (simp add: reconnects_refl)

lemma center_address_answer:
  assumes "GetCenterServerAddrRS_Execute pb E self server caller buff len S = Inr S'"
  shows "reconnects S S'"
proof (cases "S' = S")
  case False
  define k where "k ok C1 = (if \<not> ok then Inr (S\<lparr>rsv_cs_connector := C1\<rparr>)
      else res_bind (csc_StartCSProcessor self (se_create_proc E) 1000 1 server C1) (\<lambda>(ok, C2).
        Inr (S\<lparr>rsv_cs_connector := (if ok then C2 else con_Disconnect C2)\<rparr>)))" for ok C1
  have "\<not> (server = None \<or> caller = None)"
    using False assms by (metis GetCenterServerAddrRS_Execute_def sum.inject(2))
  then have "with_answer (pb_DsGetCsInfoRs pb) buff len S (\<lambda>rs.
      if dci_server_ip rs = [] \<or> dci_server_port rs = 0 then Inr S
      else res_bind (con_InitConnectionInfo (c_str (dci_server_ip rs)) (dci_server_port rs) (rsv_cs_connector S)) (\<lambda>C.
        res_bind (con_StartConnect (se_fuel E) (se_fd E) (se_conn E) (se_create E) C) (\<lambda>(ok, C1). k ok C1))) = Inr S'"
    using assms unfolding GetCenterServerAddrRS_Execute_def k_def by (simp only: if_False)
  then obtain ip port C ok C1 where c: "con_InitConnectionInfo ip port (rsv_cs_connector S) = Inr C"
    "con_StartConnect (se_fuel E) (se_fd E) (se_conn E) (se_create E) C = Inr (ok, C1)" "k ok C1 = Inr S'"
    using False by (auto simp: res_simps split: if_splits dest!: with_answer_cases)
  have "csc_processor C1 = csc_processor (rsv_cs_connector S)"
    using csc_of_more [OF con_Init_more [OF c(1)]] csc_of_more [OF con_Start_more [OF c(2)]] by simp
  then have C1: "cs_ok (rsv_cs_connector S) \<Longrightarrow> cs_ok C1" by (simp add: cs_ok_def)
  have d: "cs_ok C2 \<Longrightarrow> cs_ok (con_Disconnect C2)" for C2 by (simp add: cs_ok_def con_Disconnect_def)
  show ?thesis
  proof (cases ok)
    case True
    then obtain b C2 where "csc_StartCSProcessor self (se_create_proc E) 1000 1 server C1 = Inr (b, C2)"
      "S' = S\<lparr>rsv_cs_connector := (if b then C2 else con_Disconnect C2)\<rparr>" using c(3) by (auto simp: k_def res_simps simp del: if_split)
    then show ?thesis using cs_start_ok d by (auto intro!: reconnects_cs)
  qed (use c(3) reconnects_cs [of S, OF C1] in \<open>simp add: k_def\<close>)
qed (simp add: reconnects_refl)

lemma query_answer: "QueryChatRoomRS_Execute pb server caller buff len S = Inr S' \<Longrightarrow> S' = S"
  by (auto simp: QueryChatRoomRS_Execute_def split: if_splits dest!: with_answer_cases)

end
