(* ===== verification/Room_System.thy ===== *)
theory Room_System
  imports Room_Keeps
begin

text \<open>
  The room server as one system: the events of its listener, the rounds of the processors and send
  threads of its gates, and the threads of its connectors to the center server and the director
  server, in any order and with any bytes. What every step keeps is the invariant \<open>room_ok\<close>.
\<close>

section \<open>A gate's bytes\<close>

lemma gr_serialize_length: "gr_SerializeToArray p (Some d) n = Inr (ok, d') \<Longrightarrow> length d' = length d"
  by (auto simp: gr_SerializeToArray_def mem_write_def res_simps split: if_splits)

lemma rc_frame_run:
  assumes "rc_frame key p b v (rb, M) = Inr (b', v', rb', M')" "length rb = 4096" "0 \<le> gr_ByteSize p"
  shows "memcpy b 0 b (gr_ByteSize p) (v - gr_ByteSize p) = Inr b' \<and> v' = v - gr_ByteSize p
    \<and> length rb' = 4096 \<and> (cl_inv M \<longrightarrow> cl_inv M')"
proof -
  let ?p = "p\<lparr>gr_gs_hashkey := key\<rparr>"
  have sz: "gr_ByteSize ?p = gr_ByteSize p" by (simp add: gr_ByteSize_def)
  obtain ok where r: "memcpy b 0 b (gr_ByteSize p) (v - gr_ByteSize p) = Inr b'" "v' = v - gr_ByteSize p"
    "gr_SerializeToArray ?p (Some rb) (gr_ByteSize p) = Inr (ok, rb')"
    "M' = M \<or> (\<exists>x. cl_AddBuffer rb' (gr_ByteSize p) M = Inr (x, M'))"
    using assms(1) by (auto simp: rc_frame_def Let_def res_simps sz split: if_splits)
  have l: "length rb' = 4096" using gr_serialize_length [OF r(3)] assms(2) by simp
  show ?thesis using r l cl_add_keeps_block [of rb' "gr_ByteSize p" M] assms(3) by auto
qed

lemma rc_deal_keeps:
  assumes "rc_DealWithData chunk C = Inr C'" "block_ok (rc_recved_buff C) (rc_valid_buff_len C)" "length chunk \<le> 0x1000"
  shows "\<exists>b v L. C' = C\<lparr>rc_recved_buff := b, rc_valid_buff_len := v,
      rc_gs_processor := (rc_gs_processor C)\<lparr>bp_data_list := L\<rparr>\<rparr> \<and> block_ok b v
    \<and> (cl_inv (bp_data_list (rc_gs_processor C)) \<longrightarrow> cl_inv L)"
proof -
  let ?L = "bp_data_list (rc_gs_processor C)" and ?rb = "chunk @ replicate (4096 - length chunk) 0"
  let ?J = "\<lambda>b v (rb :: byte list, L). block_ok b v \<and> length rb = 4096 \<and> (cl_inv ?L \<longrightarrow> cl_inv L)"
  obtain b v L where d: "rc_deal (hash_key C) chunk (rc_state C) = Inr (b, v, L)"
    and C': "C' = C\<lparr>rc_recved_buff := b, rc_valid_buff_len := v,
      rc_gs_processor := (rc_gs_processor C)\<lparr>bp_data_list := L\<rparr>\<rparr>"
    using assms(1) by (auto simp: rc_DealWithData_alt rc_state_def res_simps)
  obtain rb where d: "deal_chunk rc_parse (\<lambda>_. rc_frame (hash_key C)) chunk
      (rc_recved_buff C, rc_valid_buff_len C, ?rb, ?L) = Inr (b, v, rb, L)"
    using d by (auto simp: rc_deal_def rc_state_def res_simps)
  obtain b1 v1 where r: "recv_append (rc_recved_buff C) (rc_valid_buff_len C) chunk (int (length chunk)) = Inr (b1, v1)"
    and f: "frame_loop (Suc (nat v1)) rc_parse (rc_frame (hash_key C)) b1 v1 (?rb, ?L) = Inr (b, v, rb, L)"
    using d unfolding deal_chunk_def by (auto simp: res_simps simp del: frame_loop.simps)
  have "?J b v (rb, L)"
  proof (rule frame_loop_keeps [OF _ f, where J = ?J])
    fix p b v s b' v' s'
    assume 1: "rc_parse b v = Inr (True, p)" "rc_frame (hash_key C) p b v s = Inr (b', v', s')" "?J b v s"
    obtain rb M rb' M' where s: "s = (rb, M)" "s' = (rb', M')" by (cases s; cases s')
    have sz: "18 \<le> gr_ByteSize p" "gr_ByteSize p \<le> v"
      using gr.parse_size [of "gr_new 0" b v p] 1(1,3) s by (auto simp: rc_parse_def block_ok_def)
    have rb: "length rb = 4096" using 1(3) s by simp
    have "memcpy b 0 b (gr_ByteSize p) (v - gr_ByteSize p) = Inr b' \<and> v' = v - gr_ByteSize p
        \<and> length rb' = 4096 \<and> (cl_inv M \<longrightarrow> cl_inv M')"
      using rc_frame_run [of "hash_key C" p b v rb M b' v' rb' M'] 1(2) s rb sz by simp
    then show "?J b' v' s'" using 1(3) sz s memcpy_length [of b 0 b "gr_ByteSize p" "v - gr_ByteSize p" b']
      by (auto simp: block_ok_def)
  qed (use recv_append_block [OF r assms(2)] assms(3) in simp)
  then show ?thesis using C' by auto
qed

lemma gs_dispatch_fields:
  assumes "gs_dispatch_round P = Inr (d, P')"
  shows "\<exists>L C. P' = P\<lparr>bp_data_list := L, bp_cmd_chain := C\<rparr> \<and> (cl_inv (bp_data_list P) \<longrightarrow> cl_inv L)"
proof -
  define ob :: "byte list" where "ob = replicate 0x2000 0"
  have lob: "length ob = 0x2000" by (simp add: ob_def)
  obtain b buff n L where g: "cl_GetBuffer ob 0x2000 0 (bp_data_list P) = Inr (b, buff, n, L)"
    using assms(1) unfolding gs_dispatch_round_def ob_def [symmetric]
    by (cases "cl_GetBuffer ob 0x2000 0 (bp_data_list P)") (simp, metis prod_cases4)
  have "P' = P\<lparr>bp_data_list := L\<rparr> \<or> (\<exists>C. P' = P\<lparr>bp_data_list := L, bp_cmd_chain := C\<rparr>)"
    using assms unfolding gs_dispatch_round_def ob_def [symmetric] g
    by (auto simp: res_simps Let_def split_def split: if_splits option.splits)
  moreover have "cl_inv (bp_data_list P) \<longrightarrow> cl_inv L" using cl_get_keeps [OF g] lob by simp
  ultimately show ?thesis by (metis BaseProcessor.surjective BaseProcessor.update_convs(2))
qed

section \<open>The steps\<close>

datatype room_event =
    Room_listen listen_event
  | Room_gate_round nat
  | Room_gate_send nat
  | Room_cs_read "byte list"
  | Room_cs_round "int \<Rightarrow> byte list \<Rightarrow> int"
  | Room_cs_send "byte list \<Rightarrow> int"
  | Room_cs_reconnect nat int "nat \<Rightarrow> int"
  | Room_ds_read "byte list"
  | Room_ds_round "int \<Rightarrow> byte list \<Rightarrow> int" sock_env nat
  | Room_ds_send "byte list \<Rightarrow> int"
  | Room_ds_reconnect nat int "nat \<Rightarrow> int"

text \<open>An operation on the part of the state that the handlers use.\<close>

definition on_server :: "(RoomServer \<Rightarrow> RoomServer res) \<Rightarrow> RoomServerProcess \<Rightarrow> RoomServerProcess res" where
  "on_server f P = res_bind (f (RoomServer.truncate P)) (\<lambda>S. Inr (RoomServer.extend S (RoomServer.more P)))"

text \<open>The round of a gate's send thread: what it takes from the processor's queue is written to the gate.\<close>

definition room_gate_send :: "nat \<Rightarrow> RoomServer \<Rightarrow> RoomServer res" where
  "room_gate_send a S =
     res_bind (gsp_send_round (rc_gs_processor (rsv_clients S a))) (\<lambda>(w, P).
       Inr (S\<lparr>rsv_clients := (rsv_clients S)(a := (rsv_clients S a)\<lparr>rc_gs_processor := P\<rparr>),
              rsv_out := rsv_out S @ (case w of None \<Rightarrow> [] | Some bs \<Rightarrow> [(user_sock (rsv_clients S a), bs)])\<rparr>))"

definition room_step :: "protobuf \<Rightarrow> nat \<Rightarrow> room_event \<Rightarrow> RoomServerProcess \<Rightarrow> RoomServerProcess res" where
  "room_step pb self e S =
     (case e of
        Room_listen l \<Rightarrow> res_bind (sl_step (rcl_ops (\<lambda>_. 0)) self l (rsv_listenner S, rsv_client_list S, rsv_clients S))
          (\<lambda>(T, L, h). Inr (S\<lparr>rsv_listenner := T, rsv_client_list := L, rsv_clients := h\<rparr>))
      | Room_gate_round a \<Rightarrow> on_server (gs_deal_round pb a) S
      | Room_gate_send a \<Rightarrow> on_server (room_gate_send a) S
      | Room_cs_read chunk \<Rightarrow> on_server (\<lambda>R. res_bind (csc_DealWithData chunk (int (length chunk)) (rsv_cs_connector R))
          (\<lambda>C. Inr (R\<lparr>rsv_cs_connector := C\<rparr>))) S
      | Room_cs_round wr \<Rightarrow> on_server (cs_deal_round pb wr) S
      | Room_cs_send wr \<Rightarrow> on_server (\<lambda>R. res_bind (con_send_round wr (rsv_cs_connector R))
          (\<lambda>(_, C). Inr (R\<lparr>rsv_cs_connector := C\<rparr>))) S
      | Room_cs_reconnect f fd conn \<Rightarrow> on_server (\<lambda>R. res_bind (con_reconnect_round f fd conn (rsv_cs_connector R))
          (\<lambda>C. Inr (R\<lparr>rsv_cs_connector := C\<rparr>))) S
      | Room_ds_read chunk \<Rightarrow> on_server (\<lambda>R. res_bind (dsc_DealWithData chunk (int (length chunk)) (rsv_ds_connector R))
          (\<lambda>D. Inr (R\<lparr>rsv_ds_connector := D\<rparr>))) S
      | Room_ds_round wr E conn_self \<Rightarrow> on_server (ds_deal_round pb wr E (Some conn_self)) S
      | Room_ds_send wr \<Rightarrow> on_server (\<lambda>R. res_bind (con_send_round wr (rsv_ds_connector R))
          (\<lambda>(_, D). Inr (R\<lparr>rsv_ds_connector := D\<rparr>))) S
      | Room_ds_reconnect f fd conn \<Rightarrow> on_server (\<lambda>R. res_bind (con_reconnect_round f fd conn (rsv_ds_connector R))
          (\<lambda>D. Inr (R\<lparr>rsv_ds_connector := D\<rparr>))) S)"

text \<open>
  The events that can happen: sockets are accepted with \<open>accept\<close> and \<open>ioctl\<close> successful and keys left,
  workers exist, only a connection has threads, and the center's processor has a thread once it was
  started.
\<close>

definition room_event_ok :: "nat \<Rightarrow> RoomServerProcess \<Rightarrow> room_event \<Rightarrow> bool" where
  "room_event_ok n S e =
     (let T = rsv_listenner S; conns = ran (live (rcl_users (rsv_client_list S)))
      in case e of
           Room_listen (Readable a chunk) \<Rightarrow> a < n \<and> length chunk \<le> 0x1000
         | Room_listen l \<Rightarrow> calm n (sl_count_worker T) l \<and> sl_base_hash_key T + 1 + sl_count_worker T < 2147483648
         | Room_gate_round a \<Rightarrow> a \<in> conns
         | Room_gate_send a \<Rightarrow> a \<in> conns
         | Room_cs_round wr \<Rightarrow> pr_is_started (csc_processor (rsv_cs_connector S))
         | _ \<Rightarrow> True)"

definition room_new :: "int \<Rightarrow> DirectorServerConnector \<Rightarrow> RoomServerProcess" where
  "room_new j D = \<lparr>rsv_server_id = j, rsv_server_ip = [], rsv_server_port = j, rsv_client_list = rcl_new,
     rsv_clients = (\<lambda>_. rc_new), rsv_room_manager = rmg_new,
     rsv_rooms = \<lparr>rs_mem = (\<lambda>_. \<lparr>room_id = 0, sock = -1, start_channel_id = 0, video_channel_list = [],
       user_list = ul_new, pre_user_list = ul_new\<rparr>), rs_next = 0\<rparr>,
     rsv_users = \<lparr>us_mem = (\<lambda>_. UserInfo_new 0), us_next = 0\<rparr>,
     rsv_cs_connector = csc_new, rsv_ds_connector = D, rsv_out = [], rsv_count_worker = j,
     rsv_count_user_per_worker = j, rsv_read_timeout = j, rsv_write_timeout = j, rsv_ds_ip = [],
     rsv_ds_port = j, rsv_listenner = sl_new\<rparr>"

inductive room_reachable :: "protobuf \<Rightarrow> nat \<Rightarrow> RoomServerProcess \<Rightarrow> bool" for pb self where
  room_started: "dsc_new = Inr D \<Longrightarrow> rsv_InitServer u srv file (room_new j D) = Inr (True, S0) \<Longrightarrow>
    rsv_StartServer pb E LE srv self S0 = Inr (True, S) \<Longrightarrow> room_reachable pb self S"
| room_stepped: "room_reachable pb self S \<Longrightarrow> room_event_ok 50 S e \<Longrightarrow> room_step pb self e S = Inr S' \<Longrightarrow>
    room_reachable pb self S'"

section \<open>The invariant\<close>

definition rc_all_ok :: "ClientInfoList \<times> ClientInfoEx client_store \<Rightarrow> bool" where
  "rc_all_ok = (\<lambda>(L, h). (\<forall>a. block_ok (rc_recved_buff (h a)) (rc_valid_buff_len (h a))
       \<and> cl_data_ptr (gsp_send_list (rc_gs_processor (h a))) = None)
     \<and> (\<forall>k a. live (rcl_users L) k = Some a \<longrightarrow> cl_inv (bp_data_list (rc_gs_processor (h a)))))"

definition server_ok :: "nat \<Rightarrow> nat \<Rightarrow> ServerListenner \<Rightarrow> RoomServer \<Rightarrow> bool" where
  "server_ok self n T S \<longleftrightarrow> room_list.inv self n (T, rsv_client_list S, rsv_clients S)
     \<and> rc_all_ok (rsv_client_list S, rsv_clients S) \<and> tables {#} S
     \<and> cs_ok (rsv_cs_connector S) \<and> cl_inv (bp_data_list (dsc_processor (rsv_ds_connector S)))"

lemma server_ok_silent: "server_ok self n T S \<Longrightarrow> silent_gates S"
  by (simp add: server_ok_def rc_all_ok_def silent_gates_def)

lemma room_inv_like:
  assumes "room_list.inv self n (T, L, h)" "rcl_unused L' = rcl_unused L" "live (rcl_users L') = live (rcl_users L)"
    and "\<forall>a. base_of (h' a) = base_of (h a)"
    and "\<forall>a. pr_running (rc_gs_processor (h a)) \<longrightarrow> pr_running (rc_gs_processor (h' a))"
  shows "room_list.inv self n (T, L', h')"
proof -
  have "ur_fields (rcl_ops (\<lambda>_. 0)) (L', h') = ur_fields (rcl_ops (\<lambda>_. 0)) (L, h)"
    using assms(4) by (simp add: rcl_ops_def fun_eq_iff)
  moreover have "rcl_ok (L, h) \<Longrightarrow> rcl_ok (L', h')" using assms(2,3,5) by (simp add: rcl_ok_def list_ok_def)
  moreover have "rcl_conns (L', h') = rcl_conns (L, h)" "rcl_free (L', h') = rcl_free (L, h)"
    "rcl_taken (L', h') = rcl_taken (L, h)" using assms(2,3) by (simp_all add: rcl_defs)
  ultimately show ?thesis using room_list.invD [OF assms(1)] unfolding room_list.inv_def split_conv by metis
qed

lemma server_ok_good:
  assumes "server_ok self n T S0" "good W S0 N {#} S"
    and "cs_ok (rsv_cs_connector S)" "cl_inv (bp_data_list (dsc_processor (rsv_ds_connector S)))"
  shows "server_ok self n T S"
proof -
  have g: "rsv_clients S = rsv_clients S0" "rcl_unused (rsv_client_list S) = rcl_unused (rsv_client_list S0)"
    "live (rcl_users (rsv_client_list S)) = live (rcl_users (rsv_client_list S0))" "tables {#} S"
    using assms(2) by (simp_all add: good_def gates_as_def)
  have "room_list.inv self n (T, rsv_client_list S, rsv_clients S)"
    by (rule room_inv_like [of _ _ _ "rsv_client_list S0" "rsv_clients S0"]) (use assms(1) g in \<open>simp_all add: server_ok_def\<close>)
  then show ?thesis using assms g by (simp add: server_ok_def rc_all_ok_def)
qed

lemma server_ok_connectors:
  "server_ok self n T S \<Longrightarrow> cs_ok C \<Longrightarrow> server_ok self n T (S\<lparr>rsv_cs_connector := C\<rparr>)"
  "server_ok self n T S \<Longrightarrow> cl_inv (bp_data_list (dsc_processor D)) \<Longrightarrow> server_ok self n T (S\<lparr>rsv_ds_connector := D\<rparr>)"
  by (simp_all add: server_ok_def)

lemma server_ok_gate:
  assumes "server_ok self n T S" "base_of c = base_of (rsv_clients S a)"
    and "pr_running (rc_gs_processor (rsv_clients S a)) \<Longrightarrow> pr_running (rc_gs_processor c)"
    and "block_ok (rc_recved_buff c) (rc_valid_buff_len c)"
    and "cl_data_ptr (gsp_send_list (rc_gs_processor c)) = None"
    and "cl_inv (bp_data_list (rc_gs_processor (rsv_clients S a))) \<Longrightarrow> cl_inv (bp_data_list (rc_gs_processor c))"
  shows "server_ok self n T (S\<lparr>rsv_clients := (rsv_clients S)(a := c)\<rparr>)"
proof -
  have "room_list.inv self n (T, rsv_client_list S, (rsv_clients S)(a := c))"
    by (rule room_inv_like [of _ _ _ "rsv_client_list S" "rsv_clients S"]) (use assms(1-3) in \<open>auto simp: server_ok_def\<close>)
  moreover have "rc_all_ok (rsv_client_list S, (rsv_clients S)(a := c))"
    using assms(1,4-6) by (auto simp: server_ok_def rc_all_ok_def)
  ultimately show ?thesis using assms(1) by (simp add: server_ok_def)
qed

section \<open>Every step\<close>

text \<open>What a step of the handlers' part keeps, and where it may write.\<close>

definition step_ok :: "nat \<Rightarrow> nat \<Rightarrow> ServerListenner \<Rightarrow> int set \<Rightarrow> RoomServer \<Rightarrow> RoomServer \<Rightarrow> bool" where
  "step_ok self n T W S S' \<longleftrightarrow> server_ok self n T S' \<and> (\<exists>ws. rsv_out S' = rsv_out S @ ws \<and> fst ` set ws \<subseteq> W)"

lemma step_silent: "server_ok self n T S' \<Longrightarrow> rsv_out S' = rsv_out S \<Longrightarrow> step_ok self n T W S S'"
  by (simp add: step_ok_def)

lemma step_good:
  assumes "server_ok self n T S0" "good W S0 N {#} S"
  shows "step_ok self n T W S0 S"
proof -
  have "cs_ok (rsv_cs_connector S)" "cl_inv (bp_data_list (dsc_processor (rsv_ds_connector S)))"
    using assms by (simp_all add: server_ok_def good_def gates_as_def cs_ok_def)
  then show ?thesis using server_ok_good [OF assms] assms(2) by (simp add: step_ok_def good_def gates_as_def)
qed

lemma gs_Execute_good:
  assumes "gs_Execute pb cmd (Some (Gate_processor i)) buff len S = Inr S'" "good {} S0 N {#} S"
  shows "\<exists>M. good {} S0 M {#} S'"
proof -
  let ?s = "cmd_server_ptr cmd" and ?c = "Some (Gate_processor i)"
  have "ClientLoginRQ_Execute pb ?s ?c buff len S = Inr S' \<or> CancleUserMicRQ_Execute pb ?s ?c buff len S = Inr S'
    \<or> PutUserOnMicRQ_Execute pb ?s ?c buff len S = Inr S' \<or> UserApplyMicRQ_Execute pb ?s ?c buff len S = Inr S'
    \<or> UserExitRoomID_Execute pb ?s ?c buff len S = Inr S' \<or> UserGiveGiftRQ_Execute pb ?s ?c buff len S = Inr S'
    \<or> UserOffMicRQ_Execute pb ?s ?c buff len S = Inr S' \<or> UserSendMsgRQ_Execute pb ?s ?c buff len S = Inr S'"
    using assms(1) by (cases "cmd_class cmd") simp_all
  then show ?thesis
    by (elim disjE) (erule login_request_good mic_requests_good [rotated] apply_request_good exit_request_good
      gift_request_good off_request_good msg_request_good, rule assms(2))+
qed

lemma gate_round_ok:
  assumes "gs_deal_round pb a S = Inr S'" "server_ok self n T S"
  shows "step_ok self n T {} S S'"
proof -
  let ?p = "rc_gs_processor (rsv_clients S a)"
  obtain d P where c: "gs_dispatch_round ?p = Inr (d, P)" using assms(1) by (auto simp: gs_deal_round_def res_simps)
  obtain L C where P: "P = ?p\<lparr>bp_data_list := L, bp_cmd_chain := C\<rparr>" "cl_inv (bp_data_list ?p) \<longrightarrow> cl_inv L"
    using gs_dispatch_fields [OF c] by blast
  let ?S1 = "S\<lparr>rsv_clients := (rsv_clients S)(a := (rsv_clients S a)\<lparr>rc_gs_processor := P\<rparr>)\<rparr>"
  have S1: "server_ok self n T ?S1"
    by (rule server_ok_gate [OF assms(2)])
      (use assms(2) P in \<open>auto simp: server_ok_def rc_all_ok_def base_of_def pr_running_def\<close>)
  have g: "good {} ?S1 (rs_next (rsv_rooms ?S1)) {#} ?S1"
    by (rule good_start [OF server_ok_silent [OF S1]]) (use S1 in \<open>simp only: server_ok_def\<close>)
  have "step_ok self n T {} ?S1 S'"
  proof (cases d)
    case (Execute cmd buff len)
    then have "gs_Execute pb cmd (Some (Gate_processor a)) buff len ?S1 = Inr S'"
      using assms(1) by (simp add: gs_deal_round_def c Let_def del: gs_Execute.simps)
    then show ?thesis using gs_Execute_good [OF _ g] step_good [OF S1] by blast
  qed (use assms(1) step_silent [OF S1] in \<open>auto simp: gs_deal_round_def c Let_def\<close>)
  then show ?thesis by (simp add: step_ok_def)
qed

lemma gate_send_ok:
  assumes "room_gate_send a S = Inr S'" "server_ok self n T S"
  shows "step_ok self n T {} S S'"
proof -
  have null: "cl_data_ptr (gsp_send_list (rc_gs_processor (rsv_clients S a))) = None"
    using assms(2) by (simp add: server_ok_def rc_all_ok_def)
  have "S' = S" using assms(1) gsp_send_null(2) [OF null] by (auto simp: room_gate_send_def)
  then show ?thesis using step_silent assms(2) by blast
qed

lemma center_round_ok:
  assumes "cs_deal_round pb wr S = Inr S'" "server_ok self n T S" "pr_is_started (csc_processor (rsv_cs_connector S))"
  shows "step_ok self n T (gate_fds S) S S'"
proof -
  let ?p = "csc_processor (rsv_cs_connector S)"
  obtain d P where c: "cyt_dispatch_round ?p = Inr (d, P)" using assms(1) by (auto simp: cs_deal_round_def res_simps)
  let ?C = "(rsv_cs_connector S)\<lparr>csc_processor := P\<rparr>"
  let ?S1 = "S\<lparr>rsv_cs_connector := ?C\<rparr>"
  have "cl_inv (bp_data_list ?p)" using assms(2,3) by (simp add: server_ok_def cs_ok_def)
  then have "cs_ok ?C" using dispatch_keeps [OF c] by (simp add: cs_ok_def)
  then have S1: "server_ok self n T ?S1" by (rule server_ok_connectors(1) [OF assms(2)])
  have f: "gate_fds ?S1 = gate_fds S" "rsv_out ?S1 = rsv_out S" by (simp_all add: gate_fds_def)
  have g: "good (gate_fds ?S1) ?S1 (rs_next (rsv_rooms ?S1)) {#} ?S1"
    by (rule good_start [OF server_ok_silent [OF S1]]) (use S1 in \<open>simp only: server_ok_def\<close>)
  have "step_ok self n T (gate_fds ?S1) ?S1 S'"
  proof (cases d)
    case (Execute cmd buff len)
    then have "ClientLoginRS_Execute pb wr (cmd_server_ptr cmd) (Some Center_processor) buff len ?S1 = Inr S'
        \<or> UserGiveGiftRS_Execute pb wr (cmd_server_ptr cmd) (Some Center_processor) buff len ?S1 = Inr S'"
      using assms(1) by (cases "cmd_class cmd") (simp_all add: cs_deal_round_def c Let_def)
    then show ?thesis using login_answer_good [OF _ g] gift_answer_good [OF _ g] step_good [OF S1] by blast
  qed (use assms(1) step_silent [OF S1] in \<open>auto simp: cs_deal_round_def c Let_def\<close>)
  then show ?thesis unfolding step_ok_def f .
qed

lemma reconnects_ok: "reconnects S S' \<Longrightarrow> server_ok self n T S \<Longrightarrow> step_ok self n T W S S'"
  by (auto simp: reconnects_def step_ok_def server_ok_def)

lemma director_round_ok:
  assumes "ds_deal_round pb wr E conn S = Inr S'" "server_ok self n T S"
  shows "step_ok self n T W S S'"
proof -
  let ?p = "dsc_processor (rsv_ds_connector S)"
  obtain d P where c: "cyt_dispatch_round ?p = Inr (d, P)" using assms(1) by (auto simp: ds_deal_round_def res_simps)
  let ?D = "(rsv_ds_connector S)\<lparr>dsc_processor := P\<rparr>"
  let ?S1 = "S\<lparr>rsv_ds_connector := ?D\<rparr>"
  have "cl_inv (bp_data_list (dsc_processor ?D))" using dispatch_keeps [OF c] assms(2) by (simp add: server_ok_def)
  then have S1: "server_ok self n T ?S1" by (rule server_ok_connectors(2) [OF assms(2)])
  have "step_ok self n T W ?S1 S'"
  proof (cases d)
    case (Execute cmd buff len)
    let ?s = "cmd_server_ptr cmd" and ?c = "Some Director_processor"
    have "ConnectDirectorServerRS_Execute pb wr ?s ?c buff len ?S1 = Inr S'
      \<or> QueryChatRoomRS_Execute pb ?s ?c buff len ?S1 = Inr S'
      \<or> GetCenterServerAddrRS_Execute pb E conn ?s ?c buff len ?S1 = Inr S'"
      using assms(1) Execute by (cases "cmd_class cmd") (simp_all add: ds_deal_round_def c Let_def)
    then have "reconnects ?S1 S'"
      by (elim disjE) (auto dest: connect_answer center_address_answer query_answer intro: reconnects_refl)
    then show ?thesis by (rule reconnects_ok [OF _ S1])
  qed (use assms(1) step_silent [OF S1] in \<open>auto simp: ds_deal_round_def c Let_def\<close>)
  then show ?thesis by (simp add: step_ok_def)
qed

lemma csc_deal_keeps: "csc_DealWithData chunk (int (length chunk)) C = Inr C' \<Longrightarrow> cs_ok C \<Longrightarrow> cs_ok C'"
  by (auto simp: csc_DealWithData_def cs_ok_def res_simps dest: cl_add_keeps split: if_splits)

lemma dsc_deal_keeps: "dsc_DealWithData chunk (int (length chunk)) D = Inr D' \<Longrightarrow>
    cl_inv (bp_data_list (dsc_processor D)) \<Longrightarrow> cl_inv (bp_data_list (dsc_processor D'))"
  by (auto simp: dsc_DealWithData_def res_simps dest: cl_add_keeps split: if_splits)

lemma cs_like: "csc_processor C' = csc_processor C \<Longrightarrow> cs_ok C \<Longrightarrow> cs_ok C'"
  by (simp add: cs_ok_def)

lemma server_ok_cs: "server_ok self n T S \<Longrightarrow> (cs_ok (rsv_cs_connector S) \<Longrightarrow> cs_ok C) \<Longrightarrow>
    step_ok self n T W S (S\<lparr>rsv_cs_connector := C\<rparr>)"
  by (simp add: step_ok_def server_ok_def)

lemma server_ok_ds: "server_ok self n T S \<Longrightarrow> (cl_inv (bp_data_list (dsc_processor (rsv_ds_connector S))) \<Longrightarrow>
    cl_inv (bp_data_list (dsc_processor D))) \<Longrightarrow> step_ok self n T W S (S\<lparr>rsv_ds_connector := D\<rparr>)"
  by (simp add: step_ok_def server_ok_def)

section \<open>The listener\<close>

lemma gsp_stop_keeps:
  assumes "gsp_StopProcessor P = Inr P'"
  shows "bp_data_list P' = bp_data_list P \<and> gsp_send_list P' = gsp_send_list P"
  using assms by (auto simp: gsp_StopProcessor_def pr_stop_def split: if_splits)

lemma rcl_release_keeps:
  assumes "rcl_ReleaseUserInfo p (L, h) = Inr (L', h')" "rc_all_ok (L, h)"
  shows "rc_all_ok (L', h')"
proof -
  let ?m = "\<lambda>a. let m = snd (map_index None (rcl_users L) (hash_key (h a)))
    in if live (rcl_users L) (hash_key (h a)) \<noteq> None then map_erase (hash_key (h a)) m else m"
  obtain a P where a: "gsp_StopProcessor (rc_gs_processor (h a)) = Inr P"
    "L' = L\<lparr>rcl_users := ?m a, rcl_unused := snd (rm_Put p (rcl_unused L))\<rparr>"
    "h' = h(a := rc_Clear ((h a)\<lparr>rc_gs_processor := P\<rparr>))"
    using assms(1) by (auto simp: rcl_ReleaseUserInfo_def split_def Let_def res_simps)
  show ?thesis using assms(2) gsp_stop_keeps [OF a(1)] by (auto simp: a(2,3) rc_all_ok_def rc_Clear_def block_ok_def Let_def)
qed

lemma gsp_up_keeps:
  assumes "gsp_InitProcessor 1000 user srv P = Inr (b, P1)"
  shows "cl_inv (bp_data_list (snd (gsp_StartProcessor create 1 P1)))
    \<and> gsp_send_list (snd (gsp_StartProcessor create 1 P1)) = gsp_send_list P"
proof -
  obtain x P0 where i: "bp_InitProcessor 1000 srv P = Inr (x, P0)"
    using assms by (auto simp: gsp_InitProcessor_def res_simps)
  have "cl_inv (bp_data_list P0)" using bp_Init_inv [OF i] by simp
  moreover have "gsp_send_list P0 = gsp_send_list P" using i by (auto simp: bp_InitProcessor_def res_simps Let_def)
  ultimately show ?thesis using assms i
    by (auto simp: gsp_InitProcessor_def gsp_StartProcessor_def pr_start_def Let_def split: prod.splits if_splits)
qed

lemma rcl_add_keeps:
  assumes "rcl_AddUserInfo create k p (L, h) = Inr (b, L', h')" "rc_all_ok (L, h)"
  shows "rc_all_ok (L', h')"
proof (cases "live (rcl_users L) k")
  case None
  let ?m = "snd (map_index None (rcl_users L) k)"
  obtain a x P where a: "p = Some a" "gsp_InitProcessor 1000 p (rcl_room_server L) (rc_gs_processor (h a)) = Inr (x, P)"
    "L' = L\<lparr>rcl_users := map_put k p ?m\<rparr>"
    "h' = h(a := (h a)\<lparr>hash_key := k, rc_room_server := rcl_room_server L,
        rc_gs_processor := snd (gsp_StartProcessor create 1 P)\<rparr>)"
    using assms(1) None by (auto simp: rcl_AddUserInfo_def split_def Let_def res_simps elim!: deref.elims split: option.splits)
  show ?thesis using assms(2) gsp_up_keeps [OF a(2), of create] a(1) by (auto simp: a(3,4) rc_all_ok_def)
next
  case (Some a)
  then show ?thesis using assms by (auto simp: rcl_AddUserInfo_def split_def Let_def rc_all_ok_def)
qed

lemma room_list_keeps:
  assumes "sl_step (rcl_ops (\<lambda>_. 0)) self e (T, L, h) = Inr (T', L', h')" "\<forall>a chunk. e \<noteq> Readable a chunk"
    and "rc_all_ok (L, h)"
  shows "rc_all_ok (L', h')"
proof (rule sl_step_keeps [where J = rc_all_ok, OF _ _ _ _ _ assms], goal_cases)
  case (1 s u s')
  then show ?case by (cases s) (auto simp: rcl_ops_def rcl_GetUserInfo_def rc_all_ok_def split_def Let_def)
next
  case (2 s a u)
  then show ?case by (cases s) (auto simp: rcl_ops_def rc_all_ok_def set_base_def)
next
  case (3 s k p b s')
  then show ?case by (cases s; cases s') (auto simp: rcl_ops_def intro: rcl_add_keeps)
next
  case (4 s k u s')
  then show ?case by (cases s) (auto simp: rcl_ops_def rcl_GetUserByHashkey_def rc_all_ok_def split_def Let_def)
next
  case (5 s p s')
  then show ?case by (cases s; cases s') (auto simp: rcl_ops_def intro: rcl_release_keeps)
qed

lemma room_listen_keeps:
  assumes "sl_step (rcl_ops (\<lambda>_. 0)) self l (T, L, h) = Inr (T', L', h')" "room_list.inv self n (T, L, h)" "rc_all_ok (L, h)"
    and "(\<exists>a chunk. l = Readable a chunk \<and> length chunk \<le> 0x1000)
      \<or> calm n (sl_count_worker T) l \<and> sl_base_hash_key T + 1 + sl_count_worker T < 2147483648 \<and> (\<forall>a chunk. l \<noteq> Readable a chunk)"
  shows "room_list.inv self n (T', L', h') \<and> rc_all_ok (L', h')"
  using assms(4)
proof (elim disjE exE conjE)
  fix a chunk assume l: "l = Readable a chunk" "length chunk \<le> 0x1000"
  have d: "sl_DealWithReadData (rcl_ops (\<lambda>_. 0)) a chunk (T, L, h) = Inr (T', L', h')"
    using assms(1) l by (simp add: sl_step_def)
  obtain c where c: "rc_DealWithData chunk (h a) = Inr c" "L' = L" "h' = h(a := c)"
    using d by (auto simp: sl_DealWithReadData_def rcl_ops_def res_simps)
  have b: "block_ok (rc_recved_buff (h a)) (rc_valid_buff_len (h a))" using assms(3) by (auto simp: rc_all_ok_def)
  obtain bf v M where "c = (h a)\<lparr>rc_recved_buff := bf, rc_valid_buff_len := v,
      rc_gs_processor := (rc_gs_processor (h a))\<lparr>bp_data_list := M\<rparr>\<rparr>" "block_ok bf v"
    "cl_inv (bp_data_list (rc_gs_processor (h a))) \<longrightarrow> cl_inv M" using rc_deal_keeps [OF c(1) b l(2)] by blast
  then have "rc_all_ok (L', h')" using assms(3) by (auto simp: rc_all_ok_def c(2,3))
  then show ?thesis using room_list.readable_ok [OF assms(2) d] by blast
next
  assume "calm n (sl_count_worker T) l" "sl_base_hash_key T + 1 + sl_count_worker T < 2147483648" "\<forall>a chunk. l \<noteq> Readable a chunk"
  then show ?thesis using room_list.step_ok [OF assms(2), of l] assms(1) room_list_keeps [OF assms(1) _ assms(3)] by auto
qed

section \<open>The whole server\<close>

definition room_ok :: "nat \<Rightarrow> nat \<Rightarrow> RoomServerProcess \<Rightarrow> bool" where
  "room_ok self n S \<longleftrightarrow> server_ok self n (rsv_listenner S) (RoomServer.truncate S)"

lemma truncate_simps [simp]:
  "rsv_client_list (RoomServer.truncate S) = rsv_client_list S" "rsv_clients (RoomServer.truncate S) = rsv_clients S"
  "rsv_room_manager (RoomServer.truncate S) = rsv_room_manager S" "rsv_rooms (RoomServer.truncate S) = rsv_rooms S"
  "rsv_users (RoomServer.truncate S) = rsv_users S" "rsv_cs_connector (RoomServer.truncate S) = rsv_cs_connector S"
  "rsv_ds_connector (RoomServer.truncate S) = rsv_ds_connector S" "rsv_out (RoomServer.truncate S) = rsv_out S"
  by (simp_all add: RoomServer.truncate_def)

lemma extend_simps [simp]:
  "RoomServer.truncate (RoomServer.extend R (RoomServer.more S)) = R"
  "rsv_out (RoomServer.extend R (RoomServer.more S)) = rsv_out R"
  "rsv_listenner (RoomServer.extend R (RoomServer.more S)) = rsv_listenner S"
  by (cases R; cases S; simp add: RoomServer.defs)+

lemma gate_fds_truncate [simp]: "gate_fds (RoomServer.truncate S) = gate_fds S"
  by (simp add: gate_fds_def)

definition room_step_ok :: "nat \<Rightarrow> nat \<Rightarrow> int set \<Rightarrow> RoomServerProcess \<Rightarrow> RoomServerProcess \<Rightarrow> bool" where
  "room_step_ok self n W S S' \<longleftrightarrow> room_ok self n S' \<and> (\<exists>ws. rsv_out S' = rsv_out S @ ws \<and> fst ` set ws \<subseteq> W)"

lemma on_server_ok:
  assumes "on_server f S = Inr S'" "room_ok self n S"
    and "\<And>R. f (RoomServer.truncate S) = Inr R \<Longrightarrow> server_ok self n (rsv_listenner S) (RoomServer.truncate S) \<Longrightarrow>
      step_ok self n (rsv_listenner S) W (RoomServer.truncate S) R"
  shows "room_step_ok self n W S S'"
proof -
  obtain R where R: "f (RoomServer.truncate S) = Inr R" "S' = RoomServer.extend R (RoomServer.more S)"
    using assms(1) by (auto simp: on_server_def res_simps)
  show ?thesis using assms(3) [OF R(1)] assms(2) by (simp add: R(2) room_step_ok_def room_ok_def step_ok_def)
qed

lemma room_listen_ok:
  assumes "room_step pb self (Room_listen l) S = Inr S'" "room_ok self n S" "room_event_ok n S (Room_listen l)"
  shows "room_step_ok self n {} S S'"
proof -
  obtain T L h where s: "sl_step (rcl_ops (\<lambda>_. 0)) self l (rsv_listenner S, rsv_client_list S, rsv_clients S) = Inr (T, L, h)"
    "S' = S\<lparr>rsv_listenner := T, rsv_client_list := L, rsv_clients := h\<rparr>"
    using assms(1) by (auto simp: room_step_def res_simps)
  have "room_list.inv self n (T, L, h) \<and> rc_all_ok (L, h)"
    by (rule room_listen_keeps [OF s(1)])
      (use assms(2,3) in \<open>auto simp: room_ok_def server_ok_def room_event_ok_def Let_def split: listen_event.splits\<close>)
  moreover have "RoomServer.truncate S' = (RoomServer.truncate S)\<lparr>rsv_client_list := L, rsv_clients := h\<rparr>"
    by (simp add: s(2) RoomServer.truncate_def)
  ultimately show ?thesis using assms(2) s(2) by (simp add: room_step_ok_def room_ok_def server_ok_def)
qed

definition writes_to :: "room_event \<Rightarrow> RoomServerProcess \<Rightarrow> int set" where
  "writes_to e S = (case e of Room_cs_round wr \<Rightarrow> gate_fds S | _ \<Rightarrow> {})"

lemma read_ok:
  "res_bind (csc_DealWithData chunk (int (length chunk)) (rsv_cs_connector R)) (\<lambda>C. Inr (R\<lparr>rsv_cs_connector := C\<rparr>)) = Inr R'
    \<Longrightarrow> server_ok self n T R \<Longrightarrow> step_ok self n T W R R'"
  "res_bind (dsc_DealWithData chunk (int (length chunk)) (rsv_ds_connector R)) (\<lambda>D. Inr (R\<lparr>rsv_ds_connector := D\<rparr>)) = Inr R'
    \<Longrightarrow> server_ok self n T R \<Longrightarrow> step_ok self n T W R R'"
  using csc_deal_keeps dsc_deal_keeps by (fastforce simp: res_simps intro: server_ok_cs server_ok_ds)+

lemma room_step_keeps:
  assumes "room_step pb self e S = Inr S'" "room_ok self n S" "room_event_ok n S e"
  shows "room_step_ok self n (writes_to e S) S S'"
proof (cases e)
  case (Room_listen l)
  then show ?thesis using room_listen_ok [of pb self l S S' n] assms by (simp add: writes_to_def)
next
  case (Room_gate_round a)
  then have "on_server (gs_deal_round pb a) S = Inr S'" using assms(1) by (simp add: room_step_def)
  then show ?thesis by (rule on_server_ok [OF _ assms(2)]) (simp add: Room_gate_round writes_to_def gate_round_ok)
next
  case (Room_gate_send a)
  then have "on_server (room_gate_send a) S = Inr S'" using assms(1) by (simp add: room_step_def)
  then show ?thesis by (rule on_server_ok [OF _ assms(2)]) (simp add: Room_gate_send writes_to_def gate_send_ok)
next
  case (Room_cs_read chunk)
  then show ?thesis using assms(1) by (intro on_server_ok [OF _ assms(2)]) (auto simp: room_step_def intro: read_ok(1))
next
  case (Room_cs_round wr)
  then have "on_server (cs_deal_round pb wr) S = Inr S'" "pr_is_started (csc_processor (rsv_cs_connector S))"
    using assms(1,3) by (simp_all add: room_step_def room_event_ok_def Let_def)
  then show ?thesis using center_round_ok [of pb wr "RoomServer.truncate S"]
    by (intro on_server_ok [OF _ assms(2)]) (simp_all add: Room_cs_round writes_to_def)
next
  case (Room_cs_send wr)
  then show ?thesis using assms(1) by (intro on_server_ok [OF _ assms(2)])
    (auto simp: room_step_def res_simps dest!: con_send_more csc_of_more intro!: server_ok_cs simp: cs_ok_def)
next
  case (Room_cs_reconnect f fd conn)
  then show ?thesis using assms(1) by (intro on_server_ok [OF _ assms(2)])
    (auto simp: room_step_def res_simps dest!: con_reconnect_more csc_of_more intro!: server_ok_cs simp: cs_ok_def)
next
  case (Room_ds_read chunk)
  then show ?thesis using assms(1) by (intro on_server_ok [OF _ assms(2)]) (auto simp: room_step_def intro: read_ok(2))
next
  case (Room_ds_round wr E conn)
  then have "on_server (ds_deal_round pb wr E (Some conn)) S = Inr S'" using assms(1) by (simp add: room_step_def)
  then show ?thesis by (rule on_server_ok [OF _ assms(2)]) (rule director_round_ok)
next
  case (Room_ds_send wr)
  then show ?thesis using assms(1) by (intro on_server_ok [OF _ assms(2)])
    (auto simp: room_step_def res_simps dest!: con_send_more dsc_of_more intro!: server_ok_ds)
next
  case (Room_ds_reconnect f fd conn)
  then show ?thesis using assms(1) by (intro on_server_ok [OF _ assms(2)])
    (auto simp: room_step_def res_simps dest!: con_reconnect_more dsc_of_more intro!: server_ok_ds)
qed

section \<open>Start\<close>

definition room_conf_only :: "RoomServerProcess \<Rightarrow> RoomServerProcess \<Rightarrow> bool" where
  "room_conf_only S S' \<longleftrightarrow> rsv_client_list S' = rsv_client_list S \<and> rsv_clients S' = rsv_clients S
     \<and> rsv_room_manager S' = rsv_room_manager S \<and> rsv_rooms S' = rsv_rooms S \<and> rsv_users S' = rsv_users S
     \<and> rsv_cs_connector S' = rsv_cs_connector S \<and> rsv_ds_connector S' = rsv_ds_connector S
     \<and> rsv_out S' = rsv_out S \<and> rsv_listenner S' = rsv_listenner S"

lemma room_conf_set:
  "room_conf_only S (S\<lparr>rsv_server_ip := w\<rparr>)" "room_conf_only S (S\<lparr>rsv_ds_ip := w\<rparr>)"
  "room_conf_only S (S\<lparr>rsv_server_port := v\<rparr>)" "room_conf_only S (S\<lparr>rsv_count_worker := v\<rparr>)"
  "room_conf_only S (S\<lparr>rsv_count_user_per_worker := v\<rparr>)" "room_conf_only S (S\<lparr>rsv_read_timeout := v\<rparr>)"
  "room_conf_only S (S\<lparr>rsv_write_timeout := v\<rparr>)" "room_conf_only S (S\<lparr>rsv_ds_port := v\<rparr>)"
  "room_conf_only S (S\<lparr>rsv_server_id := v\<rparr>)" "room_conf_only S S"
  by (simp_all add: room_conf_only_def)

lemma room_conf_word: "(\<And>w. room_conf_only S (upd w S)) \<Longrightarrow> room_conf_only S (read_word upd r S)"
  by (simp add: read_word_def room_conf_set split: prod.split option.split)

lemma room_line_only: "room_conf_only S (room_conf_line u l S)"
  unfolding room_conf_line_def Let_def
  by (simp add: if_distrib [of "room_conf_only S"] room_conf_set room_conf_word split: prod.split option.split)

lemma room_lines_only: "room_conf_only S (fold (room_conf_line u) ls S)"
proof (induction ls arbitrary: S)
  case (Cons l ls)
  then show ?case using room_line_only [of S u l] Cons.IH [of "room_conf_line u l S"]
    by (simp add: room_conf_only_def)
qed (simp add: room_conf_only_def)

lemma room_init_state:
  assumes "rsv_InitServer u srv file (room_new j D) = Inr (True, S)"
  shows "(rsv_client_list S, rsv_clients S) = room_start 50 (Some srv)
    \<and> (\<exists>ip port w k rt wt. rsv_listenner S = snd (sl_InitServer ip port w k rt wt sl_new))
    \<and> rsv_room_manager S = rmg_new \<and> rsv_rooms S = rsv_rooms (room_new j D) \<and> rsv_users S = rsv_users (room_new j D)
    \<and> rsv_cs_connector S = csc_new \<and> rsv_out S = []"
proof -
  let ?S = "snd (rsv_GetConfig u file (room_new j D))"
  have c: "room_conf_only (room_new j D) ?S" by (simp add: rsv_GetConfig_def Let_def room_lines_only)
  obtain C1 where i: "S = ?S\<lparr>rsv_client_list := snd (rcl_Init 50 (Some srv) (rsv_client_list ?S)),
       rsv_listenner := snd (sl_InitServer (rsv_server_ip ?S) (rsv_server_port ?S) (rsv_count_worker ?S)
          (rsv_count_user_per_worker ?S) (rsv_read_timeout ?S) (rsv_write_timeout ?S) (rsv_listenner ?S)),
       rsv_ds_connector := C1\<rparr>"
    using assms by (auto simp: rsv_InitServer_def Let_def res_simps split_def split: if_splits)
  have f: "rsv_client_list ?S = rcl_new" "rsv_clients ?S = (\<lambda>_. rc_new)" "rsv_listenner ?S = sl_new"
    "rsv_room_manager ?S = rmg_new" "rsv_rooms ?S = rsv_rooms (room_new j D)" "rsv_users ?S = rsv_users (room_new j D)"
    "rsv_cs_connector ?S = csc_new" "rsv_out ?S = []" using c by (simp_all add: room_conf_only_def room_new_def)
  show ?thesis unfolding i using f by (simp add: room_start_def, blast)
qed

lemma dsc_start_ok:
  assumes "dsc_StartDSProcessor self ser rq create k m srv C = Inr (ok, C')" "0 < k" "0 < m"
  shows "cl_inv (bp_data_list (dsc_processor C'))"
proof -
  obtain b P1 where i: "bp_InitProcessor k srv (dsc_processor C) = Inr (b, P1)"
    using assms(1) by (auto simp: dsc_StartDSProcessor_def ds_InitProcessor_def res_simps)
  have "cl_inv (bp_data_list P1)" by (rule bp_Init_inv [OF i assms(2)])
  then show ?thesis using assms(1,3)
    by (auto simp: dsc_StartDSProcessor_def ds_InitProcessor_def i ds_StartProcessor_def
        pr_start_def Let_def res_simps split: if_splits prod.splits dest!: ds_send_processor)
qed

lemma room_start_state:
  assumes "rsv_StartServer pb E LE srv self S0 = Inr (True, S)"
  shows "\<exists>C T. S = S0\<lparr>rsv_ds_connector := C, rsv_listenner := T\<rparr>
    \<and> cl_inv (bp_data_list (dsc_processor C)) \<and> sl_StartServer LE self (rsv_listenner S0) = (True, T)"
proof -
  obtain C S1 C1 where c: "S1 = S0\<lparr>rsv_ds_connector := C\<rparr>"
    "dsc_StartDSProcessor (Some srv) (pb_ser pb) (rsv_connect_rq S1) (se_create_proc E) 100 1 (Some srv) C = Inr (True, C1)"
    "S = S1\<lparr>rsv_ds_connector := C1, rsv_listenner := snd (sl_StartServer LE self (rsv_listenner S1))\<rparr>"
    "fst (sl_StartServer LE self (rsv_listenner S1))"
    using assms by (auto simp: rsv_StartServer_def Let_def res_simps split_def split: if_splits)
  have "sl_StartServer LE self (rsv_listenner S0) = (True, snd (sl_StartServer LE self (rsv_listenner S1)))"
    by (rule prod_eqI) (use c(4) in \<open>simp_all add: c(1)\<close>)
  then show ?thesis using c(1,3) dsc_start_ok [OF c(2)] by (intro exI conjI) (auto simp: c(1,3))
qed

lemma rc_all_start: "rc_all_ok (room_start n srv)"
  by (simp add: rc_all_ok_def room_start_def rcl_Init_def rcl_new_def Let_def split_def rc_new_def block_ok_def
      BaseUserInfo.defs gsp_new_def Processor.defs cl_new_def)

lemma room_start_ok:
  assumes "rsv_InitServer u srv file (room_new j D) = Inr (True, S0)"
    and "rsv_StartServer pb E LE srv self S0 = Inr (True, S)"
  shows "room_ok self 50 S \<and> rsv_out S = []"
proof -
  note i = room_init_state [OF assms(1)]
  obtain ip port w k rt wt where l: "rsv_listenner S0 = snd (sl_InitServer ip port w k rt wt sl_new)" using i by blast
  obtain C T where s: "S = S0\<lparr>rsv_ds_connector := C, rsv_listenner := T\<rparr>"
    "cl_inv (bp_data_list (dsc_processor C))" "sl_StartServer LE self (rsv_listenner S0) = (True, T)"
    using room_start_state [OF assms(2)] by blast
  have "room_list.inv self 50 (T, room_start 50 (Some srv))" by (rule room_start_inv [OF s(3) [unfolded l]])
  moreover have "tables {#} (RoomServer.truncate S)"
    using i by (simp add: s(1) tables_def rsv_lookup_room_def rmg_lookup_def rmg_new_def rsv_room_def room_new_def
        room_ordered_def ul_new_def)
  moreover have "cs_ok csc_new" by (simp add: cs_ok_def csc_new_def Connector.defs pr_new_def Processor.defs BaseProcessor.defs)
  ultimately show ?thesis using i s(1,2) rc_all_start [of 50 "Some srv"] by (simp add: room_ok_def server_ok_def)
qed

lemma room_reachable_ok: "room_reachable pb self S \<Longrightarrow> room_ok self 50 S"
  by (induction rule: room_reachable.induct) (auto simp: room_step_ok_def dest: room_start_ok room_step_keeps)

section \<open>An instance\<close>

text \<open>A room server with one worker, started where every call succeeds, and then its first gate.\<close>

lemma ex_room_config:
  "rsv_GetConfig 0 ex_start_conf (room_new 0 D)
   = (True, (room_new 0 D)\<lparr>rsv_server_port := 5000, rsv_count_worker := 1, rsv_ds_port := 6000\<rparr>)"
  by (simp add: ex_start_conf_def rsv_GetConfig_def room_conf_line_def str_def conf_skipped_def next_word_def
      is_space_def is_digit_def read_int_def dec_value_def clamp32_def byte_of_def room_new_def)

lemma ex_room_init:
  "\<exists>S. rsv_InitServer 0 4 ex_start_conf (room_new 0 D) = Inr (True, S)
     \<and> con_server_port (rsv_ds_connector S) = 6000 \<and> dsc_processor (rsv_ds_connector S) = dsc_processor D
     \<and> rsv_listenner S = snd (sl_InitServer [] 5000 1 0 0 0 sl_new)"
proof -
  obtain L where L: "cl_InitBuffer 1000 (con_send_list D) = Inr L" using init_1000 by blast
  have f: "rsv_ds_connector (room_new 0 D) = D" "rsv_listenner (room_new 0 D) = sl_new"
    "rsv_server_ip (room_new 0 D) = []" "rsv_count_user_per_worker (room_new 0 D) = 0" "rsv_read_timeout (room_new 0 D) = 0"
    "rsv_write_timeout (room_new 0 D) = 0" by (simp_all add: room_new_def)
  show ?thesis
    by (simp add: rsv_InitServer_def ex_room_config con_InitConnectionInfo_def wrap16_def split_def Let_def f
        sl_InitServer_def L)
qed

lemma ex_room_start:
  assumes "con_server_port (rsv_ds_connector S0) = 6000" "dsc_processor (rsv_ds_connector S0) = pr_new"
    and "rsv_listenner S0 = snd (sl_InitServer [] 5000 1 0 0 0 sl_new)"
  shows "\<exists>S. rsv_StartServer ex_mute_pb ex_connects ex_listen 4 7 S0 = Inr (True, S)"
proof -
  obtain L where L: "cl_InitBuffer 100 (bp_data_list (pr_new :: ds_cmd Processor)) = Inr L"
    using cl_InitBuffer_ok [of 100 "bp_data_list (pr_new :: ds_cmd Processor)"] by auto
  have l: "fst (sl_StartServer ex_listen 7 (snd (sl_InitServer [] 5000 1 0 0 0 sl_new)))"
    by (simp add: ex_listen_def sl_StartServer_def sl_InitServer_def sl_InitWorker_def sl_StartWorker_def
        sl_OpenServerSocket_def sl_new_def)
  have q: "ds_SendConnectDsRQ (pb_ser ex_mute_pb) rq C = Inr C" for rq C
    by (simp add: ds_SendConnectDsRQ_def pack_for_ds_def msg_SerializeToArray_def ex_mute_pb_def)
  have s: "\<exists>C'. dsc_StartDSProcessor (Some 4) (pb_ser ex_mute_pb) rq (se_create_proc ex_connects) 100 1 (Some 4) C
      = Inr (True, C')" if "dsc_processor C = pr_new" for rq C
    using ds_commands_registered [of "Some 4"]
    by (simp add: dsc_StartDSProcessor_def ds_InitProcessor_def bp_InitProcessor_def that L ds_StartProcessor_def
        pr_start_def split_def Let_def q)
  let ?C = "(rsv_ds_connector S0)\<lparr>con_is_started := True, con_client_fd := se_fd ex_connects\<rparr>"
  let ?S = "S0\<lparr>rsv_ds_connector := ?C\<rparr>"
  obtain C' where g: "dsc_StartDSProcessor (Some 4) (pb_ser ex_mute_pb) (rsv_connect_rq ?S) (se_create_proc ex_connects)
      100 1 (Some 4) ?C = Inr (True, C')" using s [of ?C "rsv_connect_rq ?S"] assms(2) by auto
  have "con_StartConnect (se_fuel ex_connects) (se_fd ex_connects) (se_conn ex_connects) (se_create ex_connects)
      (rsv_ds_connector S0) = Inr (True, ?C)" by (rule con_StartConnect_ok [OF ex_connects_ok]) (simp add: assms(1))
  then show ?thesis using g l by (simp add: rsv_StartServer_def assms(3) split_def Let_def)
qed

lemma ex_room_reachable: "\<exists>S. room_reachable ex_mute_pb 7 S \<and> sl_count_worker (rsv_listenner S) = 1
    \<and> sl_base_hash_key (rsv_listenner S) = 0 \<and> rsv_out S = []"
proof -
  obtain L where C: "cl_InitBuffer 1000 (cl_new 0) = Inr L" using init_1000 by blast
  let ?C = "Connector.extend con_new \<lparr>dsc_server_ptr = None, dsc_recv_list = L, dsc_processor = pr_new\<rparr>"
  have C': "dsc_new = Inr ?C" "dsc_processor ?C = pr_new" by (simp_all add: dsc_new_def C Connector.defs)
  obtain S0 where S0: "rsv_InitServer 0 4 ex_start_conf (room_new 0 ?C) = Inr (True, S0)"
    "con_server_port (rsv_ds_connector S0) = 6000" "dsc_processor (rsv_ds_connector S0) = pr_new"
    "rsv_listenner S0 = snd (sl_InitServer [] 5000 1 0 0 0 sl_new)"
    using ex_room_init [of ?C] C'(2) by auto
  obtain S where S: "rsv_StartServer ex_mute_pb ex_connects ex_listen 4 7 S0 = Inr (True, S)"
    using ex_room_start [OF S0(2-4)] by blast
  obtain T where "sl_StartServer ex_listen 7 (snd (sl_InitServer [] 5000 1 0 0 0 sl_new)) = (True, T)"
    "rsv_listenner S = T" using room_start_state [OF S] S0(4) by auto
  then show ?thesis
    using room_started [OF C'(1) S0(1) S] sl_start_ready room_start_ok [OF S0(1) S] by blast
qed

section \<open>Properties\<close>





end
