(* ===== verification/Circle_Buff.thy ===== *)
theory Circle_Buff
  imports Miku_Base
begin

text \<open>
  \<open>CircleBuff\<close> (\<open>common/circle_buff.cpp\<close>): a ring of bytes. No server uses it. Header and tail
  are pointers into the block and stand as offsets; \<open>None\<close> is the block after \<open>ReleaseBuff\<close>,
  when both dangle.
\<close>

section \<open>The ring\<close>

record CircleBuff =
  cb_buff :: "byte list option"
  cb_len :: int
  cb_header :: int
  cb_tail :: int
  cb_remain :: int

definition cb_new :: "int \<Rightarrow> CircleBuff" where
  "cb_new n = \<lparr>cb_buff = Some (replicate (nat n) 0), cb_len = n, cb_header = 0, cb_tail = 0, cb_remain = n\<rparr>"

definition cb_AddBuff :: "byte list \<Rightarrow> int \<Rightarrow> CircleBuff \<Rightarrow> (bool \<times> CircleBuff) res" where
  "cb_AddBuff buff n B =
     (if cb_len B < n then Inr (False, B)
      else if cb_remain B < n then Inr (False, B)
      else
        case cb_buff B of
          None \<Rightarrow> Inl Undefined
        | Some r \<Rightarrow>
            if cb_header B \<le> cb_tail B then
              (let tail_end = cb_len B - cb_tail B
               in if n \<le> tail_end then
                    res_bind (memcpy r (cb_tail B) buff 0 n) (\<lambda>r1.
                      let tail = cb_tail B + n
                      in Inr (True, B\<lparr>cb_buff := Some r1, cb_remain := cb_remain B - n,
                           cb_tail := (if tail = cb_len B then 0 else tail)\<rparr>))
                  else
                    res_bind (memcpy r (cb_tail B) buff 0 tail_end) (\<lambda>r1.
                    res_bind (memcpy r1 0 buff tail_end (n - tail_end)) (\<lambda>r2.
                      Inr (True, B\<lparr>cb_buff := Some r2, cb_tail := n - tail_end, cb_remain := cb_remain B - n\<rparr>))))
            else
              res_bind (memcpy r (cb_tail B) buff 0 n) (\<lambda>r1.
                Inr (True, B\<lparr>cb_buff := Some r1, cb_tail := cb_tail B + n, cb_remain := cb_remain B - n\<rparr>)))"

text \<open>
  \<open>GetBuff\<close> returns the output block and the length it stores in \<open>len_out\<close>. When all data is
  taken and it wraps, both pieces are copied to the start of the output block.
\<close>

definition cb_GetBuff :: "byte list option \<Rightarrow> int \<Rightarrow> int \<Rightarrow> CircleBuff
    \<Rightarrow> (bool \<times> byte list option \<times> int \<times> CircleBuff) res" where
  "cb_GetBuff buff_out len_in len_out B =
     (case buff_out of
        None \<Rightarrow> Inr (False, None, len_out, B)
      | Some ob \<Rightarrow>
          (case cb_buff B of
             None \<Rightarrow> Inl Undefined
           | Some r \<Rightarrow>
               if len_in < cb_len B - cb_remain B then
                 (if cb_header B \<le> cb_tail B then
                    res_bind (memcpy ob 0 r (cb_header B) len_in) (\<lambda>ob1.
                      Inr (True, Some ob1, len_in, B\<lparr>cb_header := cb_header B + len_in,
                             cb_remain := cb_remain B + len_in\<rparr>))
                  else
                    let header_end = cb_len B - cb_header B
                    in if len_in \<le> header_end then
                         res_bind (memcpy ob 0 r (cb_header B) len_in) (\<lambda>ob1.
                           Inr (True, Some ob1, len_in, B\<lparr>cb_header := cb_header B + len_in,
                                  cb_remain := cb_remain B + len_in\<rparr>))
                       else
                         res_bind (memcpy ob 0 r (cb_header B) header_end) (\<lambda>ob1.
                         res_bind (memcpy ob1 header_end r 0 (len_in - header_end)) (\<lambda>ob2.
                           Inr (True, Some ob2, len_in, B\<lparr>cb_header := len_in - header_end,
                                  cb_remain := cb_remain B + len_in\<rparr>))))
               else
                 (let B1 = B\<lparr>cb_remain := cb_len B, cb_tail := 0, cb_header := 0\<rparr>
                  in if cb_header B \<le> cb_tail B then
                       res_bind (memcpy ob 0 r (cb_header B) (cb_tail B - cb_header B)) (\<lambda>ob1.
                         Inr (True, Some ob1, cb_len B - cb_remain B, B1))
                     else
                       res_bind (memcpy ob 0 r (cb_header B) (cb_len B - cb_header B)) (\<lambda>ob1.
                       res_bind (memcpy ob1 0 r 0 (cb_tail B)) (\<lambda>ob2.
                         Inr (True, Some ob2, cb_len B - cb_remain B, B1))))))"

definition cb_ResetBuff :: "CircleBuff \<Rightarrow> bool \<times> CircleBuff" where
  "cb_ResetBuff B = (True, B\<lparr>cb_remain := cb_len B, cb_header := 0, cb_tail := 0\<rparr>)"

definition cb_ReleaseBuff :: "CircleBuff \<Rightarrow> CircleBuff" where
  "cb_ReleaseBuff B = B\<lparr>cb_buff := None\<rparr>"

section \<open>The bytes in it\<close>

definition cb_used :: "CircleBuff \<Rightarrow> int" where
  "cb_used B = cb_len B - cb_remain B"

definition cb_ok :: "CircleBuff \<Rightarrow> bool" where
  "cb_ok B \<longleftrightarrow> (\<exists>r. cb_buff B = Some r \<and> cb_len B = int (length r)) \<and> 0 < cb_len B
     \<and> 0 \<le> cb_header B \<and> cb_header B \<le> cb_len B \<and> 0 \<le> cb_tail B \<and> cb_tail B \<le> cb_len B
     \<and> (cb_header B \<le> cb_tail B \<and> cb_used B = cb_tail B - cb_header B \<and> cb_tail B < cb_len B
        \<or> cb_tail B < cb_header B \<and> cb_used B = cb_tail B + cb_len B - cb_header B
        \<or> cb_tail B = cb_header B \<and> cb_used B = cb_len B)"

definition cb_abs :: "CircleBuff \<Rightarrow> byte list" where
  "cb_abs B = (case cb_buff B of None \<Rightarrow> []
     | Some r \<Rightarrow> take (nat (cb_used B)) (drop (nat (cb_header B)) r @ r))"

lemma cb_unfold:
  assumes "cb_ok B"
  obtains r h t u where "cb_buff B = Some r" "cb_len B = int (length r)" "cb_header B = int h" "cb_tail B = int t"
    "cb_remain B = int (length r) - int u" "u \<le> length r" "0 < length r" "h \<le> length r" "t \<le> length r"
    "h \<le> t \<and> u = t - h \<and> t < length r \<or> t < h \<and> u = t + length r - h \<or> t = h \<and> u = length r"
    "cb_abs B = take u (drop h r @ r)"
proof -
  obtain r where r: "cb_buff B = Some r" "cb_len B = int (length r)" using assms by (auto simp: cb_ok_def)
  let ?h = "nat (cb_header B)" and ?t = "nat (cb_tail B)" and ?u = "nat (cb_used B)"
  show ?thesis
    using assms r by (intro that [of r ?h ?t ?u]) (auto simp: cb_ok_def cb_used_def cb_abs_def nat_diff_distrib)
qed

lemma memcpy_nat:
  assumes "s + n \<le> length src" "d + n \<le> length dst"
  shows "memcpy dst (int d) src (int s) (int n) = Inr (take d dst @ take n (drop s src) @ drop (d + n) dst)"
  using assms by (simp add: memcpy_def)

lemma cb_okI:
  assumes "cb_buff B = Some r" "length r = L" "cb_len B = int L" "cb_header B = int h" "cb_tail B = int t"
    "cb_remain B = int L - int u" "0 < L" "h \<le> L" "t \<le> L"
    "h \<le> t \<and> u = t - h \<and> t < L \<or> t < h \<and> u = t + L - h \<or> t = h \<and> u = L"
  shows "cb_ok B" "cb_abs B = take u (drop h r @ r)"
  using assms by (auto simp: cb_ok_def cb_used_def cb_abs_def)

lemma cb_add_append:
  assumes B: "cb_ok B" and n: "0 < n" "n \<le> length data" "int n \<le> cb_remain B"
  shows "\<exists>B'. cb_AddBuff data (int n) B = Inr (True, B') \<and> cb_ok B' \<and> cb_abs B' = cb_abs B @ take n data"
proof -
  obtain r h t u where r: "cb_buff B = Some r" "cb_len B = int (length r)" "cb_header B = int h" "cb_tail B = int t"
      "cb_remain B = int (length r) - int u" "u \<le> length r" "0 < length r" "h \<le> length r" "t \<le> length r"
    and c: "h \<le> t \<and> u = t - h \<and> t < length r \<or> t < h \<and> u = t + length r - h \<or> t = h \<and> u = length r"
    and a: "cb_abs B = take u (drop h r @ r)" using B by (rule cb_unfold)
  have room: "n + u \<le> length r" using n(3) r by linarith
  consider (flat) "h \<le> t" "t < length r" "u = t - h" "t + n \<le> length r"
    | (wrap) "h \<le> t" "t < length r" "u = t - h" "length r < t + n"
    | (below) "t < h" "u = t + length r - h" "t + n \<le> h"
    using c room n(1) r by linarith
  then show ?thesis
  proof cases
    case flat
    let ?r = "take t r @ take n data @ drop (t + n) r" and ?t = "if t + n = length r then 0 else t + n"
    let ?B = "B\<lparr>cb_buff := Some ?r, cb_remain := cb_remain B - int n, cb_tail := int ?t\<rparr>"
    have e: "cb_AddBuff data (int n) B = Inr (True, ?B)"
      unfolding cb_AddBuff_def using memcpy_nat [of 0 n data t r] flat r room n by (auto simp: Let_def simp flip: of_nat_add)
    have ok: "cb_ok ?B" "cb_abs ?B = take (u + n) (drop h ?r @ ?r)"
      by (rule cb_okI [of ?B ?r "length r" h "?t" "u + n"]; use flat r room n in auto)+
    have "cb_abs ?B = cb_abs B @ take n data"
      unfolding ok(2) a using flat r room n by (simp add: drop_take)
    then show ?thesis using e ok(1) by blast
  next
    case wrap
    obtain e m where em: "length r = t + e" "n = e + m" "0 < m"
      using wrap by (intro that [of "length r - t" "t + n - length r"]) auto
    let ?r1 = "take t r @ take e data" and ?d = "take m (drop e data)"
    let ?r = "?d @ drop m ?r1"
    let ?B = "B\<lparr>cb_buff := Some ?r, cb_tail := int m, cb_remain := cb_remain B - int n\<rparr>"
    have mh: "m \<le> h" "e + m \<le> length data" using wrap room n em by auto
    have c: "memcpy r (int t) data 0 (int e) = Inr ?r1" "memcpy ?r1 0 data (int e) (int m) = Inr ?r"
      using memcpy_nat [of 0 e data t r] memcpy_nat [of e m data 0 ?r1] em wrap n mh by (simp_all add: min_def)
    have g: "cb_len B - cb_tail B = int e" "int n - int e = int m" "\<not> int n \<le> int e" using r em by auto
    have e: "cb_AddBuff data (int n) B = Inr (True, ?B)"
      unfolding cb_AddBuff_def using wrap r n room c em by (simp add: g Let_def)
    have lr: "length ?r = length r" using em mh wrap(1,2) r(8) by simp
    have dj: "m < h \<and> u + n = m + length r - h \<or> m = h \<and> u + n = length r"
      using wrap(1,2,3) em mh by arith
    have nr: "int (length r) - int u - int n = int (length r) - int (u + n)" by simp
    have ok: "cb_ok ?B" "cb_abs ?B = take (u + n) (drop h ?r @ ?r)"
      by (rule cb_okI [OF _ lr, of ?B h m "u + n"]; use r(2-5,7-9) mh wrap(2) dj in simp)+
    have d: "drop h ?r = take u (drop h r) @ take e data"
      using wrap r em mh by (simp add: drop_take)
    have "take e data @ ?d = take n data" using em by (simp add: take_add)
    then have "cb_abs ?B = cb_abs B @ take n data"
      unfolding ok(2) a d using wrap r em mh by simp
    then show ?thesis using e ok(1) by blast
  next
    case below
    let ?r = "take t r @ take n data @ drop (t + n) r"
    let ?B = "B\<lparr>cb_buff := Some ?r, cb_tail := int (t + n), cb_remain := cb_remain B - int n\<rparr>"
    have e: "cb_AddBuff data (int n) B = Inr (True, ?B)"
      unfolding cb_AddBuff_def using memcpy_nat [of 0 n data t r] below r room n by (auto simp: Let_def)
    have ok: "cb_ok ?B" "cb_abs ?B = take (u + n) (drop h ?r @ ?r)"
      by (rule cb_okI [of ?B ?r "length r" h "t + n" "u + n"]; use below r room n in auto)+
    have "cb_abs ?B = cb_abs B @ take n data"
      unfolding ok(2) a using below r room n by simp
    then show ?thesis using e ok(1) by blast
  qed
qed


text \<open>
  The reads that return the oldest bytes: a read of part of the bytes, unless the ring is full and
  the read passes the end of the block; a read of all of them, unless they wrap or fill the ring.
\<close>

definition cb_reads :: "int \<Rightarrow> CircleBuff \<Rightarrow> bool" where
  "cb_reads n B = (if n < cb_used B then cb_header B \<noteq> cb_tail B \<or> cb_header B + n \<le> cb_len B
     else cb_header B \<le> cb_tail B \<and> cb_used B < cb_len B)"

lemma cb_get_oldest:
  assumes B: "cb_ok B" and n: "n \<le> length ob" and p: "cb_reads (int n) B"
  shows "\<exists>B'. cb_GetBuff (Some ob) (int n) len_out B
      = Inr (True, Some (take n (cb_abs B) @ drop (min n (nat (cb_used B))) ob), min (int n) (cb_used B), B')
    \<and> cb_ok B' \<and> cb_abs B' = drop n (cb_abs B)"
proof -
  obtain r h t u where r: "cb_buff B = Some r" "cb_len B = int (length r)" "cb_header B = int h" "cb_tail B = int t"
      "cb_remain B = int (length r) - int u" "u \<le> length r" "0 < length r" "h \<le> length r" "t \<le> length r"
    and c: "h \<le> t \<and> u = t - h \<and> t < length r \<or> t < h \<and> u = t + length r - h \<or> t = h \<and> u = length r"
    and a: "cb_abs B = take u (drop h r @ r)" using B by (rule cb_unfold)
  have ud: "cb_used B = int u" using r by (simp add: cb_used_def)
  have p': "if n < u then h \<noteq> t \<or> h + n \<le> length r else h \<le> t \<and> u < length r"
    using p r by (auto simp: cb_reads_def ud split: if_splits)
  consider (part) "n < u" "h + n \<le> length r" | (over) "n < u" "length r < h + n" "t < h" "u = t + length r - h"
    | (rest) "u \<le> n" "h \<le> t" "u = t - h" "t < length r"
    using c p' by (cases "n < u"; cases "h + n \<le> length r"; force)
  then show ?thesis
  proof cases
    case part
    let ?B = "B\<lparr>cb_header := int (h + n), cb_remain := cb_remain B + int n\<rparr>"
    have e: "cb_GetBuff (Some ob) (int n) len_out B = Inr (True, Some (take n (drop h r) @ drop n ob), int n, ?B)"
      using memcpy_nat [of h n r 0 ob] part r n by (auto simp: cb_GetBuff_def Let_def)
    have dj: "h + n \<le> t \<and> u - n = t - (h + n) \<and> t < length r \<or> t < h + n \<and> u - n = t + length r - (h + n)
        \<or> t = h + n \<and> u - n = length r"
      using c part by auto
    have ok: "cb_ok ?B" "cb_abs ?B = take (u - n) (drop (h + n) r @ r)"
      by (rule cb_okI [of ?B r "length r" "h + n" t "u - n", OF _ _ _ _ _ _ _ _ _ dj]; use part r in auto)+
    have "take n (cb_abs B) = take n (drop h r)" "drop n (cb_abs B) = cb_abs ?B"
      unfolding ok(2) a using part r by (auto simp: min_def drop_take add.commute)
    then show ?thesis using e ok(1) part by (auto simp: ud min_def)
  next
    case over
    let ?e = "length r - h"
    obtain m where m: "n = ?e + m" "0 < m" using over r(8) by (intro that [of "n - ?e"]) auto
    let ?B = "B\<lparr>cb_header := int m, cb_remain := cb_remain B + int n\<rparr>"
    have g: "cb_len B - cb_header B = int ?e" "int n - int ?e = int m" "\<not> n \<le> ?e"
      "int n < cb_len B - cb_remain B" "\<not> cb_header B \<le> cb_tail B" using r m over by auto
    have cp: "memcpy ob 0 r (cb_header B) (int ?e) = Inr (drop h r @ drop ?e ob)"
      "memcpy (drop h r @ drop ?e ob) (int ?e) r 0 (int m) = Inr (drop h r @ take m r @ drop n ob)"
      using memcpy_nat [of h ?e r 0 ob] memcpy_nat [of 0 m r ?e "drop h r @ drop ?e ob"] m over r n by (simp_all add: add.commute)
    have e: "cb_GetBuff (Some ob) (int n) len_out B = Inr (True, Some (drop h r @ take m r @ drop n ob), int n, ?B)"
      using cp by (simp add: cb_GetBuff_def g Let_def r(1))
    have dj: "m \<le> t \<and> u - n = t - m \<and> t < length r \<or> t < m \<and> u - n = t + length r - m \<or> t = m \<and> u - n = length r"
      using over m r(8) by auto
    have ok: "cb_ok ?B" "cb_abs ?B = take (u - n) (drop m r @ r)"
      by (rule cb_okI [of ?B r "length r" m t "u - n", OF _ _ _ _ _ _ _ _ _ dj]; use over r m in auto)+
    have "take n (cb_abs B) = drop h r @ take m r" "drop n (cb_abs B) = cb_abs ?B"
      unfolding ok(2) a using over r m by (auto simp: min_def drop_take)
    then show ?thesis using e ok(1) over by (auto simp: ud min_def)
  next
    case rest
    let ?B = "B\<lparr>cb_remain := cb_len B, cb_tail := 0, cb_header := 0\<rparr>"
    have e: "cb_GetBuff (Some ob) (int n) len_out B = Inr (True, Some (take u (drop h r) @ drop u ob), int u, ?B)"
      using memcpy_nat [of h u r 0 ob] rest r n by (auto simp: cb_GetBuff_def Let_def of_nat_diff)
    have ok: "cb_ok ?B" "cb_abs ?B = take 0 (drop 0 r @ r)"
      by (rule cb_okI [of ?B r "length r" 0 0 0]; use r in auto)+
    have "u \<le> length r - h" using rest by arith
    then show ?thesis using e ok rest(1) by (auto simp: ud min_def a)
  qed
qed


lemma cb_add_full: "cb_remain B < n \<Longrightarrow> cb_AddBuff data n B = Inr (False, B)"
  by (simp add: cb_AddBuff_def)


text \<open>A ring of eight bytes whose content wraps: five bytes from offset five.\<close>

definition cb_example :: CircleBuff where
  "cb_example = \<lparr>cb_buff = Some [6, 7, 0, 0, 0, 3, 4, 5], cb_len = 8, cb_header = 5, cb_tail = 2, cb_remain = 3\<rparr>"


text \<open>
  Taking everything from a ring that wraps: the bytes at the start of the block overwrite the
  older ones in the output, whose second half keeps what it held. A full ring whose header and
  tail meet is emptied with nothing copied, and \<open>len_out\<close> still says how many bytes there were.
\<close>

lemma circle_buff_wrapped_read_overwrites:
  "\<exists>B'. cb_GetBuff (Some [1, 1, 1, 1, 1]) 5 0 cb_example = Inr (True, Some [6, 7, 5, 1, 1], 5, B') \<and> cb_abs B' = []"
  by (simp add: cb_example_def cb_GetBuff_def Let_def memcpy_def mem_read_def mem_write_def cb_abs_def cb_used_def)

lemma circle_buff_loses_full:
  assumes "cb_ok B" "cb_header B = cb_tail B" "cb_used B = cb_len B" "cb_len B \<le> n"
  shows "\<exists>B'. cb_GetBuff (Some ob) n len_out B = Inr (True, Some ob, cb_len B, B') \<and> cb_used B' = 0"
proof -
  obtain r where "cb_buff B = Some r" "cb_len B = int (length r)" using assms(1) by (auto simp: cb_ok_def)
  then show ?thesis
    using assms by (auto simp: cb_GetBuff_def cb_used_def cb_ok_def memcpy_def mem_write_def)
qed

end
