(* ===== verification/Config_Bounds.thy ===== *)
theory Config_Bounds
  imports Center_Server Gate_Flow Room_Start
begin

text \<open>
  The numbers of a configuration are \<open>int\<close>s whatever the file holds: the three \<open>GetConfig\<close> go
  through the same extraction, which stores the nearest \<open>int\<close> for a number that is too big.
\<close>

lemma clamp32_in_i32 [simp]: "in_i32 (clamp32 n)"
  by (simp add: clamp32_def in_i32_def)

lemma in_i32_0 [simp]: "in_i32 0"
  by (simp add: in_i32_def)

lemma read_int_in_i32 [simp]: "in_i32 u \<Longrightarrow> in_i32 (read_int u bs)"
  by (simp add: read_int_def split: list.split)

lemma fold_keeps: "(\<And>l S. I S \<Longrightarrow> I (f l S)) \<Longrightarrow> I S \<Longrightarrow> I (fold f ls S)"
  by (induction ls arbitrary: S) auto

definition center_ints :: "CenterServer \<Rightarrow> bool" where
  "center_ints S \<longleftrightarrow> list_all in_i32 [cns_server_port S, cns_count_worker S, cns_count_user_per_worker S,
     cns_read_timeout S, cns_write_timeout S, cns_ds_port S, cns_server_id S, cns_max_conn_size S]"

definition gate_ints :: "GateServer \<Rightarrow> bool" where
  "gate_ints S \<longleftrightarrow> list_all in_i32 [gw_server_port S, gw_count_worker S, gw_count_user_per_worker S,
     gw_read_timeout S, gw_write_timeout S, gw_ds_port S, gw_server_id S]"

definition room_ints :: "RoomServerProcess \<Rightarrow> bool" where
  "room_ints S \<longleftrightarrow> list_all in_i32 [rsv_server_port S, rsv_count_worker S, rsv_count_user_per_worker S,
     rsv_read_timeout S, rsv_write_timeout S, rsv_ds_port S, rsv_server_id S]"

lemma center_conf_line_ints: "in_i32 u \<Longrightarrow> center_ints S \<Longrightarrow> center_ints (center_conf_line u l S)"
  unfolding center_conf_line_def
  by (auto simp: center_ints_def Let_def read_word_def split: prod.split option.split)

lemma gate_conf_line_ints: "in_i32 u \<Longrightarrow> gate_ints S \<Longrightarrow> gate_ints (gate_conf_line u l S)"
  unfolding gate_conf_line_def
  by (auto simp: gate_ints_def Let_def read_word_def split: prod.split option.split)

lemma room_conf_line_ints: "in_i32 u \<Longrightarrow> room_ints S \<Longrightarrow> room_ints (room_conf_line u l S)"
  unfolding room_conf_line_def
  by (auto simp: room_ints_def Let_def read_word_def split: prod.split option.split)

lemma center_config_ints: "in_i32 u \<Longrightarrow> center_ints S \<Longrightarrow> center_ints (snd (cns_GetConfig u file S))"
  by (simp add: cns_GetConfig_def Let_def fold_keeps [where I = center_ints] center_conf_line_ints)

lemma gate_config_ints: "in_i32 u \<Longrightarrow> gate_ints S \<Longrightarrow> gate_ints (snd (gw_GetConfig u file S))"
  by (simp add: gw_GetConfig_def Let_def fold_keeps [where I = gate_ints] gate_conf_line_ints)

lemma room_config_ints: "in_i32 u \<Longrightarrow> room_ints S \<Longrightarrow> room_ints (snd (rsv_GetConfig u file S))"
  by (simp add: rsv_GetConfig_def Let_def fold_keeps [where I = room_ints] room_conf_line_ints)


definition ex_process :: RoomServerProcess where
  "ex_process = RoomServer.extend (ex_server [] []) \<lparr>rsv_count_worker = 0, rsv_count_user_per_worker = 0,
     rsv_read_timeout = 0, rsv_write_timeout = 0, rsv_ds_ip = [], rsv_ds_port = 0, rsv_listenner = sl_new\<rparr>"

definition ex_big_port :: "byte list" where
  "ex_big_port = str ''port 99999999999'' @ [10] @ str ''read_timeout -5'' @ [10]"


lemma big_port_clamped: "cns_server_port (snd (cns_GetConfig 7 ex_big_port ex_cns)) = 2147483647
    \<and> cns_read_timeout (snd (cns_GetConfig 7 ex_big_port ex_cns)) = -5"
  by (simp add: ex_big_port_def cns_GetConfig_def center_conf_line_def str_def conf_skipped_def next_word_def
      is_space_def is_digit_def read_int_def dec_value_def clamp32_def byte_of_def ex_cns_def)

end
