(* ===== verification/Pb_Wire.thy ===== *)
theory Pb_Wire
  imports Miku_Base
begin

text \<open>
  What the classes generated by the protobuf compiler (\<open>src/packet/ds_server.pb.cpp\<close> and
  \<open>src/packet/package_define.pb.cc\<close>) share: the
  primitives of libprotobuf they call, as a parameter; the loop of \<open>MergePartialFromCodedStream\<close>; the
  shapes of its cases and of the serialisers; and the proofs that parsing what was serialised gives
  the message back and that parsing any bytes ends. The locale \<open>message_class\<close> is the contract a
  generated class meets.
\<close>

unbundle bit_operations_syntax

section \<open>libprotobuf\<close>

text \<open>
  What the generated code calls in libprotobuf, which is not part of the repository: reading from a
  \<open>CodedInputStream\<close>, a stream of type \<open>'i\<close>, and the functions of \<open>WireFormatLite\<close> that write a field
  and compute its size. \<open>w_SubMessage\<close> is the part of \<open>ReadMessageNoVirtual\<close> that is not the message's
  own: the stream inside the message, limited to its length, and the stream behind it. An entry of an
  \<open>UnknownFieldSet\<close> has type \<open>'u\<close>. \<open>w_left\<close> is how many bytes of a stream are left to read.
\<close>

record ('i, 'u) wire =
  w_open :: "byte list \<Rightarrow> 'i"
  w_left :: "'i \<Rightarrow> nat"
  w_ReadTag :: "'i \<Rightarrow> nat \<times> 'i"
  w_ExpectTag :: "nat \<Rightarrow> 'i \<Rightarrow> bool \<times> 'i"
  w_ExpectAtEnd :: "'i \<Rightarrow> bool \<times> 'i"
  w_ConsumedEntireMessage :: "'i \<Rightarrow> bool"
  w_ReadInt32 :: "'i \<Rightarrow> (int \<times> 'i) option"
  w_ReadEnum :: "'i \<Rightarrow> (int \<times> 'i) option"
  w_ReadBool :: "'i \<Rightarrow> (bool \<times> 'i) option"
  w_ReadString :: "'i \<Rightarrow> byte list \<Rightarrow> bool \<times> byte list \<times> 'i"
  w_ReadBytes :: "'i \<Rightarrow> byte list \<Rightarrow> bool \<times> byte list \<times> 'i"
  w_SubMessage :: "'i \<Rightarrow> ('i \<times> 'i) option"
  w_SkipField :: "nat \<Rightarrow> 'i \<Rightarrow> 'u list \<Rightarrow> bool \<times> 'u list \<times> 'i"
  w_AddVarint :: "nat \<Rightarrow> int \<Rightarrow> 'u list \<Rightarrow> 'u list"
  w_WriteInt32 :: "nat \<Rightarrow> int \<Rightarrow> byte list"
  w_WriteEnum :: "nat \<Rightarrow> int \<Rightarrow> byte list"
  w_WriteBool :: "nat \<Rightarrow> bool \<Rightarrow> byte list"
  w_WriteString :: "nat \<Rightarrow> byte list \<Rightarrow> byte list"
  w_WriteBytes :: "nat \<Rightarrow> byte list \<Rightarrow> byte list"
  w_WriteMessage :: "nat \<Rightarrow> int \<Rightarrow> byte list \<Rightarrow> byte list"
  w_WriteUnknown :: "'u list \<Rightarrow> byte list"
  w_Int32Size :: "int \<Rightarrow> int"
  w_EnumSize :: "int \<Rightarrow> int"
  w_StringSize :: "byte list \<Rightarrow> int"
  w_BytesSize :: "byte list \<Rightarrow> int"
  w_MessageSize :: "int \<Rightarrow> int"
  w_UnknownSize :: "'u list \<Rightarrow> int"

section \<open>What the generated classes share\<close>

text \<open>
  A singular field is its value if its has bit is set; \<open>value_or d x\<close> is what the getter of a field with
  default \<open>d\<close> returns.
\<close>

definition has :: "'a option \<Rightarrow> bool" where
  "has x = (x \<noteq> None)"

fun value_or :: "'a \<Rightarrow> 'a option \<Rightarrow> 'a" where
  "value_or d None = d"
| "value_or d (Some v) = v"

text \<open>
  One \<open>case\<close> of the \<open>switch\<close> in \<open>MergePartialFromCodedStream\<close>: the field number, the wire type it
  must have, what reading the value does, the tags that are expected next with the field whose label
  each of them leads to, and whether \<open>ExpectAtEnd\<close> follows them.
\<close>

record ('i, 'm) field_case =
  fc_number :: nat
  fc_wiretype :: nat
  fc_read :: "'i \<Rightarrow> 'm \<Rightarrow> (bool \<times> 'i \<times> 'm) res"
  fc_next :: "(nat \<times> nat) list"
  fc_end :: bool

fun field_of :: "nat \<Rightarrow> ('i, 'm) field_case list \<Rightarrow> ('i, 'm) field_case option" where
  "field_of n [] = None"
| "field_of n (c # cs) = (if fc_number c = n then Some c else field_of n cs)"

fun expect_tags :: "('i, 'u) wire \<Rightarrow> (nat \<times> nat) list \<Rightarrow> 'i \<Rightarrow> nat option \<times> 'i" where
  "expect_tags W [] i = (None, i)"
| "expect_tags W ((t, n) # ts) i =
     (let (b, i1) = w_ExpectTag W t i in if b then (Some n, i1) else expect_tags W ts i1)"

text \<open>
  The loop of \<open>MergePartialFromCodedStream\<close>, at its head or at the label of a field: its result, the
  stream and the message. \<open>skip\<close> is \<open>SkipField\<close> into the message's unknown fields; 4 is
  \<open>WIRETYPE_END_GROUP\<close>.
\<close>

fun merge_loop :: "nat \<Rightarrow> ('i, 'u) wire \<Rightarrow> ('i, 'm) field_case list \<Rightarrow> (nat \<Rightarrow> 'i \<Rightarrow> 'm \<Rightarrow> (bool \<times> 'i \<times> 'm) res)
    \<Rightarrow> nat option \<Rightarrow> 'i \<Rightarrow> 'm \<Rightarrow> (bool \<times> 'i \<times> 'm) res" where
  "merge_loop 0 W cs skip l i m = Inl Diverges"
| "merge_loop (Suc f) W cs skip None i m =
     (let (tag, i1) = w_ReadTag W i
      in if tag = 0 then Inr (True, i1, m)
         else
           case field_of (tag div 8) cs of
             Some c \<Rightarrow>
               if fc_wiretype c = tag mod 8 then merge_loop f W cs skip (Some (tag div 8)) i1 m
               else if tag mod 8 = 4 then Inr (True, i1, m)
               else res_bind (skip tag i1 m) (\<lambda>(ok, i2, m1).
                      if \<not> ok then Inr (False, i2, m1) else merge_loop f W cs skip None i2 m1)
           | None \<Rightarrow>
               if tag mod 8 = 4 then Inr (True, i1, m)
               else res_bind (skip tag i1 m) (\<lambda>(ok, i2, m1).
                      if \<not> ok then Inr (False, i2, m1) else merge_loop f W cs skip None i2 m1))"
| "merge_loop (Suc f) W cs skip (Some n) i m =
     (case field_of n cs of
        None \<Rightarrow> Inl Undefined
      | Some c \<Rightarrow>
          res_bind (fc_read c i m) (\<lambda>(ok, i1, m1).
            if \<not> ok then Inr (False, i1, m1)
            else
              let (l, i2) = expect_tags W (fc_next c) i1
              in if l \<noteq> None then merge_loop f W cs skip l i2 m1
                 else if fc_end c then
                   (let (b, i3) = w_ExpectAtEnd W i2
                    in if b then Inr (True, i3, m1) else merge_loop f W cs skip None i3 m1)
                 else merge_loop f W cs skip None i2 m1))"

definition skip_field :: "('i, 'u) wire \<Rightarrow> ('m \<Rightarrow> 'u list) \<Rightarrow> ('u list \<Rightarrow> 'm \<Rightarrow> 'm) \<Rightarrow> nat \<Rightarrow> 'i \<Rightarrow> 'm
    \<Rightarrow> (bool \<times> 'i \<times> 'm) res" where
  "skip_field W get put tag i m =
     (let (ok, u, i1) = w_SkipField W tag i (get m) in Inr (ok, i1, put u m))"

text \<open>
  What the code of a case does with the value: \<open>put\<close> stores it and sets the has bit. After a read
  that fails, parsing fails and the stream is not used again.
\<close>

definition read_value :: "('i \<Rightarrow> ('v \<times> 'i) option) \<Rightarrow> ('v option \<Rightarrow> 'm \<Rightarrow> 'm) \<Rightarrow> 'i \<Rightarrow> 'm \<Rightarrow> (bool \<times> 'i \<times> 'm) res" where
  "read_value rd put i m =
     (case rd i of None \<Rightarrow> Inr (False, i, m) | Some (v, i1) \<Rightarrow> Inr (True, i1, put (Some v) m))"

text \<open>\<open>mutable_\<close> sets the has bit before the string is read, into the contents it had.\<close>

definition read_string :: "('i \<Rightarrow> byte list \<Rightarrow> bool \<times> byte list \<times> 'i) \<Rightarrow> ('m \<Rightarrow> byte list option)
    \<Rightarrow> (byte list option \<Rightarrow> 'm \<Rightarrow> 'm) \<Rightarrow> 'i \<Rightarrow> 'm \<Rightarrow> (bool \<times> 'i \<times> 'm) res" where
  "read_string rd get put i m =
     (let (ok, v, i1) = rd i (value_or [] (get m)) in Inr (ok, i1, put (Some v) m))"

definition read_enum :: "('i, 'u) wire \<Rightarrow> (int \<Rightarrow> bool) \<Rightarrow> (int option \<Rightarrow> 'm \<Rightarrow> 'm) \<Rightarrow> (int \<Rightarrow> 'm \<Rightarrow> 'm)
    \<Rightarrow> 'i \<Rightarrow> 'm \<Rightarrow> (bool \<times> 'i \<times> 'm) res" where
  "read_enum W is_valid put unknown i m =
     (case w_ReadEnum W i of
        None \<Rightarrow> Inr (False, i, m)
      | Some (v, i1) \<Rightarrow> Inr (True, i1, if is_valid v then put (Some v) m else unknown v m))"

text \<open>\<open>merge\<close> is \<open>MergePartialFromCodedStream\<close> of the element's class, \<open>add\<close> appends the element.\<close>

definition read_message :: "('i, 'u) wire \<Rightarrow> ('i \<Rightarrow> 's \<Rightarrow> (bool \<times> 'i \<times> 's) res) \<Rightarrow> 's \<Rightarrow> ('s \<Rightarrow> 'm \<Rightarrow> 'm)
    \<Rightarrow> 'i \<Rightarrow> 'm \<Rightarrow> (bool \<times> 'i \<times> 'm) res" where
  "read_message W merge new add i m =
     (case w_SubMessage W i of
        None \<Rightarrow> Inr (False, i, add new m)
      | Some (i1, behind) \<Rightarrow>
          res_bind (merge i1 new) (\<lambda>(ok, i2, s).
            if ok \<and> w_ConsumedEntireMessage W i2 then Inr (True, behind, add s m) else Inr (False, i2, add s m)))"

text \<open>
  The serialisers write a sequence of fields, each if its has bit is set; \<open>ByteSize\<close> adds the sizes of
  fields in groups of eight that it enters if one of the group's has bits is set.
\<close>

definition write_fields :: "(bool \<times> byte list) list \<Rightarrow> byte list" where
  "write_fields ps = concat (map (\<lambda>(b, bs). if b then bs else []) ps)"

definition size_group :: "(bool \<times> int) list \<Rightarrow> int" where
  "size_group ps = (if \<exists>(b, n) \<in> set ps. b then sum_list (map (\<lambda>(b, n). if b then n else 0) ps) else 0)"

text \<open>
  \<open>MergeFrom\<close> sets every field whose has bit is set in the other message; \<open>IsInitialized\<close> compares the
  has bits with the mask of the required fields.
\<close>

definition merge_value :: "'a \<Rightarrow> 'a option \<Rightarrow> 'a option \<Rightarrow> 'a option" where
  "merge_value d x y = (if has x then Some (value_or d x) else y)"

definition has_bits :: "bool list \<Rightarrow> 32 word" where
  "has_bits bs = horner_sum of_bool 2 bs"

text \<open>
  The methods \<open>ParseFromArray\<close> and \<open>SerializeToArray\<close> that every class inherits from
  \<open>Message\<close>: parsing clears the message, merges the bytes, and demands that they are consumed and
  all required fields are there; serialising refuses a buffer that is too small.
\<close>

definition parse_message :: "('i, 'u) wire \<Rightarrow> ('i \<Rightarrow> 'm \<Rightarrow> (bool \<times> 'i \<times> 'm) res) \<Rightarrow> ('m \<Rightarrow> bool) \<Rightarrow> 'm
    \<Rightarrow> byte list \<Rightarrow> (bool \<times> 'm) res" where
  "parse_message W merge initialized new bs =
     res_bind (merge (w_open W bs) new) (\<lambda>(ok, i, m). Inr (ok \<and> w_ConsumedEntireMessage W i \<and> initialized m, m))"

text \<open>How often the loop can run: a tag is read before every field.\<close>

definition merge_fuel :: "('i, 'u) wire \<Rightarrow> 'i \<Rightarrow> nat" where
  "merge_fuel W i = 2 * w_left W i + 2"

section \<open>The contract of the library\<close>

text \<open>
  \<open>At i bs\<close> says that the bytes \<open>bs\<close> are left on a stream. \<open>emits W At t bs rd\<close>: the bytes \<open>bs\<close> are a
  field with tag \<open>t\<close>; reading its tag, or expecting it, leads to a stream of which \<open>rd\<close> holds, and
  expecting another tag changes nothing.
\<close>

definition emits :: "('i, 'u) wire \<Rightarrow> ('i \<Rightarrow> byte list \<Rightarrow> bool) \<Rightarrow> nat \<Rightarrow> byte list \<Rightarrow> ('i \<Rightarrow> byte list \<Rightarrow> bool) \<Rightarrow> bool"
  where
  "emits W At t bs rd \<longleftrightarrow> (\<forall>i rest. At i (bs @ rest) \<longrightarrow>
     (\<exists>i1. w_ReadTag W i = (t, i1) \<and> w_left W i1 < w_left W i \<and> rd i1 rest)
     \<and> \<not> fst (w_ExpectAtEnd W i) \<and> snd (w_ExpectAtEnd W i) = i
     \<and> (\<forall>t'. case w_ExpectTag W t' i of (b, i1) \<Rightarrow>
          if b then t' = t \<and> w_left W i1 < w_left W i \<and> rd i1 rest else i1 = i))"

definition reads :: "('i, 'u) wire \<Rightarrow> ('i \<Rightarrow> byte list \<Rightarrow> bool) \<Rightarrow> ('i \<Rightarrow> ('v \<times> 'i) option) \<Rightarrow> 'v \<Rightarrow> 'i \<Rightarrow> byte list \<Rightarrow> bool"
  where
  "reads W At rd v i rest \<longleftrightarrow> (\<exists>i1. rd i = Some (v, i1) \<and> At i1 rest \<and> w_left W i1 \<le> w_left W i)"

definition reads_string :: "('i, 'u) wire \<Rightarrow> ('i \<Rightarrow> byte list \<Rightarrow> bool) \<Rightarrow> ('i \<Rightarrow> byte list \<Rightarrow> bool \<times> byte list \<times> 'i)
    \<Rightarrow> byte list \<Rightarrow> 'i \<Rightarrow> byte list \<Rightarrow> bool" where
  "reads_string W At rd v i rest \<longleftrightarrow> (\<forall>old. \<exists>i1. rd i old = (True, v, i1) \<and> At i1 rest \<and> w_left W i1 \<le> w_left W i)"

definition enters :: "('i, 'u) wire \<Rightarrow> ('i \<Rightarrow> byte list \<Rightarrow> bool) \<Rightarrow> byte list \<Rightarrow> 'i \<Rightarrow> byte list \<Rightarrow> bool" where
  "enters W At bs i rest \<longleftrightarrow> (\<exists>i1 behind. w_SubMessage W i = Some (i1, behind) \<and> At i1 bs \<and> At behind rest
     \<and> w_left W behind \<le> w_left W i)"

text \<open>
  Field numbers here are below 16, for which a tag takes one byte. \<open>VARINT\<close> is wire type 0 and
  \<open>LENGTH_DELIMITED\<close> is 2. Strings and messages are shorter than \<open>2 ^ 31\<close> bytes.
\<close>

definition wire_ok :: "('i, 'u) wire \<Rightarrow> ('i \<Rightarrow> byte list \<Rightarrow> bool) \<Rightarrow> bool" where
  "wire_ok W At \<longleftrightarrow> (\<forall>bs. At (w_open W bs) bs)
     \<and> (\<forall>i. At i [] \<longrightarrow> (\<exists>i1. w_ReadTag W i = (0, i1) \<and> w_ConsumedEntireMessage W i1)
          \<and> (\<forall>t. \<not> fst (w_ExpectTag W t i) \<and> snd (w_ExpectTag W t i) = i)
          \<and> (case w_ExpectAtEnd W i of (b, i1) \<Rightarrow> if b then w_ConsumedEntireMessage W i1 else i1 = i))
     \<and> (\<forall>n v. 0 < n \<longrightarrow> n < 16 \<longrightarrow> in_i32 v \<longrightarrow> emits W At (8 * n) (w_WriteInt32 W n v) (reads W At (w_ReadInt32 W) v))
     \<and> (\<forall>n v. 0 < n \<longrightarrow> n < 16 \<longrightarrow> in_i32 v \<longrightarrow> emits W At (8 * n) (w_WriteEnum W n v) (reads W At (w_ReadEnum W) v))
     \<and> (\<forall>n v. 0 < n \<longrightarrow> n < 16 \<longrightarrow> emits W At (8 * n) (w_WriteBool W n v) (reads W At (w_ReadBool W) v))
     \<and> (\<forall>n v. 0 < n \<longrightarrow> n < 16 \<longrightarrow> length v < 2147483648 \<longrightarrow>
          emits W At (8 * n + 2) (w_WriteString W n v) (reads_string W At (w_ReadString W) v))
     \<and> (\<forall>n v. 0 < n \<longrightarrow> n < 16 \<longrightarrow> length v < 2147483648 \<longrightarrow>
          emits W At (8 * n + 2) (w_WriteBytes W n v) (reads_string W At (w_ReadBytes W) v))
     \<and> (\<forall>n bs. 0 < n \<longrightarrow> n < 16 \<longrightarrow> length bs < 2147483648 \<longrightarrow>
          emits W At (8 * n + 2) (w_WriteMessage W n (int (length bs)) bs) (enters W At bs))"

text \<open>The sizes, which do not depend on the stream.\<close>

definition sizes_ok :: "('i, 'u) wire \<Rightarrow> bool" where
  "sizes_ok W \<longleftrightarrow> (\<forall>n. 0 < n \<longrightarrow> n < 16 \<longrightarrow>
       (\<forall>v. in_i32 v \<longrightarrow> int (length (w_WriteInt32 W n v)) = 1 + w_Int32Size W v)
     \<and> (\<forall>v. in_i32 v \<longrightarrow> int (length (w_WriteEnum W n v)) = 1 + w_EnumSize W v)
     \<and> (\<forall>v. int (length (w_WriteBool W n v)) = 1 + 1)
     \<and> (\<forall>v. length v < 2147483648 \<longrightarrow> int (length (w_WriteString W n v)) = 1 + w_StringSize W v)
     \<and> (\<forall>v. length v < 2147483648 \<longrightarrow> int (length (w_WriteBytes W n v)) = 1 + w_BytesSize W v)
     \<and> (\<forall>v. length v < 2147483648 \<longrightarrow>
          int (length (w_WriteMessage W n (int (length v)) v)) = 1 + w_MessageSize W (int (length v))))
     \<and> (\<forall>u. u \<noteq> [] \<longrightarrow> int (length (w_WriteUnknown W u)) = w_UnknownSize W u)"

text \<open>No read gives bytes back: the loop of a parser ends.\<close>

definition wire_ends :: "('i, 'u) wire \<Rightarrow> bool" where
  "wire_ends W \<longleftrightarrow>
     (\<forall>i t i1. w_ReadTag W i = (t, i1) \<longrightarrow> w_left W i1 \<le> w_left W i \<and> (t \<noteq> 0 \<longrightarrow> w_left W i1 < w_left W i))
     \<and> (\<forall>t i b i1. w_ExpectTag W t i = (b, i1) \<longrightarrow> w_left W i1 \<le> w_left W i \<and> (b \<longrightarrow> w_left W i1 < w_left W i))
     \<and> (\<forall>i b i1. w_ExpectAtEnd W i = (b, i1) \<longrightarrow> w_left W i1 \<le> w_left W i)
     \<and> (\<forall>i v i1. w_ReadInt32 W i = Some (v, i1) \<longrightarrow> w_left W i1 \<le> w_left W i)
     \<and> (\<forall>i v i1. w_ReadEnum W i = Some (v, i1) \<longrightarrow> w_left W i1 \<le> w_left W i)
     \<and> (\<forall>i v i1. w_ReadBool W i = Some (v, i1) \<longrightarrow> w_left W i1 \<le> w_left W i)
     \<and> (\<forall>i old v i1. w_ReadString W i old = (True, v, i1) \<longrightarrow> w_left W i1 \<le> w_left W i)
     \<and> (\<forall>i old v i1. w_ReadBytes W i old = (True, v, i1) \<longrightarrow> w_left W i1 \<le> w_left W i)
     \<and> (\<forall>i i1 j. w_SubMessage W i = Some (i1, j) \<longrightarrow> w_left W j \<le> w_left W i)
     \<and> (\<forall>t i u v i1. w_SkipField W t i u = (True, v, i1) \<longrightarrow> w_left W i1 \<le> w_left W i)"

section \<open>Parsing what was serialised\<close>

text \<open>\<open>piece c bs m m'\<close>: the bytes are a field that the case \<open>c\<close> reads, which turns \<open>m\<close> into \<open>m'\<close>.\<close>

definition piece :: "('i, 'u) wire \<Rightarrow> ('i \<Rightarrow> byte list \<Rightarrow> bool) \<Rightarrow> ('i, 'm) field_case \<Rightarrow> byte list \<Rightarrow> 'm \<Rightarrow> 'm \<Rightarrow> bool"
  where
  "piece W At c bs m m' \<longleftrightarrow> emits W At (8 * fc_number c + fc_wiretype c) bs (\<lambda>i rest.
     \<exists>i1. fc_read c i m = Inr (True, i1, m') \<and> At i1 rest \<and> w_left W i1 \<le> w_left W i)"

text \<open>A list of cases is well-formed if every label that is jumped to is the one of the expected tag.\<close>

definition case_ok :: "('i, 'm) field_case list \<Rightarrow> ('i, 'm) field_case \<Rightarrow> bool" where
  "case_ok cs c \<longleftrightarrow> 0 < fc_number c \<and> fc_wiretype c < 8
     \<and> (\<forall>(t, n) \<in> set (fc_next c). \<exists>c'. field_of n cs = Some c' \<and> t = 8 * n + fc_wiretype c')"

definition cases_ok :: "('i, 'm) field_case list \<Rightarrow> bool" where
  "cases_ok cs \<longleftrightarrow> distinct (map fc_number cs) \<and> (\<forall>c \<in> set cs. case_ok cs c)"

inductive fed :: "('i, 'u) wire \<Rightarrow> ('i \<Rightarrow> byte list \<Rightarrow> bool) \<Rightarrow> ('i, 'm) field_case list \<Rightarrow> 'm \<Rightarrow> byte list \<Rightarrow> 'm \<Rightarrow> bool"
  for W At cs where
  fed_nothing: "fed W At cs m [] m"
| fed_piece: "c \<in> set cs \<Longrightarrow> piece W At c bs m m1 \<Longrightarrow> fed W At cs m1 bs' m2 \<Longrightarrow> fed W At cs m (bs @ bs') m2"

lemma fed_append: "fed W At cs m bs m1 \<Longrightarrow> fed W At cs m1 bs' m2 \<Longrightarrow> fed W At cs m (bs @ bs') m2"
  by (induction rule: fed.induct) (auto intro: fed_piece)

lemma field_of_mem: "distinct (map fc_number cs) \<Longrightarrow> c \<in> set cs \<Longrightarrow> field_of (fc_number c) cs = Some c"
  by (induction cs) (auto simp: rev_image_eqI)

lemma field_of_number: "field_of n cs = Some c \<Longrightarrow> fc_number c = n \<and> c \<in> set cs"
  by (induction cs) (auto split: if_splits)

lemma expect_unchanged:
  assumes "\<forall>t. \<not> fst (w_ExpectTag W t i) \<and> snd (w_ExpectTag W t i) = i"
  shows "expect_tags W ts i = (None, i)"
  using assms by (induction ts) (auto split: prod.splits, metis fst_conv, metis snd_conv)

lemma emits_head:
  assumes "emits W At t bs rd" "At i (bs @ rest)"
  shows "\<exists>i1. w_ReadTag W i = (t, i1) \<and> w_left W i1 < w_left W i \<and> rd i1 rest"
    and "\<not> fst (w_ExpectAtEnd W i)" "snd (w_ExpectAtEnd W i) = i"
  using assms(1) [unfolded emits_def, rule_format, OF assms(2)] by simp_all

lemma emits_expect:
  assumes "emits W At t bs rd" "At i (bs @ rest)" "w_ExpectTag W t' i = (b, i1)"
  shows "if b then t' = t \<and> w_left W i1 < w_left W i \<and> rd i1 rest else i1 = i"
proof -
  have "case w_ExpectTag W t' i of (b, i1) \<Rightarrow> if b then t' = t \<and> w_left W i1 < w_left W i \<and> rd i1 rest else i1 = i"
    using assms(1) [unfolded emits_def, rule_format, OF assms(2)] by (elim conjE) (erule spec)
  then show ?thesis by (simp only: assms(3) prod.case)
qed

lemma wire_end:
  assumes "wire_ok W At" "At i []"
  shows "\<exists>i1. w_ReadTag W i = (0, i1) \<and> w_ConsumedEntireMessage W i1"
    and "\<forall>t. \<not> fst (w_ExpectTag W t i) \<and> snd (w_ExpectTag W t i) = i"
    and "case w_ExpectAtEnd W i of (b, i1) \<Rightarrow> if b then w_ConsumedEntireMessage W i1 else i1 = i"
  using conjunct1 [OF conjunct2 [OF assms(1) [unfolded wire_ok_def]], rule_format, OF assms(2)]
  by simp_all

lemma expect_emitted:
  assumes "emits W At t bs rd" "At i (bs @ rest)" "\<forall>(t', n) \<in> set ts. t' = t \<longrightarrow> n = k"
  shows "expect_tags W ts i = (None, i)
    \<or> (\<exists>i1. expect_tags W ts i = (Some k, i1) \<and> w_left W i1 < w_left W i \<and> rd i1 rest)"
  using assms(3)
proof (induction ts)
  case (Cons p ts)
  obtain t' n where p: "p = (t', n)" by (cases p)
  obtain b i1 where e: "w_ExpectTag W t' i = (b, i1)" by (cases "w_ExpectTag W t' i")
  have x: "if b then t' = t \<and> w_left W i1 < w_left W i \<and> rd i1 rest else i1 = i"
    by (rule emits_expect [OF assms(1,2) e])
  show ?case
  proof (cases b)
    case True
    then have "expect_tags W (p # ts) i = (Some k, i1)" using Cons.prems p e x by simp
    then show ?thesis using x True by (intro disjI2 exI [of _ i1]) simp
  next
    case False
    then have "expect_tags W (p # ts) i = expect_tags W ts i" using p e x by simp
    moreover have "\<forall>(t', n) \<in> set ts. t' = t \<longrightarrow> n = k" using Cons.prems by simp
    ultimately show ?thesis using Cons.IH by (simp only:)
  qed
qed simp

text \<open>What follows a field: expected tags, perhaps the expected end, otherwise the head of the loop.\<close>

definition after_field :: "('i, 'u) wire \<Rightarrow> ('i, 'm) field_case list \<Rightarrow> (nat \<Rightarrow> 'i \<Rightarrow> 'm \<Rightarrow> (bool \<times> 'i \<times> 'm) res)
    \<Rightarrow> (nat \<times> nat) list \<Rightarrow> bool \<Rightarrow> nat \<Rightarrow> 'i \<Rightarrow> 'm \<Rightarrow> (bool \<times> 'i \<times> 'm) res" where
  "after_field W cs skip ts at_end f i m =
     (let (l, i2) = expect_tags W ts i
      in if l \<noteq> None then merge_loop f W cs skip l i2 m
         else if at_end then
           (let (b, i3) = w_ExpectAtEnd W i2 in if b then Inr (True, i3, m) else merge_loop f W cs skip None i3 m)
         else merge_loop f W cs skip None i2 m)"

lemma merge_label:
  "field_of n cs = Some c \<Longrightarrow> fc_read c i m = Inr (True, i1, m1) \<Longrightarrow>
   merge_loop (Suc f) W cs skip (Some n) i m = after_field W cs skip (fc_next c) (fc_end c) f i1 m1"
  by (simp add: after_field_def)

definition merges :: "('i, 'u) wire \<Rightarrow> (bool \<times> 'i \<times> 'm) res \<Rightarrow> 'm \<Rightarrow> bool" where
  "merges W r m \<longleftrightarrow> (\<exists>i. r = Inr (True, i, m) \<and> w_ConsumedEntireMessage W i)"

definition tags_ok :: "('i, 'm) field_case list \<Rightarrow> (nat \<times> nat) list \<Rightarrow> bool" where
  "tags_ok cs ts \<longleftrightarrow> (\<forall>(t, n) \<in> set ts. \<exists>c. field_of n cs = Some c \<and> t = 8 * n + fc_wiretype c \<and> fc_wiretype c < 8)"

lemma case_tags: "cases_ok cs \<Longrightarrow> c \<in> set cs \<Longrightarrow> tags_ok cs (fc_next c)"
proof -
  assume cs: "cases_ok cs" and c: "c \<in> set cs"
  have "\<exists>c'. field_of n cs = Some c' \<and> t = 8 * n + fc_wiretype c' \<and> fc_wiretype c' < 8" if n: "(t, n) \<in> set (fc_next c)" for t n
  proof -
    obtain c' where c': "field_of n cs = Some c'" "t = 8 * n + fc_wiretype c'"
      using cs c n by (fastforce simp: cases_ok_def case_ok_def)
    then have "case_ok cs c'" using cs field_of_number [OF c'(1)] by (simp add: cases_ok_def)
    then show ?thesis using c' by (simp add: case_ok_def)
  qed
  then show ?thesis by (auto simp: tags_ok_def)
qed

lemma merge_fed:
  assumes "wire_ok W At" "cases_ok cs"
  shows "fed W At cs m bs m' \<Longrightarrow>
    (\<forall>i f. At i bs \<longrightarrow> 2 * w_left W i + 2 \<le> f \<longrightarrow> merges W (merge_loop f W cs skip None i m) m')
    \<and> (\<forall>i f ts e. At i bs \<longrightarrow> tags_ok cs ts \<longrightarrow> 2 * w_left W i + 2 \<le> f \<longrightarrow> merges W (after_field W cs skip ts e f i m) m')"
proof (induction rule: fed.induct)
  case (fed_nothing m)
  note end_of = wire_end [OF assms(1)]
  have 1: "merges W (merge_loop f W cs skip None i m) m" if "At i []" "2 * w_left W i + 2 \<le> f" for i f
    using end_of [OF that(1)] that(2) by (cases f) (auto simp: merges_def)
  have "merges W (after_field W cs skip ts e f i m) m" if "At i []" "2 * w_left W i + 2 \<le> f" for i f ts e
    using end_of [OF that(1)] expect_unchanged [of W i ts] 1 [OF that]
    by (auto simp: after_field_def merges_def split: prod.splits if_splits)
  then show ?case using 1 by blast
next
  case (fed_piece c bs m m1 bs' m2)
  let ?t = "8 * fc_number c + fc_wiretype c"
  let ?rd = "\<lambda>i rest. \<exists>i1. fc_read c i m = Inr (True, i1, m1) \<and> At i1 rest \<and> w_left W i1 \<le> w_left W i"
  have em: "emits W At ?t bs ?rd" using fed_piece.hyps(2) by (simp add: piece_def)
  have c: "case_ok cs c" "field_of (fc_number c) cs = Some c" "tags_ok cs (fc_next c)"
    using assms(2) fed_piece.hyps(1) field_of_mem case_tags by (auto simp: cases_ok_def)
  have label: "merges W (merge_loop f W cs skip (Some (fc_number c)) i m) m2"
    if rd: "?rd i bs'" and f: "2 * w_left W i + 3 \<le> f" for i f
  proof -
    obtain i1 where i1: "fc_read c i m = Inr (True, i1, m1)" "At i1 bs'" "w_left W i1 \<le> w_left W i" using rd by blast
    obtain g where g: "f = Suc g" "2 * w_left W i1 + 2 \<le> g" using f i1(3) by (cases f) auto
    show ?thesis unfolding g(1) merge_label [OF c(2) i1(1)]
      using fed_piece.IH i1(2) c(3) g(2) by blast
  qed
  have head: "merges W (merge_loop f W cs skip None i m) m2" if at: "At i (bs @ bs')" and f: "2 * w_left W i + 2 \<le> f" for i f
  proof -
    obtain i1 where i1: "w_ReadTag W i = (?t, i1)" "w_left W i1 < w_left W i" "?rd i1 bs'"
      using emits_head(1) [OF em at] by blast
    obtain g where g: "f = Suc g" "2 * w_left W i1 + 3 \<le> g" using f i1(2) by (cases f) auto
    have t: "?t \<noteq> 0" "?t div 8 = fc_number c" "?t mod 8 = fc_wiretype c" using c(1) by (auto simp: case_ok_def)
    have "merge_loop f W cs skip None i m = merge_loop g W cs skip (Some (fc_number c)) i1 m"
      using t c(2) by (simp only: g(1) i1(1) merge_loop.simps(2) Let_def prod.case if_False option.case if_True refl)
    then show ?thesis using label [OF i1(3) g(2)] by (simp only:)
  qed
  have "merges W (after_field W cs skip ts e f i m) m2"
    if at: "At i (bs @ bs')" and ts: "tags_ok cs ts" and f: "2 * w_left W i + 2 \<le> f" for i f ts e
  proof -
    have "\<forall>(t', n) \<in> set ts. t' = ?t \<longrightarrow> n = fc_number c"
    proof (intro ballI, clarify)
      fix t' n assume "(?t, n) \<in> set ts"
      then obtain w where "?t = 8 * n + w" "w < 8" using ts by (fastforce simp: tags_ok_def)
      then show "n = fc_number c" using c(1) by (simp add: case_ok_def)
    qed
    from expect_emitted [OF em at this]
    consider "expect_tags W ts i = (None, i)"
      | i1 where "expect_tags W ts i = (Some (fc_number c), i1)" "w_left W i1 < w_left W i" "?rd i1 bs'" by blast
    then show ?thesis
    proof cases
      case 1
      then show ?thesis using emits_head(2,3) [OF em at] head [OF at f] by (simp add: after_field_def split_def Let_def)
    next
      case (2 i1)
      then show ?thesis using label [OF 2(3)] f by (simp add: after_field_def)
    qed
  qed
  then show ?case using head by blast
qed

lemma parse_fed:
  assumes "wire_ok W At" "cases_ok cs" "fed W At cs new bs m" "initialized m"
    and "\<And>i. merge i new = merge_loop (merge_fuel W i) W cs skip None i new"
  shows "parse_message W merge initialized new bs = Inr (True, m)"
proof -
  have "At (w_open W bs) bs" using assms(1) by (simp add: wire_ok_def)
  then have "merges W (merge_loop (merge_fuel W (w_open W bs)) W cs skip None (w_open W bs) new) m"
    using merge_fed [OF assms(1,2,3)] unfolding merge_fuel_def by blast
  then show ?thesis using assms(4,5) by (auto simp: merges_def parse_message_def)
qed

section \<open>The kinds of fields\<close>

definition field_int32 :: "('i, 'u) wire \<Rightarrow> nat \<Rightarrow> (int option \<Rightarrow> 'm \<Rightarrow> 'm) \<Rightarrow> (nat \<times> nat) list \<Rightarrow> bool \<Rightarrow> ('i, 'm) field_case"
  where
  "field_int32 W n put next e = \<lparr>fc_number = n, fc_wiretype = 0, fc_read = read_value (w_ReadInt32 W) put,
     fc_next = next, fc_end = e\<rparr>"

definition field_bool :: "('i, 'u) wire \<Rightarrow> nat \<Rightarrow> (bool option \<Rightarrow> 'm \<Rightarrow> 'm) \<Rightarrow> (nat \<times> nat) list \<Rightarrow> bool \<Rightarrow> ('i, 'm) field_case"
  where
  "field_bool W n put next e = \<lparr>fc_number = n, fc_wiretype = 0, fc_read = read_value (w_ReadBool W) put,
     fc_next = next, fc_end = e\<rparr>"

definition field_enum :: "('i, 'u) wire \<Rightarrow> nat \<Rightarrow> (int \<Rightarrow> bool) \<Rightarrow> (int option \<Rightarrow> 'm \<Rightarrow> 'm) \<Rightarrow> (int \<Rightarrow> 'm \<Rightarrow> 'm)
    \<Rightarrow> (nat \<times> nat) list \<Rightarrow> bool \<Rightarrow> ('i, 'm) field_case" where
  "field_enum W n is_valid put unknown next e = \<lparr>fc_number = n, fc_wiretype = 0,
     fc_read = read_enum W is_valid put unknown, fc_next = next, fc_end = e\<rparr>"

definition field_string :: "('i, 'u) wire \<Rightarrow> nat \<Rightarrow> ('m \<Rightarrow> byte list option) \<Rightarrow> (byte list option \<Rightarrow> 'm \<Rightarrow> 'm) \<Rightarrow> (nat \<times> nat) list \<Rightarrow> bool
    \<Rightarrow> ('i, 'm) field_case" where
  "field_string W n get put next e = \<lparr>fc_number = n, fc_wiretype = 2, fc_read = read_string (w_ReadString W) get put,
     fc_next = next, fc_end = e\<rparr>"

definition field_bytes :: "('i, 'u) wire \<Rightarrow> nat \<Rightarrow> ('m \<Rightarrow> byte list option) \<Rightarrow> (byte list option \<Rightarrow> 'm \<Rightarrow> 'm) \<Rightarrow> (nat \<times> nat) list \<Rightarrow> bool
    \<Rightarrow> ('i, 'm) field_case" where
  "field_bytes W n get put next e = \<lparr>fc_number = n, fc_wiretype = 2, fc_read = read_string (w_ReadBytes W) get put,
     fc_next = next, fc_end = e\<rparr>"

definition field_message :: "('i, 'u) wire \<Rightarrow> nat \<Rightarrow> ('i \<Rightarrow> 's \<Rightarrow> (bool \<times> 'i \<times> 's) res) \<Rightarrow> 's \<Rightarrow> ('s \<Rightarrow> 'm \<Rightarrow> 'm)
    \<Rightarrow> (nat \<times> nat) list \<Rightarrow> bool \<Rightarrow> ('i, 'm) field_case" where
  "field_message W n merge new add next e = \<lparr>fc_number = n, fc_wiretype = 2,
     fc_read = read_message W merge new add, fc_next = next, fc_end = e\<rparr>"

lemma field_simps_of [simp]:
  "fc_number (field_int32 W n put ts e) = n" "fc_number (field_bool W n bput ts e) = n"
  "fc_number (field_enum W n valid put unk ts e) = n" "fc_number (field_string W n get sput ts e) = n"
  "fc_number (field_bytes W n get sput ts e) = n" "fc_number (field_message W n merge new add ts e) = n"
  "fc_wiretype (field_int32 W n put ts e) = 0" "fc_wiretype (field_bool W n bput ts e) = 0"
  "fc_wiretype (field_enum W n valid put unk ts e) = 0" "fc_wiretype (field_string W n get sput ts e) = 2"
  "fc_wiretype (field_bytes W n get sput ts e) = 2" "fc_wiretype (field_message W n merge new add ts e) = 2"
  "fc_next (field_int32 W n put ts e) = ts" "fc_next (field_bool W n bput ts e) = ts"
  "fc_next (field_enum W n valid put unk ts e) = ts" "fc_next (field_string W n get sput ts e) = ts"
  "fc_next (field_bytes W n get sput ts e) = ts" "fc_next (field_message W n merge new add ts e) = ts"
  by (simp_all add: field_int32_def field_bool_def field_enum_def field_string_def field_bytes_def field_message_def)

text \<open>Values that their kind can carry.\<close>

definition int_ok :: "int option \<Rightarrow> bool" where
  "int_ok x \<longleftrightarrow> (\<forall>v. x = Some v \<longrightarrow> in_i32 v)"

definition enum_ok :: "(int \<Rightarrow> bool) \<Rightarrow> int option \<Rightarrow> bool" where
  "enum_ok is_valid x \<longleftrightarrow> (\<forall>v. x = Some v \<longrightarrow> in_i32 v \<and> is_valid v)"

definition str_ok :: "byte list option \<Rightarrow> bool" where
  "str_ok x \<longleftrightarrow> (\<forall>v. x = Some v \<longrightarrow> length v < 2147483648)"

lemma field_of_mem': "field_of n cs = Some c \<Longrightarrow> c \<in> set cs"
  using field_of_number by blast

lemma emits_weaken: "emits W At t bs rd \<Longrightarrow> (\<And>i rest. rd i rest \<Longrightarrow> rd' i rest) \<Longrightarrow> emits W At t bs rd'"
  unfolding emits_def by (fastforce split: prod.splits)

lemma piece_value:
  assumes "emits W At (8 * fc_number c + fc_wiretype c) bs (reads W At rd v)" "fc_read c = read_value rd put"
  shows "piece W At c bs m (put (Some v) m)"
  unfolding piece_def by (rule emits_weaken [OF assms(1)]) (auto simp: reads_def assms(2) read_value_def)

lemma piece_string:
  assumes "emits W At (8 * fc_number c + fc_wiretype c) bs (reads_string W At rd v)" "fc_read c = read_string rd get put"
  shows "piece W At c bs m (put (Some v) m)"
  unfolding piece_def
proof (rule emits_weaken [OF assms(1)])
  fix i rest assume "reads_string W At rd v i rest"
  then obtain i1 where "rd i (value_or [] (get m)) = (True, v, i1)" "At i1 rest" "w_left W i1 \<le> w_left W i"
    unfolding reads_string_def by blast
  then show "\<exists>i1. fc_read c i m = Inr (True, i1, put (Some v) m) \<and> At i1 rest \<and> w_left W i1 \<le> w_left W i"
    by (simp add: assms(2) read_string_def)
qed

lemma fed_optional:
  assumes "field_of n cs = Some c" "put None m = m" "\<forall>v. x = Some v \<longrightarrow> piece W At c bs m (put (Some v) m)"
    and "fed W At cs (put x m) (write_fields ps) m'"
  shows "fed W At cs m (write_fields ((has x, bs) # ps)) m'"
proof (cases x)
  case None
  then show ?thesis using assms(2,4) by (simp add: write_fields_def has_def)
next
  case (Some v)
  then have "fed W At cs m (bs @ write_fields ps) m'"
    using assms by (intro fed_piece [OF field_of_mem' [OF assms(1)]]) auto
  then show ?thesis using Some by (simp add: write_fields_def has_def)
qed

lemma fed_int32:
  assumes "wire_ok W At" "field_of n cs = Some (field_int32 W n put ts e)" "put None m = m" "int_ok x" "0 < n \<and> n < 16"
    and "fed W At cs (put x m) (write_fields ps) m'"
  shows "fed W At cs m (write_fields ((has x, w_WriteInt32 W n (value_or d x)) # ps)) m'"
proof (rule fed_optional [where put = put and x = x, OF assms(2,3) _ assms(6)], intro allI impI)
  fix v assume "x = Some v"
  then have "emits W At (8 * n) (w_WriteInt32 W n (value_or d x)) (reads W At (w_ReadInt32 W) v)"
    using assms(1,4,5) by (simp add: wire_ok_def int_ok_def)
  then show "piece W At (field_int32 W n put ts e) (w_WriteInt32 W n (value_or d x)) m (put (Some v) m)"
    by (intro piece_value [where rd = "w_ReadInt32 W"]) (simp_all add: field_int32_def)
qed

lemma fed_bool:
  assumes "wire_ok W At" "field_of n cs = Some (field_bool W n put ts e)" "put None m = m" "0 < n \<and> n < 16"
    and "fed W At cs (put x m) (write_fields ps) m'"
  shows "fed W At cs m (write_fields ((has x, w_WriteBool W n (value_or d x)) # ps)) m'"
proof (rule fed_optional [where put = put and x = x, OF assms(2,3) _ assms(5)], intro allI impI)
  fix v assume "x = Some v"
  then have "emits W At (8 * n) (w_WriteBool W n (value_or d x)) (reads W At (w_ReadBool W) v)"
    using assms(1,4) by (simp add: wire_ok_def)
  then show "piece W At (field_bool W n put ts e) (w_WriteBool W n (value_or d x)) m (put (Some v) m)"
    by (intro piece_value [where rd = "w_ReadBool W"]) (simp_all add: field_bool_def)
qed

lemma fed_enum:
  assumes "wire_ok W At" "field_of n cs = Some (field_enum W n valid put unk ts e)" "put None m = m" "enum_ok valid x"
    and "0 < n \<and> n < 16" "fed W At cs (put x m) (write_fields ps) m'"
  shows "fed W At cs m (write_fields ((has x, w_WriteEnum W n (value_or d x)) # ps)) m'"
proof (rule fed_optional [where put = put and x = x, OF assms(2,3) _ assms(6)], intro allI impI)
  fix v assume v: "x = Some v"
  then have em: "emits W At (8 * n) (w_WriteEnum W n (value_or d x)) (reads W At (w_ReadEnum W) v)"
    using assms(1,4,5) by (simp add: wire_ok_def enum_ok_def)
  have "valid v" using assms(4) v by (simp add: enum_ok_def)
  show "piece W At (field_enum W n valid put unk ts e) (w_WriteEnum W n (value_or d x)) m (put (Some v) m)"
    unfolding piece_def
  proof (rule emits_weaken [where rd = "reads W At (w_ReadEnum W) v"])
    fix i rest assume "reads W At (w_ReadEnum W) v i rest"
    then show "\<exists>i1. fc_read (field_enum W n valid put unk ts e) i m = Inr (True, i1, put (Some v) m)
        \<and> At i1 rest \<and> w_left W i1 \<le> w_left W i"
      using \<open>valid v\<close> by (auto simp: field_enum_def reads_def read_enum_def)
  qed (use em in simp)
qed

lemma fed_string:
  assumes "wire_ok W At" "field_of n cs = Some (field_string W n get put ts e)" "put None m = m" "str_ok x" "0 < n \<and> n < 16"
    and "fed W At cs (put x m) (write_fields ps) m'"
  shows "fed W At cs m (write_fields ((has x, w_WriteString W n (value_or d x)) # ps)) m'"
proof (rule fed_optional [where put = put and x = x, OF assms(2,3) _ assms(6)], intro allI impI)
  fix v assume "x = Some v"
  then have "emits W At (8 * n + 2) (w_WriteString W n (value_or d x)) (reads_string W At (w_ReadString W) v)"
    using assms(1,4,5) by (simp add: wire_ok_def str_ok_def)
  then show "piece W At (field_string W n get put ts e) (w_WriteString W n (value_or d x)) m (put (Some v) m)"
    by (intro piece_string [where rd = "w_ReadString W" and get = get]) (simp_all add: field_string_def)
qed

lemma fed_bytes:
  assumes "wire_ok W At" "field_of n cs = Some (field_bytes W n get put ts e)" "put None m = m" "str_ok x" "0 < n \<and> n < 16"
    and "fed W At cs (put x m) (write_fields ps) m'"
  shows "fed W At cs m (write_fields ((has x, w_WriteBytes W n (value_or d x)) # ps)) m'"
proof (rule fed_optional [where put = put and x = x, OF assms(2,3) _ assms(6)], intro allI impI)
  fix v assume "x = Some v"
  then have "emits W At (8 * n + 2) (w_WriteBytes W n (value_or d x)) (reads_string W At (w_ReadBytes W) v)"
    using assms(1,4,5) by (simp add: wire_ok_def str_ok_def)
  then show "piece W At (field_bytes W n get put ts e) (w_WriteBytes W n (value_or d x)) m (put (Some v) m)"
    by (intro piece_string [where rd = "w_ReadBytes W" and get = get]) (simp_all add: field_bytes_def)
qed

text \<open>A repeated field: the elements are read one by one and appended.\<close>

definition element_ok :: "('i, 'u) wire \<Rightarrow> ('i \<Rightarrow> byte list \<Rightarrow> bool) \<Rightarrow> ('i \<Rightarrow> 's \<Rightarrow> (bool \<times> 'i \<times> 's) res) \<Rightarrow> 's
    \<Rightarrow> ('s \<Rightarrow> byte list) \<Rightarrow> ('s \<Rightarrow> int) \<Rightarrow> 's \<Rightarrow> bool" where
  "element_ok W At merge new ser bsize s \<longleftrightarrow> (\<forall>i. At i (ser s) \<longrightarrow> merges W (merge i new) s)
     \<and> bsize s = int (length (ser s)) \<and> length (ser s) < 2147483648"

lemma fed_messages:
  assumes "wire_ok W At" "field_of n cs = Some (field_message W n merge new add ts e)" "put [] m = m"
    and "\<forall>xs s. add s (put xs m) = put (xs @ [s]) m" "\<forall>s \<in> set ss. element_ok W At merge new ser bsize s" "0 < n \<and> n < 16"
    and "fed W At cs (put ss m) (write_fields ps) m'"
  shows "fed W At cs m (write_fields ((True, concat (map (\<lambda>s. w_WriteMessage W n (bsize s) (ser s)) ss)) # ps)) m'"
proof -
  have "fed W At cs (put xs m) (concat (map (\<lambda>s. w_WriteMessage W n (bsize s) (ser s)) ss)) (put (xs @ ss) m)" for xs
    using assms(5)
  proof (induction ss arbitrary: xs)
    case (Cons s ss)
    then have s: "element_ok W At merge new ser bsize s" by simp
    let ?c = "field_message W n merge new add ts e"
    have em: "emits W At (8 * n + 2) (w_WriteMessage W n (bsize s) (ser s)) (enters W At (ser s))"
      using assms(1,6) s by (simp add: wire_ok_def element_ok_def)
    have "piece W At ?c (w_WriteMessage W n (bsize s) (ser s)) (put xs m) (put (xs @ [s]) m)"
      unfolding piece_def
    proof (rule emits_weaken [where rd = "enters W At (ser s)"])
      show "emits W At (8 * fc_number ?c + fc_wiretype ?c) (w_WriteMessage W n (bsize s) (ser s)) (enters W At (ser s))"
        using em by simp
    next
      fix i rest assume "enters W At (ser s) i rest"
      then obtain i1 j where i1: "w_SubMessage W i = Some (i1, j)" "At i1 (ser s)" "At j rest" "w_left W j \<le> w_left W i"
        by (auto simp: enters_def)
      then obtain i2 where "merge i1 new = Inr (True, i2, s)" "w_ConsumedEntireMessage W i2"
        using s by (auto simp: element_ok_def merges_def)
      then show "\<exists>i1. fc_read ?c i (put xs m) = Inr (True, i1, put (xs @ [s]) m) \<and> At i1 rest \<and> w_left W i1 \<le> w_left W i"
        using i1 assms(4) by (simp add: field_message_def read_message_def)
    qed
    from fed_piece [OF field_of_mem' [OF assms(2)] this Cons.IH [of "xs @ [s]"]] Cons.prems show ?case by simp
  qed (simp add: fed_nothing)
  from this [of "[]"] have "fed W At cs m (concat (map (\<lambda>s. w_WriteMessage W n (bsize s) (ser s)) ss)) (put ss m)"
    by (simp only: append_Nil assms(3))
  from fed_append [OF this assms(7)] show ?thesis by (simp add: write_fields_def)
qed

lemma fed_done: "fed W At cs m (write_fields [(False, bs)]) m"
  by (simp add: write_fields_def fed_nothing)

lemma fed_eq: "fed W At cs m bs m1 \<Longrightarrow> m1 = m2 \<Longrightarrow> fed W At cs m bs m2"
  by simp

text \<open>The sizes.\<close>

lemma size_group_sum: "size_group ps = sum_list (map (\<lambda>(b, n). if b then n else 0) ps)"
proof (cases "\<exists>(b, n) \<in> set ps. b")
  case False
  have "\<forall>(b, n) \<in> set ps. \<not> b \<Longrightarrow> sum_list (map (\<lambda>(b, n). if b then n else 0) ps) = 0" by (induction ps) auto
  moreover have "\<forall>(b, n) \<in> set ps. \<not> b" using False by blast
  ultimately show ?thesis by (simp only: size_group_def False if_False)
next
  case True
  then show ?thesis by (simp only: size_group_def if_True)
qed

lemma length_write_fields:
  "int (length (write_fields ps)) = sum_list (map (\<lambda>(b, bs). if b then int (length bs) else 0) ps)"
  by (induction ps) (auto simp: write_fields_def)

section \<open>Parsing ends\<close>

text \<open>A read that ends and gives no bytes back.\<close>

definition read_ends :: "('i, 'u) wire \<Rightarrow> ('i \<Rightarrow> 'm \<Rightarrow> (bool \<times> 'i \<times> 'm) res) \<Rightarrow> bool" where
  "read_ends W rd \<longleftrightarrow> (\<forall>i m. \<exists>ok i1 m1. rd i m = Inr (ok, i1, m1) \<and> (ok \<longrightarrow> w_left W i1 \<le> w_left W i))"

lemma read_endsE:
  assumes "read_ends W rd"
  obtains ok i1 m1 where "rd i m = Inr (ok, i1, m1)" "ok \<Longrightarrow> w_left W i1 \<le> w_left W i"
  using assms unfolding read_ends_def by blast

lemma expect_left:
  assumes "wire_ends W"
  shows "expect_tags W ts i = (l, i1) \<Longrightarrow> w_left W i1 \<le> w_left W i \<and> (l \<noteq> None \<longrightarrow> w_left W i1 < w_left W i)"
proof (induction ts arbitrary: i)
  case (Cons p ts)
  obtain t n b i2 where e: "p = (t, n)" "w_ExpectTag W t i = (b, i2)" by (cases p; cases "w_ExpectTag W (fst p) i") auto
  have "w_left W i2 \<le> w_left W i" "b \<Longrightarrow> w_left W i2 < w_left W i"
    using conjunct1 [OF conjunct2 [OF assms [unfolded wire_ends_def]], rule_format, OF e(2)] by blast+
  then show ?case using Cons.IH [of i2] Cons.prems e by (fastforce split: if_splits)
qed simp

lemma expect_label: "expect_tags W ts i = (Some n, i1) \<Longrightarrow> \<exists>t. (t, n) \<in> set ts"
  by (induction ts arbitrary: i) (auto split: prod.splits if_splits, metis+)

lemma merge_ends:
  assumes "wire_ends W" "cases_ok cs" "\<forall>c \<in> set cs. read_ends W (fc_read c)" "\<forall>t. read_ends W (skip t)"
  shows "(case l of None \<Rightarrow> 2 * w_left W i + 2 | Some n \<Rightarrow> 2 * w_left W i + 3) \<le> f \<Longrightarrow>
    (\<forall>n. l = Some n \<longrightarrow> field_of n cs \<noteq> None) \<Longrightarrow> \<exists>r. merge_loop f W cs skip l i m = Inr r"
proof (induction f arbitrary: l i m)
  case (Suc f)
  show ?case
  proof (cases l)
    case None
    obtain t i1 where t: "w_ReadTag W i = (t, i1)" by (cases "w_ReadTag W i")
    show ?thesis
    proof (cases "t = 0")
      case False
      have lt: "w_left W i1 < w_left W i"
        using conjunct1 [OF assms(1) [unfolded wire_ends_def], rule_format, OF t] False by blast
      have label: "field_of n cs \<noteq> None \<Longrightarrow> \<exists>r. merge_loop f W cs skip (Some n) i1 m = Inr r" for n
        using Suc.IH [where l = "Some n" and i = i1 and m = m] Suc.prems None lt by simp
      obtain ok i2 m1 where s: "skip t i1 m = Inr (ok, i2, m1)" "ok \<Longrightarrow> w_left W i2 \<le> w_left W i1"
        by (rule read_endsE [OF spec [OF assms(4), of t], of i1 m]) blast
      have skip: "ok \<Longrightarrow> \<exists>r. merge_loop f W cs skip None i2 m1 = Inr r"
        using Suc.IH [where l = None and i = i2 and m = m1] Suc.prems None lt s(2) by simp
      show ?thesis
        using t False label [of "t div 8"] skip by (cases "field_of (t div 8) cs") (auto simp: None s(1))
    qed (auto simp: None t)
  next
    case (Some n)
    then obtain c where c: "field_of n cs = Some c" using Suc.prems by auto
    have rc: "read_ends W (fc_read c)" using assms(3) field_of_number [OF c] by blast
    obtain ok i1 m1 where r: "fc_read c i m = Inr (ok, i1, m1)" "ok \<Longrightarrow> w_left W i1 \<le> w_left W i"
      by (rule read_endsE [OF rc, of i m]) blast
    obtain k i2 where k: "expect_tags W (fc_next c) i1 = (k, i2)" by (cases "expect_tags W (fc_next c) i1")
    obtain b i3 where b: "w_ExpectAtEnd W i2 = (b, i3)" by (cases "w_ExpectAtEnd W i2")
    note e = expect_left [OF assms(1) k]
    have b3: "w_left W i3 \<le> w_left W i2"
      using conjunct1 [OF conjunct2 [OF conjunct2 [OF assms(1) [unfolded wire_ends_def]]], rule_format, OF b] .
    have 1: "ok \<Longrightarrow> \<exists>r. merge_loop f W cs skip None i2 m1 = Inr r" "ok \<Longrightarrow> \<exists>r. merge_loop f W cs skip None i3 m1 = Inr r"
      using Suc.IH [where l = None] Suc.prems \<open>l = Some n\<close> r(2) e b3 by auto
    have kn: "field_of n' cs \<noteq> None" if kn: "k = Some n'" for n'
    proof -
      obtain t where t: "(t, n') \<in> set (fc_next c)" using expect_label [OF k [unfolded kn]] by blast
      have "tags_ok cs (fc_next c)" using case_tags [OF assms(2)] field_of_number [OF c] by blast
      then show ?thesis using t by (fastforce simp: tags_ok_def)
    qed
    have 2: "ok \<Longrightarrow> k \<noteq> None \<Longrightarrow> \<exists>r. merge_loop f W cs skip k i2 m1 = Inr r"
      using Suc.IH [where l = k and i = i2 and m = m1] Suc.prems \<open>l = Some n\<close> r(2) e kn by (cases k) auto
    show ?thesis using 1 2 by (simp add: \<open>l = Some n\<close> c r(1) k b) blast
  qed
qed (simp split: option.splits)

lemma merge_total:
  "wire_ends W \<Longrightarrow> cases_ok cs \<Longrightarrow> \<forall>c \<in> set cs. read_ends W (fc_read c) \<Longrightarrow> \<forall>t. read_ends W (skip t) \<Longrightarrow>
   \<exists>r. merge_loop (merge_fuel W i) W cs skip None i m = Inr r"
  by (rule merge_ends) (simp_all add: merge_fuel_def)

text \<open>The reads of the fields.\<close>

lemma value_ends:
  "\<forall>i v i1. rd i = Some (v, i1) \<longrightarrow> w_left W i1 \<le> w_left W i \<Longrightarrow> read_ends W (read_value rd put)"
  by (auto simp: read_ends_def read_value_def split: option.split)

lemma string_ends:
  "\<forall>i old v i1. rd i old = (True, v, i1) \<longrightarrow> w_left W i1 \<le> w_left W i \<Longrightarrow> read_ends W (read_string rd get put)"
  unfolding read_ends_def read_string_def Let_def by (auto split: prod.splits)

lemma message_ends:
  assumes "wire_ends W" "\<And>i. \<exists>r. merge i new = Inr r"
  shows "read_ends W (read_message W merge new add)"
  unfolding read_ends_def
proof (intro allI)
  fix i m
  show "\<exists>ok i1 m1. read_message W merge new add i m = Inr (ok, i1, m1) \<and> (ok \<longrightarrow> w_left W i1 \<le> w_left W i)"
  proof (cases "w_SubMessage W i")
    case (Some p)
    obtain i1 behind where p: "p = (i1, behind)" by (cases p)
    have "w_left W behind \<le> w_left W i" using assms(1) Some unfolding p wire_ends_def by blast
    then show ?thesis using assms(2) [of i1] Some by (auto simp: read_message_def p)
  qed (auto simp: read_message_def)
qed

lemma field_ends:
  assumes "wire_ends W"
  shows "read_ends W (fc_read (field_int32 W n iput ts e))" "read_ends W (fc_read (field_bool W n bput ts e))"
    "read_ends W (fc_read (field_string W n get sput ts e))" "read_ends W (fc_read (field_bytes W n get sput ts e))"
    "read_ends W (fc_read (field_enum W n valid iput unk ts e))"
    "(\<And>i. \<exists>r. merge i new = Inr r) \<Longrightarrow> read_ends W (fc_read (field_message W n merge new add ts e))"
    "read_ends W (skip_field W get_unk put t)"
proof -
  note w = assms [unfolded wire_ends_def]
  show "read_ends W (fc_read (field_int32 W n iput ts e))" "read_ends W (fc_read (field_bool W n bput ts e))"
    "read_ends W (fc_read (field_string W n get sput ts e))" "read_ends W (fc_read (field_bytes W n get sput ts e))"
    using w by (auto simp: field_int32_def field_bool_def field_string_def field_bytes_def intro!: value_ends string_ends)
  show "read_ends W (fc_read (field_enum W n valid iput unk ts e))"
    using w by (auto simp: read_ends_def field_enum_def read_enum_def split: option.split)
  show "(\<And>i. \<exists>r. merge i new = Inr r) \<Longrightarrow> read_ends W (fc_read (field_message W n merge new add ts e))"
    unfolding field_message_def field_case.select_convs by (rule message_ends [OF assms])
  show "read_ends W (skip_field W get_unk put t)"
    unfolding read_ends_def skip_field_def Let_def using w by (auto split: prod.splits)
qed

text \<open>
  How long a field can be: a tag of one byte, at most ten bytes for a number and at most five for a
  length.
\<close>

definition wire_bounded :: "('i, 'u) wire \<Rightarrow> bool" where
  "wire_bounded W \<longleftrightarrow> (\<forall>n. 0 < n \<longrightarrow> n < 16 \<longrightarrow>
       (\<forall>v. length (w_WriteInt32 W n v) \<le> 11) \<and> (\<forall>v. length (w_WriteEnum W n v) \<le> 11)
     \<and> (\<forall>v. length v < 2147483648 \<longrightarrow> length (w_WriteString W n v) \<le> 6 + length v)
     \<and> (\<forall>k bs. 0 \<le> k \<and> k < 2147483648 \<longrightarrow> length (w_WriteMessage W n k bs) \<le> 6 + length bs))
     \<and> (\<forall>v. 0 \<le> w_Int32Size W v \<and> w_Int32Size W v \<le> 10) \<and> (\<forall>v. 0 \<le> w_EnumSize W v \<and> w_EnumSize W v \<le> 10)
     \<and> (\<forall>v. length v < 2147483648 \<longrightarrow> 0 \<le> w_StringSize W v \<and> w_StringSize W v \<le> 5 + int (length v))"

lemma bounded_fields:
  assumes "wire_bounded W" "0 < n \<and> n < 16"
  shows "length (w_WriteInt32 W n v) \<le> 11" "length (w_WriteEnum W n v) \<le> 11"
    "length s < 32 \<Longrightarrow> length (w_WriteString W n s) \<le> 37"
    "0 \<le> k \<and> k < 2147483648 \<Longrightarrow> length (w_WriteMessage W n k bs) \<le> 6 + length bs"
proof -
  note b = conjunct1 [OF assms(1) [unfolded wire_bounded_def], rule_format, OF conjunct1 [OF assms(2)] conjunct2 [OF assms(2)]]
  show "length (w_WriteInt32 W n v) \<le> 11" "length (w_WriteEnum W n v) \<le> 11"
    "0 \<le> k \<and> k < 2147483648 \<Longrightarrow> length (w_WriteMessage W n k bs) \<le> 6 + length bs" using b by blast+
  assume s: "length s < 32"
  then have "length (w_WriteString W n s) \<le> 6 + length s" using b by auto
  then show "length (w_WriteString W n s) \<le> 37" using s by simp
qed

lemma bounded_sizes:
  assumes "wire_bounded W"
  shows "0 \<le> w_Int32Size W v" "w_Int32Size W v \<le> 10" "0 \<le> w_EnumSize W v" "w_EnumSize W v \<le> 10"
    "length s < 32 \<Longrightarrow> 0 \<le> w_StringSize W s" "length s < 32 \<Longrightarrow> w_StringSize W s \<le> 36"
proof -
  note b = conjunct2 [OF assms [unfolded wire_bounded_def]]
  show "0 \<le> w_Int32Size W v" "w_Int32Size W v \<le> 10" "0 \<le> w_EnumSize W v" "w_EnumSize W v \<le> 10" using b by blast+
  assume s: "length s < 32"
  then have "0 \<le> w_StringSize W s \<and> w_StringSize W s \<le> 5 + int (length s)" using b by simp
  then show "0 \<le> w_StringSize W s" "w_StringSize W s \<le> 36" using s by simp_all
qed

lemma write_fields_bound:
  "list_all2 (\<lambda>(b, bs) k. b \<longrightarrow> length bs \<le> k) ps ks \<Longrightarrow> length (write_fields ps) \<le> sum_list ks"
proof (induction rule: list_all2_induct)
  case (Cons p ps k ks)
  then show ?case by (cases p) (auto simp: write_fields_def)
qed (simp add: write_fields_def)

lemma size_group_bound:
  "list_all2 (\<lambda>(b, n) k. 0 \<le> n \<and> n \<le> k) ps ks \<Longrightarrow> 0 \<le> size_group ps \<and> size_group ps \<le> sum_list ks"
  unfolding size_group_sum
proof (induction rule: list_all2_induct)
  case (Cons p ps k ks)
  then show ?case by (cases p) auto
qed simp

lemma size_groups_bound:
  assumes "list_all2 (\<lambda>(b, n) k. 0 \<le> n \<and> n \<le> k) ps ks" "list_all2 (\<lambda>(b, n) k. 0 \<le> n \<and> n \<le> k) qs ls" "r = 0"
    and "sum_list ks + sum_list ls < 2147483648"
  shows "0 \<le> size_group ps + size_group qs + r \<and> size_group ps + size_group qs + r < 2147483648"
  using size_group_bound [OF assms(1)] size_group_bound [OF assms(2)] assms(3,4) by simp

lemma length_concat_bound: "\<forall>x \<in> set xs. length (f x) \<le> k \<Longrightarrow> length (concat (map f xs)) \<le> k * length xs"
  by (induction xs) auto

text \<open>The sizes of the fields, and what the masks test.\<close>

lemma written_sizes:
  assumes "sizes_ok W" "0 < n \<and> n < 16"
  shows "int_ok x \<Longrightarrow> (if has x then int (length (w_WriteInt32 W n (value_or d x))) else 0)
      = (if has x then 1 + w_Int32Size W (value_or d x) else 0)"
    "int_ok x \<Longrightarrow> (if has x then int (length (w_WriteEnum W n (value_or d x))) else 0)
      = (if has x then 1 + w_EnumSize W (value_or d x) else 0)"
    "(if has y then int (length (w_WriteBool W n (value_or b y))) else 0) = (if has y then 2 else 0)"
    "str_ok s \<Longrightarrow> (if has s then int (length (w_WriteString W n (value_or t s))) else 0)
      = (if has s then 1 + w_StringSize W (value_or t s) else 0)"
    "str_ok s \<Longrightarrow> (if has s then int (length (w_WriteBytes W n (value_or t s))) else 0)
      = (if has s then 1 + w_BytesSize W (value_or t s) else 0)"
  using assms by (cases x; cases s; simp add: sizes_ok_def has_def int_ok_def str_ok_def)+

lemma written_messages:
  assumes "sizes_ok W" "0 < n \<and> n < 16" "\<forall>s \<in> set ss. bsize s = int (length (ser s)) \<and> length (ser s) < 2147483648"
  shows "int (length (concat (map (\<lambda>s. w_WriteMessage W n (bsize s) (ser s)) ss)))
    = int (length ss) + sum_list (map (\<lambda>s. w_MessageSize W (bsize s)) ss)"
  using assms(3)
proof (induction ss)
  case (Cons s ss)
  then have "int (length (w_WriteMessage W n (bsize s) (ser s))) = 1 + w_MessageSize W (bsize s)"
    using assms(1,2) by (simp add: sizes_ok_def)
  then show ?case using Cons by simp
qed simp

lemma enum_int_ok: "enum_ok valid x \<Longrightarrow> int_ok x"
  by (simp add: enum_ok_def int_ok_def)

lemma has_mask: "length bs \<le> 32 \<Longrightarrow> k \<le> length bs \<Longrightarrow>
    has_bits bs AND mask k = mask k \<longleftrightarrow> list_all (\<lambda>b. b) (take k bs)"
  unfolding has_bits_def list_all_length
  by (auto simp: bit_eq_iff bit_simps bit_horner_sum_bit_iff) (meson less_le_trans)

lemma has_masks:
  assumes "length bs \<le> 32"
  shows "1 \<le> length bs \<Longrightarrow> has_bits bs AND 1 = 1 \<longleftrightarrow> list_all (\<lambda>b. b) (take 1 bs)"
    "2 \<le> length bs \<Longrightarrow> has_bits bs AND 0x3 = 0x3 \<longleftrightarrow> list_all (\<lambda>b. b) (take 2 bs)"
    "3 \<le> length bs \<Longrightarrow> has_bits bs AND 0x7 = 0x7 \<longleftrightarrow> list_all (\<lambda>b. b) (take 3 bs)"
    "4 \<le> length bs \<Longrightarrow> has_bits bs AND 0xf = 0xf \<longleftrightarrow> list_all (\<lambda>b. b) (take 4 bs)"
    "5 \<le> length bs \<Longrightarrow> has_bits bs AND 0x1f = 0x1f \<longleftrightarrow> list_all (\<lambda>b. b) (take 5 bs)"
    "6 \<le> length bs \<Longrightarrow> has_bits bs AND 0x3f = 0x3f \<longleftrightarrow> list_all (\<lambda>b. b) (take 6 bs)"
    "7 \<le> length bs \<Longrightarrow> has_bits bs AND 0x7f = 0x7f \<longleftrightarrow> list_all (\<lambda>b. b) (take 7 bs)"
    "13 \<le> length bs \<Longrightarrow> has_bits bs AND 0x1fff = 0x1fff \<longleftrightarrow> list_all (\<lambda>b. b) (take 13 bs)"
    "15 \<le> length bs \<Longrightarrow> has_bits bs AND 0x7fff = 0x7fff \<longleftrightarrow> list_all (\<lambda>b. b) (take 15 bs)"
  using has_mask [OF assms, of 1]
    has_mask [OF assms, of 2]
    has_mask [OF assms, of 3]
    has_mask [OF assms, of 4]
    has_mask [OF assms, of 5]
    has_mask [OF assms, of 6]
    has_mask [OF assms, of 7]
    has_mask [OF assms, of 13]
    has_mask [OF assms, of 15]
  by (simp_all add: mask_eq_exp_minus_1)

lemma has_None [simp]: "\<not> has None" "\<not> has x \<longleftrightarrow> x = None"
  by (simp_all add: has_def)

lemma merge_value_None [simp]: "merge_value d x None = x"
  by (cases x) (simp_all add: merge_value_def has_def)

lemmas fed_rules = fed_int32 fed_enum fed_bool fed_string fed_bytes fed_messages

lemma message_field_ends:
  "wire_ends W \<Longrightarrow> (\<And>i. wire_ends W \<Longrightarrow> \<exists>r. merge i new = Inr r) \<Longrightarrow>
    read_ends W (fc_read (field_message W n merge new add ts e))"
  by (rule field_ends)

section \<open>The contract of a generated class\<close>

text \<open>
  \<open>cases\<close> are the cases of the \<open>switch\<close>, \<open>merge\<close> is \<open>MergePartialFromCodedStream\<close>, \<open>new\<close> a new
  object, \<open>serialize\<close> the serialiser, \<open>bsize\<close> is \<open>ByteSize\<close> and \<open>initialized\<close> is \<open>IsInitialized\<close>. Values
  that fit their types and have no unknown fields satisfy \<open>fits\<close>.
\<close>

definition round_trips :: "('i, 'u) wire \<Rightarrow> ('i \<Rightarrow> 'm \<Rightarrow> (bool \<times> 'i \<times> 'm) res) \<Rightarrow> ('m \<Rightarrow> bool) \<Rightarrow> 'm
    \<Rightarrow> ('m \<Rightarrow> byte list) \<Rightarrow> ('m \<Rightarrow> int) \<Rightarrow> ('m \<Rightarrow> bool) \<Rightarrow> bool" where
  "round_trips W merge initialized new serialize bsize fits \<longleftrightarrow>
     (\<forall>m. fits m \<and> initialized m \<longrightarrow>
        parse_message W merge initialized new (serialize m) = Inr (True, m)
        \<and> bsize m = int (length (serialize m)))"

definition parses :: "('i, 'u) wire \<Rightarrow> ('i \<Rightarrow> 'm \<Rightarrow> (bool \<times> 'i \<times> 'm) res) \<Rightarrow> ('m \<Rightarrow> bool) \<Rightarrow> 'm \<Rightarrow> bool" where
  "parses W merge initialized new \<longleftrightarrow>
     (\<forall>bs. \<exists>ok m. parse_message W merge initialized new bs = Inr (ok, m) \<and> (ok \<longrightarrow> initialized m))"

locale message_class =
  fixes cases :: "('i, 'u) wire \<Rightarrow> ('i, 'm) field_case list"
    and skip :: "('i, 'u) wire \<Rightarrow> nat \<Rightarrow> 'i \<Rightarrow> 'm \<Rightarrow> (bool \<times> 'i \<times> 'm) res"
    and merge :: "('i, 'u) wire \<Rightarrow> 'i \<Rightarrow> 'm \<Rightarrow> (bool \<times> 'i \<times> 'm) res"
    and new :: 'm
    and serialize :: "('i, 'u) wire \<Rightarrow> 'm \<Rightarrow> byte list"
    and bsize :: "('i, 'u) wire \<Rightarrow> 'm \<Rightarrow> int"
    and initialized :: "'m \<Rightarrow> bool"
    and fits :: "('i, 'u) wire \<Rightarrow> 'm \<Rightarrow> bool"
  assumes merge: "merge W i m = merge_loop (merge_fuel W i) W (cases W) (skip W) None i m"
    and cases: "cases_ok (cases W)"
    and ends: "wire_ends W \<Longrightarrow> (\<forall>c \<in> set (cases W). read_ends W (fc_read c)) \<and> (\<forall>t. read_ends W (skip W t))"
    and fed: "wire_ok W At \<Longrightarrow> sizes_ok W \<Longrightarrow> fits W m \<Longrightarrow> fed W At (cases W) new (serialize W m) m"
    and size: "sizes_ok W \<Longrightarrow> fits W m \<Longrightarrow> bsize W m = int (length (serialize W m))"
begin

lemma round_trip:
  "wire_ok W At \<Longrightarrow> sizes_ok W \<Longrightarrow> fits W m \<Longrightarrow> initialized m \<Longrightarrow>
   parse_message W (merge W) initialized new (serialize W m) = Inr (True, m)"
  by (rule parse_fed [where cs = "cases W" and skip = "skip W"]) (assumption | rule cases fed merge)+

lemma stream_ends: "wire_ends W \<Longrightarrow> \<exists>r. merge W i m = Inr r"
  unfolding merge using merge_total [OF _ cases] ends by meson

lemma element:
  assumes "wire_ok W At" "sizes_ok W" "fits W s" "length (serialize W s) < 2147483648"
  shows "element_ok W At (merge W) new (serialize W) (bsize W) s"
proof -
  have "merges W (merge W i new) s" if i: "At i (serialize W s)" for i
    using merge_fed [OF assms(1) cases fed [OF assms(1,2,3)]] i
    unfolding merge merge_fuel_def by blast
  then show ?thesis using size [OF assms(2,3)] assms(4) by (simp add: element_ok_def)
qed

lemma parse_ends: "wire_ends W \<Longrightarrow> \<exists>ok m. parse_message W (merge W) initialized new bs = Inr (ok, m)"
proof -
  assume "wire_ends W"
  then obtain r where "merge W (w_open W bs) new = Inr r" using stream_ends by blast
  then show ?thesis by (cases r) (simp add: parse_message_def)
qed

lemma parsed_initialized: "parse_message W (merge W) initialized new bs = Inr (True, m) \<Longrightarrow> initialized m"
  by (auto simp: parse_message_def res_simps)

lemma class_round_trips:
  "wire_ok W At \<Longrightarrow> sizes_ok W \<Longrightarrow> round_trips W (merge W) initialized new (serialize W) (bsize W) (fits W)"
  using round_trip size unfolding round_trips_def by blast

lemma class_parses: "wire_ends W \<Longrightarrow> parses W (merge W) initialized new"
  unfolding parses_def by (metis parse_ends parsed_initialized)

end

end
