(* ===== verification/Ds_Classes.thy ===== *)
theory Ds_Classes
  imports Pb_Wire
begin

text \<open>
  The classes of \<open>src/packet/ds_server.pb.cpp\<close>, the messages between the servers and the director
  server, as the protobuf compiler generated them: for each class its fields with their has bits (an
  option each), the constructor and \<open>Clear\<close>, the cases of the parser, the serialisers, \<open>ByteSize\<close>,
  \<open>MergeFrom\<close>, \<open>CopyFrom\<close>, \<open>IsInitialized\<close> and \<open>Swap\<close>. \<open>SerializeWithCachedSizes\<close> also stands for
  \<open>SerializeWithCachedSizesToArray\<close>, which writes the same bytes to memory. \<open>ByteSize\<close> adds in \<open>int\<close>,
  which does not overflow while the message has fewer than \<open>2 ^ 31\<close> bytes; the cached size is the
  last result of \<open>ByteSize\<close>, which \<open>SerializeToArray\<close> calls before it writes. \<open>VerifyUTF8String\<close>
  only reports. \<open>fits\<close> says that the values are in the range of their types and that no unknown
  field was kept.

  Every class is shown to meet the contract \<open>message_class\<close>; copying and swapping are exact, and
  \<open>IsInitialized\<close> demands exactly the required fields.
\<close>

definition CytPacketType_IsValid :: "int \<Rightarrow> bool" where
  "CytPacketType_IsValid v \<longleftrightarrow> v \<in> set [1001, 1002, 1003, 1004, 1005, 1006, 1007, 1008, 1009,
    10010, 10011, 10012, 10013, 10014, 10015]"

definition ServerType_IsValid :: "int \<Rightarrow> bool" where
  "ServerType_IsValid v \<longleftrightarrow> v \<in> set [0, 1, 2, 3, 4]"

definition StruDsServerConnectRq_ConnectType_IsValid :: "int \<Rightarrow> bool" where
  "StruDsServerConnectRq_ConnectType_IsValid v \<longleftrightarrow> v \<in> set [0, 1]"

definition StruDsMSStreamRq_StreamType_IsValid :: "int \<Rightarrow> bool" where
  "StruDsMSStreamRq_StreamType_IsValid v \<longleftrightarrow> v \<in> set [0, 1]"

definition StruDsServerInfo_ServerInfoType_IsValid :: "int \<Rightarrow> bool" where
  "StruDsServerInfo_ServerInfoType_IsValid v \<longleftrightarrow> v \<in> set [0, 1]"

section \<open>StruDsServerConnectRq\<close>

record 'u StruDsServerConnectRq_pb =
  DsServerConnectRq_server_id :: "int option"
  DsServerConnectRq_server_ip :: "byte list option"
  DsServerConnectRq_server_port :: "int option"
  DsServerConnectRq_server_type :: "int option"
  DsServerConnectRq_connect_type :: "int option"
  DsServerConnectRq_server_detect_port :: "int option"
  DsServerConnectRq_unknown :: "'u list"

definition StruDsServerConnectRq_SharedCtor :: "'u StruDsServerConnectRq_pb" where
  "StruDsServerConnectRq_SharedCtor = \<lparr>
     DsServerConnectRq_server_id = None, DsServerConnectRq_server_ip = None,
     DsServerConnectRq_server_port = None, DsServerConnectRq_server_type = None,
     DsServerConnectRq_connect_type = None, DsServerConnectRq_server_detect_port = None,
     DsServerConnectRq_unknown = []\<rparr>"

definition StruDsServerConnectRq_Clear ::
  "'u StruDsServerConnectRq_pb \<Rightarrow> 'u StruDsServerConnectRq_pb" where
  "StruDsServerConnectRq_Clear m = m\<lparr>
     DsServerConnectRq_server_id := None, DsServerConnectRq_server_ip := None,
     DsServerConnectRq_server_port := None, DsServerConnectRq_server_type := None,
     DsServerConnectRq_connect_type := None, DsServerConnectRq_server_detect_port := None,
     DsServerConnectRq_unknown := []\<rparr>"

definition StruDsServerConnectRq_cases ::
  "('i, 'u) wire \<Rightarrow> ('i, 'u StruDsServerConnectRq_pb) field_case list" where
  "StruDsServerConnectRq_cases W = [
     field_int32 W 1 (\<lambda>v. DsServerConnectRq_server_id_update (\<lambda>_. v)) [(18, 2)] False,
     field_string W 2 DsServerConnectRq_server_ip (\<lambda>v. DsServerConnectRq_server_ip_update (\<lambda>_. v))
       [(24, 3)] False,
     field_int32 W 3 (\<lambda>v. DsServerConnectRq_server_port_update (\<lambda>_. v)) [(32, 4)] False,
     field_enum W 4 ServerType_IsValid (\<lambda>v. DsServerConnectRq_server_type_update (\<lambda>_. v))
       (\<lambda>v m. m\<lparr>DsServerConnectRq_unknown := w_AddVarint W 4 v (DsServerConnectRq_unknown m)\<rparr>)
         [(40, 5)] False,
     field_enum W 5 StruDsServerConnectRq_ConnectType_IsValid (\<lambda>v. DsServerConnectRq_connect_type_update
       (\<lambda>_. v))
       (\<lambda>v m. m\<lparr>DsServerConnectRq_unknown := w_AddVarint W 5 v (DsServerConnectRq_unknown m)\<rparr>)
         [(48, 6)] False,
     field_int32 W 6 (\<lambda>v. DsServerConnectRq_server_detect_port_update (\<lambda>_. v)) [] True]"

definition StruDsServerConnectRq_MergePartialFromCodedStream ::
  "('i, 'u) wire \<Rightarrow> 'i \<Rightarrow> 'u StruDsServerConnectRq_pb
    \<Rightarrow> (bool \<times> 'i \<times> 'u StruDsServerConnectRq_pb) res" where
  "StruDsServerConnectRq_MergePartialFromCodedStream W i m = merge_loop (merge_fuel W i) W (StruDsServerConnectRq_cases W)
     (skip_field W DsServerConnectRq_unknown (\<lambda>u. DsServerConnectRq_unknown_update (\<lambda>_. u))) None i m"

definition StruDsServerConnectRq_SerializeWithCachedSizes ::
  "('i, 'u) wire \<Rightarrow> 'u StruDsServerConnectRq_pb \<Rightarrow> byte list" where
  "StruDsServerConnectRq_SerializeWithCachedSizes W m = write_fields [
     (has (DsServerConnectRq_server_id m), w_WriteInt32 W 1 (value_or 0 (DsServerConnectRq_server_id m))),
     (has (DsServerConnectRq_server_ip m), w_WriteString W 2 (value_or [] (DsServerConnectRq_server_ip m))),
     (has (DsServerConnectRq_server_port m), w_WriteInt32 W 3 (value_or 0 (DsServerConnectRq_server_port m))),
     (has (DsServerConnectRq_server_type m), w_WriteEnum W 4 (value_or 0 (DsServerConnectRq_server_type m))),
     (has (DsServerConnectRq_connect_type m), w_WriteEnum W 5 (value_or 0 (DsServerConnectRq_connect_type m))),
     (has (DsServerConnectRq_server_detect_port m), w_WriteInt32 W 6 (value_or 0 (DsServerConnectRq_server_detect_port m))),
     (DsServerConnectRq_unknown m \<noteq> [], w_WriteUnknown W (DsServerConnectRq_unknown m))]"

definition StruDsServerConnectRq_ByteSize ::
  "('i, 'u) wire \<Rightarrow> 'u StruDsServerConnectRq_pb \<Rightarrow> int" where
  "StruDsServerConnectRq_ByteSize W m = size_group [
     (has (DsServerConnectRq_server_id m), 1 + w_Int32Size W (value_or 0 (DsServerConnectRq_server_id m))),
     (has (DsServerConnectRq_server_ip m), 1 + w_StringSize W (value_or [] (DsServerConnectRq_server_ip m))),
     (has (DsServerConnectRq_server_port m), 1 + w_Int32Size W (value_or 0 (DsServerConnectRq_server_port m))),
     (has (DsServerConnectRq_server_type m), 1 + w_EnumSize W (value_or 0 (DsServerConnectRq_server_type m))),
     (has (DsServerConnectRq_connect_type m), 1 + w_EnumSize W (value_or 0 (DsServerConnectRq_connect_type m))),
     (has (DsServerConnectRq_server_detect_port m), 1 + w_Int32Size W (value_or 0 (DsServerConnectRq_server_detect_port m)))]
     + (if DsServerConnectRq_unknown m \<noteq> [] then w_UnknownSize W (DsServerConnectRq_unknown m) else 0)"

definition StruDsServerConnectRq_MergeFrom ::
  "'u StruDsServerConnectRq_pb \<Rightarrow> 'u StruDsServerConnectRq_pb \<Rightarrow> 'u StruDsServerConnectRq_pb" where
  "StruDsServerConnectRq_MergeFrom from m = (
     let m1 = if has (DsServerConnectRq_server_id from) \<or> has (DsServerConnectRq_server_ip from) \<or>
       has (DsServerConnectRq_server_port from) \<or> has (DsServerConnectRq_server_type from) \<or>
       has (DsServerConnectRq_connect_type from) \<or> has (DsServerConnectRq_server_detect_port from)
       then m\<lparr>
         DsServerConnectRq_server_id := merge_value 0 (DsServerConnectRq_server_id from) (DsServerConnectRq_server_id m),
         DsServerConnectRq_server_ip := merge_value [] (DsServerConnectRq_server_ip from) (DsServerConnectRq_server_ip m),
         DsServerConnectRq_server_port := merge_value 0 (DsServerConnectRq_server_port from)
           (DsServerConnectRq_server_port m),
         DsServerConnectRq_server_type := merge_value 0 (DsServerConnectRq_server_type from)
           (DsServerConnectRq_server_type m),
         DsServerConnectRq_connect_type := merge_value 0 (DsServerConnectRq_connect_type from)
           (DsServerConnectRq_connect_type m),
         DsServerConnectRq_server_detect_port := merge_value 0 (DsServerConnectRq_server_detect_port from)
           (DsServerConnectRq_server_detect_port m)\<rparr>
       else m
     in
     m1\<lparr>DsServerConnectRq_unknown := DsServerConnectRq_unknown m1 @ DsServerConnectRq_unknown from\<rparr>)"

definition StruDsServerConnectRq_CopyFrom ::
  "'u StruDsServerConnectRq_pb \<Rightarrow> 'u StruDsServerConnectRq_pb \<Rightarrow> 'u StruDsServerConnectRq_pb" where
  "StruDsServerConnectRq_CopyFrom from m = StruDsServerConnectRq_MergeFrom from (StruDsServerConnectRq_Clear m)"

definition StruDsServerConnectRq_IsInitialized :: "'u StruDsServerConnectRq_pb \<Rightarrow> bool" where
  "StruDsServerConnectRq_IsInitialized m \<longleftrightarrow> has_bits [
       has (DsServerConnectRq_server_id m), has (DsServerConnectRq_server_ip m),
       has (DsServerConnectRq_server_port m), has (DsServerConnectRq_server_type m),
       has (DsServerConnectRq_connect_type m), has (DsServerConnectRq_server_detect_port m)] AND 0x1f = 0x1f"

definition StruDsServerConnectRq_Swap ::
  "'u StruDsServerConnectRq_pb \<Rightarrow> 'u StruDsServerConnectRq_pb
    \<Rightarrow> 'u StruDsServerConnectRq_pb \<times> 'u StruDsServerConnectRq_pb" where
  "StruDsServerConnectRq_Swap m other =
     (m\<lparr>
        DsServerConnectRq_server_id := DsServerConnectRq_server_id other,
        DsServerConnectRq_server_ip := DsServerConnectRq_server_ip other,
        DsServerConnectRq_server_port := DsServerConnectRq_server_port other,
        DsServerConnectRq_server_type := DsServerConnectRq_server_type other,
        DsServerConnectRq_connect_type := DsServerConnectRq_connect_type other,
        DsServerConnectRq_server_detect_port := DsServerConnectRq_server_detect_port other,
        DsServerConnectRq_unknown := DsServerConnectRq_unknown other\<rparr>,
      other\<lparr>
        DsServerConnectRq_server_id := DsServerConnectRq_server_id m,
        DsServerConnectRq_server_ip := DsServerConnectRq_server_ip m,
        DsServerConnectRq_server_port := DsServerConnectRq_server_port m,
        DsServerConnectRq_server_type := DsServerConnectRq_server_type m,
        DsServerConnectRq_connect_type := DsServerConnectRq_connect_type m,
        DsServerConnectRq_server_detect_port := DsServerConnectRq_server_detect_port m,
        DsServerConnectRq_unknown := DsServerConnectRq_unknown m\<rparr>)"

definition StruDsServerConnectRq_fits :: "'u StruDsServerConnectRq_pb \<Rightarrow> bool" where
  "StruDsServerConnectRq_fits m \<longleftrightarrow>
     int_ok (DsServerConnectRq_server_id m) \<and> str_ok (DsServerConnectRq_server_ip m) \<and>
     int_ok (DsServerConnectRq_server_port m) \<and>
     enum_ok ServerType_IsValid (DsServerConnectRq_server_type m) \<and>
     enum_ok StruDsServerConnectRq_ConnectType_IsValid (DsServerConnectRq_connect_type m) \<and>
     int_ok (DsServerConnectRq_server_detect_port m) \<and> DsServerConnectRq_unknown m = []"

interpretation DsServerConnectRq: message_class StruDsServerConnectRq_cases
  "\<lambda>W. skip_field W DsServerConnectRq_unknown (\<lambda>u. DsServerConnectRq_unknown_update (\<lambda>_. u))"
  StruDsServerConnectRq_MergePartialFromCodedStream StruDsServerConnectRq_SharedCtor
    StruDsServerConnectRq_SerializeWithCachedSizes
  StruDsServerConnectRq_ByteSize StruDsServerConnectRq_IsInitialized "\<lambda>_. StruDsServerConnectRq_fits"
  by (unfold_locales, rule StruDsServerConnectRq_MergePartialFromCodedStream_def,
      simp add: StruDsServerConnectRq_cases_def cases_ok_def case_ok_def,
      simp add: StruDsServerConnectRq_cases_def field_ends,
      unfold StruDsServerConnectRq_fits_def StruDsServerConnectRq_SerializeWithCachedSizes_def, elim conjE, rule fed_eq,
      (rule fed_rules, assumption, simp add: StruDsServerConnectRq_cases_def, simp add:
        StruDsServerConnectRq_SharedCtor_def, (assumption | simp)+)+,
      rule fed_done, simp add: StruDsServerConnectRq_SharedCtor_def,
      unfold StruDsServerConnectRq_ByteSize_def length_write_fields size_group_sum, elim conjE, (drule enum_int_ok)+,
      simp add: add.assoc written_sizes split del: if_split)

lemma StruDsServerConnectRq_copies:
  "StruDsServerConnectRq_CopyFrom from m = from" "StruDsServerConnectRq_Swap m from = (from, m)"
proof -
  show "StruDsServerConnectRq_CopyFrom from m = from"
    by (rule StruDsServerConnectRq_pb.equality; cases "has (DsServerConnectRq_server_id from) \<or> has
      (DsServerConnectRq_server_ip from) \<or> has (DsServerConnectRq_server_port from) \<or> has
        (DsServerConnectRq_server_type from) \<or> has (DsServerConnectRq_connect_type from) \<or> has
          (DsServerConnectRq_server_detect_port from)";
      simp add: StruDsServerConnectRq_CopyFrom_def StruDsServerConnectRq_MergeFrom_def StruDsServerConnectRq_Clear_def)
  show "StruDsServerConnectRq_Swap m from = (from, m)" by (cases "from"; cases m; simp add: StruDsServerConnectRq_Swap_def)
qed

lemma StruDsServerConnectRq_required:
  "StruDsServerConnectRq_IsInitialized m \<longleftrightarrow>
     has (DsServerConnectRq_server_id m) \<and> has (DsServerConnectRq_server_ip m) \<and>
     has (DsServerConnectRq_server_port m) \<and> has (DsServerConnectRq_server_type m) \<and>
     has (DsServerConnectRq_connect_type m)"
  by (auto simp: StruDsServerConnectRq_IsInitialized_def has_masks)

section \<open>StruDsServerConnectRs\<close>

record 'u StruDsServerConnectRs_pb =
  DsServerConnectRs_server_id :: "int option"
  DsServerConnectRs_result :: "int option"
  DsServerConnectRs_unknown :: "'u list"

definition StruDsServerConnectRs_SharedCtor :: "'u StruDsServerConnectRs_pb" where
  "StruDsServerConnectRs_SharedCtor = \<lparr>
     DsServerConnectRs_server_id = None, DsServerConnectRs_result = None, DsServerConnectRs_unknown = []\<rparr>"

definition StruDsServerConnectRs_Clear ::
  "'u StruDsServerConnectRs_pb \<Rightarrow> 'u StruDsServerConnectRs_pb" where
  "StruDsServerConnectRs_Clear m = m\<lparr>
     DsServerConnectRs_server_id := None, DsServerConnectRs_result := None, DsServerConnectRs_unknown := []\<rparr>"

definition StruDsServerConnectRs_cases ::
  "('i, 'u) wire \<Rightarrow> ('i, 'u StruDsServerConnectRs_pb) field_case list" where
  "StruDsServerConnectRs_cases W = [
     field_int32 W 1 (\<lambda>v. DsServerConnectRs_server_id_update (\<lambda>_. v)) [(16, 2)] False,
     field_int32 W 2 (\<lambda>v. DsServerConnectRs_result_update (\<lambda>_. v)) [] True]"

definition StruDsServerConnectRs_MergePartialFromCodedStream ::
  "('i, 'u) wire \<Rightarrow> 'i \<Rightarrow> 'u StruDsServerConnectRs_pb
    \<Rightarrow> (bool \<times> 'i \<times> 'u StruDsServerConnectRs_pb) res" where
  "StruDsServerConnectRs_MergePartialFromCodedStream W i m = merge_loop (merge_fuel W i) W (StruDsServerConnectRs_cases W)
     (skip_field W DsServerConnectRs_unknown (\<lambda>u. DsServerConnectRs_unknown_update (\<lambda>_. u))) None i m"

definition StruDsServerConnectRs_SerializeWithCachedSizes ::
  "('i, 'u) wire \<Rightarrow> 'u StruDsServerConnectRs_pb \<Rightarrow> byte list" where
  "StruDsServerConnectRs_SerializeWithCachedSizes W m = write_fields [
     (has (DsServerConnectRs_server_id m), w_WriteInt32 W 1 (value_or 0 (DsServerConnectRs_server_id m))),
     (has (DsServerConnectRs_result m), w_WriteInt32 W 2 (value_or 0 (DsServerConnectRs_result m))),
     (DsServerConnectRs_unknown m \<noteq> [], w_WriteUnknown W (DsServerConnectRs_unknown m))]"

definition StruDsServerConnectRs_ByteSize ::
  "('i, 'u) wire \<Rightarrow> 'u StruDsServerConnectRs_pb \<Rightarrow> int" where
  "StruDsServerConnectRs_ByteSize W m = size_group [
     (has (DsServerConnectRs_server_id m), 1 + w_Int32Size W (value_or 0 (DsServerConnectRs_server_id m))),
     (has (DsServerConnectRs_result m), 1 + w_Int32Size W (value_or 0 (DsServerConnectRs_result m)))]
     + (if DsServerConnectRs_unknown m \<noteq> [] then w_UnknownSize W (DsServerConnectRs_unknown m) else 0)"

definition StruDsServerConnectRs_MergeFrom ::
  "'u StruDsServerConnectRs_pb \<Rightarrow> 'u StruDsServerConnectRs_pb \<Rightarrow> 'u StruDsServerConnectRs_pb" where
  "StruDsServerConnectRs_MergeFrom from m = (
     let m1 = if has (DsServerConnectRs_server_id from) \<or> has (DsServerConnectRs_result from)
       then m\<lparr>
         DsServerConnectRs_server_id := merge_value 0 (DsServerConnectRs_server_id from) (DsServerConnectRs_server_id m),
         DsServerConnectRs_result := merge_value 0 (DsServerConnectRs_result from) (DsServerConnectRs_result m)\<rparr>
       else m
     in
     m1\<lparr>DsServerConnectRs_unknown := DsServerConnectRs_unknown m1 @ DsServerConnectRs_unknown from\<rparr>)"

definition StruDsServerConnectRs_CopyFrom ::
  "'u StruDsServerConnectRs_pb \<Rightarrow> 'u StruDsServerConnectRs_pb \<Rightarrow> 'u StruDsServerConnectRs_pb" where
  "StruDsServerConnectRs_CopyFrom from m = StruDsServerConnectRs_MergeFrom from (StruDsServerConnectRs_Clear m)"

definition StruDsServerConnectRs_IsInitialized :: "'u StruDsServerConnectRs_pb \<Rightarrow> bool" where
  "StruDsServerConnectRs_IsInitialized m \<longleftrightarrow> has_bits [
       has (DsServerConnectRs_server_id m), has (DsServerConnectRs_result m)] AND 0x3 = 0x3"

definition StruDsServerConnectRs_Swap ::
  "'u StruDsServerConnectRs_pb \<Rightarrow> 'u StruDsServerConnectRs_pb
    \<Rightarrow> 'u StruDsServerConnectRs_pb \<times> 'u StruDsServerConnectRs_pb" where
  "StruDsServerConnectRs_Swap m other =
     (m\<lparr>
        DsServerConnectRs_server_id := DsServerConnectRs_server_id other,
        DsServerConnectRs_result := DsServerConnectRs_result other,
        DsServerConnectRs_unknown := DsServerConnectRs_unknown other\<rparr>,
      other\<lparr>
        DsServerConnectRs_server_id := DsServerConnectRs_server_id m,
        DsServerConnectRs_result := DsServerConnectRs_result m,
        DsServerConnectRs_unknown := DsServerConnectRs_unknown m\<rparr>)"

definition StruDsServerConnectRs_fits :: "'u StruDsServerConnectRs_pb \<Rightarrow> bool" where
  "StruDsServerConnectRs_fits m \<longleftrightarrow>
     int_ok (DsServerConnectRs_server_id m) \<and> int_ok (DsServerConnectRs_result m) \<and>
     DsServerConnectRs_unknown m = []"

interpretation DsServerConnectRs: message_class StruDsServerConnectRs_cases
  "\<lambda>W. skip_field W DsServerConnectRs_unknown (\<lambda>u. DsServerConnectRs_unknown_update (\<lambda>_. u))"
  StruDsServerConnectRs_MergePartialFromCodedStream StruDsServerConnectRs_SharedCtor
    StruDsServerConnectRs_SerializeWithCachedSizes
  StruDsServerConnectRs_ByteSize StruDsServerConnectRs_IsInitialized "\<lambda>_. StruDsServerConnectRs_fits"
  by (unfold_locales, rule StruDsServerConnectRs_MergePartialFromCodedStream_def,
      simp add: StruDsServerConnectRs_cases_def cases_ok_def case_ok_def,
      simp add: StruDsServerConnectRs_cases_def field_ends,
      unfold StruDsServerConnectRs_fits_def StruDsServerConnectRs_SerializeWithCachedSizes_def, elim conjE, rule fed_eq,
      (rule fed_rules, assumption, simp add: StruDsServerConnectRs_cases_def, simp add:
        StruDsServerConnectRs_SharedCtor_def, (assumption | simp)+)+,
      rule fed_done, simp add: StruDsServerConnectRs_SharedCtor_def,
      unfold StruDsServerConnectRs_ByteSize_def length_write_fields size_group_sum, elim conjE,
      simp add: add.assoc written_sizes split del: if_split)

lemma StruDsServerConnectRs_copies:
  "StruDsServerConnectRs_CopyFrom from m = from" "StruDsServerConnectRs_Swap m from = (from, m)"
proof -
  show "StruDsServerConnectRs_CopyFrom from m = from"
    by (rule StruDsServerConnectRs_pb.equality; cases "has (DsServerConnectRs_server_id from) \<or> has
      (DsServerConnectRs_result from)";
      simp add: StruDsServerConnectRs_CopyFrom_def StruDsServerConnectRs_MergeFrom_def StruDsServerConnectRs_Clear_def)
  show "StruDsServerConnectRs_Swap m from = (from, m)" by (cases "from"; cases m; simp add: StruDsServerConnectRs_Swap_def)
qed

lemma StruDsServerConnectRs_required:
  "StruDsServerConnectRs_IsInitialized m \<longleftrightarrow>
     has (DsServerConnectRs_server_id m) \<and> has (DsServerConnectRs_result m)"
  by (auto simp: StruDsServerConnectRs_IsInitialized_def has_masks)

section \<open>StruDsServerReportCurrentUserCount\<close>

record 'u StruDsServerReportCurrentUserCount_pb =
  DsServerReportCurrentUserCount_server_id :: "int option"
  DsServerReportCurrentUserCount_current_user_count :: "int option"
  DsServerReportCurrentUserCount_unknown :: "'u list"

definition StruDsServerReportCurrentUserCount_SharedCtor :: "'u StruDsServerReportCurrentUserCount_pb" where
  "StruDsServerReportCurrentUserCount_SharedCtor = \<lparr>
     DsServerReportCurrentUserCount_server_id = None, DsServerReportCurrentUserCount_current_user_count = None,
     DsServerReportCurrentUserCount_unknown = []\<rparr>"

definition StruDsServerReportCurrentUserCount_Clear ::
  "'u StruDsServerReportCurrentUserCount_pb \<Rightarrow> 'u StruDsServerReportCurrentUserCount_pb" where
  "StruDsServerReportCurrentUserCount_Clear m = m\<lparr>
     DsServerReportCurrentUserCount_server_id := None,
     DsServerReportCurrentUserCount_current_user_count := None, DsServerReportCurrentUserCount_unknown := []\<rparr>"

definition StruDsServerReportCurrentUserCount_cases ::
  "('i, 'u) wire \<Rightarrow> ('i, 'u StruDsServerReportCurrentUserCount_pb) field_case list" where
  "StruDsServerReportCurrentUserCount_cases W = [
     field_int32 W 1 (\<lambda>v. DsServerReportCurrentUserCount_server_id_update (\<lambda>_. v)) [(16, 2)] False,
     field_int32 W 2 (\<lambda>v. DsServerReportCurrentUserCount_current_user_count_update (\<lambda>_. v)) [] True]"

definition StruDsServerReportCurrentUserCount_MergePartialFromCodedStream ::
  "('i, 'u) wire \<Rightarrow> 'i \<Rightarrow> 'u StruDsServerReportCurrentUserCount_pb
    \<Rightarrow> (bool \<times> 'i \<times> 'u StruDsServerReportCurrentUserCount_pb) res" where
  "StruDsServerReportCurrentUserCount_MergePartialFromCodedStream W i m = merge_loop (merge_fuel W i) W
    (StruDsServerReportCurrentUserCount_cases W)
     (skip_field W DsServerReportCurrentUserCount_unknown (\<lambda>u. DsServerReportCurrentUserCount_unknown_update
       (\<lambda>_. u))) None i m"

definition StruDsServerReportCurrentUserCount_SerializeWithCachedSizes ::
  "('i, 'u) wire \<Rightarrow> 'u StruDsServerReportCurrentUserCount_pb \<Rightarrow> byte list" where
  "StruDsServerReportCurrentUserCount_SerializeWithCachedSizes W m = write_fields [
     (has (DsServerReportCurrentUserCount_server_id m), w_WriteInt32 W 1 (value_or 0
       (DsServerReportCurrentUserCount_server_id m))),
     (has (DsServerReportCurrentUserCount_current_user_count m), w_WriteInt32 W 2 (value_or 0
       (DsServerReportCurrentUserCount_current_user_count m))),
     (DsServerReportCurrentUserCount_unknown m \<noteq> [], w_WriteUnknown W (DsServerReportCurrentUserCount_unknown m))]"

definition StruDsServerReportCurrentUserCount_ByteSize ::
  "('i, 'u) wire \<Rightarrow> 'u StruDsServerReportCurrentUserCount_pb \<Rightarrow> int" where
  "StruDsServerReportCurrentUserCount_ByteSize W m = size_group [
     (has (DsServerReportCurrentUserCount_server_id m), 1 + w_Int32Size W (value_or 0
       (DsServerReportCurrentUserCount_server_id m))),
     (has (DsServerReportCurrentUserCount_current_user_count m), 1 + w_Int32Size W (value_or 0
       (DsServerReportCurrentUserCount_current_user_count m)))]
     + (if DsServerReportCurrentUserCount_unknown m \<noteq> [] then w_UnknownSize W
       (DsServerReportCurrentUserCount_unknown m) else 0)"

definition StruDsServerReportCurrentUserCount_MergeFrom ::
  "'u StruDsServerReportCurrentUserCount_pb
    \<Rightarrow> 'u StruDsServerReportCurrentUserCount_pb \<Rightarrow> 'u StruDsServerReportCurrentUserCount_pb" where
  "StruDsServerReportCurrentUserCount_MergeFrom from m = (
     let m1 = if has (DsServerReportCurrentUserCount_server_id from) \<or>
       has (DsServerReportCurrentUserCount_current_user_count from)
       then m\<lparr>
         DsServerReportCurrentUserCount_server_id := merge_value 0 (DsServerReportCurrentUserCount_server_id from)
           (DsServerReportCurrentUserCount_server_id m),
         DsServerReportCurrentUserCount_current_user_count := merge_value 0
           (DsServerReportCurrentUserCount_current_user_count from)
             (DsServerReportCurrentUserCount_current_user_count m)\<rparr>
       else m
     in
     m1\<lparr>DsServerReportCurrentUserCount_unknown := DsServerReportCurrentUserCount_unknown m1 @
       DsServerReportCurrentUserCount_unknown from\<rparr>)"

definition StruDsServerReportCurrentUserCount_CopyFrom ::
  "'u StruDsServerReportCurrentUserCount_pb
    \<Rightarrow> 'u StruDsServerReportCurrentUserCount_pb \<Rightarrow> 'u StruDsServerReportCurrentUserCount_pb" where
  "StruDsServerReportCurrentUserCount_CopyFrom from m = StruDsServerReportCurrentUserCount_MergeFrom from
    (StruDsServerReportCurrentUserCount_Clear m)"

definition StruDsServerReportCurrentUserCount_IsInitialized ::
  "'u StruDsServerReportCurrentUserCount_pb \<Rightarrow> bool" where
  "StruDsServerReportCurrentUserCount_IsInitialized m \<longleftrightarrow> has_bits [
       has (DsServerReportCurrentUserCount_server_id m),
       has (DsServerReportCurrentUserCount_current_user_count m)] AND 0x3 = 0x3"

definition StruDsServerReportCurrentUserCount_Swap ::
  "'u StruDsServerReportCurrentUserCount_pb \<Rightarrow> 'u StruDsServerReportCurrentUserCount_pb
    \<Rightarrow> 'u StruDsServerReportCurrentUserCount_pb \<times> 'u StruDsServerReportCurrentUserCount_pb" where
  "StruDsServerReportCurrentUserCount_Swap m other =
     (m\<lparr>
        DsServerReportCurrentUserCount_server_id := DsServerReportCurrentUserCount_server_id other,
        DsServerReportCurrentUserCount_current_user_count := DsServerReportCurrentUserCount_current_user_count other,
        DsServerReportCurrentUserCount_unknown := DsServerReportCurrentUserCount_unknown other\<rparr>,
      other\<lparr>
        DsServerReportCurrentUserCount_server_id := DsServerReportCurrentUserCount_server_id m,
        DsServerReportCurrentUserCount_current_user_count := DsServerReportCurrentUserCount_current_user_count m,
        DsServerReportCurrentUserCount_unknown := DsServerReportCurrentUserCount_unknown m\<rparr>)"

definition StruDsServerReportCurrentUserCount_fits ::
  "'u StruDsServerReportCurrentUserCount_pb \<Rightarrow> bool" where
  "StruDsServerReportCurrentUserCount_fits m \<longleftrightarrow>
     int_ok (DsServerReportCurrentUserCount_server_id m) \<and>
     int_ok (DsServerReportCurrentUserCount_current_user_count m) \<and>
     DsServerReportCurrentUserCount_unknown m = []"

interpretation DsServerReportCurrentUserCount: message_class StruDsServerReportCurrentUserCount_cases
  "\<lambda>W. skip_field W DsServerReportCurrentUserCount_unknown (\<lambda>u.
    DsServerReportCurrentUserCount_unknown_update (\<lambda>_. u))"
  StruDsServerReportCurrentUserCount_MergePartialFromCodedStream StruDsServerReportCurrentUserCount_SharedCtor
    StruDsServerReportCurrentUserCount_SerializeWithCachedSizes
  StruDsServerReportCurrentUserCount_ByteSize StruDsServerReportCurrentUserCount_IsInitialized "\<lambda>_.
    StruDsServerReportCurrentUserCount_fits"
  by (unfold_locales, rule StruDsServerReportCurrentUserCount_MergePartialFromCodedStream_def,
      simp add: StruDsServerReportCurrentUserCount_cases_def cases_ok_def case_ok_def,
      simp add: StruDsServerReportCurrentUserCount_cases_def field_ends,
      unfold StruDsServerReportCurrentUserCount_fits_def
        StruDsServerReportCurrentUserCount_SerializeWithCachedSizes_def, elim conjE, rule fed_eq,
      (rule fed_rules, assumption, simp add: StruDsServerReportCurrentUserCount_cases_def, simp add:
        StruDsServerReportCurrentUserCount_SharedCtor_def, (assumption | simp)+)+,
      rule fed_done, simp add: StruDsServerReportCurrentUserCount_SharedCtor_def,
      unfold StruDsServerReportCurrentUserCount_ByteSize_def length_write_fields size_group_sum, elim conjE,
      simp add: add.assoc written_sizes split del: if_split)

lemma StruDsServerReportCurrentUserCount_copies:
  "StruDsServerReportCurrentUserCount_CopyFrom from m = from" "StruDsServerReportCurrentUserCount_Swap m from = (from, m)"
proof -
  show "StruDsServerReportCurrentUserCount_CopyFrom from m = from"
    by (rule StruDsServerReportCurrentUserCount_pb.equality; cases "has (DsServerReportCurrentUserCount_server_id
      from) \<or> has (DsServerReportCurrentUserCount_current_user_count from)";
      simp add: StruDsServerReportCurrentUserCount_CopyFrom_def StruDsServerReportCurrentUserCount_MergeFrom_def
        StruDsServerReportCurrentUserCount_Clear_def)
  show "StruDsServerReportCurrentUserCount_Swap m from = (from, m)" by (cases "from"; cases m; simp add:
    StruDsServerReportCurrentUserCount_Swap_def)
qed

lemma StruDsServerReportCurrentUserCount_required:
  "StruDsServerReportCurrentUserCount_IsInitialized m \<longleftrightarrow>
     has (DsServerReportCurrentUserCount_server_id m) \<and>
     has (DsServerReportCurrentUserCount_current_user_count m)"
  by (auto simp: StruDsServerReportCurrentUserCount_IsInitialized_def has_masks)

section \<open>StruDsServerMsg\<close>

record 'u StruDsServerMsg_pb =
  DsServerMsg_server_id :: "int option"
  DsServerMsg_dst_server_id :: "int option"
  DsServerMsg_dst_server_type :: "int option"
  DsServerMsg_msg_data :: "byte list option"
  DsServerMsg_unknown :: "'u list"

definition StruDsServerMsg_SharedCtor :: "'u StruDsServerMsg_pb" where
  "StruDsServerMsg_SharedCtor = \<lparr>
     DsServerMsg_server_id = None, DsServerMsg_dst_server_id = None, DsServerMsg_dst_server_type = None,
     DsServerMsg_msg_data = None, DsServerMsg_unknown = []\<rparr>"

definition StruDsServerMsg_Clear :: "'u StruDsServerMsg_pb \<Rightarrow> 'u StruDsServerMsg_pb" where
  "StruDsServerMsg_Clear m = m\<lparr>
     DsServerMsg_server_id := None, DsServerMsg_dst_server_id := None, DsServerMsg_dst_server_type := None,
     DsServerMsg_msg_data := None, DsServerMsg_unknown := []\<rparr>"

definition StruDsServerMsg_cases :: "('i, 'u) wire \<Rightarrow> ('i, 'u StruDsServerMsg_pb) field_case list" where
  "StruDsServerMsg_cases W = [
     field_int32 W 1 (\<lambda>v. DsServerMsg_server_id_update (\<lambda>_. v)) [(16, 2)] False,
     field_int32 W 2 (\<lambda>v. DsServerMsg_dst_server_id_update (\<lambda>_. v)) [(24, 3)] False,
     field_enum W 3 ServerType_IsValid (\<lambda>v. DsServerMsg_dst_server_type_update (\<lambda>_. v))
       (\<lambda>v m. m\<lparr>DsServerMsg_unknown := w_AddVarint W 3 v (DsServerMsg_unknown m)\<rparr>) [(34, 4)] False,
     field_bytes W 4 DsServerMsg_msg_data (\<lambda>v. DsServerMsg_msg_data_update (\<lambda>_. v)) [] True]"

definition StruDsServerMsg_MergePartialFromCodedStream ::
  "('i, 'u) wire \<Rightarrow> 'i
    \<Rightarrow> 'u StruDsServerMsg_pb \<Rightarrow> (bool \<times> 'i \<times> 'u StruDsServerMsg_pb) res" where
  "StruDsServerMsg_MergePartialFromCodedStream W i m = merge_loop (merge_fuel W i) W (StruDsServerMsg_cases W)
     (skip_field W DsServerMsg_unknown (\<lambda>u. DsServerMsg_unknown_update (\<lambda>_. u))) None i m"

definition StruDsServerMsg_SerializeWithCachedSizes ::
  "('i, 'u) wire \<Rightarrow> 'u StruDsServerMsg_pb \<Rightarrow> byte list" where
  "StruDsServerMsg_SerializeWithCachedSizes W m = write_fields [
     (has (DsServerMsg_server_id m), w_WriteInt32 W 1 (value_or 0 (DsServerMsg_server_id m))),
     (has (DsServerMsg_dst_server_id m), w_WriteInt32 W 2 (value_or 0 (DsServerMsg_dst_server_id m))),
     (has (DsServerMsg_dst_server_type m), w_WriteEnum W 3 (value_or 0 (DsServerMsg_dst_server_type m))),
     (has (DsServerMsg_msg_data m), w_WriteBytes W 4 (value_or [] (DsServerMsg_msg_data m))),
     (DsServerMsg_unknown m \<noteq> [], w_WriteUnknown W (DsServerMsg_unknown m))]"

definition StruDsServerMsg_ByteSize :: "('i, 'u) wire \<Rightarrow> 'u StruDsServerMsg_pb \<Rightarrow> int" where
  "StruDsServerMsg_ByteSize W m = size_group [
     (has (DsServerMsg_server_id m), 1 + w_Int32Size W (value_or 0 (DsServerMsg_server_id m))),
     (has (DsServerMsg_dst_server_id m), 1 + w_Int32Size W (value_or 0 (DsServerMsg_dst_server_id m))),
     (has (DsServerMsg_dst_server_type m), 1 + w_EnumSize W (value_or 0 (DsServerMsg_dst_server_type m))),
     (has (DsServerMsg_msg_data m), 1 + w_BytesSize W (value_or [] (DsServerMsg_msg_data m)))]
     + (if DsServerMsg_unknown m \<noteq> [] then w_UnknownSize W (DsServerMsg_unknown m) else 0)"

definition StruDsServerMsg_MergeFrom ::
  "'u StruDsServerMsg_pb \<Rightarrow> 'u StruDsServerMsg_pb \<Rightarrow> 'u StruDsServerMsg_pb" where
  "StruDsServerMsg_MergeFrom from m = (
     let m1 = if has (DsServerMsg_server_id from) \<or> has (DsServerMsg_dst_server_id from) \<or>
       has (DsServerMsg_dst_server_type from) \<or> has (DsServerMsg_msg_data from)
       then m\<lparr>
         DsServerMsg_server_id := merge_value 0 (DsServerMsg_server_id from) (DsServerMsg_server_id m),
         DsServerMsg_dst_server_id := merge_value 0 (DsServerMsg_dst_server_id from) (DsServerMsg_dst_server_id m),
         DsServerMsg_dst_server_type := merge_value 0 (DsServerMsg_dst_server_type from) (DsServerMsg_dst_server_type m),
         DsServerMsg_msg_data := merge_value [] (DsServerMsg_msg_data from) (DsServerMsg_msg_data m)\<rparr>
       else m
     in
     m1\<lparr>DsServerMsg_unknown := DsServerMsg_unknown m1 @ DsServerMsg_unknown from\<rparr>)"

definition StruDsServerMsg_CopyFrom ::
  "'u StruDsServerMsg_pb \<Rightarrow> 'u StruDsServerMsg_pb \<Rightarrow> 'u StruDsServerMsg_pb" where
  "StruDsServerMsg_CopyFrom from m = StruDsServerMsg_MergeFrom from (StruDsServerMsg_Clear m)"

definition StruDsServerMsg_IsInitialized :: "'u StruDsServerMsg_pb \<Rightarrow> bool" where
  "StruDsServerMsg_IsInitialized m \<longleftrightarrow> has_bits [
       has (DsServerMsg_server_id m), has (DsServerMsg_dst_server_id m), has (DsServerMsg_dst_server_type m),
       has (DsServerMsg_msg_data m)] AND 0xf = 0xf"

definition StruDsServerMsg_Swap ::
  "'u StruDsServerMsg_pb \<Rightarrow> 'u StruDsServerMsg_pb
    \<Rightarrow> 'u StruDsServerMsg_pb \<times> 'u StruDsServerMsg_pb" where
  "StruDsServerMsg_Swap m other =
     (m\<lparr>
        DsServerMsg_server_id := DsServerMsg_server_id other,
        DsServerMsg_dst_server_id := DsServerMsg_dst_server_id other,
        DsServerMsg_dst_server_type := DsServerMsg_dst_server_type other,
        DsServerMsg_msg_data := DsServerMsg_msg_data other, DsServerMsg_unknown := DsServerMsg_unknown other\<rparr>,
      other\<lparr>
        DsServerMsg_server_id := DsServerMsg_server_id m,
        DsServerMsg_dst_server_id := DsServerMsg_dst_server_id m,
        DsServerMsg_dst_server_type := DsServerMsg_dst_server_type m,
        DsServerMsg_msg_data := DsServerMsg_msg_data m, DsServerMsg_unknown := DsServerMsg_unknown m\<rparr>)"

definition StruDsServerMsg_fits :: "'u StruDsServerMsg_pb \<Rightarrow> bool" where
  "StruDsServerMsg_fits m \<longleftrightarrow>
     int_ok (DsServerMsg_server_id m) \<and> int_ok (DsServerMsg_dst_server_id m) \<and>
     enum_ok ServerType_IsValid (DsServerMsg_dst_server_type m) \<and> str_ok (DsServerMsg_msg_data m) \<and>
     DsServerMsg_unknown m = []"

interpretation DsServerMsg: message_class StruDsServerMsg_cases
  "\<lambda>W. skip_field W DsServerMsg_unknown (\<lambda>u. DsServerMsg_unknown_update (\<lambda>_. u))"
  StruDsServerMsg_MergePartialFromCodedStream StruDsServerMsg_SharedCtor StruDsServerMsg_SerializeWithCachedSizes
  StruDsServerMsg_ByteSize StruDsServerMsg_IsInitialized "\<lambda>_. StruDsServerMsg_fits"
  by (unfold_locales, rule StruDsServerMsg_MergePartialFromCodedStream_def,
      simp add: StruDsServerMsg_cases_def cases_ok_def case_ok_def,
      simp add: StruDsServerMsg_cases_def field_ends,
      unfold StruDsServerMsg_fits_def StruDsServerMsg_SerializeWithCachedSizes_def, elim conjE, rule fed_eq,
      (rule fed_rules, assumption, simp add: StruDsServerMsg_cases_def, simp add: StruDsServerMsg_SharedCtor_def,
        (assumption | simp)+)+,
      rule fed_done, simp add: StruDsServerMsg_SharedCtor_def,
      unfold StruDsServerMsg_ByteSize_def length_write_fields size_group_sum, elim conjE, (drule enum_int_ok)+,
      simp add: add.assoc written_sizes split del: if_split)

lemma StruDsServerMsg_copies:
  "StruDsServerMsg_CopyFrom from m = from" "StruDsServerMsg_Swap m from = (from, m)"
proof -
  show "StruDsServerMsg_CopyFrom from m = from"
    by (rule StruDsServerMsg_pb.equality; cases "has (DsServerMsg_server_id from) \<or> has
      (DsServerMsg_dst_server_id from) \<or> has (DsServerMsg_dst_server_type from) \<or> has (DsServerMsg_msg_data from)";
      simp add: StruDsServerMsg_CopyFrom_def StruDsServerMsg_MergeFrom_def StruDsServerMsg_Clear_def)
  show "StruDsServerMsg_Swap m from = (from, m)" by (cases "from"; cases m; simp add: StruDsServerMsg_Swap_def)
qed

lemma StruDsServerMsg_required:
  "StruDsServerMsg_IsInitialized m \<longleftrightarrow>
     has (DsServerMsg_server_id m) \<and> has (DsServerMsg_dst_server_id m) \<and>
     has (DsServerMsg_dst_server_type m) \<and> has (DsServerMsg_msg_data m)"
  by (auto simp: StruDsServerMsg_IsInitialized_def has_masks)

section \<open>StruDsGSGetRoomInfoRq\<close>

record 'u StruDsGSGetRoomInfoRq_pb =
  DsGSGetRoomInfoRq_server_id :: "int option"
  DsGSGetRoomInfoRq_room_id :: "int option"
  DsGSGetRoomInfoRq_unknown :: "'u list"

definition StruDsGSGetRoomInfoRq_SharedCtor :: "'u StruDsGSGetRoomInfoRq_pb" where
  "StruDsGSGetRoomInfoRq_SharedCtor = \<lparr>
     DsGSGetRoomInfoRq_server_id = None, DsGSGetRoomInfoRq_room_id = None, DsGSGetRoomInfoRq_unknown = []\<rparr>"

definition StruDsGSGetRoomInfoRq_Clear ::
  "'u StruDsGSGetRoomInfoRq_pb \<Rightarrow> 'u StruDsGSGetRoomInfoRq_pb" where
  "StruDsGSGetRoomInfoRq_Clear m = m\<lparr>
     DsGSGetRoomInfoRq_server_id := None, DsGSGetRoomInfoRq_room_id := None, DsGSGetRoomInfoRq_unknown := []\<rparr>"

definition StruDsGSGetRoomInfoRq_cases ::
  "('i, 'u) wire \<Rightarrow> ('i, 'u StruDsGSGetRoomInfoRq_pb) field_case list" where
  "StruDsGSGetRoomInfoRq_cases W = [
     field_int32 W 1 (\<lambda>v. DsGSGetRoomInfoRq_server_id_update (\<lambda>_. v)) [(16, 2)] False,
     field_int32 W 2 (\<lambda>v. DsGSGetRoomInfoRq_room_id_update (\<lambda>_. v)) [] True]"

definition StruDsGSGetRoomInfoRq_MergePartialFromCodedStream ::
  "('i, 'u) wire \<Rightarrow> 'i \<Rightarrow> 'u StruDsGSGetRoomInfoRq_pb
    \<Rightarrow> (bool \<times> 'i \<times> 'u StruDsGSGetRoomInfoRq_pb) res" where
  "StruDsGSGetRoomInfoRq_MergePartialFromCodedStream W i m = merge_loop (merge_fuel W i) W (StruDsGSGetRoomInfoRq_cases W)
     (skip_field W DsGSGetRoomInfoRq_unknown (\<lambda>u. DsGSGetRoomInfoRq_unknown_update (\<lambda>_. u))) None i m"

definition StruDsGSGetRoomInfoRq_SerializeWithCachedSizes ::
  "('i, 'u) wire \<Rightarrow> 'u StruDsGSGetRoomInfoRq_pb \<Rightarrow> byte list" where
  "StruDsGSGetRoomInfoRq_SerializeWithCachedSizes W m = write_fields [
     (has (DsGSGetRoomInfoRq_server_id m), w_WriteInt32 W 1 (value_or 0 (DsGSGetRoomInfoRq_server_id m))),
     (has (DsGSGetRoomInfoRq_room_id m), w_WriteInt32 W 2 (value_or 0 (DsGSGetRoomInfoRq_room_id m))),
     (DsGSGetRoomInfoRq_unknown m \<noteq> [], w_WriteUnknown W (DsGSGetRoomInfoRq_unknown m))]"

definition StruDsGSGetRoomInfoRq_ByteSize ::
  "('i, 'u) wire \<Rightarrow> 'u StruDsGSGetRoomInfoRq_pb \<Rightarrow> int" where
  "StruDsGSGetRoomInfoRq_ByteSize W m = size_group [
     (has (DsGSGetRoomInfoRq_server_id m), 1 + w_Int32Size W (value_or 0 (DsGSGetRoomInfoRq_server_id m))),
     (has (DsGSGetRoomInfoRq_room_id m), 1 + w_Int32Size W (value_or 0 (DsGSGetRoomInfoRq_room_id m)))]
     + (if DsGSGetRoomInfoRq_unknown m \<noteq> [] then w_UnknownSize W (DsGSGetRoomInfoRq_unknown m) else 0)"

definition StruDsGSGetRoomInfoRq_MergeFrom ::
  "'u StruDsGSGetRoomInfoRq_pb \<Rightarrow> 'u StruDsGSGetRoomInfoRq_pb \<Rightarrow> 'u StruDsGSGetRoomInfoRq_pb" where
  "StruDsGSGetRoomInfoRq_MergeFrom from m = (
     let m1 = if has (DsGSGetRoomInfoRq_server_id from) \<or> has (DsGSGetRoomInfoRq_room_id from)
       then m\<lparr>
         DsGSGetRoomInfoRq_server_id := merge_value 0 (DsGSGetRoomInfoRq_server_id from) (DsGSGetRoomInfoRq_server_id m),
         DsGSGetRoomInfoRq_room_id := merge_value 0 (DsGSGetRoomInfoRq_room_id from) (DsGSGetRoomInfoRq_room_id m)\<rparr>
       else m
     in
     m1\<lparr>DsGSGetRoomInfoRq_unknown := DsGSGetRoomInfoRq_unknown m1 @ DsGSGetRoomInfoRq_unknown from\<rparr>)"

definition StruDsGSGetRoomInfoRq_CopyFrom ::
  "'u StruDsGSGetRoomInfoRq_pb \<Rightarrow> 'u StruDsGSGetRoomInfoRq_pb \<Rightarrow> 'u StruDsGSGetRoomInfoRq_pb" where
  "StruDsGSGetRoomInfoRq_CopyFrom from m = StruDsGSGetRoomInfoRq_MergeFrom from (StruDsGSGetRoomInfoRq_Clear m)"

definition StruDsGSGetRoomInfoRq_IsInitialized :: "'u StruDsGSGetRoomInfoRq_pb \<Rightarrow> bool" where
  "StruDsGSGetRoomInfoRq_IsInitialized m \<longleftrightarrow> has_bits [
       has (DsGSGetRoomInfoRq_server_id m), has (DsGSGetRoomInfoRq_room_id m)] AND 0x3 = 0x3"

definition StruDsGSGetRoomInfoRq_Swap ::
  "'u StruDsGSGetRoomInfoRq_pb \<Rightarrow> 'u StruDsGSGetRoomInfoRq_pb
    \<Rightarrow> 'u StruDsGSGetRoomInfoRq_pb \<times> 'u StruDsGSGetRoomInfoRq_pb" where
  "StruDsGSGetRoomInfoRq_Swap m other =
     (m\<lparr>
        DsGSGetRoomInfoRq_server_id := DsGSGetRoomInfoRq_server_id other,
        DsGSGetRoomInfoRq_room_id := DsGSGetRoomInfoRq_room_id other,
        DsGSGetRoomInfoRq_unknown := DsGSGetRoomInfoRq_unknown other\<rparr>,
      other\<lparr>
        DsGSGetRoomInfoRq_server_id := DsGSGetRoomInfoRq_server_id m,
        DsGSGetRoomInfoRq_room_id := DsGSGetRoomInfoRq_room_id m,
        DsGSGetRoomInfoRq_unknown := DsGSGetRoomInfoRq_unknown m\<rparr>)"

definition StruDsGSGetRoomInfoRq_fits :: "'u StruDsGSGetRoomInfoRq_pb \<Rightarrow> bool" where
  "StruDsGSGetRoomInfoRq_fits m \<longleftrightarrow>
     int_ok (DsGSGetRoomInfoRq_server_id m) \<and> int_ok (DsGSGetRoomInfoRq_room_id m) \<and>
     DsGSGetRoomInfoRq_unknown m = []"

interpretation DsGSGetRoomInfoRq: message_class StruDsGSGetRoomInfoRq_cases
  "\<lambda>W. skip_field W DsGSGetRoomInfoRq_unknown (\<lambda>u. DsGSGetRoomInfoRq_unknown_update (\<lambda>_. u))"
  StruDsGSGetRoomInfoRq_MergePartialFromCodedStream StruDsGSGetRoomInfoRq_SharedCtor
    StruDsGSGetRoomInfoRq_SerializeWithCachedSizes
  StruDsGSGetRoomInfoRq_ByteSize StruDsGSGetRoomInfoRq_IsInitialized "\<lambda>_. StruDsGSGetRoomInfoRq_fits"
  by (unfold_locales, rule StruDsGSGetRoomInfoRq_MergePartialFromCodedStream_def,
      simp add: StruDsGSGetRoomInfoRq_cases_def cases_ok_def case_ok_def,
      simp add: StruDsGSGetRoomInfoRq_cases_def field_ends,
      unfold StruDsGSGetRoomInfoRq_fits_def StruDsGSGetRoomInfoRq_SerializeWithCachedSizes_def, elim conjE, rule fed_eq,
      (rule fed_rules, assumption, simp add: StruDsGSGetRoomInfoRq_cases_def, simp add:
        StruDsGSGetRoomInfoRq_SharedCtor_def, (assumption | simp)+)+,
      rule fed_done, simp add: StruDsGSGetRoomInfoRq_SharedCtor_def,
      unfold StruDsGSGetRoomInfoRq_ByteSize_def length_write_fields size_group_sum, elim conjE,
      simp add: add.assoc written_sizes split del: if_split)

lemma StruDsGSGetRoomInfoRq_copies:
  "StruDsGSGetRoomInfoRq_CopyFrom from m = from" "StruDsGSGetRoomInfoRq_Swap m from = (from, m)"
proof -
  show "StruDsGSGetRoomInfoRq_CopyFrom from m = from"
    by (rule StruDsGSGetRoomInfoRq_pb.equality; cases "has (DsGSGetRoomInfoRq_server_id from) \<or> has
      (DsGSGetRoomInfoRq_room_id from)";
      simp add: StruDsGSGetRoomInfoRq_CopyFrom_def StruDsGSGetRoomInfoRq_MergeFrom_def StruDsGSGetRoomInfoRq_Clear_def)
  show "StruDsGSGetRoomInfoRq_Swap m from = (from, m)" by (cases "from"; cases m; simp add: StruDsGSGetRoomInfoRq_Swap_def)
qed

lemma StruDsGSGetRoomInfoRq_required:
  "StruDsGSGetRoomInfoRq_IsInitialized m \<longleftrightarrow>
     has (DsGSGetRoomInfoRq_server_id m) \<and> has (DsGSGetRoomInfoRq_room_id m)"
  by (auto simp: StruDsGSGetRoomInfoRq_IsInitialized_def has_masks)

section \<open>StruDsGSGetRoomInfoRs\<close>

record 'u StruDsGSGetRoomInfoRs_pb =
  DsGSGetRoomInfoRs_server_id :: "int option"
  DsGSGetRoomInfoRs_room_id :: "int option"
  DsGSGetRoomInfoRs_rs_server_id :: "int option"
  DsGSGetRoomInfoRs_server_ip :: "byte list option"
  DsGSGetRoomInfoRs_server_port :: "int option"
  DsGSGetRoomInfoRs_unknown :: "'u list"

definition StruDsGSGetRoomInfoRs_SharedCtor :: "'u StruDsGSGetRoomInfoRs_pb" where
  "StruDsGSGetRoomInfoRs_SharedCtor = \<lparr>
     DsGSGetRoomInfoRs_server_id = None, DsGSGetRoomInfoRs_room_id = None,
     DsGSGetRoomInfoRs_rs_server_id = None, DsGSGetRoomInfoRs_server_ip = None,
     DsGSGetRoomInfoRs_server_port = None, DsGSGetRoomInfoRs_unknown = []\<rparr>"

definition StruDsGSGetRoomInfoRs_Clear ::
  "'u StruDsGSGetRoomInfoRs_pb \<Rightarrow> 'u StruDsGSGetRoomInfoRs_pb" where
  "StruDsGSGetRoomInfoRs_Clear m = m\<lparr>
     DsGSGetRoomInfoRs_server_id := None, DsGSGetRoomInfoRs_room_id := None,
     DsGSGetRoomInfoRs_rs_server_id := None, DsGSGetRoomInfoRs_server_ip := None,
     DsGSGetRoomInfoRs_server_port := None, DsGSGetRoomInfoRs_unknown := []\<rparr>"

definition StruDsGSGetRoomInfoRs_cases ::
  "('i, 'u) wire \<Rightarrow> ('i, 'u StruDsGSGetRoomInfoRs_pb) field_case list" where
  "StruDsGSGetRoomInfoRs_cases W = [
     field_int32 W 1 (\<lambda>v. DsGSGetRoomInfoRs_server_id_update (\<lambda>_. v)) [(16, 2)] False,
     field_int32 W 2 (\<lambda>v. DsGSGetRoomInfoRs_room_id_update (\<lambda>_. v)) [(24, 3)] False,
     field_int32 W 3 (\<lambda>v. DsGSGetRoomInfoRs_rs_server_id_update (\<lambda>_. v)) [(34, 4)] False,
     field_string W 4 DsGSGetRoomInfoRs_server_ip (\<lambda>v. DsGSGetRoomInfoRs_server_ip_update (\<lambda>_. v))
       [(40, 5)] False,
     field_int32 W 5 (\<lambda>v. DsGSGetRoomInfoRs_server_port_update (\<lambda>_. v)) [] True]"

definition StruDsGSGetRoomInfoRs_MergePartialFromCodedStream ::
  "('i, 'u) wire \<Rightarrow> 'i \<Rightarrow> 'u StruDsGSGetRoomInfoRs_pb
    \<Rightarrow> (bool \<times> 'i \<times> 'u StruDsGSGetRoomInfoRs_pb) res" where
  "StruDsGSGetRoomInfoRs_MergePartialFromCodedStream W i m = merge_loop (merge_fuel W i) W (StruDsGSGetRoomInfoRs_cases W)
     (skip_field W DsGSGetRoomInfoRs_unknown (\<lambda>u. DsGSGetRoomInfoRs_unknown_update (\<lambda>_. u))) None i m"

definition StruDsGSGetRoomInfoRs_SerializeWithCachedSizes ::
  "('i, 'u) wire \<Rightarrow> 'u StruDsGSGetRoomInfoRs_pb \<Rightarrow> byte list" where
  "StruDsGSGetRoomInfoRs_SerializeWithCachedSizes W m = write_fields [
     (has (DsGSGetRoomInfoRs_server_id m), w_WriteInt32 W 1 (value_or 0 (DsGSGetRoomInfoRs_server_id m))),
     (has (DsGSGetRoomInfoRs_room_id m), w_WriteInt32 W 2 (value_or 0 (DsGSGetRoomInfoRs_room_id m))),
     (has (DsGSGetRoomInfoRs_rs_server_id m), w_WriteInt32 W 3 (value_or 0 (DsGSGetRoomInfoRs_rs_server_id m))),
     (has (DsGSGetRoomInfoRs_server_ip m), w_WriteString W 4 (value_or [] (DsGSGetRoomInfoRs_server_ip m))),
     (has (DsGSGetRoomInfoRs_server_port m), w_WriteInt32 W 5 (value_or 0 (DsGSGetRoomInfoRs_server_port m))),
     (DsGSGetRoomInfoRs_unknown m \<noteq> [], w_WriteUnknown W (DsGSGetRoomInfoRs_unknown m))]"

definition StruDsGSGetRoomInfoRs_ByteSize ::
  "('i, 'u) wire \<Rightarrow> 'u StruDsGSGetRoomInfoRs_pb \<Rightarrow> int" where
  "StruDsGSGetRoomInfoRs_ByteSize W m = size_group [
     (has (DsGSGetRoomInfoRs_server_id m), 1 + w_Int32Size W (value_or 0 (DsGSGetRoomInfoRs_server_id m))),
     (has (DsGSGetRoomInfoRs_room_id m), 1 + w_Int32Size W (value_or 0 (DsGSGetRoomInfoRs_room_id m))),
     (has (DsGSGetRoomInfoRs_rs_server_id m), 1 + w_Int32Size W (value_or 0 (DsGSGetRoomInfoRs_rs_server_id m))),
     (has (DsGSGetRoomInfoRs_server_ip m), 1 + w_StringSize W (value_or [] (DsGSGetRoomInfoRs_server_ip m))),
     (has (DsGSGetRoomInfoRs_server_port m), 1 + w_Int32Size W (value_or 0 (DsGSGetRoomInfoRs_server_port m)))]
     + (if DsGSGetRoomInfoRs_unknown m \<noteq> [] then w_UnknownSize W (DsGSGetRoomInfoRs_unknown m) else 0)"

definition StruDsGSGetRoomInfoRs_MergeFrom ::
  "'u StruDsGSGetRoomInfoRs_pb \<Rightarrow> 'u StruDsGSGetRoomInfoRs_pb \<Rightarrow> 'u StruDsGSGetRoomInfoRs_pb" where
  "StruDsGSGetRoomInfoRs_MergeFrom from m = (
     let m1 = if has (DsGSGetRoomInfoRs_server_id from) \<or> has (DsGSGetRoomInfoRs_room_id from) \<or>
       has (DsGSGetRoomInfoRs_rs_server_id from) \<or> has (DsGSGetRoomInfoRs_server_ip from) \<or>
       has (DsGSGetRoomInfoRs_server_port from)
       then m\<lparr>
         DsGSGetRoomInfoRs_server_id := merge_value 0 (DsGSGetRoomInfoRs_server_id from) (DsGSGetRoomInfoRs_server_id m),
         DsGSGetRoomInfoRs_room_id := merge_value 0 (DsGSGetRoomInfoRs_room_id from) (DsGSGetRoomInfoRs_room_id m),
         DsGSGetRoomInfoRs_rs_server_id := merge_value 0 (DsGSGetRoomInfoRs_rs_server_id from)
           (DsGSGetRoomInfoRs_rs_server_id m),
         DsGSGetRoomInfoRs_server_ip := merge_value [] (DsGSGetRoomInfoRs_server_ip from) (DsGSGetRoomInfoRs_server_ip m),
         DsGSGetRoomInfoRs_server_port := merge_value 0 (DsGSGetRoomInfoRs_server_port from)
           (DsGSGetRoomInfoRs_server_port m)\<rparr>
       else m
     in
     m1\<lparr>DsGSGetRoomInfoRs_unknown := DsGSGetRoomInfoRs_unknown m1 @ DsGSGetRoomInfoRs_unknown from\<rparr>)"

definition StruDsGSGetRoomInfoRs_CopyFrom ::
  "'u StruDsGSGetRoomInfoRs_pb \<Rightarrow> 'u StruDsGSGetRoomInfoRs_pb \<Rightarrow> 'u StruDsGSGetRoomInfoRs_pb" where
  "StruDsGSGetRoomInfoRs_CopyFrom from m = StruDsGSGetRoomInfoRs_MergeFrom from (StruDsGSGetRoomInfoRs_Clear m)"

definition StruDsGSGetRoomInfoRs_IsInitialized :: "'u StruDsGSGetRoomInfoRs_pb \<Rightarrow> bool" where
  "StruDsGSGetRoomInfoRs_IsInitialized m \<longleftrightarrow> has_bits [
       has (DsGSGetRoomInfoRs_server_id m), has (DsGSGetRoomInfoRs_room_id m),
       has (DsGSGetRoomInfoRs_rs_server_id m), has (DsGSGetRoomInfoRs_server_ip m),
       has (DsGSGetRoomInfoRs_server_port m)] AND 0x1f = 0x1f"

definition StruDsGSGetRoomInfoRs_Swap ::
  "'u StruDsGSGetRoomInfoRs_pb \<Rightarrow> 'u StruDsGSGetRoomInfoRs_pb
    \<Rightarrow> 'u StruDsGSGetRoomInfoRs_pb \<times> 'u StruDsGSGetRoomInfoRs_pb" where
  "StruDsGSGetRoomInfoRs_Swap m other =
     (m\<lparr>
        DsGSGetRoomInfoRs_server_id := DsGSGetRoomInfoRs_server_id other,
        DsGSGetRoomInfoRs_room_id := DsGSGetRoomInfoRs_room_id other,
        DsGSGetRoomInfoRs_rs_server_id := DsGSGetRoomInfoRs_rs_server_id other,
        DsGSGetRoomInfoRs_server_ip := DsGSGetRoomInfoRs_server_ip other,
        DsGSGetRoomInfoRs_server_port := DsGSGetRoomInfoRs_server_port other,
        DsGSGetRoomInfoRs_unknown := DsGSGetRoomInfoRs_unknown other\<rparr>,
      other\<lparr>
        DsGSGetRoomInfoRs_server_id := DsGSGetRoomInfoRs_server_id m,
        DsGSGetRoomInfoRs_room_id := DsGSGetRoomInfoRs_room_id m,
        DsGSGetRoomInfoRs_rs_server_id := DsGSGetRoomInfoRs_rs_server_id m,
        DsGSGetRoomInfoRs_server_ip := DsGSGetRoomInfoRs_server_ip m,
        DsGSGetRoomInfoRs_server_port := DsGSGetRoomInfoRs_server_port m,
        DsGSGetRoomInfoRs_unknown := DsGSGetRoomInfoRs_unknown m\<rparr>)"

definition StruDsGSGetRoomInfoRs_fits :: "'u StruDsGSGetRoomInfoRs_pb \<Rightarrow> bool" where
  "StruDsGSGetRoomInfoRs_fits m \<longleftrightarrow>
     int_ok (DsGSGetRoomInfoRs_server_id m) \<and> int_ok (DsGSGetRoomInfoRs_room_id m) \<and>
     int_ok (DsGSGetRoomInfoRs_rs_server_id m) \<and> str_ok (DsGSGetRoomInfoRs_server_ip m) \<and>
     int_ok (DsGSGetRoomInfoRs_server_port m) \<and> DsGSGetRoomInfoRs_unknown m = []"

interpretation DsGSGetRoomInfoRs: message_class StruDsGSGetRoomInfoRs_cases
  "\<lambda>W. skip_field W DsGSGetRoomInfoRs_unknown (\<lambda>u. DsGSGetRoomInfoRs_unknown_update (\<lambda>_. u))"
  StruDsGSGetRoomInfoRs_MergePartialFromCodedStream StruDsGSGetRoomInfoRs_SharedCtor
    StruDsGSGetRoomInfoRs_SerializeWithCachedSizes
  StruDsGSGetRoomInfoRs_ByteSize StruDsGSGetRoomInfoRs_IsInitialized "\<lambda>_. StruDsGSGetRoomInfoRs_fits"
  by (unfold_locales, rule StruDsGSGetRoomInfoRs_MergePartialFromCodedStream_def,
      simp add: StruDsGSGetRoomInfoRs_cases_def cases_ok_def case_ok_def,
      simp add: StruDsGSGetRoomInfoRs_cases_def field_ends,
      unfold StruDsGSGetRoomInfoRs_fits_def StruDsGSGetRoomInfoRs_SerializeWithCachedSizes_def, elim conjE, rule fed_eq,
      (rule fed_rules, assumption, simp add: StruDsGSGetRoomInfoRs_cases_def, simp add:
        StruDsGSGetRoomInfoRs_SharedCtor_def, (assumption | simp)+)+,
      rule fed_done, simp add: StruDsGSGetRoomInfoRs_SharedCtor_def,
      unfold StruDsGSGetRoomInfoRs_ByteSize_def length_write_fields size_group_sum, elim conjE,
      simp add: add.assoc written_sizes split del: if_split)

lemma StruDsGSGetRoomInfoRs_copies:
  "StruDsGSGetRoomInfoRs_CopyFrom from m = from" "StruDsGSGetRoomInfoRs_Swap m from = (from, m)"
proof -
  show "StruDsGSGetRoomInfoRs_CopyFrom from m = from"
    by (rule StruDsGSGetRoomInfoRs_pb.equality; cases "has (DsGSGetRoomInfoRs_server_id from) \<or> has
      (DsGSGetRoomInfoRs_room_id from) \<or> has (DsGSGetRoomInfoRs_rs_server_id from) \<or> has
        (DsGSGetRoomInfoRs_server_ip from) \<or> has (DsGSGetRoomInfoRs_server_port from)";
      simp add: StruDsGSGetRoomInfoRs_CopyFrom_def StruDsGSGetRoomInfoRs_MergeFrom_def StruDsGSGetRoomInfoRs_Clear_def)
  show "StruDsGSGetRoomInfoRs_Swap m from = (from, m)" by (cases "from"; cases m; simp add: StruDsGSGetRoomInfoRs_Swap_def)
qed

lemma StruDsGSGetRoomInfoRs_required:
  "StruDsGSGetRoomInfoRs_IsInitialized m \<longleftrightarrow>
     has (DsGSGetRoomInfoRs_server_id m) \<and> has (DsGSGetRoomInfoRs_room_id m) \<and>
     has (DsGSGetRoomInfoRs_rs_server_id m) \<and> has (DsGSGetRoomInfoRs_server_ip m) \<and>
     has (DsGSGetRoomInfoRs_server_port m)"
  by (auto simp: StruDsGSGetRoomInfoRs_IsInitialized_def has_masks)

section \<open>StruDsRSGetCsInfoRq\<close>

record 'u StruDsRSGetCsInfoRq_pb =
  DsRSGetCsInfoRq_server_id :: "int option"
  DsRSGetCsInfoRq_unknown :: "'u list"

definition StruDsRSGetCsInfoRq_SharedCtor :: "'u StruDsRSGetCsInfoRq_pb" where
  "StruDsRSGetCsInfoRq_SharedCtor = \<lparr>
     DsRSGetCsInfoRq_server_id = None, DsRSGetCsInfoRq_unknown = []\<rparr>"

definition StruDsRSGetCsInfoRq_Clear :: "'u StruDsRSGetCsInfoRq_pb \<Rightarrow> 'u StruDsRSGetCsInfoRq_pb" where
  "StruDsRSGetCsInfoRq_Clear m = m\<lparr>
     DsRSGetCsInfoRq_server_id := None, DsRSGetCsInfoRq_unknown := []\<rparr>"

definition StruDsRSGetCsInfoRq_cases ::
  "('i, 'u) wire \<Rightarrow> ('i, 'u StruDsRSGetCsInfoRq_pb) field_case list" where
  "StruDsRSGetCsInfoRq_cases W = [
     field_int32 W 1 (\<lambda>v. DsRSGetCsInfoRq_server_id_update (\<lambda>_. v)) [] True]"

definition StruDsRSGetCsInfoRq_MergePartialFromCodedStream ::
  "('i, 'u) wire \<Rightarrow> 'i \<Rightarrow> 'u StruDsRSGetCsInfoRq_pb
    \<Rightarrow> (bool \<times> 'i \<times> 'u StruDsRSGetCsInfoRq_pb) res" where
  "StruDsRSGetCsInfoRq_MergePartialFromCodedStream W i m = merge_loop (merge_fuel W i) W (StruDsRSGetCsInfoRq_cases W)
     (skip_field W DsRSGetCsInfoRq_unknown (\<lambda>u. DsRSGetCsInfoRq_unknown_update (\<lambda>_. u))) None i m"

definition StruDsRSGetCsInfoRq_SerializeWithCachedSizes ::
  "('i, 'u) wire \<Rightarrow> 'u StruDsRSGetCsInfoRq_pb \<Rightarrow> byte list" where
  "StruDsRSGetCsInfoRq_SerializeWithCachedSizes W m = write_fields [
     (has (DsRSGetCsInfoRq_server_id m), w_WriteInt32 W 1 (value_or 0 (DsRSGetCsInfoRq_server_id m))),
     (DsRSGetCsInfoRq_unknown m \<noteq> [], w_WriteUnknown W (DsRSGetCsInfoRq_unknown m))]"

definition StruDsRSGetCsInfoRq_ByteSize ::
  "('i, 'u) wire \<Rightarrow> 'u StruDsRSGetCsInfoRq_pb \<Rightarrow> int" where
  "StruDsRSGetCsInfoRq_ByteSize W m = size_group [
     (has (DsRSGetCsInfoRq_server_id m), 1 + w_Int32Size W (value_or 0 (DsRSGetCsInfoRq_server_id m)))]
     + (if DsRSGetCsInfoRq_unknown m \<noteq> [] then w_UnknownSize W (DsRSGetCsInfoRq_unknown m) else 0)"

definition StruDsRSGetCsInfoRq_MergeFrom ::
  "'u StruDsRSGetCsInfoRq_pb \<Rightarrow> 'u StruDsRSGetCsInfoRq_pb \<Rightarrow> 'u StruDsRSGetCsInfoRq_pb" where
  "StruDsRSGetCsInfoRq_MergeFrom from m = (
     let m1 = if has (DsRSGetCsInfoRq_server_id from)
       then m\<lparr>
         DsRSGetCsInfoRq_server_id := merge_value 0 (DsRSGetCsInfoRq_server_id from) (DsRSGetCsInfoRq_server_id m)\<rparr>
       else m
     in
     m1\<lparr>DsRSGetCsInfoRq_unknown := DsRSGetCsInfoRq_unknown m1 @ DsRSGetCsInfoRq_unknown from\<rparr>)"

definition StruDsRSGetCsInfoRq_CopyFrom ::
  "'u StruDsRSGetCsInfoRq_pb \<Rightarrow> 'u StruDsRSGetCsInfoRq_pb \<Rightarrow> 'u StruDsRSGetCsInfoRq_pb" where
  "StruDsRSGetCsInfoRq_CopyFrom from m = StruDsRSGetCsInfoRq_MergeFrom from (StruDsRSGetCsInfoRq_Clear m)"

definition StruDsRSGetCsInfoRq_IsInitialized :: "'u StruDsRSGetCsInfoRq_pb \<Rightarrow> bool" where
  "StruDsRSGetCsInfoRq_IsInitialized m \<longleftrightarrow> has_bits [
       has (DsRSGetCsInfoRq_server_id m)] AND 0x1 = 0x1"

definition StruDsRSGetCsInfoRq_Swap ::
  "'u StruDsRSGetCsInfoRq_pb \<Rightarrow> 'u StruDsRSGetCsInfoRq_pb
    \<Rightarrow> 'u StruDsRSGetCsInfoRq_pb \<times> 'u StruDsRSGetCsInfoRq_pb" where
  "StruDsRSGetCsInfoRq_Swap m other =
     (m\<lparr>
        DsRSGetCsInfoRq_server_id := DsRSGetCsInfoRq_server_id other,
        DsRSGetCsInfoRq_unknown := DsRSGetCsInfoRq_unknown other\<rparr>,
      other\<lparr>
        DsRSGetCsInfoRq_server_id := DsRSGetCsInfoRq_server_id m,
        DsRSGetCsInfoRq_unknown := DsRSGetCsInfoRq_unknown m\<rparr>)"

definition StruDsRSGetCsInfoRq_fits :: "'u StruDsRSGetCsInfoRq_pb \<Rightarrow> bool" where
  "StruDsRSGetCsInfoRq_fits m \<longleftrightarrow>
     int_ok (DsRSGetCsInfoRq_server_id m) \<and> DsRSGetCsInfoRq_unknown m = []"

interpretation DsRSGetCsInfoRq: message_class StruDsRSGetCsInfoRq_cases
  "\<lambda>W. skip_field W DsRSGetCsInfoRq_unknown (\<lambda>u. DsRSGetCsInfoRq_unknown_update (\<lambda>_. u))"
  StruDsRSGetCsInfoRq_MergePartialFromCodedStream StruDsRSGetCsInfoRq_SharedCtor StruDsRSGetCsInfoRq_SerializeWithCachedSizes
  StruDsRSGetCsInfoRq_ByteSize StruDsRSGetCsInfoRq_IsInitialized "\<lambda>_. StruDsRSGetCsInfoRq_fits"
  by (unfold_locales, rule StruDsRSGetCsInfoRq_MergePartialFromCodedStream_def,
      simp add: StruDsRSGetCsInfoRq_cases_def cases_ok_def case_ok_def,
      simp add: StruDsRSGetCsInfoRq_cases_def field_ends,
      unfold StruDsRSGetCsInfoRq_fits_def StruDsRSGetCsInfoRq_SerializeWithCachedSizes_def, elim conjE, rule fed_eq,
      (rule fed_rules, assumption, simp add: StruDsRSGetCsInfoRq_cases_def, simp add:
        StruDsRSGetCsInfoRq_SharedCtor_def, (assumption | simp)+)+,
      rule fed_done, simp add: StruDsRSGetCsInfoRq_SharedCtor_def,
      unfold StruDsRSGetCsInfoRq_ByteSize_def length_write_fields size_group_sum, elim conjE,
      simp add: add.assoc written_sizes split del: if_split)

lemma StruDsRSGetCsInfoRq_copies:
  "StruDsRSGetCsInfoRq_CopyFrom from m = from" "StruDsRSGetCsInfoRq_Swap m from = (from, m)"
proof -
  show "StruDsRSGetCsInfoRq_CopyFrom from m = from"
    by (rule StruDsRSGetCsInfoRq_pb.equality; cases "has (DsRSGetCsInfoRq_server_id from)";
      simp add: StruDsRSGetCsInfoRq_CopyFrom_def StruDsRSGetCsInfoRq_MergeFrom_def StruDsRSGetCsInfoRq_Clear_def)
  show "StruDsRSGetCsInfoRq_Swap m from = (from, m)" by (cases "from"; cases m; simp add: StruDsRSGetCsInfoRq_Swap_def)
qed

lemma StruDsRSGetCsInfoRq_required:
  "StruDsRSGetCsInfoRq_IsInitialized m \<longleftrightarrow>
     has (DsRSGetCsInfoRq_server_id m)"
  by (auto simp: StruDsRSGetCsInfoRq_IsInitialized_def has_masks)

section \<open>SStruDsRSGetCsInfoRs\<close>

record 'u SStruDsRSGetCsInfoRs_pb =
  DsRSGetCsInfoRs_server_id :: "int option"
  DsRSGetCsInfoRs_cs_server_id :: "int option"
  DsRSGetCsInfoRs_server_ip :: "byte list option"
  DsRSGetCsInfoRs_server_port :: "int option"
  DsRSGetCsInfoRs_unknown :: "'u list"

definition SStruDsRSGetCsInfoRs_SharedCtor :: "'u SStruDsRSGetCsInfoRs_pb" where
  "SStruDsRSGetCsInfoRs_SharedCtor = \<lparr>
     DsRSGetCsInfoRs_server_id = None, DsRSGetCsInfoRs_cs_server_id = None, DsRSGetCsInfoRs_server_ip = None,
     DsRSGetCsInfoRs_server_port = None, DsRSGetCsInfoRs_unknown = []\<rparr>"

definition SStruDsRSGetCsInfoRs_Clear :: "'u SStruDsRSGetCsInfoRs_pb \<Rightarrow> 'u SStruDsRSGetCsInfoRs_pb" where
  "SStruDsRSGetCsInfoRs_Clear m = m\<lparr>
     DsRSGetCsInfoRs_server_id := None, DsRSGetCsInfoRs_cs_server_id := None, DsRSGetCsInfoRs_server_ip := None,
     DsRSGetCsInfoRs_server_port := None, DsRSGetCsInfoRs_unknown := []\<rparr>"

definition SStruDsRSGetCsInfoRs_cases ::
  "('i, 'u) wire \<Rightarrow> ('i, 'u SStruDsRSGetCsInfoRs_pb) field_case list" where
  "SStruDsRSGetCsInfoRs_cases W = [
     field_int32 W 1 (\<lambda>v. DsRSGetCsInfoRs_server_id_update (\<lambda>_. v)) [(16, 2)] False,
     field_int32 W 2 (\<lambda>v. DsRSGetCsInfoRs_cs_server_id_update (\<lambda>_. v)) [(26, 3)] False,
     field_string W 3 DsRSGetCsInfoRs_server_ip (\<lambda>v. DsRSGetCsInfoRs_server_ip_update (\<lambda>_. v)) [(32,
       4)] False,
     field_int32 W 4 (\<lambda>v. DsRSGetCsInfoRs_server_port_update (\<lambda>_. v)) [] True]"

definition SStruDsRSGetCsInfoRs_MergePartialFromCodedStream ::
  "('i, 'u) wire \<Rightarrow> 'i \<Rightarrow> 'u SStruDsRSGetCsInfoRs_pb
    \<Rightarrow> (bool \<times> 'i \<times> 'u SStruDsRSGetCsInfoRs_pb) res" where
  "SStruDsRSGetCsInfoRs_MergePartialFromCodedStream W i m = merge_loop (merge_fuel W i) W (SStruDsRSGetCsInfoRs_cases W)
     (skip_field W DsRSGetCsInfoRs_unknown (\<lambda>u. DsRSGetCsInfoRs_unknown_update (\<lambda>_. u))) None i m"

definition SStruDsRSGetCsInfoRs_SerializeWithCachedSizes ::
  "('i, 'u) wire \<Rightarrow> 'u SStruDsRSGetCsInfoRs_pb \<Rightarrow> byte list" where
  "SStruDsRSGetCsInfoRs_SerializeWithCachedSizes W m = write_fields [
     (has (DsRSGetCsInfoRs_server_id m), w_WriteInt32 W 1 (value_or 0 (DsRSGetCsInfoRs_server_id m))),
     (has (DsRSGetCsInfoRs_cs_server_id m), w_WriteInt32 W 2 (value_or 0 (DsRSGetCsInfoRs_cs_server_id m))),
     (has (DsRSGetCsInfoRs_server_ip m), w_WriteString W 3 (value_or [] (DsRSGetCsInfoRs_server_ip m))),
     (has (DsRSGetCsInfoRs_server_port m), w_WriteInt32 W 4 (value_or 0 (DsRSGetCsInfoRs_server_port m))),
     (DsRSGetCsInfoRs_unknown m \<noteq> [], w_WriteUnknown W (DsRSGetCsInfoRs_unknown m))]"

definition SStruDsRSGetCsInfoRs_ByteSize ::
  "('i, 'u) wire \<Rightarrow> 'u SStruDsRSGetCsInfoRs_pb \<Rightarrow> int" where
  "SStruDsRSGetCsInfoRs_ByteSize W m = size_group [
     (has (DsRSGetCsInfoRs_server_id m), 1 + w_Int32Size W (value_or 0 (DsRSGetCsInfoRs_server_id m))),
     (has (DsRSGetCsInfoRs_cs_server_id m), 1 + w_Int32Size W (value_or 0 (DsRSGetCsInfoRs_cs_server_id m))),
     (has (DsRSGetCsInfoRs_server_ip m), 1 + w_StringSize W (value_or [] (DsRSGetCsInfoRs_server_ip m))),
     (has (DsRSGetCsInfoRs_server_port m), 1 + w_Int32Size W (value_or 0 (DsRSGetCsInfoRs_server_port m)))]
     + (if DsRSGetCsInfoRs_unknown m \<noteq> [] then w_UnknownSize W (DsRSGetCsInfoRs_unknown m) else 0)"

definition SStruDsRSGetCsInfoRs_MergeFrom ::
  "'u SStruDsRSGetCsInfoRs_pb \<Rightarrow> 'u SStruDsRSGetCsInfoRs_pb \<Rightarrow> 'u SStruDsRSGetCsInfoRs_pb" where
  "SStruDsRSGetCsInfoRs_MergeFrom from m = (
     let m1 = if has (DsRSGetCsInfoRs_server_id from) \<or> has (DsRSGetCsInfoRs_cs_server_id from) \<or>
       has (DsRSGetCsInfoRs_server_ip from) \<or> has (DsRSGetCsInfoRs_server_port from)
       then m\<lparr>
         DsRSGetCsInfoRs_server_id := merge_value 0 (DsRSGetCsInfoRs_server_id from) (DsRSGetCsInfoRs_server_id m),
         DsRSGetCsInfoRs_cs_server_id := merge_value 0 (DsRSGetCsInfoRs_cs_server_id from) (DsRSGetCsInfoRs_cs_server_id m),
         DsRSGetCsInfoRs_server_ip := merge_value [] (DsRSGetCsInfoRs_server_ip from) (DsRSGetCsInfoRs_server_ip m),
         DsRSGetCsInfoRs_server_port := merge_value 0 (DsRSGetCsInfoRs_server_port from) (DsRSGetCsInfoRs_server_port
           m)\<rparr>
       else m
     in
     m1\<lparr>DsRSGetCsInfoRs_unknown := DsRSGetCsInfoRs_unknown m1 @ DsRSGetCsInfoRs_unknown from\<rparr>)"

definition SStruDsRSGetCsInfoRs_CopyFrom ::
  "'u SStruDsRSGetCsInfoRs_pb \<Rightarrow> 'u SStruDsRSGetCsInfoRs_pb \<Rightarrow> 'u SStruDsRSGetCsInfoRs_pb" where
  "SStruDsRSGetCsInfoRs_CopyFrom from m = SStruDsRSGetCsInfoRs_MergeFrom from (SStruDsRSGetCsInfoRs_Clear m)"

definition SStruDsRSGetCsInfoRs_IsInitialized :: "'u SStruDsRSGetCsInfoRs_pb \<Rightarrow> bool" where
  "SStruDsRSGetCsInfoRs_IsInitialized m \<longleftrightarrow> has_bits [
       has (DsRSGetCsInfoRs_server_id m), has (DsRSGetCsInfoRs_cs_server_id m),
       has (DsRSGetCsInfoRs_server_ip m), has (DsRSGetCsInfoRs_server_port m)] AND 0xf = 0xf"

definition SStruDsRSGetCsInfoRs_Swap ::
  "'u SStruDsRSGetCsInfoRs_pb \<Rightarrow> 'u SStruDsRSGetCsInfoRs_pb
    \<Rightarrow> 'u SStruDsRSGetCsInfoRs_pb \<times> 'u SStruDsRSGetCsInfoRs_pb" where
  "SStruDsRSGetCsInfoRs_Swap m other =
     (m\<lparr>
        DsRSGetCsInfoRs_server_id := DsRSGetCsInfoRs_server_id other,
        DsRSGetCsInfoRs_cs_server_id := DsRSGetCsInfoRs_cs_server_id other,
        DsRSGetCsInfoRs_server_ip := DsRSGetCsInfoRs_server_ip other,
        DsRSGetCsInfoRs_server_port := DsRSGetCsInfoRs_server_port other,
        DsRSGetCsInfoRs_unknown := DsRSGetCsInfoRs_unknown other\<rparr>,
      other\<lparr>
        DsRSGetCsInfoRs_server_id := DsRSGetCsInfoRs_server_id m,
        DsRSGetCsInfoRs_cs_server_id := DsRSGetCsInfoRs_cs_server_id m,
        DsRSGetCsInfoRs_server_ip := DsRSGetCsInfoRs_server_ip m,
        DsRSGetCsInfoRs_server_port := DsRSGetCsInfoRs_server_port m,
        DsRSGetCsInfoRs_unknown := DsRSGetCsInfoRs_unknown m\<rparr>)"

definition SStruDsRSGetCsInfoRs_fits :: "'u SStruDsRSGetCsInfoRs_pb \<Rightarrow> bool" where
  "SStruDsRSGetCsInfoRs_fits m \<longleftrightarrow>
     int_ok (DsRSGetCsInfoRs_server_id m) \<and> int_ok (DsRSGetCsInfoRs_cs_server_id m) \<and>
     str_ok (DsRSGetCsInfoRs_server_ip m) \<and> int_ok (DsRSGetCsInfoRs_server_port m) \<and>
     DsRSGetCsInfoRs_unknown m = []"

interpretation DsRSGetCsInfoRs: message_class SStruDsRSGetCsInfoRs_cases
  "\<lambda>W. skip_field W DsRSGetCsInfoRs_unknown (\<lambda>u. DsRSGetCsInfoRs_unknown_update (\<lambda>_. u))"
  SStruDsRSGetCsInfoRs_MergePartialFromCodedStream SStruDsRSGetCsInfoRs_SharedCtor
    SStruDsRSGetCsInfoRs_SerializeWithCachedSizes
  SStruDsRSGetCsInfoRs_ByteSize SStruDsRSGetCsInfoRs_IsInitialized "\<lambda>_. SStruDsRSGetCsInfoRs_fits"
  by (unfold_locales, rule SStruDsRSGetCsInfoRs_MergePartialFromCodedStream_def,
      simp add: SStruDsRSGetCsInfoRs_cases_def cases_ok_def case_ok_def,
      simp add: SStruDsRSGetCsInfoRs_cases_def field_ends,
      unfold SStruDsRSGetCsInfoRs_fits_def SStruDsRSGetCsInfoRs_SerializeWithCachedSizes_def, elim conjE, rule fed_eq,
      (rule fed_rules, assumption, simp add: SStruDsRSGetCsInfoRs_cases_def, simp add:
        SStruDsRSGetCsInfoRs_SharedCtor_def, (assumption | simp)+)+,
      rule fed_done, simp add: SStruDsRSGetCsInfoRs_SharedCtor_def,
      unfold SStruDsRSGetCsInfoRs_ByteSize_def length_write_fields size_group_sum, elim conjE,
      simp add: add.assoc written_sizes split del: if_split)

lemma SStruDsRSGetCsInfoRs_copies:
  "SStruDsRSGetCsInfoRs_CopyFrom from m = from" "SStruDsRSGetCsInfoRs_Swap m from = (from, m)"
proof -
  show "SStruDsRSGetCsInfoRs_CopyFrom from m = from"
    by (rule SStruDsRSGetCsInfoRs_pb.equality; cases "has (DsRSGetCsInfoRs_server_id from) \<or> has
      (DsRSGetCsInfoRs_cs_server_id from) \<or> has (DsRSGetCsInfoRs_server_ip from) \<or> has
        (DsRSGetCsInfoRs_server_port from)";
      simp add: SStruDsRSGetCsInfoRs_CopyFrom_def SStruDsRSGetCsInfoRs_MergeFrom_def SStruDsRSGetCsInfoRs_Clear_def)
  show "SStruDsRSGetCsInfoRs_Swap m from = (from, m)" by (cases "from"; cases m; simp add: SStruDsRSGetCsInfoRs_Swap_def)
qed

lemma SStruDsRSGetCsInfoRs_required:
  "SStruDsRSGetCsInfoRs_IsInitialized m \<longleftrightarrow>
     has (DsRSGetCsInfoRs_server_id m) \<and> has (DsRSGetCsInfoRs_cs_server_id m) \<and>
     has (DsRSGetCsInfoRs_server_ip m) \<and> has (DsRSGetCsInfoRs_server_port m)"
  by (auto simp: SStruDsRSGetCsInfoRs_IsInitialized_def has_masks)

section \<open>StruDsMSStreamRq\<close>

record 'u StruDsMSStreamRq_pb =
  DsMSStreamRq_server_id :: "int option"
  DsMSStreamRq_stream_id :: "byte list option"
  DsMSStreamRq_stream_type :: "int option"
  DsMSStreamRq_unknown :: "'u list"

definition StruDsMSStreamRq_SharedCtor :: "'u StruDsMSStreamRq_pb" where
  "StruDsMSStreamRq_SharedCtor = \<lparr>
     DsMSStreamRq_server_id = None, DsMSStreamRq_stream_id = None, DsMSStreamRq_stream_type = None,
     DsMSStreamRq_unknown = []\<rparr>"

definition StruDsMSStreamRq_Clear :: "'u StruDsMSStreamRq_pb \<Rightarrow> 'u StruDsMSStreamRq_pb" where
  "StruDsMSStreamRq_Clear m = m\<lparr>
     DsMSStreamRq_server_id := None, DsMSStreamRq_stream_id := None, DsMSStreamRq_stream_type := None,
     DsMSStreamRq_unknown := []\<rparr>"

definition StruDsMSStreamRq_cases :: "('i, 'u) wire \<Rightarrow> ('i, 'u StruDsMSStreamRq_pb) field_case list" where
  "StruDsMSStreamRq_cases W = [
     field_int32 W 1 (\<lambda>v. DsMSStreamRq_server_id_update (\<lambda>_. v)) [(18, 2)] False,
     field_string W 2 DsMSStreamRq_stream_id (\<lambda>v. DsMSStreamRq_stream_id_update (\<lambda>_. v)) [(24, 3)] False,
     field_enum W 3 StruDsMSStreamRq_StreamType_IsValid (\<lambda>v. DsMSStreamRq_stream_type_update (\<lambda>_. v))
       (\<lambda>v m. m\<lparr>DsMSStreamRq_unknown := w_AddVarint W 3 v (DsMSStreamRq_unknown m)\<rparr>) [] True]"

definition StruDsMSStreamRq_MergePartialFromCodedStream ::
  "('i, 'u) wire \<Rightarrow> 'i
    \<Rightarrow> 'u StruDsMSStreamRq_pb \<Rightarrow> (bool \<times> 'i \<times> 'u StruDsMSStreamRq_pb) res" where
  "StruDsMSStreamRq_MergePartialFromCodedStream W i m = merge_loop (merge_fuel W i) W (StruDsMSStreamRq_cases W)
     (skip_field W DsMSStreamRq_unknown (\<lambda>u. DsMSStreamRq_unknown_update (\<lambda>_. u))) None i m"

definition StruDsMSStreamRq_SerializeWithCachedSizes ::
  "('i, 'u) wire \<Rightarrow> 'u StruDsMSStreamRq_pb \<Rightarrow> byte list" where
  "StruDsMSStreamRq_SerializeWithCachedSizes W m = write_fields [
     (has (DsMSStreamRq_server_id m), w_WriteInt32 W 1 (value_or 0 (DsMSStreamRq_server_id m))),
     (has (DsMSStreamRq_stream_id m), w_WriteString W 2 (value_or [] (DsMSStreamRq_stream_id m))),
     (has (DsMSStreamRq_stream_type m), w_WriteEnum W 3 (value_or 0 (DsMSStreamRq_stream_type m))),
     (DsMSStreamRq_unknown m \<noteq> [], w_WriteUnknown W (DsMSStreamRq_unknown m))]"

definition StruDsMSStreamRq_ByteSize :: "('i, 'u) wire \<Rightarrow> 'u StruDsMSStreamRq_pb \<Rightarrow> int" where
  "StruDsMSStreamRq_ByteSize W m = size_group [
     (has (DsMSStreamRq_server_id m), 1 + w_Int32Size W (value_or 0 (DsMSStreamRq_server_id m))),
     (has (DsMSStreamRq_stream_id m), 1 + w_StringSize W (value_or [] (DsMSStreamRq_stream_id m))),
     (has (DsMSStreamRq_stream_type m), 1 + w_EnumSize W (value_or 0 (DsMSStreamRq_stream_type m)))]
     + (if DsMSStreamRq_unknown m \<noteq> [] then w_UnknownSize W (DsMSStreamRq_unknown m) else 0)"

definition StruDsMSStreamRq_MergeFrom ::
  "'u StruDsMSStreamRq_pb \<Rightarrow> 'u StruDsMSStreamRq_pb \<Rightarrow> 'u StruDsMSStreamRq_pb" where
  "StruDsMSStreamRq_MergeFrom from m = (
     let m1 = if has (DsMSStreamRq_server_id from) \<or> has (DsMSStreamRq_stream_id from) \<or>
       has (DsMSStreamRq_stream_type from)
       then m\<lparr>
         DsMSStreamRq_server_id := merge_value 0 (DsMSStreamRq_server_id from) (DsMSStreamRq_server_id m),
         DsMSStreamRq_stream_id := merge_value [] (DsMSStreamRq_stream_id from) (DsMSStreamRq_stream_id m),
         DsMSStreamRq_stream_type := merge_value 0 (DsMSStreamRq_stream_type from) (DsMSStreamRq_stream_type m)\<rparr>
       else m
     in
     m1\<lparr>DsMSStreamRq_unknown := DsMSStreamRq_unknown m1 @ DsMSStreamRq_unknown from\<rparr>)"

definition StruDsMSStreamRq_CopyFrom ::
  "'u StruDsMSStreamRq_pb \<Rightarrow> 'u StruDsMSStreamRq_pb \<Rightarrow> 'u StruDsMSStreamRq_pb" where
  "StruDsMSStreamRq_CopyFrom from m = StruDsMSStreamRq_MergeFrom from (StruDsMSStreamRq_Clear m)"

definition StruDsMSStreamRq_IsInitialized :: "'u StruDsMSStreamRq_pb \<Rightarrow> bool" where
  "StruDsMSStreamRq_IsInitialized m \<longleftrightarrow> has_bits [
       has (DsMSStreamRq_server_id m), has (DsMSStreamRq_stream_id m), has (DsMSStreamRq_stream_type m)] AND 0x7 = 0x7"

definition StruDsMSStreamRq_Swap ::
  "'u StruDsMSStreamRq_pb \<Rightarrow> 'u StruDsMSStreamRq_pb
    \<Rightarrow> 'u StruDsMSStreamRq_pb \<times> 'u StruDsMSStreamRq_pb" where
  "StruDsMSStreamRq_Swap m other =
     (m\<lparr>
        DsMSStreamRq_server_id := DsMSStreamRq_server_id other,
        DsMSStreamRq_stream_id := DsMSStreamRq_stream_id other,
        DsMSStreamRq_stream_type := DsMSStreamRq_stream_type other,
        DsMSStreamRq_unknown := DsMSStreamRq_unknown other\<rparr>,
      other\<lparr>
        DsMSStreamRq_server_id := DsMSStreamRq_server_id m, DsMSStreamRq_stream_id := DsMSStreamRq_stream_id m,
        DsMSStreamRq_stream_type := DsMSStreamRq_stream_type m, DsMSStreamRq_unknown := DsMSStreamRq_unknown m\<rparr>)"

definition StruDsMSStreamRq_fits :: "'u StruDsMSStreamRq_pb \<Rightarrow> bool" where
  "StruDsMSStreamRq_fits m \<longleftrightarrow>
     int_ok (DsMSStreamRq_server_id m) \<and> str_ok (DsMSStreamRq_stream_id m) \<and>
     enum_ok StruDsMSStreamRq_StreamType_IsValid (DsMSStreamRq_stream_type m) \<and> DsMSStreamRq_unknown m = []"

interpretation DsMSStreamRq: message_class StruDsMSStreamRq_cases
  "\<lambda>W. skip_field W DsMSStreamRq_unknown (\<lambda>u. DsMSStreamRq_unknown_update (\<lambda>_. u))"
  StruDsMSStreamRq_MergePartialFromCodedStream StruDsMSStreamRq_SharedCtor StruDsMSStreamRq_SerializeWithCachedSizes
  StruDsMSStreamRq_ByteSize StruDsMSStreamRq_IsInitialized "\<lambda>_. StruDsMSStreamRq_fits"
  by (unfold_locales, rule StruDsMSStreamRq_MergePartialFromCodedStream_def,
      simp add: StruDsMSStreamRq_cases_def cases_ok_def case_ok_def,
      simp add: StruDsMSStreamRq_cases_def field_ends,
      unfold StruDsMSStreamRq_fits_def StruDsMSStreamRq_SerializeWithCachedSizes_def, elim conjE, rule fed_eq,
      (rule fed_rules, assumption, simp add: StruDsMSStreamRq_cases_def, simp add: StruDsMSStreamRq_SharedCtor_def,
        (assumption | simp)+)+,
      rule fed_done, simp add: StruDsMSStreamRq_SharedCtor_def,
      unfold StruDsMSStreamRq_ByteSize_def length_write_fields size_group_sum, elim conjE, (drule enum_int_ok)+,
      simp add: add.assoc written_sizes split del: if_split)

lemma StruDsMSStreamRq_copies:
  "StruDsMSStreamRq_CopyFrom from m = from" "StruDsMSStreamRq_Swap m from = (from, m)"
proof -
  show "StruDsMSStreamRq_CopyFrom from m = from"
    by (rule StruDsMSStreamRq_pb.equality; cases "has (DsMSStreamRq_server_id from) \<or> has (DsMSStreamRq_stream_id
      from) \<or> has (DsMSStreamRq_stream_type from)";
      simp add: StruDsMSStreamRq_CopyFrom_def StruDsMSStreamRq_MergeFrom_def StruDsMSStreamRq_Clear_def)
  show "StruDsMSStreamRq_Swap m from = (from, m)" by (cases "from"; cases m; simp add: StruDsMSStreamRq_Swap_def)
qed

lemma StruDsMSStreamRq_required:
  "StruDsMSStreamRq_IsInitialized m \<longleftrightarrow>
     has (DsMSStreamRq_server_id m) \<and> has (DsMSStreamRq_stream_id m) \<and>
     has (DsMSStreamRq_stream_type m)"
  by (auto simp: StruDsMSStreamRq_IsInitialized_def has_masks)

section \<open>StruDsMSStreamRs\<close>

record 'u StruDsMSStreamRs_pb =
  DsMSStreamRs_server_id :: "int option"
  DsMSStreamRs_stream_id :: "byte list option"
  DsMSStreamRs_result :: "int option"
  DsMSStreamRs_unknown :: "'u list"

definition StruDsMSStreamRs_SharedCtor :: "'u StruDsMSStreamRs_pb" where
  "StruDsMSStreamRs_SharedCtor = \<lparr>
     DsMSStreamRs_server_id = None, DsMSStreamRs_stream_id = None, DsMSStreamRs_result = None,
     DsMSStreamRs_unknown = []\<rparr>"

definition StruDsMSStreamRs_Clear :: "'u StruDsMSStreamRs_pb \<Rightarrow> 'u StruDsMSStreamRs_pb" where
  "StruDsMSStreamRs_Clear m = m\<lparr>
     DsMSStreamRs_server_id := None, DsMSStreamRs_stream_id := None, DsMSStreamRs_result := None,
     DsMSStreamRs_unknown := []\<rparr>"

definition StruDsMSStreamRs_cases :: "('i, 'u) wire \<Rightarrow> ('i, 'u StruDsMSStreamRs_pb) field_case list" where
  "StruDsMSStreamRs_cases W = [
     field_int32 W 1 (\<lambda>v. DsMSStreamRs_server_id_update (\<lambda>_. v)) [(18, 2)] False,
     field_string W 2 DsMSStreamRs_stream_id (\<lambda>v. DsMSStreamRs_stream_id_update (\<lambda>_. v)) [(24, 3)] False,
     field_int32 W 3 (\<lambda>v. DsMSStreamRs_result_update (\<lambda>_. v)) [] True]"

definition StruDsMSStreamRs_MergePartialFromCodedStream ::
  "('i, 'u) wire \<Rightarrow> 'i
    \<Rightarrow> 'u StruDsMSStreamRs_pb \<Rightarrow> (bool \<times> 'i \<times> 'u StruDsMSStreamRs_pb) res" where
  "StruDsMSStreamRs_MergePartialFromCodedStream W i m = merge_loop (merge_fuel W i) W (StruDsMSStreamRs_cases W)
     (skip_field W DsMSStreamRs_unknown (\<lambda>u. DsMSStreamRs_unknown_update (\<lambda>_. u))) None i m"

definition StruDsMSStreamRs_SerializeWithCachedSizes ::
  "('i, 'u) wire \<Rightarrow> 'u StruDsMSStreamRs_pb \<Rightarrow> byte list" where
  "StruDsMSStreamRs_SerializeWithCachedSizes W m = write_fields [
     (has (DsMSStreamRs_server_id m), w_WriteInt32 W 1 (value_or 0 (DsMSStreamRs_server_id m))),
     (has (DsMSStreamRs_stream_id m), w_WriteString W 2 (value_or [] (DsMSStreamRs_stream_id m))),
     (has (DsMSStreamRs_result m), w_WriteInt32 W 3 (value_or 0 (DsMSStreamRs_result m))),
     (DsMSStreamRs_unknown m \<noteq> [], w_WriteUnknown W (DsMSStreamRs_unknown m))]"

definition StruDsMSStreamRs_ByteSize :: "('i, 'u) wire \<Rightarrow> 'u StruDsMSStreamRs_pb \<Rightarrow> int" where
  "StruDsMSStreamRs_ByteSize W m = size_group [
     (has (DsMSStreamRs_server_id m), 1 + w_Int32Size W (value_or 0 (DsMSStreamRs_server_id m))),
     (has (DsMSStreamRs_stream_id m), 1 + w_StringSize W (value_or [] (DsMSStreamRs_stream_id m))),
     (has (DsMSStreamRs_result m), 1 + w_Int32Size W (value_or 0 (DsMSStreamRs_result m)))]
     + (if DsMSStreamRs_unknown m \<noteq> [] then w_UnknownSize W (DsMSStreamRs_unknown m) else 0)"

definition StruDsMSStreamRs_MergeFrom ::
  "'u StruDsMSStreamRs_pb \<Rightarrow> 'u StruDsMSStreamRs_pb \<Rightarrow> 'u StruDsMSStreamRs_pb" where
  "StruDsMSStreamRs_MergeFrom from m = (
     let m1 = if has (DsMSStreamRs_server_id from) \<or> has (DsMSStreamRs_stream_id from) \<or>
       has (DsMSStreamRs_result from)
       then m\<lparr>
         DsMSStreamRs_server_id := merge_value 0 (DsMSStreamRs_server_id from) (DsMSStreamRs_server_id m),
         DsMSStreamRs_stream_id := merge_value [] (DsMSStreamRs_stream_id from) (DsMSStreamRs_stream_id m),
         DsMSStreamRs_result := merge_value 0 (DsMSStreamRs_result from) (DsMSStreamRs_result m)\<rparr>
       else m
     in
     m1\<lparr>DsMSStreamRs_unknown := DsMSStreamRs_unknown m1 @ DsMSStreamRs_unknown from\<rparr>)"

definition StruDsMSStreamRs_CopyFrom ::
  "'u StruDsMSStreamRs_pb \<Rightarrow> 'u StruDsMSStreamRs_pb \<Rightarrow> 'u StruDsMSStreamRs_pb" where
  "StruDsMSStreamRs_CopyFrom from m = StruDsMSStreamRs_MergeFrom from (StruDsMSStreamRs_Clear m)"

definition StruDsMSStreamRs_IsInitialized :: "'u StruDsMSStreamRs_pb \<Rightarrow> bool" where
  "StruDsMSStreamRs_IsInitialized m \<longleftrightarrow> has_bits [
       has (DsMSStreamRs_server_id m), has (DsMSStreamRs_stream_id m), has (DsMSStreamRs_result m)] AND 0x7 = 0x7"

definition StruDsMSStreamRs_Swap ::
  "'u StruDsMSStreamRs_pb \<Rightarrow> 'u StruDsMSStreamRs_pb
    \<Rightarrow> 'u StruDsMSStreamRs_pb \<times> 'u StruDsMSStreamRs_pb" where
  "StruDsMSStreamRs_Swap m other =
     (m\<lparr>
        DsMSStreamRs_server_id := DsMSStreamRs_server_id other,
        DsMSStreamRs_stream_id := DsMSStreamRs_stream_id other,
        DsMSStreamRs_result := DsMSStreamRs_result other, DsMSStreamRs_unknown := DsMSStreamRs_unknown other\<rparr>,
      other\<lparr>
        DsMSStreamRs_server_id := DsMSStreamRs_server_id m, DsMSStreamRs_stream_id := DsMSStreamRs_stream_id m,
        DsMSStreamRs_result := DsMSStreamRs_result m, DsMSStreamRs_unknown := DsMSStreamRs_unknown m\<rparr>)"

definition StruDsMSStreamRs_fits :: "'u StruDsMSStreamRs_pb \<Rightarrow> bool" where
  "StruDsMSStreamRs_fits m \<longleftrightarrow>
     int_ok (DsMSStreamRs_server_id m) \<and> str_ok (DsMSStreamRs_stream_id m) \<and>
     int_ok (DsMSStreamRs_result m) \<and> DsMSStreamRs_unknown m = []"

interpretation DsMSStreamRs: message_class StruDsMSStreamRs_cases
  "\<lambda>W. skip_field W DsMSStreamRs_unknown (\<lambda>u. DsMSStreamRs_unknown_update (\<lambda>_. u))"
  StruDsMSStreamRs_MergePartialFromCodedStream StruDsMSStreamRs_SharedCtor StruDsMSStreamRs_SerializeWithCachedSizes
  StruDsMSStreamRs_ByteSize StruDsMSStreamRs_IsInitialized "\<lambda>_. StruDsMSStreamRs_fits"
  by (unfold_locales, rule StruDsMSStreamRs_MergePartialFromCodedStream_def,
      simp add: StruDsMSStreamRs_cases_def cases_ok_def case_ok_def,
      simp add: StruDsMSStreamRs_cases_def field_ends,
      unfold StruDsMSStreamRs_fits_def StruDsMSStreamRs_SerializeWithCachedSizes_def, elim conjE, rule fed_eq,
      (rule fed_rules, assumption, simp add: StruDsMSStreamRs_cases_def, simp add: StruDsMSStreamRs_SharedCtor_def,
        (assumption | simp)+)+,
      rule fed_done, simp add: StruDsMSStreamRs_SharedCtor_def,
      unfold StruDsMSStreamRs_ByteSize_def length_write_fields size_group_sum, elim conjE,
      simp add: add.assoc written_sizes split del: if_split)

lemma StruDsMSStreamRs_copies:
  "StruDsMSStreamRs_CopyFrom from m = from" "StruDsMSStreamRs_Swap m from = (from, m)"
proof -
  show "StruDsMSStreamRs_CopyFrom from m = from"
    by (rule StruDsMSStreamRs_pb.equality; cases "has (DsMSStreamRs_server_id from) \<or> has (DsMSStreamRs_stream_id
      from) \<or> has (DsMSStreamRs_result from)";
      simp add: StruDsMSStreamRs_CopyFrom_def StruDsMSStreamRs_MergeFrom_def StruDsMSStreamRs_Clear_def)
  show "StruDsMSStreamRs_Swap m from = (from, m)" by (cases "from"; cases m; simp add: StruDsMSStreamRs_Swap_def)
qed

lemma StruDsMSStreamRs_required:
  "StruDsMSStreamRs_IsInitialized m \<longleftrightarrow>
     has (DsMSStreamRs_server_id m) \<and> has (DsMSStreamRs_stream_id m) \<and> has (DsMSStreamRs_result m)"
  by (auto simp: StruDsMSStreamRs_IsInitialized_def has_masks)

section \<open>StruDsMSQueryStreamRq\<close>

record 'u StruDsMSQueryStreamRq_pb =
  DsMSQueryStreamRq_server_id :: "int option"
  DsMSQueryStreamRq_stream_id :: "byte list option"
  DsMSQueryStreamRq_unknown :: "'u list"

definition StruDsMSQueryStreamRq_SharedCtor :: "'u StruDsMSQueryStreamRq_pb" where
  "StruDsMSQueryStreamRq_SharedCtor = \<lparr>
     DsMSQueryStreamRq_server_id = None, DsMSQueryStreamRq_stream_id = None, DsMSQueryStreamRq_unknown = []\<rparr>"

definition StruDsMSQueryStreamRq_Clear ::
  "'u StruDsMSQueryStreamRq_pb \<Rightarrow> 'u StruDsMSQueryStreamRq_pb" where
  "StruDsMSQueryStreamRq_Clear m = m\<lparr>
     DsMSQueryStreamRq_server_id := None, DsMSQueryStreamRq_stream_id := None, DsMSQueryStreamRq_unknown := []\<rparr>"

definition StruDsMSQueryStreamRq_cases ::
  "('i, 'u) wire \<Rightarrow> ('i, 'u StruDsMSQueryStreamRq_pb) field_case list" where
  "StruDsMSQueryStreamRq_cases W = [
     field_int32 W 1 (\<lambda>v. DsMSQueryStreamRq_server_id_update (\<lambda>_. v)) [(18, 2)] False,
     field_string W 2 DsMSQueryStreamRq_stream_id (\<lambda>v. DsMSQueryStreamRq_stream_id_update (\<lambda>_. v)) [] True]"

definition StruDsMSQueryStreamRq_MergePartialFromCodedStream ::
  "('i, 'u) wire \<Rightarrow> 'i \<Rightarrow> 'u StruDsMSQueryStreamRq_pb
    \<Rightarrow> (bool \<times> 'i \<times> 'u StruDsMSQueryStreamRq_pb) res" where
  "StruDsMSQueryStreamRq_MergePartialFromCodedStream W i m = merge_loop (merge_fuel W i) W (StruDsMSQueryStreamRq_cases W)
     (skip_field W DsMSQueryStreamRq_unknown (\<lambda>u. DsMSQueryStreamRq_unknown_update (\<lambda>_. u))) None i m"

definition StruDsMSQueryStreamRq_SerializeWithCachedSizes ::
  "('i, 'u) wire \<Rightarrow> 'u StruDsMSQueryStreamRq_pb \<Rightarrow> byte list" where
  "StruDsMSQueryStreamRq_SerializeWithCachedSizes W m = write_fields [
     (has (DsMSQueryStreamRq_server_id m), w_WriteInt32 W 1 (value_or 0 (DsMSQueryStreamRq_server_id m))),
     (has (DsMSQueryStreamRq_stream_id m), w_WriteString W 2 (value_or [] (DsMSQueryStreamRq_stream_id m))),
     (DsMSQueryStreamRq_unknown m \<noteq> [], w_WriteUnknown W (DsMSQueryStreamRq_unknown m))]"

definition StruDsMSQueryStreamRq_ByteSize ::
  "('i, 'u) wire \<Rightarrow> 'u StruDsMSQueryStreamRq_pb \<Rightarrow> int" where
  "StruDsMSQueryStreamRq_ByteSize W m = size_group [
     (has (DsMSQueryStreamRq_server_id m), 1 + w_Int32Size W (value_or 0 (DsMSQueryStreamRq_server_id m))),
     (has (DsMSQueryStreamRq_stream_id m), 1 + w_StringSize W (value_or [] (DsMSQueryStreamRq_stream_id m)))]
     + (if DsMSQueryStreamRq_unknown m \<noteq> [] then w_UnknownSize W (DsMSQueryStreamRq_unknown m) else 0)"

definition StruDsMSQueryStreamRq_MergeFrom ::
  "'u StruDsMSQueryStreamRq_pb \<Rightarrow> 'u StruDsMSQueryStreamRq_pb \<Rightarrow> 'u StruDsMSQueryStreamRq_pb" where
  "StruDsMSQueryStreamRq_MergeFrom from m = (
     let m1 = if has (DsMSQueryStreamRq_server_id from) \<or> has (DsMSQueryStreamRq_stream_id from)
       then m\<lparr>
         DsMSQueryStreamRq_server_id := merge_value 0 (DsMSQueryStreamRq_server_id from) (DsMSQueryStreamRq_server_id m),
         DsMSQueryStreamRq_stream_id := merge_value [] (DsMSQueryStreamRq_stream_id from)
           (DsMSQueryStreamRq_stream_id m)\<rparr>
       else m
     in
     m1\<lparr>DsMSQueryStreamRq_unknown := DsMSQueryStreamRq_unknown m1 @ DsMSQueryStreamRq_unknown from\<rparr>)"

definition StruDsMSQueryStreamRq_CopyFrom ::
  "'u StruDsMSQueryStreamRq_pb \<Rightarrow> 'u StruDsMSQueryStreamRq_pb \<Rightarrow> 'u StruDsMSQueryStreamRq_pb" where
  "StruDsMSQueryStreamRq_CopyFrom from m = StruDsMSQueryStreamRq_MergeFrom from (StruDsMSQueryStreamRq_Clear m)"

definition StruDsMSQueryStreamRq_IsInitialized :: "'u StruDsMSQueryStreamRq_pb \<Rightarrow> bool" where
  "StruDsMSQueryStreamRq_IsInitialized m \<longleftrightarrow> has_bits [
       has (DsMSQueryStreamRq_server_id m), has (DsMSQueryStreamRq_stream_id m)] AND 0x3 = 0x3"

definition StruDsMSQueryStreamRq_Swap ::
  "'u StruDsMSQueryStreamRq_pb \<Rightarrow> 'u StruDsMSQueryStreamRq_pb
    \<Rightarrow> 'u StruDsMSQueryStreamRq_pb \<times> 'u StruDsMSQueryStreamRq_pb" where
  "StruDsMSQueryStreamRq_Swap m other =
     (m\<lparr>
        DsMSQueryStreamRq_server_id := DsMSQueryStreamRq_server_id other,
        DsMSQueryStreamRq_stream_id := DsMSQueryStreamRq_stream_id other,
        DsMSQueryStreamRq_unknown := DsMSQueryStreamRq_unknown other\<rparr>,
      other\<lparr>
        DsMSQueryStreamRq_server_id := DsMSQueryStreamRq_server_id m,
        DsMSQueryStreamRq_stream_id := DsMSQueryStreamRq_stream_id m,
        DsMSQueryStreamRq_unknown := DsMSQueryStreamRq_unknown m\<rparr>)"

definition StruDsMSQueryStreamRq_fits :: "'u StruDsMSQueryStreamRq_pb \<Rightarrow> bool" where
  "StruDsMSQueryStreamRq_fits m \<longleftrightarrow>
     int_ok (DsMSQueryStreamRq_server_id m) \<and> str_ok (DsMSQueryStreamRq_stream_id m) \<and>
     DsMSQueryStreamRq_unknown m = []"

interpretation DsMSQueryStreamRq: message_class StruDsMSQueryStreamRq_cases
  "\<lambda>W. skip_field W DsMSQueryStreamRq_unknown (\<lambda>u. DsMSQueryStreamRq_unknown_update (\<lambda>_. u))"
  StruDsMSQueryStreamRq_MergePartialFromCodedStream StruDsMSQueryStreamRq_SharedCtor
    StruDsMSQueryStreamRq_SerializeWithCachedSizes
  StruDsMSQueryStreamRq_ByteSize StruDsMSQueryStreamRq_IsInitialized "\<lambda>_. StruDsMSQueryStreamRq_fits"
  by (unfold_locales, rule StruDsMSQueryStreamRq_MergePartialFromCodedStream_def,
      simp add: StruDsMSQueryStreamRq_cases_def cases_ok_def case_ok_def,
      simp add: StruDsMSQueryStreamRq_cases_def field_ends,
      unfold StruDsMSQueryStreamRq_fits_def StruDsMSQueryStreamRq_SerializeWithCachedSizes_def, elim conjE, rule fed_eq,
      (rule fed_rules, assumption, simp add: StruDsMSQueryStreamRq_cases_def, simp add:
        StruDsMSQueryStreamRq_SharedCtor_def, (assumption | simp)+)+,
      rule fed_done, simp add: StruDsMSQueryStreamRq_SharedCtor_def,
      unfold StruDsMSQueryStreamRq_ByteSize_def length_write_fields size_group_sum, elim conjE,
      simp add: add.assoc written_sizes split del: if_split)

lemma StruDsMSQueryStreamRq_copies:
  "StruDsMSQueryStreamRq_CopyFrom from m = from" "StruDsMSQueryStreamRq_Swap m from = (from, m)"
proof -
  show "StruDsMSQueryStreamRq_CopyFrom from m = from"
    by (rule StruDsMSQueryStreamRq_pb.equality; cases "has (DsMSQueryStreamRq_server_id from) \<or> has
      (DsMSQueryStreamRq_stream_id from)";
      simp add: StruDsMSQueryStreamRq_CopyFrom_def StruDsMSQueryStreamRq_MergeFrom_def StruDsMSQueryStreamRq_Clear_def)
  show "StruDsMSQueryStreamRq_Swap m from = (from, m)" by (cases "from"; cases m; simp add: StruDsMSQueryStreamRq_Swap_def)
qed

lemma StruDsMSQueryStreamRq_required:
  "StruDsMSQueryStreamRq_IsInitialized m \<longleftrightarrow>
     has (DsMSQueryStreamRq_server_id m) \<and> has (DsMSQueryStreamRq_stream_id m)"
  by (auto simp: StruDsMSQueryStreamRq_IsInitialized_def has_masks)

section \<open>StruDsMSQueryStreamRs\<close>

record 'u StruDsMSQueryStreamRs_pb =
  DsMSQueryStreamRs_server_id :: "int option"
  DsMSQueryStreamRs_result :: "int option"
  DsMSQueryStreamRs_stream_id :: "byte list option"
  DsMSQueryStreamRs_src_stream_url :: "byte list option"
  DsMSQueryStreamRs_stream_server_id :: "int option"
  DsMSQueryStreamRs_unknown :: "'u list"

definition StruDsMSQueryStreamRs_SharedCtor :: "'u StruDsMSQueryStreamRs_pb" where
  "StruDsMSQueryStreamRs_SharedCtor = \<lparr>
     DsMSQueryStreamRs_server_id = None, DsMSQueryStreamRs_result = None, DsMSQueryStreamRs_stream_id = None,
     DsMSQueryStreamRs_src_stream_url = None, DsMSQueryStreamRs_stream_server_id = None,
     DsMSQueryStreamRs_unknown = []\<rparr>"

definition StruDsMSQueryStreamRs_Clear ::
  "'u StruDsMSQueryStreamRs_pb \<Rightarrow> 'u StruDsMSQueryStreamRs_pb" where
  "StruDsMSQueryStreamRs_Clear m = m\<lparr>
     DsMSQueryStreamRs_server_id := None, DsMSQueryStreamRs_result := None, DsMSQueryStreamRs_stream_id := None,
     DsMSQueryStreamRs_src_stream_url := None, DsMSQueryStreamRs_stream_server_id := None,
     DsMSQueryStreamRs_unknown := []\<rparr>"

definition StruDsMSQueryStreamRs_cases ::
  "('i, 'u) wire \<Rightarrow> ('i, 'u StruDsMSQueryStreamRs_pb) field_case list" where
  "StruDsMSQueryStreamRs_cases W = [
     field_int32 W 1 (\<lambda>v. DsMSQueryStreamRs_server_id_update (\<lambda>_. v)) [(16, 2)] False,
     field_int32 W 2 (\<lambda>v. DsMSQueryStreamRs_result_update (\<lambda>_. v)) [(26, 3)] False,
     field_string W 3 DsMSQueryStreamRs_stream_id (\<lambda>v. DsMSQueryStreamRs_stream_id_update (\<lambda>_. v))
       [(34, 4)] False,
     field_string W 4 DsMSQueryStreamRs_src_stream_url (\<lambda>v. DsMSQueryStreamRs_src_stream_url_update
       (\<lambda>_. v)) [(40, 5)] False,
     field_int32 W 5 (\<lambda>v. DsMSQueryStreamRs_stream_server_id_update (\<lambda>_. v)) [] True]"

definition StruDsMSQueryStreamRs_MergePartialFromCodedStream ::
  "('i, 'u) wire \<Rightarrow> 'i \<Rightarrow> 'u StruDsMSQueryStreamRs_pb
    \<Rightarrow> (bool \<times> 'i \<times> 'u StruDsMSQueryStreamRs_pb) res" where
  "StruDsMSQueryStreamRs_MergePartialFromCodedStream W i m = merge_loop (merge_fuel W i) W (StruDsMSQueryStreamRs_cases W)
     (skip_field W DsMSQueryStreamRs_unknown (\<lambda>u. DsMSQueryStreamRs_unknown_update (\<lambda>_. u))) None i m"

definition StruDsMSQueryStreamRs_SerializeWithCachedSizes ::
  "('i, 'u) wire \<Rightarrow> 'u StruDsMSQueryStreamRs_pb \<Rightarrow> byte list" where
  "StruDsMSQueryStreamRs_SerializeWithCachedSizes W m = write_fields [
     (has (DsMSQueryStreamRs_server_id m), w_WriteInt32 W 1 (value_or 0 (DsMSQueryStreamRs_server_id m))),
     (has (DsMSQueryStreamRs_result m), w_WriteInt32 W 2 (value_or 0 (DsMSQueryStreamRs_result m))),
     (has (DsMSQueryStreamRs_stream_id m), w_WriteString W 3 (value_or [] (DsMSQueryStreamRs_stream_id m))),
     (has (DsMSQueryStreamRs_src_stream_url m), w_WriteString W 4 (value_or [] (DsMSQueryStreamRs_src_stream_url m))),
     (has (DsMSQueryStreamRs_stream_server_id m), w_WriteInt32 W 5 (value_or 0 (DsMSQueryStreamRs_stream_server_id m))),
     (DsMSQueryStreamRs_unknown m \<noteq> [], w_WriteUnknown W (DsMSQueryStreamRs_unknown m))]"

definition StruDsMSQueryStreamRs_ByteSize ::
  "('i, 'u) wire \<Rightarrow> 'u StruDsMSQueryStreamRs_pb \<Rightarrow> int" where
  "StruDsMSQueryStreamRs_ByteSize W m = size_group [
     (has (DsMSQueryStreamRs_server_id m), 1 + w_Int32Size W (value_or 0 (DsMSQueryStreamRs_server_id m))),
     (has (DsMSQueryStreamRs_result m), 1 + w_Int32Size W (value_or 0 (DsMSQueryStreamRs_result m))),
     (has (DsMSQueryStreamRs_stream_id m), 1 + w_StringSize W (value_or [] (DsMSQueryStreamRs_stream_id m))),
     (has (DsMSQueryStreamRs_src_stream_url m), 1 + w_StringSize W (value_or [] (DsMSQueryStreamRs_src_stream_url m))),
     (has (DsMSQueryStreamRs_stream_server_id m), 1 + w_Int32Size W (value_or 0 (DsMSQueryStreamRs_stream_server_id m)))]
     + (if DsMSQueryStreamRs_unknown m \<noteq> [] then w_UnknownSize W (DsMSQueryStreamRs_unknown m) else 0)"

definition StruDsMSQueryStreamRs_MergeFrom ::
  "'u StruDsMSQueryStreamRs_pb \<Rightarrow> 'u StruDsMSQueryStreamRs_pb \<Rightarrow> 'u StruDsMSQueryStreamRs_pb" where
  "StruDsMSQueryStreamRs_MergeFrom from m = (
     let m1 = if has (DsMSQueryStreamRs_server_id from) \<or> has (DsMSQueryStreamRs_result from) \<or>
       has (DsMSQueryStreamRs_stream_id from) \<or> has (DsMSQueryStreamRs_src_stream_url from) \<or>
       has (DsMSQueryStreamRs_stream_server_id from)
       then m\<lparr>
         DsMSQueryStreamRs_server_id := merge_value 0 (DsMSQueryStreamRs_server_id from) (DsMSQueryStreamRs_server_id m),
         DsMSQueryStreamRs_result := merge_value 0 (DsMSQueryStreamRs_result from) (DsMSQueryStreamRs_result m),
         DsMSQueryStreamRs_stream_id := merge_value [] (DsMSQueryStreamRs_stream_id from) (DsMSQueryStreamRs_stream_id m),
         DsMSQueryStreamRs_src_stream_url := merge_value [] (DsMSQueryStreamRs_src_stream_url from)
           (DsMSQueryStreamRs_src_stream_url m),
         DsMSQueryStreamRs_stream_server_id := merge_value 0 (DsMSQueryStreamRs_stream_server_id from)
           (DsMSQueryStreamRs_stream_server_id m)\<rparr>
       else m
     in
     m1\<lparr>DsMSQueryStreamRs_unknown := DsMSQueryStreamRs_unknown m1 @ DsMSQueryStreamRs_unknown from\<rparr>)"

definition StruDsMSQueryStreamRs_CopyFrom ::
  "'u StruDsMSQueryStreamRs_pb \<Rightarrow> 'u StruDsMSQueryStreamRs_pb \<Rightarrow> 'u StruDsMSQueryStreamRs_pb" where
  "StruDsMSQueryStreamRs_CopyFrom from m = StruDsMSQueryStreamRs_MergeFrom from (StruDsMSQueryStreamRs_Clear m)"

definition StruDsMSQueryStreamRs_IsInitialized :: "'u StruDsMSQueryStreamRs_pb \<Rightarrow> bool" where
  "StruDsMSQueryStreamRs_IsInitialized m \<longleftrightarrow> has_bits [
       has (DsMSQueryStreamRs_server_id m), has (DsMSQueryStreamRs_result m),
       has (DsMSQueryStreamRs_stream_id m), has (DsMSQueryStreamRs_src_stream_url m),
       has (DsMSQueryStreamRs_stream_server_id m)] AND 0x1f = 0x1f"

definition StruDsMSQueryStreamRs_Swap ::
  "'u StruDsMSQueryStreamRs_pb \<Rightarrow> 'u StruDsMSQueryStreamRs_pb
    \<Rightarrow> 'u StruDsMSQueryStreamRs_pb \<times> 'u StruDsMSQueryStreamRs_pb" where
  "StruDsMSQueryStreamRs_Swap m other =
     (m\<lparr>
        DsMSQueryStreamRs_server_id := DsMSQueryStreamRs_server_id other,
        DsMSQueryStreamRs_result := DsMSQueryStreamRs_result other,
        DsMSQueryStreamRs_stream_id := DsMSQueryStreamRs_stream_id other,
        DsMSQueryStreamRs_src_stream_url := DsMSQueryStreamRs_src_stream_url other,
        DsMSQueryStreamRs_stream_server_id := DsMSQueryStreamRs_stream_server_id other,
        DsMSQueryStreamRs_unknown := DsMSQueryStreamRs_unknown other\<rparr>,
      other\<lparr>
        DsMSQueryStreamRs_server_id := DsMSQueryStreamRs_server_id m,
        DsMSQueryStreamRs_result := DsMSQueryStreamRs_result m,
        DsMSQueryStreamRs_stream_id := DsMSQueryStreamRs_stream_id m,
        DsMSQueryStreamRs_src_stream_url := DsMSQueryStreamRs_src_stream_url m,
        DsMSQueryStreamRs_stream_server_id := DsMSQueryStreamRs_stream_server_id m,
        DsMSQueryStreamRs_unknown := DsMSQueryStreamRs_unknown m\<rparr>)"

definition StruDsMSQueryStreamRs_fits :: "'u StruDsMSQueryStreamRs_pb \<Rightarrow> bool" where
  "StruDsMSQueryStreamRs_fits m \<longleftrightarrow>
     int_ok (DsMSQueryStreamRs_server_id m) \<and> int_ok (DsMSQueryStreamRs_result m) \<and>
     str_ok (DsMSQueryStreamRs_stream_id m) \<and> str_ok (DsMSQueryStreamRs_src_stream_url m) \<and>
     int_ok (DsMSQueryStreamRs_stream_server_id m) \<and> DsMSQueryStreamRs_unknown m = []"

interpretation DsMSQueryStreamRs: message_class StruDsMSQueryStreamRs_cases
  "\<lambda>W. skip_field W DsMSQueryStreamRs_unknown (\<lambda>u. DsMSQueryStreamRs_unknown_update (\<lambda>_. u))"
  StruDsMSQueryStreamRs_MergePartialFromCodedStream StruDsMSQueryStreamRs_SharedCtor
    StruDsMSQueryStreamRs_SerializeWithCachedSizes
  StruDsMSQueryStreamRs_ByteSize StruDsMSQueryStreamRs_IsInitialized "\<lambda>_. StruDsMSQueryStreamRs_fits"
  by (unfold_locales, rule StruDsMSQueryStreamRs_MergePartialFromCodedStream_def,
      simp add: StruDsMSQueryStreamRs_cases_def cases_ok_def case_ok_def,
      simp add: StruDsMSQueryStreamRs_cases_def field_ends,
      unfold StruDsMSQueryStreamRs_fits_def StruDsMSQueryStreamRs_SerializeWithCachedSizes_def, elim conjE, rule fed_eq,
      (rule fed_rules, assumption, simp add: StruDsMSQueryStreamRs_cases_def, simp add:
        StruDsMSQueryStreamRs_SharedCtor_def, (assumption | simp)+)+,
      rule fed_done, simp add: StruDsMSQueryStreamRs_SharedCtor_def,
      unfold StruDsMSQueryStreamRs_ByteSize_def length_write_fields size_group_sum, elim conjE,
      simp add: add.assoc written_sizes split del: if_split)

lemma StruDsMSQueryStreamRs_copies:
  "StruDsMSQueryStreamRs_CopyFrom from m = from" "StruDsMSQueryStreamRs_Swap m from = (from, m)"
proof -
  show "StruDsMSQueryStreamRs_CopyFrom from m = from"
    by (rule StruDsMSQueryStreamRs_pb.equality; cases "has (DsMSQueryStreamRs_server_id from) \<or> has
      (DsMSQueryStreamRs_result from) \<or> has (DsMSQueryStreamRs_stream_id from) \<or> has
        (DsMSQueryStreamRs_src_stream_url from) \<or> has (DsMSQueryStreamRs_stream_server_id from)";
      simp add: StruDsMSQueryStreamRs_CopyFrom_def StruDsMSQueryStreamRs_MergeFrom_def StruDsMSQueryStreamRs_Clear_def)
  show "StruDsMSQueryStreamRs_Swap m from = (from, m)" by (cases "from"; cases m; simp add: StruDsMSQueryStreamRs_Swap_def)
qed

lemma StruDsMSQueryStreamRs_required:
  "StruDsMSQueryStreamRs_IsInitialized m \<longleftrightarrow>
     has (DsMSQueryStreamRs_server_id m) \<and> has (DsMSQueryStreamRs_result m) \<and>
     has (DsMSQueryStreamRs_stream_id m) \<and> has (DsMSQueryStreamRs_src_stream_url m) \<and>
     has (DsMSQueryStreamRs_stream_server_id m)"
  by (auto simp: StruDsMSQueryStreamRs_IsInitialized_def has_masks)

section \<open>StruDsServerInfo\<close>

record 'u StruDsServerInfo_pb =
  DsServerInfo_server_id :: "int option"
  DsServerInfo_server_info_type :: "int option"
  DsServerInfo_server_ip :: "byte list option"
  DsServerInfo_server_detect_port :: "int option"
  DsServerInfo_unknown :: "'u list"

definition StruDsServerInfo_SharedCtor :: "'u StruDsServerInfo_pb" where
  "StruDsServerInfo_SharedCtor = \<lparr>
     DsServerInfo_server_id = None, DsServerInfo_server_info_type = None, DsServerInfo_server_ip = None,
     DsServerInfo_server_detect_port = None, DsServerInfo_unknown = []\<rparr>"

definition StruDsServerInfo_Clear :: "'u StruDsServerInfo_pb \<Rightarrow> 'u StruDsServerInfo_pb" where
  "StruDsServerInfo_Clear m = m\<lparr>
     DsServerInfo_server_id := None, DsServerInfo_server_info_type := None, DsServerInfo_server_ip := None,
     DsServerInfo_server_detect_port := None, DsServerInfo_unknown := []\<rparr>"

definition StruDsServerInfo_cases :: "('i, 'u) wire \<Rightarrow> ('i, 'u StruDsServerInfo_pb) field_case list" where
  "StruDsServerInfo_cases W = [
     field_int32 W 1 (\<lambda>v. DsServerInfo_server_id_update (\<lambda>_. v)) [(16, 2)] False,
     field_enum W 2 StruDsServerInfo_ServerInfoType_IsValid (\<lambda>v. DsServerInfo_server_info_type_update
       (\<lambda>_. v))
       (\<lambda>v m. m\<lparr>DsServerInfo_unknown := w_AddVarint W 2 v (DsServerInfo_unknown m)\<rparr>) [(26, 3)] False,
     field_string W 3 DsServerInfo_server_ip (\<lambda>v. DsServerInfo_server_ip_update (\<lambda>_. v)) [(32, 4)] False,
     field_int32 W 4 (\<lambda>v. DsServerInfo_server_detect_port_update (\<lambda>_. v)) [] True]"

definition StruDsServerInfo_MergePartialFromCodedStream ::
  "('i, 'u) wire \<Rightarrow> 'i
    \<Rightarrow> 'u StruDsServerInfo_pb \<Rightarrow> (bool \<times> 'i \<times> 'u StruDsServerInfo_pb) res" where
  "StruDsServerInfo_MergePartialFromCodedStream W i m = merge_loop (merge_fuel W i) W (StruDsServerInfo_cases W)
     (skip_field W DsServerInfo_unknown (\<lambda>u. DsServerInfo_unknown_update (\<lambda>_. u))) None i m"

definition StruDsServerInfo_SerializeWithCachedSizes ::
  "('i, 'u) wire \<Rightarrow> 'u StruDsServerInfo_pb \<Rightarrow> byte list" where
  "StruDsServerInfo_SerializeWithCachedSizes W m = write_fields [
     (has (DsServerInfo_server_id m), w_WriteInt32 W 1 (value_or 0 (DsServerInfo_server_id m))),
     (has (DsServerInfo_server_info_type m), w_WriteEnum W 2 (value_or 0 (DsServerInfo_server_info_type m))),
     (has (DsServerInfo_server_ip m), w_WriteString W 3 (value_or [] (DsServerInfo_server_ip m))),
     (has (DsServerInfo_server_detect_port m), w_WriteInt32 W 4 (value_or 0 (DsServerInfo_server_detect_port m))),
     (DsServerInfo_unknown m \<noteq> [], w_WriteUnknown W (DsServerInfo_unknown m))]"

definition StruDsServerInfo_ByteSize :: "('i, 'u) wire \<Rightarrow> 'u StruDsServerInfo_pb \<Rightarrow> int" where
  "StruDsServerInfo_ByteSize W m = size_group [
     (has (DsServerInfo_server_id m), 1 + w_Int32Size W (value_or 0 (DsServerInfo_server_id m))),
     (has (DsServerInfo_server_info_type m), 1 + w_EnumSize W (value_or 0 (DsServerInfo_server_info_type m))),
     (has (DsServerInfo_server_ip m), 1 + w_StringSize W (value_or [] (DsServerInfo_server_ip m))),
     (has (DsServerInfo_server_detect_port m), 1 + w_Int32Size W (value_or 0 (DsServerInfo_server_detect_port m)))]
     + (if DsServerInfo_unknown m \<noteq> [] then w_UnknownSize W (DsServerInfo_unknown m) else 0)"

definition StruDsServerInfo_MergeFrom ::
  "'u StruDsServerInfo_pb \<Rightarrow> 'u StruDsServerInfo_pb \<Rightarrow> 'u StruDsServerInfo_pb" where
  "StruDsServerInfo_MergeFrom from m = (
     let m1 = if has (DsServerInfo_server_id from) \<or> has (DsServerInfo_server_info_type from) \<or>
       has (DsServerInfo_server_ip from) \<or> has (DsServerInfo_server_detect_port from)
       then m\<lparr>
         DsServerInfo_server_id := merge_value 0 (DsServerInfo_server_id from) (DsServerInfo_server_id m),
         DsServerInfo_server_info_type := merge_value 0 (DsServerInfo_server_info_type from)
           (DsServerInfo_server_info_type m),
         DsServerInfo_server_ip := merge_value [] (DsServerInfo_server_ip from) (DsServerInfo_server_ip m),
         DsServerInfo_server_detect_port := merge_value 0 (DsServerInfo_server_detect_port from)
           (DsServerInfo_server_detect_port m)\<rparr>
       else m
     in
     m1\<lparr>DsServerInfo_unknown := DsServerInfo_unknown m1 @ DsServerInfo_unknown from\<rparr>)"

definition StruDsServerInfo_CopyFrom ::
  "'u StruDsServerInfo_pb \<Rightarrow> 'u StruDsServerInfo_pb \<Rightarrow> 'u StruDsServerInfo_pb" where
  "StruDsServerInfo_CopyFrom from m = StruDsServerInfo_MergeFrom from (StruDsServerInfo_Clear m)"

definition StruDsServerInfo_IsInitialized :: "'u StruDsServerInfo_pb \<Rightarrow> bool" where
  "StruDsServerInfo_IsInitialized m \<longleftrightarrow> has_bits [
       has (DsServerInfo_server_id m), has (DsServerInfo_server_info_type m), has (DsServerInfo_server_ip m),
       has (DsServerInfo_server_detect_port m)] AND 0xf = 0xf"

definition StruDsServerInfo_Swap ::
  "'u StruDsServerInfo_pb \<Rightarrow> 'u StruDsServerInfo_pb
    \<Rightarrow> 'u StruDsServerInfo_pb \<times> 'u StruDsServerInfo_pb" where
  "StruDsServerInfo_Swap m other =
     (m\<lparr>
        DsServerInfo_server_id := DsServerInfo_server_id other,
        DsServerInfo_server_info_type := DsServerInfo_server_info_type other,
        DsServerInfo_server_ip := DsServerInfo_server_ip other,
        DsServerInfo_server_detect_port := DsServerInfo_server_detect_port other,
        DsServerInfo_unknown := DsServerInfo_unknown other\<rparr>,
      other\<lparr>
        DsServerInfo_server_id := DsServerInfo_server_id m,
        DsServerInfo_server_info_type := DsServerInfo_server_info_type m,
        DsServerInfo_server_ip := DsServerInfo_server_ip m,
        DsServerInfo_server_detect_port := DsServerInfo_server_detect_port m,
        DsServerInfo_unknown := DsServerInfo_unknown m\<rparr>)"

definition StruDsServerInfo_fits :: "'u StruDsServerInfo_pb \<Rightarrow> bool" where
  "StruDsServerInfo_fits m \<longleftrightarrow>
     int_ok (DsServerInfo_server_id m) \<and>
     enum_ok StruDsServerInfo_ServerInfoType_IsValid (DsServerInfo_server_info_type m) \<and>
     str_ok (DsServerInfo_server_ip m) \<and> int_ok (DsServerInfo_server_detect_port m) \<and>
     DsServerInfo_unknown m = []"

interpretation DsServerInfo: message_class StruDsServerInfo_cases
  "\<lambda>W. skip_field W DsServerInfo_unknown (\<lambda>u. DsServerInfo_unknown_update (\<lambda>_. u))"
  StruDsServerInfo_MergePartialFromCodedStream StruDsServerInfo_SharedCtor StruDsServerInfo_SerializeWithCachedSizes
  StruDsServerInfo_ByteSize StruDsServerInfo_IsInitialized "\<lambda>_. StruDsServerInfo_fits"
  by (unfold_locales, rule StruDsServerInfo_MergePartialFromCodedStream_def,
      simp add: StruDsServerInfo_cases_def cases_ok_def case_ok_def,
      simp add: StruDsServerInfo_cases_def field_ends,
      unfold StruDsServerInfo_fits_def StruDsServerInfo_SerializeWithCachedSizes_def, elim conjE, rule fed_eq,
      (rule fed_rules, assumption, simp add: StruDsServerInfo_cases_def, simp add: StruDsServerInfo_SharedCtor_def,
        (assumption | simp)+)+,
      rule fed_done, simp add: StruDsServerInfo_SharedCtor_def,
      unfold StruDsServerInfo_ByteSize_def length_write_fields size_group_sum, elim conjE, (drule enum_int_ok)+,
      simp add: add.assoc written_sizes split del: if_split)

lemma StruDsServerInfo_copies:
  "StruDsServerInfo_CopyFrom from m = from" "StruDsServerInfo_Swap m from = (from, m)"
proof -
  show "StruDsServerInfo_CopyFrom from m = from"
    by (rule StruDsServerInfo_pb.equality; cases "has (DsServerInfo_server_id from) \<or> has
      (DsServerInfo_server_info_type from) \<or> has (DsServerInfo_server_ip from) \<or> has
        (DsServerInfo_server_detect_port from)";
      simp add: StruDsServerInfo_CopyFrom_def StruDsServerInfo_MergeFrom_def StruDsServerInfo_Clear_def)
  show "StruDsServerInfo_Swap m from = (from, m)" by (cases "from"; cases m; simp add: StruDsServerInfo_Swap_def)
qed

lemma StruDsServerInfo_required:
  "StruDsServerInfo_IsInitialized m \<longleftrightarrow>
     has (DsServerInfo_server_id m) \<and> has (DsServerInfo_server_info_type m) \<and>
     has (DsServerInfo_server_ip m) \<and> has (DsServerInfo_server_detect_port m)"
  by (auto simp: StruDsServerInfo_IsInitialized_def has_masks)

section \<open>StruServerDetctInfo\<close>

record 'u StruServerDetctInfo_pb =
  ServerDetctInfo_src_server_id :: "int option"
  ServerDetctInfo_dst_server_id :: "int option"
  ServerDetctInfo_pkt_index :: "int option"
  ServerDetctInfo_pkt_sendtime :: "int option"
  ServerDetctInfo_pkt_data :: "byte list option"
  ServerDetctInfo_unknown :: "'u list"

definition StruServerDetctInfo_SharedCtor :: "'u StruServerDetctInfo_pb" where
  "StruServerDetctInfo_SharedCtor = \<lparr>
     ServerDetctInfo_src_server_id = None, ServerDetctInfo_dst_server_id = None,
     ServerDetctInfo_pkt_index = None, ServerDetctInfo_pkt_sendtime = None, ServerDetctInfo_pkt_data = None,
     ServerDetctInfo_unknown = []\<rparr>"

definition StruServerDetctInfo_Clear :: "'u StruServerDetctInfo_pb \<Rightarrow> 'u StruServerDetctInfo_pb" where
  "StruServerDetctInfo_Clear m = m\<lparr>
     ServerDetctInfo_src_server_id := None, ServerDetctInfo_dst_server_id := None,
     ServerDetctInfo_pkt_index := None, ServerDetctInfo_pkt_sendtime := None, ServerDetctInfo_pkt_data := None,
     ServerDetctInfo_unknown := []\<rparr>"

definition StruServerDetctInfo_cases ::
  "('i, 'u) wire \<Rightarrow> ('i, 'u StruServerDetctInfo_pb) field_case list" where
  "StruServerDetctInfo_cases W = [
     field_int32 W 1 (\<lambda>v. ServerDetctInfo_src_server_id_update (\<lambda>_. v)) [(16, 2)] False,
     field_int32 W 2 (\<lambda>v. ServerDetctInfo_dst_server_id_update (\<lambda>_. v)) [(24, 3)] False,
     field_int32 W 3 (\<lambda>v. ServerDetctInfo_pkt_index_update (\<lambda>_. v)) [(32, 4)] False,
     field_int32 W 4 (\<lambda>v. ServerDetctInfo_pkt_sendtime_update (\<lambda>_. v)) [(42, 5)] False,
     field_bytes W 5 ServerDetctInfo_pkt_data (\<lambda>v. ServerDetctInfo_pkt_data_update (\<lambda>_. v)) [] True]"

definition StruServerDetctInfo_MergePartialFromCodedStream ::
  "('i, 'u) wire \<Rightarrow> 'i \<Rightarrow> 'u StruServerDetctInfo_pb
    \<Rightarrow> (bool \<times> 'i \<times> 'u StruServerDetctInfo_pb) res" where
  "StruServerDetctInfo_MergePartialFromCodedStream W i m = merge_loop (merge_fuel W i) W (StruServerDetctInfo_cases W)
     (skip_field W ServerDetctInfo_unknown (\<lambda>u. ServerDetctInfo_unknown_update (\<lambda>_. u))) None i m"

definition StruServerDetctInfo_SerializeWithCachedSizes ::
  "('i, 'u) wire \<Rightarrow> 'u StruServerDetctInfo_pb \<Rightarrow> byte list" where
  "StruServerDetctInfo_SerializeWithCachedSizes W m = write_fields [
     (has (ServerDetctInfo_src_server_id m), w_WriteInt32 W 1 (value_or 0 (ServerDetctInfo_src_server_id m))),
     (has (ServerDetctInfo_dst_server_id m), w_WriteInt32 W 2 (value_or 0 (ServerDetctInfo_dst_server_id m))),
     (has (ServerDetctInfo_pkt_index m), w_WriteInt32 W 3 (value_or 0 (ServerDetctInfo_pkt_index m))),
     (has (ServerDetctInfo_pkt_sendtime m), w_WriteInt32 W 4 (value_or 0 (ServerDetctInfo_pkt_sendtime m))),
     (has (ServerDetctInfo_pkt_data m), w_WriteBytes W 5 (value_or [] (ServerDetctInfo_pkt_data m))),
     (ServerDetctInfo_unknown m \<noteq> [], w_WriteUnknown W (ServerDetctInfo_unknown m))]"

definition StruServerDetctInfo_ByteSize ::
  "('i, 'u) wire \<Rightarrow> 'u StruServerDetctInfo_pb \<Rightarrow> int" where
  "StruServerDetctInfo_ByteSize W m = size_group [
     (has (ServerDetctInfo_src_server_id m), 1 + w_Int32Size W (value_or 0 (ServerDetctInfo_src_server_id m))),
     (has (ServerDetctInfo_dst_server_id m), 1 + w_Int32Size W (value_or 0 (ServerDetctInfo_dst_server_id m))),
     (has (ServerDetctInfo_pkt_index m), 1 + w_Int32Size W (value_or 0 (ServerDetctInfo_pkt_index m))),
     (has (ServerDetctInfo_pkt_sendtime m), 1 + w_Int32Size W (value_or 0 (ServerDetctInfo_pkt_sendtime m))),
     (has (ServerDetctInfo_pkt_data m), 1 + w_BytesSize W (value_or [] (ServerDetctInfo_pkt_data m)))]
     + (if ServerDetctInfo_unknown m \<noteq> [] then w_UnknownSize W (ServerDetctInfo_unknown m) else 0)"

definition StruServerDetctInfo_MergeFrom ::
  "'u StruServerDetctInfo_pb \<Rightarrow> 'u StruServerDetctInfo_pb \<Rightarrow> 'u StruServerDetctInfo_pb" where
  "StruServerDetctInfo_MergeFrom from m = (
     let m1 = if has (ServerDetctInfo_src_server_id from) \<or> has (ServerDetctInfo_dst_server_id from) \<or>
       has (ServerDetctInfo_pkt_index from) \<or> has (ServerDetctInfo_pkt_sendtime from) \<or>
       has (ServerDetctInfo_pkt_data from)
       then m\<lparr>
         ServerDetctInfo_src_server_id := merge_value 0 (ServerDetctInfo_src_server_id from)
           (ServerDetctInfo_src_server_id m),
         ServerDetctInfo_dst_server_id := merge_value 0 (ServerDetctInfo_dst_server_id from)
           (ServerDetctInfo_dst_server_id m),
         ServerDetctInfo_pkt_index := merge_value 0 (ServerDetctInfo_pkt_index from) (ServerDetctInfo_pkt_index m),
         ServerDetctInfo_pkt_sendtime := merge_value 0 (ServerDetctInfo_pkt_sendtime from) (ServerDetctInfo_pkt_sendtime m),
         ServerDetctInfo_pkt_data := merge_value [] (ServerDetctInfo_pkt_data from) (ServerDetctInfo_pkt_data m)\<rparr>
       else m
     in
     m1\<lparr>ServerDetctInfo_unknown := ServerDetctInfo_unknown m1 @ ServerDetctInfo_unknown from\<rparr>)"

definition StruServerDetctInfo_CopyFrom ::
  "'u StruServerDetctInfo_pb \<Rightarrow> 'u StruServerDetctInfo_pb \<Rightarrow> 'u StruServerDetctInfo_pb" where
  "StruServerDetctInfo_CopyFrom from m = StruServerDetctInfo_MergeFrom from (StruServerDetctInfo_Clear m)"

definition StruServerDetctInfo_IsInitialized :: "'u StruServerDetctInfo_pb \<Rightarrow> bool" where
  "StruServerDetctInfo_IsInitialized m \<longleftrightarrow> has_bits [
       has (ServerDetctInfo_src_server_id m), has (ServerDetctInfo_dst_server_id m),
       has (ServerDetctInfo_pkt_index m), has (ServerDetctInfo_pkt_sendtime m), has (ServerDetctInfo_pkt_data m)] AND
         0x1f = 0x1f"

definition StruServerDetctInfo_Swap ::
  "'u StruServerDetctInfo_pb \<Rightarrow> 'u StruServerDetctInfo_pb
    \<Rightarrow> 'u StruServerDetctInfo_pb \<times> 'u StruServerDetctInfo_pb" where
  "StruServerDetctInfo_Swap m other =
     (m\<lparr>
        ServerDetctInfo_src_server_id := ServerDetctInfo_src_server_id other,
        ServerDetctInfo_dst_server_id := ServerDetctInfo_dst_server_id other,
        ServerDetctInfo_pkt_index := ServerDetctInfo_pkt_index other,
        ServerDetctInfo_pkt_sendtime := ServerDetctInfo_pkt_sendtime other,
        ServerDetctInfo_pkt_data := ServerDetctInfo_pkt_data other,
        ServerDetctInfo_unknown := ServerDetctInfo_unknown other\<rparr>,
      other\<lparr>
        ServerDetctInfo_src_server_id := ServerDetctInfo_src_server_id m,
        ServerDetctInfo_dst_server_id := ServerDetctInfo_dst_server_id m,
        ServerDetctInfo_pkt_index := ServerDetctInfo_pkt_index m,
        ServerDetctInfo_pkt_sendtime := ServerDetctInfo_pkt_sendtime m,
        ServerDetctInfo_pkt_data := ServerDetctInfo_pkt_data m,
        ServerDetctInfo_unknown := ServerDetctInfo_unknown m\<rparr>)"

definition StruServerDetctInfo_fits :: "'u StruServerDetctInfo_pb \<Rightarrow> bool" where
  "StruServerDetctInfo_fits m \<longleftrightarrow>
     int_ok (ServerDetctInfo_src_server_id m) \<and> int_ok (ServerDetctInfo_dst_server_id m) \<and>
     int_ok (ServerDetctInfo_pkt_index m) \<and> int_ok (ServerDetctInfo_pkt_sendtime m) \<and>
     str_ok (ServerDetctInfo_pkt_data m) \<and> ServerDetctInfo_unknown m = []"

interpretation ServerDetctInfo: message_class StruServerDetctInfo_cases
  "\<lambda>W. skip_field W ServerDetctInfo_unknown (\<lambda>u. ServerDetctInfo_unknown_update (\<lambda>_. u))"
  StruServerDetctInfo_MergePartialFromCodedStream StruServerDetctInfo_SharedCtor StruServerDetctInfo_SerializeWithCachedSizes
  StruServerDetctInfo_ByteSize StruServerDetctInfo_IsInitialized "\<lambda>_. StruServerDetctInfo_fits"
  by (unfold_locales, rule StruServerDetctInfo_MergePartialFromCodedStream_def,
      simp add: StruServerDetctInfo_cases_def cases_ok_def case_ok_def,
      simp add: StruServerDetctInfo_cases_def field_ends,
      unfold StruServerDetctInfo_fits_def StruServerDetctInfo_SerializeWithCachedSizes_def, elim conjE, rule fed_eq,
      (rule fed_rules, assumption, simp add: StruServerDetctInfo_cases_def, simp add:
        StruServerDetctInfo_SharedCtor_def, (assumption | simp)+)+,
      rule fed_done, simp add: StruServerDetctInfo_SharedCtor_def,
      unfold StruServerDetctInfo_ByteSize_def length_write_fields size_group_sum, elim conjE,
      simp add: add.assoc written_sizes split del: if_split)

lemma StruServerDetctInfo_copies:
  "StruServerDetctInfo_CopyFrom from m = from" "StruServerDetctInfo_Swap m from = (from, m)"
proof -
  show "StruServerDetctInfo_CopyFrom from m = from"
    by (rule StruServerDetctInfo_pb.equality; cases "has (ServerDetctInfo_src_server_id from) \<or> has
      (ServerDetctInfo_dst_server_id from) \<or> has (ServerDetctInfo_pkt_index from) \<or> has
        (ServerDetctInfo_pkt_sendtime from) \<or> has (ServerDetctInfo_pkt_data from)";
      simp add: StruServerDetctInfo_CopyFrom_def StruServerDetctInfo_MergeFrom_def StruServerDetctInfo_Clear_def)
  show "StruServerDetctInfo_Swap m from = (from, m)" by (cases "from"; cases m; simp add: StruServerDetctInfo_Swap_def)
qed

lemma StruServerDetctInfo_required:
  "StruServerDetctInfo_IsInitialized m \<longleftrightarrow>
     has (ServerDetctInfo_src_server_id m) \<and> has (ServerDetctInfo_dst_server_id m) \<and>
     has (ServerDetctInfo_pkt_index m) \<and> has (ServerDetctInfo_pkt_sendtime m) \<and>
     has (ServerDetctInfo_pkt_data m)"
  by (auto simp: StruServerDetctInfo_IsInitialized_def has_masks)

section \<open>StruServerDetctResult\<close>

record 'u StruServerDetctResult_pb =
  ServerDetctResult_src_server_id :: "int option"
  ServerDetctResult_dst_server_id :: "int option"
  ServerDetctResult_lost :: "int option"
  ServerDetctResult_delay :: "int option"
  ServerDetctResult_unknown :: "'u list"

definition StruServerDetctResult_SharedCtor :: "'u StruServerDetctResult_pb" where
  "StruServerDetctResult_SharedCtor = \<lparr>
     ServerDetctResult_src_server_id = None, ServerDetctResult_dst_server_id = None,
     ServerDetctResult_lost = None, ServerDetctResult_delay = None, ServerDetctResult_unknown = []\<rparr>"

definition StruServerDetctResult_Clear ::
  "'u StruServerDetctResult_pb \<Rightarrow> 'u StruServerDetctResult_pb" where
  "StruServerDetctResult_Clear m = m\<lparr>
     ServerDetctResult_src_server_id := None, ServerDetctResult_dst_server_id := None,
     ServerDetctResult_lost := None, ServerDetctResult_delay := None, ServerDetctResult_unknown := []\<rparr>"

definition StruServerDetctResult_cases ::
  "('i, 'u) wire \<Rightarrow> ('i, 'u StruServerDetctResult_pb) field_case list" where
  "StruServerDetctResult_cases W = [
     field_int32 W 1 (\<lambda>v. ServerDetctResult_src_server_id_update (\<lambda>_. v)) [(16, 2)] False,
     field_int32 W 2 (\<lambda>v. ServerDetctResult_dst_server_id_update (\<lambda>_. v)) [(24, 3)] False,
     field_int32 W 3 (\<lambda>v. ServerDetctResult_lost_update (\<lambda>_. v)) [(32, 4)] False,
     field_int32 W 4 (\<lambda>v. ServerDetctResult_delay_update (\<lambda>_. v)) [] True]"

definition StruServerDetctResult_MergePartialFromCodedStream ::
  "('i, 'u) wire \<Rightarrow> 'i \<Rightarrow> 'u StruServerDetctResult_pb
    \<Rightarrow> (bool \<times> 'i \<times> 'u StruServerDetctResult_pb) res" where
  "StruServerDetctResult_MergePartialFromCodedStream W i m = merge_loop (merge_fuel W i) W (StruServerDetctResult_cases W)
     (skip_field W ServerDetctResult_unknown (\<lambda>u. ServerDetctResult_unknown_update (\<lambda>_. u))) None i m"

definition StruServerDetctResult_SerializeWithCachedSizes ::
  "('i, 'u) wire \<Rightarrow> 'u StruServerDetctResult_pb \<Rightarrow> byte list" where
  "StruServerDetctResult_SerializeWithCachedSizes W m = write_fields [
     (has (ServerDetctResult_src_server_id m), w_WriteInt32 W 1 (value_or 0 (ServerDetctResult_src_server_id m))),
     (has (ServerDetctResult_dst_server_id m), w_WriteInt32 W 2 (value_or 0 (ServerDetctResult_dst_server_id m))),
     (has (ServerDetctResult_lost m), w_WriteInt32 W 3 (value_or 0 (ServerDetctResult_lost m))),
     (has (ServerDetctResult_delay m), w_WriteInt32 W 4 (value_or 0 (ServerDetctResult_delay m))),
     (ServerDetctResult_unknown m \<noteq> [], w_WriteUnknown W (ServerDetctResult_unknown m))]"

definition StruServerDetctResult_ByteSize ::
  "('i, 'u) wire \<Rightarrow> 'u StruServerDetctResult_pb \<Rightarrow> int" where
  "StruServerDetctResult_ByteSize W m = size_group [
     (has (ServerDetctResult_src_server_id m), 1 + w_Int32Size W (value_or 0 (ServerDetctResult_src_server_id m))),
     (has (ServerDetctResult_dst_server_id m), 1 + w_Int32Size W (value_or 0 (ServerDetctResult_dst_server_id m))),
     (has (ServerDetctResult_lost m), 1 + w_Int32Size W (value_or 0 (ServerDetctResult_lost m))),
     (has (ServerDetctResult_delay m), 1 + w_Int32Size W (value_or 0 (ServerDetctResult_delay m)))]
     + (if ServerDetctResult_unknown m \<noteq> [] then w_UnknownSize W (ServerDetctResult_unknown m) else 0)"

definition StruServerDetctResult_MergeFrom ::
  "'u StruServerDetctResult_pb \<Rightarrow> 'u StruServerDetctResult_pb \<Rightarrow> 'u StruServerDetctResult_pb" where
  "StruServerDetctResult_MergeFrom from m = (
     let m1 = if has (ServerDetctResult_src_server_id from) \<or> has (ServerDetctResult_dst_server_id from) \<or>
       has (ServerDetctResult_lost from) \<or> has (ServerDetctResult_delay from)
       then m\<lparr>
         ServerDetctResult_src_server_id := merge_value 0 (ServerDetctResult_src_server_id from)
           (ServerDetctResult_src_server_id m),
         ServerDetctResult_dst_server_id := merge_value 0 (ServerDetctResult_dst_server_id from)
           (ServerDetctResult_dst_server_id m),
         ServerDetctResult_lost := merge_value 0 (ServerDetctResult_lost from) (ServerDetctResult_lost m),
         ServerDetctResult_delay := merge_value 0 (ServerDetctResult_delay from) (ServerDetctResult_delay m)\<rparr>
       else m
     in
     m1\<lparr>ServerDetctResult_unknown := ServerDetctResult_unknown m1 @ ServerDetctResult_unknown from\<rparr>)"

definition StruServerDetctResult_CopyFrom ::
  "'u StruServerDetctResult_pb \<Rightarrow> 'u StruServerDetctResult_pb \<Rightarrow> 'u StruServerDetctResult_pb" where
  "StruServerDetctResult_CopyFrom from m = StruServerDetctResult_MergeFrom from (StruServerDetctResult_Clear m)"

definition StruServerDetctResult_IsInitialized :: "'u StruServerDetctResult_pb \<Rightarrow> bool" where
  "StruServerDetctResult_IsInitialized m \<longleftrightarrow> has_bits [
       has (ServerDetctResult_src_server_id m), has (ServerDetctResult_dst_server_id m),
       has (ServerDetctResult_lost m), has (ServerDetctResult_delay m)] AND 0xf = 0xf"

definition StruServerDetctResult_Swap ::
  "'u StruServerDetctResult_pb \<Rightarrow> 'u StruServerDetctResult_pb
    \<Rightarrow> 'u StruServerDetctResult_pb \<times> 'u StruServerDetctResult_pb" where
  "StruServerDetctResult_Swap m other =
     (m\<lparr>
        ServerDetctResult_src_server_id := ServerDetctResult_src_server_id other,
        ServerDetctResult_dst_server_id := ServerDetctResult_dst_server_id other,
        ServerDetctResult_lost := ServerDetctResult_lost other,
        ServerDetctResult_delay := ServerDetctResult_delay other,
        ServerDetctResult_unknown := ServerDetctResult_unknown other\<rparr>,
      other\<lparr>
        ServerDetctResult_src_server_id := ServerDetctResult_src_server_id m,
        ServerDetctResult_dst_server_id := ServerDetctResult_dst_server_id m,
        ServerDetctResult_lost := ServerDetctResult_lost m,
        ServerDetctResult_delay := ServerDetctResult_delay m,
        ServerDetctResult_unknown := ServerDetctResult_unknown m\<rparr>)"

definition StruServerDetctResult_fits :: "'u StruServerDetctResult_pb \<Rightarrow> bool" where
  "StruServerDetctResult_fits m \<longleftrightarrow>
     int_ok (ServerDetctResult_src_server_id m) \<and> int_ok (ServerDetctResult_dst_server_id m) \<and>
     int_ok (ServerDetctResult_lost m) \<and> int_ok (ServerDetctResult_delay m) \<and>
     ServerDetctResult_unknown m = []"

interpretation ServerDetctResult: message_class StruServerDetctResult_cases
  "\<lambda>W. skip_field W ServerDetctResult_unknown (\<lambda>u. ServerDetctResult_unknown_update (\<lambda>_. u))"
  StruServerDetctResult_MergePartialFromCodedStream StruServerDetctResult_SharedCtor
    StruServerDetctResult_SerializeWithCachedSizes
  StruServerDetctResult_ByteSize StruServerDetctResult_IsInitialized "\<lambda>_. StruServerDetctResult_fits"
  by (unfold_locales, rule StruServerDetctResult_MergePartialFromCodedStream_def,
      simp add: StruServerDetctResult_cases_def cases_ok_def case_ok_def,
      simp add: StruServerDetctResult_cases_def field_ends,
      unfold StruServerDetctResult_fits_def StruServerDetctResult_SerializeWithCachedSizes_def, elim conjE, rule fed_eq,
      (rule fed_rules, assumption, simp add: StruServerDetctResult_cases_def, simp add:
        StruServerDetctResult_SharedCtor_def, (assumption | simp)+)+,
      rule fed_done, simp add: StruServerDetctResult_SharedCtor_def,
      unfold StruServerDetctResult_ByteSize_def length_write_fields size_group_sum, elim conjE,
      simp add: add.assoc written_sizes split del: if_split)

lemma StruServerDetctResult_copies:
  "StruServerDetctResult_CopyFrom from m = from" "StruServerDetctResult_Swap m from = (from, m)"
proof -
  show "StruServerDetctResult_CopyFrom from m = from"
    by (rule StruServerDetctResult_pb.equality; cases "has (ServerDetctResult_src_server_id from) \<or> has
      (ServerDetctResult_dst_server_id from) \<or> has (ServerDetctResult_lost from) \<or> has
        (ServerDetctResult_delay from)";
      simp add: StruServerDetctResult_CopyFrom_def StruServerDetctResult_MergeFrom_def StruServerDetctResult_Clear_def)
  show "StruServerDetctResult_Swap m from = (from, m)" by (cases "from"; cases m; simp add: StruServerDetctResult_Swap_def)
qed

lemma StruServerDetctResult_required:
  "StruServerDetctResult_IsInitialized m \<longleftrightarrow>
     has (ServerDetctResult_src_server_id m) \<and> has (ServerDetctResult_dst_server_id m) \<and>
     has (ServerDetctResult_lost m) \<and> has (ServerDetctResult_delay m)"
  by (auto simp: StruServerDetctResult_IsInitialized_def has_masks)

end
