(* ===== verification/Chat_Classes.thy ===== *)
theory Chat_Classes
  imports Pb_Wire
begin

text \<open>
  The classes of \<open>src/packet/package_define.pb.cc\<close>, the messages of the chat rooms, in the same way as
  \<open>Ds_Classes\<close>. Two of them have a repeated field of messages, which the parser appends to and the
  serialiser writes element by element with its length.
\<close>

definition EnumMsgID_IsValid :: "int \<Rightarrow> bool" where
  "EnumMsgID_IsValid v \<longleftrightarrow> v \<in> set [6000, 6001, 6002, 6003, 6004, 6005, 6006, 6007, 6008, 6009,
    6010, 6011, 6012, 6013, 6014, 6015, 6016, 6017, 6018, 6019, 6020, 6021, 6022, 6023, 6024]"

section \<open>StruUserLoginRQ\<close>

record 'u StruUserLoginRQ_pb =
  UserLoginRQ_msg_id :: "int option"
  UserLoginRQ_user_id :: "int option"
  UserLoginRQ_room_id :: "int option"
  UserLoginRQ_user_psw :: "byte list option"
  UserLoginRQ_user_account_name :: "byte list option"
  UserLoginRQ_unknown :: "'u list"

definition StruUserLoginRQ_SharedCtor :: "'u StruUserLoginRQ_pb" where
  "StruUserLoginRQ_SharedCtor = \<lparr>
     UserLoginRQ_msg_id = None, UserLoginRQ_user_id = None, UserLoginRQ_room_id = None,
     UserLoginRQ_user_psw = None, UserLoginRQ_user_account_name = None, UserLoginRQ_unknown = []\<rparr>"

definition StruUserLoginRQ_Clear :: "'u StruUserLoginRQ_pb \<Rightarrow> 'u StruUserLoginRQ_pb" where
  "StruUserLoginRQ_Clear m = m\<lparr>
     UserLoginRQ_msg_id := None, UserLoginRQ_user_id := None, UserLoginRQ_room_id := None,
     UserLoginRQ_user_psw := None, UserLoginRQ_user_account_name := None, UserLoginRQ_unknown := []\<rparr>"

definition StruUserLoginRQ_cases :: "('i, 'u) wire \<Rightarrow> ('i, 'u StruUserLoginRQ_pb) field_case list" where
  "StruUserLoginRQ_cases W = [
     field_enum W 1 EnumMsgID_IsValid (\<lambda>v. UserLoginRQ_msg_id_update (\<lambda>_. v))
       (\<lambda>v m. m\<lparr>UserLoginRQ_unknown := w_AddVarint W 1 v (UserLoginRQ_unknown m)\<rparr>) [(16, 2)] False,
     field_int32 W 2 (\<lambda>v. UserLoginRQ_user_id_update (\<lambda>_. v)) [(24, 3)] False,
     field_int32 W 3 (\<lambda>v. UserLoginRQ_room_id_update (\<lambda>_. v)) [(34, 4)] False,
     field_string W 4 UserLoginRQ_user_psw (\<lambda>v. UserLoginRQ_user_psw_update (\<lambda>_. v)) [(42, 5)] False,
     field_string W 5 UserLoginRQ_user_account_name (\<lambda>v. UserLoginRQ_user_account_name_update (\<lambda>_.
       v)) [] True]"

definition StruUserLoginRQ_MergePartialFromCodedStream ::
  "('i, 'u) wire \<Rightarrow> 'i
    \<Rightarrow> 'u StruUserLoginRQ_pb \<Rightarrow> (bool \<times> 'i \<times> 'u StruUserLoginRQ_pb) res" where
  "StruUserLoginRQ_MergePartialFromCodedStream W i m = merge_loop (merge_fuel W i) W (StruUserLoginRQ_cases W)
     (skip_field W UserLoginRQ_unknown (\<lambda>u. UserLoginRQ_unknown_update (\<lambda>_. u))) None i m"

definition StruUserLoginRQ_SerializeWithCachedSizes ::
  "('i, 'u) wire \<Rightarrow> 'u StruUserLoginRQ_pb \<Rightarrow> byte list" where
  "StruUserLoginRQ_SerializeWithCachedSizes W m = write_fields [
     (has (UserLoginRQ_msg_id m), w_WriteEnum W 1 (value_or 6001 (UserLoginRQ_msg_id m))),
     (has (UserLoginRQ_user_id m), w_WriteInt32 W 2 (value_or 0 (UserLoginRQ_user_id m))),
     (has (UserLoginRQ_room_id m), w_WriteInt32 W 3 (value_or 0 (UserLoginRQ_room_id m))),
     (has (UserLoginRQ_user_psw m), w_WriteString W 4 (value_or [] (UserLoginRQ_user_psw m))),
     (has (UserLoginRQ_user_account_name m), w_WriteString W 5 (value_or [] (UserLoginRQ_user_account_name m))),
     (UserLoginRQ_unknown m \<noteq> [], w_WriteUnknown W (UserLoginRQ_unknown m))]"

definition StruUserLoginRQ_ByteSize :: "('i, 'u) wire \<Rightarrow> 'u StruUserLoginRQ_pb \<Rightarrow> int" where
  "StruUserLoginRQ_ByteSize W m = size_group [
     (has (UserLoginRQ_msg_id m), 1 + w_EnumSize W (value_or 6001 (UserLoginRQ_msg_id m))),
     (has (UserLoginRQ_user_id m), 1 + w_Int32Size W (value_or 0 (UserLoginRQ_user_id m))),
     (has (UserLoginRQ_room_id m), 1 + w_Int32Size W (value_or 0 (UserLoginRQ_room_id m))),
     (has (UserLoginRQ_user_psw m), 1 + w_StringSize W (value_or [] (UserLoginRQ_user_psw m))),
     (has (UserLoginRQ_user_account_name m), 1 + w_StringSize W (value_or [] (UserLoginRQ_user_account_name m)))]
     + (if UserLoginRQ_unknown m \<noteq> [] then w_UnknownSize W (UserLoginRQ_unknown m) else 0)"

definition StruUserLoginRQ_MergeFrom ::
  "'u StruUserLoginRQ_pb \<Rightarrow> 'u StruUserLoginRQ_pb \<Rightarrow> 'u StruUserLoginRQ_pb" where
  "StruUserLoginRQ_MergeFrom from m = (
     let m1 = if has (UserLoginRQ_msg_id from) \<or> has (UserLoginRQ_user_id from) \<or>
       has (UserLoginRQ_room_id from) \<or> has (UserLoginRQ_user_psw from) \<or>
       has (UserLoginRQ_user_account_name from)
       then m\<lparr>
         UserLoginRQ_msg_id := merge_value 6001 (UserLoginRQ_msg_id from) (UserLoginRQ_msg_id m),
         UserLoginRQ_user_id := merge_value 0 (UserLoginRQ_user_id from) (UserLoginRQ_user_id m),
         UserLoginRQ_room_id := merge_value 0 (UserLoginRQ_room_id from) (UserLoginRQ_room_id m),
         UserLoginRQ_user_psw := merge_value [] (UserLoginRQ_user_psw from) (UserLoginRQ_user_psw m),
         UserLoginRQ_user_account_name := merge_value [] (UserLoginRQ_user_account_name from)
           (UserLoginRQ_user_account_name m)\<rparr>
       else m
     in
     m1\<lparr>UserLoginRQ_unknown := UserLoginRQ_unknown m1 @ UserLoginRQ_unknown from\<rparr>)"

definition StruUserLoginRQ_CopyFrom ::
  "'u StruUserLoginRQ_pb \<Rightarrow> 'u StruUserLoginRQ_pb \<Rightarrow> 'u StruUserLoginRQ_pb" where
  "StruUserLoginRQ_CopyFrom from m = StruUserLoginRQ_MergeFrom from (StruUserLoginRQ_Clear m)"

definition StruUserLoginRQ_IsInitialized :: "'u StruUserLoginRQ_pb \<Rightarrow> bool" where
  "StruUserLoginRQ_IsInitialized m \<longleftrightarrow> has_bits [
       has (UserLoginRQ_msg_id m), has (UserLoginRQ_user_id m), has (UserLoginRQ_room_id m),
       has (UserLoginRQ_user_psw m), has (UserLoginRQ_user_account_name m)] AND 0x1f = 0x1f"

definition StruUserLoginRQ_Swap ::
  "'u StruUserLoginRQ_pb \<Rightarrow> 'u StruUserLoginRQ_pb
    \<Rightarrow> 'u StruUserLoginRQ_pb \<times> 'u StruUserLoginRQ_pb" where
  "StruUserLoginRQ_Swap m other =
     (m\<lparr>
        UserLoginRQ_msg_id := UserLoginRQ_msg_id other, UserLoginRQ_user_id := UserLoginRQ_user_id other,
        UserLoginRQ_room_id := UserLoginRQ_room_id other, UserLoginRQ_user_psw := UserLoginRQ_user_psw other,
        UserLoginRQ_user_account_name := UserLoginRQ_user_account_name other,
        UserLoginRQ_unknown := UserLoginRQ_unknown other\<rparr>,
      other\<lparr>
        UserLoginRQ_msg_id := UserLoginRQ_msg_id m, UserLoginRQ_user_id := UserLoginRQ_user_id m,
        UserLoginRQ_room_id := UserLoginRQ_room_id m, UserLoginRQ_user_psw := UserLoginRQ_user_psw m,
        UserLoginRQ_user_account_name := UserLoginRQ_user_account_name m,
        UserLoginRQ_unknown := UserLoginRQ_unknown m\<rparr>)"

definition StruUserLoginRQ_fits :: "'u StruUserLoginRQ_pb \<Rightarrow> bool" where
  "StruUserLoginRQ_fits m \<longleftrightarrow>
     enum_ok EnumMsgID_IsValid (UserLoginRQ_msg_id m) \<and> int_ok (UserLoginRQ_user_id m) \<and>
     int_ok (UserLoginRQ_room_id m) \<and> str_ok (UserLoginRQ_user_psw m) \<and>
     str_ok (UserLoginRQ_user_account_name m) \<and> UserLoginRQ_unknown m = []"

interpretation UserLoginRQ: message_class StruUserLoginRQ_cases
  "\<lambda>W. skip_field W UserLoginRQ_unknown (\<lambda>u. UserLoginRQ_unknown_update (\<lambda>_. u))"
  StruUserLoginRQ_MergePartialFromCodedStream StruUserLoginRQ_SharedCtor StruUserLoginRQ_SerializeWithCachedSizes
  StruUserLoginRQ_ByteSize StruUserLoginRQ_IsInitialized "\<lambda>_. StruUserLoginRQ_fits"
  by (unfold_locales, rule StruUserLoginRQ_MergePartialFromCodedStream_def,
      simp add: StruUserLoginRQ_cases_def cases_ok_def case_ok_def,
      simp add: StruUserLoginRQ_cases_def field_ends,
      unfold StruUserLoginRQ_fits_def StruUserLoginRQ_SerializeWithCachedSizes_def, elim conjE, rule fed_eq,
      (rule fed_rules, assumption, simp add: StruUserLoginRQ_cases_def, simp add: StruUserLoginRQ_SharedCtor_def,
        (assumption | simp)+)+,
      rule fed_done, simp add: StruUserLoginRQ_SharedCtor_def,
      unfold StruUserLoginRQ_ByteSize_def length_write_fields size_group_sum, elim conjE, (drule enum_int_ok)+,
      simp add: add.assoc written_sizes split del: if_split)

lemma StruUserLoginRQ_copies:
  "StruUserLoginRQ_CopyFrom from m = from" "StruUserLoginRQ_Swap m from = (from, m)"
proof -
  show "StruUserLoginRQ_CopyFrom from m = from"
    by (rule StruUserLoginRQ_pb.equality; cases "has (UserLoginRQ_msg_id from) \<or> has (UserLoginRQ_user_id from)
      \<or> has (UserLoginRQ_room_id from) \<or> has (UserLoginRQ_user_psw from) \<or> has
        (UserLoginRQ_user_account_name from)";
      simp add: StruUserLoginRQ_CopyFrom_def StruUserLoginRQ_MergeFrom_def StruUserLoginRQ_Clear_def)
  show "StruUserLoginRQ_Swap m from = (from, m)" by (cases "from"; cases m; simp add: StruUserLoginRQ_Swap_def)
qed

lemma StruUserLoginRQ_required:
  "StruUserLoginRQ_IsInitialized m \<longleftrightarrow>
     has (UserLoginRQ_msg_id m) \<and> has (UserLoginRQ_user_id m) \<and> has (UserLoginRQ_room_id m) \<and>
     has (UserLoginRQ_user_psw m) \<and> has (UserLoginRQ_user_account_name m)"
  by (auto simp: StruUserLoginRQ_IsInitialized_def has_masks)

section \<open>StruUserLoginRS\<close>

record 'u StruUserLoginRS_pb =
  UserLoginRS_msg_id :: "int option"
  UserLoginRS_user_id :: "int option"
  UserLoginRS_room_id :: "int option"
  UserLoginRS_result :: "int option"
  UserLoginRS_user_red_d :: "int option"
  UserLoginRS_user_blue_d :: "int option"
  UserLoginRS_user_level :: "int option"
  UserLoginRS_buyer_riches :: "int option"
  UserLoginRS_buyer_grow_up :: "int option"
  UserLoginRS_buyer_honour :: "int option"
  UserLoginRS_buyer_estimate :: "int option"
  UserLoginRS_seller_income :: "int option"
  UserLoginRS_seller_exp :: "int option"
  UserLoginRS_seller_pop :: "int option"
  UserLoginRS_seller_estimate :: "int option"
  UserLoginRS_unknown :: "'u list"

definition StruUserLoginRS_SharedCtor :: "'u StruUserLoginRS_pb" where
  "StruUserLoginRS_SharedCtor = \<lparr>
     UserLoginRS_msg_id = None, UserLoginRS_user_id = None, UserLoginRS_room_id = None,
     UserLoginRS_result = None, UserLoginRS_user_red_d = None, UserLoginRS_user_blue_d = None,
     UserLoginRS_user_level = None, UserLoginRS_buyer_riches = None, UserLoginRS_buyer_grow_up = None,
     UserLoginRS_buyer_honour = None, UserLoginRS_buyer_estimate = None, UserLoginRS_seller_income = None,
     UserLoginRS_seller_exp = None, UserLoginRS_seller_pop = None, UserLoginRS_seller_estimate = None,
     UserLoginRS_unknown = []\<rparr>"

definition StruUserLoginRS_Clear :: "'u StruUserLoginRS_pb \<Rightarrow> 'u StruUserLoginRS_pb" where
  "StruUserLoginRS_Clear m = m\<lparr>
     UserLoginRS_msg_id := None, UserLoginRS_user_id := None, UserLoginRS_room_id := None,
     UserLoginRS_result := None, UserLoginRS_user_red_d := None, UserLoginRS_user_blue_d := None,
     UserLoginRS_user_level := None, UserLoginRS_buyer_riches := None, UserLoginRS_buyer_grow_up := None,
     UserLoginRS_buyer_honour := None, UserLoginRS_buyer_estimate := None, UserLoginRS_seller_income := None,
     UserLoginRS_seller_exp := None, UserLoginRS_seller_pop := None, UserLoginRS_seller_estimate := None,
     UserLoginRS_unknown := []\<rparr>"

definition StruUserLoginRS_cases :: "('i, 'u) wire \<Rightarrow> ('i, 'u StruUserLoginRS_pb) field_case list" where
  "StruUserLoginRS_cases W = [
     field_enum W 1 EnumMsgID_IsValid (\<lambda>v. UserLoginRS_msg_id_update (\<lambda>_. v))
       (\<lambda>v m. m\<lparr>UserLoginRS_unknown := w_AddVarint W 1 v (UserLoginRS_unknown m)\<rparr>) [(16, 2)] False,
     field_int32 W 2 (\<lambda>v. UserLoginRS_user_id_update (\<lambda>_. v)) [(24, 3)] False,
     field_int32 W 3 (\<lambda>v. UserLoginRS_room_id_update (\<lambda>_. v)) [(32, 4)] False,
     field_int32 W 4 (\<lambda>v. UserLoginRS_result_update (\<lambda>_. v)) [(40, 5)] False,
     field_int32 W 5 (\<lambda>v. UserLoginRS_user_red_d_update (\<lambda>_. v)) [(48, 6)] False,
     field_int32 W 6 (\<lambda>v. UserLoginRS_user_blue_d_update (\<lambda>_. v)) [(56, 7)] False,
     field_int32 W 7 (\<lambda>v. UserLoginRS_user_level_update (\<lambda>_. v)) [(64, 8)] False,
     field_int32 W 8 (\<lambda>v. UserLoginRS_buyer_riches_update (\<lambda>_. v)) [(72, 9)] False,
     field_int32 W 9 (\<lambda>v. UserLoginRS_buyer_grow_up_update (\<lambda>_. v)) [(80, 10)] False,
     field_int32 W 10 (\<lambda>v. UserLoginRS_buyer_honour_update (\<lambda>_. v)) [(88, 11)] False,
     field_int32 W 11 (\<lambda>v. UserLoginRS_buyer_estimate_update (\<lambda>_. v)) [(96, 12)] False,
     field_int32 W 12 (\<lambda>v. UserLoginRS_seller_income_update (\<lambda>_. v)) [(104, 13)] False,
     field_int32 W 13 (\<lambda>v. UserLoginRS_seller_exp_update (\<lambda>_. v)) [(112, 14)] False,
     field_int32 W 14 (\<lambda>v. UserLoginRS_seller_pop_update (\<lambda>_. v)) [(120, 15)] False,
     field_int32 W 15 (\<lambda>v. UserLoginRS_seller_estimate_update (\<lambda>_. v)) [] True]"

definition StruUserLoginRS_MergePartialFromCodedStream ::
  "('i, 'u) wire \<Rightarrow> 'i
    \<Rightarrow> 'u StruUserLoginRS_pb \<Rightarrow> (bool \<times> 'i \<times> 'u StruUserLoginRS_pb) res" where
  "StruUserLoginRS_MergePartialFromCodedStream W i m = merge_loop (merge_fuel W i) W (StruUserLoginRS_cases W)
     (skip_field W UserLoginRS_unknown (\<lambda>u. UserLoginRS_unknown_update (\<lambda>_. u))) None i m"

definition StruUserLoginRS_SerializeWithCachedSizes ::
  "('i, 'u) wire \<Rightarrow> 'u StruUserLoginRS_pb \<Rightarrow> byte list" where
  "StruUserLoginRS_SerializeWithCachedSizes W m = write_fields [
     (has (UserLoginRS_msg_id m), w_WriteEnum W 1 (value_or 6002 (UserLoginRS_msg_id m))),
     (has (UserLoginRS_user_id m), w_WriteInt32 W 2 (value_or 0 (UserLoginRS_user_id m))),
     (has (UserLoginRS_room_id m), w_WriteInt32 W 3 (value_or 0 (UserLoginRS_room_id m))),
     (has (UserLoginRS_result m), w_WriteInt32 W 4 (value_or 0 (UserLoginRS_result m))),
     (has (UserLoginRS_user_red_d m), w_WriteInt32 W 5 (value_or 0 (UserLoginRS_user_red_d m))),
     (has (UserLoginRS_user_blue_d m), w_WriteInt32 W 6 (value_or 0 (UserLoginRS_user_blue_d m))),
     (has (UserLoginRS_user_level m), w_WriteInt32 W 7 (value_or 0 (UserLoginRS_user_level m))),
     (has (UserLoginRS_buyer_riches m), w_WriteInt32 W 8 (value_or 0 (UserLoginRS_buyer_riches m))),
     (has (UserLoginRS_buyer_grow_up m), w_WriteInt32 W 9 (value_or 0 (UserLoginRS_buyer_grow_up m))),
     (has (UserLoginRS_buyer_honour m), w_WriteInt32 W 10 (value_or 0 (UserLoginRS_buyer_honour m))),
     (has (UserLoginRS_buyer_estimate m), w_WriteInt32 W 11 (value_or 0 (UserLoginRS_buyer_estimate m))),
     (has (UserLoginRS_seller_income m), w_WriteInt32 W 12 (value_or 0 (UserLoginRS_seller_income m))),
     (has (UserLoginRS_seller_exp m), w_WriteInt32 W 13 (value_or 0 (UserLoginRS_seller_exp m))),
     (has (UserLoginRS_seller_pop m), w_WriteInt32 W 14 (value_or 0 (UserLoginRS_seller_pop m))),
     (has (UserLoginRS_seller_estimate m), w_WriteInt32 W 15 (value_or 0 (UserLoginRS_seller_estimate m))),
     (UserLoginRS_unknown m \<noteq> [], w_WriteUnknown W (UserLoginRS_unknown m))]"

definition StruUserLoginRS_ByteSize :: "('i, 'u) wire \<Rightarrow> 'u StruUserLoginRS_pb \<Rightarrow> int" where
  "StruUserLoginRS_ByteSize W m = size_group [
     (has (UserLoginRS_msg_id m), 1 + w_EnumSize W (value_or 6002 (UserLoginRS_msg_id m))),
     (has (UserLoginRS_user_id m), 1 + w_Int32Size W (value_or 0 (UserLoginRS_user_id m))),
     (has (UserLoginRS_room_id m), 1 + w_Int32Size W (value_or 0 (UserLoginRS_room_id m))),
     (has (UserLoginRS_result m), 1 + w_Int32Size W (value_or 0 (UserLoginRS_result m))),
     (has (UserLoginRS_user_red_d m), 1 + w_Int32Size W (value_or 0 (UserLoginRS_user_red_d m))),
     (has (UserLoginRS_user_blue_d m), 1 + w_Int32Size W (value_or 0 (UserLoginRS_user_blue_d m))),
     (has (UserLoginRS_user_level m), 1 + w_Int32Size W (value_or 0 (UserLoginRS_user_level m))),
     (has (UserLoginRS_buyer_riches m), 1 + w_Int32Size W (value_or 0 (UserLoginRS_buyer_riches m)))]
     + size_group [
     (has (UserLoginRS_buyer_grow_up m), 1 + w_Int32Size W (value_or 0 (UserLoginRS_buyer_grow_up m))),
     (has (UserLoginRS_buyer_honour m), 1 + w_Int32Size W (value_or 0 (UserLoginRS_buyer_honour m))),
     (has (UserLoginRS_buyer_estimate m), 1 + w_Int32Size W (value_or 0 (UserLoginRS_buyer_estimate m))),
     (has (UserLoginRS_seller_income m), 1 + w_Int32Size W (value_or 0 (UserLoginRS_seller_income m))),
     (has (UserLoginRS_seller_exp m), 1 + w_Int32Size W (value_or 0 (UserLoginRS_seller_exp m))),
     (has (UserLoginRS_seller_pop m), 1 + w_Int32Size W (value_or 0 (UserLoginRS_seller_pop m))),
     (has (UserLoginRS_seller_estimate m), 1 + w_Int32Size W (value_or 0 (UserLoginRS_seller_estimate m)))]
     + (if UserLoginRS_unknown m \<noteq> [] then w_UnknownSize W (UserLoginRS_unknown m) else 0)"

definition StruUserLoginRS_MergeFrom ::
  "'u StruUserLoginRS_pb \<Rightarrow> 'u StruUserLoginRS_pb \<Rightarrow> 'u StruUserLoginRS_pb" where
  "StruUserLoginRS_MergeFrom from m = (
     let m1 = if has (UserLoginRS_msg_id from) \<or> has (UserLoginRS_user_id from) \<or>
       has (UserLoginRS_room_id from) \<or> has (UserLoginRS_result from) \<or>
       has (UserLoginRS_user_red_d from) \<or> has (UserLoginRS_user_blue_d from) \<or>
       has (UserLoginRS_user_level from) \<or> has (UserLoginRS_buyer_riches from)
       then m\<lparr>
         UserLoginRS_msg_id := merge_value 6002 (UserLoginRS_msg_id from) (UserLoginRS_msg_id m),
         UserLoginRS_user_id := merge_value 0 (UserLoginRS_user_id from) (UserLoginRS_user_id m),
         UserLoginRS_room_id := merge_value 0 (UserLoginRS_room_id from) (UserLoginRS_room_id m),
         UserLoginRS_result := merge_value 0 (UserLoginRS_result from) (UserLoginRS_result m),
         UserLoginRS_user_red_d := merge_value 0 (UserLoginRS_user_red_d from) (UserLoginRS_user_red_d m),
         UserLoginRS_user_blue_d := merge_value 0 (UserLoginRS_user_blue_d from) (UserLoginRS_user_blue_d m),
         UserLoginRS_user_level := merge_value 0 (UserLoginRS_user_level from) (UserLoginRS_user_level m),
         UserLoginRS_buyer_riches := merge_value 0 (UserLoginRS_buyer_riches from) (UserLoginRS_buyer_riches m)\<rparr>
       else m
     in
     let m2 = if has (UserLoginRS_buyer_grow_up from) \<or> has (UserLoginRS_buyer_honour from) \<or>
       has (UserLoginRS_buyer_estimate from) \<or> has (UserLoginRS_seller_income from) \<or>
       has (UserLoginRS_seller_exp from) \<or> has (UserLoginRS_seller_pop from) \<or>
       has (UserLoginRS_seller_estimate from)
       then m1\<lparr>
         UserLoginRS_buyer_grow_up := merge_value 0 (UserLoginRS_buyer_grow_up from) (UserLoginRS_buyer_grow_up m1),
         UserLoginRS_buyer_honour := merge_value 0 (UserLoginRS_buyer_honour from) (UserLoginRS_buyer_honour m1),
         UserLoginRS_buyer_estimate := merge_value 0 (UserLoginRS_buyer_estimate from) (UserLoginRS_buyer_estimate m1),
         UserLoginRS_seller_income := merge_value 0 (UserLoginRS_seller_income from) (UserLoginRS_seller_income m1),
         UserLoginRS_seller_exp := merge_value 0 (UserLoginRS_seller_exp from) (UserLoginRS_seller_exp m1),
         UserLoginRS_seller_pop := merge_value 0 (UserLoginRS_seller_pop from) (UserLoginRS_seller_pop m1),
         UserLoginRS_seller_estimate := merge_value 0 (UserLoginRS_seller_estimate from) (UserLoginRS_seller_estimate
           m1)\<rparr>
       else m1
     in
     m2\<lparr>UserLoginRS_unknown := UserLoginRS_unknown m2 @ UserLoginRS_unknown from\<rparr>)"

definition StruUserLoginRS_CopyFrom ::
  "'u StruUserLoginRS_pb \<Rightarrow> 'u StruUserLoginRS_pb \<Rightarrow> 'u StruUserLoginRS_pb" where
  "StruUserLoginRS_CopyFrom from m = StruUserLoginRS_MergeFrom from (StruUserLoginRS_Clear m)"

definition StruUserLoginRS_IsInitialized :: "'u StruUserLoginRS_pb \<Rightarrow> bool" where
  "StruUserLoginRS_IsInitialized m \<longleftrightarrow> has_bits [
       has (UserLoginRS_msg_id m), has (UserLoginRS_user_id m), has (UserLoginRS_room_id m),
       has (UserLoginRS_result m), has (UserLoginRS_user_red_d m), has (UserLoginRS_user_blue_d m),
       has (UserLoginRS_user_level m), has (UserLoginRS_buyer_riches m), has (UserLoginRS_buyer_grow_up m),
       has (UserLoginRS_buyer_honour m), has (UserLoginRS_buyer_estimate m), has (UserLoginRS_seller_income m),
       has (UserLoginRS_seller_exp m), has (UserLoginRS_seller_pop m), has (UserLoginRS_seller_estimate m)] AND
         0x7fff = 0x7fff"

definition StruUserLoginRS_Swap ::
  "'u StruUserLoginRS_pb \<Rightarrow> 'u StruUserLoginRS_pb
    \<Rightarrow> 'u StruUserLoginRS_pb \<times> 'u StruUserLoginRS_pb" where
  "StruUserLoginRS_Swap m other =
     (m\<lparr>
        UserLoginRS_msg_id := UserLoginRS_msg_id other, UserLoginRS_user_id := UserLoginRS_user_id other,
        UserLoginRS_room_id := UserLoginRS_room_id other, UserLoginRS_result := UserLoginRS_result other,
        UserLoginRS_user_red_d := UserLoginRS_user_red_d other,
        UserLoginRS_user_blue_d := UserLoginRS_user_blue_d other,
        UserLoginRS_user_level := UserLoginRS_user_level other,
        UserLoginRS_buyer_riches := UserLoginRS_buyer_riches other,
        UserLoginRS_buyer_grow_up := UserLoginRS_buyer_grow_up other,
        UserLoginRS_buyer_honour := UserLoginRS_buyer_honour other,
        UserLoginRS_buyer_estimate := UserLoginRS_buyer_estimate other,
        UserLoginRS_seller_income := UserLoginRS_seller_income other,
        UserLoginRS_seller_exp := UserLoginRS_seller_exp other,
        UserLoginRS_seller_pop := UserLoginRS_seller_pop other,
        UserLoginRS_seller_estimate := UserLoginRS_seller_estimate other,
        UserLoginRS_unknown := UserLoginRS_unknown other\<rparr>,
      other\<lparr>
        UserLoginRS_msg_id := UserLoginRS_msg_id m, UserLoginRS_user_id := UserLoginRS_user_id m,
        UserLoginRS_room_id := UserLoginRS_room_id m, UserLoginRS_result := UserLoginRS_result m,
        UserLoginRS_user_red_d := UserLoginRS_user_red_d m,
        UserLoginRS_user_blue_d := UserLoginRS_user_blue_d m,
        UserLoginRS_user_level := UserLoginRS_user_level m,
        UserLoginRS_buyer_riches := UserLoginRS_buyer_riches m,
        UserLoginRS_buyer_grow_up := UserLoginRS_buyer_grow_up m,
        UserLoginRS_buyer_honour := UserLoginRS_buyer_honour m,
        UserLoginRS_buyer_estimate := UserLoginRS_buyer_estimate m,
        UserLoginRS_seller_income := UserLoginRS_seller_income m,
        UserLoginRS_seller_exp := UserLoginRS_seller_exp m, UserLoginRS_seller_pop := UserLoginRS_seller_pop m,
        UserLoginRS_seller_estimate := UserLoginRS_seller_estimate m,
        UserLoginRS_unknown := UserLoginRS_unknown m\<rparr>)"

definition StruUserLoginRS_fits :: "'u StruUserLoginRS_pb \<Rightarrow> bool" where
  "StruUserLoginRS_fits m \<longleftrightarrow>
     enum_ok EnumMsgID_IsValid (UserLoginRS_msg_id m) \<and> int_ok (UserLoginRS_user_id m) \<and>
     int_ok (UserLoginRS_room_id m) \<and> int_ok (UserLoginRS_result m) \<and>
     int_ok (UserLoginRS_user_red_d m) \<and> int_ok (UserLoginRS_user_blue_d m) \<and>
     int_ok (UserLoginRS_user_level m) \<and> int_ok (UserLoginRS_buyer_riches m) \<and>
     int_ok (UserLoginRS_buyer_grow_up m) \<and> int_ok (UserLoginRS_buyer_honour m) \<and>
     int_ok (UserLoginRS_buyer_estimate m) \<and> int_ok (UserLoginRS_seller_income m) \<and>
     int_ok (UserLoginRS_seller_exp m) \<and> int_ok (UserLoginRS_seller_pop m) \<and>
     int_ok (UserLoginRS_seller_estimate m) \<and> UserLoginRS_unknown m = []"

interpretation UserLoginRS: message_class StruUserLoginRS_cases
  "\<lambda>W. skip_field W UserLoginRS_unknown (\<lambda>u. UserLoginRS_unknown_update (\<lambda>_. u))"
  StruUserLoginRS_MergePartialFromCodedStream StruUserLoginRS_SharedCtor StruUserLoginRS_SerializeWithCachedSizes
  StruUserLoginRS_ByteSize StruUserLoginRS_IsInitialized "\<lambda>_. StruUserLoginRS_fits"
  by (unfold_locales, rule StruUserLoginRS_MergePartialFromCodedStream_def,
      simp add: StruUserLoginRS_cases_def cases_ok_def case_ok_def,
      simp add: StruUserLoginRS_cases_def field_ends,
      unfold StruUserLoginRS_fits_def StruUserLoginRS_SerializeWithCachedSizes_def, elim conjE, rule fed_eq,
      (rule fed_rules, assumption, simp add: StruUserLoginRS_cases_def, simp add: StruUserLoginRS_SharedCtor_def,
        (assumption | simp)+)+,
      rule fed_done, simp add: StruUserLoginRS_SharedCtor_def,
      unfold StruUserLoginRS_ByteSize_def length_write_fields size_group_sum, elim conjE, (drule enum_int_ok)+,
      simp add: add.assoc written_sizes split del: if_split)

lemma StruUserLoginRS_copies:
  "StruUserLoginRS_CopyFrom from m = from" "StruUserLoginRS_Swap m from = (from, m)"
proof -
  show "StruUserLoginRS_CopyFrom from m = from"
    by (rule StruUserLoginRS_pb.equality; cases "has (UserLoginRS_msg_id from) \<or> has (UserLoginRS_user_id from)
      \<or> has (UserLoginRS_room_id from) \<or> has (UserLoginRS_result from) \<or> has (UserLoginRS_user_red_d
        from) \<or> has (UserLoginRS_user_blue_d from) \<or> has (UserLoginRS_user_level from) \<or> has
          (UserLoginRS_buyer_riches from)"; cases "has (UserLoginRS_buyer_grow_up from) \<or> has
            (UserLoginRS_buyer_honour from) \<or> has (UserLoginRS_buyer_estimate from) \<or> has
              (UserLoginRS_seller_income from) \<or> has (UserLoginRS_seller_exp from) \<or> has
                (UserLoginRS_seller_pop from) \<or> has (UserLoginRS_seller_estimate from)";
      simp add: StruUserLoginRS_CopyFrom_def StruUserLoginRS_MergeFrom_def StruUserLoginRS_Clear_def)
  show "StruUserLoginRS_Swap m from = (from, m)" by (cases "from"; cases m; simp add: StruUserLoginRS_Swap_def)
qed

lemma StruUserLoginRS_required:
  "StruUserLoginRS_IsInitialized m \<longleftrightarrow>
     has (UserLoginRS_msg_id m) \<and> has (UserLoginRS_user_id m) \<and> has (UserLoginRS_room_id m) \<and>
     has (UserLoginRS_result m) \<and> has (UserLoginRS_user_red_d m) \<and>
     has (UserLoginRS_user_blue_d m) \<and> has (UserLoginRS_user_level m) \<and>
     has (UserLoginRS_buyer_riches m) \<and> has (UserLoginRS_buyer_grow_up m) \<and>
     has (UserLoginRS_buyer_honour m) \<and> has (UserLoginRS_buyer_estimate m) \<and>
     has (UserLoginRS_seller_income m) \<and> has (UserLoginRS_seller_exp m) \<and>
     has (UserLoginRS_seller_pop m) \<and> has (UserLoginRS_seller_estimate m)"
  by (auto simp: StruUserLoginRS_IsInitialized_def has_masks)

section \<open>StruUserRoleInfoID\<close>

record 'u StruUserRoleInfoID_pb =
  UserRoleInfoID_msg_id :: "int option"
  UserRoleInfoID_user_id :: "int option"
  UserRoleInfoID_room_id :: "int option"
  UserRoleInfoID_user_account_name :: "byte list option"
  UserRoleInfoID_user_role_uid :: "byte list option"
  UserRoleInfoID_other_data :: "byte list option"
  UserRoleInfoID_unknown :: "'u list"

definition StruUserRoleInfoID_SharedCtor :: "'u StruUserRoleInfoID_pb" where
  "StruUserRoleInfoID_SharedCtor = \<lparr>
     UserRoleInfoID_msg_id = None, UserRoleInfoID_user_id = None, UserRoleInfoID_room_id = None,
     UserRoleInfoID_user_account_name = None, UserRoleInfoID_user_role_uid = None,
     UserRoleInfoID_other_data = None, UserRoleInfoID_unknown = []\<rparr>"

definition StruUserRoleInfoID_Clear :: "'u StruUserRoleInfoID_pb \<Rightarrow> 'u StruUserRoleInfoID_pb" where
  "StruUserRoleInfoID_Clear m = m\<lparr>
     UserRoleInfoID_msg_id := None, UserRoleInfoID_user_id := None, UserRoleInfoID_room_id := None,
     UserRoleInfoID_user_account_name := None, UserRoleInfoID_user_role_uid := None,
     UserRoleInfoID_other_data := None, UserRoleInfoID_unknown := []\<rparr>"

definition StruUserRoleInfoID_cases ::
  "('i, 'u) wire \<Rightarrow> ('i, 'u StruUserRoleInfoID_pb) field_case list" where
  "StruUserRoleInfoID_cases W = [
     field_enum W 1 EnumMsgID_IsValid (\<lambda>v. UserRoleInfoID_msg_id_update (\<lambda>_. v))
       (\<lambda>v m. m\<lparr>UserRoleInfoID_unknown := w_AddVarint W 1 v (UserRoleInfoID_unknown m)\<rparr>) [(16,
         2)] False,
     field_int32 W 2 (\<lambda>v. UserRoleInfoID_user_id_update (\<lambda>_. v)) [(24, 3)] False,
     field_int32 W 3 (\<lambda>v. UserRoleInfoID_room_id_update (\<lambda>_. v)) [(34, 4)] False,
     field_string W 4 UserRoleInfoID_user_account_name (\<lambda>v. UserRoleInfoID_user_account_name_update
       (\<lambda>_. v)) [(42, 5)] False,
     field_string W 5 UserRoleInfoID_user_role_uid (\<lambda>v. UserRoleInfoID_user_role_uid_update (\<lambda>_. v))
       [(50, 6)] False,
     field_string W 6 UserRoleInfoID_other_data (\<lambda>v. UserRoleInfoID_other_data_update (\<lambda>_. v)) [] True]"

definition StruUserRoleInfoID_MergePartialFromCodedStream ::
  "('i, 'u) wire \<Rightarrow> 'i \<Rightarrow> 'u StruUserRoleInfoID_pb
    \<Rightarrow> (bool \<times> 'i \<times> 'u StruUserRoleInfoID_pb) res" where
  "StruUserRoleInfoID_MergePartialFromCodedStream W i m = merge_loop (merge_fuel W i) W (StruUserRoleInfoID_cases W)
     (skip_field W UserRoleInfoID_unknown (\<lambda>u. UserRoleInfoID_unknown_update (\<lambda>_. u))) None i m"

definition StruUserRoleInfoID_SerializeWithCachedSizes ::
  "('i, 'u) wire \<Rightarrow> 'u StruUserRoleInfoID_pb \<Rightarrow> byte list" where
  "StruUserRoleInfoID_SerializeWithCachedSizes W m = write_fields [
     (has (UserRoleInfoID_msg_id m), w_WriteEnum W 1 (value_or 6003 (UserRoleInfoID_msg_id m))),
     (has (UserRoleInfoID_user_id m), w_WriteInt32 W 2 (value_or 0 (UserRoleInfoID_user_id m))),
     (has (UserRoleInfoID_room_id m), w_WriteInt32 W 3 (value_or 0 (UserRoleInfoID_room_id m))),
     (has (UserRoleInfoID_user_account_name m), w_WriteString W 4 (value_or [] (UserRoleInfoID_user_account_name m))),
     (has (UserRoleInfoID_user_role_uid m), w_WriteString W 5 (value_or [] (UserRoleInfoID_user_role_uid m))),
     (has (UserRoleInfoID_other_data m), w_WriteString W 6 (value_or [] (UserRoleInfoID_other_data m))),
     (UserRoleInfoID_unknown m \<noteq> [], w_WriteUnknown W (UserRoleInfoID_unknown m))]"

definition StruUserRoleInfoID_ByteSize ::
  "('i, 'u) wire \<Rightarrow> 'u StruUserRoleInfoID_pb \<Rightarrow> int" where
  "StruUserRoleInfoID_ByteSize W m = size_group [
     (has (UserRoleInfoID_msg_id m), 1 + w_EnumSize W (value_or 6003 (UserRoleInfoID_msg_id m))),
     (has (UserRoleInfoID_user_id m), 1 + w_Int32Size W (value_or 0 (UserRoleInfoID_user_id m))),
     (has (UserRoleInfoID_room_id m), 1 + w_Int32Size W (value_or 0 (UserRoleInfoID_room_id m))),
     (has (UserRoleInfoID_user_account_name m), 1 + w_StringSize W (value_or [] (UserRoleInfoID_user_account_name m))),
     (has (UserRoleInfoID_user_role_uid m), 1 + w_StringSize W (value_or [] (UserRoleInfoID_user_role_uid m))),
     (has (UserRoleInfoID_other_data m), 1 + w_StringSize W (value_or [] (UserRoleInfoID_other_data m)))]
     + (if UserRoleInfoID_unknown m \<noteq> [] then w_UnknownSize W (UserRoleInfoID_unknown m) else 0)"

definition StruUserRoleInfoID_MergeFrom ::
  "'u StruUserRoleInfoID_pb \<Rightarrow> 'u StruUserRoleInfoID_pb \<Rightarrow> 'u StruUserRoleInfoID_pb" where
  "StruUserRoleInfoID_MergeFrom from m = (
     let m1 = if has (UserRoleInfoID_msg_id from) \<or> has (UserRoleInfoID_user_id from) \<or>
       has (UserRoleInfoID_room_id from) \<or> has (UserRoleInfoID_user_account_name from) \<or>
       has (UserRoleInfoID_user_role_uid from) \<or> has (UserRoleInfoID_other_data from)
       then m\<lparr>
         UserRoleInfoID_msg_id := merge_value 6003 (UserRoleInfoID_msg_id from) (UserRoleInfoID_msg_id m),
         UserRoleInfoID_user_id := merge_value 0 (UserRoleInfoID_user_id from) (UserRoleInfoID_user_id m),
         UserRoleInfoID_room_id := merge_value 0 (UserRoleInfoID_room_id from) (UserRoleInfoID_room_id m),
         UserRoleInfoID_user_account_name := merge_value [] (UserRoleInfoID_user_account_name from)
           (UserRoleInfoID_user_account_name m),
         UserRoleInfoID_user_role_uid := merge_value [] (UserRoleInfoID_user_role_uid from) (UserRoleInfoID_user_role_uid m),
         UserRoleInfoID_other_data := merge_value [] (UserRoleInfoID_other_data from) (UserRoleInfoID_other_data m)\<rparr>
       else m
     in
     m1\<lparr>UserRoleInfoID_unknown := UserRoleInfoID_unknown m1 @ UserRoleInfoID_unknown from\<rparr>)"

definition StruUserRoleInfoID_CopyFrom ::
  "'u StruUserRoleInfoID_pb \<Rightarrow> 'u StruUserRoleInfoID_pb \<Rightarrow> 'u StruUserRoleInfoID_pb" where
  "StruUserRoleInfoID_CopyFrom from m = StruUserRoleInfoID_MergeFrom from (StruUserRoleInfoID_Clear m)"

definition StruUserRoleInfoID_IsInitialized :: "'u StruUserRoleInfoID_pb \<Rightarrow> bool" where
  "StruUserRoleInfoID_IsInitialized m \<longleftrightarrow> has_bits [
       has (UserRoleInfoID_msg_id m), has (UserRoleInfoID_user_id m), has (UserRoleInfoID_room_id m),
       has (UserRoleInfoID_user_account_name m), has (UserRoleInfoID_user_role_uid m),
       has (UserRoleInfoID_other_data m)] AND 0x1f = 0x1f"

definition StruUserRoleInfoID_Swap ::
  "'u StruUserRoleInfoID_pb \<Rightarrow> 'u StruUserRoleInfoID_pb
    \<Rightarrow> 'u StruUserRoleInfoID_pb \<times> 'u StruUserRoleInfoID_pb" where
  "StruUserRoleInfoID_Swap m other =
     (m\<lparr>
        UserRoleInfoID_msg_id := UserRoleInfoID_msg_id other,
        UserRoleInfoID_user_id := UserRoleInfoID_user_id other,
        UserRoleInfoID_room_id := UserRoleInfoID_room_id other,
        UserRoleInfoID_user_account_name := UserRoleInfoID_user_account_name other,
        UserRoleInfoID_user_role_uid := UserRoleInfoID_user_role_uid other,
        UserRoleInfoID_other_data := UserRoleInfoID_other_data other,
        UserRoleInfoID_unknown := UserRoleInfoID_unknown other\<rparr>,
      other\<lparr>
        UserRoleInfoID_msg_id := UserRoleInfoID_msg_id m, UserRoleInfoID_user_id := UserRoleInfoID_user_id m,
        UserRoleInfoID_room_id := UserRoleInfoID_room_id m,
        UserRoleInfoID_user_account_name := UserRoleInfoID_user_account_name m,
        UserRoleInfoID_user_role_uid := UserRoleInfoID_user_role_uid m,
        UserRoleInfoID_other_data := UserRoleInfoID_other_data m,
        UserRoleInfoID_unknown := UserRoleInfoID_unknown m\<rparr>)"

definition StruUserRoleInfoID_fits :: "'u StruUserRoleInfoID_pb \<Rightarrow> bool" where
  "StruUserRoleInfoID_fits m \<longleftrightarrow>
     enum_ok EnumMsgID_IsValid (UserRoleInfoID_msg_id m) \<and> int_ok (UserRoleInfoID_user_id m) \<and>
     int_ok (UserRoleInfoID_room_id m) \<and> str_ok (UserRoleInfoID_user_account_name m) \<and>
     str_ok (UserRoleInfoID_user_role_uid m) \<and> str_ok (UserRoleInfoID_other_data m) \<and>
     UserRoleInfoID_unknown m = []"

interpretation UserRoleInfoID: message_class StruUserRoleInfoID_cases
  "\<lambda>W. skip_field W UserRoleInfoID_unknown (\<lambda>u. UserRoleInfoID_unknown_update (\<lambda>_. u))"
  StruUserRoleInfoID_MergePartialFromCodedStream StruUserRoleInfoID_SharedCtor StruUserRoleInfoID_SerializeWithCachedSizes
  StruUserRoleInfoID_ByteSize StruUserRoleInfoID_IsInitialized "\<lambda>_. StruUserRoleInfoID_fits"
  by (unfold_locales, rule StruUserRoleInfoID_MergePartialFromCodedStream_def,
      simp add: StruUserRoleInfoID_cases_def cases_ok_def case_ok_def,
      simp add: StruUserRoleInfoID_cases_def field_ends,
      unfold StruUserRoleInfoID_fits_def StruUserRoleInfoID_SerializeWithCachedSizes_def, elim conjE, rule fed_eq,
      (rule fed_rules, assumption, simp add: StruUserRoleInfoID_cases_def, simp add:
        StruUserRoleInfoID_SharedCtor_def, (assumption | simp)+)+,
      rule fed_done, simp add: StruUserRoleInfoID_SharedCtor_def,
      unfold StruUserRoleInfoID_ByteSize_def length_write_fields size_group_sum, elim conjE, (drule enum_int_ok)+,
      simp add: add.assoc written_sizes split del: if_split)

lemma StruUserRoleInfoID_copies:
  "StruUserRoleInfoID_CopyFrom from m = from" "StruUserRoleInfoID_Swap m from = (from, m)"
proof -
  show "StruUserRoleInfoID_CopyFrom from m = from"
    by (rule StruUserRoleInfoID_pb.equality; cases "has (UserRoleInfoID_msg_id from) \<or> has
      (UserRoleInfoID_user_id from) \<or> has (UserRoleInfoID_room_id from) \<or> has
        (UserRoleInfoID_user_account_name from) \<or> has (UserRoleInfoID_user_role_uid from) \<or> has
          (UserRoleInfoID_other_data from)";
      simp add: StruUserRoleInfoID_CopyFrom_def StruUserRoleInfoID_MergeFrom_def StruUserRoleInfoID_Clear_def)
  show "StruUserRoleInfoID_Swap m from = (from, m)" by (cases "from"; cases m; simp add: StruUserRoleInfoID_Swap_def)
qed

lemma StruUserRoleInfoID_required:
  "StruUserRoleInfoID_IsInitialized m \<longleftrightarrow>
     has (UserRoleInfoID_msg_id m) \<and> has (UserRoleInfoID_user_id m) \<and>
     has (UserRoleInfoID_room_id m) \<and> has (UserRoleInfoID_user_account_name m) \<and>
     has (UserRoleInfoID_user_role_uid m)"
  by (auto simp: StruUserRoleInfoID_IsInitialized_def has_masks)

section \<open>StruRoomInfoID\<close>

record 'u StruRoomInfoID_pb =
  RoomInfoID_msg_id :: "int option"
  RoomInfoID_user_id :: "int option"
  RoomInfoID_room_id :: "int option"
  RoomInfoID_room_type :: "int option"
  RoomInfoID_room_name :: "byte list option"
  RoomInfoID_room_advert :: "byte list option"
  RoomInfoID_room_announce :: "byte list option"
  RoomInfoID_unknown :: "'u list"

definition StruRoomInfoID_SharedCtor :: "'u StruRoomInfoID_pb" where
  "StruRoomInfoID_SharedCtor = \<lparr>
     RoomInfoID_msg_id = None, RoomInfoID_user_id = None, RoomInfoID_room_id = None,
     RoomInfoID_room_type = None, RoomInfoID_room_name = None, RoomInfoID_room_advert = None,
     RoomInfoID_room_announce = None, RoomInfoID_unknown = []\<rparr>"

definition StruRoomInfoID_Clear :: "'u StruRoomInfoID_pb \<Rightarrow> 'u StruRoomInfoID_pb" where
  "StruRoomInfoID_Clear m = m\<lparr>
     RoomInfoID_msg_id := None, RoomInfoID_user_id := None, RoomInfoID_room_id := None,
     RoomInfoID_room_type := None, RoomInfoID_room_name := None, RoomInfoID_room_advert := None,
     RoomInfoID_room_announce := None, RoomInfoID_unknown := []\<rparr>"

definition StruRoomInfoID_cases :: "('i, 'u) wire \<Rightarrow> ('i, 'u StruRoomInfoID_pb) field_case list" where
  "StruRoomInfoID_cases W = [
     field_enum W 1 EnumMsgID_IsValid (\<lambda>v. RoomInfoID_msg_id_update (\<lambda>_. v))
       (\<lambda>v m. m\<lparr>RoomInfoID_unknown := w_AddVarint W 1 v (RoomInfoID_unknown m)\<rparr>) [(16, 2)] False,
     field_int32 W 2 (\<lambda>v. RoomInfoID_user_id_update (\<lambda>_. v)) [(24, 3)] False,
     field_int32 W 3 (\<lambda>v. RoomInfoID_room_id_update (\<lambda>_. v)) [(32, 4)] False,
     field_int32 W 4 (\<lambda>v. RoomInfoID_room_type_update (\<lambda>_. v)) [(42, 5)] False,
     field_string W 5 RoomInfoID_room_name (\<lambda>v. RoomInfoID_room_name_update (\<lambda>_. v)) [(50, 6)] False,
     field_string W 6 RoomInfoID_room_advert (\<lambda>v. RoomInfoID_room_advert_update (\<lambda>_. v)) [(58, 7)] False,
     field_string W 7 RoomInfoID_room_announce (\<lambda>v. RoomInfoID_room_announce_update (\<lambda>_. v)) [] True]"

definition StruRoomInfoID_MergePartialFromCodedStream ::
  "('i, 'u) wire \<Rightarrow> 'i
    \<Rightarrow> 'u StruRoomInfoID_pb \<Rightarrow> (bool \<times> 'i \<times> 'u StruRoomInfoID_pb) res" where
  "StruRoomInfoID_MergePartialFromCodedStream W i m = merge_loop (merge_fuel W i) W (StruRoomInfoID_cases W)
     (skip_field W RoomInfoID_unknown (\<lambda>u. RoomInfoID_unknown_update (\<lambda>_. u))) None i m"

definition StruRoomInfoID_SerializeWithCachedSizes ::
  "('i, 'u) wire \<Rightarrow> 'u StruRoomInfoID_pb \<Rightarrow> byte list" where
  "StruRoomInfoID_SerializeWithCachedSizes W m = write_fields [
     (has (RoomInfoID_msg_id m), w_WriteEnum W 1 (value_or 6004 (RoomInfoID_msg_id m))),
     (has (RoomInfoID_user_id m), w_WriteInt32 W 2 (value_or 0 (RoomInfoID_user_id m))),
     (has (RoomInfoID_room_id m), w_WriteInt32 W 3 (value_or 0 (RoomInfoID_room_id m))),
     (has (RoomInfoID_room_type m), w_WriteInt32 W 4 (value_or 0 (RoomInfoID_room_type m))),
     (has (RoomInfoID_room_name m), w_WriteString W 5 (value_or [] (RoomInfoID_room_name m))),
     (has (RoomInfoID_room_advert m), w_WriteString W 6 (value_or [] (RoomInfoID_room_advert m))),
     (has (RoomInfoID_room_announce m), w_WriteString W 7 (value_or [] (RoomInfoID_room_announce m))),
     (RoomInfoID_unknown m \<noteq> [], w_WriteUnknown W (RoomInfoID_unknown m))]"

definition StruRoomInfoID_ByteSize :: "('i, 'u) wire \<Rightarrow> 'u StruRoomInfoID_pb \<Rightarrow> int" where
  "StruRoomInfoID_ByteSize W m = size_group [
     (has (RoomInfoID_msg_id m), 1 + w_EnumSize W (value_or 6004 (RoomInfoID_msg_id m))),
     (has (RoomInfoID_user_id m), 1 + w_Int32Size W (value_or 0 (RoomInfoID_user_id m))),
     (has (RoomInfoID_room_id m), 1 + w_Int32Size W (value_or 0 (RoomInfoID_room_id m))),
     (has (RoomInfoID_room_type m), 1 + w_Int32Size W (value_or 0 (RoomInfoID_room_type m))),
     (has (RoomInfoID_room_name m), 1 + w_StringSize W (value_or [] (RoomInfoID_room_name m))),
     (has (RoomInfoID_room_advert m), 1 + w_StringSize W (value_or [] (RoomInfoID_room_advert m))),
     (has (RoomInfoID_room_announce m), 1 + w_StringSize W (value_or [] (RoomInfoID_room_announce m)))]
     + (if RoomInfoID_unknown m \<noteq> [] then w_UnknownSize W (RoomInfoID_unknown m) else 0)"

definition StruRoomInfoID_MergeFrom ::
  "'u StruRoomInfoID_pb \<Rightarrow> 'u StruRoomInfoID_pb \<Rightarrow> 'u StruRoomInfoID_pb" where
  "StruRoomInfoID_MergeFrom from m = (
     let m1 = if has (RoomInfoID_msg_id from) \<or> has (RoomInfoID_user_id from) \<or>
       has (RoomInfoID_room_id from) \<or> has (RoomInfoID_room_type from) \<or>
       has (RoomInfoID_room_name from) \<or> has (RoomInfoID_room_advert from) \<or>
       has (RoomInfoID_room_announce from)
       then m\<lparr>
         RoomInfoID_msg_id := merge_value 6004 (RoomInfoID_msg_id from) (RoomInfoID_msg_id m),
         RoomInfoID_user_id := merge_value 0 (RoomInfoID_user_id from) (RoomInfoID_user_id m),
         RoomInfoID_room_id := merge_value 0 (RoomInfoID_room_id from) (RoomInfoID_room_id m),
         RoomInfoID_room_type := merge_value 0 (RoomInfoID_room_type from) (RoomInfoID_room_type m),
         RoomInfoID_room_name := merge_value [] (RoomInfoID_room_name from) (RoomInfoID_room_name m),
         RoomInfoID_room_advert := merge_value [] (RoomInfoID_room_advert from) (RoomInfoID_room_advert m),
         RoomInfoID_room_announce := merge_value [] (RoomInfoID_room_announce from) (RoomInfoID_room_announce m)\<rparr>
       else m
     in
     m1\<lparr>RoomInfoID_unknown := RoomInfoID_unknown m1 @ RoomInfoID_unknown from\<rparr>)"

definition StruRoomInfoID_CopyFrom ::
  "'u StruRoomInfoID_pb \<Rightarrow> 'u StruRoomInfoID_pb \<Rightarrow> 'u StruRoomInfoID_pb" where
  "StruRoomInfoID_CopyFrom from m = StruRoomInfoID_MergeFrom from (StruRoomInfoID_Clear m)"

definition StruRoomInfoID_IsInitialized :: "'u StruRoomInfoID_pb \<Rightarrow> bool" where
  "StruRoomInfoID_IsInitialized m \<longleftrightarrow> has_bits [
       has (RoomInfoID_msg_id m), has (RoomInfoID_user_id m), has (RoomInfoID_room_id m),
       has (RoomInfoID_room_type m), has (RoomInfoID_room_name m), has (RoomInfoID_room_advert m),
       has (RoomInfoID_room_announce m)] AND 0x7f = 0x7f"

definition StruRoomInfoID_Swap ::
  "'u StruRoomInfoID_pb \<Rightarrow> 'u StruRoomInfoID_pb
    \<Rightarrow> 'u StruRoomInfoID_pb \<times> 'u StruRoomInfoID_pb" where
  "StruRoomInfoID_Swap m other =
     (m\<lparr>
        RoomInfoID_msg_id := RoomInfoID_msg_id other, RoomInfoID_user_id := RoomInfoID_user_id other,
        RoomInfoID_room_id := RoomInfoID_room_id other, RoomInfoID_room_type := RoomInfoID_room_type other,
        RoomInfoID_room_name := RoomInfoID_room_name other,
        RoomInfoID_room_advert := RoomInfoID_room_advert other,
        RoomInfoID_room_announce := RoomInfoID_room_announce other,
        RoomInfoID_unknown := RoomInfoID_unknown other\<rparr>,
      other\<lparr>
        RoomInfoID_msg_id := RoomInfoID_msg_id m, RoomInfoID_user_id := RoomInfoID_user_id m,
        RoomInfoID_room_id := RoomInfoID_room_id m, RoomInfoID_room_type := RoomInfoID_room_type m,
        RoomInfoID_room_name := RoomInfoID_room_name m, RoomInfoID_room_advert := RoomInfoID_room_advert m,
        RoomInfoID_room_announce := RoomInfoID_room_announce m, RoomInfoID_unknown := RoomInfoID_unknown m\<rparr>)"

definition StruRoomInfoID_fits :: "'u StruRoomInfoID_pb \<Rightarrow> bool" where
  "StruRoomInfoID_fits m \<longleftrightarrow>
     enum_ok EnumMsgID_IsValid (RoomInfoID_msg_id m) \<and> int_ok (RoomInfoID_user_id m) \<and>
     int_ok (RoomInfoID_room_id m) \<and> int_ok (RoomInfoID_room_type m) \<and>
     str_ok (RoomInfoID_room_name m) \<and> str_ok (RoomInfoID_room_advert m) \<and>
     str_ok (RoomInfoID_room_announce m) \<and> RoomInfoID_unknown m = []"

interpretation RoomInfoID: message_class StruRoomInfoID_cases
  "\<lambda>W. skip_field W RoomInfoID_unknown (\<lambda>u. RoomInfoID_unknown_update (\<lambda>_. u))"
  StruRoomInfoID_MergePartialFromCodedStream StruRoomInfoID_SharedCtor StruRoomInfoID_SerializeWithCachedSizes
  StruRoomInfoID_ByteSize StruRoomInfoID_IsInitialized "\<lambda>_. StruRoomInfoID_fits"
  by (unfold_locales, rule StruRoomInfoID_MergePartialFromCodedStream_def,
      simp add: StruRoomInfoID_cases_def cases_ok_def case_ok_def,
      simp add: StruRoomInfoID_cases_def field_ends,
      unfold StruRoomInfoID_fits_def StruRoomInfoID_SerializeWithCachedSizes_def, elim conjE, rule fed_eq,
      (rule fed_rules, assumption, simp add: StruRoomInfoID_cases_def, simp add: StruRoomInfoID_SharedCtor_def,
        (assumption | simp)+)+,
      rule fed_done, simp add: StruRoomInfoID_SharedCtor_def,
      unfold StruRoomInfoID_ByteSize_def length_write_fields size_group_sum, elim conjE, (drule enum_int_ok)+,
      simp add: add.assoc written_sizes split del: if_split)

lemma StruRoomInfoID_copies:
  "StruRoomInfoID_CopyFrom from m = from" "StruRoomInfoID_Swap m from = (from, m)"
proof -
  show "StruRoomInfoID_CopyFrom from m = from"
    by (rule StruRoomInfoID_pb.equality; cases "has (RoomInfoID_msg_id from) \<or> has (RoomInfoID_user_id from)
      \<or> has (RoomInfoID_room_id from) \<or> has (RoomInfoID_room_type from) \<or> has (RoomInfoID_room_name from)
        \<or> has (RoomInfoID_room_advert from) \<or> has (RoomInfoID_room_announce from)";
      simp add: StruRoomInfoID_CopyFrom_def StruRoomInfoID_MergeFrom_def StruRoomInfoID_Clear_def)
  show "StruRoomInfoID_Swap m from = (from, m)" by (cases "from"; cases m; simp add: StruRoomInfoID_Swap_def)
qed

lemma StruRoomInfoID_required:
  "StruRoomInfoID_IsInitialized m \<longleftrightarrow>
     has (RoomInfoID_msg_id m) \<and> has (RoomInfoID_user_id m) \<and> has (RoomInfoID_room_id m) \<and>
     has (RoomInfoID_room_type m) \<and> has (RoomInfoID_room_name m) \<and>
     has (RoomInfoID_room_advert m) \<and> has (RoomInfoID_room_announce m)"
  by (auto simp: StruRoomInfoID_IsInitialized_def has_masks)

section \<open>StruMicInfo\<close>

record 'u StruMicInfo_pb =
  MicInfo_msg_id :: "int option"
  MicInfo_user_id :: "int option"
  MicInfo_user_account_name :: "byte list option"
  MicInfo_mic_channel_str :: "byte list option"
  MicInfo_unknown :: "'u list"

definition StruMicInfo_SharedCtor :: "'u StruMicInfo_pb" where
  "StruMicInfo_SharedCtor = \<lparr>
     MicInfo_msg_id = None, MicInfo_user_id = None, MicInfo_user_account_name = None,
     MicInfo_mic_channel_str = None, MicInfo_unknown = []\<rparr>"

definition StruMicInfo_Clear :: "'u StruMicInfo_pb \<Rightarrow> 'u StruMicInfo_pb" where
  "StruMicInfo_Clear m = m\<lparr>
     MicInfo_msg_id := None, MicInfo_user_id := None, MicInfo_user_account_name := None,
     MicInfo_mic_channel_str := None, MicInfo_unknown := []\<rparr>"

definition StruMicInfo_cases :: "('i, 'u) wire \<Rightarrow> ('i, 'u StruMicInfo_pb) field_case list" where
  "StruMicInfo_cases W = [
     field_enum W 1 EnumMsgID_IsValid (\<lambda>v. MicInfo_msg_id_update (\<lambda>_. v))
       (\<lambda>v m. m\<lparr>MicInfo_unknown := w_AddVarint W 1 v (MicInfo_unknown m)\<rparr>) [(16, 2)] False,
     field_int32 W 2 (\<lambda>v. MicInfo_user_id_update (\<lambda>_. v)) [(26, 3)] False,
     field_string W 3 MicInfo_user_account_name (\<lambda>v. MicInfo_user_account_name_update (\<lambda>_. v)) [(34,
       4)] False,
     field_string W 4 MicInfo_mic_channel_str (\<lambda>v. MicInfo_mic_channel_str_update (\<lambda>_. v)) [] True]"

definition StruMicInfo_MergePartialFromCodedStream ::
  "('i, 'u) wire \<Rightarrow> 'i
    \<Rightarrow> 'u StruMicInfo_pb \<Rightarrow> (bool \<times> 'i \<times> 'u StruMicInfo_pb) res" where
  "StruMicInfo_MergePartialFromCodedStream W i m = merge_loop (merge_fuel W i) W (StruMicInfo_cases W)
     (skip_field W MicInfo_unknown (\<lambda>u. MicInfo_unknown_update (\<lambda>_. u))) None i m"

definition StruMicInfo_SerializeWithCachedSizes ::
  "('i, 'u) wire \<Rightarrow> 'u StruMicInfo_pb \<Rightarrow> byte list" where
  "StruMicInfo_SerializeWithCachedSizes W m = write_fields [
     (has (MicInfo_msg_id m), w_WriteEnum W 1 (value_or 6005 (MicInfo_msg_id m))),
     (has (MicInfo_user_id m), w_WriteInt32 W 2 (value_or 0 (MicInfo_user_id m))),
     (has (MicInfo_user_account_name m), w_WriteString W 3 (value_or [] (MicInfo_user_account_name m))),
     (has (MicInfo_mic_channel_str m), w_WriteString W 4 (value_or [] (MicInfo_mic_channel_str m))),
     (MicInfo_unknown m \<noteq> [], w_WriteUnknown W (MicInfo_unknown m))]"

definition StruMicInfo_ByteSize :: "('i, 'u) wire \<Rightarrow> 'u StruMicInfo_pb \<Rightarrow> int" where
  "StruMicInfo_ByteSize W m = size_group [
     (has (MicInfo_msg_id m), 1 + w_EnumSize W (value_or 6005 (MicInfo_msg_id m))),
     (has (MicInfo_user_id m), 1 + w_Int32Size W (value_or 0 (MicInfo_user_id m))),
     (has (MicInfo_user_account_name m), 1 + w_StringSize W (value_or [] (MicInfo_user_account_name m))),
     (has (MicInfo_mic_channel_str m), 1 + w_StringSize W (value_or [] (MicInfo_mic_channel_str m)))]
     + (if MicInfo_unknown m \<noteq> [] then w_UnknownSize W (MicInfo_unknown m) else 0)"

definition StruMicInfo_MergeFrom ::
  "'u StruMicInfo_pb \<Rightarrow> 'u StruMicInfo_pb \<Rightarrow> 'u StruMicInfo_pb" where
  "StruMicInfo_MergeFrom from m = (
     let m1 = if has (MicInfo_msg_id from) \<or> has (MicInfo_user_id from) \<or>
       has (MicInfo_user_account_name from) \<or> has (MicInfo_mic_channel_str from)
       then m\<lparr>
         MicInfo_msg_id := merge_value 6005 (MicInfo_msg_id from) (MicInfo_msg_id m),
         MicInfo_user_id := merge_value 0 (MicInfo_user_id from) (MicInfo_user_id m),
         MicInfo_user_account_name := merge_value [] (MicInfo_user_account_name from) (MicInfo_user_account_name m),
         MicInfo_mic_channel_str := merge_value [] (MicInfo_mic_channel_str from) (MicInfo_mic_channel_str m)\<rparr>
       else m
     in
     m1\<lparr>MicInfo_unknown := MicInfo_unknown m1 @ MicInfo_unknown from\<rparr>)"

definition StruMicInfo_CopyFrom ::
  "'u StruMicInfo_pb \<Rightarrow> 'u StruMicInfo_pb \<Rightarrow> 'u StruMicInfo_pb" where
  "StruMicInfo_CopyFrom from m = StruMicInfo_MergeFrom from (StruMicInfo_Clear m)"

definition StruMicInfo_IsInitialized :: "'u StruMicInfo_pb \<Rightarrow> bool" where
  "StruMicInfo_IsInitialized m \<longleftrightarrow> has_bits [
       has (MicInfo_msg_id m), has (MicInfo_user_id m), has (MicInfo_user_account_name m),
       has (MicInfo_mic_channel_str m)] AND 0xf = 0xf"

definition StruMicInfo_Swap ::
  "'u StruMicInfo_pb \<Rightarrow> 'u StruMicInfo_pb \<Rightarrow> 'u StruMicInfo_pb \<times> 'u StruMicInfo_pb" where
  "StruMicInfo_Swap m other =
     (m\<lparr>
        MicInfo_msg_id := MicInfo_msg_id other, MicInfo_user_id := MicInfo_user_id other,
        MicInfo_user_account_name := MicInfo_user_account_name other,
        MicInfo_mic_channel_str := MicInfo_mic_channel_str other, MicInfo_unknown := MicInfo_unknown other\<rparr>,
      other\<lparr>
        MicInfo_msg_id := MicInfo_msg_id m, MicInfo_user_id := MicInfo_user_id m,
        MicInfo_user_account_name := MicInfo_user_account_name m,
        MicInfo_mic_channel_str := MicInfo_mic_channel_str m, MicInfo_unknown := MicInfo_unknown m\<rparr>)"

definition StruMicInfo_fits :: "'u StruMicInfo_pb \<Rightarrow> bool" where
  "StruMicInfo_fits m \<longleftrightarrow>
     enum_ok EnumMsgID_IsValid (MicInfo_msg_id m) \<and> int_ok (MicInfo_user_id m) \<and>
     str_ok (MicInfo_user_account_name m) \<and> str_ok (MicInfo_mic_channel_str m) \<and>
     MicInfo_unknown m = []"

interpretation MicInfo: message_class StruMicInfo_cases
  "\<lambda>W. skip_field W MicInfo_unknown (\<lambda>u. MicInfo_unknown_update (\<lambda>_. u))"
  StruMicInfo_MergePartialFromCodedStream StruMicInfo_SharedCtor StruMicInfo_SerializeWithCachedSizes
  StruMicInfo_ByteSize StruMicInfo_IsInitialized "\<lambda>_. StruMicInfo_fits"
  by (unfold_locales, rule StruMicInfo_MergePartialFromCodedStream_def,
      simp add: StruMicInfo_cases_def cases_ok_def case_ok_def,
      simp add: StruMicInfo_cases_def field_ends,
      unfold StruMicInfo_fits_def StruMicInfo_SerializeWithCachedSizes_def, elim conjE, rule fed_eq,
      (rule fed_rules, assumption, simp add: StruMicInfo_cases_def, simp add: StruMicInfo_SharedCtor_def, (assumption
        | simp)+)+,
      rule fed_done, simp add: StruMicInfo_SharedCtor_def,
      unfold StruMicInfo_ByteSize_def length_write_fields size_group_sum, elim conjE, (drule enum_int_ok)+,
      simp add: add.assoc written_sizes split del: if_split)

lemma StruMicInfo_copies:
  "StruMicInfo_CopyFrom from m = from" "StruMicInfo_Swap m from = (from, m)"
proof -
  show "StruMicInfo_CopyFrom from m = from"
    by (rule StruMicInfo_pb.equality; cases "has (MicInfo_msg_id from) \<or> has (MicInfo_user_id from) \<or> has
      (MicInfo_user_account_name from) \<or> has (MicInfo_mic_channel_str from)";
      simp add: StruMicInfo_CopyFrom_def StruMicInfo_MergeFrom_def StruMicInfo_Clear_def)
  show "StruMicInfo_Swap m from = (from, m)" by (cases "from"; cases m; simp add: StruMicInfo_Swap_def)
qed

lemma StruMicInfo_required:
  "StruMicInfo_IsInitialized m \<longleftrightarrow>
     has (MicInfo_msg_id m) \<and> has (MicInfo_user_id m) \<and> has (MicInfo_user_account_name m) \<and>
     has (MicInfo_mic_channel_str m)"
  by (auto simp: StruMicInfo_IsInitialized_def has_masks)

section \<open>StruRoomMicInfoID\<close>

record 'u StruRoomMicInfoID_pb =
  RoomMicInfoID_msg_id :: "int option"
  RoomMicInfoID_user_id :: "int option"
  RoomMicInfoID_room_id :: "int option"
  RoomMicInfoID_mic_list :: "'u StruMicInfo_pb list"
  RoomMicInfoID_unknown :: "'u list"

definition StruRoomMicInfoID_SharedCtor :: "'u StruRoomMicInfoID_pb" where
  "StruRoomMicInfoID_SharedCtor = \<lparr>
     RoomMicInfoID_msg_id = None, RoomMicInfoID_user_id = None, RoomMicInfoID_room_id = None,
     RoomMicInfoID_mic_list = [], RoomMicInfoID_unknown = []\<rparr>"

definition StruRoomMicInfoID_Clear :: "'u StruRoomMicInfoID_pb \<Rightarrow> 'u StruRoomMicInfoID_pb" where
  "StruRoomMicInfoID_Clear m = m\<lparr>
     RoomMicInfoID_msg_id := None, RoomMicInfoID_user_id := None, RoomMicInfoID_room_id := None,
     RoomMicInfoID_mic_list := [], RoomMicInfoID_unknown := []\<rparr>"

definition StruRoomMicInfoID_cases ::
  "('i, 'u) wire \<Rightarrow> ('i, 'u StruRoomMicInfoID_pb) field_case list" where
  "StruRoomMicInfoID_cases W = [
     field_enum W 1 EnumMsgID_IsValid (\<lambda>v. RoomMicInfoID_msg_id_update (\<lambda>_. v))
       (\<lambda>v m. m\<lparr>RoomMicInfoID_unknown := w_AddVarint W 1 v (RoomMicInfoID_unknown m)\<rparr>) [(16, 2)] False,
     field_int32 W 2 (\<lambda>v. RoomMicInfoID_user_id_update (\<lambda>_. v)) [(24, 3)] False,
     field_int32 W 3 (\<lambda>v. RoomMicInfoID_room_id_update (\<lambda>_. v)) [(34, 4)] False,
     field_message W 4 (StruMicInfo_MergePartialFromCodedStream W) StruMicInfo_SharedCtor
       (\<lambda>s m. m\<lparr>RoomMicInfoID_mic_list := RoomMicInfoID_mic_list m @ [s]\<rparr>) [(34, 4)] True]"

definition StruRoomMicInfoID_MergePartialFromCodedStream ::
  "('i, 'u) wire \<Rightarrow> 'i \<Rightarrow> 'u StruRoomMicInfoID_pb
    \<Rightarrow> (bool \<times> 'i \<times> 'u StruRoomMicInfoID_pb) res" where
  "StruRoomMicInfoID_MergePartialFromCodedStream W i m = merge_loop (merge_fuel W i) W (StruRoomMicInfoID_cases W)
     (skip_field W RoomMicInfoID_unknown (\<lambda>u. RoomMicInfoID_unknown_update (\<lambda>_. u))) None i m"

definition StruRoomMicInfoID_SerializeWithCachedSizes ::
  "('i, 'u) wire \<Rightarrow> 'u StruRoomMicInfoID_pb \<Rightarrow> byte list" where
  "StruRoomMicInfoID_SerializeWithCachedSizes W m = write_fields [
     (has (RoomMicInfoID_msg_id m), w_WriteEnum W 1 (value_or 6006 (RoomMicInfoID_msg_id m))),
     (has (RoomMicInfoID_user_id m), w_WriteInt32 W 2 (value_or 0 (RoomMicInfoID_user_id m))),
     (has (RoomMicInfoID_room_id m), w_WriteInt32 W 3 (value_or 0 (RoomMicInfoID_room_id m))),
     (True, concat (map (\<lambda>s. w_WriteMessage W 4 (StruMicInfo_ByteSize W s)
       (StruMicInfo_SerializeWithCachedSizes W s)) (RoomMicInfoID_mic_list m))),
     (RoomMicInfoID_unknown m \<noteq> [], w_WriteUnknown W (RoomMicInfoID_unknown m))]"

definition StruRoomMicInfoID_ByteSize :: "('i, 'u) wire \<Rightarrow> 'u StruRoomMicInfoID_pb \<Rightarrow> int" where
  "StruRoomMicInfoID_ByteSize W m = size_group [
     (has (RoomMicInfoID_msg_id m), 1 + w_EnumSize W (value_or 6006 (RoomMicInfoID_msg_id m))),
     (has (RoomMicInfoID_user_id m), 1 + w_Int32Size W (value_or 0 (RoomMicInfoID_user_id m))),
     (has (RoomMicInfoID_room_id m), 1 + w_Int32Size W (value_or 0 (RoomMicInfoID_room_id m)))]
     + 1 * int (length (RoomMicInfoID_mic_list m)) + sum_list (map (\<lambda>s. w_MessageSize W (StruMicInfo_ByteSize
       W s)) (RoomMicInfoID_mic_list m))
     + (if RoomMicInfoID_unknown m \<noteq> [] then w_UnknownSize W (RoomMicInfoID_unknown m) else 0)"

definition StruRoomMicInfoID_MergeFrom ::
  "'u StruRoomMicInfoID_pb \<Rightarrow> 'u StruRoomMicInfoID_pb \<Rightarrow> 'u StruRoomMicInfoID_pb" where
  "StruRoomMicInfoID_MergeFrom from m = (
     let m1 = if has (RoomMicInfoID_msg_id from) \<or> has (RoomMicInfoID_user_id from) \<or>
       has (RoomMicInfoID_room_id from)
       then m\<lparr>
         RoomMicInfoID_msg_id := merge_value 6006 (RoomMicInfoID_msg_id from) (RoomMicInfoID_msg_id m),
         RoomMicInfoID_user_id := merge_value 0 (RoomMicInfoID_user_id from) (RoomMicInfoID_user_id m),
         RoomMicInfoID_room_id := merge_value 0 (RoomMicInfoID_room_id from) (RoomMicInfoID_room_id m)\<rparr>
       else m
     in
     m1\<lparr>RoomMicInfoID_mic_list := RoomMicInfoID_mic_list m1 @ RoomMicInfoID_mic_list from,
       RoomMicInfoID_unknown := RoomMicInfoID_unknown m1 @ RoomMicInfoID_unknown from\<rparr>)"

definition StruRoomMicInfoID_CopyFrom ::
  "'u StruRoomMicInfoID_pb \<Rightarrow> 'u StruRoomMicInfoID_pb \<Rightarrow> 'u StruRoomMicInfoID_pb" where
  "StruRoomMicInfoID_CopyFrom from m = StruRoomMicInfoID_MergeFrom from (StruRoomMicInfoID_Clear m)"

definition StruRoomMicInfoID_IsInitialized :: "'u StruRoomMicInfoID_pb \<Rightarrow> bool" where
  "StruRoomMicInfoID_IsInitialized m \<longleftrightarrow> has_bits [
       has (RoomMicInfoID_msg_id m), has (RoomMicInfoID_user_id m), has (RoomMicInfoID_room_id m), False] AND 0x7 =
         0x7 \<and> list_all StruMicInfo_IsInitialized (RoomMicInfoID_mic_list m)"

definition StruRoomMicInfoID_Swap ::
  "'u StruRoomMicInfoID_pb \<Rightarrow> 'u StruRoomMicInfoID_pb
    \<Rightarrow> 'u StruRoomMicInfoID_pb \<times> 'u StruRoomMicInfoID_pb" where
  "StruRoomMicInfoID_Swap m other =
     (m\<lparr>
        RoomMicInfoID_msg_id := RoomMicInfoID_msg_id other,
        RoomMicInfoID_user_id := RoomMicInfoID_user_id other,
        RoomMicInfoID_room_id := RoomMicInfoID_room_id other,
        RoomMicInfoID_mic_list := RoomMicInfoID_mic_list other,
        RoomMicInfoID_unknown := RoomMicInfoID_unknown other\<rparr>,
      other\<lparr>
        RoomMicInfoID_msg_id := RoomMicInfoID_msg_id m, RoomMicInfoID_user_id := RoomMicInfoID_user_id m,
        RoomMicInfoID_room_id := RoomMicInfoID_room_id m, RoomMicInfoID_mic_list := RoomMicInfoID_mic_list m,
        RoomMicInfoID_unknown := RoomMicInfoID_unknown m\<rparr>)"

definition StruRoomMicInfoID_fits :: "('i, 'u) wire \<Rightarrow> 'u StruRoomMicInfoID_pb \<Rightarrow> bool" where
  "StruRoomMicInfoID_fits W m \<longleftrightarrow>
     enum_ok EnumMsgID_IsValid (RoomMicInfoID_msg_id m) \<and> int_ok (RoomMicInfoID_user_id m) \<and>
     int_ok (RoomMicInfoID_room_id m) \<and>
     (\<forall>s \<in> set (RoomMicInfoID_mic_list m). StruMicInfo_fits s \<and> length
       (StruMicInfo_SerializeWithCachedSizes W s) < 2147483648) \<and>
     RoomMicInfoID_unknown m = []"

interpretation RoomMicInfoID: message_class StruRoomMicInfoID_cases
  "\<lambda>W. skip_field W RoomMicInfoID_unknown (\<lambda>u. RoomMicInfoID_unknown_update (\<lambda>_. u))"
  StruRoomMicInfoID_MergePartialFromCodedStream StruRoomMicInfoID_SharedCtor StruRoomMicInfoID_SerializeWithCachedSizes
  StruRoomMicInfoID_ByteSize StruRoomMicInfoID_IsInitialized StruRoomMicInfoID_fits
  by (unfold_locales, rule StruRoomMicInfoID_MergePartialFromCodedStream_def,
      simp add: StruRoomMicInfoID_cases_def cases_ok_def case_ok_def,
      simp add: StruRoomMicInfoID_cases_def field_ends message_field_ends [OF _ MicInfo.stream_ends],
      unfold StruRoomMicInfoID_fits_def StruRoomMicInfoID_SerializeWithCachedSizes_def, elim conjE, rule fed_eq,
      (rule fed_rules, assumption, simp add: StruRoomMicInfoID_cases_def, simp add: StruRoomMicInfoID_SharedCtor_def,
        (assumption | simp add: MicInfo.element)+)+,
      rule fed_done, simp add: StruRoomMicInfoID_SharedCtor_def,
      unfold StruRoomMicInfoID_ByteSize_def length_write_fields size_group_sum, elim conjE, (drule enum_int_ok)+,
      simp add: add.assoc written_sizes written_messages MicInfo.size split del: if_split)

lemma StruRoomMicInfoID_copies:
  "StruRoomMicInfoID_CopyFrom from m = from" "StruRoomMicInfoID_Swap m from = (from, m)"
proof -
  show "StruRoomMicInfoID_CopyFrom from m = from"
    by (rule StruRoomMicInfoID_pb.equality; cases "has (RoomMicInfoID_msg_id from) \<or> has (RoomMicInfoID_user_id
      from) \<or> has (RoomMicInfoID_room_id from)";
      simp add: StruRoomMicInfoID_CopyFrom_def StruRoomMicInfoID_MergeFrom_def StruRoomMicInfoID_Clear_def)
  show "StruRoomMicInfoID_Swap m from = (from, m)" by (cases "from"; cases m; simp add: StruRoomMicInfoID_Swap_def)
qed

lemma StruRoomMicInfoID_required:
  "StruRoomMicInfoID_IsInitialized m \<longleftrightarrow>
     has (RoomMicInfoID_msg_id m) \<and> has (RoomMicInfoID_user_id m) \<and>
     has (RoomMicInfoID_room_id m) \<and> list_all StruMicInfo_IsInitialized (RoomMicInfoID_mic_list m)"
  by (auto simp: StruRoomMicInfoID_IsInitialized_def has_masks)

section \<open>StruUserInfo\<close>

record 'u StruUserInfo_pb =
  UserInfo_msg_id :: "int option"
  UserInfo_user_id :: "int option"
  UserInfo_user_account_name :: "byte list option"
  UserInfo_user_role_uid :: "byte list option"
  UserInfo_user_level :: "int option"
  UserInfo_buyer_riches :: "int option"
  UserInfo_buyer_grow_up :: "int option"
  UserInfo_buyer_honour :: "int option"
  UserInfo_buyer_estimate :: "int option"
  UserInfo_seller_income :: "int option"
  UserInfo_seller_exp :: "int option"
  UserInfo_seller_pop :: "int option"
  UserInfo_seller_estimate :: "int option"
  UserInfo_unknown :: "'u list"

definition StruUserInfo_SharedCtor :: "'u StruUserInfo_pb" where
  "StruUserInfo_SharedCtor = \<lparr>
     UserInfo_msg_id = None, UserInfo_user_id = None, UserInfo_user_account_name = None,
     UserInfo_user_role_uid = None, UserInfo_user_level = None, UserInfo_buyer_riches = None,
     UserInfo_buyer_grow_up = None, UserInfo_buyer_honour = None, UserInfo_buyer_estimate = None,
     UserInfo_seller_income = None, UserInfo_seller_exp = None, UserInfo_seller_pop = None,
     UserInfo_seller_estimate = None, UserInfo_unknown = []\<rparr>"

definition StruUserInfo_Clear :: "'u StruUserInfo_pb \<Rightarrow> 'u StruUserInfo_pb" where
  "StruUserInfo_Clear m = m\<lparr>
     UserInfo_msg_id := None, UserInfo_user_id := None, UserInfo_user_account_name := None,
     UserInfo_user_role_uid := None, UserInfo_user_level := None, UserInfo_buyer_riches := None,
     UserInfo_buyer_grow_up := None, UserInfo_buyer_honour := None, UserInfo_buyer_estimate := None,
     UserInfo_seller_income := None, UserInfo_seller_exp := None, UserInfo_seller_pop := None,
     UserInfo_seller_estimate := None, UserInfo_unknown := []\<rparr>"

definition StruUserInfo_cases :: "('i, 'u) wire \<Rightarrow> ('i, 'u StruUserInfo_pb) field_case list" where
  "StruUserInfo_cases W = [
     field_enum W 1 EnumMsgID_IsValid (\<lambda>v. UserInfo_msg_id_update (\<lambda>_. v))
       (\<lambda>v m. m\<lparr>UserInfo_unknown := w_AddVarint W 1 v (UserInfo_unknown m)\<rparr>) [(16, 2)] False,
     field_int32 W 2 (\<lambda>v. UserInfo_user_id_update (\<lambda>_. v)) [(26, 3)] False,
     field_string W 3 UserInfo_user_account_name (\<lambda>v. UserInfo_user_account_name_update (\<lambda>_. v))
       [(34, 4)] False,
     field_string W 4 UserInfo_user_role_uid (\<lambda>v. UserInfo_user_role_uid_update (\<lambda>_. v)) [(40, 5)] False,
     field_int32 W 5 (\<lambda>v. UserInfo_user_level_update (\<lambda>_. v)) [(48, 6)] False,
     field_int32 W 6 (\<lambda>v. UserInfo_buyer_riches_update (\<lambda>_. v)) [(56, 7)] False,
     field_int32 W 7 (\<lambda>v. UserInfo_buyer_grow_up_update (\<lambda>_. v)) [(64, 8)] False,
     field_int32 W 8 (\<lambda>v. UserInfo_buyer_honour_update (\<lambda>_. v)) [(72, 9)] False,
     field_int32 W 9 (\<lambda>v. UserInfo_buyer_estimate_update (\<lambda>_. v)) [(80, 10)] False,
     field_int32 W 10 (\<lambda>v. UserInfo_seller_income_update (\<lambda>_. v)) [(88, 11)] False,
     field_int32 W 11 (\<lambda>v. UserInfo_seller_exp_update (\<lambda>_. v)) [(96, 12)] False,
     field_int32 W 12 (\<lambda>v. UserInfo_seller_pop_update (\<lambda>_. v)) [(104, 13)] False,
     field_int32 W 13 (\<lambda>v. UserInfo_seller_estimate_update (\<lambda>_. v)) [] True]"

definition StruUserInfo_MergePartialFromCodedStream ::
  "('i, 'u) wire \<Rightarrow> 'i
    \<Rightarrow> 'u StruUserInfo_pb \<Rightarrow> (bool \<times> 'i \<times> 'u StruUserInfo_pb) res" where
  "StruUserInfo_MergePartialFromCodedStream W i m = merge_loop (merge_fuel W i) W (StruUserInfo_cases W)
     (skip_field W UserInfo_unknown (\<lambda>u. UserInfo_unknown_update (\<lambda>_. u))) None i m"

definition StruUserInfo_SerializeWithCachedSizes ::
  "('i, 'u) wire \<Rightarrow> 'u StruUserInfo_pb \<Rightarrow> byte list" where
  "StruUserInfo_SerializeWithCachedSizes W m = write_fields [
     (has (UserInfo_msg_id m), w_WriteEnum W 1 (value_or 6007 (UserInfo_msg_id m))),
     (has (UserInfo_user_id m), w_WriteInt32 W 2 (value_or 0 (UserInfo_user_id m))),
     (has (UserInfo_user_account_name m), w_WriteString W 3 (value_or [] (UserInfo_user_account_name m))),
     (has (UserInfo_user_role_uid m), w_WriteString W 4 (value_or [] (UserInfo_user_role_uid m))),
     (has (UserInfo_user_level m), w_WriteInt32 W 5 (value_or 0 (UserInfo_user_level m))),
     (has (UserInfo_buyer_riches m), w_WriteInt32 W 6 (value_or 0 (UserInfo_buyer_riches m))),
     (has (UserInfo_buyer_grow_up m), w_WriteInt32 W 7 (value_or 0 (UserInfo_buyer_grow_up m))),
     (has (UserInfo_buyer_honour m), w_WriteInt32 W 8 (value_or 0 (UserInfo_buyer_honour m))),
     (has (UserInfo_buyer_estimate m), w_WriteInt32 W 9 (value_or 0 (UserInfo_buyer_estimate m))),
     (has (UserInfo_seller_income m), w_WriteInt32 W 10 (value_or 0 (UserInfo_seller_income m))),
     (has (UserInfo_seller_exp m), w_WriteInt32 W 11 (value_or 0 (UserInfo_seller_exp m))),
     (has (UserInfo_seller_pop m), w_WriteInt32 W 12 (value_or 0 (UserInfo_seller_pop m))),
     (has (UserInfo_seller_estimate m), w_WriteInt32 W 13 (value_or 0 (UserInfo_seller_estimate m))),
     (UserInfo_unknown m \<noteq> [], w_WriteUnknown W (UserInfo_unknown m))]"

definition StruUserInfo_ByteSize :: "('i, 'u) wire \<Rightarrow> 'u StruUserInfo_pb \<Rightarrow> int" where
  "StruUserInfo_ByteSize W m = size_group [
     (has (UserInfo_msg_id m), 1 + w_EnumSize W (value_or 6007 (UserInfo_msg_id m))),
     (has (UserInfo_user_id m), 1 + w_Int32Size W (value_or 0 (UserInfo_user_id m))),
     (has (UserInfo_user_account_name m), 1 + w_StringSize W (value_or [] (UserInfo_user_account_name m))),
     (has (UserInfo_user_role_uid m), 1 + w_StringSize W (value_or [] (UserInfo_user_role_uid m))),
     (has (UserInfo_user_level m), 1 + w_Int32Size W (value_or 0 (UserInfo_user_level m))),
     (has (UserInfo_buyer_riches m), 1 + w_Int32Size W (value_or 0 (UserInfo_buyer_riches m))),
     (has (UserInfo_buyer_grow_up m), 1 + w_Int32Size W (value_or 0 (UserInfo_buyer_grow_up m))),
     (has (UserInfo_buyer_honour m), 1 + w_Int32Size W (value_or 0 (UserInfo_buyer_honour m)))]
     + size_group [
     (has (UserInfo_buyer_estimate m), 1 + w_Int32Size W (value_or 0 (UserInfo_buyer_estimate m))),
     (has (UserInfo_seller_income m), 1 + w_Int32Size W (value_or 0 (UserInfo_seller_income m))),
     (has (UserInfo_seller_exp m), 1 + w_Int32Size W (value_or 0 (UserInfo_seller_exp m))),
     (has (UserInfo_seller_pop m), 1 + w_Int32Size W (value_or 0 (UserInfo_seller_pop m))),
     (has (UserInfo_seller_estimate m), 1 + w_Int32Size W (value_or 0 (UserInfo_seller_estimate m)))]
     + (if UserInfo_unknown m \<noteq> [] then w_UnknownSize W (UserInfo_unknown m) else 0)"

definition StruUserInfo_MergeFrom ::
  "'u StruUserInfo_pb \<Rightarrow> 'u StruUserInfo_pb \<Rightarrow> 'u StruUserInfo_pb" where
  "StruUserInfo_MergeFrom from m = (
     let m1 = if has (UserInfo_msg_id from) \<or> has (UserInfo_user_id from) \<or>
       has (UserInfo_user_account_name from) \<or> has (UserInfo_user_role_uid from) \<or>
       has (UserInfo_user_level from) \<or> has (UserInfo_buyer_riches from) \<or>
       has (UserInfo_buyer_grow_up from) \<or> has (UserInfo_buyer_honour from)
       then m\<lparr>
         UserInfo_msg_id := merge_value 6007 (UserInfo_msg_id from) (UserInfo_msg_id m),
         UserInfo_user_id := merge_value 0 (UserInfo_user_id from) (UserInfo_user_id m),
         UserInfo_user_account_name := merge_value [] (UserInfo_user_account_name from) (UserInfo_user_account_name m),
         UserInfo_user_role_uid := merge_value [] (UserInfo_user_role_uid from) (UserInfo_user_role_uid m),
         UserInfo_user_level := merge_value 0 (UserInfo_user_level from) (UserInfo_user_level m),
         UserInfo_buyer_riches := merge_value 0 (UserInfo_buyer_riches from) (UserInfo_buyer_riches m),
         UserInfo_buyer_grow_up := merge_value 0 (UserInfo_buyer_grow_up from) (UserInfo_buyer_grow_up m),
         UserInfo_buyer_honour := merge_value 0 (UserInfo_buyer_honour from) (UserInfo_buyer_honour m)\<rparr>
       else m
     in
     let m2 = if has (UserInfo_buyer_estimate from) \<or> has (UserInfo_seller_income from) \<or>
       has (UserInfo_seller_exp from) \<or> has (UserInfo_seller_pop from) \<or>
       has (UserInfo_seller_estimate from)
       then m1\<lparr>
         UserInfo_buyer_estimate := merge_value 0 (UserInfo_buyer_estimate from) (UserInfo_buyer_estimate m1),
         UserInfo_seller_income := merge_value 0 (UserInfo_seller_income from) (UserInfo_seller_income m1),
         UserInfo_seller_exp := merge_value 0 (UserInfo_seller_exp from) (UserInfo_seller_exp m1),
         UserInfo_seller_pop := merge_value 0 (UserInfo_seller_pop from) (UserInfo_seller_pop m1),
         UserInfo_seller_estimate := merge_value 0 (UserInfo_seller_estimate from) (UserInfo_seller_estimate m1)\<rparr>
       else m1
     in
     m2\<lparr>UserInfo_unknown := UserInfo_unknown m2 @ UserInfo_unknown from\<rparr>)"

definition StruUserInfo_CopyFrom ::
  "'u StruUserInfo_pb \<Rightarrow> 'u StruUserInfo_pb \<Rightarrow> 'u StruUserInfo_pb" where
  "StruUserInfo_CopyFrom from m = StruUserInfo_MergeFrom from (StruUserInfo_Clear m)"

definition StruUserInfo_IsInitialized :: "'u StruUserInfo_pb \<Rightarrow> bool" where
  "StruUserInfo_IsInitialized m \<longleftrightarrow> has_bits [
       has (UserInfo_msg_id m), has (UserInfo_user_id m), has (UserInfo_user_account_name m),
       has (UserInfo_user_role_uid m), has (UserInfo_user_level m), has (UserInfo_buyer_riches m),
       has (UserInfo_buyer_grow_up m), has (UserInfo_buyer_honour m), has (UserInfo_buyer_estimate m),
       has (UserInfo_seller_income m), has (UserInfo_seller_exp m), has (UserInfo_seller_pop m),
       has (UserInfo_seller_estimate m)] AND 0x1fff = 0x1fff"

definition StruUserInfo_Swap ::
  "'u StruUserInfo_pb \<Rightarrow> 'u StruUserInfo_pb \<Rightarrow> 'u StruUserInfo_pb \<times> 'u StruUserInfo_pb" where
  "StruUserInfo_Swap m other =
     (m\<lparr>
        UserInfo_msg_id := UserInfo_msg_id other, UserInfo_user_id := UserInfo_user_id other,
        UserInfo_user_account_name := UserInfo_user_account_name other,
        UserInfo_user_role_uid := UserInfo_user_role_uid other,
        UserInfo_user_level := UserInfo_user_level other, UserInfo_buyer_riches := UserInfo_buyer_riches other,
        UserInfo_buyer_grow_up := UserInfo_buyer_grow_up other,
        UserInfo_buyer_honour := UserInfo_buyer_honour other,
        UserInfo_buyer_estimate := UserInfo_buyer_estimate other,
        UserInfo_seller_income := UserInfo_seller_income other,
        UserInfo_seller_exp := UserInfo_seller_exp other, UserInfo_seller_pop := UserInfo_seller_pop other,
        UserInfo_seller_estimate := UserInfo_seller_estimate other, UserInfo_unknown := UserInfo_unknown other\<rparr>,
      other\<lparr>
        UserInfo_msg_id := UserInfo_msg_id m, UserInfo_user_id := UserInfo_user_id m,
        UserInfo_user_account_name := UserInfo_user_account_name m,
        UserInfo_user_role_uid := UserInfo_user_role_uid m, UserInfo_user_level := UserInfo_user_level m,
        UserInfo_buyer_riches := UserInfo_buyer_riches m, UserInfo_buyer_grow_up := UserInfo_buyer_grow_up m,
        UserInfo_buyer_honour := UserInfo_buyer_honour m, UserInfo_buyer_estimate := UserInfo_buyer_estimate m,
        UserInfo_seller_income := UserInfo_seller_income m, UserInfo_seller_exp := UserInfo_seller_exp m,
        UserInfo_seller_pop := UserInfo_seller_pop m, UserInfo_seller_estimate := UserInfo_seller_estimate m,
        UserInfo_unknown := UserInfo_unknown m\<rparr>)"

definition StruUserInfo_fits :: "'u StruUserInfo_pb \<Rightarrow> bool" where
  "StruUserInfo_fits m \<longleftrightarrow>
     enum_ok EnumMsgID_IsValid (UserInfo_msg_id m) \<and> int_ok (UserInfo_user_id m) \<and>
     str_ok (UserInfo_user_account_name m) \<and> str_ok (UserInfo_user_role_uid m) \<and>
     int_ok (UserInfo_user_level m) \<and> int_ok (UserInfo_buyer_riches m) \<and>
     int_ok (UserInfo_buyer_grow_up m) \<and> int_ok (UserInfo_buyer_honour m) \<and>
     int_ok (UserInfo_buyer_estimate m) \<and> int_ok (UserInfo_seller_income m) \<and>
     int_ok (UserInfo_seller_exp m) \<and> int_ok (UserInfo_seller_pop m) \<and>
     int_ok (UserInfo_seller_estimate m) \<and> UserInfo_unknown m = []"

interpretation UserInfo: message_class StruUserInfo_cases
  "\<lambda>W. skip_field W UserInfo_unknown (\<lambda>u. UserInfo_unknown_update (\<lambda>_. u))"
  StruUserInfo_MergePartialFromCodedStream StruUserInfo_SharedCtor StruUserInfo_SerializeWithCachedSizes
  StruUserInfo_ByteSize StruUserInfo_IsInitialized "\<lambda>_. StruUserInfo_fits"
  by (unfold_locales, rule StruUserInfo_MergePartialFromCodedStream_def,
      simp add: StruUserInfo_cases_def cases_ok_def case_ok_def,
      simp add: StruUserInfo_cases_def field_ends,
      unfold StruUserInfo_fits_def StruUserInfo_SerializeWithCachedSizes_def, elim conjE, rule fed_eq,
      (rule fed_rules, assumption, simp add: StruUserInfo_cases_def, simp add: StruUserInfo_SharedCtor_def,
        (assumption | simp)+)+,
      rule fed_done, simp add: StruUserInfo_SharedCtor_def,
      unfold StruUserInfo_ByteSize_def length_write_fields size_group_sum, elim conjE, (drule enum_int_ok)+,
      simp add: add.assoc written_sizes split del: if_split)

lemma StruUserInfo_copies:
  "StruUserInfo_CopyFrom from m = from" "StruUserInfo_Swap m from = (from, m)"
proof -
  show "StruUserInfo_CopyFrom from m = from"
    by (rule StruUserInfo_pb.equality; cases "has (UserInfo_msg_id from) \<or> has (UserInfo_user_id from) \<or> has
      (UserInfo_user_account_name from) \<or> has (UserInfo_user_role_uid from) \<or> has (UserInfo_user_level from)
        \<or> has (UserInfo_buyer_riches from) \<or> has (UserInfo_buyer_grow_up from) \<or> has
          (UserInfo_buyer_honour from)"; cases "has (UserInfo_buyer_estimate from) \<or> has (UserInfo_seller_income
            from) \<or> has (UserInfo_seller_exp from) \<or> has (UserInfo_seller_pop from) \<or> has
              (UserInfo_seller_estimate from)";
      simp add: StruUserInfo_CopyFrom_def StruUserInfo_MergeFrom_def StruUserInfo_Clear_def)
  show "StruUserInfo_Swap m from = (from, m)" by (cases "from"; cases m; simp add: StruUserInfo_Swap_def)
qed

lemma StruUserInfo_required:
  "StruUserInfo_IsInitialized m \<longleftrightarrow>
     has (UserInfo_msg_id m) \<and> has (UserInfo_user_id m) \<and> has (UserInfo_user_account_name m) \<and>
     has (UserInfo_user_role_uid m) \<and> has (UserInfo_user_level m) \<and>
     has (UserInfo_buyer_riches m) \<and> has (UserInfo_buyer_grow_up m) \<and>
     has (UserInfo_buyer_honour m) \<and> has (UserInfo_buyer_estimate m) \<and>
     has (UserInfo_seller_income m) \<and> has (UserInfo_seller_exp m) \<and> has (UserInfo_seller_pop m) \<and>
     has (UserInfo_seller_estimate m)"
  by (auto simp: StruUserInfo_IsInitialized_def has_masks)

section \<open>StruUserInfoListID\<close>

record 'u StruUserInfoListID_pb =
  UserInfoListID_msg_id :: "int option"
  UserInfoListID_user_id :: "int option"
  UserInfoListID_room_id :: "int option"
  UserInfoListID_user_info_list :: "'u StruUserInfo_pb list"
  UserInfoListID_unknown :: "'u list"

definition StruUserInfoListID_SharedCtor :: "'u StruUserInfoListID_pb" where
  "StruUserInfoListID_SharedCtor = \<lparr>
     UserInfoListID_msg_id = None, UserInfoListID_user_id = None, UserInfoListID_room_id = None,
     UserInfoListID_user_info_list = [], UserInfoListID_unknown = []\<rparr>"

definition StruUserInfoListID_Clear :: "'u StruUserInfoListID_pb \<Rightarrow> 'u StruUserInfoListID_pb" where
  "StruUserInfoListID_Clear m = m\<lparr>
     UserInfoListID_msg_id := None, UserInfoListID_user_id := None, UserInfoListID_room_id := None,
     UserInfoListID_user_info_list := [], UserInfoListID_unknown := []\<rparr>"

definition StruUserInfoListID_cases ::
  "('i, 'u) wire \<Rightarrow> ('i, 'u StruUserInfoListID_pb) field_case list" where
  "StruUserInfoListID_cases W = [
     field_enum W 1 EnumMsgID_IsValid (\<lambda>v. UserInfoListID_msg_id_update (\<lambda>_. v))
       (\<lambda>v m. m\<lparr>UserInfoListID_unknown := w_AddVarint W 1 v (UserInfoListID_unknown m)\<rparr>) [(16,
         2)] False,
     field_int32 W 2 (\<lambda>v. UserInfoListID_user_id_update (\<lambda>_. v)) [(24, 3)] False,
     field_int32 W 3 (\<lambda>v. UserInfoListID_room_id_update (\<lambda>_. v)) [(34, 4)] False,
     field_message W 4 (StruUserInfo_MergePartialFromCodedStream W) StruUserInfo_SharedCtor
       (\<lambda>s m. m\<lparr>UserInfoListID_user_info_list := UserInfoListID_user_info_list m @ [s]\<rparr>) [(34,
         4)] True]"

definition StruUserInfoListID_MergePartialFromCodedStream ::
  "('i, 'u) wire \<Rightarrow> 'i \<Rightarrow> 'u StruUserInfoListID_pb
    \<Rightarrow> (bool \<times> 'i \<times> 'u StruUserInfoListID_pb) res" where
  "StruUserInfoListID_MergePartialFromCodedStream W i m = merge_loop (merge_fuel W i) W (StruUserInfoListID_cases W)
     (skip_field W UserInfoListID_unknown (\<lambda>u. UserInfoListID_unknown_update (\<lambda>_. u))) None i m"

definition StruUserInfoListID_SerializeWithCachedSizes ::
  "('i, 'u) wire \<Rightarrow> 'u StruUserInfoListID_pb \<Rightarrow> byte list" where
  "StruUserInfoListID_SerializeWithCachedSizes W m = write_fields [
     (has (UserInfoListID_msg_id m), w_WriteEnum W 1 (value_or 6008 (UserInfoListID_msg_id m))),
     (has (UserInfoListID_user_id m), w_WriteInt32 W 2 (value_or 0 (UserInfoListID_user_id m))),
     (has (UserInfoListID_room_id m), w_WriteInt32 W 3 (value_or 0 (UserInfoListID_room_id m))),
     (True, concat (map (\<lambda>s. w_WriteMessage W 4 (StruUserInfo_ByteSize W s)
       (StruUserInfo_SerializeWithCachedSizes W s)) (UserInfoListID_user_info_list m))),
     (UserInfoListID_unknown m \<noteq> [], w_WriteUnknown W (UserInfoListID_unknown m))]"

definition StruUserInfoListID_ByteSize ::
  "('i, 'u) wire \<Rightarrow> 'u StruUserInfoListID_pb \<Rightarrow> int" where
  "StruUserInfoListID_ByteSize W m = size_group [
     (has (UserInfoListID_msg_id m), 1 + w_EnumSize W (value_or 6008 (UserInfoListID_msg_id m))),
     (has (UserInfoListID_user_id m), 1 + w_Int32Size W (value_or 0 (UserInfoListID_user_id m))),
     (has (UserInfoListID_room_id m), 1 + w_Int32Size W (value_or 0 (UserInfoListID_room_id m)))]
     + 1 * int (length (UserInfoListID_user_info_list m)) + sum_list (map (\<lambda>s. w_MessageSize W
       (StruUserInfo_ByteSize W s)) (UserInfoListID_user_info_list m))
     + (if UserInfoListID_unknown m \<noteq> [] then w_UnknownSize W (UserInfoListID_unknown m) else 0)"

definition StruUserInfoListID_MergeFrom ::
  "'u StruUserInfoListID_pb \<Rightarrow> 'u StruUserInfoListID_pb \<Rightarrow> 'u StruUserInfoListID_pb" where
  "StruUserInfoListID_MergeFrom from m = (
     let m1 = if has (UserInfoListID_msg_id from) \<or> has (UserInfoListID_user_id from) \<or>
       has (UserInfoListID_room_id from)
       then m\<lparr>
         UserInfoListID_msg_id := merge_value 6008 (UserInfoListID_msg_id from) (UserInfoListID_msg_id m),
         UserInfoListID_user_id := merge_value 0 (UserInfoListID_user_id from) (UserInfoListID_user_id m),
         UserInfoListID_room_id := merge_value 0 (UserInfoListID_room_id from) (UserInfoListID_room_id m)\<rparr>
       else m
     in
     m1\<lparr>UserInfoListID_user_info_list := UserInfoListID_user_info_list m1 @ UserInfoListID_user_info_list
       from, UserInfoListID_unknown := UserInfoListID_unknown m1 @ UserInfoListID_unknown from\<rparr>)"

definition StruUserInfoListID_CopyFrom ::
  "'u StruUserInfoListID_pb \<Rightarrow> 'u StruUserInfoListID_pb \<Rightarrow> 'u StruUserInfoListID_pb" where
  "StruUserInfoListID_CopyFrom from m = StruUserInfoListID_MergeFrom from (StruUserInfoListID_Clear m)"

definition StruUserInfoListID_IsInitialized :: "'u StruUserInfoListID_pb \<Rightarrow> bool" where
  "StruUserInfoListID_IsInitialized m \<longleftrightarrow> has_bits [
       has (UserInfoListID_msg_id m), has (UserInfoListID_user_id m), has (UserInfoListID_room_id m), False] AND 0x7
         = 0x7 \<and> list_all StruUserInfo_IsInitialized (UserInfoListID_user_info_list m)"

definition StruUserInfoListID_Swap ::
  "'u StruUserInfoListID_pb \<Rightarrow> 'u StruUserInfoListID_pb
    \<Rightarrow> 'u StruUserInfoListID_pb \<times> 'u StruUserInfoListID_pb" where
  "StruUserInfoListID_Swap m other =
     (m\<lparr>
        UserInfoListID_msg_id := UserInfoListID_msg_id other,
        UserInfoListID_user_id := UserInfoListID_user_id other,
        UserInfoListID_room_id := UserInfoListID_room_id other,
        UserInfoListID_user_info_list := UserInfoListID_user_info_list other,
        UserInfoListID_unknown := UserInfoListID_unknown other\<rparr>,
      other\<lparr>
        UserInfoListID_msg_id := UserInfoListID_msg_id m, UserInfoListID_user_id := UserInfoListID_user_id m,
        UserInfoListID_room_id := UserInfoListID_room_id m,
        UserInfoListID_user_info_list := UserInfoListID_user_info_list m,
        UserInfoListID_unknown := UserInfoListID_unknown m\<rparr>)"

definition StruUserInfoListID_fits :: "('i, 'u) wire \<Rightarrow> 'u StruUserInfoListID_pb \<Rightarrow> bool" where
  "StruUserInfoListID_fits W m \<longleftrightarrow>
     enum_ok EnumMsgID_IsValid (UserInfoListID_msg_id m) \<and> int_ok (UserInfoListID_user_id m) \<and>
     int_ok (UserInfoListID_room_id m) \<and>
     (\<forall>s \<in> set (UserInfoListID_user_info_list m). StruUserInfo_fits s \<and> length
       (StruUserInfo_SerializeWithCachedSizes W s) < 2147483648) \<and>
     UserInfoListID_unknown m = []"

interpretation UserInfoListID: message_class StruUserInfoListID_cases
  "\<lambda>W. skip_field W UserInfoListID_unknown (\<lambda>u. UserInfoListID_unknown_update (\<lambda>_. u))"
  StruUserInfoListID_MergePartialFromCodedStream StruUserInfoListID_SharedCtor StruUserInfoListID_SerializeWithCachedSizes
  StruUserInfoListID_ByteSize StruUserInfoListID_IsInitialized StruUserInfoListID_fits
  by (unfold_locales, rule StruUserInfoListID_MergePartialFromCodedStream_def,
      simp add: StruUserInfoListID_cases_def cases_ok_def case_ok_def,
      simp add: StruUserInfoListID_cases_def field_ends message_field_ends [OF _ UserInfo.stream_ends],
      unfold StruUserInfoListID_fits_def StruUserInfoListID_SerializeWithCachedSizes_def, elim conjE, rule fed_eq,
      (rule fed_rules, assumption, simp add: StruUserInfoListID_cases_def, simp add:
        StruUserInfoListID_SharedCtor_def, (assumption | simp add: UserInfo.element)+)+,
      rule fed_done, simp add: StruUserInfoListID_SharedCtor_def,
      unfold StruUserInfoListID_ByteSize_def length_write_fields size_group_sum, elim conjE, (drule enum_int_ok)+,
      simp add: add.assoc written_sizes written_messages UserInfo.size split del: if_split)

lemma StruUserInfoListID_copies:
  "StruUserInfoListID_CopyFrom from m = from" "StruUserInfoListID_Swap m from = (from, m)"
proof -
  show "StruUserInfoListID_CopyFrom from m = from"
    by (rule StruUserInfoListID_pb.equality; cases "has (UserInfoListID_msg_id from) \<or> has
      (UserInfoListID_user_id from) \<or> has (UserInfoListID_room_id from)";
      simp add: StruUserInfoListID_CopyFrom_def StruUserInfoListID_MergeFrom_def StruUserInfoListID_Clear_def)
  show "StruUserInfoListID_Swap m from = (from, m)" by (cases "from"; cases m; simp add: StruUserInfoListID_Swap_def)
qed

lemma StruUserInfoListID_required:
  "StruUserInfoListID_IsInitialized m \<longleftrightarrow>
     has (UserInfoListID_msg_id m) \<and> has (UserInfoListID_user_id m) \<and>
     has (UserInfoListID_room_id m) \<and> list_all StruUserInfo_IsInitialized (UserInfoListID_user_info_list m)"
  by (auto simp: StruUserInfoListID_IsInitialized_def has_masks)

section \<open>StruUserMsgRQ\<close>

record 'u StruUserMsgRQ_pb =
  UserMsgRQ_msg_id :: "int option"
  UserMsgRQ_user_id :: "int option"
  UserMsgRQ_room_id :: "int option"
  UserMsgRQ_msg_text :: "byte list option"
  UserMsgRQ_is_private :: "bool option"
  UserMsgRQ_dst_user_id :: "int option"
  UserMsgRQ_unknown :: "'u list"

definition StruUserMsgRQ_SharedCtor :: "'u StruUserMsgRQ_pb" where
  "StruUserMsgRQ_SharedCtor = \<lparr>
     UserMsgRQ_msg_id = None, UserMsgRQ_user_id = None, UserMsgRQ_room_id = None, UserMsgRQ_msg_text = None,
     UserMsgRQ_is_private = None, UserMsgRQ_dst_user_id = None, UserMsgRQ_unknown = []\<rparr>"

definition StruUserMsgRQ_Clear :: "'u StruUserMsgRQ_pb \<Rightarrow> 'u StruUserMsgRQ_pb" where
  "StruUserMsgRQ_Clear m = m\<lparr>
     UserMsgRQ_msg_id := None, UserMsgRQ_user_id := None, UserMsgRQ_room_id := None, UserMsgRQ_msg_text := None,
     UserMsgRQ_is_private := None, UserMsgRQ_dst_user_id := None, UserMsgRQ_unknown := []\<rparr>"

definition StruUserMsgRQ_cases :: "('i, 'u) wire \<Rightarrow> ('i, 'u StruUserMsgRQ_pb) field_case list" where
  "StruUserMsgRQ_cases W = [
     field_enum W 1 EnumMsgID_IsValid (\<lambda>v. UserMsgRQ_msg_id_update (\<lambda>_. v))
       (\<lambda>v m. m\<lparr>UserMsgRQ_unknown := w_AddVarint W 1 v (UserMsgRQ_unknown m)\<rparr>) [(16, 2)] False,
     field_int32 W 2 (\<lambda>v. UserMsgRQ_user_id_update (\<lambda>_. v)) [(24, 3)] False,
     field_int32 W 3 (\<lambda>v. UserMsgRQ_room_id_update (\<lambda>_. v)) [(34, 4)] False,
     field_string W 4 UserMsgRQ_msg_text (\<lambda>v. UserMsgRQ_msg_text_update (\<lambda>_. v)) [(40, 5)] False,
     field_bool W 5 (\<lambda>v. UserMsgRQ_is_private_update (\<lambda>_. v)) [(48, 6)] False,
     field_int32 W 6 (\<lambda>v. UserMsgRQ_dst_user_id_update (\<lambda>_. v)) [] True]"

definition StruUserMsgRQ_MergePartialFromCodedStream ::
  "('i, 'u) wire \<Rightarrow> 'i
    \<Rightarrow> 'u StruUserMsgRQ_pb \<Rightarrow> (bool \<times> 'i \<times> 'u StruUserMsgRQ_pb) res" where
  "StruUserMsgRQ_MergePartialFromCodedStream W i m = merge_loop (merge_fuel W i) W (StruUserMsgRQ_cases W)
     (skip_field W UserMsgRQ_unknown (\<lambda>u. UserMsgRQ_unknown_update (\<lambda>_. u))) None i m"

definition StruUserMsgRQ_SerializeWithCachedSizes ::
  "('i, 'u) wire \<Rightarrow> 'u StruUserMsgRQ_pb \<Rightarrow> byte list" where
  "StruUserMsgRQ_SerializeWithCachedSizes W m = write_fields [
     (has (UserMsgRQ_msg_id m), w_WriteEnum W 1 (value_or 6009 (UserMsgRQ_msg_id m))),
     (has (UserMsgRQ_user_id m), w_WriteInt32 W 2 (value_or 0 (UserMsgRQ_user_id m))),
     (has (UserMsgRQ_room_id m), w_WriteInt32 W 3 (value_or 0 (UserMsgRQ_room_id m))),
     (has (UserMsgRQ_msg_text m), w_WriteString W 4 (value_or [] (UserMsgRQ_msg_text m))),
     (has (UserMsgRQ_is_private m), w_WriteBool W 5 (value_or False (UserMsgRQ_is_private m))),
     (has (UserMsgRQ_dst_user_id m), w_WriteInt32 W 6 (value_or 0 (UserMsgRQ_dst_user_id m))),
     (UserMsgRQ_unknown m \<noteq> [], w_WriteUnknown W (UserMsgRQ_unknown m))]"

definition StruUserMsgRQ_ByteSize :: "('i, 'u) wire \<Rightarrow> 'u StruUserMsgRQ_pb \<Rightarrow> int" where
  "StruUserMsgRQ_ByteSize W m = size_group [
     (has (UserMsgRQ_msg_id m), 1 + w_EnumSize W (value_or 6009 (UserMsgRQ_msg_id m))),
     (has (UserMsgRQ_user_id m), 1 + w_Int32Size W (value_or 0 (UserMsgRQ_user_id m))),
     (has (UserMsgRQ_room_id m), 1 + w_Int32Size W (value_or 0 (UserMsgRQ_room_id m))),
     (has (UserMsgRQ_msg_text m), 1 + w_StringSize W (value_or [] (UserMsgRQ_msg_text m))),
     (has (UserMsgRQ_is_private m), 1 + 1),
     (has (UserMsgRQ_dst_user_id m), 1 + w_Int32Size W (value_or 0 (UserMsgRQ_dst_user_id m)))]
     + (if UserMsgRQ_unknown m \<noteq> [] then w_UnknownSize W (UserMsgRQ_unknown m) else 0)"

definition StruUserMsgRQ_MergeFrom ::
  "'u StruUserMsgRQ_pb \<Rightarrow> 'u StruUserMsgRQ_pb \<Rightarrow> 'u StruUserMsgRQ_pb" where
  "StruUserMsgRQ_MergeFrom from m = (
     let m1 = if has (UserMsgRQ_msg_id from) \<or> has (UserMsgRQ_user_id from) \<or> has (UserMsgRQ_room_id from) \<or>
       has (UserMsgRQ_msg_text from) \<or> has (UserMsgRQ_is_private from) \<or>
       has (UserMsgRQ_dst_user_id from)
       then m\<lparr>
         UserMsgRQ_msg_id := merge_value 6009 (UserMsgRQ_msg_id from) (UserMsgRQ_msg_id m),
         UserMsgRQ_user_id := merge_value 0 (UserMsgRQ_user_id from) (UserMsgRQ_user_id m),
         UserMsgRQ_room_id := merge_value 0 (UserMsgRQ_room_id from) (UserMsgRQ_room_id m),
         UserMsgRQ_msg_text := merge_value [] (UserMsgRQ_msg_text from) (UserMsgRQ_msg_text m),
         UserMsgRQ_is_private := merge_value False (UserMsgRQ_is_private from) (UserMsgRQ_is_private m),
         UserMsgRQ_dst_user_id := merge_value 0 (UserMsgRQ_dst_user_id from) (UserMsgRQ_dst_user_id m)\<rparr>
       else m
     in
     m1\<lparr>UserMsgRQ_unknown := UserMsgRQ_unknown m1 @ UserMsgRQ_unknown from\<rparr>)"

definition StruUserMsgRQ_CopyFrom ::
  "'u StruUserMsgRQ_pb \<Rightarrow> 'u StruUserMsgRQ_pb \<Rightarrow> 'u StruUserMsgRQ_pb" where
  "StruUserMsgRQ_CopyFrom from m = StruUserMsgRQ_MergeFrom from (StruUserMsgRQ_Clear m)"

definition StruUserMsgRQ_IsInitialized :: "'u StruUserMsgRQ_pb \<Rightarrow> bool" where
  "StruUserMsgRQ_IsInitialized m \<longleftrightarrow> has_bits [
       has (UserMsgRQ_msg_id m), has (UserMsgRQ_user_id m), has (UserMsgRQ_room_id m),
       has (UserMsgRQ_msg_text m), has (UserMsgRQ_is_private m), has (UserMsgRQ_dst_user_id m)] AND 0x3f = 0x3f"

definition StruUserMsgRQ_Swap ::
  "'u StruUserMsgRQ_pb \<Rightarrow> 'u StruUserMsgRQ_pb \<Rightarrow> 'u StruUserMsgRQ_pb \<times> 'u StruUserMsgRQ_pb" where
  "StruUserMsgRQ_Swap m other =
     (m\<lparr>
        UserMsgRQ_msg_id := UserMsgRQ_msg_id other, UserMsgRQ_user_id := UserMsgRQ_user_id other,
        UserMsgRQ_room_id := UserMsgRQ_room_id other, UserMsgRQ_msg_text := UserMsgRQ_msg_text other,
        UserMsgRQ_is_private := UserMsgRQ_is_private other,
        UserMsgRQ_dst_user_id := UserMsgRQ_dst_user_id other, UserMsgRQ_unknown := UserMsgRQ_unknown other\<rparr>,
      other\<lparr>
        UserMsgRQ_msg_id := UserMsgRQ_msg_id m, UserMsgRQ_user_id := UserMsgRQ_user_id m,
        UserMsgRQ_room_id := UserMsgRQ_room_id m, UserMsgRQ_msg_text := UserMsgRQ_msg_text m,
        UserMsgRQ_is_private := UserMsgRQ_is_private m, UserMsgRQ_dst_user_id := UserMsgRQ_dst_user_id m,
        UserMsgRQ_unknown := UserMsgRQ_unknown m\<rparr>)"

definition StruUserMsgRQ_fits :: "'u StruUserMsgRQ_pb \<Rightarrow> bool" where
  "StruUserMsgRQ_fits m \<longleftrightarrow>
     enum_ok EnumMsgID_IsValid (UserMsgRQ_msg_id m) \<and> int_ok (UserMsgRQ_user_id m) \<and>
     int_ok (UserMsgRQ_room_id m) \<and> str_ok (UserMsgRQ_msg_text m) \<and>
     int_ok (UserMsgRQ_dst_user_id m) \<and> UserMsgRQ_unknown m = []"

interpretation UserMsgRQ: message_class StruUserMsgRQ_cases
  "\<lambda>W. skip_field W UserMsgRQ_unknown (\<lambda>u. UserMsgRQ_unknown_update (\<lambda>_. u))"
  StruUserMsgRQ_MergePartialFromCodedStream StruUserMsgRQ_SharedCtor StruUserMsgRQ_SerializeWithCachedSizes
  StruUserMsgRQ_ByteSize StruUserMsgRQ_IsInitialized "\<lambda>_. StruUserMsgRQ_fits"
  by (unfold_locales, rule StruUserMsgRQ_MergePartialFromCodedStream_def,
      simp add: StruUserMsgRQ_cases_def cases_ok_def case_ok_def,
      simp add: StruUserMsgRQ_cases_def field_ends,
      unfold StruUserMsgRQ_fits_def StruUserMsgRQ_SerializeWithCachedSizes_def, elim conjE, rule fed_eq,
      (rule fed_rules, assumption, simp add: StruUserMsgRQ_cases_def, simp add: StruUserMsgRQ_SharedCtor_def,
        (assumption | simp)+)+,
      rule fed_done, simp add: StruUserMsgRQ_SharedCtor_def,
      unfold StruUserMsgRQ_ByteSize_def length_write_fields size_group_sum, elim conjE, (drule enum_int_ok)+,
      simp add: add.assoc written_sizes split del: if_split)

lemma StruUserMsgRQ_copies:
  "StruUserMsgRQ_CopyFrom from m = from" "StruUserMsgRQ_Swap m from = (from, m)"
proof -
  show "StruUserMsgRQ_CopyFrom from m = from"
    by (rule StruUserMsgRQ_pb.equality; cases "has (UserMsgRQ_msg_id from) \<or> has (UserMsgRQ_user_id from) \<or>
      has (UserMsgRQ_room_id from) \<or> has (UserMsgRQ_msg_text from) \<or> has (UserMsgRQ_is_private from) \<or>
        has (UserMsgRQ_dst_user_id from)";
      simp add: StruUserMsgRQ_CopyFrom_def StruUserMsgRQ_MergeFrom_def StruUserMsgRQ_Clear_def)
  show "StruUserMsgRQ_Swap m from = (from, m)" by (cases "from"; cases m; simp add: StruUserMsgRQ_Swap_def)
qed

lemma StruUserMsgRQ_required:
  "StruUserMsgRQ_IsInitialized m \<longleftrightarrow>
     has (UserMsgRQ_msg_id m) \<and> has (UserMsgRQ_user_id m) \<and> has (UserMsgRQ_room_id m) \<and>
     has (UserMsgRQ_msg_text m) \<and> has (UserMsgRQ_is_private m) \<and> has (UserMsgRQ_dst_user_id m)"
  by (auto simp: StruUserMsgRQ_IsInitialized_def has_masks)

section \<open>StruUserMsgRS\<close>

record 'u StruUserMsgRS_pb =
  UserMsgRS_msg_id :: "int option"
  UserMsgRS_user_id :: "int option"
  UserMsgRS_room_id :: "int option"
  UserMsgRS_result :: "int option"
  UserMsgRS_unknown :: "'u list"

definition StruUserMsgRS_SharedCtor :: "'u StruUserMsgRS_pb" where
  "StruUserMsgRS_SharedCtor = \<lparr>
     UserMsgRS_msg_id = None, UserMsgRS_user_id = None, UserMsgRS_room_id = None, UserMsgRS_result = None,
     UserMsgRS_unknown = []\<rparr>"

definition StruUserMsgRS_Clear :: "'u StruUserMsgRS_pb \<Rightarrow> 'u StruUserMsgRS_pb" where
  "StruUserMsgRS_Clear m = m\<lparr>
     UserMsgRS_msg_id := None, UserMsgRS_user_id := None, UserMsgRS_room_id := None, UserMsgRS_result := None,
     UserMsgRS_unknown := []\<rparr>"

definition StruUserMsgRS_cases :: "('i, 'u) wire \<Rightarrow> ('i, 'u StruUserMsgRS_pb) field_case list" where
  "StruUserMsgRS_cases W = [
     field_enum W 1 EnumMsgID_IsValid (\<lambda>v. UserMsgRS_msg_id_update (\<lambda>_. v))
       (\<lambda>v m. m\<lparr>UserMsgRS_unknown := w_AddVarint W 1 v (UserMsgRS_unknown m)\<rparr>) [(16, 2)] False,
     field_int32 W 2 (\<lambda>v. UserMsgRS_user_id_update (\<lambda>_. v)) [(24, 3)] False,
     field_int32 W 3 (\<lambda>v. UserMsgRS_room_id_update (\<lambda>_. v)) [(32, 4)] False,
     field_int32 W 4 (\<lambda>v. UserMsgRS_result_update (\<lambda>_. v)) [] True]"

definition StruUserMsgRS_MergePartialFromCodedStream ::
  "('i, 'u) wire \<Rightarrow> 'i
    \<Rightarrow> 'u StruUserMsgRS_pb \<Rightarrow> (bool \<times> 'i \<times> 'u StruUserMsgRS_pb) res" where
  "StruUserMsgRS_MergePartialFromCodedStream W i m = merge_loop (merge_fuel W i) W (StruUserMsgRS_cases W)
     (skip_field W UserMsgRS_unknown (\<lambda>u. UserMsgRS_unknown_update (\<lambda>_. u))) None i m"

definition StruUserMsgRS_SerializeWithCachedSizes ::
  "('i, 'u) wire \<Rightarrow> 'u StruUserMsgRS_pb \<Rightarrow> byte list" where
  "StruUserMsgRS_SerializeWithCachedSizes W m = write_fields [
     (has (UserMsgRS_msg_id m), w_WriteEnum W 1 (value_or 6010 (UserMsgRS_msg_id m))),
     (has (UserMsgRS_user_id m), w_WriteInt32 W 2 (value_or 0 (UserMsgRS_user_id m))),
     (has (UserMsgRS_room_id m), w_WriteInt32 W 3 (value_or 0 (UserMsgRS_room_id m))),
     (has (UserMsgRS_result m), w_WriteInt32 W 4 (value_or 0 (UserMsgRS_result m))),
     (UserMsgRS_unknown m \<noteq> [], w_WriteUnknown W (UserMsgRS_unknown m))]"

definition StruUserMsgRS_ByteSize :: "('i, 'u) wire \<Rightarrow> 'u StruUserMsgRS_pb \<Rightarrow> int" where
  "StruUserMsgRS_ByteSize W m = size_group [
     (has (UserMsgRS_msg_id m), 1 + w_EnumSize W (value_or 6010 (UserMsgRS_msg_id m))),
     (has (UserMsgRS_user_id m), 1 + w_Int32Size W (value_or 0 (UserMsgRS_user_id m))),
     (has (UserMsgRS_room_id m), 1 + w_Int32Size W (value_or 0 (UserMsgRS_room_id m))),
     (has (UserMsgRS_result m), 1 + w_Int32Size W (value_or 0 (UserMsgRS_result m)))]
     + (if UserMsgRS_unknown m \<noteq> [] then w_UnknownSize W (UserMsgRS_unknown m) else 0)"

definition StruUserMsgRS_MergeFrom ::
  "'u StruUserMsgRS_pb \<Rightarrow> 'u StruUserMsgRS_pb \<Rightarrow> 'u StruUserMsgRS_pb" where
  "StruUserMsgRS_MergeFrom from m = (
     let m1 = if has (UserMsgRS_msg_id from) \<or> has (UserMsgRS_user_id from) \<or> has (UserMsgRS_room_id from) \<or>
       has (UserMsgRS_result from)
       then m\<lparr>
         UserMsgRS_msg_id := merge_value 6010 (UserMsgRS_msg_id from) (UserMsgRS_msg_id m),
         UserMsgRS_user_id := merge_value 0 (UserMsgRS_user_id from) (UserMsgRS_user_id m),
         UserMsgRS_room_id := merge_value 0 (UserMsgRS_room_id from) (UserMsgRS_room_id m),
         UserMsgRS_result := merge_value 0 (UserMsgRS_result from) (UserMsgRS_result m)\<rparr>
       else m
     in
     m1\<lparr>UserMsgRS_unknown := UserMsgRS_unknown m1 @ UserMsgRS_unknown from\<rparr>)"

definition StruUserMsgRS_CopyFrom ::
  "'u StruUserMsgRS_pb \<Rightarrow> 'u StruUserMsgRS_pb \<Rightarrow> 'u StruUserMsgRS_pb" where
  "StruUserMsgRS_CopyFrom from m = StruUserMsgRS_MergeFrom from (StruUserMsgRS_Clear m)"

definition StruUserMsgRS_IsInitialized :: "'u StruUserMsgRS_pb \<Rightarrow> bool" where
  "StruUserMsgRS_IsInitialized m \<longleftrightarrow> has_bits [
       has (UserMsgRS_msg_id m), has (UserMsgRS_user_id m), has (UserMsgRS_room_id m), has (UserMsgRS_result m)] AND
         0xf = 0xf"

definition StruUserMsgRS_Swap ::
  "'u StruUserMsgRS_pb \<Rightarrow> 'u StruUserMsgRS_pb \<Rightarrow> 'u StruUserMsgRS_pb \<times> 'u StruUserMsgRS_pb" where
  "StruUserMsgRS_Swap m other =
     (m\<lparr>
        UserMsgRS_msg_id := UserMsgRS_msg_id other, UserMsgRS_user_id := UserMsgRS_user_id other,
        UserMsgRS_room_id := UserMsgRS_room_id other, UserMsgRS_result := UserMsgRS_result other,
        UserMsgRS_unknown := UserMsgRS_unknown other\<rparr>,
      other\<lparr>
        UserMsgRS_msg_id := UserMsgRS_msg_id m, UserMsgRS_user_id := UserMsgRS_user_id m,
        UserMsgRS_room_id := UserMsgRS_room_id m, UserMsgRS_result := UserMsgRS_result m,
        UserMsgRS_unknown := UserMsgRS_unknown m\<rparr>)"

definition StruUserMsgRS_fits :: "'u StruUserMsgRS_pb \<Rightarrow> bool" where
  "StruUserMsgRS_fits m \<longleftrightarrow>
     enum_ok EnumMsgID_IsValid (UserMsgRS_msg_id m) \<and> int_ok (UserMsgRS_user_id m) \<and>
     int_ok (UserMsgRS_room_id m) \<and> int_ok (UserMsgRS_result m) \<and> UserMsgRS_unknown m = []"

interpretation UserMsgRS: message_class StruUserMsgRS_cases
  "\<lambda>W. skip_field W UserMsgRS_unknown (\<lambda>u. UserMsgRS_unknown_update (\<lambda>_. u))"
  StruUserMsgRS_MergePartialFromCodedStream StruUserMsgRS_SharedCtor StruUserMsgRS_SerializeWithCachedSizes
  StruUserMsgRS_ByteSize StruUserMsgRS_IsInitialized "\<lambda>_. StruUserMsgRS_fits"
  by (unfold_locales, rule StruUserMsgRS_MergePartialFromCodedStream_def,
      simp add: StruUserMsgRS_cases_def cases_ok_def case_ok_def,
      simp add: StruUserMsgRS_cases_def field_ends,
      unfold StruUserMsgRS_fits_def StruUserMsgRS_SerializeWithCachedSizes_def, elim conjE, rule fed_eq,
      (rule fed_rules, assumption, simp add: StruUserMsgRS_cases_def, simp add: StruUserMsgRS_SharedCtor_def,
        (assumption | simp)+)+,
      rule fed_done, simp add: StruUserMsgRS_SharedCtor_def,
      unfold StruUserMsgRS_ByteSize_def length_write_fields size_group_sum, elim conjE, (drule enum_int_ok)+,
      simp add: add.assoc written_sizes split del: if_split)

lemma StruUserMsgRS_copies:
  "StruUserMsgRS_CopyFrom from m = from" "StruUserMsgRS_Swap m from = (from, m)"
proof -
  show "StruUserMsgRS_CopyFrom from m = from"
    by (rule StruUserMsgRS_pb.equality; cases "has (UserMsgRS_msg_id from) \<or> has (UserMsgRS_user_id from) \<or>
      has (UserMsgRS_room_id from) \<or> has (UserMsgRS_result from)";
      simp add: StruUserMsgRS_CopyFrom_def StruUserMsgRS_MergeFrom_def StruUserMsgRS_Clear_def)
  show "StruUserMsgRS_Swap m from = (from, m)" by (cases "from"; cases m; simp add: StruUserMsgRS_Swap_def)
qed

lemma StruUserMsgRS_required:
  "StruUserMsgRS_IsInitialized m \<longleftrightarrow>
     has (UserMsgRS_msg_id m) \<and> has (UserMsgRS_user_id m) \<and> has (UserMsgRS_room_id m) \<and>
     has (UserMsgRS_result m)"
  by (auto simp: StruUserMsgRS_IsInitialized_def has_masks)

section \<open>StruUserMsgTextID\<close>

record 'u StruUserMsgTextID_pb =
  UserMsgTextID_msg_id :: "int option"
  UserMsgTextID_user_id :: "int option"
  UserMsgTextID_room_id :: "int option"
  UserMsgTextID_msg_text :: "byte list option"
  UserMsgTextID_is_private :: "bool option"
  UserMsgTextID_dst_user_id :: "int option"
  UserMsgTextID_unknown :: "'u list"

definition StruUserMsgTextID_SharedCtor :: "'u StruUserMsgTextID_pb" where
  "StruUserMsgTextID_SharedCtor = \<lparr>
     UserMsgTextID_msg_id = None, UserMsgTextID_user_id = None, UserMsgTextID_room_id = None,
     UserMsgTextID_msg_text = None, UserMsgTextID_is_private = None, UserMsgTextID_dst_user_id = None,
     UserMsgTextID_unknown = []\<rparr>"

definition StruUserMsgTextID_Clear :: "'u StruUserMsgTextID_pb \<Rightarrow> 'u StruUserMsgTextID_pb" where
  "StruUserMsgTextID_Clear m = m\<lparr>
     UserMsgTextID_msg_id := None, UserMsgTextID_user_id := None, UserMsgTextID_room_id := None,
     UserMsgTextID_msg_text := None, UserMsgTextID_is_private := None, UserMsgTextID_dst_user_id := None,
     UserMsgTextID_unknown := []\<rparr>"

definition StruUserMsgTextID_cases ::
  "('i, 'u) wire \<Rightarrow> ('i, 'u StruUserMsgTextID_pb) field_case list" where
  "StruUserMsgTextID_cases W = [
     field_enum W 1 EnumMsgID_IsValid (\<lambda>v. UserMsgTextID_msg_id_update (\<lambda>_. v))
       (\<lambda>v m. m\<lparr>UserMsgTextID_unknown := w_AddVarint W 1 v (UserMsgTextID_unknown m)\<rparr>) [(16, 2)] False,
     field_int32 W 2 (\<lambda>v. UserMsgTextID_user_id_update (\<lambda>_. v)) [(24, 3)] False,
     field_int32 W 3 (\<lambda>v. UserMsgTextID_room_id_update (\<lambda>_. v)) [(34, 4)] False,
     field_string W 4 UserMsgTextID_msg_text (\<lambda>v. UserMsgTextID_msg_text_update (\<lambda>_. v)) [(40, 5)] False,
     field_bool W 5 (\<lambda>v. UserMsgTextID_is_private_update (\<lambda>_. v)) [(48, 6)] False,
     field_int32 W 6 (\<lambda>v. UserMsgTextID_dst_user_id_update (\<lambda>_. v)) [] True]"

definition StruUserMsgTextID_MergePartialFromCodedStream ::
  "('i, 'u) wire \<Rightarrow> 'i \<Rightarrow> 'u StruUserMsgTextID_pb
    \<Rightarrow> (bool \<times> 'i \<times> 'u StruUserMsgTextID_pb) res" where
  "StruUserMsgTextID_MergePartialFromCodedStream W i m = merge_loop (merge_fuel W i) W (StruUserMsgTextID_cases W)
     (skip_field W UserMsgTextID_unknown (\<lambda>u. UserMsgTextID_unknown_update (\<lambda>_. u))) None i m"

definition StruUserMsgTextID_SerializeWithCachedSizes ::
  "('i, 'u) wire \<Rightarrow> 'u StruUserMsgTextID_pb \<Rightarrow> byte list" where
  "StruUserMsgTextID_SerializeWithCachedSizes W m = write_fields [
     (has (UserMsgTextID_msg_id m), w_WriteEnum W 1 (value_or 6011 (UserMsgTextID_msg_id m))),
     (has (UserMsgTextID_user_id m), w_WriteInt32 W 2 (value_or 0 (UserMsgTextID_user_id m))),
     (has (UserMsgTextID_room_id m), w_WriteInt32 W 3 (value_or 0 (UserMsgTextID_room_id m))),
     (has (UserMsgTextID_msg_text m), w_WriteString W 4 (value_or [] (UserMsgTextID_msg_text m))),
     (has (UserMsgTextID_is_private m), w_WriteBool W 5 (value_or False (UserMsgTextID_is_private m))),
     (has (UserMsgTextID_dst_user_id m), w_WriteInt32 W 6 (value_or 0 (UserMsgTextID_dst_user_id m))),
     (UserMsgTextID_unknown m \<noteq> [], w_WriteUnknown W (UserMsgTextID_unknown m))]"

definition StruUserMsgTextID_ByteSize :: "('i, 'u) wire \<Rightarrow> 'u StruUserMsgTextID_pb \<Rightarrow> int" where
  "StruUserMsgTextID_ByteSize W m = size_group [
     (has (UserMsgTextID_msg_id m), 1 + w_EnumSize W (value_or 6011 (UserMsgTextID_msg_id m))),
     (has (UserMsgTextID_user_id m), 1 + w_Int32Size W (value_or 0 (UserMsgTextID_user_id m))),
     (has (UserMsgTextID_room_id m), 1 + w_Int32Size W (value_or 0 (UserMsgTextID_room_id m))),
     (has (UserMsgTextID_msg_text m), 1 + w_StringSize W (value_or [] (UserMsgTextID_msg_text m))),
     (has (UserMsgTextID_is_private m), 1 + 1),
     (has (UserMsgTextID_dst_user_id m), 1 + w_Int32Size W (value_or 0 (UserMsgTextID_dst_user_id m)))]
     + (if UserMsgTextID_unknown m \<noteq> [] then w_UnknownSize W (UserMsgTextID_unknown m) else 0)"

definition StruUserMsgTextID_MergeFrom ::
  "'u StruUserMsgTextID_pb \<Rightarrow> 'u StruUserMsgTextID_pb \<Rightarrow> 'u StruUserMsgTextID_pb" where
  "StruUserMsgTextID_MergeFrom from m = (
     let m1 = if has (UserMsgTextID_msg_id from) \<or> has (UserMsgTextID_user_id from) \<or>
       has (UserMsgTextID_room_id from) \<or> has (UserMsgTextID_msg_text from) \<or>
       has (UserMsgTextID_is_private from) \<or> has (UserMsgTextID_dst_user_id from)
       then m\<lparr>
         UserMsgTextID_msg_id := merge_value 6011 (UserMsgTextID_msg_id from) (UserMsgTextID_msg_id m),
         UserMsgTextID_user_id := merge_value 0 (UserMsgTextID_user_id from) (UserMsgTextID_user_id m),
         UserMsgTextID_room_id := merge_value 0 (UserMsgTextID_room_id from) (UserMsgTextID_room_id m),
         UserMsgTextID_msg_text := merge_value [] (UserMsgTextID_msg_text from) (UserMsgTextID_msg_text m),
         UserMsgTextID_is_private := merge_value False (UserMsgTextID_is_private from) (UserMsgTextID_is_private m),
         UserMsgTextID_dst_user_id := merge_value 0 (UserMsgTextID_dst_user_id from) (UserMsgTextID_dst_user_id m)\<rparr>
       else m
     in
     m1\<lparr>UserMsgTextID_unknown := UserMsgTextID_unknown m1 @ UserMsgTextID_unknown from\<rparr>)"

definition StruUserMsgTextID_CopyFrom ::
  "'u StruUserMsgTextID_pb \<Rightarrow> 'u StruUserMsgTextID_pb \<Rightarrow> 'u StruUserMsgTextID_pb" where
  "StruUserMsgTextID_CopyFrom from m = StruUserMsgTextID_MergeFrom from (StruUserMsgTextID_Clear m)"

definition StruUserMsgTextID_IsInitialized :: "'u StruUserMsgTextID_pb \<Rightarrow> bool" where
  "StruUserMsgTextID_IsInitialized m \<longleftrightarrow> has_bits [
       has (UserMsgTextID_msg_id m), has (UserMsgTextID_user_id m), has (UserMsgTextID_room_id m),
       has (UserMsgTextID_msg_text m), has (UserMsgTextID_is_private m), has (UserMsgTextID_dst_user_id m)] AND 0x3f = 0x3f"

definition StruUserMsgTextID_Swap ::
  "'u StruUserMsgTextID_pb \<Rightarrow> 'u StruUserMsgTextID_pb
    \<Rightarrow> 'u StruUserMsgTextID_pb \<times> 'u StruUserMsgTextID_pb" where
  "StruUserMsgTextID_Swap m other =
     (m\<lparr>
        UserMsgTextID_msg_id := UserMsgTextID_msg_id other,
        UserMsgTextID_user_id := UserMsgTextID_user_id other,
        UserMsgTextID_room_id := UserMsgTextID_room_id other,
        UserMsgTextID_msg_text := UserMsgTextID_msg_text other,
        UserMsgTextID_is_private := UserMsgTextID_is_private other,
        UserMsgTextID_dst_user_id := UserMsgTextID_dst_user_id other,
        UserMsgTextID_unknown := UserMsgTextID_unknown other\<rparr>,
      other\<lparr>
        UserMsgTextID_msg_id := UserMsgTextID_msg_id m, UserMsgTextID_user_id := UserMsgTextID_user_id m,
        UserMsgTextID_room_id := UserMsgTextID_room_id m, UserMsgTextID_msg_text := UserMsgTextID_msg_text m,
        UserMsgTextID_is_private := UserMsgTextID_is_private m,
        UserMsgTextID_dst_user_id := UserMsgTextID_dst_user_id m,
        UserMsgTextID_unknown := UserMsgTextID_unknown m\<rparr>)"

definition StruUserMsgTextID_fits :: "'u StruUserMsgTextID_pb \<Rightarrow> bool" where
  "StruUserMsgTextID_fits m \<longleftrightarrow>
     enum_ok EnumMsgID_IsValid (UserMsgTextID_msg_id m) \<and> int_ok (UserMsgTextID_user_id m) \<and>
     int_ok (UserMsgTextID_room_id m) \<and> str_ok (UserMsgTextID_msg_text m) \<and>
     int_ok (UserMsgTextID_dst_user_id m) \<and> UserMsgTextID_unknown m = []"

interpretation UserMsgTextID: message_class StruUserMsgTextID_cases
  "\<lambda>W. skip_field W UserMsgTextID_unknown (\<lambda>u. UserMsgTextID_unknown_update (\<lambda>_. u))"
  StruUserMsgTextID_MergePartialFromCodedStream StruUserMsgTextID_SharedCtor StruUserMsgTextID_SerializeWithCachedSizes
  StruUserMsgTextID_ByteSize StruUserMsgTextID_IsInitialized "\<lambda>_. StruUserMsgTextID_fits"
  by (unfold_locales, rule StruUserMsgTextID_MergePartialFromCodedStream_def,
      simp add: StruUserMsgTextID_cases_def cases_ok_def case_ok_def,
      simp add: StruUserMsgTextID_cases_def field_ends,
      unfold StruUserMsgTextID_fits_def StruUserMsgTextID_SerializeWithCachedSizes_def, elim conjE, rule fed_eq,
      (rule fed_rules, assumption, simp add: StruUserMsgTextID_cases_def, simp add: StruUserMsgTextID_SharedCtor_def,
        (assumption | simp)+)+,
      rule fed_done, simp add: StruUserMsgTextID_SharedCtor_def,
      unfold StruUserMsgTextID_ByteSize_def length_write_fields size_group_sum, elim conjE, (drule enum_int_ok)+,
      simp add: add.assoc written_sizes split del: if_split)

lemma StruUserMsgTextID_copies:
  "StruUserMsgTextID_CopyFrom from m = from" "StruUserMsgTextID_Swap m from = (from, m)"
proof -
  show "StruUserMsgTextID_CopyFrom from m = from"
    by (rule StruUserMsgTextID_pb.equality; cases "has (UserMsgTextID_msg_id from) \<or> has (UserMsgTextID_user_id
      from) \<or> has (UserMsgTextID_room_id from) \<or> has (UserMsgTextID_msg_text from) \<or> has
        (UserMsgTextID_is_private from) \<or> has (UserMsgTextID_dst_user_id from)";
      simp add: StruUserMsgTextID_CopyFrom_def StruUserMsgTextID_MergeFrom_def StruUserMsgTextID_Clear_def)
  show "StruUserMsgTextID_Swap m from = (from, m)" by (cases "from"; cases m; simp add: StruUserMsgTextID_Swap_def)
qed

lemma StruUserMsgTextID_required:
  "StruUserMsgTextID_IsInitialized m \<longleftrightarrow>
     has (UserMsgTextID_msg_id m) \<and> has (UserMsgTextID_user_id m) \<and>
     has (UserMsgTextID_room_id m) \<and> has (UserMsgTextID_msg_text m) \<and>
     has (UserMsgTextID_is_private m) \<and> has (UserMsgTextID_dst_user_id m)"
  by (auto simp: StruUserMsgTextID_IsInitialized_def has_masks)

section \<open>StruUserGiveGiftRQ\<close>

record 'u StruUserGiveGiftRQ_pb =
  UserGiveGiftRQ_msg_id :: "int option"
  UserGiveGiftRQ_user_id :: "int option"
  UserGiveGiftRQ_room_id :: "int option"
  UserGiveGiftRQ_gift_code :: "byte list option"
  UserGiveGiftRQ_dst_user_id :: "int option"
  UserGiveGiftRQ_count_gift :: "int option"
  UserGiveGiftRQ_unknown :: "'u list"

definition StruUserGiveGiftRQ_SharedCtor :: "'u StruUserGiveGiftRQ_pb" where
  "StruUserGiveGiftRQ_SharedCtor = \<lparr>
     UserGiveGiftRQ_msg_id = None, UserGiveGiftRQ_user_id = None, UserGiveGiftRQ_room_id = None,
     UserGiveGiftRQ_gift_code = None, UserGiveGiftRQ_dst_user_id = None, UserGiveGiftRQ_count_gift = None,
     UserGiveGiftRQ_unknown = []\<rparr>"

definition StruUserGiveGiftRQ_Clear :: "'u StruUserGiveGiftRQ_pb \<Rightarrow> 'u StruUserGiveGiftRQ_pb" where
  "StruUserGiveGiftRQ_Clear m = m\<lparr>
     UserGiveGiftRQ_msg_id := None, UserGiveGiftRQ_user_id := None, UserGiveGiftRQ_room_id := None,
     UserGiveGiftRQ_gift_code := None, UserGiveGiftRQ_dst_user_id := None, UserGiveGiftRQ_count_gift := None,
     UserGiveGiftRQ_unknown := []\<rparr>"

definition StruUserGiveGiftRQ_cases ::
  "('i, 'u) wire \<Rightarrow> ('i, 'u StruUserGiveGiftRQ_pb) field_case list" where
  "StruUserGiveGiftRQ_cases W = [
     field_enum W 1 EnumMsgID_IsValid (\<lambda>v. UserGiveGiftRQ_msg_id_update (\<lambda>_. v))
       (\<lambda>v m. m\<lparr>UserGiveGiftRQ_unknown := w_AddVarint W 1 v (UserGiveGiftRQ_unknown m)\<rparr>) [(16,
         2)] False,
     field_int32 W 2 (\<lambda>v. UserGiveGiftRQ_user_id_update (\<lambda>_. v)) [(24, 3)] False,
     field_int32 W 3 (\<lambda>v. UserGiveGiftRQ_room_id_update (\<lambda>_. v)) [(34, 4)] False,
     field_string W 4 UserGiveGiftRQ_gift_code (\<lambda>v. UserGiveGiftRQ_gift_code_update (\<lambda>_. v)) [(40, 5)] False,
     field_int32 W 5 (\<lambda>v. UserGiveGiftRQ_dst_user_id_update (\<lambda>_. v)) [(48, 6)] False,
     field_int32 W 6 (\<lambda>v. UserGiveGiftRQ_count_gift_update (\<lambda>_. v)) [] True]"

definition StruUserGiveGiftRQ_MergePartialFromCodedStream ::
  "('i, 'u) wire \<Rightarrow> 'i \<Rightarrow> 'u StruUserGiveGiftRQ_pb
    \<Rightarrow> (bool \<times> 'i \<times> 'u StruUserGiveGiftRQ_pb) res" where
  "StruUserGiveGiftRQ_MergePartialFromCodedStream W i m = merge_loop (merge_fuel W i) W (StruUserGiveGiftRQ_cases W)
     (skip_field W UserGiveGiftRQ_unknown (\<lambda>u. UserGiveGiftRQ_unknown_update (\<lambda>_. u))) None i m"

definition StruUserGiveGiftRQ_SerializeWithCachedSizes ::
  "('i, 'u) wire \<Rightarrow> 'u StruUserGiveGiftRQ_pb \<Rightarrow> byte list" where
  "StruUserGiveGiftRQ_SerializeWithCachedSizes W m = write_fields [
     (has (UserGiveGiftRQ_msg_id m), w_WriteEnum W 1 (value_or 6012 (UserGiveGiftRQ_msg_id m))),
     (has (UserGiveGiftRQ_user_id m), w_WriteInt32 W 2 (value_or 0 (UserGiveGiftRQ_user_id m))),
     (has (UserGiveGiftRQ_room_id m), w_WriteInt32 W 3 (value_or 0 (UserGiveGiftRQ_room_id m))),
     (has (UserGiveGiftRQ_gift_code m), w_WriteString W 4 (value_or [] (UserGiveGiftRQ_gift_code m))),
     (has (UserGiveGiftRQ_dst_user_id m), w_WriteInt32 W 5 (value_or 0 (UserGiveGiftRQ_dst_user_id m))),
     (has (UserGiveGiftRQ_count_gift m), w_WriteInt32 W 6 (value_or 0 (UserGiveGiftRQ_count_gift m))),
     (UserGiveGiftRQ_unknown m \<noteq> [], w_WriteUnknown W (UserGiveGiftRQ_unknown m))]"

definition StruUserGiveGiftRQ_ByteSize ::
  "('i, 'u) wire \<Rightarrow> 'u StruUserGiveGiftRQ_pb \<Rightarrow> int" where
  "StruUserGiveGiftRQ_ByteSize W m = size_group [
     (has (UserGiveGiftRQ_msg_id m), 1 + w_EnumSize W (value_or 6012 (UserGiveGiftRQ_msg_id m))),
     (has (UserGiveGiftRQ_user_id m), 1 + w_Int32Size W (value_or 0 (UserGiveGiftRQ_user_id m))),
     (has (UserGiveGiftRQ_room_id m), 1 + w_Int32Size W (value_or 0 (UserGiveGiftRQ_room_id m))),
     (has (UserGiveGiftRQ_gift_code m), 1 + w_StringSize W (value_or [] (UserGiveGiftRQ_gift_code m))),
     (has (UserGiveGiftRQ_dst_user_id m), 1 + w_Int32Size W (value_or 0 (UserGiveGiftRQ_dst_user_id m))),
     (has (UserGiveGiftRQ_count_gift m), 1 + w_Int32Size W (value_or 0 (UserGiveGiftRQ_count_gift m)))]
     + (if UserGiveGiftRQ_unknown m \<noteq> [] then w_UnknownSize W (UserGiveGiftRQ_unknown m) else 0)"

definition StruUserGiveGiftRQ_MergeFrom ::
  "'u StruUserGiveGiftRQ_pb \<Rightarrow> 'u StruUserGiveGiftRQ_pb \<Rightarrow> 'u StruUserGiveGiftRQ_pb" where
  "StruUserGiveGiftRQ_MergeFrom from m = (
     let m1 = if has (UserGiveGiftRQ_msg_id from) \<or> has (UserGiveGiftRQ_user_id from) \<or>
       has (UserGiveGiftRQ_room_id from) \<or> has (UserGiveGiftRQ_gift_code from) \<or>
       has (UserGiveGiftRQ_dst_user_id from) \<or> has (UserGiveGiftRQ_count_gift from)
       then m\<lparr>
         UserGiveGiftRQ_msg_id := merge_value 6012 (UserGiveGiftRQ_msg_id from) (UserGiveGiftRQ_msg_id m),
         UserGiveGiftRQ_user_id := merge_value 0 (UserGiveGiftRQ_user_id from) (UserGiveGiftRQ_user_id m),
         UserGiveGiftRQ_room_id := merge_value 0 (UserGiveGiftRQ_room_id from) (UserGiveGiftRQ_room_id m),
         UserGiveGiftRQ_gift_code := merge_value [] (UserGiveGiftRQ_gift_code from) (UserGiveGiftRQ_gift_code m),
         UserGiveGiftRQ_dst_user_id := merge_value 0 (UserGiveGiftRQ_dst_user_id from) (UserGiveGiftRQ_dst_user_id m),
         UserGiveGiftRQ_count_gift := merge_value 0 (UserGiveGiftRQ_count_gift from) (UserGiveGiftRQ_count_gift m)\<rparr>
       else m
     in
     m1\<lparr>UserGiveGiftRQ_unknown := UserGiveGiftRQ_unknown m1 @ UserGiveGiftRQ_unknown from\<rparr>)"

definition StruUserGiveGiftRQ_CopyFrom ::
  "'u StruUserGiveGiftRQ_pb \<Rightarrow> 'u StruUserGiveGiftRQ_pb \<Rightarrow> 'u StruUserGiveGiftRQ_pb" where
  "StruUserGiveGiftRQ_CopyFrom from m = StruUserGiveGiftRQ_MergeFrom from (StruUserGiveGiftRQ_Clear m)"

definition StruUserGiveGiftRQ_IsInitialized :: "'u StruUserGiveGiftRQ_pb \<Rightarrow> bool" where
  "StruUserGiveGiftRQ_IsInitialized m \<longleftrightarrow> has_bits [
       has (UserGiveGiftRQ_msg_id m), has (UserGiveGiftRQ_user_id m), has (UserGiveGiftRQ_room_id m),
       has (UserGiveGiftRQ_gift_code m), has (UserGiveGiftRQ_dst_user_id m), has (UserGiveGiftRQ_count_gift m)] AND
         0x3f = 0x3f"

definition StruUserGiveGiftRQ_Swap ::
  "'u StruUserGiveGiftRQ_pb \<Rightarrow> 'u StruUserGiveGiftRQ_pb
    \<Rightarrow> 'u StruUserGiveGiftRQ_pb \<times> 'u StruUserGiveGiftRQ_pb" where
  "StruUserGiveGiftRQ_Swap m other =
     (m\<lparr>
        UserGiveGiftRQ_msg_id := UserGiveGiftRQ_msg_id other,
        UserGiveGiftRQ_user_id := UserGiveGiftRQ_user_id other,
        UserGiveGiftRQ_room_id := UserGiveGiftRQ_room_id other,
        UserGiveGiftRQ_gift_code := UserGiveGiftRQ_gift_code other,
        UserGiveGiftRQ_dst_user_id := UserGiveGiftRQ_dst_user_id other,
        UserGiveGiftRQ_count_gift := UserGiveGiftRQ_count_gift other,
        UserGiveGiftRQ_unknown := UserGiveGiftRQ_unknown other\<rparr>,
      other\<lparr>
        UserGiveGiftRQ_msg_id := UserGiveGiftRQ_msg_id m, UserGiveGiftRQ_user_id := UserGiveGiftRQ_user_id m,
        UserGiveGiftRQ_room_id := UserGiveGiftRQ_room_id m,
        UserGiveGiftRQ_gift_code := UserGiveGiftRQ_gift_code m,
        UserGiveGiftRQ_dst_user_id := UserGiveGiftRQ_dst_user_id m,
        UserGiveGiftRQ_count_gift := UserGiveGiftRQ_count_gift m,
        UserGiveGiftRQ_unknown := UserGiveGiftRQ_unknown m\<rparr>)"

definition StruUserGiveGiftRQ_fits :: "'u StruUserGiveGiftRQ_pb \<Rightarrow> bool" where
  "StruUserGiveGiftRQ_fits m \<longleftrightarrow>
     enum_ok EnumMsgID_IsValid (UserGiveGiftRQ_msg_id m) \<and> int_ok (UserGiveGiftRQ_user_id m) \<and>
     int_ok (UserGiveGiftRQ_room_id m) \<and> str_ok (UserGiveGiftRQ_gift_code m) \<and>
     int_ok (UserGiveGiftRQ_dst_user_id m) \<and> int_ok (UserGiveGiftRQ_count_gift m) \<and>
     UserGiveGiftRQ_unknown m = []"

interpretation UserGiveGiftRQ: message_class StruUserGiveGiftRQ_cases
  "\<lambda>W. skip_field W UserGiveGiftRQ_unknown (\<lambda>u. UserGiveGiftRQ_unknown_update (\<lambda>_. u))"
  StruUserGiveGiftRQ_MergePartialFromCodedStream StruUserGiveGiftRQ_SharedCtor StruUserGiveGiftRQ_SerializeWithCachedSizes
  StruUserGiveGiftRQ_ByteSize StruUserGiveGiftRQ_IsInitialized "\<lambda>_. StruUserGiveGiftRQ_fits"
  by (unfold_locales, rule StruUserGiveGiftRQ_MergePartialFromCodedStream_def,
      simp add: StruUserGiveGiftRQ_cases_def cases_ok_def case_ok_def,
      simp add: StruUserGiveGiftRQ_cases_def field_ends,
      unfold StruUserGiveGiftRQ_fits_def StruUserGiveGiftRQ_SerializeWithCachedSizes_def, elim conjE, rule fed_eq,
      (rule fed_rules, assumption, simp add: StruUserGiveGiftRQ_cases_def, simp add:
        StruUserGiveGiftRQ_SharedCtor_def, (assumption | simp)+)+,
      rule fed_done, simp add: StruUserGiveGiftRQ_SharedCtor_def,
      unfold StruUserGiveGiftRQ_ByteSize_def length_write_fields size_group_sum, elim conjE, (drule enum_int_ok)+,
      simp add: add.assoc written_sizes split del: if_split)

lemma StruUserGiveGiftRQ_copies:
  "StruUserGiveGiftRQ_CopyFrom from m = from" "StruUserGiveGiftRQ_Swap m from = (from, m)"
proof -
  show "StruUserGiveGiftRQ_CopyFrom from m = from"
    by (rule StruUserGiveGiftRQ_pb.equality; cases "has (UserGiveGiftRQ_msg_id from) \<or> has
      (UserGiveGiftRQ_user_id from) \<or> has (UserGiveGiftRQ_room_id from) \<or> has (UserGiveGiftRQ_gift_code from)
        \<or> has (UserGiveGiftRQ_dst_user_id from) \<or> has (UserGiveGiftRQ_count_gift from)";
      simp add: StruUserGiveGiftRQ_CopyFrom_def StruUserGiveGiftRQ_MergeFrom_def StruUserGiveGiftRQ_Clear_def)
  show "StruUserGiveGiftRQ_Swap m from = (from, m)" by (cases "from"; cases m; simp add: StruUserGiveGiftRQ_Swap_def)
qed

lemma StruUserGiveGiftRQ_required:
  "StruUserGiveGiftRQ_IsInitialized m \<longleftrightarrow>
     has (UserGiveGiftRQ_msg_id m) \<and> has (UserGiveGiftRQ_user_id m) \<and>
     has (UserGiveGiftRQ_room_id m) \<and> has (UserGiveGiftRQ_gift_code m) \<and>
     has (UserGiveGiftRQ_dst_user_id m) \<and> has (UserGiveGiftRQ_count_gift m)"
  by (auto simp: StruUserGiveGiftRQ_IsInitialized_def has_masks)

section \<open>StruUserGiveGiftRS\<close>

record 'u StruUserGiveGiftRS_pb =
  UserGiveGiftRS_msg_id :: "int option"
  UserGiveGiftRS_user_id :: "int option"
  UserGiveGiftRS_room_id :: "int option"
  UserGiveGiftRS_result :: "int option"
  UserGiveGiftRS_gift_code :: "byte list option"
  UserGiveGiftRS_dst_user_id :: "int option"
  UserGiveGiftRS_sender_red_d :: "int option"
  UserGiveGiftRS_unknown :: "'u list"

definition StruUserGiveGiftRS_SharedCtor :: "'u StruUserGiveGiftRS_pb" where
  "StruUserGiveGiftRS_SharedCtor = \<lparr>
     UserGiveGiftRS_msg_id = None, UserGiveGiftRS_user_id = None, UserGiveGiftRS_room_id = None,
     UserGiveGiftRS_result = None, UserGiveGiftRS_gift_code = None, UserGiveGiftRS_dst_user_id = None,
     UserGiveGiftRS_sender_red_d = None, UserGiveGiftRS_unknown = []\<rparr>"

definition StruUserGiveGiftRS_Clear :: "'u StruUserGiveGiftRS_pb \<Rightarrow> 'u StruUserGiveGiftRS_pb" where
  "StruUserGiveGiftRS_Clear m = m\<lparr>
     UserGiveGiftRS_msg_id := None, UserGiveGiftRS_user_id := None, UserGiveGiftRS_room_id := None,
     UserGiveGiftRS_result := None, UserGiveGiftRS_gift_code := None, UserGiveGiftRS_dst_user_id := None,
     UserGiveGiftRS_sender_red_d := None, UserGiveGiftRS_unknown := []\<rparr>"

definition StruUserGiveGiftRS_cases ::
  "('i, 'u) wire \<Rightarrow> ('i, 'u StruUserGiveGiftRS_pb) field_case list" where
  "StruUserGiveGiftRS_cases W = [
     field_enum W 1 EnumMsgID_IsValid (\<lambda>v. UserGiveGiftRS_msg_id_update (\<lambda>_. v))
       (\<lambda>v m. m\<lparr>UserGiveGiftRS_unknown := w_AddVarint W 1 v (UserGiveGiftRS_unknown m)\<rparr>) [(16,
         2)] False,
     field_int32 W 2 (\<lambda>v. UserGiveGiftRS_user_id_update (\<lambda>_. v)) [(24, 3)] False,
     field_int32 W 3 (\<lambda>v. UserGiveGiftRS_room_id_update (\<lambda>_. v)) [(32, 4)] False,
     field_int32 W 4 (\<lambda>v. UserGiveGiftRS_result_update (\<lambda>_. v)) [(42, 5)] False,
     field_string W 5 UserGiveGiftRS_gift_code (\<lambda>v. UserGiveGiftRS_gift_code_update (\<lambda>_. v)) [(48, 6)] False,
     field_int32 W 6 (\<lambda>v. UserGiveGiftRS_dst_user_id_update (\<lambda>_. v)) [(56, 7)] False,
     field_int32 W 7 (\<lambda>v. UserGiveGiftRS_sender_red_d_update (\<lambda>_. v)) [] True]"

definition StruUserGiveGiftRS_MergePartialFromCodedStream ::
  "('i, 'u) wire \<Rightarrow> 'i \<Rightarrow> 'u StruUserGiveGiftRS_pb
    \<Rightarrow> (bool \<times> 'i \<times> 'u StruUserGiveGiftRS_pb) res" where
  "StruUserGiveGiftRS_MergePartialFromCodedStream W i m = merge_loop (merge_fuel W i) W (StruUserGiveGiftRS_cases W)
     (skip_field W UserGiveGiftRS_unknown (\<lambda>u. UserGiveGiftRS_unknown_update (\<lambda>_. u))) None i m"

definition StruUserGiveGiftRS_SerializeWithCachedSizes ::
  "('i, 'u) wire \<Rightarrow> 'u StruUserGiveGiftRS_pb \<Rightarrow> byte list" where
  "StruUserGiveGiftRS_SerializeWithCachedSizes W m = write_fields [
     (has (UserGiveGiftRS_msg_id m), w_WriteEnum W 1 (value_or 6013 (UserGiveGiftRS_msg_id m))),
     (has (UserGiveGiftRS_user_id m), w_WriteInt32 W 2 (value_or 0 (UserGiveGiftRS_user_id m))),
     (has (UserGiveGiftRS_room_id m), w_WriteInt32 W 3 (value_or 0 (UserGiveGiftRS_room_id m))),
     (has (UserGiveGiftRS_result m), w_WriteInt32 W 4 (value_or 0 (UserGiveGiftRS_result m))),
     (has (UserGiveGiftRS_gift_code m), w_WriteString W 5 (value_or [] (UserGiveGiftRS_gift_code m))),
     (has (UserGiveGiftRS_dst_user_id m), w_WriteInt32 W 6 (value_or 0 (UserGiveGiftRS_dst_user_id m))),
     (has (UserGiveGiftRS_sender_red_d m), w_WriteInt32 W 7 (value_or 0 (UserGiveGiftRS_sender_red_d m))),
     (UserGiveGiftRS_unknown m \<noteq> [], w_WriteUnknown W (UserGiveGiftRS_unknown m))]"

definition StruUserGiveGiftRS_ByteSize ::
  "('i, 'u) wire \<Rightarrow> 'u StruUserGiveGiftRS_pb \<Rightarrow> int" where
  "StruUserGiveGiftRS_ByteSize W m = size_group [
     (has (UserGiveGiftRS_msg_id m), 1 + w_EnumSize W (value_or 6013 (UserGiveGiftRS_msg_id m))),
     (has (UserGiveGiftRS_user_id m), 1 + w_Int32Size W (value_or 0 (UserGiveGiftRS_user_id m))),
     (has (UserGiveGiftRS_room_id m), 1 + w_Int32Size W (value_or 0 (UserGiveGiftRS_room_id m))),
     (has (UserGiveGiftRS_result m), 1 + w_Int32Size W (value_or 0 (UserGiveGiftRS_result m))),
     (has (UserGiveGiftRS_gift_code m), 1 + w_StringSize W (value_or [] (UserGiveGiftRS_gift_code m))),
     (has (UserGiveGiftRS_dst_user_id m), 1 + w_Int32Size W (value_or 0 (UserGiveGiftRS_dst_user_id m))),
     (has (UserGiveGiftRS_sender_red_d m), 1 + w_Int32Size W (value_or 0 (UserGiveGiftRS_sender_red_d m)))]
     + (if UserGiveGiftRS_unknown m \<noteq> [] then w_UnknownSize W (UserGiveGiftRS_unknown m) else 0)"

definition StruUserGiveGiftRS_MergeFrom ::
  "'u StruUserGiveGiftRS_pb \<Rightarrow> 'u StruUserGiveGiftRS_pb \<Rightarrow> 'u StruUserGiveGiftRS_pb" where
  "StruUserGiveGiftRS_MergeFrom from m = (
     let m1 = if has (UserGiveGiftRS_msg_id from) \<or> has (UserGiveGiftRS_user_id from) \<or>
       has (UserGiveGiftRS_room_id from) \<or> has (UserGiveGiftRS_result from) \<or>
       has (UserGiveGiftRS_gift_code from) \<or> has (UserGiveGiftRS_dst_user_id from) \<or>
       has (UserGiveGiftRS_sender_red_d from)
       then m\<lparr>
         UserGiveGiftRS_msg_id := merge_value 6013 (UserGiveGiftRS_msg_id from) (UserGiveGiftRS_msg_id m),
         UserGiveGiftRS_user_id := merge_value 0 (UserGiveGiftRS_user_id from) (UserGiveGiftRS_user_id m),
         UserGiveGiftRS_room_id := merge_value 0 (UserGiveGiftRS_room_id from) (UserGiveGiftRS_room_id m),
         UserGiveGiftRS_result := merge_value 0 (UserGiveGiftRS_result from) (UserGiveGiftRS_result m),
         UserGiveGiftRS_gift_code := merge_value [] (UserGiveGiftRS_gift_code from) (UserGiveGiftRS_gift_code m),
         UserGiveGiftRS_dst_user_id := merge_value 0 (UserGiveGiftRS_dst_user_id from) (UserGiveGiftRS_dst_user_id m),
         UserGiveGiftRS_sender_red_d := merge_value 0 (UserGiveGiftRS_sender_red_d from) (UserGiveGiftRS_sender_red_d
           m)\<rparr>
       else m
     in
     m1\<lparr>UserGiveGiftRS_unknown := UserGiveGiftRS_unknown m1 @ UserGiveGiftRS_unknown from\<rparr>)"

definition StruUserGiveGiftRS_CopyFrom ::
  "'u StruUserGiveGiftRS_pb \<Rightarrow> 'u StruUserGiveGiftRS_pb \<Rightarrow> 'u StruUserGiveGiftRS_pb" where
  "StruUserGiveGiftRS_CopyFrom from m = StruUserGiveGiftRS_MergeFrom from (StruUserGiveGiftRS_Clear m)"

definition StruUserGiveGiftRS_IsInitialized :: "'u StruUserGiveGiftRS_pb \<Rightarrow> bool" where
  "StruUserGiveGiftRS_IsInitialized m \<longleftrightarrow> has_bits [
       has (UserGiveGiftRS_msg_id m), has (UserGiveGiftRS_user_id m), has (UserGiveGiftRS_room_id m),
       has (UserGiveGiftRS_result m), has (UserGiveGiftRS_gift_code m), has (UserGiveGiftRS_dst_user_id m),
       has (UserGiveGiftRS_sender_red_d m)] AND 0x7f = 0x7f"

definition StruUserGiveGiftRS_Swap ::
  "'u StruUserGiveGiftRS_pb \<Rightarrow> 'u StruUserGiveGiftRS_pb
    \<Rightarrow> 'u StruUserGiveGiftRS_pb \<times> 'u StruUserGiveGiftRS_pb" where
  "StruUserGiveGiftRS_Swap m other =
     (m\<lparr>
        UserGiveGiftRS_msg_id := UserGiveGiftRS_msg_id other,
        UserGiveGiftRS_user_id := UserGiveGiftRS_user_id other,
        UserGiveGiftRS_room_id := UserGiveGiftRS_room_id other,
        UserGiveGiftRS_result := UserGiveGiftRS_result other,
        UserGiveGiftRS_gift_code := UserGiveGiftRS_gift_code other,
        UserGiveGiftRS_dst_user_id := UserGiveGiftRS_dst_user_id other,
        UserGiveGiftRS_sender_red_d := UserGiveGiftRS_sender_red_d other,
        UserGiveGiftRS_unknown := UserGiveGiftRS_unknown other\<rparr>,
      other\<lparr>
        UserGiveGiftRS_msg_id := UserGiveGiftRS_msg_id m, UserGiveGiftRS_user_id := UserGiveGiftRS_user_id m,
        UserGiveGiftRS_room_id := UserGiveGiftRS_room_id m, UserGiveGiftRS_result := UserGiveGiftRS_result m,
        UserGiveGiftRS_gift_code := UserGiveGiftRS_gift_code m,
        UserGiveGiftRS_dst_user_id := UserGiveGiftRS_dst_user_id m,
        UserGiveGiftRS_sender_red_d := UserGiveGiftRS_sender_red_d m,
        UserGiveGiftRS_unknown := UserGiveGiftRS_unknown m\<rparr>)"

definition StruUserGiveGiftRS_fits :: "'u StruUserGiveGiftRS_pb \<Rightarrow> bool" where
  "StruUserGiveGiftRS_fits m \<longleftrightarrow>
     enum_ok EnumMsgID_IsValid (UserGiveGiftRS_msg_id m) \<and> int_ok (UserGiveGiftRS_user_id m) \<and>
     int_ok (UserGiveGiftRS_room_id m) \<and> int_ok (UserGiveGiftRS_result m) \<and>
     str_ok (UserGiveGiftRS_gift_code m) \<and> int_ok (UserGiveGiftRS_dst_user_id m) \<and>
     int_ok (UserGiveGiftRS_sender_red_d m) \<and> UserGiveGiftRS_unknown m = []"

interpretation UserGiveGiftRS: message_class StruUserGiveGiftRS_cases
  "\<lambda>W. skip_field W UserGiveGiftRS_unknown (\<lambda>u. UserGiveGiftRS_unknown_update (\<lambda>_. u))"
  StruUserGiveGiftRS_MergePartialFromCodedStream StruUserGiveGiftRS_SharedCtor StruUserGiveGiftRS_SerializeWithCachedSizes
  StruUserGiveGiftRS_ByteSize StruUserGiveGiftRS_IsInitialized "\<lambda>_. StruUserGiveGiftRS_fits"
  by (unfold_locales, rule StruUserGiveGiftRS_MergePartialFromCodedStream_def,
      simp add: StruUserGiveGiftRS_cases_def cases_ok_def case_ok_def,
      simp add: StruUserGiveGiftRS_cases_def field_ends,
      unfold StruUserGiveGiftRS_fits_def StruUserGiveGiftRS_SerializeWithCachedSizes_def, elim conjE, rule fed_eq,
      (rule fed_rules, assumption, simp add: StruUserGiveGiftRS_cases_def, simp add:
        StruUserGiveGiftRS_SharedCtor_def, (assumption | simp)+)+,
      rule fed_done, simp add: StruUserGiveGiftRS_SharedCtor_def,
      unfold StruUserGiveGiftRS_ByteSize_def length_write_fields size_group_sum, elim conjE, (drule enum_int_ok)+,
      simp add: add.assoc written_sizes split del: if_split)

lemma StruUserGiveGiftRS_copies:
  "StruUserGiveGiftRS_CopyFrom from m = from" "StruUserGiveGiftRS_Swap m from = (from, m)"
proof -
  show "StruUserGiveGiftRS_CopyFrom from m = from"
    by (rule StruUserGiveGiftRS_pb.equality; cases "has (UserGiveGiftRS_msg_id from) \<or> has
      (UserGiveGiftRS_user_id from) \<or> has (UserGiveGiftRS_room_id from) \<or> has (UserGiveGiftRS_result from)
        \<or> has (UserGiveGiftRS_gift_code from) \<or> has (UserGiveGiftRS_dst_user_id from) \<or> has
          (UserGiveGiftRS_sender_red_d from)";
      simp add: StruUserGiveGiftRS_CopyFrom_def StruUserGiveGiftRS_MergeFrom_def StruUserGiveGiftRS_Clear_def)
  show "StruUserGiveGiftRS_Swap m from = (from, m)" by (cases "from"; cases m; simp add: StruUserGiveGiftRS_Swap_def)
qed

lemma StruUserGiveGiftRS_required:
  "StruUserGiveGiftRS_IsInitialized m \<longleftrightarrow>
     has (UserGiveGiftRS_msg_id m) \<and> has (UserGiveGiftRS_user_id m) \<and>
     has (UserGiveGiftRS_room_id m) \<and> has (UserGiveGiftRS_result m) \<and>
     has (UserGiveGiftRS_gift_code m) \<and> has (UserGiveGiftRS_dst_user_id m) \<and>
     has (UserGiveGiftRS_sender_red_d m)"
  by (auto simp: StruUserGiveGiftRS_IsInitialized_def has_masks)

section \<open>StruUserApplyMicRQ\<close>

record 'u StruUserApplyMicRQ_pb =
  UserApplyMicRQ_msg_id :: "int option"
  UserApplyMicRQ_user_id :: "int option"
  UserApplyMicRQ_room_id :: "int option"
  UserApplyMicRQ_unknown :: "'u list"

definition StruUserApplyMicRQ_SharedCtor :: "'u StruUserApplyMicRQ_pb" where
  "StruUserApplyMicRQ_SharedCtor = \<lparr>
     UserApplyMicRQ_msg_id = None, UserApplyMicRQ_user_id = None, UserApplyMicRQ_room_id = None,
     UserApplyMicRQ_unknown = []\<rparr>"

definition StruUserApplyMicRQ_Clear :: "'u StruUserApplyMicRQ_pb \<Rightarrow> 'u StruUserApplyMicRQ_pb" where
  "StruUserApplyMicRQ_Clear m = m\<lparr>
     UserApplyMicRQ_msg_id := None, UserApplyMicRQ_user_id := None, UserApplyMicRQ_room_id := None,
     UserApplyMicRQ_unknown := []\<rparr>"

definition StruUserApplyMicRQ_cases ::
  "('i, 'u) wire \<Rightarrow> ('i, 'u StruUserApplyMicRQ_pb) field_case list" where
  "StruUserApplyMicRQ_cases W = [
     field_enum W 1 EnumMsgID_IsValid (\<lambda>v. UserApplyMicRQ_msg_id_update (\<lambda>_. v))
       (\<lambda>v m. m\<lparr>UserApplyMicRQ_unknown := w_AddVarint W 1 v (UserApplyMicRQ_unknown m)\<rparr>) [(16,
         2)] False,
     field_int32 W 2 (\<lambda>v. UserApplyMicRQ_user_id_update (\<lambda>_. v)) [(24, 3)] False,
     field_int32 W 3 (\<lambda>v. UserApplyMicRQ_room_id_update (\<lambda>_. v)) [] True]"

definition StruUserApplyMicRQ_MergePartialFromCodedStream ::
  "('i, 'u) wire \<Rightarrow> 'i \<Rightarrow> 'u StruUserApplyMicRQ_pb
    \<Rightarrow> (bool \<times> 'i \<times> 'u StruUserApplyMicRQ_pb) res" where
  "StruUserApplyMicRQ_MergePartialFromCodedStream W i m = merge_loop (merge_fuel W i) W (StruUserApplyMicRQ_cases W)
     (skip_field W UserApplyMicRQ_unknown (\<lambda>u. UserApplyMicRQ_unknown_update (\<lambda>_. u))) None i m"

definition StruUserApplyMicRQ_SerializeWithCachedSizes ::
  "('i, 'u) wire \<Rightarrow> 'u StruUserApplyMicRQ_pb \<Rightarrow> byte list" where
  "StruUserApplyMicRQ_SerializeWithCachedSizes W m = write_fields [
     (has (UserApplyMicRQ_msg_id m), w_WriteEnum W 1 (value_or 6014 (UserApplyMicRQ_msg_id m))),
     (has (UserApplyMicRQ_user_id m), w_WriteInt32 W 2 (value_or 0 (UserApplyMicRQ_user_id m))),
     (has (UserApplyMicRQ_room_id m), w_WriteInt32 W 3 (value_or 0 (UserApplyMicRQ_room_id m))),
     (UserApplyMicRQ_unknown m \<noteq> [], w_WriteUnknown W (UserApplyMicRQ_unknown m))]"

definition StruUserApplyMicRQ_ByteSize ::
  "('i, 'u) wire \<Rightarrow> 'u StruUserApplyMicRQ_pb \<Rightarrow> int" where
  "StruUserApplyMicRQ_ByteSize W m = size_group [
     (has (UserApplyMicRQ_msg_id m), 1 + w_EnumSize W (value_or 6014 (UserApplyMicRQ_msg_id m))),
     (has (UserApplyMicRQ_user_id m), 1 + w_Int32Size W (value_or 0 (UserApplyMicRQ_user_id m))),
     (has (UserApplyMicRQ_room_id m), 1 + w_Int32Size W (value_or 0 (UserApplyMicRQ_room_id m)))]
     + (if UserApplyMicRQ_unknown m \<noteq> [] then w_UnknownSize W (UserApplyMicRQ_unknown m) else 0)"

definition StruUserApplyMicRQ_MergeFrom ::
  "'u StruUserApplyMicRQ_pb \<Rightarrow> 'u StruUserApplyMicRQ_pb \<Rightarrow> 'u StruUserApplyMicRQ_pb" where
  "StruUserApplyMicRQ_MergeFrom from m = (
     let m1 = if has (UserApplyMicRQ_msg_id from) \<or> has (UserApplyMicRQ_user_id from) \<or>
       has (UserApplyMicRQ_room_id from)
       then m\<lparr>
         UserApplyMicRQ_msg_id := merge_value 6014 (UserApplyMicRQ_msg_id from) (UserApplyMicRQ_msg_id m),
         UserApplyMicRQ_user_id := merge_value 0 (UserApplyMicRQ_user_id from) (UserApplyMicRQ_user_id m),
         UserApplyMicRQ_room_id := merge_value 0 (UserApplyMicRQ_room_id from) (UserApplyMicRQ_room_id m)\<rparr>
       else m
     in
     m1\<lparr>UserApplyMicRQ_unknown := UserApplyMicRQ_unknown m1 @ UserApplyMicRQ_unknown from\<rparr>)"

definition StruUserApplyMicRQ_CopyFrom ::
  "'u StruUserApplyMicRQ_pb \<Rightarrow> 'u StruUserApplyMicRQ_pb \<Rightarrow> 'u StruUserApplyMicRQ_pb" where
  "StruUserApplyMicRQ_CopyFrom from m = StruUserApplyMicRQ_MergeFrom from (StruUserApplyMicRQ_Clear m)"

definition StruUserApplyMicRQ_IsInitialized :: "'u StruUserApplyMicRQ_pb \<Rightarrow> bool" where
  "StruUserApplyMicRQ_IsInitialized m \<longleftrightarrow> has_bits [
       has (UserApplyMicRQ_msg_id m), has (UserApplyMicRQ_user_id m), has (UserApplyMicRQ_room_id m)] AND 0x7 = 0x7"

definition StruUserApplyMicRQ_Swap ::
  "'u StruUserApplyMicRQ_pb \<Rightarrow> 'u StruUserApplyMicRQ_pb
    \<Rightarrow> 'u StruUserApplyMicRQ_pb \<times> 'u StruUserApplyMicRQ_pb" where
  "StruUserApplyMicRQ_Swap m other =
     (m\<lparr>
        UserApplyMicRQ_msg_id := UserApplyMicRQ_msg_id other,
        UserApplyMicRQ_user_id := UserApplyMicRQ_user_id other,
        UserApplyMicRQ_room_id := UserApplyMicRQ_room_id other,
        UserApplyMicRQ_unknown := UserApplyMicRQ_unknown other\<rparr>,
      other\<lparr>
        UserApplyMicRQ_msg_id := UserApplyMicRQ_msg_id m, UserApplyMicRQ_user_id := UserApplyMicRQ_user_id m,
        UserApplyMicRQ_room_id := UserApplyMicRQ_room_id m, UserApplyMicRQ_unknown := UserApplyMicRQ_unknown m\<rparr>)"

definition StruUserApplyMicRQ_fits :: "'u StruUserApplyMicRQ_pb \<Rightarrow> bool" where
  "StruUserApplyMicRQ_fits m \<longleftrightarrow>
     enum_ok EnumMsgID_IsValid (UserApplyMicRQ_msg_id m) \<and> int_ok (UserApplyMicRQ_user_id m) \<and>
     int_ok (UserApplyMicRQ_room_id m) \<and> UserApplyMicRQ_unknown m = []"

interpretation UserApplyMicRQ: message_class StruUserApplyMicRQ_cases
  "\<lambda>W. skip_field W UserApplyMicRQ_unknown (\<lambda>u. UserApplyMicRQ_unknown_update (\<lambda>_. u))"
  StruUserApplyMicRQ_MergePartialFromCodedStream StruUserApplyMicRQ_SharedCtor StruUserApplyMicRQ_SerializeWithCachedSizes
  StruUserApplyMicRQ_ByteSize StruUserApplyMicRQ_IsInitialized "\<lambda>_. StruUserApplyMicRQ_fits"
  by (unfold_locales, rule StruUserApplyMicRQ_MergePartialFromCodedStream_def,
      simp add: StruUserApplyMicRQ_cases_def cases_ok_def case_ok_def,
      simp add: StruUserApplyMicRQ_cases_def field_ends,
      unfold StruUserApplyMicRQ_fits_def StruUserApplyMicRQ_SerializeWithCachedSizes_def, elim conjE, rule fed_eq,
      (rule fed_rules, assumption, simp add: StruUserApplyMicRQ_cases_def, simp add:
        StruUserApplyMicRQ_SharedCtor_def, (assumption | simp)+)+,
      rule fed_done, simp add: StruUserApplyMicRQ_SharedCtor_def,
      unfold StruUserApplyMicRQ_ByteSize_def length_write_fields size_group_sum, elim conjE, (drule enum_int_ok)+,
      simp add: add.assoc written_sizes split del: if_split)

lemma StruUserApplyMicRQ_copies:
  "StruUserApplyMicRQ_CopyFrom from m = from" "StruUserApplyMicRQ_Swap m from = (from, m)"
proof -
  show "StruUserApplyMicRQ_CopyFrom from m = from"
    by (rule StruUserApplyMicRQ_pb.equality; cases "has (UserApplyMicRQ_msg_id from) \<or> has
      (UserApplyMicRQ_user_id from) \<or> has (UserApplyMicRQ_room_id from)";
      simp add: StruUserApplyMicRQ_CopyFrom_def StruUserApplyMicRQ_MergeFrom_def StruUserApplyMicRQ_Clear_def)
  show "StruUserApplyMicRQ_Swap m from = (from, m)" by (cases "from"; cases m; simp add: StruUserApplyMicRQ_Swap_def)
qed

lemma StruUserApplyMicRQ_required:
  "StruUserApplyMicRQ_IsInitialized m \<longleftrightarrow>
     has (UserApplyMicRQ_msg_id m) \<and> has (UserApplyMicRQ_user_id m) \<and> has (UserApplyMicRQ_room_id m)"
  by (auto simp: StruUserApplyMicRQ_IsInitialized_def has_masks)

section \<open>StruUserApplyMicRS\<close>

record 'u StruUserApplyMicRS_pb =
  UserApplyMicRS_msg_id :: "int option"
  UserApplyMicRS_user_id :: "int option"
  UserApplyMicRS_room_id :: "int option"
  UserApplyMicRS_result :: "int option"
  UserApplyMicRS_mic_channel_str :: "byte list option"
  UserApplyMicRS_unknown :: "'u list"

definition StruUserApplyMicRS_SharedCtor :: "'u StruUserApplyMicRS_pb" where
  "StruUserApplyMicRS_SharedCtor = \<lparr>
     UserApplyMicRS_msg_id = None, UserApplyMicRS_user_id = None, UserApplyMicRS_room_id = None,
     UserApplyMicRS_result = None, UserApplyMicRS_mic_channel_str = None, UserApplyMicRS_unknown = []\<rparr>"

definition StruUserApplyMicRS_Clear :: "'u StruUserApplyMicRS_pb \<Rightarrow> 'u StruUserApplyMicRS_pb" where
  "StruUserApplyMicRS_Clear m = m\<lparr>
     UserApplyMicRS_msg_id := None, UserApplyMicRS_user_id := None, UserApplyMicRS_room_id := None,
     UserApplyMicRS_result := None, UserApplyMicRS_mic_channel_str := None, UserApplyMicRS_unknown := []\<rparr>"

definition StruUserApplyMicRS_cases ::
  "('i, 'u) wire \<Rightarrow> ('i, 'u StruUserApplyMicRS_pb) field_case list" where
  "StruUserApplyMicRS_cases W = [
     field_enum W 1 EnumMsgID_IsValid (\<lambda>v. UserApplyMicRS_msg_id_update (\<lambda>_. v))
       (\<lambda>v m. m\<lparr>UserApplyMicRS_unknown := w_AddVarint W 1 v (UserApplyMicRS_unknown m)\<rparr>) [(16,
         2)] False,
     field_int32 W 2 (\<lambda>v. UserApplyMicRS_user_id_update (\<lambda>_. v)) [(24, 3)] False,
     field_int32 W 3 (\<lambda>v. UserApplyMicRS_room_id_update (\<lambda>_. v)) [(32, 4)] False,
     field_int32 W 4 (\<lambda>v. UserApplyMicRS_result_update (\<lambda>_. v)) [(42, 5)] False,
     field_string W 5 UserApplyMicRS_mic_channel_str (\<lambda>v. UserApplyMicRS_mic_channel_str_update (\<lambda>_.
       v)) [] True]"

definition StruUserApplyMicRS_MergePartialFromCodedStream ::
  "('i, 'u) wire \<Rightarrow> 'i \<Rightarrow> 'u StruUserApplyMicRS_pb
    \<Rightarrow> (bool \<times> 'i \<times> 'u StruUserApplyMicRS_pb) res" where
  "StruUserApplyMicRS_MergePartialFromCodedStream W i m = merge_loop (merge_fuel W i) W (StruUserApplyMicRS_cases W)
     (skip_field W UserApplyMicRS_unknown (\<lambda>u. UserApplyMicRS_unknown_update (\<lambda>_. u))) None i m"

definition StruUserApplyMicRS_SerializeWithCachedSizes ::
  "('i, 'u) wire \<Rightarrow> 'u StruUserApplyMicRS_pb \<Rightarrow> byte list" where
  "StruUserApplyMicRS_SerializeWithCachedSizes W m = write_fields [
     (has (UserApplyMicRS_msg_id m), w_WriteEnum W 1 (value_or 6015 (UserApplyMicRS_msg_id m))),
     (has (UserApplyMicRS_user_id m), w_WriteInt32 W 2 (value_or 0 (UserApplyMicRS_user_id m))),
     (has (UserApplyMicRS_room_id m), w_WriteInt32 W 3 (value_or 0 (UserApplyMicRS_room_id m))),
     (has (UserApplyMicRS_result m), w_WriteInt32 W 4 (value_or 0 (UserApplyMicRS_result m))),
     (has (UserApplyMicRS_mic_channel_str m), w_WriteString W 5 (value_or [] (UserApplyMicRS_mic_channel_str m))),
     (UserApplyMicRS_unknown m \<noteq> [], w_WriteUnknown W (UserApplyMicRS_unknown m))]"

definition StruUserApplyMicRS_ByteSize ::
  "('i, 'u) wire \<Rightarrow> 'u StruUserApplyMicRS_pb \<Rightarrow> int" where
  "StruUserApplyMicRS_ByteSize W m = size_group [
     (has (UserApplyMicRS_msg_id m), 1 + w_EnumSize W (value_or 6015 (UserApplyMicRS_msg_id m))),
     (has (UserApplyMicRS_user_id m), 1 + w_Int32Size W (value_or 0 (UserApplyMicRS_user_id m))),
     (has (UserApplyMicRS_room_id m), 1 + w_Int32Size W (value_or 0 (UserApplyMicRS_room_id m))),
     (has (UserApplyMicRS_result m), 1 + w_Int32Size W (value_or 0 (UserApplyMicRS_result m))),
     (has (UserApplyMicRS_mic_channel_str m), 1 + w_StringSize W (value_or [] (UserApplyMicRS_mic_channel_str m)))]
     + (if UserApplyMicRS_unknown m \<noteq> [] then w_UnknownSize W (UserApplyMicRS_unknown m) else 0)"

definition StruUserApplyMicRS_MergeFrom ::
  "'u StruUserApplyMicRS_pb \<Rightarrow> 'u StruUserApplyMicRS_pb \<Rightarrow> 'u StruUserApplyMicRS_pb" where
  "StruUserApplyMicRS_MergeFrom from m = (
     let m1 = if has (UserApplyMicRS_msg_id from) \<or> has (UserApplyMicRS_user_id from) \<or>
       has (UserApplyMicRS_room_id from) \<or> has (UserApplyMicRS_result from) \<or>
       has (UserApplyMicRS_mic_channel_str from)
       then m\<lparr>
         UserApplyMicRS_msg_id := merge_value 6015 (UserApplyMicRS_msg_id from) (UserApplyMicRS_msg_id m),
         UserApplyMicRS_user_id := merge_value 0 (UserApplyMicRS_user_id from) (UserApplyMicRS_user_id m),
         UserApplyMicRS_room_id := merge_value 0 (UserApplyMicRS_room_id from) (UserApplyMicRS_room_id m),
         UserApplyMicRS_result := merge_value 0 (UserApplyMicRS_result from) (UserApplyMicRS_result m),
         UserApplyMicRS_mic_channel_str := merge_value [] (UserApplyMicRS_mic_channel_str from)
           (UserApplyMicRS_mic_channel_str m)\<rparr>
       else m
     in
     m1\<lparr>UserApplyMicRS_unknown := UserApplyMicRS_unknown m1 @ UserApplyMicRS_unknown from\<rparr>)"

definition StruUserApplyMicRS_CopyFrom ::
  "'u StruUserApplyMicRS_pb \<Rightarrow> 'u StruUserApplyMicRS_pb \<Rightarrow> 'u StruUserApplyMicRS_pb" where
  "StruUserApplyMicRS_CopyFrom from m = StruUserApplyMicRS_MergeFrom from (StruUserApplyMicRS_Clear m)"

definition StruUserApplyMicRS_IsInitialized :: "'u StruUserApplyMicRS_pb \<Rightarrow> bool" where
  "StruUserApplyMicRS_IsInitialized m \<longleftrightarrow> has_bits [
       has (UserApplyMicRS_msg_id m), has (UserApplyMicRS_user_id m), has (UserApplyMicRS_room_id m),
       has (UserApplyMicRS_result m), has (UserApplyMicRS_mic_channel_str m)] AND 0x1f = 0x1f"

definition StruUserApplyMicRS_Swap ::
  "'u StruUserApplyMicRS_pb \<Rightarrow> 'u StruUserApplyMicRS_pb
    \<Rightarrow> 'u StruUserApplyMicRS_pb \<times> 'u StruUserApplyMicRS_pb" where
  "StruUserApplyMicRS_Swap m other =
     (m\<lparr>
        UserApplyMicRS_msg_id := UserApplyMicRS_msg_id other,
        UserApplyMicRS_user_id := UserApplyMicRS_user_id other,
        UserApplyMicRS_room_id := UserApplyMicRS_room_id other,
        UserApplyMicRS_result := UserApplyMicRS_result other,
        UserApplyMicRS_mic_channel_str := UserApplyMicRS_mic_channel_str other,
        UserApplyMicRS_unknown := UserApplyMicRS_unknown other\<rparr>,
      other\<lparr>
        UserApplyMicRS_msg_id := UserApplyMicRS_msg_id m, UserApplyMicRS_user_id := UserApplyMicRS_user_id m,
        UserApplyMicRS_room_id := UserApplyMicRS_room_id m, UserApplyMicRS_result := UserApplyMicRS_result m,
        UserApplyMicRS_mic_channel_str := UserApplyMicRS_mic_channel_str m,
        UserApplyMicRS_unknown := UserApplyMicRS_unknown m\<rparr>)"

definition StruUserApplyMicRS_fits :: "'u StruUserApplyMicRS_pb \<Rightarrow> bool" where
  "StruUserApplyMicRS_fits m \<longleftrightarrow>
     enum_ok EnumMsgID_IsValid (UserApplyMicRS_msg_id m) \<and> int_ok (UserApplyMicRS_user_id m) \<and>
     int_ok (UserApplyMicRS_room_id m) \<and> int_ok (UserApplyMicRS_result m) \<and>
     str_ok (UserApplyMicRS_mic_channel_str m) \<and> UserApplyMicRS_unknown m = []"

interpretation UserApplyMicRS: message_class StruUserApplyMicRS_cases
  "\<lambda>W. skip_field W UserApplyMicRS_unknown (\<lambda>u. UserApplyMicRS_unknown_update (\<lambda>_. u))"
  StruUserApplyMicRS_MergePartialFromCodedStream StruUserApplyMicRS_SharedCtor StruUserApplyMicRS_SerializeWithCachedSizes
  StruUserApplyMicRS_ByteSize StruUserApplyMicRS_IsInitialized "\<lambda>_. StruUserApplyMicRS_fits"
  by (unfold_locales, rule StruUserApplyMicRS_MergePartialFromCodedStream_def,
      simp add: StruUserApplyMicRS_cases_def cases_ok_def case_ok_def,
      simp add: StruUserApplyMicRS_cases_def field_ends,
      unfold StruUserApplyMicRS_fits_def StruUserApplyMicRS_SerializeWithCachedSizes_def, elim conjE, rule fed_eq,
      (rule fed_rules, assumption, simp add: StruUserApplyMicRS_cases_def, simp add:
        StruUserApplyMicRS_SharedCtor_def, (assumption | simp)+)+,
      rule fed_done, simp add: StruUserApplyMicRS_SharedCtor_def,
      unfold StruUserApplyMicRS_ByteSize_def length_write_fields size_group_sum, elim conjE, (drule enum_int_ok)+,
      simp add: add.assoc written_sizes split del: if_split)

lemma StruUserApplyMicRS_copies:
  "StruUserApplyMicRS_CopyFrom from m = from" "StruUserApplyMicRS_Swap m from = (from, m)"
proof -
  show "StruUserApplyMicRS_CopyFrom from m = from"
    by (rule StruUserApplyMicRS_pb.equality; cases "has (UserApplyMicRS_msg_id from) \<or> has
      (UserApplyMicRS_user_id from) \<or> has (UserApplyMicRS_room_id from) \<or> has (UserApplyMicRS_result from)
        \<or> has (UserApplyMicRS_mic_channel_str from)";
      simp add: StruUserApplyMicRS_CopyFrom_def StruUserApplyMicRS_MergeFrom_def StruUserApplyMicRS_Clear_def)
  show "StruUserApplyMicRS_Swap m from = (from, m)" by (cases "from"; cases m; simp add: StruUserApplyMicRS_Swap_def)
qed

lemma StruUserApplyMicRS_required:
  "StruUserApplyMicRS_IsInitialized m \<longleftrightarrow>
     has (UserApplyMicRS_msg_id m) \<and> has (UserApplyMicRS_user_id m) \<and>
     has (UserApplyMicRS_room_id m) \<and> has (UserApplyMicRS_result m) \<and>
     has (UserApplyMicRS_mic_channel_str m)"
  by (auto simp: StruUserApplyMicRS_IsInitialized_def has_masks)

section \<open>StruUserOnMicID\<close>

record 'u StruUserOnMicID_pb =
  UserOnMicID_msg_id :: "int option"
  UserOnMicID_mic_user_id :: "int option"
  UserOnMicID_mic_room_id :: "int option"
  UserOnMicID_mic_user_account_name :: "byte list option"
  UserOnMicID_mic_channel_str :: "byte list option"
  UserOnMicID_unknown :: "'u list"

definition StruUserOnMicID_SharedCtor :: "'u StruUserOnMicID_pb" where
  "StruUserOnMicID_SharedCtor = \<lparr>
     UserOnMicID_msg_id = None, UserOnMicID_mic_user_id = None, UserOnMicID_mic_room_id = None,
     UserOnMicID_mic_user_account_name = None, UserOnMicID_mic_channel_str = None, UserOnMicID_unknown = []\<rparr>"

definition StruUserOnMicID_Clear :: "'u StruUserOnMicID_pb \<Rightarrow> 'u StruUserOnMicID_pb" where
  "StruUserOnMicID_Clear m = m\<lparr>
     UserOnMicID_msg_id := None, UserOnMicID_mic_user_id := None, UserOnMicID_mic_room_id := None,
     UserOnMicID_mic_user_account_name := None, UserOnMicID_mic_channel_str := None, UserOnMicID_unknown := []\<rparr>"

definition StruUserOnMicID_cases :: "('i, 'u) wire \<Rightarrow> ('i, 'u StruUserOnMicID_pb) field_case list" where
  "StruUserOnMicID_cases W = [
     field_enum W 1 EnumMsgID_IsValid (\<lambda>v. UserOnMicID_msg_id_update (\<lambda>_. v))
       (\<lambda>v m. m\<lparr>UserOnMicID_unknown := w_AddVarint W 1 v (UserOnMicID_unknown m)\<rparr>) [(16, 2)] False,
     field_int32 W 2 (\<lambda>v. UserOnMicID_mic_user_id_update (\<lambda>_. v)) [(24, 3)] False,
     field_int32 W 3 (\<lambda>v. UserOnMicID_mic_room_id_update (\<lambda>_. v)) [(34, 4)] False,
     field_string W 4 UserOnMicID_mic_user_account_name (\<lambda>v. UserOnMicID_mic_user_account_name_update
       (\<lambda>_. v)) [(42, 5)] False,
     field_string W 5 UserOnMicID_mic_channel_str (\<lambda>v. UserOnMicID_mic_channel_str_update (\<lambda>_. v)) [] True]"

definition StruUserOnMicID_MergePartialFromCodedStream ::
  "('i, 'u) wire \<Rightarrow> 'i
    \<Rightarrow> 'u StruUserOnMicID_pb \<Rightarrow> (bool \<times> 'i \<times> 'u StruUserOnMicID_pb) res" where
  "StruUserOnMicID_MergePartialFromCodedStream W i m = merge_loop (merge_fuel W i) W (StruUserOnMicID_cases W)
     (skip_field W UserOnMicID_unknown (\<lambda>u. UserOnMicID_unknown_update (\<lambda>_. u))) None i m"

definition StruUserOnMicID_SerializeWithCachedSizes ::
  "('i, 'u) wire \<Rightarrow> 'u StruUserOnMicID_pb \<Rightarrow> byte list" where
  "StruUserOnMicID_SerializeWithCachedSizes W m = write_fields [
     (has (UserOnMicID_msg_id m), w_WriteEnum W 1 (value_or 6016 (UserOnMicID_msg_id m))),
     (has (UserOnMicID_mic_user_id m), w_WriteInt32 W 2 (value_or 0 (UserOnMicID_mic_user_id m))),
     (has (UserOnMicID_mic_room_id m), w_WriteInt32 W 3 (value_or 0 (UserOnMicID_mic_room_id m))),
     (has (UserOnMicID_mic_user_account_name m), w_WriteString W 4 (value_or [] (UserOnMicID_mic_user_account_name m))),
     (has (UserOnMicID_mic_channel_str m), w_WriteString W 5 (value_or [] (UserOnMicID_mic_channel_str m))),
     (UserOnMicID_unknown m \<noteq> [], w_WriteUnknown W (UserOnMicID_unknown m))]"

definition StruUserOnMicID_ByteSize :: "('i, 'u) wire \<Rightarrow> 'u StruUserOnMicID_pb \<Rightarrow> int" where
  "StruUserOnMicID_ByteSize W m = size_group [
     (has (UserOnMicID_msg_id m), 1 + w_EnumSize W (value_or 6016 (UserOnMicID_msg_id m))),
     (has (UserOnMicID_mic_user_id m), 1 + w_Int32Size W (value_or 0 (UserOnMicID_mic_user_id m))),
     (has (UserOnMicID_mic_room_id m), 1 + w_Int32Size W (value_or 0 (UserOnMicID_mic_room_id m))),
     (has (UserOnMicID_mic_user_account_name m), 1 + w_StringSize W (value_or [] (UserOnMicID_mic_user_account_name m))),
     (has (UserOnMicID_mic_channel_str m), 1 + w_StringSize W (value_or [] (UserOnMicID_mic_channel_str m)))]
     + (if UserOnMicID_unknown m \<noteq> [] then w_UnknownSize W (UserOnMicID_unknown m) else 0)"

definition StruUserOnMicID_MergeFrom ::
  "'u StruUserOnMicID_pb \<Rightarrow> 'u StruUserOnMicID_pb \<Rightarrow> 'u StruUserOnMicID_pb" where
  "StruUserOnMicID_MergeFrom from m = (
     let m1 = if has (UserOnMicID_msg_id from) \<or> has (UserOnMicID_mic_user_id from) \<or>
       has (UserOnMicID_mic_room_id from) \<or> has (UserOnMicID_mic_user_account_name from) \<or>
       has (UserOnMicID_mic_channel_str from)
       then m\<lparr>
         UserOnMicID_msg_id := merge_value 6016 (UserOnMicID_msg_id from) (UserOnMicID_msg_id m),
         UserOnMicID_mic_user_id := merge_value 0 (UserOnMicID_mic_user_id from) (UserOnMicID_mic_user_id m),
         UserOnMicID_mic_room_id := merge_value 0 (UserOnMicID_mic_room_id from) (UserOnMicID_mic_room_id m),
         UserOnMicID_mic_user_account_name := merge_value [] (UserOnMicID_mic_user_account_name from)
           (UserOnMicID_mic_user_account_name m),
         UserOnMicID_mic_channel_str := merge_value [] (UserOnMicID_mic_channel_str from)
           (UserOnMicID_mic_channel_str m)\<rparr>
       else m
     in
     m1\<lparr>UserOnMicID_unknown := UserOnMicID_unknown m1 @ UserOnMicID_unknown from\<rparr>)"

definition StruUserOnMicID_CopyFrom ::
  "'u StruUserOnMicID_pb \<Rightarrow> 'u StruUserOnMicID_pb \<Rightarrow> 'u StruUserOnMicID_pb" where
  "StruUserOnMicID_CopyFrom from m = StruUserOnMicID_MergeFrom from (StruUserOnMicID_Clear m)"

definition StruUserOnMicID_IsInitialized :: "'u StruUserOnMicID_pb \<Rightarrow> bool" where
  "StruUserOnMicID_IsInitialized m \<longleftrightarrow> has_bits [
       has (UserOnMicID_msg_id m), has (UserOnMicID_mic_user_id m), has (UserOnMicID_mic_room_id m),
       has (UserOnMicID_mic_user_account_name m), has (UserOnMicID_mic_channel_str m)] AND 0x1f = 0x1f"

definition StruUserOnMicID_Swap ::
  "'u StruUserOnMicID_pb \<Rightarrow> 'u StruUserOnMicID_pb
    \<Rightarrow> 'u StruUserOnMicID_pb \<times> 'u StruUserOnMicID_pb" where
  "StruUserOnMicID_Swap m other =
     (m\<lparr>
        UserOnMicID_msg_id := UserOnMicID_msg_id other,
        UserOnMicID_mic_user_id := UserOnMicID_mic_user_id other,
        UserOnMicID_mic_room_id := UserOnMicID_mic_room_id other,
        UserOnMicID_mic_user_account_name := UserOnMicID_mic_user_account_name other,
        UserOnMicID_mic_channel_str := UserOnMicID_mic_channel_str other,
        UserOnMicID_unknown := UserOnMicID_unknown other\<rparr>,
      other\<lparr>
        UserOnMicID_msg_id := UserOnMicID_msg_id m, UserOnMicID_mic_user_id := UserOnMicID_mic_user_id m,
        UserOnMicID_mic_room_id := UserOnMicID_mic_room_id m,
        UserOnMicID_mic_user_account_name := UserOnMicID_mic_user_account_name m,
        UserOnMicID_mic_channel_str := UserOnMicID_mic_channel_str m,
        UserOnMicID_unknown := UserOnMicID_unknown m\<rparr>)"

definition StruUserOnMicID_fits :: "'u StruUserOnMicID_pb \<Rightarrow> bool" where
  "StruUserOnMicID_fits m \<longleftrightarrow>
     enum_ok EnumMsgID_IsValid (UserOnMicID_msg_id m) \<and> int_ok (UserOnMicID_mic_user_id m) \<and>
     int_ok (UserOnMicID_mic_room_id m) \<and> str_ok (UserOnMicID_mic_user_account_name m) \<and>
     str_ok (UserOnMicID_mic_channel_str m) \<and> UserOnMicID_unknown m = []"

interpretation UserOnMicID: message_class StruUserOnMicID_cases
  "\<lambda>W. skip_field W UserOnMicID_unknown (\<lambda>u. UserOnMicID_unknown_update (\<lambda>_. u))"
  StruUserOnMicID_MergePartialFromCodedStream StruUserOnMicID_SharedCtor StruUserOnMicID_SerializeWithCachedSizes
  StruUserOnMicID_ByteSize StruUserOnMicID_IsInitialized "\<lambda>_. StruUserOnMicID_fits"
  by (unfold_locales, rule StruUserOnMicID_MergePartialFromCodedStream_def,
      simp add: StruUserOnMicID_cases_def cases_ok_def case_ok_def,
      simp add: StruUserOnMicID_cases_def field_ends,
      unfold StruUserOnMicID_fits_def StruUserOnMicID_SerializeWithCachedSizes_def, elim conjE, rule fed_eq,
      (rule fed_rules, assumption, simp add: StruUserOnMicID_cases_def, simp add: StruUserOnMicID_SharedCtor_def,
        (assumption | simp)+)+,
      rule fed_done, simp add: StruUserOnMicID_SharedCtor_def,
      unfold StruUserOnMicID_ByteSize_def length_write_fields size_group_sum, elim conjE, (drule enum_int_ok)+,
      simp add: add.assoc written_sizes split del: if_split)

lemma StruUserOnMicID_copies:
  "StruUserOnMicID_CopyFrom from m = from" "StruUserOnMicID_Swap m from = (from, m)"
proof -
  show "StruUserOnMicID_CopyFrom from m = from"
    by (rule StruUserOnMicID_pb.equality; cases "has (UserOnMicID_msg_id from) \<or> has (UserOnMicID_mic_user_id
      from) \<or> has (UserOnMicID_mic_room_id from) \<or> has (UserOnMicID_mic_user_account_name from) \<or> has
        (UserOnMicID_mic_channel_str from)";
      simp add: StruUserOnMicID_CopyFrom_def StruUserOnMicID_MergeFrom_def StruUserOnMicID_Clear_def)
  show "StruUserOnMicID_Swap m from = (from, m)" by (cases "from"; cases m; simp add: StruUserOnMicID_Swap_def)
qed

lemma StruUserOnMicID_required:
  "StruUserOnMicID_IsInitialized m \<longleftrightarrow>
     has (UserOnMicID_msg_id m) \<and> has (UserOnMicID_mic_user_id m) \<and>
     has (UserOnMicID_mic_room_id m) \<and> has (UserOnMicID_mic_user_account_name m) \<and>
     has (UserOnMicID_mic_channel_str m)"
  by (auto simp: StruUserOnMicID_IsInitialized_def has_masks)

section \<open>StruUserOffMicRQ\<close>

record 'u StruUserOffMicRQ_pb =
  UserOffMicRQ_msg_id :: "int option"
  UserOffMicRQ_user_id :: "int option"
  UserOffMicRQ_room_id :: "int option"
  UserOffMicRQ_unknown :: "'u list"

definition StruUserOffMicRQ_SharedCtor :: "'u StruUserOffMicRQ_pb" where
  "StruUserOffMicRQ_SharedCtor = \<lparr>
     UserOffMicRQ_msg_id = None, UserOffMicRQ_user_id = None, UserOffMicRQ_room_id = None,
     UserOffMicRQ_unknown = []\<rparr>"

definition StruUserOffMicRQ_Clear :: "'u StruUserOffMicRQ_pb \<Rightarrow> 'u StruUserOffMicRQ_pb" where
  "StruUserOffMicRQ_Clear m = m\<lparr>
     UserOffMicRQ_msg_id := None, UserOffMicRQ_user_id := None, UserOffMicRQ_room_id := None,
     UserOffMicRQ_unknown := []\<rparr>"

definition StruUserOffMicRQ_cases :: "('i, 'u) wire \<Rightarrow> ('i, 'u StruUserOffMicRQ_pb) field_case list" where
  "StruUserOffMicRQ_cases W = [
     field_enum W 1 EnumMsgID_IsValid (\<lambda>v. UserOffMicRQ_msg_id_update (\<lambda>_. v))
       (\<lambda>v m. m\<lparr>UserOffMicRQ_unknown := w_AddVarint W 1 v (UserOffMicRQ_unknown m)\<rparr>) [(16, 2)] False,
     field_int32 W 2 (\<lambda>v. UserOffMicRQ_user_id_update (\<lambda>_. v)) [(24, 3)] False,
     field_int32 W 3 (\<lambda>v. UserOffMicRQ_room_id_update (\<lambda>_. v)) [] True]"

definition StruUserOffMicRQ_MergePartialFromCodedStream ::
  "('i, 'u) wire \<Rightarrow> 'i
    \<Rightarrow> 'u StruUserOffMicRQ_pb \<Rightarrow> (bool \<times> 'i \<times> 'u StruUserOffMicRQ_pb) res" where
  "StruUserOffMicRQ_MergePartialFromCodedStream W i m = merge_loop (merge_fuel W i) W (StruUserOffMicRQ_cases W)
     (skip_field W UserOffMicRQ_unknown (\<lambda>u. UserOffMicRQ_unknown_update (\<lambda>_. u))) None i m"

definition StruUserOffMicRQ_SerializeWithCachedSizes ::
  "('i, 'u) wire \<Rightarrow> 'u StruUserOffMicRQ_pb \<Rightarrow> byte list" where
  "StruUserOffMicRQ_SerializeWithCachedSizes W m = write_fields [
     (has (UserOffMicRQ_msg_id m), w_WriteEnum W 1 (value_or 6017 (UserOffMicRQ_msg_id m))),
     (has (UserOffMicRQ_user_id m), w_WriteInt32 W 2 (value_or 0 (UserOffMicRQ_user_id m))),
     (has (UserOffMicRQ_room_id m), w_WriteInt32 W 3 (value_or 0 (UserOffMicRQ_room_id m))),
     (UserOffMicRQ_unknown m \<noteq> [], w_WriteUnknown W (UserOffMicRQ_unknown m))]"

definition StruUserOffMicRQ_ByteSize :: "('i, 'u) wire \<Rightarrow> 'u StruUserOffMicRQ_pb \<Rightarrow> int" where
  "StruUserOffMicRQ_ByteSize W m = size_group [
     (has (UserOffMicRQ_msg_id m), 1 + w_EnumSize W (value_or 6017 (UserOffMicRQ_msg_id m))),
     (has (UserOffMicRQ_user_id m), 1 + w_Int32Size W (value_or 0 (UserOffMicRQ_user_id m))),
     (has (UserOffMicRQ_room_id m), 1 + w_Int32Size W (value_or 0 (UserOffMicRQ_room_id m)))]
     + (if UserOffMicRQ_unknown m \<noteq> [] then w_UnknownSize W (UserOffMicRQ_unknown m) else 0)"

definition StruUserOffMicRQ_MergeFrom ::
  "'u StruUserOffMicRQ_pb \<Rightarrow> 'u StruUserOffMicRQ_pb \<Rightarrow> 'u StruUserOffMicRQ_pb" where
  "StruUserOffMicRQ_MergeFrom from m = (
     let m1 = if has (UserOffMicRQ_msg_id from) \<or> has (UserOffMicRQ_user_id from) \<or>
       has (UserOffMicRQ_room_id from)
       then m\<lparr>
         UserOffMicRQ_msg_id := merge_value 6017 (UserOffMicRQ_msg_id from) (UserOffMicRQ_msg_id m),
         UserOffMicRQ_user_id := merge_value 0 (UserOffMicRQ_user_id from) (UserOffMicRQ_user_id m),
         UserOffMicRQ_room_id := merge_value 0 (UserOffMicRQ_room_id from) (UserOffMicRQ_room_id m)\<rparr>
       else m
     in
     m1\<lparr>UserOffMicRQ_unknown := UserOffMicRQ_unknown m1 @ UserOffMicRQ_unknown from\<rparr>)"

definition StruUserOffMicRQ_CopyFrom ::
  "'u StruUserOffMicRQ_pb \<Rightarrow> 'u StruUserOffMicRQ_pb \<Rightarrow> 'u StruUserOffMicRQ_pb" where
  "StruUserOffMicRQ_CopyFrom from m = StruUserOffMicRQ_MergeFrom from (StruUserOffMicRQ_Clear m)"

definition StruUserOffMicRQ_IsInitialized :: "'u StruUserOffMicRQ_pb \<Rightarrow> bool" where
  "StruUserOffMicRQ_IsInitialized m \<longleftrightarrow> has_bits [
       has (UserOffMicRQ_msg_id m), has (UserOffMicRQ_user_id m), has (UserOffMicRQ_room_id m)] AND 0x7 = 0x7"

definition StruUserOffMicRQ_Swap ::
  "'u StruUserOffMicRQ_pb \<Rightarrow> 'u StruUserOffMicRQ_pb
    \<Rightarrow> 'u StruUserOffMicRQ_pb \<times> 'u StruUserOffMicRQ_pb" where
  "StruUserOffMicRQ_Swap m other =
     (m\<lparr>
        UserOffMicRQ_msg_id := UserOffMicRQ_msg_id other, UserOffMicRQ_user_id := UserOffMicRQ_user_id other,
        UserOffMicRQ_room_id := UserOffMicRQ_room_id other, UserOffMicRQ_unknown := UserOffMicRQ_unknown other\<rparr>,
      other\<lparr>
        UserOffMicRQ_msg_id := UserOffMicRQ_msg_id m, UserOffMicRQ_user_id := UserOffMicRQ_user_id m,
        UserOffMicRQ_room_id := UserOffMicRQ_room_id m, UserOffMicRQ_unknown := UserOffMicRQ_unknown m\<rparr>)"

definition StruUserOffMicRQ_fits :: "'u StruUserOffMicRQ_pb \<Rightarrow> bool" where
  "StruUserOffMicRQ_fits m \<longleftrightarrow>
     enum_ok EnumMsgID_IsValid (UserOffMicRQ_msg_id m) \<and> int_ok (UserOffMicRQ_user_id m) \<and>
     int_ok (UserOffMicRQ_room_id m) \<and> UserOffMicRQ_unknown m = []"

interpretation UserOffMicRQ: message_class StruUserOffMicRQ_cases
  "\<lambda>W. skip_field W UserOffMicRQ_unknown (\<lambda>u. UserOffMicRQ_unknown_update (\<lambda>_. u))"
  StruUserOffMicRQ_MergePartialFromCodedStream StruUserOffMicRQ_SharedCtor StruUserOffMicRQ_SerializeWithCachedSizes
  StruUserOffMicRQ_ByteSize StruUserOffMicRQ_IsInitialized "\<lambda>_. StruUserOffMicRQ_fits"
  by (unfold_locales, rule StruUserOffMicRQ_MergePartialFromCodedStream_def,
      simp add: StruUserOffMicRQ_cases_def cases_ok_def case_ok_def,
      simp add: StruUserOffMicRQ_cases_def field_ends,
      unfold StruUserOffMicRQ_fits_def StruUserOffMicRQ_SerializeWithCachedSizes_def, elim conjE, rule fed_eq,
      (rule fed_rules, assumption, simp add: StruUserOffMicRQ_cases_def, simp add: StruUserOffMicRQ_SharedCtor_def,
        (assumption | simp)+)+,
      rule fed_done, simp add: StruUserOffMicRQ_SharedCtor_def,
      unfold StruUserOffMicRQ_ByteSize_def length_write_fields size_group_sum, elim conjE, (drule enum_int_ok)+,
      simp add: add.assoc written_sizes split del: if_split)

lemma StruUserOffMicRQ_copies:
  "StruUserOffMicRQ_CopyFrom from m = from" "StruUserOffMicRQ_Swap m from = (from, m)"
proof -
  show "StruUserOffMicRQ_CopyFrom from m = from"
    by (rule StruUserOffMicRQ_pb.equality; cases "has (UserOffMicRQ_msg_id from) \<or> has (UserOffMicRQ_user_id
      from) \<or> has (UserOffMicRQ_room_id from)";
      simp add: StruUserOffMicRQ_CopyFrom_def StruUserOffMicRQ_MergeFrom_def StruUserOffMicRQ_Clear_def)
  show "StruUserOffMicRQ_Swap m from = (from, m)" by (cases "from"; cases m; simp add: StruUserOffMicRQ_Swap_def)
qed

lemma StruUserOffMicRQ_required:
  "StruUserOffMicRQ_IsInitialized m \<longleftrightarrow>
     has (UserOffMicRQ_msg_id m) \<and> has (UserOffMicRQ_user_id m) \<and> has (UserOffMicRQ_room_id m)"
  by (auto simp: StruUserOffMicRQ_IsInitialized_def has_masks)

section \<open>StruUserOffMicRS\<close>

record 'u StruUserOffMicRS_pb =
  UserOffMicRS_msg_id :: "int option"
  UserOffMicRS_user_id :: "int option"
  UserOffMicRS_room_id :: "int option"
  UserOffMicRS_result :: "int option"
  UserOffMicRS_unknown :: "'u list"

definition StruUserOffMicRS_SharedCtor :: "'u StruUserOffMicRS_pb" where
  "StruUserOffMicRS_SharedCtor = \<lparr>
     UserOffMicRS_msg_id = None, UserOffMicRS_user_id = None, UserOffMicRS_room_id = None,
     UserOffMicRS_result = None, UserOffMicRS_unknown = []\<rparr>"

definition StruUserOffMicRS_Clear :: "'u StruUserOffMicRS_pb \<Rightarrow> 'u StruUserOffMicRS_pb" where
  "StruUserOffMicRS_Clear m = m\<lparr>
     UserOffMicRS_msg_id := None, UserOffMicRS_user_id := None, UserOffMicRS_room_id := None,
     UserOffMicRS_result := None, UserOffMicRS_unknown := []\<rparr>"

definition StruUserOffMicRS_cases :: "('i, 'u) wire \<Rightarrow> ('i, 'u StruUserOffMicRS_pb) field_case list" where
  "StruUserOffMicRS_cases W = [
     field_enum W 1 EnumMsgID_IsValid (\<lambda>v. UserOffMicRS_msg_id_update (\<lambda>_. v))
       (\<lambda>v m. m\<lparr>UserOffMicRS_unknown := w_AddVarint W 1 v (UserOffMicRS_unknown m)\<rparr>) [(16, 2)] False,
     field_int32 W 2 (\<lambda>v. UserOffMicRS_user_id_update (\<lambda>_. v)) [(24, 3)] False,
     field_int32 W 3 (\<lambda>v. UserOffMicRS_room_id_update (\<lambda>_. v)) [(32, 4)] False,
     field_int32 W 4 (\<lambda>v. UserOffMicRS_result_update (\<lambda>_. v)) [] True]"

definition StruUserOffMicRS_MergePartialFromCodedStream ::
  "('i, 'u) wire \<Rightarrow> 'i
    \<Rightarrow> 'u StruUserOffMicRS_pb \<Rightarrow> (bool \<times> 'i \<times> 'u StruUserOffMicRS_pb) res" where
  "StruUserOffMicRS_MergePartialFromCodedStream W i m = merge_loop (merge_fuel W i) W (StruUserOffMicRS_cases W)
     (skip_field W UserOffMicRS_unknown (\<lambda>u. UserOffMicRS_unknown_update (\<lambda>_. u))) None i m"

definition StruUserOffMicRS_SerializeWithCachedSizes ::
  "('i, 'u) wire \<Rightarrow> 'u StruUserOffMicRS_pb \<Rightarrow> byte list" where
  "StruUserOffMicRS_SerializeWithCachedSizes W m = write_fields [
     (has (UserOffMicRS_msg_id m), w_WriteEnum W 1 (value_or 6018 (UserOffMicRS_msg_id m))),
     (has (UserOffMicRS_user_id m), w_WriteInt32 W 2 (value_or 0 (UserOffMicRS_user_id m))),
     (has (UserOffMicRS_room_id m), w_WriteInt32 W 3 (value_or 0 (UserOffMicRS_room_id m))),
     (has (UserOffMicRS_result m), w_WriteInt32 W 4 (value_or 0 (UserOffMicRS_result m))),
     (UserOffMicRS_unknown m \<noteq> [], w_WriteUnknown W (UserOffMicRS_unknown m))]"

definition StruUserOffMicRS_ByteSize :: "('i, 'u) wire \<Rightarrow> 'u StruUserOffMicRS_pb \<Rightarrow> int" where
  "StruUserOffMicRS_ByteSize W m = size_group [
     (has (UserOffMicRS_msg_id m), 1 + w_EnumSize W (value_or 6018 (UserOffMicRS_msg_id m))),
     (has (UserOffMicRS_user_id m), 1 + w_Int32Size W (value_or 0 (UserOffMicRS_user_id m))),
     (has (UserOffMicRS_room_id m), 1 + w_Int32Size W (value_or 0 (UserOffMicRS_room_id m))),
     (has (UserOffMicRS_result m), 1 + w_Int32Size W (value_or 0 (UserOffMicRS_result m)))]
     + (if UserOffMicRS_unknown m \<noteq> [] then w_UnknownSize W (UserOffMicRS_unknown m) else 0)"

definition StruUserOffMicRS_MergeFrom ::
  "'u StruUserOffMicRS_pb \<Rightarrow> 'u StruUserOffMicRS_pb \<Rightarrow> 'u StruUserOffMicRS_pb" where
  "StruUserOffMicRS_MergeFrom from m = (
     let m1 = if has (UserOffMicRS_msg_id from) \<or> has (UserOffMicRS_user_id from) \<or>
       has (UserOffMicRS_room_id from) \<or> has (UserOffMicRS_result from)
       then m\<lparr>
         UserOffMicRS_msg_id := merge_value 6018 (UserOffMicRS_msg_id from) (UserOffMicRS_msg_id m),
         UserOffMicRS_user_id := merge_value 0 (UserOffMicRS_user_id from) (UserOffMicRS_user_id m),
         UserOffMicRS_room_id := merge_value 0 (UserOffMicRS_room_id from) (UserOffMicRS_room_id m),
         UserOffMicRS_result := merge_value 0 (UserOffMicRS_result from) (UserOffMicRS_result m)\<rparr>
       else m
     in
     m1\<lparr>UserOffMicRS_unknown := UserOffMicRS_unknown m1 @ UserOffMicRS_unknown from\<rparr>)"

definition StruUserOffMicRS_CopyFrom ::
  "'u StruUserOffMicRS_pb \<Rightarrow> 'u StruUserOffMicRS_pb \<Rightarrow> 'u StruUserOffMicRS_pb" where
  "StruUserOffMicRS_CopyFrom from m = StruUserOffMicRS_MergeFrom from (StruUserOffMicRS_Clear m)"

definition StruUserOffMicRS_IsInitialized :: "'u StruUserOffMicRS_pb \<Rightarrow> bool" where
  "StruUserOffMicRS_IsInitialized m \<longleftrightarrow> has_bits [
       has (UserOffMicRS_msg_id m), has (UserOffMicRS_user_id m), has (UserOffMicRS_room_id m),
       has (UserOffMicRS_result m)] AND 0xf = 0xf"

definition StruUserOffMicRS_Swap ::
  "'u StruUserOffMicRS_pb \<Rightarrow> 'u StruUserOffMicRS_pb
    \<Rightarrow> 'u StruUserOffMicRS_pb \<times> 'u StruUserOffMicRS_pb" where
  "StruUserOffMicRS_Swap m other =
     (m\<lparr>
        UserOffMicRS_msg_id := UserOffMicRS_msg_id other, UserOffMicRS_user_id := UserOffMicRS_user_id other,
        UserOffMicRS_room_id := UserOffMicRS_room_id other, UserOffMicRS_result := UserOffMicRS_result other,
        UserOffMicRS_unknown := UserOffMicRS_unknown other\<rparr>,
      other\<lparr>
        UserOffMicRS_msg_id := UserOffMicRS_msg_id m, UserOffMicRS_user_id := UserOffMicRS_user_id m,
        UserOffMicRS_room_id := UserOffMicRS_room_id m, UserOffMicRS_result := UserOffMicRS_result m,
        UserOffMicRS_unknown := UserOffMicRS_unknown m\<rparr>)"

definition StruUserOffMicRS_fits :: "'u StruUserOffMicRS_pb \<Rightarrow> bool" where
  "StruUserOffMicRS_fits m \<longleftrightarrow>
     enum_ok EnumMsgID_IsValid (UserOffMicRS_msg_id m) \<and> int_ok (UserOffMicRS_user_id m) \<and>
     int_ok (UserOffMicRS_room_id m) \<and> int_ok (UserOffMicRS_result m) \<and> UserOffMicRS_unknown m = []"

interpretation UserOffMicRS: message_class StruUserOffMicRS_cases
  "\<lambda>W. skip_field W UserOffMicRS_unknown (\<lambda>u. UserOffMicRS_unknown_update (\<lambda>_. u))"
  StruUserOffMicRS_MergePartialFromCodedStream StruUserOffMicRS_SharedCtor StruUserOffMicRS_SerializeWithCachedSizes
  StruUserOffMicRS_ByteSize StruUserOffMicRS_IsInitialized "\<lambda>_. StruUserOffMicRS_fits"
  by (unfold_locales, rule StruUserOffMicRS_MergePartialFromCodedStream_def,
      simp add: StruUserOffMicRS_cases_def cases_ok_def case_ok_def,
      simp add: StruUserOffMicRS_cases_def field_ends,
      unfold StruUserOffMicRS_fits_def StruUserOffMicRS_SerializeWithCachedSizes_def, elim conjE, rule fed_eq,
      (rule fed_rules, assumption, simp add: StruUserOffMicRS_cases_def, simp add: StruUserOffMicRS_SharedCtor_def,
        (assumption | simp)+)+,
      rule fed_done, simp add: StruUserOffMicRS_SharedCtor_def,
      unfold StruUserOffMicRS_ByteSize_def length_write_fields size_group_sum, elim conjE, (drule enum_int_ok)+,
      simp add: add.assoc written_sizes split del: if_split)

lemma StruUserOffMicRS_copies:
  "StruUserOffMicRS_CopyFrom from m = from" "StruUserOffMicRS_Swap m from = (from, m)"
proof -
  show "StruUserOffMicRS_CopyFrom from m = from"
    by (rule StruUserOffMicRS_pb.equality; cases "has (UserOffMicRS_msg_id from) \<or> has (UserOffMicRS_user_id
      from) \<or> has (UserOffMicRS_room_id from) \<or> has (UserOffMicRS_result from)";
      simp add: StruUserOffMicRS_CopyFrom_def StruUserOffMicRS_MergeFrom_def StruUserOffMicRS_Clear_def)
  show "StruUserOffMicRS_Swap m from = (from, m)" by (cases "from"; cases m; simp add: StruUserOffMicRS_Swap_def)
qed

lemma StruUserOffMicRS_required:
  "StruUserOffMicRS_IsInitialized m \<longleftrightarrow>
     has (UserOffMicRS_msg_id m) \<and> has (UserOffMicRS_user_id m) \<and> has (UserOffMicRS_room_id m) \<and>
     has (UserOffMicRS_result m)"
  by (auto simp: StruUserOffMicRS_IsInitialized_def has_masks)

section \<open>StruUserOffMicID\<close>

record 'u StruUserOffMicID_pb =
  UserOffMicID_msg_id :: "int option"
  UserOffMicID_mic_user_id :: "int option"
  UserOffMicID_mic_room_id :: "int option"
  UserOffMicID_mic_user_account_name :: "byte list option"
  UserOffMicID_mic_channel_str :: "byte list option"
  UserOffMicID_unknown :: "'u list"

definition StruUserOffMicID_SharedCtor :: "'u StruUserOffMicID_pb" where
  "StruUserOffMicID_SharedCtor = \<lparr>
     UserOffMicID_msg_id = None, UserOffMicID_mic_user_id = None, UserOffMicID_mic_room_id = None,
     UserOffMicID_mic_user_account_name = None, UserOffMicID_mic_channel_str = None, UserOffMicID_unknown = []\<rparr>"

definition StruUserOffMicID_Clear :: "'u StruUserOffMicID_pb \<Rightarrow> 'u StruUserOffMicID_pb" where
  "StruUserOffMicID_Clear m = m\<lparr>
     UserOffMicID_msg_id := None, UserOffMicID_mic_user_id := None, UserOffMicID_mic_room_id := None,
     UserOffMicID_mic_user_account_name := None, UserOffMicID_mic_channel_str := None,
     UserOffMicID_unknown := []\<rparr>"

definition StruUserOffMicID_cases :: "('i, 'u) wire \<Rightarrow> ('i, 'u StruUserOffMicID_pb) field_case list" where
  "StruUserOffMicID_cases W = [
     field_enum W 1 EnumMsgID_IsValid (\<lambda>v. UserOffMicID_msg_id_update (\<lambda>_. v))
       (\<lambda>v m. m\<lparr>UserOffMicID_unknown := w_AddVarint W 1 v (UserOffMicID_unknown m)\<rparr>) [(16, 2)] False,
     field_int32 W 2 (\<lambda>v. UserOffMicID_mic_user_id_update (\<lambda>_. v)) [(24, 3)] False,
     field_int32 W 3 (\<lambda>v. UserOffMicID_mic_room_id_update (\<lambda>_. v)) [(34, 4)] False,
     field_string W 4 UserOffMicID_mic_user_account_name (\<lambda>v. UserOffMicID_mic_user_account_name_update
       (\<lambda>_. v)) [(42, 5)] False,
     field_string W 5 UserOffMicID_mic_channel_str (\<lambda>v. UserOffMicID_mic_channel_str_update (\<lambda>_. v))
       [] True]"

definition StruUserOffMicID_MergePartialFromCodedStream ::
  "('i, 'u) wire \<Rightarrow> 'i
    \<Rightarrow> 'u StruUserOffMicID_pb \<Rightarrow> (bool \<times> 'i \<times> 'u StruUserOffMicID_pb) res" where
  "StruUserOffMicID_MergePartialFromCodedStream W i m = merge_loop (merge_fuel W i) W (StruUserOffMicID_cases W)
     (skip_field W UserOffMicID_unknown (\<lambda>u. UserOffMicID_unknown_update (\<lambda>_. u))) None i m"

definition StruUserOffMicID_SerializeWithCachedSizes ::
  "('i, 'u) wire \<Rightarrow> 'u StruUserOffMicID_pb \<Rightarrow> byte list" where
  "StruUserOffMicID_SerializeWithCachedSizes W m = write_fields [
     (has (UserOffMicID_msg_id m), w_WriteEnum W 1 (value_or 6019 (UserOffMicID_msg_id m))),
     (has (UserOffMicID_mic_user_id m), w_WriteInt32 W 2 (value_or 0 (UserOffMicID_mic_user_id m))),
     (has (UserOffMicID_mic_room_id m), w_WriteInt32 W 3 (value_or 0 (UserOffMicID_mic_room_id m))),
     (has (UserOffMicID_mic_user_account_name m), w_WriteString W 4 (value_or [] (UserOffMicID_mic_user_account_name m))),
     (has (UserOffMicID_mic_channel_str m), w_WriteString W 5 (value_or [] (UserOffMicID_mic_channel_str m))),
     (UserOffMicID_unknown m \<noteq> [], w_WriteUnknown W (UserOffMicID_unknown m))]"

definition StruUserOffMicID_ByteSize :: "('i, 'u) wire \<Rightarrow> 'u StruUserOffMicID_pb \<Rightarrow> int" where
  "StruUserOffMicID_ByteSize W m = size_group [
     (has (UserOffMicID_msg_id m), 1 + w_EnumSize W (value_or 6019 (UserOffMicID_msg_id m))),
     (has (UserOffMicID_mic_user_id m), 1 + w_Int32Size W (value_or 0 (UserOffMicID_mic_user_id m))),
     (has (UserOffMicID_mic_room_id m), 1 + w_Int32Size W (value_or 0 (UserOffMicID_mic_room_id m))),
     (has (UserOffMicID_mic_user_account_name m), 1 + w_StringSize W (value_or [] (UserOffMicID_mic_user_account_name m))),
     (has (UserOffMicID_mic_channel_str m), 1 + w_StringSize W (value_or [] (UserOffMicID_mic_channel_str m)))]
     + (if UserOffMicID_unknown m \<noteq> [] then w_UnknownSize W (UserOffMicID_unknown m) else 0)"

definition StruUserOffMicID_MergeFrom ::
  "'u StruUserOffMicID_pb \<Rightarrow> 'u StruUserOffMicID_pb \<Rightarrow> 'u StruUserOffMicID_pb" where
  "StruUserOffMicID_MergeFrom from m = (
     let m1 = if has (UserOffMicID_msg_id from) \<or> has (UserOffMicID_mic_user_id from) \<or>
       has (UserOffMicID_mic_room_id from) \<or> has (UserOffMicID_mic_user_account_name from) \<or>
       has (UserOffMicID_mic_channel_str from)
       then m\<lparr>
         UserOffMicID_msg_id := merge_value 6019 (UserOffMicID_msg_id from) (UserOffMicID_msg_id m),
         UserOffMicID_mic_user_id := merge_value 0 (UserOffMicID_mic_user_id from) (UserOffMicID_mic_user_id m),
         UserOffMicID_mic_room_id := merge_value 0 (UserOffMicID_mic_room_id from) (UserOffMicID_mic_room_id m),
         UserOffMicID_mic_user_account_name := merge_value [] (UserOffMicID_mic_user_account_name from)
           (UserOffMicID_mic_user_account_name m),
         UserOffMicID_mic_channel_str := merge_value [] (UserOffMicID_mic_channel_str from)
           (UserOffMicID_mic_channel_str m)\<rparr>
       else m
     in
     m1\<lparr>UserOffMicID_unknown := UserOffMicID_unknown m1 @ UserOffMicID_unknown from\<rparr>)"

definition StruUserOffMicID_CopyFrom ::
  "'u StruUserOffMicID_pb \<Rightarrow> 'u StruUserOffMicID_pb \<Rightarrow> 'u StruUserOffMicID_pb" where
  "StruUserOffMicID_CopyFrom from m = StruUserOffMicID_MergeFrom from (StruUserOffMicID_Clear m)"

definition StruUserOffMicID_IsInitialized :: "'u StruUserOffMicID_pb \<Rightarrow> bool" where
  "StruUserOffMicID_IsInitialized m \<longleftrightarrow> has_bits [
       has (UserOffMicID_msg_id m), has (UserOffMicID_mic_user_id m), has (UserOffMicID_mic_room_id m),
       has (UserOffMicID_mic_user_account_name m), has (UserOffMicID_mic_channel_str m)] AND 0x1f = 0x1f"

definition StruUserOffMicID_Swap ::
  "'u StruUserOffMicID_pb \<Rightarrow> 'u StruUserOffMicID_pb
    \<Rightarrow> 'u StruUserOffMicID_pb \<times> 'u StruUserOffMicID_pb" where
  "StruUserOffMicID_Swap m other =
     (m\<lparr>
        UserOffMicID_msg_id := UserOffMicID_msg_id other,
        UserOffMicID_mic_user_id := UserOffMicID_mic_user_id other,
        UserOffMicID_mic_room_id := UserOffMicID_mic_room_id other,
        UserOffMicID_mic_user_account_name := UserOffMicID_mic_user_account_name other,
        UserOffMicID_mic_channel_str := UserOffMicID_mic_channel_str other,
        UserOffMicID_unknown := UserOffMicID_unknown other\<rparr>,
      other\<lparr>
        UserOffMicID_msg_id := UserOffMicID_msg_id m, UserOffMicID_mic_user_id := UserOffMicID_mic_user_id m,
        UserOffMicID_mic_room_id := UserOffMicID_mic_room_id m,
        UserOffMicID_mic_user_account_name := UserOffMicID_mic_user_account_name m,
        UserOffMicID_mic_channel_str := UserOffMicID_mic_channel_str m,
        UserOffMicID_unknown := UserOffMicID_unknown m\<rparr>)"

definition StruUserOffMicID_fits :: "'u StruUserOffMicID_pb \<Rightarrow> bool" where
  "StruUserOffMicID_fits m \<longleftrightarrow>
     enum_ok EnumMsgID_IsValid (UserOffMicID_msg_id m) \<and> int_ok (UserOffMicID_mic_user_id m) \<and>
     int_ok (UserOffMicID_mic_room_id m) \<and> str_ok (UserOffMicID_mic_user_account_name m) \<and>
     str_ok (UserOffMicID_mic_channel_str m) \<and> UserOffMicID_unknown m = []"

interpretation UserOffMicID: message_class StruUserOffMicID_cases
  "\<lambda>W. skip_field W UserOffMicID_unknown (\<lambda>u. UserOffMicID_unknown_update (\<lambda>_. u))"
  StruUserOffMicID_MergePartialFromCodedStream StruUserOffMicID_SharedCtor StruUserOffMicID_SerializeWithCachedSizes
  StruUserOffMicID_ByteSize StruUserOffMicID_IsInitialized "\<lambda>_. StruUserOffMicID_fits"
  by (unfold_locales, rule StruUserOffMicID_MergePartialFromCodedStream_def,
      simp add: StruUserOffMicID_cases_def cases_ok_def case_ok_def,
      simp add: StruUserOffMicID_cases_def field_ends,
      unfold StruUserOffMicID_fits_def StruUserOffMicID_SerializeWithCachedSizes_def, elim conjE, rule fed_eq,
      (rule fed_rules, assumption, simp add: StruUserOffMicID_cases_def, simp add: StruUserOffMicID_SharedCtor_def,
        (assumption | simp)+)+,
      rule fed_done, simp add: StruUserOffMicID_SharedCtor_def,
      unfold StruUserOffMicID_ByteSize_def length_write_fields size_group_sum, elim conjE, (drule enum_int_ok)+,
      simp add: add.assoc written_sizes split del: if_split)

lemma StruUserOffMicID_copies:
  "StruUserOffMicID_CopyFrom from m = from" "StruUserOffMicID_Swap m from = (from, m)"
proof -
  show "StruUserOffMicID_CopyFrom from m = from"
    by (rule StruUserOffMicID_pb.equality; cases "has (UserOffMicID_msg_id from) \<or> has (UserOffMicID_mic_user_id
      from) \<or> has (UserOffMicID_mic_room_id from) \<or> has (UserOffMicID_mic_user_account_name from) \<or> has
        (UserOffMicID_mic_channel_str from)";
      simp add: StruUserOffMicID_CopyFrom_def StruUserOffMicID_MergeFrom_def StruUserOffMicID_Clear_def)
  show "StruUserOffMicID_Swap m from = (from, m)" by (cases "from"; cases m; simp add: StruUserOffMicID_Swap_def)
qed

lemma StruUserOffMicID_required:
  "StruUserOffMicID_IsInitialized m \<longleftrightarrow>
     has (UserOffMicID_msg_id m) \<and> has (UserOffMicID_mic_user_id m) \<and>
     has (UserOffMicID_mic_room_id m) \<and> has (UserOffMicID_mic_user_account_name m) \<and>
     has (UserOffMicID_mic_channel_str m)"
  by (auto simp: StruUserOffMicID_IsInitialized_def has_masks)

section \<open>StruPutUserOnMicRQ\<close>

record 'u StruPutUserOnMicRQ_pb =
  PutUserOnMicRQ_msg_id :: "int option"
  PutUserOnMicRQ_user_id :: "int option"
  PutUserOnMicRQ_room_id :: "int option"
  PutUserOnMicRQ_dst_user_id :: "int option"
  PutUserOnMicRQ_mic_type :: "int option"
  PutUserOnMicRQ_unknown :: "'u list"

definition StruPutUserOnMicRQ_SharedCtor :: "'u StruPutUserOnMicRQ_pb" where
  "StruPutUserOnMicRQ_SharedCtor = \<lparr>
     PutUserOnMicRQ_msg_id = None, PutUserOnMicRQ_user_id = None, PutUserOnMicRQ_room_id = None,
     PutUserOnMicRQ_dst_user_id = None, PutUserOnMicRQ_mic_type = None, PutUserOnMicRQ_unknown = []\<rparr>"

definition StruPutUserOnMicRQ_Clear :: "'u StruPutUserOnMicRQ_pb \<Rightarrow> 'u StruPutUserOnMicRQ_pb" where
  "StruPutUserOnMicRQ_Clear m = m\<lparr>
     PutUserOnMicRQ_msg_id := None, PutUserOnMicRQ_user_id := None, PutUserOnMicRQ_room_id := None,
     PutUserOnMicRQ_dst_user_id := None, PutUserOnMicRQ_mic_type := None, PutUserOnMicRQ_unknown := []\<rparr>"

definition StruPutUserOnMicRQ_cases ::
  "('i, 'u) wire \<Rightarrow> ('i, 'u StruPutUserOnMicRQ_pb) field_case list" where
  "StruPutUserOnMicRQ_cases W = [
     field_enum W 1 EnumMsgID_IsValid (\<lambda>v. PutUserOnMicRQ_msg_id_update (\<lambda>_. v))
       (\<lambda>v m. m\<lparr>PutUserOnMicRQ_unknown := w_AddVarint W 1 v (PutUserOnMicRQ_unknown m)\<rparr>) [(16,
         2)] False,
     field_int32 W 2 (\<lambda>v. PutUserOnMicRQ_user_id_update (\<lambda>_. v)) [(24, 3)] False,
     field_int32 W 3 (\<lambda>v. PutUserOnMicRQ_room_id_update (\<lambda>_. v)) [(32, 4)] False,
     field_int32 W 4 (\<lambda>v. PutUserOnMicRQ_dst_user_id_update (\<lambda>_. v)) [(40, 5)] False,
     field_int32 W 5 (\<lambda>v. PutUserOnMicRQ_mic_type_update (\<lambda>_. v)) [] True]"

definition StruPutUserOnMicRQ_MergePartialFromCodedStream ::
  "('i, 'u) wire \<Rightarrow> 'i \<Rightarrow> 'u StruPutUserOnMicRQ_pb
    \<Rightarrow> (bool \<times> 'i \<times> 'u StruPutUserOnMicRQ_pb) res" where
  "StruPutUserOnMicRQ_MergePartialFromCodedStream W i m = merge_loop (merge_fuel W i) W (StruPutUserOnMicRQ_cases W)
     (skip_field W PutUserOnMicRQ_unknown (\<lambda>u. PutUserOnMicRQ_unknown_update (\<lambda>_. u))) None i m"

definition StruPutUserOnMicRQ_SerializeWithCachedSizes ::
  "('i, 'u) wire \<Rightarrow> 'u StruPutUserOnMicRQ_pb \<Rightarrow> byte list" where
  "StruPutUserOnMicRQ_SerializeWithCachedSizes W m = write_fields [
     (has (PutUserOnMicRQ_msg_id m), w_WriteEnum W 1 (value_or 6020 (PutUserOnMicRQ_msg_id m))),
     (has (PutUserOnMicRQ_user_id m), w_WriteInt32 W 2 (value_or 0 (PutUserOnMicRQ_user_id m))),
     (has (PutUserOnMicRQ_room_id m), w_WriteInt32 W 3 (value_or 0 (PutUserOnMicRQ_room_id m))),
     (has (PutUserOnMicRQ_dst_user_id m), w_WriteInt32 W 4 (value_or 0 (PutUserOnMicRQ_dst_user_id m))),
     (has (PutUserOnMicRQ_mic_type m), w_WriteInt32 W 5 (value_or 0 (PutUserOnMicRQ_mic_type m))),
     (PutUserOnMicRQ_unknown m \<noteq> [], w_WriteUnknown W (PutUserOnMicRQ_unknown m))]"

definition StruPutUserOnMicRQ_ByteSize ::
  "('i, 'u) wire \<Rightarrow> 'u StruPutUserOnMicRQ_pb \<Rightarrow> int" where
  "StruPutUserOnMicRQ_ByteSize W m = size_group [
     (has (PutUserOnMicRQ_msg_id m), 1 + w_EnumSize W (value_or 6020 (PutUserOnMicRQ_msg_id m))),
     (has (PutUserOnMicRQ_user_id m), 1 + w_Int32Size W (value_or 0 (PutUserOnMicRQ_user_id m))),
     (has (PutUserOnMicRQ_room_id m), 1 + w_Int32Size W (value_or 0 (PutUserOnMicRQ_room_id m))),
     (has (PutUserOnMicRQ_dst_user_id m), 1 + w_Int32Size W (value_or 0 (PutUserOnMicRQ_dst_user_id m))),
     (has (PutUserOnMicRQ_mic_type m), 1 + w_Int32Size W (value_or 0 (PutUserOnMicRQ_mic_type m)))]
     + (if PutUserOnMicRQ_unknown m \<noteq> [] then w_UnknownSize W (PutUserOnMicRQ_unknown m) else 0)"

definition StruPutUserOnMicRQ_MergeFrom ::
  "'u StruPutUserOnMicRQ_pb \<Rightarrow> 'u StruPutUserOnMicRQ_pb \<Rightarrow> 'u StruPutUserOnMicRQ_pb" where
  "StruPutUserOnMicRQ_MergeFrom from m = (
     let m1 = if has (PutUserOnMicRQ_msg_id from) \<or> has (PutUserOnMicRQ_user_id from) \<or>
       has (PutUserOnMicRQ_room_id from) \<or> has (PutUserOnMicRQ_dst_user_id from) \<or>
       has (PutUserOnMicRQ_mic_type from)
       then m\<lparr>
         PutUserOnMicRQ_msg_id := merge_value 6020 (PutUserOnMicRQ_msg_id from) (PutUserOnMicRQ_msg_id m),
         PutUserOnMicRQ_user_id := merge_value 0 (PutUserOnMicRQ_user_id from) (PutUserOnMicRQ_user_id m),
         PutUserOnMicRQ_room_id := merge_value 0 (PutUserOnMicRQ_room_id from) (PutUserOnMicRQ_room_id m),
         PutUserOnMicRQ_dst_user_id := merge_value 0 (PutUserOnMicRQ_dst_user_id from) (PutUserOnMicRQ_dst_user_id m),
         PutUserOnMicRQ_mic_type := merge_value 0 (PutUserOnMicRQ_mic_type from) (PutUserOnMicRQ_mic_type m)\<rparr>
       else m
     in
     m1\<lparr>PutUserOnMicRQ_unknown := PutUserOnMicRQ_unknown m1 @ PutUserOnMicRQ_unknown from\<rparr>)"

definition StruPutUserOnMicRQ_CopyFrom ::
  "'u StruPutUserOnMicRQ_pb \<Rightarrow> 'u StruPutUserOnMicRQ_pb \<Rightarrow> 'u StruPutUserOnMicRQ_pb" where
  "StruPutUserOnMicRQ_CopyFrom from m = StruPutUserOnMicRQ_MergeFrom from (StruPutUserOnMicRQ_Clear m)"

definition StruPutUserOnMicRQ_IsInitialized :: "'u StruPutUserOnMicRQ_pb \<Rightarrow> bool" where
  "StruPutUserOnMicRQ_IsInitialized m \<longleftrightarrow> has_bits [
       has (PutUserOnMicRQ_msg_id m), has (PutUserOnMicRQ_user_id m), has (PutUserOnMicRQ_room_id m),
       has (PutUserOnMicRQ_dst_user_id m), has (PutUserOnMicRQ_mic_type m)] AND 0x1f = 0x1f"

definition StruPutUserOnMicRQ_Swap ::
  "'u StruPutUserOnMicRQ_pb \<Rightarrow> 'u StruPutUserOnMicRQ_pb
    \<Rightarrow> 'u StruPutUserOnMicRQ_pb \<times> 'u StruPutUserOnMicRQ_pb" where
  "StruPutUserOnMicRQ_Swap m other =
     (m\<lparr>
        PutUserOnMicRQ_msg_id := PutUserOnMicRQ_msg_id other,
        PutUserOnMicRQ_user_id := PutUserOnMicRQ_user_id other,
        PutUserOnMicRQ_room_id := PutUserOnMicRQ_room_id other,
        PutUserOnMicRQ_dst_user_id := PutUserOnMicRQ_dst_user_id other,
        PutUserOnMicRQ_mic_type := PutUserOnMicRQ_mic_type other,
        PutUserOnMicRQ_unknown := PutUserOnMicRQ_unknown other\<rparr>,
      other\<lparr>
        PutUserOnMicRQ_msg_id := PutUserOnMicRQ_msg_id m, PutUserOnMicRQ_user_id := PutUserOnMicRQ_user_id m,
        PutUserOnMicRQ_room_id := PutUserOnMicRQ_room_id m,
        PutUserOnMicRQ_dst_user_id := PutUserOnMicRQ_dst_user_id m,
        PutUserOnMicRQ_mic_type := PutUserOnMicRQ_mic_type m, PutUserOnMicRQ_unknown := PutUserOnMicRQ_unknown m\<rparr>)"

definition StruPutUserOnMicRQ_fits :: "'u StruPutUserOnMicRQ_pb \<Rightarrow> bool" where
  "StruPutUserOnMicRQ_fits m \<longleftrightarrow>
     enum_ok EnumMsgID_IsValid (PutUserOnMicRQ_msg_id m) \<and> int_ok (PutUserOnMicRQ_user_id m) \<and>
     int_ok (PutUserOnMicRQ_room_id m) \<and> int_ok (PutUserOnMicRQ_dst_user_id m) \<and>
     int_ok (PutUserOnMicRQ_mic_type m) \<and> PutUserOnMicRQ_unknown m = []"

interpretation PutUserOnMicRQ: message_class StruPutUserOnMicRQ_cases
  "\<lambda>W. skip_field W PutUserOnMicRQ_unknown (\<lambda>u. PutUserOnMicRQ_unknown_update (\<lambda>_. u))"
  StruPutUserOnMicRQ_MergePartialFromCodedStream StruPutUserOnMicRQ_SharedCtor StruPutUserOnMicRQ_SerializeWithCachedSizes
  StruPutUserOnMicRQ_ByteSize StruPutUserOnMicRQ_IsInitialized "\<lambda>_. StruPutUserOnMicRQ_fits"
  by (unfold_locales, rule StruPutUserOnMicRQ_MergePartialFromCodedStream_def,
      simp add: StruPutUserOnMicRQ_cases_def cases_ok_def case_ok_def,
      simp add: StruPutUserOnMicRQ_cases_def field_ends,
      unfold StruPutUserOnMicRQ_fits_def StruPutUserOnMicRQ_SerializeWithCachedSizes_def, elim conjE, rule fed_eq,
      (rule fed_rules, assumption, simp add: StruPutUserOnMicRQ_cases_def, simp add:
        StruPutUserOnMicRQ_SharedCtor_def, (assumption | simp)+)+,
      rule fed_done, simp add: StruPutUserOnMicRQ_SharedCtor_def,
      unfold StruPutUserOnMicRQ_ByteSize_def length_write_fields size_group_sum, elim conjE, (drule enum_int_ok)+,
      simp add: add.assoc written_sizes split del: if_split)

lemma StruPutUserOnMicRQ_copies:
  "StruPutUserOnMicRQ_CopyFrom from m = from" "StruPutUserOnMicRQ_Swap m from = (from, m)"
proof -
  show "StruPutUserOnMicRQ_CopyFrom from m = from"
    by (rule StruPutUserOnMicRQ_pb.equality; cases "has (PutUserOnMicRQ_msg_id from) \<or> has
      (PutUserOnMicRQ_user_id from) \<or> has (PutUserOnMicRQ_room_id from) \<or> has (PutUserOnMicRQ_dst_user_id
        from) \<or> has (PutUserOnMicRQ_mic_type from)";
      simp add: StruPutUserOnMicRQ_CopyFrom_def StruPutUserOnMicRQ_MergeFrom_def StruPutUserOnMicRQ_Clear_def)
  show "StruPutUserOnMicRQ_Swap m from = (from, m)" by (cases "from"; cases m; simp add: StruPutUserOnMicRQ_Swap_def)
qed

lemma StruPutUserOnMicRQ_required:
  "StruPutUserOnMicRQ_IsInitialized m \<longleftrightarrow>
     has (PutUserOnMicRQ_msg_id m) \<and> has (PutUserOnMicRQ_user_id m) \<and>
     has (PutUserOnMicRQ_room_id m) \<and> has (PutUserOnMicRQ_dst_user_id m) \<and>
     has (PutUserOnMicRQ_mic_type m)"
  by (auto simp: StruPutUserOnMicRQ_IsInitialized_def has_masks)

section \<open>StruPutUserOnMicRS\<close>

record 'u StruPutUserOnMicRS_pb =
  PutUserOnMicRS_msg_id :: "int option"
  PutUserOnMicRS_user_id :: "int option"
  PutUserOnMicRS_room_id :: "int option"
  PutUserOnMicRS_dst_user_id :: "int option"
  PutUserOnMicRS_mic_type :: "int option"
  PutUserOnMicRS_result :: "int option"
  PutUserOnMicRS_mic_channel_str :: "byte list option"
  PutUserOnMicRS_unknown :: "'u list"

definition StruPutUserOnMicRS_SharedCtor :: "'u StruPutUserOnMicRS_pb" where
  "StruPutUserOnMicRS_SharedCtor = \<lparr>
     PutUserOnMicRS_msg_id = None, PutUserOnMicRS_user_id = None, PutUserOnMicRS_room_id = None,
     PutUserOnMicRS_dst_user_id = None, PutUserOnMicRS_mic_type = None, PutUserOnMicRS_result = None,
     PutUserOnMicRS_mic_channel_str = None, PutUserOnMicRS_unknown = []\<rparr>"

definition StruPutUserOnMicRS_Clear :: "'u StruPutUserOnMicRS_pb \<Rightarrow> 'u StruPutUserOnMicRS_pb" where
  "StruPutUserOnMicRS_Clear m = m\<lparr>
     PutUserOnMicRS_msg_id := None, PutUserOnMicRS_user_id := None, PutUserOnMicRS_room_id := None,
     PutUserOnMicRS_dst_user_id := None, PutUserOnMicRS_mic_type := None, PutUserOnMicRS_result := None,
     PutUserOnMicRS_mic_channel_str := None, PutUserOnMicRS_unknown := []\<rparr>"

definition StruPutUserOnMicRS_cases ::
  "('i, 'u) wire \<Rightarrow> ('i, 'u StruPutUserOnMicRS_pb) field_case list" where
  "StruPutUserOnMicRS_cases W = [
     field_enum W 1 EnumMsgID_IsValid (\<lambda>v. PutUserOnMicRS_msg_id_update (\<lambda>_. v))
       (\<lambda>v m. m\<lparr>PutUserOnMicRS_unknown := w_AddVarint W 1 v (PutUserOnMicRS_unknown m)\<rparr>) [(16,
         2)] False,
     field_int32 W 2 (\<lambda>v. PutUserOnMicRS_user_id_update (\<lambda>_. v)) [(24, 3)] False,
     field_int32 W 3 (\<lambda>v. PutUserOnMicRS_room_id_update (\<lambda>_. v)) [(32, 4)] False,
     field_int32 W 4 (\<lambda>v. PutUserOnMicRS_dst_user_id_update (\<lambda>_. v)) [(40, 5)] False,
     field_int32 W 5 (\<lambda>v. PutUserOnMicRS_mic_type_update (\<lambda>_. v)) [(48, 6)] False,
     field_int32 W 6 (\<lambda>v. PutUserOnMicRS_result_update (\<lambda>_. v)) [(58, 7)] False,
     field_string W 7 PutUserOnMicRS_mic_channel_str (\<lambda>v. PutUserOnMicRS_mic_channel_str_update (\<lambda>_.
       v)) [] True]"

definition StruPutUserOnMicRS_MergePartialFromCodedStream ::
  "('i, 'u) wire \<Rightarrow> 'i \<Rightarrow> 'u StruPutUserOnMicRS_pb
    \<Rightarrow> (bool \<times> 'i \<times> 'u StruPutUserOnMicRS_pb) res" where
  "StruPutUserOnMicRS_MergePartialFromCodedStream W i m = merge_loop (merge_fuel W i) W (StruPutUserOnMicRS_cases W)
     (skip_field W PutUserOnMicRS_unknown (\<lambda>u. PutUserOnMicRS_unknown_update (\<lambda>_. u))) None i m"

definition StruPutUserOnMicRS_SerializeWithCachedSizes ::
  "('i, 'u) wire \<Rightarrow> 'u StruPutUserOnMicRS_pb \<Rightarrow> byte list" where
  "StruPutUserOnMicRS_SerializeWithCachedSizes W m = write_fields [
     (has (PutUserOnMicRS_msg_id m), w_WriteEnum W 1 (value_or 6021 (PutUserOnMicRS_msg_id m))),
     (has (PutUserOnMicRS_user_id m), w_WriteInt32 W 2 (value_or 0 (PutUserOnMicRS_user_id m))),
     (has (PutUserOnMicRS_room_id m), w_WriteInt32 W 3 (value_or 0 (PutUserOnMicRS_room_id m))),
     (has (PutUserOnMicRS_dst_user_id m), w_WriteInt32 W 4 (value_or 0 (PutUserOnMicRS_dst_user_id m))),
     (has (PutUserOnMicRS_mic_type m), w_WriteInt32 W 5 (value_or 0 (PutUserOnMicRS_mic_type m))),
     (has (PutUserOnMicRS_result m), w_WriteInt32 W 6 (value_or 0 (PutUserOnMicRS_result m))),
     (has (PutUserOnMicRS_mic_channel_str m), w_WriteString W 7 (value_or [] (PutUserOnMicRS_mic_channel_str m))),
     (PutUserOnMicRS_unknown m \<noteq> [], w_WriteUnknown W (PutUserOnMicRS_unknown m))]"

definition StruPutUserOnMicRS_ByteSize ::
  "('i, 'u) wire \<Rightarrow> 'u StruPutUserOnMicRS_pb \<Rightarrow> int" where
  "StruPutUserOnMicRS_ByteSize W m = size_group [
     (has (PutUserOnMicRS_msg_id m), 1 + w_EnumSize W (value_or 6021 (PutUserOnMicRS_msg_id m))),
     (has (PutUserOnMicRS_user_id m), 1 + w_Int32Size W (value_or 0 (PutUserOnMicRS_user_id m))),
     (has (PutUserOnMicRS_room_id m), 1 + w_Int32Size W (value_or 0 (PutUserOnMicRS_room_id m))),
     (has (PutUserOnMicRS_dst_user_id m), 1 + w_Int32Size W (value_or 0 (PutUserOnMicRS_dst_user_id m))),
     (has (PutUserOnMicRS_mic_type m), 1 + w_Int32Size W (value_or 0 (PutUserOnMicRS_mic_type m))),
     (has (PutUserOnMicRS_result m), 1 + w_Int32Size W (value_or 0 (PutUserOnMicRS_result m))),
     (has (PutUserOnMicRS_mic_channel_str m), 1 + w_StringSize W (value_or [] (PutUserOnMicRS_mic_channel_str m)))]
     + (if PutUserOnMicRS_unknown m \<noteq> [] then w_UnknownSize W (PutUserOnMicRS_unknown m) else 0)"

definition StruPutUserOnMicRS_MergeFrom ::
  "'u StruPutUserOnMicRS_pb \<Rightarrow> 'u StruPutUserOnMicRS_pb \<Rightarrow> 'u StruPutUserOnMicRS_pb" where
  "StruPutUserOnMicRS_MergeFrom from m = (
     let m1 = if has (PutUserOnMicRS_msg_id from) \<or> has (PutUserOnMicRS_user_id from) \<or>
       has (PutUserOnMicRS_room_id from) \<or> has (PutUserOnMicRS_dst_user_id from) \<or>
       has (PutUserOnMicRS_mic_type from) \<or> has (PutUserOnMicRS_result from) \<or>
       has (PutUserOnMicRS_mic_channel_str from)
       then m\<lparr>
         PutUserOnMicRS_msg_id := merge_value 6021 (PutUserOnMicRS_msg_id from) (PutUserOnMicRS_msg_id m),
         PutUserOnMicRS_user_id := merge_value 0 (PutUserOnMicRS_user_id from) (PutUserOnMicRS_user_id m),
         PutUserOnMicRS_room_id := merge_value 0 (PutUserOnMicRS_room_id from) (PutUserOnMicRS_room_id m),
         PutUserOnMicRS_dst_user_id := merge_value 0 (PutUserOnMicRS_dst_user_id from) (PutUserOnMicRS_dst_user_id m),
         PutUserOnMicRS_mic_type := merge_value 0 (PutUserOnMicRS_mic_type from) (PutUserOnMicRS_mic_type m),
         PutUserOnMicRS_result := merge_value 0 (PutUserOnMicRS_result from) (PutUserOnMicRS_result m),
         PutUserOnMicRS_mic_channel_str := merge_value [] (PutUserOnMicRS_mic_channel_str from)
           (PutUserOnMicRS_mic_channel_str m)\<rparr>
       else m
     in
     m1\<lparr>PutUserOnMicRS_unknown := PutUserOnMicRS_unknown m1 @ PutUserOnMicRS_unknown from\<rparr>)"

definition StruPutUserOnMicRS_CopyFrom ::
  "'u StruPutUserOnMicRS_pb \<Rightarrow> 'u StruPutUserOnMicRS_pb \<Rightarrow> 'u StruPutUserOnMicRS_pb" where
  "StruPutUserOnMicRS_CopyFrom from m = StruPutUserOnMicRS_MergeFrom from (StruPutUserOnMicRS_Clear m)"

definition StruPutUserOnMicRS_IsInitialized :: "'u StruPutUserOnMicRS_pb \<Rightarrow> bool" where
  "StruPutUserOnMicRS_IsInitialized m \<longleftrightarrow> has_bits [
       has (PutUserOnMicRS_msg_id m), has (PutUserOnMicRS_user_id m), has (PutUserOnMicRS_room_id m),
       has (PutUserOnMicRS_dst_user_id m), has (PutUserOnMicRS_mic_type m), has (PutUserOnMicRS_result m),
       has (PutUserOnMicRS_mic_channel_str m)] AND 0x7f = 0x7f"

definition StruPutUserOnMicRS_Swap ::
  "'u StruPutUserOnMicRS_pb \<Rightarrow> 'u StruPutUserOnMicRS_pb
    \<Rightarrow> 'u StruPutUserOnMicRS_pb \<times> 'u StruPutUserOnMicRS_pb" where
  "StruPutUserOnMicRS_Swap m other =
     (m\<lparr>
        PutUserOnMicRS_msg_id := PutUserOnMicRS_msg_id other,
        PutUserOnMicRS_user_id := PutUserOnMicRS_user_id other,
        PutUserOnMicRS_room_id := PutUserOnMicRS_room_id other,
        PutUserOnMicRS_dst_user_id := PutUserOnMicRS_dst_user_id other,
        PutUserOnMicRS_mic_type := PutUserOnMicRS_mic_type other,
        PutUserOnMicRS_result := PutUserOnMicRS_result other,
        PutUserOnMicRS_mic_channel_str := PutUserOnMicRS_mic_channel_str other,
        PutUserOnMicRS_unknown := PutUserOnMicRS_unknown other\<rparr>,
      other\<lparr>
        PutUserOnMicRS_msg_id := PutUserOnMicRS_msg_id m, PutUserOnMicRS_user_id := PutUserOnMicRS_user_id m,
        PutUserOnMicRS_room_id := PutUserOnMicRS_room_id m,
        PutUserOnMicRS_dst_user_id := PutUserOnMicRS_dst_user_id m,
        PutUserOnMicRS_mic_type := PutUserOnMicRS_mic_type m, PutUserOnMicRS_result := PutUserOnMicRS_result m,
        PutUserOnMicRS_mic_channel_str := PutUserOnMicRS_mic_channel_str m,
        PutUserOnMicRS_unknown := PutUserOnMicRS_unknown m\<rparr>)"

definition StruPutUserOnMicRS_fits :: "'u StruPutUserOnMicRS_pb \<Rightarrow> bool" where
  "StruPutUserOnMicRS_fits m \<longleftrightarrow>
     enum_ok EnumMsgID_IsValid (PutUserOnMicRS_msg_id m) \<and> int_ok (PutUserOnMicRS_user_id m) \<and>
     int_ok (PutUserOnMicRS_room_id m) \<and> int_ok (PutUserOnMicRS_dst_user_id m) \<and>
     int_ok (PutUserOnMicRS_mic_type m) \<and> int_ok (PutUserOnMicRS_result m) \<and>
     str_ok (PutUserOnMicRS_mic_channel_str m) \<and> PutUserOnMicRS_unknown m = []"

interpretation PutUserOnMicRS: message_class StruPutUserOnMicRS_cases
  "\<lambda>W. skip_field W PutUserOnMicRS_unknown (\<lambda>u. PutUserOnMicRS_unknown_update (\<lambda>_. u))"
  StruPutUserOnMicRS_MergePartialFromCodedStream StruPutUserOnMicRS_SharedCtor StruPutUserOnMicRS_SerializeWithCachedSizes
  StruPutUserOnMicRS_ByteSize StruPutUserOnMicRS_IsInitialized "\<lambda>_. StruPutUserOnMicRS_fits"
  by (unfold_locales, rule StruPutUserOnMicRS_MergePartialFromCodedStream_def,
      simp add: StruPutUserOnMicRS_cases_def cases_ok_def case_ok_def,
      simp add: StruPutUserOnMicRS_cases_def field_ends,
      unfold StruPutUserOnMicRS_fits_def StruPutUserOnMicRS_SerializeWithCachedSizes_def, elim conjE, rule fed_eq,
      (rule fed_rules, assumption, simp add: StruPutUserOnMicRS_cases_def, simp add:
        StruPutUserOnMicRS_SharedCtor_def, (assumption | simp)+)+,
      rule fed_done, simp add: StruPutUserOnMicRS_SharedCtor_def,
      unfold StruPutUserOnMicRS_ByteSize_def length_write_fields size_group_sum, elim conjE, (drule enum_int_ok)+,
      simp add: add.assoc written_sizes split del: if_split)

lemma StruPutUserOnMicRS_copies:
  "StruPutUserOnMicRS_CopyFrom from m = from" "StruPutUserOnMicRS_Swap m from = (from, m)"
proof -
  show "StruPutUserOnMicRS_CopyFrom from m = from"
    by (rule StruPutUserOnMicRS_pb.equality; cases "has (PutUserOnMicRS_msg_id from) \<or> has
      (PutUserOnMicRS_user_id from) \<or> has (PutUserOnMicRS_room_id from) \<or> has (PutUserOnMicRS_dst_user_id
        from) \<or> has (PutUserOnMicRS_mic_type from) \<or> has (PutUserOnMicRS_result from) \<or> has
          (PutUserOnMicRS_mic_channel_str from)";
      simp add: StruPutUserOnMicRS_CopyFrom_def StruPutUserOnMicRS_MergeFrom_def StruPutUserOnMicRS_Clear_def)
  show "StruPutUserOnMicRS_Swap m from = (from, m)" by (cases "from"; cases m; simp add: StruPutUserOnMicRS_Swap_def)
qed

lemma StruPutUserOnMicRS_required:
  "StruPutUserOnMicRS_IsInitialized m \<longleftrightarrow>
     has (PutUserOnMicRS_msg_id m) \<and> has (PutUserOnMicRS_user_id m) \<and>
     has (PutUserOnMicRS_room_id m) \<and> has (PutUserOnMicRS_dst_user_id m) \<and>
     has (PutUserOnMicRS_mic_type m) \<and> has (PutUserOnMicRS_result m) \<and>
     has (PutUserOnMicRS_mic_channel_str m)"
  by (auto simp: StruPutUserOnMicRS_IsInitialized_def has_masks)

section \<open>StruCancleUserMicRQ\<close>

record 'u StruCancleUserMicRQ_pb =
  CancleUserMicRQ_msg_id :: "int option"
  CancleUserMicRQ_user_id :: "int option"
  CancleUserMicRQ_room_id :: "int option"
  CancleUserMicRQ_dst_user_id :: "int option"
  CancleUserMicRQ_mic_type :: "int option"
  CancleUserMicRQ_mic_channel_str :: "byte list option"
  CancleUserMicRQ_unknown :: "'u list"

definition StruCancleUserMicRQ_SharedCtor :: "'u StruCancleUserMicRQ_pb" where
  "StruCancleUserMicRQ_SharedCtor = \<lparr>
     CancleUserMicRQ_msg_id = None, CancleUserMicRQ_user_id = None, CancleUserMicRQ_room_id = None,
     CancleUserMicRQ_dst_user_id = None, CancleUserMicRQ_mic_type = None,
     CancleUserMicRQ_mic_channel_str = None, CancleUserMicRQ_unknown = []\<rparr>"

definition StruCancleUserMicRQ_Clear :: "'u StruCancleUserMicRQ_pb \<Rightarrow> 'u StruCancleUserMicRQ_pb" where
  "StruCancleUserMicRQ_Clear m = m\<lparr>
     CancleUserMicRQ_msg_id := None, CancleUserMicRQ_user_id := None, CancleUserMicRQ_room_id := None,
     CancleUserMicRQ_dst_user_id := None, CancleUserMicRQ_mic_type := None,
     CancleUserMicRQ_mic_channel_str := None, CancleUserMicRQ_unknown := []\<rparr>"

definition StruCancleUserMicRQ_cases ::
  "('i, 'u) wire \<Rightarrow> ('i, 'u StruCancleUserMicRQ_pb) field_case list" where
  "StruCancleUserMicRQ_cases W = [
     field_enum W 1 EnumMsgID_IsValid (\<lambda>v. CancleUserMicRQ_msg_id_update (\<lambda>_. v))
       (\<lambda>v m. m\<lparr>CancleUserMicRQ_unknown := w_AddVarint W 1 v (CancleUserMicRQ_unknown m)\<rparr>)
         [(16, 2)] False,
     field_int32 W 2 (\<lambda>v. CancleUserMicRQ_user_id_update (\<lambda>_. v)) [(24, 3)] False,
     field_int32 W 3 (\<lambda>v. CancleUserMicRQ_room_id_update (\<lambda>_. v)) [(32, 4)] False,
     field_int32 W 4 (\<lambda>v. CancleUserMicRQ_dst_user_id_update (\<lambda>_. v)) [(40, 5)] False,
     field_int32 W 5 (\<lambda>v. CancleUserMicRQ_mic_type_update (\<lambda>_. v)) [(50, 6)] False,
     field_string W 6 CancleUserMicRQ_mic_channel_str (\<lambda>v. CancleUserMicRQ_mic_channel_str_update
       (\<lambda>_. v)) [] True]"

definition StruCancleUserMicRQ_MergePartialFromCodedStream ::
  "('i, 'u) wire \<Rightarrow> 'i \<Rightarrow> 'u StruCancleUserMicRQ_pb
    \<Rightarrow> (bool \<times> 'i \<times> 'u StruCancleUserMicRQ_pb) res" where
  "StruCancleUserMicRQ_MergePartialFromCodedStream W i m = merge_loop (merge_fuel W i) W (StruCancleUserMicRQ_cases W)
     (skip_field W CancleUserMicRQ_unknown (\<lambda>u. CancleUserMicRQ_unknown_update (\<lambda>_. u))) None i m"

definition StruCancleUserMicRQ_SerializeWithCachedSizes ::
  "('i, 'u) wire \<Rightarrow> 'u StruCancleUserMicRQ_pb \<Rightarrow> byte list" where
  "StruCancleUserMicRQ_SerializeWithCachedSizes W m = write_fields [
     (has (CancleUserMicRQ_msg_id m), w_WriteEnum W 1 (value_or 6022 (CancleUserMicRQ_msg_id m))),
     (has (CancleUserMicRQ_user_id m), w_WriteInt32 W 2 (value_or 0 (CancleUserMicRQ_user_id m))),
     (has (CancleUserMicRQ_room_id m), w_WriteInt32 W 3 (value_or 0 (CancleUserMicRQ_room_id m))),
     (has (CancleUserMicRQ_dst_user_id m), w_WriteInt32 W 4 (value_or 0 (CancleUserMicRQ_dst_user_id m))),
     (has (CancleUserMicRQ_mic_type m), w_WriteInt32 W 5 (value_or 0 (CancleUserMicRQ_mic_type m))),
     (has (CancleUserMicRQ_mic_channel_str m), w_WriteString W 6 (value_or [] (CancleUserMicRQ_mic_channel_str m))),
     (CancleUserMicRQ_unknown m \<noteq> [], w_WriteUnknown W (CancleUserMicRQ_unknown m))]"

definition StruCancleUserMicRQ_ByteSize ::
  "('i, 'u) wire \<Rightarrow> 'u StruCancleUserMicRQ_pb \<Rightarrow> int" where
  "StruCancleUserMicRQ_ByteSize W m = size_group [
     (has (CancleUserMicRQ_msg_id m), 1 + w_EnumSize W (value_or 6022 (CancleUserMicRQ_msg_id m))),
     (has (CancleUserMicRQ_user_id m), 1 + w_Int32Size W (value_or 0 (CancleUserMicRQ_user_id m))),
     (has (CancleUserMicRQ_room_id m), 1 + w_Int32Size W (value_or 0 (CancleUserMicRQ_room_id m))),
     (has (CancleUserMicRQ_dst_user_id m), 1 + w_Int32Size W (value_or 0 (CancleUserMicRQ_dst_user_id m))),
     (has (CancleUserMicRQ_mic_type m), 1 + w_Int32Size W (value_or 0 (CancleUserMicRQ_mic_type m))),
     (has (CancleUserMicRQ_mic_channel_str m), 1 + w_StringSize W (value_or [] (CancleUserMicRQ_mic_channel_str m)))]
     + (if CancleUserMicRQ_unknown m \<noteq> [] then w_UnknownSize W (CancleUserMicRQ_unknown m) else 0)"

definition StruCancleUserMicRQ_MergeFrom ::
  "'u StruCancleUserMicRQ_pb \<Rightarrow> 'u StruCancleUserMicRQ_pb \<Rightarrow> 'u StruCancleUserMicRQ_pb" where
  "StruCancleUserMicRQ_MergeFrom from m = (
     let m1 = if has (CancleUserMicRQ_msg_id from) \<or> has (CancleUserMicRQ_user_id from) \<or>
       has (CancleUserMicRQ_room_id from) \<or> has (CancleUserMicRQ_dst_user_id from) \<or>
       has (CancleUserMicRQ_mic_type from) \<or> has (CancleUserMicRQ_mic_channel_str from)
       then m\<lparr>
         CancleUserMicRQ_msg_id := merge_value 6022 (CancleUserMicRQ_msg_id from) (CancleUserMicRQ_msg_id m),
         CancleUserMicRQ_user_id := merge_value 0 (CancleUserMicRQ_user_id from) (CancleUserMicRQ_user_id m),
         CancleUserMicRQ_room_id := merge_value 0 (CancleUserMicRQ_room_id from) (CancleUserMicRQ_room_id m),
         CancleUserMicRQ_dst_user_id := merge_value 0 (CancleUserMicRQ_dst_user_id from) (CancleUserMicRQ_dst_user_id m),
         CancleUserMicRQ_mic_type := merge_value 0 (CancleUserMicRQ_mic_type from) (CancleUserMicRQ_mic_type m),
         CancleUserMicRQ_mic_channel_str := merge_value [] (CancleUserMicRQ_mic_channel_str from)
           (CancleUserMicRQ_mic_channel_str m)\<rparr>
       else m
     in
     m1\<lparr>CancleUserMicRQ_unknown := CancleUserMicRQ_unknown m1 @ CancleUserMicRQ_unknown from\<rparr>)"

definition StruCancleUserMicRQ_CopyFrom ::
  "'u StruCancleUserMicRQ_pb \<Rightarrow> 'u StruCancleUserMicRQ_pb \<Rightarrow> 'u StruCancleUserMicRQ_pb" where
  "StruCancleUserMicRQ_CopyFrom from m = StruCancleUserMicRQ_MergeFrom from (StruCancleUserMicRQ_Clear m)"

definition StruCancleUserMicRQ_IsInitialized :: "'u StruCancleUserMicRQ_pb \<Rightarrow> bool" where
  "StruCancleUserMicRQ_IsInitialized m \<longleftrightarrow> has_bits [
       has (CancleUserMicRQ_msg_id m), has (CancleUserMicRQ_user_id m), has (CancleUserMicRQ_room_id m),
       has (CancleUserMicRQ_dst_user_id m), has (CancleUserMicRQ_mic_type m),
       has (CancleUserMicRQ_mic_channel_str m)] AND 0x3f = 0x3f"

definition StruCancleUserMicRQ_Swap ::
  "'u StruCancleUserMicRQ_pb \<Rightarrow> 'u StruCancleUserMicRQ_pb
    \<Rightarrow> 'u StruCancleUserMicRQ_pb \<times> 'u StruCancleUserMicRQ_pb" where
  "StruCancleUserMicRQ_Swap m other =
     (m\<lparr>
        CancleUserMicRQ_msg_id := CancleUserMicRQ_msg_id other,
        CancleUserMicRQ_user_id := CancleUserMicRQ_user_id other,
        CancleUserMicRQ_room_id := CancleUserMicRQ_room_id other,
        CancleUserMicRQ_dst_user_id := CancleUserMicRQ_dst_user_id other,
        CancleUserMicRQ_mic_type := CancleUserMicRQ_mic_type other,
        CancleUserMicRQ_mic_channel_str := CancleUserMicRQ_mic_channel_str other,
        CancleUserMicRQ_unknown := CancleUserMicRQ_unknown other\<rparr>,
      other\<lparr>
        CancleUserMicRQ_msg_id := CancleUserMicRQ_msg_id m,
        CancleUserMicRQ_user_id := CancleUserMicRQ_user_id m,
        CancleUserMicRQ_room_id := CancleUserMicRQ_room_id m,
        CancleUserMicRQ_dst_user_id := CancleUserMicRQ_dst_user_id m,
        CancleUserMicRQ_mic_type := CancleUserMicRQ_mic_type m,
        CancleUserMicRQ_mic_channel_str := CancleUserMicRQ_mic_channel_str m,
        CancleUserMicRQ_unknown := CancleUserMicRQ_unknown m\<rparr>)"

definition StruCancleUserMicRQ_fits :: "'u StruCancleUserMicRQ_pb \<Rightarrow> bool" where
  "StruCancleUserMicRQ_fits m \<longleftrightarrow>
     enum_ok EnumMsgID_IsValid (CancleUserMicRQ_msg_id m) \<and> int_ok (CancleUserMicRQ_user_id m) \<and>
     int_ok (CancleUserMicRQ_room_id m) \<and> int_ok (CancleUserMicRQ_dst_user_id m) \<and>
     int_ok (CancleUserMicRQ_mic_type m) \<and> str_ok (CancleUserMicRQ_mic_channel_str m) \<and>
     CancleUserMicRQ_unknown m = []"

interpretation CancleUserMicRQ: message_class StruCancleUserMicRQ_cases
  "\<lambda>W. skip_field W CancleUserMicRQ_unknown (\<lambda>u. CancleUserMicRQ_unknown_update (\<lambda>_. u))"
  StruCancleUserMicRQ_MergePartialFromCodedStream StruCancleUserMicRQ_SharedCtor StruCancleUserMicRQ_SerializeWithCachedSizes
  StruCancleUserMicRQ_ByteSize StruCancleUserMicRQ_IsInitialized "\<lambda>_. StruCancleUserMicRQ_fits"
  by (unfold_locales, rule StruCancleUserMicRQ_MergePartialFromCodedStream_def,
      simp add: StruCancleUserMicRQ_cases_def cases_ok_def case_ok_def,
      simp add: StruCancleUserMicRQ_cases_def field_ends,
      unfold StruCancleUserMicRQ_fits_def StruCancleUserMicRQ_SerializeWithCachedSizes_def, elim conjE, rule fed_eq,
      (rule fed_rules, assumption, simp add: StruCancleUserMicRQ_cases_def, simp add:
        StruCancleUserMicRQ_SharedCtor_def, (assumption | simp)+)+,
      rule fed_done, simp add: StruCancleUserMicRQ_SharedCtor_def,
      unfold StruCancleUserMicRQ_ByteSize_def length_write_fields size_group_sum, elim conjE, (drule enum_int_ok)+,
      simp add: add.assoc written_sizes split del: if_split)

lemma StruCancleUserMicRQ_copies:
  "StruCancleUserMicRQ_CopyFrom from m = from" "StruCancleUserMicRQ_Swap m from = (from, m)"
proof -
  show "StruCancleUserMicRQ_CopyFrom from m = from"
    by (rule StruCancleUserMicRQ_pb.equality; cases "has (CancleUserMicRQ_msg_id from) \<or> has
      (CancleUserMicRQ_user_id from) \<or> has (CancleUserMicRQ_room_id from) \<or> has (CancleUserMicRQ_dst_user_id
        from) \<or> has (CancleUserMicRQ_mic_type from) \<or> has (CancleUserMicRQ_mic_channel_str from)";
      simp add: StruCancleUserMicRQ_CopyFrom_def StruCancleUserMicRQ_MergeFrom_def StruCancleUserMicRQ_Clear_def)
  show "StruCancleUserMicRQ_Swap m from = (from, m)" by (cases "from"; cases m; simp add: StruCancleUserMicRQ_Swap_def)
qed

lemma StruCancleUserMicRQ_required:
  "StruCancleUserMicRQ_IsInitialized m \<longleftrightarrow>
     has (CancleUserMicRQ_msg_id m) \<and> has (CancleUserMicRQ_user_id m) \<and>
     has (CancleUserMicRQ_room_id m) \<and> has (CancleUserMicRQ_dst_user_id m) \<and>
     has (CancleUserMicRQ_mic_type m) \<and> has (CancleUserMicRQ_mic_channel_str m)"
  by (auto simp: StruCancleUserMicRQ_IsInitialized_def has_masks)

section \<open>StruCancleUserMicRS\<close>

record 'u StruCancleUserMicRS_pb =
  CancleUserMicRS_msg_id :: "int option"
  CancleUserMicRS_user_id :: "int option"
  CancleUserMicRS_room_id :: "int option"
  CancleUserMicRS_result :: "int option"
  CancleUserMicRS_unknown :: "'u list"

definition StruCancleUserMicRS_SharedCtor :: "'u StruCancleUserMicRS_pb" where
  "StruCancleUserMicRS_SharedCtor = \<lparr>
     CancleUserMicRS_msg_id = None, CancleUserMicRS_user_id = None, CancleUserMicRS_room_id = None,
     CancleUserMicRS_result = None, CancleUserMicRS_unknown = []\<rparr>"

definition StruCancleUserMicRS_Clear :: "'u StruCancleUserMicRS_pb \<Rightarrow> 'u StruCancleUserMicRS_pb" where
  "StruCancleUserMicRS_Clear m = m\<lparr>
     CancleUserMicRS_msg_id := None, CancleUserMicRS_user_id := None, CancleUserMicRS_room_id := None,
     CancleUserMicRS_result := None, CancleUserMicRS_unknown := []\<rparr>"

definition StruCancleUserMicRS_cases ::
  "('i, 'u) wire \<Rightarrow> ('i, 'u StruCancleUserMicRS_pb) field_case list" where
  "StruCancleUserMicRS_cases W = [
     field_enum W 1 EnumMsgID_IsValid (\<lambda>v. CancleUserMicRS_msg_id_update (\<lambda>_. v))
       (\<lambda>v m. m\<lparr>CancleUserMicRS_unknown := w_AddVarint W 1 v (CancleUserMicRS_unknown m)\<rparr>)
         [(16, 2)] False,
     field_int32 W 2 (\<lambda>v. CancleUserMicRS_user_id_update (\<lambda>_. v)) [(24, 3)] False,
     field_int32 W 3 (\<lambda>v. CancleUserMicRS_room_id_update (\<lambda>_. v)) [(32, 4)] False,
     field_int32 W 4 (\<lambda>v. CancleUserMicRS_result_update (\<lambda>_. v)) [] True]"

definition StruCancleUserMicRS_MergePartialFromCodedStream ::
  "('i, 'u) wire \<Rightarrow> 'i \<Rightarrow> 'u StruCancleUserMicRS_pb
    \<Rightarrow> (bool \<times> 'i \<times> 'u StruCancleUserMicRS_pb) res" where
  "StruCancleUserMicRS_MergePartialFromCodedStream W i m = merge_loop (merge_fuel W i) W (StruCancleUserMicRS_cases W)
     (skip_field W CancleUserMicRS_unknown (\<lambda>u. CancleUserMicRS_unknown_update (\<lambda>_. u))) None i m"

definition StruCancleUserMicRS_SerializeWithCachedSizes ::
  "('i, 'u) wire \<Rightarrow> 'u StruCancleUserMicRS_pb \<Rightarrow> byte list" where
  "StruCancleUserMicRS_SerializeWithCachedSizes W m = write_fields [
     (has (CancleUserMicRS_msg_id m), w_WriteEnum W 1 (value_or 6023 (CancleUserMicRS_msg_id m))),
     (has (CancleUserMicRS_user_id m), w_WriteInt32 W 2 (value_or 0 (CancleUserMicRS_user_id m))),
     (has (CancleUserMicRS_room_id m), w_WriteInt32 W 3 (value_or 0 (CancleUserMicRS_room_id m))),
     (has (CancleUserMicRS_result m), w_WriteInt32 W 4 (value_or 0 (CancleUserMicRS_result m))),
     (CancleUserMicRS_unknown m \<noteq> [], w_WriteUnknown W (CancleUserMicRS_unknown m))]"

definition StruCancleUserMicRS_ByteSize ::
  "('i, 'u) wire \<Rightarrow> 'u StruCancleUserMicRS_pb \<Rightarrow> int" where
  "StruCancleUserMicRS_ByteSize W m = size_group [
     (has (CancleUserMicRS_msg_id m), 1 + w_EnumSize W (value_or 6023 (CancleUserMicRS_msg_id m))),
     (has (CancleUserMicRS_user_id m), 1 + w_Int32Size W (value_or 0 (CancleUserMicRS_user_id m))),
     (has (CancleUserMicRS_room_id m), 1 + w_Int32Size W (value_or 0 (CancleUserMicRS_room_id m))),
     (has (CancleUserMicRS_result m), 1 + w_Int32Size W (value_or 0 (CancleUserMicRS_result m)))]
     + (if CancleUserMicRS_unknown m \<noteq> [] then w_UnknownSize W (CancleUserMicRS_unknown m) else 0)"

definition StruCancleUserMicRS_MergeFrom ::
  "'u StruCancleUserMicRS_pb \<Rightarrow> 'u StruCancleUserMicRS_pb \<Rightarrow> 'u StruCancleUserMicRS_pb" where
  "StruCancleUserMicRS_MergeFrom from m = (
     let m1 = if has (CancleUserMicRS_msg_id from) \<or> has (CancleUserMicRS_user_id from) \<or>
       has (CancleUserMicRS_room_id from) \<or> has (CancleUserMicRS_result from)
       then m\<lparr>
         CancleUserMicRS_msg_id := merge_value 6023 (CancleUserMicRS_msg_id from) (CancleUserMicRS_msg_id m),
         CancleUserMicRS_user_id := merge_value 0 (CancleUserMicRS_user_id from) (CancleUserMicRS_user_id m),
         CancleUserMicRS_room_id := merge_value 0 (CancleUserMicRS_room_id from) (CancleUserMicRS_room_id m),
         CancleUserMicRS_result := merge_value 0 (CancleUserMicRS_result from) (CancleUserMicRS_result m)\<rparr>
       else m
     in
     m1\<lparr>CancleUserMicRS_unknown := CancleUserMicRS_unknown m1 @ CancleUserMicRS_unknown from\<rparr>)"

definition StruCancleUserMicRS_CopyFrom ::
  "'u StruCancleUserMicRS_pb \<Rightarrow> 'u StruCancleUserMicRS_pb \<Rightarrow> 'u StruCancleUserMicRS_pb" where
  "StruCancleUserMicRS_CopyFrom from m = StruCancleUserMicRS_MergeFrom from (StruCancleUserMicRS_Clear m)"

definition StruCancleUserMicRS_IsInitialized :: "'u StruCancleUserMicRS_pb \<Rightarrow> bool" where
  "StruCancleUserMicRS_IsInitialized m \<longleftrightarrow> has_bits [
       has (CancleUserMicRS_msg_id m), has (CancleUserMicRS_user_id m), has (CancleUserMicRS_room_id m),
       has (CancleUserMicRS_result m)] AND 0xf = 0xf"

definition StruCancleUserMicRS_Swap ::
  "'u StruCancleUserMicRS_pb \<Rightarrow> 'u StruCancleUserMicRS_pb
    \<Rightarrow> 'u StruCancleUserMicRS_pb \<times> 'u StruCancleUserMicRS_pb" where
  "StruCancleUserMicRS_Swap m other =
     (m\<lparr>
        CancleUserMicRS_msg_id := CancleUserMicRS_msg_id other,
        CancleUserMicRS_user_id := CancleUserMicRS_user_id other,
        CancleUserMicRS_room_id := CancleUserMicRS_room_id other,
        CancleUserMicRS_result := CancleUserMicRS_result other,
        CancleUserMicRS_unknown := CancleUserMicRS_unknown other\<rparr>,
      other\<lparr>
        CancleUserMicRS_msg_id := CancleUserMicRS_msg_id m,
        CancleUserMicRS_user_id := CancleUserMicRS_user_id m,
        CancleUserMicRS_room_id := CancleUserMicRS_room_id m,
        CancleUserMicRS_result := CancleUserMicRS_result m, CancleUserMicRS_unknown := CancleUserMicRS_unknown m\<rparr>)"

definition StruCancleUserMicRS_fits :: "'u StruCancleUserMicRS_pb \<Rightarrow> bool" where
  "StruCancleUserMicRS_fits m \<longleftrightarrow>
     enum_ok EnumMsgID_IsValid (CancleUserMicRS_msg_id m) \<and> int_ok (CancleUserMicRS_user_id m) \<and>
     int_ok (CancleUserMicRS_room_id m) \<and> int_ok (CancleUserMicRS_result m) \<and>
     CancleUserMicRS_unknown m = []"

interpretation CancleUserMicRS: message_class StruCancleUserMicRS_cases
  "\<lambda>W. skip_field W CancleUserMicRS_unknown (\<lambda>u. CancleUserMicRS_unknown_update (\<lambda>_. u))"
  StruCancleUserMicRS_MergePartialFromCodedStream StruCancleUserMicRS_SharedCtor StruCancleUserMicRS_SerializeWithCachedSizes
  StruCancleUserMicRS_ByteSize StruCancleUserMicRS_IsInitialized "\<lambda>_. StruCancleUserMicRS_fits"
  by (unfold_locales, rule StruCancleUserMicRS_MergePartialFromCodedStream_def,
      simp add: StruCancleUserMicRS_cases_def cases_ok_def case_ok_def,
      simp add: StruCancleUserMicRS_cases_def field_ends,
      unfold StruCancleUserMicRS_fits_def StruCancleUserMicRS_SerializeWithCachedSizes_def, elim conjE, rule fed_eq,
      (rule fed_rules, assumption, simp add: StruCancleUserMicRS_cases_def, simp add:
        StruCancleUserMicRS_SharedCtor_def, (assumption | simp)+)+,
      rule fed_done, simp add: StruCancleUserMicRS_SharedCtor_def,
      unfold StruCancleUserMicRS_ByteSize_def length_write_fields size_group_sum, elim conjE, (drule enum_int_ok)+,
      simp add: add.assoc written_sizes split del: if_split)

lemma StruCancleUserMicRS_copies:
  "StruCancleUserMicRS_CopyFrom from m = from" "StruCancleUserMicRS_Swap m from = (from, m)"
proof -
  show "StruCancleUserMicRS_CopyFrom from m = from"
    by (rule StruCancleUserMicRS_pb.equality; cases "has (CancleUserMicRS_msg_id from) \<or> has
      (CancleUserMicRS_user_id from) \<or> has (CancleUserMicRS_room_id from) \<or> has (CancleUserMicRS_result from)";
      simp add: StruCancleUserMicRS_CopyFrom_def StruCancleUserMicRS_MergeFrom_def StruCancleUserMicRS_Clear_def)
  show "StruCancleUserMicRS_Swap m from = (from, m)" by (cases "from"; cases m; simp add: StruCancleUserMicRS_Swap_def)
qed

lemma StruCancleUserMicRS_required:
  "StruCancleUserMicRS_IsInitialized m \<longleftrightarrow>
     has (CancleUserMicRS_msg_id m) \<and> has (CancleUserMicRS_user_id m) \<and>
     has (CancleUserMicRS_room_id m) \<and> has (CancleUserMicRS_result m)"
  by (auto simp: StruCancleUserMicRS_IsInitialized_def has_masks)

section \<open>StruUserExitRoomID\<close>

record 'u StruUserExitRoomID_pb =
  UserExitRoomID_msg_id :: "int option"
  UserExitRoomID_user_id :: "int option"
  UserExitRoomID_room_id :: "int option"
  UserExitRoomID_unknown :: "'u list"

definition StruUserExitRoomID_SharedCtor :: "'u StruUserExitRoomID_pb" where
  "StruUserExitRoomID_SharedCtor = \<lparr>
     UserExitRoomID_msg_id = None, UserExitRoomID_user_id = None, UserExitRoomID_room_id = None,
     UserExitRoomID_unknown = []\<rparr>"

definition StruUserExitRoomID_Clear :: "'u StruUserExitRoomID_pb \<Rightarrow> 'u StruUserExitRoomID_pb" where
  "StruUserExitRoomID_Clear m = m\<lparr>
     UserExitRoomID_msg_id := None, UserExitRoomID_user_id := None, UserExitRoomID_room_id := None,
     UserExitRoomID_unknown := []\<rparr>"

definition StruUserExitRoomID_cases ::
  "('i, 'u) wire \<Rightarrow> ('i, 'u StruUserExitRoomID_pb) field_case list" where
  "StruUserExitRoomID_cases W = [
     field_enum W 1 EnumMsgID_IsValid (\<lambda>v. UserExitRoomID_msg_id_update (\<lambda>_. v))
       (\<lambda>v m. m\<lparr>UserExitRoomID_unknown := w_AddVarint W 1 v (UserExitRoomID_unknown m)\<rparr>) [(16,
         2)] False,
     field_int32 W 2 (\<lambda>v. UserExitRoomID_user_id_update (\<lambda>_. v)) [(24, 3)] False,
     field_int32 W 3 (\<lambda>v. UserExitRoomID_room_id_update (\<lambda>_. v)) [] True]"

definition StruUserExitRoomID_MergePartialFromCodedStream ::
  "('i, 'u) wire \<Rightarrow> 'i \<Rightarrow> 'u StruUserExitRoomID_pb
    \<Rightarrow> (bool \<times> 'i \<times> 'u StruUserExitRoomID_pb) res" where
  "StruUserExitRoomID_MergePartialFromCodedStream W i m = merge_loop (merge_fuel W i) W (StruUserExitRoomID_cases W)
     (skip_field W UserExitRoomID_unknown (\<lambda>u. UserExitRoomID_unknown_update (\<lambda>_. u))) None i m"

definition StruUserExitRoomID_SerializeWithCachedSizes ::
  "('i, 'u) wire \<Rightarrow> 'u StruUserExitRoomID_pb \<Rightarrow> byte list" where
  "StruUserExitRoomID_SerializeWithCachedSizes W m = write_fields [
     (has (UserExitRoomID_msg_id m), w_WriteEnum W 1 (value_or 6024 (UserExitRoomID_msg_id m))),
     (has (UserExitRoomID_user_id m), w_WriteInt32 W 2 (value_or 0 (UserExitRoomID_user_id m))),
     (has (UserExitRoomID_room_id m), w_WriteInt32 W 3 (value_or 0 (UserExitRoomID_room_id m))),
     (UserExitRoomID_unknown m \<noteq> [], w_WriteUnknown W (UserExitRoomID_unknown m))]"

definition StruUserExitRoomID_ByteSize ::
  "('i, 'u) wire \<Rightarrow> 'u StruUserExitRoomID_pb \<Rightarrow> int" where
  "StruUserExitRoomID_ByteSize W m = size_group [
     (has (UserExitRoomID_msg_id m), 1 + w_EnumSize W (value_or 6024 (UserExitRoomID_msg_id m))),
     (has (UserExitRoomID_user_id m), 1 + w_Int32Size W (value_or 0 (UserExitRoomID_user_id m))),
     (has (UserExitRoomID_room_id m), 1 + w_Int32Size W (value_or 0 (UserExitRoomID_room_id m)))]
     + (if UserExitRoomID_unknown m \<noteq> [] then w_UnknownSize W (UserExitRoomID_unknown m) else 0)"

definition StruUserExitRoomID_MergeFrom ::
  "'u StruUserExitRoomID_pb \<Rightarrow> 'u StruUserExitRoomID_pb \<Rightarrow> 'u StruUserExitRoomID_pb" where
  "StruUserExitRoomID_MergeFrom from m = (
     let m1 = if has (UserExitRoomID_msg_id from) \<or> has (UserExitRoomID_user_id from) \<or>
       has (UserExitRoomID_room_id from)
       then m\<lparr>
         UserExitRoomID_msg_id := merge_value 6024 (UserExitRoomID_msg_id from) (UserExitRoomID_msg_id m),
         UserExitRoomID_user_id := merge_value 0 (UserExitRoomID_user_id from) (UserExitRoomID_user_id m),
         UserExitRoomID_room_id := merge_value 0 (UserExitRoomID_room_id from) (UserExitRoomID_room_id m)\<rparr>
       else m
     in
     m1\<lparr>UserExitRoomID_unknown := UserExitRoomID_unknown m1 @ UserExitRoomID_unknown from\<rparr>)"

definition StruUserExitRoomID_CopyFrom ::
  "'u StruUserExitRoomID_pb \<Rightarrow> 'u StruUserExitRoomID_pb \<Rightarrow> 'u StruUserExitRoomID_pb" where
  "StruUserExitRoomID_CopyFrom from m = StruUserExitRoomID_MergeFrom from (StruUserExitRoomID_Clear m)"

definition StruUserExitRoomID_IsInitialized :: "'u StruUserExitRoomID_pb \<Rightarrow> bool" where
  "StruUserExitRoomID_IsInitialized m \<longleftrightarrow> has_bits [
       has (UserExitRoomID_msg_id m), has (UserExitRoomID_user_id m), has (UserExitRoomID_room_id m)] AND 0x7 = 0x7"

definition StruUserExitRoomID_Swap ::
  "'u StruUserExitRoomID_pb \<Rightarrow> 'u StruUserExitRoomID_pb
    \<Rightarrow> 'u StruUserExitRoomID_pb \<times> 'u StruUserExitRoomID_pb" where
  "StruUserExitRoomID_Swap m other =
     (m\<lparr>
        UserExitRoomID_msg_id := UserExitRoomID_msg_id other,
        UserExitRoomID_user_id := UserExitRoomID_user_id other,
        UserExitRoomID_room_id := UserExitRoomID_room_id other,
        UserExitRoomID_unknown := UserExitRoomID_unknown other\<rparr>,
      other\<lparr>
        UserExitRoomID_msg_id := UserExitRoomID_msg_id m, UserExitRoomID_user_id := UserExitRoomID_user_id m,
        UserExitRoomID_room_id := UserExitRoomID_room_id m, UserExitRoomID_unknown := UserExitRoomID_unknown m\<rparr>)"

definition StruUserExitRoomID_fits :: "'u StruUserExitRoomID_pb \<Rightarrow> bool" where
  "StruUserExitRoomID_fits m \<longleftrightarrow>
     enum_ok EnumMsgID_IsValid (UserExitRoomID_msg_id m) \<and> int_ok (UserExitRoomID_user_id m) \<and>
     int_ok (UserExitRoomID_room_id m) \<and> UserExitRoomID_unknown m = []"

interpretation UserExitRoomID: message_class StruUserExitRoomID_cases
  "\<lambda>W. skip_field W UserExitRoomID_unknown (\<lambda>u. UserExitRoomID_unknown_update (\<lambda>_. u))"
  StruUserExitRoomID_MergePartialFromCodedStream StruUserExitRoomID_SharedCtor StruUserExitRoomID_SerializeWithCachedSizes
  StruUserExitRoomID_ByteSize StruUserExitRoomID_IsInitialized "\<lambda>_. StruUserExitRoomID_fits"
  by (unfold_locales, rule StruUserExitRoomID_MergePartialFromCodedStream_def,
      simp add: StruUserExitRoomID_cases_def cases_ok_def case_ok_def,
      simp add: StruUserExitRoomID_cases_def field_ends,
      unfold StruUserExitRoomID_fits_def StruUserExitRoomID_SerializeWithCachedSizes_def, elim conjE, rule fed_eq,
      (rule fed_rules, assumption, simp add: StruUserExitRoomID_cases_def, simp add:
        StruUserExitRoomID_SharedCtor_def, (assumption | simp)+)+,
      rule fed_done, simp add: StruUserExitRoomID_SharedCtor_def,
      unfold StruUserExitRoomID_ByteSize_def length_write_fields size_group_sum, elim conjE, (drule enum_int_ok)+,
      simp add: add.assoc written_sizes split del: if_split)

lemma StruUserExitRoomID_copies:
  "StruUserExitRoomID_CopyFrom from m = from" "StruUserExitRoomID_Swap m from = (from, m)"
proof -
  show "StruUserExitRoomID_CopyFrom from m = from"
    by (rule StruUserExitRoomID_pb.equality; cases "has (UserExitRoomID_msg_id from) \<or> has
      (UserExitRoomID_user_id from) \<or> has (UserExitRoomID_room_id from)";
      simp add: StruUserExitRoomID_CopyFrom_def StruUserExitRoomID_MergeFrom_def StruUserExitRoomID_Clear_def)
  show "StruUserExitRoomID_Swap m from = (from, m)" by (cases "from"; cases m; simp add: StruUserExitRoomID_Swap_def)
qed

lemma StruUserExitRoomID_required:
  "StruUserExitRoomID_IsInitialized m \<longleftrightarrow>
     has (UserExitRoomID_msg_id m) \<and> has (UserExitRoomID_user_id m) \<and> has (UserExitRoomID_room_id m)"
  by (auto simp: StruUserExitRoomID_IsInitialized_def has_masks)

end
