(* ===== verification/Pb_Encoding.thy ===== *)
theory Pb_Encoding
  imports Pb_Wire
begin

text \<open>
  The encoding protobuf documents as an instance of the primitives in \<open>Pb_Wire\<close>, which meets their
  contract.
\<close>

section \<open>The encoding\<close>

text \<open>An instance of the library: the encoding that protobuf documents. A stream is the bytes that are left
  and whether its end was reached as the end of a message.\<close>

fun varint :: "nat \<Rightarrow> byte list" where
  "varint n = (if n < 128 then [of_nat n] else of_nat (n mod 128 + 128) # varint (n div 128))"

declare varint.simps [simp del]

fun read_varint :: "nat \<Rightarrow> byte list \<Rightarrow> (nat \<times> byte list) option" where
  "read_varint 0 bs = None"
| "read_varint (Suc k) [] = None"
| "read_varint (Suc k) (b # bs) =
     (if unat b < 128 then Some (unat b, bs)
      else case read_varint k bs of None \<Rightarrow> None | Some (n, r) \<Rightarrow> Some (unat b - 128 + 128 * n, r))"

lemma unat_byte: "n < 256 \<Longrightarrow> unat (of_nat n :: byte) = n"
  by (simp add: unat_of_nat take_bit_nat_eq_self)

lemma read_varint_varint: "n < 128 ^ k \<Longrightarrow> 0 < k \<Longrightarrow> read_varint k (varint n @ r) = Some (n, r)"
proof (induction k arbitrary: n)
  case (Suc k)
  show ?case
  proof (cases "n < 128")
    case True
    then show ?thesis by (simp add: varint.simps [of n] unat_byte)
  next
    case False
    have "n div 128 < 128 ^ k" using Suc.prems by (simp add: less_mult_imp_div_less mult.commute)
    moreover have "0 < k" using Suc.prems False by (cases k) auto
    moreover have "unat (of_nat (n mod 128 + 128) :: byte) = n mod 128 + 128"
      by (rule unat_byte) (simp add: less_le_trans [OF pos_mod_bound])
    ultimately show ?thesis using Suc.IH [of "n div 128"] False by (simp add: varint.simps [of n])
  qed
qed simp

lemma read_varint_left: "read_varint k bs = Some (n, r) \<Longrightarrow> length r < length bs"
  by (induction k bs arbitrary: n r rule: read_varint.induct) (auto split: if_splits option.splits intro: less_SucI)

lemma varint_tag: "n < 128 \<Longrightarrow> varint n = [of_nat n]"
  by (simp add: varint.simps)

lemma varint_hd: "\<exists>b bs. varint n = b # bs \<and> (unat b < 128 \<longleftrightarrow> n < 128) \<and> (n < 128 \<longrightarrow> unat b = n)"
proof (cases "n < 128")
  case False
  have "unat (of_nat (n mod 128 + 128) :: byte) = n mod 128 + 128"
    by (rule unat_byte) (simp add: less_le_trans [OF pos_mod_bound])
  then show ?thesis using False by (simp add: varint.simps [of n])
qed (simp add: varint_tag unat_byte)

text \<open>A negative \<open>int32\<close> is written as the \<open>uint64\<close> it is sign-extended to.\<close>

definition int_varint :: "int \<Rightarrow> byte list" where
  "int_varint v = varint (nat (v mod 2 ^ 64))"

definition read_int :: "byte list \<Rightarrow> (int \<times> byte list) option" where
  "read_int bs = (case read_varint 10 bs of None \<Rightarrow> None | Some (n, r) \<Rightarrow> Some (wrap32 (int n), r))"

lemma read_int_varint: "in_i32 v \<Longrightarrow> read_int (int_varint v @ r) = Some (v, r)"
proof -
  assume v: "in_i32 v"
  have "nat (v mod 2 ^ 64) < 128 ^ 10" by (simp add: nat_less_iff less_le_trans [OF pos_mod_bound])
  moreover have "wrap32 (v mod 2 ^ 64) = wrap32 v"
  proof -
    have "(v mod 2 ^ 64 + 2147483648) mod 4294967296 = (v + 2147483648) mod 4294967296"
      by (rule mod_add_cong) (simp_all add: mod_mod_cancel)
    then show ?thesis by (simp only: wrap32_def)
  qed
  then have "wrap32 (int (nat (v mod 2 ^ 64))) = v" using v by simp
  ultimately show ?thesis by (simp add: read_int_def int_varint_def read_varint_varint)
qed

definition read_delimited :: "byte list \<Rightarrow> (byte list \<times> byte list) option" where
  "read_delimited bs = (case read_varint 5 bs of None \<Rightarrow> None
     | Some (n, r) \<Rightarrow> if n \<le> length r then Some (take n r, drop n r) else None)"

lemma read_delimited_varint:
  "length v < 2147483648 \<Longrightarrow> read_delimited (varint (length v) @ v @ r) = Some (v, r)"
  by (simp add: read_delimited_def read_varint_varint)

lemma read_left:
  "read_int bs = Some (v, r) \<Longrightarrow> length r < length bs"
  "read_delimited bs = Some (w, r) \<Longrightarrow> length r < length bs"
proof -
  show "read_int bs = Some (v, r) \<Longrightarrow> length r < length bs"
    by (auto simp: read_int_def split: option.splits dest: read_varint_left)
  assume "read_delimited bs = Some (w, r)"
  then obtain n q where q: "read_varint 5 bs = Some (n, q)" "r = drop n q"
    by (auto simp: read_delimited_def split: option.splits if_splits)
  then show "length r < length bs" using read_varint_left [OF q(1)] by simp
qed

type_synonym ex_stream = "byte list \<times> bool"

definition on_bytes :: "(byte list \<Rightarrow> ('v \<times> byte list) option) \<Rightarrow> ex_stream \<Rightarrow> ('v \<times> ex_stream) option" where
  "on_bytes rd i = (case rd (fst i) of None \<Rightarrow> None | Some (v, r) \<Rightarrow> Some (v, r, False))"

definition on_string :: "(byte list \<Rightarrow> ('v \<times> byte list) option) \<Rightarrow> ex_stream \<Rightarrow> 'v \<Rightarrow> bool \<times> 'v \<times> ex_stream" where
  "on_string rd i old = (case rd (fst i) of None \<Rightarrow> (False, old, i) | Some (v, r) \<Rightarrow> (True, v, r, False))"

definition delimited :: "nat \<Rightarrow> byte list \<Rightarrow> byte list" where
  "delimited n v = varint (8 * n + 2) @ varint (length v) @ v"

definition skip_bytes :: "nat \<Rightarrow> byte list \<Rightarrow> byte list option" where
  "skip_bytes t bs =
     (if t mod 8 = 0 then map_option snd (read_varint 10 bs)
      else if t mod 8 = 1 \<and> 8 \<le> length bs then Some (drop 8 bs)
      else if t mod 8 = 2 then map_option snd (read_delimited bs)
      else if t mod 8 = 5 \<and> 4 \<le> length bs then Some (drop 4 bs)
      else None)"

definition ex_wire :: "(ex_stream, nat \<times> byte list) wire" where
  "ex_wire = \<lparr>
     w_open = (\<lambda>bs. (bs, False)),
     w_left = (\<lambda>(bs, l). length bs),
     w_ReadTag = (\<lambda>(bs, l). if bs = [] then (0, [], True)
        else case read_varint 5 bs of None \<Rightarrow> (0, bs, False) | Some (t, r) \<Rightarrow> (t, r, False)),
     w_ExpectTag = (\<lambda>t (bs, l). let v = varint t in
        if take (length v) bs = v then (True, drop (length v) bs, False) else (False, bs, l)),
     w_ExpectAtEnd = (\<lambda>(bs, l). if bs = [] then (True, [], True) else (False, bs, l)),
     w_ConsumedEntireMessage = snd,
     w_ReadInt32 = on_bytes read_int,
     w_ReadEnum = on_bytes read_int,
     w_ReadBool = on_bytes (\<lambda>bs. map_option (\<lambda>(n, r). (n \<noteq> 0, r)) (read_varint 10 bs)),
     w_ReadString = on_string read_delimited,
     w_ReadBytes = on_string read_delimited,
     w_SubMessage = (\<lambda>i. map_option (\<lambda>(v, j). ((v, False), j)) (on_bytes read_delimited i)),
     w_SkipField = (\<lambda>t (bs, l) u. case skip_bytes t bs of None \<Rightarrow> (False, u, bs, l)
        | Some r \<Rightarrow> (True, u @ [(t, take (length bs - length r) bs)], r, False)),
     w_AddVarint = (\<lambda>n v u. u @ [(8 * n, int_varint v)]),
     w_WriteInt32 = (\<lambda>n v. varint (8 * n) @ int_varint v),
     w_WriteEnum = (\<lambda>n v. varint (8 * n) @ int_varint v),
     w_WriteBool = (\<lambda>n v. varint (8 * n) @ varint (if v then 1 else 0)),
     w_WriteString = delimited,
     w_WriteBytes = delimited,
     w_WriteMessage = (\<lambda>n k bs. varint (8 * n + 2) @ varint (nat k) @ bs),
     w_WriteUnknown = (\<lambda>u. concat (map (\<lambda>(t, bs). varint t @ bs) u)),
     w_Int32Size = (\<lambda>v. int (length (int_varint v))),
     w_EnumSize = (\<lambda>v. int (length (int_varint v))),
     w_StringSize = (\<lambda>v. int (length (varint (length v)) + length v)),
     w_BytesSize = (\<lambda>v. int (length (varint (length v)) + length v)),
     w_MessageSize = (\<lambda>k. int (length (varint (nat k))) + k),
     w_UnknownSize = (\<lambda>u. int (length (concat (map (\<lambda>(t, bs). varint t @ bs) u))))\<rparr>"

definition ex_At :: "ex_stream \<Rightarrow> byte list \<Rightarrow> bool" where
  "ex_At i bs \<longleftrightarrow> fst i = bs"

lemma ex_emits:
  assumes "0 < n" "n < 16" "w < 8" "\<And>rest. rd (p @ rest, False) rest"
  shows "emits ex_wire ex_At (8 * n + w) (varint (8 * n + w) @ p) rd"
proof -
  let ?t = "8 * n + w"
  have t: "?t < 128" using assms(2,3) by simp
  have v: "varint ?t = [of_nat ?t]" by (rule varint_tag [OF t])
  have u: "unat (of_nat ?t :: byte) = ?t" using t by (simp add: unat_byte del: of_nat_add of_nat_mult)
  have r: "w_ReadTag ex_wire (varint ?t @ p @ rest, l) = (?t, p @ rest, False)" for rest l
  proof -
    have "read_varint 5 (varint ?t @ p @ rest) = Some (?t, p @ rest)" by (rule read_varint_varint) (use t in simp_all)
    moreover have "varint ?t @ p @ rest \<noteq> []" by (simp add: v)
    ultimately show ?thesis by (simp add: ex_wire_def)
  qed
  have e: "if b then t' = ?t \<and> i1 = (p @ rest, False) else i1 = (varint ?t @ p @ rest, l)"
    if x: "w_ExpectTag ex_wire t' (varint ?t @ p @ rest, l) = (b, i1)" for t' b i1 rest l
  proof (cases "take (length (varint t')) (varint ?t @ p @ rest) = varint t'")
    case True
    obtain c cs where c: "varint t' = c # cs" "unat c < 128 \<longleftrightarrow> t' < 128" "t' < 128 \<longrightarrow> unat c = t'"
      using varint_hd [of t'] by blast
    have "c = of_nat ?t" using True c(1) by (simp add: v del: of_nat_add of_nat_mult)
    then have "t' = ?t" using c(2,3) u t by simp
    then show ?thesis using x True by (auto simp: ex_wire_def v Let_def)
  next
    case False
    then show ?thesis using x by (auto simp: ex_wire_def Let_def)
  qed
  show ?thesis unfolding emits_def
  proof (intro allI impI conjI)
    fix i rest assume i: "ex_At i ((varint ?t @ p) @ rest)"
    obtain l where l: "i = (varint ?t @ p @ rest, l)" using i by (cases i) (simp add: ex_At_def)
    show "\<exists>i1. w_ReadTag ex_wire i = (?t, i1) \<and> w_left ex_wire i1 < w_left ex_wire i \<and> rd i1 rest"
      using r [of rest l] assms(4) by (simp add: l) (simp add: ex_wire_def v)
    show "\<not> fst (w_ExpectAtEnd ex_wire i)" "snd (w_ExpectAtEnd ex_wire i) = i" by (simp_all add: l ex_wire_def v)
    fix t'
    obtain b i1 where x: "w_ExpectTag ex_wire t' i = (b, i1)" by (cases "w_ExpectTag ex_wire t' i")
    have lt: "w_left ex_wire (p @ rest, False) < w_left ex_wire i" by (simp add: l ex_wire_def v)
    show "case w_ExpectTag ex_wire t' i of (b, i1) \<Rightarrow>
        if b then t' = ?t \<and> w_left ex_wire i1 < w_left ex_wire i \<and> rd i1 rest else i1 = i"
      unfolding x prod.case using e [OF x [unfolded l]] lt assms(4) by (cases b) (simp_all add: l)
  qed
qed

lemma ex_wire_ok: "wire_ok ex_wire ex_At"
  unfolding wire_ok_def
proof (intro conjI allI impI, goal_cases)
  case (1 bs)
  then show ?case by (simp add: ex_wire_def ex_At_def)
next
  case (2 i)
  then show ?case by (cases i) (simp add: ex_wire_def ex_At_def)
next
  case (3 i t)
  then show ?case by (cases i) (use varint_hd [of t] in \<open>auto simp: ex_wire_def ex_At_def Let_def\<close>)
next
  case (4 i t)
  then show ?case by (cases i) (use varint_hd [of t] in \<open>auto simp: ex_wire_def ex_At_def Let_def\<close>)
next
  case (5 i)
  then show ?case by (cases i) (simp add: ex_wire_def ex_At_def)
next
  case (6 n v)
  have "emits ex_wire ex_At (8 * n + 0) (varint (8 * n + 0) @ int_varint v) (reads ex_wire ex_At (w_ReadInt32 ex_wire) v)"
    by (rule ex_emits) (use 6 in \<open>simp_all add: reads_def ex_wire_def on_bytes_def read_int_varint ex_At_def\<close>)
  then show ?case by (simp add: ex_wire_def)
next
  case (7 n v)
  have "emits ex_wire ex_At (8 * n + 0) (varint (8 * n + 0) @ int_varint v) (reads ex_wire ex_At (w_ReadEnum ex_wire) v)"
    by (rule ex_emits) (use 7 in \<open>simp_all add: reads_def ex_wire_def on_bytes_def read_int_varint ex_At_def\<close>)
  then show ?case by (simp add: ex_wire_def)
next
  case (8 n v)
  have "emits ex_wire ex_At (8 * n + 0) (varint (8 * n + 0) @ varint (if v then 1 else 0))
      (reads ex_wire ex_At (w_ReadBool ex_wire) v)"
    by (rule ex_emits) (use 8 in \<open>simp_all add: reads_def ex_wire_def on_bytes_def read_varint_varint ex_At_def\<close>)
  then show ?case by (simp add: ex_wire_def)
next
  case (9 n v)
  have "emits ex_wire ex_At (8 * n + 2) (varint (8 * n + 2) @ varint (length v) @ v)
      (reads_string ex_wire ex_At (w_ReadString ex_wire) v)"
    by (rule ex_emits) (use 9 in \<open>simp_all add: reads_string_def ex_wire_def on_string_def read_delimited_varint ex_At_def\<close>)
  then show ?case by (simp add: ex_wire_def delimited_def)
next
  case (10 n v)
  have "emits ex_wire ex_At (8 * n + 2) (varint (8 * n + 2) @ varint (length v) @ v)
      (reads_string ex_wire ex_At (w_ReadBytes ex_wire) v)"
    by (rule ex_emits) (use 10 in \<open>simp_all add: reads_string_def ex_wire_def on_string_def read_delimited_varint ex_At_def\<close>)
  then show ?case by (simp add: ex_wire_def delimited_def)
next
  case (11 n bs)
  have "emits ex_wire ex_At (8 * n + 2) (varint (8 * n + 2) @ varint (length bs) @ bs) (enters ex_wire ex_At bs)"
    by (rule ex_emits) (use 11 in \<open>simp_all add: enters_def ex_wire_def on_bytes_def read_delimited_varint ex_At_def\<close>)
  then show ?case by (simp add: ex_wire_def)
qed

lemma ex_sizes_ok: "sizes_ok ex_wire"
proof -
  have "length (varint t) = 1" if "t < 128" for t using that by (simp add: varint_tag)
  then show ?thesis by (simp add: sizes_ok_def ex_wire_def delimited_def)
qed

lemma skip_left: "skip_bytes t bs = Some r \<Longrightarrow> length r \<le> length bs"
  by (auto simp: skip_bytes_def split: if_splits dest: read_varint_left read_left(2) intro: less_imp_le)

lemma ex_wire_ends: "wire_ends ex_wire"
proof -
  have t: "w_left ex_wire i1 \<le> w_left ex_wire i \<and> (t \<noteq> 0 \<longrightarrow> w_left ex_wire i1 < w_left ex_wire i)"
    if "w_ReadTag ex_wire i = (t, i1)" for i t i1
    using that by (cases i) (auto simp: ex_wire_def split: if_splits option.splits dest!: read_varint_left)
  have e: "w_left ex_wire i1 \<le> w_left ex_wire i \<and> (b \<longrightarrow> w_left ex_wire i1 < w_left ex_wire i)"
    if x: "w_ExpectTag ex_wire t i = (b, i1)" for t i b i1
  proof -
    obtain bs l where i: "i = (bs, l)" by (cases i)
    obtain c cs where c: "varint t = c # cs" using varint_hd [of t] by blast
    show ?thesis using x by (cases bs) (auto simp: i ex_wire_def c Let_def split: if_splits)
  qed
  have r: "w_left ex_wire i1 \<le> w_left ex_wire i"
    if x: "on_bytes rd i = Some (v, i1)" "\<forall>bs v r. rd bs = Some (v, r) \<longrightarrow> length r < length bs" for rd and v :: 'v and i i1
    using that by (cases i) (fastforce simp: ex_wire_def on_bytes_def split: option.splits)
  have s: "w_left ex_wire i1 \<le> w_left ex_wire i" if "on_string read_delimited i old = (True, v, i1)" for i old v i1
    using that read_left(2) by (cases i) (fastforce simp: ex_wire_def on_string_def split: option.splits)
  show ?thesis unfolding wire_ends_def
  proof (intro conjI allI impI, goal_cases)
    case (5 i b i1)
    then show ?case by (cases i) (auto simp: ex_wire_def split: if_splits)
  next
    case (6 i v i1)
    then show ?case using r [of read_int i v i1] read_left(1) by (simp add: ex_wire_def)
  next
    case (7 i v i1)
    then show ?case using r [of read_int i v i1] read_left(1) by (simp add: ex_wire_def)
  next
    case (8 i v i1)
    then show ?case using r [OF 8 [unfolded ex_wire_def wire.select_convs]] read_varint_left by force
  next
    case (9 i old v i1)
    then show ?case using s [of i old v i1] by (simp add: ex_wire_def)
  next
    case (10 i old v i1)
    then show ?case using s [of i old v i1] by (simp add: ex_wire_def)
  next
    case (11 i i1 j)
    then show ?case using r [of read_delimited i _ j] read_left(2) by (auto simp: ex_wire_def)
  next
    case (12 t i u v i1)
    then show ?case by (cases i) (auto simp: ex_wire_def split: option.splits dest: skip_left)
  qed (use t e in blast)+
qed

lemma varint_length: "n < 128 ^ k \<Longrightarrow> 0 < k \<Longrightarrow> length (varint n) \<le> k"
proof (induction k arbitrary: n)
  case (Suc k)
  show ?case
  proof (cases "n < 128")
    case False
    have "n div 128 < 128 ^ k" using Suc.prems by (simp add: less_mult_imp_div_less mult.commute)
    moreover have "0 < k" using Suc.prems False by (cases k) auto
    ultimately show ?thesis using Suc.IH [of "n div 128"] False by (simp add: varint.simps [of n])
  qed (simp add: varint_tag)
qed simp

lemma ex_wire_bounded: "wire_bounded ex_wire"
proof -
  have "length (int_varint v) \<le> 10" for v
    unfolding int_varint_def by (rule varint_length) (simp_all add: nat_less_iff less_le_trans [OF pos_mod_bound])
  moreover have "length (varint k) \<le> 5" if "k < 2147483648" for k by (rule varint_length) (use that in simp_all)
  moreover have "length (varint (nat k)) \<le> 5" if "0 \<le> k \<and> k < 2147483648" for k
    by (rule varint_length) (use that in \<open>simp_all add: nat_less_iff\<close>)
  ultimately show ?thesis by (simp add: wire_bounded_def ex_wire_def delimited_def varint_tag)
qed

end
