(* ===== verification/Pb_Messages.thy ===== *)
theory Pb_Messages
  imports Ds_Classes Chat_Classes Pb_Encoding
begin

text \<open>
  What holds of every generated class: parsing what was serialised gives the message back, whose
  \<open>ByteSize\<close> is the number of bytes, and parsing any bytes ends, with success only if every required
  field is there.
\<close>

lemmas ds_round_trips =
      DsServerConnectRq.class_round_trips DsServerConnectRs.class_round_trips DsServerReportCurrentUserCount.class_round_trips DsServerMsg.class_round_trips
      DsGSGetRoomInfoRq.class_round_trips DsGSGetRoomInfoRs.class_round_trips DsRSGetCsInfoRq.class_round_trips DsRSGetCsInfoRs.class_round_trips
      DsMSStreamRq.class_round_trips DsMSStreamRs.class_round_trips DsMSQueryStreamRq.class_round_trips DsMSQueryStreamRs.class_round_trips
      DsServerInfo.class_round_trips ServerDetctInfo.class_round_trips ServerDetctResult.class_round_trips

lemmas chat_round_trips =
      UserLoginRQ.class_round_trips UserLoginRS.class_round_trips UserRoleInfoID.class_round_trips RoomInfoID.class_round_trips
      MicInfo.class_round_trips RoomMicInfoID.class_round_trips UserInfo.class_round_trips UserInfoListID.class_round_trips
      UserMsgRQ.class_round_trips UserMsgRS.class_round_trips UserMsgTextID.class_round_trips UserGiveGiftRQ.class_round_trips
      UserGiveGiftRS.class_round_trips UserApplyMicRQ.class_round_trips UserApplyMicRS.class_round_trips UserOnMicID.class_round_trips
      UserOffMicRQ.class_round_trips UserOffMicRS.class_round_trips UserOffMicID.class_round_trips PutUserOnMicRQ.class_round_trips
      PutUserOnMicRS.class_round_trips CancleUserMicRQ.class_round_trips CancleUserMicRS.class_round_trips UserExitRoomID.class_round_trips

lemmas class_parsers =
      DsServerConnectRq.class_parses DsServerConnectRs.class_parses DsServerReportCurrentUserCount.class_parses DsServerMsg.class_parses
      DsGSGetRoomInfoRq.class_parses DsGSGetRoomInfoRs.class_parses DsRSGetCsInfoRq.class_parses DsRSGetCsInfoRs.class_parses
      DsMSStreamRq.class_parses DsMSStreamRs.class_parses DsMSQueryStreamRq.class_parses DsMSQueryStreamRs.class_parses
      DsServerInfo.class_parses ServerDetctInfo.class_parses ServerDetctResult.class_parses UserLoginRQ.class_parses
      UserLoginRS.class_parses UserRoleInfoID.class_parses RoomInfoID.class_parses MicInfo.class_parses
      RoomMicInfoID.class_parses UserInfo.class_parses UserInfoListID.class_parses UserMsgRQ.class_parses
      UserMsgRS.class_parses UserMsgTextID.class_parses UserGiveGiftRQ.class_parses UserGiveGiftRS.class_parses
      UserApplyMicRQ.class_parses UserApplyMicRS.class_parses UserOnMicID.class_parses UserOffMicRQ.class_parses
      UserOffMicRS.class_parses UserOffMicID.class_parses PutUserOnMicRQ.class_parses PutUserOnMicRS.class_parses
      CancleUserMicRQ.class_parses CancleUserMicRS.class_parses UserExitRoomID.class_parses




definition ex_mic :: "(nat \<times> byte list) StruMicInfo_pb" where
  "ex_mic = \<lparr>MicInfo_msg_id = Some 6005, MicInfo_user_id = Some 7, MicInfo_user_account_name = Some [65],
     MicInfo_mic_channel_str = Some [], MicInfo_unknown = []\<rparr>"

definition ex_mics :: "(nat \<times> byte list) StruRoomMicInfoID_pb" where
  "ex_mics = \<lparr>RoomMicInfoID_msg_id = Some 6006, RoomMicInfoID_user_id = Some 7, RoomMicInfoID_room_id = Some 9,
     RoomMicInfoID_mic_list = [ex_mic, ex_mic], RoomMicInfoID_unknown = []\<rparr>"

lemma ex_mics_fit: "StruRoomMicInfoID_fits ex_wire ex_mics" "StruRoomMicInfoID_IsInitialized ex_mics"
proof -
  have "length (StruMicInfo_SerializeWithCachedSizes ex_wire ex_mic) = 10"
    by (simp add: StruMicInfo_SerializeWithCachedSizes_def ex_mic_def ex_wire_def write_fields_def has_def
        delimited_def int_varint_def varint_tag varint.simps [of 6005])
  then show "StruRoomMicInfoID_fits ex_wire ex_mics" "StruRoomMicInfoID_IsInitialized ex_mics"
    by (simp_all add: StruRoomMicInfoID_fits_def StruRoomMicInfoID_required StruMicInfo_fits_def StruMicInfo_required
        ex_mics_def ex_mic_def enum_ok_def int_ok_def str_ok_def in_i32_def has_def EnumMsgID_IsValid_def)
qed




end
