(* ===== verification/Pb_Servers.thy ===== *)
theory Pb_Servers
  imports Pb_Messages Gift_Flow
begin

text \<open>
  The messages of the servers over the generated classes. \<open>classes W\<close> is the record \<open>protobuf\<close> that the
  servers' models take, built from the classes: a sender fills an object with all fields of its
  message and serialises it, a receiver parses and reads the fields it uses with the getters.
\<close>

section \<open>Objects of the messages\<close>

definition StruUserLoginRQ_of :: "StruUserLoginRQ \<Rightarrow> 'u StruUserLoginRQ_pb" where
  "StruUserLoginRQ_of r = \<lparr>
     UserLoginRQ_msg_id = Some 6001, UserLoginRQ_user_id = Some (lrq_user_id r),
     UserLoginRQ_room_id = Some (lrq_room_id r), UserLoginRQ_user_psw = Some (lrq_user_psw r),
     UserLoginRQ_user_account_name = Some (lrq_user_account_name r), UserLoginRQ_unknown = []\<rparr>"

definition StruUserLoginRS_of :: "StruUserLoginRS \<Rightarrow> 'u StruUserLoginRS_pb" where
  "StruUserLoginRS_of r = \<lparr>
     UserLoginRS_msg_id = Some (lrs_msg_id r), UserLoginRS_user_id = Some (lrs_user_id r),
     UserLoginRS_room_id = Some (lrs_room_id r), UserLoginRS_result = Some (lrs_result r),
     UserLoginRS_user_red_d = Some (lrs_user_red_d r), UserLoginRS_user_blue_d = Some (lrs_user_blue_d r),
     UserLoginRS_user_level = Some (lrs_user_level r), UserLoginRS_buyer_riches = Some (lrs_buyer_riches r),
     UserLoginRS_buyer_grow_up = Some (lrs_buyer_grow_up r),
     UserLoginRS_buyer_honour = Some (lrs_buyer_honour r),
     UserLoginRS_buyer_estimate = Some (lrs_buyer_estimate r),
     UserLoginRS_seller_income = Some (lrs_seller_income r), UserLoginRS_seller_exp = Some (lrs_seller_exp r),
     UserLoginRS_seller_pop = Some (lrs_seller_pop r),
     UserLoginRS_seller_estimate = Some (lrs_seller_estimate r), UserLoginRS_unknown = []\<rparr>"

definition StruUserInfo_of :: "StruUserInfo \<Rightarrow> 'u StruUserInfo_pb" where
  "StruUserInfo_of r = \<lparr>
     UserInfo_msg_id = Some (ui_msg_id r), UserInfo_user_id = Some (ui_user_id r),
     UserInfo_user_account_name = Some (ui_user_account_name r),
     UserInfo_user_role_uid = Some (ui_user_role_uid r), UserInfo_user_level = Some (ui_user_level r),
     UserInfo_buyer_riches = Some (ui_buyer_riches r), UserInfo_buyer_grow_up = Some (ui_buyer_grow_up r),
     UserInfo_buyer_honour = Some (ui_buyer_honour r), UserInfo_buyer_estimate = Some (ui_buyer_estimate r),
     UserInfo_seller_income = Some (ui_seller_income r), UserInfo_seller_exp = Some (ui_seller_exp r),
     UserInfo_seller_pop = Some (ui_seller_pop r), UserInfo_seller_estimate = Some (ui_seller_estimate r),
     UserInfo_unknown = []\<rparr>"

definition StruUserInfoListID_of :: "StruUserInfoListID \<Rightarrow> 'u StruUserInfoListID_pb" where
  "StruUserInfoListID_of r = \<lparr>
     UserInfoListID_msg_id = Some (uil_msg_id r), UserInfoListID_user_id = Some (uil_user_id r),
     UserInfoListID_room_id = Some (uil_room_id r),
     UserInfoListID_user_info_list = map StruUserInfo_of (uil_user_info_list r), UserInfoListID_unknown = []\<rparr>"

definition StruMicInfo_of :: "StruMicInfo \<Rightarrow> 'u StruMicInfo_pb" where
  "StruMicInfo_of r = \<lparr>
     MicInfo_msg_id = Some (mi_msg_id r), MicInfo_user_id = Some (mi_user_id r),
     MicInfo_user_account_name = Some (mi_user_account_name r),
     MicInfo_mic_channel_str = Some (mi_mic_channel_str r), MicInfo_unknown = []\<rparr>"

definition StruRoomMicInfoID_of :: "StruRoomMicInfoID \<Rightarrow> 'u StruRoomMicInfoID_pb" where
  "StruRoomMicInfoID_of r = \<lparr>
     RoomMicInfoID_msg_id = Some (rmi_msg_id r), RoomMicInfoID_user_id = Some (rmi_user_id r),
     RoomMicInfoID_room_id = Some (rmi_room_id r), RoomMicInfoID_mic_list = map StruMicInfo_of (rmi_mic_list r),
     RoomMicInfoID_unknown = []\<rparr>"

definition StruUserMsgRS_of :: "StruUserMsgRS \<Rightarrow> 'u StruUserMsgRS_pb" where
  "StruUserMsgRS_of r = \<lparr>
     UserMsgRS_msg_id = Some (mrs_msg_id r), UserMsgRS_user_id = Some (mrs_user_id r),
     UserMsgRS_room_id = Some (mrs_room_id r), UserMsgRS_result = Some (mrs_result r), UserMsgRS_unknown = []\<rparr>"

definition StruUserMsgTextID_of :: "StruUserMsgTextID \<Rightarrow> 'u StruUserMsgTextID_pb" where
  "StruUserMsgTextID_of r = \<lparr>
     UserMsgTextID_msg_id = Some (mt_msg_id r), UserMsgTextID_user_id = Some (mt_user_id r),
     UserMsgTextID_room_id = Some (mt_room_id r), UserMsgTextID_msg_text = Some (mt_msg_text r),
     UserMsgTextID_is_private = Some (mt_is_private r), UserMsgTextID_dst_user_id = Some (mt_dst_user_id r),
     UserMsgTextID_unknown = []\<rparr>"

definition StruUserGiveGiftRQ_of :: "StruUserGiveGiftRQ \<Rightarrow> 'u StruUserGiveGiftRQ_pb" where
  "StruUserGiveGiftRQ_of r = \<lparr>
     UserGiveGiftRQ_msg_id = Some 6012, UserGiveGiftRQ_user_id = Some (grq_user_id r),
     UserGiveGiftRQ_room_id = Some (grq_room_id r), UserGiveGiftRQ_gift_code = Some (grq_gift_code r),
     UserGiveGiftRQ_dst_user_id = Some (grq_dst_user_id r), UserGiveGiftRQ_count_gift = Some (grq_count_gift r),
     UserGiveGiftRQ_unknown = []\<rparr>"

definition StruUserGiveGiftRS_of :: "StruUserGiveGiftRS \<Rightarrow> 'u StruUserGiveGiftRS_pb" where
  "StruUserGiveGiftRS_of r = \<lparr>
     UserGiveGiftRS_msg_id = Some (grs_msg_id r), UserGiveGiftRS_user_id = Some (grs_user_id r),
     UserGiveGiftRS_room_id = Some (grs_room_id r), UserGiveGiftRS_result = Some (grs_result r),
     UserGiveGiftRS_gift_code = Some (grs_gift_code r), UserGiveGiftRS_dst_user_id = Some (grs_dst_user_id r),
     UserGiveGiftRS_sender_red_d = Some (grs_sender_red_d r), UserGiveGiftRS_unknown = []\<rparr>"

definition StruUserApplyMicRS_of :: "StruUserApplyMicRS \<Rightarrow> 'u StruUserApplyMicRS_pb" where
  "StruUserApplyMicRS_of r = \<lparr>
     UserApplyMicRS_msg_id = Some (ars_msg_id r), UserApplyMicRS_user_id = Some (ars_user_id r),
     UserApplyMicRS_room_id = Some (ars_room_id r), UserApplyMicRS_result = Some (ars_result r),
     UserApplyMicRS_mic_channel_str = Some (ars_mic_channel_str r), UserApplyMicRS_unknown = []\<rparr>"

definition StruUserOffMicRS_of :: "StruUserOffMicRS \<Rightarrow> 'u StruUserOffMicRS_pb" where
  "StruUserOffMicRS_of r = \<lparr>
     UserOffMicRS_msg_id = Some (ors_msg_id r), UserOffMicRS_user_id = Some (ors_user_id r),
     UserOffMicRS_room_id = Some (ors_room_id r), UserOffMicRS_result = Some (ors_result r),
     UserOffMicRS_unknown = []\<rparr>"

definition StruUserExitRoomID_of :: "StruRoomUser \<Rightarrow> 'u StruUserExitRoomID_pb" where
  "StruUserExitRoomID_of r = \<lparr>
     UserExitRoomID_msg_id = Some (ru_msg_id r), UserExitRoomID_user_id = Some (ru_user_id r),
     UserExitRoomID_room_id = Some (ru_room_id r), UserExitRoomID_unknown = []\<rparr>"

definition StruDsServerConnectRq_of :: "StruDsServerConnectRq \<Rightarrow> 'u StruDsServerConnectRq_pb" where
  "StruDsServerConnectRq_of r = \<lparr>
     DsServerConnectRq_server_id = Some (dcq_server_id r), DsServerConnectRq_server_ip = Some (dcq_server_ip r),
     DsServerConnectRq_server_port = Some (dcq_server_port r),
     DsServerConnectRq_server_type = Some (dcq_server_type r),
     DsServerConnectRq_connect_type = Some (dcq_connect_type r),
     DsServerConnectRq_server_detect_port = Some (dcq_server_detect_port r), DsServerConnectRq_unknown = []\<rparr>"

definition StruDsRSGetCsInfoRq_of :: "int \<Rightarrow> 'u StruDsRSGetCsInfoRq_pb" where
  "StruDsRSGetCsInfoRq_of i = \<lparr>DsRSGetCsInfoRq_server_id = Some i, DsRSGetCsInfoRq_unknown = []\<rparr>"

definition StruDsGSGetRoomInfoRq_of :: "int \<Rightarrow> int \<Rightarrow> 'u StruDsGSGetRoomInfoRq_pb" where
  "StruDsGSGetRoomInfoRq_of i r = \<lparr>DsGSGetRoomInfoRq_server_id = Some i, DsGSGetRoomInfoRq_room_id = Some r,
     DsGSGetRoomInfoRq_unknown = []\<rparr>"

definition serialized :: "('i, 'u) wire \<Rightarrow> pmsg \<Rightarrow> byte list" where
  "serialized W m = (case m of
     P_UserLoginRQ r \<Rightarrow> StruUserLoginRQ_SerializeWithCachedSizes W (StruUserLoginRQ_of r)
   | P_UserLoginRS r \<Rightarrow> StruUserLoginRS_SerializeWithCachedSizes W (StruUserLoginRS_of r)
   | P_UserInfo r \<Rightarrow> StruUserInfo_SerializeWithCachedSizes W (StruUserInfo_of r)
   | P_UserInfoListID r \<Rightarrow> StruUserInfoListID_SerializeWithCachedSizes W (StruUserInfoListID_of r)
   | P_RoomMicInfoID r \<Rightarrow> StruRoomMicInfoID_SerializeWithCachedSizes W (StruRoomMicInfoID_of r)
   | P_UserMsgRS r \<Rightarrow> StruUserMsgRS_SerializeWithCachedSizes W (StruUserMsgRS_of r)
   | P_UserMsgTextID r \<Rightarrow> StruUserMsgTextID_SerializeWithCachedSizes W (StruUserMsgTextID_of r)
   | P_UserGiveGiftRQ r \<Rightarrow> StruUserGiveGiftRQ_SerializeWithCachedSizes W (StruUserGiveGiftRQ_of r)
   | P_UserGiveGiftRS r \<Rightarrow> StruUserGiveGiftRS_SerializeWithCachedSizes W (StruUserGiveGiftRS_of r)
   | P_UserApplyMicRS r \<Rightarrow> StruUserApplyMicRS_SerializeWithCachedSizes W (StruUserApplyMicRS_of r)
   | P_UserOffMicRS r \<Rightarrow> StruUserOffMicRS_SerializeWithCachedSizes W (StruUserOffMicRS_of r)
   | P_UserExitRoomID r \<Rightarrow> StruUserExitRoomID_SerializeWithCachedSizes W (StruUserExitRoomID_of r)
   | P_DsServerConnectRq r \<Rightarrow> StruDsServerConnectRq_SerializeWithCachedSizes W (StruDsServerConnectRq_of r)
   | P_DsGetCsInfoRq i \<Rightarrow> StruDsRSGetCsInfoRq_SerializeWithCachedSizes W (StruDsRSGetCsInfoRq_of i)
   | P_DsGSGetRoomInfoRq i r \<Rightarrow> StruDsGSGetRoomInfoRq_SerializeWithCachedSizes W (StruDsGSGetRoomInfoRq_of i r))"

section \<open>The getters\<close>

definition StruUserLoginRQ_got :: "'u StruUserLoginRQ_pb \<Rightarrow> StruUserLoginRQ" where
  "StruUserLoginRQ_got m = \<lparr>
     lrq_user_id = value_or 0 (UserLoginRQ_user_id m), lrq_room_id = value_or 0 (UserLoginRQ_room_id m),
     lrq_user_psw = value_or [] (UserLoginRQ_user_psw m),
     lrq_user_account_name = value_or [] (UserLoginRQ_user_account_name m)\<rparr>"

definition StruUserLoginRS_got :: "'u StruUserLoginRS_pb \<Rightarrow> StruUserLoginRS" where
  "StruUserLoginRS_got m = \<lparr>
     lrs_msg_id = value_or 6002 (UserLoginRS_msg_id m), lrs_user_id = value_or 0 (UserLoginRS_user_id m),
     lrs_room_id = value_or 0 (UserLoginRS_room_id m), lrs_result = value_or 0 (UserLoginRS_result m),
     lrs_user_red_d = value_or 0 (UserLoginRS_user_red_d m),
     lrs_user_blue_d = value_or 0 (UserLoginRS_user_blue_d m),
     lrs_user_level = value_or 0 (UserLoginRS_user_level m),
     lrs_buyer_riches = value_or 0 (UserLoginRS_buyer_riches m),
     lrs_buyer_grow_up = value_or 0 (UserLoginRS_buyer_grow_up m),
     lrs_buyer_honour = value_or 0 (UserLoginRS_buyer_honour m),
     lrs_buyer_estimate = value_or 0 (UserLoginRS_buyer_estimate m),
     lrs_seller_income = value_or 0 (UserLoginRS_seller_income m),
     lrs_seller_exp = value_or 0 (UserLoginRS_seller_exp m),
     lrs_seller_pop = value_or 0 (UserLoginRS_seller_pop m),
     lrs_seller_estimate = value_or 0 (UserLoginRS_seller_estimate m)\<rparr>"

definition StruUserMsgRQ_got :: "'u StruUserMsgRQ_pb \<Rightarrow> StruUserMsgRQ" where
  "StruUserMsgRQ_got m = \<lparr>
     mrq_user_id = value_or 0 (UserMsgRQ_user_id m), mrq_room_id = value_or 0 (UserMsgRQ_room_id m),
     mrq_msg_text = value_or [] (UserMsgRQ_msg_text m),
     mrq_is_private = value_or False (UserMsgRQ_is_private m),
     mrq_dst_user_id = value_or 0 (UserMsgRQ_dst_user_id m)\<rparr>"

definition StruUserGiveGiftRQ_got :: "'u StruUserGiveGiftRQ_pb \<Rightarrow> StruUserGiveGiftRQ" where
  "StruUserGiveGiftRQ_got m = \<lparr>
     grq_user_id = value_or 0 (UserGiveGiftRQ_user_id m), grq_room_id = value_or 0 (UserGiveGiftRQ_room_id m),
     grq_gift_code = value_or [] (UserGiveGiftRQ_gift_code m),
     grq_dst_user_id = value_or 0 (UserGiveGiftRQ_dst_user_id m),
     grq_count_gift = value_or 0 (UserGiveGiftRQ_count_gift m)\<rparr>"

definition StruUserGiveGiftRS_got :: "'u StruUserGiveGiftRS_pb \<Rightarrow> StruUserGiveGiftRS" where
  "StruUserGiveGiftRS_got m = \<lparr>
     grs_msg_id = value_or 6013 (UserGiveGiftRS_msg_id m), grs_user_id = value_or 0 (UserGiveGiftRS_user_id m),
     grs_room_id = value_or 0 (UserGiveGiftRS_room_id m), grs_result = value_or 0 (UserGiveGiftRS_result m),
     grs_gift_code = value_or [] (UserGiveGiftRS_gift_code m),
     grs_dst_user_id = value_or 0 (UserGiveGiftRS_dst_user_id m),
     grs_sender_red_d = value_or 0 (UserGiveGiftRS_sender_red_d m)\<rparr>"

definition StruDsServerConnectRs_got :: "'u StruDsServerConnectRs_pb \<Rightarrow> StruDsServerConnectRs" where
  "StruDsServerConnectRs_got m = \<lparr>
     dcs_result = value_or 0 (DsServerConnectRs_result m)\<rparr>"

definition StruDsGSGetRoomInfoRs_got :: "'u StruDsGSGetRoomInfoRs_pb \<Rightarrow> StruDsGSGetRoomInfoRs" where
  "StruDsGSGetRoomInfoRs_got m = \<lparr>
     dri_room_id = value_or 0 (DsGSGetRoomInfoRs_room_id m),
     dri_rs_server_id = value_or 0 (DsGSGetRoomInfoRs_rs_server_id m),
     dri_server_ip = value_or [] (DsGSGetRoomInfoRs_server_ip m),
     dri_server_port = value_or 0 (DsGSGetRoomInfoRs_server_port m)\<rparr>"

definition SStruDsRSGetCsInfoRs_got :: "'u SStruDsRSGetCsInfoRs_pb \<Rightarrow> StruDsGetCsInfoRs" where
  "SStruDsRSGetCsInfoRs_got m = \<lparr>
     dci_server_ip = value_or [] (DsRSGetCsInfoRs_server_ip m),
     dci_server_port = value_or 0 (DsRSGetCsInfoRs_server_port m)\<rparr>"

definition StruUserApplyMicRQ_got :: "'u StruUserApplyMicRQ_pb \<Rightarrow> StruRoomUser" where
  "StruUserApplyMicRQ_got m = \<lparr>
     ru_msg_id = value_or 6014 (UserApplyMicRQ_msg_id m), ru_user_id = value_or 0 (UserApplyMicRQ_user_id m),
     ru_room_id = value_or 0 (UserApplyMicRQ_room_id m)\<rparr>"

definition StruUserOffMicRQ_got :: "'u StruUserOffMicRQ_pb \<Rightarrow> StruRoomUser" where
  "StruUserOffMicRQ_got m = \<lparr>
     ru_msg_id = value_or 6017 (UserOffMicRQ_msg_id m), ru_user_id = value_or 0 (UserOffMicRQ_user_id m),
     ru_room_id = value_or 0 (UserOffMicRQ_room_id m)\<rparr>"

definition StruPutUserOnMicRQ_got :: "'u StruPutUserOnMicRQ_pb \<Rightarrow> StruRoomUser" where
  "StruPutUserOnMicRQ_got m = \<lparr>
     ru_msg_id = value_or 6020 (PutUserOnMicRQ_msg_id m), ru_user_id = value_or 0 (PutUserOnMicRQ_user_id m),
     ru_room_id = value_or 0 (PutUserOnMicRQ_room_id m)\<rparr>"

definition StruCancleUserMicRQ_got :: "'u StruCancleUserMicRQ_pb \<Rightarrow> StruRoomUser" where
  "StruCancleUserMicRQ_got m = \<lparr>
     ru_msg_id = value_or 6022 (CancleUserMicRQ_msg_id m), ru_user_id = value_or 0 (CancleUserMicRQ_user_id m),
     ru_room_id = value_or 0 (CancleUserMicRQ_room_id m)\<rparr>"

definition StruUserExitRoomID_got :: "'u StruUserExitRoomID_pb \<Rightarrow> StruRoomUser" where
  "StruUserExitRoomID_got m = \<lparr>
     ru_msg_id = value_or 6024 (UserExitRoomID_msg_id m), ru_user_id = value_or 0 (UserExitRoomID_user_id m),
     ru_room_id = value_or 0 (UserExitRoomID_room_id m)\<rparr>"

definition parsed :: "(bool \<times> 'm) res \<Rightarrow> 'm option" where
  "parsed r = (case r of Inr (ok, m) \<Rightarrow> if ok then Some m else None | Inl e \<Rightarrow> None)"

definition classes :: "('i, 'u) wire \<Rightarrow> protobuf" where
  "classes W = \<lparr>
     pb_ser = (\<lambda>m. Some (serialized W m)),
     pb_UserLoginRQ = (\<lambda>bs. map_option StruUserLoginRQ_got (parsed (parse_message W (StruUserLoginRQ_MergePartialFromCodedStream W)
        StruUserLoginRQ_IsInitialized StruUserLoginRQ_SharedCtor bs))),
     pb_UserLoginRS = (\<lambda>bs. map_option StruUserLoginRS_got (parsed (parse_message W (StruUserLoginRS_MergePartialFromCodedStream W)
        StruUserLoginRS_IsInitialized StruUserLoginRS_SharedCtor bs))),
     pb_UserMsgRQ = (\<lambda>bs. map_option StruUserMsgRQ_got (parsed (parse_message W (StruUserMsgRQ_MergePartialFromCodedStream W)
        StruUserMsgRQ_IsInitialized StruUserMsgRQ_SharedCtor bs))),
     pb_UserGiveGiftRQ = (\<lambda>bs. map_option StruUserGiveGiftRQ_got (parsed (parse_message W (StruUserGiveGiftRQ_MergePartialFromCodedStream W)
        StruUserGiveGiftRQ_IsInitialized StruUserGiveGiftRQ_SharedCtor bs))),
     pb_UserGiveGiftRS = (\<lambda>bs. map_option StruUserGiveGiftRS_got (parsed (parse_message W (StruUserGiveGiftRS_MergePartialFromCodedStream W)
        StruUserGiveGiftRS_IsInitialized StruUserGiveGiftRS_SharedCtor bs))),
     pb_RoomUser = (\<lambda>i bs.
        if i = 6014 then map_option StruUserApplyMicRQ_got (parsed (parse_message W (StruUserApplyMicRQ_MergePartialFromCodedStream W)
        StruUserApplyMicRQ_IsInitialized StruUserApplyMicRQ_SharedCtor bs))
        else if i = 6017 then map_option StruUserOffMicRQ_got (parsed (parse_message W (StruUserOffMicRQ_MergePartialFromCodedStream W)
        StruUserOffMicRQ_IsInitialized StruUserOffMicRQ_SharedCtor bs))
        else if i = 6020 then map_option StruPutUserOnMicRQ_got (parsed (parse_message W (StruPutUserOnMicRQ_MergePartialFromCodedStream W)
        StruPutUserOnMicRQ_IsInitialized StruPutUserOnMicRQ_SharedCtor bs))
        else if i = 6022 then map_option StruCancleUserMicRQ_got (parsed (parse_message W (StruCancleUserMicRQ_MergePartialFromCodedStream W)
        StruCancleUserMicRQ_IsInitialized StruCancleUserMicRQ_SharedCtor bs))
        else map_option StruUserExitRoomID_got (parsed (parse_message W (StruUserExitRoomID_MergePartialFromCodedStream W)
        StruUserExitRoomID_IsInitialized StruUserExitRoomID_SharedCtor bs))),
     pb_DsServerConnectRs = (\<lambda>bs. map_option StruDsServerConnectRs_got (parsed (parse_message W (StruDsServerConnectRs_MergePartialFromCodedStream W)
        StruDsServerConnectRs_IsInitialized StruDsServerConnectRs_SharedCtor bs))),
     pb_DsGSGetRoomInfoRs = (\<lambda>bs. map_option StruDsGSGetRoomInfoRs_got (parsed (parse_message W (StruDsGSGetRoomInfoRs_MergePartialFromCodedStream W)
        StruDsGSGetRoomInfoRs_IsInitialized StruDsGSGetRoomInfoRs_SharedCtor bs))),
     pb_DsGetCsInfoRs = (\<lambda>bs. map_option SStruDsRSGetCsInfoRs_got (parsed (parse_message W (SStruDsRSGetCsInfoRs_MergePartialFromCodedStream W)
        SStruDsRSGetCsInfoRs_IsInitialized SStruDsRSGetCsInfoRs_SharedCtor bs)))\<rparr>"

section \<open>What the servers read is what was sent\<close>

text \<open>Values in the range of their types.\<close>

definition login_rs_fits :: "StruUserLoginRS \<Rightarrow> bool" where
  "login_rs_fits r \<longleftrightarrow> lrs_msg_id r = 6002 \<and> list_all in_i32 [lrs_user_id r, lrs_room_id r, lrs_result r,
     lrs_user_red_d r, lrs_user_blue_d r, lrs_user_level r, lrs_buyer_riches r, lrs_buyer_grow_up r,
     lrs_buyer_honour r, lrs_buyer_estimate r, lrs_seller_income r, lrs_seller_exp r, lrs_seller_pop r,
     lrs_seller_estimate r]"

definition gift_rs_fits :: "StruUserGiveGiftRS \<Rightarrow> bool" where
  "gift_rs_fits r \<longleftrightarrow> grs_msg_id r = 6013 \<and> list_all in_i32 [grs_user_id r, grs_room_id r, grs_result r,
     grs_dst_user_id r, grs_sender_red_d r] \<and> length (grs_gift_code r) < 2147483648"

lemma round_tripsD:
  "round_trips W merge initialized new serialize bsize fits \<Longrightarrow> fits m \<Longrightarrow> initialized m \<Longrightarrow>
   parse_message W merge initialized new (serialize m) = Inr (True, m)"
  by (simp add: round_trips_def)

lemma login_rs_read:
  assumes "wire_ok W At" "sizes_ok W" "login_rs_fits r"
  shows "pb_UserLoginRS (classes W) (serialized W (P_UserLoginRS r)) = Some r"
proof -
  have "StruUserLoginRS_fits (StruUserLoginRS_of r)" "StruUserLoginRS_IsInitialized (StruUserLoginRS_of r)"
    using assms(3) by (simp_all add: login_rs_fits_def StruUserLoginRS_fits_def StruUserLoginRS_of_def
        StruUserLoginRS_required has_def enum_ok_def int_ok_def EnumMsgID_IsValid_def in_i32_def)
  from round_tripsD [OF UserLoginRS.class_round_trips [OF assms(1,2)] this] show ?thesis
    by (simp add: classes_def serialized_def parsed_def StruUserLoginRS_got_def StruUserLoginRS_of_def)
qed

lemma gift_rs_read:
  assumes "wire_ok W At" "sizes_ok W" "gift_rs_fits r"
  shows "pb_UserGiveGiftRS (classes W) (serialized W (P_UserGiveGiftRS r)) = Some r"
proof -
  have "StruUserGiveGiftRS_fits (StruUserGiveGiftRS_of r)" "StruUserGiveGiftRS_IsInitialized (StruUserGiveGiftRS_of r)"
    using assms(3) by (simp_all add: gift_rs_fits_def StruUserGiveGiftRS_fits_def StruUserGiveGiftRS_of_def
        StruUserGiveGiftRS_required has_def enum_ok_def int_ok_def str_ok_def EnumMsgID_IsValid_def in_i32_def)
  from round_tripsD [OF UserGiveGiftRS.class_round_trips [OF assms(1,2)] this] show ?thesis
    by (simp add: classes_def serialized_def parsed_def StruUserGiveGiftRS_got_def StruUserGiveGiftRS_of_def)
qed

text \<open>A client's request, as its object, which the client serialised with the same class.\<close>

lemma gift_rq_read:
  assumes "wire_ok W At" "sizes_ok W" "StruUserGiveGiftRQ_fits m" "StruUserGiveGiftRQ_IsInitialized m"
  shows "pb_UserGiveGiftRQ (classes W) (StruUserGiveGiftRQ_SerializeWithCachedSizes W m) = Some (StruUserGiveGiftRQ_got m)"
  using round_tripsD [OF UserGiveGiftRQ.class_round_trips [OF assms(1,2)] assms(3,4)]
  by (simp add: classes_def parsed_def)

lemma login_rq_read:
  assumes "wire_ok W At" "sizes_ok W" "StruUserLoginRQ_fits m" "StruUserLoginRQ_IsInitialized m"
  shows "pb_UserLoginRQ (classes W) (StruUserLoginRQ_SerializeWithCachedSizes W m) = Some (StruUserLoginRQ_got m)"
  using round_tripsD [OF UserLoginRQ.class_round_trips [OF assms(1,2)] assms(3,4)]
  by (simp add: classes_def parsed_def)

text \<open>
  The messages of a login fit the buffers of 8192 bytes, the user list of 15 users too: a user takes at
  most 175 bytes.
\<close>

lemma user_info_length:
  assumes "wire_bounded W" "info_ok i"
  shows "length (StruUserInfo_SerializeWithCachedSizes W (StruUserInfo_of i)) \<le> 195"
    and "0 \<le> StruUserInfo_ByteSize W (StruUserInfo_of i) \<and> StruUserInfo_ByteSize W (StruUserInfo_of i) < 2147483648"
proof -
  note i = assms(2) [unfolded info_ok_def]
  have "length (StruUserInfo_SerializeWithCachedSizes W (StruUserInfo_of i))
      \<le> sum_list [11, 11, 37, 37, 11, 11, 11, 11, 11, 11, 11, 11, 11, 0]"
    unfolding StruUserInfo_SerializeWithCachedSizes_def
    by (rule write_fields_bound) (use i in \<open>simp add: StruUserInfo_of_def bounded_fields [OF assms(1)]\<close>)
  then show "length (StruUserInfo_SerializeWithCachedSizes W (StruUserInfo_of i)) \<le> 195" by simp
  show "0 \<le> StruUserInfo_ByteSize W (StruUserInfo_of i) \<and> StruUserInfo_ByteSize W (StruUserInfo_of i) < 2147483648"
    unfolding StruUserInfo_ByteSize_def
    by (rule size_groups_bound [where ks = "[11, 11, 37, 37, 11, 11, 11, 11]" and ls = "[11, 11, 11, 11, 11]"])
      (use i in \<open>simp_all add: StruUserInfo_of_def bounded_sizes [OF assms(1)]\<close>)
qed

lemma login_fits_buffers:
  assumes "wire_bounded W" "in_i32 (lrs_msg_id rs)"
  shows "login_sendable (classes W) rs"
proof -
  have "length (StruUserLoginRS_SerializeWithCachedSizes W (StruUserLoginRS_of rs))
      \<le> sum_list [11, 11, 11, 11, 11, 11, 11, 11, 11, 11, 11, 11, 11, 11, 11, 0]"
    unfolding StruUserLoginRS_SerializeWithCachedSizes_def
    by (rule write_fields_bound) (simp add: StruUserLoginRS_of_def bounded_fields [OF assms(1)])
  then have 1: "sendable (pb_ser (classes W)) (P_UserLoginRS rs)" by (simp add: sendable_def classes_def serialized_def)
  have 2: "sendable (pb_ser (classes W)) (P_UserInfo i)" if "info_ok i" for i
    using user_info_length(1) [OF assms(1) that] by (simp add: sendable_def classes_def serialized_def)
  have 3: "sendable (pb_ser (classes W)) (user_list_msg rs us)" if us: "length us \<le> 15" "\<forall>i \<in> set us. info_ok i" for us
  proof -
    let ?f = "\<lambda>s. w_WriteMessage W 4 (StruUserInfo_ByteSize W s) (StruUserInfo_SerializeWithCachedSizes W s)"
    have len: "length (?f (StruUserInfo_of i)) \<le> 201" if i: "i \<in> set us" for i
    proof -
      have ok: "info_ok i" using us(2) i by blast
      have "length (?f (StruUserInfo_of i)) \<le> 6 + length (StruUserInfo_SerializeWithCachedSizes W (StruUserInfo_of i))"
        by (rule bounded_fields(4) [OF assms(1) _ user_info_length(2) [OF assms(1) ok]]) simp
      then show ?thesis using user_info_length(1) [OF assms(1) ok] by simp
    qed
    have "length (concat (map ?f (map StruUserInfo_of us))) \<le> 201 * length us"
      using length_concat_bound [of "map StruUserInfo_of us" ?f 201] len by simp
    then have c: "length (concat (map ?f (map StruUserInfo_of us))) \<le> 3015" using us(1) by simp
    let ?m = "StruUserInfoListID_of \<lparr>uil_msg_id = E_USER_INFO_LIST_ID, uil_user_id = lrs_user_id rs,
        uil_room_id = lrs_room_id rs, uil_user_info_list = us\<rparr>"
    have "length (StruUserInfoListID_SerializeWithCachedSizes W ?m) \<le> sum_list [11, 11, 11, 3015, 0]"
      unfolding StruUserInfoListID_SerializeWithCachedSizes_def
      by (rule write_fields_bound) (use c in \<open>simp add: StruUserInfoListID_of_def bounded_fields [OF assms(1)]\<close>)
    then show ?thesis by (simp add: sendable_def classes_def serialized_def user_list_msg_def)
  qed
  show ?thesis unfolding login_sendable_def using assms(2) 1 2 3 by blast
qed

text \<open>The numbers of a row of the database fit an \<open>int\<close>.\<close>

definition login_row_fits :: "login_row \<Rightarrow> bool" where
  "login_row_fits r \<longleftrightarrow> list_all in_i32 [lr_user_red_d r, lr_user_blue_d r, lr_user_level r, lr_buyer_riches r,
     lr_buyer_grow_up r, lr_buyer_honour r, lr_buyer_estimate r, lr_seller_income r, lr_seller_exp r,
     lr_seller_pop r, lr_seller_estimate r]"

text \<open>
  C10: A login from the bytes of the client's request to the user in the room, over the generated
  classes. The center server parses the request, finds the password right and sends its answer to the
  room server that asked; the room server that handles the bytes of this answer finds the pending
  user, whose gate is connected. Afterwards the user is in the room, under an object of the room's
  pool that has the data of the pending object and the values of the database; the pending object is
  back in the other pool; the gate gets the answer and then the room's user list, the user included,
  in batches of at most 15, and nothing else; no lock is held. All these messages fit the buffers of
  8192 bytes.
\<close>

theorem login_across_servers:
  assumes "wire_ok W At" "sizes_ok W" "wire_bounded W" "StruUserLoginRQ_fits m" "StruUserLoginRQ_IsInitialized m"
  defines "rq \<equiv> StruUserLoginRQ_got m" and "bs \<equiv> StruUserLoginRQ_SerializeWithCachedSizes W m"
  assumes "pr_parent_ptr (ct_rs_processor (cns_clients C i)) = Some g"
    and "my_list (cns_miku_db C) = k # ks" "\<not> db_closed D k" "db_user_login D (lrq_user_id rq) = Row r"
    and "map tolower (lr_user_psw r) = map tolower (lrq_user_psw rq)" "login_row_fits r"
  defines "rs \<equiv> login_answer rq 1 r" and "answer \<equiv> serialized W (P_UserLoginRS (login_answer rq 1 r))"
  assumes "lrs_room_id rs \<noteq> 0" "rsv_lookup_room S (lrs_room_id rs) = Some a" "room_ready a S"
    and "ul_lookup (room_pre a S) (lrs_user_id rs) = Some u" "named (rsv_user u S)"
    and "map_of (ul_users (room_users a S)) (lrs_user_id rs) = None"
    and "ul_unused (room_users a S) = Some c # us" "u \<noteq> c" "silent_gates S" "keys_ok S"
    and "rcl_lookup (rsv_client_list S) (gs_hashkey_user_on (rsv_user u S)) = Some q"
  defines "gate \<equiv> (\<lambda>m i. (user_sock (rsv_clients S q), gate_packet (classes W) m i (user_hash_key (rsv_user u S))))"
  shows "\<exists>C' S' batches.
      CS_ClientLoginRQ_Execute (classes W) D wr (Some s) (Some i) (bs @ rest) (int (length bs)) C = Inr C'
    \<and> cns_out C' = cns_out C @ [(user_sock (cns_clients C g), cyt_bytes (user_cyt E_USER_LOGIN_RS answer))]
    \<and> ClientLoginRS_Execute (classes W) wr' (Some s') (Some cl) (answer @ rest') (int (length answer)) S = Inr S'
    \<and> \<not> ul_locked (room_users a S') \<and> ul_unused (room_users a S') = us
    \<and> ul_lookup (room_users a S') = (ul_lookup (room_users a S))(lrs_user_id rs := Some c)
    \<and> rsv_user c S' = login_values rs (rsv_user u S)
    \<and> ul_lookup (room_pre a S') (lrs_user_id rs) = None
    \<and> ul_unused (room_pre a S') = ul_unused (room_pre a S) @ [Some u]
    \<and> rsv_out S' = rsv_out S @ gate (P_UserLoginRS rs) (lrs_msg_id rs)
        # map (\<lambda>b. gate (user_list_msg rs b) E_USER_INFO_LIST_ID) batches
    \<and> (\<forall>b \<in> set batches. b \<noteq> [] \<and> length b \<le> 15)
    \<and> map Inr (concat batches)
        = map (\<lambda>v. user_info (rsv_user v S')) (live_users (ul_users (room_users a S')))"
proof -
  have fits: "login_rs_fits rs" using assms(4,5,13)
    by (auto simp: login_rs_fits_def rs_def login_answer_def login_row_fits_def rq_def StruUserLoginRQ_got_def
        StruUserLoginRQ_fits_def StruUserLoginRQ_required has_def int_ok_def) (simp add: in_i32_def)
  have read: "pb_UserLoginRS (classes W) answer = Some rs"
    using login_rs_read [OF assms(1,2) fits] by (simp add: answer_def rs_def)
  have snd: "login_sendable (classes W) rs" using login_fits_buffers [OF assms(3)] fits
    by (simp add: login_rs_fits_def in_i32_def)
  then have len: "length answer + 18 \<le> 8192"
    by (simp add: login_sendable_def sendable_def classes_def answer_def rs_def)
  have ser: "pb_ser (classes W) (P_UserLoginRS rs) = Some answer" by (simp add: classes_def answer_def rs_def)
  have rs: "rs = login_answer rq (if map tolower (lr_user_psw r) = map tolower (lrq_user_psw rq) then 1 else 0) r"
    by (simp only: rs_def assms(12) refl if_True)
  have rq: "pb_UserLoginRQ (classes W) bs = Some rq" unfolding rq_def bs_def by (rule login_rq_read [OF assms(1,2,4,5)])
  note center = login_answer_run [where wr = wr and s = s and rest = rest, OF assms(8) rq assms(9-11) rs ser len]
  have "lrs_result rs = 1" by (simp add: rs_def login_answer_def)
  note room = login_confirmed [where wr = wr' and s = s' and cl = cl and rest = rest', OF read this assms(16) snd assms(17-26),
      folded gate_def]
  show ?thesis unfolding center using room by (simp add: gate_def)
qed

definition ex_login_object :: "(nat \<times> byte list) StruUserLoginRQ_pb" where
  "ex_login_object = \<lparr>UserLoginRQ_msg_id = Some 6001, UserLoginRQ_user_id = Some 1, UserLoginRQ_room_id = Some 9,
     UserLoginRQ_user_psw = Some [97, 66], UserLoginRQ_user_account_name = Some [75], UserLoginRQ_unknown = []\<rparr>"

definition ex_answer_rs :: StruUserLoginRS where
  "ex_answer_rs = login_answer \<lparr>lrq_user_id = 1, lrq_room_id = 9, lrq_user_psw = [97, 66], lrq_user_account_name = [75]\<rparr>
     1 ex_row"

theorem login_across_servers_witness:
  "\<exists>C' S' batches.
      CS_ClientLoginRQ_Execute (classes ex_wire) ex_db (\<lambda>_ _. 1) (Some 1) (Some 0)
        (StruUserLoginRQ_SerializeWithCachedSizes ex_wire ex_login_object @ [])
        (int (length (StruUserLoginRQ_SerializeWithCachedSizes ex_wire ex_login_object))) ex_cns = Inr C'
    \<and> cns_out C' = [(9, cyt_bytes (user_cyt E_USER_LOGIN_RS (serialized ex_wire (P_UserLoginRS ex_answer_rs))))]
    \<and> ClientLoginRS_Execute (classes ex_wire) (\<lambda>_ _. 1) (Some 1) (Some Center_processor)
        (serialized ex_wire (P_UserLoginRS ex_answer_rs) @ [])
        (int (length (serialized ex_wire (P_UserLoginRS ex_answer_rs)))) ex_pending = Inr S'
    \<and> ul_lookup (room_users 0 S') = (ul_lookup (room_users 0 ex_pending))(1 := Some 4)
    \<and> rsv_user 4 S' = login_values ex_answer_rs (UserInfo_new 0)
    \<and> map Inr (concat batches) = map (\<lambda>v. user_info (rsv_user v S')) (live_users (ul_users (room_users 0 S')))"
proof -
  have m: "StruUserLoginRQ_fits ex_login_object" "StruUserLoginRQ_IsInitialized ex_login_object"
    "StruUserLoginRQ_got ex_login_object = \<lparr>lrq_user_id = 1, lrq_room_id = 9, lrq_user_psw = [97, 66],
       lrq_user_account_name = [75]\<rparr>"
    by (simp_all add: StruUserLoginRQ_fits_def StruUserLoginRQ_required StruUserLoginRQ_got_def ex_login_object_def
        enum_ok_def int_ok_def str_ok_def in_i32_def has_def EnumMsgID_IsValid_def)
  have r: "lrs_room_id ex_answer_rs = 9" "lrs_user_id ex_answer_rs = 1" "login_row_fits ex_row"
    "map tolower (lr_user_psw ex_row) = map tolower [97, 66]" "db_user_login ex_db 1 = Row ex_row"
    by (simp_all add: ex_answer_rs_def login_answer_def login_row_fits_def ex_row_def in_i32_def tolower_def ex_db_def)
  have ready: "room_ready 0 ex_pending" by (simp add: room_ready_def ul_wf_def ul_new_def map_ordered_def)
  note run = login_across_servers [where W = ex_wire and At = ex_At and m = ex_login_object and C = ex_cns and i = 0
      and g = 0 and rest = "[]" and D = ex_db and k = 0 and ks = "[]" and r = ex_row and S = ex_pending and a = 0
      and u = 7 and c = 4 and us = "[Some 6]" and q = 2 and s = 1 and s' = 1 and wr = "\<lambda>_ _. 1" and wr' = "\<lambda>_ _. 1"
      and cl = Center_processor and rest' = "[]", OF ex_wire_ok ex_sizes_ok ex_wire_bounded m(1,2),
      unfolded m(3), folded ex_answer_rs_def]
  have "pr_parent_ptr (ct_rs_processor (cns_clients ex_cns 0)) = Some 0" "my_list (cns_miku_db ex_cns) = [0]"
    "\<not> db_closed ex_db 0" "cns_out ex_cns = []" "user_sock (cns_clients ex_cns 0) = 9"
    by (simp_all add: ex_cns_def ex_db_def)
  then show ?thesis using run r ready by (simp add: ul_lookup_def ul_new_def) blast
qed

text \<open>
  C22: A gift leaves the sender with a wrong balance in the room, from the bytes of the client's
  request to the state of the room server, over the generated classes. The request is an object of
  \<open>StruUserGiveGiftRQ\<close> the client serialised; the center server parses it, the database answers with
  the new balance and a result code, and the center server exchanges the two in the answer it
  serialises; the room server that handles these bytes takes the code for the balance: when the
  balance is not 0, the sender has the code as money from then on, and nothing is written to any gate.
\<close>

theorem gift_across_servers:
  assumes "wire_ok W At" "sizes_ok W" "StruUserGiveGiftRQ_fits m" "StruUserGiveGiftRQ_IsInitialized m"
  defines "rq \<equiv> StruUserGiveGiftRQ_got m" and "bs \<equiv> StruUserGiveGiftRQ_SerializeWithCachedSizes W m"
  assumes "pr_parent_ptr (ct_rs_processor (cns_clients S i)) = Some g"
    and "my_list (cns_miku_db S) = c # cs" "\<not> db_closed D c"
    and "db_give_gift D (grq_user_id rq) (grq_dst_user_id rq) (grq_count_gift rq) (grq_gift_code rq)
      = Row (balance, code)" "in_i32 balance" "in_i32 code" "balance \<noteq> 0"
    and "rs = \<lparr>grs_msg_id = E_USER_GIVE_GIFT_RS, grs_user_id = grq_user_id rq, grs_room_id = grq_room_id rq,
      grs_result = balance, grs_gift_code = grq_gift_code rq, grs_dst_user_id = grq_dst_user_id rq,
      grs_sender_red_d = code\<rparr>"
    and "length (serialized W (P_UserGiveGiftRS rs)) + 36 \<le> 8192"
    and "rsv_lookup_room T (grq_room_id rq) = Some a" "grq_room_id rq \<noteq> 0" "ul_wf (room_users a T)"
    and "ul_lookup (room_users a T) (grq_user_id rq) = Some u" "ul_lookup (room_users a T) (grq_dst_user_id rq) = Some d"
    and "silent_gates T" "keys_ok T"
  shows "\<exists>S' T'. CS_UserGiveGiftRQ_Execute (classes W) D wr (Some s) (Some i) (bs @ rest) (int (length bs)) S = Inr S'
    \<and> cns_out S' = cns_out S @ [(user_sock (cns_clients S g),
        cyt_bytes (user_cyt E_USER_GIVE_GIFT_RS (serialized W (P_UserGiveGiftRS rs))))]
    \<and> UserGiveGiftRS_Execute (classes W) wr' (Some s') (Some cl) (serialized W (P_UserGiveGiftRS rs) @ rest')
        (int (length (serialized W (P_UserGiveGiftRS rs)))) T = Inr T'
    \<and> user_red_d (rsv_user u T') = code \<and> rsv_out T' = rsv_out T"
proof (rule gift_sets_balance [OF assms(7) _ assms(8-10,13,14) _ assms(15) _ assms(16-22)])
  show "pb_UserGiveGiftRQ (classes W) bs = Some rq" unfolding rq_def bs_def by (rule gift_rq_read [OF assms(1-4)])
  show "pb_ser (classes W) (P_UserGiveGiftRS rs) = Some (serialized W (P_UserGiveGiftRS rs))" by (simp add: classes_def)
  have "gift_rs_fits rs" using assms(3,4,11,12,14)
    by (auto simp: gift_rs_fits_def rq_def StruUserGiveGiftRQ_got_def StruUserGiveGiftRQ_fits_def
        StruUserGiveGiftRQ_required has_def int_ok_def str_ok_def)
  then show "pb_UserGiveGiftRS (classes W) (serialized W (P_UserGiveGiftRS rs)) = Some rs"
    by (rule gift_rs_read [OF assms(1,2)])
qed

definition ex_gift :: "(nat \<times> byte list) StruUserGiveGiftRQ_pb" where
  "ex_gift = \<lparr>UserGiveGiftRQ_msg_id = Some 6012, UserGiveGiftRQ_user_id = Some 4, UserGiveGiftRQ_room_id = Some 9,
     UserGiveGiftRQ_gift_code = Some [1], UserGiveGiftRQ_dst_user_id = Some 5, UserGiveGiftRQ_count_gift = Some 1,
     UserGiveGiftRQ_unknown = []\<rparr>"

definition ex_gift_rs :: StruUserGiveGiftRS where
  "ex_gift_rs = \<lparr>grs_msg_id = E_USER_GIVE_GIFT_RS, grs_user_id = 4, grs_room_id = 9, grs_result = 50,
     grs_gift_code = [1], grs_dst_user_id = 5, grs_sender_red_d = 1\<rparr>"

lemma ex_gift_bytes: "serialized ex_wire (P_UserGiveGiftRS ex_gift_rs) = [8, 253, 46, 16, 4, 24, 9, 32, 50, 42, 1, 1, 48, 5, 56, 1]"
  by (simp add: serialized_def StruUserGiveGiftRS_SerializeWithCachedSizes_def StruUserGiveGiftRS_of_def ex_gift_rs_def
      write_fields_def has_def ex_wire_def delimited_def int_varint_def varint_tag varint.simps [of 6013])

text \<open>The balance is 50 and the code 1.\<close>

theorem gift_across_servers_witness:
  "\<exists>S' T'. CS_UserGiveGiftRQ_Execute (classes ex_wire) ex_db (\<lambda>_ _. 1) (Some 1) (Some 0)
        (StruUserGiveGiftRQ_SerializeWithCachedSizes ex_wire ex_gift @ [])
        (int (length (StruUserGiveGiftRQ_SerializeWithCachedSizes ex_wire ex_gift))) ex_cns = Inr S'
    \<and> cns_out S' = [(9, cyt_bytes (user_cyt E_USER_GIVE_GIFT_RS [8, 253, 46, 16, 4, 24, 9, 32, 50, 42, 1, 1, 48, 5, 56, 1]))]
    \<and> UserGiveGiftRS_Execute (classes ex_wire) (\<lambda>_ _. 1) (Some 1) (Some Center_processor)
        ([8, 253, 46, 16, 4, 24, 9, 32, 50, 42, 1, 1, 48, 5, 56, 1] @ []) 16 (ex_server [(4, Some 2), (5, Some 3)] []) = Inr T'
    \<and> user_red_d (rsv_user 2 T') = 1 \<and> rsv_out T' = []"
proof -
  let ?T = "ex_server [(4, Some 2), (5, Some 3)] []"
  have T: "ul_wf (room_users 0 ?T)" "rsv_out ?T = []"
    by (simp_all add: ul_wf_def ul_new_def map_ordered_def ex_server_def rsv_room_def)
  have m: "StruUserGiveGiftRQ_fits ex_gift" "StruUserGiveGiftRQ_IsInitialized ex_gift"
    "StruUserGiveGiftRQ_got ex_gift = \<lparr>grq_user_id = 4, grq_room_id = 9, grq_gift_code = [1], grq_dst_user_id = 5,
       grq_count_gift = 1\<rparr>"
    by (simp_all add: StruUserGiveGiftRQ_fits_def StruUserGiveGiftRQ_required StruUserGiveGiftRQ_got_def ex_gift_def
        enum_ok_def int_ok_def str_ok_def in_i32_def has_def EnumMsgID_IsValid_def)
  show ?thesis
    using gift_across_servers [where W = ex_wire and At = ex_At and m = ex_gift and S = ex_cns and i = 0 and g = 0
        and rest = "[]" and D = ex_db and c = 0 and cs = "[]" and balance = 50 and code = 1 and rs = ex_gift_rs
        and T = ?T and a = 0 and u = 2 and d = 3 and s = 1 and s' = 1 and wr = "\<lambda>_ _. 1" and wr' = "\<lambda>_ _. 1"
        and cl = Center_processor and rest' = "[]", OF ex_wire_ok ex_sizes_ok m(1,2)] T
    by (simp add: m(3) ex_gift_bytes) (simp add: ex_gift_rs_def ex_db_def ex_cns_def ul_lookup_def ul_new_def in_i32_def)
qed

end
